(* ===== verification/JsPrelude.thy ===== *)
theory JsPrelude imports Complex_Main "HOL-Library.Word" "HOL-Library.AList" "HOL-Library.Multiset" begin

text \<open>
  The part of JavaScript the front end rests on, shared by every component:
  \<^item> strings as sequences of UTF-16 code units, with trim, split, join, slice and friends;
  \<^item> numbers (finite, infinite, not-a-number);
  \<^item> \<open>Map\<close>, \<open>Set\<close> and plain \<open>Record\<close> objects, which keep insertion order, as association
    lists and distinct lists (\<open>AList.update\<close> and \<open>AList.delete\<close> are \<open>Map.set\<close> and \<open>Map.delete\<close>);
  \<^item> \<open>Array.prototype.sort\<close> for a consistent comparator, which is stable.
\<close>

named_theorems js_simps "facts about the JavaScript primitives"

section \<open>Strings\<close>

text \<open>A JavaScript string is a sequence of 16-bit code units; \<open>js\<close> reads an ASCII literal.\<close>

type_synonym jsstring = "16 word list"

definition js :: "string \<Rightarrow> jsstring" where
  "js s = map of_char s"

lemma unat_of_char_16: "unat (of_char c :: 16 word) = (of_char c :: nat)"
  by (cases c) (simp add: unat_of_nat of_char_def horner_sum_simps)

lemma of_char_16_eq_iff [simp]: "(of_char c :: 16 word) = of_char d \<longleftrightarrow> c = d"
  by (metis of_char_eq_iff unat_of_char_16)

lemma js_eq_iff [simp]: "js s = js t \<longleftrightarrow> s = t"
  unfolding js_def by (rule inj_map_eq_map) (auto intro: injI)

lemma js_Nil [simp]: "js [] = []"
  by (simp add: js_def)

lemma js_eq_Nil [simp]: "js s = [] \<longleftrightarrow> s = []" "[] = js s \<longleftrightarrow> s = []"
  by (auto simp: js_def)

lemma js_append [js_simps]: "js s @ js t = js (s @ t)"
  by (simp add: js_def)

lemma length_js [simp]: "length (js s) = length s"
  by (simp add: js_def)

text \<open>ECMAScript WhiteSpace and LineTerminator, the code units \<open>trim\<close> strips.\<close>

definition js_white :: "16 word \<Rightarrow> bool" where
  "js_white c \<longleftrightarrow> c \<in> set [9, 10, 11, 12, 13, 32, 160, 0x1680, 0x2000, 0x2001, 0x2002, 0x2003,
     0x2004, 0x2005, 0x2006, 0x2007, 0x2008, 0x2009, 0x200A, 0x2028, 0x2029, 0x202F, 0x205F,
     0x3000, 0xFEFF]"

definition trim :: "jsstring \<Rightarrow> jsstring" where
  "trim s = rev (dropWhile js_white (rev (dropWhile js_white s)))"

definition trimmed :: "jsstring \<Rightarrow> bool" where
  "trimmed s \<longleftrightarrow> trim s = s"

lemma trim_Nil [simp]: "trim [] = []"
  by (simp add: trim_def)

lemma dropWhile_rev_dropWhile:
  "dropWhile P (rev (dropWhile P (rev (dropWhile P s)))) = rev (dropWhile P (rev (dropWhile P s)))"
proof -
  define t where "t = dropWhile P s"
  define u where "u = rev (dropWhile P (rev t))"
  have "\<exists>v. t = u @ v"
    unfolding u_def by (metis rev_append rev_rev_ident takeWhile_dropWhile_id)
  then obtain v where v: "t = u @ v" by blast
  have "u = [] \<or> \<not> P (hd u)"
  proof (cases u)
    case Nil
    then show ?thesis by simp
  next
    case (Cons a u')
    then have "t \<noteq> []" and "hd t = a" using v by auto
    then have "\<not> P a" unfolding t_def by (metis hd_dropWhile)
    then show ?thesis using Cons by simp
  qed
  then have "dropWhile P u = u" by (cases u) auto
  then show ?thesis unfolding u_def t_def by simp
qed

lemma trim_trim [simp]: "trim (trim s) = trim s"
  unfolding trim_def by (simp add: dropWhile_rev_dropWhile dropWhile_idem)

lemma trimmed_trim [simp]: "trimmed (trim s)"
  by (simp add: trimmed_def)

lemma trimmed_eq: "trimmed s \<Longrightarrow> trim s = s"
  by (simp add: trimmed_def)

text \<open>An ASCII literal that neither starts nor ends with white space is trimmed.\<close>

definition char_white :: "char \<Rightarrow> bool" where
  "char_white c \<longleftrightarrow> c \<in> set [CHR 0x09, CHR 0x0A, CHR 0x0B, CHR 0x0C, CHR 0x0D, CHR 0x20, CHR 0xA0]"

lemma js_white_char: "js_white (of_char c) \<longleftrightarrow> char_white c"
proof -
  have small: "(of_char c :: nat) < 256" by (rule nat_of_char_less_256)
  have iff: "c = d \<longleftrightarrow> (of_char c :: nat) = of_char d" for d by simp
  have eqs: "c = CHR 0x09 \<longleftrightarrow> (of_char c :: nat) = 9" "c = CHR 0x0A \<longleftrightarrow> (of_char c :: nat) = 10"
    "c = CHR 0x0B \<longleftrightarrow> (of_char c :: nat) = 11" "c = CHR 0x0C \<longleftrightarrow> (of_char c :: nat) = 12"
    "c = CHR 0x0D \<longleftrightarrow> (of_char c :: nat) = 13" "c = CHR 0x20 \<longleftrightarrow> (of_char c :: nat) = 32"
    "c = CHR 0xA0 \<longleftrightarrow> (of_char c :: nat) = 160"
    by (subst iff, simp)+
  have big: "(of_char c :: nat) \<noteq> n" if "256 \<le> n" for n
    using small that by linarith
  show ?thesis
    unfolding js_white_def char_white_def list.set insert_iff empty_iff eqs
    by (simp add: word_unat_eq_iff unat_of_char_16 big)
qed

lemma dropWhile_hd: "\<not> P (hd xs) \<Longrightarrow> dropWhile P xs = xs"
  by (cases xs) auto

lemma trim_js [simp]: "s = [] \<or> \<not> char_white (hd s) \<and> \<not> char_white (last s) \<Longrightarrow> trim (js s) = js s"
proof (cases "s = []")
  case False
  assume "s = [] \<or> \<not> char_white (hd s) \<and> \<not> char_white (last s)"
  then have "\<not> js_white (hd (js s))" "\<not> js_white (last (js s))"
    using False by (simp_all add: js_def hd_map last_map js_white_char)
  then show ?thesis using False by (simp add: trim_def dropWhile_hd hd_rev)
qed simp

text \<open>\<open>split\<close> by a non-empty separator, and its limit form; \<open>join\<close> is its inverse.\<close>

fun js_split_go :: "jsstring \<Rightarrow> jsstring \<Rightarrow> jsstring \<Rightarrow> jsstring list" where
  "js_split_go sep [] acc = [rev acc]"
| "js_split_go sep (c # cs) acc =
     (if take (length sep) (c # cs) = sep
      then rev acc # js_split_go sep (drop (length sep - 1) cs) []
      else js_split_go sep cs (c # acc))"

definition js_split :: "jsstring \<Rightarrow> jsstring \<Rightarrow> jsstring list" where
  "js_split sep s = js_split_go sep s []"

fun js_join :: "jsstring \<Rightarrow> jsstring list \<Rightarrow> jsstring" where
  "js_join sep [] = []"
| "js_join sep [x] = x"
| "js_join sep (x # y # ys) = x @ sep @ js_join sep (y # ys)"

lemma js_split_go_nonempty [simp]: "js_split_go sep s acc \<noteq> []"
  by (induction sep s acc rule: js_split_go.induct) auto

lemma js_join_Cons: "ys \<noteq> [] \<Longrightarrow> js_join sep (x # ys) = x @ sep @ js_join sep ys"
  by (cases ys) auto

lemma js_join_split_go: "sep \<noteq> [] \<Longrightarrow> js_join sep (js_split_go sep s acc) = rev acc @ s"
proof (induction sep s acc rule: js_split_go.induct)
  case (1 sep acc)
  then show ?case by simp
next
  case (2 sep c cs acc)
  show ?case
  proof (cases "take (length sep) (c # cs) = sep")
    case True
    then have eq: "c # cs = sep @ drop (length sep - 1) cs"
      using "2.prems" by (metis append_take_drop_id drop_Cons' length_0_conv)
    have "js_join sep (js_split_go sep (c # cs) acc) = rev acc @ sep @ drop (length sep - 1) cs"
      using True 2 by (simp add: js_join_Cons)
    then show ?thesis by (simp only: eq [symmetric])
  next
    case False
    then show ?thesis using 2 by simp
  qed
qed

lemma js_join_split: "sep \<noteq> [] \<Longrightarrow> js_join sep (js_split sep s) = s"
  by (simp add: js_split_def js_join_split_go)

definition starts_with :: "jsstring \<Rightarrow> jsstring \<Rightarrow> bool" where
  "starts_with s p \<longleftrightarrow> take (length p) s = p"

definition ends_with :: "jsstring \<Rightarrow> jsstring \<Rightarrow> bool" where
  "ends_with s p \<longleftrightarrow> length p \<le> length s \<and> drop (length s - length p) s = p"

lemma starts_with_iff: "starts_with s p \<longleftrightarrow> (\<exists>r. s = p @ r)"
  unfolding starts_with_def by (metis append_eq_conv_conj append_take_drop_id)

lemma ends_with_iff: "ends_with s p \<longleftrightarrow> (\<exists>r. s = r @ p)"
  unfolding ends_with_def
  by (metis append_eq_conv_conj append_take_drop_id diff_add_inverse2 le_add2 length_append)

text \<open>
  \<open>toLowerCase\<close> on the code units whose lower case is ASCII (the Latin capitals and the Kelvin
  sign); every other unit maps to no ASCII string, so comparisons with ASCII literals, the only
  use the code makes of the result, are exact.
\<close>

definition lower_unit :: "16 word \<Rightarrow> 16 word" where
  "lower_unit c = (if 65 \<le> c \<and> c \<le> 90 then c + 32 else if c = 0x212A then 107 else c)"

definition to_lower :: "jsstring \<Rightarrow> jsstring" where
  "to_lower s = map lower_unit s"

text \<open>\<open>replace(/[^0-9A-Za-z_-]/g, '_')\<close>.\<close>

definition lane_unit :: "16 word \<Rightarrow> bool" where
  "lane_unit c \<longleftrightarrow> (48 \<le> c \<and> c \<le> 57) \<or> (65 \<le> c \<and> c \<le> 90) \<or> (97 \<le> c \<and> c \<le> 122) \<or> c = 95 \<or> c = 45"

definition lane_slug :: "jsstring \<Rightarrow> jsstring" where
  "lane_slug s = map (\<lambda>c. if lane_unit c then c else 95) s"

text \<open>\<open>a || b\<close> on strings and \<open>a ?? b\<close> on nullable values.\<close>

definition str_or :: "jsstring \<Rightarrow> jsstring \<Rightarrow> jsstring" where
  "str_or a b = (if a = [] then b else a)"

fun nullish :: "'a option \<Rightarrow> 'a \<Rightarrow> 'a" where
  "nullish None d = d"
| "nullish (Some a) d = a"

fun nullish_opt :: "'a option \<Rightarrow> 'a option \<Rightarrow> 'a option" where
  "nullish_opt None d = d"
| "nullish_opt (Some a) d = Some a"

definition non_empty :: "jsstring \<Rightarrow> jsstring option" where
  "non_empty s = (if s = [] then None else Some s)"

text \<open>\<open>String(v ?? '').trim()\<close> and \<open>v ? v.trim() || null : null\<close> on a nullable string.\<close>

definition trim_opt :: "jsstring option \<Rightarrow> jsstring" where
  "trim_opt v = trim (nullish v [])"

definition trim_or_null :: "jsstring option \<Rightarrow> jsstring option" where
  "trim_or_null v = non_empty (trim_opt v)"

lemma trim_or_null_idem [simp]: "trim_or_null (trim_or_null v) = trim_or_null v"
  by (simp add: trim_or_null_def non_empty_def trim_opt_def)

lemma str_or_Nil [simp]: "str_or [] b = b" "str_or a [] = a"
  by (simp_all add: str_or_def)

section \<open>Numbers\<close>

datatype jsnum = Fin rat | PosInf | NegInf | NaN

fun is_finite :: "jsnum \<Rightarrow> bool" where
  "is_finite (Fin _) = True"
| "is_finite _ = False"

fun jsnum_pos :: "jsnum \<Rightarrow> bool" where
  "jsnum_pos (Fin q) = (0 < q)"
| "jsnum_pos PosInf = True"
| "jsnum_pos _ = False"

definition jint :: "int \<Rightarrow> jsnum" where
  "jint i = Fin (of_int i)"

lemma jint_simps [simp]: "is_finite (jint i)" "jsnum_pos (jint i) \<longleftrightarrow> 0 < i" "jint i = jint j \<longleftrightarrow> i = j"
  by (simp_all add: jint_def)

section \<open>Arithmetic on numbers\<close>

text \<open>The operators of the code on numbers. The rounding of binary fractions is not modelled.\<close>

fun jsnum_less :: "jsnum \<Rightarrow> jsnum \<Rightarrow> bool" where
  "jsnum_less (Fin a) (Fin b) = (a < b)"
| "jsnum_less NegInf (Fin _) = True"
| "jsnum_less NegInf PosInf = True"
| "jsnum_less (Fin _) PosInf = True"
| "jsnum_less _ _ = False"

definition jsnum_le :: "jsnum \<Rightarrow> jsnum \<Rightarrow> bool" where
  "jsnum_le a b \<longleftrightarrow> jsnum_less a b \<or> a = b \<and> a \<noteq> NaN"

fun jsnum_neg :: "jsnum \<Rightarrow> jsnum" where
  "jsnum_neg (Fin a) = Fin (- a)"
| "jsnum_neg PosInf = NegInf"
| "jsnum_neg NegInf = PosInf"
| "jsnum_neg NaN = NaN"

fun jsnum_add :: "jsnum \<Rightarrow> jsnum \<Rightarrow> jsnum" where
  "jsnum_add (Fin a) (Fin b) = Fin (a + b)"
| "jsnum_add NaN _ = NaN"
| "jsnum_add _ NaN = NaN"
| "jsnum_add (Fin _) b = b"
| "jsnum_add a (Fin _) = a"
| "jsnum_add a b = (if a = b then a else NaN)"

definition jsnum_sub :: "jsnum \<Rightarrow> jsnum \<Rightarrow> jsnum" where
  "jsnum_sub a b = jsnum_add a (jsnum_neg b)"

text \<open>An infinity times a number has the product of the signs, and is NaN for 0.\<close>

definition inf_times :: "bool \<Rightarrow> rat \<Rightarrow> jsnum" where
  "inf_times positive b = (if b = 0 then NaN else if positive = (0 < b) then PosInf else NegInf)"

fun jsnum_mul :: "jsnum \<Rightarrow> jsnum \<Rightarrow> jsnum" where
  "jsnum_mul (Fin a) (Fin b) = Fin (a * b)"
| "jsnum_mul NaN _ = NaN"
| "jsnum_mul _ NaN = NaN"
| "jsnum_mul (Fin a) b = inf_times (b = PosInf) a"
| "jsnum_mul a (Fin b) = inf_times (a = PosInf) b"
| "jsnum_mul a b = (if a = b then PosInf else NegInf)"

text \<open>\<open>Math.max\<close> and \<open>Math.abs\<close>\<close>

definition jsnum_max :: "jsnum \<Rightarrow> jsnum \<Rightarrow> jsnum" where
  "jsnum_max a b = (if a = NaN \<or> b = NaN then NaN else if jsnum_less a b then b else a)"

definition jsnum_abs :: "jsnum \<Rightarrow> jsnum" where
  "jsnum_abs a = (if jsnum_less a (Fin 0) then jsnum_neg a else a)"

lemma jsnum_fin [simp]:
  "jsnum_le (Fin a) (Fin b) \<longleftrightarrow> a \<le> b" "jsnum_sub (Fin a) (Fin b) = Fin (a - b)"
  "jsnum_max (Fin a) (Fin b) = Fin (max a b)" "jsnum_abs (Fin a) = Fin \<bar>a\<bar>"
  by (auto simp: jsnum_le_def jsnum_sub_def jsnum_max_def jsnum_abs_def)

lemma is_finite_iff: "is_finite x \<longleftrightarrow> (\<exists>a. x = Fin a)"
  by (cases x) auto

section \<open>Maps, records and sets\<close>

text \<open>
  \<open>m.get(k) ?? d\<close>. A \<open>Record\<close> object is modelled like a \<open>Map\<close>: its keys keep insertion order
  (the code's keys are identifiers, never array indices).
\<close>

definition map_get :: "('k \<times> 'v) list \<Rightarrow> 'k \<Rightarrow> 'v \<Rightarrow> 'v" where
  "map_get m k d = (case map_of m k of None \<Rightarrow> d | Some v \<Rightarrow> v)"

definition map_has :: "('k \<times> 'v) list \<Rightarrow> 'k \<Rightarrow> bool" where
  "map_has m k \<longleftrightarrow> map_of m k \<noteq> None"

lemma map_get_Nil [simp]: "map_get [] k d = d"
  by (simp add: map_get_def)

lemma map_get_update [simp]: "map_get (AList.update k v m) k' d = (if k' = k then v else map_get m k' d)"
  by (simp add: map_get_def update_conv)

lemma map_has_update [simp]: "map_has (AList.update k v m) k' \<longleftrightarrow> k' = k \<or> map_has m k'"
  by (auto simp: map_has_def update_conv)

lemma map_has_delete [simp]: "map_has (AList.delete k m) k' \<longleftrightarrow> k' \<noteq> k \<and> map_has m k'"
  by (auto simp: map_has_def delete_conv)

lemma map_of_delete [simp]: "map_of (AList.delete k m) k' = (if k' = k then None else map_of m k')"
  by (simp add: delete_conv)

lemma map_of_update [simp]: "map_of (AList.update k v m) k' = (if k' = k then Some v else map_of m k')"
  by (simp add: update_conv)

lemma keys_update_new: "k \<notin> fst ` set m \<Longrightarrow> map fst (AList.update k v m) = map fst m @ [k]"
  by (simp add: update_keys)

lemma keys_update_old: "k \<in> fst ` set m \<Longrightarrow> map fst (AList.update k v m) = map fst m"
  by (simp add: update_keys)

lemma map_has_iff: "map_has m k \<longleftrightarrow> k \<in> fst ` set m"
  by (simp add: map_has_def map_of_eq_None_iff)

lemma fst_set_update [simp]: "fst ` set (AList.update k v m) = insert k (fst ` set m)"
  by (rule set_eqI) (simp only: map_has_iff [symmetric] insert_iff map_has_update)

lemma fst_set_delete [simp]: "fst ` set (AList.delete k m) = fst ` set m - {k}"
  by (rule set_eqI) (auto simp only: map_has_iff [symmetric] Diff_iff map_has_delete singleton_iff)

text \<open>\<open>Array.from(new Set(xs))\<close> keeps the first occurrence of each element, in order.\<close>

fun uniq_go :: "'a list \<Rightarrow> 'a list \<Rightarrow> 'a list" where
  "uniq_go seen [] = []"
| "uniq_go seen (x # xs) = (if x \<in> set seen then uniq_go seen xs else x # uniq_go (x # seen) xs)"

definition uniq :: "'a list \<Rightarrow> 'a list" where
  "uniq xs = uniq_go [] xs"

lemma set_uniq_go: "set (uniq_go seen xs) = set xs - set seen"
  by (induction xs arbitrary: seen) auto

lemma distinct_uniq_go: "distinct (uniq_go seen xs)"
  by (induction xs arbitrary: seen) (auto simp: set_uniq_go)

lemma uniq_go_distinct: "distinct xs \<Longrightarrow> set xs \<inter> set seen = {} \<Longrightarrow> uniq_go seen xs = xs"
  by (induction xs arbitrary: seen) auto

lemma set_uniq [simp]: "set (uniq xs) = set xs"
  by (simp add: uniq_def set_uniq_go)

lemma distinct_uniq [simp]: "distinct (uniq xs)"
  by (simp add: uniq_def distinct_uniq_go)

lemma uniq_distinct [simp]: "distinct xs \<Longrightarrow> uniq xs = xs"
  by (simp add: uniq_def uniq_go_distinct)

section \<open>Sorting\<close>

text \<open>
  \<open>xs.sort(cmp)\<close> for a consistent comparator, which is stable: an element stands before every
  later element that it does not exceed.
\<close>

fun insert_by :: "('a \<Rightarrow> 'a \<Rightarrow> bool) \<Rightarrow> 'a \<Rightarrow> 'a list \<Rightarrow> 'a list" where
  "insert_by le x [] = [x]"
| "insert_by le x (y # ys) = (if le x y then x # y # ys else y # insert_by le x ys)"

definition sort_by :: "('a \<Rightarrow> 'a \<Rightarrow> bool) \<Rightarrow> 'a list \<Rightarrow> 'a list" where
  "sort_by le xs = foldr (insert_by le) xs []"

lemma mset_insert_by [simp]: "mset (insert_by le x ys) = add_mset x (mset ys)"
  by (induction ys) auto

lemma mset_sort_by [simp]: "mset (sort_by le xs) = mset xs"
  unfolding sort_by_def by (induction xs) auto

lemma set_sort_by [simp]: "set (sort_by le xs) = set xs"
  by (metis mset_sort_by set_mset_mset)

lemma length_sort_by [simp]: "length (sort_by le xs) = length xs"
  by (metis mset_sort_by size_mset)

lemma sorted_insert_by:
  assumes "transp le" and "totalp le" and "reflp le" and "sorted_wrt le ys"
  shows "sorted_wrt le (insert_by le x ys)"
  using assms(4)
proof (induction ys)
  case Nil
  then show ?case by simp
next
  case (Cons y ys)
  show ?case
  proof (cases "le x y")
    case True
    with Cons.prems assms(1) show ?thesis by (auto dest: transpD)
  next
    case False
    then have "le y x" using assms(2,3) by (metis reflpD totalpD)
    moreover have "set (insert_by le x ys) = insert x (set ys)"
      by (metis mset_insert_by set_mset_add_mset_insert set_mset_mset)
    ultimately show ?thesis using Cons False by auto
  qed
qed

lemma sorted_sort_by:
  assumes "transp le" and "totalp le" and "reflp le"
  shows "sorted_wrt le (sort_by le xs)"
  unfolding sort_by_def by (induction xs) (auto intro: sorted_insert_by [OF assms])

text \<open>The sort is stable: elements of a kind keep their order, and a sorted list stays as it is.\<close>

lemma filter_insert_by:
  assumes "transp le" and "sorted_wrt le ys"
  shows "filter P (insert_by le x ys) = (if P x then insert_by le x (filter P ys) else filter P ys)"
  using assms(2)
proof (induction ys)
  case Nil
  then show ?case by simp
next
  case (Cons y ys)
  show ?case
  proof (cases "le x y \<and> P x \<and> \<not> P y")
    case True
    have "insert_by le x (filter P ys) = x # filter P ys"
    proof (cases "filter P ys")
      case (Cons z zs)
      then have "z \<in> set (filter P ys)" by simp
      then have "z \<in> set ys" by simp
      then have "le x z" using True \<open>sorted_wrt le (y # ys)\<close> \<open>transp le\<close> by (auto dest: transpD)
      then show ?thesis using Cons by simp
    qed simp
    then show ?thesis using True by simp
  next
    case False
    then show ?thesis using Cons by auto
  qed
qed

lemma filter_sort_by:
  assumes "transp le" and "totalp le" and "reflp le"
  shows "filter P (sort_by le xs) = sort_by le (filter P xs)"
proof (induction xs)
  case Nil
  then show ?case by (simp add: sort_by_def)
next
  case (Cons x xs)
  have step: "sort_by le (x # xs) = insert_by le x (sort_by le xs)" for x :: 'a and xs
    by (simp add: sort_by_def)
  show ?case
    using filter_insert_by [OF assms(1) sorted_sort_by [OF assms], of P x xs] Cons by (simp add: step)
qed

lemma sort_by_sorted: "sorted_wrt le xs \<Longrightarrow> sort_by le xs = xs"
proof (induction xs)
  case Nil
  then show ?case by (simp add: sort_by_def)
next
  case (Cons x xs)
  then have "sort_by le (x # xs) = insert_by le x xs" by (simp add: sort_by_def)
  also have "\<dots> = x # xs" using Cons.prems by (cases xs) auto
  finally show ?case .
qed

lemma find_filter: "find P xs = (case filter P xs of [] \<Rightarrow> None | x # _ \<Rightarrow> Some x)"
  by (induction xs) auto

lemma trimmed_Nil [simp]: "trimmed []"
  by (simp add: trimmed_def)

end
