(* ===== verification/FlowTypes.thy ===== *)
theory FlowTypes imports JsPrelude begin

text \<open>
  The data of the task-flow front end: the interfaces of \<open>api/types.ts\<close>, of
  \<open>flowPageStateUtils.ts\<close> and of \<open>flowDraftStore.ts\<close>, one record or datatype each. A field that
  the source lets be \<open>null\<close> or missing is an \<open>option\<close> (the code reads both with \<open>??\<close>); a
  \<open>Record<string, string>\<close> is an association list in insertion order. \<open>json\<close> is the
  \<open>unknown\<close> of the wire contract.
\<close>

section \<open>Untyped values\<close>

datatype json =
    JUndef
  | JNull
  | JBool bool
  | JNum jsnum
  | JStr jsstring
  | JArr "json list"
  | JObj "(jsstring \<times> json) list"

section \<open>Enumerations\<close>

datatype task_status = Queued | Running | BlockedByApproval | Failed | Completed

datatype task_source = ProviderSource | FlowSource

datatype agent_status = AgentIdle | AgentRunning | AgentFinished | AgentError

datatype chat_role = UserRole | AssistantRole | SystemRole

datatype planner_status = Planning | PlanCompleted | PlanStopped | PlanFailed

text \<open>\<open>FlowPlannerSessionStatus | 'idle'\<close>\<close>

datatype ui_status = Idle | Session planner_status

datatype flow_runtime_state = FlowIdle | FlowRunning | FlowBlocked

section \<open>Records of \<open>api/types.ts\<close>\<close>

record agent =
  ag_instance_id :: jsstring
  ag_instance_name :: jsstring
  ag_agent_id :: jsstring
  ag_agent_name :: jsstring
  ag_status :: agent_status
  ag_is_active :: bool
  ag_last_active_at :: "jsstring option"
  ag_drilldown_path :: jsstring

record task =
  t_id :: jsstring
  t_board_id :: jsstring
  t_title :: jsstring
  t_summary :: jsstring
  t_status :: task_status
  t_source :: task_source
  t_agent_id :: "jsstring option"
  t_agent_name :: jsstring
  t_artifacts :: "jsstring list"
  t_extras :: "(jsstring \<times> jsstring) list"
  t_instance_id :: "jsstring option"
  t_created_at :: jsstring
  t_updated_at :: jsstring

record task_create_request =
  tc_requirement :: jsstring
  tc_agent_id :: jsstring
  tc_agent_name :: jsstring
  tc_instance_id :: jsstring

record chat_message =
  m_role :: chat_role
  m_content :: jsstring
  m_kind :: "jsstring option"
  m_payload :: "json option"
  m_created_at :: jsstring

record flow_node =
  n_id :: jsstring
  n_title :: jsstring
  n_description :: "jsstring option"
  n_depends_on :: "jsstring list"
  n_x :: jsnum
  n_y :: jsnum
  n_layer :: jsnum
  n_sensitive :: bool
  n_status :: task_status
  n_agent_id :: "jsstring option"
  n_instance_id :: "jsstring option"

record node_draft =
  d_id :: jsstring
  d_title :: jsstring
  d_description :: "jsstring option"
  d_depends_on :: "jsstring list"
  d_sensitive :: bool

datatype node_operation = UpsertNode node_draft | DeleteNode jsstring

record flow_edge =
  e_id :: jsstring
  e_source :: jsstring
  e_target :: jsstring

record lane_item =
  li_id :: jsstring
  li_name :: jsstring
  li_instance_id :: "jsstring option"
  li_agent_id :: "jsstring option"
  li_created_at :: jsstring

record planner_runtime =
  pr_session_status :: ui_status
  pr_is_planning :: bool
  pr_is_planner_stopping :: bool
  pr_is_overlay_close_blocked :: bool

record draft_record =
  fd_id :: jsstring
  fd_name :: jsstring
  fd_requirement :: jsstring
  fd_nodes :: "flow_node list"
  fd_edges :: "flow_edge list"
  fd_planner_messages :: "chat_message list option"
  fd_lanes :: "lane_item list"
  fd_node_lane_by_id :: "(jsstring \<times> jsstring) list"
  fd_planner_session_key :: "jsstring option"
  fd_execution_session_prefix :: "jsstring option"
  fd_executor_agent_id :: "jsstring option"
  fd_planner_runtime :: "planner_runtime option"
  fd_revision :: jsnum
  fd_created_at :: jsstring
  fd_updated_at :: jsstring

record draft_upsert_request =
  du_id :: jsstring
  du_name :: jsstring
  du_requirement :: jsstring
  du_nodes :: "flow_node list"
  du_edges :: "flow_edge list"
  du_planner_messages :: "chat_message list option"
  du_lanes :: "lane_item list option"
  du_node_lane_by_id :: "(jsstring \<times> jsstring) list option"
  du_planner_session_key :: "jsstring option"
  du_execution_session_prefix :: "jsstring option"
  du_executor_agent_id :: "jsstring option"
  du_planner_runtime :: "planner_runtime option"
  du_revision :: jsnum
  du_created_at :: "jsstring option"
  du_updated_at :: "jsstring option"

record generate_request =
  gq_requirement :: jsstring
  gq_instance_id :: jsstring
  gq_executor_agent_id :: jsstring
  gq_planner_agent_id :: "jsstring option"
  gq_manager_agent_id :: "jsstring option"
  gq_planner_session_key :: "jsstring option"
  gq_flow_name :: "jsstring option"
  gq_current_nodes :: "flow_node list option"
  gq_current_edges :: "flow_edge list option"

record generate_response =
  gr_board_id :: jsstring
  gr_planner_session_key :: jsstring
  gr_manager_session_key :: jsstring
  gr_execution_session_prefix :: jsstring
  gr_nodes :: "flow_node list"
  gr_edges :: "flow_edge list"
  gr_messages :: "chat_message list"
  gr_created_task_ids :: "jsstring list"

record confirm_request =
  cq_instance_id :: jsstring
  cq_requirement_id :: "jsstring option"
  cq_executor_agent_id :: jsstring
  cq_manager_agent_id :: "jsstring option"
  cq_requirement_title :: "jsstring option"
  cq_planner_session_key :: "jsstring option"
  cq_execution_session_prefix :: "jsstring option"
  cq_nodes :: "flow_node list"
  cq_edges :: "flow_edge list"

record confirm_response =
  cr_board_id :: jsstring
  cr_planner_session_key :: jsstring
  cr_manager_session_key :: jsstring
  cr_execution_session_prefix :: jsstring
  cr_nodes :: "flow_node list"
  cr_edges :: "flow_edge list"
  cr_messages :: "chat_message list"
  cr_created_task_ids :: "jsstring list"
  cr_dispatched_task_ids :: "jsstring list"

section \<open>Records of \<open>flowPageStateUtils.ts\<close>\<close>

record flow_lane =
  l_id :: jsstring
  l_name :: jsstring
  l_instance_id :: "jsstring option"
  l_agent_id :: "jsstring option"
  l_created_at :: jsstring

record layer_draft =
  nd_id :: jsstring
  nd_title :: jsstring
  nd_description :: jsstring
  nd_depends_on :: "jsstring list"
  nd_sensitive :: bool
  nd_status :: task_status
  nd_instance_id :: "jsstring option"
  nd_agent_id :: "jsstring option"

record flow_snapshot =
  fs_requirement_id :: jsstring
  fs_requirement_title :: jsstring
  fs_updated_at :: jsstring
  fs_nodes :: "flow_node list"
  fs_edges :: "flow_edge list"
  fs_lanes :: "flow_lane list"
  fs_node_lane_by_id :: "(jsstring \<times> jsstring) list"
  fs_last_response :: generate_response
  fs_executor_agent_id :: jsstring

section \<open>Sample values\<close>

text \<open>Small concrete values, on which the examples of the development are evaluated.\<close>

definition sample_node :: "string \<Rightarrow> string \<Rightarrow> string list \<Rightarrow> flow_node" where
  "sample_node ident title deps =
     \<lparr>n_id = js ident, n_title = js title, n_description = None, n_depends_on = map js deps,
      n_x = jint 24, n_y = jint 24, n_layer = jint 1, n_sensitive = False, n_status = Queued,
      n_agent_id = None, n_instance_id = None\<rparr>"

definition sample_draft :: "string \<Rightarrow> string list \<Rightarrow> layer_draft" where
  "sample_draft ident deps =
     \<lparr>nd_id = js ident, nd_title = js ident, nd_description = [], nd_depends_on = map js deps,
      nd_sensitive = False, nd_status = Queued, nd_instance_id = None, nd_agent_id = None\<rparr>"

definition sample_lane :: "string \<Rightarrow> string \<Rightarrow> lane_item" where
  "sample_lane ident agentId =
     \<lparr>li_id = js ident, li_name = js ident, li_instance_id = None, li_agent_id = Some (js agentId),
      li_created_at = js ''2026-01-01T00:00:00Z''\<rparr>"

end
