(* ===== verification/Kahn.thy ===== *)
theory Kahn imports JsPrelude begin

text \<open>
  The layering loop that \<open>resolveNodeLayers\<close> (flowPageStateUtils.ts) and
  \<open>prepareNodesForSubmission\<close> (flowPageGraphUtils.ts) both run: Kahn's algorithm over the maps
  \<open>indegree\<close>, \<open>graph\<close> and \<open>layer\<close> (called \<open>depth\<close> in the second). The loop is total for
  every input; for maps that describe a finite graph it visits all nodes exactly when the graph is
  acyclic, and then a node's layer is the length of the longest path that ends in it.
\<close>

section \<open>The loop\<close>

text \<open>The inner loop over \<open>graph.get(current)\<close>; \<open>cur\<close> is the layer of \<open>current\<close>.\<close>

fun relax :: "int \<Rightarrow> 'a list \<Rightarrow> ('a \<times> int) list \<Rightarrow> ('a \<times> int) list \<Rightarrow> 'a list
    \<Rightarrow> ('a \<times> int) list \<times> ('a \<times> int) list \<times> 'a list" where
  "relax cur [] layer ind queue = (layer, ind, queue)"
| "relax cur (x # xs) layer ind queue =
     relax cur xs
       (AList.update x (max (map_get layer x 0) (cur + 1)) layer)
       (AList.update x (map_get ind x 0 - 1) ind)
       (if map_get ind x 0 - 1 = 0 then queue @ [x] else queue)"

definition n_positive :: "('a \<times> int) list \<Rightarrow> nat" where
  "n_positive ind = card {k \<in> fst ` set ind. 0 < map_get ind k 0}"

lemma n_positive_update:
  "n_positive (AList.update x (map_get ind x 0 - 1) ind) + (if map_get ind x 0 - 1 = 0 then 1 else 0)
     \<le> n_positive ind"
proof -
  let ?d = "map_get ind x 0"
  let ?P = "{k \<in> fst ` set ind. 0 < map_get ind k 0}"
  let ?Q = "{k \<in> fst ` set (AList.update x (?d - 1) ind). 0 < map_get (AList.update x (?d - 1) ind) k 0}"
  have fin: "finite ?P" by simp
  have miss: "x \<notin> fst ` set ind \<Longrightarrow> ?d = 0"
    by (simp add: map_get_def map_of_eq_None_iff [THEN iffD2])
  have sub: "?Q \<subseteq> ?P"
    using miss by (cases "x \<in> fst ` set ind") (auto simp: dom_update split: if_splits)
  show ?thesis
  proof (cases "?d = 1")
    case True
    then have "x \<in> ?P" using miss by auto
    moreover have "?Q \<subseteq> ?P - {x}" using sub True by auto
    ultimately have "?Q \<subset> ?P" by blast
    then have "card ?Q < card ?P" by (rule psubset_card_mono [OF fin])
    then show ?thesis using True by (simp add: n_positive_def)
  next
    case False
    then show ?thesis using card_mono [OF fin sub] by (simp add: n_positive_def)
  qed
qed

lemma relax_measure:
  "relax cur xs layer ind queue = (layer', ind', queue') \<Longrightarrow>
     length queue' + n_positive ind' \<le> length queue + n_positive ind"
proof (induction cur xs layer ind queue rule: relax.induct)
  case (1 cur layer ind queue)
  then show ?case by simp
next
  case (2 cur x xs layer ind queue)
  have "length queue' + n_positive ind' \<le>
      length (if map_get ind x 0 - 1 = 0 then queue @ [x] else queue) +
      n_positive (AList.update x (map_get ind x 0 - 1) ind)"
    by (rule "2.IH") (use "2.prems" in simp)
  also have "\<dots> \<le> length queue + n_positive ind"
    using n_positive_update [of x ind] by (auto split: if_splits)
  finally show ?case .
qed

text \<open>The outer loop: the order of visits and the final \<open>layer\<close> map.\<close>

function kahn_loop :: "('a \<times> 'a list) list \<Rightarrow> 'a list \<Rightarrow> 'a list \<Rightarrow> ('a \<times> int) list \<Rightarrow> ('a \<times> int) list
    \<Rightarrow> 'a list \<times> ('a \<times> int) list" where
  "kahn_loop graph [] visited ind layer = (visited, layer)"
| "kahn_loop graph (current # queue) visited ind layer =
     (case relax (map_get layer current 0) (map_get graph current []) layer ind queue of
        (layer', ind', queue') \<Rightarrow> kahn_loop graph queue' (visited @ [current]) ind' layer')"
  by pat_completeness auto
termination
  by (relation "measure (\<lambda>(graph, queue, visited, ind, layer). length queue + n_positive ind)")
    (auto dest!: relax_measure [OF sym])

definition kahn_start :: "('a \<times> int) list \<Rightarrow> 'a list" where
  "kahn_start ind = map fst (filter (\<lambda>(_, degree). degree = 0) ind)"

definition kahn :: "('a \<times> 'a list) list \<Rightarrow> ('a \<times> int) list \<Rightarrow> ('a \<times> int) list
    \<Rightarrow> 'a list \<times> ('a \<times> int) list" where
  "kahn graph ind layer = kahn_loop graph (kahn_start ind) [] ind layer"

section \<open>What one pass over the successors does\<close>

lemma relax_spec:
  assumes "relax cur xs layer ind queue = (layer', ind', queue')"
  shows "map_get ind' n 0 = map_get ind n 0 - int (count_list xs n)"
    and "map_get layer' n 0 = (if n \<in> set xs then max (map_get layer n 0) (cur + 1) else map_get layer n 0)"
  using assms
  by (induction cur xs layer ind queue arbitrary: layer' ind' queue' rule: relax.induct) auto

lemma relax_keys: "relax cur xs layer ind queue = (layer', ind', queue') \<Longrightarrow>
    fst ` set layer' = fst ` set layer \<union> set xs"
  by (induction cur xs layer ind queue rule: relax.induct) (auto simp: dom_update)

lemma relax_queue:
  "relax cur xs layer ind queue = (layer', ind', queue') \<Longrightarrow>
    \<exists>p. queue' = queue @ p \<and> distinct p \<and>
      set p = {n \<in> set xs. 0 < map_get ind n 0 \<and> map_get ind n 0 \<le> int (count_list xs n)}"
proof (induction cur xs layer ind queue rule: relax.induct)
  case (1 cur layer ind queue)
  then show ?case by simp
next
  case (2 cur x xs layer ind queue)
  let ?ind = "AList.update x (map_get ind x 0 - 1) ind"
  let ?q = "if map_get ind x 0 - 1 = 0 then queue @ [x] else queue"
  have "\<exists>p. queue' = ?q @ p \<and> distinct p \<and>
      set p = {n \<in> set xs. 0 < map_get ?ind n 0 \<and> map_get ?ind n 0 \<le> int (count_list xs n)}"
    by (rule "2.IH") (use "2.prems" in simp)
  then obtain p where p: "queue' = ?q @ p" "distinct p"
      "set p = {n \<in> set xs. 0 < map_get ?ind n 0 \<and> map_get ?ind n 0 \<le> int (count_list xs n)}"
    by blast
  have cnt: "n \<in> set xs" if "0 < k" "k \<le> int (count_list xs n)" for n k
    using that count_notin [of n xs] by fastforce
  let ?p = "(if map_get ind x 0 - 1 = 0 then [x] else []) @ p"
  have "queue' = queue @ ?p" using p(1) by simp
  moreover have "distinct ?p" using p(2,3) by auto
  moreover have "n \<in> set ?p \<longleftrightarrow> n \<in> set (x # xs) \<and> 0 < map_get ind n 0 \<and>
      map_get ind n 0 \<le> int (count_list (x # xs) n)" for n
  proof (cases "n = x")
    case True
    have "x \<in> set p \<longleftrightarrow> 1 < map_get ind x 0 \<and> map_get ind x 0 \<le> 1 + int (count_list xs x)"
      using p(3) cnt [of "map_get ind x 0 - 1" x] by fastforce
    then show ?thesis using True by auto
  next
    case False
    then have "n \<in> set p \<longleftrightarrow> n \<in> set xs \<and> 0 < map_get ind n 0 \<and> map_get ind n 0 \<le> int (count_list xs n)"
      using p(3) by simp
    then show ?thesis using False by simp
  qed
  then have "set ?p = {n \<in> set (x # xs). 0 < map_get ind n 0 \<and> map_get ind n 0 \<le> int (count_list (x # xs) n)}"
    by blast
  ultimately show ?case by blast
qed

section \<open>The loop invariant\<close>

definition succs :: "('a \<times> 'a list) list \<Rightarrow> 'a \<Rightarrow> 'a list" where
  "succs graph d = map_get graph d []"

definition graph_on :: "'a set \<Rightarrow> ('a \<times> 'a list) list \<Rightarrow> bool" where
  "graph_on K graph \<longleftrightarrow> finite K \<and> (\<forall>d \<in> K. set (succs graph d) \<subseteq> K)"

definition edge_rel :: "'a set \<Rightarrow> ('a \<times> 'a list) list \<Rightarrow> ('a \<times> 'a) set" where
  "edge_rel K graph = {(d, n). d \<in> K \<and> n \<in> set (succs graph d)}"

definition in_count :: "('a \<times> 'a list) list \<Rightarrow> 'a set \<Rightarrow> 'a \<Rightarrow> nat" where
  "in_count graph S n = (\<Sum>d \<in> S. count_list (succs graph d) n)"

definition layer_of_preds :: "('a \<times> 'a list) list \<Rightarrow> ('a \<times> int) list \<Rightarrow> 'a set \<Rightarrow> 'a \<Rightarrow> int" where
  "layer_of_preds graph layer S n =
     Max (insert 0 ((\<lambda>d. map_get layer d 0 + 1) ` {d \<in> S. n \<in> set (succs graph d)}))"

definition kahn_inv :: "'a set \<Rightarrow> ('a \<times> 'a list) list \<Rightarrow> 'a list \<Rightarrow> 'a list \<Rightarrow> ('a \<times> int) list
    \<Rightarrow> ('a \<times> int) list \<Rightarrow> bool" where
  "kahn_inv K graph queue visited ind layer \<longleftrightarrow>
     distinct (visited @ queue) \<and> set (visited @ queue) \<subseteq> K \<and>
     (\<forall>n \<in> K. map_get ind n 0 = int (in_count graph (K - set visited) n)) \<and>
     (\<forall>n \<in> K. n \<in> set (visited @ queue) \<longleftrightarrow> map_get ind n 0 = 0) \<and>
     (\<forall>n \<in> K. map_get layer n 0 = layer_of_preds graph layer (set visited) n)"

lemma in_count_0_iff: "finite S \<Longrightarrow> in_count graph S n = 0 \<longleftrightarrow> (\<forall>d \<in> S. n \<notin> set (succs graph d))"
  by (simp add: in_count_def count_list_0_iff)

lemma in_count_remove:
  "finite S \<Longrightarrow> c \<in> S \<Longrightarrow> in_count graph S n = count_list (succs graph c) n + in_count graph (S - {c}) n"
  by (simp add: in_count_def sum.remove)

lemma layer_of_preds_insert:
  "finite S \<Longrightarrow> layer_of_preds graph layer (insert c S) n =
     (if n \<in> set (succs graph c) then max (layer_of_preds graph layer S n) (map_get layer c 0 + 1)
      else layer_of_preds graph layer S n)"
proof -
  assume "finite S"
  let ?A = "insert 0 ((\<lambda>d. map_get layer d 0 + 1) ` {d \<in> S. n \<in> set (succs graph d)})"
  have A: "finite ?A" "?A \<noteq> {}" using \<open>finite S\<close> by simp_all
  show ?thesis
  proof (cases "n \<in> set (succs graph c)")
    case True
    then have "{d \<in> insert c S. n \<in> set (succs graph d)} = insert c {d \<in> S. n \<in> set (succs graph d)}"
      by auto
    then have "layer_of_preds graph layer (insert c S) n = Max (insert (map_get layer c 0 + 1) ?A)"
      by (simp add: layer_of_preds_def insert_commute)
    also have "\<dots> = max (map_get layer c 0 + 1) (Max ?A)" by (rule Max_insert [OF A])
    finally show ?thesis using True by (simp add: layer_of_preds_def max.commute)
  next
    case False
    then have "{d \<in> insert c S. n \<in> set (succs graph d)} = {d \<in> S. n \<in> set (succs graph d)}"
      by auto
    then show ?thesis using False by (simp add: layer_of_preds_def)
  qed
qed

lemma layer_of_preds_cong:
  "(\<And>d. d \<in> S \<Longrightarrow> map_get layer d 0 = map_get layer' d 0) \<Longrightarrow>
     layer_of_preds graph layer S n = layer_of_preds graph layer' S n"
  unfolding layer_of_preds_def by (rule arg_cong [of _ _ Max]) auto

lemma kahn_inv_step:
  assumes g: "graph_on K graph" and inv: "kahn_inv K graph (c # queue) visited ind layer"
    and r: "relax (map_get layer c 0) (succs graph c) layer ind queue = (layer', ind', queue')"
  shows "kahn_inv K graph queue' (visited @ [c]) ind' layer'"
proof -
  let ?xs = "succs graph c"
  have K: "finite K" "c \<in> K" "c \<notin> set visited" "set visited \<subseteq> K"
    using g inv by (auto simp: graph_on_def kahn_inv_def)
  then have xsK: "set ?xs \<subseteq> K" using g by (simp add: graph_on_def)
  have ind0: "map_get ind n 0 = int (in_count graph (K - set visited) n)" if "n \<in> K" for n
    using inv that by (simp add: kahn_inv_def)
  have zero: "n \<in> set (visited @ c # queue) \<longleftrightarrow> map_get ind n 0 = 0" if "n \<in> K" for n
    using inv that by (auto simp: kahn_inv_def)
  have split_count: "in_count graph (K - set visited) n =
      count_list ?xs n + in_count graph (K - set (visited @ [c])) n" for n
  proof -
    have "K - set visited - {c} = K - set (visited @ [c])" by auto
    then show ?thesis using in_count_remove [of "K - set visited" c graph n] K by simp
  qed
  have ind1: "map_get ind' n 0 = int (in_count graph (K - set (visited @ [c])) n)" if "n \<in> K" for n
    using relax_spec(1) [OF r, of n] ind0 [OF that] split_count [of n] by simp
  have fresh: "n \<notin> set (visited @ c # queue)" if "n \<in> set ?xs" for n
    using that xsK zero [of n] ind0 [of n] split_count [of n] count_list_0_iff [of ?xs n]
    by (metis add_is_0 of_nat_eq_0_iff subsetD)
  obtain p where p: "queue' = queue @ p" "distinct p"
      "set p = {n \<in> set ?xs. 0 < map_get ind n 0 \<and> map_get ind n 0 \<le> int (count_list ?xs n)}"
    using relax_queue [OF r] by blast
  have inq: "n \<in> set p \<longleftrightarrow> n \<in> set ?xs \<and> map_get ind' n 0 = 0" if "n \<in> K" for n
  proof -
    have "n \<in> set ?xs \<Longrightarrow> count_list ?xs n \<noteq> 0" by (simp add: count_list_0_iff)
    then have "n \<in> set ?xs \<Longrightarrow> 0 < map_get ind n 0"
      using that ind0 [of n] split_count [of n] by linarith
    moreover have "map_get ind n 0 \<le> int (count_list ?xs n) \<longleftrightarrow> map_get ind' n 0 = 0"
      using that ind0 [of n] ind1 [of n] split_count [of n] by simp
    ultimately show ?thesis using p(3) by auto
  qed
  have lay: "map_get layer' n 0 = (if n \<in> set ?xs then max (map_get layer n 0) (map_get layer c 0 + 1)
      else map_get layer n 0)" for n
    by (rule relax_spec(2) [OF r])
  have same: "map_get layer' d 0 = map_get layer d 0" if "d \<in> set (visited @ [c])" for d
    using that fresh [of d] lay [of d] by auto
  have d1: "distinct ((visited @ [c]) @ queue')"
    using inv p fresh by (auto simp: kahn_inv_def)
  have d2: "set ((visited @ [c]) @ queue') \<subseteq> K"
    using inv p(1,3) xsK by (auto simp: kahn_inv_def)
  have d3: "n \<in> set ((visited @ [c]) @ queue') \<longleftrightarrow> map_get ind' n 0 = 0" if "n \<in> K" for n
  proof (cases "n \<in> set ?xs")
    case True
    then show ?thesis using inq [OF that] fresh [OF True] p(1) by auto
  next
    case False
    then have "map_get ind' n 0 = map_get ind n 0"
      using relax_spec(1) [OF r, of n] by simp
    then show ?thesis using zero [OF that] p(1,3) False by auto
  qed
  have d4: "map_get layer' n 0 = layer_of_preds graph layer' (set (visited @ [c])) n" if "n \<in> K" for n
  proof -
    have "map_get layer n 0 = layer_of_preds graph layer (set visited) n"
      using inv that by (simp add: kahn_inv_def)
    then have "map_get layer' n 0 = layer_of_preds graph layer (insert c (set visited)) n"
      by (simp add: lay layer_of_preds_insert)
    also have "\<dots> = layer_of_preds graph layer' (set (visited @ [c])) n"
      using layer_of_preds_cong [of "set (visited @ [c])" layer layer' graph n] same by simp
    finally show ?thesis .
  qed
  show ?thesis using d1 d2 ind1 d3 d4 by (simp add: kahn_inv_def)
qed

lemma kahn_loop_inv:
  "graph_on K graph \<Longrightarrow> kahn_inv K graph queue visited ind layer \<Longrightarrow>
   kahn_loop graph queue visited ind layer = (visited', layer') \<Longrightarrow>
   \<exists>ind'. kahn_inv K graph [] visited' ind' layer'"
proof (induction graph queue visited ind layer rule: kahn_loop.induct)
  case (1 graph visited ind layer)
  then show ?case by auto
next
  case (2 graph current queue visited ind layer)
  obtain l i q where r: "relax (map_get layer current 0) (succs graph current) layer ind queue = (l, i, q)"
    by (cases "relax (map_get layer current 0) (succs graph current) layer ind queue")
  have "kahn_inv K graph q (visited @ [current]) i l"
    by (rule kahn_inv_step [OF "2.prems"(1,2) r])
  moreover have "kahn_loop graph q (visited @ [current]) i l = (visited', layer')"
    using "2.prems"(3) r by (simp add: succs_def)
  ultimately show ?case
    using "2.IH" [OF r [unfolded succs_def, symmetric] refl "2.prems"(1)] by blast
qed

section \<open>Correctness\<close>

text \<open>What \<open>kahn\<close> is started on: degrees that count the incoming edges, layers all 0.\<close>

definition kahn_input :: "'a set \<Rightarrow> ('a \<times> 'a list) list \<Rightarrow> ('a \<times> int) list \<Rightarrow> ('a \<times> int) list \<Rightarrow> bool" where
  "kahn_input K graph ind layer \<longleftrightarrow> graph_on K graph \<and> distinct (map fst ind) \<and> fst ` set ind = K \<and>
     (\<forall>n \<in> K. map_get ind n 0 = int (in_count graph K n)) \<and> (\<forall>n \<in> K. map_get layer n 0 = 0)"

lemma map_get_mem: "distinct (map fst m) \<Longrightarrow> (k, v) \<in> set m \<Longrightarrow> map_get m k d = v"
  by (simp add: map_get_def)

lemma set_kahn_start:
  assumes "distinct (map fst ind)"
  shows "set (kahn_start ind) = {n \<in> fst ` set ind. map_get ind n 0 = 0}"
  using map_get_mem [OF assms] by (force simp: kahn_start_def image_iff)

lemma distinct_kahn_start: "distinct (map fst ind) \<Longrightarrow> distinct (kahn_start ind)"
  unfolding kahn_start_def by (rule distinct_map_filter)

lemma kahn_inv_start:
  "kahn_input K graph ind layer \<Longrightarrow> kahn_inv K graph (kahn_start ind) [] ind layer"
  by (auto simp: kahn_input_def kahn_inv_def set_kahn_start distinct_kahn_start layer_of_preds_def)

lemma kahn_final:
  assumes "kahn_input K graph ind layer" and "kahn graph ind layer = (visited, layer')"
  obtains ind' where "graph_on K graph" "kahn_inv K graph [] visited ind' layer'"
proof -
  have g: "graph_on K graph" using assms(1) by (simp add: kahn_input_def)
  have "kahn_loop graph (kahn_start ind) [] ind layer = (visited, layer')"
    using assms(2) by (simp add: kahn_def)
  from kahn_loop_inv [OF g kahn_inv_start [OF assms(1)] this] show thesis
    using that [OF g] by blast
qed

lemma layer_of_preds_ge:
  "finite S \<Longrightarrow> d \<in> S \<Longrightarrow> n \<in> set (succs graph d) \<Longrightarrow>
     map_get layer d 0 + 1 \<le> layer_of_preds graph layer S n"
  unfolding layer_of_preds_def by (rule Max_ge) auto

lemma acyclic_visits_all:
  assumes "graph_on K graph" and "kahn_inv K graph [] visited ind layer"
    and "acyclic (edge_rel K graph)"
  shows "set visited = K"
proof (rule ccontr)
  assume "set visited \<noteq> K"
  then obtain u where u: "u \<in> K - set visited" using assms(2) by (auto simp: kahn_inv_def)
  have "finite (edge_rel K graph)"
    by (rule finite_subset [of _ "K \<times> K"]) (use assms(1) in \<open>auto simp: edge_rel_def graph_on_def\<close>)
  then have "wf (edge_rel K graph)" using assms(3) by (rule finite_acyclic_wf)
  then obtain m where m: "m \<in> K - set visited" "\<And>d. (d, m) \<in> edge_rel K graph \<Longrightarrow> d \<notin> K - set visited"
    using u by (rule wfE_min) blast
  then have "map_get ind m 0 \<noteq> 0" using assms(2) by (auto simp: kahn_inv_def)
  then have "in_count graph (K - set visited) m \<noteq> 0" using assms(2) m(1) by (simp add: kahn_inv_def)
  then obtain d where "d \<in> K - set visited" "m \<in> set (succs graph d)"
    using in_count_0_iff [of "K - set visited" graph m] assms(1) by (auto simp: graph_on_def)
  then show False using m(2) by (auto simp: edge_rel_def)
qed

lemma all_visited_acyclic:
  assumes "graph_on K graph" and "kahn_inv K graph [] visited ind layer" and "set visited = K"
  shows "acyclic (edge_rel K graph)"
proof (rule acyclicI_order [where f = "\<lambda>n. - map_get layer n 0"])
  fix d n
  assume "(d, n) \<in> edge_rel K graph"
  then have dn: "d \<in> K" "n \<in> set (succs graph d)" by (auto simp: edge_rel_def)
  then have "n \<in> K" "finite K" using assms(1) by (auto simp: graph_on_def)
  then have "map_get layer n 0 = layer_of_preds graph layer K n"
    using assms(2,3) by (simp add: kahn_inv_def)
  with layer_of_preds_ge [OF \<open>finite K\<close> dn, of layer] show "- map_get layer n 0 < - map_get layer d 0"
    by linarith
qed

lemma kahn_correct:
  assumes "kahn_input K graph ind layer" and "kahn graph ind layer = (visited, layer')"
  shows "distinct visited" and "set visited \<subseteq> K"
    and "length visited = card K \<longleftrightarrow> acyclic (edge_rel K graph)"
    and "acyclic (edge_rel K graph) \<Longrightarrow> n \<in> K \<Longrightarrow> map_get layer' n 0 = layer_of_preds graph layer' K n"
proof -
  obtain ind' where g: "graph_on K graph" and i: "kahn_inv K graph [] visited ind' layer'"
    using assms by (rule kahn_final)
  show dv: "distinct visited" and sv: "set visited \<subseteq> K" using i by (simp_all add: kahn_inv_def)
  have "finite K" using g by (simp add: graph_on_def)
  then have "length visited = card K \<longleftrightarrow> set visited = K"
    using dv sv by (metis card_subset_eq distinct_card)
  then show "length visited = card K \<longleftrightarrow> acyclic (edge_rel K graph)"
    using acyclic_visits_all [OF g i] all_visited_acyclic [OF g i] by blast
  show "map_get layer' n 0 = layer_of_preds graph layer' K n"
    if "acyclic (edge_rel K graph)" and "n \<in> K"
    using acyclic_visits_all [OF g i that(1)] i that(2) by (simp add: kahn_inv_def)
qed

lemma kahn_keys: "fst ` set (snd (kahn_loop graph queue visited ind layer)) \<supseteq> fst ` set layer"
proof (induction graph queue visited ind layer rule: kahn_loop.induct)
  case (1 graph visited ind layer)
  then show ?case by simp
next
  case (2 graph current queue visited ind layer)
  obtain l i q where r: "relax (map_get layer current 0) (map_get graph current []) layer ind queue = (l, i, q)"
    by (cases "relax (map_get layer current 0) (map_get graph current []) layer ind queue")
  then show ?case using "2.IH" [OF r [symmetric] refl] relax_keys [OF r] by auto
qed

section \<open>Layers as longest paths\<close>

text \<open>A layer function that solves the predecessor equation measures the longest path into a node.\<close>

definition layering :: "('a \<times> 'a) set \<Rightarrow> 'a set \<Rightarrow> ('a \<Rightarrow> int) \<Rightarrow> bool" where
  "layering E K lay \<longleftrightarrow> finite K \<and> E \<subseteq> K \<times> K \<and>
     (\<forall>n \<in> K. lay n = Max (insert 0 ((\<lambda>d. lay d + 1) ` {d. (d, n) \<in> E})))"

lemma layering_finite: "layering E K lay \<Longrightarrow> finite {d. (d, n) \<in> E}"
  unfolding layering_def by (rule finite_subset [of _ K]) auto

lemma layering_step: "layering E K lay \<Longrightarrow> (d, n) \<in> E \<Longrightarrow> lay d + 1 \<le> lay n"
proof -
  assume l: "layering E K lay" and e: "(d, n) \<in> E"
  then have n: "n \<in> K" by (auto simp: layering_def)
  have "lay d + 1 \<le> Max (insert 0 ((\<lambda>d. lay d + 1) ` {d. (d, n) \<in> E}))"
    by (rule Max_ge) (use layering_finite [OF l] e in auto)
  then show ?thesis using l n by (simp add: layering_def)
qed

lemma layering_nonneg: "layering E K lay \<Longrightarrow> n \<in> K \<Longrightarrow> 0 \<le> lay n"
proof -
  assume l: "layering E K lay" and n: "n \<in> K"
  have "0 \<le> Max (insert 0 ((\<lambda>d. lay d + 1) ` {d. (d, n) \<in> E}))"
    by (rule Max_ge) (use layering_finite [OF l] in auto)
  then show ?thesis using l n by (simp add: layering_def)
qed

lemma layering_upper: "layering E K lay \<Longrightarrow> n \<in> K \<Longrightarrow> (d, n) \<in> E ^^ k \<Longrightarrow> int k \<le> lay n"
proof (induction k arbitrary: n)
  case 0
  then show ?case using layering_nonneg by fastforce
next
  case (Suc k)
  then obtain m where m: "(d, m) \<in> E ^^ k" "(m, n) \<in> E" by auto
  then have "m \<in> K" using Suc.prems(1) by (auto simp: layering_def)
  then have "int k \<le> lay m" using Suc m(1) by blast
  then show ?case using layering_step [OF Suc.prems(1) m(2)] by simp
qed

lemma layering_attained: "layering E K lay \<Longrightarrow> n \<in> K \<Longrightarrow> \<exists>d. (d, n) \<in> E ^^ nat (lay n)"
proof (induction "nat (lay n)" arbitrary: n rule: less_induct)
  case less
  let ?A = "(\<lambda>d. lay d + 1) ` {d. (d, n) \<in> E}"
  have "lay n = Max (insert 0 ?A)" using less.prems by (simp add: layering_def)
  moreover have "Max (insert 0 ?A) \<in> insert 0 ?A"
    by (rule Max_in) (use layering_finite [OF less.prems(1)] in auto)
  ultimately consider "lay n = 0" | d where "(d, n) \<in> E" "lay n = lay d + 1" by auto
  then show ?case
  proof cases
    case 1
    then show ?thesis by auto
  next
    case (2 d)
    then have d: "d \<in> K" "0 \<le> lay d"
      using less.prems(1) layering_nonneg [OF less.prems(1)] by (auto simp: layering_def)
    then obtain c where "(c, d) \<in> E ^^ nat (lay d)" using less.hyps [of d] less.prems(1) 2(2) by auto
    moreover have "nat (lay n) = Suc (nat (lay d))" using 2(2) d(2) by simp
    ultimately show ?thesis using 2(1) by auto
  qed
qed

lemma kahn_layering:
  assumes "kahn_input K graph ind layer" and "kahn graph ind layer = (visited, layer')"
    and "acyclic (edge_rel K graph)"
  shows "layering (edge_rel K graph) K (\<lambda>n. map_get layer' n 0)"
proof -
  have g: "graph_on K graph" using assms(1) by (simp add: kahn_input_def)
  then have "finite K" and "edge_rel K graph \<subseteq> K \<times> K" by (auto simp: graph_on_def edge_rel_def)
  moreover have "map_get layer' n 0 = Max (insert 0 ((\<lambda>d. map_get layer' d 0 + 1) ` {d. (d, n) \<in> edge_rel K graph}))"
    if "n \<in> K" for n
  proof -
    have "{d. (d, n) \<in> edge_rel K graph} = {d \<in> K. n \<in> set (succs graph d)}"
      by (auto simp: edge_rel_def)
    then show ?thesis using kahn_correct(4) [OF assms(1,2,3) that] by (simp add: layer_of_preds_def)
  qed
  ultimately show ?thesis by (simp add: layering_def)
qed

end
