(* ===== verification/FlowState.thy ===== *)
theory FlowState imports FlowTypes Kahn begin

text \<open>
  \<open>components/flowPageStateUtils.ts\<close>: how tasks, draft lanes and agents become the state of the
  flow canvas. What the code reads from its environment is an argument: \<open>now\<close> is
  \<open>new Date().toISOString()\<close>, \<open>hex\<close> the random suffix of a session key, \<open>parse_date\<close> is
  \<open>Date.parse\<close> (None for NaN), whose result on other than ISO strings is left open by the
  language.
\<close>

section \<open>Constants and labels\<close>

definition NODE_DEFAULT_MARGIN :: int where "NODE_DEFAULT_MARGIN = 24"
definition NODE_VERTICAL_GAP :: int where "NODE_VERTICAL_GAP = 160"
definition DEFAULT_FLOW_PLANNER_SESSION_AGENT_SEGMENT :: jsstring where
  "DEFAULT_FLOW_PLANNER_SESSION_AGENT_SEGMENT = js ''planner''"

definition unnamed_flow :: jsstring where
  "unnamed_flow = [0x672A, 0x547D, 0x540D, 0x6D41, 0x7A0B]"
definition unnamed_lane :: jsstring where
  "unnamed_lane = [0x672A, 0x547D, 0x540D, 0x6CF3, 0x9053]"
definition unassigned_lane :: jsstring where
  "unassigned_lane = [0x672A, 0x59D4, 0x6D3E, 0x6CF3, 0x9053]"

section \<open>Scope keys and planner status\<close>

definition buildLaneAgentScopeKey :: "jsstring option \<Rightarrow> jsstring option \<Rightarrow> jsstring" where
  "buildLaneAgentScopeKey instanceId agentId =
     (let normalizedAgentId = trim_opt agentId in
      if normalizedAgentId = [] then []
      else trim_opt instanceId @ js ''::'' @ normalizedAgentId)"

fun isTerminalPlannerSessionStatus :: "ui_status \<Rightarrow> bool" where
  "isTerminalPlannerSessionStatus (Session PlanCompleted) = True"
| "isTerminalPlannerSessionStatus (Session PlanStopped) = True"
| "isTerminalPlannerSessionStatus (Session PlanFailed) = True"
| "isTerminalPlannerSessionStatus _ = False"

definition isPlannerAwaitingSession :: "ui_status \<Rightarrow> bool \<Rightarrow> bool" where
  "isPlannerAwaitingSession status isStopping \<longleftrightarrow> isStopping \<or> status = Session Planning"

section \<open>Layers\<close>

text \<open>The three maps before the loop: every draft registered, then its edges pushed.\<close>

definition layer_register :: "layer_draft list \<Rightarrow> (jsstring \<times> int) list \<times> (jsstring \<times> jsstring list) list \<times> (jsstring \<times> int) list" where
  "layer_register drafts =
     fold (\<lambda>draft (indegree, graph, layer).
         (AList.update (nd_id draft) (int (length (nd_depends_on draft))) indegree,
          AList.update (nd_id draft) [] graph,
          AList.update (nd_id draft) 0 layer))
       drafts ([], [], [])"

definition push_edge :: "jsstring \<Rightarrow> jsstring \<Rightarrow> (jsstring \<times> jsstring list) list \<Rightarrow> (jsstring \<times> jsstring list) list" where
  "push_edge target dep graph =
     (case map_of graph dep of
        None \<Rightarrow> graph
      | Some downstream \<Rightarrow> AList.update dep (downstream @ [target]) graph)"

definition layer_edges :: "layer_draft list \<Rightarrow> (jsstring \<times> jsstring list) list \<Rightarrow> (jsstring \<times> jsstring list) list" where
  "layer_edges drafts graph =
     fold (\<lambda>draft g. fold (push_edge (nd_id draft)) (nd_depends_on draft) g) drafts graph"

text \<open>The fallback after an incomplete run: layers for drafts that have none yet.\<close>

definition layer_fallback :: "layer_draft list \<Rightarrow> (jsstring \<times> int) list \<Rightarrow> (jsstring \<times> int) list" where
  "layer_fallback drafts layer =
     fst (fold (\<lambda>draft (layer, fallbackLayer).
         (if \<not> map_has layer (nd_id draft) then AList.update (nd_id draft) fallbackLayer layer else layer,
          fallbackLayer + 1))
       drafts (layer, 0))"

definition resolveNodeLayers :: "layer_draft list \<Rightarrow> (jsstring \<times> int) list" where
  "resolveNodeLayers drafts =
     (case layer_register drafts of (indegree, graph, layer) \<Rightarrow>
      (case kahn (layer_edges drafts graph) indegree layer of (visited, layer') \<Rightarrow>
       if length visited \<noteq> length drafts then layer_fallback drafts layer' else layer'))"

section \<open>Reading tasks\<close>

definition task_extra :: "task \<Rightarrow> string \<Rightarrow> jsstring" where
  "task_extra task key = trim_opt (map_of (t_extras task) (js key))"

definition getRequirementIdFromTask :: "task \<Rightarrow> jsstring" where
  "getRequirementIdFromTask task =
     (let requirementId = task_extra task ''requirement_id'' in
      if requirementId \<noteq> [] then requirementId
      else let flowId = task_extra task ''flow_id'' in
      if flowId \<noteq> [] then flowId else t_id task)"

definition getRequirementTitleFromTask :: "task option \<Rightarrow> jsstring" where
  "getRequirementTitleFromTask task =
     (case task of
        None \<Rightarrow> unnamed_flow
      | Some task \<Rightarrow>
          let title = task_extra task ''requirement_title'' in
          if title \<noteq> [] then title
          else let requirement = task_extra task ''requirement'' in
          if requirement \<noteq> [] then requirement else t_title task)"

definition getFlowNodeId :: "task \<Rightarrow> jsstring" where
  "getFlowNodeId task =
     (let flowNode = task_extra task ''flow_node'' in if flowNode \<noteq> [] then flowNode else t_id task)"

definition parseDependencies :: "jsstring option \<Rightarrow> jsstring list" where
  "parseDependencies raw =
     (let normalized = trim_opt raw in
      if normalized = [] \<or> normalized = js ''none'' then []
      else filter (\<lambda>item. item \<noteq> []) (map trim (js_split (js '','') normalized)))"

definition normalizeTaskStatus :: "jsstring \<Rightarrow> task_status" where
  "normalizeTaskStatus value =
     (if value = js ''running'' then Running
      else if value = js ''blocked_by_approval'' then BlockedByApproval
      else if value = js ''failed'' then Failed
      else if value = js ''completed'' then Completed
      else Queued)"

text \<open>The string a typed status is at run time.\<close>

fun status_str :: "task_status \<Rightarrow> jsstring" where
  "status_str Queued = js ''queued''"
| "status_str Running = js ''running''"
| "status_str BlockedByApproval = js ''blocked_by_approval''"
| "status_str Failed = js ''failed''"
| "status_str Completed = js ''completed''"

lemma normalize_status_str [simp]: "normalizeTaskStatus (status_str s) = s"
  by (cases s) (simp_all add: normalizeTaskStatus_def)

definition nth_opt :: "'a list \<Rightarrow> nat \<Rightarrow> 'a option" where
  "nth_opt xs i = (if i < length xs then Some (xs ! i) else None)"

definition hasTaskExplicitOutputArtifact :: "task \<Rightarrow> bool" where
  "hasTaskExplicitOutputArtifact task =
     list_ex (\<lambda>item.
       let normalized = trim item in
       starts_with (to_lower normalized) (js ''artifact:'') \<and>
       starts_with (trim_opt (nth_opt (take 2 (js_split (js '':'') normalized)) 1)) (js ''/''))
     (t_artifacts task)"

definition resolveFlowRuntimeState :: "task list \<Rightarrow> flow_runtime_state" where
  "resolveFlowRuntimeState tasks =
     (if tasks = [] then FlowIdle
      else if list_ex (\<lambda>task.
          let status = normalizeTaskStatus (status_str (t_status task)) in
          status = Running \<or> status = Queued) tasks then FlowRunning
      else if list_ex (\<lambda>task.
          let status = normalizeTaskStatus (status_str (t_status task)) in
          if status \<noteq> BlockedByApproval then False
          else
            let dispatchStatus = to_lower (task_extra task ''dispatch_status'') in
            dispatchStatus = js ''interrupted'' \<or> dispatchStatus = js ''stopped'' \<or>
            dispatchStatus = js ''blocked'') tasks then FlowBlocked
      else FlowIdle)"

fun getFlowRuntimeStateLabel :: "flow_runtime_state \<Rightarrow> jsstring" where
  "getFlowRuntimeStateLabel FlowRunning = [0x8FD0, 0x884C, 0x4E2D]"
| "getFlowRuntimeStateLabel FlowBlocked = [0x963B, 0x585E]"
| "getFlowRuntimeStateLabel FlowIdle = [0x7A7A, 0x95F2]"

definition toEpochMillis :: "(jsstring \<Rightarrow> rat option) \<Rightarrow> jsstring \<Rightarrow> rat" where
  "toEpochMillis parse_date value = nullish (parse_date value) 0"

section \<open>Lanes\<close>

definition normalizeDraftLanes :: "lane_item list \<Rightarrow> flow_lane list" where
  "normalizeDraftLanes lanes =
     filter (\<lambda>lane. l_id lane \<noteq> [])
       (map (\<lambda>lane. \<lparr>l_id = trim (li_id lane), l_name = str_or (trim (li_name lane)) unnamed_lane,
          l_instance_id = trim_or_null (li_instance_id lane),
          l_agent_id = trim_or_null (li_agent_id lane),
          l_created_at = li_created_at lane\<rparr>) lanes)"

definition first_lane_id :: "flow_lane list \<Rightarrow> jsstring" where
  "first_lane_id lanes = (case lanes of [] \<Rightarrow> [] | lane # _ \<Rightarrow> l_id lane)"

text \<open>The two indexes over the lanes: the last lane of a scope, the first lane of an agent.\<close>

definition lane_indexes :: "flow_lane list \<Rightarrow> (jsstring \<times> jsstring) list \<times> (jsstring \<times> jsstring) list" where
  "lane_indexes lanes =
     fold (\<lambda>lane (byScope, byAgent).
         let agentScopeKey = buildLaneAgentScopeKey (l_instance_id lane) (l_agent_id lane);
             normalizedAgentId = trim_opt (l_agent_id lane) in
         (if agentScopeKey \<noteq> [] then AList.update agentScopeKey (l_id lane) byScope else byScope,
          if normalizedAgentId \<noteq> [] \<and> \<not> map_has byAgent normalizedAgentId
          then AList.update normalizedAgentId (l_id lane) byAgent else byAgent))
       lanes ([], [])"

text \<open>The lane one node gets, None when the loop leaves it without one.\<close>

definition draft_node_lane :: "(jsstring \<times> jsstring) list \<Rightarrow> flow_lane list \<Rightarrow> jsstring option \<Rightarrow> flow_node
    \<Rightarrow> jsstring option" where
  "draft_node_lane nodeLaneById lanes fallbackAgentId node =
     (case lane_indexes lanes of (laneByAgentScope, laneByAgentId) \<Rightarrow>
      let persistedLaneId = trim_opt (map_of nodeLaneById (n_id node));
          nodeAgentId = trim_opt (n_agent_id node);
          nodeInstanceId = trim_opt (n_instance_id node);
          scopedKey = buildLaneAgentScopeKey (Some nodeInstanceId) (Some nodeAgentId);
          fallbackLaneId = first_lane_id lanes
      in if persistedLaneId \<noteq> [] \<and> persistedLaneId \<in> set (map l_id lanes) then Some persistedLaneId
         else if scopedKey \<noteq> [] \<and> map_has laneByAgentScope scopedKey then map_of laneByAgentScope scopedKey
         else if nodeAgentId \<noteq> [] \<and> map_has laneByAgentId nodeAgentId then map_of laneByAgentId nodeAgentId
         else if nullish fallbackAgentId [] \<noteq> [] \<and> map_has laneByAgentId (nullish fallbackAgentId [])
           then map_of laneByAgentId (nullish fallbackAgentId [])
         else if fallbackLaneId \<noteq> [] then Some fallbackLaneId else None)"

definition buildNodeLaneByIdFromDraft :: "(jsstring \<times> jsstring) list \<Rightarrow> flow_node list \<Rightarrow> flow_lane list
    \<Rightarrow> jsstring option \<Rightarrow> (jsstring \<times> jsstring) list" where
  "buildNodeLaneByIdFromDraft nodeLaneById nodes lanes fallbackAgentId =
     fold (\<lambda>node result.
         case draft_node_lane nodeLaneById lanes fallbackAgentId node of
           None \<Rightarrow> result
         | Some laneId \<Rightarrow> AList.update (n_id node) laneId result)
       nodes []"

definition has_agent_id :: "agent list \<Rightarrow> jsstring \<Rightarrow> bool" where
  "has_agent_id agents agentId \<longleftrightarrow> list_ex (\<lambda>agent. ag_agent_id agent = agentId) agents"

definition resolveExecutorAgentId :: "jsstring \<Rightarrow> agent list \<Rightarrow> flow_lane list \<Rightarrow> jsstring" where
  "resolveExecutorAgentId selectedAgentId agents lanes =
     (let normalizedSelectedAgentId = trim selectedAgentId in
      if normalizedSelectedAgentId \<noteq> []
      then (if has_agent_id agents normalizedSelectedAgentId then normalizedSelectedAgentId else [])
      else case find (\<lambda>laneAgentId. laneAgentId \<noteq> [] \<and> has_agent_id agents laneAgentId)
                  (map (\<lambda>lane. trim_opt (l_agent_id lane)) lanes) of
        Some laneAgentId \<Rightarrow> laneAgentId
      | None \<Rightarrow>
          let mainAgentId = nullish (map_option (\<lambda>agent. trim (ag_agent_id agent))
                (find (\<lambda>agent. trim (ag_agent_id agent) = js ''main'') agents)) []
          in if mainAgentId \<noteq> [] then mainAgentId
             else (case agents of [] \<Rightarrow> [] | agent # _ \<Rightarrow> trim (ag_agent_id agent)))"

text \<open>\<open>pushAgent\<close>: the seen scope keys and the agents that get a lane, in order.\<close>

definition push_agent :: "agent option \<Rightarrow> jsstring list \<times> agent list \<Rightarrow> jsstring list \<times> agent list" where
  "push_agent agent st =
     (case agent of
        None \<Rightarrow> st
      | Some agent \<Rightarrow>
          (case st of (seen, laneAgents) \<Rightarrow>
           let key = buildLaneAgentScopeKey (Some (ag_instance_id agent)) (Some (ag_agent_id agent)) in
           if key = [] \<or> key \<in> set seen then st else (seen @ [key], laneAgents @ [agent])))"

definition normalized_agents :: "agent list \<Rightarrow> agent list" where
  "normalized_agents agents =
     filter (\<lambda>agent. ag_agent_id agent \<noteq> []) (map (\<lambda>agent. agent\<lparr>ag_agent_id := trim (ag_agent_id agent)\<rparr>) agents)"

definition lane_agents :: "jsstring \<Rightarrow> agent list \<Rightarrow> agent list" where
  "lane_agents agentId normalizedAgents =
     (let mainAgent = find (\<lambda>agent. to_lower (trim (ag_agent_id agent)) = js ''main'' \<or>
                                    to_lower (trim (ag_agent_name agent)) = js ''main'') normalizedAgents;
          preferred = resolveExecutorAgentId agentId normalizedAgents [];
          st1 = push_agent mainAgent ([], []);
          st2 = (if preferred \<noteq> []
                 then push_agent (find (\<lambda>agent. ag_agent_id agent = preferred) normalizedAgents) st1 else st1)
      in snd (fold (\<lambda>agent. push_agent (Some agent)) normalizedAgents st2))"

definition buildInitialLanesFromAgent :: "jsstring \<Rightarrow> jsstring \<Rightarrow> agent list \<Rightarrow> flow_lane list" where
  "buildInitialLanesFromAgent now agentId agents =
     (let normalizedAgents = normalized_agents agents in
      if normalizedAgents = [] then
        (let normalizedAgentId = trim agentId in
         if normalizedAgentId \<noteq> []
         then [\<lparr>l_id = js ''lane_'' @ normalizedAgentId, l_name = normalizedAgentId, l_instance_id = None,
                l_agent_id = Some normalizedAgentId, l_created_at = now\<rparr>]
         else [\<lparr>l_id = js ''lane_unassigned'', l_name = unassigned_lane, l_instance_id = None,
                l_agent_id = None, l_created_at = now\<rparr>])
      else map (\<lambda>agent. \<lparr>l_id = js ''lane_'' @ ag_instance_id agent @ js ''_'' @ ag_agent_id agent,
                l_name = str_or (trim (ag_agent_name agent)) (ag_agent_id agent),
                l_instance_id = Some (ag_instance_id agent), l_agent_id = Some (ag_agent_id agent),
                l_created_at = now\<rparr>) (lane_agents agentId normalizedAgents))"

definition agent_names :: "agent list \<Rightarrow> (jsstring \<times> jsstring) list" where
  "agent_names agents =
     fold (\<lambda>agent names.
         let ident = trim (ag_agent_id agent) in
         if ident = [] then names else AList.update ident (str_or (trim (ag_agent_name agent)) ident) names)
       agents []"

text \<open>One node of the loop over (laneIdByAgent, lanes, nodeLaneById).\<close>

definition place_node :: "jsstring \<Rightarrow> (jsstring \<times> jsstring) list \<Rightarrow> jsstring option \<Rightarrow> flow_node
    \<Rightarrow> (jsstring \<times> jsstring) list \<times> flow_lane list \<times> (jsstring \<times> jsstring) list
    \<Rightarrow> (jsstring \<times> jsstring) list \<times> flow_lane list \<times> (jsstring \<times> jsstring) list" where
  "place_node now names fallbackAgentId node st =
     (case st of (laneIdByAgent, lanes, nodeLaneById) \<Rightarrow>
      let agentId = str_or (trim_opt (n_agent_id node)) (nullish fallbackAgentId []);
          instanceId = trim_opt (n_instance_id node);
          agentKey = str_or (buildLaneAgentScopeKey (Some instanceId) (Some agentId)) (js ''unassigned'')
      in if map_get laneIdByAgent agentKey [] = [] then
           (let laneId = (if agentKey = js ''unassigned'' then js ''lane_unassigned''
                          else js ''lane_'' @ lane_slug agentKey)
            in (AList.update agentKey laneId laneIdByAgent,
                lanes @ [\<lparr>l_id = laneId,
                  l_name = (if agentId \<noteq> [] then map_get names agentId agentId else unassigned_lane),
                  l_instance_id = non_empty instanceId, l_agent_id = non_empty agentId,
                  l_created_at = now\<rparr>],
                AList.update (n_id node) laneId nodeLaneById))
         else (laneIdByAgent, lanes,
               AList.update (n_id node) (map_get laneIdByAgent agentKey []) nodeLaneById))"

definition buildLanesAndNodeLaneMapFromNodes :: "jsstring \<Rightarrow> flow_node list \<Rightarrow> agent list \<Rightarrow> jsstring option
    \<Rightarrow> flow_lane list \<times> (jsstring \<times> jsstring) list" where
  "buildLanesAndNodeLaneMapFromNodes now nodes agents fallbackAgentId =
     (case fold (place_node now (agent_names agents) fallbackAgentId) nodes ([], [], []) of
        (_, lanes, nodeLaneById) \<Rightarrow>
          if lanes = [] then (buildInitialLanesFromAgent now (nullish fallbackAgentId []) agents, nodeLaneById)
          else (lanes, nodeLaneById))"

definition resolveNodeLaneId :: "jsstring \<Rightarrow> (jsstring \<times> jsstring) list \<Rightarrow> flow_lane list \<Rightarrow> jsstring" where
  "resolveNodeLaneId nodeId nodeLaneById lanes =
     (let persisted = trim_opt (map_of nodeLaneById nodeId) in
      if persisted \<noteq> [] \<and> list_ex (\<lambda>lane. l_id lane = persisted) lanes then persisted
      else first_lane_id lanes)"

definition buildPlannerSessionKey :: "jsstring \<Rightarrow> jsstring \<Rightarrow> jsstring \<Rightarrow> jsstring" where
  "buildPlannerSessionKey hex boardId plannerAgentId =
     js ''linpo:flow:'' @ str_or (trim boardId) (js ''default'') @ js '':planner:'' @
     str_or (trim plannerAgentId) DEFAULT_FLOW_PLANNER_SESSION_AGENT_SEGMENT @ js '':'' @ hex"

section \<open>Message lists\<close>

text \<open>What \<open>JSON.stringify\<close> keeps of a value: it determines the text, and the text it.\<close>

fun json_nf :: "json \<Rightarrow> json" where
  "json_nf (JNum x) = (if is_finite x then JNum x else JNull)"
| "json_nf (JArr xs) = JArr (map (\<lambda>x. case json_nf x of JUndef \<Rightarrow> JNull | y \<Rightarrow> y) xs)"
| "json_nf (JObj fs) = JObj (filter (\<lambda>(_, v). v \<noteq> JUndef) (map (\<lambda>(k, v). (k, json_nf v)) fs))"
| "json_nf v = v"

fun areFlowChatMessagesEqual :: "chat_message list \<Rightarrow> chat_message list \<Rightarrow> bool" where
  "areFlowChatMessagesEqual [] [] = True"
| "areFlowChatMessagesEqual (current # left) (next # right) =
     (if m_role current \<noteq> m_role next \<or> m_content current \<noteq> m_content next \<or>
         m_created_at current \<noteq> m_created_at next \<or>
         nullish (m_kind current) [] \<noteq> nullish (m_kind next) [] \<or>
         json_nf (nullish (m_payload current) JNull) \<noteq> json_nf (nullish (m_payload next) JNull)
      then False else areFlowChatMessagesEqual left right)"
| "areFlowChatMessagesEqual _ _ = False"

section \<open>Layers are longest paths\<close>

text \<open>The graph the drafts describe: an edge from a dependency to the draft that names it.\<close>

definition draft_edges :: "layer_draft list \<Rightarrow> (jsstring \<times> jsstring) set" where
  "draft_edges drafts = {(d, nd_id x) | d x. x \<in> set drafts \<and> d \<in> set (nd_depends_on x)}"

definition well_linked :: "layer_draft list \<Rightarrow> bool" where
  "well_linked drafts \<longleftrightarrow> distinct (map nd_id drafts) \<and>
     (\<forall>x \<in> set drafts. set (nd_depends_on x) \<subseteq> set (map nd_id drafts))"

lemma alist_update_new: "k \<notin> fst ` set m \<Longrightarrow> AList.update k v m = m @ [(k, v)]"
  by (induction m) auto

lemma layer_register_append:
  "distinct (map nd_id drafts) \<Longrightarrow> layer_register drafts =
     (map (\<lambda>x. (nd_id x, int (length (nd_depends_on x)))) drafts,
      map (\<lambda>x. (nd_id x, [])) drafts, map (\<lambda>x. (nd_id x, 0)) drafts)"
proof (induction drafts rule: rev_induct)
  case Nil
  then show ?case by (simp add: layer_register_def)
next
  case (snoc x xs)
  then have "nd_id x \<notin> nd_id ` set xs" by auto
  then show ?case using snoc by (simp add: layer_register_def alist_update_new image_image)
qed

lemma push_edge_get:
  "map_get (push_edge t dep g) d [] = (if d = dep \<and> map_has g d then map_get g d [] @ [t] else map_get g d [])"
  by (auto simp: push_edge_def map_has_def map_get_def split: option.splits)

lemma push_edge_has [simp]: "map_has (push_edge t dep g) d \<longleftrightarrow> map_has g d"
  by (auto simp: push_edge_def map_has_def split: option.splits)

lemma push_edges_has [simp]: "map_has (fold (push_edge t) ds g) d \<longleftrightarrow> map_has g d"
  by (induction ds arbitrary: g) auto

lemma push_edges_count:
  "map_has g d \<Longrightarrow> count_list (map_get (fold (push_edge t) ds g) d []) n =
     count_list (map_get g d []) n + (if n = t then count_list ds d else 0)"
  by (induction ds arbitrary: g) (auto simp: push_edge_get)

lemma layer_edges_has [simp]: "map_has (layer_edges drafts g) d \<longleftrightarrow> map_has g d"
  unfolding layer_edges_def by (induction drafts arbitrary: g) auto

lemma layer_edges_count:
  "map_has g d \<Longrightarrow> count_list (map_get (layer_edges drafts g) d []) n =
     count_list (map_get g d []) n +
     (\<Sum>x \<leftarrow> drafts. if n = nd_id x then count_list (nd_depends_on x) d else 0)"
  unfolding layer_edges_def
proof (induction drafts arbitrary: g)
  case Nil
  then show ?case by simp
next
  case (Cons x xs)
  then show ?case by (simp add: push_edges_count)
qed

lemma layer_edges_missing: "\<not> map_has g d \<Longrightarrow> map_get (layer_edges drafts g) d [] = []"
  using layer_edges_has [of drafts g d] by (simp add: map_has_def map_get_def)

lemma sum_list_only:
  "distinct (map f xs) \<Longrightarrow> x \<in> set xs \<Longrightarrow> (\<Sum>y \<leftarrow> xs. if f x = f y then h y else 0) = (h x :: nat)"
proof (induction xs)
  case Nil
  then show ?case by simp
next
  case (Cons y ys)
  show ?case
  proof (cases "x = y")
    case True
    have "(\<Sum>z \<leftarrow> ys. if f x = f z then h z else 0) = 0"
      using Cons.prems True by (auto simp: sum_list_eq_0_iff)
    then show ?thesis using True by simp
  next
    case False
    then have "x \<in> set ys" and "f x \<noteq> f y" using Cons.prems by (auto intro: rev_image_eqI)
    then show ?thesis using Cons by simp
  qed
qed

text \<open>The two maps the loop starts from, as a graph over the draft ids.\<close>

abbreviation draft_graph :: "layer_draft list \<Rightarrow> (jsstring \<times> jsstring list) list" where
  "draft_graph drafts \<equiv> layer_edges drafts (map (\<lambda>x. (nd_id x, [])) drafts)"

lemma draft_graph_count:
  assumes "well_linked drafts" and "x \<in> set drafts" and "d \<in> nd_id ` set drafts"
  shows "count_list (succs (draft_graph drafts) d) (nd_id x) = count_list (nd_depends_on x) d"
proof -
  let ?g = "map (\<lambda>x. (nd_id x, [] :: jsstring list)) drafts"
  have "map_has ?g d" using assms(3) by (simp add: map_has_iff image_image)
  moreover have "map_get ?g d [] = []"
    by (auto simp: map_get_def split: option.splits dest!: map_of_SomeD)
  moreover have "(\<Sum>y \<leftarrow> drafts. if nd_id x = nd_id y then count_list (nd_depends_on y) d else 0) =
      count_list (nd_depends_on x) d"
    using assms(1,2)
    by (intro sum_list_only [where h = "\<lambda>y. count_list (nd_depends_on y) d"]) (simp_all add: well_linked_def)
  ultimately show ?thesis by (simp add: succs_def layer_edges_count)
qed

lemma draft_graph_mem:
  assumes "well_linked drafts"
  shows "n \<in> set (succs (draft_graph drafts) d) \<longleftrightarrow>
    (\<exists>x \<in> set drafts. n = nd_id x \<and> d \<in> set (nd_depends_on x))"
proof (cases "d \<in> nd_id ` set drafts")
  case True
  show ?thesis
  proof (cases "n \<in> nd_id ` set drafts")
    case n: True
    then obtain x where x: "x \<in> set drafts" "n = nd_id x" by blast
    have "n \<in> set (succs (draft_graph drafts) d) \<longleftrightarrow> d \<in> set (nd_depends_on x)"
      using draft_graph_count [OF assms x(1) True] x(2) by (metis count_list_0_iff)
    moreover have "y = x" if "y \<in> set drafts" "n = nd_id y" for y
      using assms x that by (auto simp: well_linked_def distinct_map inj_on_def)
    ultimately show ?thesis using x by blast
  next
    case False
    let ?g = "map (\<lambda>x. (nd_id x, [] :: jsstring list)) drafts"
    have h: "map_has ?g d" using True by (simp add: map_has_iff image_image)
    have "map_get ?g d [] = []"
      by (auto simp: map_get_def split: option.splits dest!: map_of_SomeD)
    moreover have "(\<Sum>x \<leftarrow> drafts. if n = nd_id x then count_list (nd_depends_on x) d else 0) = 0"
      using False by (auto simp: sum_list_eq_0_iff)
    ultimately have "count_list (succs (draft_graph drafts) d) n = 0"
      by (simp add: succs_def layer_edges_count [OF h])
    then show ?thesis using False by (auto simp: count_list_0_iff)
  qed
next
  case False
  have "\<not> map_has (map (\<lambda>x. (nd_id x, [] :: jsstring list)) drafts) d"
    using False by (simp add: map_has_iff image_image)
  moreover have "d \<notin> set (nd_depends_on x)" if "x \<in> set drafts" for x
    using assms that False by (auto simp: well_linked_def)
  ultimately show ?thesis by (auto simp: succs_def layer_edges_missing)
qed

lemma draft_edge_rel:
  "well_linked drafts \<Longrightarrow> edge_rel (nd_id ` set drafts) (draft_graph drafts) = draft_edges drafts"
  by (auto simp: edge_rel_def draft_edges_def draft_graph_mem well_linked_def)

lemma draft_kahn_input:
  assumes "well_linked drafts"
  shows "kahn_input (nd_id ` set drafts) (draft_graph drafts)
    (map (\<lambda>x. (nd_id x, int (length (nd_depends_on x)))) drafts) (map (\<lambda>x. (nd_id x, 0)) drafts)"
proof -
  have d: "distinct (map nd_id drafts)" using assms by (simp add: well_linked_def)
  have "int (length (nd_depends_on x)) = int (in_count (draft_graph drafts) (nd_id ` set drafts) (nd_id x))"
    if "x \<in> set drafts" for x
    using that assms draft_graph_count [OF assms that]
    by (simp add: in_count_def sum_count_set well_linked_def)
  moreover have "map_get (map (\<lambda>x. (nd_id x, int (length (nd_depends_on x)))) drafts) (nd_id x) 0
      = int (length (nd_depends_on x))" if "x \<in> set drafts" for x
    using d that by (intro map_get_mem) (auto simp: o_def)
  moreover have "map_get (map (\<lambda>x. (nd_id x, 0 :: int)) drafts) n 0 = 0" for n
    by (auto simp: map_get_def split: option.splits dest!: map_of_SomeD)
  moreover have "graph_on (nd_id ` set drafts) (draft_graph drafts)"
    by (auto simp: graph_on_def draft_graph_mem [OF assms])
  ultimately show ?thesis using d by (auto simp: kahn_input_def image_image o_def)
qed

lemma layer_fallback_id:
  "(\<And>x. x \<in> set drafts \<Longrightarrow> map_has layer (nd_id x)) \<Longrightarrow> layer_fallback drafts layer = layer"
proof -
  assume h: "\<And>x. x \<in> set drafts \<Longrightarrow> map_has layer (nd_id x)"
  have "fst (fold (\<lambda>draft (layer, fallbackLayer).
         (if \<not> map_has layer (nd_id draft) then AList.update (nd_id draft) fallbackLayer layer else layer,
          fallbackLayer + 1)) ds (layer, k)) = layer" if "set ds \<subseteq> set drafts" for ds and k :: int
    using that by (induction ds arbitrary: k) (auto simp: h)
  then show ?thesis by (simp add: layer_fallback_def)
qed

lemma layer_register_keys: "x \<in> set drafts \<Longrightarrow> map_has (snd (snd (layer_register drafts))) (nd_id x)"
proof (induction drafts rule: rev_induct)
  case Nil
  then show ?case by simp
next
  case (snoc y ys)
  obtain i g l where "layer_register ys = (i, g, l)" by (cases "layer_register ys")
  then show ?case using snoc by (auto simp: layer_register_def)
qed

text \<open>Every draft is registered with a layer before the loop, so the fallback never applies.\<close>

lemma resolveNodeLayers_kahn:
  "resolveNodeLayers drafts =
     (case layer_register drafts of (indegree, graph, layer) \<Rightarrow>
        snd (kahn (layer_edges drafts graph) indegree layer))"
proof -
  obtain i g l where r: "layer_register drafts = (i, g, l)" by (cases "layer_register drafts")
  obtain v l' where k: "kahn (layer_edges drafts g) i l = (v, l')" by (cases "kahn (layer_edges drafts g) i l")
  have "fst ` set l \<subseteq> fst ` set l'"
    using kahn_keys [of l "layer_edges drafts g" "kahn_start i" "[]" i] k by (simp add: kahn_def)
  then have "map_has l' (nd_id x)" if "x \<in> set drafts" for x
    using layer_register_keys [OF that] r by (auto simp: map_has_iff)
  then show ?thesis using r k by (simp add: resolveNodeLayers_def layer_fallback_id)
qed

lemma resolveNodeLayers_has: "x \<in> set drafts \<Longrightarrow> map_has (resolveNodeLayers drafts) (nd_id x)"
proof -
  assume x: "x \<in> set drafts"
  obtain i g l where r: "layer_register drafts = (i, g, l)" by (cases "layer_register drafts")
  have "fst ` set l \<subseteq> fst ` set (snd (kahn (layer_edges drafts g) i l))"
    by (simp add: kahn_def kahn_keys)
  then show ?thesis using layer_register_keys [OF x] r
    by (auto simp: resolveNodeLayers_kahn map_has_iff)
qed

lemma resolveNodeLayers_layering:
  assumes "well_linked drafts" and "acyclic (draft_edges drafts)"
  shows "layering (draft_edges drafts) (nd_id ` set drafts) (\<lambda>n. map_get (resolveNodeLayers drafts) n 0)"
proof -
  let ?G = "draft_graph drafts"
  let ?i = "map (\<lambda>x. (nd_id x, int (length (nd_depends_on x)))) drafts" and ?l = "map (\<lambda>x. (nd_id x, 0)) drafts"
  obtain v l' where k: "kahn ?G ?i ?l = (v, l')" by (cases "kahn ?G ?i ?l")
  have "distinct (map nd_id drafts)" using assms(1) by (simp add: well_linked_def)
  then have "resolveNodeLayers drafts = l'"
    using k by (simp add: resolveNodeLayers_kahn layer_register_append)
  then show ?thesis
    using kahn_layering [OF draft_kahn_input [OF assms(1)] k] assms by (simp add: draft_edge_rel)
qed

text \<open>
  On a flow whose draft ids are distinct and whose dependencies all exist and form no cycle,
  the layer \<open>resolveNodeLayers\<close> gives a node is the length of the longest dependency chain that
  ends in it: no chain is longer and some chain has that length.
\<close>

lemma resolveNodeLayers_longest_chain:
  assumes "well_linked drafts" and "acyclic (draft_edges drafts)" and "x \<in> set drafts"
  shows "(\<forall>d k. (d, nd_id x) \<in> draft_edges drafts ^^ k \<longrightarrow> int k \<le> map_get (resolveNodeLayers drafts) (nd_id x) 0) \<and>
    (\<exists>d. (d, nd_id x) \<in> draft_edges drafts ^^ nat (map_get (resolveNodeLayers drafts) (nd_id x) 0))"
  using layering_upper [OF resolveNodeLayers_layering [OF assms(1,2)]]
    layering_attained [OF resolveNodeLayers_layering [OF assms(1,2)]] assms(3) by blast

theorem resolveNodeLayers_longest_chain_witness:
  "well_linked [sample_draft ''a'' [], sample_draft ''b'' [''a'']] \<and>
   acyclic (draft_edges [sample_draft ''a'' [], sample_draft ''b'' [''a'']]) \<and>
   (\<exists>d. (d, js ''b'') \<in> draft_edges [sample_draft ''a'' [], sample_draft ''b'' [''a'']]
     ^^ nat (map_get (resolveNodeLayers [sample_draft ''a'' [], sample_draft ''b'' [''a'']]) (js ''b'') 0))"
proof -
  let ?ds = "[sample_draft ''a'' [], sample_draft ''b'' [''a'']]"
  have w: "well_linked ?ds"
    by (auto simp: well_linked_def sample_draft_def)
  have e: "draft_edges ?ds = {(js ''a'', js ''b'')}"
    by (auto simp: draft_edges_def sample_draft_def intro!: exI [of _ "sample_draft ''b'' [''a'']"])
  have "acyclic (draft_edges ?ds)" unfolding e by (simp add: acyclic_insert wf_acyclic)
  then show ?thesis
    using w resolveNodeLayers_longest_chain [OF w, of "sample_draft ''b'' [''a'']"] by (simp add: sample_draft_def)
qed

section \<open>Lanes and executors\<close>

lemma lane_indexes_ran:
  "lane_indexes lanes = (byScope, byAgent) \<Longrightarrow>
     (map_of byScope k = Some v \<longrightarrow> v \<in> l_id ` set lanes) \<and> (map_of byAgent k = Some v \<longrightarrow> v \<in> l_id ` set lanes)"
proof (induction lanes arbitrary: byScope byAgent rule: rev_induct)
  case Nil
  then show ?case by (simp add: lane_indexes_def)
next
  case (snoc x xs)
  obtain s a where sa: "lane_indexes xs = (s, a)" by (cases "lane_indexes xs")
  then have "byScope = s \<or> byScope = AList.update (buildLaneAgentScopeKey (l_instance_id x) (l_agent_id x)) (l_id x) s"
    and "byAgent = a \<or> byAgent = AList.update (trim_opt (l_agent_id x)) (l_id x) a"
    using snoc.prems by (auto simp: lane_indexes_def Let_def split: if_splits)
  then show ?case using snoc.IH [OF sa] by (auto split: if_splits)
qed

lemma first_lane_id_mem: "first_lane_id lanes \<noteq> [] \<Longrightarrow> first_lane_id lanes \<in> l_id ` set lanes"
  by (cases lanes) (simp_all add: first_lane_id_def)

lemma draft_node_lane_mem:
  assumes "draft_node_lane m lanes f node = Some v"
  shows "v \<in> l_id ` set lanes"
proof -
  obtain s a where sa: "lane_indexes lanes = (s, a)" by (cases "lane_indexes lanes")
  show ?thesis
    using assms lane_indexes_ran [OF sa, of _ v] first_lane_id_mem [of lanes]
    by (simp add: draft_node_lane_def sa Let_def split: if_splits)
qed

lemma draft_node_lane_total: "first_lane_id lanes \<noteq> [] \<Longrightarrow> draft_node_lane m lanes f node \<noteq> None"
  by (cases "lane_indexes lanes") (simp add: draft_node_lane_def Let_def map_has_def)

lemma build_node_lane_snoc:
  "buildNodeLaneByIdFromDraft m (nodes @ [node]) lanes f =
     (case draft_node_lane m lanes f node of
        None \<Rightarrow> buildNodeLaneByIdFromDraft m nodes lanes f
      | Some v \<Rightarrow> AList.update (n_id node) v (buildNodeLaneByIdFromDraft m nodes lanes f))"
  by (cases "draft_node_lane m lanes f node") (simp_all add: buildNodeLaneByIdFromDraft_def)

lemma build_node_lane_mem:
  "map_of (buildNodeLaneByIdFromDraft m nodes lanes f) k = Some v \<Longrightarrow> v \<in> l_id ` set lanes \<and> k \<in> n_id ` set nodes"
proof (induction nodes rule: rev_induct)
  case Nil
  then show ?case by (simp add: buildNodeLaneByIdFromDraft_def)
next
  case (snoc node nodes)
  then show ?case
    by (auto simp: build_node_lane_snoc split: option.splits if_splits dest: draft_node_lane_mem)
qed

lemma build_node_lane_total:
  "first_lane_id lanes \<noteq> [] \<Longrightarrow> node \<in> set nodes \<Longrightarrow>
     map_of (buildNodeLaneByIdFromDraft m nodes lanes f) (n_id node) \<noteq> None"
proof (induction nodes rule: rev_induct)
  case Nil
  then show ?case by simp
next
  case (snoc x xs)
  then obtain v where "draft_node_lane m lanes f x = Some v"
    using draft_node_lane_total by blast
  then show ?case using snoc by (auto simp: build_node_lane_snoc)
qed

lemma normalizeDraftLanes_ids: "lane \<in> set (normalizeDraftLanes lanes) \<Longrightarrow> l_id lane \<noteq> [] \<and> trimmed (l_id lane)"
  by (auto simp: normalizeDraftLanes_def)

lemma first_normalized_lane: "normalizeDraftLanes lanes \<noteq> [] \<Longrightarrow> first_lane_id (normalizeDraftLanes lanes) \<noteq> []"
  using normalizeDraftLanes_ids [of "hd (normalizeDraftLanes lanes)" lanes]
  by (cases "normalizeDraftLanes lanes") (simp_all add: first_lane_id_def)

text \<open>
  Opening a draft never leaves a node without a lane or in a lane that is gone: once the draft
  has a usable lane, \<open>buildNodeLaneByIdFromDraft\<close> gives every node of the draft a lane, that lane
  is one of the draft's normalised lanes, and no other key is entered.
\<close>

lemma draft_lanes_cover_nodes:
  assumes "normalizeDraftLanes rawLanes \<noteq> []" and "node \<in> set nodes"
  shows "(\<exists>lane \<in> set (normalizeDraftLanes rawLanes).
      map_of (buildNodeLaneByIdFromDraft m nodes (normalizeDraftLanes rawLanes) f) (n_id node) = Some (l_id lane))
    \<and> fst ` set (buildNodeLaneByIdFromDraft m nodes (normalizeDraftLanes rawLanes) f) = n_id ` set nodes"
proof -
  let ?L = "normalizeDraftLanes rawLanes" and ?R = "buildNodeLaneByIdFromDraft m nodes (normalizeDraftLanes rawLanes) f"
  have tot: "map_of ?R (n_id x) \<noteq> None" if "x \<in> set nodes" for x
    using build_node_lane_total [OF first_normalized_lane [OF assms(1)] that] .
  then obtain v where v: "map_of ?R (n_id node) = Some v" using assms(2) by blast
  have "k \<in> fst ` set ?R \<longleftrightarrow> k \<in> n_id ` set nodes" for k
    using tot build_node_lane_mem [of m nodes ?L f k] by (metis imageE map_has_def map_has_iff option.exhaust)
  then show ?thesis using build_node_lane_mem [OF v] v by blast
qed

theorem draft_lanes_cover_nodes_witness:
  "normalizeDraftLanes [sample_lane '''' ''x'', sample_lane ''one'' ''main''] \<noteq> [] \<and>
   (\<exists>lane \<in> set (normalizeDraftLanes [sample_lane '''' ''x'', sample_lane ''one'' ''main'']).
      map_of (buildNodeLaneByIdFromDraft [(js ''a'', js ''gone'')] [sample_node ''a'' ''A'' []]
        (normalizeDraftLanes [sample_lane '''' ''x'', sample_lane ''one'' ''main'']) None) (js ''a'') = Some (l_id lane))"
proof -
  have ne: "normalizeDraftLanes [sample_lane '''' ''x'', sample_lane ''one'' ''main''] \<noteq> []"
    by (simp add: normalizeDraftLanes_def sample_lane_def char_white_def)
  then show ?thesis
    using draft_lanes_cover_nodes [OF ne, of "sample_node ''a'' ''A'' []" "[sample_node ''a'' ''A'' []]" "[(js ''a'', js ''gone'')]" None]
    by (simp add: sample_node_def)
qed

text \<open>The canvas keeps the node's agent: a persisted lane that still exists wins.\<close>

lemma draft_node_lane_persisted:
  "map_of m (n_id node) = Some v \<Longrightarrow> trimmed v \<Longrightarrow> v \<noteq> [] \<Longrightarrow> v \<in> l_id ` set lanes \<Longrightarrow>
     draft_node_lane m lanes f node = Some v"
  by (cases "lane_indexes lanes") (simp add: draft_node_lane_def trim_opt_def trimmed_def)

lemma has_agent_idD: "has_agent_id agents a \<Longrightarrow> \<exists>ag \<in> set agents. ag_agent_id ag = a"
  by (auto simp: has_agent_id_def list_ex_iff)

lemma find_map_SomeD: "find P (map f xs) = Some y \<Longrightarrow> P y \<and> (\<exists>x \<in> set xs. y = f x)"
  by (auto simp: find_Some_iff)

lemma resolveExecutor_cases:
  "resolveExecutorAgentId sel agents lanes = [] \<or>
   (\<exists>ag \<in> set agents. trim (ag_agent_id ag) = trim (resolveExecutorAgentId sel agents lanes))"
proof (cases "trim sel = []")
  case False
  then have r: "resolveExecutorAgentId sel agents lanes = (if has_agent_id agents (trim sel) then trim sel else [])"
    by (simp add: resolveExecutorAgentId_def)
  show ?thesis
  proof (cases "has_agent_id agents (trim sel)")
    case True
    then obtain ag where "ag \<in> set agents" "ag_agent_id ag = trim sel" using has_agent_idD by blast
    then show ?thesis using r True by (auto intro!: bexI [of _ ag])
  qed (simp add: r)
next
  case True
  let ?lane = "find (\<lambda>a. a \<noteq> [] \<and> has_agent_id agents a) (map (\<lambda>lane. trim_opt (l_agent_id lane)) lanes)"
  let ?main = "find (\<lambda>ag. trim (ag_agent_id ag) = js ''main'') agents"
  show ?thesis
  proof (cases ?lane)
    case (Some a)
    then have "has_agent_id agents a" by (auto dest: find_map_SomeD)
    then show ?thesis using True Some has_agent_idD [of agents a] by (auto simp: resolveExecutorAgentId_def)
  next
    case lane: None
    show ?thesis
    proof (cases ?main)
      case (Some ag)
      then have "ag \<in> set agents" "trim (ag_agent_id ag) = js ''main''" by (auto simp: find_Some_iff)
      then show ?thesis using True lane Some trim_trim [of "ag_agent_id ag"]
        by (auto simp: resolveExecutorAgentId_def Let_def intro!: bexI [of _ ag])
    next
      case None
      then show ?thesis using True lane by (cases agents) (auto simp: resolveExecutorAgentId_def Let_def)
    qed
  qed
qed

text \<open>
  \<open>resolveExecutorAgentId\<close> never invents an executor: a selection that names no known agent gives
  the empty id, and any other answer is the (trimmed) id of an agent of the overview.
\<close>

lemma resolveExecutorAgentId_known:
  "(if trim sel \<noteq> [] \<and> \<not> has_agent_id agents (trim sel)
    then resolveExecutorAgentId sel agents lanes = []
    else resolveExecutorAgentId sel agents lanes = [] \<or>
         trim (resolveExecutorAgentId sel agents lanes) \<in> (\<lambda>ag. trim (ag_agent_id ag)) ` set agents)"
proof (cases "trim sel \<noteq> [] \<and> \<not> has_agent_id agents (trim sel)")
  case True
  then show ?thesis by (simp add: resolveExecutorAgentId_def)
next
  case False
  then show ?thesis using resolveExecutor_cases [of sel agents lanes] by force
qed

end
