(* ===== verification/FlowGraph.thy ===== *)
theory FlowGraph imports FlowState begin

text \<open>
  \<open>components/flowPageGraphUtils.ts\<close>: the canvas graph. Building a flow from its tasks, cleaning
  nodes that come from a server, deriving edges, applying planner operations, reconciling a
  planner draft with the canvas, and the check before a flow is submitted. \<open>zh\<close> and \<open>en\<close> are
  \<open>a.localeCompare(b, 'zh-CN')\<close> and \<open>a.localeCompare(b, 'en')\<close>, collations of the host.
\<close>

section \<open>Tasks to a flow\<close>

definition groupTasksByRequirement :: "task list \<Rightarrow> (jsstring \<times> task list) list" where
  "groupTasksByRequirement tasks =
     fold (\<lambda>task grouped.
         let requirementId = getRequirementIdFromTask task in
         AList.update requirementId (map_get grouped requirementId [] @ [task]) grouped)
       tasks []"

text \<open>The steps of \<open>buildFlowSnapshotFromTasks\<close> in their order.\<close>

definition created_le :: "(jsstring \<Rightarrow> rat option) \<Rightarrow> task \<Rightarrow> task \<Rightarrow> bool" where
  "created_le parse_date a b \<longleftrightarrow>
     toEpochMillis parse_date (t_created_at a) - toEpochMillis parse_date (t_created_at b) \<le> 0"

definition snapshot_dedup :: "(jsstring \<Rightarrow> rat option) \<Rightarrow> task list \<Rightarrow> (jsstring \<times> task) list" where
  "snapshot_dedup parse_date sortedTasks =
     fold (\<lambda>task byNode.
         case map_of byNode (getFlowNodeId task) of
           None \<Rightarrow> AList.update (getFlowNodeId task) task byNode
         | Some existing \<Rightarrow>
             if toEpochMillis parse_date (t_updated_at existing) \<le> toEpochMillis parse_date (t_updated_at task)
             then AList.update (getFlowNodeId task) task byNode else byNode)
       sortedTasks []"

definition snapshot_tasks :: "(jsstring \<Rightarrow> rat option) \<Rightarrow> task list \<Rightarrow> task list" where
  "snapshot_tasks parse_date tasks =
     sort_by (created_le parse_date)
       (map snd (snapshot_dedup parse_date (sort_by (created_le parse_date) tasks)))"

definition snapshot_draft :: "task \<Rightarrow> layer_draft" where
  "snapshot_draft task =
     \<lparr>nd_id = getFlowNodeId task, nd_title = t_title task,
      nd_description = str_or (str_or (task_extra task ''flow_node_description'') (t_summary task)) [],
      nd_depends_on = parseDependencies (map_of (t_extras task) (js ''dependencies'')),
      nd_sensitive = (to_lower (nullish (map_of (t_extras task) (js ''sensitive'')) []) = js ''true''),
      nd_status = normalizeTaskStatus (status_str (t_status task)),
      nd_instance_id = t_instance_id task, nd_agent_id = t_agent_id task\<rparr>"

definition snapshot_drafts :: "task list \<Rightarrow> layer_draft list" where
  "snapshot_drafts effectiveTasks =
     map (\<lambda>draft. draft\<lparr>nd_depends_on := filter (\<lambda>dep. dep \<noteq> nd_id draft \<and> dep \<in> set (map getFlowNodeId effectiveTasks))
                          (nd_depends_on draft)\<rparr>)
       (map snapshot_draft effectiveTasks)"

definition scoped_agent_key :: "layer_draft \<Rightarrow> jsstring" where
  "scoped_agent_key draft =
     (let instanceKey = trim_opt (nd_instance_id draft); agentKey = trim_opt (nd_agent_id draft) in
      if agentKey \<noteq> [] then instanceKey @ js ''::'' @ agentKey else js ''unassigned'')"

definition snapshot_groups :: "layer_draft list \<Rightarrow> (jsstring \<times> layer_draft list) list" where
  "snapshot_groups drafts =
     fold (\<lambda>draft groups. AList.update (scoped_agent_key draft) (map_get groups (scoped_agent_key draft) [] @ [draft]) groups)
       drafts []"

definition snapshot_names :: "agent list \<Rightarrow> (jsstring \<times> jsstring) list" where
  "snapshot_names agents =
     fold (\<lambda>agent. AList.update (ag_agent_id agent) (str_or (trim (ag_agent_name agent)) (ag_agent_id agent))) agents []"

definition snapshot_lane_id :: "jsstring \<Rightarrow> jsstring" where
  "snapshot_lane_id agentScopeKey =
     (if agentScopeKey = js ''unassigned'' then js ''lane_unassigned'' else js ''lane_'' @ lane_slug agentScopeKey)"

text \<open>The lane pushed for a group: the destructuring \<open>[instanceId = '', agentKey = '']\<close> of the split key.\<close>

definition snapshot_lane :: "jsstring \<Rightarrow> (jsstring \<times> jsstring) list \<Rightarrow> jsstring \<Rightarrow> flow_lane" where
  "snapshot_lane createdAt nameByAgentId agentScopeKey =
     (let parts = take 2 (js_split (js ''::'') agentScopeKey);
          instanceId = nullish (nth_opt parts 0) []; agentKey = nullish (nth_opt parts 1) []
      in \<lparr>l_id = snapshot_lane_id agentScopeKey,
          l_name = (if agentKey = js ''unassigned'' then unassigned_lane else map_get nameByAgentId agentKey agentKey),
          l_instance_id = non_empty instanceId,
          l_agent_id = (if agentKey = js ''unassigned'' then None else Some agentKey),
          l_created_at = createdAt\<rparr>)"

definition layer_then_id_le :: "(jsstring \<Rightarrow> jsstring \<Rightarrow> int) \<Rightarrow> (jsstring \<times> int) list \<Rightarrow> layer_draft \<Rightarrow> layer_draft \<Rightarrow> bool" where
  "layer_then_id_le en layerMap left right =
     (let layerDiff = map_get layerMap (nd_id left) 0 - map_get layerMap (nd_id right) 0 in
      if layerDiff \<noteq> 0 then layerDiff \<le> 0 else en (nd_id left) (nd_id right) \<le> 0)"

definition snapshot_node :: "(jsstring \<times> int) list \<Rightarrow> nat \<Rightarrow> layer_draft \<Rightarrow> flow_node" where
  "snapshot_node layerMap index draft =
     (let layer = map_get layerMap (nd_id draft) 0 + 1 in
      \<lparr>n_id = nd_id draft, n_title = nd_title draft, n_description = Some (nd_description draft),
       n_depends_on = nd_depends_on draft,
       n_x = jint (NODE_DEFAULT_MARGIN + (layer - 1) * 160),
       n_y = jint (NODE_DEFAULT_MARGIN + int index * NODE_VERTICAL_GAP),
       n_layer = jint layer, n_sensitive = nd_sensitive draft, n_status = nd_status draft,
       n_agent_id = nd_agent_id draft, n_instance_id = nd_instance_id draft\<rparr>)"

text \<open>The loop over the sorted groups: lanes, lane of each node, nodes.\<close>

definition snapshot_canvas :: "(jsstring \<Rightarrow> jsstring \<Rightarrow> int) \<Rightarrow> (jsstring \<times> int) list \<Rightarrow> jsstring \<Rightarrow>
    (jsstring \<times> jsstring) list \<Rightarrow> (jsstring \<times> layer_draft list) list
    \<Rightarrow> flow_lane list \<times> (jsstring \<times> jsstring) list \<times> flow_node list" where
  "snapshot_canvas en layerMap createdAt names entries =
     fold (\<lambda>(agentScopeKey, laneNodes) (lanes, nodeLaneById, nodes).
         let sortedNodes = sort_by (layer_then_id_le en layerMap) laneNodes in
         (lanes @ [snapshot_lane createdAt names agentScopeKey],
          fold (\<lambda>draft. AList.update (nd_id draft) (snapshot_lane_id agentScopeKey)) sortedNodes nodeLaneById,
          nodes @ map2 (snapshot_node layerMap) [0..<length sortedNodes] sortedNodes))
       entries ([], [], [])"

definition edge_id :: "jsstring \<Rightarrow> jsstring \<Rightarrow> jsstring" where
  "edge_id dependency target = js ''edge-'' @ dependency @ js ''-'' @ target"

definition snapshot_edges :: "layer_draft list \<Rightarrow> flow_edge list" where
  "snapshot_edges drafts =
     concat (map (\<lambda>draft. map (\<lambda>dependency.
         \<lparr>e_id = edge_id dependency (nd_id draft), e_source = dependency, e_target = nd_id draft\<rparr>)
       (nd_depends_on draft)) drafts)"

definition head_opt :: "'a list \<Rightarrow> 'a option" where
  "head_opt xs = (case xs of [] \<Rightarrow> None | x # _ \<Rightarrow> Some x)"

definition head_extra :: "task list \<Rightarrow> string \<Rightarrow> jsstring" where
  "head_extra tasks key = (case tasks of [] \<Rightarrow> [] | t # _ \<Rightarrow> task_extra t key)"

definition execution_prefix :: "jsstring \<Rightarrow> jsstring" where
  "execution_prefix executionSessionKey =
     (if executionSessionKey \<noteq> [] \<and> 58 \<in> set executionSessionKey
      then js_join (js '':'') (butlast (js_split (js '':'') executionSessionKey))
      else js ''linpo:flow:default:exec'')"

definition buildFlowSnapshotFromTasks :: "(jsstring \<Rightarrow> rat option) \<Rightarrow> jsstring \<Rightarrow> (jsstring \<Rightarrow> jsstring \<Rightarrow> int) \<Rightarrow>
    (jsstring \<Rightarrow> jsstring \<Rightarrow> int) \<Rightarrow> jsstring \<Rightarrow> task list \<Rightarrow> agent list \<Rightarrow> flow_snapshot" where
  "buildFlowSnapshotFromTasks parse_date now zh en requirementId tasks agents =
     (let effectiveTasks = snapshot_tasks parse_date tasks;
          normalizedDrafts = snapshot_drafts effectiveTasks;
          layerMap = resolveNodeLayers normalizedDrafts;
          entries = sort_by (\<lambda>l r. zh (fst l) (fst r) \<le> 0) (snapshot_groups normalizedDrafts);
          createdAt = nullish (map_option t_created_at (head_opt effectiveTasks)) now;
          edges = snapshot_edges normalizedDrafts
      in case snapshot_canvas en layerMap createdAt (snapshot_names agents) entries of
           (lanes, nodeLaneById, nodes) \<Rightarrow>
         \<lparr>fs_requirement_id = requirementId,
          fs_requirement_title = getRequirementTitleFromTask (head_opt effectiveTasks),
          fs_updated_at = fold (\<lambda>task latest.
              if toEpochMillis parse_date latest < toEpochMillis parse_date (t_updated_at task)
              then t_updated_at task else latest)
            effectiveTasks (nullish (map_option t_updated_at (head_opt effectiveTasks)) now),
          fs_nodes = nodes, fs_edges = edges, fs_lanes = lanes, fs_node_lane_by_id = nodeLaneById,
          fs_last_response =
            \<lparr>gr_board_id = nullish (map_option t_board_id (head_opt effectiveTasks)) (js ''default''),
             gr_planner_session_key = str_or (head_extra effectiveTasks ''planner_session_key'')
               (js ''linpo:flow:default:planner:'' @ DEFAULT_FLOW_PLANNER_SESSION_AGENT_SEGMENT @ js '':loaded''),
             gr_manager_session_key = str_or (head_extra effectiveTasks ''manager_session_key'') (js ''linpo:flow:default:manager''),
             gr_execution_session_prefix = execution_prefix (head_extra effectiveTasks ''execution_session_key''),
             gr_nodes = nodes, gr_edges = edges, gr_messages = [],
             gr_created_task_ids = map t_id effectiveTasks\<rparr>,
          fs_executor_agent_id = trim_opt (case effectiveTasks of [] \<Rightarrow> None | t # _ \<Rightarrow> t_agent_id t)\<rparr>)"

section \<open>Cleaning nodes\<close>

text \<open>
  A node as \<open>normalizeFlowNodes\<close> is prepared to see it: every field the code tests at run time
  may be missing (\<open>None\<close>); \<open>r_depends_on\<close> is None when it is not an array.
\<close>

record raw_node =
  r_id :: "jsstring option"
  r_title :: "jsstring option"
  r_description :: "jsstring option"
  r_depends_on :: "jsstring list option"
  r_x :: jsnum
  r_y :: jsnum
  r_layer :: jsnum
  r_sensitive :: bool
  r_status :: "jsstring option"
  r_agent_id :: "jsstring option"
  r_instance_id :: "jsstring option"

definition raw_of_node :: "flow_node \<Rightarrow> raw_node" where
  "raw_of_node n = \<lparr>r_id = Some (n_id n), r_title = Some (n_title n), r_description = n_description n,
     r_depends_on = Some (n_depends_on n), r_x = n_x n, r_y = n_y n, r_layer = n_layer n,
     r_sensitive = n_sensitive n, r_status = Some (status_str (n_status n)),
     r_agent_id = n_agent_id n, r_instance_id = n_instance_id n\<rparr>"

definition dependency_map :: "flow_edge list \<Rightarrow> (jsstring \<times> jsstring list) list" where
  "dependency_map fallbackEdges =
     fold (\<lambda>edge deps.
         let source = trim (e_source edge); target = trim (e_target edge) in
         if source = [] \<or> target = [] \<or> source = target then deps
         else let sources = map_get deps target [] in
         if source \<in> set sources then deps else AList.update target (sources @ [source]) deps)
       fallbackEdges []"

definition raw_ids :: "raw_node list \<Rightarrow> jsstring list" where
  "raw_ids nodes = filter (\<lambda>nodeId. nodeId \<noteq> []) (map (\<lambda>node. trim_opt (r_id node)) nodes)"

definition normalize_node :: "(jsstring \<times> jsstring list) list \<Rightarrow> jsstring list \<Rightarrow> raw_node \<Rightarrow> flow_node" where
  "normalize_node dependencyMap nodeIds node =
     (let nodeId = trim_opt (r_id node);
          rawDependsOn = (case r_depends_on node of Some ds \<Rightarrow> ds | None \<Rightarrow> map_get dependencyMap nodeId []);
          normalizedDependsOn = filter (\<lambda>dependency. dependency \<in> set nodeIds)
            (uniq (filter (\<lambda>dependency. dependency \<noteq> [] \<and> dependency \<noteq> nodeId) (map trim rawDependsOn)))
      in \<lparr>n_id = nodeId, n_title = trim_opt (r_title node), n_description = r_description node,
          n_depends_on = normalizedDependsOn,
          n_x = (if is_finite (r_x node) then r_x node else jint NODE_DEFAULT_MARGIN),
          n_y = (if is_finite (r_y node) then r_y node else jint NODE_DEFAULT_MARGIN),
          n_layer = (if is_finite (r_layer node) \<and> jsnum_pos (r_layer node) then r_layer node else jint 1),
          n_sensitive = r_sensitive node,
          n_status = normalizeTaskStatus (nullish (r_status node) (js ''queued'')),
          n_agent_id = trim_or_null (r_agent_id node),
          n_instance_id = trim_or_null (r_instance_id node)\<rparr>)"

definition normalizeFlowNodes :: "raw_node list \<Rightarrow> flow_edge list \<Rightarrow> flow_node list" where
  "normalizeFlowNodes nodes fallbackEdges =
     filter (\<lambda>node. n_id node \<noteq> [] \<and> n_title node \<noteq> [])
       (map (normalize_node (dependency_map fallbackEdges) (raw_ids nodes)) nodes)"

section \<open>Edges\<close>

definition derive_edge :: "jsstring list \<Rightarrow> flow_node \<Rightarrow> jsstring \<Rightarrow> flow_edge list \<times> jsstring list
    \<Rightarrow> flow_edge list \<times> jsstring list" where
  "derive_edge nodeIds node dependency st =
     (case st of (result, seen) \<Rightarrow>
      if dependency \<notin> set nodeIds \<or> dependency = n_id node then st
      else let ident = edge_id dependency (n_id node) in
      if ident \<in> set seen then st
      else (result @ [\<lparr>e_id = ident, e_source = dependency, e_target = n_id node\<rparr>], seen @ [ident]))"

definition deriveEdgesFromNodes :: "flow_node list \<Rightarrow> flow_edge list" where
  "deriveEdgesFromNodes nodes =
     fst (fold (\<lambda>node. fold (derive_edge (map n_id nodes) node) (n_depends_on node)) nodes ([], []))"

section \<open>Planner operations\<close>

definition draft_of_node :: "flow_node \<Rightarrow> node_draft" where
  "draft_of_node node =
     \<lparr>d_id = n_id node, d_title = n_title node, d_description = Some (nullish (n_description node) []),
      d_depends_on = n_depends_on node, d_sensitive = n_sensitive node\<rparr>"

fun apply_operation :: "node_operation \<Rightarrow> jsstring list \<times> (jsstring \<times> node_draft) list
    \<Rightarrow> jsstring list \<times> (jsstring \<times> node_draft) list" where
  "apply_operation (UpsertNode node) (orderedIds, byId) =
     ((if map_has byId (d_id node) then orderedIds else orderedIds @ [d_id node]),
      AList.update (d_id node) node byId)"
| "apply_operation (DeleteNode nodeId) (orderedIds, byId) = (orderedIds, AList.delete nodeId byId)"

definition operations_start :: "flow_node list \<Rightarrow> jsstring list \<times> (jsstring \<times> node_draft) list" where
  "operations_start currentNodes =
     (map n_id currentNodes,
      fold (\<lambda>node. AList.update (n_id node) (draft_of_node node)) currentNodes [])"

definition operations_result :: "jsstring list \<times> (jsstring \<times> node_draft) list \<Rightarrow> node_draft list" where
  "operations_result st =
     (case st of (orderedIds, byId) \<Rightarrow>
        map (\<lambda>nodeId. the (map_of byId nodeId)) (filter (map_has byId) orderedIds))"

definition applyPlannerNodeOperations :: "flow_node list \<Rightarrow> node_operation list \<Rightarrow> node_draft list" where
  "applyPlannerNodeOperations currentNodes operations =
     operations_result (fold apply_operation operations (operations_start currentNodes))"

section \<open>Reconciling a planner draft with the canvas\<close>

text \<open>
  \<open>sort_with cmp xs\<close> is \<open>xs.sort(cmp)\<close>. The comparator of the reconciliation mixes two orders
  (previous position when both nodes were on the canvas, layer otherwise), so it need not be
  consistent, and then the language fixes only that the result is a rearrangement: the sort is an
  argument of the model.
\<close>

definition reconcile_drafts :: "node_draft list \<Rightarrow> layer_draft list" where
  "reconcile_drafts draftNodes =
     filter (\<lambda>node. nd_id node \<noteq> [] \<and> nd_title node \<noteq> [])
       (map (\<lambda>node. \<lparr>nd_id = trim (d_id node), nd_title = trim (d_title node),
              nd_description = nullish (d_description node) [],
              nd_depends_on = uniq (filter (\<lambda>dependency. dependency \<noteq> []) (map trim (d_depends_on node))),
              nd_sensitive = d_sensitive node, nd_status = Queued, nd_instance_id = None, nd_agent_id = None\<rparr>)
         draftNodes)"

definition nodes_by_id :: "flow_node list \<Rightarrow> (jsstring \<times> flow_node) list" where
  "nodes_by_id previousNodes = fold (\<lambda>node. AList.update (n_id node) node) previousNodes []"

definition lanes_by_agent :: "flow_lane list \<Rightarrow> (jsstring \<times> jsstring) list" where
  "lanes_by_agent lanes =
     fold (\<lambda>lane m. if nullish (l_agent_id lane) [] \<noteq> [] then AList.update (nullish (l_agent_id lane) []) (l_id lane) m else m)
       lanes []"

definition reconcile_fallback_lane :: "flow_lane list \<Rightarrow> jsstring option \<Rightarrow> jsstring" where
  "reconcile_fallback_lane lanes fallbackAgentId =
     str_or (str_or (if nullish fallbackAgentId [] \<noteq> [] then map_get (lanes_by_agent lanes) (nullish fallbackAgentId []) [] else [])
                    (first_lane_id lanes))
            (js ''lane_unassigned'')"

definition reconcile_lane :: "(jsstring \<times> flow_node) list \<Rightarrow> (jsstring \<times> jsstring) list \<Rightarrow> flow_lane list \<Rightarrow>
    jsstring option \<Rightarrow> jsstring \<Rightarrow> jsstring" where
  "reconcile_lane previousById previousNodeLaneById lanes fallbackAgentId draftId =
     (let persistedLaneId = trim_opt (map_of previousNodeLaneById draftId);
          previousAgentId = trim_opt (case map_of previousById draftId of None \<Rightarrow> None | Some node \<Rightarrow> n_agent_id node)
      in if persistedLaneId \<noteq> [] \<and> persistedLaneId \<in> set (map l_id lanes) then persistedLaneId
         else if previousAgentId \<noteq> [] \<and> map_has (lanes_by_agent lanes) previousAgentId
           then map_get (lanes_by_agent lanes) previousAgentId []
         else reconcile_fallback_lane lanes fallbackAgentId)"

definition reconcile_lane_map :: "(jsstring \<times> flow_node) list \<Rightarrow> (jsstring \<times> jsstring) list \<Rightarrow> flow_lane list \<Rightarrow>
    jsstring option \<Rightarrow> layer_draft list \<Rightarrow> (jsstring \<times> jsstring) list" where
  "reconcile_lane_map previousById previousNodeLaneById lanes fallbackAgentId drafts =
     fold (\<lambda>draft. AList.update (nd_id draft)
         (reconcile_lane previousById previousNodeLaneById lanes fallbackAgentId (nd_id draft))) drafts []"

definition reconcile_layer_draft :: "(jsstring \<times> flow_node) list \<Rightarrow> (jsstring \<times> jsstring) list \<Rightarrow> flow_lane list \<Rightarrow>
    jsstring option \<Rightarrow> jsstring list \<Rightarrow> layer_draft \<Rightarrow> layer_draft" where
  "reconcile_layer_draft previousById nextNodeLaneById lanes fallbackAgentId draftIds draft =
     (let previousNode = map_of previousById (nd_id draft);
          lane = find (\<lambda>item. l_id item = map_get nextNodeLaneById (nd_id draft) []) lanes
      in draft\<lparr>nd_depends_on := filter (\<lambda>dependency. dependency \<noteq> nd_id draft \<and> dependency \<in> set draftIds) (nd_depends_on draft),
           nd_status := nullish (map_option n_status previousNode) Queued,
           nd_instance_id := nullish_opt (nullish_opt (Option.bind previousNode n_instance_id) (Option.bind lane l_instance_id)) None,
           nd_agent_id := nullish_opt (nullish_opt (Option.bind previousNode n_agent_id) (Option.bind lane l_agent_id)) fallbackAgentId\<rparr>)"

text \<open>The sign of \<open>left.y - right.y\<close>; not-a-number counts as 0, as the code's \<open>||\<close> has it.\<close>

fun jsnum_cmp :: "jsnum \<Rightarrow> jsnum \<Rightarrow> int" where
  "jsnum_cmp (Fin a) (Fin b) = (if a < b then -1 else if a = b then 0 else 1)"
| "jsnum_cmp NaN _ = 0"
| "jsnum_cmp _ NaN = 0"
| "jsnum_cmp PosInf PosInf = 0"
| "jsnum_cmp NegInf NegInf = 0"
| "jsnum_cmp PosInf _ = 1"
| "jsnum_cmp NegInf _ = -1"
| "jsnum_cmp _ PosInf = -1"
| "jsnum_cmp _ NegInf = 1"

definition reconcile_cmp :: "(jsstring \<Rightarrow> jsstring \<Rightarrow> int) \<Rightarrow> (jsstring \<times> flow_node) list \<Rightarrow> (jsstring \<times> int) list
    \<Rightarrow> layer_draft \<Rightarrow> layer_draft \<Rightarrow> int" where
  "reconcile_cmp en previousById layerMap left right =
     (let byLayer = (let layerDiff = map_get layerMap (nd_id left) 0 - map_get layerMap (nd_id right) 0 in
                     if layerDiff \<noteq> 0 then layerDiff else en (nd_id left) (nd_id right))
      in case (map_of previousById (nd_id left), map_of previousById (nd_id right)) of
           (Some previousLeft, Some previousRight) \<Rightarrow>
             (let d = jsnum_cmp (n_y previousLeft) (n_y previousRight) in
              if d \<noteq> 0 then d else en (nd_id left) (nd_id right))
         | _ \<Rightarrow> byLayer)"

definition reconcile_node :: "(jsstring \<times> flow_node) list \<Rightarrow> (jsstring \<times> int) list \<Rightarrow> flow_lane \<Rightarrow> jsstring option
    \<Rightarrow> nat \<Rightarrow> layer_draft \<Rightarrow> flow_node" where
  "reconcile_node previousById layerMap lane fallbackAgentId index draft =
     (let previousNode = map_of previousById (nd_id draft);
          layer = map_get layerMap (nd_id draft) 0 + 1
      in \<lparr>n_id = nd_id draft, n_title = nd_title draft, n_description = Some (nd_description draft),
          n_depends_on = nd_depends_on draft,
          n_x = jint (NODE_DEFAULT_MARGIN + (layer - 1) * 160),
          n_y = nullish (map_option n_y previousNode) (jint (NODE_DEFAULT_MARGIN + int index * NODE_VERTICAL_GAP)),
          n_layer = jint layer, n_sensitive = nd_sensitive draft,
          n_status = nullish (map_option n_status previousNode) Queued,
          n_agent_id = nullish_opt (nullish_opt (l_agent_id lane) (Option.bind previousNode n_agent_id)) fallbackAgentId,
          n_instance_id = nullish_opt (nullish_opt (l_instance_id lane) (Option.bind previousNode n_instance_id)) None\<rparr>)"

definition drafts_by_lane :: "(jsstring \<times> jsstring) list \<Rightarrow> layer_draft list \<Rightarrow> (jsstring \<times> layer_draft list) list" where
  "drafts_by_lane nextNodeLaneById drafts =
     fold (\<lambda>draft m. let laneId = map_get nextNodeLaneById (nd_id draft) [] in
         AList.update laneId (map_get m laneId [] @ [draft]) m) drafts []"

definition reconcilePlannerCanvasState ::
  "((layer_draft \<Rightarrow> layer_draft \<Rightarrow> int) \<Rightarrow> layer_draft list \<Rightarrow> layer_draft list) \<Rightarrow> jsstring \<Rightarrow>
   (jsstring \<Rightarrow> jsstring \<Rightarrow> int) \<Rightarrow> node_draft list \<Rightarrow> flow_node list \<Rightarrow> (jsstring \<times> jsstring) list \<Rightarrow>
   flow_lane list \<Rightarrow> agent list \<Rightarrow> jsstring option \<Rightarrow>
   flow_node list \<times> flow_lane list \<times> (jsstring \<times> jsstring) list" where
  "reconcilePlannerCanvasState sort_with now en draftNodes previousNodes previousNodeLaneById currentLanes agents fallbackAgentId =
     (let normalizedDrafts = reconcile_drafts draftNodes;
          previousById = nodes_by_id previousNodes;
          lanes = (if currentLanes \<noteq> [] then currentLanes
                   else buildInitialLanesFromAgent now (nullish fallbackAgentId []) agents);
          nextNodeLaneById = reconcile_lane_map previousById previousNodeLaneById lanes fallbackAgentId normalizedDrafts;
          nodeDraftsForLayer = map (reconcile_layer_draft previousById nextNodeLaneById lanes fallbackAgentId
            (map nd_id normalizedDrafts)) normalizedDrafts;
          layerMap = resolveNodeLayers nodeDraftsForLayer;
          nodesByLane = drafts_by_lane nextNodeLaneById nodeDraftsForLayer;
          nextNodes = concat (map (\<lambda>lane.
            let laneDrafts = sort_with (reconcile_cmp en previousById layerMap) (map_get nodesByLane (l_id lane) []) in
            map2 (reconcile_node previousById layerMap lane fallbackAgentId) [0..<length laneDrafts] laneDrafts) lanes)
      in (nextNodes, lanes, nextNodeLaneById))"

section \<open>Before a flow is submitted\<close>

text \<open>The three errors \<open>prepareNodesForSubmission\<close> throws, with their messages.\<close>

datatype prepare_error = SelfLoopError | CycleError | NoAgentError

fun prepare_message :: "prepare_error \<Rightarrow> jsstring" where
  "prepare_message SelfLoopError = [0x68C0, 0x6D4B, 0x5230, 0x81EA, 0x73AF, 0x8FDE, 0x63A5, 0xFF0C, 0x8BF7,
     0x4FEE, 0x6B63, 0x540E, 0x518D, 0x63D0, 0x4EA4]"
| "prepare_message CycleError = [0x6D41, 0x7A0B, 0x5B58, 0x5728, 0x73AF, 0x8DEF, 0xFF0C, 0x65E0, 0x6CD5,
     0x63D0, 0x4EA4, 0x3002, 0x8BF7, 0x68C0, 0x67E5, 0x8282, 0x70B9, 0x8FDE, 0x63A5, 0x5173, 0x7CFB, 0x3002]"
| "prepare_message NoAgentError = [0x6CA1, 0x6709, 0x53EF, 0x7528] @ js '' Agent '' @
     [0x8FDB, 0x884C, 0x4EFB, 0x52A1, 0x5206, 0x914D]"

text \<open>One dependency of one node: the skips, then the edge and its degree.\<close>

definition submit_edge :: "jsstring list \<Rightarrow> jsstring \<Rightarrow> jsstring \<Rightarrow> (jsstring \<times> jsstring list) list \<times> (jsstring \<times> int) list
    \<Rightarrow> (jsstring \<times> jsstring list) list \<times> (jsstring \<times> int) list" where
  "submit_edge nodeIds nodeId dependency st =
     (case st of (graph, indegree) \<Rightarrow>
      if dependency \<notin> set nodeIds \<or> dependency = nodeId then st
      else if \<not> map_has graph dependency then st
      else if nodeId \<in> set (map_get graph dependency []) then st
      else (AList.update dependency (map_get graph dependency [] @ [nodeId]) graph,
            AList.update nodeId (map_get indegree nodeId 0 + 1) indegree))"

definition submit_start :: "jsstring list \<Rightarrow> 'v \<Rightarrow> (jsstring \<times> 'v) list" where
  "submit_start nodeIds v = fold (\<lambda>nodeId. AList.update nodeId v) nodeIds []"

definition submit_graph :: "flow_node list \<Rightarrow> (jsstring \<times> jsstring list) list \<times> (jsstring \<times> int) list" where
  "submit_graph nodes =
     fold (\<lambda>node. fold (submit_edge (map n_id nodes) (n_id node)) (n_depends_on node)) nodes
       (submit_start (map n_id nodes) [], submit_start (map n_id nodes) 0)"

definition submit_pool :: "jsstring \<Rightarrow> jsstring list \<Rightarrow> jsstring list" where
  "submit_pool fallbackAgentId availableAgentIds =
     uniq (filter (\<lambda>ident. ident \<noteq> []) (trim fallbackAgentId # map trim availableAgentIds))"

text \<open>\<open>laneById\<close>: the last lane of an id.\<close>

definition lane_by_id :: "flow_lane list \<Rightarrow> (jsstring \<times> flow_lane) list" where
  "lane_by_id lanes = fold (\<lambda>lane. AList.update (l_id lane) lane) lanes []"

text \<open>The final \<open>nodes.map\<close>, whose callback counts the nodes per layer.\<close>

fun assign_nodes :: "jsstring list \<Rightarrow> (jsstring \<times> int) list \<Rightarrow> (jsstring \<times> jsstring) list \<Rightarrow> flow_lane list \<Rightarrow> jsstring list
    \<Rightarrow> (int \<times> int) list \<Rightarrow> flow_node list \<Rightarrow> flow_node list" where
  "assign_nodes nodeIds depth nodeLaneById lanes pool offsets [] = []"
| "assign_nodes nodeIds depth nodeLaneById lanes pool offsets (node # nodes) =
     (let layer = map_get depth (n_id node) 0 + 1;
          lane = map_of (lane_by_id lanes) (resolveNodeLaneId (n_id node) nodeLaneById lanes);
          laneAgent = Option.bind lane l_agent_id;
          levelOffset = map_get offsets layer 0;
          assignedAgent = str_or
            (str_or (if nullish laneAgent [] \<noteq> [] \<and> nullish laneAgent [] \<in> set pool then nullish laneAgent [] else [])
                    (nullish (nth_opt pool (nat ((layer + levelOffset) mod int (length pool)))) []))
            (nullish (nth_opt pool 0) [])
      in node\<lparr>n_depends_on := uniq (filter (\<lambda>dependency. dependency \<noteq> n_id node \<and> dependency \<in> set nodeIds) (n_depends_on node)),
              n_layer := jint layer,
              n_instance_id := nullish_opt (nullish_opt (Option.bind lane l_instance_id) (n_instance_id node)) None,
              n_agent_id := Some assignedAgent\<rparr>
         # assign_nodes nodeIds depth nodeLaneById lanes pool (AList.update layer (levelOffset + 1) offsets) nodes)"

definition prepareNodesForSubmission :: "flow_node list \<Rightarrow> (jsstring \<times> jsstring) list \<Rightarrow> flow_lane list \<Rightarrow> jsstring list
    \<Rightarrow> jsstring \<Rightarrow> prepare_error + flow_node list" where
  "prepareNodesForSubmission nodes nodeLaneById lanes availableAgentIds fallbackAgentId =
     (case submit_graph nodes of (graph, indegree) \<Rightarrow>
      if list_ex (\<lambda>node. n_id node \<in> set (n_depends_on node)) nodes then Inl SelfLoopError
      else case kahn graph indegree (submit_start (map n_id nodes) 0) of (visited, depth) \<Rightarrow>
      if length visited \<noteq> length nodes then Inl CycleError
      else let pool = submit_pool fallbackAgentId availableAgentIds in
      if pool = [] then Inl NoAgentError
      else Inr (assign_nodes (map n_id nodes) depth nodeLaneById lanes pool [] nodes))"

end
