(* ===== verification/FlowSubmit.thy ===== *)
theory FlowSubmit imports FlowGraph begin

text \<open>
  Correctness of \<open>prepareNodesForSubmission\<close> (flowPageGraphUtils.ts): exactly which flows it
  accepts, with which error it refuses the others, and what it hands to the server.
\<close>

section \<open>The graph of a flow\<close>

text \<open>The dependencies the check takes into account: those between two different nodes of the flow.\<close>

definition flow_edges :: "flow_node list \<Rightarrow> (jsstring \<times> jsstring) set" where
  "flow_edges nodes = {(d, n_id x) | d x. x \<in> set nodes \<and> d \<in> set (n_depends_on x) \<and>
     d \<in> n_id ` set nodes \<and> d \<noteq> n_id x}"

abbreviation flow_ids :: "flow_node list \<Rightarrow> jsstring set" where
  "flow_ids nodes \<equiv> n_id ` set nodes"

text \<open>What registering edges keeps: the degree map counts the edges of the graph.\<close>

definition submit_inv :: "jsstring set \<Rightarrow> (jsstring \<times> jsstring list) list \<times> (jsstring \<times> int) list \<Rightarrow> bool" where
  "submit_inv K st \<longleftrightarrow> (case st of (graph, indegree) \<Rightarrow>
     finite K \<and> graph_on K graph \<and> (\<forall>k. map_has graph k \<longleftrightarrow> k \<in> K) \<and>
     distinct (map fst indegree) \<and> fst ` set indegree = K \<and>
     (\<forall>n \<in> K. map_get indegree n 0 = int (in_count graph K n)))"

lemma submit_start_keys: "fst ` set (submit_start ids v) = set ids"
proof (induction ids rule: rev_induct)
  case Nil
  then show ?case by (simp add: submit_start_def)
next
  case (snoc x xs)
  then show ?case by (simp add: submit_start_def dom_update)
qed

lemma submit_start_distinct: "distinct (map fst (submit_start ids v))"
proof (induction ids rule: rev_induct)
  case Nil
  then show ?case by (simp add: submit_start_def)
next
  case (snoc x xs)
  then show ?case by (simp add: submit_start_def distinct_update)
qed

lemma submit_start_get: "map_get (submit_start ids v) n d = (if n \<in> set ids then v else d)"
proof (induction ids rule: rev_induct)
  case Nil
  then show ?case by (simp add: submit_start_def)
next
  case (snoc x xs)
  then show ?case by (simp add: submit_start_def)
qed

lemma submit_start_inv:
  "submit_inv (set ids) (submit_start ids [], submit_start ids 0)"
  by (simp add: submit_inv_def graph_on_def succs_def submit_start_get submit_start_keys
      submit_start_distinct map_has_iff in_count_def)

lemma in_count_update:
  assumes "finite K" and "d \<in> K"
  shows "in_count (AList.update d (succs g d @ [t]) g) K n = in_count g K n + (if n = t then 1 else 0)"
proof -
  let ?g = "AList.update d (succs g d @ [t]) g"
  have "succs ?g x = (if x = d then succs g d @ [t] else succs g x)" for x
    by (simp add: succs_def)
  then have "in_count ?g (K - {d}) n = in_count g (K - {d}) n"
    by (simp add: in_count_def)
  moreover have "count_list (succs ?g d) n = count_list (succs g d) n + (if n = t then 1 else 0)"
    by (simp add: succs_def)
  ultimately show ?thesis
    using in_count_remove [OF assms, of ?g n] in_count_remove [OF assms, of g n] by simp
qed

lemma submit_edge_inv:
  assumes "submit_inv (set ids) st" and "t \<in> set ids"
  shows "submit_inv (set ids) (submit_edge ids t d st)"
proof -
  obtain g i where st: "st = (g, i)" by (cases st)
  show ?thesis
  proof (cases "d \<in> set ids \<and> d \<noteq> t \<and> map_has g d \<and> t \<notin> set (map_get g d [])")
    case False
    then show ?thesis using assms(1) st by (auto simp: submit_edge_def)
  next
    case True
    let ?g = "AList.update d (map_get g d [] @ [t]) g" and ?i = "AList.update t (map_get i t 0 + 1) i"
    have new: "submit_edge ids t d st = (?g, ?i)" using True st by (simp add: submit_edge_def)
    have h: "graph_on (set ids) g" "\<forall>k. map_has g k \<longleftrightarrow> k \<in> set ids" "distinct (map fst i)"
        "fst ` set i = set ids" "\<forall>n \<in> set ids. map_get i n 0 = int (in_count g (set ids) n)"
      using assms(1) st by (simp_all add: submit_inv_def)
    have "graph_on (set ids) ?g" using h(1) assms(2) True by (auto simp: graph_on_def succs_def)
    moreover have "map_has ?g k \<longleftrightarrow> k \<in> set ids" for k using h(2) True by auto
    moreover have "distinct (map fst ?i)" using h(3) by (rule distinct_update)
    moreover have "fst ` set ?i = set ids" using h(4) assms(2) by (auto simp: dom_update)
    moreover have "map_get ?i n 0 = int (in_count ?g (set ids) n)" if "n \<in> set ids" for n
      using in_count_update [of "set ids" d g t n] True h(5) that assms(2) by (auto simp: succs_def)
    ultimately show ?thesis by (simp add: new submit_inv_def)
  qed
qed

lemma submit_edges_inv:
  "submit_inv (set ids) st \<Longrightarrow> t \<in> set ids \<Longrightarrow> submit_inv (set ids) (fold (submit_edge ids t) ds st)"
  by (induction ds arbitrary: st) (simp_all add: submit_edge_inv)

lemma submit_nodes_inv:
  "submit_inv (set ids) st \<Longrightarrow> n_id ` set ns \<subseteq> set ids \<Longrightarrow>
     submit_inv (set ids) (fold (\<lambda>node. fold (submit_edge ids (n_id node)) (n_depends_on node)) ns st)"
  by (induction ns arbitrary: st) (simp_all add: submit_edges_inv)

lemma submit_graph_inv: "submit_inv (flow_ids nodes) (submit_graph nodes)"
proof -
  have "submit_inv (set (map n_id nodes)) (submit_graph nodes)"
    unfolding submit_graph_def by (rule submit_nodes_inv) (rule submit_start_inv, simp)
  then show ?thesis by simp
qed

text \<open>Which edges the graph holds.\<close>

lemma submit_edge_succs:
  assumes "\<forall>k. map_has (fst st) k \<longleftrightarrow> k \<in> set ids"
  shows "n \<in> set (succs (fst (submit_edge ids t d st)) k) \<longleftrightarrow>
      n \<in> set (succs (fst st) k) \<or> (n = t \<and> k = d \<and> d \<in> set ids \<and> d \<noteq> t)"
    and "\<forall>k. map_has (fst (submit_edge ids t d st)) k \<longleftrightarrow> k \<in> set ids"
  using assms by (cases st; auto simp: submit_edge_def succs_def)+

lemma submit_edges_succs:
  assumes "\<forall>k. map_has (fst st) k \<longleftrightarrow> k \<in> set ids"
  shows "(n \<in> set (succs (fst (fold (submit_edge ids t) ds st)) k) \<longleftrightarrow>
      n \<in> set (succs (fst st) k) \<or> (n = t \<and> k \<in> set ds \<and> k \<in> set ids \<and> k \<noteq> t)) \<and>
    (\<forall>k. map_has (fst (fold (submit_edge ids t) ds st)) k \<longleftrightarrow> k \<in> set ids)"
  using assms
proof (induction ds arbitrary: st)
  case Nil
  then show ?case by simp
next
  case (Cons d ds)
  then show ?case
    using Cons.IH [OF submit_edge_succs(2) [OF Cons.prems, of t d]]
      submit_edge_succs(1) [OF Cons.prems, of n t d k] by auto
qed

lemma submit_nodes_succs:
  assumes "\<forall>k. map_has (fst st) k \<longleftrightarrow> k \<in> set ids"
  shows "n \<in> set (succs (fst (fold (\<lambda>node. fold (submit_edge ids (n_id node)) (n_depends_on node)) ns st)) k) \<longleftrightarrow>
      n \<in> set (succs (fst st) k) \<or>
      (\<exists>x \<in> set ns. n = n_id x \<and> k \<in> set (n_depends_on x) \<and> k \<in> set ids \<and> k \<noteq> n)"
  using assms
proof (induction ns arbitrary: st)
  case Nil
  then show ?case by simp
next
  case (Cons x xs)
  have h: "\<forall>k. map_has (fst (fold (submit_edge ids (n_id x)) (n_depends_on x) st)) k \<longleftrightarrow> k \<in> set ids"
    using submit_edges_succs [OF Cons.prems] by blast
  show ?case
    using Cons.IH [OF h] submit_edges_succs [OF Cons.prems, of n "n_id x" "n_depends_on x" k] by auto
qed

lemma submit_edge_rel: "edge_rel (flow_ids nodes) (fst (submit_graph nodes)) = flow_edges nodes"
proof -
  have "\<forall>k. map_has (submit_start (map n_id nodes) ([] :: jsstring list)) k \<longleftrightarrow> k \<in> set (map n_id nodes)"
    by (simp add: map_has_iff submit_start_keys)
  then have "n \<in> set (succs (fst (submit_graph nodes)) k) \<longleftrightarrow>
      (\<exists>x \<in> set nodes. n = n_id x \<and> k \<in> set (n_depends_on x) \<and> k \<in> flow_ids nodes \<and> k \<noteq> n)" for n k
    unfolding submit_graph_def by (subst submit_nodes_succs) (simp_all add: succs_def submit_start_get)
  then show ?thesis by (auto simp: edge_rel_def flow_edges_def)
qed

section \<open>Acceptance\<close>

lemma submit_kahn_input:
  "submit_graph nodes = (graph, indegree) \<Longrightarrow>
     kahn_input (flow_ids nodes) graph indegree (submit_start (map n_id nodes) 0)"
  using submit_graph_inv [of nodes]
  by (simp add: submit_inv_def kahn_input_def submit_start_get)

lemma submit_visits:
  assumes "submit_graph nodes = (graph, indegree)"
    and "kahn graph indegree (submit_start (map n_id nodes) 0) = (visited, depth)"
  shows "length visited = length nodes \<longleftrightarrow> distinct (map n_id nodes) \<and> acyclic (flow_edges nodes)"
    and "acyclic (flow_edges nodes) \<Longrightarrow> layering (flow_edges nodes) (flow_ids nodes) (\<lambda>n. map_get depth n 0)"
proof -
  note k = kahn_correct [OF submit_kahn_input [OF assms(1)] assms(2)]
  have e: "edge_rel (flow_ids nodes) graph = flow_edges nodes"
    using submit_edge_rel [of nodes] assms(1) by simp
  have "card (flow_ids nodes) \<le> length nodes"
    using card_length [of "map n_id nodes"] by simp
  moreover have "length visited \<le> card (flow_ids nodes)"
    using k(1,2) by (metis card_mono distinct_card finite_imageI finite_set)
  moreover have "card (flow_ids nodes) = length nodes \<longleftrightarrow> distinct (map n_id nodes)"
    using card_distinct [of "map n_id nodes"] distinct_card [of "map n_id nodes"] by auto
  ultimately show "length visited = length nodes \<longleftrightarrow> distinct (map n_id nodes) \<and> acyclic (flow_edges nodes)"
    using k(3) e by auto
  show "layering (flow_edges nodes) (flow_ids nodes) (\<lambda>n. map_get depth n 0)"
    if "acyclic (flow_edges nodes)"
    using kahn_layering [OF submit_kahn_input [OF assms(1)] assms(2)] that e by simp
qed

definition self_dependent :: "flow_node list \<Rightarrow> bool" where
  "self_dependent nodes \<longleftrightarrow> (\<exists>x \<in> set nodes. n_id x \<in> set (n_depends_on x))"

text \<open>The layers \<open>prepareNodesForSubmission\<close> computes, its \<open>depth\<close> map after the loop.\<close>

definition submit_depth :: "flow_node list \<Rightarrow> (jsstring \<times> int) list" where
  "submit_depth nodes =
     (case submit_graph nodes of (graph, indegree) \<Rightarrow>
        snd (kahn graph indegree (submit_start (map n_id nodes) 0)))"

lemma prepare_eq:
  "prepareNodesForSubmission nodes m lanes available fallback =
     (if self_dependent nodes then Inl SelfLoopError
      else if \<not> (distinct (map n_id nodes) \<and> acyclic (flow_edges nodes)) then Inl CycleError
      else if submit_pool fallback available = [] then Inl NoAgentError
      else Inr (assign_nodes (map n_id nodes) (submit_depth nodes) m lanes (submit_pool fallback available) [] nodes))"
proof -
  obtain g i where gi: "submit_graph nodes = (g, i)" by (cases "submit_graph nodes")
  obtain v d where vd: "kahn g i (submit_start (map n_id nodes) 0) = (v, d)"
    by (cases "kahn g i (submit_start (map n_id nodes) 0)")
  have s: "list_ex (\<lambda>node. n_id node \<in> set (n_depends_on node)) nodes \<longleftrightarrow> self_dependent nodes"
    by (simp add: self_dependent_def list_ex_iff)
  show ?thesis
    by (simp only: prepareNodesForSubmission_def gi vd prod.case s submit_visits(1) [OF gi vd] submit_depth_def snd_conv Let_def)
qed

lemma submit_depth_layering:
  "acyclic (flow_edges nodes) \<Longrightarrow>
     layering (flow_edges nodes) (flow_ids nodes) (\<lambda>n. map_get (submit_depth nodes) n 0)"
proof -
  assume a: "acyclic (flow_edges nodes)"
  obtain g i where gi: "submit_graph nodes = (g, i)" by (cases "submit_graph nodes")
  obtain v d where vd: "kahn g i (submit_start (map n_id nodes) 0) = (v, d)"
    by (cases "kahn g i (submit_start (map n_id nodes) 0)")
  show ?thesis using submit_visits(2) [OF gi vd a] by (simp add: submit_depth_def gi vd)
qed

section \<open>What is submitted\<close>

lemma assign_nodes_ids: "map n_id (assign_nodes ids depth m lanes pool offsets nodes) = map n_id nodes"
  by (induction nodes arbitrary: offsets) (simp_all add: Let_def)

lemma submit_pool_nonempty: "a \<in> set (submit_pool fallback available) \<Longrightarrow> a \<noteq> []"
  by (auto simp: submit_pool_def split: if_splits)

lemma assigned_agent_mem:
  assumes "pool \<noteq> []" and "[] \<notin> set pool"
  shows "str_or (str_or (if a \<noteq> [] \<and> a \<in> set pool then a else [])
       (nullish (nth_opt pool (nat (k mod int (length pool)))) [])) (nullish (nth_opt pool 0) []) \<in> set pool"
proof -
  have "nat (k mod int (length pool)) < length pool" using assms(1) by (simp add: nat_less_iff)
  then show ?thesis using assms by (auto simp: str_or_def nth_opt_def)
qed

text \<open>Each node handed over is the canvas node with four fields recomputed.\<close>

definition submitted :: "flow_node list \<Rightarrow> jsstring list \<Rightarrow> flow_node \<Rightarrow> flow_node \<Rightarrow> bool" where
  "submitted nodes pool x y \<longleftrightarrow> (\<exists>inst a. a \<in> set pool \<and>
     y = x\<lparr>n_depends_on := uniq (filter (\<lambda>d. d \<noteq> n_id x \<and> d \<in> flow_ids nodes) (n_depends_on x)),
           n_layer := jint (map_get (submit_depth nodes) (n_id x) 0 + 1),
           n_instance_id := inst, n_agent_id := Some a\<rparr>)"

lemma submittedD:
  "submitted nodes pool x y \<Longrightarrow> n_id y = n_id x \<and>
     set (n_depends_on y) = {d \<in> set (n_depends_on x). d \<noteq> n_id x \<and> d \<in> flow_ids nodes}"
  by (auto simp: submitted_def)

lemma flow_edgesI:
  "x \<in> set nodes \<Longrightarrow> d \<in> set (n_depends_on x) \<Longrightarrow> d \<in> flow_ids nodes \<Longrightarrow> d \<noteq> n_id x \<Longrightarrow>
     (d, n_id x) \<in> flow_edges nodes"
  unfolding flow_edges_def by blast

lemma submittedI:
  "a \<in> set pool \<Longrightarrow> submitted nodes pool x
     (x\<lparr>n_depends_on := uniq (filter (\<lambda>d. d \<noteq> n_id x \<and> d \<in> set (map n_id nodes)) (n_depends_on x)),
       n_layer := jint (map_get (submit_depth nodes) (n_id x) 0 + 1), n_instance_id := inst, n_agent_id := Some a\<rparr>)"
  unfolding submitted_def set_map by blast

lemma assign_nodes_submitted:
  assumes "pool \<noteq> []" and "[] \<notin> set pool"
  shows "list_all2 (submitted nodes pool) ns
    (assign_nodes (map n_id nodes) (submit_depth nodes) m lanes pool offsets ns)"
proof (induction ns arbitrary: offsets)
  case Nil
  then show ?case by simp
next
  case (Cons x xs)
  show ?case
    unfolding assign_nodes.simps Let_def list_all2_Cons
    by (intro conjI submittedI assigned_agent_mem [OF assms] Cons.IH)
qed

lemma prepare_Inr:
  assumes "prepareNodesForSubmission nodes m lanes available fallback = Inr out"
  shows "distinct (map n_id nodes)" and "acyclic (flow_edges nodes)" and "\<not> self_dependent nodes"
    and "map n_id out = map n_id nodes"
    and "list_all2 (submitted nodes (submit_pool fallback available)) nodes out"
proof -
  let ?pool = "submit_pool fallback available"
  have c: "\<not> self_dependent nodes" "distinct (map n_id nodes)" "acyclic (flow_edges nodes)" "?pool \<noteq> []"
    and out: "out = assign_nodes (map n_id nodes) (submit_depth nodes) m lanes ?pool [] nodes"
    using assms by (auto simp: prepare_eq split: if_splits)
  show "distinct (map n_id nodes)" "acyclic (flow_edges nodes)" "\<not> self_dependent nodes" by fact+
  show "map n_id out = map n_id nodes" by (simp add: out assign_nodes_ids)
  show "list_all2 (submitted nodes ?pool) nodes out"
    unfolding out by (rule assign_nodes_submitted) (use c submit_pool_nonempty in auto)
qed

lemma list_all2_mem2: "list_all2 R xs ys \<Longrightarrow> y \<in> set ys \<Longrightarrow> \<exists>x \<in> set xs. R x y"
  by (metis in_set_conv_nth list_all2_conv_all_nth)

lemma list_all2_mem1: "list_all2 R xs ys \<Longrightarrow> x \<in> set xs \<Longrightarrow> \<exists>y \<in> set ys. R x y"
  by (metis in_set_conv_nth list_all2_conv_all_nth)

lemma prepared_node:
  assumes "prepareNodesForSubmission nodes m lanes available fallback = Inr out" and "y \<in> set out"
  obtains x a where "x \<in> set nodes" and "n_id y = n_id x"
    and "n_depends_on y = uniq (filter (\<lambda>d. d \<noteq> n_id x \<and> d \<in> flow_ids nodes) (n_depends_on x))"
    and "n_layer y = jint (map_get (submit_depth nodes) (n_id x) 0 + 1)"
    and "n_agent_id y = Some a" and "a \<in> set (submit_pool fallback available)"
proof -
  obtain x where "x \<in> set nodes" "submitted nodes (submit_pool fallback available) x y"
    using list_all2_mem2 [OF prepare_Inr(5) [OF assms(1)] assms(2)] by blast
  then show thesis using that by (auto simp: submitted_def)
qed

text \<open>
  \<open>prepareNodesForSubmission\<close> refuses a flow for exactly these reasons, tested in this order: a
  node depends on itself; two nodes share an id or the dependencies form a cycle; no agent id is
  left after trimming. Every other flow is accepted.
\<close>

lemma prepareNodesForSubmission_errors:
  "prepareNodesForSubmission nodes m lanes available fallback = Inl e \<longleftrightarrow>
     (if self_dependent nodes then e = SelfLoopError
      else if \<not> (distinct (map n_id nodes) \<and> acyclic (flow_edges nodes)) then e = CycleError
      else submit_pool fallback available = [] \<and> e = NoAgentError)"
  by (auto simp: prepare_eq)

text \<open>
  C35: In an accepted flow the layers follow the dependencies: a node's layer is one more than the
  length of the longest dependency chain below it (no chain is longer, and one has that length).
\<close>

theorem prepared_layer_is_longest_chain:
  assumes "prepareNodesForSubmission nodes m lanes available fallback = Inr out" and "y \<in> set out"
  shows "\<exists>k. n_layer y = jint (int k + 1) \<and>
    (\<exists>d. (d, n_id y) \<in> flow_edges nodes ^^ k) \<and>
    (\<forall>j d. (d, n_id y) \<in> flow_edges nodes ^^ j \<longrightarrow> j \<le> k)"
proof -
  obtain x where x: "x \<in> set nodes" "n_id y = n_id x"
      "n_layer y = jint (map_get (submit_depth nodes) (n_id x) 0 + 1)"
    using assms by (rule prepared_node)
  have lay: "layering (flow_edges nodes) (flow_ids nodes) (\<lambda>n. map_get (submit_depth nodes) n 0)"
    by (rule submit_depth_layering [OF prepare_Inr(2) [OF assms(1)]])
  have mem: "n_id y \<in> flow_ids nodes" using x by simp
  let ?k = "nat (map_get (submit_depth nodes) (n_id y) 0)"
  have "0 \<le> map_get (submit_depth nodes) (n_id y) 0" by (rule layering_nonneg [OF lay mem])
  moreover have "\<exists>d. (d, n_id y) \<in> flow_edges nodes ^^ ?k" by (rule layering_attained [OF lay mem])
  moreover have "(d, n_id y) \<in> flow_edges nodes ^^ j \<Longrightarrow> j \<le> ?k" for j d
    using layering_upper [OF lay mem] by fastforce
  ultimately show ?thesis using x by (intro exI [of _ ?k]) simp
qed

lemma flow_two_accepted:
  "\<exists>out. prepareNodesForSubmission [sample_node ''b'' ''B'' [''a''], sample_node ''a'' ''A'' []] [] [] [] (js ''main'') = Inr out
     \<and> map n_layer out = [jint 2, jint 1]"
  by (simp add: prepareNodesForSubmission_def submit_graph_def submit_start_def submit_edge_def sample_node_def
      kahn_def kahn_start_def submit_pool_def char_white_def uniq_def Let_def n_positive_def map_get_def map_has_def)

theorem prepared_layer_is_longest_chain_witness:
  "\<exists>out y. prepareNodesForSubmission [sample_node ''b'' ''B'' [''a''], sample_node ''a'' ''A'' []] [] [] [] (js ''main'') = Inr out
     \<and> y \<in> set out \<and> (\<exists>k. n_layer y = jint (int k + 1) \<and>
       (\<exists>d. (d, n_id y) \<in> flow_edges [sample_node ''b'' ''B'' [''a''], sample_node ''a'' ''A'' []] ^^ k))"
proof -
  obtain out where out: "prepareNodesForSubmission [sample_node ''b'' ''B'' [''a''], sample_node ''a'' ''A'' []] [] [] [] (js ''main'') = Inr out"
      "map n_layer out = [jint 2, jint 1]"
    using flow_two_accepted by (elim exE conjE)
  from out(2) have "out \<noteq> []" by (metis list.discI list.map_disc_iff)
  then have y: "hd out \<in> set out" by (rule hd_in_set)
  obtain k d where k: "n_layer (hd out) = jint (int k + 1)"
      "(d, n_id (hd out)) \<in> flow_edges [sample_node ''b'' ''B'' [''a''], sample_node ''a'' ''A'' []] ^^ k"
    using prepared_layer_is_longest_chain [OF out(1) y] by metis
  show ?thesis using out(1) y k by (intro exI conjI)
qed

text \<open>
  C1: What is submitted is closed and executable: the ids are those of the canvas in the same
  order, each node lists every dependency of the flow once, only nodes of the flow, each on a
  strictly lower layer, and runs on an agent of the available pool.
\<close>

theorem prepared_flow_executable:
  assumes "prepareNodesForSubmission nodes m lanes available fallback = Inr out"
  shows "map n_id out = map n_id nodes \<and> flow_edges out = flow_edges nodes \<and>
    (\<forall>y \<in> set out. distinct (n_depends_on y) \<and>
       (\<exists>a. n_agent_id y = Some a \<and> a \<in> set (submit_pool fallback available)) \<and>
       (\<forall>d \<in> set (n_depends_on y). \<exists>z \<in> set out. \<exists>i j. n_id z = d \<and>
          n_layer z = jint i \<and> n_layer y = jint j \<and> i < j))"
proof (intro conjI ballI)
  note all2 = prepare_Inr(5) [OF assms]
  have lay: "layering (flow_edges nodes) (flow_ids nodes) (\<lambda>n. map_get (submit_depth nodes) n 0)"
    by (rule submit_depth_layering [OF prepare_Inr(2) [OF assms]])
  show ids: "map n_id out = map n_id nodes" by (rule prepare_Inr(4) [OF assms])
  then have idset: "flow_ids out = flow_ids nodes" by (metis set_map)
  show "flow_edges out = flow_edges nodes"
  proof (intro set_eqI iffI)
    fix e assume "e \<in> flow_edges out"
    then obtain d y where y: "e = (d, n_id y)" "y \<in> set out" "d \<in> set (n_depends_on y)" "d \<in> flow_ids out" "d \<noteq> n_id y"
      by (auto simp: flow_edges_def)
    obtain x where "x \<in> set nodes" "submitted nodes (submit_pool fallback available) x y"
      using list_all2_mem2 [OF all2 y(2)] by blast
    then show "e \<in> flow_edges nodes" using y(1,3) flow_edgesI [of x nodes d] submittedD by fastforce
  next
    fix e assume "e \<in> flow_edges nodes"
    then obtain d x where x: "e = (d, n_id x)" "x \<in> set nodes" "d \<in> set (n_depends_on x)" "d \<in> flow_ids nodes" "d \<noteq> n_id x"
      by (auto simp: flow_edges_def)
    obtain y where "y \<in> set out" "submitted nodes (submit_pool fallback available) x y"
      using list_all2_mem1 [OF all2 x(2)] by blast
    then show "e \<in> flow_edges out"
      using x flow_edgesI [of y out d] submittedD [of nodes _ x y] by (simp add: idset)
  qed
  fix y assume y: "y \<in> set out"
  obtain x a where x: "x \<in> set nodes" "n_id y = n_id x"
      "n_depends_on y = uniq (filter (\<lambda>d. d \<noteq> n_id x \<and> d \<in> flow_ids nodes) (n_depends_on x))"
      "n_layer y = jint (map_get (submit_depth nodes) (n_id x) 0 + 1)"
      "n_agent_id y = Some a" "a \<in> set (submit_pool fallback available)"
    using assms y by (rule prepared_node)
  show "distinct (n_depends_on y)" using x(3) by simp
  show "\<exists>a. n_agent_id y = Some a \<and> a \<in> set (submit_pool fallback available)" using x by blast
  fix d assume "d \<in> set (n_depends_on y)"
  then have d: "d \<in> set (n_depends_on x)" "d \<noteq> n_id x" "d \<in> flow_ids nodes" using x(3) by auto
  then have "(d, n_id x) \<in> flow_edges nodes" using x(1) by (auto simp: flow_edges_def)
  then have less: "map_get (submit_depth nodes) d 0 < map_get (submit_depth nodes) (n_id x) 0"
    using layering_step [OF lay] by fastforce
  obtain z where z: "z \<in> set out" "n_id z = d" using d(3) idset by (metis imageE)
  obtain w b where w: "w \<in> set nodes" "n_id z = n_id w"
      "n_depends_on z = uniq (filter (\<lambda>d. d \<noteq> n_id w \<and> d \<in> flow_ids nodes) (n_depends_on w))"
      "n_layer z = jint (map_get (submit_depth nodes) (n_id w) 0 + 1)"
      "n_agent_id z = Some b" "b \<in> set (submit_pool fallback available)"
    using assms z(1) by (rule prepared_node)
  from w(2,4) have "n_layer z = jint (map_get (submit_depth nodes) d 0 + 1)" using z(2) by simp
  moreover have "map_get (submit_depth nodes) d 0 + 1 < map_get (submit_depth nodes) (n_id x) 0 + 1"
    using less by simp
  ultimately show "\<exists>z \<in> set out. \<exists>i j. n_id z = d \<and> n_layer z = jint i \<and> n_layer y = jint j \<and> i < j"
    using z x(4) by blast
qed

theorem prepared_flow_executable_witness:
  "\<exists>out. prepareNodesForSubmission [sample_node ''b'' ''B'' [''a''], sample_node ''a'' ''A'' []] [] [] [] (js ''main'') = Inr out
     \<and> map n_id out = [js ''b'', js ''a'']"
proof -
  obtain out where out: "prepareNodesForSubmission [sample_node ''b'' ''B'' [''a''], sample_node ''a'' ''A'' []] [] [] [] (js ''main'') = Inr out"
    using flow_two_accepted by (elim exE conjE)
  then show ?thesis using prepared_flow_executable [OF out] by (simp add: sample_node_def)
qed

end
