(* ===== verification/FlowEdits.thy ===== *)
theory FlowEdits imports FlowGraph begin

text \<open>
  What cleaning, edge derivation and planner operations guarantee (flowPageGraphUtils.ts): the
  lemmas about \<open>normalizeFlowNodes\<close>, \<open>deriveEdgesFromNodes\<close> and \<open>applyPlannerNodeOperations\<close>.
\<close>

section \<open>Planner operations refine updates of a finite map\<close>

text \<open>The contract of an operation batch: drafts by id, with insertions and deletions in order.\<close>

fun abs_operation :: "node_operation \<Rightarrow> (jsstring \<rightharpoonup> node_draft) \<Rightarrow> (jsstring \<rightharpoonup> node_draft)" where
  "abs_operation (UpsertNode node) m = m(d_id node \<mapsto> node)"
| "abs_operation (DeleteNode nodeId) m = m(nodeId := None)"

definition abs_nodes :: "flow_node list \<Rightarrow> (jsstring \<rightharpoonup> node_draft)" where
  "abs_nodes nodes = fold (\<lambda>node m. m(n_id node \<mapsto> draft_of_node node)) nodes Map.empty"

definition operations_inv :: "jsstring list \<times> (jsstring \<times> node_draft) list \<Rightarrow> bool" where
  "operations_inv st \<longleftrightarrow> (case st of (orderedIds, byId) \<Rightarrow>
     (\<forall>k d. map_of byId k = Some d \<longrightarrow> d_id d = k \<and> k \<in> set orderedIds))"

lemma apply_operation_inv: "operations_inv st \<Longrightarrow> operations_inv (apply_operation op st)"
  by (cases op; cases st) (auto simp: operations_inv_def map_has_def split: if_splits)

lemma apply_operation_map: "map_of (snd (apply_operation op st)) = abs_operation op (map_of (snd st))"
  by (cases op; cases st) (auto simp: fun_eq_iff)

lemma apply_operations_inv: "operations_inv st \<Longrightarrow> operations_inv (fold apply_operation ops st)"
  by (induction ops arbitrary: st) (simp_all add: apply_operation_inv)

lemma apply_operations_map:
  "map_of (snd (fold apply_operation ops st)) = fold abs_operation ops (map_of (snd st))"
  by (induction ops arbitrary: st) (simp_all add: apply_operation_map)

lemma operations_start_map: "map_of (snd (operations_start nodes)) = abs_nodes nodes"
proof (induction nodes rule: rev_induct)
  case Nil
  then show ?case by (simp add: operations_start_def abs_nodes_def)
next
  case (snoc x xs)
  then show ?case by (auto simp: operations_start_def abs_nodes_def fun_eq_iff)
qed

lemma operations_start_inv: "operations_inv (operations_start nodes)"
proof (induction nodes rule: rev_induct)
  case Nil
  then show ?case by (simp add: operations_start_def operations_inv_def)
next
  case (snoc x xs)
  then show ?case
    by (auto simp: operations_start_def operations_inv_def draft_of_node_def split: if_splits)
qed

lemma operations_result_mem:
  "operations_inv st \<Longrightarrow> d \<in> set (operations_result st) \<longleftrightarrow> map_of (snd st) (d_id d) = Some d"
proof -
  assume inv: "operations_inv st"
  obtain ks m where st: "st = (ks, m)" by (cases st)
  have i: "d_id v = k" "k \<in> set ks" if "map_of m k = Some v" for k v
    using inv that st by (auto simp: operations_inv_def)
  have "d \<in> set (operations_result st) \<longleftrightarrow> (\<exists>k \<in> set ks. map_of m k = Some d)"
    by (force simp: operations_result_def map_has_def st)
  also have "\<dots> \<longleftrightarrow> map_of m (d_id d) = Some d" using i by blast
  finally show ?thesis by (simp add: st)
qed

lemma operations_result_ids:
  "operations_inv st \<Longrightarrow> map d_id (operations_result st) = filter (map_has (snd st)) (fst st)"
  by (cases st) (auto simp: operations_inv_def operations_result_def map_has_def intro!: map_idI)

text \<open>
  C38: A batch of planner operations does what the map of drafts by id says: a draft is in the result
  of \<open>applyPlannerNodeOperations\<close> exactly when it is the draft of its id after the batch's upserts
  and deletions, taken in order, on the nodes of the canvas.
\<close>

theorem applyPlannerNodeOperations_refines_map:
  "d \<in> set (applyPlannerNodeOperations nodes ops) \<longleftrightarrow>
     fold abs_operation ops (abs_nodes nodes) (d_id d) = Some d"
  using operations_result_mem [OF apply_operations_inv [OF operations_start_inv]]
  by (simp add: applyPlannerNodeOperations_def apply_operations_map operations_start_map)

text \<open>Ids stay distinct as long as the batch never re-inserts an id after deleting it.\<close>

fun reinserts :: "jsstring set \<Rightarrow> node_operation list \<Rightarrow> bool" where
  "reinserts gone [] = False"
| "reinserts gone (UpsertNode node # ops) = (d_id node \<in> gone \<or> reinserts gone ops)"
| "reinserts gone (DeleteNode nodeId # ops) = reinserts (insert nodeId gone) ops"

lemma apply_operations_distinct:
  "distinct (fst st) \<Longrightarrow> \<forall>k \<in> set (fst st). map_has (snd st) k \<or> k \<in> gone \<Longrightarrow> \<not> reinserts gone ops \<Longrightarrow>
     distinct (fst (fold apply_operation ops st))"
proof (induction gone ops arbitrary: st rule: reinserts.induct)
  case (1 gone)
  then show ?case by simp
next
  case (2 gone node ops)
  show ?case
    using "2.prems" by (simp, intro "2.IH") (cases st; auto)+
next
  case (3 gone nodeId ops)
  show ?case
    using "3.prems" by (simp, intro "3.IH") (cases st; auto)+
qed

lemma operations_start_has: "k \<in> set (fst (operations_start nodes)) \<Longrightarrow> map_has (snd (operations_start nodes)) k"
proof (induction nodes rule: rev_induct)
  case Nil
  then show ?case by (simp add: operations_start_def)
next
  case (snoc x xs)
  then show ?case by (auto simp: operations_start_def)
qed

text \<open>
  Applying a batch that re-inserts no id it has deleted (in particular the one-operation batches
  of the operation queue) to nodes with distinct ids yields drafts with distinct ids.
\<close>

lemma applyPlannerNodeOperations_distinct:
  assumes "distinct (map n_id nodes)" and "\<not> reinserts {} ops"
  shows "distinct (map d_id (applyPlannerNodeOperations nodes ops))"
proof -
  have "distinct (fst (fold apply_operation ops (operations_start nodes)))"
    by (rule apply_operations_distinct [of _ "{}"])
      (use assms operations_start_has in \<open>auto simp: operations_start_def\<close>)
  then show ?thesis
    by (simp add: applyPlannerNodeOperations_def operations_result_ids
        apply_operations_inv operations_start_inv)
qed

theorem applyPlannerNodeOperations_distinct_witness:
  "distinct (map d_id (applyPlannerNodeOperations [sample_node ''a'' ''A'' [], sample_node ''b'' ''B'' []]
     [UpsertNode (draft_of_node (sample_node ''c'' ''C'' [''a''])), DeleteNode (js ''b'')]))"
  by (rule applyPlannerNodeOperations_distinct) (simp_all add: sample_node_def draft_of_node_def)

text \<open>
  Deleting a node and inserting it again in one batch returns the draft twice: the id is still in
  \<open>orderedIds\<close> when the insertion appends it once more.
\<close>

lemma applyPlannerNodeOperations_reinsert_duplicates:
  assumes "n_id node = d_id draft"
  shows "applyPlannerNodeOperations [node] [DeleteNode (d_id draft), UpsertNode draft] = [draft, draft]"
  using assms by (simp add: applyPlannerNodeOperations_def operations_start_def operations_result_def map_has_def)

theorem applyPlannerNodeOperations_reinsert_duplicates_witness:
  "applyPlannerNodeOperations [sample_node ''a'' ''A'' []]
     [DeleteNode (js ''a''), UpsertNode (draft_of_node (sample_node ''a'' ''A2'' []))]
   = [draft_of_node (sample_node ''a'' ''A2'' []), draft_of_node (sample_node ''a'' ''A2'' [])]"
  using applyPlannerNodeOperations_reinsert_duplicates
      [of "sample_node ''a'' ''A'' []" "draft_of_node (sample_node ''a'' ''A2'' [])"]
  by (simp add: sample_node_def draft_of_node_def)

section \<open>Edges\<close>

lemma derive_edge_step:
  "derive_edge ids node d st =
     (if d \<in> set ids \<and> d \<noteq> n_id node \<and> edge_id d (n_id node) \<notin> set (snd st)
      then (fst st @ [\<lparr>e_id = edge_id d (n_id node), e_source = d, e_target = n_id node\<rparr>],
            snd st @ [edge_id d (n_id node)])
      else st)"
  by (cases st) (auto simp: derive_edge_def Let_def)

text \<open>What the loop keeps: the seen ids are the ids of the edges, each edge comes from a dependency.\<close>

definition edges_inv :: "flow_node list \<Rightarrow> flow_edge list \<times> jsstring list \<Rightarrow> bool" where
  "edges_inv nodes st \<longleftrightarrow> snd st = map e_id (fst st) \<and> distinct (snd st) \<and>
     (\<forall>e \<in> set (fst st). e_id e = edge_id (e_source e) (e_target e) \<and> e_source e \<noteq> e_target e \<and>
        e_source e \<in> n_id ` set nodes \<and>
        (\<exists>x \<in> set nodes. e_target e = n_id x \<and> e_source e \<in> set (n_depends_on x)))"

lemma derive_edge_inv:
  "edges_inv nodes st \<Longrightarrow> node \<in> set nodes \<Longrightarrow> d \<in> set (n_depends_on node) \<Longrightarrow>
     edges_inv nodes (derive_edge (map n_id nodes) node d st)"
  by (auto simp: edges_inv_def derive_edge_step)

lemma derive_edges_inv:
  "edges_inv nodes st \<Longrightarrow> node \<in> set nodes \<Longrightarrow> set ds \<subseteq> set (n_depends_on node) \<Longrightarrow>
     edges_inv nodes (fold (derive_edge (map n_id nodes) node) ds st)"
  by (induction ds arbitrary: st) (simp_all add: derive_edge_inv)

lemma derive_nodes_inv:
  "edges_inv nodes st \<Longrightarrow> set ns \<subseteq> set nodes \<Longrightarrow>
     edges_inv nodes (fold (\<lambda>node. fold (derive_edge (map n_id nodes) node) (n_depends_on node)) ns st)"
  by (induction ns arbitrary: st) (simp_all add: derive_edges_inv)

lemma derive_edge_mono: "set (snd st) \<subseteq> set (snd (derive_edge ids node d st))"
  by (auto simp: derive_edge_step)

lemma derive_edges_mono: "set (snd st) \<subseteq> set (snd (fold (derive_edge ids node) ds st))"
  by (induction ds arbitrary: st) (simp_all, meson derive_edge_mono subset_trans)

lemma derive_nodes_mono:
  "set (snd st) \<subseteq> set (snd (fold (\<lambda>node. fold (derive_edge ids node) (n_depends_on node)) ns st))"
  by (induction ns arbitrary: st) (simp_all, meson derive_edges_mono subset_trans)

lemma derive_edges_complete:
  "d \<in> set ds \<Longrightarrow> d \<in> set ids \<Longrightarrow> d \<noteq> n_id node \<Longrightarrow>
     edge_id d (n_id node) \<in> set (snd (fold (derive_edge ids node) ds st))"
proof (induction ds arbitrary: st)
  case Nil
  then show ?case by simp
next
  case (Cons x xs)
  have "edge_id d (n_id node) \<in> set (snd (derive_edge ids node d st))"
    using Cons.prems by (auto simp: derive_edge_step)
  then show ?case
    using Cons derive_edges_mono [of "derive_edge ids node x st" ids node xs] by (cases "d = x") auto
qed

lemma derive_nodes_complete:
  "x \<in> set ns \<Longrightarrow> d \<in> set (n_depends_on x) \<Longrightarrow> d \<in> set ids \<Longrightarrow> d \<noteq> n_id x \<Longrightarrow>
     edge_id d (n_id x) \<in> set (snd (fold (\<lambda>node. fold (derive_edge ids node) (n_depends_on node)) ns st))"
proof (induction ns arbitrary: st)
  case Nil
  then show ?case by simp
next
  case (Cons y ys)
  show ?case
  proof (cases "x = y")
    case True
    let ?st = "fold (derive_edge ids y) (n_depends_on y) st"
    have "edge_id d (n_id x) \<in> set (snd ?st)"
      using Cons.prems by (simp add: True derive_edges_complete)
    then show ?thesis
      using derive_nodes_mono [of ?st ids ys] by (auto simp: True)
  next
    case False
    then show ?thesis using Cons by simp
  qed
qed

lemma deriveEdges_inv:
  "edges_inv nodes (fold (\<lambda>node. fold (derive_edge (map n_id nodes) node) (n_depends_on node)) nodes ([], []))"
  by (rule derive_nodes_inv) (simp_all add: edges_inv_def)

text \<open>
  \<open>deriveEdgesFromNodes\<close> draws only real dependencies between two different nodes of the flow,
  never two edges with one id, and every such dependency is represented by the edge that carries
  its id.
\<close>

lemma deriveEdgesFromNodes_sound_complete:
  "distinct (map e_id (deriveEdgesFromNodes nodes)) \<and>
   (\<forall>e. e \<in> set (deriveEdgesFromNodes nodes) \<longrightarrow>
      e_id e = edge_id (e_source e) (e_target e) \<and> e_source e \<noteq> e_target e \<and> e_source e \<in> n_id ` set nodes \<and>
      (\<exists>x \<in> set nodes. e_target e = n_id x \<and> e_source e \<in> set (n_depends_on x))) \<and>
   (\<forall>x d. x \<in> set nodes \<and> d \<in> set (n_depends_on x) \<and> d \<in> n_id ` set nodes \<and> d \<noteq> n_id x \<longrightarrow>
      edge_id d (n_id x) \<in> e_id ` set (deriveEdgesFromNodes nodes))"
proof -
  let ?st = "fold (\<lambda>node. fold (derive_edge (map n_id nodes) node) (n_depends_on node)) nodes ([], [])"
  have inv: "edges_inv nodes ?st" by (rule deriveEdges_inv)
  have "edge_id d (n_id x) \<in> set (snd ?st)"
    if "x \<in> set nodes" "d \<in> set (n_depends_on x)" "d \<in> n_id ` set nodes" "d \<noteq> n_id x" for x d
    using that by (intro derive_nodes_complete) auto
  then show ?thesis using inv by (auto simp: edges_inv_def deriveEdgesFromNodes_def)
qed

theorem deriveEdgesFromNodes_sound_complete_witness:
  "edge_id (js ''a'') (js ''b'') \<in> e_id ` set (deriveEdgesFromNodes [sample_node ''a'' ''A'' [], sample_node ''b'' ''B'' [''a'']])"
  using deriveEdgesFromNodes_sound_complete [of "[sample_node ''a'' ''A'' [], sample_node ''b'' ''B'' [''a'']]",
      THEN conjunct2, THEN conjunct2, rule_format, of "sample_node ''b'' ''B'' [''a'']" "js ''a''"]
  by (simp add: sample_node_def)

section \<open>Cleaning\<close>

text \<open>A node as the canvas wants it, relative to the ids it may depend on.\<close>

definition clean_node :: "jsstring set \<Rightarrow> flow_node \<Rightarrow> bool" where
  "clean_node ids n \<longleftrightarrow> n_id n \<noteq> [] \<and> trimmed (n_id n) \<and> n_title n \<noteq> [] \<and> trimmed (n_title n) \<and>
     distinct (n_depends_on n) \<and>
     (\<forall>d \<in> set (n_depends_on n). d \<noteq> [] \<and> trimmed d \<and> d \<noteq> n_id n \<and> d \<in> ids) \<and>
     is_finite (n_x n) \<and> is_finite (n_y n) \<and> is_finite (n_layer n) \<and> jsnum_pos (n_layer n) \<and>
     trim_or_null (n_agent_id n) = n_agent_id n \<and> trim_or_null (n_instance_id n) = n_instance_id n"

lemma normalize_node_clean:
  "n_id (normalize_node dm ids r) \<noteq> [] \<Longrightarrow> n_title (normalize_node dm ids r) \<noteq> [] \<Longrightarrow>
     clean_node (set ids) (normalize_node dm ids r)"
  by (auto simp: clean_node_def normalize_node_def Let_def trim_opt_def)

lemma normalizeFlowNodes_clean_mem:
  "n \<in> set (normalizeFlowNodes nodes edges) \<Longrightarrow> clean_node (set (raw_ids nodes)) n"
  by (auto simp: normalizeFlowNodes_def intro: normalize_node_clean)

lemma clean_node_normalize:
  assumes "clean_node ids n" and "set ids' = ids"
  shows "normalize_node dm ids' (raw_of_node n) = n"
proof -
  have "map trim (n_depends_on n) = n_depends_on n"
    using assms(1) by (intro map_idI) (auto simp: clean_node_def trimmed_def)
  moreover have "filter (\<lambda>d. d \<noteq> [] \<and> d \<noteq> n_id n \<and> d \<in> set ids') (n_depends_on n) = n_depends_on n"
    using assms by (intro filter_True) (auto simp: clean_node_def)
  moreover have "filter (\<lambda>d. d \<noteq> [] \<and> d \<noteq> n_id n) (n_depends_on n) = n_depends_on n"
    using assms by (intro filter_True) (auto simp: clean_node_def)
  moreover have "filter (\<lambda>d. d \<in> set ids') (n_depends_on n) = n_depends_on n"
    using assms by (intro filter_True) (auto simp: clean_node_def)
  ultimately show ?thesis
    using assms(1) by (simp add: normalize_node_def raw_of_node_def Let_def clean_node_def trim_opt_def trimmed_def)
qed

text \<open>Every node that has an id also has a title.\<close>

definition titled :: "raw_node list \<Rightarrow> bool" where
  "titled nodes \<longleftrightarrow> (\<forall>r \<in> set nodes. trim_opt (r_id r) \<noteq> [] \<longrightarrow> trim_opt (r_title r) \<noteq> [])"

lemma normalizeFlowNodes_ids:
  assumes "titled nodes"
  shows "map n_id (normalizeFlowNodes nodes edges) = raw_ids nodes"
proof -
  have "map n_id (filter (\<lambda>n. n_id n \<noteq> [] \<and> n_title n \<noteq> []) (map (normalize_node dm ids) rs)) = raw_ids rs"
    if "titled rs" for rs dm ids
    using that
  proof (induction rs)
    case (Cons r rs)
    have "n_id (normalize_node dm ids r) = trim_opt (r_id r)" "n_title (normalize_node dm ids r) = trim_opt (r_title r)"
      by (simp_all add: normalize_node_def Let_def)
    then show ?case using Cons by (simp add: raw_ids_def titled_def)
  qed (simp add: raw_ids_def)
  then show ?thesis using assms by (simp add: normalizeFlowNodes_def)
qed

text \<open>
  Whatever a server sends, every node \<open>normalizeFlowNodes\<close> lets through has a non-empty trimmed id
  and title, finite coordinates, a positive layer, and a duplicate-free list of non-empty trimmed
  dependencies on other ids that were sent.
\<close>

lemma normalizeFlowNodes_clean:
  "list_all (clean_node (set (raw_ids nodes))) (normalizeFlowNodes nodes edges)"
  by (simp add: list_all_iff normalizeFlowNodes_clean_mem)

text \<open>
  Cleaning is idempotent when no node with an id lacks a title: cleaning the cleaned nodes again,
  with any fallback edges, changes nothing.
\<close>

lemma normalizeFlowNodes_idempotent:
  assumes "titled nodes"
  shows "normalizeFlowNodes (map raw_of_node (normalizeFlowNodes nodes edges)) edges' = normalizeFlowNodes nodes edges"
proof -
  let ?out = "normalizeFlowNodes nodes edges"
  have clean: "clean_node (set (raw_ids nodes)) n" if "n \<in> set ?out" for n
    by (rule normalizeFlowNodes_clean_mem [OF that])
  have "titled (map raw_of_node ?out)"
    using clean by (auto simp: titled_def raw_of_node_def clean_node_def trim_opt_def trimmed_def)
  have "raw_ids (map raw_of_node ?out) = map n_id ?out"
  proof -
    have "map (\<lambda>n. trim (n_id n)) ?out = map n_id ?out"
      using clean by (auto simp: clean_node_def trimmed_def)
    moreover have "filter (\<lambda>i. i \<noteq> []) (map n_id ?out) = map n_id ?out"
      using clean by (intro filter_True) (auto simp: clean_node_def)
    moreover have "raw_ids (map raw_of_node ?out) = filter (\<lambda>i. i \<noteq> []) (map (\<lambda>n. trim (n_id n)) ?out)"
      by (simp add: raw_ids_def raw_of_node_def trim_opt_def o_def)
    ultimately show ?thesis by (simp only:)
  qed
  then have ids: "set (raw_ids (map raw_of_node ?out)) = set (raw_ids nodes)"
    by (simp add: normalizeFlowNodes_ids [OF assms])
  have "map (normalize_node (dependency_map edges') (raw_ids (map raw_of_node ?out))) (map raw_of_node ?out) = ?out"
    using clean ids by (auto simp: o_def intro!: map_idI clean_node_normalize)
  moreover have "filter (\<lambda>n. n_id n \<noteq> [] \<and> n_title n \<noteq> []) ?out = ?out"
    using clean by (intro filter_True) (auto simp: clean_node_def)
  ultimately show ?thesis by (simp add: normalizeFlowNodes_def [of "map raw_of_node ?out"])
qed

theorem normalizeFlowNodes_idempotent_witness:
  "titled (map raw_of_node [sample_node ''a'' ''A'' [], sample_node ''b'' ''B'' [''a'']]) \<and>
   normalizeFlowNodes (map raw_of_node (normalizeFlowNodes (map raw_of_node [sample_node ''a'' ''A'' [], sample_node ''b'' ''B'' [''a'']]) [])) []
   = normalizeFlowNodes (map raw_of_node [sample_node ''a'' ''A'' [], sample_node ''b'' ''B'' [''a'']]) []"
proof -
  have t: "titled (map raw_of_node [sample_node ''a'' ''A'' [], sample_node ''b'' ''B'' [''a'']])"
    by (simp add: titled_def raw_of_node_def sample_node_def trim_opt_def char_white_def)
  show ?thesis using t normalizeFlowNodes_idempotent [OF t] by blast
qed

section \<open>Three corner cases of the code\<close>

text \<open>
  A node without a title is dropped after the dependencies were filtered against its id, so a
  node that depends on it keeps a dependency on a node that is not there, and cleaning the result
  once more changes it.
\<close>

lemma normalizeFlowNodes_dangling:
  "map n_depends_on (normalizeFlowNodes (map raw_of_node [sample_node ''a'' '''' [], sample_node ''b'' ''B'' [''a'']]) []) = [[js ''a'']] \<and>
   map n_id (normalizeFlowNodes (map raw_of_node [sample_node ''a'' '''' [], sample_node ''b'' ''B'' [''a'']]) []) = [js ''b'']"
  by (simp add: normalizeFlowNodes_def normalize_node_def raw_of_node_def sample_node_def raw_ids_def
      trim_opt_def char_white_def uniq_def Let_def)

text \<open>
  Edge ids are not injective in the pair of node ids: of the two dependencies of \<open>b-c\<close> on
  \<open>a\<close> and of \<open>c\<close> on \<open>a-b\<close> only the first gets an edge, since both edges would be
  called \<open>edge-a-b-c\<close>.
\<close>

lemma deriveEdgesFromNodes_id_collision:
  "map (\<lambda>e. (e_source e, e_target e)) (deriveEdgesFromNodes
     [sample_node ''a'' ''A'' [], sample_node ''a-b'' ''AB'' [],
      sample_node ''b-c'' ''BC'' [''a''], sample_node ''c'' ''C'' [''a-b'']]) = [(js ''a'', js ''b-c'')]"
  by (simp add: deriveEdgesFromNodes_def derive_edge_def sample_node_def edge_id_def Let_def js_simps)

end
