(* ===== verification/PlannerQueue.thy ===== *)
theory PlannerQueue imports FlowGraph begin

text \<open>
  \<open>hooks/usePlannerOperationQueue.ts\<close> and the step timer of \<open>hooks/usePlannerRuntimeTimers.ts\<close>:
  planner operations are applied to the canvas one at a time, a timer between them, and a snapshot
  that arrives meanwhile waits for its session's queue to drain. The queue is a state machine whose
  events are the calls of its operations and the firing of the timer.
\<close>

section \<open>State\<close>

text \<open>
  The refs of the hook: the queued operations, the waiting snapshot of each session, the session
  being flushed, and the step timer. The timer is \<open>Some k\<close> when a callback is pending, where k is the
  \<open>sessionKey\<close> its closure holds. \<open>pq_canvas\<close> is what the callbacks \<open>getCurrentNodes\<close> and
  \<open>applyDraftNodes\<close> of the options read and write; they are arguments of the operations.
\<close>

record pending_snapshot =
  ps_session :: jsstring
  ps_revision :: int
  ps_nodes :: "node_draft list"

record 'c planner_queue =
  pq_operations :: "(jsstring \<times> node_operation) list"
  pq_snapshots :: "(jsstring \<times> pending_snapshot) list"
  pq_active :: "jsstring option"
  pq_timer :: "jsstring option"
  pq_canvas :: 'c

text \<open>\<open>clearPlannerStepTimer\<close>: clears the timer and the ref.\<close>

definition clear_step_timer :: "'c planner_queue \<Rightarrow> 'c planner_queue" where
  "clear_step_timer q = q\<lparr>pq_timer := None\<rparr>"

section \<open>Operations\<close>

definition applyPendingSnapshotForSession ::
  "(node_draft list \<Rightarrow> jsstring \<Rightarrow> 'c \<Rightarrow> 'c) \<Rightarrow> jsstring \<Rightarrow> 'c planner_queue \<Rightarrow> bool \<times> 'c planner_queue" where
  "applyPendingSnapshotForSession apply sessionKey q =
     (case map_of (pq_snapshots q) sessionKey of
        None \<Rightarrow> (False, q)
      | Some pendingSnapshot \<Rightarrow>
          (True, q\<lparr>pq_snapshots := AList.delete sessionKey (pq_snapshots q),
                  pq_canvas := apply (ps_nodes pendingSnapshot) sessionKey (pq_canvas q)\<rparr>))"

fun takeNextQueuedOperationForSession :: "jsstring \<Rightarrow> (jsstring \<times> node_operation) list
    \<Rightarrow> (node_operation \<times> (jsstring \<times> node_operation) list) option" where
  "takeNextQueuedOperationForSession sessionKey [] = None"
| "takeNextQueuedOperationForSession sessionKey ((key, operation) # queue) =
     (if key = sessionKey then Some (operation, queue)
      else map_option (\<lambda>(next, rest). (next, (key, operation) # rest))
             (takeNextQueuedOperationForSession sessionKey queue))"

definition getNextQueuedSessionKey :: "'c planner_queue \<Rightarrow> jsstring option" where
  "getNextQueuedSessionKey q = (case pq_operations q of [] \<Rightarrow> None | entry # _ \<Rightarrow> Some (fst entry))"

definition getNextPendingSnapshotSessionKey :: "'c planner_queue \<Rightarrow> jsstring option" where
  "getNextPendingSnapshotSessionKey q = (case pq_snapshots q of [] \<Rightarrow> None | entry # _ \<Rightarrow> Some (fst entry))"

definition flushPlannerOperationQueue :: "jsstring \<Rightarrow> 'c planner_queue \<Rightarrow> 'c planner_queue" where
  "flushPlannerOperationQueue sessionKey q =
     (if pq_timer q \<noteq> None then q
      else q\<lparr>pq_active := Some sessionKey, pq_timer := Some sessionKey\<rparr>)"

text \<open>\<open>const nextSessionKey = ... ?? ...; if (nextSessionKey) flush(nextSessionKey)\<close>\<close>

definition flush_next :: "'c planner_queue \<Rightarrow> 'c planner_queue" where
  "flush_next q =
     (let nextSessionKey = nullish (nullish_opt (getNextQueuedSessionKey q) (getNextPendingSnapshotSessionKey q)) [] in
      if nextSessionKey \<noteq> [] then flushPlannerOperationQueue nextSessionKey q else q)"

text \<open>The session done with: its snapshot, then whoever is next.\<close>

definition finish_session :: "(node_draft list \<Rightarrow> jsstring \<Rightarrow> 'c \<Rightarrow> 'c) \<Rightarrow> jsstring \<Rightarrow> 'c planner_queue \<Rightarrow> 'c planner_queue" where
  "finish_session apply sessionKey q =
     flush_next ((snd (applyPendingSnapshotForSession apply sessionKey q))\<lparr>pq_active := None\<rparr>)"

text \<open>\<open>step\<close>, the callback of the timer; \<open>sessionKey\<close> is the one its closure holds.\<close>

definition queue_step :: "('c \<Rightarrow> flow_node list) \<Rightarrow> (node_draft list \<Rightarrow> jsstring \<Rightarrow> 'c \<Rightarrow> 'c) \<Rightarrow> jsstring
    \<Rightarrow> 'c planner_queue \<Rightarrow> 'c planner_queue" where
  "queue_step nodes apply sessionKey q =
     (let q0 = q\<lparr>pq_timer := None\<rparr>;
          runningSessionKey = nullish (pq_active q0) sessionKey
      in case takeNextQueuedOperationForSession runningSessionKey (pq_operations q0) of
           None \<Rightarrow> finish_session apply runningSessionKey q0
         | Some (nextOperation, rest) \<Rightarrow>
             let nextDraftNodes = applyPlannerNodeOperations (nodes (pq_canvas q0)) [nextOperation];
                 q1 = q0\<lparr>pq_operations := rest, pq_canvas := apply nextDraftNodes runningSessionKey (pq_canvas q0)\<rparr>
             in if list_ex (\<lambda>item. fst item = runningSessionKey) (pq_operations q1)
                then q1\<lparr>pq_timer := Some sessionKey\<rparr>
                else finish_session apply runningSessionKey q1)"

definition enqueuePlannerOperations :: "jsstring \<Rightarrow> node_operation list \<Rightarrow> 'c planner_queue \<Rightarrow> 'c planner_queue" where
  "enqueuePlannerOperations sessionKey operations q =
     flushPlannerOperationQueue sessionKey
       (q\<lparr>pq_operations := pq_operations q @ map (\<lambda>operation. (sessionKey, operation)) operations\<rparr>)"

definition applyOrQueuePlannerSnapshot :: "(node_draft list \<Rightarrow> jsstring \<Rightarrow> 'c \<Rightarrow> 'c) \<Rightarrow> jsstring \<Rightarrow> int
    \<Rightarrow> node_draft list \<Rightarrow> 'c planner_queue \<Rightarrow> bool \<times> 'c planner_queue" where
  "applyOrQueuePlannerSnapshot apply sessionKey revision nodes q =
     (if 0 < length (pq_operations q) \<or> pq_timer q \<noteq> None \<or> pq_active q \<noteq> None
      then (False, q\<lparr>pq_snapshots := AList.update sessionKey
              \<lparr>ps_session = sessionKey, ps_revision = revision, ps_nodes = nodes\<rparr> (pq_snapshots q)\<rparr>)
      else (True, q\<lparr>pq_canvas := apply nodes sessionKey (pq_canvas q)\<rparr>))"

definition clearPlannerOperationQueueRuntime :: "jsstring option \<Rightarrow> 'c planner_queue \<Rightarrow> 'c planner_queue" where
  "clearPlannerOperationQueueRuntime sessionKey q =
     (let normalizedSessionKey = trim_opt sessionKey in
      if normalizedSessionKey = []
      then clear_step_timer (q\<lparr>pq_operations := [], pq_snapshots := [], pq_active := None\<rparr>)
      else
        let q1 = q\<lparr>pq_operations := filter (\<lambda>item. fst item \<noteq> normalizedSessionKey) (pq_operations q),
                  pq_snapshots := AList.delete normalizedSessionKey (pq_snapshots q)\<rparr>;
            q2 = (if pq_active q1 = Some normalizedSessionKey
                  then (clear_step_timer q1)\<lparr>pq_active := None\<rparr> else q1)
        in if pq_timer q2 \<noteq> None \<or> pq_active q2 \<noteq> None then q2 else flush_next q2)"

definition empty_queue :: "'c \<Rightarrow> 'c planner_queue" where
  "empty_queue c = \<lparr>pq_operations = [], pq_snapshots = [], pq_active = None, pq_timer = None, pq_canvas = c\<rparr>"

section \<open>The state machine\<close>

datatype queue_event =
    Enqueue jsstring "node_operation list"
  | Snapshot jsstring int "node_draft list"
  | ApplyPending jsstring
  | Clear "jsstring option"
  | Fire

inductive queue_steps :: "('c \<Rightarrow> flow_node list) \<Rightarrow> (node_draft list \<Rightarrow> jsstring \<Rightarrow> 'c \<Rightarrow> 'c) \<Rightarrow>
    'c planner_queue \<Rightarrow> queue_event \<Rightarrow> 'c planner_queue \<Rightarrow> bool"
  for nodes draw where
  enqueue: "s \<noteq> [] \<Longrightarrow> queue_steps nodes draw q (Enqueue s ops) (enqueuePlannerOperations s ops q)"
| snapshot: "s \<noteq> [] \<Longrightarrow> queue_steps nodes draw q (Snapshot s r ns) (snd (applyOrQueuePlannerSnapshot draw s r ns q))"
| pending: "queue_steps nodes draw q (ApplyPending s) (snd (applyPendingSnapshotForSession draw s q))"
| clear: "queue_steps nodes draw q (Clear s) (clearPlannerOperationQueueRuntime s q)"
| fire: "pq_timer q = Some k \<Longrightarrow> queue_steps nodes draw q Fire (queue_step nodes draw k q)"

inductive_cases queue_fireE: "queue_steps nodes draw q Fire q'"
inductive_simps queue_fire_iff: "queue_steps nodes draw q Fire q'"

inductive queue_reachable :: "('c \<Rightarrow> flow_node list) \<Rightarrow> (node_draft list \<Rightarrow> jsstring \<Rightarrow> 'c \<Rightarrow> 'c) \<Rightarrow> 'c planner_queue \<Rightarrow> bool"
  for nodes draw where
  start: "queue_reachable nodes draw (empty_queue c)"
| step: "queue_reachable nodes draw q \<Longrightarrow> queue_steps nodes draw q ev q' \<Longrightarrow> queue_reachable nodes draw q'"

text \<open>
  What every reachable state satisfies: the timer is armed exactly while a session is being flushed,
  it is armed whenever work is left, and no key is empty.
\<close>

definition queue_ok :: "'c planner_queue \<Rightarrow> bool" where
  "queue_ok q \<longleftrightarrow> (pq_timer q = None \<longleftrightarrow> pq_active q = None) \<and>
     (pq_operations q \<noteq> [] \<or> pq_snapshots q \<noteq> [] \<longrightarrow> pq_timer q \<noteq> None) \<and>
     [] \<notin> fst ` set (pq_operations q) \<and> [] \<notin> fst ` set (pq_snapshots q) \<and>
     distinct (map fst (pq_snapshots q))"

text \<open>The keys, without the condition on the timer: what holds in the middle of a step.\<close>

definition keys_ok :: "'c planner_queue \<Rightarrow> bool" where
  "keys_ok q \<longleftrightarrow> [] \<notin> fst ` set (pq_operations q) \<and> [] \<notin> fst ` set (pq_snapshots q) \<and>
     distinct (map fst (pq_snapshots q))"

lemma queue_ok_keys: "queue_ok q \<Longrightarrow> keys_ok q"
  by (simp add: queue_ok_def keys_ok_def)

lemma flush_ok: "queue_ok q \<or> keys_ok q \<and> pq_timer q = None \<Longrightarrow> queue_ok (flushPlannerOperationQueue s q)"
  by (auto simp: queue_ok_def keys_ok_def flushPlannerOperationQueue_def)

lemma next_key_non_empty:
  "keys_ok q \<Longrightarrow> pq_operations q \<noteq> [] \<or> pq_snapshots q \<noteq> [] \<Longrightarrow>
     nullish (nullish_opt (getNextQueuedSessionKey q) (getNextPendingSnapshotSessionKey q)) [] \<noteq> []"
  by (auto simp: keys_ok_def getNextQueuedSessionKey_def getNextPendingSnapshotSessionKey_def split: list.splits)

lemma flush_next_ok:
  assumes "keys_ok q" and "pq_timer q = None" and "pq_active q = None"
  shows "queue_ok (flush_next q)"
proof (cases "pq_operations q = [] \<and> pq_snapshots q = []")
  case True
  then show ?thesis
    using assms by (simp add: flush_next_def getNextQueuedSessionKey_def getNextPendingSnapshotSessionKey_def
        queue_ok_def keys_ok_def)
next
  case False
  then have "nullish (nullish_opt (getNextQueuedSessionKey q) (getNextPendingSnapshotSessionKey q)) [] \<noteq> []"
    using next_key_non_empty [OF assms(1)] by blast
  then show ?thesis using flush_ok [of q] assms by (simp add: flush_next_def Let_def)
qed

lemma apply_pending_fields [simp]:
  "pq_operations (snd (applyPendingSnapshotForSession draw s q)) = pq_operations q"
  "pq_active (snd (applyPendingSnapshotForSession draw s q)) = pq_active q"
  "pq_timer (snd (applyPendingSnapshotForSession draw s q)) = pq_timer q"
  "pq_snapshots (snd (applyPendingSnapshotForSession draw s q)) = AList.delete s (pq_snapshots q)"
  by (simp_all add: applyPendingSnapshotForSession_def delete_id map_of_eq_None_iff split: option.splits)

lemma keys_ok_apply_pending [simp]: "keys_ok q \<Longrightarrow> keys_ok (snd (applyPendingSnapshotForSession draw s q))"
  by (auto simp: keys_ok_def distinct_delete)

lemma keys_ok_update [simp]:
  "keys_ok (q\<lparr>pq_active := a\<rparr>) = keys_ok q" "keys_ok (q\<lparr>pq_timer := t\<rparr>) = keys_ok q"
  "keys_ok (q\<lparr>pq_canvas := c\<rparr>) = keys_ok q"
  by (simp_all add: keys_ok_def)

lemma finish_session_ok: "keys_ok q \<Longrightarrow> pq_timer q = None \<Longrightarrow> queue_ok (finish_session draw s q)"
  unfolding finish_session_def by (rule flush_next_ok) simp_all

lemma take_next_None: "takeNextQueuedOperationForSession s ops = None \<longleftrightarrow> s \<notin> fst ` set ops"
  by (induction s ops rule: takeNextQueuedOperationForSession.induct) auto

lemma take_next_Some:
  "takeNextQueuedOperationForSession s ops = Some (op, rest) \<Longrightarrow>
     \<exists>a b. ops = a @ (s, op) # b \<and> rest = a @ b \<and> s \<notin> fst ` set a"
proof (induction s ops arbitrary: rest rule: takeNextQueuedOperationForSession.induct)
  case (1 sessionKey)
  then show ?case by simp
next
  case (2 sessionKey key operation queue)
  show ?case
  proof (cases "key = sessionKey")
    case True
    then show ?thesis using "2.prems" by (intro exI [of _ "[]"] exI [of _ queue]) simp
  next
    case False
    then obtain r where r: "takeNextQueuedOperationForSession sessionKey queue = Some (op, r)" "rest = (key, operation) # r"
      using "2.prems" by auto
    then obtain a b where "queue = a @ (sessionKey, op) # b" "r = a @ b" "sessionKey \<notin> fst ` set a"
      using "2.IH" [OF False r(1)] by blast
    then show ?thesis using False r(2) by (intro exI [of _ "(key, operation) # a"] exI [of _ b]) auto
  qed
qed

lemma step_ok:
  assumes "queue_ok q" and "pq_timer q = Some k"
  shows "queue_ok (queue_step nodes draw k q)"
proof -
  obtain s where s: "pq_active q = Some s" using assms by (auto simp: queue_ok_def)
  have k: "keys_ok q" by (rule queue_ok_keys [OF assms(1)])
  show ?thesis
  proof (cases "takeNextQueuedOperationForSession s (pq_operations q)")
    case None
    then show ?thesis using k s by (simp add: queue_step_def Let_def finish_session_ok)
  next
    case (Some p)
    then obtain op rest where take: "takeNextQueuedOperationForSession s (pq_operations q) = Some (op, rest)"
      by (cases p) auto
    let ?q = "q\<lparr>pq_timer := None, pq_operations := rest,
        pq_canvas := draw (applyPlannerNodeOperations (nodes (pq_canvas q)) [op]) s (pq_canvas q)\<rparr>"
    have "keys_ok ?q" using k take_next_Some [OF take] by (auto simp: keys_ok_def)
    moreover from this have "queue_ok (?q\<lparr>pq_timer := Some k\<rparr>)" using s by (simp add: queue_ok_def keys_ok_def)
    ultimately show ?thesis using take s by (simp add: queue_step_def Let_def finish_session_ok)
  qed
qed

lemma clear_ok:
  assumes "queue_ok q"
  shows "queue_ok (clearPlannerOperationQueueRuntime s q)"
proof (cases "trim_opt s = []")
  case True
  then show ?thesis by (simp add: clearPlannerOperationQueueRuntime_def clear_step_timer_def queue_ok_def)
next
  case False
  let ?q = "q\<lparr>pq_operations := filter (\<lambda>item. fst item \<noteq> trim_opt s) (pq_operations q),
      pq_snapshots := AList.delete (trim_opt s) (pq_snapshots q)\<rparr>"
  have k: "keys_ok ?q"
    using assms by (auto simp: queue_ok_def keys_ok_def distinct_delete)
  show ?thesis
  proof (cases "pq_active q = Some (trim_opt s)")
    case True
    then show ?thesis
      using False k flush_next_ok [of "?q\<lparr>pq_timer := None, pq_active := None\<rparr>"]
      by (simp add: clearPlannerOperationQueueRuntime_def clear_step_timer_def Let_def)
  next
    case other: False
    show ?thesis
    proof (cases "pq_timer q = None")
      case True
      then have "pq_active q = None" using assms by (simp add: queue_ok_def)
      then show ?thesis
        using False True flush_next_ok [OF k] by (simp add: clearPlannerOperationQueueRuntime_def Let_def)
    next
      case busy: False
      then have "queue_ok ?q" using assms k by (auto simp: queue_ok_def keys_ok_def)
      then show ?thesis
        using False other busy by (simp add: clearPlannerOperationQueueRuntime_def Let_def)
    qed
  qed
qed

lemma enqueue_ok:
  assumes "queue_ok q" and "s \<noteq> []"
  shows "queue_ok (enqueuePlannerOperations s ops q)"
  using assms by (auto simp: queue_ok_def enqueuePlannerOperations_def flushPlannerOperationQueue_def)

lemma snapshot_ok:
  assumes "queue_ok q" and "s \<noteq> []"
  shows "queue_ok (snd (applyOrQueuePlannerSnapshot draw s r ns q))"
  using assms by (auto simp: queue_ok_def applyOrQueuePlannerSnapshot_def distinct_update)

lemma pending_ok: "queue_ok q \<Longrightarrow> queue_ok (snd (applyPendingSnapshotForSession draw s q))"
  by (auto simp: queue_ok_def distinct_delete)

lemma queue_reachable_ok: "queue_reachable nodes draw q \<Longrightarrow> queue_ok q"
proof (induction rule: queue_reachable.induct)
  case (start c)
  then show ?case by (simp add: queue_ok_def empty_queue_def)
next
  case (step q ev q')
  from step.hyps(2) step.IH show ?case
    by (cases rule: queue_steps.cases) (simp_all add: enqueue_ok snapshot_ok pending_ok clear_ok step_ok)
qed

text \<open>
  In every state the hook can reach, whatever order its operations are called in and the timer
  fires, the step timer is armed exactly while a session is being flushed, and it is armed whenever
  an operation or a snapshot waits: no work is ever left lying.
\<close>

lemma queue_timer_invariant:
  assumes "queue_reachable nodes draw q"
  shows "(pq_timer q = None) = (pq_active q = None) \<and>
    (pq_operations q \<noteq> [] \<or> pq_snapshots q \<noteq> [] \<longrightarrow> pq_timer q \<noteq> None)"
  using queue_reachable_ok [OF assms] unfolding queue_ok_def by blast

abbreviation log_session :: "node_draft list \<Rightarrow> jsstring \<Rightarrow> jsstring list \<Rightarrow> jsstring list" where
  "log_session ds s keys \<equiv> keys @ [s]"

abbreviation sample_queue :: "jsstring list planner_queue" where
  "sample_queue \<equiv> enqueuePlannerOperations (js ''s'') [DeleteNode (js ''a''), DeleteNode (js ''b'')] (empty_queue [])"

lemma sample_queue_reachable: "queue_reachable (\<lambda>c. []) log_session sample_queue"
  by (rule queue_reachable.step [OF queue_reachable.start queue_steps.enqueue]) simp

lemma sample_queue_eq:
  "sample_queue = \<lparr>pq_operations = [(js ''s'', DeleteNode (js ''a'')), (js ''s'', DeleteNode (js ''b''))], pq_snapshots = [],
     pq_active = Some (js ''s''), pq_timer = Some (js ''s''), pq_canvas = []\<rparr>"
  by (simp add: enqueuePlannerOperations_def flushPlannerOperationQueue_def empty_queue_def)

theorem queue_timer_invariant_witness:
  "pq_operations sample_queue \<noteq> [] \<and> pq_timer sample_queue \<noteq> None"
  using queue_timer_invariant [OF sample_queue_reachable] by (simp add: sample_queue_eq)

section \<open>Draining\<close>

text \<open>The timer fires n times (or until it is no longer armed), and what it takes from the queue.\<close>

fun fires :: "('c \<Rightarrow> flow_node list) \<Rightarrow> (node_draft list \<Rightarrow> jsstring \<Rightarrow> 'c \<Rightarrow> 'c) \<Rightarrow> nat \<Rightarrow> 'c planner_queue \<Rightarrow> 'c planner_queue" where
  "fires nodes draw 0 q = q"
| "fires nodes draw (Suc n) q = (case pq_timer q of None \<Rightarrow> q | Some k \<Rightarrow> fires nodes draw n (queue_step nodes draw k q))"

definition step_takes :: "jsstring \<Rightarrow> 'c planner_queue \<Rightarrow> (jsstring \<times> node_operation) list" where
  "step_takes k q = (let s = nullish (pq_active q) k in
     case takeNextQueuedOperationForSession s (pq_operations q) of None \<Rightarrow> [] | Some (op, _) \<Rightarrow> [(s, op)])"

fun drained :: "('c \<Rightarrow> flow_node list) \<Rightarrow> (node_draft list \<Rightarrow> jsstring \<Rightarrow> 'c \<Rightarrow> 'c) \<Rightarrow> nat \<Rightarrow> 'c planner_queue
    \<Rightarrow> (jsstring \<times> node_operation) list" where
  "drained nodes draw 0 q = []"
| "drained nodes draw (Suc n) q = (case pq_timer q of None \<Rightarrow> []
     | Some k \<Rightarrow> step_takes k q @ drained nodes draw n (queue_step nodes draw k q))"

text \<open>The work left; a flush started for a session without work costs one more firing.\<close>

definition has_work :: "'c planner_queue \<Rightarrow> jsstring \<Rightarrow> bool" where
  "has_work q s \<longleftrightarrow> s \<in> fst ` set (pq_operations q) \<or> s \<in> fst ` set (pq_snapshots q)"

definition queue_work :: "'c planner_queue \<Rightarrow> nat" where
  "queue_work q = length (pq_operations q) + length (pq_snapshots q) +
     (case pq_active q of None \<Rightarrow> 0 | Some s \<Rightarrow> if has_work q s then 0 else 1)"

lemma flush_next_fields [simp]:
  "pq_operations (flush_next q) = pq_operations q" "pq_snapshots (flush_next q) = pq_snapshots q"
  "pq_canvas (flush_next q) = pq_canvas q"
  by (simp_all add: flush_next_def flushPlannerOperationQueue_def Let_def)

lemma finish_session_fields [simp]:
  "pq_operations (finish_session draw s q) = pq_operations q"
  "pq_snapshots (finish_session draw s q) = AList.delete s (pq_snapshots q)"
  by (simp_all add: finish_session_def)

lemma flush_next_active:
  assumes "pq_timer q = None" and "pq_active q = None" and "pq_active (flush_next q) = Some s"
  shows "has_work q s"
  using assms by (auto simp: flush_next_def flushPlannerOperationQueue_def has_work_def
      getNextQueuedSessionKey_def getNextPendingSnapshotSessionKey_def Let_def split: list.splits if_splits)

lemma finish_session_work:
  assumes "pq_timer q = None"
  shows "queue_work (finish_session draw s q) = length (pq_operations q) + length (AList.delete s (pq_snapshots q))"
proof -
  let ?q = "(snd (applyPendingSnapshotForSession draw s q))\<lparr>pq_active := None\<rparr>"
  have "has_work (flush_next ?q) t" if "pq_active (flush_next ?q) = Some t" for t
    using flush_next_active [of ?q t] that assms by (simp add: has_work_def)
  then show ?thesis by (simp add: queue_work_def finish_session_def split: option.split)
qed

lemma length_delete_less: "k \<in> fst ` set m \<Longrightarrow> length (AList.delete k m) < length m"
  by (induction m) (auto simp: length_delete_le le_imp_less_Suc)

lemma step_work:
  assumes "queue_ok q" and "pq_timer q = Some k"
  shows "queue_work (queue_step nodes draw k q) < queue_work q"
proof -
  obtain s where s: "pq_active q = Some s" using assms by (auto simp: queue_ok_def)
  show ?thesis
  proof (cases "takeNextQueuedOperationForSession s (pq_operations q)")
    case None
    have "length (pq_operations q) + length (AList.delete s (pq_snapshots q)) < queue_work q"
    proof (cases "s \<in> fst ` set (pq_snapshots q)")
      case True
      then show ?thesis using length_delete_less [OF True] by (simp add: queue_work_def)
    next
      case False
      then show ?thesis
        using None s length_delete_le [of s "pq_snapshots q"] by (auto simp: queue_work_def has_work_def take_next_None)
    qed
    then show ?thesis using None s by (simp add: queue_step_def Let_def finish_session_work)
  next
    case (Some p)
    then obtain op rest where take: "takeNextQueuedOperationForSession s (pq_operations q) = Some (op, rest)"
      by (cases p) auto
    then have l: "length rest < length (pq_operations q)" using take_next_Some by fastforce
    show ?thesis
    proof (cases "list_ex (\<lambda>item. fst item = s) rest")
      case True
      then have "s \<in> fst ` set rest" by (auto simp: list_ex_iff)
      then show ?thesis using True take s l by (simp add: queue_step_def Let_def queue_work_def has_work_def)
    next
      case False
      then show ?thesis
        using take s l length_delete_le [of s "pq_snapshots q"]
        by (simp add: queue_step_def Let_def finish_session_work) (simp add: queue_work_def)
    qed
  qed
qed

lemma fires_idle: "pq_timer q = None \<Longrightarrow> fires nodes draw n q = q"
  by (cases n) simp_all

lemma fires_ok: "queue_ok q \<Longrightarrow> queue_ok (fires nodes draw n q)"
  by (induction n arbitrary: q) (auto simp: step_ok split: option.split)

lemma fires_done: "queue_ok q \<Longrightarrow> queue_work q \<le> n \<Longrightarrow> queue_work (fires nodes draw n q) = 0 \<and> pq_timer (fires nodes draw n q) = None"
proof (induction n arbitrary: q)
  case 0
  then show ?case by (auto simp: queue_ok_def queue_work_def has_work_def split: option.splits if_splits)
next
  case (Suc n)
  show ?case
  proof (cases "pq_timer q")
    case None
    then show ?thesis using Suc.prems by (auto simp: queue_ok_def queue_work_def)
  next
    case (Some k)
    then show ?thesis
      using Suc.IH [of "queue_step nodes draw k q"] step_ok [OF Suc.prems(1) Some, of nodes draw]
        step_work [OF Suc.prems(1) Some, of nodes draw] Suc.prems(2) by simp
  qed
qed

lemma queue_work_bound: "queue_work q \<le> Suc (length (pq_operations q) + length (pq_snapshots q))"
  by (simp add: queue_work_def split: option.split)

lemma step_takes_split:
  assumes "queue_ok q" and "pq_timer q = Some k"
  shows "filter (\<lambda>e. fst e = s) (pq_operations q) =
    filter (\<lambda>e. fst e = s) (step_takes k q) @ filter (\<lambda>e. fst e = s) (pq_operations (queue_step nodes draw k q))"
proof -
  obtain r where r: "pq_active q = Some r" using assms by (auto simp: queue_ok_def)
  show ?thesis
  proof (cases "takeNextQueuedOperationForSession r (pq_operations q)")
    case None
    then show ?thesis using r by (simp add: queue_step_def step_takes_def Let_def)
  next
    case (Some p)
    then obtain op rest where take: "takeNextQueuedOperationForSession r (pq_operations q) = Some (op, rest)"
      by (cases p) auto
    then obtain a b where ab: "pq_operations q = a @ (r, op) # b" "rest = a @ b" "r \<notin> fst ` set a"
      using take_next_Some by blast
    have "filter (\<lambda>e. fst e = r) a = []" using ab(3) by (auto simp: filter_empty_conv)
    moreover have "pq_operations (queue_step nodes draw k q) = rest"
      using take r by (simp add: queue_step_def Let_def)
    moreover have "step_takes k q = [(r, op)]" using take r by (simp add: step_takes_def)
    ultimately show ?thesis using ab by (cases "s = r") simp_all
  qed
qed

lemma drained_split:
  "queue_ok q \<Longrightarrow> filter (\<lambda>e. fst e = s) (pq_operations q) =
     filter (\<lambda>e. fst e = s) (drained nodes draw n q) @ filter (\<lambda>e. fst e = s) (pq_operations (fires nodes draw n q))"
proof (induction n arbitrary: q)
  case 0
  then show ?case by simp
next
  case (Suc n)
  show ?case
  proof (cases "pq_timer q")
    case (Some k)
    then show ?thesis
      using Suc.IH [OF step_ok [OF Suc.prems Some]] step_takes_split [OF Suc.prems Some, of s nodes draw] by simp
  qed simp
qed

text \<open>
  C33: The queue drains: from every reachable state the timer fires at most once per waiting operation
  and snapshot and once more, after which nothing waits and the timer is off; on the way every
  operation is taken exactly once, and those of one session in the order they were queued.
\<close>

theorem queue_drains:
  assumes "queue_reachable nodes draw q" and "length (pq_operations q) + length (pq_snapshots q) < n"
  shows "pq_operations (fires nodes draw n q) = [] \<and> pq_snapshots (fires nodes draw n q) = [] \<and>
    pq_active (fires nodes draw n q) = None \<and> pq_timer (fires nodes draw n q) = None \<and>
    (\<forall>s. filter (\<lambda>e. fst e = s) (drained nodes draw n q) = filter (\<lambda>e. fst e = s) (pq_operations q))"
proof -
  have ok: "queue_ok q" by (rule queue_reachable_ok [OF assms(1)])
  have "queue_work (fires nodes draw n q) = 0 \<and> pq_timer (fires nodes draw n q) = None"
    using ok queue_work_bound [of q] assms(2) by (intro fires_done) simp_all
  then have "pq_operations (fires nodes draw n q) = []" "pq_snapshots (fires nodes draw n q) = []"
      "pq_timer (fires nodes draw n q) = None" "pq_active (fires nodes draw n q) = None"
    using fires_ok [OF ok, of nodes draw n] by (auto simp: queue_work_def queue_ok_def)
  then show ?thesis using drained_split [OF ok, of _ nodes draw n] by simp
qed

theorem queue_drains_witness:
  "pq_operations (fires (\<lambda>c. []) log_session 3 sample_queue) = [] \<and>
   filter (\<lambda>e. fst e = js ''s'') (drained (\<lambda>c. []) log_session 3 sample_queue)
     = [(js ''s'', DeleteNode (js ''a'')), (js ''s'', DeleteNode (js ''b''))]"
  using queue_drains [OF sample_queue_reachable, of 3] by (simp add: sample_queue_eq)

lemma step_no_snapshots:
  assumes "pq_snapshots q = []"
  shows "pq_snapshots (queue_step nodes draw k q) = [] \<and>
    pq_canvas (queue_step nodes draw k q) =
      fold (\<lambda>(s, op) c. draw (applyPlannerNodeOperations (nodes c) [op]) s c) (step_takes k q) (pq_canvas q)"
proof (cases "takeNextQueuedOperationForSession (nullish (pq_active q) k) (pq_operations q)")
  case None
  then show ?thesis
    using assms by (simp add: queue_step_def step_takes_def Let_def finish_session_def applyPendingSnapshotForSession_def)
next
  case (Some p)
  then show ?thesis
    using assms by (cases p) (simp add: queue_step_def step_takes_def Let_def finish_session_def applyPendingSnapshotForSession_def)
qed

text \<open>
  As long as no snapshot waits, what the timer does to the canvas is to apply, one at a time and
  each to the canvas as it is then, the operations it takes from the queue.
\<close>

lemma queue_applies_operations:
  assumes "pq_snapshots q = []"
  shows "pq_canvas (fires nodes draw n q) =
    fold (\<lambda>(s, op) c. draw (applyPlannerNodeOperations (nodes c) [op]) s c) (drained nodes draw n q) (pq_canvas q)"
  using assms
proof (induction n arbitrary: q)
  case 0
  then show ?case by simp
next
  case (Suc n)
  then show ?case using step_no_snapshots [OF Suc.prems, of nodes draw] by (cases "pq_timer q") simp_all
qed

theorem queue_applies_operations_witness:
  "pq_canvas (fires (\<lambda>c. []) log_session 3 sample_queue) =
     fold (\<lambda>(s, op) c. log_session (applyPlannerNodeOperations [] [op]) s c) (drained (\<lambda>c. []) log_session 3 sample_queue) []"
  using queue_applies_operations [of sample_queue "\<lambda>c. []" log_session 3] by (simp add: sample_queue_eq)

text \<open>
  A snapshot that had to wait is applied after operations that arrived later and are newer: with a
  flush running, a snapshot of revision r and then the operation of a later patch leave the canvas
  with the nodes of the snapshot drawn last, so the operation is undone.
\<close>

lemma waiting_snapshot_undoes_newer_patch:
  "pq_canvas (fires nodes draw 3 (enqueuePlannerOperations s [newer]
      (snd (applyOrQueuePlannerSnapshot draw s r snap (enqueuePlannerOperations s [older] (empty_queue c)))))) =
    draw snap s (draw (applyPlannerNodeOperations (nodes (draw (applyPlannerNodeOperations (nodes c) [older]) s c)) [newer]) s
      (draw (applyPlannerNodeOperations (nodes c) [older]) s c))"
  by (simp add: eval_nat_numeral enqueuePlannerOperations_def applyOrQueuePlannerSnapshot_def empty_queue_def
      flushPlannerOperationQueue_def queue_step_def finish_session_def applyPendingSnapshotForSession_def
      flush_next_def getNextQueuedSessionKey_def getNextPendingSnapshotSessionKey_def Let_def)

end
