(* ===== verification/PlannerEvents.thy ===== *)
theory PlannerEvents imports FlowState begin

text \<open>
  \<open>components/flowPlannerRealtimeEventUtils.ts\<close>: what an event of the planner stream means for the
  session on screen. \<open>resolvePlannerRealtimeIntent\<close> filters events (session, sequence number,
  revision), \<open>resolvePlannerRuntimeTransition\<close> turns an intent into the next state of the controls.
  Sequence numbers and revisions are integers: the parser of \<open>api/realtimeClient.ts\<close> lets no other
  number through, and -1 is the revision of a session nothing is known of.
\<close>

section \<open>Events\<close>

datatype update_mode = Replace | AppendChunk

text \<open>\<open>FlowPlannerRealtimeMessage\<close>: the fields every message has, and the payload of its type.\<close>

datatype planner_payload =
    SnapshotReady
  | MessagesUpdated (pm_session: jsstring) "chat_message list" "update_mode option"
  | NodesPatched (pm_session: jsstring) int "node_operation list"
  | SnapshotUpdated (pm_session: jsstring) int "node_draft list"
  | SessionUpdated (pm_session: jsstring) planner_status int jsstring "jsstring option option"
  | ErrorDetail jsstring

record planner_event =
  pe_channel :: jsstring
  pe_seq :: int
  pe_timestamp :: jsstring
  pe_payload :: planner_payload

datatype planner_intent =
    SessionPlanning planner_status int
  | SessionStopped planner_status int
  | SessionTerminal planner_status int
  | MessagesIntent
  | StreamRecovered
  | PatchIntent int bool
  | SnapshotIntent int bool
  | RequiresResync int int
  | Ignore

text \<open>\<open>PlannerRuntimeTransition\<close>; None is the source's \<open>null\<close>, leave the control as it is.\<close>

record planner_transition =
  nextPlannerStatus :: ui_status
  nextIsPlannerStopping :: bool
  nextIsPlanning :: "bool option"
  nextIsPlannerExpanded :: "bool option"
  shouldClearPlannerFinishTimer :: bool
  shouldSetOverlayCloseBlocked :: bool
  shouldScheduleOverlayUnlock :: bool

fun isTerminalPlannerStatus :: "ui_status \<Rightarrow> bool" where
  "isTerminalPlannerStatus (Session PlanCompleted) = True"
| "isTerminalPlannerStatus (Session PlanFailed) = True"
| "isTerminalPlannerStatus (Session PlanStopped) = True"
| "isTerminalPlannerStatus _ = False"

fun resolvePlannerRuntimeTransition :: "planner_intent \<Rightarrow> ui_status \<Rightarrow> bool \<Rightarrow> planner_transition" where
  "resolvePlannerRuntimeTransition (SessionPlanning status _) current stopping =
     \<lparr>nextPlannerStatus = Session status, nextIsPlannerStopping = False, nextIsPlanning = Some True,
      nextIsPlannerExpanded = Some True, shouldClearPlannerFinishTimer = True,
      shouldSetOverlayCloseBlocked = True, shouldScheduleOverlayUnlock = False\<rparr>"
| "resolvePlannerRuntimeTransition (SessionStopped status _) current stopping =
     \<lparr>nextPlannerStatus = Session status, nextIsPlannerStopping = False, nextIsPlanning = Some False,
      nextIsPlannerExpanded = Some False, shouldClearPlannerFinishTimer = True,
      shouldSetOverlayCloseBlocked = False, shouldScheduleOverlayUnlock = False\<rparr>"
| "resolvePlannerRuntimeTransition (SessionTerminal status _) current stopping =
     \<lparr>nextPlannerStatus = Session status, nextIsPlannerStopping = False, nextIsPlanning = Some False,
      nextIsPlannerExpanded = Some False, shouldClearPlannerFinishTimer = True,
      shouldSetOverlayCloseBlocked = False, shouldScheduleOverlayUnlock = False\<rparr>"
| "resolvePlannerRuntimeTransition MessagesIntent current stopping =
     (if current = Session PlanStopped then
        \<lparr>nextPlannerStatus = current, nextIsPlannerStopping = stopping, nextIsPlanning = None,
         nextIsPlannerExpanded = None, shouldClearPlannerFinishTimer = True,
         shouldSetOverlayCloseBlocked = False, shouldScheduleOverlayUnlock = False\<rparr>
      else if isTerminalPlannerStatus current then
        \<lparr>nextPlannerStatus = current, nextIsPlannerStopping = stopping, nextIsPlanning = None,
         nextIsPlannerExpanded = None, shouldClearPlannerFinishTimer = False,
         shouldSetOverlayCloseBlocked = True, shouldScheduleOverlayUnlock = True\<rparr>
      else
        \<lparr>nextPlannerStatus = current, nextIsPlannerStopping = stopping, nextIsPlanning = None,
         nextIsPlannerExpanded = None, shouldClearPlannerFinishTimer = True,
         shouldSetOverlayCloseBlocked = True, shouldScheduleOverlayUnlock = False\<rparr>)"
| "resolvePlannerRuntimeTransition (PatchIntent _ isTerminal) current stopping =
     (if \<not> isTerminal then
        \<lparr>nextPlannerStatus = Session Planning, nextIsPlannerStopping = stopping, nextIsPlanning = Some True,
         nextIsPlannerExpanded = Some True, shouldClearPlannerFinishTimer = True,
         shouldSetOverlayCloseBlocked = True, shouldScheduleOverlayUnlock = False\<rparr>
      else
        \<lparr>nextPlannerStatus = current, nextIsPlannerStopping = stopping, nextIsPlanning = None,
         nextIsPlannerExpanded = Some True, shouldClearPlannerFinishTimer = False,
         shouldSetOverlayCloseBlocked = True, shouldScheduleOverlayUnlock = True\<rparr>)"
| "resolvePlannerRuntimeTransition (SnapshotIntent _ isTerminal) current stopping =
     (if \<not> isTerminal then
        \<lparr>nextPlannerStatus = Session Planning, nextIsPlannerStopping = stopping, nextIsPlanning = Some True,
         nextIsPlannerExpanded = Some True, shouldClearPlannerFinishTimer = True,
         shouldSetOverlayCloseBlocked = True, shouldScheduleOverlayUnlock = False\<rparr>
      else
        \<lparr>nextPlannerStatus = current, nextIsPlannerStopping = stopping, nextIsPlanning = None,
         nextIsPlannerExpanded = Some True, shouldClearPlannerFinishTimer = False,
         shouldSetOverlayCloseBlocked = True, shouldScheduleOverlayUnlock = True\<rparr>)"
| "resolvePlannerRuntimeTransition _ current stopping =
     \<lparr>nextPlannerStatus = current, nextIsPlannerStopping = stopping, nextIsPlanning = None,
      nextIsPlannerExpanded = None, shouldClearPlannerFinishTimer = False,
      shouldSetOverlayCloseBlocked = True, shouldScheduleOverlayUnlock = False\<rparr>"

section \<open>The filter\<close>

definition isOutOfOrderSeq :: "int \<Rightarrow> int option \<Rightarrow> bool" where
  "isOutOfOrderSeq messageSeq currentSeq = (case currentSeq of None \<Rightarrow> False | Some s \<Rightarrow> messageSeq \<le> s)"

definition session_channel :: "jsstring \<Rightarrow> jsstring" where
  "session_channel sessionKey = js ''session:'' @ sessionKey @ js '':messages''"

definition isRealtimeChannelMatchedSession :: "jsstring \<Rightarrow> jsstring \<Rightarrow> bool" where
  "isRealtimeChannelMatchedSession channel sessionKey \<longleftrightarrow> channel = session_channel sessionKey"

definition hasRevisionGap :: "int \<Rightarrow> int \<Rightarrow> bool" where
  "hasRevisionGap receivedRevision currentRevision =
     (if currentRevision < 0 then False else currentRevision + 1 < receivedRevision)"

fun resolvePlannerRealtimeIntent :: "planner_event \<Rightarrow> jsstring \<Rightarrow> int \<Rightarrow> int option \<Rightarrow> ui_status \<Rightarrow> planner_intent" where
  "resolvePlannerRealtimeIntent message sessionKey currentRevision currentSeq currentPlannerStatus =
     (case pe_payload message of
        SnapshotReady \<Rightarrow>
          if \<not> isRealtimeChannelMatchedSession (pe_channel message) sessionKey then Ignore else StreamRecovered
      | SessionUpdated key status revision _ _ \<Rightarrow>
          if key \<noteq> sessionKey then Ignore
          else if isOutOfOrderSeq (pe_seq message) currentSeq then Ignore
          else if revision < currentRevision then Ignore
          else if hasRevisionGap revision currentRevision then RequiresResync revision currentRevision
          else if revision = currentRevision \<and> status = Planning \<and> isTerminalPlannerStatus currentPlannerStatus then Ignore
          else if status = Planning then SessionPlanning status revision
          else if status = PlanStopped then SessionStopped status revision
          else SessionTerminal status revision
      | MessagesUpdated key _ _ \<Rightarrow>
          if key \<noteq> sessionKey then Ignore
          else if isOutOfOrderSeq (pe_seq message) currentSeq then Ignore
          else MessagesIntent
      | NodesPatched key revision _ \<Rightarrow>
          if key \<noteq> sessionKey then Ignore
          else if isOutOfOrderSeq (pe_seq message) currentSeq then Ignore
          else if revision < currentRevision then Ignore
          else if hasRevisionGap revision currentRevision then RequiresResync revision currentRevision
          else PatchIntent revision (isTerminalPlannerStatus currentPlannerStatus)
      | SnapshotUpdated key revision _ \<Rightarrow>
          if key \<noteq> sessionKey then Ignore
          else if isOutOfOrderSeq (pe_seq message) currentSeq then Ignore
          else if revision < currentRevision then Ignore
          else if hasRevisionGap revision currentRevision then RequiresResync revision currentRevision
          else SnapshotIntent revision (isTerminalPlannerStatus currentPlannerStatus)
      | ErrorDetail _ \<Rightarrow> Ignore)"

declare resolvePlannerRealtimeIntent.simps [simp del]

lemmas intent_def = resolvePlannerRealtimeIntent.simps

text \<open>The session an event talks about and the revision it carries.\<close>

fun payload_revision :: "planner_payload \<Rightarrow> int option" where
  "payload_revision (NodesPatched _ r _) = Some r"
| "payload_revision (SnapshotUpdated _ r _) = Some r"
| "payload_revision (SessionUpdated _ _ r _ _) = Some r"
| "payload_revision _ = None"

lemma isTerminal_iff: "isTerminalPlannerStatus s \<longleftrightarrow> (\<exists>p. s = Session p \<and> p \<noteq> Planning)"
  by (cases s rule: isTerminalPlannerStatus.cases) auto

lemma isTerminal_agrees: "isTerminalPlannerStatus = isTerminalPlannerSessionStatus"
proof
  show "isTerminalPlannerStatus s = isTerminalPlannerSessionStatus s" for s
    by (cases s rule: isTerminalPlannerStatus.cases) simp_all
qed

lemma intent_resync_iff:
  "resolvePlannerRealtimeIntent m s cur seq st = RequiresResync r c \<longleftrightarrow>
     c = cur \<and> payload_revision (pe_payload m) = Some r \<and> pm_session (pe_payload m) = s \<and>
     \<not> isOutOfOrderSeq (pe_seq m) seq \<and> 0 \<le> cur \<and> cur + 1 < r"
  by (cases "pe_payload m") (auto simp: intent_def hasRevisionGap_def)

lemma intent_revision:
  "resolvePlannerRealtimeIntent m s cur seq st = i \<Longrightarrow>
     i \<in> {SessionPlanning p r, SessionStopped p r, SessionTerminal p r, PatchIntent r b, SnapshotIntent r b} \<Longrightarrow>
     payload_revision (pe_payload m) = Some r \<and> pm_session (pe_payload m) = s \<and> cur \<le> r \<and> (0 \<le> cur \<longrightarrow> r \<le> cur + 1)"
  by (cases "pe_payload m") (auto simp: intent_def hasRevisionGap_def split: if_splits)

text \<open>
  A finished session is not brought back by an old event: when the controls show a terminal
  status, an event changes that status only if it is a session update of this session, and then it
  either carries a terminal status itself or a revision above the one the canvas has.
\<close>

lemma terminal_status_not_regressed:
  assumes "isTerminalPlannerStatus current"
    and "nextPlannerStatus (resolvePlannerRuntimeTransition
           (resolvePlannerRealtimeIntent m s cur seq current) current stopping) \<noteq> current"
  shows "\<exists>status r updated completed. pe_payload m = SessionUpdated s status r updated completed \<and>
    nextPlannerStatus (resolvePlannerRuntimeTransition
      (resolvePlannerRealtimeIntent m s cur seq current) current stopping) = Session status \<and>
    (isTerminalPlannerStatus (Session status) \<and> cur \<le> r \<or> status = Planning \<and> cur < r)"
proof (cases "pe_payload m")
  case (SessionUpdated key status r updated completed)
  then show ?thesis
    using assms by (cases status) (auto simp: intent_def split: if_splits)
qed (use assms in \<open>auto simp: intent_def split: if_splits\<close>)

definition sample_event :: "int \<Rightarrow> planner_payload \<Rightarrow> planner_event" where
  "sample_event seq payload =
     \<lparr>pe_channel = session_channel (js ''s''), pe_seq = seq, pe_timestamp = js ''2026-01-01T00:00:00Z'', pe_payload = payload\<rparr>"

theorem terminal_status_not_regressed_witness:
  "\<exists>status r updated completed.
     pe_payload (sample_event 5 (SessionUpdated (js ''s'') Planning 8 [] None)) = SessionUpdated (js ''s'') status r updated completed \<and>
     (isTerminalPlannerStatus (Session status) \<and> 7 \<le> r \<or> status = Planning \<and> 7 < r)"
  using terminal_status_not_regressed [of "Session PlanCompleted" "sample_event 5 (SessionUpdated (js ''s'') Planning 8 [] None)"
      "js ''s''" 7 "Some 4" False]
  by (simp add: intent_def sample_event_def isOutOfOrderSeq_def hasRevisionGap_def)

text \<open>
  \<open>requires_resync\<close> is raised exactly for an in-order event of this session whose revision is
  more than one above the canvas, and never for a session of which no revision is known yet.
\<close>

lemma revision_gap_detected:
  "(\<exists>r c. resolvePlannerRealtimeIntent m s cur seq st = RequiresResync r c) =
    (pm_session (pe_payload m) = s \<and> \<not> isOutOfOrderSeq (pe_seq m) seq \<and> 0 \<le> cur \<and>
     (\<exists>r. payload_revision (pe_payload m) = Some r \<and> cur + 1 < r))"
  by (auto simp: intent_resync_iff)

end
