(* ===== verification/PlannerMessages.thy ===== *)
theory PlannerMessages imports PlannerEvents begin

text \<open>
  \<open>components/flowPlannerMessageUtils.ts\<close>, the chat of a planner session: cleaning messages,
  merging what the stream delivers (whole lists or chunks of the assistant's text) into the list on
  screen, the gate on sequence numbers; and \<open>components/flowPlannerMessageCache.ts\<close>, the cache
  of the lists of recent sessions.
\<close>

section \<open>Cleaning\<close>

text \<open>A message as the cleaner is prepared to see it.\<close>

record raw_message =
  rm_role :: "jsstring option"
  rm_content :: "jsstring option"
  rm_kind :: "jsstring option"
  rm_payload :: "json option"
  rm_created_at :: "jsstring option"

fun role_str :: "chat_role \<Rightarrow> jsstring" where
  "role_str UserRole = js ''user''"
| "role_str AssistantRole = js ''assistant''"
| "role_str SystemRole = js ''system''"

definition raw_of_message :: "chat_message \<Rightarrow> raw_message" where
  "raw_of_message m = \<lparr>rm_role = Some (role_str (m_role m)), rm_content = Some (m_content m),
     rm_kind = m_kind m, rm_payload = m_payload m, rm_created_at = Some (m_created_at m)\<rparr>"

definition normalizePlannerObserverMessageRole :: "jsstring \<Rightarrow> chat_role" where
  "normalizePlannerObserverMessageRole role =
     (if role = js ''user'' then UserRole else if role = js ''assistant'' then AssistantRole else SystemRole)"

definition normalizePlannerObserverMessageKind :: "jsstring \<Rightarrow> jsstring option \<Rightarrow> jsstring option" where
  "normalizePlannerObserverMessageKind role kind =
     (let normalizedKind = trim_opt kind in
      if normalizedKind \<noteq> [] then Some normalizedKind
      else if role = js ''tool'' then Some (js ''tool_call'') else None)"

text \<open>Only an object or an array is a payload.\<close>

fun normalizeMessagePayload :: "json option \<Rightarrow> json option" where
  "normalizeMessagePayload (Some (JObj fs)) = Some (JObj fs)"
| "normalizeMessagePayload (Some (JArr xs)) = Some (JArr xs)"
| "normalizeMessagePayload _ = None"

definition sanitizePlannerMessage :: "raw_message \<Rightarrow> chat_message" where
  "sanitizePlannerMessage message =
     \<lparr>m_role = normalizePlannerObserverMessageRole (trim_opt (rm_role message)),
      m_content = nullish (rm_content message) [],
      m_kind = non_empty (trim_opt (rm_kind message)),
      m_payload = normalizeMessagePayload (rm_payload message),
      m_created_at = nullish (rm_created_at message) []\<rparr>"

definition sanitizePlannerMessages :: "raw_message list \<Rightarrow> chat_message list" where
  "sanitizePlannerMessages messages = map sanitizePlannerMessage messages"

lemma normalize_role_str [simp]: "normalizePlannerObserverMessageRole (trim (role_str r)) = r"
  by (cases r) (simp_all add: normalizePlannerObserverMessageRole_def char_white_def)

lemma normalizeMessagePayload_idem [simp]: "normalizeMessagePayload (normalizeMessagePayload p) = normalizeMessagePayload p"
  by (cases p rule: normalizeMessagePayload.cases) simp_all

lemma sanitize_raw_of [simp]:
  "sanitizePlannerMessage (raw_of_message (sanitizePlannerMessage m)) = sanitizePlannerMessage m"
  by (simp add: sanitizePlannerMessage_def raw_of_message_def trim_opt_def non_empty_def)

section \<open>Merging\<close>

definition hasPendingPlannerReply :: "chat_message list \<Rightarrow> bool" where
  "hasPendingPlannerReply messages = (if messages = [] then False else m_role (last messages) = UserRole)"

definition mergeStreamingPlannerAssistantText :: "jsstring \<Rightarrow> jsstring \<Rightarrow> jsstring" where
  "mergeStreamingPlannerAssistantText previousText incomingText =
     (if incomingText = [] then previousText
      else if previousText = [] then incomingText
      else if starts_with incomingText previousText then incomingText
      else if starts_with previousText incomingText then previousText
      else if ends_with previousText incomingText then previousText
      else previousText @ incomingText)"

definition message_kind :: "chat_message \<Rightarrow> jsstring" where
  "message_kind message = str_or (trim (nullish (m_kind message) (js ''message''))) (js ''message'')"

definition shouldMergeAssistantChunk :: "chat_message \<Rightarrow> bool" where
  "shouldMergeAssistantChunk message \<longleftrightarrow>
     m_role message = AssistantRole \<and>
     (message_kind message = js ''message'' \<or> message_kind message = js ''assistant_delta'')"

text \<open>
  The merge returns \<open>previousMessages\<close> itself, which callers test with \<open>===\<close>, or another list:
  None stands for the former.
\<close>

definition merge_messages :: "chat_message list \<Rightarrow> chat_message list \<Rightarrow> update_mode option \<Rightarrow> chat_message list option" where
  "merge_messages previousMessages incomingMessages updateMode =
     (if updateMode \<noteq> Some AppendChunk then
        (if incomingMessages = [] \<and> hasPendingPlannerReply previousMessages then None else Some incomingMessages)
      else if incomingMessages = [] then None
      else if \<not> (length incomingMessages = 1 \<and> shouldMergeAssistantChunk (hd incomingMessages)) then Some incomingMessages
      else if previousMessages = [] then Some incomingMessages
      else
        let lastMessage = last previousMessages; incomingAssistant = hd incomingMessages in
        if \<not> shouldMergeAssistantChunk lastMessage then Some (previousMessages @ [incomingAssistant])
        else
          let mergedContent = mergeStreamingPlannerAssistantText (m_content lastMessage) (m_content incomingAssistant) in
          if mergedContent = m_content lastMessage then None
          else Some (butlast previousMessages @
            [lastMessage\<lparr>m_content := mergedContent,
               m_kind := nullish_opt (m_kind incomingAssistant) (m_kind lastMessage),
               m_payload := nullish_opt (m_payload incomingAssistant) (m_payload lastMessage),
               m_created_at := str_or (m_created_at incomingAssistant) (m_created_at lastMessage)\<rparr>]))"

definition mergeFlowChatMessagesFromRealtime :: "chat_message list \<Rightarrow> chat_message list \<Rightarrow> update_mode option \<Rightarrow> chat_message list" where
  "mergeFlowChatMessagesFromRealtime previousMessages incomingMessages updateMode =
     nullish (merge_messages previousMessages incomingMessages updateMode) previousMessages"

definition mergeSanitizedPlannerMessagesFromRealtime ::
  "chat_message list \<Rightarrow> raw_message list \<Rightarrow> update_mode option \<Rightarrow> chat_message list option" where
  "mergeSanitizedPlannerMessagesFromRealtime previousMessages incomingMessages updateMode =
     merge_messages previousMessages (sanitizePlannerMessages incomingMessages) updateMode"

text \<open>\<open>Number.isFinite(seq) ? Math.trunc(seq) : -1\<close>\<close>

fun normalized_seq :: "jsnum \<Rightarrow> int" where
  "normalized_seq (Fin q) = (if 0 \<le> q then \<lfloor>q\<rfloor> else \<lceil>q\<rceil>)"
| "normalized_seq _ = -1"

lemma normalized_seq_jint [simp]: "normalized_seq (jint i) = i"
  by (simp add: jint_def)

text \<open>The gate: None is \<open>ignore\<close>, Some the next \<open>lastSeq\<close>.\<close>

definition resolvePlannerMessageRealtimeWriteIntent :: "int option \<Rightarrow> jsnum \<Rightarrow> int option" where
  "resolvePlannerMessageRealtimeWriteIntent lastSeq seq =
     (case lastSeq of
        Some previousSeq \<Rightarrow> if normalized_seq seq \<le> previousSeq then None else Some (normalized_seq seq)
      | None \<Rightarrow> Some (normalized_seq seq))"

text \<open>(applied, next \<open>lastSeq\<close>, next messages); a missing state is one with \<open>lastSeq\<close> null.\<close>

definition resolvePlannerMessageRealtimeUpdate ::
  "int option \<Rightarrow> chat_message list \<Rightarrow> raw_message list \<Rightarrow> jsnum \<Rightarrow> update_mode option \<Rightarrow> bool \<times> int option \<times> chat_message list" where
  "resolvePlannerMessageRealtimeUpdate lastSeq previousMessages incomingMessages seq updateMode =
     (case resolvePlannerMessageRealtimeWriteIntent lastSeq seq of
        None \<Rightarrow> (False, lastSeq, previousMessages)
      | Some next \<Rightarrow>
          (case mergeSanitizedPlannerMessagesFromRealtime previousMessages incomingMessages updateMode of
             None \<Rightarrow> (False, Some next, previousMessages)
           | Some nextMessages \<Rightarrow> (True, Some next, nextMessages)))"

lemma infix_if:
  "starts_with s p \<Longrightarrow> \<exists>a b. s = a @ p @ b"
  "ends_with s p \<Longrightarrow> \<exists>a b. s = a @ p @ b"
  by (metis starts_with_iff append_Nil) (metis ends_with_iff append_Nil2)

lemma streaming_merge_cases:
  "mergeStreamingPlannerAssistantText shown chunk = chunk \<or>
   mergeStreamingPlannerAssistantText shown chunk = shown @ chunk \<or>
   (\<exists>a b. mergeStreamingPlannerAssistantText shown chunk = a @ chunk @ b)"
  by (simp add: mergeStreamingPlannerAssistantText_def infix_if)

text \<open>
  Streaming never takes back text and can be replayed: merging a chunk into the assistant's text
  keeps the text shown as a prefix, the chunk is part of the result, and merging the same chunk
  once more changes nothing.
\<close>

lemma streaming_merge_monotone:
  "starts_with (mergeStreamingPlannerAssistantText shown chunk) shown \<and>
   (\<exists>a b. mergeStreamingPlannerAssistantText shown chunk = a @ chunk @ b) \<and>
   mergeStreamingPlannerAssistantText (mergeStreamingPlannerAssistantText shown chunk) chunk
     = mergeStreamingPlannerAssistantText shown chunk"
proof (intro conjI)
  show "starts_with (mergeStreamingPlannerAssistantText shown chunk) shown"
    by (simp add: mergeStreamingPlannerAssistantText_def starts_with_def)
  show "\<exists>a b. mergeStreamingPlannerAssistantText shown chunk = a @ chunk @ b"
    using streaming_merge_cases [of shown chunk]
  proof (elim disjE)
    assume "mergeStreamingPlannerAssistantText shown chunk = chunk"
    then show ?thesis by (metis append_Nil append_Nil2)
  next
    assume "mergeStreamingPlannerAssistantText shown chunk = shown @ chunk"
    then show ?thesis by (metis append_Nil2)
  qed blast
  show "mergeStreamingPlannerAssistantText (mergeStreamingPlannerAssistantText shown chunk) chunk
     = mergeStreamingPlannerAssistantText shown chunk"
    by (simp add: mergeStreamingPlannerAssistantText_def starts_with_def ends_with_def)
qed

text \<open>
  A chunk of new text that repeats the end of the text shown is taken for a replay and lost:
  streaming \<open>ha\<close> twice shows \<open>ha\<close>, and streaming \<open>0.1\<close> and then \<open>1\<close> shows \<open>0.1\<close>.
\<close>

lemma streaming_merge_drops_repetition:
  "fold (\<lambda>chunk shown. mergeStreamingPlannerAssistantText shown chunk) [js ''ha'', js ''ha''] [] = js ''ha'' \<and>
   fold (\<lambda>chunk shown. mergeStreamingPlannerAssistantText shown chunk) [js ''0.1'', js ''1''] [] = js ''0.1''"
  by (simp add: mergeStreamingPlannerAssistantText_def starts_with_def ends_with_def js_def)

text \<open>
  The gate on sequence numbers makes updates of the chat monotone: the last sequence number never
  goes back, an update at or below it changes nothing, and an update that is let through is
  ignored when it is delivered again.
\<close>

lemma message_updates_monotone:
  "(case resolvePlannerMessageRealtimeUpdate lastSeq previous incoming seq mode of (applied, lastSeq', messages) \<Rightarrow>
     (\<exists>n. lastSeq' = Some n \<and> normalized_seq seq \<le> n \<and> (\<forall>s. lastSeq = Some s \<longrightarrow> s \<le> n)) \<and>
     ((\<exists>s. lastSeq = Some s \<and> normalized_seq seq \<le> s) \<longrightarrow> \<not> applied \<and> lastSeq' = lastSeq \<and> messages = previous) \<and>
     (\<not> applied \<longrightarrow> messages = previous) \<and>
     resolvePlannerMessageRealtimeUpdate lastSeq' messages incoming seq mode = (False, lastSeq', messages))"
  by (auto simp: resolvePlannerMessageRealtimeUpdate_def resolvePlannerMessageRealtimeWriteIntent_def
      split: option.splits if_splits)

text \<open>
  A chunk of assistant text only ever touches the end of the chat: all messages but the last stay
  as they are, the last one is extended or followed by one new message; and an empty list never
  wipes out a question that waits for its answer.
\<close>

lemma chunk_keeps_history:
  "(shouldMergeAssistantChunk m \<longrightarrow>
     (\<exists>tail. mergeFlowChatMessagesFromRealtime previous [m] (Some AppendChunk) = butlast previous @ tail \<and>
        length previous \<le> length (butlast previous @ tail) \<and> length (butlast previous @ tail) \<le> Suc (length previous) \<and>
        (previous \<noteq> [] \<longrightarrow> starts_with (m_content (hd tail)) (m_content (last previous))))) \<and>
   (hasPendingPlannerReply previous \<longrightarrow> mergeFlowChatMessagesFromRealtime previous [] mode = previous)"
proof (intro conjI impI)
  assume m: "shouldMergeAssistantChunk m"
  show "\<exists>tail. mergeFlowChatMessagesFromRealtime previous [m] (Some AppendChunk) = butlast previous @ tail \<and>
        length previous \<le> length (butlast previous @ tail) \<and> length (butlast previous @ tail) \<le> Suc (length previous) \<and>
        (previous \<noteq> [] \<longrightarrow> starts_with (m_content (hd tail)) (m_content (last previous)))"
  proof (cases previous rule: rev_cases)
    case Nil
    then show ?thesis using m by (auto simp: mergeFlowChatMessagesFromRealtime_def merge_messages_def)
  next
    case (snoc ys y)
    then show ?thesis
      using m by (auto simp: mergeFlowChatMessagesFromRealtime_def merge_messages_def Let_def starts_with_def
          mergeStreamingPlannerAssistantText_def)
  qed
next
  assume "hasPendingPlannerReply previous"
  then show "mergeFlowChatMessagesFromRealtime previous [] mode = previous"
    by (simp add: mergeFlowChatMessagesFromRealtime_def merge_messages_def)
qed

theorem message_updates_monotone_witness:
  "(case resolvePlannerMessageRealtimeUpdate (Some 4) [] [] (jint 3) None of (applied, lastSeq', messages) \<Rightarrow>
     \<not> applied \<and> lastSeq' = Some 4 \<and> messages = [])"
  using message_updates_monotone [where lastSeq = "Some 4" and previous = "[]" and incoming = "[]" and seq = "jint 3" and mode = None] by (simp split: prod.splits)

definition sample_reply :: "string \<Rightarrow> chat_message" where
  "sample_reply text = \<lparr>m_role = AssistantRole, m_content = js text, m_kind = None, m_payload = None,
     m_created_at = js ''2026-01-01T00:00:00Z''\<rparr>"

theorem chunk_keeps_history_witness:
  "\<exists>tail. mergeFlowChatMessagesFromRealtime [sample_reply ''a'', sample_reply ''b''] [sample_reply ''c''] (Some AppendChunk)
     = [sample_reply ''a''] @ tail \<and> starts_with (m_content (hd tail)) (js ''b'')"
proof -
  have c: "shouldMergeAssistantChunk (sample_reply ''c'')"
    by (simp add: shouldMergeAssistantChunk_def message_kind_def sample_reply_def char_white_def str_or_def)
  show ?thesis
    using chunk_keeps_history [THEN conjunct1, rule_format, OF c, of "[sample_reply ''a'', sample_reply ''b'']"]
    by (auto simp: sample_reply_def)
qed

section \<open>The cache of sessions\<close>

text \<open>
  The two records the cache keeps, messages and time of last use by session key. \<open>xs.slice(-n)\<close> is
  the last n elements, and all of them when n is 0, since \<open>-0\<close> is the index 0.
\<close>

record message_cache =
  messagesBySession :: "(jsstring \<times> chat_message list) list"
  seenAtBySession :: "(jsstring \<times> int) list"

definition slice_last :: "nat \<Rightarrow> 'a list \<Rightarrow> 'a list" where
  "slice_last n xs = (if n = 0 then xs else drop (length xs - n) xs)"

definition seen_le :: "(jsstring \<times> int) list \<Rightarrow> jsstring \<Rightarrow> jsstring \<Rightarrow> bool" where
  "seen_le seenAt left right \<longleftrightarrow> map_get seenAt left 0 - map_get seenAt right 0 \<le> 0"

definition cachePlannerMessagesBySession :: "message_cache \<Rightarrow> jsstring option \<Rightarrow> chat_message list \<Rightarrow> int \<Rightarrow> nat \<Rightarrow> nat
    \<Rightarrow> message_cache" where
  "cachePlannerMessagesBySession cache sessionKey messages nowMs maxMessages maxSessions =
     (let normalizedSessionKey = trim_opt sessionKey in
      if normalizedSessionKey = [] then cache
      else
        let stored = cache\<lparr>messagesBySession := AList.update normalizedSessionKey (slice_last maxMessages messages) (messagesBySession cache),
              seenAtBySession := AList.update normalizedSessionKey nowMs (seenAtBySession cache)\<rparr>;
            cachedSessionKeys = map fst (messagesBySession stored)
        in if length cachedSessionKeys \<le> maxSessions then stored
           else
             let keysByOldest = sort_by (seen_le (seenAtBySession stored)) cachedSessionKeys;
                 stale = take (length cachedSessionKeys - maxSessions) keysByOldest
             in stored\<lparr>messagesBySession := fold AList.delete stale (messagesBySession stored),
                  seenAtBySession := fold AList.delete stale (seenAtBySession stored)\<rparr>)"

definition readPlannerMessagesFromCache :: "message_cache \<Rightarrow> jsstring option \<Rightarrow> chat_message list" where
  "readPlannerMessagesFromCache cache sessionKey =
     (let normalizedSessionKey = trim_opt sessionKey in
      if normalizedSessionKey = [] then [] else map_get (messagesBySession cache) normalizedSessionKey [])"

lemma fold_delete_keys: "map fst (fold AList.delete ks m) = filter (\<lambda>k. k \<notin> set ks) (map fst m)"
proof (induction ks arbitrary: m)
  case Nil
  then show ?case by simp
next
  case (Cons k ks)
  have d: "map fst (AList.delete k m) = filter (\<lambda>x. x \<noteq> k) (map fst m)"
    by (simp add: AList.delete_keys removeAll_filter_not_eq) (rule filter_cong, auto)
  show ?case by (simp add: Cons.IH d)
qed

lemma fold_delete_get: "k \<notin> set ks \<Longrightarrow> map_get (fold AList.delete ks m) k d = map_get m k d"
  by (induction ks arbitrary: m) (simp_all add: map_get_def)

text \<open>How many keys are left when n of the distinct keys go.\<close>

lemma length_filter_take:
  assumes "distinct ks" and "set srt = set ks" and "distinct srt" and "n \<le> length srt"
  shows "length (filter (\<lambda>k. k \<notin> set (take n srt)) ks) = length ks - n"
proof -
  have "length (filter (\<lambda>k. k \<notin> set (take n srt)) ks) = card (set ks - set (take n srt))"
    using assms(1) by (metis distinct_card distinct_filter set_diff_eq set_filter)
  also have "\<dots> = card (set ks) - card (set (take n srt))"
    using assms(2) by (intro card_Diff_subset) (auto dest: in_set_takeD)
  also have "\<dots> = length ks - n"
    using assms by (simp add: distinct_card)
  finally show ?thesis .
qed

lemma distinct_sort_by: "distinct xs \<Longrightarrow> distinct (sort_by le xs)"
  by (metis mset_eq_imp_distinct_iff mset_sort_by)

lemma update_keys_distinct: "distinct (map fst m) \<Longrightarrow> distinct (map fst (AList.update k v m))"
  by (rule distinct_update)

lemma oldest_first_keeps_newest:
  assumes "distinct ks" and "n < length ks" and "k \<in> set ks"
    and "\<forall>x \<in> set ks. x \<noteq> k \<longrightarrow> map_get seen x 0 < map_get seen k 0"
  shows "k \<notin> set (take n (sort_by (seen_le seen) ks))"
proof
  let ?s = "sort_by (seen_le seen) ks"
  assume "k \<in> set (take n ?s)"
  then obtain i where i: "i < n" "?s ! i = k" by (auto simp: in_set_conv_nth)
  have "sorted_wrt (seen_le seen) ?s"
    by (rule sorted_sort_by) (auto simp: seen_le_def transp_def totalp_on_def reflp_def)
  then have "seen_le seen k (?s ! n)"
    using i assms(2) by (metis length_sort_by sorted_wrt_nth_less)
  moreover have "?s ! n \<noteq> k"
    using i assms(2) nth_eq_iff_index_eq [OF distinct_sort_by [OF assms(1)], where i = i and j = n and le1 = "seen_le seen"] by auto
  moreover have "?s ! n \<in> set ks" using assms(2) by (metis length_sort_by nth_mem set_sort_by)
  ultimately show False using assms(4) by (fastforce simp: seen_le_def)
qed

text \<open>
  The cache stays within its bound and keeps what matters: caching a session leaves at most
  \<open>maxSessions\<close> sessions with distinct keys and forgets no more than it must, and when the clock
  has advanced the session just cached is there with the last \<open>maxMessages\<close> of its messages.
\<close>

lemma cache_bounded_and_fresh:
  assumes "distinct (map fst (messagesBySession cache))" and "0 < maxSessions" and "trim_opt key \<noteq> []"
    and "\<forall>k \<in> set (map fst (messagesBySession cache)). k \<noteq> trim_opt key \<longrightarrow> map_get (seenAtBySession cache) k 0 < nowMs"
  shows "distinct (map fst (messagesBySession (cachePlannerMessagesBySession cache key messages nowMs maxMessages maxSessions))) \<and>
    length (messagesBySession (cachePlannerMessagesBySession cache key messages nowMs maxMessages maxSessions)) =
      min maxSessions (card (insert (trim_opt key) (set (map fst (messagesBySession cache))))) \<and>
    readPlannerMessagesFromCache (cachePlannerMessagesBySession cache key messages nowMs maxMessages maxSessions) key
      = slice_last maxMessages messages"
proof -
  let ?k = "trim_opt key" and ?m = "AList.update (trim_opt key) (slice_last maxMessages messages) (messagesBySession cache)"
  let ?seen = "AList.update (trim_opt key) nowMs (seenAtBySession cache)" and ?r = "cachePlannerMessagesBySession cache key messages nowMs maxMessages maxSessions"
  let ?ks = "map fst ?m" and ?n = "length (map fst ?m) - maxSessions"
  let ?stale = "take ?n (sort_by (seen_le ?seen) ?ks)"
  have d: "distinct ?ks" using assms(1) by (rule update_keys_distinct)
  have set: "set ?ks = insert ?k (set (map fst (messagesBySession cache)))" by (auto simp: update_keys)
  then have card: "card (insert ?k (set (map fst (messagesBySession cache)))) = length ?ks"
    using distinct_card [OF d] by simp
  show ?thesis
  proof (cases "length ?ks \<le> maxSessions")
    case True
    then have r: "messagesBySession ?r = ?m"
      using assms(3) by (simp add: cachePlannerMessagesBySession_def Let_def)
    show ?thesis
      using True d card assms(3) by (simp add: r readPlannerMessagesFromCache_def Let_def)
  next
    case False
    then have r: "messagesBySession ?r = fold AList.delete ?stale ?m"
      using assms(3) by (simp add: cachePlannerMessagesBySession_def Let_def)
    have "?k \<notin> set ?stale"
      using d False assms(2,4) set by (intro oldest_first_keeps_newest) auto
    then have "map_get (messagesBySession ?r) ?k [] = slice_last maxMessages messages"
      by (simp only: r fold_delete_get map_get_update simp_thms if_True)
    moreover have "length (map fst (messagesBySession ?r)) = length ?ks - ?n"
      unfolding r fold_delete_keys
      by (rule length_filter_take [OF d]) (simp_all add: d distinct_sort_by)
    moreover have "distinct (map fst (messagesBySession ?r))"
      unfolding r fold_delete_keys using d by simp
    ultimately show ?thesis using False card assms(3) by (simp add: readPlannerMessagesFromCache_def Let_def)
  qed
qed

theorem cache_bounded_and_fresh_witness:
  "readPlannerMessagesFromCache (cachePlannerMessagesBySession \<lparr>messagesBySession = [(js ''old'', [])], seenAtBySession = [(js ''old'', 3)]\<rparr>
     (Some (js ''new'')) [sample_reply ''a'', sample_reply ''b''] 5 1 1) (Some (js ''new'')) = [sample_reply ''b'']"
  using cache_bounded_and_fresh [where cache = "\<lparr>messagesBySession = [(js ''old'', [])], seenAtBySession = [(js ''old'', 3)]\<rparr>"
      and key = "Some (js ''new'')" and maxSessions = 1 and nowMs = 5 and maxMessages = 1
      and messages = "[sample_reply ''a'', sample_reply ''b'']"]
  by (simp add: trim_opt_def char_white_def slice_last_def map_get_def)

end
