(* ===== verification/PlannerRuntime.thy ===== *)
theory PlannerRuntime imports PlannerQueue PlannerMessages begin

text \<open>
  \<open>hooks/useFlowPlannerQueuePath.ts\<close> and \<open>hooks/useFlowPlannerRuntime.ts\<close>, with the message sink of
  \<open>flow-page/hooks/useFlowPlannerRuntimeBridge.ts\<close>: an event of the planner stream goes through the
  filter of \<open>PlannerEvents\<close>, moves the controls, and feeds the operation queue. The queue is reached
  only through the operations in the options of the hook, so what the runtime needs of them is the
  locale \<open>planner_queue_ops\<close>, interpreted by the hook of \<open>PlannerQueue\<close>.
\<close>

section \<open>The path to the queue\<close>

text \<open>\<open>PendingPlannerRequestState\<close>; a revision that is missing or not finite is None.\<close>

record pending_request =
  rq_id :: int
  rq_session :: jsstring
  rq_allow_http :: bool
  rq_baseline :: "int option"
  rq_latest :: "int option"

text \<open>The operations in \<open>UseFlowPlannerQueuePathOptions\<close>, on a queue state \<open>'q\<close>.\<close>

record 'q queue_ops =
  qo_clear :: "jsstring option \<Rightarrow> 'q \<Rightarrow> 'q"
  qo_pending :: "jsstring \<Rightarrow> 'q \<Rightarrow> 'q"
  qo_enqueue :: "jsstring \<Rightarrow> node_operation list \<Rightarrow> 'q \<Rightarrow> 'q"
  qo_snapshot :: "jsstring \<Rightarrow> int \<Rightarrow> node_draft list \<Rightarrow> 'q \<Rightarrow> 'q"

record 'q path_state =
  pp_revisions :: "(jsstring \<times> int) list"
  pp_pending :: "pending_request option"
  pp_queue :: 'q

definition normalizePendingBaselineRevision :: "pending_request \<Rightarrow> (jsstring \<times> int) list \<Rightarrow> int" where
  "normalizePendingBaselineRevision pending revisions =
     (case rq_baseline pending of Some r \<Rightarrow> r | None \<Rightarrow> map_get revisions (rq_session pending) (-1))"

definition normalizePendingLatestRealtimeRevision :: "pending_request \<Rightarrow> int \<Rightarrow> int" where
  "normalizePendingLatestRealtimeRevision pending fallback = nullish (rq_latest pending) fallback"

definition getCurrentRevision :: "jsstring \<Rightarrow> ('q, 'r) path_state_scheme \<Rightarrow> int" where
  "getCurrentRevision sessionKey st = map_get (pp_revisions st) sessionKey (-1)"

text \<open>\<open>clearSessionQueueRuntime\<close>: the early returns, then the clearing itself.\<close>

definition stale_terminal :: "jsstring \<Rightarrow> int option \<Rightarrow> ('q, 'r) path_state_scheme \<Rightarrow> bool" where
  "stale_terminal sessionKey terminalRevision st =
     (case terminalRevision of None \<Rightarrow> False | Some r \<Rightarrow> r < map_get (pp_revisions st) sessionKey (-1))"

definition previous_generation :: "int option \<Rightarrow> pending_request \<Rightarrow> ('q, 'r) path_state_scheme \<Rightarrow> bool" where
  "previous_generation terminalRevision pending st =
     (case terminalRevision of
        None \<Rightarrow> False
      | Some r \<Rightarrow>
          let baselineRevision = normalizePendingBaselineRevision pending (pp_revisions st);
              latestRealtimeRevision = normalizePendingLatestRealtimeRevision pending baselineRevision
          in latestRealtimeRevision \<le> baselineRevision \<and> r \<le> baselineRevision \<and> rq_allow_http pending)"

definition clear_session :: "'q queue_ops \<Rightarrow> jsstring \<Rightarrow> ('q, 'r) path_state_scheme \<Rightarrow> ('q, 'r) path_state_scheme" where
  "clear_session ops sessionKey st =
     (let st' = st\<lparr>pp_queue := qo_clear ops (Some sessionKey) (qo_pending ops sessionKey (pp_queue st))\<rparr> in
      case pp_pending st' of
        Some pending \<Rightarrow> if rq_session pending = sessionKey then st'\<lparr>pp_pending := None\<rparr> else st'
      | None \<Rightarrow> st')"

definition clearSessionQueueRuntime :: "'q queue_ops \<Rightarrow> jsstring \<Rightarrow> int option \<Rightarrow> ('q, 'r) path_state_scheme
    \<Rightarrow> ('q, 'r) path_state_scheme" where
  "clearSessionQueueRuntime ops sessionKey terminalRevision st =
     (if stale_terminal sessionKey terminalRevision st then st
      else case pp_pending st of
        None \<Rightarrow> clear_session ops sessionKey st
      | Some pending \<Rightarrow>
          if rq_session pending \<noteq> sessionKey then st\<lparr>pp_queue := qo_clear ops (Some sessionKey) (pp_queue st)\<rparr>
          else if previous_generation terminalRevision pending st then st
          else clear_session ops sessionKey st)"

text \<open>The pending request learns the revision: the update of \<open>pendingPlannerRequestRef\<close>.\<close>

definition advance_pending :: "jsstring \<Rightarrow> int \<Rightarrow> ('q, 'r) path_state_scheme \<Rightarrow> pending_request option" where
  "advance_pending sessionKey revision st =
     (case pp_pending st of
        None \<Rightarrow> None
      | Some pending \<Rightarrow>
          if rq_session pending \<noteq> sessionKey then Some pending
          else
            let baselineRevision = normalizePendingBaselineRevision pending (pp_revisions st);
                latestRealtimeRevision = max (normalizePendingLatestRealtimeRevision pending baselineRevision) revision
            in Some (pending\<lparr>rq_baseline := Some baselineRevision, rq_latest := Some latestRealtimeRevision,
                 rq_allow_http := (if baselineRevision < latestRealtimeRevision then False else rq_allow_http pending)\<rparr>))"

definition record_revision :: "jsstring \<Rightarrow> int \<Rightarrow> ('q, 'r) path_state_scheme \<Rightarrow> ('q, 'r) path_state_scheme" where
  "record_revision sessionKey revision st =
     (let st' = st\<lparr>pp_revisions := AList.update sessionKey revision (pp_revisions st)\<rparr>
      in st'\<lparr>pp_pending := advance_pending sessionKey revision st'\<rparr>)"

definition applyRevisionIntent :: "'q queue_ops \<Rightarrow> planner_intent \<Rightarrow> planner_event \<Rightarrow> jsstring
    \<Rightarrow> ('q, 'r) path_state_scheme \<Rightarrow> ('q, 'r) path_state_scheme" where
  "applyRevisionIntent ops intent message sessionKey st =
     (case intent of
        PatchIntent revision _ \<Rightarrow>
          (let st' = record_revision sessionKey revision st in
           case pe_payload message of
             NodesPatched _ _ operations \<Rightarrow> st'\<lparr>pp_queue := qo_enqueue ops sessionKey operations (pp_queue st')\<rparr>
           | _ \<Rightarrow> st')
      | SnapshotIntent revision _ \<Rightarrow>
          (let st' = record_revision sessionKey revision st in
           case pe_payload message of
             SnapshotUpdated _ r nodes \<Rightarrow> st'\<lparr>pp_queue := qo_snapshot ops sessionKey r nodes (pp_queue st')\<rparr>
           | _ \<Rightarrow> st')
      | _ \<Rightarrow> st)"

section \<open>The runtime\<close>

text \<open>
  The refs of the runtime and the controls its setters write. A ref that mirrors a control
  (\<open>plannerSessionStatusRef\<close>, \<open>isPlannerStoppingRef\<close>) is that control: the bridge copies it before
  the next event is handled. \<open>rt_finish_timer\<close> tells whether the unlock of the overlay is scheduled.
\<close>

record 'q runtime = "'q path_state" +
  rt_seq :: "(jsstring \<times> int) list"
  rt_resync :: "(jsstring \<times> bool) list"
  rt_status :: ui_status
  rt_stopping :: bool
  rt_planning :: bool
  rt_expanded :: bool
  rt_overlay_blocked :: bool
  rt_finish_timer :: bool
  rt_messages :: "chat_message list"
  rt_cache :: message_cache

datatype apply_result = Applied | Ignored | ResyncNeeded jsstring int int int

definition PLANNER_MESSAGE_CACHE_MAX_SESSIONS :: nat where "PLANNER_MESSAGE_CACHE_MAX_SESSIONS = 24"
definition PLANNER_MESSAGE_CACHE_MAX_MESSAGES :: nat where "PLANNER_MESSAGE_CACHE_MAX_MESSAGES = 200"

text \<open>
  The updater of \<open>replacePlannerMessagesFromRealtime\<close>. The merged list has the very items of the
  current one only when the merge returned it, or both are empty.
\<close>

definition replacePlannerMessagesFromRealtime :: "int \<Rightarrow> jsstring \<Rightarrow> chat_message list \<Rightarrow> update_mode option
    \<Rightarrow> ('q, 'r) runtime_scheme \<Rightarrow> ('q, 'r) runtime_scheme" where
  "replacePlannerMessagesFromRealtime nowMs sessionKey messages updateMode rt =
     (let normalizedSessionKey = trim sessionKey in
      if normalizedSessionKey = [] then rt
      else case mergeSanitizedPlannerMessagesFromRealtime (rt_messages rt) (map raw_of_message messages) updateMode of
        None \<Rightarrow> rt
      | Some next \<Rightarrow>
          if next = [] \<and> rt_messages rt = [] then rt
          else rt\<lparr>rt_messages := next,
                 rt_cache := cachePlannerMessagesBySession (rt_cache rt) (Some normalizedSessionKey) next nowMs
                   PLANNER_MESSAGE_CACHE_MAX_MESSAGES PLANNER_MESSAGE_CACHE_MAX_SESSIONS\<rparr>)"

text \<open>The setters a transition calls, in the order of the code.\<close>

definition run_transition :: "planner_transition \<Rightarrow> ('q, 'r) runtime_scheme \<Rightarrow> ('q, 'r) runtime_scheme" where
  "run_transition transition rt =
     (let rt1 = (if shouldClearPlannerFinishTimer transition then rt\<lparr>rt_finish_timer := False\<rparr> else rt);
          rt2 = rt1\<lparr>rt_overlay_blocked := shouldSetOverlayCloseBlocked transition,
                    rt_expanded := nullish (nextIsPlannerExpanded transition) (rt_expanded rt1),
                    rt_planning := nullish (nextIsPlanning transition) (rt_planning rt1),
                    rt_stopping := nextIsPlannerStopping transition,
                    rt_status := nextPlannerStatus transition\<rparr>
      in if shouldScheduleOverlayUnlock transition then rt2\<lparr>rt_finish_timer := True\<rparr> else rt2)"

text \<open>The callback of the finish timer.\<close>

definition overlay_unlock :: "('q, 'r) runtime_scheme \<Rightarrow> ('q, 'r) runtime_scheme" where
  "overlay_unlock rt = rt\<lparr>rt_finish_timer := False, rt_overlay_blocked := False\<rparr>"

text \<open>The intent of an event, with the exception for the snapshot that ends a resynchronisation.\<close>

definition runtime_intent :: "planner_event \<Rightarrow> jsstring \<Rightarrow> ('q, 'r) runtime_scheme \<Rightarrow> planner_intent" where
  "runtime_intent message sessionKey rt =
     (let intent = resolvePlannerRealtimeIntent message sessionKey (getCurrentRevision sessionKey rt)
            (map_of (rt_seq rt) sessionKey) (rt_status rt)
      in case (intent, pe_payload message) of
           (RequiresResync _ _, SnapshotUpdated _ revision _) \<Rightarrow>
             if map_get (rt_resync rt) sessionKey False
             then SnapshotIntent revision (rt_status rt = Session PlanCompleted \<or> rt_status rt = Session PlanFailed \<or>
                    rt_status rt = Session PlanStopped)
             else intent
         | _ \<Rightarrow> intent)"

definition applyPlannerRealtimeUpdate :: "'q queue_ops \<Rightarrow> int \<Rightarrow> planner_event \<Rightarrow> jsstring \<Rightarrow> ('q, 'r) runtime_scheme
    \<Rightarrow> apply_result \<times> ('q, 'r) runtime_scheme" where
  "applyPlannerRealtimeUpdate ops nowMs message sessionKey rt =
     (let currentRevision = getCurrentRevision sessionKey rt;
          intent = runtime_intent message sessionKey rt;
          rt1 = rt\<lparr>rt_seq := AList.update sessionKey (pe_seq message) (rt_seq rt)\<rparr>
      in case intent of
        StreamRecovered \<Rightarrow> (Ignored, rt1)
      | Ignore \<Rightarrow> (Ignored, rt)
      | RequiresResync received current \<Rightarrow>
          (ResyncNeeded sessionKey received current (pe_seq message),
           clearSessionQueueRuntime ops sessionKey None (rt1\<lparr>rt_resync := AList.update sessionKey True (rt_resync rt1)\<rparr>))
      | _ \<Rightarrow>
          if (case intent of PatchIntent revision _ \<Rightarrow> revision = currentRevision | _ \<Rightarrow> False) then (Ignored, rt1)
          else
            let rt2 = run_transition (resolvePlannerRuntimeTransition intent (rt_status rt) (rt_stopping rt)) rt1
            in case intent of
              SessionPlanning _ _ \<Rightarrow> (Applied, rt2)
            | SessionStopped _ revision \<Rightarrow> (Applied, clearSessionQueueRuntime ops sessionKey (Some revision) rt2)
            | SessionTerminal _ revision \<Rightarrow> (Applied, clearSessionQueueRuntime ops sessionKey (Some revision) rt2)
            | MessagesIntent \<Rightarrow>
                (case pe_payload message of
                   MessagesUpdated _ messages updateMode \<Rightarrow>
                     (Applied, replacePlannerMessagesFromRealtime nowMs sessionKey
                        (sanitizePlannerMessages (map raw_of_message messages)) updateMode rt2)
                 | _ \<Rightarrow> (Ignored, rt2))
            | SnapshotIntent _ _ \<Rightarrow>
                (Applied, (\<lambda>rt3. rt3\<lparr>rt_resync := AList.update sessionKey False (rt_resync rt3)\<rparr>)
                   (applyRevisionIntent ops intent message sessionKey rt2))
            | _ \<Rightarrow> (Applied, applyRevisionIntent ops intent message sessionKey rt2))"

definition empty_runtime :: "'q \<Rightarrow> 'q runtime" where
  "empty_runtime q = \<lparr>pp_revisions = [], pp_pending = None, pp_queue = q, rt_seq = [], rt_resync = [],
     rt_status = Idle, rt_stopping = False, rt_planning = False, rt_expanded = False,
     rt_overlay_blocked = False, rt_finish_timer = False, rt_messages = [],
     rt_cache = \<lparr>messagesBySession = [], seenAtBySession = []\<rparr>\<rparr>"

section \<open>What the pieces leave alone\<close>

lemma clear_session_fields [simp]:
  "pp_revisions (clear_session ops s st) = pp_revisions st"
  "path_state.more (clear_session ops s st) = path_state.more st"
  by (auto simp: clear_session_def Let_def split: option.split)

lemma clearSession_fields [simp]:
  "pp_revisions (clearSessionQueueRuntime ops s r st) = pp_revisions st"
  "path_state.more (clearSessionQueueRuntime ops s r st) = path_state.more st"
  by (auto simp: clearSessionQueueRuntime_def split: option.split)

lemma applyRevisionIntent_more [simp]:
  "path_state.more (applyRevisionIntent ops i m s st) = path_state.more st"
  by (auto simp: applyRevisionIntent_def record_revision_def Let_def split: planner_intent.split planner_payload.split)

lemma applyRevisionIntent_revisions:
  "pp_revisions (applyRevisionIntent ops i m s st) =
     (case i of PatchIntent r _ \<Rightarrow> AList.update s r (pp_revisions st)
      | SnapshotIntent r _ \<Rightarrow> AList.update s r (pp_revisions st)
      | _ \<Rightarrow> pp_revisions st)"
  by (auto simp: applyRevisionIntent_def record_revision_def Let_def split: planner_intent.split planner_payload.split)

lemma rt_of_more: "path_state.more rt = path_state.more rt' \<Longrightarrow>
  rt_seq rt = rt_seq rt' \<and> rt_resync rt = rt_resync rt' \<and> rt_status rt = rt_status rt'"
  by (cases rt; cases rt') (simp add: runtime.defs)

lemma clearSession_rt [simp]:
  "rt_seq (clearSessionQueueRuntime ops s r rt) = rt_seq rt"
  "rt_resync (clearSessionQueueRuntime ops s r rt) = rt_resync rt"
  "rt_status (clearSessionQueueRuntime ops s r rt) = rt_status rt"
  using rt_of_more [of "clearSessionQueueRuntime ops s r rt" rt] by simp_all

lemma applyRevisionIntent_rt [simp]:
  "rt_seq (applyRevisionIntent ops i m s rt) = rt_seq rt"
  "rt_resync (applyRevisionIntent ops i m s rt) = rt_resync rt"
  "rt_status (applyRevisionIntent ops i m s rt) = rt_status rt"
  using rt_of_more [of "applyRevisionIntent ops i m s rt" rt] by simp_all

lemma run_transition_fields [simp]:
  "pp_revisions (run_transition t rt) = pp_revisions rt" "pp_pending (run_transition t rt) = pp_pending rt"
  "pp_queue (run_transition t rt) = pp_queue rt" "rt_seq (run_transition t rt) = rt_seq rt"
  "rt_resync (run_transition t rt) = rt_resync rt" "rt_status (run_transition t rt) = nextPlannerStatus t"
  by (simp_all add: run_transition_def Let_def)

lemma replaceMessages_fields [simp]:
  "pp_revisions (replacePlannerMessagesFromRealtime now s ms u rt) = pp_revisions rt"
  "pp_pending (replacePlannerMessagesFromRealtime now s ms u rt) = pp_pending rt"
  "pp_queue (replacePlannerMessagesFromRealtime now s ms u rt) = pp_queue rt"
  "rt_seq (replacePlannerMessagesFromRealtime now s ms u rt) = rt_seq rt"
  "rt_status (replacePlannerMessagesFromRealtime now s ms u rt) = rt_status rt"
  by (simp_all add: replacePlannerMessagesFromRealtime_def Let_def split: option.split)

section \<open>Sequence numbers and revisions\<close>

lemma intent_replayed:
  "map_of (rt_seq rt) s = Some (pe_seq m) \<Longrightarrow> pe_payload m \<noteq> SnapshotReady \<Longrightarrow> runtime_intent m s rt = Ignore"
  by (cases "pe_payload m") (simp_all add: runtime_intent_def intent_def isOutOfOrderSeq_def)

lemma update_records_seq:
  "runtime_intent m s rt \<noteq> Ignore \<Longrightarrow>
     map_of (rt_seq (snd (applyPlannerRealtimeUpdate ops now m s rt))) s = Some (pe_seq m)"
  by (auto simp: applyPlannerRealtimeUpdate_def Let_def split: planner_intent.split planner_payload.split)

lemma intent_recovered: "runtime_intent m s rt = StreamRecovered \<Longrightarrow> pe_payload m = SnapshotReady"
  by (cases "pe_payload m") (auto simp: runtime_intent_def intent_def Let_def split: if_splits)

lemma snapshot_ready_intent:
  "pe_payload m = SnapshotReady \<Longrightarrow>
     runtime_intent m s rt = (if isRealtimeChannelMatchedSession (pe_channel m) s then StreamRecovered else Ignore)"
  by (simp add: runtime_intent_def intent_def)

text \<open>
  Delivering an event twice is the same as delivering it once, for every event and every state: the
  second delivery is ignored and changes nothing.
\<close>

lemma replayed_event_is_ignored:
  "applyPlannerRealtimeUpdate ops now' m s (snd (applyPlannerRealtimeUpdate ops now m s rt))
     = (Ignored, snd (applyPlannerRealtimeUpdate ops now m s rt))"
proof (cases "pe_payload m = SnapshotReady")
  case True
  then show ?thesis
    by (simp add: applyPlannerRealtimeUpdate_def snapshot_ready_intent Let_def update_last)
next
  case False
  show ?thesis
  proof (cases "runtime_intent m s rt = Ignore")
    case True
    then show ?thesis by (simp add: applyPlannerRealtimeUpdate_def)
  next
    case other: False
    have "runtime_intent m s (snd (applyPlannerRealtimeUpdate ops now m s rt)) = Ignore"
      by (rule intent_replayed [OF update_records_seq [OF other] False])
    then show ?thesis by (simp add: applyPlannerRealtimeUpdate_def [of ops now' m s "snd _"])
  qed
qed

lemma runtime_intent_revision:
  "runtime_intent m s rt = PatchIntent r b \<or> runtime_intent m s rt = SnapshotIntent r b \<Longrightarrow> getCurrentRevision s rt \<le> r"
  by (cases "pe_payload m")
    (auto simp: runtime_intent_def intent_def hasRevisionGap_def Let_def split: if_splits)

text \<open>
  The revision the canvas has of a session never goes back, whatever event is handled for
  whatever session; and an event for one session leaves the revision of another alone.
\<close>

lemma revision_never_decreases:
  "getCurrentRevision t rt \<le> getCurrentRevision t (snd (applyPlannerRealtimeUpdate ops now m s rt)) \<and>
   (t = s \<or> getCurrentRevision t (snd (applyPlannerRealtimeUpdate ops now m s rt)) = getCurrentRevision t rt)"
proof -
  have "pp_revisions (snd (applyPlannerRealtimeUpdate ops now m s rt)) = pp_revisions rt \<or>
    (\<exists>r b. (runtime_intent m s rt = PatchIntent r b \<or> runtime_intent m s rt = SnapshotIntent r b) \<and>
      pp_revisions (snd (applyPlannerRealtimeUpdate ops now m s rt)) = AList.update s r (pp_revisions rt))"
    by (auto simp: applyPlannerRealtimeUpdate_def applyRevisionIntent_revisions Let_def
        split: planner_intent.split planner_payload.split)
  then show ?thesis
    using runtime_intent_revision [of m s rt] by (auto simp: getCurrentRevision_def split: if_splits)
qed

section \<open>The contract of the queue\<close>

text \<open>
  What the runtime relies on: each operation touches the work of its own session only, in the way its
  name says. \<open>work q s\<close> is what waits for session s: its operations in order, and its snapshot.
\<close>

locale planner_queue_ops =
  fixes ops :: "'q queue_ops" and work :: "'q \<Rightarrow> jsstring \<Rightarrow> node_operation list \<times> pending_snapshot option"
  assumes work_clear: "trimmed s \<Longrightarrow> s \<noteq> [] \<Longrightarrow>
      work (qo_clear ops (Some s) q) t = (if t = s then ([], None) else work q t)"
    and work_pending: "work (qo_pending ops s q) t = (if t = s then (fst (work q s), None) else work q t)"
    and work_enqueue: "work (qo_enqueue ops s os q) t = (if t = s then (fst (work q s) @ os, snd (work q s)) else work q t)"
    and work_snapshot: "work (qo_snapshot ops s r ns q) t =
      (if t = s then (fst (work q s), snd (work (qo_snapshot ops s r ns q) s)) else work q t)"
begin

lemma clear_session_work:
  "trimmed s \<Longrightarrow> s \<noteq> [] \<Longrightarrow>
     work (pp_queue (clear_session ops s st)) t = (if t = s then ([], None) else work (pp_queue st) t)"
  by (auto simp: clear_session_def Let_def work_clear work_pending split: option.split)

lemma clearSession_others:
  "trimmed s \<Longrightarrow> s \<noteq> [] \<Longrightarrow> t \<noteq> s \<Longrightarrow>
     work (pp_queue (clearSessionQueueRuntime ops s r st)) t = work (pp_queue st) t"
  by (auto simp: clearSessionQueueRuntime_def clear_session_work work_clear split: option.split)

lemma clearSession_own:
  assumes "trimmed s" and "s \<noteq> []" and "\<not> stale_terminal s r st"
    and "\<forall>p. pp_pending st = Some p \<longrightarrow> \<not> previous_generation r p st"
  shows "work (pp_queue (clearSessionQueueRuntime ops s r st)) s = ([], None)"
  using assms by (auto simp: clearSessionQueueRuntime_def clear_session_work work_clear split: option.split)

lemma applyRevisionIntent_others:
  "t \<noteq> s \<Longrightarrow> work (pp_queue (applyRevisionIntent ops i m s st)) t = work (pp_queue st) t"
  by (auto simp: applyRevisionIntent_def record_revision_def Let_def work_enqueue work_snapshot
      split: planner_intent.split planner_payload.split)

lemma update_others:
  assumes "trimmed s" and "s \<noteq> []" and "t \<noteq> s"
  shows "work (pp_queue (snd (applyPlannerRealtimeUpdate ops now m s rt))) t = work (pp_queue rt) t"
  using assms by (auto simp: applyPlannerRealtimeUpdate_def Let_def clearSession_others applyRevisionIntent_others
      split: planner_intent.split planner_payload.split)

lemma update_patch:
  assumes "runtime_intent m s rt = PatchIntent r b" and "getCurrentRevision s rt < r"
    and "pe_payload m = NodesPatched s r' os"
  shows "work (pp_queue (snd (applyPlannerRealtimeUpdate ops now m s rt))) s =
    (fst (work (pp_queue rt) s) @ os, snd (work (pp_queue rt) s))"
  using assms by (simp add: applyPlannerRealtimeUpdate_def Let_def applyRevisionIntent_def record_revision_def work_enqueue)

lemma update_resync:
  assumes "trimmed s" and "s \<noteq> []" and "runtime_intent m s rt = RequiresResync r c"
  shows "work (pp_queue (snd (applyPlannerRealtimeUpdate ops now m s rt))) s = ([], None)"
  using assms by (simp add: applyPlannerRealtimeUpdate_def Let_def)
    (rule clearSession_own, simp_all add: stale_terminal_def previous_generation_def)

end

text \<open>The operations of the hook of \<open>PlannerQueue\<close>, and what waits for a session there.\<close>

definition queue_ops_of :: "('c \<Rightarrow> flow_node list) \<Rightarrow> (node_draft list \<Rightarrow> jsstring \<Rightarrow> 'c \<Rightarrow> 'c) \<Rightarrow> 'c planner_queue queue_ops" where
  "queue_ops_of nodes draw =
     \<lparr>qo_clear = clearPlannerOperationQueueRuntime,
      qo_pending = (\<lambda>s q. snd (applyPendingSnapshotForSession draw s q)),
      qo_enqueue = enqueuePlannerOperations,
      qo_snapshot = (\<lambda>s r ns q. snd (applyOrQueuePlannerSnapshot draw s r ns q))\<rparr>"

definition session_work :: "'c planner_queue \<Rightarrow> jsstring \<Rightarrow> node_operation list \<times> pending_snapshot option" where
  "session_work q s = (map snd (filter (\<lambda>e. fst e = s) (pq_operations q)), map_of (pq_snapshots q) s)"

lemma flush_fields [simp]:
  "pq_operations (flushPlannerOperationQueue s q) = pq_operations q"
  "pq_snapshots (flushPlannerOperationQueue s q) = pq_snapshots q"
  by (simp_all add: flushPlannerOperationQueue_def)

lemma clear_fields:
  "trimmed s \<Longrightarrow> s \<noteq> [] \<Longrightarrow>
     pq_operations (clearPlannerOperationQueueRuntime (Some s) q) = filter (\<lambda>e. fst e \<noteq> s) (pq_operations q) \<and>
     pq_snapshots (clearPlannerOperationQueueRuntime (Some s) q) = AList.delete s (pq_snapshots q)"
  by (simp add: clearPlannerOperationQueueRuntime_def clear_step_timer_def trim_opt_def trimmed_eq Let_def)

lemma filter_eq_neq [simp]: "filter (\<lambda>e. fst e \<noteq> s \<and> fst e = t) xs = (if t = s then [] else filter (\<lambda>e. fst e = t) xs)"
  by (induction xs) auto

interpretation planner: planner_queue_ops "queue_ops_of nodes draw" session_work
proof
  show "session_work (qo_clear (queue_ops_of nodes draw) (Some s) q) t = (if t = s then ([], None) else session_work q t)"
    if "trimmed s" "s \<noteq> []" for s q t
    using that by (simp add: session_work_def queue_ops_of_def clear_fields)
  show "session_work (qo_pending (queue_ops_of nodes draw) s q) t =
      (if t = s then (fst (session_work q s), None) else session_work q t)" for s q t
    by (simp add: session_work_def queue_ops_of_def)
  show "session_work (qo_enqueue (queue_ops_of nodes draw) s os q) t =
      (if t = s then (fst (session_work q s) @ os, snd (session_work q s)) else session_work q t)" for s os q t
    by (simp add: session_work_def queue_ops_of_def enqueuePlannerOperations_def filter_map o_def)
  show "session_work (qo_snapshot (queue_ops_of nodes draw) s r ns q) t =
      (if t = s then (fst (session_work q s), snd (session_work (qo_snapshot (queue_ops_of nodes draw) s r ns q) s))
       else session_work q t)" for s r ns q t
    by (simp add: session_work_def queue_ops_of_def applyOrQueuePlannerSnapshot_def)
qed

text \<open>
  Sessions do not disturb each other: handling an event for one session leaves the operations and
  the snapshot that wait for any other session exactly as they are.
\<close>

lemma sessions_isolated:
  assumes "trimmed s" and "s \<noteq> []" and "t \<noteq> s"
  shows "session_work (pp_queue (snd (applyPlannerRealtimeUpdate (queue_ops_of nodes draw) now m s rt))) t
    = session_work (pp_queue rt) t"
  using assms by (rule planner.update_others)

abbreviation log_ops :: "jsstring list planner_queue queue_ops" where
  "log_ops \<equiv> queue_ops_of (\<lambda>c. []) log_session"

lemma trimmed_s [simp]: "trimmed (js ''s'')"
  by (simp add: trimmed_def char_white_def)

theorem sessions_isolated_witness:
  "session_work (pp_queue (snd (applyPlannerRealtimeUpdate log_ops 0
      (sample_event 1 (SessionUpdated (js ''t'') PlanStopped 3 [] None)) (js ''t'') (empty_runtime sample_queue)))) (js ''s'')
    = ([DeleteNode (js ''a''), DeleteNode (js ''b'')], None)"
proof -
  have t: "trimmed (js ''t'')" by (simp add: trimmed_def char_white_def)
  show ?thesis
    using sessions_isolated [OF t, of "js ''s''" "\<lambda>c. []" log_session 0
        "sample_event 1 (SessionUpdated (js ''t'') PlanStopped 3 [] None)" "empty_runtime sample_queue"]
    by (simp add: empty_runtime_def session_work_def sample_queue_eq)
qed

lemma update_resync_fields:
  assumes "fst (applyPlannerRealtimeUpdate ops now m s rt) = ResyncNeeded s r c q"
  shows "runtime_intent m s rt = RequiresResync r c \<and> c = getCurrentRevision s rt \<and>
    getCurrentRevision s (snd (applyPlannerRealtimeUpdate ops now m s rt)) = c \<and>
    map_get (rt_resync (snd (applyPlannerRealtimeUpdate ops now m s rt))) s False"
proof -
  have i: "runtime_intent m s rt = RequiresResync r c"
    using assms by (auto simp: applyPlannerRealtimeUpdate_def Let_def
        split: planner_intent.splits planner_payload.splits if_splits)
  then have "resolvePlannerRealtimeIntent m s (getCurrentRevision s rt) (map_of (rt_seq rt) s) (rt_status rt) = RequiresResync r c"
    by (auto simp: runtime_intent_def Let_def split: planner_intent.splits planner_payload.splits if_splits)
  then show ?thesis
    using i by (simp add: applyPlannerRealtimeUpdate_def Let_def intent_resync_iff getCurrentRevision_def)
qed

lemma snapshot_ends_resync:
  assumes "pe_payload m = SnapshotUpdated s r ns" and "map_get (rt_resync rt) s False"
    and "getCurrentRevision s rt \<le> r" and "\<not> isOutOfOrderSeq (pe_seq m) (map_of (rt_seq rt) s)"
  shows "runtime_intent m s rt = SnapshotIntent r (isTerminalPlannerStatus (rt_status rt))"
  using assms by (auto simp: runtime_intent_def intent_def isTerminal_iff Let_def) (metis planner_status.exhaust)

text \<open>
  The end of a session is final for its queue: when an update with a terminal status is applied and
  it does not belong to the generation before a pending request, nothing of the session waits
  any more, and the controls show the status with planning switched off.
\<close>

lemma terminal_update_clears_queue:
  assumes "trimmed s" and "s \<noteq> []"
    and "pe_payload m = SessionUpdated s status r updated completed" and "status \<noteq> Planning"
    and "fst (applyPlannerRealtimeUpdate (queue_ops_of nodes draw) now m s rt) = Applied"
    and "\<forall>p. pp_pending rt = Some p \<longrightarrow> \<not> previous_generation (Some r) p rt"
  shows "session_work (pp_queue (snd (applyPlannerRealtimeUpdate (queue_ops_of nodes draw) now m s rt))) s = ([], None) \<and>
    rt_status (snd (applyPlannerRealtimeUpdate (queue_ops_of nodes draw) now m s rt)) = Session status"
proof -
  have i: "runtime_intent m s rt = SessionStopped status r \<or> runtime_intent m s rt = SessionTerminal status r"
    "getCurrentRevision s rt \<le> r"
    using assms(3-5) by (auto simp: applyPlannerRealtimeUpdate_def runtime_intent_def intent_def Let_def split: if_splits)
  let ?rt = "\<lambda>t. run_transition t (rt\<lparr>rt_seq := AList.update s (pe_seq m) (rt_seq rt)\<rparr>)"
  have "session_work (pp_queue (clearSessionQueueRuntime (queue_ops_of nodes draw) s (Some r) (?rt t))) s = ([], None)" for t
    using assms(6) i(2) by (intro planner.clearSession_own [OF assms(1,2)])
      (auto simp: stale_terminal_def previous_generation_def getCurrentRevision_def)
  then show ?thesis using i(1) by (auto simp: applyPlannerRealtimeUpdate_def Let_def)
qed

lemma terminal_update_clears_queue_witness:
  "session_work (pp_queue (snd (applyPlannerRealtimeUpdate log_ops 0
      (sample_event 1 (SessionUpdated (js ''s'') PlanFailed 3 [] None)) (js ''s'') (empty_runtime sample_queue)))) (js ''s'')
    = ([], None)"
proof -
  have a: "fst (applyPlannerRealtimeUpdate log_ops 0
      (sample_event 1 (SessionUpdated (js ''s'') PlanFailed 3 [] None)) (js ''s'') (empty_runtime sample_queue)) = Applied"
    by (simp add: applyPlannerRealtimeUpdate_def runtime_intent_def intent_def empty_runtime_def
        sample_event_def getCurrentRevision_def isOutOfOrderSeq_def hasRevisionGap_def Let_def)
  show ?thesis
    using terminal_update_clears_queue [OF trimmed_s _ _ _ a, of PlanFailed 3 "[]" None]
    by (simp add: sample_event_def empty_runtime_def)
qed

section \<open>The runtime as a state machine\<close>

text \<open>
  What else the bridge does to the runtime: when the page turns to another session the old one is
  dropped, and a reset empties everything. Of the reset only the state of the model is listed; its
  second \<open>clearPlannerStepTimer\<close> finds the timer already cleared.
\<close>

definition switch_session :: "'q queue_ops \<Rightarrow> jsstring \<Rightarrow> jsstring \<Rightarrow> ('q, 'r) runtime_scheme \<Rightarrow> ('q, 'r) runtime_scheme" where
  "switch_session ops previousKey nextKey rt =
     (if previousKey \<noteq> [] \<and> previousKey \<noteq> nextKey
      then rt\<lparr>pp_queue := qo_clear ops (Some previousKey) (pp_queue rt),
             pp_revisions := AList.delete previousKey (pp_revisions rt)\<rparr>
      else rt)"

definition resetPlannerRuntimeState :: "'q queue_ops \<Rightarrow> ('q, 'r) runtime_scheme \<Rightarrow> ('q, 'r) runtime_scheme" where
  "resetPlannerRuntimeState ops rt =
     rt\<lparr>pp_queue := qo_clear ops None (pp_queue rt), pp_revisions := [], pp_pending := None,
       rt_finish_timer := False, rt_expanded := False, rt_status := Idle, rt_stopping := False,
       rt_overlay_blocked := False, rt_planning := False\<rparr>"

inductive runtime_steps :: "('c \<Rightarrow> flow_node list) \<Rightarrow> (node_draft list \<Rightarrow> jsstring \<Rightarrow> 'c \<Rightarrow> 'c) \<Rightarrow>
    'c planner_queue runtime \<Rightarrow> 'c planner_queue runtime \<Rightarrow> bool" for nodes draw where
  event: "s \<noteq> [] \<Longrightarrow> runtime_steps nodes draw rt (snd (applyPlannerRealtimeUpdate (queue_ops_of nodes draw) now m s rt))"
| fire: "pq_timer (pp_queue rt) = Some k \<Longrightarrow> runtime_steps nodes draw rt (rt\<lparr>pp_queue := queue_step nodes draw k (pp_queue rt)\<rparr>)"
| unlock: "rt_finish_timer rt \<Longrightarrow> runtime_steps nodes draw rt (overlay_unlock rt)"
| switch: "runtime_steps nodes draw rt (switch_session (queue_ops_of nodes draw) prev next rt)"
| reset: "runtime_steps nodes draw rt (resetPlannerRuntimeState (queue_ops_of nodes draw) rt)"
| request: "runtime_steps nodes draw rt (rt\<lparr>pp_pending := p\<rparr>)"

inductive_cases runtime_stepsE: "runtime_steps nodes draw rt rt'"

text \<open>A second contract, on top of the first: an invariant of the queue that every operation keeps.\<close>

locale planner_queue_safe = planner_queue_ops +
  fixes ok :: "'a \<Rightarrow> bool"
  assumes ok_clear: "ok q \<Longrightarrow> ok (qo_clear ops s q)"
    and ok_pending: "ok q \<Longrightarrow> ok (qo_pending ops k q)"
    and ok_enqueue: "ok q \<Longrightarrow> k \<noteq> [] \<Longrightarrow> ok (qo_enqueue ops k os q)"
    and ok_snapshot: "ok q \<Longrightarrow> k \<noteq> [] \<Longrightarrow> ok (qo_snapshot ops k r ns q)"
begin

lemma clear_session_ok: "ok (pp_queue st) \<Longrightarrow> ok (pp_queue (clear_session ops k st))"
  by (auto simp: clear_session_def Let_def ok_clear ok_pending split: option.split)

lemma clearSession_ok: "ok (pp_queue st) \<Longrightarrow> ok (pp_queue (clearSessionQueueRuntime ops k r st))"
  by (auto simp: clearSessionQueueRuntime_def clear_session_ok ok_clear split: option.split)

lemma applyRevisionIntent_ok: "ok (pp_queue st) \<Longrightarrow> k \<noteq> [] \<Longrightarrow> ok (pp_queue (applyRevisionIntent ops i m k st))"
  by (auto simp: applyRevisionIntent_def record_revision_def Let_def ok_enqueue ok_snapshot
      split: planner_intent.split planner_payload.split)

lemma update_ok:
  "ok (pp_queue rt) \<Longrightarrow> k \<noteq> [] \<Longrightarrow> ok (pp_queue (snd (applyPlannerRealtimeUpdate ops now m k rt)))"
  by (auto simp: applyPlannerRealtimeUpdate_def Let_def clearSession_ok applyRevisionIntent_ok
      split: planner_intent.split planner_payload.split)

lemma switch_ok: "ok (pp_queue rt) \<Longrightarrow> ok (pp_queue (switch_session ops prev next rt))"
  by (simp add: switch_session_def ok_clear)

lemma reset_ok: "ok (pp_queue rt) \<Longrightarrow> ok (pp_queue (resetPlannerRuntimeState ops rt))"
  by (simp add: resetPlannerRuntimeState_def ok_clear)

end

interpretation planner_safe: planner_queue_safe "queue_ops_of nodes draw" session_work queue_ok
  by unfold_locales (simp_all add: queue_ops_of_def clear_ok pending_ok enqueue_ok snapshot_ok)

lemma runtime_queue_ok:
  assumes "(runtime_steps nodes draw)\<^sup>*\<^sup>* (empty_runtime (empty_queue c)) rt"
  shows "queue_ok (pp_queue rt)"
  using assms
proof (induction rule: rtranclp_induct)
  case base
  then show ?case by (simp add: empty_runtime_def empty_queue_def queue_ok_def)
next
  case (step rt rt')
  from step.hyps(2) step.IH show ?case
    by (cases rule: runtime_steps.cases)
      (simp_all add: planner_safe.update_ok step_ok overlay_unlock_def planner_safe.switch_ok planner_safe.reset_ok)
qed

text \<open>
  C4: Whatever stream of events, timer firings, session switches, resets and new requests the page goes
  through, work never waits without the timer being armed, and letting the timer fire once per
  waiting item and once more empties the queue.
\<close>

theorem runtime_queue_never_stuck:
  assumes "(runtime_steps nodes draw)\<^sup>*\<^sup>* (empty_runtime (empty_queue c)) rt"
    and "length (pq_operations (pp_queue rt)) + length (pq_snapshots (pp_queue rt)) < n"
  shows "(pq_operations (pp_queue rt) \<noteq> [] \<or> pq_snapshots (pp_queue rt) \<noteq> [] \<longrightarrow> pq_timer (pp_queue rt) \<noteq> None) \<and>
    pq_operations (fires nodes draw n (pp_queue rt)) = [] \<and> pq_snapshots (fires nodes draw n (pp_queue rt)) = [] \<and>
    pq_timer (fires nodes draw n (pp_queue rt)) = None"
proof -
  have ok: "queue_ok (pp_queue rt)" by (rule runtime_queue_ok [OF assms(1)])
  have "queue_work (pp_queue rt) \<le> n" using queue_work_bound [of "pp_queue rt"] assms(2) by simp
  from fires_done [OF ok this, of nodes draw] show ?thesis
    using ok by (auto simp: queue_work_def queue_ok_def)
qed

definition patched_runtime :: "jsstring list planner_queue runtime" where
  "patched_runtime = snd (applyPlannerRealtimeUpdate log_ops 0
     (sample_event 1 (NodesPatched (js ''s'') 3 [DeleteNode (js ''a'')])) (js ''s'') (empty_runtime (empty_queue [])))"

lemma patched_runtime_queue:
  "pq_operations (pp_queue patched_runtime) = [(js ''s'', DeleteNode (js ''a''))]" "pq_snapshots (pp_queue patched_runtime) = []"
  by (simp_all add: patched_runtime_def applyPlannerRealtimeUpdate_def runtime_intent_def intent_def empty_runtime_def
      sample_event_def getCurrentRevision_def isOutOfOrderSeq_def hasRevisionGap_def Let_def applyRevisionIntent_def
      record_revision_def queue_ops_of_def enqueuePlannerOperations_def empty_queue_def)

theorem runtime_queue_never_stuck_witness:
  "pq_timer (pp_queue patched_runtime) \<noteq> None \<and>
   pq_operations (fires (\<lambda>c. []) log_session 2 (pp_queue patched_runtime)) = []"
proof -
  have r: "(runtime_steps (\<lambda>c. []) log_session)\<^sup>*\<^sup>* (empty_runtime (empty_queue [])) patched_runtime"
    unfolding patched_runtime_def by (rule r_into_rtranclp, rule runtime_steps.event) simp
  show ?thesis using runtime_queue_never_stuck [OF r, of 2] by (simp add: patched_runtime_queue)
qed

section \<open>After a gap\<close>

text \<open>
  What may happen before the snapshot that ends a resynchronisation is applied: everything but a snapshot of that session
  that is in order and not older than the canvas.
\<close>

inductive before_snapshot :: "('c \<Rightarrow> flow_node list) \<Rightarrow> (node_draft list \<Rightarrow> jsstring \<Rightarrow> 'c \<Rightarrow> 'c) \<Rightarrow> jsstring \<Rightarrow>
    'c planner_queue runtime \<Rightarrow> 'c planner_queue runtime \<Rightarrow> bool" for nodes draw s where
  event: "k \<noteq> [] \<Longrightarrow>
    (\<And>r ns. pe_payload m = SnapshotUpdated s r ns \<Longrightarrow> r < getCurrentRevision s rt \<or> isOutOfOrderSeq (pe_seq m) (map_of (rt_seq rt) s)) \<Longrightarrow>
    before_snapshot nodes draw s rt (snd (applyPlannerRealtimeUpdate (queue_ops_of nodes draw) now m k rt))"
| fire: "pq_timer (pp_queue rt) = Some k \<Longrightarrow> before_snapshot nodes draw s rt (rt\<lparr>pp_queue := queue_step nodes draw k (pp_queue rt)\<rparr>)"
| unlock: "rt_finish_timer rt \<Longrightarrow> before_snapshot nodes draw s rt (overlay_unlock rt)"
| switch: "before_snapshot nodes draw s rt (switch_session (queue_ops_of nodes draw) prev next rt)"
| reset: "before_snapshot nodes draw s rt (resetPlannerRuntimeState (queue_ops_of nodes draw) rt)"
| request: "before_snapshot nodes draw s rt (rt\<lparr>pp_pending := p\<rparr>)"

lemma before_snapshot_step: "before_snapshot nodes draw s rt rt' \<Longrightarrow> runtime_steps nodes draw rt rt'"
  by (induction rule: before_snapshot.induct) (blast intro: runtime_steps.intros)+

lemma snapshot_intent: "runtime_intent m k rt = SnapshotIntent r b \<Longrightarrow> \<exists>ns. pe_payload m = SnapshotUpdated k r ns"
  by (cases "pe_payload m") (auto simp: runtime_intent_def intent_def Let_def split: if_splits planner_intent.splits)

lemma replace_resync [simp]: "rt_resync (replacePlannerMessagesFromRealtime now k ms u rt) = rt_resync rt"
  by (simp add: replacePlannerMessagesFromRealtime_def Let_def split: option.split)

lemma update_keeps_resync:
  assumes "\<And>r ns. pe_payload m = SnapshotUpdated s r ns \<Longrightarrow> r < getCurrentRevision s rt \<or> isOutOfOrderSeq (pe_seq m) (map_of (rt_seq rt) s)"
    and "map_get (rt_resync rt) s False"
  shows "map_get (rt_resync (snd (applyPlannerRealtimeUpdate ops now m k rt))) s False"
proof -
  have "k \<noteq> s" if i: "runtime_intent m k rt = SnapshotIntent r b" for r b
  proof
    assume "k = s"
    then obtain ns where m: "pe_payload m = SnapshotUpdated s r ns" using snapshot_intent [OF i] by blast
    have "runtime_intent m s rt = Ignore" using assms(1) [OF m] by (auto simp: runtime_intent_def intent_def m)
    then show False using i \<open>k = s\<close> by simp
  qed
  then show ?thesis using assms(2)
    by (auto simp: applyPlannerRealtimeUpdate_def Let_def map_get_def update_conv'
        split: planner_intent.split planner_payload.split)
qed

lemma before_snapshot_resync: "before_snapshot nodes draw s rt rt' \<Longrightarrow> map_get (rt_resync rt) s False \<Longrightarrow> map_get (rt_resync rt') s False"
  by (induction rule: before_snapshot.induct)
    (simp_all add: update_keeps_resync overlay_unlock_def switch_session_def resetPlannerRuntimeState_def)

lemma flush_next_waiting [simp]: "pq_snapshots (flush_next q) = pq_snapshots q" "pq_canvas (flush_next q) = pq_canvas q"
  by (simp_all add: flush_next_def flushPlannerOperationQueue_def Let_def)

text \<open>A waiting snapshot stays until it is drawn.\<close>

lemma step_draws_snapshot:
  assumes "map_of (pq_snapshots q) s = Some p"
  shows "map_of (pq_snapshots (queue_step nodes draw k q)) s = Some p \<or>
    (\<exists>c. pq_canvas (queue_step nodes draw k q) = draw (ps_nodes p) s c)"
  using assms
  by (auto simp: queue_step_def Let_def finish_session_def applyPendingSnapshotForSession_def delete_conv' split: option.split)

lemma fires_draw_snapshot:
  "map_of (pq_snapshots q) s = Some p \<Longrightarrow> map_of (pq_snapshots (fires nodes draw n q)) s = None \<Longrightarrow>
   \<exists>i c. pq_canvas (fires nodes draw i q) = draw (ps_nodes p) s c"
proof (induction n arbitrary: q)
  case (Suc n)
  show ?case
  proof (cases "pq_timer q")
    case None
    then show ?thesis using Suc.prems by simp
  next
    case (Some k)
    from step_draws_snapshot [OF Suc.prems(1), of nodes draw k] show ?thesis
    proof
      assume "map_of (pq_snapshots (queue_step nodes draw k q)) s = Some p"
      then obtain i c where "pq_canvas (fires nodes draw i (queue_step nodes draw k q)) = draw (ps_nodes p) s c"
        using Suc.IH [of "queue_step nodes draw k q"] Suc.prems(2) Some by auto
      then have "pq_canvas (fires nodes draw (Suc i) q) = draw (ps_nodes p) s c" using Some by simp
      then show ?thesis by blast
    next
      assume "\<exists>c. pq_canvas (queue_step nodes draw k q) = draw (ps_nodes p) s c"
      then have "\<exists>c. pq_canvas (fires nodes draw (Suc 0) q) = draw (ps_nodes p) s c" using Some by simp
      then show ?thesis by blast
    qed
  qed
qed simp

lemma snapshot_is_drawn:
  assumes "queue_ok q" and "s \<noteq> []"
  shows "\<exists>i c. pq_canvas (fires nodes draw i (snd (applyOrQueuePlannerSnapshot draw s r ns q))) = draw ns s c"
proof (cases "fst (applyOrQueuePlannerSnapshot draw s r ns q)")
  case True
  then have "pq_canvas (fires nodes draw 0 (snd (applyOrQueuePlannerSnapshot draw s r ns q))) = draw ns s (pq_canvas q)"
    by (simp add: applyOrQueuePlannerSnapshot_def split: if_splits)
  then show ?thesis by blast
next
  case False
  let ?q = "snd (applyOrQueuePlannerSnapshot draw s r ns q)"
  have waiting: "map_of (pq_snapshots ?q) s = Some \<lparr>ps_session = s, ps_revision = r, ps_nodes = ns\<rparr>"
    using False by (auto simp: applyOrQueuePlannerSnapshot_def split: if_splits)
  have ok: "queue_ok ?q" by (rule snapshot_ok [OF assms])
  have "queue_work (fires nodes draw (queue_work ?q) ?q) = 0" using fires_done [OF ok] by blast
  then have "map_of (pq_snapshots (fires nodes draw (queue_work ?q) ?q)) s = None" by (simp add: queue_work_def)
  from fires_draw_snapshot [OF waiting this] show ?thesis by simp
qed

lemma snapshot_after_gap:
  assumes "pe_payload m = SnapshotUpdated s r ns" and "map_get (rt_resync rt) s False"
    and "getCurrentRevision s rt \<le> r" and "\<not> isOutOfOrderSeq (pe_seq m) (map_of (rt_seq rt) s)"
  shows "fst (applyPlannerRealtimeUpdate (queue_ops_of nodes draw) now m s rt) = Applied \<and>
    getCurrentRevision s (snd (applyPlannerRealtimeUpdate (queue_ops_of nodes draw) now m s rt)) = r \<and>
    \<not> map_get (rt_resync (snd (applyPlannerRealtimeUpdate (queue_ops_of nodes draw) now m s rt))) s False \<and>
    pp_queue (snd (applyPlannerRealtimeUpdate (queue_ops_of nodes draw) now m s rt)) = snd (applyOrQueuePlannerSnapshot draw s r ns (pp_queue rt))"
  using snapshot_ends_resync [OF assms] assms(1)
  by (simp add: applyPlannerRealtimeUpdate_def Let_def getCurrentRevision_def applyRevisionIntent_revisions)
    (simp add: applyRevisionIntent_def record_revision_def Let_def queue_ops_of_def)

text \<open>
  C16: Losing an event heals. After a revision gap nothing of the session waits in its queue any more; the reopened stream
  (\<open>snapshot_ready\<close>) numbers its events anew; and whatever happens meanwhile (events of this and of other sessions, timer
  firings, session switches, resets, new requests), the first snapshot of the session that is in order and not older than the
  canvas is applied, whatever revision it jumps to: its revision is recorded, the resynchronisation is over, and its nodes are
  drawn on the canvas, at once or after so many firings of the timer when the queue is busy. The session key is trimmed and
  not empty.
\<close>

theorem revision_gap_recovers:
  assumes "(runtime_steps nodes draw)\<^sup>*\<^sup>* (empty_runtime (empty_queue c0)) rt" and "trimmed s" and "s \<noteq> []"
    and gap: "fst (applyPlannerRealtimeUpdate (queue_ops_of nodes draw) now m s rt) = ResyncNeeded s r c q"
    and rt1: "rt1 = snd (applyPlannerRealtimeUpdate (queue_ops_of nodes draw) now m s rt)"
    and meanwhile: "(before_snapshot nodes draw s)\<^sup>*\<^sup>* rt1 rt2"
    and snap: "pe_payload m2 = SnapshotUpdated s r2 ns" "getCurrentRevision s rt2 \<le> r2" "\<not> isOutOfOrderSeq (pe_seq m2) (map_of (rt_seq rt2) s)"
    and rt3: "(result, rt3) = applyPlannerRealtimeUpdate (queue_ops_of nodes draw) now2 m2 s rt2"
  shows "session_work (pp_queue rt1) s = ([], None) \<and>
    (\<forall>now1 m1. pe_payload m1 = SnapshotReady \<and> pe_channel m1 = session_channel s \<longrightarrow>
       map_of (rt_seq (snd (applyPlannerRealtimeUpdate (queue_ops_of nodes draw) now1 m1 s rt1))) s = Some (pe_seq m1)) \<and>
    result = Applied \<and> getCurrentRevision s rt3 = r2 \<and> \<not> map_get (rt_resync rt3) s False \<and>
    (\<exists>i before. pq_canvas (fires nodes draw i (pp_queue rt3)) = draw ns s before)"
proof -
  note g = update_resync_fields [OF gap, folded rt1]
  have "map_get (rt_resync rt2) s False"
    using meanwhile by (induction rule: rtranclp_induct) (use g before_snapshot_resync in blast)+
  note after = snapshot_after_gap [OF snap(1) this snap(2,3), of nodes draw now2]
  have "runtime_steps nodes draw rt rt1" unfolding rt1 by (rule runtime_steps.event [OF assms(3)])
  moreover have "(runtime_steps nodes draw)\<^sup>*\<^sup>* rt1 rt2" using meanwhile by (induction rule: rtranclp_induct) (auto intro: before_snapshot_step rtranclp.rtrancl_into_rtrancl)
  ultimately have "(runtime_steps nodes draw)\<^sup>*\<^sup>* (empty_runtime (empty_queue c0)) rt2" using assms(1) by (meson rtranclp.rtrancl_into_rtrancl rtranclp_trans)
  then have "queue_ok (pp_queue rt2)" by (rule runtime_queue_ok)
  moreover have "pp_queue rt3 = snd (applyOrQueuePlannerSnapshot draw s r2 ns (pp_queue rt2))" "result = Applied"
      "getCurrentRevision s rt3 = r2" "\<not> map_get (rt_resync rt3) s False"
    using after rt3 by (metis fst_conv snd_conv)+
  moreover have "map_of (rt_seq (snd (applyPlannerRealtimeUpdate (queue_ops_of nodes draw) now1 m1 s rt1))) s = Some (pe_seq m1)"
    if "pe_payload m1 = SnapshotReady \<and> pe_channel m1 = session_channel s" for now1 m1
    using that by (simp add: applyPlannerRealtimeUpdate_def snapshot_ready_intent isRealtimeChannelMatchedSession_def Let_def)
  moreover have "session_work (pp_queue rt1) s = ([], None)"
    using planner.update_resync [OF assms(2,3), of m rt r c nodes draw now] g by (simp add: rt1)
  ultimately show ?thesis using snapshot_is_drawn [OF _ assms(3)] by simp
qed

text \<open>A canvas that is what was drawn last: a snapshot, an event lost before revision 7, the stream reopened, a snapshot.\<close>

abbreviation plain_ops :: "node_draft list planner_queue queue_ops" where
  "plain_ops \<equiv> queue_ops_of (\<lambda>c. []) (\<lambda>ns s c. ns)"

definition gap_runtime :: "node_draft list planner_queue runtime" where
  "gap_runtime = snd (applyPlannerRealtimeUpdate plain_ops 0 (sample_event 1 (SnapshotUpdated (js ''s'') 1 [])) (js ''s'') (empty_runtime (empty_queue [])))"

definition lost_runtime :: "node_draft list planner_queue runtime" where
  "lost_runtime = snd (applyPlannerRealtimeUpdate plain_ops 0 (sample_event 5 (NodesPatched (js ''s'') 7 [])) (js ''s'') gap_runtime)"

definition reopened_runtime :: "node_draft list planner_queue runtime" where
  "reopened_runtime = snd (applyPlannerRealtimeUpdate plain_ops 0 (sample_event 0 SnapshotReady) (js ''s'') lost_runtime)"

lemma gap_runtime_eq: "getCurrentRevision (js ''s'') gap_runtime = 1" "map_of (rt_seq gap_runtime) (js ''s'') = Some 1"
  by (simp_all add: gap_runtime_def applyPlannerRealtimeUpdate_def runtime_intent_def intent_def empty_runtime_def sample_event_def
      getCurrentRevision_def map_get_def isOutOfOrderSeq_def hasRevisionGap_def Let_def applyRevisionIntent_revisions)

lemma gap_raised:
  "fst (applyPlannerRealtimeUpdate plain_ops 0 (sample_event 5 (NodesPatched (js ''s'') 7 [])) (js ''s'') gap_runtime)
     = ResyncNeeded (js ''s'') 7 1 5"
  by (simp add: applyPlannerRealtimeUpdate_def runtime_intent_def intent_def gap_runtime_eq sample_event_def
      isOutOfOrderSeq_def hasRevisionGap_def Let_def)

definition drawn_draft :: node_draft where
  "drawn_draft = \<lparr>d_id = js ''a'', d_title = js ''a'', d_description = None, d_depends_on = [], d_sensitive = False\<rparr>"

theorem revision_gap_recovers_witness:
  "\<exists>i. pq_canvas (fires (\<lambda>c. []) (\<lambda>ns s c. ns) i (pp_queue (snd (applyPlannerRealtimeUpdate plain_ops 0
     (sample_event 1 (SnapshotUpdated (js ''s'') 9 [drawn_draft])) (js ''s'') reopened_runtime)))) = [drawn_draft]"
proof -
  have s: "js ''s'' \<noteq> []" by (simp add: js_def)
  have reach: "(runtime_steps (\<lambda>c. []) (\<lambda>ns s c. ns))\<^sup>*\<^sup>* (empty_runtime (empty_queue [])) gap_runtime"
    unfolding gap_runtime_def by (rule r_into_rtranclp, rule runtime_steps.event [OF s])
  have meanwhile: "(before_snapshot (\<lambda>c. []) (\<lambda>ns s c. ns) (js ''s''))\<^sup>*\<^sup>* lost_runtime reopened_runtime"
    unfolding reopened_runtime_def by (rule r_into_rtranclp, rule before_snapshot.event [OF s]) (simp add: sample_event_def)
  have "getCurrentRevision (js ''s'') lost_runtime = 1"
    using update_resync_fields [OF gap_raised] by (simp add: lost_runtime_def)
  then have fields: "getCurrentRevision (js ''s'') reopened_runtime = 1" "map_of (rt_seq reopened_runtime) (js ''s'') = Some 0"
    by (simp_all add: reopened_runtime_def applyPlannerRealtimeUpdate_def runtime_intent_def intent_def sample_event_def
        isRealtimeChannelMatchedSession_def Let_def getCurrentRevision_def)
  show ?thesis
    using revision_gap_recovers [OF reach trimmed_s s gap_raised refl, folded lost_runtime_def, OF meanwhile _ _ _ prod.collapse,
      of "sample_event 1 (SnapshotUpdated (js ''s'') 9 [drawn_draft])" 9 "[drawn_draft]" 0]
    by (simp add: fields isOutOfOrderSeq_def) (simp add: sample_event_def)
qed

end
