(* ===== verification/TaskFlowContract.thy ===== *)
theory TaskFlowContract imports FlowState begin

text \<open>
  \<open>api/taskFlowContract.ts\<close>: the wire contract of the task-flow API. Decoders take any JSON value and
  read each field under its snake case name or else its camel case name; encoders write camel
  case. A decoder that returns \<open>null\<close> is one that returns None. Two functions of the host are
  arguments: \<open>num\<close> is \<open>String\<close> on numbers, \<open>low\<close> is \<open>toLowerCase\<close>.
\<close>

section \<open>Reading a record\<close>

text \<open>An array is an object too; its entries are its indices.\<close>

fun js_digits :: "nat \<Rightarrow> jsstring" where
  "js_digits n = (if n < 10 then [48 + of_nat n] else js_digits (n div 10) @ [48 + of_nat (n mod 10)])"

declare js_digits.simps [simp del]

fun asRecord :: "json \<Rightarrow> (jsstring \<times> json) list option" where
  "asRecord (JObj fs) = Some fs"
| "asRecord (JArr xs) = Some (map2 (\<lambda>i x. (js_digits i, x)) [0..<length xs] xs)"
| "asRecord _ = None"

definition field :: "(jsstring \<times> json) list \<Rightarrow> string \<Rightarrow> json" where
  "field record key = map_get record (js key) JUndef"

definition readField :: "(jsstring \<times> json) list \<Rightarrow> string \<Rightarrow> string \<Rightarrow> json" where
  "readField record snakeKey camelKey =
     (if map_has record (js snakeKey) then field record snakeKey else field record camelKey)"

fun as_string :: "json \<Rightarrow> jsstring option" where
  "as_string (JStr s) = Some s"
| "as_string _ = None"

definition readRequiredString :: "(jsstring \<times> json) list \<Rightarrow> string \<Rightarrow> string \<Rightarrow> jsstring option" where
  "readRequiredString record snakeKey camelKey = as_string (readField record snakeKey camelKey)"

definition readString :: "(jsstring \<times> json) list \<Rightarrow> string \<Rightarrow> string \<Rightarrow> jsstring option" where
  "readString record snakeKey camelKey = as_string (readField record snakeKey camelKey)"

definition readNullableString :: "(jsstring \<times> json) list \<Rightarrow> string \<Rightarrow> string \<Rightarrow> jsstring option" where
  "readNullableString record snakeKey camelKey = as_string (readField record snakeKey camelKey)"

fun as_array :: "json \<Rightarrow> json list" where
  "as_array (JArr xs) = xs"
| "as_array _ = []"

definition readArray :: "(jsstring \<times> json) list \<Rightarrow> string \<Rightarrow> string \<Rightarrow> json list" where
  "readArray record snakeKey camelKey = as_array (readField record snakeKey camelKey)"

text \<open>\<open>!value\<close> of a string that may be \<open>null\<close>: missing or empty.\<close>

definition required :: "jsstring option \<Rightarrow> bool" where
  "required v \<longleftrightarrow> v \<noteq> None \<and> v \<noteq> Some []"

definition wire_task_status :: "json \<Rightarrow> task_status" where
  "wire_task_status value = (case as_string value of None \<Rightarrow> Queued | Some s \<Rightarrow> normalizeTaskStatus s)"

definition normalizeTaskSource :: "json \<Rightarrow> task_source" where
  "normalizeTaskSource value = (if as_string value = Some (js ''provider'') then ProviderSource else FlowSource)"

text \<open>\<open>replace(/([A-Z])/g, '_$1')\<close> and \<open>replace(/__+/g, '_')\<close>\<close>

definition is_capital :: "16 word \<Rightarrow> bool" where
  "is_capital c \<longleftrightarrow> 65 \<le> c \<and> c \<le> 90"

definition underscore_capitals :: "jsstring \<Rightarrow> jsstring" where
  "underscore_capitals s = concat (map (\<lambda>c. if is_capital c then [95, c] else [c]) s)"

fun collapse_underscores :: "jsstring \<Rightarrow> jsstring" where
  "collapse_underscores (c # d # s) =
     (if c = 95 \<and> d = 95 then collapse_underscores (d # s) else c # collapse_underscores (d # s))"
| "collapse_underscores s = s"

definition normalizeExtraKey :: "(jsstring \<Rightarrow> jsstring) \<Rightarrow> jsstring \<Rightarrow> jsstring" where
  "normalizeExtraKey low raw =
     (let normalized = trim raw in
      if normalized = [] then []
      else if 95 \<in> set normalized then normalized
      else low (collapse_underscores (underscore_capitals normalized)))"

definition decodeStringArray :: "json \<Rightarrow> jsstring list" where
  "decodeStringArray value = List.map_filter as_string (as_array value)"

fun scalar_string :: "(jsnum \<Rightarrow> jsstring) \<Rightarrow> json \<Rightarrow> jsstring option" where
  "scalar_string num (JStr s) = Some s"
| "scalar_string num (JNum x) = Some (num x)"
| "scalar_string num (JBool b) = Some (js (if b then ''true'' else ''false''))"
| "scalar_string num _ = None"

definition decodeStringRecord :: "(jsnum \<Rightarrow> jsstring) \<Rightarrow> (jsstring \<Rightarrow> jsstring) \<Rightarrow> json \<Rightarrow> (jsstring \<times> jsstring) list" where
  "decodeStringRecord num keyMapper value =
     (case asRecord value of
        None \<Rightarrow> []
      | Some record \<Rightarrow>
          fold (\<lambda>(rawKey, rawValue) normalized.
              let key = keyMapper (trim rawKey) in
              if key = [] then normalized
              else case scalar_string num rawValue of
                None \<Rightarrow> normalized
              | Some v \<Rightarrow> AList.update key v normalized)
            record [])"

definition decodeArray :: "(json \<Rightarrow> 'a option) \<Rightarrow> json \<Rightarrow> 'a list" where
  "decodeArray decoder value = List.map_filter decoder (as_array value)"

section \<open>Encoders\<close>

definition obj :: "(string \<times> json) list \<Rightarrow> json" where
  "obj fs = JObj (map (\<lambda>(k, v). (js k, v)) fs)"

text \<open>\<open>value ?? null\<close>\<close>

fun or_null :: "jsstring option \<Rightarrow> json" where
  "or_null None = JNull"
| "or_null (Some s) = JStr s"

definition encodeNode :: "flow_node \<Rightarrow> json" where
  "encodeNode node = obj
     [(''id'', JStr (n_id node)), (''title'', JStr (n_title node)), (''description'', or_null (n_description node)),
      (''dependsOn'', JArr (map JStr (n_depends_on node))), (''x'', JNum (n_x node)), (''y'', JNum (n_y node)),
      (''layer'', JNum (n_layer node)), (''sensitive'', JBool (n_sensitive node)),
      (''status'', JStr (status_str (n_status node))), (''agentId'', or_null (n_agent_id node)),
      (''instanceId'', or_null (n_instance_id node))]"

definition encodeEdge :: "flow_edge \<Rightarrow> json" where
  "encodeEdge edge = obj [(''id'', JStr (e_id edge)), (''source'', JStr (e_source edge)), (''target'', JStr (e_target edge))]"

fun chat_role_str :: "chat_role \<Rightarrow> jsstring" where
  "chat_role_str UserRole = js ''user''"
| "chat_role_str AssistantRole = js ''assistant''"
| "chat_role_str SystemRole = js ''system''"

definition encodeChatMessage :: "chat_message \<Rightarrow> json" where
  "encodeChatMessage message = obj
     ([(''role'', JStr (chat_role_str (m_role message))), (''content'', JStr (m_content message)),
       (''createdAt'', JStr (m_created_at message))]
      @ (case m_kind message of None \<Rightarrow> [] | Some kind \<Rightarrow> if trim kind \<noteq> [] then [(''kind'', JStr (trim kind))] else [])
      @ (case m_payload message of None \<Rightarrow> [] | Some payload \<Rightarrow> if asRecord payload \<noteq> None then [(''payload'', payload)] else []))"

definition encodeLane :: "lane_item \<Rightarrow> json" where
  "encodeLane lane = obj
     [(''id'', JStr (li_id lane)), (''name'', JStr (li_name lane)), (''instanceId'', or_null (li_instance_id lane)),
      (''agentId'', or_null (li_agent_id lane)), (''createdAt'', JStr (li_created_at lane))]"

definition encodeKanbanTaskCreateRequest :: "task_create_request \<Rightarrow> json" where
  "encodeKanbanTaskCreateRequest payload = obj
     [(''requirement'', JStr (tc_requirement payload)), (''agentId'', JStr (tc_agent_id payload)),
      (''agentName'', JStr (tc_agent_name payload)), (''instanceId'', JStr (tc_instance_id payload))]"

definition default_runtime :: planner_runtime where
  "default_runtime = \<lparr>pr_session_status = Idle, pr_is_planning = False, pr_is_planner_stopping = False,
     pr_is_overlay_close_blocked = False\<rparr>"

fun ui_status_str :: "ui_status \<Rightarrow> jsstring" where
  "ui_status_str Idle = js ''idle''"
| "ui_status_str (Session Planning) = js ''planning''"
| "ui_status_str (Session PlanCompleted) = js ''completed''"
| "ui_status_str (Session PlanStopped) = js ''stopped''"
| "ui_status_str (Session PlanFailed) = js ''failed''"

definition encode_string_record :: "(jsstring \<times> jsstring) list \<Rightarrow> json" where
  "encode_string_record m = JObj (map (\<lambda>(k, v). (k, JStr v)) m)"

definition encodeFlowDraftUpsertRequest :: "draft_upsert_request \<Rightarrow> json" where
  "encodeFlowDraftUpsertRequest payload =
     (let plannerRuntime = nullish (du_planner_runtime payload) default_runtime in obj
      [(''id'', JStr (du_id payload)), (''name'', JStr (du_name payload)), (''requirement'', JStr (du_requirement payload)),
       (''nodes'', JArr (map encodeNode (du_nodes payload))), (''edges'', JArr (map encodeEdge (du_edges payload))),
       (''plannerMessages'', JArr (map encodeChatMessage (nullish (du_planner_messages payload) []))),
       (''lanes'', JArr (map encodeLane (nullish (du_lanes payload) []))),
       (''nodeLaneById'', encode_string_record (nullish (du_node_lane_by_id payload) [])),
       (''plannerSessionKey'', or_null (du_planner_session_key payload)),
       (''executionSessionPrefix'', or_null (du_execution_session_prefix payload)),
       (''executorAgentId'', or_null (du_executor_agent_id payload)),
       (''plannerRuntime'', obj
          [(''plannerSessionStatus'', JStr (ui_status_str (pr_session_status plannerRuntime))),
           (''isPlanning'', JBool (pr_is_planning plannerRuntime)),
           (''isPlannerStopping'', JBool (pr_is_planner_stopping plannerRuntime)),
           (''isOverlayCloseBlocked'', JBool (pr_is_overlay_close_blocked plannerRuntime))]),
       (''revision'', JNum (du_revision payload)), (''createdAt'', or_null (du_created_at payload)),
       (''updatedAt'', or_null (du_updated_at payload))])"

definition encodeFlowGenerateRequest :: "generate_request \<Rightarrow> json" where
  "encodeFlowGenerateRequest payload = obj
     [(''requirement'', JStr (gq_requirement payload)), (''instanceId'', JStr (gq_instance_id payload)),
      (''executorAgentId'', JStr (gq_executor_agent_id payload)), (''plannerAgentId'', or_null (gq_planner_agent_id payload)),
      (''managerAgentId'', or_null (gq_manager_agent_id payload)), (''plannerSessionKey'', or_null (gq_planner_session_key payload)),
      (''flowName'', or_null (gq_flow_name payload)),
      (''currentNodes'', JArr (map encodeNode (nullish (gq_current_nodes payload) []))),
      (''currentEdges'', JArr (map encodeEdge (nullish (gq_current_edges payload) [])))]"

definition encodeFlowConfirmRequest :: "confirm_request \<Rightarrow> json" where
  "encodeFlowConfirmRequest payload = obj
     [(''instanceId'', JStr (cq_instance_id payload)), (''requirementId'', or_null (cq_requirement_id payload)),
      (''executorAgentId'', JStr (cq_executor_agent_id payload)), (''managerAgentId'', or_null (cq_manager_agent_id payload)),
      (''requirementTitle'', or_null (cq_requirement_title payload)), (''plannerSessionKey'', or_null (cq_planner_session_key payload)),
      (''executionSessionPrefix'', or_null (cq_execution_session_prefix payload)),
      (''nodes'', JArr (map encodeNode (cq_nodes payload))), (''edges'', JArr (map encodeEdge (cq_edges payload)))]"

definition encodeFlowPlannerStopRequest :: "jsstring \<Rightarrow> json" where
  "encodeFlowPlannerStopRequest plannerSessionKey = obj [(''plannerSessionKey'', JStr plannerSessionKey)]"

definition encodeFlowRequirementSyncRequest :: "jsstring option \<Rightarrow> flow_node list \<Rightarrow> flow_edge list \<Rightarrow> json" where
  "encodeFlowRequirementSyncRequest requirementTitle nodes edges = obj
     [(''requirementTitle'', or_null requirementTitle), (''nodes'', JArr (map encodeNode nodes)),
      (''edges'', JArr (map encodeEdge edges))]"

section \<open>Decoders\<close>

definition decodeTaskValue :: "(jsnum \<Rightarrow> jsstring) \<Rightarrow> (jsstring \<Rightarrow> jsstring) \<Rightarrow> json \<Rightarrow> task option" where
  "decodeTaskValue num low value =
     (case asRecord value of None \<Rightarrow> None
      | Some record \<Rightarrow>
        (case (readRequiredString record ''id'' ''id'', readRequiredString record ''board_id'' ''boardId'',
               readRequiredString record ''title'' ''title'', readRequiredString record ''summary'' ''summary'',
               readRequiredString record ''created_at'' ''createdAt'', readRequiredString record ''updated_at'' ''updatedAt'') of
           (Some ident, Some boardId, Some title, Some summary, Some createdAt, Some updatedAt) \<Rightarrow> Some
             \<lparr>t_id = ident, t_board_id = boardId, t_title = title, t_summary = summary,
              t_status = wire_task_status (field record ''status''), t_source = normalizeTaskSource (field record ''source''),
              t_agent_id = readNullableString record ''agent_id'' ''agentId'',
              t_agent_name = nullish (readString record ''agent_name'' ''agentName'') [],
              t_artifacts = decodeStringArray (field record ''artifacts''),
              t_extras = decodeStringRecord num (normalizeExtraKey low) (field record ''extras''),
              t_instance_id = readNullableString record ''instance_id'' ''instanceId'',
              t_created_at = createdAt, t_updated_at = updatedAt\<rparr>
         | _ \<Rightarrow> None))"

text \<open>\<open>typeof v === 'number' ? v : 0\<close>\<close>

fun number_or_zero :: "json \<Rightarrow> jsnum" where
  "number_or_zero (JNum x) = x"
| "number_or_zero _ = jint 0"

definition decodeNodeValue :: "json \<Rightarrow> flow_node option" where
  "decodeNodeValue value =
     (case asRecord value of None \<Rightarrow> None
      | Some record \<Rightarrow>
        let ident = readRequiredString record ''id'' ''id''; title = readRequiredString record ''title'' ''title'' in
        if \<not> required ident \<or> \<not> required title then None
        else Some
          \<lparr>n_id = the ident, n_title = the title, n_description = readString record ''description'' ''description'',
           n_depends_on = List.map_filter as_string (readArray record ''depends_on'' ''dependsOn''),
           n_x = number_or_zero (field record ''x''), n_y = number_or_zero (field record ''y''),
           n_layer = number_or_zero (field record ''layer''), n_sensitive = (field record ''sensitive'' = JBool True),
           n_status = wire_task_status (field record ''status''),
           n_agent_id = readNullableString record ''agent_id'' ''agentId'',
           n_instance_id = readNullableString record ''instance_id'' ''instanceId''\<rparr>)"

definition decodeEdgeValue :: "json \<Rightarrow> flow_edge option" where
  "decodeEdgeValue value =
     (case asRecord value of None \<Rightarrow> None
      | Some record \<Rightarrow>
        let ident = readRequiredString record ''id'' ''id''; source = readRequiredString record ''source'' ''source'';
            target = readRequiredString record ''target'' ''target'' in
        if \<not> required ident \<or> \<not> required source \<or> \<not> required target then None
        else Some \<lparr>e_id = the ident, e_source = the source, e_target = the target\<rparr>)"

definition normalizeFlowChatMessageRole :: "jsstring \<Rightarrow> chat_role option" where
  "normalizeFlowChatMessageRole role =
     (if role = js ''user'' then Some UserRole
      else if role = js ''assistant'' then Some AssistantRole
      else if role = js ''system'' then Some SystemRole
      else if role = js ''tool'' \<or> role = js ''other'' then Some SystemRole
      else None)"

definition decodeFlowChatMessageValue :: "json \<Rightarrow> chat_message option" where
  "decodeFlowChatMessageValue value =
     (case asRecord value of None \<Rightarrow> None
      | Some record \<Rightarrow>
        let rawRole = readRequiredString record ''role'' ''role'';
            role = (if required rawRole then normalizeFlowChatMessageRole (the rawRole) else None);
            content = nullish (readString record ''content'' ''content'') [];
            createdAt = readRequiredString record ''created_at'' ''createdAt''
        in if role = None \<or> \<not> required createdAt then None
           else
             let rawKind = readString record ''kind'' ''kind'';
                 payload = readField record ''payload'' ''payload''
             in Some \<lparr>m_role = the role, m_content = content, m_kind = trim_or_null rawKind,
                  m_payload = (if asRecord payload \<noteq> None then Some payload else None), m_created_at = the createdAt\<rparr>)"

definition decodeLaneValue :: "json \<Rightarrow> lane_item option" where
  "decodeLaneValue value =
     (case asRecord value of None \<Rightarrow> None
      | Some record \<Rightarrow>
        let ident = readRequiredString record ''id'' ''id''; name = readRequiredString record ''name'' ''name'';
            createdAt = readRequiredString record ''created_at'' ''createdAt'' in
        if \<not> required ident \<or> \<not> required name \<or> \<not> required createdAt then None
        else Some \<lparr>li_id = the ident, li_name = the name,
            li_instance_id = readNullableString record ''instance_id'' ''instanceId'',
            li_agent_id = readNullableString record ''agent_id'' ''agentId'', li_created_at = the createdAt\<rparr>)"

definition decodePlannerNodeDraftValue :: "json \<Rightarrow> node_draft option" where
  "decodePlannerNodeDraftValue value =
     (case asRecord value of None \<Rightarrow> None
      | Some record \<Rightarrow>
        let ident = readRequiredString record ''id'' ''id''; title = readRequiredString record ''title'' ''title'' in
        if \<not> required ident \<or> \<not> required title then None
        else Some \<lparr>d_id = the ident, d_title = the title, d_description = readString record ''description'' ''description'',
            d_depends_on = List.map_filter as_string (readArray record ''depends_on'' ''dependsOn''),
            d_sensitive = (field record ''sensitive'' = JBool True)\<rparr>)"

definition decodeNodeOperationValue :: "json \<Rightarrow> node_operation option" where
  "decodeNodeOperationValue value =
     (case asRecord value of None \<Rightarrow> None
      | Some record \<Rightarrow>
        let rawType = readRequiredString record ''type'' ''type'' in
        if \<not> required rawType then None
        else if the rawType = js ''upsert_node'' \<or> the rawType = js ''upsertNode''
        then map_option UpsertNode (decodePlannerNodeDraftValue (field record ''node''))
        else if the rawType = js ''delete_node'' \<or> the rawType = js ''deleteNode''
        then (let nodeId = readRequiredString record ''node_id'' ''nodeId'' in
              if \<not> required nodeId \<or> trim (the nodeId) = [] then None else Some (DeleteNode (the nodeId)))
        else None)"

definition decodeFlowPlannerStatus :: "json \<Rightarrow> planner_status option" where
  "decodeFlowPlannerStatus value =
     (if value = JStr (js ''planning'') then Some Planning
      else if value = JStr (js ''completed'') then Some PlanCompleted
      else if value = JStr (js ''stopped'') then Some PlanStopped
      else if value = JStr (js ''failed'') then Some PlanFailed
      else None)"

definition wire_ui_status :: "jsstring option \<Rightarrow> ui_status" where
  "wire_ui_status rawStatus =
     (case rawStatus of None \<Rightarrow> Idle
      | Some s \<Rightarrow> (case decodeFlowPlannerStatus (JStr s) of None \<Rightarrow> Idle | Some status \<Rightarrow> Session status))"

definition decodeFlowDraftPlannerRuntime :: "json \<Rightarrow> planner_runtime" where
  "decodeFlowDraftPlannerRuntime value =
     (case asRecord value of None \<Rightarrow> default_runtime
      | Some record \<Rightarrow>
        \<lparr>pr_session_status = wire_ui_status (readRequiredString record ''planner_session_status'' ''plannerSessionStatus''),
         pr_is_planning = (readField record ''is_planning'' ''isPlanning'' = JBool True),
         pr_is_planner_stopping = (readField record ''is_planner_stopping'' ''isPlannerStopping'' = JBool True),
         pr_is_overlay_close_blocked = (readField record ''is_overlay_close_blocked'' ''isOverlayCloseBlocked'' = JBool True)\<rparr>)"

fun wire_revision :: "json \<Rightarrow> jsnum" where
  "wire_revision (JNum x) = (if is_finite x then x else jint 0)"
| "wire_revision _ = jint 0"

definition decodeFlowDraftItem :: "(jsnum \<Rightarrow> jsstring) \<Rightarrow> json \<Rightarrow> draft_record option" where
  "decodeFlowDraftItem num value =
     (case asRecord value of None \<Rightarrow> None
      | Some record \<Rightarrow>
        (case (readRequiredString record ''id'' ''id'', readRequiredString record ''name'' ''name'',
               readRequiredString record ''requirement'' ''requirement'',
               readRequiredString record ''created_at'' ''createdAt'', readRequiredString record ''updated_at'' ''updatedAt'') of
           (Some ident, Some name, Some requirement, Some createdAt, Some updatedAt) \<Rightarrow> Some
             \<lparr>fd_id = ident, fd_name = name, fd_requirement = requirement,
              fd_nodes = decodeArray decodeNodeValue (readField record ''nodes'' ''nodes''),
              fd_edges = decodeArray decodeEdgeValue (readField record ''edges'' ''edges''),
              fd_planner_messages = Some (decodeArray decodeFlowChatMessageValue (readField record ''planner_messages'' ''plannerMessages'')),
              fd_lanes = decodeArray decodeLaneValue (readField record ''lanes'' ''lanes''),
              fd_node_lane_by_id = decodeStringRecord num (\<lambda>key. key) (readField record ''node_lane_by_id'' ''nodeLaneById''),
              fd_planner_session_key = readNullableString record ''planner_session_key'' ''plannerSessionKey'',
              fd_execution_session_prefix = readNullableString record ''execution_session_prefix'' ''executionSessionPrefix'',
              fd_executor_agent_id = readNullableString record ''executor_agent_id'' ''executorAgentId'',
              fd_planner_runtime = Some (decodeFlowDraftPlannerRuntime (readField record ''planner_runtime'' ''plannerRuntime'')),
              fd_revision = wire_revision (readField record ''revision'' ''revision''),
              fd_created_at = createdAt, fd_updated_at = updatedAt\<rparr>
         | _ \<Rightarrow> None))"

definition decodeFlowGenerateResponse :: "json \<Rightarrow> generate_response option" where
  "decodeFlowGenerateResponse value =
     (case asRecord value of None \<Rightarrow> None
      | Some record \<Rightarrow>
        let boardId = readRequiredString record ''board_id'' ''boardId'';
            plannerSessionKey = readRequiredString record ''planner_session_key'' ''plannerSessionKey'';
            managerSessionKey = readRequiredString record ''manager_session_key'' ''managerSessionKey'';
            executionSessionPrefix = readRequiredString record ''execution_session_prefix'' ''executionSessionPrefix'' in
        if \<not> required boardId \<or> \<not> required plannerSessionKey \<or> \<not> required managerSessionKey \<or>
           \<not> required executionSessionPrefix then None
        else Some \<lparr>gr_board_id = the boardId, gr_planner_session_key = the plannerSessionKey,
            gr_manager_session_key = the managerSessionKey, gr_execution_session_prefix = the executionSessionPrefix,
            gr_nodes = decodeArray decodeNodeValue (readField record ''nodes'' ''nodes''),
            gr_edges = decodeArray decodeEdgeValue (readField record ''edges'' ''edges''),
            gr_messages = decodeArray decodeFlowChatMessageValue (readField record ''messages'' ''messages''),
            gr_created_task_ids = decodeStringArray (readField record ''created_task_ids'' ''createdTaskIds'')\<rparr>)"

definition decodeFlowConfirmResponse :: "json \<Rightarrow> confirm_response option" where
  "decodeFlowConfirmResponse value =
     (case asRecord value of None \<Rightarrow> None
      | Some record \<Rightarrow>
        let boardId = readRequiredString record ''board_id'' ''boardId'';
            plannerSessionKey = readRequiredString record ''planner_session_key'' ''plannerSessionKey'';
            managerSessionKey = readRequiredString record ''manager_session_key'' ''managerSessionKey'';
            executionSessionPrefix = readRequiredString record ''execution_session_prefix'' ''executionSessionPrefix'' in
        if \<not> required boardId \<or> \<not> required plannerSessionKey \<or> \<not> required managerSessionKey \<or>
           \<not> required executionSessionPrefix then None
        else Some \<lparr>cr_board_id = the boardId, cr_planner_session_key = the plannerSessionKey,
            cr_manager_session_key = the managerSessionKey, cr_execution_session_prefix = the executionSessionPrefix,
            cr_nodes = decodeArray decodeNodeValue (readField record ''nodes'' ''nodes''),
            cr_edges = decodeArray decodeEdgeValue (readField record ''edges'' ''edges''),
            cr_messages = decodeArray decodeFlowChatMessageValue (readField record ''messages'' ''messages''),
            cr_created_task_ids = decodeStringArray (readField record ''created_task_ids'' ''createdTaskIds''),
            cr_dispatched_task_ids = decodeStringArray (readField record ''dispatched_task_ids'' ''dispatchedTaskIds'')\<rparr>)"

section \<open>The other responses\<close>

record draft_delete_response =
  dd_deleted :: bool
  dd_flow_id :: jsstring

record planner_stop_response =
  sr_session_key :: jsstring
  sr_status :: planner_status
  sr_revision :: jsnum
  sr_updated_at :: jsstring

record requirement_rename_response =
  rr_requirement_id :: jsstring
  rr_requirement_title :: jsstring
  rr_updated_task_ids :: "jsstring list"

record requirement_stop_response =
  rs_requirement_id :: jsstring
  rs_stopped_task_ids :: "jsstring list"
  rs_running_task_ids :: "jsstring list"

record requirement_continue_response =
  rc_requirement_id :: jsstring
  rc_resumed_task_ids :: "jsstring list"
  rc_dispatched_task_ids :: "jsstring list"

record requirement_sync_response =
  ry_requirement_id :: jsstring
  ry_updated_task_ids :: "jsstring list"
  ry_created_task_ids :: "jsstring list"
  ry_deleted_task_ids :: "jsstring list"

record task_interrupt_response =
  ti_accepted :: bool
  ti_task_id :: jsstring
  ti_status :: task_status
  ti_dispatched_task_ids :: "jsstring list"
  ti_pause_requested :: bool
  ti_message :: "jsstring option"

record task_continue_response =
  tn_accepted :: bool
  tn_task_id :: jsstring
  tn_status :: task_status
  tn_dispatched_task_ids :: "jsstring list"
  tn_message :: "jsstring option"

record task_delete_response =
  td_deleted :: bool
  td_deleted_task_ids :: "jsstring list"
  td_requirement_id :: "jsstring option"

record output_preview_response =
  op_path :: jsstring
  op_kind :: jsstring
  op_mime_type :: jsstring
  op_size_bytes :: jsnum
  op_truncated :: bool
  op_content :: "jsstring option"
  op_download_url :: jsstring

fun as_bool :: "json \<Rightarrow> bool option" where
  "as_bool (JBool b) = Some b"
| "as_bool _ = None"

fun as_number :: "json \<Rightarrow> jsnum option" where
  "as_number (JNum x) = Some x"
| "as_number _ = None"

text \<open>\<open>Boolean(value)\<close>\<close>

fun truthy :: "json \<Rightarrow> bool" where
  "truthy JUndef = False"
| "truthy JNull = False"
| "truthy (JBool b) = b"
| "truthy (JNum x) = (x \<noteq> Fin 0 \<and> x \<noteq> NaN)"
| "truthy (JStr s) = (s \<noteq> [])"
| "truthy _ = True"

definition decodeFlowDraftDeleteResponse :: "json \<Rightarrow> draft_delete_response option" where
  "decodeFlowDraftDeleteResponse value =
     (case asRecord value of None \<Rightarrow> None
      | Some record \<Rightarrow>
        (case as_bool (field record ''deleted'') of None \<Rightarrow> None
         | Some deleted \<Rightarrow>
             let flowId = readRequiredString record ''flow_id'' ''flowId'' in
             if \<not> required flowId then None else Some \<lparr>dd_deleted = deleted, dd_flow_id = the flowId\<rparr>))"

definition decodeFlowPlannerStopResponse :: "json \<Rightarrow> planner_stop_response option" where
  "decodeFlowPlannerStopResponse value =
     (case asRecord value of None \<Rightarrow> None
      | Some record \<Rightarrow>
        (case as_number (field record ''revision'') of None \<Rightarrow> None
         | Some revision \<Rightarrow>
             let sessionKey = readRequiredString record ''session_key'' ''sessionKey'';
                 status = decodeFlowPlannerStatus (field record ''status'');
                 updatedAt = readRequiredString record ''updated_at'' ''updatedAt'' in
             if \<not> required sessionKey \<or> status = None \<or> \<not> required updatedAt then None
             else Some \<lparr>sr_session_key = the sessionKey, sr_status = the status, sr_revision = revision,
                 sr_updated_at = the updatedAt\<rparr>))"

definition decodeFlowRequirementRenameResponse :: "json \<Rightarrow> requirement_rename_response option" where
  "decodeFlowRequirementRenameResponse value =
     (case asRecord value of None \<Rightarrow> None
      | Some record \<Rightarrow>
        let requirementId = readRequiredString record ''requirement_id'' ''requirementId'';
            requirementTitle = readRequiredString record ''requirement_title'' ''requirementTitle'' in
        if \<not> required requirementId \<or> \<not> required requirementTitle then None
        else Some \<lparr>rr_requirement_id = the requirementId, rr_requirement_title = the requirementTitle,
            rr_updated_task_ids = decodeStringArray (readField record ''updated_task_ids'' ''updatedTaskIds'')\<rparr>)"

definition decodeFlowRequirementStopResponse :: "json \<Rightarrow> requirement_stop_response option" where
  "decodeFlowRequirementStopResponse value =
     (case asRecord value of None \<Rightarrow> None
      | Some record \<Rightarrow>
        let requirementId = readRequiredString record ''requirement_id'' ''requirementId'' in
        if \<not> required requirementId then None
        else Some \<lparr>rs_requirement_id = the requirementId,
            rs_stopped_task_ids = decodeStringArray (readField record ''stopped_task_ids'' ''stoppedTaskIds''),
            rs_running_task_ids = decodeStringArray (readField record ''running_task_ids'' ''runningTaskIds'')\<rparr>)"

definition decodeFlowRequirementContinueResponse :: "json \<Rightarrow> requirement_continue_response option" where
  "decodeFlowRequirementContinueResponse value =
     (case asRecord value of None \<Rightarrow> None
      | Some record \<Rightarrow>
        let requirementId = readRequiredString record ''requirement_id'' ''requirementId'' in
        if \<not> required requirementId then None
        else Some \<lparr>rc_requirement_id = the requirementId,
            rc_resumed_task_ids = decodeStringArray (readField record ''resumed_task_ids'' ''resumedTaskIds''),
            rc_dispatched_task_ids = decodeStringArray (readField record ''dispatched_task_ids'' ''dispatchedTaskIds'')\<rparr>)"

definition decodeFlowRequirementSyncResponse :: "json \<Rightarrow> requirement_sync_response option" where
  "decodeFlowRequirementSyncResponse value =
     (case asRecord value of None \<Rightarrow> None
      | Some record \<Rightarrow>
        let requirementId = readRequiredString record ''requirement_id'' ''requirementId'' in
        if \<not> required requirementId then None
        else Some \<lparr>ry_requirement_id = the requirementId,
            ry_updated_task_ids = decodeStringArray (readField record ''updated_task_ids'' ''updatedTaskIds''),
            ry_created_task_ids = decodeStringArray (readField record ''created_task_ids'' ''createdTaskIds''),
            ry_deleted_task_ids = decodeStringArray (readField record ''deleted_task_ids'' ''deletedTaskIds'')\<rparr>)"

definition decodeTaskInterruptResponse :: "json \<Rightarrow> task_interrupt_response option" where
  "decodeTaskInterruptResponse value =
     (case asRecord value of None \<Rightarrow> None
      | Some record \<Rightarrow>
        (case as_bool (field record ''accepted'') of None \<Rightarrow> None
         | Some accepted \<Rightarrow>
             let taskId = readRequiredString record ''task_id'' ''taskId'' in
             if \<not> required taskId then None
             else Some \<lparr>ti_accepted = accepted, ti_task_id = the taskId,
                 ti_status = wire_task_status (field record ''status''),
                 ti_dispatched_task_ids = decodeStringArray (readField record ''dispatched_task_ids'' ''dispatchedTaskIds''),
                 ti_pause_requested = truthy (readField record ''pause_requested'' ''pauseRequested''),
                 ti_message = readNullableString record ''message'' ''message''\<rparr>))"

definition decodeTaskContinueResponse :: "json \<Rightarrow> task_continue_response option" where
  "decodeTaskContinueResponse value =
     (case asRecord value of None \<Rightarrow> None
      | Some record \<Rightarrow>
        (case as_bool (field record ''accepted'') of None \<Rightarrow> None
         | Some accepted \<Rightarrow>
             let taskId = readRequiredString record ''task_id'' ''taskId'' in
             if \<not> required taskId then None
             else Some \<lparr>tn_accepted = accepted, tn_task_id = the taskId,
                 tn_status = wire_task_status (field record ''status''),
                 tn_dispatched_task_ids = decodeStringArray (readField record ''dispatched_task_ids'' ''dispatchedTaskIds''),
                 tn_message = readNullableString record ''message'' ''message''\<rparr>))"

definition decodeTaskDeleteResponse :: "json \<Rightarrow> task_delete_response option" where
  "decodeTaskDeleteResponse value =
     (case asRecord value of None \<Rightarrow> None
      | Some record \<Rightarrow>
        (case as_bool (field record ''deleted'') of None \<Rightarrow> None
         | Some deleted \<Rightarrow> Some \<lparr>td_deleted = deleted,
             td_deleted_task_ids = decodeStringArray (readField record ''deleted_task_ids'' ''deletedTaskIds''),
             td_requirement_id = readNullableString record ''requirement_id'' ''requirementId''\<rparr>))"

definition decodeTaskOutputPreviewResponse :: "json \<Rightarrow> output_preview_response option" where
  "decodeTaskOutputPreviewResponse value =
     (case asRecord value of None \<Rightarrow> None
      | Some record \<Rightarrow>
        let path = readRequiredString record ''path'' ''path''; kind = readRequiredString record ''kind'' ''kind'';
            mimeType = readRequiredString record ''mime_type'' ''mimeType'';
            sizeBytes = as_number (readField record ''size_bytes'' ''sizeBytes'');
            truncated = as_bool (readField record ''truncated'' ''truncated'');
            downloadUrl = readRequiredString record ''download_url'' ''downloadUrl'' in
        if \<not> required path \<or> \<not> required kind \<or> \<not> required mimeType \<or> sizeBytes = None \<or> truncated = None \<or>
           \<not> required downloadUrl then None
        else Some \<lparr>op_path = the path, op_kind = the kind, op_mime_type = the mimeType, op_size_bytes = the sizeBytes,
            op_truncated = the truncated, op_content = as_string (readField record ''content'' ''content''),
            op_download_url = the downloadUrl\<rparr>)"

section \<open>Round trips\<close>

lemmas read_defs = readField_def readRequiredString_def readString_def readNullableString_def readArray_def
  field_def map_has_def map_get_def

lemma as_string_or_null [simp]: "as_string (or_null v) = v"
  by (cases v) simp_all

lemma map_filter_strings [simp]: "List.map_filter as_string (map JStr xs) = xs"
  by (induction xs) (simp_all add: List.map_filter_simps)

lemma required_Some [simp]: "required (Some s) \<longleftrightarrow> s \<noteq> []"
  by (simp add: required_def)

lemma wire_task_status_str [simp]: "wire_task_status (JStr (status_str s)) = s"
  by (simp add: wire_task_status_def)

lemma asRecord_obj [simp]: "asRecord (obj fs) = Some (map (\<lambda>(k, v). (js k, v)) fs)"
  by (simp add: obj_def)

text \<open>What a node must be for the decoder to take it back.\<close>

definition sendable_node :: "flow_node \<Rightarrow> bool" where
  "sendable_node n \<longleftrightarrow> n_id n \<noteq> [] \<and> n_title n \<noteq> []"

lemma decode_encode_node: "sendable_node n \<Longrightarrow> decodeNodeValue (encodeNode n) = Some n"
  by (simp add: decodeNodeValue_def encodeNode_def read_defs sendable_node_def)

lemma decode_encode_edge:
  "e_id e \<noteq> [] \<Longrightarrow> e_source e \<noteq> [] \<Longrightarrow> e_target e \<noteq> [] \<Longrightarrow> decodeEdgeValue (encodeEdge e) = Some e"
  by (simp add: decodeEdgeValue_def encodeEdge_def read_defs)

lemma decode_encode_lane:
  "li_id l \<noteq> [] \<Longrightarrow> li_name l \<noteq> [] \<Longrightarrow> li_created_at l \<noteq> [] \<Longrightarrow> decodeLaneValue (encodeLane l) = Some l"
  by (simp add: decodeLaneValue_def encodeLane_def read_defs)

text \<open>A message, an edge, a lane and a draft that survive the wire.\<close>

definition sendable_message :: "chat_message \<Rightarrow> bool" where
  "sendable_message m \<longleftrightarrow> m_created_at m \<noteq> [] \<and> trim_or_null (m_kind m) = m_kind m \<and>
     (\<forall>p. m_payload m = Some p \<longrightarrow> asRecord p \<noteq> None \<and> json_nf p = p)"

definition sendable_edge :: "flow_edge \<Rightarrow> bool" where
  "sendable_edge e \<longleftrightarrow> e_id e \<noteq> [] \<and> e_source e \<noteq> [] \<and> e_target e \<noteq> []"

definition sendable_lane :: "lane_item \<Rightarrow> bool" where
  "sendable_lane l \<longleftrightarrow> li_id l \<noteq> [] \<and> li_name l \<noteq> [] \<and> li_created_at l \<noteq> []"

lemma normalizeFlowChatMessageRole_str [simp]: "normalizeFlowChatMessageRole (chat_role_str r) = Some r"
  by (cases r) (simp_all add: normalizeFlowChatMessageRole_def)

lemma chat_role_str_nonempty [simp]: "chat_role_str r \<noteq> []"
  by (cases r) simp_all

lemma decode_encode_message: "sendable_message m \<Longrightarrow> decodeFlowChatMessageValue (encodeChatMessage m) = Some m"
proof -
  assume m: "sendable_message m"
  show ?thesis
  proof (cases "m_kind m")
    case None
    then show ?thesis
      using m by (cases "m_payload m")
        (simp_all add: decodeFlowChatMessageValue_def encodeChatMessage_def read_defs sendable_message_def
          trim_or_null_def trim_opt_def non_empty_def)
  next
    case (Some k)
    then have "trim k = k" "k \<noteq> []"
      using m by (auto simp: sendable_message_def trim_or_null_def trim_opt_def non_empty_def split: if_splits)
    then show ?thesis
      using m Some by (cases "m_payload m")
        (simp_all add: decodeFlowChatMessageValue_def encodeChatMessage_def read_defs sendable_message_def
          trim_or_null_def trim_opt_def non_empty_def)
  qed
qed

lemma decodeArray_map:
  "\<forall>x \<in> set xs. decoder (encode x) = Some x \<Longrightarrow> decodeArray decoder (JArr (map encode xs)) = xs"
  by (induction xs) (simp_all add: decodeArray_def List.map_filter_simps)

lemma decode_string_record_go:
  "distinct (map fst (acc @ m)) \<Longrightarrow> \<forall>k \<in> fst ` set m. trimmed k \<and> k \<noteq> [] \<Longrightarrow>
     fold (\<lambda>(rawKey, rawValue) normalized.
         let key = trim rawKey in
         if key = [] then normalized
         else case scalar_string num rawValue of None \<Rightarrow> normalized | Some v \<Rightarrow> AList.update key v normalized)
       (map (\<lambda>(k, v). (k, JStr v)) m) acc = acc @ m"
proof (induction m arbitrary: acc)
  case Nil
  then show ?case by simp
next
  case (Cons e m)
  obtain k v where e: "e = (k, v)" by (cases e)
  have "AList.update k v acc = acc @ [(k, v)]"
    using Cons.prems(1) e by (intro alist_update_new) auto
  then show ?case
    using Cons.IH [of "acc @ [(k, v)]"] Cons.prems e by (simp add: trimmed_eq)
qed

lemma decode_encode_string_record:
  "distinct (map fst m) \<Longrightarrow> \<forall>k \<in> fst ` set m. trimmed k \<and> k \<noteq> [] \<Longrightarrow>
     decodeStringRecord num (\<lambda>key. key) (encode_string_record m) = m"
  using decode_string_record_go [of "[]" m num] by (simp add: decodeStringRecord_def encode_string_record_def)

lemma decode_encode_runtime [simp]: "decodeFlowDraftPlannerRuntime (obj
    [(''plannerSessionStatus'', JStr (ui_status_str (pr_session_status r))), (''isPlanning'', JBool (pr_is_planning r)),
     (''isPlannerStopping'', JBool (pr_is_planner_stopping r)),
     (''isOverlayCloseBlocked'', JBool (pr_is_overlay_close_blocked r))]) = r"
  by (cases "pr_session_status r" rule: ui_status_str.cases)
    (simp_all add: decodeFlowDraftPlannerRuntime_def read_defs wire_ui_status_def decodeFlowPlannerStatus_def)

text \<open>The JSON text keeps a value that has no undefined part and only finite numbers.\<close>

lemma json_nf_arr: "\<forall>x \<in> set xs. json_nf x = x \<and> x \<noteq> JUndef \<Longrightarrow> json_nf (JArr xs) = JArr xs"
  by (simp, intro map_idI) (auto split: json.split)

lemma json_nf_obj: "\<forall>(k, v) \<in> set fs. json_nf v = v \<and> v \<noteq> JUndef \<Longrightarrow> json_nf (obj fs) = obj fs"
proof -
  assume a: "\<forall>(k, v) \<in> set fs. json_nf v = v \<and> v \<noteq> JUndef"
  have "map (\<lambda>(k, v). (k, json_nf v)) (map (\<lambda>(k, v). (js k, v)) fs) = map (\<lambda>(k, v). (js k, v)) fs"
    using a by auto
  moreover have "filter (\<lambda>(_, v). v \<noteq> JUndef) (map (\<lambda>(k, v). (js k, v)) fs) = map (\<lambda>(k, v). (js k, v)) fs"
    using a by (intro filter_True) auto
  ultimately show ?thesis unfolding obj_def json_nf.simps by (simp only:)
qed

lemma or_null_nf [simp]: "json_nf (or_null v) = or_null v" "or_null v \<noteq> JUndef"
  by (cases v; simp)+

lemma obj_defined [simp]: "obj fs \<noteq> JUndef"
  by (simp add: obj_def)

lemma encoded_defined [simp]: "encodeNode n \<noteq> JUndef" "encodeEdge e \<noteq> JUndef" "encodeLane l \<noteq> JUndef" "encodeChatMessage m \<noteq> JUndef"
  by (simp_all add: encodeNode_def encodeEdge_def encodeLane_def encodeChatMessage_def)

lemma json_nf_map: "\<forall>x \<in> set xs. json_nf (f x) = f x \<and> f x \<noteq> JUndef \<Longrightarrow> json_nf (JArr (map f xs)) = JArr (map f xs)"
  by (rule json_nf_arr) simp

definition finite_node :: "flow_node \<Rightarrow> bool" where
  "finite_node n \<longleftrightarrow> is_finite (n_x n) \<and> is_finite (n_y n) \<and> is_finite (n_layer n)"

lemma json_nf_strings [simp]: "json_nf (JArr (map JStr xs)) = JArr (map JStr xs)"
  by (rule json_nf_arr) auto

lemma json_nf_node: "finite_node n \<Longrightarrow> json_nf (encodeNode n) = encodeNode n"
  unfolding encodeNode_def by (rule json_nf_obj) (simp add: finite_node_def del: json_nf.simps(2))

lemma json_nf_edge: "json_nf (encodeEdge e) = encodeEdge e"
  unfolding encodeEdge_def by (rule json_nf_obj) simp

lemma json_nf_lane: "json_nf (encodeLane l) = encodeLane l"
  unfolding encodeLane_def by (rule json_nf_obj) simp

lemma json_nf_message: "sendable_message m \<Longrightarrow> json_nf (encodeChatMessage m) = encodeChatMessage m"
  unfolding encodeChatMessage_def
  by (rule json_nf_obj) (auto simp: sendable_message_def split: option.split)

lemma json_nf_string_record: "json_nf (encode_string_record m) = encode_string_record m"
proof -
  have "map (\<lambda>(k, v). (k, json_nf v)) (map (\<lambda>(k, v). (k, JStr v)) m) = map (\<lambda>(k, v). (k, JStr v)) m" by auto
  moreover have "filter (\<lambda>(_, v). v \<noteq> JUndef) (map (\<lambda>(k, v). (k, JStr v)) m) = map (\<lambda>(k, v). (k, JStr v)) m"
    by (intro filter_True) auto
  ultimately show ?thesis unfolding encode_string_record_def json_nf.simps by (simp only:)
qed

lemma string_record_defined [simp]: "encode_string_record m \<noteq> JUndef"
  by (simp add: encode_string_record_def)

text \<open>
  The draft a saved request stands for: the defaults the encoder fills in are part of it. The
  request is one the server stores when its pieces survive the wire and its numbers are finite.
\<close>

definition record_of_upsert :: "draft_upsert_request \<Rightarrow> draft_record" where
  "record_of_upsert d =
     \<lparr>fd_id = du_id d, fd_name = du_name d, fd_requirement = du_requirement d, fd_nodes = du_nodes d,
      fd_edges = du_edges d, fd_planner_messages = Some (nullish (du_planner_messages d) []),
      fd_lanes = nullish (du_lanes d) [], fd_node_lane_by_id = nullish (du_node_lane_by_id d) [],
      fd_planner_session_key = du_planner_session_key d, fd_execution_session_prefix = du_execution_session_prefix d,
      fd_executor_agent_id = du_executor_agent_id d,
      fd_planner_runtime = Some (nullish (du_planner_runtime d) default_runtime), fd_revision = du_revision d,
      fd_created_at = nullish (du_created_at d) [], fd_updated_at = nullish (du_updated_at d) []\<rparr>"

definition sendable_draft :: "draft_upsert_request \<Rightarrow> bool" where
  "sendable_draft d \<longleftrightarrow>
     (\<forall>n \<in> set (du_nodes d). sendable_node n \<and> finite_node n) \<and> (\<forall>e \<in> set (du_edges d). sendable_edge e) \<and>
     (\<forall>m \<in> set (nullish (du_planner_messages d) []). sendable_message m) \<and>
     (\<forall>l \<in> set (nullish (du_lanes d) []). sendable_lane l) \<and>
     distinct (map fst (nullish (du_node_lane_by_id d) [])) \<and>
     (\<forall>k \<in> fst ` set (nullish (du_node_lane_by_id d) []). trimmed k \<and> k \<noteq> []) \<and>
     is_finite (du_revision d) \<and> du_created_at d \<noteq> None \<and> du_updated_at d \<noteq> None"

lemma encode_draft_nf:
  assumes "sendable_draft d"
  shows "json_nf (encodeFlowDraftUpsertRequest d) = encodeFlowDraftUpsertRequest d"
proof -
  have "json_nf (JArr (map encodeNode (du_nodes d))) = JArr (map encodeNode (du_nodes d))"
    "json_nf (JArr (map encodeEdge (du_edges d))) = JArr (map encodeEdge (du_edges d))"
    "json_nf (JArr (map encodeChatMessage (nullish (du_planner_messages d) []))) = JArr (map encodeChatMessage (nullish (du_planner_messages d) []))"
    "json_nf (JArr (map encodeLane (nullish (du_lanes d) []))) = JArr (map encodeLane (nullish (du_lanes d) []))"
    by (rule json_nf_map, use assms in \<open>simp add: sendable_draft_def json_nf_node json_nf_edge json_nf_message json_nf_lane\<close>)+
  then show ?thesis
    unfolding encodeFlowDraftUpsertRequest_def Let_def using assms
    by (intro json_nf_obj)
      (simp add: json_nf_string_record sendable_draft_def json_nf_obj del: json_nf.simps(2,3))
qed

text \<open>
  C34: Saving a draft loses nothing that a draft can hold: when the JSON text of an upsert request comes back from the
  server, the client's own decoder reads exactly the draft that was saved, with the defaults the encoder filled in.
  Asked of the draft (\<open>sendable_draft\<close>): ids and titles of nodes, ids and ends of edges, ids, names and times of lanes and
  times of messages are not empty; the draft has both its times; coordinates, layers and the revision are finite; the
  kind of a message has no blanks around it and is not empty, and its payload is an object or array as JSON text gives
  it back; and the keys of the map of lanes are trimmed, not empty and distinct. The decoder drops or changes what
  breaks one of these.
\<close>

theorem draft_round_trip:
  assumes "sendable_draft d"
  shows "decodeFlowDraftItem num (json_nf (encodeFlowDraftUpsertRequest d)) = Some (record_of_upsert d)"
proof -
  obtain c u where cu: "du_created_at d = Some c" "du_updated_at d = Some u"
    using assms by (auto simp: sendable_draft_def)
  have arrays: "decodeArray decodeNodeValue (JArr (map encodeNode (du_nodes d))) = du_nodes d"
    "decodeArray decodeEdgeValue (JArr (map encodeEdge (du_edges d))) = du_edges d"
    "decodeArray decodeFlowChatMessageValue (JArr (map encodeChatMessage (nullish (du_planner_messages d) []))) = nullish (du_planner_messages d) []"
    "decodeArray decodeLaneValue (JArr (map encodeLane (nullish (du_lanes d) []))) = nullish (du_lanes d) []"
    using assms by (auto simp: sendable_draft_def sendable_edge_def sendable_lane_def decode_encode_node decode_encode_edge
        decode_encode_message decode_encode_lane intro!: decodeArray_map)
  have lanes: "decodeStringRecord num (\<lambda>key. key) (encode_string_record (nullish (du_node_lane_by_id d) [])) = nullish (du_node_lane_by_id d) []"
    using assms by (intro decode_encode_string_record) (auto simp: sendable_draft_def)
  have "wire_revision (JNum (du_revision d)) = du_revision d" using assms by (simp add: sendable_draft_def)
  then show ?thesis
    unfolding encode_draft_nf [OF assms] using cu arrays lanes
    by (simp add: decodeFlowDraftItem_def encodeFlowDraftUpsertRequest_def record_of_upsert_def
        read_defs Let_def)
qed

definition sample_upsert :: draft_upsert_request where
  "sample_upsert =
     \<lparr>du_id = js ''flow-1'', du_name = js ''Demo'', du_requirement = [],
      du_nodes = [sample_node ''a'' ''A'' [], sample_node ''b'' ''B'' [''a'']],
      du_edges = [\<lparr>e_id = js ''edge-a-b'', e_source = js ''a'', e_target = js ''b''\<rparr>],
      du_planner_messages = None, du_lanes = Some [sample_lane ''one'' ''main''],
      du_node_lane_by_id = Some [(js ''a'', js ''one''), (js ''b'', js ''one'')],
      du_planner_session_key = None, du_execution_session_prefix = None, du_executor_agent_id = Some (js ''main''),
      du_planner_runtime = None, du_revision = jint 3, du_created_at = Some (js ''2026-01-01T00:00:00Z''),
      du_updated_at = Some (js ''2026-01-02T00:00:00Z'')\<rparr>"

theorem draft_round_trip_witness:
  "sendable_draft sample_upsert \<and>
   decodeFlowDraftItem (\<lambda>x. []) (json_nf (encodeFlowDraftUpsertRequest sample_upsert)) = Some (record_of_upsert sample_upsert)"
proof -
  have s: "sendable_draft sample_upsert"
    by (simp add: sendable_draft_def sample_upsert_def sample_node_def sample_lane_def sendable_node_def finite_node_def
        sendable_edge_def sendable_lane_def trimmed_def char_white_def)
  show ?thesis using s draft_round_trip [OF s, of "\<lambda>x. []"] by blast
qed

text \<open>
  No decoder lets through a node, an edge, a lane, a planner draft or a planner operation without its
  mandatory ids: whatever value arrives, what is decoded has a non-empty id and title, an operation
  that deletes names a node that is not blank, and one bad element of a list costs only itself.
\<close>

lemma decoded_values_have_ids:
  "list_all sendable_node (decodeArray decodeNodeValue value) \<and> list_all sendable_edge (decodeArray decodeEdgeValue value) \<and>
   list_all sendable_lane (decodeArray decodeLaneValue value) \<and>
   list_all (\<lambda>op. case op of UpsertNode d \<Rightarrow> d_id d \<noteq> [] \<and> d_title d \<noteq> [] | DeleteNode i \<Rightarrow> trim i \<noteq> [])
     (decodeArray decodeNodeOperationValue value) \<and>
   decodeArray decodeNodeValue (JArr (xs @ y # ys)) =
     decodeArray decodeNodeValue (JArr xs) @ (case decodeNodeValue y of None \<Rightarrow> [] | Some n \<Rightarrow> [n]) @ decodeArray decodeNodeValue (JArr ys)"
proof -
  have node: "decodeNodeValue v = Some n \<Longrightarrow> sendable_node n" for v n
    by (auto simp: decodeNodeValue_def sendable_node_def required_def Let_def split: option.splits if_splits)
  have edge: "decodeEdgeValue v = Some e \<Longrightarrow> sendable_edge e" for v e
    by (auto simp: decodeEdgeValue_def sendable_edge_def required_def Let_def split: option.splits if_splits)
  have lane: "decodeLaneValue v = Some l \<Longrightarrow> sendable_lane l" for v l
    by (auto simp: decodeLaneValue_def sendable_lane_def required_def Let_def split: option.splits if_splits)
  have draft: "decodePlannerNodeDraftValue v = Some d \<Longrightarrow> d_id d \<noteq> [] \<and> d_title d \<noteq> []" for v d
    by (auto simp: decodePlannerNodeDraftValue_def required_def Let_def split: option.splits if_splits)
  have op: "decodeNodeOperationValue v = Some op \<Longrightarrow>
      (case op of UpsertNode d \<Rightarrow> d_id d \<noteq> [] \<and> d_title d \<noteq> [] | DeleteNode i \<Rightarrow> trim i \<noteq> [])" for v op
    using draft by (auto simp: decodeNodeOperationValue_def Let_def split: option.splits if_splits)
  have "list_all sendable_node (decodeArray decodeNodeValue value)" "list_all sendable_edge (decodeArray decodeEdgeValue value)"
    "list_all sendable_lane (decodeArray decodeLaneValue value)"
    using node edge lane by (auto simp: list_all_iff decodeArray_def List.map_filter_def)
  moreover have "list_all (\<lambda>op. case op of UpsertNode d \<Rightarrow> d_id d \<noteq> [] \<and> d_title d \<noteq> [] | DeleteNode i \<Rightarrow> trim i \<noteq> [])
     (decodeArray decodeNodeOperationValue value)"
    using op by (auto simp: list_all_iff decodeArray_def List.map_filter_def)
  ultimately show ?thesis
    by (cases "decodeNodeValue y") (simp_all add: decodeArray_def List.map_filter_def)
qed

end
