(* ===== verification/RealtimeMessages.thy ===== *)
theory RealtimeMessages imports TaskFlowContract PlannerEvents begin

text \<open>
  The parsers of \<open>api/realtimeClient.ts\<close>: from the text of a server-sent event to a typed message.
  \<open>parse_json\<close> is \<open>JSON.parse\<close>, None when it throws. A \<open>throw\<close> is a left value.
\<close>

datatype realtime_error = MalformedJson | InvalidMessage | InvalidPayloadField | InvalidPayload

datatype board_payload =
    BoardSnapshotReady
  | TaskUpserted task
  | TaskDeleted jsstring
  | BoardErrorDetail jsstring

record board_event =
  be_channel :: jsstring
  be_seq :: int
  be_timestamp :: jsstring
  be_payload :: board_payload

section \<open>Reading a payload\<close>

definition readPayloadString :: "(jsstring \<times> json) list \<Rightarrow> string \<Rightarrow> string \<Rightarrow> realtime_error + jsstring" where
  "readPayloadString payload snakeKey camelKey =
     (case as_string (readField payload snakeKey camelKey) of None \<Rightarrow> Inl InvalidPayloadField | Some s \<Rightarrow> Inr s)"

fun decodeRequired :: "'a option \<Rightarrow> realtime_error + 'a" where
  "decodeRequired (Some v) = Inr v"
| "decodeRequired None = Inl InvalidPayload"

text \<open>\<open>value.map\<close> with a decoder that throws: the first failure wins.\<close>

fun decode_all :: "(json \<Rightarrow> 'a option) \<Rightarrow> json list \<Rightarrow> realtime_error + 'a list" where
  "decode_all decoder [] = Inr []"
| "decode_all decoder (x # xs) =
     (case decodeRequired (decoder x) of Inl e \<Rightarrow> Inl e
      | Inr v \<Rightarrow> (case decode_all decoder xs of Inl e \<Rightarrow> Inl e | Inr vs \<Rightarrow> Inr (v # vs)))"

fun decode_required_array :: "(json \<Rightarrow> 'a option) \<Rightarrow> json \<Rightarrow> realtime_error + 'a list" where
  "decode_required_array decoder (JArr xs) = decode_all decoder xs"
| "decode_required_array decoder _ = Inl InvalidPayload"

text \<open>A number that is an integer and not negative.\<close>

fun natural_number :: "json \<Rightarrow> int option" where
  "natural_number (JNum (Fin q)) = (if 0 \<le> q \<and> of_int \<lfloor>q\<rfloor> = q then Some \<lfloor>q\<rfloor> else None)"
| "natural_number _ = None"

lemma natural_number_nonneg: "natural_number v = Some i \<Longrightarrow> 0 \<le> i"
  by (cases v rule: natural_number.cases) (auto split: if_splits)

definition isBoardChannel :: "jsstring \<Rightarrow> bool" where
  "isBoardChannel value \<longleftrightarrow> starts_with value (js ''board:'') \<and> ends_with value (js '':tasks'')"

definition isSessionMessagesChannel :: "jsstring \<Rightarrow> bool" where
  "isSessionMessagesChannel value \<longleftrightarrow> starts_with value (js ''session:'') \<and> ends_with value (js '':messages'')"

text \<open>
  The frame both parsers check first: type, channel, sequence number, time stamp and a payload that is
  an object.
\<close>

definition read_frame :: "(jsstring \<Rightarrow> json option) \<Rightarrow> (jsstring \<Rightarrow> bool) \<Rightarrow> jsstring
    \<Rightarrow> realtime_error + (jsstring \<times> jsstring \<times> int \<times> jsstring \<times> (jsstring \<times> json) list)" where
  "read_frame parse_json isChannel raw =
     (case parse_json raw of None \<Rightarrow> Inl MalformedJson
      | Some parsed \<Rightarrow>
        (case asRecord parsed of None \<Rightarrow> Inl InvalidMessage
         | Some record \<Rightarrow>
           (case (as_string (field record ''type''), as_string (field record ''channel''), natural_number (field record ''seq''),
                  as_string (field record ''timestamp''), asRecord (field record ''payload'')) of
              (Some type, Some channel, Some seq, Some timestamp, Some payload) \<Rightarrow>
                if isChannel channel then Inr (type, channel, seq, timestamp, payload) else Inl InvalidMessage
            | _ \<Rightarrow> Inl InvalidMessage)))"

section \<open>The board channel\<close>

definition board_payload_of :: "(jsnum \<Rightarrow> jsstring) \<Rightarrow> (jsstring \<Rightarrow> jsstring) \<Rightarrow> jsstring \<Rightarrow> (jsstring \<times> json) list
    \<Rightarrow> realtime_error + board_payload" where
  "board_payload_of num low type payload =
     (if type = js ''snapshot_ready'' then
        (if field payload ''status'' \<noteq> JStr (js ''ok'') then Inl InvalidMessage else Inr BoardSnapshotReady)
      else if type = js ''tasks_changed'' then
        (if field payload ''action'' = JStr (js ''upsert'') then
           (case decodeRequired (decodeTaskValue num low (field payload ''task'')) of
              Inl e \<Rightarrow> Inl e | Inr task \<Rightarrow> Inr (TaskUpserted task))
         else if field payload ''action'' = JStr (js ''delete'') then
           (case readPayloadString payload ''task_id'' ''taskId'' of
              Inl e \<Rightarrow> Inl e
            | Inr taskId \<Rightarrow> if trim taskId = [] then Inl InvalidMessage else Inr (TaskDeleted taskId))
         else Inl InvalidMessage)
      else if type = js ''error'' then
        (case as_string (field payload ''detail'') of None \<Rightarrow> Inl InvalidMessage | Some detail \<Rightarrow> Inr (BoardErrorDetail detail))
      else Inl InvalidMessage)"

definition parseBoardRealtimeMessage :: "(jsstring \<Rightarrow> json option) \<Rightarrow> (jsnum \<Rightarrow> jsstring) \<Rightarrow> (jsstring \<Rightarrow> jsstring)
    \<Rightarrow> jsstring \<Rightarrow> realtime_error + board_event" where
  "parseBoardRealtimeMessage parse_json num low raw =
     (case read_frame parse_json isBoardChannel raw of Inl e \<Rightarrow> Inl e
      | Inr (type, channel, seq, timestamp, payload) \<Rightarrow>
        (case board_payload_of num low type payload of Inl e \<Rightarrow> Inl e
         | Inr p \<Rightarrow> Inr \<lparr>be_channel = channel, be_seq = seq, be_timestamp = timestamp, be_payload = p\<rparr>))"

section \<open>The planner channel\<close>

fun update_mode_of :: "json \<Rightarrow> update_mode option option" where
  "update_mode_of JUndef = Some None"
| "update_mode_of (JStr s) =
     (if s = js ''replace'' then Some (Some Replace) else if s = js ''append_chunk'' then Some (Some AppendChunk) else None)"
| "update_mode_of _ = None"

text \<open>\<open>completed_at\<close>: undefined, null or a string.\<close>

fun completed_at_of :: "json \<Rightarrow> jsstring option option option" where
  "completed_at_of JUndef = Some None"
| "completed_at_of JNull = Some (Some None)"
| "completed_at_of (JStr s) = Some (Some (Some s))"
| "completed_at_of _ = None"

definition messages_payload_of :: "(jsstring \<times> json) list \<Rightarrow> realtime_error + planner_payload" where
  "messages_payload_of payload =
     (case readPayloadString payload ''session_key'' ''sessionKey'' of Inl e \<Rightarrow> Inl e
      | Inr sessionKey \<Rightarrow>
        (case decode_required_array decodeFlowChatMessageValue (field payload ''messages'') of Inl e \<Rightarrow> Inl e
         | Inr messages \<Rightarrow>
           (case update_mode_of (readField payload ''update_mode'' ''updateMode'') of None \<Rightarrow> Inl InvalidMessage
            | Some mode \<Rightarrow> Inr (MessagesUpdated sessionKey messages mode))))"

definition patched_payload_of :: "(jsstring \<times> json) list \<Rightarrow> realtime_error + planner_payload" where
  "patched_payload_of payload =
     (case readPayloadString payload ''session_key'' ''sessionKey'' of Inl e \<Rightarrow> Inl e
      | Inr sessionKey \<Rightarrow>
        (case natural_number (field payload ''revision'') of None \<Rightarrow> Inl InvalidMessage
         | Some revision \<Rightarrow>
           (case decode_required_array decodeNodeOperationValue (field payload ''operations'') of Inl e \<Rightarrow> Inl e
            | Inr operations \<Rightarrow> Inr (NodesPatched sessionKey revision operations))))"

definition snapshot_payload_of :: "(jsstring \<times> json) list \<Rightarrow> realtime_error + planner_payload" where
  "snapshot_payload_of payload =
     (case readPayloadString payload ''session_key'' ''sessionKey'' of Inl e \<Rightarrow> Inl e
      | Inr sessionKey \<Rightarrow>
        (case natural_number (field payload ''revision'') of None \<Rightarrow> Inl InvalidMessage
         | Some revision \<Rightarrow>
           (case decode_required_array decodePlannerNodeDraftValue (field payload ''nodes'') of Inl e \<Rightarrow> Inl e
            | Inr nodes \<Rightarrow> Inr (SnapshotUpdated sessionKey revision nodes))))"

definition session_payload_of :: "(jsstring \<times> json) list \<Rightarrow> realtime_error + planner_payload" where
  "session_payload_of payload =
     (case readPayloadString payload ''session_key'' ''sessionKey'' of Inl e \<Rightarrow> Inl e
      | Inr sessionKey \<Rightarrow>
        (case (decodeFlowPlannerStatus (field payload ''status''), natural_number (field payload ''revision'')) of
           (Some status, Some revision) \<Rightarrow>
             (case readPayloadString payload ''updated_at'' ''updatedAt'' of Inl e \<Rightarrow> Inl e
              | Inr updatedAt \<Rightarrow>
                (case completed_at_of (readField payload ''completed_at'' ''completedAt'') of None \<Rightarrow> Inl InvalidMessage
                 | Some completedAt \<Rightarrow> Inr (SessionUpdated sessionKey status revision updatedAt completedAt)))
         | _ \<Rightarrow> Inl InvalidMessage))"

definition planner_payload_of :: "jsstring \<Rightarrow> (jsstring \<times> json) list \<Rightarrow> realtime_error + planner_payload" where
  "planner_payload_of type payload =
     (if type = js ''snapshot_ready'' then
        (if field payload ''status'' \<noteq> JStr (js ''ok'') then Inl InvalidMessage else Inr SnapshotReady)
      else if type = js ''planner_messages_updated'' then messages_payload_of payload
      else if type = js ''planner_nodes_patched'' then patched_payload_of payload
      else if type = js ''planner_snapshot_updated'' then snapshot_payload_of payload
      else if type = js ''planner_session_updated'' then session_payload_of payload
      else if type = js ''error'' then
        (case as_string (field payload ''detail'') of None \<Rightarrow> Inl InvalidMessage | Some detail \<Rightarrow> Inr (ErrorDetail detail))
      else Inl InvalidMessage)"

definition parseFlowPlannerRealtimeMessage :: "(jsstring \<Rightarrow> json option) \<Rightarrow> jsstring \<Rightarrow> realtime_error + planner_event" where
  "parseFlowPlannerRealtimeMessage parse_json raw =
     (case read_frame parse_json isSessionMessagesChannel raw of Inl e \<Rightarrow> Inl e
      | Inr (type, channel, seq, timestamp, payload) \<Rightarrow>
        (case planner_payload_of type payload of Inl e \<Rightarrow> Inl e
         | Inr p \<Rightarrow> Inr \<lparr>pe_channel = channel, pe_seq = seq, pe_timestamp = timestamp, pe_payload = p\<rparr>))"

lemma read_frame_ok:
  "read_frame parse isChannel raw = Inr (type, channel, seq, timestamp, payload) \<Longrightarrow> 0 \<le> seq \<and> isChannel channel"
  by (auto simp: read_frame_def natural_number_nonneg split: option.splits if_splits)

lemma payload_revisions:
  "messages_payload_of payload = Inr p \<Longrightarrow> payload_revision p = None"
  "patched_payload_of payload = Inr p \<Longrightarrow> payload_revision p = Some r \<Longrightarrow> 0 \<le> r"
  "snapshot_payload_of payload = Inr p \<Longrightarrow> payload_revision p = Some r \<Longrightarrow> 0 \<le> r"
  "session_payload_of payload = Inr p \<Longrightarrow> payload_revision p = Some r \<Longrightarrow> 0 \<le> r"
  by (auto simp: messages_payload_of_def patched_payload_of_def snapshot_payload_of_def session_payload_of_def
      natural_number_nonneg split: option.splits sum.splits)

lemma planner_payload_revision:
  "planner_payload_of type payload = Inr p \<Longrightarrow> payload_revision p = Some r \<Longrightarrow> 0 \<le> r"
  using payload_revisions [of payload p]
  by (auto simp: planner_payload_of_def split: if_splits option.splits)

lemma decode_all_map: "decode_all decoder xs = Inr ys \<longleftrightarrow> map decoder xs = map Some ys"
proof (induction xs arbitrary: ys)
  case Nil
  then show ?case by auto
next
  case (Cons x xs)
  show ?case by (cases "decoder x"; cases ys) (auto simp: Cons.IH [symmetric] split: sum.splits)
qed

text \<open>
  What the parser of the planner channel lets through is what the runtime counts on: an integer
  sequence number and revision, neither negative, and a session channel; and a list in a payload is
  taken only as a whole, since one element the decoder refuses makes the parser throw.
\<close>

lemma planner_event_well_formed:
  "(\<forall>e. parseFlowPlannerRealtimeMessage parse_json raw = Inr e \<longrightarrow>
      0 \<le> pe_seq e \<and> isSessionMessagesChannel (pe_channel e) \<and> (\<forall>r. payload_revision (pe_payload e) = Some r \<longrightarrow> 0 \<le> r)) \<and>
   (\<forall>xs ops. decode_required_array decodeNodeOperationValue (JArr xs) = Inr ops \<longleftrightarrow>
      map decodeNodeOperationValue xs = map Some ops)"
  by (auto simp: parseFlowPlannerRealtimeMessage_def decode_all_map
      dest: read_frame_ok planner_payload_revision split: sum.splits prod.splits)

lemma planner_event_well_formed_witness:
  "\<exists>e. parseFlowPlannerRealtimeMessage (\<lambda>raw. Some (obj
      [(''type'', JStr (js ''error'')), (''channel'', JStr (js ''session:s:messages'')), (''seq'', JNum (Fin 4)),
       (''timestamp'', JStr []), (''payload'', obj [(''detail'', JStr [])])])) [] = Inr e \<and>
     0 \<le> pe_seq e \<and> isSessionMessagesChannel (pe_channel e)"
proof -
  let ?parse = "\<lambda>raw :: jsstring. Some (obj
      [(''type'', JStr (js ''error'')), (''channel'', JStr (js ''session:s:messages'')), (''seq'', JNum (Fin 4)),
       (''timestamp'', JStr []), (''payload'', obj [(''detail'', JStr [])])])"
  have "\<exists>e. parseFlowPlannerRealtimeMessage ?parse [] = Inr e"
    by (simp add: parseFlowPlannerRealtimeMessage_def read_frame_def field_def map_get_def planner_payload_of_def
        isSessionMessagesChannel_def starts_with_def ends_with_def js_def)
  then show ?thesis using planner_event_well_formed [THEN conjunct1, rule_format, of ?parse "[]"] by blast
qed

section \<open>The observer channel\<close>

text \<open>
  \<open>parseObserverRealtimeMessage\<close> and its helpers of \<open>api/types.ts\<close>. The payload keeps its fields: the
  parser only checks those its type must have.
\<close>

datatype observer_type =
    SnapshotReadyType | AgentSummaryUpdated | TopologyUpdated | NodeEventsAppended | SessionMessagesUpdated
  | ResyncRequired | ErrorType

record observer_event =
  ob_type :: observer_type
  ob_channel :: jsstring
  ob_seq :: int
  ob_timestamp :: jsstring
  ob_payload :: "(jsstring \<times> json) list"

definition observer_type_of :: "jsstring \<Rightarrow> observer_type option" where
  "observer_type_of value = map_of
     [(js ''snapshot_ready'', SnapshotReadyType), (js ''agent_summary_updated'', AgentSummaryUpdated),
      (js ''topology_updated'', TopologyUpdated), (js ''node_events_appended'', NodeEventsAppended),
      (js ''session_messages_updated'', SessionMessagesUpdated), (js ''resync_required'', ResyncRequired),
      (js ''error'', ErrorType)] value"

text \<open>The two channel builders throw (None) on an empty key.\<close>

definition buildAgentDetailChannel :: "jsstring \<Rightarrow> jsstring option" where
  "buildAgentDetailChannel agentId = (if agentId = [] then None else Some (js ''agent:'' @ agentId @ js '':detail''))"

definition buildSessionMessagesChannel :: "jsstring \<Rightarrow> jsstring option" where
  "buildSessionMessagesChannel sessionKey = (if sessionKey = [] then None else Some (session_channel sessionKey))"

text \<open>\<open>value.slice(p.length, -s.length)\<close>\<close>

definition slice_between :: "jsstring \<Rightarrow> jsstring \<Rightarrow> jsstring \<Rightarrow> jsstring" where
  "slice_between p s value = drop (length p) (take (length value - length s) value)"

definition isObserverChannel :: "jsstring \<Rightarrow> bool" where
  "isObserverChannel value =
     (if value = js ''agents:list'' then True
      else if starts_with value (js ''agent:'') \<and> ends_with value (js '':detail'')
      then 0 < length (slice_between (js ''agent:'') (js '':detail'') value)
      else if starts_with value (js ''session:'') \<and> ends_with value (js '':messages'')
      then 0 < length (slice_between (js ''session:'') (js '':messages'') value)
      else False)"

fun is_string :: "json \<Rightarrow> bool" where
  "is_string (JStr s) = True"
| "is_string _ = False"

fun is_array :: "json \<Rightarrow> bool" where
  "is_array (JArr xs) = True"
| "is_array _ = False"

fun isPayloadCompatible :: "observer_type \<Rightarrow> (jsstring \<times> json) list \<Rightarrow> bool" where
  "isPayloadCompatible SnapshotReadyType payload = (field payload ''status'' = JStr (js ''ok''))"
| "isPayloadCompatible AgentSummaryUpdated payload = (asRecord (field payload ''agent'') \<noteq> None)"
| "isPayloadCompatible TopologyUpdated payload =
     (is_string (field payload ''agent_id'') \<and> is_array (field payload ''nodes''))"
| "isPayloadCompatible NodeEventsAppended payload =
     (is_string (field payload ''agent_id'') \<and> is_string (field payload ''node_id'') \<and> is_array (field payload ''events''))"
| "isPayloadCompatible SessionMessagesUpdated payload =
     (is_string (field payload ''session_key'') \<and> is_array (field payload ''messages'') \<and>
      update_mode_of (field payload ''update_mode'') \<noteq> None)"
| "isPayloadCompatible ResyncRequired payload = is_string (field payload ''reason'')"
| "isPayloadCompatible ErrorType payload = is_string (field payload ''detail'')"

definition parseObserverRealtimeMessage :: "(jsstring \<Rightarrow> json option) \<Rightarrow> jsstring \<Rightarrow> realtime_error + observer_event" where
  "parseObserverRealtimeMessage parse_json raw =
     (case parse_json raw of None \<Rightarrow> Inl MalformedJson
      | Some parsed \<Rightarrow>
        (case asRecord parsed of None \<Rightarrow> Inl InvalidMessage
         | Some record \<Rightarrow>
           (case (Option.bind (as_string (field record ''type'')) observer_type_of, as_string (field record ''channel''),
                  natural_number (field record ''seq''), as_string (field record ''timestamp''), asRecord (field record ''payload'')) of
              (Some type, Some channel, Some seq, Some timestamp, Some payload) \<Rightarrow>
                if isObserverChannel channel \<and> isPayloadCompatible type payload
                then Inr \<lparr>ob_type = type, ob_channel = channel, ob_seq = seq, ob_timestamp = timestamp, ob_payload = payload\<rparr>
                else Inl InvalidMessage
            | _ \<Rightarrow> Inl InvalidMessage)))"

text \<open>
  The channels the client builds are channels its own parser accepts, and the parsed sequence number
  is never negative.
\<close>

lemma observer_channels_accepted:
  "(case buildSessionMessagesChannel key of None \<Rightarrow> key = [] | Some channel \<Rightarrow> isObserverChannel channel) \<and>
   (case buildAgentDetailChannel key of None \<Rightarrow> key = [] | Some channel \<Rightarrow> isObserverChannel channel) \<and>
   (case parseObserverRealtimeMessage parse_json raw of Inl e \<Rightarrow> True | Inr m \<Rightarrow> 0 \<le> ob_seq m \<and> isObserverChannel (ob_channel m))"
proof -
  have "isObserverChannel (session_channel key)" if "key \<noteq> []"
  proof -
    have "\<not> starts_with (session_channel key) (js ''agent:'')" by (simp add: starts_with_def session_channel_def js_def)
    then show ?thesis
      using that by (simp add: isObserverChannel_def session_channel_def starts_with_def ends_with_def slice_between_def)
  qed
  moreover have "isObserverChannel (js ''agent:'' @ key @ js '':detail'')" if "key \<noteq> []"
    using that by (simp add: isObserverChannel_def starts_with_def ends_with_def slice_between_def)
  moreover have "parseObserverRealtimeMessage parse_json raw = Inr m \<Longrightarrow> 0 \<le> ob_seq m \<and> isObserverChannel (ob_channel m)" for m
    by (auto simp: parseObserverRealtimeMessage_def natural_number_nonneg split: option.splits if_splits)
  ultimately show ?thesis
    by (simp add: buildSessionMessagesChannel_def buildAgentDetailChannel_def split: option.split sum.split)
qed

end
