(* ===== verification/RealtimeClient.thy ===== *)
theory RealtimeClient imports RealtimeMessages begin

text \<open>
  The clients of \<open>api/realtimeClient.ts\<close> and the reconnection of \<open>hooks/useFlowPlannerRealtime.ts\<close>, as
  state machines. A socket or event source is its index in the list of those created; what the
  platform does (a socket opens once, delivers only while open, closes once; a closed event source
  is silent) is the guard of the step relation. What a callback of the options is called with is
  appended to an output list.
\<close>

section \<open>The observer client\<close>

datatype ws_state = Connecting | Open | Closing | Closed

datatype 'm client_output =
    Subscribed nat
  | Delivered nat 'm
  | ResyncAsked nat 'm
  | ParseFailed nat jsstring
  | Disconnected nat

record 'm observer_client =
  oc_socket :: "nat option"
  oc_manually_closed :: bool
  oc_opened :: bool
  oc_closed_before_open :: bool
  oc_sockets :: "ws_state list"
  oc_out :: "'m client_output list"

text \<open>\<open>ws.close()\<close>\<close>

definition ws_close :: "nat \<Rightarrow> ws_state list \<Rightarrow> ws_state list" where
  "ws_close i ws = (if ws ! i = Closed then ws else ws[i := Closing])"

definition observer_start :: "'m observer_client" where
  "observer_start = \<lparr>oc_socket = None, oc_manually_closed = False, oc_opened = False, oc_closed_before_open = False,
     oc_sockets = [], oc_out = []\<rparr>"

definition observer_connect :: "'m observer_client \<Rightarrow> 'm observer_client" where
  "observer_connect c =
     (if oc_socket c \<noteq> None then c
      else c\<lparr>oc_manually_closed := False, oc_opened := False, oc_closed_before_open := False,
             oc_sockets := oc_sockets c @ [Connecting], oc_socket := Some (length (oc_sockets c))\<rparr>)"

definition observer_on_open :: "nat \<Rightarrow> 'm observer_client \<Rightarrow> 'm observer_client" where
  "observer_on_open ws c =
     (if oc_socket c \<noteq> Some ws then c
      else
        let c1 = c\<lparr>oc_opened := True\<rparr> in
        if oc_closed_before_open c1
        then c1\<lparr>oc_socket := None, oc_sockets := ws_close ws (oc_sockets c1)\<rparr>
        else c1\<lparr>oc_out := oc_out c1 @ [Subscribed ws]\<rparr>)"

text \<open>\<open>parse\<close> is \<open>parseObserverRealtimeMessage\<close>, None when it throws; a resync message is reported twice.\<close>

definition observer_on_message :: "(jsstring \<Rightarrow> 'm option) \<Rightarrow> ('m \<Rightarrow> bool) \<Rightarrow> nat \<Rightarrow> jsstring
    \<Rightarrow> 'm observer_client \<Rightarrow> 'm observer_client" where
  "observer_on_message parse isResync ws raw c =
     (case parse raw of
        None \<Rightarrow> c\<lparr>oc_out := oc_out c @ [ParseFailed ws raw]\<rparr>
      | Some parsed \<Rightarrow> c\<lparr>oc_out := oc_out c @ [Delivered ws parsed] @ (if isResync parsed then [ResyncAsked ws parsed] else [])\<rparr>)"

definition observer_on_close :: "nat \<Rightarrow> 'm observer_client \<Rightarrow> 'm observer_client" where
  "observer_on_close ws c =
     (let c1 = (if oc_socket c = Some ws then c\<lparr>oc_socket := None\<rparr> else c) in
      if oc_manually_closed c1 then c1 else c1\<lparr>oc_out := oc_out c1 @ [Disconnected ws]\<rparr>)"

definition observer_close :: "'m observer_client \<Rightarrow> 'm observer_client" where
  "observer_close c =
     (case oc_socket c of
        None \<Rightarrow> c
      | Some socket \<Rightarrow>
          let c1 = c\<lparr>oc_manually_closed := True\<rparr> in
          if \<not> oc_opened c1 then c1\<lparr>oc_closed_before_open := True, oc_socket := None\<rparr>
          else c1\<lparr>oc_sockets := ws_close socket (oc_sockets c1), oc_socket := None\<rparr>)"

datatype client_event = Connect | Close | Opens nat | Sends nat jsstring | Ends nat

inductive observer_steps :: "(jsstring \<Rightarrow> 'm option) \<Rightarrow> ('m \<Rightarrow> bool) \<Rightarrow> 'm observer_client \<Rightarrow> client_event \<Rightarrow> 'm observer_client \<Rightarrow> bool"
  for parse isResync where
  connect: "observer_steps parse isResync c Connect (observer_connect c)"
| close: "observer_steps parse isResync c Close (observer_close c)"
| opens: "i < length (oc_sockets c) \<Longrightarrow> oc_sockets c ! i = Connecting \<Longrightarrow>
    observer_steps parse isResync c (Opens i) (observer_on_open i (c\<lparr>oc_sockets := (oc_sockets c)[i := Open]\<rparr>))"
| sends: "i < length (oc_sockets c) \<Longrightarrow> oc_sockets c ! i = Open \<Longrightarrow>
    observer_steps parse isResync c (Sends i raw) (observer_on_message parse isResync i raw c)"
| ends: "i < length (oc_sockets c) \<Longrightarrow> oc_sockets c ! i \<noteq> Closed \<Longrightarrow>
    observer_steps parse isResync c (Ends i) (observer_on_close i (c\<lparr>oc_sockets := (oc_sockets c)[i := Closed]\<rparr>))"

inductive observer_run :: "(jsstring \<Rightarrow> 'm option) \<Rightarrow> ('m \<Rightarrow> bool) \<Rightarrow> 'm observer_client \<Rightarrow> client_event list \<Rightarrow> 'm observer_client \<Rightarrow> bool"
  for parse isResync where
  none: "observer_run parse isResync c [] c"
| more: "observer_run parse isResync c evs c' \<Longrightarrow> observer_steps parse isResync c' ev c'' \<Longrightarrow>
    observer_run parse isResync c (evs @ [ev]) c''"

inductive_cases observer_stepsE: "observer_steps parse isResync c ev c'"

text \<open>The step relation is deterministic; as a function it runs a trace, None when an event cannot happen.\<close>

fun observer_target :: "(jsstring \<Rightarrow> 'm option) \<Rightarrow> ('m \<Rightarrow> bool) \<Rightarrow> client_event \<Rightarrow> 'm observer_client \<Rightarrow> 'm observer_client option" where
  "observer_target parse isResync Connect c = Some (observer_connect c)"
| "observer_target parse isResync Close c = Some (observer_close c)"
| "observer_target parse isResync (Opens i) c =
     (if i < length (oc_sockets c) \<and> oc_sockets c ! i = Connecting
      then Some (observer_on_open i (c\<lparr>oc_sockets := (oc_sockets c)[i := Open]\<rparr>)) else None)"
| "observer_target parse isResync (Sends i raw) c =
     (if i < length (oc_sockets c) \<and> oc_sockets c ! i = Open then Some (observer_on_message parse isResync i raw c) else None)"
| "observer_target parse isResync (Ends i) c =
     (if i < length (oc_sockets c) \<and> oc_sockets c ! i \<noteq> Closed
      then Some (observer_on_close i (c\<lparr>oc_sockets := (oc_sockets c)[i := Closed]\<rparr>)) else None)"

fun observer_exec :: "(jsstring \<Rightarrow> 'm option) \<Rightarrow> ('m \<Rightarrow> bool) \<Rightarrow> client_event list \<Rightarrow> 'm observer_client \<Rightarrow> 'm observer_client option" where
  "observer_exec parse isResync [] c = Some c"
| "observer_exec parse isResync (ev # evs) c =
     (case observer_target parse isResync ev c of None \<Rightarrow> None | Some c' \<Rightarrow> observer_exec parse isResync evs c')"

lemma observer_target_steps: "observer_target parse isResync ev c = Some c' \<Longrightarrow> observer_steps parse isResync c ev c'"
  by (cases ev) (auto intro: observer_steps.intros split: if_splits)

lemma observer_exec_run:
  "observer_exec parse isResync evs c = Some c' \<Longrightarrow> observer_run parse isResync c0 evs0 c \<Longrightarrow>
     observer_run parse isResync c0 (evs0 @ evs) c'"
proof (induction evs arbitrary: c evs0)
  case Nil
  then show ?case by simp
next
  case (Cons ev evs)
  then obtain c1 where c1: "observer_target parse isResync ev c = Some c1" "observer_exec parse isResync evs c1 = Some c'"
    by (auto split: option.splits)
  show ?case
    using Cons.IH [OF c1(2) observer_run.more [OF Cons.prems(2) observer_target_steps [OF c1(1)]]] by simp
qed

text \<open>
  The invariant: the current socket exists, it is open exactly when \<open>opened\<close> says so unless it has
  already ended, it is not marked as closed early, and only a socket that has opened was subscribed.
\<close>

definition observer_ok :: "'m observer_client \<Rightarrow> bool" where
  "observer_ok c \<longleftrightarrow>
     (\<forall>i. oc_socket c = Some i \<longrightarrow> i < length (oc_sockets c) \<and> \<not> oc_closed_before_open c \<and> \<not> oc_manually_closed c \<and>
        (oc_sockets c ! i = Connecting \<longleftrightarrow> \<not> oc_opened c)) \<and>
     (\<forall>i. Subscribed i \<in> set (oc_out c) \<longrightarrow> i < length (oc_sockets c) \<and> oc_sockets c ! i \<noteq> Connecting) \<and>
     distinct (filter (\<lambda>out. \<exists>i. out = Subscribed i) (oc_out c))"

lemma observer_start_ok: "observer_ok observer_start"
  by (simp add: observer_ok_def observer_start_def)

lemma length_ws_close [simp]: "length (ws_close i ws) = length ws"
  by (simp add: ws_close_def)

lemma nth_ws_close: "i < length ws \<Longrightarrow> ws_close i ws ! j = (if j = i \<and> ws ! i \<noteq> Closed then Closing else ws ! j)"
  by (simp add: ws_close_def nth_list_update)

lemma observer_connect_ok: "observer_ok c \<Longrightarrow> observer_ok (observer_connect c)"
  by (auto simp: observer_ok_def observer_connect_def nth_append)

lemma observer_close_ok: "observer_ok c \<Longrightarrow> observer_ok (observer_close c)"
  by (auto simp: observer_ok_def observer_close_def nth_ws_close Let_def split: option.split)

lemma observer_opens_ok:
  "observer_ok c \<Longrightarrow> i < length (oc_sockets c) \<Longrightarrow> oc_sockets c ! i = Connecting \<Longrightarrow>
     observer_ok (observer_on_open i (c\<lparr>oc_sockets := (oc_sockets c)[i := Open]\<rparr>))"
  by (auto simp: observer_ok_def observer_on_open_def nth_list_update Let_def)

lemma observer_sends_ok: "observer_ok c \<Longrightarrow> observer_ok (observer_on_message parse isResync i raw c)"
  by (auto simp: observer_ok_def observer_on_message_def split: option.split)

lemma observer_ends_ok:
  "observer_ok c \<Longrightarrow> i < length (oc_sockets c) \<Longrightarrow>
     observer_ok (observer_on_close i (c\<lparr>oc_sockets := (oc_sockets c)[i := Closed]\<rparr>))"
  by (auto simp: observer_ok_def observer_on_close_def nth_list_update Let_def)

lemma observer_run_ok: "observer_run parse isResync c evs c' \<Longrightarrow> observer_ok c \<Longrightarrow> observer_ok c'"
proof (induction rule: observer_run.induct)
  case (none c)
  then show ?case by simp
next
  case (more c evs c' ev c'')
  from more.hyps(2) more.IH more.prems show ?case
    by (cases rule: observer_steps.cases)
      (simp_all add: observer_connect_ok observer_close_ok observer_opens_ok observer_sends_ok observer_ends_ok)
qed

text \<open>
  Over any run of the observer client, each socket is subscribed at most once and only after it has
  opened, and the early-close mark is never set while there is a current socket: the branch of the
  open handler that would close the socket is dead.
\<close>

lemma observer_subscribes_once:
  assumes "observer_run parse isResync observer_start evs c"
  shows "distinct (filter (\<lambda>out. \<exists>i. out = Subscribed i) (oc_out c)) \<and>
    (\<forall>i. Subscribed i \<in> set (oc_out c) \<longrightarrow> oc_sockets c ! i \<noteq> Connecting) \<and>
    \<not> (oc_socket c \<noteq> None \<and> oc_closed_before_open c)"
  using observer_run_ok [OF assms observer_start_ok] by (auto simp: observer_ok_def)

text \<open>A socket that is open and not the current one is out of the client's reach.\<close>

definition abandoned :: "nat \<Rightarrow> 'm observer_client \<Rightarrow> bool" where
  "abandoned i c \<longleftrightarrow> i < length (oc_sockets c) \<and> oc_sockets c ! i \<in> {Connecting, Open} \<and> oc_socket c \<noteq> Some i"

lemma abandoned_step:
  "observer_steps parse isResync c ev c' \<Longrightarrow> observer_ok c \<Longrightarrow> abandoned i c \<Longrightarrow> ev \<noteq> Ends i \<Longrightarrow> abandoned i c'"
proof (induction rule: observer_steps.induct)
  case (connect c)
  then show ?case by (auto simp: abandoned_def observer_connect_def nth_append)
next
  case (close c)
  then show ?case
    by (auto simp: abandoned_def observer_close_def observer_ok_def nth_ws_close Let_def split: option.split)
next
  case (opens j c)
  then show ?case
    by (auto simp: abandoned_def observer_on_open_def observer_ok_def nth_ws_close nth_list_update Let_def)
next
  case (sends j c raw)
  then show ?case by (auto simp: abandoned_def observer_on_message_def split: option.split)
next
  case (ends j c)
  then show ?case by (auto simp: abandoned_def observer_on_close_def nth_list_update Let_def)
qed

lemma abandoned_run:
  "observer_run parse isResync c evs c' \<Longrightarrow> observer_ok c \<Longrightarrow> abandoned i c \<Longrightarrow> Ends i \<notin> set evs \<Longrightarrow> abandoned i c'"
proof (induction rule: observer_run.induct)
  case (none c)
  then show ?case by simp
next
  case (more c evs c' ev c'')
  have ne: "ev \<noteq> Ends i" and evs: "Ends i \<notin> set evs" using more.prems(3) by auto
  show ?case
    by (rule abandoned_step [OF more.hyps(2) observer_run_ok [OF more.hyps(1) more.prems(1)]
          more.IH [OF more.prems(1,2) evs] ne])
qed

text \<open>
  Closing the observer client before its socket has opened leaks the connection: the socket is
  forgotten, and however the run goes on (the socket opening, the client connecting and closing
  again), unless the peer ends it the client never closes it.
\<close>

lemma observer_close_before_open_leaks:
  assumes "observer_run parse isResync observer_start evs c" and "oc_socket c = Some i" and "oc_sockets c ! i = Connecting"
    and "observer_run parse isResync (observer_close c) evs' c'" and "Ends i \<notin> set evs'"
  shows "oc_sockets c' ! i \<in> {Connecting, Open} \<and> oc_socket c' \<noteq> Some i"
proof -
  have ok: "observer_ok c" by (rule observer_run_ok [OF assms(1) observer_start_ok])
  then have "abandoned i (observer_close c)"
    using assms(2,3) by (auto simp: abandoned_def observer_close_def observer_ok_def Let_def)
  then show ?thesis
    using abandoned_run [OF assms(4) observer_close_ok [OF ok] _ assms(5)] by (auto simp: abandoned_def)
qed

lemma run_one: "observer_steps parse isResync c ev c' \<Longrightarrow> observer_run parse isResync c [ev] c'"
  using observer_run.more [OF observer_run.none] by fastforce

theorem observer_close_before_open_leaks_witness:
  "oc_sockets (observer_close (observer_connect observer_start) :: unit observer_client) ! 0 \<in> {Connecting, Open}"
proof -
  have r: "observer_run (\<lambda>raw. None) (\<lambda>m. False) observer_start [Connect] (observer_connect observer_start :: unit observer_client)"
    by (rule run_one) (rule observer_steps.connect)
  show ?thesis
    using observer_close_before_open_leaks [OF r, of 0, OF _ _ observer_run.none]
    by (simp add: observer_connect_def observer_start_def)
qed

lemma observer_subscribes_once_witness:
  "\<not> (oc_socket (observer_connect observer_start :: unit observer_client) \<noteq> None \<and>
      oc_closed_before_open (observer_connect observer_start :: unit observer_client))"
proof -
  have r: "observer_run (\<lambda>raw. None) (\<lambda>m. False) observer_start [Connect] (observer_connect observer_start :: unit observer_client)"
    by (rule run_one) (rule observer_steps.connect)
  show ?thesis using observer_subscribes_once [OF r] by blast
qed

text \<open>Closed by hand and not connected again, the client reports no loss of connection.\<close>

definition hushed :: "'m observer_client \<Rightarrow> bool" where
  "hushed c \<longleftrightarrow> oc_manually_closed c \<and> oc_socket c = None"

lemma hushed_step:
  "observer_steps parse isResync c ev c' \<Longrightarrow> hushed c \<Longrightarrow> ev \<noteq> Connect \<Longrightarrow>
     hushed c' \<and> (\<forall>i. Disconnected i \<in> set (oc_out c') \<longrightarrow> Disconnected i \<in> set (oc_out c))"
  by (induction rule: observer_steps.induct)
    (auto simp: hushed_def observer_close_def observer_on_open_def observer_on_message_def observer_on_close_def Let_def
      split: option.split)

lemma hushed_run:
  "observer_run parse isResync c evs c' \<Longrightarrow> hushed c \<Longrightarrow> Connect \<notin> set evs \<Longrightarrow>
     hushed c' \<and> (\<forall>i. Disconnected i \<in> set (oc_out c') \<longrightarrow> Disconnected i \<in> set (oc_out c))"
proof (induction rule: observer_run.induct)
  case (none c)
  then show ?case by simp
next
  case (more c evs c' ev c'')
  have ne: "ev \<noteq> Connect" and evs: "Connect \<notin> set evs" using more.prems(2) by auto
  have h: "hushed c'" "\<forall>i. Disconnected i \<in> set (oc_out c') \<longrightarrow> Disconnected i \<in> set (oc_out c)"
    using more.IH [OF more.prems(1) evs] by blast+
  show ?case using hushed_step [OF more.hyps(2) h(1) ne] h(2) by blast
qed

text \<open>
  A connection that is closed on purpose is not reported as lost, as long as the client is not
  connected again: no \<open>onDisconnected\<close> is called after \<open>close\<close>, whatever the sockets still do.
\<close>

lemma observer_close_is_silent:
  assumes "oc_socket c \<noteq> None" and "observer_run parse isResync (observer_close c) evs c'" and "Connect \<notin> set evs"
    and "Disconnected i \<in> set (oc_out c')"
  shows "Disconnected i \<in> set (oc_out c)"
proof -
  have "hushed (observer_close c)" "oc_out (observer_close c) = oc_out c"
    using assms(1) by (auto simp: hushed_def observer_close_def Let_def)
  then show ?thesis using hushed_run [OF assms(2) _ assms(3)] assms(4) by auto
qed

definition lost_client :: "unit observer_client" where
  "lost_client = \<lparr>oc_socket = Some 1, oc_manually_closed = False, oc_opened = True, oc_closed_before_open = False,
     oc_sockets = [Closed, Open], oc_out = [Subscribed 0, Disconnected 0, Subscribed 1]\<rparr>"

theorem observer_close_is_silent_witness:
  "Disconnected 0 \<in> set (oc_out lost_client)"
proof -
  have "observer_run (\<lambda>raw. None) (\<lambda>m. False) (observer_close lost_client) [Ends 1]
      (observer_on_close 1 ((observer_close lost_client)\<lparr>oc_sockets := (oc_sockets (observer_close lost_client))[1 := Closed]\<rparr>))"
    by (rule run_one, rule observer_steps.ends) (simp_all add: lost_client_def observer_close_def ws_close_def)
  from observer_close_is_silent [OF _ this, of 0] show ?thesis
    by (simp add: lost_client_def observer_close_def observer_on_close_def ws_close_def)
qed

text \<open>
  Closing and connecting again at once brings the report back: the flag that \<open>close\<close> sets is
  shared by all sockets and \<open>connect\<close> clears it, so when the old socket ends afterwards the client
  reports a lost connection although it was closed on purpose and the new socket is alive.
\<close>

lemma observer_reconnect_reports_old_socket:
  "\<exists>c :: unit observer_client. observer_run (\<lambda>raw. None) (\<lambda>m. False) observer_start [Connect, Opens 0, Close, Connect, Opens 1, Ends 0] c \<and>
     oc_out c = [Subscribed 0, Subscribed 1, Disconnected 0] \<and> oc_socket c = Some 1 \<and> oc_sockets c ! 1 = Open"
proof -
  have "\<exists>c. observer_exec (\<lambda>raw. None) (\<lambda>m. False) [Connect, Opens 0, Close, Connect, Opens 1, Ends 0] (observer_start :: unit observer_client) = Some c \<and>
      oc_out c = [Subscribed 0, Subscribed 1, Disconnected 0] \<and> oc_socket c = Some 1 \<and> oc_sockets c ! 1 = Open"
    by (simp add: observer_start_def observer_connect_def observer_on_open_def observer_close_def observer_on_close_def
        ws_close_def)
  then show ?thesis using observer_exec_run [OF _ observer_run.none] by fastforce
qed

end
