(* ===== verification/PlannerStream.thy ===== *)
theory PlannerStream imports RealtimeClient begin

text \<open>
  The server-sent-event clients of \<open>api/realtimeClient.ts\<close> (\<open>createBoardTasksSseClient\<close> and
  \<open>createFlowPlannerSseClient\<close>, the same machine over two parsers), and the reconnection around the
  planner stream, \<open>hooks/useFlowPlannerRealtime.ts\<close>.
\<close>

section \<open>The event source clients\<close>

text \<open>
  \<open>sc_closed\<close> tells of each event source created whether \<open>close()\<close> was called on it; a closed
  source dispatches no event.
\<close>

record 'm sse_client =
  sc_source :: "nat option"
  sc_manually_closed :: bool
  sc_closed :: "bool list"
  sc_out :: "'m client_output list"

definition sse_start :: "'m sse_client" where
  "sse_start = \<lparr>sc_source = None, sc_manually_closed = False, sc_closed = [], sc_out = []\<rparr>"

definition sse_connect :: "'m sse_client \<Rightarrow> 'm sse_client" where
  "sse_connect c =
     (if sc_source c \<noteq> None then c
      else c\<lparr>sc_manually_closed := False, sc_closed := sc_closed c @ [False], sc_source := Some (length (sc_closed c))\<rparr>)"

definition sse_on_message :: "(jsstring \<Rightarrow> 'm option) \<Rightarrow> nat \<Rightarrow> jsstring \<Rightarrow> 'm sse_client \<Rightarrow> 'm sse_client" where
  "sse_on_message parse i raw c =
     (case parse raw of
        None \<Rightarrow> c\<lparr>sc_out := sc_out c @ [ParseFailed i raw]\<rparr>
      | Some m \<Rightarrow> c\<lparr>sc_out := sc_out c @ [Delivered i m]\<rparr>)"

definition sse_on_error :: "'m sse_client \<Rightarrow> 'm sse_client" where
  "sse_on_error c =
     (case sc_source c of
        None \<Rightarrow> c
      | Some previousSource \<Rightarrow>
          let c1 = c\<lparr>sc_source := None, sc_closed := (sc_closed c)[previousSource := True]\<rparr> in
          if sc_manually_closed c1 then c1 else c1\<lparr>sc_out := sc_out c1 @ [Disconnected previousSource]\<rparr>)"

definition sse_close :: "'m sse_client \<Rightarrow> 'm sse_client" where
  "sse_close c =
     (case sc_source c of
        None \<Rightarrow> c
      | Some source \<Rightarrow> c\<lparr>sc_manually_closed := True, sc_closed := (sc_closed c)[source := True], sc_source := None\<rparr>)"

inductive sse_steps :: "(jsstring \<Rightarrow> 'm option) \<Rightarrow> 'm sse_client \<Rightarrow> 'm sse_client \<Rightarrow> bool" for parse where
  connect: "sse_steps parse c (sse_connect c)"
| close: "sse_steps parse c (sse_close c)"
| message: "i < length (sc_closed c) \<Longrightarrow> \<not> sc_closed c ! i \<Longrightarrow> sse_steps parse c (sse_on_message parse i raw c)"
| error: "i < length (sc_closed c) \<Longrightarrow> \<not> sc_closed c ! i \<Longrightarrow> sse_steps parse c (sse_on_error c)"

inductive_cases sse_stepsE: "sse_steps parse c c'"

text \<open>All sources but the current one are closed, and a loss was reported of closed sources only.\<close>

definition sse_ok :: "'m sse_client \<Rightarrow> bool" where
  "sse_ok c \<longleftrightarrow>
     (\<forall>i < length (sc_closed c). sc_closed c ! i \<longleftrightarrow> sc_source c \<noteq> Some i) \<and>
     (\<forall>i. sc_source c = Some i \<longrightarrow> i < length (sc_closed c) \<and> \<not> sc_manually_closed c) \<and>
     (\<forall>i. Disconnected i \<in> set (sc_out c) \<longrightarrow> i < length (sc_closed c) \<and> sc_closed c ! i) \<and>
     distinct (filter (\<lambda>out. \<exists>i. out = Disconnected i) (sc_out c))"

lemma sse_step_ok: "sse_steps parse c c' \<Longrightarrow> sse_ok c \<Longrightarrow> sse_ok c'"
proof (induction rule: sse_steps.induct)
  case (connect c)
  then show ?case by (auto simp: sse_ok_def sse_connect_def nth_append)
next
  case (close c)
  then show ?case by (auto simp: sse_ok_def sse_close_def nth_list_update split: option.split)
next
  case (message i c raw)
  then show ?case by (auto simp: sse_ok_def sse_on_message_def split: option.split)
next
  case (error i c)
  then show ?case by (auto simp: sse_ok_def sse_on_error_def nth_list_update Let_def split: option.split)
qed

lemma sse_ok_start: "sse_ok sse_start"
  by (simp add: sse_ok_def sse_start_def)

lemma sse_reachable_ok: "(sse_steps parse)\<^sup>*\<^sup>* sse_start c \<Longrightarrow> sse_ok c"
  by (induction rule: rtranclp_induct) (blast intro: sse_ok_start sse_step_ok)+

text \<open>
  The event source clients leak nothing and report every loss once: in every reachable state all
  sources ever created are closed except the current one, which is open, and no source's loss is
  reported twice or while it is in use.
\<close>

lemma sse_client_closes_every_source:
  assumes "(sse_steps parse)\<^sup>*\<^sup>* sse_start c"
  shows "(\<forall>i < length (sc_closed c). sc_closed c ! i \<longleftrightarrow> sc_source c \<noteq> Some i) \<and>
    distinct (filter (\<lambda>out. \<exists>i. out = Disconnected i) (sc_out c)) \<and>
    (\<forall>i. Disconnected i \<in> set (sc_out c) \<longrightarrow> sc_source c \<noteq> Some i)"
  using sse_reachable_ok [OF assms] by (auto simp: sse_ok_def)

theorem sse_client_closes_every_source_witness:
  "sc_closed (sse_on_error (sse_connect sse_start) :: unit sse_client) ! 0 \<longleftrightarrow>
   sc_source (sse_on_error (sse_connect sse_start) :: unit sse_client) \<noteq> Some 0"
proof -
  have "sse_steps (\<lambda>raw. None) (sse_connect sse_start) (sse_on_error (sse_connect sse_start) :: unit sse_client)"
    by (rule sse_steps.error [of 0]) (simp_all add: sse_connect_def sse_start_def)
  with r_into_rtranclp [of "sse_steps (\<lambda>raw. None)", OF sse_steps.connect [of _ sse_start]]
  have r: "(sse_steps (\<lambda>raw. None))\<^sup>*\<^sup>* sse_start (sse_on_error (sse_connect sse_start) :: unit sse_client)"
    by (rule rtranclp.rtrancl_into_rtrancl)
  show ?thesis
    using sse_client_closes_every_source [OF r] by (simp add: sse_connect_def sse_start_def sse_on_error_def)
qed

section \<open>Reconnection\<close>

definition getRealtimeReconnectDelayMs :: "nat \<Rightarrow> int" where
  "getRealtimeReconnectDelayMs reconnectAttempts = min 4000 (400 * max 1 (2 ^ reconnectAttempts))"

lemma reconnect_delay_bounds:
  "400 \<le> getRealtimeReconnectDelayMs n \<and> getRealtimeReconnectDelayMs n \<le> 4000"
  by (simp add: getRealtimeReconnectDelayMs_def)

lemma reconnect_delay_mono: "m \<le> n \<Longrightarrow> getRealtimeReconnectDelayMs m \<le> getRealtimeReconnectDelayMs n"
proof -
  assume "m \<le> n"
  then have "(2 :: int) ^ m \<le> 2 ^ n" by (rule power_increasing) simp
  then show ?thesis
    unfolding getRealtimeReconnectDelayMs_def by (intro min.mono mult_left_mono max.mono) auto
qed

text \<open>
  The variables of the effect: \<open>cancelled\<close>, \<open>reconnectAttempts\<close>, the reconnect timer with its delay, the
  client in \<open>clientRef\<close> (clients are numbered as they are created), which clients were closed, and
  whether the probe has answered and the session was found stale.
\<close>

record stream =
  st_cancelled :: bool
  st_attempts :: nat
  st_timer :: "int option"
  st_client :: "nat option"
  st_closed :: "bool list"
  st_probed :: bool
  st_stale :: bool

definition stream_start :: stream where
  "stream_start = \<lparr>st_cancelled = False, st_attempts = 0, st_timer = None, st_client = None, st_closed = [],
     st_probed = False, st_stale = False\<rparr>"

definition close_current :: "stream \<Rightarrow> stream" where
  "close_current st = (case st_client st of None \<Rightarrow> st
     | Some i \<Rightarrow> st\<lparr>st_closed := (st_closed st)[i := True], st_client := None\<rparr>)"

definition scheduleReconnect :: "nat \<Rightarrow> stream \<Rightarrow> stream" where
  "scheduleReconnect attempt st =
     (if st_cancelled st \<or> st_timer st \<noteq> None then st
      else st\<lparr>st_attempts := attempt + 1, st_timer := Some (getRealtimeReconnectDelayMs attempt)\<rparr>)"

definition triggerResyncReconnect :: "nat \<Rightarrow> stream \<Rightarrow> stream" where
  "triggerResyncReconnect client st =
     (if st_cancelled st \<or> st_client st \<noteq> Some client then st
      else scheduleReconnect (st_attempts st) (st\<lparr>st_client := None, st_closed := (st_closed st)[client := True]\<rparr>))"

definition connectRealtime :: "stream \<Rightarrow> stream" where
  "connectRealtime st =
     (if st_cancelled st then st
      else let st1 = close_current st in
        st1\<lparr>st_closed := st_closed st1 @ [False], st_client := Some (length (st_closed st1))\<rparr>)"

text \<open>\<open>onMessage\<close> of client i; the flag is what the handler of the page answered.\<close>

definition stream_on_message :: "nat \<Rightarrow> bool \<Rightarrow> stream \<Rightarrow> stream" where
  "stream_on_message client requiresResync st =
     (if st_cancelled st \<or> st_client st \<noteq> Some client then st
      else if requiresResync then triggerResyncReconnect client st
      else st\<lparr>st_attempts := 0\<rparr>)"

definition stream_on_disconnected :: "nat \<Rightarrow> stream \<Rightarrow> stream" where
  "stream_on_disconnected client st =
     (if st_cancelled st \<or> st_client st \<noteq> Some client \<or> st_timer st \<noteq> None then st
      else scheduleReconnect (st_attempts st) (st\<lparr>st_client := None, st_closed := (st_closed st)[client := True]\<rparr>))"

definition stream_on_timer :: "stream \<Rightarrow> stream" where
  "stream_on_timer st = connectRealtime (st\<lparr>st_timer := None\<rparr>)"

text \<open>\<open>probeFlowPlannerSession(...).then(...).catch(...)\<close>: found, not found, or failed.\<close>

datatype probe_result = Exists bool | ProbeFailed bool

definition stream_on_probe :: "probe_result \<Rightarrow> stream \<Rightarrow> stream" where
  "stream_on_probe result st0 =
     (let st = st0\<lparr>st_probed := True\<rparr> in
      if st_cancelled st then st
      else case result of
        Exists found \<Rightarrow> if \<not> found then st\<lparr>st_stale := True\<rparr> else connectRealtime st
      | ProbeFailed treatAsStale \<Rightarrow> if treatAsStale then st\<lparr>st_stale := True\<rparr> else connectRealtime st)"

text \<open>The cleanup of the effect.\<close>

definition stream_cleanup :: "stream \<Rightarrow> stream" where
  "stream_cleanup st = close_current (st\<lparr>st_cancelled := True, st_timer := None\<rparr>)"

inductive stream_steps :: "stream \<Rightarrow> stream \<Rightarrow> bool" where
  probe: "\<not> st_probed st \<Longrightarrow> stream_steps st (stream_on_probe result st)"
| message: "i < length (st_closed st) \<Longrightarrow> stream_steps st (stream_on_message i r st)"
| disconnected: "i < length (st_closed st) \<Longrightarrow> stream_steps st (stream_on_disconnected i st)"
| timer: "st_timer st \<noteq> None \<Longrightarrow> stream_steps st (stream_on_timer st)"
| cleanup: "stream_steps st (stream_cleanup st)"

inductive_cases stream_stepsE: "stream_steps st st'"

definition stream_ok :: "stream \<Rightarrow> bool" where
  "stream_ok st \<longleftrightarrow>
     (st_cancelled st \<longrightarrow> st_timer st = None \<and> st_client st = None) \<and>
     (\<not> st_probed st \<or> st_stale st \<longrightarrow> st_timer st = None \<and> st_client st = None) \<and>
     (\<not> st_probed st \<longrightarrow> \<not> st_stale st) \<and>
     (st_probed st \<and> \<not> st_cancelled st \<and> \<not> st_stale st \<longrightarrow> (st_client st = None) = (st_timer st \<noteq> None)) \<and>
     (\<forall>d. st_timer st = Some d \<longrightarrow> 400 \<le> d \<and> d \<le> 4000) \<and>
     (\<forall>i. st_client st = Some i \<longrightarrow> i < length (st_closed st)) \<and>
     (\<forall>i < length (st_closed st). st_closed st ! i \<longleftrightarrow> st_client st \<noteq> Some i)"

lemmas stream_defs = stream_on_probe_def stream_on_message_def stream_on_disconnected_def stream_on_timer_def
  stream_cleanup_def connectRealtime_def triggerResyncReconnect_def scheduleReconnect_def close_current_def

lemma stream_step_ok: "stream_steps st st' \<Longrightarrow> stream_ok st \<Longrightarrow> stream_ok st'"
proof (induction rule: stream_steps.induct)
  case (probe st result)
  then show ?case
    by (cases result) (auto simp: stream_ok_def stream_defs nth_append nth_list_update Let_def split: option.split)
next
  case (message i st r)
  then show ?case using reconnect_delay_bounds by (auto simp: stream_ok_def stream_defs nth_list_update)
next
  case (disconnected i st)
  then show ?case using reconnect_delay_bounds by (auto simp: stream_ok_def stream_defs nth_list_update)
next
  case (timer st)
  then show ?case by (auto simp: stream_ok_def stream_defs nth_append nth_list_update Let_def split: option.split)
next
  case (cleanup st)
  then show ?case by (auto simp: stream_ok_def stream_defs nth_list_update split: option.split)
qed

lemma stream_ok_start: "stream_ok stream_start"
  by (simp add: stream_ok_def stream_start_def)

lemma stream_reachable_ok: "stream_steps\<^sup>*\<^sup>* stream_start st \<Longrightarrow> stream_ok st"
  by (induction rule: rtranclp_induct) (blast intro: stream_ok_start stream_step_ok)+

text \<open>
  The planner stream never dies quietly: once the probe has found the session, then in every state
  until the page leaves exactly one of two things holds, a client is connected or a reconnection is
  scheduled (in 0.4 to 4 seconds); after the page has left neither does, and at any time all clients
  but the current one are closed.
\<close>

lemma stream_connected_or_reconnecting:
  assumes "stream_steps\<^sup>*\<^sup>* stream_start st"
  shows "(st_probed st \<and> \<not> st_stale st \<and> \<not> st_cancelled st \<longrightarrow> (st_client st = None) = (st_timer st \<noteq> None)) \<and>
    (\<forall>d. st_timer st = Some d \<longrightarrow> 400 \<le> d \<and> d \<le> 4000) \<and>
    (st_cancelled st \<longrightarrow> st_client st = None \<and> st_timer st = None) \<and>
    (\<forall>i < length (st_closed st). st_closed st ! i \<longleftrightarrow> st_client st \<noteq> Some i)"
  using stream_reachable_ok [OF assms] by (simp add: stream_ok_def)

definition lost_stream :: stream where
  "lost_stream = stream_on_disconnected 0 (stream_on_probe (Exists True) stream_start)"

theorem stream_connected_or_reconnecting_witness:
  "st_probed lost_stream \<and> \<not> st_stale lost_stream \<and> \<not> st_cancelled lost_stream \<and>
   st_client lost_stream = None \<and> st_timer lost_stream = Some 400"
proof -
  have "stream_steps stream_start (stream_on_probe (Exists True) stream_start)"
    by (rule stream_steps.probe) (simp add: stream_start_def)
  moreover have "stream_steps (stream_on_probe (Exists True) stream_start) lost_stream"
    unfolding lost_stream_def by (rule stream_steps.disconnected) (simp add: stream_start_def stream_defs)
  ultimately have "stream_steps\<^sup>*\<^sup>* stream_start lost_stream"
    by (meson r_into_rtranclp rtranclp.rtrancl_into_rtrancl)
  from stream_connected_or_reconnecting [OF this] show ?thesis
    by (simp add: lost_stream_def stream_start_def stream_defs getRealtimeReconnectDelayMs_def)
qed

end
