(* ===== verification/DraftStore.thy ===== *)
theory DraftStore imports TaskFlowContract PlannerMessages begin

text \<open>
  \<open>components/flowDraftStore.ts\<close>: the drafts the page keeps in memory. The variable
  \<open>flowDraftStoreMemory\<close> is the state; every read normalises what it finds there. \<open>parse_date\<close> is
  \<open>Date.parse\<close>, None for NaN. The store holds values of its declared type, so the guards of
  \<open>normalizeDraft\<close> against other types are not taken.
\<close>

section \<open>Normalising\<close>

definition EPOCH_TIMESTAMP :: jsstring where
  "EPOCH_TIMESTAMP = js ''1970-01-01T00:00:00.000Z''"

definition normalizePlannerSessionStatus :: "jsstring \<Rightarrow> ui_status" where
  "normalizePlannerSessionStatus raw =
     (let value = trim raw in
      if value = js ''planning'' then Session Planning
      else if value = js ''completed'' then Session PlanCompleted
      else if value = js ''stopped'' then Session PlanStopped
      else if value = js ''failed'' then Session PlanFailed
      else Idle)"

definition normalizeTimestamp :: "(jsstring \<Rightarrow> rat option) \<Rightarrow> jsstring \<Rightarrow> jsstring \<Rightarrow> jsstring" where
  "normalizeTimestamp parse_date raw fallback =
     (let value = trim raw in
      if value = [] then fallback
      else if parse_date value = None then fallback else value)"

fun normalizeRevision :: "jsnum \<Rightarrow> jsnum" where
  "normalizeRevision (Fin q) = (if q < 0 then jint 0 else jint \<lfloor>q\<rfloor>)"
| "normalizeRevision _ = jint 0"

text \<open>One message: dropped (None) without a time stamp.\<close>

definition normalize_draft_message :: "chat_message \<Rightarrow> chat_message option" where
  "normalize_draft_message message =
     (let createdAt = trim (m_created_at message) in
      if createdAt = [] then None
      else Some \<lparr>m_role = m_role message, m_content = m_content message,
        m_kind = trim_or_null (m_kind message), m_payload = normalizeMessagePayload (m_payload message),
        m_created_at = createdAt\<rparr>)"

definition normalize_draft_lane :: "(jsstring \<Rightarrow> rat option) \<Rightarrow> jsstring \<Rightarrow> lane_item \<Rightarrow> lane_item option" where
  "normalize_draft_lane parse_date createdAt lane =
     (let laneId = trim (li_id lane) in
      if laneId = [] then None
      else Some \<lparr>li_id = laneId, li_name = str_or (trim (li_name lane)) laneId,
        li_instance_id = trim_or_null (li_instance_id lane), li_agent_id = trim_or_null (li_agent_id lane),
        li_created_at = normalizeTimestamp parse_date (li_created_at lane) createdAt\<rparr>)"

text \<open>\<open>Object.fromEntries(Object.entries(...).map(...).filter(...))\<close>\<close>

definition normalize_lane_map :: "(jsstring \<times> jsstring) list \<Rightarrow> (jsstring \<times> jsstring) list" where
  "normalize_lane_map m =
     fold (\<lambda>(nodeId, laneId). AList.update nodeId laneId)
       (filter (\<lambda>(nodeId, laneId). nodeId \<noteq> [] \<and> laneId \<noteq> []) (map (\<lambda>(nodeId, laneId). (trim nodeId, trim laneId)) m)) []"

definition normalize_draft_runtime :: "planner_runtime \<Rightarrow> planner_runtime" where
  "normalize_draft_runtime rt =
     rt\<lparr>pr_session_status := normalizePlannerSessionStatus (ui_status_str (pr_session_status rt))\<rparr>"

definition normalizeDraft :: "(jsstring \<Rightarrow> rat option) \<Rightarrow> draft_record \<Rightarrow> draft_record option" where
  "normalizeDraft parse_date item =
     (let ident = trim (fd_id item) in
      if ident = [] then None
      else
        let createdAt = normalizeTimestamp parse_date (fd_created_at item) EPOCH_TIMESTAMP;
            updatedAt = normalizeTimestamp parse_date (fd_updated_at item) createdAt
        in Some \<lparr>fd_id = ident, fd_name = str_or (trim (fd_name item)) unnamed_flow, fd_requirement = fd_requirement item,
             fd_nodes = fd_nodes item, fd_edges = fd_edges item,
             fd_planner_messages = Some (List.map_filter normalize_draft_message (nullish (fd_planner_messages item) [])),
             fd_lanes = List.map_filter (normalize_draft_lane parse_date createdAt) (fd_lanes item),
             fd_node_lane_by_id = normalize_lane_map (fd_node_lane_by_id item),
             fd_planner_session_key = Option.bind (fd_planner_session_key item) non_empty,
             fd_execution_session_prefix = Option.bind (fd_execution_session_prefix item) non_empty,
             fd_executor_agent_id = Option.bind (fd_executor_agent_id item) non_empty,
             fd_planner_runtime = map_option normalize_draft_runtime (fd_planner_runtime item),
             fd_revision = normalizeRevision (fd_revision item),
             fd_created_at = createdAt, fd_updated_at = updatedAt\<rparr>)"

section \<open>The store\<close>

text \<open>\<open>Date.parse(b.updated_at) - Date.parse(a.updated_at)\<close>; a difference that is NaN counts as 0.\<close>

definition newer_first :: "(jsstring \<Rightarrow> rat option) \<Rightarrow> draft_record \<Rightarrow> draft_record \<Rightarrow> bool" where
  "newer_first parse_date a b =
     (case (parse_date (fd_updated_at b), parse_date (fd_updated_at a)) of
        (Some tb, Some ta) \<Rightarrow> tb \<le> ta | _ \<Rightarrow> True)"

definition listFlowDrafts :: "(jsstring \<Rightarrow> rat option) \<Rightarrow> draft_record list \<Rightarrow> draft_record list" where
  "listFlowDrafts parse_date memory = sort_by (newer_first parse_date) (List.map_filter (normalizeDraft parse_date) memory)"

definition getFlowDraftById :: "(jsstring \<Rightarrow> rat option) \<Rightarrow> jsstring \<Rightarrow> draft_record list \<Rightarrow> draft_record option" where
  "getFlowDraftById parse_date flowId memory =
     (let normalized = trim flowId in
      if normalized = [] then None
      else find (\<lambda>item. fd_id item = normalized) (listFlowDrafts parse_date memory))"

definition upsertFlowDraft :: "(jsstring \<Rightarrow> rat option) \<Rightarrow> draft_record \<Rightarrow> draft_record list \<Rightarrow> draft_record list" where
  "upsertFlowDraft parse_date draft memory =
     filter (\<lambda>item. fd_id item \<noteq> fd_id draft) (listFlowDrafts parse_date memory) @ [draft]"

definition deleteFlowDraft :: "(jsstring \<Rightarrow> rat option) \<Rightarrow> jsstring \<Rightarrow> draft_record list \<Rightarrow> draft_record list" where
  "deleteFlowDraft parse_date flowId memory =
     (let normalized = trim flowId in
      if normalized = [] then memory
      else filter (\<lambda>item. fd_id item \<noteq> normalized) (listFlowDrafts parse_date memory))"

definition clearFlowDrafts :: "draft_record list" where
  "clearFlowDrafts = []"

text \<open>The name of a flow that has none: its first words.\<close>

definition buildDraftFlowName :: "jsstring \<Rightarrow> jsstring" where
  "buildDraftFlowName requirement =
     (let text = trim requirement in
      if text = [] then unnamed_flow
      else if length text \<le> 8 then text
      else take 8 text @ js ''...'')"

section \<open>What the store promises of its drafts\<close>

text \<open>The documented value of \<open>Date.parse\<close> at the epoch is a number.\<close>

definition epoch_parses :: "(jsstring \<Rightarrow> rat option) \<Rightarrow> bool" where
  "epoch_parses parse_date \<longleftrightarrow> parse_date EPOCH_TIMESTAMP \<noteq> None"

definition time_ok :: "(jsstring \<Rightarrow> rat option) \<Rightarrow> jsstring \<Rightarrow> bool" where
  "time_ok parse_date t \<longleftrightarrow> trimmed t \<and> t \<noteq> [] \<and> parse_date t \<noteq> None"

definition name_ok :: "jsstring \<Rightarrow> bool" where
  "name_ok s \<longleftrightarrow> trimmed s \<and> s \<noteq> []"

definition nullable_ok :: "jsstring option \<Rightarrow> bool" where
  "nullable_ok v \<longleftrightarrow> (\<forall>s. v = Some s \<longrightarrow> name_ok s)"

definition message_ok :: "chat_message \<Rightarrow> bool" where
  "message_ok m \<longleftrightarrow> name_ok (m_created_at m) \<and> nullable_ok (m_kind m) \<and>
     normalizeMessagePayload (m_payload m) = m_payload m"

definition lane_ok :: "(jsstring \<Rightarrow> rat option) \<Rightarrow> lane_item \<Rightarrow> bool" where
  "lane_ok parse_date l \<longleftrightarrow> name_ok (li_id l) \<and> name_ok (li_name l) \<and> nullable_ok (li_instance_id l) \<and>
     nullable_ok (li_agent_id l) \<and> time_ok parse_date (li_created_at l)"

definition lane_map_ok :: "(jsstring \<times> jsstring) list \<Rightarrow> bool" where
  "lane_map_ok m \<longleftrightarrow> distinct (map fst m) \<and> (\<forall>(nodeId, laneId) \<in> set m. name_ok nodeId \<and> name_ok laneId)"

definition draft_ok :: "(jsstring \<Rightarrow> rat option) \<Rightarrow> draft_record \<Rightarrow> bool" where
  "draft_ok parse_date d \<longleftrightarrow>
     name_ok (fd_id d) \<and> name_ok (fd_name d) \<and>
     (\<exists>ms. fd_planner_messages d = Some ms \<and> list_all message_ok ms) \<and>
     list_all (lane_ok parse_date) (fd_lanes d) \<and> lane_map_ok (fd_node_lane_by_id d) \<and>
     fd_planner_session_key d \<noteq> Some [] \<and> fd_execution_session_prefix d \<noteq> Some [] \<and> fd_executor_agent_id d \<noteq> Some [] \<and>
     (\<exists>n \<ge> 0. fd_revision d = jint n) \<and>
     time_ok parse_date (fd_created_at d) \<and> time_ok parse_date (fd_updated_at d)"

named_theorems ok_defs "the well-formedness of what the store holds"

lemmas [ok_defs] = time_ok_def name_ok_def nullable_ok_def message_ok_def lane_ok_def

lemma trim_unnamed_flow [simp]: "trim unnamed_flow = unnamed_flow"
  by (simp add: unnamed_flow_def trim_def js_white_def)

lemma unnamed_flow_nonempty [simp]: "unnamed_flow \<noteq> []"
  by (simp add: unnamed_flow_def)

lemma trimmed_EPOCH [simp]: "trim EPOCH_TIMESTAMP = EPOCH_TIMESTAMP" "EPOCH_TIMESTAMP \<noteq> []"
  by (simp_all add: EPOCH_TIMESTAMP_def char_white_def)

lemma normalizeTimestamp_ok: "time_ok p fallback \<Longrightarrow> time_ok p (normalizeTimestamp p raw fallback)"
  by (simp add: normalizeTimestamp_def time_ok_def Let_def)

lemma normalizeTimestamp_id: "time_ok p t \<Longrightarrow> normalizeTimestamp p t fallback = t"
  by (auto simp: normalizeTimestamp_def time_ok_def trimmed_def Let_def)

lemma epoch_time_ok: "epoch_parses p \<Longrightarrow> time_ok p EPOCH_TIMESTAMP"
  by (simp add: epoch_parses_def time_ok_def trimmed_def)

lemma trim_or_null_ok: "nullable_ok (trim_or_null v)"
  by (simp add: trim_or_null_def non_empty_def trim_opt_def ok_defs)

lemma trim_or_null_id: "nullable_ok v \<Longrightarrow> trim_or_null v = v"
  by (cases v) (simp_all add: trim_or_null_def non_empty_def trim_opt_def ok_defs trimmed_def)

lemma str_or_name_ok: "name_ok b \<Longrightarrow> name_ok (str_or (trim a) b)"
  by (simp add: str_or_def name_ok_def)

lemma str_or_name_id: "name_ok a \<Longrightarrow> str_or (trim a) b = a"
  by (simp add: str_or_def name_ok_def trimmed_def)

lemma normalizeRevision_ok: "\<exists>n \<ge> 0. normalizeRevision r = jint n"
  by (cases r rule: normalizeRevision.cases) (auto intro: exI [of _ 0])

lemma normalizeRevision_id: "0 \<le> n \<Longrightarrow> normalizeRevision (jint n) = jint n"
  by (simp add: jint_def)

lemma bind_non_empty: "Option.bind v non_empty \<noteq> Some []" "v \<noteq> Some [] \<Longrightarrow> Option.bind v non_empty = v"
  by (cases v; simp add: non_empty_def)+

lemma map_filter_all: "(\<And>x y. f x = Some y \<Longrightarrow> P y) \<Longrightarrow> list_all P (List.map_filter f xs)"
  by (induction xs) (auto simp: map_filter_simps split: option.split)

lemma map_filter_id: "(\<And>x. x \<in> set xs \<Longrightarrow> f x = Some x) \<Longrightarrow> List.map_filter f xs = xs"
  by (induction xs) (auto simp: map_filter_simps)

lemma normalize_runtime_id [simp]: "normalize_draft_runtime rt = rt"
proof -
  have "normalizePlannerSessionStatus (ui_status_str s) = s" for s
    by (cases s rule: ui_status_str.cases) (simp_all add: normalizePlannerSessionStatus_def char_white_def)
  then show ?thesis by (simp add: normalize_draft_runtime_def)
qed

lemma normalize_message_ok: "normalize_draft_message m = Some m' \<Longrightarrow> message_ok m'"
  using trim_or_null_ok [of "m_kind m"]
  by (auto simp: normalize_draft_message_def message_ok_def name_ok_def Let_def split: if_splits)

lemma normalize_message_id: "message_ok m \<Longrightarrow> normalize_draft_message m = Some m"
  by (simp add: normalize_draft_message_def message_ok_def name_ok_def trimmed_def trim_or_null_id)

lemma normalize_lane_ok: "time_ok p createdAt \<Longrightarrow> normalize_draft_lane p createdAt l = Some l' \<Longrightarrow> lane_ok p l'"
  by (auto simp: normalize_draft_lane_def lane_ok_def Let_def name_ok_def trim_or_null_ok normalizeTimestamp_ok str_or_def
      split: if_splits)

lemma normalize_lane_id: "lane_ok p l \<Longrightarrow> normalize_draft_lane p createdAt l = Some l"
  by (simp add: normalize_draft_lane_def lane_ok_def normalizeTimestamp_id trim_or_null_id str_or_name_id Let_def)
    (simp add: name_ok_def trimmed_def)

lemma update_new: "k \<notin> fst ` set m \<Longrightarrow> AList.update k v m = m @ [(k, v)]"
  by (induction m) auto

lemma update_all: "R (k, v) \<Longrightarrow> \<forall>e \<in> set m. R e \<Longrightarrow> \<forall>e \<in> set (AList.update k v m). R e"
  by (induction m) auto

lemma fold_update_fresh:
  "distinct (map fst m) \<Longrightarrow> fst ` set m \<inter> fst ` set acc = {} \<Longrightarrow> fold (\<lambda>(k, v). AList.update k v) m acc = acc @ m"
proof (induction m arbitrary: acc)
  case Nil
  then show ?case by simp
next
  case (Cons e m)
  obtain k v where e: "e = (k, v)" by (cases e)
  have "AList.update k v acc = acc @ [(k, v)]"
    using Cons.prems(2) unfolding e by (intro update_new) auto
  then show ?case using Cons.IH [of "acc @ [(k, v)]"] Cons.prems by (auto simp: e)
qed

lemma fold_update_ok:
  "\<forall>e \<in> set m. R e \<Longrightarrow> distinct (map fst acc) \<Longrightarrow> \<forall>e \<in> set acc. R e \<Longrightarrow>
   distinct (map fst (fold (\<lambda>(k, v). AList.update k v) m acc)) \<and>
   (\<forall>e \<in> set (fold (\<lambda>(k, v). AList.update k v) m acc). R e)"
proof (induction m arbitrary: acc)
  case Nil
  then show ?case by simp
next
  case (Cons e m)
  have "\<forall>e' \<in> set (AList.update (fst e) (snd e) acc). R e'"
    by (rule update_all) (use Cons.prems(1,3) in simp_all)
  moreover have "distinct (map fst (AList.update (fst e) (snd e) acc))"
    using Cons.prems(2) by (rule distinct_update)
  moreover have "\<forall>e \<in> set m. R e" using Cons.prems(1) by simp
  ultimately show ?case
    using Cons.IH [of "AList.update (fst e) (snd e) acc"] by (simp add: case_prod_unfold)
qed

lemma normalize_lane_map_ok: "lane_map_ok (normalize_lane_map m)"
  unfolding lane_map_ok_def normalize_lane_map_def
  by (rule fold_update_ok) (auto simp: name_ok_def)

lemma normalize_lane_map_id: "lane_map_ok m \<Longrightarrow> normalize_lane_map m = m"
proof -
  assume ok: "lane_map_ok m"
  then have "map (\<lambda>(nodeId, laneId). (trim nodeId, trim laneId)) m = m"
    by (intro map_idI) (auto simp: lane_map_ok_def name_ok_def trimmed_def)
  moreover from ok have "filter (\<lambda>(nodeId, laneId). nodeId \<noteq> [] \<and> laneId \<noteq> []) m = m"
    by (intro filter_True) (auto simp: lane_map_ok_def name_ok_def)
  ultimately show ?thesis
    using ok by (simp add: normalize_lane_map_def lane_map_ok_def fold_update_fresh)
qed

lemma normalizeDraft_ok:
  assumes "epoch_parses p" and "normalizeDraft p d = Some d'"
  shows "draft_ok p d'"
proof -
  define c where "c = normalizeTimestamp p (fd_created_at d) EPOCH_TIMESTAMP"
  have c: "time_ok p c" unfolding c_def by (rule normalizeTimestamp_ok [OF epoch_time_ok [OF assms(1)]])
  have "trim (fd_id d) \<noteq> []" and d': "d' = the (normalizeDraft p d)"
    using assms(2) by (auto simp: normalizeDraft_def Let_def split: if_splits)
  then show ?thesis
    unfolding d' draft_ok_def normalizeDraft_def Let_def c_def [symmetric]
    using c normalizeRevision_ok [of "fd_revision d"]
    by (simp add: normalizeTimestamp_ok normalize_lane_map_ok bind_non_empty str_or_name_ok
        map_filter_all [of normalize_draft_message message_ok] normalize_message_ok
        map_filter_all [of "normalize_draft_lane p c" "lane_ok p"] normalize_lane_ok
        name_ok_def [of "trim (fd_id d)"] name_ok_def [of unnamed_flow] trimmed_def)
qed

lemma normalizeDraft_id:
  assumes "draft_ok p d"
  shows "normalizeDraft p d = Some d"
proof -
  obtain ms n where ms: "fd_planner_messages d = Some ms" "list_all message_ok ms"
    and n: "0 \<le> n" "fd_revision d = jint n"
    using assms by (auto simp: draft_ok_def)
  have "List.map_filter normalize_draft_message ms = ms"
    using ms(2) by (intro map_filter_id normalize_message_id) (auto simp: list_all_iff)
  moreover have "List.map_filter (normalize_draft_lane p createdAt) (fd_lanes d) = fd_lanes d" for createdAt
    using assms by (intro map_filter_id normalize_lane_id) (auto simp: draft_ok_def list_all_iff)
  moreover have "trim (fd_id d) = fd_id d" "fd_id d \<noteq> []"
    using assms by (simp_all add: draft_ok_def name_ok_def trimmed_def)
  moreover have "map_option normalize_draft_runtime v = v" for v by (cases v) simp_all
  ultimately show ?thesis
    using assms ms(1) n
    by (cases d) (simp add: normalizeDraft_def draft_ok_def normalizeTimestamp_id normalize_lane_map_id bind_non_empty
        str_or_name_id normalizeRevision_id)
qed

section \<open>The store is a finite map, listed newest first\<close>

text \<open>On drafts whose time parses, the comparator is a total preorder.\<close>

definition date_key :: "(jsstring \<Rightarrow> rat option) \<Rightarrow> draft_record \<Rightarrow> rat" where
  "date_key p d = nullish (p (fd_updated_at d)) 0"

definition newer_key :: "(jsstring \<Rightarrow> rat option) \<Rightarrow> draft_record \<Rightarrow> draft_record \<Rightarrow> bool" where
  "newer_key p a b \<longleftrightarrow> date_key p b \<le> date_key p a"

lemma newer_key_order: "transp (newer_key p)" "totalp (newer_key p)" "reflp (newer_key p)"
  by (auto simp: newer_key_def intro!: transpI totalpI reflpI)

lemma newer_first_key: "draft_ok p a \<Longrightarrow> draft_ok p b \<Longrightarrow> newer_first p a b = newer_key p a b"
  by (auto simp: newer_first_def newer_key_def date_key_def draft_ok_def time_ok_def)

lemma insert_by_cong: "(\<And>y. y \<in> set ys \<Longrightarrow> le x y = le' x y) \<Longrightarrow> insert_by le x ys = insert_by le' x ys"
  by (induction ys) auto

lemma sort_by_cong:
  "(\<And>x y. x \<in> set xs \<Longrightarrow> y \<in> set xs \<Longrightarrow> le x y = le' x y) \<Longrightarrow> sort_by le xs = sort_by le' xs"
proof (induction xs)
  case Nil
  then show ?case by (simp add: sort_by_def)
next
  case (Cons x xs)
  have IH: "sort_by le xs = sort_by le' xs" by (rule Cons.IH) (simp add: Cons.prems)
  have step: "sort_by l (x # xs) = insert_by l x (sort_by l xs)" for l :: "'a \<Rightarrow> 'a \<Rightarrow> bool"
    by (simp add: sort_by_def)
  show ?case unfolding step IH by (rule insert_by_cong) (simp add: Cons.prems)
qed

lemma listed_ok: "epoch_parses p \<Longrightarrow> list_all (draft_ok p) (listFlowDrafts p memory)"
  unfolding listFlowDrafts_def
  using map_filter_all [of "normalizeDraft p" "draft_ok p" memory] normalizeDraft_ok [of p]
  by (simp add: list_all_iff)

lemma list_by_key:
  assumes "epoch_parses p"
  shows "listFlowDrafts p memory = sort_by (newer_key p) (List.map_filter (normalizeDraft p) memory)"
proof -
  have "list_all (draft_ok p) (List.map_filter (normalizeDraft p) memory)"
    using map_filter_all [of "normalizeDraft p" "draft_ok p" memory] normalizeDraft_ok [OF assms] by blast
  then show ?thesis
    unfolding listFlowDrafts_def by (intro sort_by_cong newer_first_key) (auto simp: list_all_iff)
qed

lemma listed_sorted: "epoch_parses p \<Longrightarrow> sorted_wrt (newer_key p) (listFlowDrafts p memory)"
  by (simp add: list_by_key sorted_sort_by newer_key_order)

lemma map_filter_append: "List.map_filter f (xs @ ys) = List.map_filter f xs @ List.map_filter f ys"
  by (induction xs) (auto simp: map_filter_simps split: option.split)

lemma relist:
  assumes "epoch_parses p" and "\<And>x. x \<in> set xs \<Longrightarrow> x \<in> set (listFlowDrafts p memory)"
  shows "List.map_filter (normalizeDraft p) xs = xs"
  by (rule map_filter_id, rule normalizeDraft_id)
    (use listed_ok [OF assms(1), of memory] assms(2) in \<open>auto simp: list_all_iff\<close>)

lemma list_upsert:
  assumes "epoch_parses p"
  shows "listFlowDrafts p (upsertFlowDraft p r memory) =
    sort_by (newer_key p) (filter (\<lambda>item. fd_id item \<noteq> fd_id r) (listFlowDrafts p memory) @ List.map_filter (normalizeDraft p) [r])"
proof -
  have "List.map_filter (normalizeDraft p) (upsertFlowDraft p r memory)
      = filter (\<lambda>item. fd_id item \<noteq> fd_id r) (listFlowDrafts p memory) @ List.map_filter (normalizeDraft p) [r]"
    unfolding upsertFlowDraft_def map_filter_append by (subst relist [OF assms]) auto
  then show ?thesis by (simp add: list_by_key [OF assms, of "upsertFlowDraft p r memory"])
qed

lemma list_delete:
  assumes "epoch_parses p"
  shows "listFlowDrafts p (deleteFlowDraft p k memory) = filter (\<lambda>item. fd_id item \<noteq> trim k) (listFlowDrafts p memory)"
proof (cases "trim k = []")
  case True
  then have "filter (\<lambda>item. fd_id item \<noteq> trim k) (listFlowDrafts p memory) = listFlowDrafts p memory"
    using listed_ok [OF assms, of memory] by (intro filter_True) (auto simp: list_all_iff draft_ok_def name_ok_def)
  then show ?thesis using True by (simp add: deleteFlowDraft_def)
next
  case False
  have "List.map_filter (normalizeDraft p) (filter (\<lambda>item. fd_id item \<noteq> trim k) (listFlowDrafts p memory))
      = filter (\<lambda>item. fd_id item \<noteq> trim k) (listFlowDrafts p memory)"
    by (rule relist [OF assms]) auto
  with False have "listFlowDrafts p (deleteFlowDraft p k memory) =
      sort_by (newer_key p) (filter (\<lambda>item. fd_id item \<noteq> trim k) (listFlowDrafts p memory))"
    unfolding list_by_key [OF assms, of "deleteFlowDraft p k memory"] by (simp add: deleteFlowDraft_def)
  also have "\<dots> = filter (\<lambda>item. fd_id item \<noteq> trim k) (listFlowDrafts p memory)"
    by (intro sort_by_sorted sorted_wrt_filter listed_sorted assms)
  finally show ?thesis .
qed

text \<open>Looking up is looking among the drafts of that id.\<close>

lemma get_filter:
  "trim k \<noteq> [] \<Longrightarrow> getFlowDraftById p k memory =
     (case filter (\<lambda>item. fd_id item = trim k) (listFlowDrafts p memory) of [] \<Rightarrow> None | x # _ \<Rightarrow> Some x)"
  by (simp add: getFlowDraftById_def find_filter)

lemma get_upsert:
  assumes "epoch_parses p" and "trimmed (fd_id r)"
  shows "getFlowDraftById p k (upsertFlowDraft p r memory) =
    (if trim k = fd_id r then normalizeDraft p r else getFlowDraftById p k memory)"
proof (cases "trim k = []")
  case True
  then show ?thesis using assms(2) by (simp add: getFlowDraftById_def normalizeDraft_def trimmed_def)
next
  case False
  let ?is = "\<lambda>item. fd_id item = trim k"
  let ?old = "filter ?is (filter (\<lambda>item. fd_id item \<noteq> fd_id r) (listFlowDrafts p memory))"
  let ?new = "filter ?is (List.map_filter (normalizeDraft p) [r])"
  have "filter ?is (listFlowDrafts p (upsertFlowDraft p r memory)) = sort_by (newer_key p) (?old @ ?new)"
    unfolding list_upsert [OF assms(1)] by (simp only: filter_sort_by [OF newer_key_order] filter_append)
  moreover have "?old = (if trim k = fd_id r then [] else filter ?is (listFlowDrafts p memory))"
    by (auto intro: filter_cong)
  ultimately have found: "filter ?is (listFlowDrafts p (upsertFlowDraft p r memory)) =
      sort_by (newer_key p) ((if trim k = fd_id r then [] else filter ?is (listFlowDrafts p memory)) @ ?new)"
    by simp
  show ?thesis
  proof (cases "trim k = fd_id r")
    case True
    then obtain r' where r': "normalizeDraft p r = Some r'" "fd_id r' = trim k"
      using False assms(2) by (auto simp: normalizeDraft_def trimmed_def Let_def)
    then show ?thesis using found True by (simp add: get_filter [OF False] map_filter_simps sort_by_def)
  next
    case other: False
    have "?new = []"
      using other assms(2) by (auto simp: map_filter_simps normalizeDraft_def trimmed_def Let_def split: option.split)
    moreover have "sort_by (newer_key p) (filter ?is (listFlowDrafts p memory)) = filter ?is (listFlowDrafts p memory)"
      by (intro sort_by_sorted sorted_wrt_filter listed_sorted assms(1))
    ultimately show ?thesis using found other by (simp add: get_filter [OF False])
  qed
qed

lemma get_delete:
  assumes "epoch_parses p"
  shows "getFlowDraftById p k (deleteFlowDraft p j memory) =
    (if trim k = trim j then None else getFlowDraftById p k memory)"
proof (cases "trim k = []")
  case True
  then show ?thesis by (simp add: getFlowDraftById_def)
next
  case False
  have sift: "filter (\<lambda>item. fd_id item = trim k) (filter (\<lambda>item. fd_id item \<noteq> trim j) xs)
      = (if trim k = trim j then [] else filter (\<lambda>item. fd_id item = trim k) xs)" for xs
    by (induction xs) auto
  show ?thesis unfolding get_filter [OF False] list_delete [OF assms] sift by simp
qed

lemma get_normalized:
  "epoch_parses p \<Longrightarrow> getFlowDraftById p k memory = Some d \<Longrightarrow> draft_ok p d \<and> fd_id d = trim k"
  using listed_ok [of p memory]
  by (auto simp: getFlowDraftById_def Let_def find_Some_iff list_all_iff split: if_splits)

text \<open>
  C40: The store hands out well-formed drafts only, whatever was put into it: ids and names are trimmed and
  not empty, both time stamps parse, the revision is a natural number, lanes and lane assignments
  have no blank ids, messages have a time; it lists them newest first, and reading a draft back in
  changes nothing.
\<close>

theorem listed_drafts_well_formed:
  assumes "epoch_parses p"
  shows "list_all (draft_ok p) (listFlowDrafts p memory) \<and>
    sorted_wrt (newer_first p) (listFlowDrafts p memory) \<and>
    List.map_filter (normalizeDraft p) (listFlowDrafts p memory) = listFlowDrafts p memory"
proof (intro conjI)
  show ok: "list_all (draft_ok p) (listFlowDrafts p memory)" by (rule listed_ok [OF assms])
  show "sorted_wrt (newer_first p) (listFlowDrafts p memory)"
    using listed_sorted [OF assms, of memory]
    by (rule sorted_wrt_mono_rel [rotated]) (use ok in \<open>auto simp: list_all_iff newer_first_key\<close>)
  show "List.map_filter (normalizeDraft p) (listFlowDrafts p memory) = listFlowDrafts p memory"
    by (rule relist [OF assms])
qed

definition sample_stored :: "string \<Rightarrow> string \<Rightarrow> jsnum \<Rightarrow> draft_record" where
  "sample_stored ident requirement revision =
     \<lparr>fd_id = js ident, fd_name = js ''Flow'', fd_requirement = js requirement, fd_nodes = [], fd_edges = [],
      fd_planner_messages = None, fd_lanes = [], fd_node_lane_by_id = [], fd_planner_session_key = None,
      fd_execution_session_prefix = None, fd_executor_agent_id = None, fd_planner_runtime = None,
      fd_revision = revision, fd_created_at = [], fd_updated_at = []\<rparr>"

definition sample_date :: "jsstring \<Rightarrow> rat option" where
  "sample_date t = (if t = EPOCH_TIMESTAMP then Some 0 else None)"

lemma sample_date_ok: "epoch_parses sample_date"
  by (simp add: epoch_parses_def sample_date_def)

lemma normalize_sample:
  "normalizeDraft sample_date (sample_stored ident requirement (Fin q)) =
     (if trim (js ident) = [] then None
      else Some ((sample_stored [] requirement (normalizeRevision (Fin q)))\<lparr>fd_id := trim (js ident), fd_planner_messages := Some [],
        fd_created_at := EPOCH_TIMESTAMP, fd_updated_at := EPOCH_TIMESTAMP\<rparr>))"
  by (simp add: normalizeDraft_def sample_stored_def normalizeTimestamp_def normalize_lane_map_def Let_def
      map_filter_simps str_or_def char_white_def)

theorem listed_drafts_well_formed_witness:
  "listFlowDrafts sample_date [sample_stored '' a '' ''x'' (Fin (- 3))] \<noteq> [] \<and>
   list_all (draft_ok sample_date) (listFlowDrafts sample_date [sample_stored '' a '' ''x'' (Fin (- 3))])"
proof -
  have "trim (js '' a '') \<noteq> []" by (simp add: js_def trim_def js_white_def)
  then have "listFlowDrafts sample_date [sample_stored '' a '' ''x'' (Fin (- 3))] \<noteq> []"
    by (simp add: listFlowDrafts_def map_filter_simps normalize_sample sort_by_def)
  then show ?thesis using listed_drafts_well_formed [OF sample_date_ok] by blast
qed

text \<open>
  C18: The store behaves like a finite map from ids to drafts: after an upsert of a draft whose id has no blanks around it,
  the draft's id yields its normalised form and every other id what it yielded before, and after a deletion the id yields
  nothing and every other id what it yielded before. (For an id with blanks around it the upsert does not: the lemma
  \<open>upsert_untrimmed_duplicates\<close> shows the draft stored a second time.)
\<close>

theorem draft_store_refines_map:
  assumes "epoch_parses p" and "trimmed (fd_id r)"
  shows "getFlowDraftById p k (upsertFlowDraft p r memory) =
      (if trim k = fd_id r then normalizeDraft p r else getFlowDraftById p k memory) \<and>
    getFlowDraftById p k (deleteFlowDraft p j memory) =
      (if trim k = trim j then None else getFlowDraftById p k memory)"
  by (simp add: get_upsert [OF assms] get_delete [OF assms(1)])

theorem draft_store_refines_map_witness:
  "getFlowDraftById sample_date (js ''a'') (upsertFlowDraft sample_date (sample_stored ''a'' ''x'' (Fin 1)) []) \<noteq> None"
proof -
  have id: "trimmed (fd_id (sample_stored ''a'' ''x'' (Fin 1)))"
    by (simp add: sample_stored_def trimmed_def char_white_def)
  have a: "fd_id (sample_stored ''a'' ''x'' (Fin 1)) = js ''a''" "trim (js ''a'') = js ''a''" "js ''a'' \<noteq> []"
    by (simp_all add: sample_stored_def char_white_def)
  show ?thesis
    using conjunct1 [OF draft_store_refines_map [OF sample_date_ok id, of "js ''a''" "[]"]]
    unfolding normalize_sample a by simp
qed

text \<open>
  The one gap: \<open>upsertFlowDraft\<close> compares with the id as given, the rest of the store with the trimmed
  id. A record whose id has blanks around it is put beside the draft it should replace.
\<close>

lemma upsert_untrimmed_duplicates:
  "map fd_id (listFlowDrafts sample_date
     (upsertFlowDraft sample_date (sample_stored ''a '' ''new'' (Fin 2)) [sample_stored ''a'' ''old'' (Fin 1)]))
   = [js ''a'', js ''a'']"
proof -
  have t: "trim (js ''a '') = js ''a''" by (simp add: js_def trim_def js_white_def)
  have "js ''a '' \<noteq> js ''a''" by simp
  have one: "listFlowDrafts sample_date [sample_stored ''a'' ''old'' (Fin 1)] = [the (normalizeDraft sample_date (sample_stored ''a'' ''old'' (Fin 1)))]"
    by (simp add: listFlowDrafts_def map_filter_simps normalize_sample sort_by_def char_white_def)
  have ok: "draft_ok sample_date (the (normalizeDraft sample_date (sample_stored ''a'' ''old'' (Fin 1))))"
    by (rule normalizeDraft_ok [OF sample_date_ok, of "sample_stored ''a'' ''old'' (Fin 1)"])
      (simp add: normalize_sample char_white_def)
  show ?thesis
    unfolding list_upsert [OF sample_date_ok] one
    by (simp add: map_filter_simps normalize_sample t sort_by_def newer_key_def date_key_def char_white_def)
      (simp add: sample_stored_def)
qed

section \<open>The store as an interface\<close>

text \<open>
  What the synchronisation relies on: a key is looked up, put or removed, values are taken in a
  canonical form, and what is handed out is canonical.
\<close>

locale draft_map =
  fixes get :: "jsstring \<Rightarrow> 's \<Rightarrow> draft_record option"
    and put :: "draft_record \<Rightarrow> 's \<Rightarrow> 's"
    and del :: "jsstring \<Rightarrow> 's \<Rightarrow> 's"
    and canon :: "draft_record \<Rightarrow> draft_record option"
  assumes get_put: "trimmed (fd_id r) \<Longrightarrow> get k (put r s) = (if trim k = fd_id r then canon r else get k s)"
    and get_del: "get k (del j s) = (if trim k = trim j then None else get k s)"
    and canon_id: "canon r = Some r' \<Longrightarrow> fd_id r' = trim (fd_id r)"
    and canon_total: "trim (fd_id r) \<noteq> [] \<Longrightarrow> canon r \<noteq> None"
    and get_trim: "get (trim k) s = get k s"
begin

lemma put_visible: "trimmed (fd_id r) \<Longrightarrow> fd_id r \<noteq> [] \<Longrightarrow> get (fd_id r) (put r s) \<noteq> None"
  using canon_total [of r] by (simp add: get_put trimmed_def)

lemma put_other: "trimmed (fd_id r) \<Longrightarrow> trim k \<noteq> fd_id r \<Longrightarrow> get k (put r s) = get k s"
  by (simp add: get_put)

lemma del_put: "trimmed (fd_id r) \<Longrightarrow> trim k \<noteq> fd_id r \<Longrightarrow> get k (del (fd_id r) (put r s)) = get k s"
  by (simp add: get_put get_del trimmed_def)

text \<open>Putting many: the last draft of an id counts.\<close>

lemma get_fold_put:
  "\<forall>r \<in> set rs. trimmed (fd_id r) \<Longrightarrow>
   get k (fold put rs s) = (case filter (\<lambda>r. fd_id r = trim k) rs of [] \<Rightarrow> get k s | xs \<Rightarrow> canon (last xs))"
proof (induction rs arbitrary: s)
  case Nil
  then show ?case by simp
next
  case (Cons r rs)
  then show ?case by (auto simp: get_put split: list.split)
qed

end

lemma normalizeDraft_trims: "normalizeDraft p r = Some r' \<Longrightarrow> fd_id r' = trim (fd_id r)"
  by (auto simp: normalizeDraft_def Let_def split: if_splits)

text \<open>
  Any \<open>Date.parse\<close> that knows the epoch gives such a map; \<open>knows_epoch\<close> is the identity on those.
\<close>

definition knows_epoch :: "(jsstring \<Rightarrow> rat option) \<Rightarrow> jsstring \<Rightarrow> rat option" where
  "knows_epoch p t = (if t = EPOCH_TIMESTAMP then Some (nullish (p t) 0) else p t)"

lemma knows_epoch_ok: "epoch_parses (knows_epoch p)" "epoch_parses p \<Longrightarrow> knows_epoch p = p"
  by (auto simp: epoch_parses_def knows_epoch_def)

interpretation draft_store: draft_map "getFlowDraftById (knows_epoch p)" "upsertFlowDraft (knows_epoch p)"
    "deleteFlowDraft (knows_epoch p)" "normalizeDraft (knows_epoch p)" for p
proof unfold_locales
  show "getFlowDraftById (knows_epoch p) (trim k) s = getFlowDraftById (knows_epoch p) k s" for k s
    by (simp add: getFlowDraftById_def)
  show "trim (fd_id r) \<noteq> [] \<Longrightarrow> normalizeDraft (knows_epoch p) r \<noteq> None" for r
    by (simp add: normalizeDraft_def Let_def)
qed (simp_all add: get_upsert get_delete knows_epoch_ok(1) normalizeDraft_trims)

end
