(* ===== verification/FlowAgents.thy ===== *)
theory FlowAgents imports DraftStore begin

text \<open>
  Small decisions of the page over agents, drafts and the side bar:
  \<open>components/flowAgentScopeUtils.ts\<close>, \<open>flowPlannerExecutorUtils.ts\<close>, \<open>flowPlannerViewUtils.ts\<close> and
  \<open>flowSidebarOrderStore.ts\<close>.
\<close>

section \<open>Scope keys\<close>

definition buildAgentScopeKey :: "jsstring option \<Rightarrow> jsstring option \<Rightarrow> jsstring" where
  "buildAgentScopeKey instanceId agentId =
     (let normalizedAgentId = trim_opt agentId in
      if normalizedAgentId = [] then [] else trim_opt instanceId @ js ''::'' @ normalizedAgentId)"

text \<open>\<open>const [a = '', b = ''] = value.split('::', 2)\<close>: what follows a second separator is dropped.\<close>

definition splitAgentScopeKey :: "jsstring \<Rightarrow> jsstring \<times> jsstring" where
  "splitAgentScopeKey value =
     (let parts = take 2 (js_split (js ''::'') value) in
      (trim (nullish (nth_opt parts 0) []), trim (nullish (nth_opt parts 1) [])))"

text \<open>Despite its name it only drops agents without an id.\<close>

definition listUniqueAgents :: "agent list option \<Rightarrow> agent list" where
  "listUniqueAgents agents = filter (\<lambda>agent. trim (ag_agent_id agent) \<noteq> []) (nullish agents [])"

definition buildAgentLabelByScope :: "agent list \<Rightarrow> (jsstring \<times> jsstring) list" where
  "buildAgentLabelByScope uniqueAgents =
     fold (\<lambda>agent labels.
         let key = buildAgentScopeKey (Some (ag_instance_id agent)) (Some (ag_agent_id agent)) in
         if key = [] \<or> map_has labels key then labels
         else AList.update key
           (ag_instance_id agent @ js '' / '' @ str_or (trim (ag_agent_name agent)) (ag_agent_id agent)) labels)
       uniqueAgents []"

definition resolvePlannerAgent :: "agent list option \<Rightarrow> jsstring \<Rightarrow> agent option" where
  "resolvePlannerAgent agents fixedPlannerAgentId =
     (let normalizedPlannerId = trim fixedPlannerAgentId; rows = nullish agents [] in
      if normalizedPlannerId = [] then nth_opt rows 0
      else case find (\<lambda>agent. trim (ag_agent_id agent) = normalizedPlannerId) rows of
        Some directMatch \<Rightarrow> Some directMatch
      | None \<Rightarrow> nth_opt rows 0)"

text \<open>Splitting at the first separator.\<close>

lemma js_split_go_plain:
  "58 \<notin> set s \<Longrightarrow> js_split_go (js ''::'') (s @ 58 # 58 # r) acc = (rev acc @ s) # js_split_go (js ''::'') r []"
proof (induction s arbitrary: acc)
  case Nil
  then show ?case by (simp add: js_def)
next
  case (Cons c s)
  then have "take 2 (c # s @ 58 # 58 # r) \<noteq> js ''::''" by (auto simp: js_def)
  then show ?case using Cons.IH [of "c # acc"] Cons.prems by (simp add: js_def)
qed

lemma js_split_go_none: "58 \<notin> set s \<Longrightarrow> js_split_go (js ''::'') s acc = [rev acc @ s]"
  by (induction s arbitrary: acc) (auto simp: js_def)

lemma set_trim: "set (trim s) \<subseteq> set s"
  unfolding trim_def by (metis set_dropWhileD set_rev subsetI)

lemma split_scope_key:
  assumes "58 \<notin> set i" and "58 \<notin> set a"
  shows "js_split (js ''::'') (i @ js ''::'' @ a) = [i, a]"
  using js_split_go_plain [OF assms(1), of a "[]"] js_split_go_none [OF assms(2), of "[]"]
  by (simp add: js_split_def) (simp add: js_def)

text \<open>
  A scope key is read back as the instance and the agent it was built from, as long as neither id has
  a colon in it.
\<close>

lemma scope_key_round_trip:
  assumes "58 \<notin> set i" and "58 \<notin> set a" and "trim a \<noteq> []"
  shows "splitAgentScopeKey (buildAgentScopeKey (Some i) (Some a)) = (trim i, trim a)"
proof -
  have "58 \<notin> set (trim i)" "58 \<notin> set (trim a)" using assms(1,2) set_trim by blast+
  then show ?thesis
    using assms(3)
    by (simp add: splitAgentScopeKey_def buildAgentScopeKey_def trim_opt_def split_scope_key nth_opt_def Let_def)
qed

section \<open>Executors\<close>

definition resolvePlannerExecutor :: "jsstring \<Rightarrow> agent list \<Rightarrow> flow_lane list \<Rightarrow> jsstring \<times> agent option" where
  "resolvePlannerExecutor selectedExecutorAgentId uniqueAgents lanes =
     (let strictExecutorAgentId = resolveExecutorAgentId selectedExecutorAgentId uniqueAgents lanes;
          laneFallbackExecutorAgentId = nullish (find (\<lambda>agentId. agentId \<noteq> [] \<and> has_agent_id uniqueAgents agentId)
            (map (\<lambda>lane. trim_opt (l_agent_id lane)) lanes)) [];
          overviewFallbackExecutorAgentId = trim_opt (map_option ag_agent_id (nth_opt uniqueAgents 0));
          executorAgentId = str_or (str_or strictExecutorAgentId laneFallbackExecutorAgentId) overviewFallbackExecutorAgentId
      in (executorAgentId, find (\<lambda>agent. ag_agent_id agent = executorAgentId) uniqueAgents))"

text \<open>\<open>missingAgentIds.add(id)\<close> under its guard, on the set kept as a list.\<close>

definition add_missing :: "jsstring list \<Rightarrow> jsstring \<Rightarrow> jsstring list \<Rightarrow> jsstring list" where
  "add_missing available ident missing =
     (if ident \<noteq> [] \<and> ident \<notin> set available then List.insert ident missing else missing)"

definition collectUnavailableAgentIdsForConfirm :: "jsstring \<Rightarrow> agent list \<Rightarrow> flow_lane list \<Rightarrow> flow_node list \<Rightarrow> jsstring list" where
  "collectUnavailableAgentIdsForConfirm selectedExecutorAgentId uniqueAgents lanes nodes =
     (let available = filter (\<lambda>ident. ident \<noteq> []) (map (\<lambda>agent. trim (ag_agent_id agent)) uniqueAgents);
          missing = add_missing available (trim selectedExecutorAgentId) [];
          missing = fold (\<lambda>lane. add_missing available (trim_opt (l_agent_id lane))) lanes missing
      in fold (\<lambda>node. add_missing available (trim_opt (n_agent_id node))) nodes missing)"

lemma set_add_missing:
  "set (add_missing available ident missing) =
     set missing \<union> ({ident} - {[]} - set available)"
  by (auto simp: add_missing_def)

lemma set_fold_missing:
  "set (fold (\<lambda>x. add_missing available (f x)) xs missing) = set missing \<union> (f ` set xs - {[]} - set available)"
  by (induction xs arbitrary: missing) (auto simp: set_add_missing)

lemma set_unavailable:
  "set (collectUnavailableAgentIdsForConfirm selected agents lanes nodes) =
     ({trim selected} \<union> (\<lambda>lane. trim_opt (l_agent_id lane)) ` set lanes \<union> (\<lambda>node. trim_opt (n_agent_id node)) ` set nodes)
      - {[]} - (\<lambda>agent. trim (ag_agent_id agent)) ` set agents"
proof -
  have sets: "({} \<union> ({v} - {e} - (A - {e}))) \<union> (B - {e} - (A - {e})) \<union> (C - {e} - (A - {e})) = {v} \<union> B \<union> C - {e} - A"
    for v e :: jsstring and A B C by blast
  have filtered: "set (filter (\<lambda>ident. ident \<noteq> []) xs) = set xs - {[]}" for xs :: "jsstring list" by auto
  show ?thesis
    unfolding collectUnavailableAgentIdsForConfirm_def Let_def set_fold_missing set_add_missing filtered set_map
      list.set(1) by (rule sets)
qed

lemma unavailable_none:
  "collectUnavailableAgentIdsForConfirm selected agents lanes nodes = [] \<longleftrightarrow>
     (\<forall>v \<in> {trim selected} \<union> (\<lambda>lane. trim_opt (l_agent_id lane)) ` set lanes \<union> (\<lambda>node. trim_opt (n_agent_id node)) ` set nodes.
        v = [] \<or> v \<in> (\<lambda>agent. trim (ag_agent_id agent)) ` set agents)"
proof -
  have "collectUnavailableAgentIdsForConfirm selected agents lanes nodes = [] \<longleftrightarrow>
      set (collectUnavailableAgentIdsForConfirm selected agents lanes nodes) = {}" by simp
  moreover have "S - {e} - A = {} \<longleftrightarrow> (\<forall>v \<in> S. v = e \<or> v \<in> A)" for S A :: "jsstring set" and e by blast
  ultimately show ?thesis by (simp only: set_unavailable)
qed

section \<open>What the planner panel shows\<close>

definition isPlannerRuntimeActiveInDraft :: "draft_record option \<Rightarrow> bool" where
  "isPlannerRuntimeActiveInDraft draft =
     (case Option.bind draft fd_planner_runtime of
        None \<Rightarrow> False
      | Some runtime \<Rightarrow> pr_is_planning runtime \<or> pr_is_planner_stopping runtime \<or>
          pr_session_status runtime = Session Planning)"

definition hasPlannerMessagesInDraft :: "draft_record option \<Rightarrow> bool" where
  "hasPlannerMessagesInDraft draft \<longleftrightarrow> 0 < length (nullish (Option.bind draft fd_planner_messages) [])"

record planner_permissions =
  canTypePlannerInput :: bool
  canPromptPlanner :: bool
  isPlannerStopActionActive :: bool

definition resolvePlannerUiPermissions :: "bool \<Rightarrow> bool \<Rightarrow> bool \<Rightarrow> bool \<Rightarrow> ui_status \<Rightarrow> jsstring option \<Rightarrow> planner_permissions" where
  "resolvePlannerUiPermissions hasSelectedFlow isFlowActioning isPlanning isPlannerStopping plannerSessionStatus plannerSessionKey =
     (let hasPlannerSessionKey = (trim_opt plannerSessionKey \<noteq> []) in
      \<lparr>canTypePlannerInput = (hasSelectedFlow \<and> \<not> isFlowActioning),
       canPromptPlanner = (hasSelectedFlow \<and> \<not> isFlowActioning),
       isPlannerStopActionActive = (isPlanning \<or> isPlannerStopping \<or>
         plannerSessionStatus = Session Planning \<and> hasPlannerSessionKey)\<rparr>)"

definition view_kind :: "chat_message \<Rightarrow> jsstring" where
  "view_kind message = str_or (trim (nullish (m_kind message) (js ''message''))) (js ''message'')"

definition resolvePlannerMessageRoleLabel :: "chat_message \<Rightarrow> jsstring" where
  "resolvePlannerMessageRoleLabel message =
     (if starts_with (view_kind message) (js ''tool_call'') then [0x5DE5, 0x5177, 0x8C03, 0x7528]
      else if m_role message = UserRole then [0x7528, 0x6237]
      else if m_role message = SystemRole then [0x7CFB, 0x7EDF]
      else [0x89C4, 0x5212] @ js '' Agent'')"

definition tool_name_of :: "chat_message \<Rightarrow> jsstring" where
  "tool_name_of message =
     (let payload = nullish (Option.bind (m_payload message) asRecord) [] in
      nullish (nullish_opt (as_string (field payload ''tool_name'')) (as_string (field payload ''name'')))
        [0x672A, 0x77E5, 0x5DE5, 0x5177])"

definition resolvePlannerMessageDisplayText :: "chat_message \<Rightarrow> jsstring" where
  "resolvePlannerMessageDisplayText message =
     (let content = m_content message; kind = view_kind message; toolName = tool_name_of message in
      if kind = js ''assistant_delta'' then
        str_or content ([0x6B63, 0x5728, 0x751F, 0x6210, 0x5B9E, 0x65F6, 0x53CD, 0x9988] @ js ''...'')
      else if \<not> starts_with kind (js ''tool_call'') then content
      else if kind = js ''tool_call_start'' then
        str_or content ([0x6B63, 0x5728, 0x8C03, 0x7528, 0x5DE5, 0x5177, 0xFF1A] @ toolName)
      else if kind = js ''tool_call_end'' then
        str_or content ([0x5DE5, 0x5177, 0x8C03, 0x7528, 0x7ED3, 0x675F, 0xFF1A] @ toolName)
      else str_or content ([0x5DE5, 0x5177, 0x8C03, 0x7528, 0x8FDB, 0x884C, 0x4E2D, 0xFF1A] @ toolName))"

section \<open>The order of the side bar\<close>

text \<open>\<open>for (const item of ids)\<close> of \<open>dedupeFlowIds\<close>.\<close>

fun dedupe_go :: "jsstring list \<Rightarrow> jsstring list \<Rightarrow> jsstring list" where
  "dedupe_go seen [] = []"
| "dedupe_go seen (item # ids) =
     (let normalized = trim item in
      if normalized = [] \<or> normalized \<in> set seen then dedupe_go seen ids
      else normalized # dedupe_go (normalized # seen) ids)"

definition dedupeFlowIds :: "jsstring list \<Rightarrow> jsstring list" where
  "dedupeFlowIds ids = dedupe_go [] ids"

definition loadFlowSidebarOrder :: "jsstring list \<Rightarrow> jsstring list" where
  "loadFlowSidebarOrder memory = dedupeFlowIds (filter (\<lambda>item. item \<noteq> []) (map trim memory))"

definition saveFlowSidebarOrder :: "jsstring list \<Rightarrow> jsstring list" where
  "saveFlowSidebarOrder order = dedupeFlowIds order"

fun areFlowIdOrdersEqual :: "jsstring list \<Rightarrow> jsstring list \<Rightarrow> bool" where
  "areFlowIdOrdersEqual (l # ls) (r # rs) = (l = r \<and> areFlowIdOrdersEqual ls rs)"
| "areFlowIdOrdersEqual [] [] = True"
| "areFlowIdOrdersEqual _ _ = False"

text \<open>\<open>indexOf\<close>, None for -1.\<close>

fun index_of :: "'a \<Rightarrow> 'a list \<Rightarrow> nat option" where
  "index_of x [] = None"
| "index_of x (y # ys) = (if x = y then Some 0 else map_option Suc (index_of x ys))"

definition splice_out :: "nat \<Rightarrow> 'a list \<Rightarrow> 'a list" where
  "splice_out i xs = take i xs @ drop (Suc i) xs"

definition splice_in :: "nat \<Rightarrow> 'a \<Rightarrow> 'a list \<Rightarrow> 'a list" where
  "splice_in i x xs = take i xs @ x # drop i xs"

definition moveFlowIdInOrder :: "jsstring list \<Rightarrow> jsstring \<Rightarrow> jsstring \<Rightarrow> jsstring list" where
  "moveFlowIdInOrder currentOrder sourceId targetId =
     (let source = trim sourceId; target = trim targetId in
      if source = [] \<or> target = [] \<or> source = target then currentOrder
      else
        let deduped = dedupeFlowIds currentOrder in
        case (index_of source deduped, index_of target deduped) of
          (Some sourceIndex, Some _) \<Rightarrow>
            (let next = splice_out sourceIndex deduped in
             splice_in (nullish (index_of target next) (length next)) (deduped ! sourceIndex) next)
        | _ \<Rightarrow> deduped)"

lemma dedupe_go_uniq: "dedupe_go seen ids = uniq_go seen (filter (\<lambda>item. item \<noteq> []) (map trim ids))"
  by (induction ids arbitrary: seen) (auto simp: Let_def)

lemma dedupe_uniq: "dedupeFlowIds ids = uniq (filter (\<lambda>item. item \<noteq> []) (map trim ids))"
  by (simp add: dedupeFlowIds_def dedupe_go_uniq uniq_def)

lemma dedupe_distinct [simp]: "distinct (dedupeFlowIds ids)"
  by (simp add: dedupe_uniq)

lemma dedupe_again [simp]: "dedupeFlowIds (dedupeFlowIds ids) = dedupeFlowIds ids"
proof -
  have "map trim (dedupeFlowIds ids) = dedupeFlowIds ids" by (rule map_idI) (auto simp: dedupe_uniq)
  moreover have "filter (\<lambda>item. item \<noteq> []) (dedupeFlowIds ids) = dedupeFlowIds ids"
    by (rule filter_True) (auto simp: dedupe_uniq)
  ultimately show ?thesis unfolding dedupe_uniq [of "dedupeFlowIds ids"] by simp
qed

lemma orders_equal: "areFlowIdOrdersEqual xs ys \<longleftrightarrow> xs = ys"
  by (induction xs ys rule: areFlowIdOrdersEqual.induct) auto

lemma index_of_None: "index_of x xs = None \<longleftrightarrow> x \<notin> set xs"
  by (induction xs) auto

lemma index_of_Some: "x \<in> set xs \<Longrightarrow> \<exists>ys zs. xs = ys @ x # zs \<and> x \<notin> set ys \<and> index_of x xs = Some (length ys)"
proof (induction xs)
  case Nil
  then show ?case by simp
next
  case (Cons y xs)
  show ?case
  proof (cases "x = y")
    case True
    then show ?thesis by (intro exI [of _ "[]"] exI [of _ xs]) simp
  next
    case False
    with Cons obtain ys zs where "xs = ys @ x # zs" "x \<notin> set ys" "index_of x xs = Some (length ys)" by auto
    with False show ?thesis by (intro exI [of _ "y # ys"] exI [of _ zs]) simp
  qed
qed

text \<open>
  Dragging a flow in the side bar puts it directly before the flow it was dropped on and changes
  nothing else: the other flows keep their order, none is lost and none appears twice.
\<close>

lemma sidebar_move:
  assumes "source \<in> set (dedupeFlowIds order)" and "target \<in> set (dedupeFlowIds order)" and "source \<noteq> target"
  shows "(\<exists>xs ys. moveFlowIdInOrder order source target = xs @ source # target # ys \<and>
      xs @ target # ys = filter (\<lambda>i. i \<noteq> source) (dedupeFlowIds order)) \<and>
    mset (moveFlowIdInOrder order source target) = mset (dedupeFlowIds order)"
proof -
  let ?d = "dedupeFlowIds order"
  have st: "trim source = source" "trim target = target" "source \<noteq> []" "target \<noteq> []"
    using assms(1,2) by (auto simp: dedupe_uniq)
  obtain as bs where s: "?d = as @ source # bs" "source \<notin> set as" "index_of source ?d = Some (length as)"
    using index_of_Some [OF assms(1)] by blast
  then have rest: "source \<notin> set bs" using dedupe_distinct [of order] by simp
  have others: "filter (\<lambda>i. i \<noteq> source) ?d = as @ bs"
    using s(2) rest unfolding s(1) by (auto simp: filter_id_conv intro!: arg_cong2 [where f = append])
  have "target \<in> set (as @ bs)" using assms(2,3) s(1) by auto
  then obtain xs ys where t: "as @ bs = xs @ target # ys" "index_of target (as @ bs) = Some (length xs)"
    using index_of_Some by metis
  obtain j where j: "index_of target ?d = Some j"
    using index_of_Some [OF assms(2)] by blast
  have out: "splice_out (length as) ?d = as @ bs" "?d ! length as = source" by (simp_all add: splice_out_def s(1))
  have eq: "moveFlowIdInOrder order source target = xs @ source # target # ys"
    using assms(3) st s(3) j by (simp add: moveFlowIdInOrder_def Let_def out t(2)) (simp add: splice_in_def t(1))
  have "mset ?d = add_mset source (mset (as @ bs))" by (simp add: s(1))
  then show ?thesis using eq others t(1) by (simp only: t(1)) (auto intro: exI [of _ xs])
qed

lemma sidebar_move_witness:
  "mset (moveFlowIdInOrder [js ''a'', js ''b'', js ''c''] (js ''c'') (js ''a'')) =
     mset (dedupeFlowIds [js ''a'', js ''b'', js ''c''])"
proof -
  have "dedupeFlowIds [js ''a'', js ''b'', js ''c''] = [js ''a'', js ''b'', js ''c'']"
    by (simp add: dedupeFlowIds_def char_white_def)
  then show ?thesis
    using sidebar_move [of "js ''c''" "[js ''a'', js ''b'', js ''c'']" "js ''a''"] by simp
qed

end
