(* ===== verification/DraftSync.thy ===== *)
theory DraftSync imports FlowAgents RealtimeMessages begin

text \<open>
  \<open>components/flow-page/hooks/useFlowDraftSyncQueue.ts\<close>: local drafts are saved to the server one
  request at a time per flow, with the newest edit waiting; answers, refusals and conflicts come
  back in any order. The refs and states of the hook are a record; the promises that have not been
  settled yet are the list \<open>sy_calls\<close>, and each handler (\<open>then\<close>, \<open>catch\<close>, \<open>finally\<close>) is a function. Only
  what the handlers read of the page at the time they run is passed to them (\<open>conflict_view\<close>).
\<close>

section \<open>State\<close>

datatype api_error = ApiNotFound | ApiConflict | ApiOther

datatype api_availability = ApiUnknown | ApiEnabled | ApiDisabled

text \<open>The texts of \<open>draftSyncStatusMessage\<close> and the warnings shown.\<close>

datatype sync_status = StatusClear | StatusNotSynced | StatusConflictKept | StatusConflictRefetched

datatype sync_toast = ToastFailure | ToastConflictKept | ToastConflictRefetched

text \<open>The promises: an upload and its \<open>finally\<close>, a deletion, the two kinds of listing.\<close>

datatype sync_call =
    UpsertCall jsstring draft_record bool
  | UpsertFinally jsstring
  | DeleteCall jsstring bool
  | RefetchCall jsstring
  | HydrateCall nat jsstring

record sync =
  sy_store :: "draft_record list"
  sy_in_flight :: "(jsstring \<times> bool) list"
  sy_pending :: "(jsstring \<times> draft_record \<times> bool) list"
  sy_conflict_toast_at :: "(jsstring \<times> int) list"
  sy_removed :: "(jsstring \<times> bool) list"
  sy_api :: api_availability
  sy_error_toast :: bool
  sy_status :: sync_status
  sy_version :: nat
  sy_route_resets :: nat
  sy_ready :: bool
  sy_effect :: nat
  sy_toasts :: "sync_toast list"
  sy_calls :: "sync_call list"
  sy_sent :: "(jsstring \<times> draft_record) list"

definition sync_start :: sync where
  "sync_start = \<lparr>sy_store = [], sy_in_flight = [], sy_pending = [], sy_conflict_toast_at = [], sy_removed = [],
     sy_api = ApiUnknown, sy_error_toast = False, sy_status = StatusClear, sy_version = 0, sy_route_resets = 0,
     sy_ready = False, sy_effect = 0, sy_toasts = [], sy_calls = [], sy_sent = []\<rparr>"

section \<open>Handlers\<close>

definition bumpDraftStoreVersion :: "sync \<Rightarrow> sync" where
  "bumpDraftStoreVersion st = st\<lparr>sy_version := sy_version st + 1\<rparr>"

definition reportDraftSyncFailure :: "sync \<Rightarrow> sync" where
  "reportDraftSyncFailure st =
     (let st = st\<lparr>sy_status := StatusNotSynced\<rparr> in
      if sy_error_toast st then st
      else st\<lparr>sy_error_toast := True, sy_toasts := sy_toasts st @ [ToastFailure]\<rparr>)"

definition with_messages :: "draft_record \<Rightarrow> draft_record" where
  "with_messages r = r\<lparr>fd_planner_messages := Some (nullish (fd_planner_messages r) [])\<rparr>"

text \<open>The record that is sent: the pending edit on top of the newest revision known.\<close>

definition upload_payload :: "draft_record option \<Rightarrow> draft_record \<Rightarrow> draft_record" where
  "upload_payload latestLocalDraft record =
     with_messages (case latestLocalDraft of
        None \<Rightarrow> record
      | Some l \<Rightarrow> if jsnum_less (fd_revision record) (fd_revision l)
                  then record\<lparr>fd_revision := fd_revision l, fd_created_at := fd_created_at l\<rparr> else record)"

definition flushDraftSyncQueue :: "(jsstring \<Rightarrow> rat option) \<Rightarrow> jsstring \<Rightarrow> sync \<Rightarrow> sync" where
  "flushDraftSyncQueue p flowId st =
     (let f = trim flowId in
      if f = [] then st
      else if map_get (sy_in_flight st) f False then st
      else case map_of (sy_pending st) f of
        None \<Rightarrow> st
      | Some (record, silent) \<Rightarrow>
          let payload = upload_payload (getFlowDraftById p f (sy_store st)) record
          in st\<lparr>sy_pending := AList.delete f (sy_pending st), sy_in_flight := AList.update f True (sy_in_flight st),
                sy_calls := sy_calls st @ [UpsertCall f payload silent], sy_sent := sy_sent st @ [(f, payload)]\<rparr>)"

definition upsert_fulfilled :: "(jsstring \<Rightarrow> rat option) \<Rightarrow> jsstring \<Rightarrow> draft_record \<Rightarrow> sync \<Rightarrow> sync" where
  "upsert_fulfilled p f syncedDraft st =
     (let st = (if \<not> map_get (sy_removed st) f False then st\<lparr>sy_store := upsertFlowDraft p syncedDraft (sy_store st)\<rparr> else st)
      in st\<lparr>sy_api := ApiEnabled, sy_error_toast := False, sy_status := StatusClear,
            sy_calls := sy_calls st @ [UpsertFinally f]\<rparr>)"

text \<open>What the conflict handler reads: the planner snapshot of the flow, and the page as it was closed over.\<close>

record conflict_view =
  cv_snapshot :: "(bool \<times> bool \<times> chat_message list option) option"
  cv_current_flow :: jsstring
  cv_planning :: bool
  cv_request_pending :: bool
  cv_messages :: "chat_message list"

definition shouldKeepPendingRuntime :: "conflict_view \<Rightarrow> jsstring \<Rightarrow> bool" where
  "shouldKeepPendingRuntime cv f \<longleftrightarrow>
     (case cv_snapshot cv of
        None \<Rightarrow> False
      | Some (isPlanning, requestPending, messages) \<Rightarrow>
          isPlanning \<or> requestPending \<or> hasPendingPlannerReply (nullish messages [])) \<or>
     f = trim (cv_current_flow cv) \<and> (cv_planning cv \<or> cv_request_pending cv) \<or>
     f = trim (cv_current_flow cv) \<and> hasPendingPlannerReply (cv_messages cv)"

definition conflict_toast :: "int \<Rightarrow> jsstring \<Rightarrow> sync_toast \<Rightarrow> sync \<Rightarrow> sync" where
  "conflict_toast now f toast st =
     (if 5000 < now - map_get (sy_conflict_toast_at st) f 0
      then st\<lparr>sy_toasts := sy_toasts st @ [toast], sy_conflict_toast_at := AList.update f now (sy_conflict_toast_at st)\<rparr>
      else st)"

definition refetchDraftAfterConflict :: "jsstring \<Rightarrow> sync \<Rightarrow> sync" where
  "refetchDraftAfterConflict flowId st =
     (let f = trim flowId in if f = [] then st else st\<lparr>sy_calls := sy_calls st @ [RefetchCall f]\<rparr>)"

definition upsert_rejected :: "conflict_view \<Rightarrow> int \<Rightarrow> jsstring \<Rightarrow> bool \<Rightarrow> api_error \<Rightarrow> sync \<Rightarrow> sync" where
  "upsert_rejected cv now f silent error st =
     (let st = st\<lparr>sy_calls := sy_calls st @ [UpsertFinally f]\<rparr> in
      case error of
        ApiNotFound \<Rightarrow> st\<lparr>sy_api := ApiDisabled\<rparr>
      | ApiConflict \<Rightarrow>
          if shouldKeepPendingRuntime cv f
          then conflict_toast now f ToastConflictKept (st\<lparr>sy_status := StatusConflictKept\<rparr>)
          else refetchDraftAfterConflict f
                 (conflict_toast now f ToastConflictRefetched (st\<lparr>sy_status := StatusConflictRefetched\<rparr>))
      | ApiOther \<Rightarrow>
          let st = st\<lparr>sy_status := StatusNotSynced\<rparr> in
          if \<not> silent then reportDraftSyncFailure st else st)"

definition upsert_finally :: "(jsstring \<Rightarrow> rat option) \<Rightarrow> jsstring \<Rightarrow> sync \<Rightarrow> sync" where
  "upsert_finally p f st =
     (let st = st\<lparr>sy_in_flight := AList.update f False (sy_in_flight st)\<rparr> in
      if map_has (sy_pending st) f then flushDraftSyncQueue p f st else st)"

definition refetch_fulfilled :: "(jsstring \<Rightarrow> rat option) \<Rightarrow> jsstring \<Rightarrow> draft_record list \<Rightarrow> sync \<Rightarrow> sync" where
  "refetch_fulfilled p f remoteDrafts st =
     (let st = st\<lparr>sy_api := ApiEnabled\<rparr> in
      case find (\<lambda>item. fd_id item = f) remoteDrafts of
        None \<Rightarrow> st
      | Some remoteDraft \<Rightarrow>
          let st = bumpDraftStoreVersion (st\<lparr>sy_store := upsertFlowDraft p remoteDraft (sy_store st)\<rparr>)
          in st\<lparr>sy_route_resets := sy_route_resets st + 1\<rparr>)"

definition listing_rejected :: "api_error \<Rightarrow> sync \<Rightarrow> sync" where
  "listing_rejected error st =
     (if error = ApiNotFound then st\<lparr>sy_api := ApiDisabled\<rparr> else reportDraftSyncFailure st)"

definition persistDraftRecord :: "(jsstring \<Rightarrow> rat option) \<Rightarrow> draft_record \<Rightarrow> bool \<Rightarrow> sync \<Rightarrow> sync" where
  "persistDraftRecord p record silentFailure st =
     (let st = bumpDraftStoreVersion (st\<lparr>sy_store := upsertFlowDraft p record (sy_store st)\<rparr>) in
      if sy_api st = ApiDisabled then st
      else
        let f = trim (fd_id record) in
        if f = [] then st
        else
          let silent = (case map_of (sy_pending st) f of Some (_, s) \<Rightarrow> s \<and> silentFailure | None \<Rightarrow> silentFailure);
              st = st\<lparr>sy_removed := AList.update f False (sy_removed st),
                     sy_pending := AList.update f (with_messages record, silent) (sy_pending st)\<rparr>
          in flushDraftSyncQueue p f st)"

definition removeDraftRecord :: "(jsstring \<Rightarrow> rat option) \<Rightarrow> jsstring \<Rightarrow> bool \<Rightarrow> sync \<Rightarrow> sync" where
  "removeDraftRecord p flowId silentFailure st =
     (let f = trim flowId in
      if f = [] then st
      else
        let st = bumpDraftStoreVersion (st\<lparr>sy_removed := AList.update f True (sy_removed st),
                    sy_pending := AList.delete f (sy_pending st),
                    sy_conflict_toast_at := AList.delete f (sy_conflict_toast_at st),
                    sy_store := deleteFlowDraft p f (sy_store st)\<rparr>)
        in if sy_api st = ApiDisabled then st else st\<lparr>sy_calls := sy_calls st @ [DeleteCall f silentFailure]\<rparr>)"

definition delete_fulfilled :: "sync \<Rightarrow> sync" where
  "delete_fulfilled st = st\<lparr>sy_api := ApiEnabled, sy_error_toast := False, sy_status := StatusClear\<rparr>"

definition delete_rejected :: "bool \<Rightarrow> api_error \<Rightarrow> sync \<Rightarrow> sync" where
  "delete_rejected silent error st =
     (if error = ApiNotFound then st\<lparr>sy_api := ApiDisabled\<rparr>
      else let st = st\<lparr>sy_status := StatusNotSynced\<rparr> in if \<not> silent then reportDraftSyncFailure st else st)"

section \<open>Taking over the drafts of the server\<close>

text \<open>The decision of the effect for one remote draft, \<open>shouldReplaceLocal\<close>.\<close>

definition shouldProtectLocalPlanningState :: "draft_record \<Rightarrow> draft_record option \<Rightarrow> bool" where
  "shouldProtectLocalPlanningState remoteDraft localDraft \<longleftrightarrow>
     isPlannerRuntimeActiveInDraft localDraft \<and> \<not> isPlannerRuntimeActiveInDraft (Some remoteDraft) \<and>
     (\<not> hasPlannerMessagesInDraft (Some remoteDraft) \<or>
      length (nullish (fd_planner_messages remoteDraft) [])
        < length (nullish (Option.bind localDraft fd_planner_messages) []))"

definition shouldProtectLocalConversation :: "draft_record \<Rightarrow> draft_record option \<Rightarrow> bool" where
  "shouldProtectLocalConversation remoteDraft localDraft \<longleftrightarrow>
     hasPlannerMessagesInDraft localDraft \<and> \<not> hasPlannerMessagesInDraft (Some remoteDraft)"

definition shouldReplaceLocal :: "(jsstring \<Rightarrow> rat option) \<Rightarrow> jsstring \<Rightarrow> draft_record \<Rightarrow> draft_record option \<Rightarrow> bool" where
  "shouldReplaceLocal p routeHydrationDraftId remoteDraft localDraft =
     (let isRouteTargetDraft = (routeHydrationDraftId \<noteq> [] \<and> fd_id remoteDraft = routeHydrationDraftId);
          localRevision = (case localDraft of Some l \<Rightarrow> fd_revision l | None \<Rightarrow> jint (- 1));
          localHasPendingReply = (case localDraft of
             Some l \<Rightarrow> hasPendingPlannerReply (nullish (fd_planner_messages l) []) | None \<Rightarrow> False);
          hasNewerRevision = jsnum_less localRevision (fd_revision remoteDraft);
          hasSameRevisionAndNewerTimestamp =
            (fd_revision remoteDraft = localRevision \<and> fd_revision remoteDraft \<noteq> NaN \<and>
             toEpochMillis p (nullish (map_option fd_updated_at localDraft) []) \<le> toEpochMillis p (fd_updated_at remoteDraft));
          protect = shouldProtectLocalPlanningState remoteDraft localDraft \<or> shouldProtectLocalConversation remoteDraft localDraft
      in (isRouteTargetDraft \<and> \<not> localHasPendingReply \<and> \<not> protect) \<or> localDraft = None \<or>
         ((hasNewerRevision \<or> hasSameRevisionAndNewerTimestamp) \<and> \<not> protect))"

text \<open>The loop: \<open>localById\<close> is taken before it and not updated.\<close>

definition local_by_id :: "draft_record list \<Rightarrow> (jsstring \<times> draft_record) list" where
  "local_by_id drafts = fold (\<lambda>draft. AList.update (fd_id draft) draft) drafts []"

definition merge_remote :: "(jsstring \<Rightarrow> rat option) \<Rightarrow> jsstring \<Rightarrow> (jsstring \<times> draft_record) list \<Rightarrow> draft_record
    \<Rightarrow> draft_record list \<times> bool \<Rightarrow> draft_record list \<times> bool" where
  "merge_remote p route localById remoteDraft acc =
     (if shouldReplaceLocal p route remoteDraft (map_of localById (fd_id remoteDraft))
      then (upsertFlowDraft p remoteDraft (fst acc), True) else acc)"

definition hydrate_fulfilled :: "(jsstring \<Rightarrow> rat option) \<Rightarrow> nat \<Rightarrow> jsstring \<Rightarrow> draft_record list \<Rightarrow> sync \<Rightarrow> sync" where
  "hydrate_fulfilled p effect route remoteDrafts st =
     (if effect \<noteq> sy_effect st then st
      else
        let localById = local_by_id (listFlowDrafts p (sy_store st));
            (store, localChanged) = fold (merge_remote p route localById) remoteDrafts (sy_store st, False);
            st = st\<lparr>sy_api := ApiEnabled, sy_store := store\<rparr>;
            st = (if localChanged then (bumpDraftStoreVersion st)\<lparr>sy_route_resets := sy_route_resets st + 1\<rparr> else st)
        in st\<lparr>sy_ready := True\<rparr>)"

definition hydrate_rejected :: "nat \<Rightarrow> api_error \<Rightarrow> sync \<Rightarrow> sync" where
  "hydrate_rejected effect error st =
     (if effect \<noteq> sy_effect st then st else (listing_rejected error st)\<lparr>sy_ready := True\<rparr>)"

text \<open>The effect runs (again) for a route: earlier runs become inactive.\<close>

definition hydrate_effect :: "jsstring \<Rightarrow> sync \<Rightarrow> sync" where
  "hydrate_effect route st =
     st\<lparr>sy_effect := sy_effect st + 1, sy_ready := False, sy_calls := sy_calls st @ [HydrateCall (sy_effect st + 1) route]\<rparr>"

section \<open>The tasks of the board\<close>

definition addSuppressedFlowIds :: "jsstring list \<Rightarrow> jsstring list \<Rightarrow> jsstring list" where
  "addSuppressedFlowIds ids current =
     (let normalizedIds = filter (\<lambda>item. item \<noteq> []) (map trim ids) in
      if normalizedIds = [] then current else uniq (current @ normalizedIds))"

definition removeSuppressedFlowIds :: "jsstring list \<Rightarrow> jsstring list \<Rightarrow> jsstring list" where
  "removeSuppressedFlowIds ids current =
     (let normalizedIds = filter (\<lambda>item. item \<noteq> []) (map trim ids) in
      if normalizedIds = [] then current else filter (\<lambda>item. item \<notin> set normalizedIds) current)"

definition refreshed_tasks :: "jsstring list \<Rightarrow> task list \<Rightarrow> task list" where
  "refreshed_tasks suppressed tasks = filter (\<lambda>item. getRequirementIdFromTask item \<notin> set suppressed) tasks"

fun replace_task :: "task \<Rightarrow> task list \<Rightarrow> task list option" where
  "replace_task next [] = None"
| "replace_task next (item # tasks) =
     (if t_id item = t_id next then Some (next # tasks) else map_option (\<lambda>rest. item # rest) (replace_task next tasks))"

fun applyBoardRealtimeUpdate :: "jsstring list \<Rightarrow> board_payload \<Rightarrow> task list \<Rightarrow> task list" where
  "applyBoardRealtimeUpdate suppressed (TaskUpserted nextTask) current =
     (if getRequirementIdFromTask nextTask \<in> set suppressed then current
      else nullish (replace_task nextTask current) (nextTask # current))"
| "applyBoardRealtimeUpdate suppressed (TaskDeleted taskId) current =
     (if taskId = [] then current else filter (\<lambda>item. t_id item \<noteq> taskId) current)"
| "applyBoardRealtimeUpdate suppressed _ current = current"

end
