(* ===== verification/DraftSyncRuns.thy ===== *)
theory DraftSyncRuns imports DraftSync begin

text \<open>
  The draft synchronisation as a state machine: the page saves and removes drafts and starts the effect,
  the promises settle in any order and with any result. Proved of every run: one upload per flow at
  a time, no edit forgotten, the newest edit is the one that reaches the server, and what a removal
  and a listing do to the local drafts.
\<close>

section \<open>Runs\<close>

datatype sync_label = Saves draft_record | Removes jsstring | Listing | Internal

definition settled :: "sync_call \<Rightarrow> sync \<Rightarrow> sync" where
  "settled call st = st\<lparr>sy_calls := remove1 call (sy_calls st)\<rparr>"

text \<open>The server answers an upload with the draft it stored under the id of the request.\<close>

inductive sync_step :: "(jsstring \<Rightarrow> rat option) \<Rightarrow> sync_label \<Rightarrow> sync \<Rightarrow> sync \<Rightarrow> bool" for p where
  save: "sync_step p (Saves r) st (persistDraftRecord p r silent st)"
| remove: "sync_step p (Removes f) st (removeDraftRecord p f silent st)"
| effect: "sync_step p Internal st (hydrate_effect route st)"
| upsert_ok: "UpsertCall f payload silent \<in> set (sy_calls st) \<Longrightarrow> fd_id synced = f \<Longrightarrow>
    sync_step p Internal st (upsert_fulfilled p f synced (settled (UpsertCall f payload silent) st))"
| upsert_failed: "UpsertCall f payload silent \<in> set (sy_calls st) \<Longrightarrow>
    sync_step p Internal st (upsert_rejected cv now f silent error (settled (UpsertCall f payload silent) st))"
| upsert_done: "UpsertFinally f \<in> set (sy_calls st) \<Longrightarrow>
    sync_step p Internal st (upsert_finally p f (settled (UpsertFinally f) st))"
| delete_ok: "DeleteCall f silent \<in> set (sy_calls st) \<Longrightarrow>
    sync_step p Internal st (delete_fulfilled (settled (DeleteCall f silent) st))"
| delete_failed: "DeleteCall f silent \<in> set (sy_calls st) \<Longrightarrow>
    sync_step p Internal st (delete_rejected silent error (settled (DeleteCall f silent) st))"
| refetch_ok: "RefetchCall f \<in> set (sy_calls st) \<Longrightarrow>
    sync_step p Listing st (refetch_fulfilled p f drafts (settled (RefetchCall f) st))"
| refetch_failed: "RefetchCall f \<in> set (sy_calls st) \<Longrightarrow>
    sync_step p Internal st (listing_rejected error (settled (RefetchCall f) st))"
| hydrate_ok: "HydrateCall n route \<in> set (sy_calls st) \<Longrightarrow>
    sync_step p Listing st (hydrate_fulfilled p n route drafts (settled (HydrateCall n route) st))"
| hydrate_failed: "HydrateCall n route \<in> set (sy_calls st) \<Longrightarrow>
    sync_step p Internal st (hydrate_rejected n error (settled (HydrateCall n route) st))"

inductive sync_run :: "(jsstring \<Rightarrow> rat option) \<Rightarrow> sync_label list \<Rightarrow> sync \<Rightarrow> sync \<Rightarrow> bool" for p where
  nil: "sync_run p [] st st"
| snoc: "sync_run p ls st st' \<Longrightarrow> sync_step p l st' st'' \<Longrightarrow> sync_run p (ls @ [l]) st st''"

lemma sync_run_step: "sync_step p l st st' \<Longrightarrow> sync_run p [l] st st'"
  using sync_run.snoc [OF sync_run.nil] by fastforce

lemma sync_run_append: "sync_run p ms st' st'' \<Longrightarrow> sync_run p ls st st' \<Longrightarrow> sync_run p (ls @ ms) st st''"
proof (induction rule: sync_run.induct)
  case (nil st)
  then show ?case by simp
next
  case (snoc ms st st' l st'')
  then show ?case using sync_run.snoc [of p "ls @ ms"] by auto
qed

text \<open>An invariant of the steps holds along runs.\<close>

lemma sync_run_invariant:
  assumes "sync_run p ls st st'" and "P st"
    and "\<And>l s s'. l \<in> set ls \<Longrightarrow> sync_step p l s s' \<Longrightarrow> P s \<Longrightarrow> P s'"
  shows "P st'"
  using assms by (induction rule: sync_run.induct) auto

section \<open>What the handlers leave alone\<close>

text \<open>The part of the state that decides what is uploaded: calls, flights, pending edits and the history.\<close>

definition upload_view :: "sync \<Rightarrow> sync_call list \<times> (jsstring \<times> bool) list \<times> (jsstring \<times> draft_record \<times> bool) list
    \<times> (jsstring \<times> draft_record) list" where
  "upload_view st = (sy_calls st, sy_in_flight st, sy_pending st, sy_sent st)"

definition add_calls :: "sync_call list \<Rightarrow> sync \<Rightarrow> sync" where
  "add_calls cs st = st\<lparr>sy_calls := sy_calls st @ cs\<rparr>"

lemma report_view [simp]: "upload_view (reportDraftSyncFailure st) = upload_view st"
  by (simp add: reportDraftSyncFailure_def upload_view_def Let_def)

lemma toast_view [simp]: "upload_view (conflict_toast now f t st) = upload_view st"
  by (simp add: conflict_toast_def upload_view_def)

lemma view_update [simp]:
  "upload_view (st\<lparr>sy_store := a\<rparr>) = upload_view st" "upload_view (st\<lparr>sy_api := b\<rparr>) = upload_view st"
  "upload_view (st\<lparr>sy_status := c\<rparr>) = upload_view st" "upload_view (st\<lparr>sy_version := d\<rparr>) = upload_view st"
  "upload_view (st\<lparr>sy_route_resets := e\<rparr>) = upload_view st" "upload_view (st\<lparr>sy_ready := g\<rparr>) = upload_view st"
  "upload_view (st\<lparr>sy_error_toast := h\<rparr>) = upload_view st" "upload_view (st\<lparr>sy_removed := i\<rparr>) = upload_view st"
  "upload_view (st\<lparr>sy_effect := j\<rparr>) = upload_view st" "upload_view (st\<lparr>sy_conflict_toast_at := k\<rparr>) = upload_view st"
  by (simp_all add: upload_view_def)

lemma listing_rejected_view [simp]: "upload_view (listing_rejected error st) = upload_view st"
  by (simp add: listing_rejected_def)

lemma delete_view [simp]: "upload_view (delete_fulfilled st) = upload_view st"
  "upload_view (delete_rejected silent error st) = upload_view st"
  by (simp_all add: delete_fulfilled_def delete_rejected_def Let_def)

lemma hydrate_view [simp]: "upload_view (hydrate_rejected n error st) = upload_view st"
  "upload_view (hydrate_fulfilled p n route drafts st) = upload_view st"
  by (simp_all add: hydrate_rejected_def hydrate_fulfilled_def bumpDraftStoreVersion_def Let_def split: prod.split)

lemma refetch_view [simp]: "upload_view (refetch_fulfilled p f drafts st) = upload_view st"
  by (simp add: refetch_fulfilled_def bumpDraftStoreVersion_def Let_def split: option.split)

lemma upsert_fulfilled_view: "upload_view (upsert_fulfilled p f synced st) = upload_view (add_calls [UpsertFinally f] st)"
  by (simp add: upsert_fulfilled_def upload_view_def add_calls_def Let_def)

text \<open>A rejected upload may start one listing.\<close>

lemma upsert_rejected_view:
  "\<exists>cs. set cs \<subseteq> range RefetchCall \<and>
     upload_view (upsert_rejected cv now f silent error st) = upload_view (add_calls (UpsertFinally f # cs) st)"
proof (cases error)
  case ApiNotFound
  then show ?thesis by (intro exI [of _ "[]"]) (simp add: upsert_rejected_def upload_view_def add_calls_def)
next
  case ApiOther
  have "upload_view (upsert_rejected cv now f silent error st) = upload_view (add_calls [UpsertFinally f] st)"
    by (simp add: ApiOther upsert_rejected_def Let_def) (simp add: upload_view_def add_calls_def)
  then show ?thesis by (intro exI [of _ "[]"]) simp
next
  case ApiConflict
  let ?st = "st\<lparr>sy_calls := sy_calls st @ [UpsertFinally f]\<rparr>"
  have kept: "upload_view (conflict_toast now f t (?st\<lparr>sy_status := s\<rparr>)) = upload_view (add_calls [UpsertFinally f] st)" for t s
    by (simp only: toast_view view_update) (simp add: upload_view_def add_calls_def)
  have "upload_view (refetchDraftAfterConflict f s) = upload_view (add_calls (if trim f = [] then [] else [RefetchCall (trim f)]) s)" for s
    by (simp add: refetchDraftAfterConflict_def upload_view_def add_calls_def Let_def)
  moreover have "upload_view (add_calls cs s) = upload_view (add_calls cs s')" if "upload_view s = upload_view s'" for cs s s'
    using that by (simp add: upload_view_def add_calls_def)
  moreover have "upload_view (add_calls cs (add_calls ds s)) = upload_view (add_calls (ds @ cs) s)" for cs ds s
    by (simp add: upload_view_def add_calls_def)
  ultimately show ?thesis
  proof (cases "shouldKeepPendingRuntime cv f")
    case True
    then show ?thesis using kept [of ToastConflictKept StatusConflictKept] ApiConflict
      by (intro exI [of _ "[]"]) (simp add: upsert_rejected_def Let_def)
  next
    case False
    let ?cs = "if trim f = [] then [] else [RefetchCall (trim f)]"
    have "upload_view (upsert_rejected cv now f silent error st) =
        upload_view (refetchDraftAfterConflict f (conflict_toast now f ToastConflictRefetched (?st\<lparr>sy_status := StatusConflictRefetched\<rparr>)))"
      using False ApiConflict by (simp add: upsert_rejected_def Let_def)
    also have "\<dots> = upload_view (add_calls ?cs (conflict_toast now f ToastConflictRefetched (?st\<lparr>sy_status := StatusConflictRefetched\<rparr>)))"
      by (simp add: refetchDraftAfterConflict_def upload_view_def add_calls_def Let_def)
    also have "\<dots> = upload_view (add_calls ?cs (add_calls [UpsertFinally f] st))"
      using kept [of ToastConflictRefetched StatusConflictRefetched] by (simp add: upload_view_def add_calls_def)
    finally show ?thesis by (intro exI [of _ ?cs]) (simp add: upload_view_def add_calls_def)
  qed
qed

section \<open>One upload per flow, nothing forgotten\<close>

fun uploading :: "jsstring \<Rightarrow> sync_call \<Rightarrow> bool" where
  "uploading f (UpsertCall g _ _) = (g = f)"
| "uploading f (UpsertFinally g) = (g = f)"
| "uploading f _ = False"

definition uploads :: "jsstring \<Rightarrow> sync \<Rightarrow> nat" where
  "uploads f st = length (filter (uploading f) (sy_calls st))"

definition in_flight :: "jsstring \<Rightarrow> sync \<Rightarrow> bool" where
  "in_flight f st \<longleftrightarrow> map_get (sy_in_flight st) f False"

text \<open>The flights are the uploads; a pending edit waits for a flight, that of flow \<open>f\<close> excepted.\<close>

definition flights_ok :: "sync \<Rightarrow> bool" where
  "flights_ok st \<longleftrightarrow> (\<forall>g. uploads g st = (if in_flight g st then 1 else 0))"

definition pending_ok :: "jsstring option \<Rightarrow> sync \<Rightarrow> bool" where
  "pending_ok exempt st \<longleftrightarrow>
     (\<forall>g. map_has (sy_pending st) g \<longrightarrow> (in_flight g st \<or> exempt = Some g) \<and> trimmed g \<and> g \<noteq> [])"

text \<open>The newest edit of a flow: the one that waits, or else the one sent last; compared without what the upload may raise.\<close>

definition edit_of :: "draft_record \<Rightarrow> draft_record" where
  "edit_of r = (with_messages r)\<lparr>fd_revision := jint 0, fd_created_at := []\<rparr>"

definition latest_edit :: "jsstring \<Rightarrow> sync \<Rightarrow> draft_record option" where
  "latest_edit f st =
     map_option edit_of (nullish_opt (map_option fst (map_of (sy_pending st) f)) (map_of (rev (sy_sent st)) f))"

lemma edit_of_payload [simp]: "edit_of (upload_payload l r) = edit_of r"
  by (simp add: edit_of_def upload_payload_def with_messages_def split: option.split)

lemma edit_of_with_messages [simp]: "edit_of (with_messages r) = edit_of r"
  by (simp add: edit_of_def with_messages_def)

lemma view_eq:
  assumes "upload_view st = upload_view st'"
  shows "uploads f st = uploads f st'" "in_flight f st = in_flight f st'" "latest_edit f st = latest_edit f st'"
    "flights_ok st = flights_ok st'" "pending_ok e st = pending_ok e st'" "sy_sent st = sy_sent st'"
  using assms by (simp_all add: upload_view_def uploads_def in_flight_def latest_edit_def flights_ok_def pending_ok_def)

lemma add_calls_view:
  "uploads f (add_calls cs st) = uploads f st + length (filter (uploading f) cs)"
  "in_flight f (add_calls cs st) = in_flight f st" "latest_edit f (add_calls cs st) = latest_edit f st"
  "pending_ok e (add_calls cs st) = pending_ok e st"
  by (simp_all add: uploads_def in_flight_def latest_edit_def pending_ok_def add_calls_def)

lemma settled_view:
  "in_flight f (settled c st) = in_flight f st" "latest_edit f (settled c st) = latest_edit f st"
  "pending_ok e (settled c st) = pending_ok e st"
  by (simp_all add: in_flight_def latest_edit_def pending_ok_def settled_def)

lemma filter_remove1_length:
  "c \<in> set cs \<Longrightarrow> length (filter P (remove1 c cs)) + (if P c then 1 else 0) = length (filter P cs)"
  by (induction cs) auto

lemma settled_uploads:
  "c \<in> set (sy_calls st) \<Longrightarrow> uploads f (settled c st) + (if uploading f c then 1 else 0) = uploads f st"
  by (simp add: uploads_def settled_def filter_remove1_length)

lemma sync_flush_ok:
  assumes "flights_ok st" and "pending_ok (Some f) st" and "trimmed f" and "f \<noteq> []"
  shows "flights_ok (flushDraftSyncQueue p f st) \<and> pending_ok None (flushDraftSyncQueue p f st)"
proof (cases "in_flight f st \<or> map_of (sy_pending st) f = None")
  case True
  then have "flushDraftSyncQueue p f st = st"
    using assms(3,4) by (auto simp: flushDraftSyncQueue_def in_flight_def trimmed_def Let_def)
  moreover have "in_flight f st \<or> \<not> map_has (sy_pending st) f" using True by (auto simp: map_has_def)
  then have "pending_ok None st" using assms(2) unfolding pending_ok_def by fastforce
  ultimately show ?thesis using assms(1) by simp
next
  case False
  then obtain r s where r: "map_of (sy_pending st) f = Some (r, s)" by auto
  let ?st = "flushDraftSyncQueue p f st"
  have st: "?st = st\<lparr>sy_pending := AList.delete f (sy_pending st), sy_in_flight := AList.update f True (sy_in_flight st),
      sy_calls := sy_calls st @ [UpsertCall f (upload_payload (getFlowDraftById p f (sy_store st)) r) s],
      sy_sent := sy_sent st @ [(f, upload_payload (getFlowDraftById p f (sy_store st)) r)]\<rparr>"
    using False r assms(3,4) by (simp add: flushDraftSyncQueue_def in_flight_def trimmed_def Let_def)
  have "in_flight g ?st = (g = f \<or> in_flight g st)" "uploads g ?st = uploads g st + (if g = f then 1 else 0)"
      "map_has (sy_pending ?st) g = (g \<noteq> f \<and> map_has (sy_pending st) g)" for g
    by (auto simp: st in_flight_def uploads_def)
  then show ?thesis using assms(1,2) False by (auto simp: flights_ok_def pending_ok_def)
qed

lemma flush_latest [simp]: "latest_edit g (flushDraftSyncQueue p f st) = latest_edit g st"
  by (auto simp: flushDraftSyncQueue_def latest_edit_def Let_def map_add_def split: option.split prod.split)

text \<open>The three kinds of step: a call that is no upload settles, an upload settles, its \<open>finally\<close> runs.\<close>

lemma other_call_ok:
  assumes "c \<in> set (sy_calls st)" and "\<And>f. \<not> uploading f c" and "upload_view st' = upload_view (settled c st)"
    and "flights_ok st" and "pending_ok None st"
  shows "flights_ok st' \<and> pending_ok None st' \<and> latest_edit f st' = latest_edit f st"
  using assms(4,5) settled_uploads [OF assms(1)] assms(2)
  by (simp add: view_eq [OF assms(3)] settled_view flights_ok_def)

lemma upload_settles_ok:
  assumes "UpsertCall f payload silent \<in> set (sy_calls st)" and "\<And>g. filter (uploading g) cs = []"
    and "upload_view st' = upload_view (add_calls (UpsertFinally f # cs) (settled (UpsertCall f payload silent) st))"
    and "flights_ok st" and "pending_ok None st"
  shows "flights_ok st' \<and> pending_ok None st' \<and> latest_edit g st' = latest_edit g st"
proof -
  have "uploads g st' = (if in_flight g st' then 1 else 0)" for g
    using assms(4) settled_uploads [OF assms(1), of g]
    by (simp add: view_eq [OF assms(3)] settled_view add_calls_view flights_ok_def assms(2) split: if_splits)
  then show ?thesis
    using assms(5) by (simp add: flights_ok_def view_eq(3,5) [OF assms(3)] settled_view add_calls_view)
qed

lemma finally_ok:
  assumes "UpsertFinally f \<in> set (sy_calls st)" and "flights_ok st" and "pending_ok None st"
  shows "flights_ok (upsert_finally p f (settled (UpsertFinally f) st)) \<and>
    pending_ok None (upsert_finally p f (settled (UpsertFinally f) st)) \<and>
    latest_edit g (upsert_finally p f (settled (UpsertFinally f) st)) = latest_edit g st"
proof -
  let ?st = "(settled (UpsertFinally f) st)\<lparr>sy_in_flight := AList.update f False (sy_in_flight (settled (UpsertFinally f) st))\<rparr>"
  have up: "uploads g ?st + (if g = f then 1 else 0) = uploads g st" for g
    using settled_uploads [OF assms(1), of g] by (auto simp: uploads_def)
  have fl: "in_flight g ?st = (g \<noteq> f \<and> in_flight g st)" for g
    by (simp add: in_flight_def settled_def)
  have pe: "sy_pending ?st = sy_pending st" by (simp add: settled_def)
  have "uploads g ?st = (if in_flight g ?st then 1 else 0)" for g
    using up [of g] fl [of g] assms(2) by (cases "g = f") (simp_all add: flights_ok_def split: if_splits)
  then have "flights_ok ?st" by (simp add: flights_ok_def)
  moreover have "pending_ok (Some f) ?st" using assms(3) fl pe by (auto simp: pending_ok_def)
  moreover have "pending_ok None ?st" if "\<not> map_has (sy_pending st) f"
    using assms(3) fl pe that by (auto simp: pending_ok_def)
  moreover have "trimmed f \<and> f \<noteq> []" if "map_has (sy_pending st) f" using assms(3) that by (simp add: pending_ok_def)
  moreover have "latest_edit g ?st = latest_edit g st" by (simp add: latest_edit_def settled_def)
  ultimately show ?thesis
    using sync_flush_ok [of ?st f p] pe by (simp add: upsert_finally_def Let_def)
qed

lemma save_ok:
  assumes "flights_ok st" and "pending_ok None st"
  shows "flights_ok (persistDraftRecord p r silent st) \<and> pending_ok None (persistDraftRecord p r silent st)"
proof -
  let ?st1 = "bumpDraftStoreVersion (st\<lparr>sy_store := upsertFlowDraft p r (sy_store st)\<rparr>)"
  have v1: "upload_view ?st1 = upload_view st" by (simp add: bumpDraftStoreVersion_def)
  have base: "flights_ok ?st1 \<and> pending_ok None ?st1" using assms by (simp add: view_eq [OF v1])
  show ?thesis
  proof (cases "sy_api st = ApiDisabled \<or> trim (fd_id r) = []")
    case True
    then have "persistDraftRecord p r silent st = ?st1"
      by (auto simp: persistDraftRecord_def Let_def bumpDraftStoreVersion_def)
    then show ?thesis using base by simp
  next
    case False
    let ?f = "trim (fd_id r)"
    obtain s where st: "persistDraftRecord p r silent st = flushDraftSyncQueue p ?f (?st1\<lparr>sy_removed := AList.update ?f False (sy_removed ?st1),
        sy_pending := AList.update ?f (with_messages r, s) (sy_pending ?st1)\<rparr>)"
      using False by (auto simp: persistDraftRecord_def Let_def bumpDraftStoreVersion_def)
    have "flights_ok (?st1\<lparr>sy_removed := a, sy_pending := b\<rparr>) = flights_ok ?st1" for a b
      by (simp add: flights_ok_def uploads_def in_flight_def)
    moreover have "pending_ok (Some ?f) (?st1\<lparr>sy_removed := a, sy_pending := AList.update ?f b (sy_pending ?st1)\<rparr>)" for a b
      using base False by (auto simp: pending_ok_def in_flight_def)
    ultimately show ?thesis unfolding st using base False by (intro sync_flush_ok) simp_all
  qed
qed

lemma save_latest:
  "latest_edit g (persistDraftRecord p r silent st) =
     (if g = trim (fd_id r) \<and> g \<noteq> [] \<and> sy_api st \<noteq> ApiDisabled then Some (edit_of r) else latest_edit g st)"
  by (simp add: persistDraftRecord_def bumpDraftStoreVersion_def Let_def)
    (simp add: latest_edit_def)

lemma remove_ok:
  assumes "flights_ok st" and "pending_ok None st"
  shows "flights_ok (removeDraftRecord p f silent st) \<and> pending_ok None (removeDraftRecord p f silent st) \<and>
    (g \<noteq> trim f \<longrightarrow> latest_edit g (removeDraftRecord p f silent st) = latest_edit g st)"
  using assms
  by (auto simp: removeDraftRecord_def bumpDraftStoreVersion_def Let_def flights_ok_def pending_ok_def latest_edit_def
      uploads_def in_flight_def)

text \<open>What a step keeps, and whose newest edit it changes.\<close>

fun touches :: "jsstring \<Rightarrow> sync_label \<Rightarrow> bool" where
  "touches f (Saves r) = (trim (fd_id r) = f)"
| "touches f (Removes g) = (trim g = f)"
| "touches f _ = False"

definition sync_ok :: "sync \<Rightarrow> bool" where
  "sync_ok st \<longleftrightarrow> flights_ok st \<and> pending_ok None st"

lemma sync_step_ok:
  assumes "sync_step p l st st'" and "sync_ok st"
  shows "sync_ok st' \<and> (\<not> touches f l \<longrightarrow> latest_edit f st' = latest_edit f st)"
  using assms
proof (induction rule: sync_step.induct)
  case (save r st silent)
  then show ?case using save_ok [of st p r silent] save_latest [of f p r silent st] by (auto simp: sync_ok_def)
next
  case (remove g st silent)
  then show ?case using remove_ok [of st p g silent f] by (auto simp: sync_ok_def)
next
  case (effect st route)
  have v: "upload_view (hydrate_effect route st) = upload_view (add_calls [HydrateCall (sy_effect st + 1) route] st)"
    by (simp add: hydrate_effect_def upload_view_def add_calls_def)
  show ?case using effect by (simp add: sync_ok_def view_eq [OF v] add_calls_view flights_ok_def)
next
  case (upsert_ok g payload silent st synced)
  then show ?case
    using upload_settles_ok [OF upsert_ok(1), of "[]" _ f] by (simp add: sync_ok_def upsert_fulfilled_view)
next
  case (upsert_failed g payload silent st cv now error)
  obtain cs where cs: "set cs \<subseteq> range RefetchCall"
    "upload_view (upsert_rejected cv now g silent error (settled (UpsertCall g payload silent) st))
      = upload_view (add_calls (UpsertFinally g # cs) (settled (UpsertCall g payload silent) st))"
    using upsert_rejected_view by blast
  have "filter (uploading h) cs = []" for h using cs(1) by (auto simp: filter_empty_conv)
  then show ?case
    using upload_settles_ok [OF upsert_failed(1) _ cs(2), of f] upsert_failed(2) by (simp add: sync_ok_def)
next
  case (upsert_done g st)
  then show ?case using finally_ok [OF upsert_done(1), of p f] by (simp add: sync_ok_def)
next
  case (delete_ok g silent st)
  then show ?case using other_call_ok [OF delete_ok(1), of _ f] by (simp add: sync_ok_def)
next
  case (delete_failed g silent st error)
  then show ?case using other_call_ok [OF delete_failed(1), of _ f] by (simp add: sync_ok_def)
next
  case (refetch_ok g st drafts)
  then show ?case using other_call_ok [OF refetch_ok(1), of _ f] by (simp add: sync_ok_def)
next
  case (refetch_failed g st error)
  then show ?case using other_call_ok [OF refetch_failed(1), of _ f] by (simp add: sync_ok_def)
next
  case (hydrate_ok n route st drafts)
  then show ?case using other_call_ok [OF hydrate_ok(1), of _ f] by (simp add: sync_ok_def)
next
  case (hydrate_failed n route st error)
  then show ?case using other_call_ok [OF hydrate_failed(1), of _ f] by (simp add: sync_ok_def)
qed

lemma sync_start_ok: "sync_ok sync_start"
  by (simp add: sync_ok_def flights_ok_def pending_ok_def uploads_def in_flight_def sync_start_def map_has_def)

lemma sync_run_ok: "sync_run p ls st st' \<Longrightarrow> sync_ok st \<Longrightarrow> sync_ok st'"
  by (erule sync_run_invariant) (auto dest: sync_step_ok)

text \<open>What was sent has a list of messages.\<close>

definition sent_ok :: "sync \<Rightarrow> bool" where
  "sent_ok st \<longleftrightarrow> (\<forall>(g, payload) \<in> set (sy_sent st). fd_planner_messages payload \<noteq> None)"

lemma flush_sent_ok: "sent_ok st \<Longrightarrow> sent_ok (flushDraftSyncQueue p f st)"
  by (auto simp: sent_ok_def flushDraftSyncQueue_def upload_payload_def with_messages_def Let_def split: option.split)

lemma sent_ok_update [simp]:
  "sent_ok (st\<lparr>sy_store := a\<rparr>) = sent_ok st" "sent_ok (st\<lparr>sy_version := b\<rparr>) = sent_ok st"
  "sent_ok (st\<lparr>sy_removed := c\<rparr>) = sent_ok st" "sent_ok (st\<lparr>sy_pending := d\<rparr>) = sent_ok st"
  "sent_ok (st\<lparr>sy_in_flight := e\<rparr>) = sent_ok st" "sent_ok (settled call st) = sent_ok st"
  by (simp_all add: sent_ok_def settled_def)

lemma sync_step_sent:
  assumes "sync_step p l st st'" and "sent_ok st"
  shows "sent_ok st'"
  using assms
proof (induction rule: sync_step.induct)
  case (save r st silent)
  then show ?case
    by (simp add: persistDraftRecord_def bumpDraftStoreVersion_def Let_def flush_sent_ok)
next
  case (upsert_failed g payload silent st cv now error)
  obtain cs where "upload_view (upsert_rejected cv now g silent error (settled (UpsertCall g payload silent) st))
      = upload_view (add_calls (UpsertFinally g # cs) (settled (UpsertCall g payload silent) st))"
    using upsert_rejected_view by blast
  then show ?case using upsert_failed by (simp add: upload_view_def sent_ok_def add_calls_def settled_def)
next
  case (upsert_done g st)
  then show ?case
    by (simp add: upsert_finally_def Let_def flush_sent_ok)
qed (simp_all add: sent_ok_def view_eq(6) [OF listing_rejected_view] view_eq(6) [OF delete_view(1)] view_eq(6) [OF delete_view(2)]
    view_eq(6) [OF hydrate_view(1)] view_eq(6) [OF hydrate_view(2)] view_eq(6) [OF refetch_view]
    view_eq(6) [OF upsert_fulfilled_view] hydrate_effect_def add_calls_def settled_def
    removeDraftRecord_def bumpDraftStoreVersion_def Let_def)

lemma sent_has_messages:
  "sync_run p ls sync_start st \<Longrightarrow> (g, payload) \<in> set (sy_sent st) \<Longrightarrow> fd_planner_messages payload \<noteq> None"
proof -
  assume run: "sync_run p ls sync_start st" and sent: "(g, payload) \<in> set (sy_sent st)"
  have "sent_ok st"
    by (rule sync_run_invariant [OF run]) (simp add: sent_ok_def sync_start_def, erule (1) sync_step_sent)
  then show ?thesis using sent by (auto simp: sent_ok_def)
qed

text \<open>An edit that waits stays through the answer to the upload under way, and the end of the upload sends it.\<close>

definition waits :: "jsstring \<Rightarrow> draft_record \<Rightarrow> bool \<Rightarrow> sync \<Rightarrow> bool" where
  "waits f r silent st \<longleftrightarrow> map_of (sy_pending st) f = Some (r, silent)"

lemma waits_view: "upload_view st = upload_view st' \<Longrightarrow> waits f r silent st = waits f r silent st'"
  by (simp add: waits_def upload_view_def)

lemma waits_through_answer:
  assumes "waits f r silent st"
  shows "waits f r silent (upsert_fulfilled p g synced (settled c st))" "UpsertFinally g \<in> set (sy_calls (upsert_fulfilled p g synced (settled c st)))"
    "waits f r silent (upsert_rejected cv now g s error (settled c st))" "UpsertFinally g \<in> set (sy_calls (upsert_rejected cv now g s error (settled c st)))"
proof -
  have kept: "waits f r silent (add_calls cs (settled c st))" "UpsertFinally g \<in> set (sy_calls (add_calls (UpsertFinally g # cs) (settled c st)))" for cs
    using assms by (simp_all add: waits_def add_calls_def settled_def)
  have view: "waits f r silent st' \<and> UpsertFinally g \<in> set (sy_calls st')"
    if "upload_view st' = upload_view (add_calls (UpsertFinally g # cs) (settled c st))" for st' cs
    using kept(2) [of cs] kept(1) [of "UpsertFinally g # cs"] waits_view [OF that] that by (simp add: upload_view_def)
  show "waits f r silent (upsert_fulfilled p g synced (settled c st))" "UpsertFinally g \<in> set (sy_calls (upsert_fulfilled p g synced (settled c st)))"
    using view [OF upsert_fulfilled_view] by blast+
  show "waits f r silent (upsert_rejected cv now g s error (settled c st))" "UpsertFinally g \<in> set (sy_calls (upsert_rejected cv now g s error (settled c st)))"
    using view upsert_rejected_view by blast+
qed

lemma payload_of_edit:
  "upload_payload l r = (with_messages r)\<lparr>fd_revision := fd_revision (upload_payload l r), fd_created_at := fd_created_at (upload_payload l r)\<rparr>"
  by (auto simp: upload_payload_def with_messages_def split: option.split)

lemma finally_sends:
  assumes "waits f r silent st" and "trimmed f" and "f \<noteq> []"
  shows "let st' = upsert_finally p f (settled c st); payload = upload_payload (getFlowDraftById p f (sy_store st)) r in
    UpsertCall f payload silent \<in> set (sy_calls st') \<and> sy_sent st' = sy_sent st @ [(f, payload)] \<and> \<not> map_has (sy_pending st') f"
  using assms by (simp add: waits_def upsert_finally_def flushDraftSyncQueue_def settled_def trimmed_def map_has_def Let_def)

text \<open>
  C2: However edits, removals, answers, conflicts and listings interleave, a flow has at most one upload
  under way (request or its \<open>finally\<close>), the in-flight mark says exactly whether it has one, and no
  edit is forgotten: whenever an edit waits, an upload of its flow is under way; every answer to that upload, also a
  refusal or a conflict, leaves the edit waiting and is followed by the \<open>finally\<close>; and the \<open>finally\<close> sends exactly this
  edit, up to the revision and the creation time that an upload takes from the newest local draft.
\<close>

theorem one_upload_no_edit_forgotten:
  assumes "sync_run p ls sync_start st"
  shows "uploads f st \<le> 1 \<and> (map_get (sy_in_flight st) f False \<longleftrightarrow> uploads f st = 1) \<and>
    (\<forall>r silent. waits f r silent st \<longrightarrow> uploads f st = 1 \<and>
      (\<forall>payload s synced cv now error. UpsertCall f payload s \<in> set (sy_calls st) \<longrightarrow>
        (\<forall>st' \<in> {upsert_fulfilled p f synced (settled (UpsertCall f payload s) st),
              upsert_rejected cv now f s error (settled (UpsertCall f payload s) st)}.
          waits f r silent st' \<and> UpsertFinally f \<in> set (sy_calls st'))) \<and>
      (let st' = upsert_finally p f (settled (UpsertFinally f) st) in \<exists>payload.
        UpsertCall f payload silent \<in> set (sy_calls st') \<and> sy_sent st' = sy_sent st @ [(f, payload)] \<and> \<not> map_has (sy_pending st') f \<and>
        payload = (with_messages r)\<lparr>fd_revision := fd_revision payload, fd_created_at := fd_created_at payload\<rparr>))"
proof -
  have ok: "flights_ok st" "pending_ok None st" using sync_run_ok [OF assms sync_start_ok] by (simp_all add: sync_ok_def)
  have waiting: "uploads f st = 1 \<and> trimmed f \<and> f \<noteq> []" if "waits f r silent st" for r silent
    using ok that by (auto simp: waits_def flights_ok_def pending_ok_def map_has_def)
  have "let st' = upsert_finally p f (settled (UpsertFinally f) st) in \<exists>payload.
      UpsertCall f payload silent \<in> set (sy_calls st') \<and> sy_sent st' = sy_sent st @ [(f, payload)] \<and> \<not> map_has (sy_pending st') f \<and>
      payload = (with_messages r)\<lparr>fd_revision := fd_revision payload, fd_created_at := fd_created_at payload\<rparr>"
    if "waits f r silent st" for r silent
    using finally_sends [OF that, of p "UpsertFinally f"] waiting [OF that] payload_of_edit unfolding Let_def by blast
  moreover have "uploads f st \<le> 1 \<and> (map_get (sy_in_flight st) f False \<longleftrightarrow> uploads f st = 1)"
    using ok(1) by (simp add: flights_ok_def in_flight_def)
  ultimately show ?thesis using waiting by (auto intro: waits_through_answer)
qed

text \<open>
  C10: The newest edit wins: when the page saves a draft while the server is not known to be without the
  draft interface, then whatever else happens, as long as this draft is not saved again or removed, it
  is the content of the last upload of its flow once no upload is under way, up to the revision and
  the creation time that the upload takes from the newest local draft.
\<close>

theorem newest_edit_wins:
  assumes "sync_run p ls sync_start st" and "sy_api st \<noteq> ApiDisabled" and "trim (fd_id r) \<noteq> []"
    and "sync_run p ms (persistDraftRecord p r silent st) st'"
    and "\<forall>l \<in> set ms. \<not> touches (trim (fd_id r)) l" and "uploads (trim (fd_id r)) st' = 0"
  shows "\<exists>payload. map_of (rev (sy_sent st')) (trim (fd_id r)) = Some payload \<and>
    payload = (with_messages r)\<lparr>fd_revision := fd_revision payload, fd_created_at := fd_created_at payload\<rparr>"
proof -
  let ?f = "trim (fd_id r)" and ?st1 = "persistDraftRecord p r silent st"
  have ok: "sync_ok st" by (rule sync_run_ok [OF assms(1) sync_start_ok])
  then have "sync_ok ?st1" using sync_step_ok [OF sync_step.save] by blast
  moreover have "latest_edit ?f ?st1 = Some (edit_of r)" using assms(2,3) by (simp add: save_latest)
  ultimately have st': "sync_ok st' \<and> latest_edit ?f st' = Some (edit_of r)"
    using sync_run_invariant [OF assms(4), of "\<lambda>s. sync_ok s \<and> latest_edit ?f s = Some (edit_of r)"]
      sync_step_ok [of p] assms(5) by metis
  then have "\<not> map_has (sy_pending st') ?f"
    using assms(6) by (auto simp: sync_ok_def flights_ok_def pending_ok_def split: if_splits)
  then obtain payload where payload: "map_of (rev (sy_sent st')) ?f = Some payload" "edit_of payload = edit_of r"
    using st' by (cases "map_of (sy_pending st') ?f") (auto simp: latest_edit_def map_has_def)
  have "fd_planner_messages payload \<noteq> None" if "(g, payload) \<in> set (sy_sent st')" for g
    using sent_has_messages [OF sync_run_append [OF assms(4) sync_run_append [OF sync_run_step [OF sync_step.save] assms(1)]]] that
    by blast
  then have "fd_planner_messages payload \<noteq> None" using payload(1) by (auto dest!: map_of_SomeD)
  then have "with_messages payload = payload" by (cases payload) (auto simp: with_messages_def)
  then have "payload = (with_messages r)\<lparr>fd_revision := fd_revision payload, fd_created_at := fd_created_at payload\<rparr>"
    using payload(2) unfolding edit_of_def by (cases payload; cases "with_messages r") simp
  then show ?thesis using payload(1) by blast
qed

definition first_edit :: draft_record where
  "first_edit = sample_stored ''a'' ''first'' (Fin 1)"

definition after_save :: sync where
  "after_save = persistDraftRecord sample_date first_edit False sync_start"

lemma first_edit_id [simp]: "fd_id first_edit = js ''a''" "trim (js ''a'') = js ''a''"
  by (simp_all add: first_edit_def sample_stored_def char_white_def)

text \<open>The first save goes out at once.\<close>

lemma after_save_state:
  "sy_calls after_save = [UpsertCall (js ''a'') (snd (hd (sy_sent after_save))) False]"
  "sy_pending after_save = []" "sy_api after_save = ApiUnknown" "uploads (js ''a'') after_save = 1"
  "sy_conflict_toast_at after_save = []" "sy_removed after_save = [(js ''a'', False)]"
  by (simp_all add: after_save_def persistDraftRecord_def sync_start_def bumpDraftStoreVersion_def flushDraftSyncQueue_def
      Let_def uploads_def)

lemma after_save_flight: "map_get (sy_in_flight after_save) (js ''a'') False"
  by (simp add: after_save_def persistDraftRecord_def sync_start_def bumpDraftStoreVersion_def flushDraftSyncQueue_def Let_def map_get_def)

definition settled_save :: sync where
  "settled_save = upsert_fulfilled sample_date (js ''a'') first_edit
     (settled (UpsertCall (js ''a'') (snd (hd (sy_sent after_save))) False) after_save)"

definition finished_save :: sync where
  "finished_save = upsert_finally sample_date (js ''a'') (settled (UpsertFinally (js ''a'')) settled_save)"

lemma settled_save_calls: "sy_calls settled_save = [UpsertFinally (js ''a'')]" "sy_pending settled_save = []"
  by (simp_all add: settled_save_def upsert_fulfilled_def settled_def after_save_state(1,2) Let_def)

text \<open>A second edit is made when the first has been answered; the \<open>finally\<close> of the first sends it.\<close>

definition second_edit :: draft_record where
  "second_edit = sample_stored ''a'' ''second'' (Fin 2)"

definition edited_again :: sync where
  "edited_again = persistDraftRecord sample_date second_edit False settled_save"

theorem one_upload_no_edit_forgotten_witness:
  "\<exists>payload. UpsertCall (js ''a'') payload False \<in> set (sy_calls (upsert_finally sample_date (js ''a'') (settled (UpsertFinally (js ''a'')) edited_again))) \<and>
     fd_requirement payload = js ''second''"
proof -
  have first: "sync_step sample_date (Saves first_edit) sync_start after_save" unfolding after_save_def by (rule sync_step.save)
  have "sync_step sample_date Internal after_save settled_save"
    unfolding settled_save_def by (rule sync_step.upsert_ok) (simp_all add: after_save_state(1))
  moreover have "sync_step sample_date (Saves second_edit) settled_save edited_again"
    unfolding edited_again_def by (rule sync_step.save)
  ultimately have run: "sync_run sample_date ((([] @ [Saves first_edit]) @ [Internal]) @ [Saves second_edit]) sync_start edited_again"
    using first by (intro sync_run.snoc [OF sync_run.snoc [OF sync_run.snoc [OF sync_run.nil]]])
  have "sy_in_flight settled_save = sy_in_flight after_save" "sy_api settled_save = ApiEnabled"
    by (simp_all add: settled_save_def upsert_fulfilled_def settled_def Let_def)
  then have "waits (js ''a'') (with_messages second_edit) False edited_again"
    by (simp add: edited_again_def persistDraftRecord_def bumpDraftStoreVersion_def flushDraftSyncQueue_def waits_def Let_def
        settled_save_calls second_edit_def sample_stored_def after_save_flight)
  then obtain payload where "UpsertCall (js ''a'') payload False \<in> set (sy_calls (upsert_finally sample_date (js ''a'') (settled (UpsertFinally (js ''a'')) edited_again)))"
    "payload = (with_messages (with_messages second_edit))\<lparr>fd_revision := fd_revision payload, fd_created_at := fd_created_at payload\<rparr>"
    using one_upload_no_edit_forgotten [OF run, of "js ''a''"] unfolding Let_def by blast
  then have "fd_requirement payload = fd_requirement (with_messages (with_messages second_edit))"
    by (metis draft_record.select_convs(3) draft_record.surjective draft_record.update_convs(13,14))
  then show ?thesis
    using \<open>UpsertCall _ _ _ \<in> _\<close> by (auto simp: with_messages_def second_edit_def sample_stored_def)
qed

lemma finished_save_run: "sync_run sample_date [Internal, Internal] after_save finished_save"
proof -
  have "sync_step sample_date Internal after_save settled_save"
    unfolding settled_save_def by (rule sync_step.upsert_ok) (simp_all add: after_save_state(1))
  moreover have "sync_step sample_date Internal settled_save finished_save"
    unfolding finished_save_def by (rule sync_step.upsert_done) (simp add: settled_save_calls)
  ultimately have "sync_run sample_date (([] @ [Internal]) @ [Internal]) after_save finished_save"
    by (intro sync_run.snoc [OF sync_run.snoc [OF sync_run.nil]])
  then show ?thesis by simp
qed

theorem newest_edit_wins_witness:
  "\<exists>payload. map_of (rev (sy_sent finished_save)) (js ''a'') = Some payload \<and> fd_requirement payload = js ''first''"
proof -
  have idle: "uploads (trim (fd_id first_edit)) finished_save = 0"
    by (simp add: finished_save_def upsert_finally_def settled_def settled_save_calls uploads_def map_has_def Let_def)
  obtain payload where "map_of (rev (sy_sent finished_save)) (js ''a'') = Some payload"
    "payload = (with_messages first_edit)\<lparr>fd_revision := fd_revision payload, fd_created_at := fd_created_at payload\<rparr>"
    using newest_edit_wins [OF sync_run.nil _ _ finished_save_run [unfolded after_save_def] _ idle]
    by (auto simp: sync_start_def)
  then have "fd_requirement payload = fd_requirement (with_messages first_edit)"
    by (metis draft_record.select_convs(3) draft_record.surjective draft_record.update_convs(13,14))
  then show ?thesis
    using \<open>map_of _ _ = _\<close> by (simp add: with_messages_def first_edit_def sample_stored_def)
qed

section \<open>Removed drafts\<close>

text \<open>Uploads are made under trimmed ids.\<close>

definition upload_ids_ok :: "sync \<Rightarrow> bool" where
  "upload_ids_ok st \<longleftrightarrow> (\<forall>f payload silent. UpsertCall f payload silent \<in> set (sy_calls st) \<longrightarrow> trimmed f)"

lemma upload_ids_cong: "upload_view st = upload_view st' \<Longrightarrow> upload_ids_ok st = upload_ids_ok st'"
  by (simp add: upload_ids_ok_def upload_view_def)

lemma flush_ids: "upload_ids_ok st \<Longrightarrow> upload_ids_ok (flushDraftSyncQueue p f st)"
  by (auto simp: upload_ids_ok_def flushDraftSyncQueue_def Let_def split: option.split)

lemma settled_ids: "upload_ids_ok st \<Longrightarrow> upload_ids_ok (settled call st)"
  by (auto simp: upload_ids_ok_def settled_def dest!: set_remove1_subset [THEN subsetD])

lemma add_calls_ids: "upload_ids_ok st \<Longrightarrow> (\<forall>c \<in> set cs. \<forall>f r s. c \<noteq> UpsertCall f r s) \<Longrightarrow> upload_ids_ok (add_calls cs st)"
  unfolding upload_ids_ok_def add_calls_def by fastforce

lemma ids_update [simp]:
  "upload_ids_ok (st\<lparr>sy_store := a\<rparr>) = upload_ids_ok st" "upload_ids_ok (st\<lparr>sy_version := b\<rparr>) = upload_ids_ok st"
  "upload_ids_ok (st\<lparr>sy_removed := c\<rparr>) = upload_ids_ok st" "upload_ids_ok (st\<lparr>sy_pending := d\<rparr>) = upload_ids_ok st"
  "upload_ids_ok (st\<lparr>sy_in_flight := e\<rparr>) = upload_ids_ok st"
  by (simp_all add: upload_ids_ok_def)

lemma sync_step_ids:
  assumes "sync_step p l st st'" and "upload_ids_ok st"
  shows "upload_ids_ok st'"
  using assms
proof (induction rule: sync_step.induct)
  case (save r st silent)
  then show ?case by (simp add: persistDraftRecord_def bumpDraftStoreVersion_def Let_def flush_ids)
next
  case (remove f st silent)
  then show ?case by (auto simp: removeDraftRecord_def bumpDraftStoreVersion_def Let_def upload_ids_ok_def)
next
  case (effect st route)
  then show ?case by (auto simp: hydrate_effect_def upload_ids_ok_def)
next
  case (upsert_ok g payload silent st synced)
  then show ?case by (simp add: upload_ids_cong [OF upsert_fulfilled_view] settled_ids add_calls_ids)
next
  case (upsert_failed g payload silent st cv now error)
  obtain cs where cs: "set cs \<subseteq> range RefetchCall" and
    v: "upload_view (upsert_rejected cv now g silent error (settled (UpsertCall g payload silent) st))
      = upload_view (add_calls (UpsertFinally g # cs) (settled (UpsertCall g payload silent) st))"
    using upsert_rejected_view by blast
  show ?case
    unfolding upload_ids_cong [OF v] by (rule add_calls_ids) (use upsert_failed(2) cs in \<open>auto simp: settled_ids\<close>)
next
  case (upsert_done g st)
  then show ?case by (simp add: upsert_finally_def Let_def flush_ids settled_ids)
qed (simp_all add: upload_ids_cong [OF listing_rejected_view] upload_ids_cong [OF delete_view(1)]
    upload_ids_cong [OF delete_view(2)] upload_ids_cong [OF hydrate_view(1)] upload_ids_cong [OF hydrate_view(2)]
    upload_ids_cong [OF refetch_view] settled_ids)

lemma sync_start_ids: "upload_ids_ok sync_start"
  by (simp add: upload_ids_ok_def sync_start_def)

text \<open>What the handlers do to the store and to the marks of removal.\<close>

definition store_view :: "sync \<Rightarrow> draft_record list \<times> (jsstring \<times> bool) list" where
  "store_view st = (sy_store st, sy_removed st)"

lemma flush_store [simp]: "store_view (flushDraftSyncQueue p f st) = store_view st"
  by (simp add: flushDraftSyncQueue_def store_view_def Let_def split: option.split prod.split)

lemma report_store [simp]: "store_view (reportDraftSyncFailure st) = store_view st"
  by (simp add: reportDraftSyncFailure_def store_view_def Let_def)

lemma toast_store [simp]: "store_view (conflict_toast now f t st) = store_view st"
  by (simp add: conflict_toast_def store_view_def)

lemma store_update [simp]:
  "store_view (st\<lparr>sy_status := a\<rparr>) = store_view st" "store_view (st\<lparr>sy_api := b\<rparr>) = store_view st"
  "store_view (st\<lparr>sy_calls := c\<rparr>) = store_view st" "store_view (st\<lparr>sy_in_flight := d\<rparr>) = store_view st"
  "store_view (st\<lparr>sy_ready := e\<rparr>) = store_view st" "store_view (settled call st) = store_view st"
  by (simp_all add: store_view_def settled_def)

lemma rejected_store [simp]: "store_view (upsert_rejected cv now f silent error st) = store_view st"
  by (simp add: upsert_rejected_def refetchDraftAfterConflict_def Let_def split: api_error.split)

lemma other_store [simp]:
  "store_view (upsert_finally p f st) = store_view st" "store_view (listing_rejected error st) = store_view st"
  "store_view (delete_fulfilled st) = store_view st" "store_view (delete_rejected silent error st) = store_view st"
  "store_view (hydrate_rejected n error st) = store_view st" "store_view (hydrate_effect route st) = store_view st"
  by (simp_all add: upsert_finally_def listing_rejected_def delete_fulfilled_def delete_rejected_def hydrate_rejected_def
      hydrate_effect_def Let_def) (simp_all add: store_view_def)

text \<open>A label that leaves the draft \<open>f\<close> to the deletion: no save of it, no listing, saves under trimmed ids.\<close>

fun spares :: "jsstring \<Rightarrow> sync_label \<Rightarrow> bool" where
  "spares f (Saves r) = (trimmed (fd_id r) \<and> fd_id r \<noteq> f)"
| "spares f Listing = False"
| "spares f _ = True"

definition gone :: "(jsstring \<Rightarrow> rat option) \<Rightarrow> jsstring \<Rightarrow> sync \<Rightarrow> bool" where
  "gone p f st \<longleftrightarrow> getFlowDraftById p f (sy_store st) = None \<and> map_get (sy_removed st) (trim f) False"

lemma gone_cong: "store_view st = store_view st' \<Longrightarrow> gone p f st = gone p f st'"
  by (simp add: gone_def store_view_def)

lemma sync_step_gone:
  assumes "sync_step p l st st'" and "epoch_parses p" and "upload_ids_ok st" and "spares (trim f) l" and "gone p f st"
  shows "gone p f st'"
  using assms
proof (induction rule: sync_step.induct)
  case (save r st silent)
  let ?r = "fd_id r"
  have r: "trim ?r = ?r" "?r \<noteq> trim f" "trimmed ?r" using save(3) by (simp_all add: trimmed_def)
  have "gone p f (st\<lparr>sy_store := upsertFlowDraft p r (sy_store st), sy_version := v, sy_removed := rm, sy_pending := pe\<rparr>)"
    if "map_get rm (trim f) False = map_get (sy_removed st) (trim f) False" for v rm pe
    using save(4) get_upsert [OF save(1) r(3), of f] r(2) that by (simp add: gone_def)
  from this [where rm = "sy_removed st" and pe = "sy_pending st"] this [where rm = "AList.update ?r False (sy_removed st)"]
  show ?case
    using r(2) by (simp add: persistDraftRecord_def bumpDraftStoreVersion_def Let_def r(1) gone_cong [OF flush_store])
next
  case (remove g st silent)
  then show ?case
    by (auto simp: removeDraftRecord_def bumpDraftStoreVersion_def Let_def gone_def get_delete)
next
  case (upsert_ok g payload silent st synced)
  then have "trimmed (fd_id synced)" by (auto simp: upload_ids_ok_def)
  then show ?case
    using upsert_ok(2,6) get_upsert [OF upsert_ok(3), of synced f] upsert_ok(2)
    by (auto simp: upsert_fulfilled_def gone_def Let_def settled_def)
qed (simp_all add: gone_cong [OF rejected_store] gone_cong [OF other_store(1)] gone_cong [OF other_store(2)]
    gone_cong [OF other_store(3)] gone_cong [OF other_store(4)] gone_cong [OF other_store(5)] gone_cong [OF other_store(6)]
    gone_cong [OF store_update(6)])

text \<open>
  C29: A removed draft stays removed through everything that was under way: whatever the answers to its
  uploads and to the deletion are, unless it is saved again or a listing of the server's drafts is
  taken over, the store does not have it.
\<close>

theorem removed_stays_removed:
  assumes "epoch_parses p" and "sync_run p ls sync_start st" and "trim f \<noteq> []"
    and "sync_run p ms (removeDraftRecord p f silent st) st'" and "\<forall>l \<in> set ms. spares (trim f) l"
  shows "getFlowDraftById p f (sy_store st') = None"
proof -
  have "upload_ids_ok st"
    using sync_run_invariant [OF assms(2), of upload_ids_ok] sync_start_ids sync_step_ids by blast
  then have "upload_ids_ok (removeDraftRecord p f silent st)" by (rule sync_step_ids [OF sync_step.remove])
  moreover have "gone p f (removeDraftRecord p f silent st)"
    using assms(1,3) by (simp add: removeDraftRecord_def bumpDraftStoreVersion_def Let_def gone_def get_delete)
  ultimately have "upload_ids_ok st' \<and> gone p f st'"
    using sync_run_invariant [OF assms(4), of "\<lambda>s. upload_ids_ok s \<and> gone p f s"]
      sync_step_gone [OF _ assms(1)] sync_step_ids assms(5) by metis
  then show ?thesis by (simp add: gone_def)
qed

definition after_remove :: sync where
  "after_remove = removeDraftRecord sample_date (js ''a'') False after_save"

lemma after_remove_run: "sync_run sample_date [Saves first_edit, Removes (js ''a'')] sync_start after_remove"
proof -
  have "sync_step sample_date (Saves first_edit) sync_start after_save"
    unfolding after_save_def by (rule sync_step.save)
  moreover have "sync_step sample_date (Removes (js ''a'')) after_save after_remove"
    unfolding after_remove_def by (rule sync_step.remove)
  ultimately have "sync_run sample_date (([] @ [Saves first_edit]) @ [Removes (js ''a'')]) sync_start after_remove"
    by (intro sync_run.snoc [OF sync_run.snoc [OF sync_run.nil]])
  then show ?thesis by simp
qed

lemma after_remove_calls:
  "sy_calls after_remove = [UpsertCall (js ''a'') (snd (hd (sy_sent after_save))) False, DeleteCall (js ''a'') False]"
  by (simp add: after_remove_def removeDraftRecord_def bumpDraftStoreVersion_def after_save_state(1,3) Let_def)

text \<open>The answer to the upload arrives after the removal.\<close>

theorem removed_stays_removed_witness:
  "getFlowDraftById sample_date (js ''a'') (sy_store (upsert_fulfilled sample_date (js ''a'') first_edit
     (settled (UpsertCall (js ''a'') (snd (hd (sy_sent after_save))) False) after_remove))) = None"
proof -
  have before: "sync_run sample_date [Saves first_edit] sync_start after_save"
    unfolding after_save_def by (rule sync_run_step [OF sync_step.save])
  have after: "sync_run sample_date [Internal] after_remove (upsert_fulfilled sample_date (js ''a'') first_edit
     (settled (UpsertCall (js ''a'') (snd (hd (sy_sent after_save))) False) after_remove))"
    by (rule sync_run_step [OF sync_step.upsert_ok]) (simp_all add: after_remove_calls)
  show ?thesis
    using removed_stays_removed [OF sample_date_ok before _ after [unfolded after_remove_def]]
    unfolding after_remove_def by simp
qed

definition idle_page :: conflict_view where
  "idle_page = \<lparr>cv_snapshot = None, cv_current_flow = [], cv_planning = False, cv_request_pending = False, cv_messages = []\<rparr>"

definition after_conflict :: sync where
  "after_conflict = upsert_rejected idle_page 0 (js ''a'') False ApiConflict
     (settled (UpsertCall (js ''a'') (snd (hd (sy_sent after_save))) False) after_remove)"

lemma after_conflict_calls: "RefetchCall (js ''a'') \<in> set (sy_calls after_conflict)"
  by (simp add: after_conflict_def upsert_rejected_def Let_def idle_page_def shouldKeepPendingRuntime_def conflict_toast_def
      refetchDraftAfterConflict_def hasPendingPlannerReply_def)

text \<open>
  A conflict brings a removed draft back: when a draft is removed while its upload is under way and the
  upload is refused for its revision, the listing that follows puts the server's copy into the store
  without looking at the mark of removal, which the answer to an upload does respect.
\<close>

lemma conflict_revives_removed_draft:
  "\<exists>st. sync_run sample_date [Saves first_edit, Removes (js ''a''), Internal, Listing] sync_start st \<and>
     map_get (sy_removed st) (js ''a'') False \<and> getFlowDraftById sample_date (js ''a'') (sy_store st) \<noteq> None"
proof -
  let ?st = "refetch_fulfilled sample_date (js ''a'') [first_edit] (settled (RefetchCall (js ''a'')) after_conflict)"
  have "sync_step sample_date Internal after_remove after_conflict"
    unfolding after_conflict_def by (rule sync_step.upsert_failed) (simp add: after_remove_calls)
  moreover have "sync_step sample_date Listing after_conflict ?st"
    by (rule sync_step.refetch_ok) (rule after_conflict_calls)
  ultimately have "sync_run sample_date (([Saves first_edit, Removes (js ''a'')] @ [Internal]) @ [Listing]) sync_start ?st"
    by (intro sync_run.snoc [OF sync_run.snoc [OF after_remove_run]])
  moreover have "sy_removed ?st = [(js ''a'', True)]"
    by (simp add: refetch_fulfilled_def bumpDraftStoreVersion_def Let_def settled_def)
      (simp add: after_conflict_def upsert_rejected_def Let_def idle_page_def shouldKeepPendingRuntime_def conflict_toast_def
        refetchDraftAfterConflict_def hasPendingPlannerReply_def settled_def after_remove_def removeDraftRecord_def
        bumpDraftStoreVersion_def after_save_state)
  moreover have "getFlowDraftById sample_date (js ''a'') (sy_store ?st) \<noteq> None"
  proof -
    have "sy_store ?st = upsertFlowDraft sample_date first_edit (sy_store (settled (RefetchCall (js ''a'')) after_conflict))"
      by (simp add: refetch_fulfilled_def bumpDraftStoreVersion_def Let_def)
    moreover have "normalizeDraft sample_date first_edit \<noteq> None" by (simp add: normalizeDraft_def Let_def)
    ultimately show ?thesis by (simp add: get_upsert [OF sample_date_ok] trimmed_def)
  qed
  ultimately show ?thesis by (intro exI [of _ ?st]) (simp add: map_get_def)
qed

section \<open>Taking over the server's drafts\<close>

lemma merge_remote_fold:
  "fst (fold (merge_remote p route localById) remotes (store, changed)) =
     fold (upsertFlowDraft p) (filter (\<lambda>r. shouldReplaceLocal p route r (map_of localById (fd_id r))) remotes) store"
  by (induction remotes arbitrary: store changed) (auto simp: merge_remote_def)

lemma local_by_id_get:
  assumes "distinct (map fd_id (listFlowDrafts p store))" and "k \<noteq> []" and "trimmed k"
  shows "map_of (local_by_id (listFlowDrafts p store)) k = getFlowDraftById p k store"
proof -
  have "map_of (fold (\<lambda>draft. AList.update (fd_id draft) draft) drafts acc) k =
      (case find (\<lambda>item. fd_id item = k) drafts of Some d \<Rightarrow> Some d | None \<Rightarrow> map_of acc k)"
    if "distinct (map fd_id drafts)" for drafts acc
    using that
  proof (induction drafts arbitrary: acc)
    case Nil
    then show ?case by simp
  next
    case (Cons d drafts)
    have "find (\<lambda>item. fd_id item = fd_id d) drafts = None" using Cons.prems by (auto simp: find_None_iff) (metis imageI)
    then show ?case using Cons by (auto split: option.split)
  qed
  from this [OF assms(1), of "[]"] show ?thesis
    using assms(2,3) by (simp add: local_by_id_def getFlowDraftById_def trimmed_def split: option.split)
qed

text \<open>A remote draft without messages never replaces a local one with messages.\<close>

lemma conversation_kept:
  "hasPlannerMessagesInDraft localDraft \<Longrightarrow> \<not> hasPlannerMessagesInDraft (Some remote) \<Longrightarrow> \<not> shouldReplaceLocal p route remote localDraft"
  by (cases localDraft)
    (auto simp: shouldReplaceLocal_def shouldProtectLocalConversation_def hasPlannerMessagesInDraft_def Let_def)

text \<open>
  Taking over the server's drafts changes exactly what the rule says: a draft becomes the last remote
  draft of its id that may replace it, and stays as it is when there is none; in particular a local
  draft whose chat has messages is not replaced by remote drafts without any.
\<close>

lemma hydration_merges_by_rule:
  assumes "epoch_parses p" and "\<forall>r \<in> set remotes. trimmed (fd_id r)"
    and "distinct (map fd_id (listFlowDrafts p (sy_store st)))" and "trimmed k" and "k \<noteq> []"
  shows "getFlowDraftById p k (sy_store (hydrate_fulfilled p (sy_effect st) route remotes st)) =
      (case filter (\<lambda>r. fd_id r = k \<and> shouldReplaceLocal p route r (getFlowDraftById p k (sy_store st))) remotes of
         [] \<Rightarrow> getFlowDraftById p k (sy_store st) | xs \<Rightarrow> normalizeDraft p (last xs)) \<and>
    (hasPlannerMessagesInDraft (getFlowDraftById p k (sy_store st)) \<and>
      (\<forall>r \<in> set remotes. fd_id r = k \<longrightarrow> \<not> hasPlannerMessagesInDraft (Some r)) \<longrightarrow>
      getFlowDraftById p k (sy_store (hydrate_fulfilled p (sy_effect st) route remotes st)) = getFlowDraftById p k (sy_store st))"
proof -
  let ?loc = "local_by_id (listFlowDrafts p (sy_store st))"
  let ?rs = "filter (\<lambda>r. shouldReplaceLocal p route r (map_of ?loc (fd_id r))) remotes"
  have "sy_store (hydrate_fulfilled p (sy_effect st) route remotes st) =
      fst (fold (merge_remote p route ?loc) remotes (sy_store st, False))"
    by (simp add: hydrate_fulfilled_def bumpDraftStoreVersion_def Let_def split: prod.split)
  then have store: "sy_store (hydrate_fulfilled p (sy_effect st) route remotes st) = fold (upsertFlowDraft p) ?rs (sy_store st)"
    by (simp only: merge_remote_fold)
  have "filter (\<lambda>r. fd_id r = k) ?rs =
      filter (\<lambda>r. fd_id r = k \<and> shouldReplaceLocal p route r (getFlowDraftById p k (sy_store st))) remotes"
    using local_by_id_get [OF assms(3,5,4)] by (auto intro!: filter_cong)
  then have get: "getFlowDraftById p k (sy_store (hydrate_fulfilled p (sy_effect st) route remotes st)) =
      (case filter (\<lambda>r. fd_id r = k \<and> shouldReplaceLocal p route r (getFlowDraftById p k (sy_store st))) remotes of
         [] \<Rightarrow> getFlowDraftById p k (sy_store st) | xs \<Rightarrow> normalizeDraft p (last xs))"
    using draft_store.get_fold_put [of ?rs p k "sy_store st"] assms(2,4)
    unfolding store knows_epoch_ok(2) [OF assms(1)] by (simp add: trimmed_def)
  moreover have "filter (\<lambda>r. fd_id r = k \<and> shouldReplaceLocal p route r (getFlowDraftById p k (sy_store st))) remotes = []"
    if "hasPlannerMessagesInDraft (getFlowDraftById p k (sy_store st))"
      and "\<forall>r \<in> set remotes. fd_id r = k \<longrightarrow> \<not> hasPlannerMessagesInDraft (Some r)"
    using that conversation_kept by (auto simp: filter_empty_conv)
  ultimately show ?thesis by auto
qed

theorem hydration_merges_by_rule_witness:
  "getFlowDraftById sample_date (js ''a'') (sy_store (hydrate_fulfilled sample_date (sy_effect sync_start) [] [first_edit] sync_start))
     = normalizeDraft sample_date first_edit"
proof -
  have none: "listFlowDrafts sample_date (sy_store sync_start) = []"
    by (simp add: sync_start_def listFlowDrafts_def sort_by_def map_filter_simps)
  have "getFlowDraftById sample_date (js ''a'') (sy_store sync_start) = None"
    by (simp add: getFlowDraftById_def none)
  moreover have "shouldReplaceLocal sample_date [] first_edit None" by (simp add: shouldReplaceLocal_def Let_def)
  ultimately show ?thesis
    using hydration_merges_by_rule [OF sample_date_ok, of "[first_edit]" sync_start "js ''a''" "[]"] none
    by (simp add: trimmed_def)
qed

end
