(* ===== verification/PlanGeneration.thy ===== *)
theory PlanGeneration imports FlowAgents FlowSubmit PlannerRuntime begin

text \<open>
  \<open>components/flowPlanGenerationUtils.ts\<close>: what the page does when the user asks the planner for a
  plan, when the answer comes, when a flow is put on the board, and when it is renamed. Each function
  is one definition; \<open>now\<close>, \<open>hex\<close>, \<open>en\<close> and \<open>sort_with\<close> are as in \<open>FlowState\<close> and \<open>FlowGraph\<close>,
  \<open>encodeURIComponent\<close> is a parameter.
\<close>

section \<open>Asking for a plan\<close>

definition resolvePlannerSessionForRequest :: "jsstring \<Rightarrow> jsstring option \<Rightarrow> jsstring \<Rightarrow> jsstring \<Rightarrow> jsstring" where
  "resolvePlannerSessionForRequest hex plannerSessionKey boardId plannerAgentId =
     (let normalized = trim_opt plannerSessionKey in
      if normalized \<noteq> [] then normalized else buildPlannerSessionKey hex boardId plannerAgentId)"

datatype instruction_reason = PlanningReason | PromptBlocked | EmptyInstruction | NoExecutor | ExecutorUnavailable

record instruction_rejected =
  ir_reason :: instruction_reason
  ir_warning :: "jsstring option"

record instruction_context =
  ic_instruction :: jsstring
  ic_executor_agent_id :: jsstring
  ic_executor :: agent
  ic_planner_session_key :: jsstring

definition no_executor_message :: jsstring where
  "no_executor_message = [0x8BF7, 0x5148, 0x914D, 0x7F6E, 0x53EF, 0x7528] @ js '' Agent'' @ [0xFF08, 0x6CF3, 0x9053, 0x6216, 0x9ED8, 0x8BA4, 0x6267, 0x884C] @ js '' Agent'' @ [0xFF09]"

definition executor_gone_message :: jsstring where
  "executor_gone_message = [0x5F53, 0x524D, 0x6267, 0x884C] @ js '' Agent '' @ [0x4E0D, 0x53EF, 0x7528]"

definition resolvePlanInstructionContext :: "jsstring \<Rightarrow> bool \<Rightarrow> bool \<Rightarrow> jsstring \<Rightarrow> jsstring \<Rightarrow> agent list \<Rightarrow> flow_lane list
    \<Rightarrow> jsstring option \<Rightarrow> jsstring \<Rightarrow> jsstring \<Rightarrow> instruction_rejected + instruction_context" where
  "resolvePlanInstructionContext hex isPlanning canPrompt plannerInput selectedExecutorAgentId uniqueAgents lanes
       plannerSessionKey boardId plannerAgentId =
     (if isPlanning then Inl \<lparr>ir_reason = PlanningReason, ir_warning = None\<rparr>
      else if \<not> canPrompt then Inl \<lparr>ir_reason = PromptBlocked,
        ir_warning = Some ([0x6D41, 0x7A0B, 0x8FD0, 0x884C, 0x4E2D, 0xFF0C, 0x5148, 0x4E2D, 0x65AD, 0x540E, 0x518D, 0x7F16, 0x8F91])\<rparr>
      else let instruction = trim plannerInput in
      if instruction = [] then Inl \<lparr>ir_reason = EmptyInstruction, ir_warning = Some ([0x8BF7, 0x8F93, 0x5165, 0x6D41, 0x7A0B, 0x62C6, 0x89E3, 0x6307, 0x4EE4])\<rparr>
      else case resolvePlannerExecutor selectedExecutorAgentId uniqueAgents lanes of (executorAgentId, executor) \<Rightarrow>
        if executorAgentId = [] then Inl \<lparr>ir_reason = NoExecutor, ir_warning = Some no_executor_message\<rparr>
        else case executor of
          None \<Rightarrow> Inl \<lparr>ir_reason = ExecutorUnavailable, ir_warning = Some executor_gone_message\<rparr>
        | Some executor \<Rightarrow> Inr \<lparr>ic_instruction = instruction, ic_executor_agent_id = executorAgentId,
            ic_executor = executor,
            ic_planner_session_key = resolvePlannerSessionForRequest hex plannerSessionKey boardId plannerAgentId\<rparr>)"

record plan_submission =
  ps_next_input :: jsstring
  ps_expanded :: bool
  ps_session_key :: jsstring
  ps_user_message :: chat_message
  ps_request_id :: int
  ps_pending :: pending_request
  ps_is_planning :: bool
  ps_is_stopping :: bool
  ps_status :: ui_status
  ps_block_overlay :: bool

definition resolvePlanSubmissionIntent :: "jsstring \<Rightarrow> jsstring \<Rightarrow> int \<Rightarrow> jsstring \<Rightarrow> int \<Rightarrow> plan_submission" where
  "resolvePlanSubmissionIntent instruction plannerSessionKey requestSeq createdAtIso currentRevision =
     (let requestId = requestSeq + 1 in
      \<lparr>ps_next_input = [], ps_expanded = True, ps_session_key = plannerSessionKey,
       ps_user_message = \<lparr>m_role = UserRole, m_content = instruction, m_kind = None, m_payload = None,
         m_created_at = createdAtIso\<rparr>,
       ps_request_id = requestId,
       ps_pending = \<lparr>rq_id = requestId, rq_session = plannerSessionKey, rq_allow_http = False,
         rq_baseline = Some currentRevision, rq_latest = Some currentRevision\<rparr>,
       ps_is_planning = True, ps_is_stopping = False, ps_status = Session Planning, ps_block_overlay = True\<rparr>)"

record plan_failure_ui =
  pf_is_planning :: bool
  pf_is_stopping :: bool
  pf_status :: ui_status
  pf_block_overlay :: bool
  pf_toast_message :: jsstring

text \<open>\<open>error\<close> is the message of an \<open>Error\<close>, None for any other thrown value.\<close>

definition resolvePlanFailureUiIntent :: "jsstring option \<Rightarrow> plan_failure_ui" where
  "resolvePlanFailureUiIntent error =
     \<lparr>pf_is_planning = False, pf_is_stopping = False, pf_status = Session PlanFailed, pf_block_overlay = True,
      pf_toast_message = nullish error ([0x6D41, 0x7A0B, 0x89C4, 0x5212, 0x5931, 0x8D25])\<rparr>"

definition buildFlowGeneratePayload :: "jsstring \<Rightarrow> jsstring \<Rightarrow> jsstring \<Rightarrow> jsstring option \<Rightarrow> jsstring \<Rightarrow> jsstring
    \<Rightarrow> flow_node list \<Rightarrow> flow_edge list \<Rightarrow> generate_request" where
  "buildFlowGeneratePayload instruction instanceId executorAgentId plannerAgentId plannerSessionKey flowDisplayName
       flowNodes flowEdges =
     \<lparr>gq_requirement = instruction, gq_instance_id = instanceId, gq_executor_agent_id = executorAgentId,
      gq_planner_agent_id = non_empty (trim_opt plannerAgentId), gq_manager_agent_id = Some executorAgentId,
      gq_planner_session_key = Some plannerSessionKey, gq_flow_name = non_empty (trim flowDisplayName),
      gq_current_nodes = Some flowNodes, gq_current_edges = Some flowEdges\<rparr>"

section \<open>The answer to a plan\<close>

datatype guard_reason = ScopeMismatch | PendingMissing | RequestMismatch | SessionMismatch

definition resolvePlanSuccessGuardIntent :: "jsstring \<Rightarrow> jsstring \<Rightarrow> pending_request option \<Rightarrow> int \<Rightarrow> jsstring
    \<Rightarrow> guard_reason + pending_request" where
  "resolvePlanSuccessGuardIntent flowScopeAtRequest activeFlowScope pendingRequest requestId plannerSessionKey =
     (if flowScopeAtRequest \<noteq> activeFlowScope then Inl ScopeMismatch
      else case pendingRequest of
        None \<Rightarrow> Inl PendingMissing
      | Some pending \<Rightarrow>
          if rq_id pending \<noteq> requestId then Inl RequestMismatch
          else if rq_session pending \<noteq> plannerSessionKey then Inl SessionMismatch
          else Inr pending)"

definition resolvePlanFailureGuardIntent :: "jsstring \<Rightarrow> jsstring \<Rightarrow> pending_request option \<Rightarrow> int \<Rightarrow> jsstring
    \<Rightarrow> guard_reason + pending_request" where
  "resolvePlanFailureGuardIntent flowScopeAtRequest activeFlowScope pendingRequest requestId plannerSessionKey =
     (if flowScopeAtRequest \<noteq> activeFlowScope then Inl ScopeMismatch
      else case pendingRequest of
        None \<Rightarrow> Inl PendingMissing
      | Some pending \<Rightarrow>
          if rq_id pending \<noteq> requestId then Inl RequestMismatch
          else if rq_session pending \<noteq> plannerSessionKey then Inl SessionMismatch
          else Inr pending)"

definition canHydratePlannerGraphFromHttp :: "pending_request option \<Rightarrow> int \<Rightarrow> jsstring \<Rightarrow> bool" where
  "canHydratePlannerGraphFromHttp pendingRequest requestId plannerSessionKey = False"

definition resolveFlowMetadataAfterPlan :: "jsstring \<Rightarrow> jsstring \<Rightarrow> jsstring \<Rightarrow> jsstring option \<times> jsstring option" where
  "resolveFlowMetadataAfterPlan instructionParam flowRequirement flowDisplayName =
     (let instruction = trim instructionParam in
      if instruction = [] then (None, None)
      else
        let normalizedFlowDisplayName = trim flowDisplayName in
        (if trim flowRequirement = [] then Some instruction else None,
         if normalizedFlowDisplayName = [] \<or> normalizedFlowDisplayName = unnamed_flow
         then Some (buildDraftFlowName instruction) else None))"

definition buildPlannerHydrationDraftNodes :: "flow_node list \<Rightarrow> flow_edge list \<Rightarrow> node_draft list" where
  "buildPlannerHydrationDraftNodes responseNodes responseEdges =
     map (\<lambda>node. \<lparr>d_id = n_id node, d_title = n_title node, d_description = Some (nullish (n_description node) []),
         d_depends_on = n_depends_on node, d_sensitive = n_sensitive node\<rparr>)
       (normalizeFlowNodes (map raw_of_node responseNodes) responseEdges)"

record commit_intent =
  ci_last_response :: generate_response
  ci_planner_session_key :: jsstring
  ci_is_draft_canvas :: bool
  ci_is_submitted_flow :: bool
  ci_next_requirement :: "jsstring option"
  ci_next_display_name :: "jsstring option"

definition resolvePlanSuccessCommitIntent :: "generate_response \<Rightarrow> flow_node list \<Rightarrow> jsstring \<Rightarrow> jsstring \<Rightarrow> jsstring
    \<Rightarrow> commit_intent" where
  "resolvePlanSuccessCommitIntent response nextNodes instruction flowRequirement flowDisplayName =
     (case resolveFlowMetadataAfterPlan instruction flowRequirement flowDisplayName of
        (nextRequirement, nextFlowDisplayName) \<Rightarrow>
      \<lparr>ci_last_response = response\<lparr>gr_messages := sanitizePlannerMessages (map raw_of_message (gr_messages response)),
         gr_nodes := nextNodes, gr_edges := deriveEdgesFromNodes nextNodes\<rparr>,
       ci_planner_session_key = gr_planner_session_key response,
       ci_is_draft_canvas = True, ci_is_submitted_flow = False,
       ci_next_requirement = nextRequirement, ci_next_display_name = nextFlowDisplayName\<rparr>)"

datatype hydrate_intent =
    HydrateApply "flow_node list" "flow_lane list" "(jsstring \<times> jsstring) list" pending_request
  | HydrateDisabled pending_request

definition resolvePlanHydrateApplyIntent :: "bool \<Rightarrow> pending_request
    \<Rightarrow> (flow_node list \<times> flow_lane list \<times> (jsstring \<times> jsstring) list) option \<Rightarrow> hydrate_intent" where
  "resolvePlanHydrateApplyIntent canHydrateFromHttp pendingRequest reconciled =
     (case reconciled of
        None \<Rightarrow> HydrateDisabled pendingRequest
      | Some (nodes, lanes, nodeLaneById) \<Rightarrow>
          if \<not> canHydrateFromHttp then HydrateDisabled pendingRequest
          else HydrateApply nodes lanes nodeLaneById (pendingRequest\<lparr>rq_allow_http := False\<rparr>))"

definition orchestratePlanSuccessIntents ::
  "((layer_draft \<Rightarrow> layer_draft \<Rightarrow> int) \<Rightarrow> layer_draft list \<Rightarrow> layer_draft list) \<Rightarrow> jsstring \<Rightarrow>
   (jsstring \<Rightarrow> jsstring \<Rightarrow> int) \<Rightarrow> generate_response \<Rightarrow> bool \<Rightarrow> pending_request \<Rightarrow> flow_node list \<Rightarrow>
   (jsstring \<times> jsstring) list \<Rightarrow> flow_lane list \<Rightarrow> agent list \<Rightarrow> jsstring option \<Rightarrow> jsstring \<Rightarrow> jsstring \<Rightarrow> jsstring \<Rightarrow>
   hydrate_intent \<times> commit_intent" where
  "orchestratePlanSuccessIntents sort_with now en response canHydrateFromHttp pendingRequest currentNodes
       currentNodeLaneById currentLanes uniqueAgents selectedExecutorAgentId instruction flowRequirement flowDisplayName =
     (let reconciled = (if canHydrateFromHttp then Some (reconcilePlannerCanvasState sort_with now en
              (buildPlannerHydrationDraftNodes (gr_nodes response) (gr_edges response))
              currentNodes currentNodeLaneById currentLanes uniqueAgents selectedExecutorAgentId) else None);
          hydrateIntent = resolvePlanHydrateApplyIntent canHydrateFromHttp pendingRequest reconciled
      in (hydrateIntent,
          resolvePlanSuccessCommitIntent response
            (case hydrateIntent of HydrateApply nodes _ _ _ \<Rightarrow> nodes | HydrateDisabled _ \<Rightarrow> currentNodes)
            instruction flowRequirement flowDisplayName))"

section \<open>Putting a flow on the board\<close>

datatype preflight_reason = NotEditable | EmptyNodes | MissingAgents | PreflightNoExecutor
  | PreflightExecutorUnavailable | InvalidNodes

datatype toast_level = WarningToast | ErrorToast

record preflight_rejected =
  fr_reason :: preflight_reason
  fr_message :: jsstring
  fr_level :: toast_level

record preflight_resolved =
  fp_executor_agent_id :: jsstring
  fp_executor :: agent
  fp_prepared_nodes :: "flow_node list"

definition resolveFlowConfirmPreflight :: "bool \<Rightarrow> flow_node list \<Rightarrow> jsstring \<Rightarrow> agent list \<Rightarrow> flow_lane list \<Rightarrow> flow_lane list
    \<Rightarrow> (jsstring \<times> jsstring) list \<Rightarrow> preflight_rejected + preflight_resolved" where
  "resolveFlowConfirmPreflight canEdit flowNodes selectedExecutorAgentId uniqueAgents lanes normalizedLanes nodeLaneById =
     (if \<not> canEdit then Inl \<lparr>fr_reason = NotEditable, fr_message = [0x6B63, 0x5728, 0x89C4, 0x5212, 0x4E2D, 0xFF0C, 0x8BF7, 0x7A0D, 0x540E, 0x518D, 0x8BD5], fr_level = WarningToast\<rparr>
      else if flowNodes = [] then Inl \<lparr>fr_reason = EmptyNodes,
        fr_message = [0x5F53, 0x524D, 0x6CA1, 0x6709, 0x53EF, 0x52A0, 0x5165, 0x770B, 0x677F, 0x7684, 0x6D41, 0x7A0B, 0x8282, 0x70B9], fr_level = WarningToast\<rparr>
      else let missingAgentIds =
          collectUnavailableAgentIdsForConfirm selectedExecutorAgentId uniqueAgents normalizedLanes flowNodes in
      if missingAgentIds \<noteq> [] then Inl \<lparr>fr_reason = MissingAgents,
        fr_message = ([0x6D41, 0x7A0B, 0x5B58, 0x5728, 0x4E0D, 0x53EF, 0x7528] @ js '' Agent'' @ [0xFF1A]) @ js_join ([0x3001]) missingAgentIds @ ([0xFF0C, 0x8BF7, 0x5148, 0x91CD, 0x65B0, 0x5206, 0x914D, 0x540E, 0x518D, 0x8FD0, 0x884C]),
        fr_level = ErrorToast\<rparr>
      else let executorAgentId = resolveExecutorAgentId selectedExecutorAgentId uniqueAgents lanes in
      if executorAgentId = [] then Inl \<lparr>fr_reason = PreflightNoExecutor, fr_message = no_executor_message,
        fr_level = WarningToast\<rparr>
      else case find (\<lambda>agent. ag_agent_id agent = executorAgentId) uniqueAgents of
        None \<Rightarrow> Inl \<lparr>fr_reason = PreflightExecutorUnavailable, fr_message = executor_gone_message,
          fr_level = WarningToast\<rparr>
      | Some executor \<Rightarrow>
          (case prepareNodesForSubmission flowNodes nodeLaneById normalizedLanes (map ag_agent_id uniqueAgents) executorAgentId of
             Inr preparedNodes \<Rightarrow> Inr \<lparr>fp_executor_agent_id = executorAgentId, fp_executor = executor,
               fp_prepared_nodes = preparedNodes\<rparr>
           | Inl error \<Rightarrow> Inl \<lparr>fr_reason = InvalidNodes, fr_message = prepare_message error, fr_level = ErrorToast\<rparr>))"

definition buildConfirmRequestPayload :: "jsstring \<Rightarrow> jsstring \<Rightarrow> jsstring \<Rightarrow> jsstring \<Rightarrow> jsstring \<Rightarrow> jsstring option
    \<Rightarrow> jsstring option \<Rightarrow> flow_node list \<Rightarrow> flow_edge list \<Rightarrow> confirm_request" where
  "buildConfirmRequestPayload instanceId currentFlowId activeSubmittedRequirementId executorAgentId flowDisplayName
       plannerSessionKey executionSessionPrefix flowNodes flowEdges =
     \<lparr>cq_instance_id = instanceId,
      cq_requirement_id = non_empty (str_or (trim currentFlowId) activeSubmittedRequirementId),
      cq_executor_agent_id = executorAgentId, cq_manager_agent_id = Some executorAgentId,
      cq_requirement_title = non_empty (trim flowDisplayName), cq_planner_session_key = plannerSessionKey,
      cq_execution_session_prefix = executionSessionPrefix, cq_nodes = flowNodes, cq_edges = flowEdges\<rparr>"

definition resolvePostConfirmRequirementId :: "jsstring list \<Rightarrow> task list \<Rightarrow> jsstring" where
  "resolvePostConfirmRequirementId createdTaskIds tasks =
     (case find (\<lambda>task. t_id task \<in> set createdTaskIds) tasks of
        None \<Rightarrow> []
      | Some firstCreatedTask \<Rightarrow> getRequirementIdFromTask firstCreatedTask)"

record confirm_canvas =
  cc_nodes :: "flow_node list"
  cc_edges :: "flow_edge list"
  cc_lanes :: "flow_lane list"
  cc_node_lane_by_id :: "(jsstring \<times> jsstring) list"

definition deriveConfirmCanvasState :: "jsstring \<Rightarrow> flow_node list \<Rightarrow> flow_edge list \<Rightarrow> agent list \<Rightarrow> jsstring \<Rightarrow> confirm_canvas" where
  "deriveConfirmCanvasState now responseNodes responseEdges uniqueAgents executorAgentId =
     (let normalizedNodes = normalizeFlowNodes (map raw_of_node responseNodes) responseEdges in
      case buildLanesAndNodeLaneMapFromNodes now normalizedNodes uniqueAgents (Some executorAgentId) of
        (lanes, nodeLaneById) \<Rightarrow>
      \<lparr>cc_nodes = normalizedNodes, cc_edges = deriveEdgesFromNodes normalizedNodes, cc_lanes = lanes,
       cc_node_lane_by_id = nodeLaneById\<rparr>)"

record confirm_success_ui =
  cs_is_draft_canvas :: bool
  cs_is_submitted_flow :: bool
  cs_is_submit_confirm_open :: bool
  cs_toast_message :: jsstring
  cs_next_flow_id :: "jsstring option"
  cs_navigate_to :: "jsstring option"

definition resolveConfirmSuccessUiIntent :: "(jsstring \<Rightarrow> jsstring) \<Rightarrow> nat \<Rightarrow> nat \<Rightarrow> jsstring \<Rightarrow> confirm_success_ui" where
  "resolveConfirmSuccessUiIntent encodeURIComponent createdTaskCount dispatchedTaskCount nextRequirementId =
     (let normalizedNextRequirementId = trim nextRequirementId in
      \<lparr>cs_is_draft_canvas = False, cs_is_submitted_flow = True, cs_is_submit_confirm_open = False,
       cs_toast_message = ([0x5DF2, 0x5165, 0x961F] @ js '' '') @ js_digits createdTaskCount @ (js '' '' @ [0x4E2A, 0x4EFB, 0x52A1, 0xFF0C, 0x5DF2, 0x6295, 0x653E] @ js '' '') @
         js_digits dispatchedTaskCount @ (js '' '' @ [0x4E2A]),
       cs_next_flow_id = non_empty normalizedNextRequirementId,
       cs_navigate_to = map_option (\<lambda>ident. js ''/flow/edit/'' @ encodeURIComponent ident)
         (non_empty normalizedNextRequirementId)\<rparr>)"

section \<open>Renaming and the action button\<close>

record rename_intent =
  rn_next_name :: jsstring
  rn_requirement_id :: jsstring
  rn_draft_id :: jsstring

definition resolveRenameFlowIntent :: "jsstring \<Rightarrow> jsstring \<Rightarrow> jsstring \<Rightarrow> jsstring + rename_intent" where
  "resolveRenameFlowIntent flowNameInput activeSubmittedRequirementId currentFlowId =
     (let nextName = trim flowNameInput in
      if nextName = [] then Inl ([0x6D41, 0x7A0B, 0x540D, 0x79F0, 0x4E0D, 0x80FD, 0x4E3A, 0x7A7A])
      else Inr \<lparr>rn_next_name = nextName, rn_requirement_id = trim activeSubmittedRequirementId,
        rn_draft_id = trim currentFlowId\<rparr>)"

definition shouldPersistRenamedDraft :: "jsstring \<Rightarrow> bool \<Rightarrow> bool \<Rightarrow> bool" where
  "shouldPersistRenamedDraft normalizedDraftId hasExistingDraft isDraftCanvas \<longleftrightarrow>
     normalizedDraftId \<noteq> [] \<and> (hasExistingDraft \<or> isDraftCanvas)"

datatype detail_action = StopAction | ContinueAction | SubmitAction

record detail_intent =
  da_show :: bool
  da_kind :: detail_action
  da_label :: jsstring
  da_disabled :: bool

definition resolveFlowDetailActionIntent :: "flow_runtime_state \<Rightarrow> bool \<Rightarrow> bool \<Rightarrow> bool \<Rightarrow> bool \<Rightarrow> detail_intent" where
  "resolveFlowDetailActionIntent flowRuntimeState isFlowActioning isPlanning isSubmittingFlow canConfirm =
     (if flowRuntimeState = FlowRunning then
        \<lparr>da_show = True, da_kind = StopAction,
         da_label = (if isFlowActioning then [0x4E2D, 0x65AD, 0x4E2D] @ js ''...'' else [0x4E2D, 0x65AD]),
         da_disabled = (isFlowActioning \<or> isPlanning)\<rparr>
      else if flowRuntimeState = FlowBlocked then
        \<lparr>da_show = True, da_kind = ContinueAction,
         da_label = (if isFlowActioning then [0x7EE7, 0x7EED, 0x4E2D] @ js ''...'' else [0x7EE7, 0x7EED]),
         da_disabled = (isFlowActioning \<or> isPlanning)\<rparr>
      else
        \<lparr>da_show = False, da_kind = SubmitAction,
         da_label = (if isSubmittingFlow then [0x8FD0, 0x884C, 0x4E2D] @ js ''...'' else [0x8FD0, 0x884C]),
         da_disabled = (\<not> canConfirm \<or> isSubmittingFlow \<or> isPlanning \<or> isFlowActioning)\<rparr>)"

definition resolveFlowDetailActionDispatch :: "flow_runtime_state \<Rightarrow> detail_action" where
  "resolveFlowDetailActionDispatch flowRuntimeState =
     (if flowRuntimeState = FlowRunning then StopAction
      else if flowRuntimeState = FlowBlocked then ContinueAction
      else SubmitAction)"

lemma detail_dispatch_matches_button:
  "resolveFlowDetailActionDispatch st = da_kind (resolveFlowDetailActionIntent st acting planning submitting canConfirm)"
  by (simp add: resolveFlowDetailActionDispatch_def resolveFlowDetailActionIntent_def)

section \<open>What passes the preflight\<close>

lemma preflight_Inr:
  assumes "resolveFlowConfirmPreflight canEdit nodes sel agents lanes laneList m = Inr ok"
  shows "canEdit" and "nodes \<noteq> []"
    and "collectUnavailableAgentIdsForConfirm sel agents laneList nodes = []"
    and "fp_executor_agent_id ok = resolveExecutorAgentId sel agents lanes" and "fp_executor_agent_id ok \<noteq> []"
    and "fp_executor ok \<in> set agents" and "ag_agent_id (fp_executor ok) = fp_executor_agent_id ok"
    and "prepareNodesForSubmission nodes m laneList (map ag_agent_id agents) (fp_executor_agent_id ok) = Inr (fp_prepared_nodes ok)"
  using assms
  by (auto simp: resolveFlowConfirmPreflight_def Let_def find_Some_iff split: if_splits option.splits sum.splits)

lemma resolveExecutor_trimmed [simp]: "trimmed (resolveExecutorAgentId sel agents lanes)"
proof -
  have lane: "trimmed a" if "find P (map (\<lambda>lane. trim_opt (l_agent_id lane)) lanes) = Some a" for P a
    using find_map_SomeD [OF that] by (auto simp: trim_opt_def)
  have main: "trimmed (nullish (map_option (\<lambda>agent. trim (ag_agent_id agent)) x) [])" for x
    by (cases x) simp_all
  show ?thesis
    unfolding resolveExecutorAgentId_def Let_def
    using lane main [of "find (\<lambda>agent. trim (ag_agent_id agent) = js ''main'') agents"]
    by (auto split: option.split list.split simp del: trim_js)
qed

lemma submit_pool_known:
  assumes "resolveFlowConfirmPreflight canEdit nodes sel agents lanes laneList m = Inr ok"
  shows "set (submit_pool (fp_executor_agent_id ok) (map ag_agent_id agents)) =
    (\<lambda>agent. trim (ag_agent_id agent)) ` set agents - {[]}"
proof -
  note ok = preflight_Inr [OF assms]
  have "trim (fp_executor_agent_id ok) = trim (ag_agent_id (fp_executor ok))" by (simp add: ok(7))
  then have "trim (fp_executor_agent_id ok) \<in> (\<lambda>agent. trim (ag_agent_id agent)) ` set agents" using ok(6) by blast
  then show ?thesis by (auto simp: submit_pool_def)
qed

text \<open>An agent of the lane of a node is the agent of that node.\<close>

definition lane_agent_of :: "flow_node \<Rightarrow> (jsstring \<times> jsstring) list \<Rightarrow> flow_lane list \<Rightarrow> jsstring" where
  "lane_agent_of node m laneList =
     nullish (Option.bind (map_of (lane_by_id laneList) (resolveNodeLaneId (n_id node) m laneList)) l_agent_id) []"

lemma assign_nodes_lane_agent:
  "list_all2 (\<lambda>x y. lane_agent_of x m laneList \<noteq> [] \<and> lane_agent_of x m laneList \<in> set pool \<longrightarrow>
     n_agent_id y = Some (lane_agent_of x m laneList)) ns (assign_nodes ids depth m laneList pool offsets ns)"
  by (induction ns arbitrary: offsets) (simp_all add: Let_def lane_agent_of_def str_or_def)

lemma lane_by_id_mem: "map_of (lane_by_id laneList) k = Some lane \<Longrightarrow> lane \<in> set laneList"
proof -
  have "map_of (fold (\<lambda>lane. AList.update (l_id lane) lane) laneList m) k = Some lane \<longrightarrow>
      lane \<in> set laneList \<or> map_of m k = Some lane" for m
  proof (induction laneList arbitrary: m)
    case (Cons a laneList)
    show ?case using Cons.IH [of "AList.update (l_id a) a m"] by (auto split: if_splits)
  qed simp
  from this [of "[]"] show "map_of (lane_by_id laneList) k = Some lane \<Longrightarrow> lane \<in> set laneList"
    by (simp add: lane_by_id_def)
qed

lemma preflight_lane_agent:
  assumes "resolveFlowConfirmPreflight canEdit nodes sel agents lanes laneList m = Inr ok"
    and "\<forall>lane \<in> set laneList. trimmed (nullish (l_agent_id lane) [])" and "lane_agent_of x m laneList \<noteq> []"
  shows "lane_agent_of x m laneList \<in> set (submit_pool (fp_executor_agent_id ok) (map ag_agent_id agents))"
proof -
  obtain lane where lane: "lane \<in> set laneList" "lane_agent_of x m laneList = nullish (l_agent_id lane) []"
    using assms(3) lane_by_id_mem [of laneList "resolveNodeLaneId (n_id x) m laneList"]
    unfolding lane_agent_of_def
    by (cases "map_of (lane_by_id laneList) (resolveNodeLaneId (n_id x) m laneList)") simp_all
  then have "trim_opt (l_agent_id lane) = lane_agent_of x m laneList"
    using assms(2) by (simp add: trim_opt_def trimmed_eq)
  then show ?thesis
    using assms(3) unfolding submit_pool_known [OF assms(1)]
    using preflight_Inr(3) [OF assms(1), unfolded unavailable_none, THEN bspec, of "trim_opt (l_agent_id lane)"]
      imageI [OF lane(1), of "\<lambda>lane. trim_opt (l_agent_id lane)"]
    by simp
qed

lemma preflight_nodes:
  assumes ok: "resolveFlowConfirmPreflight canEdit nodes sel agents lanes laneList m = Inr ok"
    and lanes: "\<forall>lane \<in> set laneList. trimmed (nullish (l_agent_id lane) [])"
  shows "list_all2 (\<lambda>x y. n_id y = n_id x \<and>
      (\<exists>a. n_agent_id y = Some a \<and> a \<noteq> [] \<and> a \<in> (\<lambda>agent. trim (ag_agent_id agent)) ` set agents \<and>
         (lane_agent_of x m laneList \<noteq> [] \<longrightarrow> a = lane_agent_of x m laneList)))
    nodes (fp_prepared_nodes ok)"
proof -
  let ?pool = "submit_pool (fp_executor_agent_id ok) (map ag_agent_id agents)"
  let ?out = "fp_prepared_nodes ok"
  note prep = preflight_Inr(8) [OF ok]
  have out: "?out = assign_nodes (map n_id nodes) (submit_depth nodes) m laneList ?pool [] nodes"
    using prep by (auto simp: prepare_eq split: if_splits)
  have "list_all2 (\<lambda>x y. submitted nodes ?pool x y \<and>
      (lane_agent_of x m laneList \<noteq> [] \<and> lane_agent_of x m laneList \<in> set ?pool \<longrightarrow>
         n_agent_id y = Some (lane_agent_of x m laneList))) nodes ?out"
    using prepare_Inr(5) [OF prep] assign_nodes_lane_agent [of m laneList ?pool nodes "map n_id nodes" "submit_depth nodes" "[]"]
    unfolding out by (simp add: list_all2_conv_all_nth)
  then show ?thesis
  proof (rule list_all2_mono)
    fix x y
    assume xy: "submitted nodes ?pool x y \<and>
      (lane_agent_of x m laneList \<noteq> [] \<and> lane_agent_of x m laneList \<in> set ?pool \<longrightarrow>
         n_agent_id y = Some (lane_agent_of x m laneList))"
    then have "submitted nodes ?pool x y" by blast
    then obtain inst a where "a \<in> set ?pool"
        "y = x\<lparr>n_depends_on := uniq (filter (\<lambda>d. d \<noteq> n_id x \<and> d \<in> flow_ids nodes) (n_depends_on x)),
           n_layer := jint (map_get (submit_depth nodes) (n_id x) 0 + 1),
           n_instance_id := inst, n_agent_id := Some a\<rparr>"
      unfolding submitted_def by blast
    then have a: "a \<in> set ?pool" "n_agent_id y = Some a" "n_id y = n_id x" by simp_all
    then show "n_id y = n_id x \<and> (\<exists>a. n_agent_id y = Some a \<and> a \<noteq> [] \<and>
        a \<in> (\<lambda>agent. trim (ag_agent_id agent)) ` set agents \<and>
        (lane_agent_of x m laneList \<noteq> [] \<longrightarrow> a = lane_agent_of x m laneList))"
      using xy preflight_lane_agent [OF ok lanes] unfolding submit_pool_known [OF ok] by auto
  qed
qed

text \<open>
  A flow that passes the preflight of the board can run as it is drawn: it may be edited, has nodes,
  no two with one id and no dependency cycle; every agent that a lane, a node or the selection names is
  one of the overview; the executor is an agent of the overview; and each node handed over has an agent
  of the overview, the one of its lane whenever its lane has one.
\<close>

lemma preflight_ok_executable:
  assumes "resolveFlowConfirmPreflight canEdit nodes sel agents lanes laneList m = Inr ok"
    and "\<forall>lane \<in> set laneList. trimmed (nullish (l_agent_id lane) [])"
  shows "canEdit \<and> nodes \<noteq> [] \<and> distinct (map n_id nodes) \<and> acyclic (flow_edges nodes) \<and>
    (\<forall>node \<in> set nodes. trim_opt (n_agent_id node) = [] \<or>
       trim_opt (n_agent_id node) \<in> (\<lambda>agent. trim (ag_agent_id agent)) ` set agents) \<and>
    fp_executor ok \<in> set agents \<and> ag_agent_id (fp_executor ok) = fp_executor_agent_id ok \<and>
    list_all2 (\<lambda>x y. n_id y = n_id x \<and>
      (\<exists>a. n_agent_id y = Some a \<and> a \<noteq> [] \<and> a \<in> (\<lambda>agent. trim (ag_agent_id agent)) ` set agents \<and>
         (lane_agent_of x m laneList \<noteq> [] \<longrightarrow> a = lane_agent_of x m laneList)))
    nodes (fp_prepared_nodes ok)"
proof (intro conjI ballI)
  note ok = preflight_Inr [OF assms(1)]
  show "canEdit" "nodes \<noteq> []" "fp_executor ok \<in> set agents" "ag_agent_id (fp_executor ok) = fp_executor_agent_id ok"
    using ok by simp_all
  show "distinct (map n_id nodes)" "acyclic (flow_edges nodes)" using prepare_Inr(1,2) [OF ok(8)] by simp_all
  show "trim_opt (n_agent_id node) = [] \<or> trim_opt (n_agent_id node) \<in> (\<lambda>agent. trim (ag_agent_id agent)) ` set agents"
    if "node \<in> set nodes" for node
    using ok(3)[unfolded unavailable_none] that by blast
qed (rule preflight_nodes [OF assms])

definition sample_agent :: "string \<Rightarrow> string \<Rightarrow> agent" where
  "sample_agent instance ident = \<lparr>ag_instance_id = js instance, ag_instance_name = js instance, ag_agent_id = js ident,
     ag_agent_name = js ident, ag_status = AgentIdle, ag_is_active = True, ag_last_active_at = None, ag_drilldown_path = []\<rparr>"

theorem preflight_ok_executable_witness:
  "\<exists>ok. resolveFlowConfirmPreflight True [sample_node ''b'' ''B'' [''a''], sample_node ''a'' ''A'' []] (js ''main'')
     [sample_agent ''x'' ''main''] [] [] [] = Inr ok \<and> length (fp_prepared_nodes ok) = 2 \<and>
     fp_executor ok = sample_agent ''x'' ''main''"
proof -
  let ?nodes = "[sample_node ''b'' ''B'' [''a''], sample_node ''a'' ''A'' []]"
  obtain out where out: "prepareNodesForSubmission ?nodes [] [] [] (js ''main'') = Inr out"
    using flow_two_accepted by (elim exE conjE)
  have pool: "submit_pool (js ''main'') [js ''main''] = submit_pool (js ''main'') []"
    by (simp add: submit_pool_def uniq_def char_white_def)
  have "prepareNodesForSubmission ?nodes [] [] [js ''main''] (js ''main'') = prepareNodesForSubmission ?nodes [] [] [] (js ''main'')"
    by (simp only: prepareNodesForSubmission_def pool)
  then have ok: "resolveFlowConfirmPreflight True ?nodes (js ''main'') [sample_agent ''x'' ''main''] [] [] [] =
      Inr \<lparr>fp_executor_agent_id = js ''main'', fp_executor = sample_agent ''x'' ''main'', fp_prepared_nodes = out\<rparr>"
    using out
    by (simp add: resolveFlowConfirmPreflight_def collectUnavailableAgentIdsForConfirm_def add_missing_def Let_def
        resolveExecutorAgentId_def has_agent_id_def sample_agent_def sample_node_def char_white_def trim_opt_def)
  show ?thesis
    using ok preflight_ok_executable [OF ok] by (auto dest: list_all2_lengthD)
qed

end
