(* ===== verification/RouteHydration.thy ===== *)
theory RouteHydration imports FlowAgents FlowSubmit begin

text \<open>
  \<open>components/flowRouteHydrationUtils.ts\<close>: what the page shows when it comes to a route. The decision is
  taken from a few facts about the route, the stored draft of the flow and the flow on the board (its
  \<open>snapshot\<close>); the intent says what is applied. \<open>parse_date\<close> is \<open>Date.parse\<close>, None for NaN.
\<close>

section \<open>The route\<close>

text \<open>\<open>FlowRouteHydrationState\<close>\<close>

record route_state =
  rs_draft_flow_id :: "jsstring option"
  rs_draft_flow_name :: "jsstring option"
  rs_draft_requirement :: "jsstring option"
  rs_draft_executor_agent_id :: "jsstring option"
  rs_prefer_submitted_snapshot :: bool

definition route_text :: "(route_state \<Rightarrow> jsstring option) \<Rightarrow> route_state option \<Rightarrow> jsstring" where
  "route_text get routeState = nullish (Option.bind routeState get) []"

definition prefers_submitted :: "route_state option \<Rightarrow> bool" where
  "prefers_submitted routeState = nullish (map_option rs_prefer_submitted_snapshot routeState) False"

definition buildFlowRouteHydrationKey :: "bool \<Rightarrow> jsstring \<Rightarrow> route_state option \<Rightarrow> jsstring" where
  "buildFlowRouteHydrationKey isNewFlowRoute resolvedFlowId routeState =
     (if isNewFlowRoute then js ''new:'' @ trim (route_text rs_draft_flow_id routeState)
      else resolvedFlowId @ js '':'' @ (if prefers_submitted routeState then js ''submitted'' else js ''default''))"

section \<open>The decision\<close>

datatype hydration_action = NewExistingDraft | NewSeededEmpty | NewEmpty | ExistingSnapshot | ExistingDraft
  | ExistingEmpty | SnapshotCanvas | NoHydration

record hydration_decision =
  hd_action :: hydration_action
  hd_set_loaded_key :: bool

record hydration_facts =
  hf_key_changed :: bool
  hf_is_new :: bool
  hf_prefer_submitted :: bool
  hf_pending_reply :: bool
  hf_has_messages :: bool
  hf_has_draft :: bool
  hf_has_snapshot :: bool
  hf_has_target :: bool
  hf_is_draft_canvas :: bool
  hf_current_flow_id :: jsstring
  hf_resolved_flow_id :: jsstring
  hf_nodes_length :: nat
  hf_display_name :: jsstring
  hf_draft_updated_at :: "jsstring option"
  hf_snapshot_updated_at :: "jsstring option"

definition shouldForceApplySnapshotForRoute :: "hydration_facts \<Rightarrow> bool" where
  "shouldForceApplySnapshotForRoute hf =
     (if hf_pending_reply hf then False
      else if hf_prefer_submitted hf \<and> (hf_is_draft_canvas hf \<or> trim (hf_current_flow_id hf) \<noteq> hf_resolved_flow_id hf) then True
      else hf_is_draft_canvas hf \<and> hf_nodes_length hf = 0 \<and> trim (hf_display_name hf) = unnamed_flow)"

definition toComparableEpochMillis :: "(jsstring \<Rightarrow> rat option) \<Rightarrow> jsstring option \<Rightarrow> rat option" where
  "toComparableEpochMillis parse_date value =
     (let normalized = trim_opt value in if normalized = [] then None else parse_date normalized)"

definition shouldPreferSnapshotOverDraft :: "(jsstring \<Rightarrow> rat option) \<Rightarrow> jsstring option \<Rightarrow> jsstring option \<Rightarrow> bool" where
  "shouldPreferSnapshotOverDraft parse_date draftUpdatedAt snapshotUpdatedAt =
     (case (toComparableEpochMillis parse_date draftUpdatedAt, toComparableEpochMillis parse_date snapshotUpdatedAt) of
        (Some draftMillis, Some snapshotMillis) \<Rightarrow> draftMillis \<le> snapshotMillis
      | _ \<Rightarrow> True)"

text \<open>The branch for a route key that has changed, then the whole decision.\<close>

definition decide_changed :: "(jsstring \<Rightarrow> rat option) \<Rightarrow> hydration_facts \<Rightarrow> hydration_action" where
  "decide_changed parse_date hf =
     (if hf_is_new hf then
        (if hf_has_draft hf then NewExistingDraft else if hf_has_target hf then NewSeededEmpty else NewEmpty)
      else if hf_prefer_submitted hf then
        (if (hf_pending_reply hf \<or> hf_has_messages hf) \<and> hf_has_draft hf then ExistingDraft
         else if hf_has_snapshot hf then ExistingSnapshot else ExistingEmpty)
      else if hf_has_snapshot hf \<and> hf_has_draft hf then
        (if hf_has_messages hf then ExistingDraft
         else if shouldPreferSnapshotOverDraft parse_date (hf_draft_updated_at hf) (hf_snapshot_updated_at hf)
         then ExistingSnapshot else ExistingDraft)
      else if hf_has_snapshot hf then ExistingSnapshot
      else if hf_has_draft hf then ExistingDraft
      else ExistingEmpty)"

definition decide_unchanged :: "(jsstring \<Rightarrow> rat option) \<Rightarrow> hydration_facts \<Rightarrow> hydration_action" where
  "decide_unchanged parse_date hf =
     (if hf_is_new hf \<or> \<not> hf_has_snapshot hf then NoHydration
      else if shouldForceApplySnapshotForRoute hf then ExistingSnapshot
      else if hf_is_draft_canvas hf \<and> hf_has_draft hf \<and> \<not> hf_has_messages hf \<and>
          shouldPreferSnapshotOverDraft parse_date (hf_draft_updated_at hf) (hf_snapshot_updated_at hf) then ExistingSnapshot
      else if \<not> hf_is_draft_canvas hf then SnapshotCanvas
      else NoHydration)"

definition resolveFlowRouteHydrationDecision :: "(jsstring \<Rightarrow> rat option) \<Rightarrow> hydration_facts \<Rightarrow> hydration_decision" where
  "resolveFlowRouteHydrationDecision parse_date hf =
     (if hf_key_changed hf then \<lparr>hd_action = decide_changed parse_date hf, hd_set_loaded_key = True\<rparr>
      else \<lparr>hd_action = decide_unchanged parse_date hf, hd_set_loaded_key = False\<rparr>)"

section \<open>The intent\<close>

record empty_state =
  es_flow_id :: jsstring
  es_display_name :: jsstring
  es_name_input :: jsstring
  es_requirement :: jsstring
  es_lanes :: "flow_lane list"
  es_executor :: jsstring

datatype apply_action = ApplyDraft draft_record | ApplyEmpty empty_state | ApplySnapshot flow_snapshot
  | ApplySnapshotCanvas flow_snapshot | ApplyNothing

text \<open>The seed of a new flow in the route.\<close>

definition seeded_state :: "jsstring \<Rightarrow> route_state option \<Rightarrow> jsstring \<Rightarrow> agent list \<Rightarrow> empty_state" where
  "seeded_state now routeState targetDraftId uniqueAgents =
     (let routeRequirement = route_text rs_draft_requirement routeState;
          routeDraftName = trim (route_text rs_draft_flow_name routeState);
          normalizedName = str_or routeDraftName
            (if trim routeRequirement \<noteq> [] then buildDraftFlowName routeRequirement else unnamed_flow);
          routeAgentId = trim (route_text rs_draft_executor_agent_id routeState)
      in \<lparr>es_flow_id = targetDraftId, es_display_name = normalizedName, es_name_input = normalizedName,
          es_requirement = routeRequirement, es_lanes = buildInitialLanesFromAgent now routeAgentId uniqueAgents,
          es_executor = routeAgentId\<rparr>)"

text \<open>What is applied, and the route key to remember (\<open>nextLoadedRouteKey\<close>).\<close>

definition resolveFlowRouteHydrationApplyIntent :: "jsstring \<Rightarrow> hydration_decision \<Rightarrow> jsstring \<Rightarrow> route_state option \<Rightarrow> bool
    \<Rightarrow> jsstring \<Rightarrow> jsstring \<Rightarrow> draft_record option \<Rightarrow> flow_snapshot option \<Rightarrow> agent list \<Rightarrow> apply_action \<times> jsstring option" where
  "resolveFlowRouteHydrationApplyIntent now decision routeKey routeState isNewFlowRoute resolvedFlowId targetDraftId
       existingDraft snapshot uniqueAgents =
     ((case hd_action decision of
         NewExistingDraft \<Rightarrow> (case existingDraft of None \<Rightarrow> ApplyNothing | Some draft \<Rightarrow> ApplyDraft draft)
       | ExistingDraft \<Rightarrow> (case existingDraft of None \<Rightarrow> ApplyNothing | Some draft \<Rightarrow> ApplyDraft draft)
       | NewSeededEmpty \<Rightarrow> ApplyEmpty (seeded_state now routeState targetDraftId uniqueAgents)
       | NewEmpty \<Rightarrow> ApplyEmpty \<lparr>es_flow_id = [], es_display_name = [], es_name_input = unnamed_flow, es_requirement = [],
           es_lanes = [], es_executor = []\<rparr>
       | ExistingSnapshot \<Rightarrow> (case snapshot of None \<Rightarrow> ApplyNothing | Some s \<Rightarrow> ApplySnapshot s)
       | ExistingEmpty \<Rightarrow> ApplyEmpty \<lparr>es_flow_id = (if isNewFlowRoute then [] else resolvedFlowId),
           es_display_name = unnamed_flow, es_name_input = unnamed_flow, es_requirement = [],
           es_lanes = buildInitialLanesFromAgent now [] uniqueAgents, es_executor = []\<rparr>
       | SnapshotCanvas \<Rightarrow> (case snapshot of None \<Rightarrow> ApplyNothing | Some s \<Rightarrow> ApplySnapshotCanvas s)
       | NoHydration \<Rightarrow> ApplyNothing),
      if hd_set_loaded_key decision then Some routeKey else None)"

end
