(* ===== verification/PageState.thy ===== *)
theory PageState imports PlanGeneration DraftSync RouteHydration begin

text \<open>
  The state of the flow page: the \<open>useState\<close> variables and refs of \<open>flow-page/FlowPageContainer.tsx\<close> and
  of \<open>hooks/useFlowPlannerRuntimeBridge.ts\<close> that its operations read and write, on top of the planner
  runtime, the operation queue and the draft synchronisation; the callbacks of the bridge; and what the
  container derives from the state. A ref that mirrors a state (\<open>flowNodesRef\<close>, \<open>plannerSessionStatusRef\<close>,
  ...) is that state: an effect copies it before the next handler runs.
\<close>

section \<open>Environment\<close>

text \<open>What the code reads from outside: clock, random numbers, locale, date parser, URI encoding.\<close>

record env =
  en_now :: jsstring
  en_now_ms :: int
  en_random :: jsstring
  en_untitled :: jsstring
  en_parse :: "jsstring \<Rightarrow> rat option"
  en_compare :: "jsstring \<Rightarrow> jsstring \<Rightarrow> int"
  en_compare_zh :: "jsstring \<Rightarrow> jsstring \<Rightarrow> int"
  en_sort :: "(layer_draft \<Rightarrow> layer_draft \<Rightarrow> int) \<Rightarrow> layer_draft list \<Rightarrow> layer_draft list"
  en_uri :: "jsstring \<Rightarrow> jsstring"

definition FLOW_BOARD_REALTIME_ID :: jsstring where
  "FLOW_BOARD_REALTIME_ID = js ''default''"

section \<open>The canvas\<close>

text \<open>\<open>FlowGenerateResponse | FlowConfirmResponse\<close>\<close>

datatype last_response = Generated generate_response | Confirmed confirm_response

record canvas =
  ca_nodes :: "flow_node list"
  ca_lanes :: "flow_lane list"
  ca_node_lane_by_id :: "(jsstring \<times> jsstring) list"
  ca_last_response :: "last_response option"
  ca_is_draft :: bool
  ca_is_submitted :: bool
  ca_executor :: jsstring
  ca_agents :: "agent list"

definition normalized_lanes :: "jsstring \<Rightarrow> canvas \<Rightarrow> flow_lane list" where
  "normalized_lanes now ca =
     (if ca_lanes ca \<noteq> [] then ca_lanes ca else buildInitialLanesFromAgent now (ca_executor ca) (ca_agents ca))"

definition board_session :: "string \<Rightarrow> jsstring" where
  "board_session suffix = js ''linpo:flow:'' @ FLOW_BOARD_REALTIME_ID @ js suffix"

fun redrawn_response :: "jsstring \<Rightarrow> flow_node list \<Rightarrow> last_response option \<Rightarrow> last_response" where
  "redrawn_response sessionKey nodes (Some (Generated r)) =
     Generated (r\<lparr>gr_planner_session_key := sessionKey, gr_nodes := nodes, gr_edges := deriveEdgesFromNodes nodes\<rparr>)"
| "redrawn_response sessionKey nodes (Some (Confirmed r)) =
     Confirmed (r\<lparr>cr_planner_session_key := sessionKey, cr_nodes := nodes, cr_edges := deriveEdgesFromNodes nodes\<rparr>)"
| "redrawn_response sessionKey nodes None =
     Generated \<lparr>gr_board_id = FLOW_BOARD_REALTIME_ID, gr_planner_session_key = sessionKey,
       gr_manager_session_key = board_session '':manager'', gr_execution_session_prefix = board_session '':exec'',
       gr_nodes = nodes, gr_edges = deriveEdgesFromNodes nodes, gr_messages = [], gr_created_task_ids = []\<rparr>"

text \<open>The callback that the operation queue draws with.\<close>

definition applyPlannerDraftNodes :: "env \<Rightarrow> node_draft list \<Rightarrow> jsstring \<Rightarrow> canvas \<Rightarrow> canvas" where
  "applyPlannerDraftNodes e draftNodes sessionKey ca =
     (case reconcilePlannerCanvasState (en_sort e) (en_now e) (en_compare e) draftNodes (ca_nodes ca) (ca_node_lane_by_id ca)
        (normalized_lanes (en_now e) ca) (ca_agents ca) (non_empty (trim (ca_executor ca))) of
        (nodes, lanes, nodeLaneById) \<Rightarrow>
      ca\<lparr>ca_nodes := nodes, ca_lanes := lanes, ca_node_lane_by_id := nodeLaneById,
        ca_last_response := Some (redrawn_response sessionKey nodes (ca_last_response ca)),
        ca_is_draft := True, ca_is_submitted := False\<rparr>)"

section \<open>The page\<close>

text \<open>\<open>FlowPlannerRuntimeSnapshot\<close>\<close>

record runtime_snapshot =
  sn_messages :: "chat_message list"
  sn_session_key :: "jsstring option"
  sn_session_instance_id :: "jsstring option"
  sn_pending :: "pending_request option"
  sn_status :: ui_status
  sn_planning :: bool
  sn_stopping :: bool
  sn_expanded :: bool
  sn_overlay_blocked :: bool

text \<open>The parameters of the route\<close>

record route =
  ro_is_new :: bool
  ro_flow_id :: jsstring
  ro_state :: "route_state option"

datatype toast_kind = SuccessKind | WarningKind | ErrorKind

record page = "canvas planner_queue runtime" +
  pg_seq :: int
  pg_session_key :: "jsstring option"
  pg_session_instance_id :: "jsstring option"
  pg_session_by_scope :: "(jsstring \<times> jsstring) list"
  pg_active_scope :: jsstring
  pg_snapshots :: "(jsstring \<times> runtime_snapshot) list"
  pg_input :: jsstring
  pg_flow_id :: jsstring
  pg_display_name :: jsstring
  pg_name_input :: jsstring
  pg_requirement :: jsstring
  pg_route :: route
  pg_loaded_key :: jsstring
  pg_selected_nodes :: "jsstring list"
  pg_selected_edge :: "jsstring option"
  pg_dragging :: bool
  pg_acting :: bool
  pg_submitting :: bool
  pg_submit_open :: bool
  pg_detail_open :: bool
  pg_sidebar_open :: bool
  pg_hydrating :: bool
  pg_skip_persist :: nat
  pg_hydrated_version :: "jsstring \<times> jsstring"
  pg_tasks :: "task list"
  pg_suppressed :: "jsstring list"
  pg_sidebar_order :: "jsstring list"
  pg_pending_detail :: jsstring
  pg_sync :: sync
  pg_visited :: "jsstring list"
  pg_toasts :: "(jsstring \<times> toast_kind) list"

definition canvas_of :: "page \<Rightarrow> canvas" where
  "canvas_of pg = pq_canvas (pp_queue pg)"

definition upd_canvas :: "(canvas \<Rightarrow> canvas) \<Rightarrow> page \<Rightarrow> page" where
  "upd_canvas f pg = pg\<lparr>pp_queue := (pp_queue pg)\<lparr>pq_canvas := f (canvas_of pg)\<rparr>\<rparr>"

definition page_ops :: "env \<Rightarrow> canvas planner_queue queue_ops" where
  "page_ops e = queue_ops_of ca_nodes (applyPlannerDraftNodes e)"

definition addToast :: "jsstring \<Rightarrow> toast_kind \<Rightarrow> page \<Rightarrow> page" where
  "addToast message kind pg = pg\<lparr>pg_toasts := pg_toasts pg @ [(message, kind)]\<rparr>"

definition page_edges :: "page \<Rightarrow> flow_edge list" where
  "page_edges pg = deriveEdgesFromNodes (ca_nodes (canvas_of pg))"

lemma canvas_upd [simp]: "canvas_of (upd_canvas f pg) = f (canvas_of pg)"
  by (simp add: canvas_of_def upd_canvas_def)

text \<open>The canvas is untouched by every other field, and every other field by the canvas.\<close>

lemma canvas_of_updates [simp]:
  "canvas_of (pg\<lparr>pp_revisions := v0\<rparr>) = canvas_of pg"
  "canvas_of (pg\<lparr>pp_pending := v1\<rparr>) = canvas_of pg"
  "canvas_of (pg\<lparr>rt_seq := v2\<rparr>) = canvas_of pg"
  "canvas_of (pg\<lparr>rt_resync := v3\<rparr>) = canvas_of pg"
  "canvas_of (pg\<lparr>rt_status := v4\<rparr>) = canvas_of pg"
  "canvas_of (pg\<lparr>rt_stopping := v5\<rparr>) = canvas_of pg"
  "canvas_of (pg\<lparr>rt_planning := v6\<rparr>) = canvas_of pg"
  "canvas_of (pg\<lparr>rt_expanded := v7\<rparr>) = canvas_of pg"
  "canvas_of (pg\<lparr>rt_overlay_blocked := v8\<rparr>) = canvas_of pg"
  "canvas_of (pg\<lparr>rt_finish_timer := v9\<rparr>) = canvas_of pg"
  "canvas_of (pg\<lparr>rt_messages := v10\<rparr>) = canvas_of pg"
  "canvas_of (pg\<lparr>rt_cache := v11\<rparr>) = canvas_of pg"
  "canvas_of (pg\<lparr>pg_seq := v12\<rparr>) = canvas_of pg"
  "canvas_of (pg\<lparr>pg_session_key := v13\<rparr>) = canvas_of pg"
  "canvas_of (pg\<lparr>pg_session_instance_id := v14\<rparr>) = canvas_of pg"
  "canvas_of (pg\<lparr>pg_session_by_scope := v15\<rparr>) = canvas_of pg"
  "canvas_of (pg\<lparr>pg_active_scope := v16\<rparr>) = canvas_of pg"
  "canvas_of (pg\<lparr>pg_snapshots := v17\<rparr>) = canvas_of pg"
  "canvas_of (pg\<lparr>pg_input := v18\<rparr>) = canvas_of pg"
  "canvas_of (pg\<lparr>pg_flow_id := v19\<rparr>) = canvas_of pg"
  "canvas_of (pg\<lparr>pg_display_name := v20\<rparr>) = canvas_of pg"
  "canvas_of (pg\<lparr>pg_name_input := v21\<rparr>) = canvas_of pg"
  "canvas_of (pg\<lparr>pg_requirement := v22\<rparr>) = canvas_of pg"
  "canvas_of (pg\<lparr>pg_route := v23\<rparr>) = canvas_of pg"
  "canvas_of (pg\<lparr>pg_loaded_key := v24\<rparr>) = canvas_of pg"
  "canvas_of (pg\<lparr>pg_selected_nodes := v25\<rparr>) = canvas_of pg"
  "canvas_of (pg\<lparr>pg_selected_edge := v26\<rparr>) = canvas_of pg"
  "canvas_of (pg\<lparr>pg_dragging := v27\<rparr>) = canvas_of pg"
  "canvas_of (pg\<lparr>pg_acting := v28\<rparr>) = canvas_of pg"
  "canvas_of (pg\<lparr>pg_submitting := v29\<rparr>) = canvas_of pg"
  "canvas_of (pg\<lparr>pg_submit_open := v30\<rparr>) = canvas_of pg"
  "canvas_of (pg\<lparr>pg_detail_open := v31\<rparr>) = canvas_of pg"
  "canvas_of (pg\<lparr>pg_sidebar_open := v32\<rparr>) = canvas_of pg"
  "canvas_of (pg\<lparr>pg_hydrating := v33\<rparr>) = canvas_of pg"
  "canvas_of (pg\<lparr>pg_skip_persist := v34\<rparr>) = canvas_of pg"
  "canvas_of (pg\<lparr>pg_hydrated_version := v35\<rparr>) = canvas_of pg"
  "canvas_of (pg\<lparr>pg_tasks := v36\<rparr>) = canvas_of pg"
  "canvas_of (pg\<lparr>pg_suppressed := v37\<rparr>) = canvas_of pg"
  "canvas_of (pg\<lparr>pg_sidebar_order := v38\<rparr>) = canvas_of pg"
  "canvas_of (pg\<lparr>pg_pending_detail := v39\<rparr>) = canvas_of pg"
  "canvas_of (pg\<lparr>pg_sync := v40\<rparr>) = canvas_of pg"
  "canvas_of (pg\<lparr>pg_visited := v41\<rparr>) = canvas_of pg"
  "canvas_of (pg\<lparr>pg_toasts := v42\<rparr>) = canvas_of pg"
  "canvas_of (pg\<lparr>pp_queue := q\<rparr>) = pq_canvas q"
  by (simp_all add: canvas_of_def)

lemma upd_canvas_fields [simp]:
  "pp_revisions (upd_canvas f pg) = pp_revisions pg"
  "pp_pending (upd_canvas f pg) = pp_pending pg"
  "rt_seq (upd_canvas f pg) = rt_seq pg"
  "rt_resync (upd_canvas f pg) = rt_resync pg"
  "rt_status (upd_canvas f pg) = rt_status pg"
  "rt_stopping (upd_canvas f pg) = rt_stopping pg"
  "rt_planning (upd_canvas f pg) = rt_planning pg"
  "rt_expanded (upd_canvas f pg) = rt_expanded pg"
  "rt_overlay_blocked (upd_canvas f pg) = rt_overlay_blocked pg"
  "rt_finish_timer (upd_canvas f pg) = rt_finish_timer pg"
  "rt_messages (upd_canvas f pg) = rt_messages pg"
  "rt_cache (upd_canvas f pg) = rt_cache pg"
  "pg_seq (upd_canvas f pg) = pg_seq pg"
  "pg_session_key (upd_canvas f pg) = pg_session_key pg"
  "pg_session_instance_id (upd_canvas f pg) = pg_session_instance_id pg"
  "pg_session_by_scope (upd_canvas f pg) = pg_session_by_scope pg"
  "pg_active_scope (upd_canvas f pg) = pg_active_scope pg"
  "pg_snapshots (upd_canvas f pg) = pg_snapshots pg"
  "pg_input (upd_canvas f pg) = pg_input pg"
  "pg_flow_id (upd_canvas f pg) = pg_flow_id pg"
  "pg_display_name (upd_canvas f pg) = pg_display_name pg"
  "pg_name_input (upd_canvas f pg) = pg_name_input pg"
  "pg_requirement (upd_canvas f pg) = pg_requirement pg"
  "pg_route (upd_canvas f pg) = pg_route pg"
  "pg_loaded_key (upd_canvas f pg) = pg_loaded_key pg"
  "pg_selected_nodes (upd_canvas f pg) = pg_selected_nodes pg"
  "pg_selected_edge (upd_canvas f pg) = pg_selected_edge pg"
  "pg_dragging (upd_canvas f pg) = pg_dragging pg"
  "pg_acting (upd_canvas f pg) = pg_acting pg"
  "pg_submitting (upd_canvas f pg) = pg_submitting pg"
  "pg_submit_open (upd_canvas f pg) = pg_submit_open pg"
  "pg_detail_open (upd_canvas f pg) = pg_detail_open pg"
  "pg_sidebar_open (upd_canvas f pg) = pg_sidebar_open pg"
  "pg_hydrating (upd_canvas f pg) = pg_hydrating pg"
  "pg_skip_persist (upd_canvas f pg) = pg_skip_persist pg"
  "pg_hydrated_version (upd_canvas f pg) = pg_hydrated_version pg"
  "pg_tasks (upd_canvas f pg) = pg_tasks pg"
  "pg_suppressed (upd_canvas f pg) = pg_suppressed pg"
  "pg_sidebar_order (upd_canvas f pg) = pg_sidebar_order pg"
  "pg_pending_detail (upd_canvas f pg) = pg_pending_detail pg"
  "pg_sync (upd_canvas f pg) = pg_sync pg"
  "pg_visited (upd_canvas f pg) = pg_visited pg"
  "pg_toasts (upd_canvas f pg) = pg_toasts pg"
  by (simp_all add: upd_canvas_def)

section \<open>The callbacks of the bridge\<close>

definition cachePlannerMessages :: "env \<Rightarrow> jsstring option \<Rightarrow> chat_message list \<Rightarrow> page \<Rightarrow> page" where
  "cachePlannerMessages e sessionKey messages pg =
     pg\<lparr>rt_cache := cachePlannerMessagesBySession (rt_cache pg) sessionKey messages (en_now_ms e)
          PLANNER_MESSAGE_CACHE_MAX_MESSAGES PLANNER_MESSAGE_CACHE_MAX_SESSIONS\<rparr>"

definition getCachedPlannerMessages :: "jsstring option \<Rightarrow> page \<Rightarrow> chat_message list" where
  "getCachedPlannerMessages sessionKey pg = readPlannerMessagesFromCache (rt_cache pg) sessionKey"

definition sanitized :: "chat_message list \<Rightarrow> chat_message list" where
  "sanitized messages = sanitizePlannerMessages (map raw_of_message messages)"

definition capturePlannerRuntimeSnapshot :: "jsstring \<Rightarrow> runtime_snapshot \<Rightarrow> page \<Rightarrow> page" where
  "capturePlannerRuntimeSnapshot flowId snapshot pg =
     (let normalizedFlowId = trim flowId in
      if normalizedFlowId = [] then pg
      else pg\<lparr>pg_snapshots := AList.update normalizedFlowId (snapshot\<lparr>sn_messages := sanitized (sn_messages snapshot)\<rparr>)
             (pg_snapshots pg)\<rparr>)"

definition put_snapshot :: "env \<Rightarrow> runtime_snapshot \<Rightarrow> page \<Rightarrow> page" where
  "put_snapshot e snapshot pg =
     (let normalizedMessages = sanitized (sn_messages snapshot);
          pg1 = pg\<lparr>pp_pending := sn_pending snapshot, pg_session_key := sn_session_key snapshot,
                  pg_session_instance_id := sn_session_instance_id snapshot, rt_status := sn_status snapshot,
                  rt_planning := sn_planning snapshot, rt_stopping := sn_stopping snapshot,
                  rt_expanded := sn_expanded snapshot, rt_overlay_blocked := sn_overlay_blocked snapshot,
                  rt_messages := normalizedMessages\<rparr>
      in if nullish (sn_session_key snapshot) [] \<noteq> []
         then cachePlannerMessages e (sn_session_key snapshot) normalizedMessages pg1 else pg1)"

definition restorePlannerRuntimeSnapshot :: "env \<Rightarrow> jsstring \<Rightarrow> page \<Rightarrow> page" where
  "restorePlannerRuntimeSnapshot e flowId pg =
     (let normalizedFlowId = trim flowId in
      if normalizedFlowId = [] then pg
      else case map_of (pg_snapshots pg) normalizedFlowId of
        None \<Rightarrow> pg
      | Some snapshot \<Rightarrow> put_snapshot e snapshot pg)"

text \<open>\<open>resetPlannerRuntimeState\<close>, with the page fields it sets besides those of the runtime.\<close>

definition reset_planner :: "env \<Rightarrow> page \<Rightarrow> page" where
  "reset_planner e pg =
     (resetPlannerRuntimeState (page_ops e) pg)\<lparr>pg_input := [], pg_session_instance_id := None\<rparr>"

definition clearStalePlannerSession :: "jsstring \<Rightarrow> page \<Rightarrow> page" where
  "clearStalePlannerSession normalizedSessionKey pg =
     (if map_option trim (pg_session_key pg) = Some normalizedSessionKey then pg\<lparr>pg_session_key := None\<rparr> else pg)"

section \<open>What the container derives\<close>

definition resetCanvasInteractionState :: "bool \<Rightarrow> page \<Rightarrow> page" where
  "resetCanvasInteractionState isDraftMode pg =
     (upd_canvas (\<lambda>ca. ca\<lparr>ca_is_draft := isDraftMode, ca_is_submitted := \<not> isDraftMode\<rparr>) pg)
       \<lparr>pg_selected_nodes := [], pg_selected_edge := None, pg_dragging := False\<rparr>"

definition flow_catalog_has :: "page \<Rightarrow> jsstring \<Rightarrow> bool" where
  "flow_catalog_has pg ident \<longleftrightarrow> map_has (groupTasksByRequirement (pg_tasks pg)) ident"

definition activeSubmittedRequirementId :: "page \<Rightarrow> jsstring" where
  "activeSubmittedRequirementId pg =
     (let normalized = trim (if \<not> ro_is_new (pg_route pg) then ro_flow_id (pg_route pg) else pg_flow_id pg) in
      if normalized = [] then [] else if flow_catalog_has pg normalized then normalized else [])"

definition flowRequirementScopeId :: "page \<Rightarrow> jsstring" where
  "flowRequirementScopeId pg =
     (let routeFlowId = (if \<not> ro_is_new (pg_route pg) then trim (ro_flow_id (pg_route pg)) else []) in
      if routeFlowId \<noteq> [] then routeFlowId else trim (pg_flow_id pg))"

definition currentRequirementTasks :: "page \<Rightarrow> task list" where
  "currentRequirementTasks pg =
     (let requirementId = trim (flowRequirementScopeId pg) in
      if requirementId = [] then [] else map_get (groupTasksByRequirement (pg_tasks pg)) requirementId [])"

definition flowRuntimeState :: "page \<Rightarrow> flow_runtime_state" where
  "flowRuntimeState pg = resolveFlowRuntimeState (currentRequirementTasks pg)"

definition hasSelectedFlow :: "page \<Rightarrow> bool" where
  "hasSelectedFlow pg \<longleftrightarrow> \<not> ro_is_new (pg_route pg) \<or> trim (pg_flow_id pg) \<noteq> []"

definition isPlannerAwaitingByPendingMessage :: "page \<Rightarrow> bool" where
  "isPlannerAwaitingByPendingMessage pg =
     (if rt_planning pg \<or> isPlannerAwaitingSession (rt_status pg) (rt_stopping pg) then False
      else if rt_status pg \<noteq> Idle then False
      else hasPendingPlannerReply (rt_messages pg))"

definition isPlannerAwaiting :: "page \<Rightarrow> bool" where
  "isPlannerAwaiting pg \<longleftrightarrow> rt_planning pg \<or> isPlannerAwaitingSession (rt_status pg) (rt_stopping pg) \<or>
     isPlannerAwaitingByPendingMessage pg"

definition page_permissions :: "page \<Rightarrow> planner_permissions" where
  "page_permissions pg = resolvePlannerUiPermissions (hasSelectedFlow pg) (pg_acting pg) (rt_planning pg) (rt_stopping pg)
     (rt_status pg) (pg_session_key pg)"

definition canEdit :: "page \<Rightarrow> bool" where
  "canEdit pg \<longleftrightarrow> hasSelectedFlow pg \<and> \<not> (hasSelectedFlow pg \<and> isPlannerAwaiting pg) \<and> \<not> pg_acting pg \<and>
     flowRuntimeState pg \<noteq> FlowRunning"

definition canConfirm :: "page \<Rightarrow> bool" where
  "canConfirm pg \<longleftrightarrow> hasSelectedFlow pg \<and> 0 < length (ca_nodes (canvas_of pg)) \<and>
     \<not> (hasSelectedFlow pg \<and> isPlannerAwaiting pg) \<and> \<not> pg_acting pg \<and> flowRuntimeState pg = FlowIdle"

text \<open>The effects of the container: the scope in its ref, the snapshot of the planner, a waiting message.\<close>

definition scope_effect :: "page \<Rightarrow> page" where
  "scope_effect pg = pg\<lparr>pg_active_scope := trim (flowRequirementScopeId pg)\<rparr>"

definition snapshot_of :: "page \<Rightarrow> runtime_snapshot" where
  "snapshot_of pg = \<lparr>sn_messages = rt_messages pg, sn_session_key = pg_session_key pg,
     sn_session_instance_id = pg_session_instance_id pg, sn_pending = pp_pending pg, sn_status = rt_status pg,
     sn_planning = rt_planning pg, sn_stopping = rt_stopping pg, sn_expanded = rt_expanded pg,
     sn_overlay_blocked = rt_overlay_blocked pg\<rparr>"

definition capture_effect :: "page \<Rightarrow> page" where
  "capture_effect pg =
     (if pg_hydrating pg then pg
      else let flowId = trim (pg_flow_id pg) in
        if flowId = [] then pg else capturePlannerRuntimeSnapshot flowId (snapshot_of pg) pg)"

definition waiting_effect :: "page \<Rightarrow> page" where
  "waiting_effect pg =
     (if \<not> isPlannerAwaitingByPendingMessage pg then pg
      else pg\<lparr>rt_finish_timer := False, rt_overlay_blocked := True, rt_expanded := True\<rparr>)"

text \<open>The agents have been listed: the first choice of an executor, and the effect that corrects it.\<close>

definition overview_loaded :: "agent list option \<Rightarrow> page \<Rightarrow> page" where
  "overview_loaded agents pg =
     (let rows = nullish agents [];
          fallback = nullish (nullish_opt (map_option ag_agent_id (find (\<lambda>agent. trim (ag_agent_id agent) = js ''main'') rows))
            (map_option ag_agent_id (nth_opt rows 0))) []
      in upd_canvas (\<lambda>ca. ca\<lparr>ca_agents := listUniqueAgents agents,
           ca_executor := (if fallback \<noteq> [] then str_or (ca_executor ca) fallback else ca_executor ca)\<rparr>) pg)"

definition executor_effect :: "page \<Rightarrow> page" where
  "executor_effect pg =
     (let ca = canvas_of pg;
          resolved = resolveExecutorAgentId (ca_executor ca) (ca_agents ca) (ca_lanes ca)
      in if resolved = ca_executor ca then pg
         else if resolved \<noteq> [] then upd_canvas (\<lambda>ca. ca\<lparr>ca_executor := resolved\<rparr>) pg else pg)"

definition default_lanes_effect :: "env \<Rightarrow> page \<Rightarrow> page" where
  "default_lanes_effect e pg =
     (let ca = canvas_of pg;
          isNewlyCreatedBlankDraft = (starts_with (trim (pg_flow_id pg)) (js ''draft_'') \<and>
            trim (pg_display_name pg) = unnamed_flow \<and> trim (pg_requirement pg) = []);
          hasOnlyUnassignedLane = (length (ca_lanes ca) = 1 \<and>
            trim_opt (Option.bind (nth_opt (ca_lanes ca) 0) l_agent_id) = []);
          nextLanes = buildInitialLanesFromAgent (en_now e) (ca_executor ca) (ca_agents ca)
      in if ca_agents ca = [] \<or> \<not> isNewlyCreatedBlankDraft then pg
         else if \<not> (ca_lanes ca = [] \<or> (hasOnlyUnassignedLane \<and> ca_nodes ca = [])) then pg
         else if nextLanes = [] then pg
         else upd_canvas (\<lambda>ca. ca\<lparr>ca_lanes := nextLanes\<rparr>) pg)"

section \<open>Sample values\<close>

definition sample_env :: env where
  "sample_env = \<lparr>en_now = js ''2026-01-02T00:00:00Z'', en_now_ms = 1, en_random = js ''r'', en_untitled = js ''u'',
     en_parse = (\<lambda>s. Some (of_nat (length s))), en_compare = (\<lambda>a b. 0), en_compare_zh = (\<lambda>a b. 0),
     en_sort = (\<lambda>c xs. xs), en_uri = (\<lambda>s. s)\<rparr>"

definition sample_canvas :: "flow_node list \<Rightarrow> canvas" where
  "sample_canvas nodes = \<lparr>ca_nodes = nodes, ca_lanes = [], ca_node_lane_by_id = [], ca_last_response = None,
     ca_is_draft = True, ca_is_submitted = False, ca_executor = js ''main'', ca_agents = [sample_agent ''x'' ''main'']\<rparr>"

definition sample_route :: "string \<Rightarrow> route" where
  "sample_route flowId = \<lparr>ro_is_new = False, ro_flow_id = js flowId, ro_state = None\<rparr>"

text \<open>A page that shows the flow f.\<close>

definition sample_page :: "flow_node list \<Rightarrow> page" where
  "sample_page nodes =
     \<lparr>pp_revisions = [], pp_pending = None, pp_queue = empty_queue (sample_canvas nodes), rt_seq = [], rt_resync = [],
      rt_status = Idle, rt_stopping = False, rt_planning = False, rt_expanded = False, rt_overlay_blocked = False,
      rt_finish_timer = False, rt_messages = [], rt_cache = \<lparr>messagesBySession = [], seenAtBySession = []\<rparr>,
      pg_seq = 0, pg_session_key = None, pg_session_instance_id = None, pg_session_by_scope = [], pg_active_scope = js ''f'',
      pg_snapshots = [], pg_input = js ''plan'', pg_flow_id = js ''f'', pg_display_name = js ''F'', pg_name_input = js ''F'',
      pg_requirement = [], pg_route = sample_route ''f'', pg_loaded_key = [], pg_selected_nodes = [],
      pg_selected_edge = None, pg_dragging = False, pg_acting = False, pg_submitting = False, pg_submit_open = False,
      pg_detail_open = False, pg_sidebar_open = False, pg_hydrating = False, pg_skip_persist = 0,
      pg_hydrated_version = ([], []), pg_tasks = [], pg_suppressed = [], pg_sidebar_order = [], pg_pending_detail = [],
      pg_sync = sync_start, pg_visited = [], pg_toasts = []\<rparr>"

end
