(* ===== verification/PlannerActions.thy ===== *)
theory PlannerActions imports PageState begin

text \<open>
  \<open>flow-page/hooks/useFlowPlannerActions.ts\<close>: the buttons of the page. A handler that waits for the
  server is split at its \<open>await\<close>: one definition up to the call, which hands out the call with what its
  closure keeps, and one for each way the call ends, the \<open>finally\<close> block included. The drafts the
  handlers write are those of the synchronised store.
\<close>

section \<open>Drafts of the page\<close>

definition lane_item_of :: "flow_lane \<Rightarrow> lane_item" where
  "lane_item_of lane = \<lparr>li_id = l_id lane, li_name = l_name lane, li_instance_id = l_instance_id lane,
     li_agent_id = l_agent_id lane, li_created_at = l_created_at lane\<rparr>"

fun response_prefix :: "last_response \<Rightarrow> jsstring" where
  "response_prefix (Generated r) = gr_execution_session_prefix r"
| "response_prefix (Confirmed r) = cr_execution_session_prefix r"

definition stored_draft :: "env \<Rightarrow> jsstring \<Rightarrow> page \<Rightarrow> draft_record option" where
  "stored_draft e flowId pg = getFlowDraftById (en_parse e) flowId (sy_store (pg_sync pg))"

text \<open>The record written by the handlers: the canvas, with messages, lanes, session and runtime of the caller.\<close>

definition draft_of_page :: "env \<Rightarrow> jsstring \<Rightarrow> jsstring \<Rightarrow> chat_message list \<Rightarrow> flow_lane list \<Rightarrow> jsstring option
    \<Rightarrow> planner_runtime option \<Rightarrow> draft_record option \<Rightarrow> page \<Rightarrow> draft_record" where
  "draft_of_page e ident name messages lanes sessionKey runtime existingDraft pg =
     (let ca = canvas_of pg in
      \<lparr>fd_id = ident, fd_name = name, fd_requirement = pg_requirement pg, fd_nodes = ca_nodes ca, fd_edges = page_edges pg,
       fd_planner_messages = Some (slice_last PLANNER_MESSAGE_CACHE_MAX_MESSAGES messages),
       fd_lanes = map lane_item_of lanes, fd_node_lane_by_id = ca_node_lane_by_id ca,
       fd_planner_session_key = sessionKey,
       fd_execution_session_prefix = map_option response_prefix (ca_last_response ca),
       fd_executor_agent_id = non_empty (trim (ca_executor ca)), fd_planner_runtime = runtime,
       fd_revision = nullish (map_option fd_revision existingDraft) (jint 0),
       fd_created_at = nullish (map_option fd_created_at existingDraft) (en_now e), fd_updated_at = en_now e\<rparr>)"

definition store_draft :: "env \<Rightarrow> draft_record \<Rightarrow> page \<Rightarrow> page" where
  "store_draft e draft pg =
     pg\<lparr>pg_sync := (pg_sync pg)\<lparr>sy_store := upsertFlowDraft (en_parse e) draft (sy_store (pg_sync pg))\<rparr>\<rparr>"

section \<open>Asking for a plan\<close>

text \<open>What the rest of \<open>handlePlanByInstruction\<close> keeps while it waits.\<close>

record plan_call =
  pc_payload :: generate_request
  pc_instance_id :: jsstring
  pc_instruction :: jsstring
  pc_request_id :: int
  pc_scope :: jsstring
  pc_session :: jsstring
  pc_agents :: "agent list"
  pc_requirement :: jsstring
  pc_display_name :: jsstring

definition plan_context :: "env \<Rightarrow> page \<Rightarrow> instruction_rejected + instruction_context" where
  "plan_context e pg =
     (let ca = canvas_of pg in
      resolvePlanInstructionContext (en_random e) (rt_planning pg) (canPromptPlanner (page_permissions pg)) (pg_input pg)
        (ca_executor ca) (ca_agents ca) (ca_lanes ca) (pg_session_key pg) FLOW_BOARD_REALTIME_ID (trim (ca_executor ca)))"

text \<open>The draft written at the moment of sending.\<close>

definition plan_draft :: "env \<Rightarrow> plan_submission \<Rightarrow> page \<Rightarrow> draft_record" where
  "plan_draft e sub pg =
     (let draftId = trim (pg_flow_id pg) in
      draft_of_page e draftId (str_or (trim (pg_display_name pg)) unnamed_flow) (rt_messages pg @ [ps_user_message sub])
        (ca_lanes (canvas_of pg)) (Some (ps_session_key sub))
        (Some \<lparr>pr_session_status = ps_status sub, pr_is_planning = ps_is_planning sub,
          pr_is_planner_stopping = ps_is_stopping sub, pr_is_overlay_close_blocked = ps_block_overlay sub\<rparr>)
        (stored_draft e draftId pg) pg)"

definition plan_snapshot :: "agent \<Rightarrow> plan_submission \<Rightarrow> page \<Rightarrow> runtime_snapshot" where
  "plan_snapshot executor sub pg =
     \<lparr>sn_messages = rt_messages pg @ [ps_user_message sub], sn_session_key = Some (ps_session_key sub),
      sn_session_instance_id = Some (ag_instance_id executor), sn_pending = Some (ps_pending sub),
      sn_status = ps_status sub, sn_planning = ps_is_planning sub, sn_stopping = ps_is_stopping sub,
      sn_expanded = ps_expanded sub, sn_overlay_blocked = ps_block_overlay sub\<rparr>"

definition plan_submitted :: "env \<Rightarrow> jsstring \<Rightarrow> agent \<Rightarrow> plan_submission \<Rightarrow> page \<Rightarrow> page" where
  "plan_submitted e scope executor sub pg =
     (let pg1 = (if scope \<noteq> [] then pg\<lparr>pg_session_by_scope := AList.update scope (ps_session_key sub) (pg_session_by_scope pg)\<rparr>
                 else pg);
          pg2 = pg1\<lparr>pg_input := ps_next_input sub, rt_expanded := ps_expanded sub,
                   pg_session_key := Some (ps_session_key sub),
                   pg_session_instance_id := Some (ag_instance_id executor)\<rparr>;
          pg3 = (if ca_is_draft (canvas_of pg) \<and> trim (pg_flow_id pg) \<noteq> [] then store_draft e (plan_draft e sub pg) pg2 else pg2);
          nextMessages = rt_messages pg @ [ps_user_message sub];
          pg4 = cachePlannerMessages e (Some (ps_session_key sub)) nextMessages (pg3\<lparr>rt_messages := nextMessages\<rparr>);
          pg5 = upd_canvas (\<lambda>ca. ca\<lparr>ca_is_draft := True, ca_is_submitted := False\<rparr>) pg4;
          pg6 = pg5\<lparr>pg_seq := ps_request_id sub, pp_pending := Some (ps_pending sub), rt_planning := ps_is_planning sub,
                   rt_stopping := ps_is_stopping sub, rt_finish_timer := False,
                   rt_overlay_blocked := ps_block_overlay sub, rt_status := ps_status sub\<rparr>
      in capturePlannerRuntimeSnapshot (pg_flow_id pg) (plan_snapshot executor sub pg) pg6)"

definition handlePlanByInstruction :: "env \<Rightarrow> page \<Rightarrow> page \<times> plan_call option" where
  "handlePlanByInstruction e pg =
     (case plan_context e pg of
        Inl rejected \<Rightarrow>
          (case ir_warning rejected of
             None \<Rightarrow> (pg, None)
           | Some warning \<Rightarrow> (if warning = [] then pg else addToast warning WarningKind pg, None))
      | Inr context \<Rightarrow>
          let ca = canvas_of pg;
              flowScopeAtRequest = trim (flowRequirementScopeId pg);
              sub = resolvePlanSubmissionIntent (ic_instruction context) (ic_planner_session_key context) (pg_seq pg)
                (en_now e) (getCurrentRevision (ic_planner_session_key context) pg);
              instanceId = ag_instance_id (ic_executor context)
          in (plan_submitted e flowScopeAtRequest (ic_executor context) sub pg,
              Some \<lparr>pc_payload = buildFlowGeneratePayload (ic_instruction context) instanceId (ic_executor_agent_id context)
                  (Some (trim (ca_executor ca))) (ic_planner_session_key context) (pg_display_name pg) (ca_nodes ca) (page_edges pg),
                pc_instance_id = instanceId, pc_instruction = ic_instruction context, pc_request_id = ps_request_id sub,
                pc_scope = flowScopeAtRequest, pc_session = ic_planner_session_key context, pc_agents = ca_agents ca,
                pc_requirement = pg_requirement pg, pc_display_name = pg_display_name pg\<rparr>))"

text \<open>The \<open>finally\<close> block.\<close>

definition plan_finally :: "plan_call \<Rightarrow> page \<Rightarrow> page" where
  "plan_finally call pg =
     (if map_option rq_id (pp_pending pg) = Some (pc_request_id call) then pg\<lparr>pp_pending := None\<rparr> else pg)"

definition plan_committed :: "env \<Rightarrow> plan_call \<Rightarrow> generate_response \<Rightarrow> pending_request \<Rightarrow> page \<Rightarrow> page" where
  "plan_committed e call response pending pg =
     (let ca = canvas_of pg in
      case orchestratePlanSuccessIntents (en_sort e) (en_now e) (en_compare e) response False pending (ca_nodes ca)
        (ca_node_lane_by_id ca) (normalized_lanes (en_now e) ca) (pc_agents call) (non_empty (trim (ca_executor ca)))
        (pc_instruction call) (pc_requirement call) (pc_display_name call) of
        (hydrate, commit) \<Rightarrow>
          let next = (case hydrate of HydrateApply _ _ _ p \<Rightarrow> p | HydrateDisabled p \<Rightarrow> p);
              pg1 = (upd_canvas (\<lambda>ca. ca\<lparr>ca_last_response := Some (Generated (ci_last_response commit)),
                       ca_is_draft := ci_is_draft_canvas commit, ca_is_submitted := ci_is_submitted_flow commit\<rparr>) pg)
                     \<lparr>pp_pending := Some next, pg_session_key := Some (ci_planner_session_key commit),
                      pg_selected_nodes := [], pg_selected_edge := None, pg_dragging := False\<rparr>;
              pg2 = (case ci_next_requirement commit of
                       Some r \<Rightarrow> if r \<noteq> [] then pg1\<lparr>pg_requirement := r\<rparr> else pg1 | None \<Rightarrow> pg1)
          in case ci_next_display_name commit of
               Some n \<Rightarrow> if n \<noteq> [] then pg2\<lparr>pg_display_name := n, pg_name_input := n\<rparr> else pg2
             | None \<Rightarrow> pg2)"

definition plan_fulfilled :: "env \<Rightarrow> plan_call \<Rightarrow> generate_response \<Rightarrow> page \<Rightarrow> page" where
  "plan_fulfilled e call response pg =
     plan_finally call
       (case resolvePlanSuccessGuardIntent (pc_scope call) (pg_active_scope pg) (pp_pending pg) (pc_request_id call) (pc_session call) of
          Inl _ \<Rightarrow> pg
        | Inr pending \<Rightarrow> plan_committed e call response pending pg)"

definition plan_failed_ui :: "plan_failure_ui \<Rightarrow> page \<Rightarrow> page" where
  "plan_failed_ui ui pg =
     addToast (pf_toast_message ui) ErrorKind
       (pg\<lparr>rt_planning := pf_is_planning ui, rt_status := pf_status ui, rt_stopping := pf_is_stopping ui,
          rt_overlay_blocked := pf_block_overlay ui, rt_finish_timer := True\<rparr>)"

definition plan_rejected :: "plan_call \<Rightarrow> jsstring option \<Rightarrow> page \<Rightarrow> page" where
  "plan_rejected call error pg =
     plan_finally call
       (case resolvePlanFailureGuardIntent (pc_scope call) (pg_active_scope pg) (pp_pending pg) (pc_request_id call) (pc_session call) of
          Inl _ \<Rightarrow> pg
        | Inr _ \<Rightarrow> plan_failed_ui (resolvePlanFailureUiIntent error) pg)"

text \<open>\<open>handlePlannerInputKeyDown\<close>: whether a key sends the instruction.\<close>

definition handlePlannerInputKeyDown :: "env \<Rightarrow> jsstring \<Rightarrow> bool \<Rightarrow> bool \<Rightarrow> page \<Rightarrow> page \<times> plan_call option" where
  "handlePlannerInputKeyDown e key isComposing shiftKey pg =
     (if isPlannerAwaiting pg then (pg, None)
      else if key \<noteq> js ''Enter'' then (pg, None)
      else if isComposing then (pg, None)
      else if shiftKey then (pg, None)
      else handlePlanByInstruction e pg)"

section \<open>Stopping the planner\<close>

definition handleStopPlanning :: "env \<Rightarrow> page \<Rightarrow> page \<times> jsstring option" where
  "handleStopPlanning e pg =
     (let sessionKey = trim_opt (pg_session_key pg);
          pg1 = pg\<lparr>pp_pending := None, pp_queue := qo_clear (page_ops e) (non_empty sessionKey) (pp_queue pg),
                  rt_finish_timer := False, rt_status := Session PlanStopped, rt_planning := False,
                  rt_expanded := False, rt_overlay_blocked := False\<rparr>
      in if sessionKey = [] then (pg1, None) else (pg1\<lparr>rt_stopping := True\<rparr>, Some sessionKey))"

definition stop_fulfilled :: "planner_stop_response \<Rightarrow> page \<Rightarrow> page" where
  "stop_fulfilled response pg =
     (let status = Session (sr_status response);
          pg1 = pg\<lparr>rt_status := status, rt_planning := \<not> isTerminalPlannerSessionStatus status\<rparr>;
          pg2 = (if status = Session PlanStopped then pg1\<lparr>rt_overlay_blocked := False, rt_expanded := False\<rparr>
                 else if isTerminalPlannerSessionStatus status
                 then pg1\<lparr>rt_overlay_blocked := True, rt_finish_timer := True\<rparr> else pg1)
      in pg2\<lparr>rt_stopping := False\<rparr>)"

definition stop_rejected :: "jsstring option \<Rightarrow> page \<Rightarrow> page" where
  "stop_rejected error pg = (addToast (nullish error ([0x505C, 0x6B62, 0x89C4, 0x5212, 0x5931, 0x8D25])) ErrorKind pg)\<lparr>rt_stopping := False\<rparr>"

section \<open>Interrupting and continuing a flow\<close>

text \<open>\<open>refreshFlowTasks\<close>: the tasks that are not suppressed become the tasks of the page.\<close>

definition refreshFlowTasks :: "task list \<Rightarrow> page \<Rightarrow> page" where
  "refreshFlowTasks listed pg = pg\<lparr>pg_tasks := refreshed_tasks (pg_suppressed pg) listed\<rparr>"

definition handleStopFlow :: "bool \<Rightarrow> page \<Rightarrow> page \<times> jsstring option" where
  "handleStopFlow confirmed pg =
     (let requirementId = trim (activeSubmittedRequirementId pg) in
      if requirementId = [] then (addToast ([0x5F53, 0x524D, 0x6D41, 0x7A0B, 0x5C1A, 0x672A, 0x52A0, 0x5165, 0x770B, 0x677F, 0xFF0C, 0x65E0, 0x6CD5, 0x4E2D, 0x65AD]) WarningKind pg, None)
      else if \<not> confirmed then (pg, None)
      else (pg\<lparr>pg_acting := True\<rparr>, Some requirementId))"

definition stop_flow_done :: "task list \<Rightarrow> page \<Rightarrow> page" where
  "stop_flow_done listed pg = (addToast ([0x6D41, 0x7A0B, 0x5DF2, 0x4E2D, 0x65AD]) SuccessKind (refreshFlowTasks listed pg))\<lparr>pg_acting := False\<rparr>"

definition stop_flow_failed :: "jsstring option \<Rightarrow> page \<Rightarrow> page" where
  "stop_flow_failed error pg = (addToast (nullish error ([0x6D41, 0x7A0B, 0x4E2D, 0x65AD, 0x5931, 0x8D25])) ErrorKind pg)\<lparr>pg_acting := False\<rparr>"

definition handleContinueFlow :: "page \<Rightarrow> page \<times> jsstring option" where
  "handleContinueFlow pg =
     (let requirementId = trim (activeSubmittedRequirementId pg) in
      if requirementId = [] then (addToast ([0x5F53, 0x524D, 0x6D41, 0x7A0B, 0x5C1A, 0x672A, 0x52A0, 0x5165, 0x770B, 0x677F, 0xFF0C, 0x65E0, 0x6CD5, 0x7EE7, 0x7EED]) WarningKind pg, None)
      else (pg\<lparr>pg_acting := True\<rparr>, Some requirementId))"

definition continue_flow_done :: "task list \<Rightarrow> page \<Rightarrow> page" where
  "continue_flow_done listed pg = (addToast ([0x6D41, 0x7A0B, 0x5DF2, 0x7EE7, 0x7EED]) SuccessKind (refreshFlowTasks listed pg))\<lparr>pg_acting := False\<rparr>"

definition continue_flow_failed :: "jsstring option \<Rightarrow> page \<Rightarrow> page" where
  "continue_flow_failed error pg = (addToast (nullish error ([0x6D41, 0x7A0B, 0x7EE7, 0x7EED, 0x5931, 0x8D25])) ErrorKind pg)\<lparr>pg_acting := False\<rparr>"

section \<open>Putting the flow on the board\<close>

record confirm_call =
  cl_payload :: confirm_request
  cl_agents :: "agent list"
  cl_executor_agent_id :: jsstring
  cl_flow_id :: jsstring

definition confirm_preflight :: "env \<Rightarrow> page \<Rightarrow> preflight_rejected + preflight_resolved" where
  "confirm_preflight e pg =
     (let ca = canvas_of pg; lanes = normalized_lanes (en_now e) ca in
      resolveFlowConfirmPreflight (canEdit pg) (ca_nodes ca) (ca_executor ca) (ca_agents ca) lanes lanes (ca_node_lane_by_id ca))"

fun toast_kind_of :: "toast_level \<Rightarrow> toast_kind" where
  "toast_kind_of WarningToast = WarningKind"
| "toast_kind_of ErrorToast = ErrorKind"

definition handleConfirm :: "env \<Rightarrow> page \<Rightarrow> page \<times> confirm_call option" where
  "handleConfirm e pg =
     (case confirm_preflight e pg of
        Inl rejected \<Rightarrow> (addToast (fr_message rejected) (toast_kind_of (fr_level rejected)) pg, None)
      | Inr ok \<Rightarrow>
          let ca = canvas_of pg in
          (pg\<lparr>pg_submitting := True\<rparr>,
           Some \<lparr>cl_payload = buildConfirmRequestPayload (ag_instance_id (fp_executor ok)) (pg_flow_id pg)
               (activeSubmittedRequirementId pg) (fp_executor_agent_id ok) (pg_display_name pg) (pg_session_key pg)
               (map_option response_prefix (ca_last_response ca)) (fp_prepared_nodes ok) (page_edges pg),
             cl_agents = ca_agents ca, cl_executor_agent_id = fp_executor_agent_id ok, cl_flow_id = pg_flow_id pg\<rparr>))"

text \<open>The board has answered; then its tasks have been listed again.\<close>

definition confirm_fulfilled :: "env \<Rightarrow> confirm_call \<Rightarrow> confirm_response \<Rightarrow> page \<Rightarrow> page" where
  "confirm_fulfilled e call response pg =
     (let cc = deriveConfirmCanvasState (en_now e) (cr_nodes response) (cr_edges response) (cl_agents call) (cl_executor_agent_id call)
      in (upd_canvas (\<lambda>ca. ca\<lparr>ca_nodes := cc_nodes cc, ca_lanes := cc_lanes cc, ca_node_lane_by_id := cc_node_lane_by_id cc,
            ca_last_response := Some (Confirmed (response\<lparr>cr_nodes := cc_nodes cc, cr_edges := cc_edges cc\<rparr>))\<rparr>) pg)
         \<lparr>pg_session_key := Some (cr_planner_session_key response)\<rparr>)"

definition confirm_refreshed :: "env \<Rightarrow> confirm_call \<Rightarrow> confirm_response \<Rightarrow> task list \<Rightarrow> page \<Rightarrow> page" where
  "confirm_refreshed e call response listed pg =
     (let pg1 = refreshFlowTasks listed pg;
          nextRequirementId = resolvePostConfirmRequirementId (cr_created_task_ids response) (pg_tasks pg1);
          pg2 = (if trim (cl_flow_id call) \<noteq> []
                 then pg1\<lparr>pg_sync := removeDraftRecord (en_parse e) (trim (cl_flow_id call)) True (pg_sync pg1)\<rparr> else pg1);
          ui = resolveConfirmSuccessUiIntent (en_uri e) (length (cr_created_task_ids response))
            (length (cr_dispatched_task_ids response)) nextRequirementId;
          pg3 = addToast (cs_toast_message ui) SuccessKind
            ((upd_canvas (\<lambda>ca. ca\<lparr>ca_is_draft := cs_is_draft_canvas ui, ca_is_submitted := cs_is_submitted_flow ui\<rparr>) pg2)
             \<lparr>pg_submit_open := cs_is_submit_confirm_open ui, pg_selected_nodes := [], pg_selected_edge := None,
              pg_dragging := False\<rparr>);
          pg4 = (case (cs_next_flow_id ui, cs_navigate_to ui) of
                   (Some flowId, Some path) \<Rightarrow> pg3\<lparr>pg_flow_id := flowId, pg_visited := pg_visited pg3 @ [path]\<rparr>
                 | _ \<Rightarrow> pg3)
      in pg4\<lparr>pg_submitting := False\<rparr>)"

definition confirm_failed :: "jsstring option \<Rightarrow> page \<Rightarrow> page" where
  "confirm_failed error pg = (addToast (nullish error ([0x6D41, 0x7A0B, 0x52A0, 0x5165, 0x770B, 0x677F, 0x5931, 0x8D25])) ErrorKind pg)\<lparr>pg_submitting := False\<rparr>"

section \<open>Renaming\<close>

record rename_call =
  nc_name :: jsstring
  nc_requirement_id :: jsstring
  nc_draft_id :: jsstring
  nc_is_draft :: bool
  nc_draft :: draft_record

text \<open>\<open>nc_draft\<close> is built from the closure of the handler; what depends on the stored draft is filled in later.\<close>

definition handleRenameFlow :: "env \<Rightarrow> page \<Rightarrow> page \<times> rename_call option" where
  "handleRenameFlow e pg =
     (case resolveRenameFlowIntent (pg_name_input pg) (activeSubmittedRequirementId pg) (pg_flow_id pg) of
        Inl message \<Rightarrow> (addToast message WarningKind pg, None)
      | Inr intent \<Rightarrow> (pg, Some \<lparr>nc_name = rn_next_name intent, nc_requirement_id = rn_requirement_id intent,
          nc_draft_id = rn_draft_id intent, nc_is_draft = ca_is_draft (canvas_of pg),
          nc_draft = draft_of_page e (rn_draft_id intent) (rn_next_name intent) (rt_messages pg)
            (normalized_lanes (en_now e) (canvas_of pg)) (pg_session_key pg) None None pg\<rparr>))"

text \<open>The rest, with the tasks of the refresh when the flow is on the board.\<close>

definition rename_done :: "env \<Rightarrow> rename_call \<Rightarrow> task list \<Rightarrow> page \<Rightarrow> page" where
  "rename_done e call listed pg =
     (let pg1 = (if nc_requirement_id call \<noteq> [] then refreshFlowTasks listed pg else pg);
          existingDraft = (if nc_draft_id call \<noteq> [] then stored_draft e (nc_draft_id call) pg1 else None);
          record = (nc_draft call)\<lparr>fd_revision := nullish (map_option fd_revision existingDraft) (jint 0),
            fd_created_at := nullish (map_option fd_created_at existingDraft) (en_now e), fd_updated_at := en_now e\<rparr>;
          pg2 = (if shouldPersistRenamedDraft (nc_draft_id call) (existingDraft \<noteq> None) (nc_is_draft call)
                 then pg1\<lparr>pg_sync := persistDraftRecord (en_parse e) record False (pg_sync pg1)\<rparr> else pg1)
      in addToast ([0x6D41, 0x7A0B, 0x540D, 0x79F0, 0x5DF2, 0x66F4, 0x65B0]) SuccessKind (pg2\<lparr>pg_display_name := nc_name call, pg_detail_open := False\<rparr>))"

definition rename_failed :: "jsstring option \<Rightarrow> page \<Rightarrow> page" where
  "rename_failed error pg = addToast (nullish error ([0x6D41, 0x7A0B, 0x91CD, 0x547D, 0x540D, 0x5931, 0x8D25])) ErrorKind pg"

section \<open>The button of the detail panel\<close>

definition page_detail_action :: "page \<Rightarrow> detail_intent" where
  "page_detail_action pg = resolveFlowDetailActionIntent (flowRuntimeState pg) (pg_acting pg) (rt_planning pg) (pg_submitting pg) (canConfirm pg)"

definition handleFlowActionFromDetail :: "bool \<Rightarrow> page \<Rightarrow> page \<times> jsstring option" where
  "handleFlowActionFromDetail confirmed pg =
     (let pg1 = pg\<lparr>pg_detail_open := False\<rparr> in
      case resolveFlowDetailActionDispatch (flowRuntimeState pg) of
        StopAction \<Rightarrow> handleStopFlow confirmed pg1
      | ContinueAction \<Rightarrow> handleContinueFlow pg1
      | SubmitAction \<Rightarrow> (pg1\<lparr>pg_submit_open := True\<rparr>, None))"

section \<open>Late answers\<close>

lemma guard_same: "resolvePlanFailureGuardIntent = resolvePlanSuccessGuardIntent"
  by (intro ext) (simp add: resolvePlanFailureGuardIntent_def resolvePlanSuccessGuardIntent_def)

lemma guard_Inr:
  "resolvePlanSuccessGuardIntent scope active pending ident session = Inr p \<longleftrightarrow>
     scope = active \<and> pending = Some p \<and> rq_id p = ident \<and> rq_session p = session"
  by (auto simp: resolvePlanSuccessGuardIntent_def split: option.split)

lemma guard_foreign:
  "map_option rq_id pending \<noteq> Some ident \<Longrightarrow> \<exists>r. resolvePlanSuccessGuardIntent scope active pending ident session = Inl r"
  by (auto simp: resolvePlanSuccessGuardIntent_def split: option.split)

text \<open>An answer, good or bad, to a request that is not the pending one leaves the page as it is.\<close>

lemma foreign_answer:
  assumes "map_option rq_id (pp_pending pg) \<noteq> Some (pc_request_id call)"
  shows "plan_fulfilled e call response pg = pg" and "plan_rejected call error pg = pg"
  using guard_foreign [OF assms, of "pc_scope call" "pg_active_scope pg" "pc_session call"] assms
  by (auto simp: plan_fulfilled_def plan_rejected_def plan_finally_def guard_same)

lemma plan_finally_pending [simp]:
  "pp_pending pg = None \<Longrightarrow> plan_finally call pg = pg"
  by (simp add: plan_finally_def)

lemma event_pending_None:
  "pp_pending rt = None \<Longrightarrow> pp_pending (snd (applyPlannerRealtimeUpdate ops now m s rt)) = None"
proof -
  assume none: "pp_pending rt = None"
  have clear: "pp_pending (clearSessionQueueRuntime ops s r st) = None" if "pp_pending st = None"
    for r and st :: "('a, 'b) runtime_scheme"
    using that by (auto simp: clearSessionQueueRuntime_def clear_session_def Let_def split: option.split)
  have revise: "pp_pending (applyRevisionIntent ops i m s st) = None" if "pp_pending st = None"
    for i and st :: "('a, 'b) runtime_scheme"
    using that by (auto simp: applyRevisionIntent_def record_revision_def advance_pending_def Let_def
        split: planner_intent.split planner_payload.split)
  show ?thesis
    using none by (auto simp: applyPlannerRealtimeUpdate_def Let_def clear revise
        split: planner_intent.split planner_payload.split)
qed

text \<open>What may still happen to a page whose planner was stopped, before it is asked for a plan again.\<close>

inductive late_step :: "env \<Rightarrow> page \<Rightarrow> page \<Rightarrow> bool" for e where
  answered: "late_step e pg (plan_fulfilled e call response pg)"
| failed: "late_step e pg (plan_rejected call error pg)"
| event: "late_step e pg (snd (applyPlannerRealtimeUpdate (page_ops e) (en_now_ms e) m s pg))"
| fire: "pq_timer (pp_queue pg) = Some k \<Longrightarrow>
    late_step e pg (pg\<lparr>pp_queue := queue_step ca_nodes (applyPlannerDraftNodes e) k (pp_queue pg)\<rparr>)"
| unlock: "late_step e pg (overlay_unlock pg)"
| stop_answered: "late_step e pg (stop_fulfilled stop_response pg)"
| stop_failed: "late_step e pg (stop_rejected error pg)"
| captured: "late_step e pg (capture_effect pg)"

inductive_cases late_stepE: "late_step e pg pg'"

lemma stop_pending [simp]:
  "pp_pending (stop_fulfilled r pg) = pp_pending pg" "pp_pending (stop_rejected er pg) = pp_pending pg"
  by (simp_all add: stop_fulfilled_def stop_rejected_def addToast_def Let_def)

lemma capture_pending [simp]: "pp_pending (capture_effect pg) = pp_pending pg"
  by (simp add: capture_effect_def capturePlannerRuntimeSnapshot_def Let_def)

lemma late_step_pending: "late_step e pg pg' \<Longrightarrow> pp_pending pg = None \<Longrightarrow> pp_pending pg' = None"
  by (erule late_stepE) (simp_all add: foreign_answer event_pending_None overlay_unlock_def)

lemma late_steps_pending: "(late_step e)\<^sup>*\<^sup>* pg pg' \<Longrightarrow> pp_pending pg = None \<Longrightarrow> pp_pending pg' = None"
  by (induction rule: rtranclp_induct) (simp_all add: late_step_pending)

lemma stop_planning_pending: "pp_pending (fst (handleStopPlanning e pg)) = None"
  by (simp add: handleStopPlanning_def Let_def)

text \<open>
  C3: Stopping the planner is final for the requests under way: after \<open>handleStopPlanning\<close>, whatever the
  stream, the timers, the answer to the stop and other late answers do, the answer to any earlier
  request, whether it succeeds or fails, changes nothing on the page until a new plan is asked for.
\<close>

theorem stop_is_final:
  assumes "(late_step e)\<^sup>*\<^sup>* (fst (handleStopPlanning e pg)) pg'"
  shows "plan_fulfilled e call response pg' = pg' \<and> plan_rejected call error pg' = pg'"
  using foreign_answer [of pg' call] late_steps_pending [OF assms stop_planning_pending] by simp

section \<open>Nothing is drawn from the answer\<close>


lemma orchestrate_disabled:
  "orchestratePlanSuccessIntents sorter now en response False pending nodes m lanes agents sel instruction req name =
     (HydrateDisabled pending, resolvePlanSuccessCommitIntent response nodes instruction req name)"
  by (simp add: orchestratePlanSuccessIntents_def resolvePlanHydrateApplyIntent_def)

lemma commit_intent_fields [simp]:
  "ci_last_response (resolvePlanSuccessCommitIntent response nodes instruction req name) =
     response\<lparr>gr_messages := sanitized (gr_messages response), gr_nodes := nodes, gr_edges := deriveEdgesFromNodes nodes\<rparr>"
  "ci_is_draft_canvas (resolvePlanSuccessCommitIntent response nodes instruction req name)"
  "\<not> ci_is_submitted_flow (resolvePlanSuccessCommitIntent response nodes instruction req name)"
  "ci_planner_session_key (resolvePlanSuccessCommitIntent response nodes instruction req name) = gr_planner_session_key response"
  by (simp_all add: resolvePlanSuccessCommitIntent_def sanitized_def split: prod.split)

lemma committed_canvas:
  "canvas_of (plan_committed e call response pending pg) =
     (canvas_of pg)\<lparr>ca_last_response := Some (Generated (response\<lparr>gr_messages := sanitized (gr_messages response),
         gr_nodes := ca_nodes (canvas_of pg), gr_edges := page_edges pg\<rparr>)), ca_is_draft := True, ca_is_submitted := False\<rparr>"
  by (simp add: plan_committed_def orchestrate_disabled Let_def page_edges_def split: option.split)

lemma committed_messages: "rt_messages (plan_committed e call response pending pg) = rt_messages pg"
  by (simp add: plan_committed_def orchestrate_disabled Let_def split: option.split)

lemma finally_fields [simp]:
  "canvas_of (plan_finally call pg) = canvas_of pg" "rt_messages (plan_finally call pg) = rt_messages pg"
  by (simp_all add: plan_finally_def)

text \<open>
  The canvas is drawn by the stream alone: the answer of the planner's HTTP request, whichever it is
  and whenever it comes, leaves the nodes, the lanes, their assignment and the chat as they are; when it
  is recorded at all, the recorded response carries the nodes and edges on screen, not its own.
\<close>

lemma http_answer_draws_nothing:
  "let pg' = plan_fulfilled e call response pg in
     ca_nodes (canvas_of pg') = ca_nodes (canvas_of pg) \<and> ca_lanes (canvas_of pg') = ca_lanes (canvas_of pg) \<and>
     ca_node_lane_by_id (canvas_of pg') = ca_node_lane_by_id (canvas_of pg) \<and> rt_messages pg' = rt_messages pg \<and>
     (pg' = pg \<or> pg' = plan_finally call pg \<or>
      (\<exists>r. ca_last_response (canvas_of pg') = Some (Generated r) \<and> gr_nodes r = ca_nodes (canvas_of pg) \<and> gr_edges r = page_edges pg))"
  by (auto simp: plan_fulfilled_def committed_canvas committed_messages Let_def split: sum.split)

lemma plan_context_sample:
  "plan_context sample_env (sample_page nodes) =
     Inr \<lparr>ic_instruction = js ''plan'', ic_executor_agent_id = js ''main'', ic_executor = sample_agent ''x'' ''main'',
       ic_planner_session_key = js ''linpo:flow:default:planner:main:r''\<rparr>"
  by (simp add: plan_context_def resolvePlanInstructionContext_def page_permissions_def resolvePlannerUiPermissions_def
      hasSelectedFlow_def sample_page_def sample_route_def sample_canvas_def canvas_of_def empty_queue_def sample_env_def
      resolvePlannerExecutor_def resolveExecutorAgentId_def has_agent_id_def sample_agent_def nth_opt_def trim_opt_def
      resolvePlannerSessionForRequest_def buildPlannerSessionKey_def FLOW_BOARD_REALTIME_ID_def char_white_def Let_def
      str_or_def) (simp add: js_def)

section \<open>A plan outlives a change of flow\<close>

lemma handlePlan_Some:
  assumes "handlePlanByInstruction e pg = (pg1, Some call)"
  obtains ctx where "plan_context e pg = Inr ctx"
    and "pg1 = plan_submitted e (trim (flowRequirementScopeId pg)) (ic_executor ctx)
       (resolvePlanSubmissionIntent (ic_instruction ctx) (ic_planner_session_key ctx) (pg_seq pg) (en_now e)
          (getCurrentRevision (ic_planner_session_key ctx) pg)) pg"
    and "pc_request_id call = pg_seq pg + 1" and "pc_session call = ic_planner_session_key ctx"
    and "pc_instruction call = ic_instruction ctx" and "pc_scope call = trim (flowRequirementScopeId pg)"
  using assms by (auto simp: handlePlanByInstruction_def Let_def resolvePlanSubmissionIntent_def
      split: sum.splits option.splits)

lemma plan_submitted_snapshot:
  "trim (pg_flow_id pg) \<noteq> [] \<Longrightarrow>
     map_of (pg_snapshots (plan_submitted e scope executor sub pg)) (trim (pg_flow_id pg)) =
       Some ((plan_snapshot executor sub pg)\<lparr>sn_messages := sanitized (sn_messages (plan_snapshot executor sub pg))\<rparr>)"
  by (simp add: plan_submitted_def capturePlannerRuntimeSnapshot_def Let_def)

lemma put_snapshot_fields [simp]:
  "pp_pending (put_snapshot e sn pg) = sn_pending sn" "rt_planning (put_snapshot e sn pg) = sn_planning sn"
  "rt_status (put_snapshot e sn pg) = sn_status sn" "pg_session_key (put_snapshot e sn pg) = sn_session_key sn"
  "rt_messages (put_snapshot e sn pg) = sanitized (sn_messages sn)"
  "pg_active_scope (put_snapshot e sn pg) = pg_active_scope pg"
  by (simp_all add: put_snapshot_def cachePlannerMessages_def Let_def)

lemma sanitized_append: "sanitized (xs @ ys) = sanitized xs @ sanitized ys"
  by (simp add: sanitized_def sanitizePlannerMessages_def)

lemma sanitized_user [simp]:
  "sanitized [\<lparr>m_role = UserRole, m_content = c, m_kind = None, m_payload = None, m_created_at = t\<rparr>] =
     [\<lparr>m_role = UserRole, m_content = c, m_kind = None, m_payload = None, m_created_at = t\<rparr>]"
  by (simp add: sanitized_def sanitizePlannerMessages_def sanitizePlannerMessage_def raw_of_message_def trim_opt_def
      non_empty_def normalizePlannerObserverMessageRole_def char_white_def)

text \<open>
  A plan that was asked for survives leaving the flow: whatever the page does meanwhile, as long as the
  snapshot of the flow is kept, returning to the flow (\<open>restorePlannerRuntimeSnapshot\<close>) brings back the
  request, its session, the planning state and the instruction as the last message, and the answer, when
  it comes while the flow is shown, is recorded.
\<close>

lemma plan_survives_change_of_flow:
  assumes "handlePlanByInstruction e pg = (pg1, Some call)" and "trim (pg_flow_id pg) \<noteq> []"
    and "map_of (pg_snapshots pg2) (trim (pg_flow_id pg)) = map_of (pg_snapshots pg1) (trim (pg_flow_id pg))"
    and "pg3 = restorePlannerRuntimeSnapshot e' (pg_flow_id pg) pg2"
  shows "map_option rq_id (pp_pending pg3) = Some (pc_request_id call) \<and> pg_session_key pg3 = Some (pc_session call) \<and>
    rt_planning pg3 \<and> rt_status pg3 = Session Planning \<and> hasPendingPlannerReply (rt_messages pg3) \<and>
    m_content (last (rt_messages pg3)) = pc_instruction call \<and>
    (pg_active_scope pg3 = pc_scope call \<longrightarrow>
       ca_last_response (canvas_of (plan_fulfilled e'' call response pg3)) =
         Some (Generated (response\<lparr>gr_messages := sanitized (gr_messages response),
           gr_nodes := ca_nodes (canvas_of pg3), gr_edges := page_edges pg3\<rparr>)))"
proof -
  obtain ctx where "plan_context e pg = Inr ctx"
    and pg1: "pg1 = plan_submitted e (trim (flowRequirementScopeId pg)) (ic_executor ctx)
       (resolvePlanSubmissionIntent (ic_instruction ctx) (ic_planner_session_key ctx) (pg_seq pg) (en_now e)
          (getCurrentRevision (ic_planner_session_key ctx) pg)) pg"
    and c: "pc_request_id call = pg_seq pg + 1" "pc_session call = ic_planner_session_key ctx"
      "pc_instruction call = ic_instruction ctx" and "pc_scope call = trim (flowRequirementScopeId pg)"
    using assms(1) by (rule handlePlan_Some)
  have pg3: "pg3 = put_snapshot e' (nullish (map_of (pg_snapshots pg1) (trim (pg_flow_id pg))) undefined) pg2"
    using assms(2,3) by (simp add: assms(4) restorePlannerRuntimeSnapshot_def Let_def pg1 plan_submitted_snapshot)
  have pending: "pp_pending pg3 = Some \<lparr>rq_id = pg_seq pg + 1, rq_session = ic_planner_session_key ctx, rq_allow_http = False,
      rq_baseline = Some (getCurrentRevision (ic_planner_session_key ctx) pg),
      rq_latest = Some (getCurrentRevision (ic_planner_session_key ctx) pg)\<rparr>"
    unfolding pg3 by (simp add: pg1 plan_submitted_snapshot assms(2) plan_snapshot_def resolvePlanSubmissionIntent_def Let_def)
  have rest: "pg_session_key pg3 = Some (ic_planner_session_key ctx)" "rt_planning pg3" "rt_status pg3 = Session Planning"
    "rt_messages pg3 = sanitized (sanitized (rt_messages pg)) @ [\<lparr>m_role = UserRole, m_content = ic_instruction ctx,
       m_kind = None, m_payload = None, m_created_at = en_now e\<rparr>]"
    unfolding pg3 by (simp_all add: pg1 plan_submitted_snapshot assms(2) plan_snapshot_def resolvePlanSubmissionIntent_def
        Let_def sanitized_append)
  show ?thesis
    by (simp add: pending rest c hasPendingPlannerReply_def)
      (simp add: plan_fulfilled_def resolvePlanSuccessGuardIntent_def pending c committed_canvas)
qed

theorem plan_survives_change_of_flow_witness:
  "\<exists>pg1 call. handlePlanByInstruction sample_env (sample_page []) = (pg1, Some call) \<and>
     rt_planning (restorePlannerRuntimeSnapshot sample_env (js ''f'') (reset_planner sample_env pg1))"
proof -
  obtain pg1 call where h: "handlePlanByInstruction sample_env (sample_page []) = (pg1, Some call)"
    by (simp add: handlePlanByInstruction_def plan_context_sample Let_def)
  have f: "pg_flow_id (sample_page []) = js ''f''" "trim (js ''f'') = js ''f''"
    by (simp_all add: sample_page_def char_white_def)
  have "pg_snapshots (reset_planner sample_env pg1) = pg_snapshots pg1"
    by (simp add: reset_planner_def resetPlannerRuntimeState_def)
  then have "rt_planning (restorePlannerRuntimeSnapshot sample_env (js ''f'') (reset_planner sample_env pg1))"
    using plan_survives_change_of_flow [OF h, of "reset_planner sample_env pg1" _ sample_env, OF _ _ refl] by (simp add: f)
  with h show ?thesis by blast
qed

theorem stop_is_final_witness:
  "\<exists>pg1 call. handlePlanByInstruction sample_env (sample_page []) = (pg1, Some call) \<and>
     plan_rejected call None (fst (handleStopPlanning sample_env pg1)) = fst (handleStopPlanning sample_env pg1)"
proof -
  obtain pg1 call where h: "handlePlanByInstruction sample_env (sample_page []) = (pg1, Some call)"
    by (simp add: handlePlanByInstruction_def plan_context_sample Let_def)
  then show ?thesis using stop_is_final [OF rtranclp.rtrancl_refl, of sample_env call] by blast
qed

section \<open>Requests under way\<close>

text \<open>The page with the requests that have not been answered.\<close>

record plan_world =
  pw_page :: page
  pw_calls :: "plan_call list"

inductive plan_step :: "plan_world \<Rightarrow> plan_world \<Rightarrow> bool" where
  send: "handlePlanByInstruction e (pw_page w) = (pg, sent) \<Longrightarrow>
    plan_step w \<lparr>pw_page = pg, pw_calls = pw_calls w @ (case sent of None \<Rightarrow> [] | Some call \<Rightarrow> [call])\<rparr>"
| answer: "call \<in> set (pw_calls w) \<Longrightarrow>
    plan_step w \<lparr>pw_page = plan_fulfilled e call response (pw_page w), pw_calls = remove1 call (pw_calls w)\<rparr>"
| failure: "call \<in> set (pw_calls w) \<Longrightarrow>
    plan_step w \<lparr>pw_page = plan_rejected call error (pw_page w), pw_calls = remove1 call (pw_calls w)\<rparr>"
| stop: "plan_step w (w\<lparr>pw_page := fst (handleStopPlanning e (pw_page w))\<rparr>)"
| stop_answer: "plan_step w (w\<lparr>pw_page := stop_fulfilled stop_response (pw_page w)\<rparr>)"
| stop_failure: "plan_step w (w\<lparr>pw_page := stop_rejected error (pw_page w)\<rparr>)"
| stream: "plan_step w (w\<lparr>pw_page := snd (applyPlannerRealtimeUpdate (page_ops e) (en_now_ms e) m s (pw_page w))\<rparr>)"
| draw: "pq_timer (pp_queue (pw_page w)) = Some k \<Longrightarrow>
    plan_step w (w\<lparr>pw_page := (pw_page w)\<lparr>pp_queue := queue_step ca_nodes (applyPlannerDraftNodes e) k (pp_queue (pw_page w))\<rparr>\<rparr>)"
| unlock: "plan_step w (w\<lparr>pw_page := overlay_unlock (pw_page w)\<rparr>)"
| capture: "plan_step w (w\<lparr>pw_page := capture_effect (pw_page w)\<rparr>)"
| leave: "plan_step w (w\<lparr>pw_page := restorePlannerRuntimeSnapshot e flowId
      ((reset_planner e (pw_page w))\<lparr>pg_flow_id := flowId, pg_route := newRoute\<rparr>)\<rparr>)"
| scope: "plan_step w (w\<lparr>pw_page := scope_effect (pw_page w)\<rparr>)"
| typed: "plan_step w (w\<lparr>pw_page := (pw_page w)\<lparr>pg_input := text\<rparr>\<rparr>)"
| edit: "plan_step w (w\<lparr>pw_page := upd_canvas f (pw_page w)\<rparr>)"

inductive_cases plan_stepE: "plan_step w w'"

definition calls_ok :: "plan_world \<Rightarrow> bool" where
  "calls_ok w \<longleftrightarrow> distinct (map pc_request_id (pw_calls w)) \<and>
     (\<forall>call \<in> set (pw_calls w). pc_request_id call \<le> pg_seq (pw_page w))"

lemma event_more:
  fixes ops :: "'q queue_ops" and rt :: "('q, 'r) runtime_scheme"
  shows "runtime.more (snd (applyPlannerRealtimeUpdate ops now m s rt)) = runtime.more rt"
proof -
  have clear: "runtime.more (clearSessionQueueRuntime ops s r st) = runtime.more st"
    for r and st :: "('q, 'r) runtime_scheme"
    by (auto simp: clearSessionQueueRuntime_def clear_session_def Let_def split: option.split)
  have revise: "runtime.more (applyRevisionIntent ops i m s st) = runtime.more st"
    for i and st :: "('q, 'r) runtime_scheme"
    by (auto simp: applyRevisionIntent_def record_revision_def Let_def split: planner_intent.split planner_payload.split)
  have "runtime.more (run_transition t st) = runtime.more st" for t and st :: "('q, 'r) runtime_scheme"
    by (simp add: run_transition_def Let_def)
  moreover have "runtime.more (replacePlannerMessagesFromRealtime now s ms u st) = runtime.more st"
    for ms u and st :: "('q, 'r) runtime_scheme"
    by (simp add: replacePlannerMessagesFromRealtime_def Let_def split: option.split)
  ultimately show ?thesis
    by (auto simp: applyPlannerRealtimeUpdate_def Let_def clear revise split: planner_intent.split planner_payload.split)
qed

lemma seq_of_more: "runtime.more pg = runtime.more pg' \<Longrightarrow> pg_seq pg = pg_seq pg'"
  by (cases pg; cases pg') simp

lemma event_seq [simp]: "pg_seq (snd (applyPlannerRealtimeUpdate ops now m s pg)) = pg_seq pg"
  by (rule seq_of_more [OF event_more])

lemma seq_kept [simp]:
  "pg_seq (plan_fulfilled e call r pg) = pg_seq pg" "pg_seq (plan_rejected call er pg) = pg_seq pg"
  "pg_seq (fst (handleStopPlanning e pg)) = pg_seq pg" "pg_seq (stop_fulfilled sr pg) = pg_seq pg"
  "pg_seq (stop_rejected er pg) = pg_seq pg" "pg_seq (overlay_unlock pg) = pg_seq pg"
  "pg_seq (capture_effect pg) = pg_seq pg" "pg_seq (scope_effect pg) = pg_seq pg"
  "pg_seq (upd_canvas f pg) = pg_seq pg" "pg_seq (restorePlannerRuntimeSnapshot e flowId pg) = pg_seq pg"
  "pg_seq (reset_planner e pg) = pg_seq pg" "pg_seq (addToast t k pg) = pg_seq pg"
proof -
  have fin: "pg_seq (plan_finally call pg) = pg_seq pg" for pg by (simp add: plan_finally_def)
  have up: "pg_seq (upd_canvas f pg) = pg_seq pg" for f pg by (simp add: upd_canvas_def)
  have com: "pg_seq (plan_committed e call r p pg) = pg_seq pg" for p
    by (simp add: plan_committed_def up Let_def split: prod.split option.split)
  show "pg_seq (plan_fulfilled e call r pg) = pg_seq pg" by (simp add: plan_fulfilled_def fin com split: sum.split)
  show "pg_seq (plan_rejected call er pg) = pg_seq pg"
    by (simp add: plan_rejected_def plan_failed_ui_def addToast_def fin split: sum.split)
  show "pg_seq (restorePlannerRuntimeSnapshot e flowId pg) = pg_seq pg"
    by (simp add: restorePlannerRuntimeSnapshot_def put_snapshot_def cachePlannerMessages_def Let_def split: option.split)
qed (simp_all add: handleStopPlanning_def stop_fulfilled_def stop_rejected_def overlay_unlock_def capture_effect_def
    capturePlannerRuntimeSnapshot_def scope_effect_def upd_canvas_def reset_planner_def resetPlannerRuntimeState_def
    addToast_def Let_def)

lemma send_seq:
  assumes "handlePlanByInstruction e pg = (pg', sent)"
  shows "case sent of None \<Rightarrow> pg_seq pg' = pg_seq pg
    | Some call \<Rightarrow> pc_request_id call = pg_seq pg + 1 \<and> pg_seq pg' = pg_seq pg + 1"
proof (cases sent)
  case None
  then show ?thesis using assms
    by (auto simp: handlePlanByInstruction_def Let_def split: sum.splits option.splits if_splits)
next
  case (Some call)
  then obtain ctx where c: "plan_context e pg = Inr ctx"
    and pg': "pg' = plan_submitted e (trim (flowRequirementScopeId pg)) (ic_executor ctx)
       (resolvePlanSubmissionIntent (ic_instruction ctx) (ic_planner_session_key ctx) (pg_seq pg) (en_now e)
          (getCurrentRevision (ic_planner_session_key ctx) pg)) pg"
    and "pc_request_id call = pg_seq pg + 1" and "pc_session call = ic_planner_session_key ctx"
      "pc_instruction call = ic_instruction ctx" and "pc_scope call = trim (flowRequirementScopeId pg)"
    using assms by (auto elim: handlePlan_Some)
  have "pg_seq (plan_submitted e scope executor sub pg) = ps_request_id sub" for scope executor sub
    by (simp add: plan_submitted_def capturePlannerRuntimeSnapshot_def Let_def)
  then show ?thesis using Some by (simp add: pg' resolvePlanSubmissionIntent_def Let_def \<open>pc_request_id call = pg_seq pg + 1\<close>)
qed

lemma distinct_remove1_map: "distinct (map f xs) \<Longrightarrow> distinct (map f (remove1 x xs))"
  by (induction xs) (auto dest: notin_set_remove1 simp: image_iff)

lemma calls_ok_step: "plan_step w w' \<Longrightarrow> calls_ok w \<Longrightarrow> calls_ok w'"
proof (erule plan_stepE)
  fix e pg sent
  assume ok: "calls_ok w" and h: "handlePlanByInstruction e (pw_page w) = (pg, sent)"
    and w': "w' = \<lparr>pw_page = pg, pw_calls = pw_calls w @ (case sent of None \<Rightarrow> [] | Some call \<Rightarrow> [call])\<rparr>"
  show "calls_ok w'"
    using ok send_seq [OF h] by (cases sent) (fastforce simp: w' calls_ok_def)+
qed (auto simp: calls_ok_def distinct_remove1_map dest: notin_set_remove1 in_set_remove1)

text \<open>
  C6: However often the user sends, stops, leaves flows and comes back, of all the answers still
  outstanding at most one can do anything: two requests under way whose answers would change the page
  are the same request.
\<close>

theorem one_plan_answer_counts:
  assumes "plan_step\<^sup>*\<^sup>* \<lparr>pw_page = pg, pw_calls = []\<rparr> w"
    and "call \<in> set (pw_calls w)" and "call' \<in> set (pw_calls w)"
    and "plan_fulfilled e call r (pw_page w) \<noteq> pw_page w \<or> plan_rejected call er (pw_page w) \<noteq> pw_page w"
    and "plan_fulfilled e' call' r' (pw_page w) \<noteq> pw_page w \<or> plan_rejected call' er' (pw_page w) \<noteq> pw_page w"
  shows "call = call'"
proof -
  have "calls_ok w" using assms(1)
    by (induction rule: rtranclp_induct) (simp_all add: calls_ok_step, simp add: calls_ok_def)
  moreover have "pc_request_id call = pc_request_id call'"
    using assms(4,5) foreign_answer by (metis option.inject)
  ultimately show ?thesis using assms(2,3) by (auto simp: calls_ok_def distinct_map dest: inj_onD)
qed

theorem one_plan_answer_counts_witness:
  "\<exists>pg1 call. handlePlanByInstruction sample_env (sample_page []) = (pg1, Some call) \<and>
     plan_rejected call None pg1 \<noteq> pg1 \<and> call \<in> set (pw_calls \<lparr>pw_page = pg1, pw_calls = [call]\<rparr>) \<and> call = call"
proof -
  obtain pg1 call where h: "handlePlanByInstruction sample_env (sample_page []) = (pg1, Some call)"
    by (simp add: handlePlanByInstruction_def plan_context_sample Let_def)
  let ?w = "\<lparr>pw_page = pg1, pw_calls = [call]\<rparr>"
  have "plan_step \<lparr>pw_page = sample_page [], pw_calls = []\<rparr> ?w"
    using plan_step.send [of sample_env "\<lparr>pw_page = sample_page [], pw_calls = []\<rparr>"] h by simp
  then have reach: "plan_step\<^sup>*\<^sup>* \<lparr>pw_page = sample_page [], pw_calls = []\<rparr> ?w" by blast
  obtain ctx where "plan_context sample_env (sample_page []) = Inr ctx"
    and pg1: "pg1 = plan_submitted sample_env (trim (flowRequirementScopeId (sample_page []))) (ic_executor ctx)
       (resolvePlanSubmissionIntent (ic_instruction ctx) (ic_planner_session_key ctx) (pg_seq (sample_page [])) (en_now sample_env)
          (getCurrentRevision (ic_planner_session_key ctx) (sample_page []))) (sample_page [])"
    and c: "pc_request_id call = pg_seq (sample_page []) + 1" "pc_session call = ic_planner_session_key ctx"
      "pc_instruction call = ic_instruction ctx" "pc_scope call = trim (flowRequirementScopeId (sample_page []))"
    using h by (rule handlePlan_Some)
  have "pp_pending pg1 \<noteq> None" "map_option rq_id (pp_pending pg1) = Some (pc_request_id call)"
    by (simp_all add: pg1 c plan_submitted_def capturePlannerRuntimeSnapshot_def resolvePlanSubmissionIntent_def Let_def)
  moreover have "pp_pending (plan_rejected call None pg1) = None"
    using calculation(2) by (auto simp: plan_rejected_def plan_finally_def plan_failed_ui_def addToast_def split: sum.split)
  ultimately have neq: "plan_rejected call None pg1 \<noteq> pg1" by metis
  have "call = call"
    by (rule one_plan_answer_counts [OF reach, of call call sample_env undefined None sample_env undefined None])
      (use neq in simp_all)
  then show ?thesis using h neq by auto
qed

section \<open>What is sent to the board\<close>

lemma handleConfirm_Some:
  assumes "handleConfirm e pg = (pg', Some call)"
  obtains ok where "confirm_preflight e pg = Inr ok"
    and "cq_nodes (cl_payload call) = fp_prepared_nodes ok" and "cq_edges (cl_payload call) = page_edges pg"
    and "cq_executor_agent_id (cl_payload call) = fp_executor_agent_id ok"
    and "cq_instance_id (cl_payload call) = ag_instance_id (fp_executor ok)"
    and "pg' = pg\<lparr>pg_submitting := True\<rparr>"
  using assms by (auto simp: handleConfirm_def buildConfirmRequestPayload_def Let_def split: sum.splits)

lemma flow_edges_submitted:
  assumes "list_all2 (submitted nodes pool) nodes out" and "map n_id out = map n_id nodes"
  shows "flow_edges out = flow_edges nodes"
proof -
  have ids: "flow_ids out = flow_ids nodes" using assms(2) by (metis set_map)
  have fwd: "(d, n_id y) \<in> flow_edges nodes" if y: "y \<in> set out" "d \<in> set (n_depends_on y)" "d \<in> flow_ids out" "d \<noteq> n_id y" for d y
  proof -
    obtain x where x: "x \<in> set nodes" "submitted nodes pool x y" using list_all2_mem2 [OF assms(1) y(1)] by blast
    note sub = submittedD [OF x(2)]
    have "d \<in> set (n_depends_on x)" using y(2) unfolding conjunct2 [OF sub] by (elim CollectE conjE)
    from flow_edgesI [OF x(1) this y(3) [unfolded ids] y(4) [unfolded conjunct1 [OF sub]]]
    show ?thesis unfolding conjunct1 [OF sub] .
  qed
  have bwd: "(d, n_id x) \<in> flow_edges out"
    if x: "x \<in> set nodes" "d \<in> set (n_depends_on x)" "d \<in> flow_ids nodes" "d \<noteq> n_id x" for d x
  proof -
    obtain y where y: "y \<in> set out" "submitted nodes pool x y" using list_all2_mem1 [OF assms(1) x(1)] by blast
    note sub = submittedD [OF y(2)]
    have "d \<in> set (n_depends_on y)" unfolding conjunct2 [OF sub] by (intro CollectI conjI x(2-4))
    from flow_edgesI [OF y(1) this x(3) [folded ids] x(4) [folded conjunct1 [OF sub]]]
    show ?thesis unfolding conjunct1 [OF sub] .
  qed
  show ?thesis
  proof (rule subset_antisym; rule subsetI)
    fix p assume "p \<in> flow_edges out"
    then obtain d y where "p = (d, n_id y)" "y \<in> set out" "d \<in> set (n_depends_on y)" "d \<in> flow_ids out" "d \<noteq> n_id y"
      unfolding flow_edges_def by blast
    then show "p \<in> flow_edges nodes" using fwd by (simp only:)
  next
    fix p assume "p \<in> flow_edges nodes"
    then obtain d x where "p = (d, n_id x)" "x \<in> set nodes" "d \<in> set (n_depends_on x)" "d \<in> flow_ids nodes" "d \<noteq> n_id x"
      unfolding flow_edges_def by blast
    then show "p \<in> flow_edges out" using bwd by (simp only:)
  qed
qed

lemma derived_edges_fold:
  assumes "set ids = flow_ids nodes" and "x \<in> set nodes"
    and "\<forall>e \<in> set (fst st). (e_source e, e_target e) \<in> flow_edges nodes" and "set ds \<subseteq> set (n_depends_on x)"
  shows "\<forall>e \<in> set (fst (fold (derive_edge ids x) ds st)). (e_source e, e_target e) \<in> flow_edges nodes"
  using assms(3,4)
proof (induction ds arbitrary: st)
  case Nil
  then show ?case by simp
next
  case (Cons d ds)
  have "(d, n_id x) \<in> flow_edges nodes" if "d \<in> set ids" "d \<noteq> n_id x"
    using that Cons.prems(2) assms(1,2) by (intro flow_edgesI) auto
  then have "\<forall>e \<in> set (fst (derive_edge ids x d st)). (e_source e, e_target e) \<in> flow_edges nodes"
    using Cons.prems(1) by (auto simp: derive_edge_def Let_def split: prod.splits)
  then show ?case using Cons by simp
qed

lemma derived_edges_sound: "e \<in> set (deriveEdgesFromNodes nodes) \<Longrightarrow> (e_source e, e_target e) \<in> flow_edges nodes"
proof -
  have "\<forall>e \<in> set (fst (fold (\<lambda>node. fold (derive_edge (map n_id nodes) node) (n_depends_on node)) xs st)).
      (e_source e, e_target e) \<in> flow_edges nodes"
    if "set xs \<subseteq> set nodes" "\<forall>e \<in> set (fst st). (e_source e, e_target e) \<in> flow_edges nodes" for xs st
    using that
  proof (induction xs arbitrary: st)
    case Nil
    then show ?case by simp
  next
    case (Cons x xs)
    have "\<forall>e \<in> set (fst (fold (derive_edge (map n_id nodes) x) (n_depends_on x) st)). (e_source e, e_target e) \<in> flow_edges nodes"
      using Cons.prems by (intro derived_edges_fold) auto
    then show ?case using Cons by simp
  qed
  from this [of nodes "([], [])"] show "e \<in> set (deriveEdgesFromNodes nodes) \<Longrightarrow> (e_source e, e_target e) \<in> flow_edges nodes"
    unfolding deriveEdgesFromNodes_def by auto
qed

lemma push_agent_set: "set (snd (push_agent a st)) \<subseteq> set (snd st) \<union> set_option a"
  by (cases st) (auto simp: push_agent_def Let_def split: option.split)

lemma push_agents_set: "set (snd (fold (\<lambda>agent. push_agent (Some agent)) xs st)) \<subseteq> set (snd st) \<union> set xs"
proof (induction xs arbitrary: st)
  case (Cons x xs)
  show ?case using Cons.IH [of "push_agent (Some x) st"] push_agent_set [of "Some x" st] by auto
qed simp

lemma find_set: "set_option (find P xs) \<subseteq> set xs"
  by (induction xs) auto

lemma lane_agents_set: "set (lane_agents a agents) \<subseteq> set agents"
proof -
  have mem: "set (snd (push_agent (find P agents) st)) \<subseteq> set agents" if "set (snd st) \<subseteq> set agents" for P st
    using push_agent_set [of "find P agents" st] find_set [of P agents] that by blast
  have all: "set (snd (fold (\<lambda>agent. push_agent (Some agent)) agents st)) \<subseteq> set agents" if "set (snd st) \<subseteq> set agents" for st
    using push_agents_set [of agents st] that by blast
  have start: "set (snd ([], [])) \<subseteq> set agents" by simp
  show ?thesis
    unfolding lane_agents_def Let_def
    by (rule all, split if_split, intro conjI impI mem start)
qed

lemma normalized_lanes_trimmed:
  assumes "\<forall>lane \<in> set (ca_lanes ca). trimmed (nullish (l_agent_id lane) [])"
  shows "\<forall>lane \<in> set (normalized_lanes now ca). trimmed (nullish (l_agent_id lane) [])"
proof (cases "ca_lanes ca = []")
  case True
  have "trimmed (ag_agent_id x)" if "x \<in> set (lane_agents a (normalized_agents agents))" for x a agents
    using that lane_agents_set [of a "normalized_agents agents"] by (auto simp: normalized_agents_def)
  then show ?thesis using True by (auto simp: normalized_lanes_def buildInitialLanesFromAgent_def Let_def)
next
  case False
  then show ?thesis using assms by (simp add: normalized_lanes_def)
qed

text \<open>
  C11: What the confirmation sends to the board is the flow on the canvas and can be executed: the page
  could be edited; the nodes are those of the canvas in their order with exactly its dependencies,
  which have no cycle; every edge sent is one of them; the executor is an agent of the overview and so
  is the agent of every node. Until the answer comes only the submitting flag of the page changes.
\<close>

theorem confirm_sends_executable_flow:
  assumes "handleConfirm e pg = (pg', Some call)"
    and "\<forall>lane \<in> set (ca_lanes (canvas_of pg)). trimmed (nullish (l_agent_id lane) [])"
  shows "canEdit pg \<and> pg' = pg\<lparr>pg_submitting := True\<rparr> \<and>
    map n_id (cq_nodes (cl_payload call)) = map n_id (ca_nodes (canvas_of pg)) \<and>
    flow_edges (cq_nodes (cl_payload call)) = flow_edges (ca_nodes (canvas_of pg)) \<and>
    acyclic (flow_edges (cq_nodes (cl_payload call))) \<and>
    (\<forall>d \<in> set (cq_edges (cl_payload call)). (e_source d, e_target d) \<in> flow_edges (cq_nodes (cl_payload call))) \<and>
    cq_executor_agent_id (cl_payload call) \<in> ag_agent_id ` set (ca_agents (canvas_of pg)) \<and>
    (\<forall>node \<in> set (cq_nodes (cl_payload call)).
       trim_opt (n_agent_id node) \<in> (\<lambda>agent. trim (ag_agent_id agent)) ` set (ca_agents (canvas_of pg)))"
proof -
  let ?ca = "canvas_of pg"
  let ?lanes = "normalized_lanes (en_now e) ?ca"
  obtain ok where pre: "confirm_preflight e pg = Inr ok"
    and call: "cq_nodes (cl_payload call) = fp_prepared_nodes ok" "cq_edges (cl_payload call) = page_edges pg"
      "cq_executor_agent_id (cl_payload call) = fp_executor_agent_id ok"
    and "cq_instance_id (cl_payload call) = ag_instance_id (fp_executor ok)"
    and pg': "pg' = pg\<lparr>pg_submitting := True\<rparr>"
    using assms(1) by (rule handleConfirm_Some)
  have ok: "resolveFlowConfirmPreflight (canEdit pg) (ca_nodes ?ca) (ca_executor ?ca) (ca_agents ?ca) ?lanes ?lanes
      (ca_node_lane_by_id ?ca) = Inr ok"
    using pre by (simp add: confirm_preflight_def Let_def)
  note facts = preflight_Inr [OF ok]
  note prep = prepare_Inr [OF facts(8)]
  have edges: "flow_edges (fp_prepared_nodes ok) = flow_edges (ca_nodes ?ca)"
    by (rule flow_edges_submitted [OF prep(5,4)])
  have agents: "\<forall>node \<in> set (fp_prepared_nodes ok).
      trim_opt (n_agent_id node) \<in> (\<lambda>agent. trim (ag_agent_id agent)) ` set (ca_agents ?ca)"
  proof
    fix node assume "node \<in> set (fp_prepared_nodes ok)"
    from list_all2_mem2 [OF preflight_nodes [OF ok normalized_lanes_trimmed [OF assms(2)]] this]
    obtain a where a: "n_agent_id node = Some a" "a \<in> (\<lambda>agent. trim (ag_agent_id agent)) ` set (ca_agents ?ca)"
      by blast
    then have "trim_opt (n_agent_id node) = a" by (auto simp: trim_opt_def)
    then show "trim_opt (n_agent_id node) \<in> (\<lambda>agent. trim (ag_agent_id agent)) ` set (ca_agents ?ca)"
      using a(2) by simp
  qed
  have "fp_executor_agent_id ok \<in> ag_agent_id ` set (ca_agents ?ca)" using facts(6,7) by (metis imageI)
  then show ?thesis
    using facts(1) prep(2,4) derived_edges_sound agents
    by (auto simp: pg' call edges page_edges_def)
qed

definition two_nodes :: "flow_node list" where
  "two_nodes = [sample_node ''b'' ''B'' [''a''], sample_node ''a'' ''A'' []]"

definition laned_page :: page where
  "laned_page = upd_canvas (\<lambda>ca. ca\<lparr>ca_lanes := [\<lparr>l_id = js ''l'', l_name = js ''l'', l_instance_id = None,
     l_agent_id = Some (js ''main''), l_created_at = []\<rparr>]\<rparr>) (sample_page two_nodes)"

lemma laned_fields:
  "ca_nodes (canvas_of laned_page) = two_nodes" "ca_executor (canvas_of laned_page) = js ''main''"
  "ca_agents (canvas_of laned_page) = [sample_agent ''x'' ''main'']" "ca_node_lane_by_id (canvas_of laned_page) = []"
  "ca_lanes (canvas_of laned_page) = [\<lparr>l_id = js ''l'', l_name = js ''l'', l_instance_id = None,
     l_agent_id = Some (js ''main''), l_created_at = []\<rparr>]"
  unfolding laned_page_def canvas_upd by (simp_all add: sample_page_def canvas_of_def empty_queue_def sample_canvas_def)

lemma laned_can_edit: "canEdit laned_page"
  by (simp add: canEdit_def hasSelectedFlow_def isPlannerAwaiting_def isPlannerAwaitingByPendingMessage_def laned_page_def
      isPlannerAwaitingSession_def flowRuntimeState_def currentRequirementTasks_def groupTasksByRequirement_def upd_canvas_def
      resolveFlowRuntimeState_def sample_page_def sample_route_def hasPendingPlannerReply_def Let_def)

lemma laned_preflight: "\<exists>ok. confirm_preflight sample_env laned_page = Inr ok"
proof -
  obtain out where out: "prepareNodesForSubmission two_nodes [] [] [] (js ''main'') = Inr out"
    using flow_two_accepted unfolding two_nodes_def by (elim exE conjE)
  note prepare_Inr(1-3) [OF this]
  moreover have "submit_pool (js ''main'') [js ''main''] \<noteq> []" by (simp add: submit_pool_def uniq_def char_white_def)
  ultimately have "\<exists>out. prepareNodesForSubmission two_nodes [] lanes [js ''main''] (js ''main'') = Inr out" for lanes
    by (simp add: prepare_eq)
  then obtain out where "prepareNodesForSubmission two_nodes [] (ca_lanes (canvas_of laned_page)) [js ''main''] (js ''main'') = Inr out"
    by blast
  then show ?thesis
    by (simp add: confirm_preflight_def laned_can_edit laned_fields normalized_lanes_def resolveFlowConfirmPreflight_def Let_def
        collectUnavailableAgentIdsForConfirm_def add_missing_def resolveExecutorAgentId_def has_agent_id_def sample_agent_def
        char_white_def trim_opt_def) (simp add: two_nodes_def sample_node_def add_missing_def)
qed

theorem confirm_sends_executable_flow_witness:
  "\<exists>pg' call. handleConfirm sample_env laned_page = (pg', Some call) \<and>
     flow_edges (cq_nodes (cl_payload call)) = flow_edges two_nodes"
proof -
  obtain ok where "confirm_preflight sample_env laned_page = Inr ok" using laned_preflight by blast
  then obtain pg' call where h: "handleConfirm sample_env laned_page = (pg', Some call)"
    by (simp add: handleConfirm_def Let_def)
  have "\<forall>lane \<in> set (ca_lanes (canvas_of laned_page)). trimmed (nullish (l_agent_id lane) [])"
    by (simp add: laned_fields trimmed_def char_white_def)
  from confirm_sends_executable_flow [OF h this] show ?thesis using h by (simp add: laned_fields)
qed

end
