(* ===== verification/PageHydration.thy ===== *)
theory PageHydration imports PlannerActions begin

text \<open>
  \<open>flow-page/hooks/useFlowDraftHydrationRuntime.ts\<close> with \<open>hooks/useFlowRouteHydrationApply.ts\<close>: how drafts
  and flows of the board come onto the page, how the canvas goes back into the drafts, and the side bar.
  An effect of the hook is a function on the page; the microtask that ends a hydration is
  \<open>hydration_done\<close>.
\<close>

section \<open>Applying a draft\<close>

definition loaded_session_key :: jsstring where
  "loaded_session_key = js ''linpo:flow:'' @ FLOW_BOARD_REALTIME_ID @ js '':planner:'' @
     DEFAULT_FLOW_PLANNER_SESSION_AGENT_SEGMENT @ js '':loaded''"

definition restored_response :: "draft_record \<Rightarrow> flow_node list \<Rightarrow> chat_message list \<Rightarrow> generate_response option" where
  "restored_response draft nodes messages =
     (if nullish (fd_planner_session_key draft) [] \<noteq> [] \<or> nullish (fd_execution_session_prefix draft) [] \<noteq> []
      then Some \<lparr>gr_board_id = FLOW_BOARD_REALTIME_ID,
        gr_planner_session_key = nullish (fd_planner_session_key draft) loaded_session_key,
        gr_manager_session_key = board_session '':manager'',
        gr_execution_session_prefix = nullish (fd_execution_session_prefix draft) (board_session '':exec''),
        gr_nodes = nodes, gr_edges = deriveEdgesFromNodes nodes, gr_messages = messages, gr_created_task_ids = []\<rparr>
      else None)"

definition put_draft_runtime :: "planner_runtime option \<Rightarrow> page \<Rightarrow> page" where
  "put_draft_runtime runtime pg =
     (case runtime of
        None \<Rightarrow> pg
      | Some r \<Rightarrow>
          let pg1 = pg\<lparr>rt_status := pr_session_status r, rt_planning := pr_is_planning r,
                      rt_stopping := pr_is_planner_stopping r, rt_overlay_blocked := pr_is_overlay_close_blocked r\<rparr>
          in if pr_is_planning r \<or> pr_is_planner_stopping r \<or> pr_is_overlay_close_blocked r
             then pg1\<lparr>rt_expanded := True\<rparr> else pg1)"

text \<open>The lanes of a draft, or lanes from its nodes when it has none.\<close>

definition draft_lanes :: "env \<Rightarrow> draft_record \<Rightarrow> flow_node list \<Rightarrow> agent list \<Rightarrow> flow_lane list \<times> (jsstring \<times> jsstring) list" where
  "draft_lanes e draft nodes agents =
     (let lanes = normalizeDraftLanes (fd_lanes draft) in
      if 0 < length lanes
      then (lanes, buildNodeLaneByIdFromDraft (fd_node_lane_by_id draft) nodes lanes (fd_executor_agent_id draft))
      else buildLanesAndNodeLaneMapFromNodes (en_now e) nodes agents (fd_executor_agent_id draft))"

text \<open>The chat of a draft: what the cache has of its session, else what the draft has.\<close>

definition put_draft_messages :: "env \<Rightarrow> jsstring option \<Rightarrow> chat_message list \<Rightarrow> page \<Rightarrow> page" where
  "put_draft_messages e sessionKey persisted pg =
     (let cachedMessages = getCachedPlannerMessages sessionKey pg;
          pg1 = (if nullish sessionKey [] \<noteq> [] \<and> length cachedMessages = 0
                 then cachePlannerMessages e sessionKey persisted pg else pg)
      in pg1\<lparr>rt_messages := (if 0 < length cachedMessages then sanitized cachedMessages else persisted)\<rparr>)"

definition applyDraftRecord :: "env \<Rightarrow> draft_record \<Rightarrow> page \<Rightarrow> page" where
  "applyDraftRecord e draft pg =
     (let name = str_or (trim (fd_name draft)) unnamed_flow;
          nodes = normalizeFlowNodes (map raw_of_node (fd_nodes draft)) (fd_edges draft);
          persisted = sanitized (nullish (fd_planner_messages draft) []);
          response = restored_response draft nodes persisted;
          sessionKey = map_option gr_planner_session_key response;
          pg1 = (reset_planner e (pg\<lparr>pg_hydrating := True\<rparr>))\<lparr>pg_flow_id := fd_id draft, pg_display_name := name,
                   pg_name_input := name, pg_requirement := fd_requirement draft, pg_session_key := sessionKey\<rparr>;
          pg2 = put_draft_runtime (fd_planner_runtime draft) (put_draft_messages e sessionKey persisted pg1);
          pg3 = (case draft_lanes e draft nodes (ca_agents (canvas_of pg)) of (lanes, nodeLaneById) \<Rightarrow>
                   upd_canvas (\<lambda>ca. ca\<lparr>ca_nodes := nodes, ca_last_response := map_option Generated response,
                     ca_executor := trim_opt (fd_executor_agent_id draft), ca_lanes := lanes,
                     ca_node_lane_by_id := nodeLaneById\<rparr>) pg2);
          pg4 = (resetCanvasInteractionState True pg3)
                  \<lparr>pg_hydrated_version := (fd_id draft, fd_updated_at draft), pg_skip_persist := 2\<rparr>
      in restorePlannerRuntimeSnapshot e (fd_id draft) pg4)"

definition hydration_done :: "page \<Rightarrow> page" where
  "hydration_done pg = pg\<lparr>pg_hydrating := False\<rparr>"

definition applyEmptyDraftCanvasState :: "env \<Rightarrow> empty_state \<Rightarrow> page \<Rightarrow> page" where
  "applyEmptyDraftCanvasState e es pg =
     (let pg1 = (reset_planner e (pg\<lparr>pg_hydrating := True\<rparr>))\<lparr>pg_flow_id := es_flow_id es,
            pg_display_name := es_display_name es, pg_name_input := es_name_input es, pg_requirement := es_requirement es,
            pg_session_key := None, rt_messages := []\<rparr>;
          pg2 = upd_canvas (\<lambda>ca. ca\<lparr>ca_nodes := [], ca_lanes := es_lanes es, ca_node_lane_by_id := [],
            ca_last_response := None, ca_executor := es_executor es\<rparr>) pg1;
          pg3 = (resetCanvasInteractionState True pg2)\<lparr>pg_hydrated_version := (es_flow_id es, [])\<rparr>
      in restorePlannerRuntimeSnapshot e (es_flow_id es) pg3)"

section \<open>Applying a flow of the board\<close>

definition put_messages_if_changed :: "chat_message list \<Rightarrow> page \<Rightarrow> page" where
  "put_messages_if_changed next pg =
     (if areFlowChatMessagesEqual (rt_messages pg) next then pg else pg\<lparr>rt_messages := next\<rparr>)"

definition applySnapshotCanvasState :: "env \<Rightarrow> flow_snapshot \<Rightarrow> bool \<Rightarrow> page \<Rightarrow> page" where
  "applySnapshotCanvasState e snapshot preferCachedMessages pg =
     (let nodes = normalizeFlowNodes (map raw_of_node (fs_nodes snapshot)) (fs_edges snapshot);
          trackedSessionKey = trim_opt (map_of (pg_session_by_scope pg) (fs_requirement_id snapshot));
          snapshotSessionKey = trim (gr_planner_session_key (fs_last_response snapshot));
          sessionKey = non_empty (str_or trackedSessionKey snapshotSessionKey);
          own = sanitized (gr_messages (fs_last_response snapshot));
          pg1 = (upd_canvas (\<lambda>ca. ca\<lparr>ca_nodes := nodes, ca_lanes := fs_lanes snapshot,
                   ca_node_lane_by_id := fs_node_lane_by_id snapshot,
                   ca_last_response := Some (Generated ((fs_last_response snapshot)\<lparr>gr_nodes := nodes,
                     gr_edges := deriveEdgesFromNodes nodes\<rparr>))\<rparr>) pg)\<lparr>pg_session_key := sessionKey\<rparr>
      in if preferCachedMessages then
           (let cached = sanitized (getCachedPlannerMessages sessionKey pg)
            in put_messages_if_changed (if 0 < length cached then cached else own) pg1)
         else put_messages_if_changed own pg1)"

definition applySnapshot :: "env \<Rightarrow> flow_snapshot \<Rightarrow> page \<Rightarrow> page" where
  "applySnapshot e snapshot pg =
     (let name = str_or (trim (fs_requirement_title snapshot)) unnamed_flow;
          pg1 = (reset_planner e (pg\<lparr>pg_hydrating := True\<rparr>))\<lparr>pg_flow_id := fs_requirement_id snapshot,
            pg_display_name := name, pg_name_input := name, pg_requirement := fs_requirement_title snapshot\<rparr>;
          pg2 = upd_canvas (\<lambda>ca. ca\<lparr>ca_executor := trim (fs_executor_agent_id snapshot)\<rparr>)
            (applySnapshotCanvasState e snapshot True pg1)
      in restorePlannerRuntimeSnapshot e (fs_requirement_id snapshot) (resetCanvasInteractionState False pg2))"

section \<open>The route effect\<close>

definition flow_snapshot_of :: "env \<Rightarrow> page \<Rightarrow> jsstring \<Rightarrow> flow_snapshot option" where
  "flow_snapshot_of e pg ident =
     map_option (\<lambda>tasks. buildFlowSnapshotFromTasks (en_parse e) (en_now e) (en_compare_zh e) (en_compare e) ident tasks
         (ca_agents (canvas_of pg)))
       (map_of (groupTasksByRequirement (pg_tasks pg)) ident)"

text \<open>\<open>applyFlowRouteHydrationIntent\<close>\<close>

definition applyFlowRouteHydrationIntent :: "env \<Rightarrow> apply_action \<times> jsstring option \<Rightarrow> page \<Rightarrow> page" where
  "applyFlowRouteHydrationIntent e intent pg =
     (let pg1 = (case fst intent of
          ApplyDraft draft \<Rightarrow> applyDraftRecord e draft pg
        | ApplyEmpty es \<Rightarrow> applyEmptyDraftCanvasState e es pg
        | ApplySnapshot snapshot \<Rightarrow> applySnapshot e snapshot pg
        | ApplySnapshotCanvas snapshot \<Rightarrow> applySnapshotCanvasState e snapshot False pg
        | ApplyNothing \<Rightarrow> pg)
      in case snd intent of None \<Rightarrow> pg1 | Some key \<Rightarrow> pg1\<lparr>pg_loaded_key := key\<rparr>)"

definition page_route_key :: "page \<Rightarrow> jsstring" where
  "page_route_key pg = buildFlowRouteHydrationKey (ro_is_new (pg_route pg)) (ro_flow_id (pg_route pg)) (ro_state (pg_route pg))"

definition target_draft_id :: "page \<Rightarrow> jsstring" where
  "target_draft_id pg = trim (route_text rs_draft_flow_id (ro_state (pg_route pg)))"

definition route_draft :: "env \<Rightarrow> page \<Rightarrow> draft_record option" where
  "route_draft e pg = stored_draft e (if ro_is_new (pg_route pg) then target_draft_id pg else ro_flow_id (pg_route pg)) pg"

definition draft_messages :: "draft_record \<Rightarrow> chat_message list" where
  "draft_messages draft = sanitized (nullish (fd_planner_messages draft) [])"

definition hydration_facts_of :: "env \<Rightarrow> page \<Rightarrow> hydration_facts" where
  "hydration_facts_of e pg =
     (let route = pg_route pg; draft = route_draft e pg; snapshot = flow_snapshot_of e pg (ro_flow_id route) in
      \<lparr>hf_key_changed = (page_route_key pg \<noteq> pg_loaded_key pg), hf_is_new = ro_is_new route,
       hf_prefer_submitted = prefers_submitted (ro_state route),
       hf_pending_reply = nullish (map_option (\<lambda>d. hasPendingPlannerReply (draft_messages d) \<or>
         isPlannerRuntimeActiveInDraft (Some d)) draft) False,
       hf_has_messages = nullish (map_option (\<lambda>d. 0 < length (draft_messages d)) draft) False,
       hf_has_draft = (draft \<noteq> None), hf_has_snapshot = (snapshot \<noteq> None), hf_has_target = (target_draft_id pg \<noteq> []),
       hf_is_draft_canvas = ca_is_draft (canvas_of pg), hf_current_flow_id = pg_flow_id pg,
       hf_resolved_flow_id = ro_flow_id route, hf_nodes_length = length (ca_nodes (canvas_of pg)),
       hf_display_name = pg_display_name pg, hf_draft_updated_at = map_option fd_updated_at draft,
       hf_snapshot_updated_at = map_option fs_updated_at snapshot\<rparr>)"

definition awaiting_for_hydration :: "page \<Rightarrow> bool" where
  "awaiting_for_hydration pg \<longleftrightarrow> rt_planning pg \<or> (rt_status pg = Session Planning \<or> rt_stopping pg) \<or>
     (rt_status pg = Idle \<and> hasPendingPlannerReply (rt_messages pg))"

definition route_effect :: "env \<Rightarrow> page \<Rightarrow> page" where
  "route_effect e pg =
     (if page_route_key pg = pg_loaded_key pg \<and> awaiting_for_hydration pg then pg
      else
        let route = pg_route pg;
            decision = resolveFlowRouteHydrationDecision (en_parse e) (hydration_facts_of e pg)
        in applyFlowRouteHydrationIntent e
             (resolveFlowRouteHydrationApplyIntent (en_now e) decision (page_route_key pg) (ro_state route) (ro_is_new route)
                (ro_flow_id route) (target_draft_id pg) (route_draft e pg) (flow_snapshot_of e pg (ro_flow_id route))
                (ca_agents (canvas_of pg))) pg)"

text \<open>The effect that remembers the session of a flow.\<close>

definition session_effect :: "page \<Rightarrow> page" where
  "session_effect pg =
     (let scope = trim (flowRequirementScopeId pg); sessionKey = trim_opt (pg_session_key pg) in
      if scope = [] \<or> sessionKey = [] then pg
      else pg\<lparr>pg_session_by_scope := AList.update scope sessionKey (pg_session_by_scope pg)\<rparr>)"

section \<open>The canvas goes into the draft\<close>

text \<open>
  \<open>areFlowDraftRecordsEquivalent\<close> compares what \<open>JSON.stringify\<close> writes; a number that is not finite is
  written as \<open>null\<close>.
\<close>

definition written_num :: "jsnum \<Rightarrow> jsnum" where
  "written_num x = (if is_finite x then x else NaN)"

definition written_node :: "flow_node \<Rightarrow> flow_node" where
  "written_node n = n\<lparr>n_x := written_num (n_x n), n_y := written_num (n_y n), n_layer := written_num (n_layer n)\<rparr>"

definition areFlowDraftRecordsEquivalent :: "draft_record \<Rightarrow> draft_record \<Rightarrow> bool" where
  "areFlowDraftRecordsEquivalent l r \<longleftrightarrow>
     fd_id l = fd_id r \<and> fd_name l = fd_name r \<and> fd_requirement l = fd_requirement r \<and>
     map written_node (fd_nodes l) = map written_node (fd_nodes r) \<and> fd_edges l = fd_edges r \<and> fd_lanes l = fd_lanes r \<and>
     fd_node_lane_by_id l = fd_node_lane_by_id r \<and> fd_planner_session_key l = fd_planner_session_key r \<and>
     fd_execution_session_prefix l = fd_execution_session_prefix r \<and> fd_executor_agent_id l = fd_executor_agent_id r \<and>
     fd_planner_runtime l = fd_planner_runtime r"

definition route_hydration_draft_id :: "page \<Rightarrow> jsstring" where
  "route_hydration_draft_id pg = (if ro_is_new (pg_route pg) then target_draft_id pg else ro_flow_id (pg_route pg))"

text \<open>The reasons not to write, in their order.\<close>

definition persist_delayed :: "jsstring \<Rightarrow> page \<Rightarrow> bool" where
  "persist_delayed draftId pg \<longleftrightarrow>
     route_hydration_draft_id pg \<noteq> [] \<and> draftId = route_hydration_draft_id pg \<and> \<not> sy_ready (pg_sync pg)"

definition placeholder_draft :: "page \<Rightarrow> bool" where
  "placeholder_draft pg \<longleftrightarrow>
     \<not> ro_is_new (pg_route pg) \<and> \<not> ca_is_submitted (canvas_of pg) \<and> length (ca_nodes (canvas_of pg)) = 0 \<and>
     trim (pg_requirement pg) = [] \<and> trim (pg_display_name pg) = unnamed_flow"

definition newer_stored_version :: "env \<Rightarrow> jsstring \<Rightarrow> page \<Rightarrow> bool" where
  "newer_stored_version e draftId pg =
     (case stored_draft e draftId pg of
        None \<Rightarrow> False
      | Some existing \<Rightarrow> fst (pg_hydrated_version pg) = draftId \<and>
          toEpochMillis (en_parse e) (snd (pg_hydrated_version pg)) < toEpochMillis (en_parse e) (fd_updated_at existing))"

definition untouched_empty_draft :: "draft_record \<Rightarrow> page \<Rightarrow> bool" where
  "untouched_empty_draft existing pg \<longleftrightarrow>
     trim (fd_requirement existing) = [] \<and> length (fd_nodes existing) = 0 \<and> length (fd_edges existing) = 0 \<and>
     length (fd_lanes existing) = 0 \<and> length (fd_node_lane_by_id existing) = 0 \<and> fd_executor_agent_id existing = None \<and>
     trim (pg_requirement pg) = [] \<and> length (ca_nodes (canvas_of pg)) = 0 \<and> length (page_edges pg) = 0 \<and>
     length (ca_node_lane_by_id (canvas_of pg)) = 0"

definition next_draft :: "env \<Rightarrow> jsstring \<Rightarrow> page \<Rightarrow> draft_record" where
  "next_draft e draftId pg =
     (let existing = stored_draft e draftId pg;
          draft = draft_of_page e draftId (str_or (trim (pg_display_name pg)) unnamed_flow) (rt_messages pg)
            (ca_lanes (canvas_of pg)) (pg_session_key pg)
            (Some \<lparr>pr_session_status = rt_status pg, pr_is_planning = rt_planning pg, pr_is_planner_stopping = rt_stopping pg,
              pr_is_overlay_close_blocked = rt_overlay_blocked pg\<rparr>) existing pg
      in case existing of
           None \<Rightarrow> draft
         | Some d \<Rightarrow> if untouched_empty_draft d pg
             then draft\<lparr>fd_lanes := fd_lanes d, fd_node_lane_by_id := fd_node_lane_by_id d,
                    fd_executor_agent_id := fd_executor_agent_id d\<rparr>
             else draft)"

definition unchanged_draft :: "env \<Rightarrow> jsstring \<Rightarrow> page \<Rightarrow> bool" where
  "unchanged_draft e draftId pg =
     (case stored_draft e draftId pg of
        None \<Rightarrow> False
      | Some existing \<Rightarrow> areFlowDraftRecordsEquivalent existing (next_draft e draftId pg) \<and>
          areFlowChatMessagesEqual (nullish (fd_planner_messages existing) [])
            (nullish (fd_planner_messages (next_draft e draftId pg)) []))"

definition persist_effect :: "env \<Rightarrow> page \<Rightarrow> page" where
  "persist_effect e pg =
     (if \<not> ca_is_draft (canvas_of pg) then pg
      else if 0 < pg_skip_persist pg then pg\<lparr>pg_skip_persist := pg_skip_persist pg - 1\<rparr>
      else let draftId = trim (pg_flow_id pg) in
      if draftId = [] then pg
      else if persist_delayed draftId pg then pg
      else if placeholder_draft pg then pg
      else if newer_stored_version e draftId pg then pg\<lparr>pg_loaded_key := []\<rparr>
      else if unchanged_draft e draftId pg then pg
      else
        let record = next_draft e draftId pg
        in pg\<lparr>pg_hydrated_version := (draftId, fd_updated_at record),
             pg_sync := persistDraftRecord (en_parse e) record True (pg_sync pg)\<rparr>)"

section \<open>The side bar\<close>

text \<open>\<open>FlowSidebarItem\<close>\<close>

record sidebar_item =
  si_id :: jsstring
  si_name :: jsstring
  si_is_submitted :: bool
  si_updated_at :: jsstring
  si_status_label :: jsstring
  si_node_count :: nat
  si_has_submitted :: bool
  si_has_draft :: bool

definition draft_label :: jsstring where
  "draft_label = [0x8349, 0x7A3F]"

definition draft_item :: "draft_record \<Rightarrow> sidebar_item" where
  "draft_item draft = \<lparr>si_id = fd_id draft, si_name = str_or (trim (fd_name draft)) unnamed_flow, si_is_submitted = False,
     si_updated_at = fd_updated_at draft, si_status_label = draft_label, si_node_count = length (fd_nodes draft),
     si_has_submitted = False, si_has_draft = True\<rparr>"

definition submitted_item :: "env \<Rightarrow> page \<Rightarrow> jsstring \<Rightarrow> task list \<Rightarrow> bool \<Rightarrow> sidebar_item" where
  "submitted_item e pg requirementId tasks hasDraft =
     (let snapshot = buildFlowSnapshotFromTasks (en_parse e) (en_now e) (en_compare_zh e) (en_compare e) requirementId tasks
            (ca_agents (canvas_of pg))
      in \<lparr>si_id = requirementId, si_name = str_or (trim (fs_requirement_title snapshot)) unnamed_flow, si_is_submitted = True,
          si_updated_at = fs_updated_at snapshot,
          si_status_label = getFlowRuntimeStateLabel (resolveFlowRuntimeState tasks), si_node_count = length tasks,
          si_has_submitted = True, si_has_draft = hasDraft\<rparr>)"

text \<open>The flow on screen, when it is neither a draft nor on the board.\<close>

definition current_item :: "env \<Rightarrow> page \<Rightarrow> jsstring \<Rightarrow> sidebar_item" where
  "current_item e pg currentId =
     (let currentTasks = map_get (groupTasksByRequirement (pg_tasks pg)) currentId [];
          submitted = ca_is_submitted (canvas_of pg)
      in \<lparr>si_id = currentId, si_name = str_or (trim (pg_display_name pg)) unnamed_flow, si_is_submitted = submitted,
          si_updated_at = (if submitted then
              fold (\<lambda>task latest. if toEpochMillis (en_parse e) latest < toEpochMillis (en_parse e) (t_updated_at task)
                  then t_updated_at task else latest)
                currentTasks (nullish (map_option t_updated_at (nth_opt currentTasks 0)) EPOCH_TIMESTAMP)
            else EPOCH_TIMESTAMP),
          si_status_label = (if submitted then getFlowRuntimeStateLabel (resolveFlowRuntimeState currentTasks) else draft_label),
          si_node_count = length (ca_nodes (canvas_of pg)), si_has_submitted = submitted, si_has_draft = \<not> submitted\<rparr>)"

definition flowSidebarItems :: "env \<Rightarrow> page \<Rightarrow> (jsstring \<times> sidebar_item) list" where
  "flowSidebarItems e pg =
     (let suppressed = set (pg_suppressed pg);
          drafts = fold (\<lambda>draft items. if fd_id draft \<in> suppressed then items else AList.update (fd_id draft) (draft_item draft) items)
            (listFlowDrafts (en_parse e) (sy_store (pg_sync pg))) [];
          items = fold (\<lambda>(requirementId, tasks) items.
              if requirementId \<in> suppressed then items
              else AList.update requirementId (submitted_item e pg requirementId tasks
                     (nullish (map_option si_has_draft (map_of items requirementId)) False)) items)
            (groupTasksByRequirement (pg_tasks pg)) drafts;
          currentId = trim (pg_flow_id pg)
      in if currentId \<noteq> [] \<and> \<not> map_has items currentId \<and> currentId \<notin> suppressed
         then AList.update currentId (current_item e pg currentId) items else items)"

definition sidebar_order_effect :: "env \<Rightarrow> page \<Rightarrow> page" where
  "sidebar_order_effect e pg =
     (let itemIds = map fst (flowSidebarItems e pg);
          dedupCurrent = dedupeFlowIds (pg_sidebar_order pg);
          kept = filter (\<lambda>ident. ident \<in> set itemIds) dedupCurrent;
          newIds = filter (\<lambda>ident. ident \<notin> set kept) itemIds;
          next = newIds @ kept
      in pg\<lparr>pg_sidebar_order := (if areFlowIdOrdersEqual next dedupCurrent then dedupCurrent else next)\<rparr>)"

definition orderedFlowSidebarItems :: "env \<Rightarrow> page \<Rightarrow> sidebar_item list" where
  "orderedFlowSidebarItems e pg =
     (let items = flowSidebarItems e pg;
          knownIds = filter (\<lambda>ident. map_has items ident) (pg_sidebar_order pg);
          newIds = filter (\<lambda>ident. ident \<notin> set knownIds) (map fst items)
      in List.map_filter (map_of items) (newIds @ knownIds))"

definition moveSidebarCard :: "jsstring \<Rightarrow> jsstring \<Rightarrow> page \<Rightarrow> page" where
  "moveSidebarCard sourceId targetId pg =
     (let next = moveFlowIdInOrder (pg_sidebar_order pg) sourceId targetId in
      if areFlowIdOrdersEqual next (pg_sidebar_order pg) then pg else pg\<lparr>pg_sidebar_order := next\<rparr>)"

definition navigateToFlowEditor :: "env \<Rightarrow> jsstring \<Rightarrow> page \<Rightarrow> page" where
  "navigateToFlowEditor e flowId pg =
     pg\<lparr>pg_sidebar_open := False, pg_visited := pg_visited pg @ [js ''/flow/edit/'' @ en_uri e flowId]\<rparr>"

definition open_detail :: "page \<Rightarrow> page" where
  "open_detail pg = pg\<lparr>pg_sidebar_open := False, pg_name_input := str_or (trim (pg_display_name pg)) unnamed_flow,
     pg_detail_open := True\<rparr>"

definition openFlowDetailFromSidebar :: "env \<Rightarrow> jsstring \<Rightarrow> page \<Rightarrow> page" where
  "openFlowDetailFromSidebar e flowId pg =
     (let normalizedFlowId = trim flowId in
      if normalizedFlowId = [] then pg
      else if trim (pg_flow_id pg) \<noteq> normalizedFlowId \<or> ro_is_new (pg_route pg)
      then navigateToFlowEditor e normalizedFlowId (pg\<lparr>pg_pending_detail := normalizedFlowId\<rparr>)
      else open_detail pg)"

definition pending_detail_effect :: "page \<Rightarrow> page" where
  "pending_detail_effect pg =
     (let normalizedPendingId = trim (pg_pending_detail pg) in
      if normalizedPendingId = [] then pg
      else if trim (pg_flow_id pg) \<noteq> normalizedPendingId then pg
      else (open_detail pg)\<lparr>pg_pending_detail := []\<rparr>)"

section \<open>Creating and deleting flows\<close>

definition createBlankFlow :: "env \<Rightarrow> jsstring \<Rightarrow> jsstring \<Rightarrow> page \<Rightarrow> page" where
  "createBlankFlow e draftId flowName pg =
     (let agentId = trim (ca_executor (canvas_of pg));
          record = \<lparr>fd_id = draftId, fd_name = str_or (trim flowName) (en_untitled e), fd_requirement = [], fd_nodes = [],
            fd_edges = [], fd_planner_messages = Some [],
            fd_lanes = map lane_item_of (buildInitialLanesFromAgent (en_now e) agentId (ca_agents (canvas_of pg))),
            fd_node_lane_by_id = [], fd_planner_session_key = None, fd_execution_session_prefix = None,
            fd_executor_agent_id = non_empty agentId, fd_planner_runtime = None, fd_revision = jint 0,
            fd_created_at = en_now e, fd_updated_at = en_now e\<rparr>
      in navigateToFlowEditor e draftId (pg\<lparr>pg_sync := persistDraftRecord (en_parse e) record False (pg_sync pg)\<rparr>))"

text \<open>The flow to delete, with the flow of the board it stands for (or the empty id).\<close>

definition submitted_of_current :: "page \<Rightarrow> jsstring" where
  "submitted_of_current pg =
     (let flowId = trim (pg_flow_id pg); routeId = trim (ro_flow_id (pg_route pg)) in
      str_or (if flow_catalog_has pg flowId then flowId else [])
        (if \<not> ro_is_new (pg_route pg) \<and> flow_catalog_has pg routeId then routeId else []))"

record delete_flow_call =
  dl_flow_id :: jsstring
  dl_submitted_id :: jsstring

definition deletion_targets :: "delete_flow_call \<Rightarrow> jsstring list" where
  "deletion_targets call = filter (\<lambda>item. trim item \<noteq> []) [dl_flow_id call, dl_submitted_id call]"

definition handleDeleteCurrentFlow :: "bool \<Rightarrow> page \<Rightarrow> page \<times> delete_flow_call option" where
  "handleDeleteCurrentFlow confirmed pg =
     (let flowId = trim (pg_flow_id pg) in
      if flowId = [] then (pg, None)
      else if \<not> confirmed then (pg, None)
      else let call = \<lparr>dl_flow_id = flowId, dl_submitted_id = submitted_of_current pg\<rparr>
        in (pg\<lparr>pg_suppressed := addSuppressedFlowIds (deletion_targets call) (pg_suppressed pg)\<rparr>, Some call))"

text \<open>The tasks of the flow are gone from the board, or there were none.\<close>

definition delete_flow_done :: "env \<Rightarrow> delete_flow_call \<Rightarrow> page \<Rightarrow> page" where
  "delete_flow_done e call pg =
     (let pg1 = (if dl_submitted_id call \<noteq> []
            then pg\<lparr>pg_tasks := filter (\<lambda>task. getRequirementIdFromTask task \<noteq> dl_submitted_id call) (pg_tasks pg)\<rparr> else pg);
          pg2 = pg1\<lparr>pg_sync := removeDraftRecord (en_parse e) (dl_flow_id call) True (pg_sync pg1)\<rparr>;
          pg3 = (if dl_submitted_id call \<noteq> [] \<and> dl_submitted_id call \<noteq> dl_flow_id call
                 then pg2\<lparr>pg_sync := removeDraftRecord (en_parse e) (dl_submitted_id call) True (pg_sync pg2)\<rparr> else pg2);
          pg4 = upd_canvas (\<lambda>ca. ca\<lparr>ca_nodes := [], ca_lanes := [], ca_node_lane_by_id := [], ca_last_response := None,
            ca_is_draft := True, ca_is_submitted := False\<rparr>) pg3;
          pg5 = pg4\<lparr>pg_detail_open := False, pg_flow_id := [], pg_session_key := None, rt_messages := [], rt_status := Idle,
            rt_planning := False, rt_stopping := False, rt_finish_timer := False, rt_overlay_blocked := False,
            pg_selected_nodes := [], pg_selected_edge := None, pg_dragging := False,
            pg_sidebar_order := filter (\<lambda>item. item \<noteq> dl_flow_id call \<and> item \<noteq> dl_submitted_id call) (pg_sidebar_order pg4)\<rparr>
      in (addToast ([0x6D41, 0x7A0B, 0x5DF2, 0x5220, 0x9664]) SuccessKind pg5)\<lparr>pg_visited := pg_visited pg5 @ [js ''/flow/edit/new'']\<rparr>)"

definition delete_flow_failed :: "delete_flow_call \<Rightarrow> jsstring option \<Rightarrow> page \<Rightarrow> page" where
  "delete_flow_failed call error pg =
     addToast (nullish error ([0x6D41, 0x7A0B, 0x5220, 0x9664, 0x5931, 0x8D25])) ErrorKind
       (pg\<lparr>pg_suppressed := removeSuppressedFlowIds (deletion_targets call) (pg_suppressed pg)\<rparr>)"

section \<open>Coming to a flow\<close>

lemma route_effect_changed:
  assumes "page_route_key pg \<noteq> pg_loaded_key pg"
  shows "route_effect e pg = applyFlowRouteHydrationIntent e
     (resolveFlowRouteHydrationApplyIntent (en_now e)
        \<lparr>hd_action = decide_changed (en_parse e) (hydration_facts_of e pg), hd_set_loaded_key = True\<rparr>
        (page_route_key pg) (ro_state (pg_route pg)) (ro_is_new (pg_route pg)) (ro_flow_id (pg_route pg)) (target_draft_id pg)
        (route_draft e pg) (flow_snapshot_of e pg (ro_flow_id (pg_route pg))) (ca_agents (canvas_of pg))) pg"
proof -
  have "hf_key_changed (hydration_facts_of e pg)" using assms by (simp add: hydration_facts_of_def Let_def)
  then show ?thesis using assms by (simp add: route_effect_def resolveFlowRouteHydrationDecision_def Let_def)
qed

lemma route_effect_unchanged:
  assumes "page_route_key pg = pg_loaded_key pg" and "\<not> awaiting_for_hydration pg"
  shows "route_effect e pg = applyFlowRouteHydrationIntent e
     (resolveFlowRouteHydrationApplyIntent (en_now e)
        \<lparr>hd_action = decide_unchanged (en_parse e) (hydration_facts_of e pg), hd_set_loaded_key = False\<rparr>
        (page_route_key pg) (ro_state (pg_route pg)) (ro_is_new (pg_route pg)) (ro_flow_id (pg_route pg)) (target_draft_id pg)
        (route_draft e pg) (flow_snapshot_of e pg (ro_flow_id (pg_route pg))) (ca_agents (canvas_of pg))) pg"
proof -
  have "\<not> hf_key_changed (hydration_facts_of e pg)" using assms(1) by (simp add: hydration_facts_of_def Let_def)
  then show ?thesis using assms by (simp add: route_effect_def resolveFlowRouteHydrationDecision_def Let_def)
qed

lemma facts_draft:
  "route_draft e pg = Some d \<Longrightarrow>
     hf_has_draft (hydration_facts_of e pg) \<and> hf_has_messages (hydration_facts_of e pg) = (draft_messages d \<noteq> []) \<and>
     hf_pending_reply (hydration_facts_of e pg) =
       (hasPendingPlannerReply (draft_messages d) \<or> isPlannerRuntimeActiveInDraft (Some d)) \<and>
     hf_is_new (hydration_facts_of e pg) = ro_is_new (pg_route pg) \<and>
     hf_prefer_submitted (hydration_facts_of e pg) = prefers_submitted (ro_state (pg_route pg)) \<and>
     hf_draft_updated_at (hydration_facts_of e pg) = Some (fd_updated_at d)"
  by (simp add: hydration_facts_of_def Let_def)

lemma draft_with_chat_applied:
  assumes "page_route_key pg \<noteq> pg_loaded_key pg" and "\<not> ro_is_new (pg_route pg)"
    and "route_draft e pg = Some d" and "draft_messages d \<noteq> []"
  shows "route_effect e pg = (applyDraftRecord e d pg)\<lparr>pg_loaded_key := page_route_key pg\<rparr>"
proof -
  have "decide_changed (en_parse e) (hydration_facts_of e pg) = ExistingDraft"
    using facts_draft [OF assms(3)] assms(2,4) by (simp add: decide_changed_def)
  then show ?thesis
    by (simp add: route_effect_changed [OF assms(1)] resolveFlowRouteHydrationApplyIntent_def assms(3)
        applyFlowRouteHydrationIntent_def)
qed

section \<open>What applying leaves on the page\<close>

lemma clear_queue_canvas [simp]: "pq_canvas (clearPlannerOperationQueueRuntime s q) = pq_canvas q"
  by (simp add: clearPlannerOperationQueueRuntime_def clear_step_timer_def flush_next_def flushPlannerOperationQueue_def Let_def)

lemma reset_planner_fields [simp]:
  "canvas_of (reset_planner e pg) = canvas_of pg" "pg_route (reset_planner e pg) = pg_route pg"
  "pg_sync (reset_planner e pg) = pg_sync pg" "pg_tasks (reset_planner e pg) = pg_tasks pg"
  "pg_snapshots (reset_planner e pg) = pg_snapshots pg" "rt_status (reset_planner e pg) = Idle"
  "\<not> rt_planning (reset_planner e pg)" "\<not> rt_stopping (reset_planner e pg)" "rt_cache (reset_planner e pg) = rt_cache pg"
  "rt_messages (reset_planner e pg) = rt_messages pg" "pg_session_by_scope (reset_planner e pg) = pg_session_by_scope pg"
  by (simp_all add: reset_planner_def resetPlannerRuntimeState_def canvas_of_def page_ops_def queue_ops_of_def)

lemma chat_equal_Nil [simp]: "areFlowChatMessagesEqual xs [] \<longleftrightarrow> xs = []"
  by (cases xs) simp_all

lemma snapshot_messages: "flow_snapshot_of e pg ident = Some s \<Longrightarrow> gr_messages (fs_last_response s) = []"
  by (auto simp: flow_snapshot_of_def buildFlowSnapshotFromTasks_def Let_def split: prod.split)

lemma snapshot_id: "flow_snapshot_of e pg ident = Some s \<Longrightarrow> fs_requirement_id s = ident"
  by (auto simp: flow_snapshot_of_def buildFlowSnapshotFromTasks_def Let_def split: prod.split)

lemma sanitized_Nil [simp]: "sanitized [] = []" "sanitized xs = [] \<longleftrightarrow> xs = []"
  by (simp_all add: sanitized_def sanitizePlannerMessages_def)

lemma flow_snapshot_cong:
  "pg_tasks pg = pg_tasks pg' \<Longrightarrow> ca_agents (canvas_of pg) = ca_agents (canvas_of pg') \<Longrightarrow>
     flow_snapshot_of e pg ident = flow_snapshot_of e pg' ident"
  by (simp add: flow_snapshot_of_def)

text \<open>The part of \<open>applySnapshotCanvasState\<close> before the chat.\<close>

definition snapshot_canvas_page :: "flow_snapshot \<Rightarrow> page \<Rightarrow> page" where
  "snapshot_canvas_page s pg =
     (let nodes = normalizeFlowNodes (map raw_of_node (fs_nodes s)) (fs_edges s) in
      (upd_canvas (\<lambda>ca. ca\<lparr>ca_nodes := nodes, ca_lanes := fs_lanes s, ca_node_lane_by_id := fs_node_lane_by_id s,
         ca_last_response := Some (Generated ((fs_last_response s)\<lparr>gr_nodes := nodes,
           gr_edges := deriveEdgesFromNodes nodes\<rparr>))\<rparr>) pg)
       \<lparr>pg_session_key := non_empty (str_or (trim_opt (map_of (pg_session_by_scope pg) (fs_requirement_id s)))
          (trim (gr_planner_session_key (fs_last_response s))))\<rparr>)"

lemma applySnapshotCanvas_own:
  "gr_messages (fs_last_response s) = [] \<Longrightarrow>
     applySnapshotCanvasState e s False pg = (snapshot_canvas_page s pg)\<lparr>rt_messages := []\<rparr>"
  by (simp add: applySnapshotCanvasState_def snapshot_canvas_page_def put_messages_if_changed_def upd_canvas_def Let_def)

lemma snapshot_canvas_fields [simp]:
  "rt_status (snapshot_canvas_page s pg) = rt_status pg" "rt_planning (snapshot_canvas_page s pg) = rt_planning pg"
  "rt_stopping (snapshot_canvas_page s pg) = rt_stopping pg" "pg_route (snapshot_canvas_page s pg) = pg_route pg"
  "pg_loaded_key (snapshot_canvas_page s pg) = pg_loaded_key pg" "pg_tasks (snapshot_canvas_page s pg) = pg_tasks pg"
  "pg_flow_id (snapshot_canvas_page s pg) = pg_flow_id pg" "pg_sync (snapshot_canvas_page s pg) = pg_sync pg"
  "ca_is_draft (canvas_of (snapshot_canvas_page s pg)) = ca_is_draft (canvas_of pg)"
  "ca_agents (canvas_of (snapshot_canvas_page s pg)) = ca_agents (canvas_of pg)"
  "ca_nodes (canvas_of (snapshot_canvas_page s pg)) = normalizeFlowNodes (map raw_of_node (fs_nodes s)) (fs_edges s)"
  by (simp_all add: snapshot_canvas_page_def Let_def)

lemma snapshot_canvas_again:
  "snapshot_canvas_page s ((snapshot_canvas_page s pg)\<lparr>rt_messages := m\<rparr>) = (snapshot_canvas_page s pg)\<lparr>rt_messages := m\<rparr>"
  by (simp add: snapshot_canvas_page_def upd_canvas_def canvas_of_def Let_def)


text \<open>A page that shows the flow of the board its route names.\<close>

definition shows_submitted :: "page \<Rightarrow> bool" where
  "shows_submitted pg \<longleftrightarrow> page_route_key pg = pg_loaded_key pg \<and> \<not> ro_is_new (pg_route pg) \<and>
     \<not> ca_is_draft (canvas_of pg) \<and> trim (pg_flow_id pg) = ro_flow_id (pg_route pg)"

lemma route_effect_submitted:
  assumes "shows_submitted pg"
  shows "route_effect e pg =
    (if awaiting_for_hydration pg then pg
     else case flow_snapshot_of e pg (ro_flow_id (pg_route pg)) of
        None \<Rightarrow> pg
      | Some s \<Rightarrow> (snapshot_canvas_page s pg)\<lparr>rt_messages := []\<rparr>)"
proof (cases "awaiting_for_hydration pg")
  case True
  then show ?thesis using assms by (simp add: shows_submitted_def route_effect_def)
next
  case False
  have key: "page_route_key pg = pg_loaded_key pg" using assms by (simp add: shows_submitted_def)
  let ?hf = "hydration_facts_of e pg"
  have hf: "\<not> hf_is_new ?hf" "\<not> hf_is_draft_canvas ?hf" "trim (hf_current_flow_id ?hf) = hf_resolved_flow_id ?hf"
    "hf_has_snapshot ?hf = (flow_snapshot_of e pg (ro_flow_id (pg_route pg)) \<noteq> None)"
    using assms by (simp_all add: shows_submitted_def hydration_facts_of_def Let_def)
  then have "decide_unchanged (en_parse e) ?hf =
      (if flow_snapshot_of e pg (ro_flow_id (pg_route pg)) = None then NoHydration else SnapshotCanvas)"
    by (simp add: decide_unchanged_def shouldForceApplySnapshotForRoute_def)
  then show ?thesis
    using False snapshot_messages [of e pg "ro_flow_id (pg_route pg)"]
    by (simp add: route_effect_unchanged [OF key False] resolveFlowRouteHydrationApplyIntent_def
        applyFlowRouteHydrationIntent_def applySnapshotCanvas_own split: option.split)
qed

text \<open>
  The route effect settles: on a page that shows the flow of the board its route names, running it
  again changes nothing, so the effect, which runs whenever the page changes, does not keep the page
  changing.
\<close>

lemma route_effect_settles:
  assumes "shows_submitted pg"
  shows "shows_submitted (route_effect e pg) \<and> route_effect e (route_effect e pg) = route_effect e pg"
proof (cases "awaiting_for_hydration pg \<or> flow_snapshot_of e pg (ro_flow_id (pg_route pg)) = None")
  case True
  then have "route_effect e pg = pg" by (auto simp: route_effect_submitted [OF assms])
  then show ?thesis using assms by simp
next
  case False
  then obtain s where s: "flow_snapshot_of e pg (ro_flow_id (pg_route pg)) = Some s" by blast
  let ?pg = "(snapshot_canvas_page s pg)\<lparr>rt_messages := []\<rparr>"
  have one: "route_effect e pg = ?pg" using False s by (simp add: route_effect_submitted [OF assms])
  have shown: "shows_submitted ?pg" using assms by (auto simp: shows_submitted_def page_route_key_def)
  have "flow_snapshot_of e ?pg (ro_flow_id (pg_route ?pg)) = Some s"
    using s flow_snapshot_cong [of ?pg pg e] by simp
  then have "route_effect e ?pg = ?pg"
    by (simp add: route_effect_submitted [OF shown] snapshot_canvas_again)
  then show ?thesis using one shown by simp
qed

text \<open>
  On such a page the chat does not last: as soon as no answer is awaited, the next run of the effect
  replaces whatever chat is shown, also the cached one that \<open>applySnapshot\<close> has just put back, by the
  chat of the flow of the board, which is always empty.
\<close>

lemma submitted_chat_is_wiped:
  assumes "shows_submitted pg" and "\<not> awaiting_for_hydration pg"
    and "flow_snapshot_of e pg (ro_flow_id (pg_route pg)) = Some s"
  shows "rt_messages (route_effect e pg) = []"
  using assms by (simp add: route_effect_submitted)

section \<open>A draft applied, and then\<close>

lemma put_draft_fields [simp]:
  "canvas_of (put_draft_runtime r pg) = canvas_of pg" "pg_snapshots (put_draft_runtime r pg) = pg_snapshots pg"
  "pg_route (put_draft_runtime r pg) = pg_route pg" "pg_tasks (put_draft_runtime r pg) = pg_tasks pg"
  "pg_sync (put_draft_runtime r pg) = pg_sync pg" "rt_messages (put_draft_runtime r pg) = rt_messages pg"
  "pg_flow_id (put_draft_runtime r pg) = pg_flow_id pg" "pg_requirement (put_draft_runtime r pg) = pg_requirement pg"
  "pg_display_name (put_draft_runtime r pg) = pg_display_name pg"
  "canvas_of (put_draft_messages e k ms pg) = canvas_of pg" "pg_snapshots (put_draft_messages e k ms pg) = pg_snapshots pg"
  "pg_route (put_draft_messages e k ms pg) = pg_route pg" "pg_tasks (put_draft_messages e k ms pg) = pg_tasks pg"
  "pg_sync (put_draft_messages e k ms pg) = pg_sync pg" "pg_flow_id (put_draft_messages e k ms pg) = pg_flow_id pg"
  "pg_requirement (put_draft_messages e k ms pg) = pg_requirement pg"
  "pg_display_name (put_draft_messages e k ms pg) = pg_display_name pg"
  "rt_status (put_draft_messages e k ms pg) = rt_status pg" "rt_planning (put_draft_messages e k ms pg) = rt_planning pg"
  "rt_stopping (put_draft_messages e k ms pg) = rt_stopping pg"
  by (simp_all add: put_draft_runtime_def put_draft_messages_def cachePlannerMessages_def Let_def split: option.split)

text \<open>The page that \<open>applyDraftRecord\<close> leaves when no snapshot of the planner is kept for the flow.\<close>

lemma applyDraft_canvas:
  assumes "map_of (pg_snapshots pg) (trim (fd_id d)) = None"
  defines "nodes \<equiv> normalizeFlowNodes (map raw_of_node (fd_nodes d)) (fd_edges d)"
  shows "canvas_of (applyDraftRecord e d pg) =
    \<lparr>ca_nodes = nodes, ca_lanes = fst (draft_lanes e d nodes (ca_agents (canvas_of pg))),
     ca_node_lane_by_id = snd (draft_lanes e d nodes (ca_agents (canvas_of pg))),
     ca_last_response = map_option Generated (restored_response d nodes (sanitized (nullish (fd_planner_messages d) []))),
     ca_is_draft = True, ca_is_submitted = False, ca_executor = trim_opt (fd_executor_agent_id d),
     ca_agents = ca_agents (canvas_of pg)\<rparr>"
  using assms(1)
  by (cases "canvas_of pg") (simp add: applyDraftRecord_def restorePlannerRuntimeSnapshot_def resetCanvasInteractionState_def
      nodes_def Let_def split: prod.split)

lemma applyDraft_fields:
  assumes "map_of (pg_snapshots pg) (trim (fd_id d)) = None"
  shows "pg_route (applyDraftRecord e d pg) = pg_route pg" and "pg_tasks (applyDraftRecord e d pg) = pg_tasks pg"
    and "pg_sync (applyDraftRecord e d pg) = pg_sync pg" and "pg_flow_id (applyDraftRecord e d pg) = fd_id d"
    and "pg_requirement (applyDraftRecord e d pg) = fd_requirement d"
    and "pg_display_name (applyDraftRecord e d pg) = str_or (trim (fd_name d)) unnamed_flow"
    and "pg_snapshots (applyDraftRecord e d pg) = pg_snapshots pg"
    and "pg_hydrated_version (applyDraftRecord e d pg) = (fd_id d, fd_updated_at d)"
    and "pg_skip_persist (applyDraftRecord e d pg) = 2"
  using assms
  by (simp_all add: applyDraftRecord_def restorePlannerRuntimeSnapshot_def resetCanvasInteractionState_def Let_def
      split: prod.split)

lemma applyDraft_runtime:
  assumes "map_of (pg_snapshots pg) (trim (fd_id d)) = None"
  shows "rt_status (applyDraftRecord e d pg) = nullish (map_option pr_session_status (fd_planner_runtime d)) Idle"
    and "rt_planning (applyDraftRecord e d pg) = nullish (map_option pr_is_planning (fd_planner_runtime d)) False"
    and "rt_stopping (applyDraftRecord e d pg) = nullish (map_option pr_is_planner_stopping (fd_planner_runtime d)) False"
  using assms
  by (simp_all add: applyDraftRecord_def restorePlannerRuntimeSnapshot_def resetCanvasInteractionState_def Let_def
      put_draft_runtime_def split: prod.split option.split)

lemma applyDraft_messages:
  assumes "map_of (pg_snapshots pg) (trim (fd_id d)) = None" and "messagesBySession (rt_cache pg) = []"
  shows "rt_messages (applyDraftRecord e d pg) = draft_messages d"
proof -
  have none: "readPlannerMessagesFromCache (rt_cache pg) k = []" for k
    using assms(2) by (simp add: readPlannerMessagesFromCache_def Let_def)
  have put: "rt_messages (put_draft_messages e k ms pg') = ms" if "rt_cache pg' = rt_cache pg" for k ms pg'
    using none that by (simp add: put_draft_messages_def getCachedPlannerMessages_def Let_def)
  show ?thesis
    using assms(1)
    by (simp add: applyDraftRecord_def restorePlannerRuntimeSnapshot_def resetCanvasInteractionState_def Let_def
        draft_messages_def put split: prod.split)
qed

lemma applySnapshot_canvas:
  "ca_is_submitted (canvas_of (applySnapshot e s pg)) \<and> \<not> ca_is_draft (canvas_of (applySnapshot e s pg)) \<and>
   ca_nodes (canvas_of (applySnapshot e s pg)) = normalizeFlowNodes (map raw_of_node (fs_nodes s)) (fs_edges s)"
  by (simp add: applySnapshot_def restorePlannerRuntimeSnapshot_def put_snapshot_def cachePlannerMessages_def
      applySnapshotCanvasState_def put_messages_if_changed_def resetCanvasInteractionState_def Let_def split: option.split)

lemma idle_draft_not_awaiting:
  assumes "map_of (pg_snapshots pg) (trim (fd_id d)) = None" and "messagesBySession (rt_cache pg) = []"
    and "\<not> hasPendingPlannerReply (draft_messages d)" and "\<not> isPlannerRuntimeActiveInDraft (Some d)"
  shows "\<not> awaiting_for_hydration ((applyDraftRecord e d pg)\<lparr>pg_loaded_key := key\<rparr>)"
  using assms(3,4) applyDraft_messages [OF assms(1,2), of e] applyDraft_runtime [OF assms(1), of e]
  by (auto simp: awaiting_for_hydration_def isPlannerRuntimeActiveInDraft_def split: option.splits)

text \<open>
  C37: When the route changes to an existing flow whose stored draft has planner messages, the next run of the route
  effect applies that draft, whether the flow is also on the board or not, whether the route prefers the flow of the
  board or not, and however old the draft is. When no snapshot of the planner is kept for the flow, the run after it
  leaves the page as it is, with one exception: when the flow is on the board, no answer is awaited, and the route
  prefers the flow of the board (or the draft has neither nodes nor a name), it replaces the draft by the flow of the board.
\<close>

theorem navigation_keeps_history:
  assumes "page_route_key pg \<noteq> pg_loaded_key pg" and "\<not> ro_is_new (pg_route pg)"
    and "route_draft e pg = Some d" and "draft_messages d \<noteq> []"
  shows "let pg1 = (applyDraftRecord e d pg)\<lparr>pg_loaded_key := page_route_key pg\<rparr> in
    route_effect e pg = pg1 \<and>
    (map_of (pg_snapshots pg) (trim (fd_id d)) = None \<longrightarrow>
      route_effect e pg1 =
        (case flow_snapshot_of e pg (ro_flow_id (pg_route pg)) of
           None \<Rightarrow> pg1
         | Some s \<Rightarrow>
             if \<not> awaiting_for_hydration pg1 \<and> \<not> hasPendingPlannerReply (draft_messages d) \<and> \<not> isPlannerRuntimeActiveInDraft (Some d) \<and>
               (prefers_submitted (ro_state (pg_route pg)) \<or> ca_nodes (canvas_of pg1) = [] \<and> trim (pg_display_name pg1) = unnamed_flow)
             then applySnapshot e s pg1 else pg1))"
proof -
  let ?pg = "(applyDraftRecord e d pg)\<lparr>pg_loaded_key := page_route_key pg\<rparr>"
  have one: "route_effect e pg = ?pg" by (rule draft_with_chat_applied [OF assms])
  have two: "route_effect e ?pg =
      (case flow_snapshot_of e pg (ro_flow_id (pg_route pg)) of
         None \<Rightarrow> ?pg
       | Some s \<Rightarrow>
           if \<not> awaiting_for_hydration ?pg \<and> \<not> hasPendingPlannerReply (draft_messages d) \<and> \<not> isPlannerRuntimeActiveInDraft (Some d) \<and>
             (prefers_submitted (ro_state (pg_route pg)) \<or> ca_nodes (canvas_of ?pg) = [] \<and> trim (pg_display_name ?pg) = unnamed_flow)
           then applySnapshot e s ?pg else ?pg)"
    if no: "map_of (pg_snapshots pg) (trim (fd_id d)) = None"
  proof (cases "awaiting_for_hydration ?pg")
    case True
    have "page_route_key ?pg = pg_loaded_key ?pg" by (simp add: page_route_key_def applyDraft_fields [OF no, of e])
    then show ?thesis using True by (simp add: route_effect_def split: option.split)
  next
    case False
    note f = applyDraft_fields [OF no, of e]
    have key: "page_route_key ?pg = pg_loaded_key ?pg" by (simp add: page_route_key_def f)
    have draft: "route_draft e ?pg = Some d" using assms(2,3) by (simp add: route_draft_def stored_draft_def f)
    have snap: "flow_snapshot_of e ?pg (ro_flow_id (pg_route ?pg)) = flow_snapshot_of e pg (ro_flow_id (pg_route pg))"
      by (simp add: flow_snapshot_of_def f applyDraft_canvas [OF no])
    have draft_shown: "ca_is_draft (canvas_of ?pg)" by (simp add: applyDraft_canvas [OF no])
    let ?forced = "\<not> hasPendingPlannerReply (draft_messages d) \<and> \<not> isPlannerRuntimeActiveInDraft (Some d) \<and>
      (prefers_submitted (ro_state (pg_route pg)) \<or> ca_nodes (canvas_of ?pg) = [] \<and> trim (pg_display_name ?pg) = unnamed_flow)"
    have "decide_unchanged (en_parse e) (hydration_facts_of e ?pg) =
        (if flow_snapshot_of e pg (ro_flow_id (pg_route pg)) \<noteq> None \<and> ?forced then ExistingSnapshot else NoHydration)"
      using facts_draft [OF draft] assms(2,4) draft_shown snap f(1)
      by (simp add: decide_unchanged_def shouldForceApplySnapshotForRoute_def) (simp add: hydration_facts_of_def Let_def)
    then show ?thesis
      using False snap by (simp add: route_effect_unchanged [OF key False] resolveFlowRouteHydrationApplyIntent_def f
          applyFlowRouteHydrationIntent_def split: option.split)
  qed
  show ?thesis using one two by (simp add: Let_def)
qed

text \<open>
  The preference for a draft with a chat lasts for one run of the effect only: on a page that was just
  loaded, when the route prefers the flow of the board, the first run applies the draft because it has
  messages; the second run, which the first one causes, finds a draft canvas and replaces it by the flow
  of the board.
\<close>

lemma next_run_replaces_draft:
  assumes "page_route_key pg \<noteq> pg_loaded_key pg" and "\<not> ro_is_new (pg_route pg)"
    and "prefers_submitted (ro_state (pg_route pg))"
    and "route_draft e pg = Some d" and "draft_messages d \<noteq> []"
    and "\<not> hasPendingPlannerReply (draft_messages d)" and "\<not> isPlannerRuntimeActiveInDraft (Some d)"
    and "flow_snapshot_of e pg (ro_flow_id (pg_route pg)) = Some s"
    and "pg_snapshots pg = []" and "messagesBySession (rt_cache pg) = []"
  shows "rt_messages (route_effect e pg) = draft_messages d \<and> ca_is_draft (canvas_of (route_effect e pg)) \<and>
    ca_is_submitted (canvas_of (route_effect e (route_effect e pg))) \<and>
    ca_nodes (canvas_of (route_effect e (route_effect e pg))) = normalizeFlowNodes (map raw_of_node (fs_nodes s)) (fs_edges s)"
proof -
  let ?pg = "(applyDraftRecord e d pg)\<lparr>pg_loaded_key := page_route_key pg\<rparr>"
  have no: "map_of (pg_snapshots pg) (trim (fd_id d)) = None" using assms(9) by simp
  have "decide_changed (en_parse e) (hydration_facts_of e pg) = ExistingDraft"
    using facts_draft [OF assms(4)] assms(2,5) by (simp add: decide_changed_def)
  then have one: "route_effect e pg = ?pg"
    by (simp add: route_effect_changed [OF assms(1)] resolveFlowRouteHydrationApplyIntent_def assms(4)
        applyFlowRouteHydrationIntent_def)
  note f = applyDraft_fields [OF no, of e]
  have key: "page_route_key ?pg = pg_loaded_key ?pg" by (simp add: page_route_key_def f)
  have idle: "\<not> awaiting_for_hydration ?pg" by (rule idle_draft_not_awaiting [OF no assms(10,6,7)])
  have draft: "route_draft e ?pg = Some d"
    using assms(2,4) by (simp add: route_draft_def stored_draft_def f)
  have snap: "flow_snapshot_of e ?pg (ro_flow_id (pg_route ?pg)) = Some s"
    using assms(8) by (simp add: flow_snapshot_of_def f applyDraft_canvas [OF no])
  have "decide_unchanged (en_parse e) (hydration_facts_of e ?pg) = ExistingSnapshot"
    using assms(2,3,6,7) draft snap
    by (simp add: decide_unchanged_def shouldForceApplySnapshotForRoute_def hydration_facts_of_def Let_def f
        applyDraft_canvas [OF no])
  then have two: "route_effect e ?pg = applySnapshot e s ?pg"
    using snap by (simp add: route_effect_unchanged [OF key idle] resolveFlowRouteHydrationApplyIntent_def f
        applyFlowRouteHydrationIntent_def)
  show ?thesis
    using applySnapshot_canvas [of e s ?pg] applyDraft_messages [OF no assms(10), of e]
    by (simp add: one two applyDraft_canvas [OF no])
qed

section \<open>A page on which these properties apply\<close>

definition chat_draft :: draft_record where
  "chat_draft = (sample_stored ''f'' ''goal'' (Fin 1))\<lparr>fd_planner_messages := Some [\<lparr>m_role = AssistantRole,
     m_content = js ''hi'', m_kind = Some (js ''message''), m_payload = None, m_created_at = js ''t''\<rparr>]\<rparr>"

definition sample_board_task :: task where
  "sample_board_task = \<lparr>t_id = js ''f'', t_board_id = js ''b'', t_title = js ''T'', t_summary = [], t_status = Queued,
     t_source = FlowSource, t_agent_id = None, t_agent_name = [], t_artifacts = [], t_extras = [], t_instance_id = None,
     t_created_at = [], t_updated_at = []\<rparr>"

definition chat_page :: "bool \<Rightarrow> page" where
  "chat_page loaded = (sample_page [])\<lparr>pg_route := \<lparr>ro_is_new = False, ro_flow_id = js ''f'',
      ro_state = Some \<lparr>rs_draft_flow_id = None, rs_draft_flow_name = None, rs_draft_requirement = None,
        rs_draft_executor_agent_id = None, rs_prefer_submitted_snapshot = True\<rparr>\<rparr>,
     pg_tasks := [sample_board_task], pg_sync := sync_start\<lparr>sy_store := [chat_draft]\<rparr>,
     pg_loaded_key := (if loaded then js ''f:submitted'' else []), rt_messages := []\<rparr>"

definition submitted_page :: page where
  "submitted_page = (upd_canvas (\<lambda>ca. ca\<lparr>ca_is_draft := False, ca_is_submitted := True\<rparr>) (chat_page True))
     \<lparr>rt_messages := [\<lparr>m_role = AssistantRole, m_content = js ''hi'', m_kind = None, m_payload = None, m_created_at = []\<rparr>]\<rparr>"

lemma chat_draft_listed:
  "\<exists>d. route_draft sample_env (chat_page l) = Some d \<and> draft_messages d = draft_messages chat_draft \<and> fd_planner_runtime d = None"
  by (simp add: route_draft_def stored_draft_def chat_page_def getFlowDraftById_def listFlowDrafts_def map_filter_simps
      chat_draft_def normalizeDraft_def sample_stored_def normalizeTimestamp_def normalize_lane_map_def sort_by_def
      normalize_draft_message_def draft_messages_def sanitized_def sample_env_def Let_def str_or_def char_white_def
      trim_or_null_def trim_opt_def non_empty_def)

lemma chat_page_fields:
  "page_route_key (chat_page l) = js ''f:submitted''" "pg_loaded_key (chat_page l) = (if l then js ''f:submitted'' else [])"
  "\<not> ro_is_new (pg_route (chat_page l))" "prefers_submitted (ro_state (pg_route (chat_page l)))"
  "ro_flow_id (pg_route (chat_page l)) = js ''f''" "pg_snapshots (chat_page l) = []" "messagesBySession (rt_cache (chat_page l)) = []"
  "pg_flow_id (chat_page l) = js ''f''" "\<not> rt_planning (chat_page l)" "\<not> rt_stopping (chat_page l)" "rt_status (chat_page l) = Idle"
  by (simp_all add: chat_page_def sample_page_def page_route_key_def buildFlowRouteHydrationKey_def prefers_submitted_def
      js_def)

lemma board_snapshot: "pg_tasks pg = [sample_board_task] \<Longrightarrow> \<exists>s. flow_snapshot_of e pg (js ''f'') = Some s"
  by (simp add: flow_snapshot_of_def groupTasksByRequirement_def sample_board_task_def getRequirementIdFromTask_def task_extra_def
      trim_opt_def Let_def)

lemma chat_draft_messages: "draft_messages chat_draft \<noteq> []" "\<not> hasPendingPlannerReply (draft_messages chat_draft)"
  by (simp_all add: draft_messages_def chat_draft_def hasPendingPlannerReply_def sanitized_def sanitizePlannerMessages_def
      sanitizePlannerMessage_def raw_of_message_def trim_opt_def normalizePlannerObserverMessageRole_def char_white_def Let_def)

lemma submitted_page_shown:
  "shows_submitted submitted_page" "\<not> awaiting_for_hydration submitted_page"
  "\<exists>s. flow_snapshot_of e submitted_page (ro_flow_id (pg_route submitted_page)) = Some s"
proof -
  have t: "pg_tasks submitted_page = [sample_board_task]" "pg_route submitted_page = pg_route (chat_page True)"
    by (simp_all add: submitted_page_def chat_page_def)
  show "shows_submitted submitted_page"
    using chat_page_fields(1) [of True]
    by (simp add: shows_submitted_def page_route_key_def submitted_page_def chat_page_fields char_white_def)
  show "\<not> awaiting_for_hydration submitted_page"
    by (simp add: awaiting_for_hydration_def submitted_page_def chat_page_fields hasPendingPlannerReply_def)
  show "\<exists>s. flow_snapshot_of e submitted_page (ro_flow_id (pg_route submitted_page)) = Some s"
    using board_snapshot [OF t(1)] t(2) by (simp add: chat_page_fields)
qed

theorem navigation_keeps_history_witness:
  "\<exists>d. draft_messages d \<noteq> [] \<and>
     route_effect sample_env (chat_page False) = (applyDraftRecord sample_env d (chat_page False))\<lparr>pg_loaded_key := js ''f:submitted''\<rparr>"
proof -
  obtain d where d: "route_draft sample_env (chat_page False) = Some d" "draft_messages d \<noteq> []"
    using chat_draft_listed [of False] chat_draft_messages by auto
  show ?thesis
    using navigation_keeps_history [OF _ _ d] d(2) by (auto simp: chat_page_fields Let_def)
qed

theorem route_effect_settles_witness:
  "shows_submitted submitted_page \<and>
     route_effect sample_env (route_effect sample_env submitted_page) = route_effect sample_env submitted_page"
  using route_effect_settles [OF submitted_page_shown(1), of sample_env] submitted_page_shown(1) by blast

lemma submitted_chat_is_wiped_witness:
  "rt_messages submitted_page \<noteq> [] \<and> rt_messages (route_effect sample_env submitted_page) = []"
proof -
  obtain s where "flow_snapshot_of sample_env submitted_page (ro_flow_id (pg_route submitted_page)) = Some s"
    using submitted_page_shown(3) by blast
  then show ?thesis
    using submitted_chat_is_wiped [OF submitted_page_shown(1,2)] by (simp add: submitted_page_def)
qed

theorem next_run_replaces_draft_witness:
  "rt_messages (route_effect sample_env (chat_page False)) \<noteq> [] \<and>
     ca_is_submitted (canvas_of (route_effect sample_env (route_effect sample_env (chat_page False))))"
proof -
  obtain d where d: "route_draft sample_env (chat_page False) = Some d" and m: "draft_messages d = draft_messages chat_draft"
    and r: "fd_planner_runtime d = None" using chat_draft_listed [of False] by auto
  obtain s where s: "flow_snapshot_of sample_env (chat_page False) (ro_flow_id (pg_route (chat_page False))) = Some s"
    using board_snapshot [of "chat_page False" sample_env] by (auto simp: chat_page_fields) (auto simp: chat_page_def)
  show ?thesis
    using next_run_replaces_draft [OF _ _ _ d _ _ _ s] m chat_draft_messages
    by (simp add: chat_page_fields isPlannerRuntimeActiveInDraft_def r)
qed

end
