(* ===== verification/PageDrafts.thy ===== *)
theory PageDrafts imports PageHydration FlowEdits begin

text \<open>
  The page and its stored drafts over time: what the autosave writes is what coming back shows, a newer
  stored version is reloaded before the autosave can overwrite it, the side bar shows every flow once,
  and a deleted flow is gone from all of them.
\<close>

section \<open>A canvas in order\<close>

definition lane_in_order :: "flow_lane \<Rightarrow> bool" where
  "lane_in_order lane \<longleftrightarrow> name_ok (l_id lane) \<and> name_ok (l_name lane) \<and> nullable_ok (l_instance_id lane) \<and>
     nullable_ok (l_agent_id lane)"

definition canvas_in_order :: "canvas \<Rightarrow> bool" where
  "canvas_in_order ca \<longleftrightarrow>
     list_all (clean_node (set (map n_id (ca_nodes ca)))) (ca_nodes ca) \<and> ca_nodes ca \<noteq> [] \<and>
     ca_lanes ca \<noteq> [] \<and> list_all lane_in_order (ca_lanes ca) \<and> fst ` set (ca_node_lane_by_id ca) = n_id ` set (ca_nodes ca) \<and>
     (\<forall>(nodeId, laneId) \<in> set (ca_node_lane_by_id ca). name_ok laneId \<and> laneId \<in> l_id ` set (ca_lanes ca))"

lemma raw_ids_clean:
  assumes "\<forall>n \<in> set ns. n_id n \<noteq> [] \<and> trimmed (n_id n)"
  shows "raw_ids (map raw_of_node ns) = map n_id ns"
  using assms by (induction ns) (auto simp: raw_ids_def raw_of_node_def trim_opt_def trimmed_def)

lemma normalize_clean_nodes:
  assumes "list_all (clean_node (set (map n_id ns))) ns"
  shows "normalizeFlowNodes (map raw_of_node ns) edges = ns"
proof -
  have clean: "clean_node (set (map n_id ns)) n" if "n \<in> set ns" for n using assms that by (simp add: list_all_iff)
  have ids: "raw_ids (map raw_of_node ns) = map n_id ns" using clean by (intro raw_ids_clean) (auto simp: clean_node_def)
  have "map (normalize_node (dependency_map edges) (map n_id ns)) (map raw_of_node ns) = ns"
    using clean by (auto simp: o_def intro!: map_idI clean_node_normalize)
  moreover have "filter (\<lambda>n. n_id n \<noteq> [] \<and> n_title n \<noteq> []) ns = ns"
    using clean by (intro filter_True) (auto simp: clean_node_def)
  ultimately show ?thesis by (simp add: normalizeFlowNodes_def ids)
qed

lemma nullable_trim: "nullable_ok v \<Longrightarrow> trim_or_null v = v"
  by (cases v) (auto simp: nullable_ok_def name_ok_def trim_or_null_def trim_opt_def trimmed_def non_empty_def)

lemma lanes_persisted:
  assumes "list_all lane_in_order lanes"
  shows "normalizeDraftLanes (map lane_item_of lanes) = lanes"
proof -
  let ?g = "\<lambda>lane. \<lparr>l_id = trim (li_id lane), l_name = str_or (trim (li_name lane)) unnamed_lane,
      l_instance_id = trim_or_null (li_instance_id lane), l_agent_id = trim_or_null (li_agent_id lane),
      l_created_at = li_created_at lane\<rparr>"
  have "?g (lane_item_of lane) = lane" if "lane \<in> set lanes" for lane
    using assms that by (cases lane) (auto simp: list_all_iff lane_in_order_def lane_item_of_def nullable_trim name_ok_def
        trimmed_def str_or_def)
  then have "map ?g (map lane_item_of lanes) = lanes" by (auto simp: o_def intro!: map_idI)
  moreover have "filter (\<lambda>lane. l_id lane \<noteq> []) lanes = lanes"
    using assms by (intro filter_True) (auto simp: list_all_iff lane_in_order_def name_ok_def)
  ultimately show ?thesis unfolding normalizeDraftLanes_def by simp
qed

lemma node_lanes_persisted:
  assumes "\<forall>node \<in> set nodes. \<exists>v. map_of m (n_id node) = Some v \<and> name_ok v \<and> v \<in> l_id ` set lanes"
  shows "map_of (buildNodeLaneByIdFromDraft m nodes lanes f) k = (if k \<in> n_id ` set nodes then map_of m k else None)"
  using assms
proof (induction nodes rule: rev_induct)
  case Nil
  then show ?case by (simp add: buildNodeLaneByIdFromDraft_def)
next
  case (snoc node nodes)
  then obtain v where v: "map_of m (n_id node) = Some v" "name_ok v" "v \<in> l_id ` set lanes" by auto
  have "draft_node_lane m lanes f node = Some v"
    using v by (intro draft_node_lane_persisted) (auto simp: name_ok_def)
  then show ?case using snoc v(1) by (simp add: build_node_lane_snoc)
qed

lemma lanes_of_canvas:
  assumes "canvas_in_order ca"
  shows "\<forall>node \<in> set (ca_nodes ca). \<exists>v. map_of (ca_node_lane_by_id ca) (n_id node) = Some v \<and> name_ok v \<and> v \<in> l_id ` set (ca_lanes ca)"
proof
  fix node assume "node \<in> set (ca_nodes ca)"
  then have "n_id node \<in> fst ` set (ca_node_lane_by_id ca)" using assms by (simp add: canvas_in_order_def)
  then obtain v where v: "map_of (ca_node_lane_by_id ca) (n_id node) = Some v"
    by (metis map_of_eq_None_iff not_Some_eq)
  then have "(n_id node, v) \<in> set (ca_node_lane_by_id ca)" by (rule map_of_SomeD)
  then show "\<exists>v. map_of (ca_node_lane_by_id ca) (n_id node) = Some v \<and> name_ok v \<and> v \<in> l_id ` set (ca_lanes ca)"
    using assms v by (auto simp: canvas_in_order_def)
qed

section \<open>Saving and coming back\<close>

text \<open>The page on which the autosave writes.\<close>

definition autosaves :: "env \<Rightarrow> page \<Rightarrow> bool" where
  "autosaves e pg \<longleftrightarrow> (let f = trim (pg_flow_id pg) in
     ca_is_draft (canvas_of pg) \<and> pg_skip_persist pg = 0 \<and> f \<noteq> [] \<and> \<not> persist_delayed f pg \<and> \<not> placeholder_draft pg \<and>
     \<not> newer_stored_version e f pg \<and> \<not> unchanged_draft e f pg)"

lemma persist_store [simp]: "sy_store (persistDraftRecord p r s st) = upsertFlowDraft p r (sy_store st)"
  by (simp add: persistDraftRecord_def bumpDraftStoreVersion_def flushDraftSyncQueue_def Let_def
      split: option.split prod.split)

lemma autosave_store:
  "autosaves e pg \<Longrightarrow> sy_store (pg_sync (persist_effect e pg)) =
     upsertFlowDraft (en_parse e) (next_draft e (trim (pg_flow_id pg)) pg) (sy_store (pg_sync pg))"
  by (simp add: autosaves_def persist_effect_def Let_def)

lemma next_draft_fields:
  assumes "ca_nodes (canvas_of pg) \<noteq> []"
  shows "fd_id (next_draft e f pg) = f" "fd_nodes (next_draft e f pg) = ca_nodes (canvas_of pg)"
    "fd_lanes (next_draft e f pg) = map lane_item_of (ca_lanes (canvas_of pg))"
    "fd_node_lane_by_id (next_draft e f pg) = ca_node_lane_by_id (canvas_of pg)"
    "fd_requirement (next_draft e f pg) = pg_requirement pg"
    "fd_name (next_draft e f pg) = str_or (trim (pg_display_name pg)) unnamed_flow"
    "fd_planner_messages (next_draft e f pg) = Some (slice_last PLANNER_MESSAGE_CACHE_MAX_MESSAGES (rt_messages pg))"
    "fd_planner_runtime (next_draft e f pg) = Some \<lparr>pr_session_status = rt_status pg, pr_is_planning = rt_planning pg,
       pr_is_planner_stopping = rt_stopping pg, pr_is_overlay_close_blocked = rt_overlay_blocked pg\<rparr>"
  using assms by (simp_all add: next_draft_def untouched_empty_draft_def draft_of_page_def Let_def split: option.split)

lemma autosaved:
  assumes "epoch_parses (en_parse e)" and "autosaves e pg" and "draft_ok (en_parse e) (next_draft e (trim (pg_flow_id pg)) pg)"
    and "ca_nodes (canvas_of pg) \<noteq> []" and "pg_sync pg' = pg_sync (persist_effect e pg)"
  shows "stored_draft e (trim (pg_flow_id pg)) pg' = Some (next_draft e (trim (pg_flow_id pg)) pg)"
  using assms(3) get_upsert [OF assms(1), of "next_draft e (trim (pg_flow_id pg)) pg"]
  by (simp add: stored_draft_def assms(5) autosave_store [OF assms(2)] next_draft_fields [OF assms(4)] normalizeDraft_id
      draft_ok_def name_ok_def)

lemma str_or_twice: "str_or (trim (str_or (trim s) unnamed_flow)) unnamed_flow = str_or (trim s) unnamed_flow"
  by (simp add: str_or_def)

text \<open>
  C5: What the autosave writes is what coming back shows: when the autosave of a draft has written, then on any later
  page, in the same state of the draft store, with no snapshot of the planner kept for the flow and no cached chat, the
  flow has a stored draft, and applying it restores the nodes, the lanes, the lane of every node, the requirement, the
  name (trimmed, or the default name), the state of the planner and the last two hundred messages of the chat as the
  message cache cleans them. This holds for a canvas in order, as editing keeps it (\<open>canvas_in_order\<close>: it has nodes and
  lanes, the nodes are clean, the ids and names of the lanes are trimmed and not empty, and exactly the nodes have a lane,
  one that exists), and for a record in the form of the store (\<open>draft_ok\<close>: messages, times, lanes and keys as its
  normalisation leaves them); an empty canvas gets the fallback lanes instead, and blanks around the name of a lane are lost.
\<close>

theorem autosave_reload_round_trip:
  assumes "epoch_parses (en_parse e)" and "autosaves e pg" and "canvas_in_order (canvas_of pg)"
    and "draft_ok (en_parse e) (next_draft e (trim (pg_flow_id pg)) pg)"
    and "pg_sync pg2 = pg_sync (persist_effect e pg)"
    and "map_of (pg_snapshots pg2) (trim (pg_flow_id pg)) = None" and "messagesBySession (rt_cache pg2) = []"
  shows "\<exists>d. stored_draft e (trim (pg_flow_id pg)) pg2 = Some d \<and>
    (let pg3 = applyDraftRecord e' d pg2 in
       pg_flow_id pg3 = trim (pg_flow_id pg) \<and> ca_nodes (canvas_of pg3) = ca_nodes (canvas_of pg) \<and>
       ca_lanes (canvas_of pg3) = ca_lanes (canvas_of pg) \<and>
       map_of (ca_node_lane_by_id (canvas_of pg3)) = map_of (ca_node_lane_by_id (canvas_of pg)) \<and>
       pg_requirement pg3 = pg_requirement pg \<and> pg_display_name pg3 = str_or (trim (pg_display_name pg)) unnamed_flow \<and>
       rt_status pg3 = rt_status pg \<and> rt_planning pg3 = rt_planning pg \<and> rt_stopping pg3 = rt_stopping pg \<and>
       rt_messages pg3 = sanitized (slice_last PLANNER_MESSAGE_CACHE_MAX_MESSAGES (rt_messages pg)))"
proof -
  let ?d = "next_draft e (trim (pg_flow_id pg)) pg" and ?ca = "canvas_of pg"
  have nodes: "ca_nodes ?ca \<noteq> []" using assms(3) by (simp add: canvas_in_order_def)
  note d = next_draft_fields [OF nodes]
  have stored: "stored_draft e (trim (pg_flow_id pg)) pg2 = Some ?d" by (rule autosaved [OF assms(1,2,4) nodes assms(5)])
  have none: "map_of (pg_snapshots pg2) (trim (fd_id ?d)) = None" using assms(6) by (simp add: d)
  have norm: "normalizeFlowNodes (map raw_of_node (ca_nodes ?ca)) edges = ca_nodes ?ca" for edges
    using assms(3) by (simp add: canvas_in_order_def normalize_clean_nodes)
  have lanes: "normalizeDraftLanes (map lane_item_of (ca_lanes ?ca)) = ca_lanes ?ca" "ca_lanes ?ca \<noteq> []"
    using assms(3) by (simp_all add: canvas_in_order_def lanes_persisted)
  have keys: "map_of (ca_node_lane_by_id ?ca) k = None" if "k \<notin> n_id ` set (ca_nodes ?ca)" for k
    using assms(3) that by (simp add: canvas_in_order_def map_of_eq_None_iff)
  have "map_of (buildNodeLaneByIdFromDraft (ca_node_lane_by_id ?ca) (ca_nodes ?ca) (ca_lanes ?ca) f) k =
      map_of (ca_node_lane_by_id ?ca) k" for f k
    using node_lanes_persisted [OF lanes_of_canvas [OF assms(3)]] keys by simp
  then have map: "map_of (buildNodeLaneByIdFromDraft (ca_node_lane_by_id ?ca) (ca_nodes ?ca) (ca_lanes ?ca) f) =
      map_of (ca_node_lane_by_id ?ca)" for f by blast
  show ?thesis
    using applyDraft_fields [OF none, of e'] applyDraft_runtime [OF none, of e'] applyDraft_messages [OF none assms(7), of e']
    by (simp add: stored applyDraft_canvas [OF none] norm draft_lanes_def lanes map draft_messages_def d str_or_twice Let_def)
qed

section \<open>A newer stored version\<close>

lemma found_id: "stored_draft e f pg = Some d \<Longrightarrow> fd_id d = trim f"
  by (auto simp: stored_draft_def getFlowDraftById_def Let_def find_Some_iff split: if_splits)

lemma route_key_not_empty [simp]: "buildFlowRouteHydrationKey isNew f s \<noteq> []"
  by (simp add: buildFlowRouteHydrationKey_def)

text \<open>Whether a route to an existing flow shows its stored draft (and not the flow of the board, or nothing).\<close>

definition draft_comes_first :: "env \<Rightarrow> draft_record \<Rightarrow> page \<Rightarrow> bool" where
  "draft_comes_first e d pg \<longleftrightarrow>
     (if prefers_submitted (ro_state (pg_route pg))
      then draft_messages d \<noteq> [] \<or> hasPendingPlannerReply (draft_messages d) \<or> isPlannerRuntimeActiveInDraft (Some d)
      else draft_messages d \<noteq> [] \<or>
        (case flow_snapshot_of e pg (ro_flow_id (pg_route pg)) of
           None \<Rightarrow> True
         | Some s \<Rightarrow> \<not> shouldPreferSnapshotOverDraft (en_parse e) (Some (fd_updated_at d)) (Some (fs_updated_at s))))"

text \<open>
  C17: The autosave never overwrites a newer version of the draft: when the autosave runs for a draft on screen
  (not while its first writes are skipped or delayed, nor for a placeholder) and the store has got a version newer than
  the one on the canvas (from another page, or taken over from the server), it writes and uploads nothing. If the route
  is that of the flow, the route effect that follows applies the newer version exactly when the draft comes first for
  the route (\<open>draft_comes_first\<close>: it has a chat, or else, where the route prefers the flow of the board, its planner is
  at work, and where it does not, the board has no newer flow); then, with no snapshot of the planner kept for the flow, the page is up to date. Otherwise the
  effect applies the flow of the board, or an empty canvas when the route prefers a flow the board does not have.
\<close>

theorem newer_version_reloaded:
  assumes "ca_is_draft (canvas_of pg)" and "pg_skip_persist pg = 0" and "trim (pg_flow_id pg) \<noteq> []"
    and "\<not> persist_delayed (trim (pg_flow_id pg)) pg" and "\<not> placeholder_draft pg"
    and "newer_stored_version e (trim (pg_flow_id pg)) pg"
    and "stored_draft e (trim (pg_flow_id pg)) pg = Some d"
  shows "pg_sync (persist_effect e pg) = pg_sync pg \<and>
    (\<not> ro_is_new (pg_route pg) \<and> ro_flow_id (pg_route pg) = trim (pg_flow_id pg) \<longrightarrow>
      (let pg' = route_effect e (persist_effect e pg); pg1 = pg\<lparr>pg_loaded_key := []\<rparr> in
       pg' = (if draft_comes_first e d pg then applyDraftRecord e d pg1
          else case flow_snapshot_of e pg (ro_flow_id (pg_route pg)) of
            Some s \<Rightarrow> applySnapshot e s pg1
          | None \<Rightarrow> applyEmptyDraftCanvasState e \<lparr>es_flow_id = ro_flow_id (pg_route pg), es_display_name = unnamed_flow,
              es_name_input = unnamed_flow, es_requirement = [],
              es_lanes = buildInitialLanesFromAgent (en_now e) [] (ca_agents (canvas_of pg)), es_executor = []\<rparr> pg1)
         \<lparr>pg_loaded_key := page_route_key pg\<rparr> \<and>
       (draft_comes_first e d pg \<and> map_of (pg_snapshots pg) (trim (fd_id d)) = None \<longrightarrow>
         pg_sync pg' = pg_sync pg \<and> \<not> newer_stored_version e (trim (pg_flow_id pg')) pg')))"
proof -
  let ?pg = "pg\<lparr>pg_loaded_key := []\<rparr>"
  have one: "persist_effect e pg = ?pg" using assms(1-6) by (simp add: persist_effect_def Let_def)
  have key: "page_route_key ?pg \<noteq> pg_loaded_key ?pg" "page_route_key ?pg = page_route_key pg" by (simp_all add: page_route_key_def)
  have two: "route_effect e ?pg = (if draft_comes_first e d pg then applyDraftRecord e d ?pg
          else case flow_snapshot_of e pg (ro_flow_id (pg_route pg)) of
            Some s \<Rightarrow> applySnapshot e s ?pg
          | None \<Rightarrow> applyEmptyDraftCanvasState e \<lparr>es_flow_id = ro_flow_id (pg_route pg), es_display_name = unnamed_flow,
              es_name_input = unnamed_flow, es_requirement = [],
              es_lanes = buildInitialLanesFromAgent (en_now e) [] (ca_agents (canvas_of pg)), es_executor = []\<rparr> ?pg)
         \<lparr>pg_loaded_key := page_route_key pg\<rparr>"
    if route: "\<not> ro_is_new (pg_route pg)" "ro_flow_id (pg_route pg) = trim (pg_flow_id pg)"
  proof -
    have draft: "route_draft e ?pg = Some d" using route assms(7) by (simp add: route_draft_def stored_draft_def)
    have snap: "flow_snapshot_of e ?pg (ro_flow_id (pg_route ?pg)) = flow_snapshot_of e pg (ro_flow_id (pg_route pg))"
      by (simp add: flow_snapshot_of_def)
    have facts: "hf_has_snapshot (hydration_facts_of e ?pg) = (flow_snapshot_of e pg (ro_flow_id (pg_route pg)) \<noteq> None)"
      "hf_snapshot_updated_at (hydration_facts_of e ?pg) = map_option fs_updated_at (flow_snapshot_of e pg (ro_flow_id (pg_route pg)))"
      using snap by (simp_all add: hydration_facts_of_def Let_def)
    have "decide_changed (en_parse e) (hydration_facts_of e ?pg) =
        (if draft_comes_first e d pg then ExistingDraft
         else if flow_snapshot_of e pg (ro_flow_id (pg_route pg)) \<noteq> None then ExistingSnapshot else ExistingEmpty)"
      using facts_draft [OF draft] facts route
      by (cases "flow_snapshot_of e pg (ro_flow_id (pg_route pg))") (auto simp: decide_changed_def draft_comes_first_def)
    then show ?thesis
      using snap route by (auto simp: route_effect_changed [OF key(1)] resolveFlowRouteHydrationApplyIntent_def draft
          applyFlowRouteHydrationIntent_def key(2) split: option.split)
  qed
  have ident: "fd_id d = trim (pg_flow_id pg)" using found_id [OF assms(7)] by simp
  have "pg_sync new = pg_sync pg \<and> \<not> newer_stored_version e (trim (pg_flow_id new)) new"
    if "map_of (pg_snapshots pg) (trim (fd_id d)) = None" and new: "new = (applyDraftRecord e d ?pg)\<lparr>pg_loaded_key := page_route_key pg\<rparr>"
    for new
  proof -
    have none: "map_of (pg_snapshots ?pg) (trim (fd_id d)) = None" using that(1) by simp
    show ?thesis
      using applyDraft_fields [OF none, of e] assms(7)
      by (simp add: new newer_stored_version_def stored_draft_def ident)
  qed
  then show ?thesis using one two by (simp add: Let_def)
qed

section \<open>The side bar\<close>

lemma keys_distinct [simp]: "distinct (map fst m) \<Longrightarrow> distinct (map fst (AList.update k v m))"
  by (rule distinct_update)

lemma fold_keeps: "(\<And>x m. P m \<Longrightarrow> P (f x m)) \<Longrightarrow> P m \<Longrightarrow> P (fold f xs m)"
  by (induction xs arbitrary: m) auto

lemma keys_fold:
  "(\<And>x m. fst ` set (f x m) = fst ` set m \<union> (if P x then {k x} else {})) \<Longrightarrow>
     fst ` set (fold f xs m) = fst ` set m \<union> k ` {x \<in> set xs. P x}"
  by (induction xs arbitrary: m) auto

lemma group_keys: "fst ` set (groupTasksByRequirement tasks) = getRequirementIdFromTask ` set tasks"
  unfolding groupTasksByRequirement_def by (subst keys_fold [where P = "\<lambda>_. True"]) (auto simp: Let_def)

text \<open>The flows of the page: stored drafts, flows of the board, and the flow on screen; less the suppressed ones.\<close>

definition flows_of :: "env \<Rightarrow> page \<Rightarrow> jsstring set" where
  "flows_of e pg =
     (fd_id ` set (listFlowDrafts (en_parse e) (sy_store (pg_sync pg))) \<union> getRequirementIdFromTask ` set (pg_tasks pg) \<union>
      (if trim (pg_flow_id pg) = [] then {} else {trim (pg_flow_id pg)})) - set (pg_suppressed pg)"

definition sidebar_drafts :: "env \<Rightarrow> page \<Rightarrow> (jsstring \<times> sidebar_item) list" where
  "sidebar_drafts e pg = fold (\<lambda>draft items. if fd_id draft \<in> set (pg_suppressed pg) then items
     else AList.update (fd_id draft) (draft_item draft) items) (listFlowDrafts (en_parse e) (sy_store (pg_sync pg))) []"

lemma sidebar_drafts_keys:
  "distinct (map fst (sidebar_drafts e pg)) \<and>
   fst ` set (sidebar_drafts e pg) = fd_id ` set (listFlowDrafts (en_parse e) (sy_store (pg_sync pg))) - set (pg_suppressed pg)"
  unfolding sidebar_drafts_def
  by (intro conjI fold_keeps [where P = "\<lambda>m. distinct (map fst m)"], simp, simp,
      subst keys_fold [where P = "\<lambda>d. fd_id d \<notin> set (pg_suppressed pg)" and k = fd_id]) auto

definition sidebar_tasks :: "env \<Rightarrow> page \<Rightarrow> (jsstring \<times> sidebar_item) list" where
  "sidebar_tasks e pg = fold (\<lambda>(requirementId, tasks) items. if requirementId \<in> set (pg_suppressed pg) then items
       else AList.update requirementId (submitted_item e pg requirementId tasks
              (nullish (map_option si_has_draft (map_of items requirementId)) False)) items)
     (groupTasksByRequirement (pg_tasks pg)) (sidebar_drafts e pg)"

lemma sidebar_tasks_keys:
  "distinct (map fst (sidebar_tasks e pg)) \<and>
   fst ` set (sidebar_tasks e pg) = fst ` set (sidebar_drafts e pg) \<union>
     (getRequirementIdFromTask ` set (pg_tasks pg) - set (pg_suppressed pg))"
  unfolding sidebar_tasks_def
  by (intro conjI fold_keeps [where P = "\<lambda>m. distinct (map fst m)"], simp split: prod.split, simp add: sidebar_drafts_keys,
      subst keys_fold [where P = "\<lambda>g. fst g \<notin> set (pg_suppressed pg)" and k = fst])
     (auto simp: group_keys [symmetric] split: prod.split)

lemma sidebar_items_split:
  "flowSidebarItems e pg =
     (let currentId = trim (pg_flow_id pg); items = sidebar_tasks e pg in
      if currentId \<noteq> [] \<and> \<not> map_has items currentId \<and> currentId \<notin> set (pg_suppressed pg)
      then AList.update currentId (current_item e pg currentId) items else items)"
  by (simp add: flowSidebarItems_def sidebar_tasks_def sidebar_drafts_def Let_def)

lemma sidebar_items_keys: "distinct (map fst (flowSidebarItems e pg))"
  using sidebar_tasks_keys [of e pg] by (simp add: sidebar_items_split Let_def)

lemma sidebar_items_flows: "fst ` set (flowSidebarItems e pg) = flows_of e pg"
  using sidebar_tasks_keys [of e pg] sidebar_drafts_keys [of e pg]
  by (auto simp: sidebar_items_split flows_of_def Let_def map_has_iff)

definition items_named :: "(jsstring \<times> sidebar_item) list \<Rightarrow> bool" where
  "items_named items \<longleftrightarrow> list_all (\<lambda>item. si_id (snd item) = fst item) items"

lemma items_named_Nil [simp]: "items_named []"
  by (simp add: items_named_def)

lemma items_named_update [simp]: "items_named items \<Longrightarrow> si_id v = k \<Longrightarrow> items_named (AList.update k v items)"
  by (induction items) (auto simp: items_named_def)

lemma item_ids [simp]:
  "si_id (draft_item d) = fd_id d" "si_id (submitted_item e pg r ts b) = r" "si_id (current_item e pg c) = c"
  by (simp_all add: draft_item_def submitted_item_def current_item_def Let_def)

lemma sidebar_values: "items_named (flowSidebarItems e pg)"
proof -
  have d: "items_named (sidebar_drafts e pg)"
    unfolding sidebar_drafts_def by (rule fold_keeps [where P = items_named]) simp_all
  have "items_named (sidebar_tasks e pg)"
    unfolding sidebar_tasks_def by (rule fold_keeps [where P = items_named, OF _ d]) (simp split: prod.split)
  then show ?thesis by (simp add: sidebar_items_split Let_def)
qed

lemma listed_ids:
  assumes "items_named items" and "set ids \<subseteq> fst ` set items"
  shows "map si_id (List.map_filter (map_of items) ids) = ids"
  using assms(2)
proof (induction ids)
  case Nil
  then show ?case by (simp add: map_filter_simps)
next
  case (Cons ident ids)
  then obtain v where v: "map_of items ident = Some v"
    by (metis insert_subset list.simps(15) map_of_eq_None_iff not_Some_eq)
  then have "si_id v = ident" using assms(1) map_of_SomeD [OF v] by (auto simp: items_named_def list_all_iff)
  then show ?case using Cons v by (simp add: map_filter_simps)
qed

lemma sidebar_items_order [simp]: "flowSidebarItems e (pg\<lparr>pg_sidebar_order := ids\<rparr>) = flowSidebarItems e pg"
proof -
  have 1: "submitted_item e (pg\<lparr>pg_sidebar_order := ids\<rparr>) = submitted_item e pg"
    by (intro ext) (simp add: submitted_item_def canvas_of_def)
  have 2: "current_item e (pg\<lparr>pg_sidebar_order := ids\<rparr>) = current_item e pg"
    by (intro ext) (simp add: current_item_def canvas_of_def)
  show ?thesis unfolding sidebar_items_split sidebar_tasks_def sidebar_drafts_def 1 2 by simp
qed

lemma next_order:
  "pg_sidebar_order (sidebar_order_effect e pg) =
     filter (\<lambda>ident. ident \<notin> set (filter (\<lambda>i. i \<in> fst ` set (flowSidebarItems e pg)) (dedupeFlowIds (pg_sidebar_order pg))))
       (map fst (flowSidebarItems e pg)) @
     filter (\<lambda>i. i \<in> fst ` set (flowSidebarItems e pg)) (dedupeFlowIds (pg_sidebar_order pg))"
  by (simp add: sidebar_order_effect_def orders_equal Let_def)

text \<open>
  The side bar shows every flow exactly once: after the effect that keeps the order, it lists the stored
  drafts, the flows of the board and the flow on screen, each once, none that is being deleted, in the
  stored order; the flows the order did not know come first, and the known ones keep their order.
\<close>

lemma sidebar_shows_every_flow:
  "let pg' = sidebar_order_effect e pg; shown = map si_id (orderedFlowSidebarItems e pg') in
     distinct shown \<and> set shown = flows_of e pg \<and> shown = pg_sidebar_order pg' \<and>
     (\<exists>new. shown = new @ filter (\<lambda>i. i \<in> flows_of e pg) (dedupeFlowIds (pg_sidebar_order pg)))"
proof -
  let ?items = "flowSidebarItems e pg" and ?pg = "sidebar_order_effect e pg"
  define kept where "kept = filter (\<lambda>i. i \<in> fst ` set ?items) (dedupeFlowIds (pg_sidebar_order pg))"
  define new where "new = filter (\<lambda>i. i \<notin> set kept) (map fst ?items)"
  have order: "pg_sidebar_order ?pg = new @ kept" unfolding next_order new_def kept_def ..
  have items: "flowSidebarItems e ?pg = ?items" by (simp add: sidebar_order_effect_def Let_def)
  have all: "set (new @ kept) = fst ` set ?items" by (auto simp: new_def kept_def)
  have "distinct (new @ kept)" using sidebar_items_keys [of e pg] by (auto simp: new_def kept_def)
  have known: "filter (\<lambda>ident. map_has ?items ident) (new @ kept) = new @ kept"
    using all by (intro filter_True) (auto simp: map_has_iff)
  have fresh: "filter (\<lambda>ident. ident \<notin> set (new @ kept)) (map fst ?items) = []" using all by (auto simp: filter_empty_conv)
  have "map si_id (orderedFlowSidebarItems e ?pg) = new @ kept"
    unfolding orderedFlowSidebarItems_def Let_def order items known fresh append_Nil
    by (rule listed_ids [OF sidebar_values]) (use all in blast)
  then show ?thesis
    using \<open>distinct (new @ kept)\<close> all order by (simp add: Let_def sidebar_items_flows kept_def del: set_map)
qed

section \<open>Deleting a flow\<close>

lemma submitted_trimmed: "trim (submitted_of_current pg) = submitted_of_current pg"
  by (simp add: submitted_of_current_def Let_def str_or_def)

lemma handleDelete_Some:
  "handleDeleteCurrentFlow confirmed pg = (pg1, Some call) \<Longrightarrow>
     confirmed \<and> trim (pg_flow_id pg) \<noteq> [] \<and>
     call = \<lparr>dl_flow_id = trim (pg_flow_id pg), dl_submitted_id = submitted_of_current pg\<rparr> \<and>
     pg1 = pg\<lparr>pg_suppressed := addSuppressedFlowIds (deletion_targets call) (pg_suppressed pg)\<rparr>"
  by (auto simp: handleDeleteCurrentFlow_def Let_def split: if_splits)

lemma deletion_targets_set: "set (deletion_targets call) = {i \<in> {dl_flow_id call, dl_submitted_id call}. trim i \<noteq> []}"
  by (auto simp: deletion_targets_def)

lemma suppressed_set:
  assumes "\<forall>i \<in> set ids. trim i = i \<and> i \<noteq> []"
  shows "set (addSuppressedFlowIds ids current) = set current \<union> set ids"
    and "set (removeSuppressedFlowIds ids current) = set current - set ids"
proof -
  have "map trim ids = ids" using assms by (intro map_idI) auto
  moreover have "filter (\<lambda>item. item \<noteq> []) ids = ids" using assms by (intro filter_True) auto
  ultimately show "set (addSuppressedFlowIds ids current) = set current \<union> set ids"
    and "set (removeSuppressedFlowIds ids current) = set current - set ids"
    by (auto simp: addSuppressedFlowIds_def removeSuppressedFlowIds_def Let_def)
qed

lemma remove_store [simp]: "sy_store (removeDraftRecord p f s st) = (if trim f = [] then sy_store st else deleteFlowDraft p f (sy_store st))"
  by (simp add: removeDraftRecord_def bumpDraftStoreVersion_def deleteFlowDraft_def Let_def)

lemma delete_done_fields:
  "pg_sidebar_order (delete_flow_done e call pg2) =
     filter (\<lambda>i. i \<noteq> dl_flow_id call \<and> i \<noteq> dl_submitted_id call) (pg_sidebar_order pg2)"
  "pg_tasks (delete_flow_done e call pg2) = (if dl_submitted_id call \<noteq> []
     then filter (\<lambda>task. getRequirementIdFromTask task \<noteq> dl_submitted_id call) (pg_tasks pg2) else pg_tasks pg2)"
  "pg_flow_id (delete_flow_done e call pg2) = []" "\<not> rt_planning (delete_flow_done e call pg2)"
  "ca_nodes (canvas_of (delete_flow_done e call pg2)) = []"
  by (simp_all add: delete_flow_done_def addToast_def Let_def)

lemma delete_done_store:
  "sy_store (pg_sync (delete_flow_done e call pg2)) =
     (let store = (if trim (dl_flow_id call) = [] then sy_store (pg_sync pg2)
         else deleteFlowDraft (en_parse e) (dl_flow_id call) (sy_store (pg_sync pg2)))
      in if dl_submitted_id call \<noteq> [] \<and> dl_submitted_id call \<noteq> dl_flow_id call \<and> trim (dl_submitted_id call) \<noteq> []
         then deleteFlowDraft (en_parse e) (dl_submitted_id call) store else store)"
  by (simp add: delete_flow_done_def addToast_def Let_def)


section \<open>Pages on which these properties apply\<close>

lemma sample_env_ok: "epoch_parses (en_parse sample_env)"
  by (simp add: epoch_parses_def sample_env_def)

definition ordered_lane :: flow_lane where
  "ordered_lane = \<lparr>l_id = js ''l'', l_name = js ''L'', l_instance_id = None, l_agent_id = Some (js ''main''), l_created_at = js ''t''\<rparr>"

definition ordered_page :: page where
  "ordered_page = upd_canvas (\<lambda>ca. ca\<lparr>ca_lanes := [ordered_lane], ca_node_lane_by_id := [(js ''a'', js ''l'')]\<rparr>)
     ((sample_page [sample_node ''a'' ''A'' []])\<lparr>pg_sync := sync_start\<lparr>sy_ready := True\<rparr>\<rparr>)"

lemma ordered_page_canvas:
  "ca_nodes (canvas_of ordered_page) = [sample_node ''a'' ''A'' []]" "ca_lanes (canvas_of ordered_page) = [ordered_lane]"
  "ca_node_lane_by_id (canvas_of ordered_page) = [(js ''a'', js ''l'')]" "ca_is_draft (canvas_of ordered_page)"
  "ca_executor (canvas_of ordered_page) = js ''main''" "ca_last_response (canvas_of ordered_page) = None"
  unfolding ordered_page_def canvas_upd by (simp_all add: sample_page_def canvas_of_def empty_queue_def sample_canvas_def)

lemma ordered_page_fields:
  "trim (pg_flow_id ordered_page) = js ''f''" "pg_skip_persist ordered_page = 0" "pg_snapshots ordered_page = []"
  "messagesBySession (rt_cache ordered_page) = []" "rt_messages ordered_page = []" "sy_ready (pg_sync ordered_page)"
  "sy_store (pg_sync ordered_page) = []" "pg_session_key ordered_page = None" "pg_requirement ordered_page = []"
  "pg_display_name ordered_page = js ''F''"
  by (simp_all add: ordered_page_def upd_canvas_def sample_page_def sync_start_def char_white_def)

lemma nothing_stored [simp]: "sy_store (pg_sync pg) = [] \<Longrightarrow> stored_draft e f pg = None"
  by (simp add: stored_draft_def getFlowDraftById_def listFlowDrafts_def map_filter_simps sort_by_def Let_def)

lemma ordered_page_autosaves: "autosaves e ordered_page"
  by (simp add: autosaves_def ordered_page_fields ordered_page_canvas persist_delayed_def placeholder_draft_def
      newer_stored_version_def unchanged_draft_def Let_def)

lemma ordered_page_in_order: "canvas_in_order (canvas_of ordered_page)"
  by (simp add: canvas_in_order_def ordered_page_canvas clean_node_def sample_node_def ordered_lane_def lane_in_order_def
      name_ok_def nullable_ok_def trimmed_def trim_or_null_def trim_opt_def non_empty_def char_white_def jint_def)

lemma ordered_page_draft_ok: "draft_ok (en_parse sample_env) (next_draft sample_env (js ''f'') ordered_page)"
  by (simp add: next_draft_def draft_of_page_def untouched_empty_draft_def ordered_page_fields ordered_page_canvas draft_ok_def
      name_ok_def nullable_ok_def time_ok_def lane_ok_def lane_map_ok_def lane_item_of_def ordered_lane_def sample_env_def
      slice_last_def trimmed_def str_or_def char_white_def non_empty_def trim_opt_def Let_def)

theorem autosave_reload_round_trip_witness:
  "\<exists>d. stored_draft sample_env (js ''f'') (persist_effect sample_env ordered_page) = Some d \<and>
     ca_nodes (canvas_of (applyDraftRecord sample_env d (ordered_page\<lparr>pg_sync := pg_sync (persist_effect sample_env ordered_page)\<rparr>)))
     = [sample_node ''a'' ''A'' []]"
proof -
  let ?pg = "ordered_page\<lparr>pg_sync := pg_sync (persist_effect sample_env ordered_page)\<rparr>"
  have "stored_draft sample_env (js ''f'') ?pg = stored_draft sample_env (js ''f'') (persist_effect sample_env ordered_page)"
    by (simp add: stored_draft_def)
  then show ?thesis
    using autosave_reload_round_trip [OF sample_env_ok ordered_page_autosaves ordered_page_in_order, of ?pg sample_env]
      ordered_page_draft_ok
    by (auto simp: ordered_page_fields ordered_page_canvas Let_def)
qed

definition stale_page :: page where
  "stale_page = (chat_page True)\<lparr>pg_requirement := js ''g'', pg_hydrated_version := (js ''f'', []), pg_sync := (pg_sync (chat_page True))\<lparr>sy_ready := True\<rparr>\<rparr>"

lemma stale_page_fields:
  "ca_is_draft (canvas_of stale_page)" "pg_skip_persist stale_page = 0" "trim (pg_flow_id stale_page) = js ''f''"
  "\<not> placeholder_draft stale_page" "sy_ready (pg_sync stale_page)" "pg_route stale_page = pg_route (chat_page True)"
  "sy_store (pg_sync stale_page) = sy_store (pg_sync (chat_page True))" "pg_snapshots stale_page = []"
  "pg_hydrated_version stale_page = (js ''f'', [])"
  by (simp_all add: stale_page_def chat_page_def sample_page_def canvas_of_def empty_queue_def sample_canvas_def
      placeholder_draft_def char_white_def)

theorem newer_version_reloaded_witness:
  "\<exists>d. stored_draft sample_env (js ''f'') stale_page = Some d \<and>
     route_effect sample_env (persist_effect sample_env stale_page) =
       (applyDraftRecord sample_env d (stale_page\<lparr>pg_loaded_key := []\<rparr>))\<lparr>pg_loaded_key := page_route_key stale_page\<rparr>"
proof -
  obtain d where d: "route_draft sample_env (chat_page True) = Some d" "draft_messages d = draft_messages chat_draft"
    using chat_draft_listed [of True] by auto
  then have stored: "stored_draft sample_env (js ''f'') stale_page = Some d"
    by (simp add: route_draft_def stored_draft_def chat_page_fields stale_page_fields)
  then have "fd_updated_at d = EPOCH_TIMESTAMP"
    by (simp add: stored_draft_def stale_page_fields chat_page_def getFlowDraftById_def listFlowDrafts_def map_filter_simps
        chat_draft_def normalizeDraft_def sample_stored_def normalizeTimestamp_def sort_by_def Let_def split: if_splits) auto
  moreover have "en_parse sample_env = (\<lambda>s. Some (of_nat (length s)))" by (simp add: sample_env_def)
  ultimately have "newer_stored_version sample_env (js ''f'') stale_page"
    by (simp add: newer_stored_version_def stored stale_page_fields toEpochMillis_def EPOCH_TIMESTAMP_def)
  then show ?thesis
    using newer_version_reloaded [of stale_page sample_env d] stored d(2) chat_draft_messages(1)
    by (simp add: stale_page_fields persist_delayed_def chat_page_fields draft_comes_first_def Let_def)
qed


end
