(* ===== verification/CanvasGeometry.thy ===== *)
theory CanvasGeometry imports FlowGraph begin

text \<open>
  \<open>components/flowCanvasGeometryUtils.ts\<close>, and the layout that
  \<open>components/flow-page/hooks/useFlowCanvasInteraction.ts\<close> computes from the canvas: where lanes, nodes and
  edges are drawn, and which lane or connector a point hits. The rectangle and the scroll position of the
  viewport, the elements under a point and the text of a number are parameters.
\<close>

section \<open>Sizes\<close>

definition NODE_WIDTH :: rat where "NODE_WIDTH = 224"
definition NODE_HEIGHT :: rat where "NODE_HEIGHT = 118"
definition NODE_BORDER_WIDTH :: rat where "NODE_BORDER_WIDTH = 1"
definition HEADER_HEIGHT :: rat where "HEADER_HEIGHT = 56"
definition LANE_GAP :: rat where "LANE_GAP = 14"
definition LANE_MIN_WIDTH :: rat where "LANE_MIN_WIDTH = 360"
definition LANE_SIDE_PADDING :: rat where "LANE_SIDE_PADDING = 22"

lemmas canvas_sizes = NODE_WIDTH_def NODE_HEIGHT_def NODE_BORDER_WIDTH_def HEADER_HEIGHT_def LANE_GAP_def
  LANE_MIN_WIDTH_def LANE_SIDE_PADDING_def NODE_DEFAULT_MARGIN_def

section \<open>Points, layouts and connectors\<close>

record point =
  pt_x :: jsnum
  pt_y :: jsnum

record lane_layout =
  ly_lane :: flow_lane
  ly_left :: jsnum
  ly_width :: jsnum

record render_layout =
  rl_left :: jsnum
  rl_top :: jsnum
  rl_lane_id :: jsstring

datatype connector_side = TopSide | RightSide | BottomSide | LeftSide

record connector_handle =
  ch_node_id :: jsstring
  ch_side :: connector_side

record edge_meta =
  em_id :: jsstring
  em_source :: jsstring
  em_target :: jsstring
  em_path :: jsstring
  em_source_side :: connector_side
  em_target_side :: connector_side

text \<open>The lanes as they were when a drag began.\<close>

record drag_lane =
  dg_lane_id :: jsstring
  dg_left :: jsnum
  dg_width :: jsnum
  dg_instance_id :: "jsstring option"
  dg_agent_id :: "jsstring option"

definition findLaneIdByPointX :: "jsnum \<Rightarrow> lane_layout list \<Rightarrow> jsstring option" where
  "findLaneIdByPointX pointX laneLayouts =
     map_option (\<lambda>layout. l_id (ly_lane layout))
       (find (\<lambda>layout. jsnum_le (ly_left layout) pointX \<and> jsnum_le pointX (jsnum_add (ly_left layout) (ly_width layout))) laneLayouts)"

text \<open>What the code reads of the element: its rectangle and its scroll position.\<close>

record viewport =
  vp_left :: jsnum
  vp_top :: jsnum
  vp_width :: jsnum
  vp_height :: jsnum
  vp_scroll_left :: jsnum
  vp_scroll_top :: jsnum

definition or_zero :: "jsnum \<Rightarrow> jsnum" where
  "or_zero x = (if is_finite x then x else Fin 0)"

definition toCanvasPoint :: "viewport option \<Rightarrow> jsnum \<Rightarrow> jsnum \<Rightarrow> point option" where
  "toCanvasPoint vp clientX clientY =
     (case vp of
        None \<Rightarrow> None
      | Some v \<Rightarrow>
          let x = jsnum_add (jsnum_sub clientX (or_zero (vp_left v))) (or_zero (vp_scroll_left v));
              y = jsnum_add (jsnum_sub clientY (or_zero (vp_top v))) (or_zero (vp_scroll_top v))
          in if \<not> is_finite x \<or> \<not> is_finite y then None else Some \<lparr>pt_x = x, pt_y = y\<rparr>)"

definition findLaneLayoutForCenterX :: "jsnum \<Rightarrow> drag_lane list \<Rightarrow> drag_lane option" where
  "findLaneLayoutForCenterX centerX laneLayouts =
     (if laneLayouts = [] then None
      else case find (\<lambda>lane. jsnum_le (dg_left lane) centerX \<and> jsnum_le centerX (jsnum_add (dg_left lane) (dg_width lane))) laneLayouts of
        Some lane \<Rightarrow> Some lane
      | None \<Rightarrow> if jsnum_less centerX (dg_left (hd laneLayouts)) then Some (hd laneLayouts) else Some (last laneLayouts))"

text \<open>An element, by the data attributes of the connector it is in, if any.\<close>

definition getConnectorHandleFromElement :: "(jsstring option \<times> connector_side option) option \<Rightarrow> connector_handle option" where
  "getConnectorHandleFromElement connector =
     (case connector of
        None \<Rightarrow> None
      | Some (nodeIdData, side) \<Rightarrow>
          let nodeId = trim_opt nodeIdData in
          if nodeId = [] then None else map_option (\<lambda>s. \<lparr>ch_node_id = nodeId, ch_side = s\<rparr>) side)"

fun resolveConnectorHandleAtClientPoint :: "(jsstring option \<times> connector_side option) option list \<Rightarrow> connector_handle option" where
  "resolveConnectorHandleAtClientPoint [] = None"
| "resolveConnectorHandleAtClientPoint (element # elements) =
     (case getConnectorHandleFromElement element of
        Some handle \<Rightarrow> Some handle
      | None \<Rightarrow> resolveConnectorHandleAtClientPoint elements)"

fun getNodeConnectorPoint :: "render_layout \<Rightarrow> connector_side \<Rightarrow> point" where
  "getNodeConnectorPoint layout TopSide =
     \<lparr>pt_x = jsnum_add (rl_left layout) (Fin (NODE_WIDTH / 2)), pt_y = jsnum_add (rl_top layout) (Fin NODE_BORDER_WIDTH)\<rparr>"
| "getNodeConnectorPoint layout RightSide =
     \<lparr>pt_x = jsnum_sub (jsnum_add (rl_left layout) (Fin NODE_WIDTH)) (Fin NODE_BORDER_WIDTH),
      pt_y = jsnum_add (rl_top layout) (Fin (NODE_HEIGHT / 2))\<rparr>"
| "getNodeConnectorPoint layout BottomSide =
     \<lparr>pt_x = jsnum_add (rl_left layout) (Fin (NODE_WIDTH / 2)),
      pt_y = jsnum_sub (jsnum_add (rl_top layout) (Fin NODE_HEIGHT)) (Fin NODE_BORDER_WIDTH)\<rparr>"
| "getNodeConnectorPoint layout LeftSide =
     \<lparr>pt_x = jsnum_add (rl_left layout) (Fin NODE_BORDER_WIDTH), pt_y = jsnum_add (rl_top layout) (Fin (NODE_HEIGHT / 2))\<rparr>"

section \<open>Edges\<close>

record connector_pair =
  cp_source :: point
  cp_target :: point
  cp_source_side :: connector_side
  cp_target_side :: connector_side

definition connector_sides :: "connector_side list" where
  "connector_sides = [TopSide, RightSide, BottomSide, LeftSide]"

definition squared_distance :: "point \<Rightarrow> point \<Rightarrow> jsnum" where
  "squared_distance p q =
     (let dx = jsnum_sub (pt_x q) (pt_x p); dy = jsnum_sub (pt_y q) (pt_y p)
      in jsnum_add (jsnum_mul dx dx) (jsnum_mul dy dy))"

text \<open>One turn of the inner loop: \<open>best\<close> with its distance.\<close>

definition better_pair :: "render_layout \<Rightarrow> render_layout \<Rightarrow> connector_side \<times> connector_side
    \<Rightarrow> (connector_pair \<times> jsnum) option \<Rightarrow> (connector_pair \<times> jsnum) option" where
  "better_pair sourceLayout targetLayout sides best =
     (let sourcePoint = getNodeConnectorPoint sourceLayout (fst sides);
          targetPoint = getNodeConnectorPoint targetLayout (snd sides);
          distance = squared_distance sourcePoint targetPoint;
          here = (\<lparr>cp_source = sourcePoint, cp_target = targetPoint, cp_source_side = fst sides, cp_target_side = snd sides\<rparr>, distance)
      in case best of
           None \<Rightarrow> Some here
         | Some b \<Rightarrow> if jsnum_less distance (snd b) then Some here else best)"

definition resolveShortestConnectorPair :: "render_layout \<Rightarrow> render_layout \<Rightarrow> connector_pair" where
  "resolveShortestConnectorPair sourceLayout targetLayout =
     (case fold (better_pair sourceLayout targetLayout) (List.product connector_sides connector_sides) None of
        Some (pair, _) \<Rightarrow> pair
      | None \<Rightarrow> \<lparr>cp_source = getNodeConnectorPoint sourceLayout RightSide, cp_target = getNodeConnectorPoint targetLayout LeftSide,
          cp_source_side = RightSide, cp_target_side = LeftSide\<rparr>)"

definition buildConnectorCurvePath :: "(jsnum \<Rightarrow> jsstring) \<Rightarrow> point \<Rightarrow> point \<Rightarrow> jsstring" where
  "buildConnectorCurvePath num source target =
     (let deltaX = jsnum_sub (pt_x target) (pt_x source);
          deltaY = jsnum_sub (pt_y target) (pt_y source);
          offsetX = jsnum_max (Fin 48) (jsnum_mul (jsnum_abs deltaX) (Fin (45 / 100)));
          offsetY = jsnum_max (Fin 28) (jsnum_mul (jsnum_abs deltaY) (Fin (24 / 100)));
          right = jsnum_le (Fin 0) deltaX; down = jsnum_le (Fin 0) deltaY;
          c1x = jsnum_add (pt_x source) (if right then offsetX else jsnum_neg offsetX);
          c1y = jsnum_add (pt_y source) (if down then offsetY else jsnum_mul (jsnum_neg offsetY) (Fin (2 / 10)));
          c2x = jsnum_sub (pt_x target) (if right then offsetX else jsnum_neg offsetX);
          c2y = jsnum_sub (pt_y target) (if down then jsnum_mul offsetY (Fin (2 / 10)) else jsnum_neg offsetY)
      in js ''M '' @ num (pt_x source) @ js '' '' @ num (pt_y source) @ js '' C '' @ num c1x @ js '' '' @ num c1y @ js '', '' @
         num c2x @ js '' '' @ num c2y @ js '', '' @ num (pt_x target) @ js '' '' @ num (pt_y target))"

definition edge_meta_of :: "(jsnum \<Rightarrow> jsstring) \<Rightarrow> (jsstring \<times> render_layout) list \<Rightarrow> flow_edge \<Rightarrow> edge_meta option" where
  "edge_meta_of num nodeLayoutMap edge =
     (case (map_of nodeLayoutMap (e_source edge), map_of nodeLayoutMap (e_target edge)) of
        (Some sourcePos, Some targetPos) \<Rightarrow>
          let pair = resolveShortestConnectorPair sourcePos targetPos in
          Some \<lparr>em_id = e_id edge, em_source = e_source edge, em_target = e_target edge,
            em_path = buildConnectorCurvePath num (cp_source pair) (cp_target pair),
            em_source_side = cp_source_side pair, em_target_side = cp_target_side pair\<rparr>
      | _ \<Rightarrow> None)"

definition buildEdgeRenderMetas :: "(jsnum \<Rightarrow> jsstring) \<Rightarrow> flow_edge list \<Rightarrow> (jsstring \<times> render_layout) list \<Rightarrow> edge_meta list" where
  "buildEdgeRenderMetas num edges nodeLayoutMap = List.map_filter (edge_meta_of num nodeLayoutMap) edges"

section \<open>Where the hook puts lanes and nodes\<close>

text \<open>The numbers for which \<open>||\<close> takes its left side.\<close>

definition truthy_number :: "jsnum \<Rightarrow> bool" where
  "truthy_number x \<longleftrightarrow> x \<noteq> Fin 0 \<and> x \<noteq> NaN"

definition canvas_le :: "(jsstring \<Rightarrow> jsstring \<Rightarrow> int) \<Rightarrow> flow_node \<Rightarrow> flow_node \<Rightarrow> bool" where
  "canvas_le en left right =
     (let dy = jsnum_sub (n_y left) (n_y right); dx = jsnum_sub (n_x left) (n_x right) in
      if truthy_number dy then jsnum_le dy (Fin 0)
      else if truthy_number dx then jsnum_le dx (Fin 0)
      else en (n_id left) (n_id right) \<le> 0)"

definition nodesByLane :: "(jsstring \<Rightarrow> jsstring \<Rightarrow> int) \<Rightarrow> flow_node list \<Rightarrow> (jsstring \<times> jsstring) list \<Rightarrow> flow_lane list
    \<Rightarrow> (jsstring \<times> flow_node list) list" where
  "nodesByLane en flowNodes nodeLaneById lanes =
     (let grouped = fold (\<lambda>lane. AList.update (l_id lane) []) lanes [];
          filled = fold (\<lambda>node grouped.
              let laneId = resolveNodeLaneId (n_id node) nodeLaneById lanes
              in AList.update laneId (map_get grouped laneId [] @ [node]) grouped) flowNodes grouped
      in map (\<lambda>(laneId, nodes). (laneId, sort_by (canvas_le en) nodes)) filled)"

definition lane_width :: "flow_node list \<Rightarrow> jsnum" where
  "lane_width laneNodes = fold (\<lambda>node width.
       jsnum_max width (jsnum_add (jsnum_add (n_x node) (Fin NODE_WIDTH)) (jint NODE_DEFAULT_MARGIN)))
     laneNodes (Fin LANE_MIN_WIDTH)"

fun layout_lanes :: "(flow_lane \<Rightarrow> jsnum) \<Rightarrow> jsnum \<Rightarrow> flow_lane list \<Rightarrow> lane_layout list" where
  "layout_lanes width cursor [] = []"
| "layout_lanes width cursor (lane # lanes) =
     \<lparr>ly_lane = lane, ly_left = cursor, ly_width = width lane\<rparr> #
     layout_lanes width (jsnum_add cursor (jsnum_add (width lane) (Fin LANE_GAP))) lanes"

definition laneLayouts :: "(jsstring \<Rightarrow> jsstring \<Rightarrow> int) \<Rightarrow> jsstring \<Rightarrow> flow_node list \<Rightarrow> (jsstring \<times> jsstring) list
    \<Rightarrow> flow_lane list \<Rightarrow> lane_layout list" where
  "laneLayouts en now flowNodes nodeLaneById lanes =
     (let byLane = nodesByLane en flowNodes nodeLaneById lanes;
          layouts = layout_lanes (\<lambda>lane. lane_width (map_get byLane (l_id lane) [])) (Fin LANE_SIDE_PADDING) lanes
      in if layouts = []
         then [\<lparr>ly_lane = \<lparr>l_id = js ''lane_unassigned'', l_name = unassigned_lane, l_instance_id = None, l_agent_id = None,
                l_created_at = now\<rparr>, ly_left = Fin LANE_SIDE_PADDING, ly_width = Fin LANE_MIN_WIDTH\<rparr>]
         else layouts)"

definition laneLayoutById :: "lane_layout list \<Rightarrow> (jsstring \<times> lane_layout) list" where
  "laneLayoutById layouts = fold (\<lambda>layout. AList.update (l_id (ly_lane layout)) layout) layouts []"

definition bodyHeight :: "flow_node list \<Rightarrow> jsnum" where
  "bodyHeight flowNodes = fold (\<lambda>node height.
       jsnum_max height (jsnum_add (jsnum_add (n_y node) (Fin NODE_HEIGHT)) (jint NODE_DEFAULT_MARGIN)))
     flowNodes (Fin (max 300 (NODE_HEIGHT + of_int NODE_DEFAULT_MARGIN * 2)))"

definition canvasWidth :: "lane_layout list \<Rightarrow> jsnum" where
  "canvasWidth layouts =
     (if layouts = [] then Fin 0
      else jsnum_max (Fin 0) (jsnum_add (jsnum_add (ly_left (last layouts)) (ly_width (last layouts))) (Fin LANE_SIDE_PADDING)))"

definition canvasHeight :: "flow_node list \<Rightarrow> jsnum" where
  "canvasHeight flowNodes = jsnum_add (Fin HEADER_HEIGHT) (bodyHeight flowNodes)"

definition nodeRenderLayoutById :: "lane_layout list \<Rightarrow> flow_node list \<Rightarrow> (jsstring \<times> jsstring) list \<Rightarrow> flow_lane list
    \<Rightarrow> (jsstring \<times> render_layout) list" where
  "nodeRenderLayoutById layouts flowNodes nodeLaneById lanes =
     fold (\<lambda>node m.
         let laneId = resolveNodeLaneId (n_id node) nodeLaneById lanes in
         case map_of (laneLayoutById layouts) laneId of
           None \<Rightarrow> m
         | Some laneLayout \<Rightarrow> AList.update (n_id node)
             \<lparr>rl_left = jsnum_add (ly_left laneLayout) (n_x node), rl_top = jsnum_add (Fin HEADER_HEIGHT) (n_y node),
              rl_lane_id = laneId\<rparr> m)
       flowNodes []"

text \<open>\<open>Set.add\<close>\<close>

definition set_add :: "'a \<Rightarrow> 'a list \<Rightarrow> 'a list" where
  "set_add x xs = (if x \<in> set xs then xs else xs @ [x])"

definition edgeConnectorUsageByNode :: "edge_meta list \<Rightarrow> (jsstring \<times> connector_side list) list" where
  "edgeConnectorUsageByNode edgeRenderMetas =
     fold (\<lambda>edge usage.
         let u1 = (if map_has usage (em_source edge) then usage else AList.update (em_source edge) [] usage);
             u2 = (if map_has u1 (em_target edge) then u1 else AList.update (em_target edge) [] u1);
             u3 = AList.update (em_source edge) (set_add (em_source_side edge) (map_get u2 (em_source edge) [])) u2
         in AList.update (em_target edge) (set_add (em_target_side edge) (map_get u3 (em_target edge) [])) u3)
       edgeRenderMetas []"

section \<open>The connectors chosen are the nearest ones\<close>

lemma fold_best:
  assumes "\<And>x. x \<in> set xs \<Longrightarrow> is_finite (cost x)" and "is_finite (cost y)"
    and "\<And>x b. step x (Some b) = (if jsnum_less (cost x) (snd b) then Some (f x, cost x) else Some b)"
  shows "\<exists>z \<in> insert y (set xs). fold step xs (Some (f y, cost y)) = Some (f z, cost z) \<and>
    (\<forall>x \<in> insert y (set xs). jsnum_le (cost z) (cost x))"
  using assms(1,2)
proof (induction xs arbitrary: y)
  case Nil
  then show ?case by (auto simp: is_finite_iff)
next
  case (Cons x xs)
  obtain a b where ab: "cost x = Fin a" "cost y = Fin b"
    using Cons.prems(1) [of x] Cons.prems(2) by (auto simp: is_finite_iff)
  define y' where "y' = (if a < b then x else y)"
  have "step x (Some (f y, cost y)) = Some (f y', cost y')" by (simp add: assms(3) ab y'_def)
  moreover have "is_finite (cost y')" using ab by (simp add: y'_def)
  then obtain z where z: "z \<in> insert y' (set xs)" "fold step xs (Some (f y', cost y')) = Some (f z, cost z)"
    "\<forall>w \<in> insert y' (set xs). jsnum_le (cost z) (cost w)"
    using Cons.IH [of y'] Cons.prems(1) by fastforce
  moreover obtain c where c: "cost z = Fin c" using z(1) Cons.prems by (auto simp: y'_def is_finite_iff split: if_splits)
  ultimately show ?case
    using ab by (intro bexI [of _ z]) (auto simp: y'_def split: if_splits)
qed

lemma connector_point_finite:
  assumes "is_finite (rl_left l)" and "is_finite (rl_top l)"
  shows "is_finite (pt_x (getNodeConnectorPoint l s)) \<and> is_finite (pt_y (getNodeConnectorPoint l s))"
  using assms by (cases s) (auto simp: is_finite_iff)

lemma squared_distance_finite:
  assumes "is_finite (pt_x p)" "is_finite (pt_y p)" "is_finite (pt_x q)" "is_finite (pt_y q)"
  shows "is_finite (squared_distance p q)"
  using assms by (auto simp: is_finite_iff squared_distance_def Let_def)

lemma all_sides: "s \<in> set connector_sides"
  by (cases s) (simp_all add: connector_sides_def)

text \<open>
  An edge is drawn between the two nearest connectors: of the sixteen pairs of a connector of the source
  and one of the target, \<open>resolveShortestConnectorPair\<close> returns one of least distance, with the sides the
  points are on.
\<close>

lemma nearest_connectors:
  assumes "is_finite (rl_left s)" "is_finite (rl_top s)" "is_finite (rl_left t)" "is_finite (rl_top t)"
  shows "let pair = resolveShortestConnectorPair s t in
    cp_source pair = getNodeConnectorPoint s (cp_source_side pair) \<and>
    cp_target pair = getNodeConnectorPoint t (cp_target_side pair) \<and>
    (\<forall>a b. jsnum_le (squared_distance (cp_source pair) (cp_target pair))
       (squared_distance (getNodeConnectorPoint s a) (getNodeConnectorPoint t b)))"
proof -
  define f where "f = (\<lambda>(a, b). \<lparr>cp_source = getNodeConnectorPoint s a, cp_target = getNodeConnectorPoint t b,
    cp_source_side = a, cp_target_side = b\<rparr>)"
  define cost where "cost = (\<lambda>(a, b). squared_distance (getNodeConnectorPoint s a) (getNodeConnectorPoint t b))"
  let ?step = "better_pair s t" and ?all = "List.product connector_sides connector_sides"
  have fin: "is_finite (cost x)" for x
    using connector_point_finite assms by (auto simp: cost_def split: prod.split intro!: squared_distance_finite)
  have step: "?step x (Some b) = (if jsnum_less (cost x) (snd b) then Some (f x, cost x) else Some b)" for x b
    by (simp add: better_pair_def cost_def f_def Let_def split: prod.split)
  have first: "?step x None = Some (f x, cost x)" for x
    by (simp add: better_pair_def cost_def f_def Let_def split: prod.split)
  have "?all = (TopSide, TopSide) # tl ?all" by (simp add: connector_sides_def)
  then have split: "fold ?step ?all None = fold ?step (tl ?all) (Some (f (TopSide, TopSide), cost (TopSide, TopSide)))"
    using first by (metis fold_simps(2))
  obtain z where z: "fold ?step ?all None = Some (f z, cost z)"
    "\<forall>x \<in> insert (TopSide, TopSide) (set (tl ?all)). jsnum_le (cost z) (cost x)"
    using fold_best [of "tl ?all" cost "(TopSide, TopSide)" ?step f] fin step split by metis
  have "insert (TopSide, TopSide) (set (tl ?all)) = UNIV"
    using all_sides \<open>?all = _\<close> by (metis UNIV_eq_I list.simps(15) mem_Times_iff prod.collapse set_product SigmaI)
  then show ?thesis
    using z by (cases z) (auto simp: resolveShortestConnectorPair_def f_def cost_def Let_def)
qed

theorem nearest_connectors_witness:
  "let pair = resolveShortestConnectorPair \<lparr>rl_left = Fin 0, rl_top = Fin 0, rl_lane_id = []\<rparr> \<lparr>rl_left = Fin 500, rl_top = Fin 0, rl_lane_id = []\<rparr>
   in jsnum_le (squared_distance (cp_source pair) (cp_target pair))
        (squared_distance \<lparr>pt_x = Fin 223, pt_y = Fin 59\<rparr> \<lparr>pt_x = Fin 501, pt_y = Fin 59\<rparr>)"
  using nearest_connectors [of "\<lparr>rl_left = Fin 0, rl_top = Fin 0, rl_lane_id = []\<rparr>" "\<lparr>rl_left = Fin 500, rl_top = Fin 0, rl_lane_id = []\<rparr>",
      unfolded Let_def, THEN conjunct2, THEN conjunct2, THEN spec [of _ RightSide], THEN spec [of _ LeftSide]]
  by (simp add: Let_def canvas_sizes)

section \<open>Every node is drawn inside its lane\<close>

lemma fold_update_get:
  "distinct (map f xs) \<Longrightarrow> x \<in> set xs \<Longrightarrow> map_of (fold (\<lambda>x. AList.update (f x) (g x)) xs m) (f x) = Some (g x)"
proof (induction xs rule: rev_induct)
  case (snoc y ys)
  show ?case
  proof (cases "x = y")
    case False
    then have "f x \<in> f ` set ys" "f y \<notin> f ` set ys" using snoc.prems by auto
    then have "f x \<noteq> f y" by metis
    then show ?thesis using snoc False by simp
  qed simp
qed simp

lemma fold_update_range: "map_of (fold (\<lambda>x. AList.update (f x) (g x)) xs []) k = Some v \<Longrightarrow> \<exists>x \<in> set xs. f x = k \<and> g x = v"
  by (induction xs rule: rev_induct) (auto split: if_splits)

definition grouped_nodes :: "(flow_node \<Rightarrow> jsstring) \<Rightarrow> flow_node list \<Rightarrow> (jsstring \<times> flow_node list) list
    \<Rightarrow> (jsstring \<times> flow_node list) list" where
  "grouped_nodes lane_of nodes grouped =
     fold (\<lambda>node grouped. AList.update (lane_of node) (map_get grouped (lane_of node) [] @ [node]) grouped) nodes grouped"

lemma grouped_nodes_get: "map_get (grouped_nodes lane_of nodes m) k [] = map_get m k [] @ filter (\<lambda>n. lane_of n = k) nodes"
  by (induction nodes rule: rev_induct) (auto simp: grouped_nodes_def)

lemma empty_lanes_get: "map_get (fold (\<lambda>lane. AList.update (l_id lane) []) lanes []) k [] = []"
  by (induction lanes rule: rev_induct) auto

lemma map_get_map: "map_get (map (\<lambda>(k, v). (k, h v)) m) k d = (if map_has m k then h (map_get m k d) else d)"
  by (induction m) (auto simp: map_get_def map_has_def)

lemma nodesByLane_set:
  "set (map_get (nodesByLane en nodes m lanes) k []) = {n \<in> set nodes. resolveNodeLaneId (n_id n) m lanes = k}"
proof -
  let ?g = "grouped_nodes (\<lambda>n. resolveNodeLaneId (n_id n) m lanes) nodes (fold (\<lambda>lane. AList.update (l_id lane) []) lanes [])"
  have "nodesByLane en nodes m lanes = map (\<lambda>(k, v). (k, sort_by (canvas_le en) v)) ?g"
    by (simp add: nodesByLane_def grouped_nodes_def Let_def)
  moreover have "map_get ?g k [] = filter (\<lambda>n. resolveNodeLaneId (n_id n) m lanes = k) nodes"
    by (simp add: grouped_nodes_get empty_lanes_get)
  moreover have "\<not> map_has ?g k \<Longrightarrow> map_get ?g k [] = []" by (simp add: map_get_def map_has_def)
  ultimately show ?thesis by (auto simp: map_get_map filter_empty_conv)
qed

lemma fold_max_bound:
  assumes "\<forall>x \<in> set xs. \<exists>q. f x = Fin q"
  shows "\<exists>w. fold (\<lambda>x w. jsnum_max w (f x)) xs (Fin a) = Fin w \<and> a \<le> w \<and> (\<forall>x \<in> set xs. jsnum_le (f x) (Fin w))"
  using assms
proof (induction xs rule: rev_induct)
  case (snoc x xs)
  then obtain w q where w: "fold (\<lambda>x w. jsnum_max w (f x)) xs (Fin a) = Fin w" "a \<le> w" "\<forall>x \<in> set xs. jsnum_le (f x) (Fin w)"
    and q: "f x = Fin q" by auto
  have "jsnum_le (f y) (Fin (max w q))" if "y \<in> set xs" for y
    using w(3) that snoc.prems by fastforce
  then show ?case using w q by auto
qed simp

lemma layout_lanes_spec:
  assumes "\<forall>lane \<in> set lanes. \<exists>w. width lane = Fin w \<and> 0 \<le> w"
  shows "map ly_lane (layout_lanes width (Fin c) lanes) = lanes \<and>
    (\<forall>l \<in> set (layout_lanes width (Fin c) lanes). \<exists>a w. ly_left l = Fin a \<and> ly_width l = Fin w \<and> width (ly_lane l) = Fin w \<and> 0 \<le> w \<and>
       c \<le> a \<and> ly_left (last (layout_lanes width (Fin c) lanes)) \<noteq> NaN \<and>
       jsnum_le (Fin (a + w)) (jsnum_add (ly_left (last (layout_lanes width (Fin c) lanes))) (ly_width (last (layout_lanes width (Fin c) lanes))))) \<and>
    sorted_wrt (\<lambda>l r. jsnum_le (jsnum_add (jsnum_add (ly_left l) (ly_width l)) (Fin LANE_GAP)) (ly_left r)) (layout_lanes width (Fin c) lanes)"
  using assms
proof (induction lanes arbitrary: c)
  case (Cons lane lanes)
  obtain w where w: "width lane = Fin w" "0 \<le> w" using Cons.prems by auto
  let ?c = "c + (w + LANE_GAP)"
  let ?rest = "layout_lanes width (Fin ?c) lanes"
  have IH: "map ly_lane ?rest = lanes"
    "\<forall>l \<in> set ?rest. \<exists>a w. ly_left l = Fin a \<and> ly_width l = Fin w \<and> width (ly_lane l) = Fin w \<and> 0 \<le> w \<and> ?c \<le> a \<and>
       ly_left (last ?rest) \<noteq> NaN \<and> jsnum_le (Fin (a + w)) (jsnum_add (ly_left (last ?rest)) (ly_width (last ?rest)))"
    "sorted_wrt (\<lambda>l r. jsnum_le (jsnum_add (jsnum_add (ly_left l) (ly_width l)) (Fin LANE_GAP)) (ly_left r)) ?rest"
    using Cons.IH [of ?c] Cons.prems by auto
  have "jsnum_le (Fin (c + w)) (jsnum_add (ly_left (last ?rest)) (ly_width (last ?rest)))" if nonempty: "?rest \<noteq> []"
  proof -
    obtain a v where "ly_left (last ?rest) = Fin a" "ly_width (last ?rest) = Fin v" "0 \<le> v" "?c \<le> a"
      using IH(2) last_in_set [OF nonempty] by blast
    then show ?thesis by (simp add: LANE_GAP_def)
  qed
  then show ?case
    using IH w by (fastforce simp: LANE_GAP_def)
qed simp

lemma lane_width_spec:
  assumes "\<forall>n \<in> set nodes. \<exists>x. n_x n = Fin x"
  shows "\<exists>w. lane_width nodes = Fin w \<and> LANE_MIN_WIDTH \<le> w \<and>
    (\<forall>n \<in> set nodes. \<exists>x. n_x n = Fin x \<and> x + NODE_WIDTH + of_int NODE_DEFAULT_MARGIN \<le> w)"
proof -
  let ?f = "\<lambda>n. jsnum_add (jsnum_add (n_x n) (Fin NODE_WIDTH)) (jint NODE_DEFAULT_MARGIN)"
  have "\<forall>n \<in> set nodes. \<exists>q. ?f n = Fin q" using assms by (auto simp: jint_def)
  then obtain w where "fold (\<lambda>n w. jsnum_max w (?f n)) nodes (Fin LANE_MIN_WIDTH) = Fin w" "LANE_MIN_WIDTH \<le> w"
    "\<forall>n \<in> set nodes. jsnum_le (?f n) (Fin w)" using fold_max_bound [of nodes ?f LANE_MIN_WIDTH] by blast
  then show ?thesis using assms by (fastforce simp: lane_width_def jint_def)
qed

lemma body_height_spec:
  assumes "\<forall>n \<in> set nodes. \<exists>y. n_y n = Fin y"
  shows "\<exists>h. bodyHeight nodes = Fin h \<and> (\<forall>n \<in> set nodes. \<exists>y. n_y n = Fin y \<and> y + NODE_HEIGHT + of_int NODE_DEFAULT_MARGIN \<le> h)"
proof -
  let ?f = "\<lambda>n. jsnum_add (jsnum_add (n_y n) (Fin NODE_HEIGHT)) (jint NODE_DEFAULT_MARGIN)"
  have "\<forall>n \<in> set nodes. \<exists>q. ?f n = Fin q" using assms by (auto simp: jint_def)
  then have "\<exists>h. bodyHeight nodes = Fin h \<and> (\<forall>n \<in> set nodes. jsnum_le (?f n) (Fin h))"
    unfolding bodyHeight_def using fold_max_bound [of nodes ?f] by blast
  then obtain h where "bodyHeight nodes = Fin h" "\<forall>n \<in> set nodes. jsnum_le (?f n) (Fin h)" by blast
  then show ?thesis using assms by (fastforce simp: jint_def)
qed

lemma resolve_lane_mem:
  assumes "lanes \<noteq> []"
  shows "resolveNodeLaneId i m lanes \<in> l_id ` set lanes"
proof (cases "trim_opt (map_of m i) \<noteq> [] \<and> list_ex (\<lambda>lane. l_id lane = trim_opt (map_of m i)) lanes")
  case True
  then show ?thesis by (auto simp: resolveNodeLaneId_def list_ex_iff Let_def) (metis imageI)
next
  case False
  then have "resolveNodeLaneId i m lanes = first_lane_id lanes" by (auto simp: resolveNodeLaneId_def Let_def)
  then show ?thesis using assms by (cases lanes) (simp_all add: first_lane_id_def)
qed

lemma find_first: "\<forall>x \<in> set xs. \<not> P x \<Longrightarrow> P y \<Longrightarrow> find P (xs @ y # ys) = Some y"
  by (induction xs) auto

lemma render_fold:
  assumes "distinct (map n_id nodes)" and "\<forall>n \<in> set nodes. \<exists>l. map_of layouts (lane_of n) = Some l"
    and "node \<in> set nodes" and "map_of layouts (lane_of node) = Some lay"
  shows "map_of (fold (\<lambda>n m. case map_of layouts (lane_of n) of None \<Rightarrow> m | Some l \<Rightarrow> AList.update (n_id n) (h n l) m) nodes base)
    (n_id node) = Some (h node lay)"
proof -
  have "fold (\<lambda>n m. case map_of layouts (lane_of n) of None \<Rightarrow> m | Some l \<Rightarrow> AList.update (n_id n) (h n l) m) nodes base
      = fold (\<lambda>n. AList.update (n_id n) (h n (the (map_of layouts (lane_of n))))) nodes base"
    using assms(2) by (intro fold_cong) auto
  then show ?thesis using fold_update_get [OF assms(1,3), of "\<lambda>n. h n (the (map_of layouts (lane_of n)))"] assms(4) by simp
qed

text \<open>What the layout of the lanes gives: their order, their places and room for their nodes.\<close>

lemma laneLayouts_spec:
  fixes lanes :: "flow_lane list"
  assumes "lanes \<noteq> []" and "\<forall>n \<in> set nodes. \<exists>x. n_x n = Fin x"
    and layouts_def: "layouts = laneLayouts en now nodes m lanes"
  shows "map ly_lane layouts = lanes"
    and "sorted_wrt (\<lambda>l r. jsnum_le (jsnum_add (jsnum_add (ly_left l) (ly_width l)) (Fin LANE_GAP)) (ly_left r)) layouts"
    and "\<forall>l \<in> set layouts. \<exists>a w. ly_left l = Fin a \<and> ly_width l = Fin w \<and> LANE_SIDE_PADDING \<le> a \<and> LANE_MIN_WIDTH \<le> w \<and>
      jsnum_le (jsnum_add (ly_left l) (ly_width l)) (canvasWidth layouts) \<and>
      (\<forall>n \<in> set nodes. resolveNodeLaneId (n_id n) m lanes = l_id (ly_lane l) \<longrightarrow>
        (\<exists>x. n_x n = Fin x \<and> x + NODE_WIDTH + of_int NODE_DEFAULT_MARGIN \<le> w))"
proof -
  define width where "width = (\<lambda>lane :: flow_lane. lane_width (map_get (nodesByLane en nodes m lanes) (l_id lane) []))"
  have fit: "\<exists>w. width lane = Fin w \<and> LANE_MIN_WIDTH \<le> w \<and> (\<forall>n \<in> set nodes. resolveNodeLaneId (n_id n) m lanes = l_id lane \<longrightarrow>
      (\<exists>x. n_x n = Fin x \<and> x + NODE_WIDTH + of_int NODE_DEFAULT_MARGIN \<le> w))" for lane
    using lane_width_spec [of "map_get (nodesByLane en nodes m lanes) (l_id lane) []"] assms(2)
    by (fastforce simp: width_def nodesByLane_set)
  then have "\<forall>lane \<in> set lanes. \<exists>w. width lane = Fin w \<and> 0 \<le> w" by (fastforce simp: LANE_MIN_WIDTH_def)
  note spec = layout_lanes_spec [OF this, of LANE_SIDE_PADDING]
  have all: "layouts = layout_lanes width (Fin LANE_SIDE_PADDING) lanes"
    using spec assms(1) by (auto simp: layouts_def laneLayouts_def width_def Let_def)
  show "map ly_lane layouts = lanes" and
    "sorted_wrt (\<lambda>l r. jsnum_le (jsnum_add (jsnum_add (ly_left l) (ly_width l)) (Fin LANE_GAP)) (ly_left r)) layouts"
    using spec by (simp_all add: all)
  show "\<forall>l \<in> set layouts. \<exists>a w. ly_left l = Fin a \<and> ly_width l = Fin w \<and> LANE_SIDE_PADDING \<le> a \<and> LANE_MIN_WIDTH \<le> w \<and>
      jsnum_le (jsnum_add (ly_left l) (ly_width l)) (canvasWidth layouts) \<and>
      (\<forall>n \<in> set nodes. resolveNodeLaneId (n_id n) m lanes = l_id (ly_lane l) \<longrightarrow>
        (\<exists>x. n_x n = Fin x \<and> x + NODE_WIDTH + of_int NODE_DEFAULT_MARGIN \<le> w))"
  proof
    fix l assume l: "l \<in> set layouts"
    then obtain a w where aw: "ly_left l = Fin a" "ly_width l = Fin w" "width (ly_lane l) = Fin w" "LANE_SIDE_PADDING \<le> a"
      and right: "jsnum_le (Fin (a + w)) (jsnum_add (ly_left (last layouts)) (ly_width (last layouts)))"
      using spec unfolding all by blast
    have "last layouts \<in> set layouts" using l by (metis empty_iff last_in_set list.set(1))
    then obtain b v where "ly_left (last layouts) = Fin b" "ly_width (last layouts) = Fin v"
      using spec unfolding all by blast
    then have "jsnum_le (jsnum_add (ly_left l) (ly_width l)) (canvasWidth layouts)"
      using right aw l by (auto simp: canvasWidth_def canvas_sizes)
    then show "\<exists>a w. ly_left l = Fin a \<and> ly_width l = Fin w \<and> LANE_SIDE_PADDING \<le> a \<and> LANE_MIN_WIDTH \<le> w \<and>
        jsnum_le (jsnum_add (ly_left l) (ly_width l)) (canvasWidth layouts) \<and>
        (\<forall>n \<in> set nodes. resolveNodeLaneId (n_id n) m lanes = l_id (ly_lane l) \<longrightarrow>
          (\<exists>x. n_x n = Fin x \<and> x + NODE_WIDTH + of_int NODE_DEFAULT_MARGIN \<le> w))"
      using fit [of "ly_lane l"] aw by auto
  qed
qed

lemma layout_found:
  assumes "distinct (map (l_id \<circ> ly_lane) layouts)" and "l \<in> set layouts"
  shows "map_of (laneLayoutById layouts) (l_id (ly_lane l)) = Some l"
  unfolding laneLayoutById_def using fold_update_get [of "\<lambda>l. l_id (ly_lane l)" layouts l "\<lambda>l. l"] assms by (simp add: comp_def)

lemma point_in_lane:
  assumes "sorted_wrt (\<lambda>l r. jsnum_le (jsnum_add (jsnum_add (ly_left l) (ly_width l)) (Fin LANE_GAP)) (ly_left r)) layouts"
    and "\<forall>l \<in> set layouts. is_finite (ly_left l) \<and> is_finite (ly_width l)" and "lane \<in> set layouts"
    and "jsnum_le (ly_left lane) p" and "jsnum_le p (jsnum_add (ly_left lane) (ly_width lane))" and "is_finite p"
  shows "findLaneIdByPointX p layouts = Some (l_id (ly_lane lane))"
proof -
  obtain ls rs where split: "layouts = ls @ lane # rs" using assms(3) by (meson split_list)
  have "\<not> (jsnum_le (ly_left l) p \<and> jsnum_le p (jsnum_add (ly_left l) (ly_width l)))" if "l \<in> set ls" for l
  proof -
    have "jsnum_le (jsnum_add (jsnum_add (ly_left l) (ly_width l)) (Fin LANE_GAP)) (ly_left lane)"
      using assms(1) that unfolding split by (auto simp: sorted_wrt_append)
    moreover have "is_finite (ly_left l)" "is_finite (ly_width l)" "is_finite (ly_left lane)"
      using assms(2,3) that unfolding split by auto
    ultimately show ?thesis using assms(4,6) by (auto simp: is_finite_iff canvas_sizes)
  qed
  then show ?thesis
    unfolding findLaneIdByPointX_def using find_first [of ls _ lane rs] assms(4,5) unfolding split by simp
qed

text \<open>
  C39: Every node is drawn inside its lane: with at least one lane, distinct ids and coordinates that are not
  negative, each node has a place on the canvas; it lies, with its margin, between the edges of the
  lane \<open>resolveNodeLaneId\<close> gives it, below the header, within the width and the height of the canvas, and
  a point at its centre is found in that lane and no other.
\<close>

theorem every_node_inside_its_lane:
  assumes "lanes \<noteq> []" and "distinct (map l_id lanes)" and "distinct (map n_id nodes)" and "node \<in> set nodes"
    and "\<forall>n \<in> set nodes. \<exists>x y. n_x n = Fin x \<and> n_y n = Fin y \<and> 0 \<le> x \<and> 0 \<le> y"
  shows "let layouts = laneLayouts en now nodes m lanes in
    \<exists>lane \<in> set layouts. \<exists>r. map_of (nodeRenderLayoutById layouts nodes m lanes) (n_id node) = Some r \<and>
      l_id (ly_lane lane) = resolveNodeLaneId (n_id node) m lanes \<and> rl_lane_id r = l_id (ly_lane lane) \<and>
      jsnum_le (ly_left lane) (rl_left r) \<and>
      jsnum_le (jsnum_add (rl_left r) (Fin (NODE_WIDTH + of_int NODE_DEFAULT_MARGIN))) (jsnum_add (ly_left lane) (ly_width lane)) \<and>
      jsnum_le (jsnum_add (ly_left lane) (ly_width lane)) (canvasWidth layouts) \<and>
      jsnum_le (Fin HEADER_HEIGHT) (rl_top r) \<and>
      jsnum_le (jsnum_add (rl_top r) (Fin (NODE_HEIGHT + of_int NODE_DEFAULT_MARGIN))) (canvasHeight nodes) \<and>
      findLaneIdByPointX (jsnum_add (rl_left r) (Fin (NODE_WIDTH / 2))) layouts = Some (l_id (ly_lane lane))"
proof -
  define layouts where "layouts = laneLayouts en now nodes m lanes"
  have fin: "\<forall>n \<in> set nodes. \<exists>x. n_x n = Fin x" using assms(5) by blast
  note spec = laneLayouts_spec [OF assms(1) fin layouts_def]
  have "resolveNodeLaneId (n_id n) m lanes \<in> l_id ` set (map ly_lane layouts)" for n
    using spec(1) resolve_lane_mem [OF assms(1)] by simp
  then have lanes: "\<exists>l \<in> set layouts. l_id (ly_lane l) = resolveNodeLaneId (n_id n) m lanes" for n
    by (metis (no_types, lifting) imageE list.set_map)
  then obtain lane where lane: "lane \<in> set layouts" "l_id (ly_lane lane) = resolveNodeLaneId (n_id node) m lanes" by blast
  obtain a w where aw: "ly_left lane = Fin a" "ly_width lane = Fin w" "LANE_SIDE_PADDING \<le> a" "LANE_MIN_WIDTH \<le> w"
    and right: "jsnum_le (jsnum_add (ly_left lane) (ly_width lane)) (canvasWidth layouts)"
    and fit: "\<forall>n \<in> set nodes. resolveNodeLaneId (n_id n) m lanes = l_id (ly_lane lane) \<longrightarrow>
      (\<exists>x. n_x n = Fin x \<and> x + NODE_WIDTH + of_int NODE_DEFAULT_MARGIN \<le> w)"
    using spec(3) lane(1) by blast
  obtain x y where xy: "n_x node = Fin x" "n_y node = Fin y" "0 \<le> x" "0 \<le> y" using assms(4,5) by blast
  have x: "x + NODE_WIDTH + of_int NODE_DEFAULT_MARGIN \<le> w" using fit assms(4) lane(2) xy(1) by auto
  have look: "map_of (laneLayoutById layouts) (l_id (ly_lane l)) = Some l" if "l \<in> set layouts" for l
    using layout_found [OF _ that] spec(1) assms(2) by (metis map_map)
  let ?r = "\<lparr>rl_left = jsnum_add (ly_left lane) (n_x node), rl_top = jsnum_add (Fin HEADER_HEIGHT) (n_y node),
    rl_lane_id = resolveNodeLaneId (n_id node) m lanes\<rparr>"
  have render: "map_of (nodeRenderLayoutById layouts nodes m lanes) (n_id node) = Some ?r"
    unfolding nodeRenderLayoutById_def Let_def
    by (rule render_fold [OF assms(3) _ assms(4), where lay = lane and h = "\<lambda>n l. \<lparr>rl_left = jsnum_add (ly_left l) (n_x n),
        rl_top = jsnum_add (Fin HEADER_HEIGHT) (n_y n), rl_lane_id = resolveNodeLaneId (n_id n) m lanes\<rparr>"])
      (use lanes look lane look [OF lane(1)] in \<open>metis+\<close>)
  obtain h where h: "bodyHeight nodes = Fin h" "y + NODE_HEIGHT + of_int NODE_DEFAULT_MARGIN \<le> h"
    using body_height_spec [of nodes] assms(4,5) xy(2) by fastforce
  have "findLaneIdByPointX (jsnum_add (rl_left ?r) (Fin (NODE_WIDTH / 2))) layouts = Some (l_id (ly_lane lane))"
    using spec aw xy x by (intro point_in_lane [OF _ _ lane(1)]) (auto simp: canvas_sizes is_finite_iff)
  then have "map_of (nodeRenderLayoutById layouts nodes m lanes) (n_id node) = Some ?r \<and>
      l_id (ly_lane lane) = resolveNodeLaneId (n_id node) m lanes \<and> rl_lane_id ?r = l_id (ly_lane lane) \<and>
      jsnum_le (ly_left lane) (rl_left ?r) \<and>
      jsnum_le (jsnum_add (rl_left ?r) (Fin (NODE_WIDTH + of_int NODE_DEFAULT_MARGIN))) (jsnum_add (ly_left lane) (ly_width lane)) \<and>
      jsnum_le (jsnum_add (ly_left lane) (ly_width lane)) (canvasWidth layouts) \<and> jsnum_le (Fin HEADER_HEIGHT) (rl_top ?r) \<and>
      jsnum_le (jsnum_add (rl_top ?r) (Fin (NODE_HEIGHT + of_int NODE_DEFAULT_MARGIN))) (canvasHeight nodes) \<and>
      findLaneIdByPointX (jsnum_add (rl_left ?r) (Fin (NODE_WIDTH / 2))) layouts = Some (l_id (ly_lane lane))"
    using render lane right aw xy x h by (simp add: canvasHeight_def canvas_sizes)
  then show ?thesis unfolding Let_def layouts_def [symmetric] using lane(1) by blast
qed

theorem every_node_inside_its_lane_witness:
  "let lanes = [\<lparr>l_id = js ''l'', l_name = js ''L'', l_instance_id = None, l_agent_id = None, l_created_at = []\<rparr>];
       layouts = laneLayouts (\<lambda>_ _. 0) [] [sample_node ''a'' ''A'' []] [] lanes
   in findLaneIdByPointX (jsnum_add (rl_left (the (map_of (nodeRenderLayoutById layouts [sample_node ''a'' ''A'' []] [] lanes) (js ''a''))))
        (Fin (NODE_WIDTH / 2))) layouts = Some (js ''l'')"
proof -
  let ?lanes = "[\<lparr>l_id = js ''l'', l_name = js ''L'', l_instance_id = None, l_agent_id = None, l_created_at = []\<rparr>]"
  have "resolveNodeLaneId (js ''a'') [] ?lanes = js ''l''" by (simp add: resolveNodeLaneId_def first_lane_id_def Let_def)
  then show ?thesis
    using every_node_inside_its_lane [of ?lanes "[sample_node ''a'' ''A'' []]" "sample_node ''a'' ''A'' []" "\<lambda>_ _. 0" "[]" "[]"]
    by (force simp: sample_node_def jint_def Let_def)
qed

end
