(* ===== verification/CanvasEditing.thy ===== *)
theory CanvasEditing imports CanvasGeometry PageState begin

text \<open>
  \<open>components/flow-page/hooks/useFlowCanvasInteraction.ts\<close>: editing the canvas by hand: the dialogs for nodes
  and lanes, deleting, connecting, dragging nodes across lanes, and the selection. The layout of the
  canvas is in \<open>CanvasGeometry\<close>. Ids that the code draws from the clock and from \<open>Math.random\<close> are
  parameters.
\<close>

section \<open>State\<close>

record node_modal =
  nm_open :: bool
  nm_edit :: bool
  nm_node_id :: "jsstring option"
  nm_lane_id :: jsstring
  nm_x :: jsnum
  nm_y :: jsnum
  nm_title :: jsstring
  nm_description :: jsstring
  nm_sensitive :: bool

record lane_modal =
  lm_open :: bool
  lm_edit :: bool
  lm_lane_id :: "jsstring option"
  lm_name :: jsstring
  lm_instance_id :: jsstring
  lm_agent_id :: jsstring

record drag_origin =
  og_global_x :: jsnum
  og_y :: jsnum
  og_lane_id :: jsstring

record drag_state =
  ds_pointer :: int
  ds_start_x :: jsnum
  ds_start_y :: jsnum
  ds_node_ids :: "jsstring list"
  ds_origins :: "(jsstring \<times> drag_origin) list"
  ds_lanes :: "drag_lane list"

record connection_drag =
  cd_pointer :: int
  cd_from :: connector_handle
  cd_x :: jsnum
  cd_y :: jsnum

text \<open>
  The page, the two dialogs, the drag with the flag \<open>hasExceededMoveThreshold\<close> of its effect, and the
  connection being drawn: the page knows only whether there is one, and drops it by clearing its flag.
\<close>

record editor =
  ed_page :: page
  ed_node_modal :: node_modal
  ed_lane_modal :: lane_modal
  ed_drag :: "(drag_state \<times> bool) option"
  ed_connection :: "connection_drag option"

definition connectionDrag :: "editor \<Rightarrow> connection_drag option" where
  "connectionDrag ed = (if pg_dragging (ed_page ed) then ed_connection ed else None)"

definition setConnectionDrag :: "connection_drag option \<Rightarrow> editor \<Rightarrow> editor" where
  "setConnectionDrag drag ed = ed\<lparr>ed_connection := drag, ed_page := (ed_page ed)\<lparr>pg_dragging := (drag \<noteq> None)\<rparr>\<rparr>"

definition on_page :: "(page \<Rightarrow> page) \<Rightarrow> editor \<Rightarrow> editor" where
  "on_page f ed = ed\<lparr>ed_page := f (ed_page ed)\<rparr>"

definition edit_canvas :: "editor \<Rightarrow> canvas" where
  "edit_canvas ed = canvas_of (ed_page ed)"

definition edit_lanes :: "env \<Rightarrow> editor \<Rightarrow> flow_lane list" where
  "edit_lanes e ed = normalized_lanes (en_now e) (edit_canvas ed)"

definition warn :: "jsstring \<Rightarrow> editor \<Rightarrow> editor" where
  "warn message = on_page (addToast message WarningKind)"

text \<open>\<open>setIsDraftCanvas(true); setIsSubmittedFlow(false)\<close>\<close>

definition mark_draft :: "editor \<Rightarrow> editor" where
  "mark_draft = on_page (upd_canvas (\<lambda>ca. ca\<lparr>ca_is_draft := True, ca_is_submitted := False\<rparr>))"

text \<open>\<open>laneById\<close> and \<open>nodeById\<close>\<close>

definition laneById :: "env \<Rightarrow> editor \<Rightarrow> (jsstring \<times> flow_lane) list" where
  "laneById e ed = fold (\<lambda>lane. AList.update (l_id lane) lane) (edit_lanes e ed) []"

definition nodeById :: "editor \<Rightarrow> (jsstring \<times> flow_node) list" where
  "nodeById ed = fold (\<lambda>node. AList.update (n_id node) node) (ca_nodes (edit_canvas ed)) []"

definition selectedSingleNodeId :: "editor \<Rightarrow> jsstring option" where
  "selectedSingleNodeId ed = (case pg_selected_nodes (ed_page ed) of [nodeId] \<Rightarrow> Some nodeId | _ \<Rightarrow> None)"

definition edit_layouts :: "env \<Rightarrow> editor \<Rightarrow> lane_layout list" where
  "edit_layouts e ed = laneLayouts (en_compare e) (en_now e) (ca_nodes (edit_canvas ed)) (ca_node_lane_by_id (edit_canvas ed))
     (edit_lanes e ed)"

definition edit_renders :: "env \<Rightarrow> editor \<Rightarrow> (jsstring \<times> render_layout) list" where
  "edit_renders e ed = nodeRenderLayoutById (edit_layouts e ed) (ca_nodes (edit_canvas ed)) (ca_node_lane_by_id (edit_canvas ed))
     (edit_lanes e ed)"

definition edit_lane_of :: "env \<Rightarrow> editor \<Rightarrow> jsstring \<Rightarrow> jsstring" where
  "edit_lane_of e ed nodeId = resolveNodeLaneId nodeId (ca_node_lane_by_id (edit_canvas ed)) (edit_lanes e ed)"

definition connectionPreviewPath :: "(jsnum \<Rightarrow> jsstring) \<Rightarrow> env \<Rightarrow> editor \<Rightarrow> jsstring option" where
  "connectionPreviewPath num e ed =
     (case connectionDrag ed of
        None \<Rightarrow> None
      | Some drag \<Rightarrow>
          map_option (\<lambda>sourceLayout. buildConnectorCurvePath num (getNodeConnectorPoint sourceLayout (ch_side (cd_from drag)))
            \<lparr>pt_x = cd_x drag, pt_y = cd_y drag\<rparr>)
          (map_of (edit_renders e ed) (ch_node_id (cd_from drag))))"

section \<open>Opening the dialogs\<close>

definition openNodeCreateModal :: "env \<Rightarrow> point \<Rightarrow> editor \<Rightarrow> editor" where
  "openNodeCreateModal e p ed =
     (let laneId = nullish (findLaneIdByPointX (pt_x p) (edit_layouts e ed))
            (nullish (map_option l_id (nth_opt (edit_lanes e ed) 0)) []) in
      if laneId = [] then warn ([0x8BF7, 0x5148, 0x521B, 0x5EFA, 0x6CF3, 0x9053]) ed
      else case map_of (laneLayoutById (edit_layouts e ed)) laneId of
        None \<Rightarrow> warn ([0x6CF3, 0x9053, 0x4E0D, 0x53EF, 0x7528, 0xFF0C, 0x8BF7, 0x91CD, 0x8BD5]) ed
      | Some laneLayout \<Rightarrow>
          ed\<lparr>ed_node_modal := \<lparr>nm_open = True, nm_edit = False, nm_node_id = None, nm_lane_id = laneId,
            nm_x = jsnum_max (jint NODE_DEFAULT_MARGIN) (jsnum_sub (jsnum_sub (pt_x p) (ly_left laneLayout)) (Fin (NODE_WIDTH / 2))),
            nm_y = jsnum_max (jint NODE_DEFAULT_MARGIN) (jsnum_sub (jsnum_sub (pt_y p) (Fin HEADER_HEIGHT)) (Fin (NODE_HEIGHT / 2))),
            nm_title = ([0x65B0, 0x4EFB, 0x52A1, 0x8282, 0x70B9]), nm_description = [], nm_sensitive = False\<rparr>\<rparr>)"

definition openNodeCreateFromViewport :: "env \<Rightarrow> viewport option \<Rightarrow> editor \<Rightarrow> editor" where
  "openNodeCreateFromViewport e vp ed =
     (case Option.bind (selectedSingleNodeId ed) (map_of (edit_renders e ed)) of
        Some selectedLayout \<Rightarrow>
          openNodeCreateModal e \<lparr>pt_x = jsnum_add (rl_left selectedLayout) (Fin (NODE_WIDTH / 2)),
            pt_y = jsnum_add (jsnum_add (rl_top selectedLayout) (Fin NODE_HEIGHT)) (Fin (of_int NODE_VERTICAL_GAP / 2))\<rparr> ed
      | None \<Rightarrow>
          case vp of
            None \<Rightarrow> warn ([0x753B, 0x5E03, 0x5C1A, 0x672A, 0x5C31, 0x7EEA, 0xFF0C, 0x8BF7, 0x7A0D, 0x540E, 0x91CD, 0x8BD5]) ed
          | Some v \<Rightarrow>
              openNodeCreateModal e
                \<lparr>pt_x = jsnum_add (vp_scroll_left v) (jsnum_max (jsnum_mul (vp_width v) (Fin (1 / 2))) (Fin (LANE_SIDE_PADDING + NODE_WIDTH / 2))),
                 pt_y = jsnum_add (vp_scroll_top v) (jsnum_max (jsnum_mul (vp_height v) (Fin (1 / 2)))
                   (Fin (HEADER_HEIGHT + of_int NODE_DEFAULT_MARGIN + NODE_HEIGHT / 2)))\<rparr> ed)"

definition openNodeEditModal :: "env \<Rightarrow> jsstring \<Rightarrow> editor \<Rightarrow> editor" where
  "openNodeEditModal e nodeId ed =
     (case map_of (nodeById ed) nodeId of
        None \<Rightarrow> ed
      | Some node \<Rightarrow>
          ed\<lparr>ed_node_modal := \<lparr>nm_open = True, nm_edit = True, nm_node_id = Some (n_id node),
            nm_lane_id = edit_lane_of e ed (n_id node), nm_x = n_x node, nm_y = n_y node, nm_title = n_title node,
            nm_description = trim (nullish (n_description node) []), nm_sensitive = n_sensitive node\<rparr>\<rparr>)"

definition openSelectedNodeForEdit :: "env \<Rightarrow> editor \<Rightarrow> editor" where
  "openSelectedNodeForEdit e ed =
     (let selected = nullish (selectedSingleNodeId ed) [] in
      if selected = [] then warn ([0x8BF7, 0x5148, 0x9009, 0x4E2D, 0x4E00, 0x4E2A, 0x8282, 0x70B9]) ed else openNodeEditModal e selected ed)"

definition openLaneCreateModal :: "editor \<Rightarrow> editor" where
  "openLaneCreateModal ed =
     (let agents = ca_agents (edit_canvas ed);
          found = find (\<lambda>agent. ag_agent_id agent = trim (ca_executor (edit_canvas ed))) agents;
          preferredAgent = (if found = None then nth_opt agents 0 else found)
      in ed\<lparr>ed_lane_modal := \<lparr>lm_open = True, lm_edit = False, lm_lane_id = None, lm_name = [],
           lm_instance_id = nullish (map_option ag_instance_id preferredAgent) [],
           lm_agent_id = nullish (map_option ag_agent_id preferredAgent) []\<rparr>\<rparr>)"

definition openLaneEditModal :: "env \<Rightarrow> jsstring \<Rightarrow> editor \<Rightarrow> editor" where
  "openLaneEditModal e laneId ed =
     (case map_of (laneById e ed) laneId of
        None \<Rightarrow> ed
      | Some lane \<Rightarrow>
          ed\<lparr>ed_lane_modal := \<lparr>lm_open = True, lm_edit = True, lm_lane_id = Some (l_id lane), lm_name = l_name lane,
            lm_instance_id = nullish (l_instance_id lane) [], lm_agent_id = nullish (l_agent_id lane) []\<rparr>\<rparr>)"

text \<open>A double click: on the card of a node or the title of a lane it does nothing here.\<close>

definition handleCanvasDoubleClick :: "env \<Rightarrow> viewport option \<Rightarrow> jsnum \<Rightarrow> jsnum \<Rightarrow> bool \<Rightarrow> editor \<Rightarrow> editor" where
  "handleCanvasDoubleClick e vp clientX clientY onCardOrTitle ed =
     (if \<not> canEdit (ed_page ed) then ed
      else case toCanvasPoint vp clientX clientY of
        None \<Rightarrow> ed
      | Some p \<Rightarrow>
          if onCardOrTitle then ed
          else if jsnum_le (pt_y p) (Fin HEADER_HEIGHT) then openLaneCreateModal ed
          else openNodeCreateModal e p ed)"

definition handleCanvasPointerDown :: "bool \<Rightarrow> editor \<Rightarrow> editor" where
  "handleCanvasPointerDown onControl ed =
     (if onControl then ed
      else setConnectionDrag None (on_page (\<lambda>pg. pg\<lparr>pg_selected_nodes := [], pg_selected_edge := None\<rparr>) ed))"

section \<open>Saving the dialogs\<close>

definition close_node_modal :: "editor \<Rightarrow> editor" where
  "close_node_modal ed = ed\<lparr>ed_node_modal := (ed_node_modal ed)\<lparr>nm_open := False\<rparr>\<rparr>"

definition close_lane_modal :: "editor \<Rightarrow> editor" where
  "close_lane_modal ed = ed\<lparr>ed_lane_modal := (ed_lane_modal ed)\<lparr>lm_open := False\<rparr>\<rparr>"

definition new_node :: "jsstring \<Rightarrow> jsstring \<Rightarrow> jsstring \<Rightarrow> node_modal \<Rightarrow> flow_lane option \<Rightarrow> jsstring \<Rightarrow> flow_node" where
  "new_node nodeId title description nm lane executor =
     \<lparr>n_id = nodeId, n_title = title, n_description = Some description, n_depends_on = [], n_x = nm_x nm, n_y = nm_y nm,
      n_layer = jint 1, n_sensitive = nm_sensitive nm, n_status = Queued,
      n_agent_id = (case Option.bind lane l_agent_id of Some a \<Rightarrow> Some a | None \<Rightarrow> non_empty (trim executor)),
      n_instance_id = Option.bind lane l_instance_id\<rparr>"

definition handleSaveNodeModal :: "env \<Rightarrow> jsstring \<Rightarrow> editor \<Rightarrow> editor" where
  "handleSaveNodeModal e nodeId ed =
     (let nm = ed_node_modal ed; laneId = trim (nm_lane_id nm); title = trim (nm_title nm);
          description = trim (nm_description nm) in
      if laneId = [] \<or> \<not> map_has (laneById e ed) laneId then warn ([0x8BF7, 0x9009, 0x62E9, 0x6709, 0x6548, 0x6CF3, 0x9053]) ed
      else if title = [] then warn ([0x8282, 0x70B9, 0x6807, 0x9898, 0x4E0D, 0x80FD, 0x4E3A, 0x7A7A]) ed
      else if \<not> nm_edit nm then
        let node = new_node nodeId title description nm (map_of (laneById e ed) laneId) (ca_executor (edit_canvas ed))
        in mark_draft (close_node_modal (on_page (\<lambda>pg. (upd_canvas (\<lambda>ca. ca\<lparr>ca_nodes := ca_nodes ca @ [node],
             ca_node_lane_by_id := AList.update nodeId laneId (ca_node_lane_by_id ca)\<rparr>) pg)
             \<lparr>pg_selected_nodes := [nodeId], pg_selected_edge := None\<rparr>) ed))
      else if nullish (nm_node_id nm) [] = [] then ed
      else mark_draft (close_node_modal (on_page (\<lambda>pg. (upd_canvas (\<lambda>ca. ca\<lparr>ca_nodes :=
             map (\<lambda>node. if Some (n_id node) = nm_node_id nm
                then node\<lparr>n_title := title, n_description := Some description, n_sensitive := nm_sensitive nm\<rparr> else node) (ca_nodes ca)\<rparr>) pg)
             \<lparr>pg_selected_edge := None\<rparr>) ed)))"

definition handleSaveLaneModal :: "env \<Rightarrow> jsstring \<Rightarrow> editor \<Rightarrow> editor" where
  "handleSaveLaneModal e laneId ed =
     (let lm = ed_lane_modal ed; laneName = str_or (trim (lm_name lm)) unnamed_lane;
          agentId = non_empty (trim (lm_agent_id lm));
          instanceId = (if agentId \<noteq> None then non_empty (trim (lm_instance_id lm)) else None) in
      if \<not> lm_edit lm then
        mark_draft (close_lane_modal (on_page (upd_canvas (\<lambda>ca. ca\<lparr>ca_lanes := ca_lanes ca @
          [\<lparr>l_id = laneId, l_name = laneName, l_instance_id = instanceId, l_agent_id = agentId, l_created_at = en_now e\<rparr>]\<rparr>)) ed))
      else if nullish (lm_lane_id lm) [] = [] then ed
      else
        let lane_of = edit_lane_of e ed
        in mark_draft (close_lane_modal (on_page (upd_canvas (\<lambda>ca. ca\<lparr>
             ca_lanes := map (\<lambda>lane. if Some (l_id lane) = lm_lane_id lm
               then lane\<lparr>l_name := laneName, l_instance_id := instanceId, l_agent_id := agentId\<rparr> else lane) (ca_lanes ca),
             ca_nodes := map (\<lambda>node. if Some (lane_of (n_id node)) \<noteq> lm_lane_id lm then node
               else node\<lparr>n_instance_id := (if instanceId \<noteq> None then instanceId else n_instance_id node),
                         n_agent_id := (if agentId \<noteq> None then agentId else n_agent_id node)\<rparr>) (ca_nodes ca)\<rparr>)) ed)))"

section \<open>Deleting\<close>

definition busy_message :: jsstring where
  "busy_message = [0x6B63, 0x5728, 0x89C4, 0x5212, 0x4E2D, 0xFF0C, 0x8BF7, 0x7A0D, 0x540E, 0x7F16, 0x8F91]"

definition without_dependencies :: "jsstring set \<Rightarrow> flow_node \<Rightarrow> flow_node" where
  "without_dependencies gone node = node\<lparr>n_depends_on := filter (\<lambda>dependency. dependency \<notin> gone) (n_depends_on node)\<rparr>"

definition handleDeleteNodes :: "jsstring list \<Rightarrow> editor \<Rightarrow> editor" where
  "handleDeleteNodes nodeIds ed =
     (if \<not> canEdit (ed_page ed) then warn busy_message ed
      else if nodeIds = [] then ed
      else mark_draft (setConnectionDrag None (on_page (\<lambda>pg. (upd_canvas (\<lambda>ca. ca\<lparr>
             ca_nodes := map (without_dependencies (set nodeIds)) (filter (\<lambda>node. n_id node \<notin> set nodeIds) (ca_nodes ca)),
             ca_node_lane_by_id := filter (\<lambda>(nodeId, _). nodeId \<notin> set nodeIds) (ca_node_lane_by_id ca)\<rparr>) pg)
             \<lparr>pg_selected_nodes := [], pg_selected_edge := None\<rparr>) ed)))"

definition deselect_edge :: "jsstring \<Rightarrow> editor \<Rightarrow> editor" where
  "deselect_edge edgeId = on_page (\<lambda>pg. if pg_selected_edge pg = Some edgeId then pg\<lparr>pg_selected_edge := None\<rparr> else pg)"

definition handleRemoveEdge :: "jsstring \<Rightarrow> editor \<Rightarrow> editor" where
  "handleRemoveEdge edgeId ed =
     (if \<not> canEdit (ed_page ed) then warn busy_message ed
      else case find (\<lambda>item. e_id item = edgeId) (page_edges (ed_page ed)) of
        None \<Rightarrow> deselect_edge edgeId ed
      | Some edge \<Rightarrow>
          mark_draft (deselect_edge edgeId (on_page (upd_canvas (\<lambda>ca. ca\<lparr>ca_nodes :=
            map (\<lambda>node. if n_id node = e_target edge then without_dependencies {e_source edge} node else node) (ca_nodes ca)\<rparr>)) ed)))"

section \<open>Connecting\<close>

text \<open>None when no connection is being drawn: the code returns false then, and true otherwise.\<close>

definition commitConnectionToHandle :: "connector_handle \<Rightarrow> editor \<Rightarrow> editor option" where
  "commitConnectionToHandle handle ed =
     (case connectionDrag ed of
        None \<Rightarrow> None
      | Some drag \<Rightarrow>
          let sourceNodeId = ch_node_id (cd_from drag) in
          if sourceNodeId = ch_node_id handle then Some (setConnectionDrag None ed)
          else if list_ex (\<lambda>edge. e_source edge = sourceNodeId \<and> e_target edge = ch_node_id handle) (page_edges (ed_page ed))
          then Some (warn ([0x8FDE, 0x63A5, 0x5DF2, 0x5B58, 0x5728]) (setConnectionDrag None ed))
          else Some (setConnectionDrag None (mark_draft (on_page (\<lambda>pg. (upd_canvas (\<lambda>ca. ca\<lparr>ca_nodes :=
                 map (\<lambda>node. if n_id node = ch_node_id handle then node\<lparr>n_depends_on := n_depends_on node @ [sourceNodeId]\<rparr> else node)
                   (ca_nodes ca)\<rparr>) pg)\<lparr>pg_selected_edge := None\<rparr>) ed))))"

definition handleConnectorPointerDown :: "viewport option \<Rightarrow> int \<Rightarrow> jsnum \<Rightarrow> jsnum \<Rightarrow> connector_handle \<Rightarrow> editor \<Rightarrow> editor" where
  "handleConnectorPointerDown vp pointerId clientX clientY handle ed =
     (if \<not> canEdit (ed_page ed) then warn busy_message ed
      else case toCanvasPoint vp clientX clientY of
        None \<Rightarrow> ed
      | Some p \<Rightarrow>
          on_page (\<lambda>pg. pg\<lparr>pg_selected_edge := None\<rparr>)
            (setConnectionDrag (Some \<lparr>cd_pointer = pointerId, cd_from = handle, cd_x = pt_x p, cd_y = pt_y p\<rparr>) ed))"

definition handleConnectorPointerUp :: "int \<Rightarrow> connector_handle \<Rightarrow> editor \<Rightarrow> editor" where
  "handleConnectorPointerUp pointerId handle ed =
     (case connectionDrag ed of
        None \<Rightarrow> ed
      | Some drag \<Rightarrow> if pointerId \<noteq> cd_pointer drag then ed else nullish (commitConnectionToHandle handle ed) ed)"

definition connection_pointer_move :: "viewport option \<Rightarrow> int \<Rightarrow> jsnum \<Rightarrow> jsnum \<Rightarrow> editor \<Rightarrow> editor" where
  "connection_pointer_move vp pointerId clientX clientY ed =
     (case connectionDrag ed of
        None \<Rightarrow> ed
      | Some drag \<Rightarrow>
          if pointerId \<noteq> cd_pointer drag then ed
          else case toCanvasPoint vp clientX clientY of
            None \<Rightarrow> ed
          | Some p \<Rightarrow> setConnectionDrag (Some (drag\<lparr>cd_x := pt_x p, cd_y := pt_y p\<rparr>)) ed)"

text \<open>The button is released; \<open>elements\<close> are those under the pointer.\<close>

definition connection_pointer_up :: "int \<Rightarrow> (jsstring option \<times> connector_side option) option list \<Rightarrow> editor \<Rightarrow> editor" where
  "connection_pointer_up pointerId elements ed =
     (case connectionDrag ed of
        None \<Rightarrow> ed
      | Some drag \<Rightarrow>
          if pointerId \<noteq> cd_pointer drag then ed
          else case Option.bind (resolveConnectorHandleAtClientPoint elements) (\<lambda>handle. commitConnectionToHandle handle ed) of
            Some ed' \<Rightarrow> ed'
          | None \<Rightarrow> setConnectionDrag None ed)"

section \<open>Dragging nodes\<close>

definition NODE_DRAG_MOVE_THRESHOLD_SQUARED :: rat where
  "NODE_DRAG_MOVE_THRESHOLD_SQUARED = 6 * 6"

text \<open>What the code reads of the event that presses a node.\<close>

record node_press =
  np_pointer :: int
  np_mouse :: bool
  np_button :: int
  np_primary :: bool
  np_on_connector :: bool
  np_append :: bool
  np_x :: jsnum
  np_y :: jsnum

definition drag_lane_of :: "lane_layout \<Rightarrow> drag_lane" where
  "drag_lane_of layout = \<lparr>dg_lane_id = l_id (ly_lane layout), dg_left = ly_left layout, dg_width = ly_width layout,
     dg_instance_id = l_instance_id (ly_lane layout), dg_agent_id = l_agent_id (ly_lane layout)\<rparr>"

definition drag_origins :: "env \<Rightarrow> editor \<Rightarrow> jsstring list \<Rightarrow> (jsstring \<times> drag_origin) list" where
  "drag_origins e ed selectedIds =
     fold (\<lambda>nodeId m. case map_of (nodeById ed) nodeId of
         None \<Rightarrow> m
       | Some node \<Rightarrow>
           let laneId = edit_lane_of e ed (n_id node);
               left = (case map_of (laneLayoutById (edit_layouts e ed)) laneId of Some layout \<Rightarrow> ly_left layout | None \<Rightarrow> Fin 0)
           in AList.update nodeId \<lparr>og_global_x = jsnum_add left (n_x node), og_y = n_y node, og_lane_id = laneId\<rparr> m)
       selectedIds []"

definition handleNodePointerDown :: "env \<Rightarrow> node_press \<Rightarrow> jsstring \<Rightarrow> editor \<Rightarrow> editor" where
  "handleNodePointerDown e press nodeId ed =
     (if \<not> canEdit (ed_page ed) \<or> (np_mouse press \<and> np_button press \<noteq> 0) \<or> \<not> np_primary press then ed
      else if np_on_connector press then ed
      else
        let selected = pg_selected_nodes (ed_page ed);
            selectedIds = (if np_append press \<and> selected \<noteq> [] then uniq (selected @ [nodeId]) else [nodeId])
        in (on_page (\<lambda>pg. pg\<lparr>pg_selected_nodes := (if np_append press then set_add nodeId (pg_selected_nodes pg) else [nodeId]),
                             pg_selected_edge := None\<rparr>) ed)
           \<lparr>ed_drag := Some (\<lparr>ds_pointer = np_pointer press, ds_start_x = np_x press, ds_start_y = np_y press,
              ds_node_ids = selectedIds, ds_origins = drag_origins e ed selectedIds,
              ds_lanes = map drag_lane_of (edit_layouts e ed)\<rparr>, False)\<rparr>)"

text \<open>The lane under the middle of a dragged node, and the node there.\<close>

definition drag_target :: "drag_state \<Rightarrow> jsnum \<Rightarrow> drag_origin \<Rightarrow> drag_lane option" where
  "drag_target ds deltaX origin =
     (case findLaneLayoutForCenterX (jsnum_add (jsnum_add (og_global_x origin) deltaX) (Fin (NODE_WIDTH / 2))) (ds_lanes ds) of
        Some lane \<Rightarrow> Some lane
      | None \<Rightarrow> nth_opt (ds_lanes ds) 0)"

definition dragged_node :: "drag_state \<Rightarrow> jsnum \<Rightarrow> jsnum \<Rightarrow> drag_origin \<Rightarrow> flow_node \<Rightarrow> flow_node" where
  "dragged_node ds deltaX deltaY origin node =
     (let nextLane = drag_target ds deltaX origin;
          left = (case nextLane of Some lane \<Rightarrow> dg_left lane | None \<Rightarrow> Fin 0)
      in node\<lparr>n_x := jsnum_max (jint NODE_DEFAULT_MARGIN) (jsnum_sub (jsnum_add (og_global_x origin) deltaX) left),
              n_y := jsnum_max (jint NODE_DEFAULT_MARGIN) (jsnum_add (og_y origin) deltaY),
              n_instance_id := (case nextLane of Some lane \<Rightarrow> dg_instance_id lane | None \<Rightarrow> n_instance_id node),
              n_agent_id := (case nextLane of Some lane \<Rightarrow> dg_agent_id lane | None \<Rightarrow> n_agent_id node)\<rparr>)"

definition drag_origin_of :: "drag_state \<Rightarrow> flow_node \<Rightarrow> drag_origin option" where
  "drag_origin_of ds node = (if n_id node \<in> set (ds_node_ids ds) then map_of (ds_origins ds) (n_id node) else None)"

definition drag_node :: "drag_state \<Rightarrow> jsnum \<Rightarrow> jsnum \<Rightarrow> flow_node \<Rightarrow> flow_node" where
  "drag_node ds deltaX deltaY node =
     (case drag_origin_of ds node of None \<Rightarrow> node | Some origin \<Rightarrow> dragged_node ds deltaX deltaY origin node)"

definition lane_updates :: "drag_state \<Rightarrow> jsnum \<Rightarrow> flow_node list \<Rightarrow> (jsstring \<times> jsstring) list" where
  "lane_updates ds deltaX nodes =
     fold (\<lambda>node m. case drag_origin_of ds node of
         None \<Rightarrow> m
       | Some origin \<Rightarrow> AList.update (n_id node)
           (case drag_target ds deltaX origin of Some lane \<Rightarrow> dg_lane_id lane | None \<Rightarrow> og_lane_id origin) m)
       nodes []"

text \<open>
  One move of the pointer. The updates of the lanes are collected by the function passed to \<open>setFlowNodes\<close>:
  \<open>eager\<close> tells whether React has run it by the time the code reads them.
\<close>

definition drag_pointer_move :: "bool \<Rightarrow> int \<Rightarrow> jsnum \<Rightarrow> jsnum \<Rightarrow> editor \<Rightarrow> editor" where
  "drag_pointer_move eager pointerId clientX clientY ed =
     (case ed_drag ed of
        None \<Rightarrow> ed
      | Some (ds, exceeded) \<Rightarrow>
          if pointerId \<noteq> ds_pointer ds then ed
          else
            let deltaX = jsnum_sub clientX (ds_start_x ds); deltaY = jsnum_sub clientY (ds_start_y ds) in
            if \<not> exceeded \<and> jsnum_less (jsnum_add (jsnum_mul deltaX deltaX) (jsnum_mul deltaY deltaY)) (Fin NODE_DRAG_MOVE_THRESHOLD_SQUARED)
            then ed
            else
              let laneUpdates = (if eager then lane_updates ds deltaX (ca_nodes (edit_canvas ed)) else [])
              in (on_page (upd_canvas (\<lambda>ca. ca\<lparr>ca_nodes := map (drag_node ds deltaX deltaY) (ca_nodes ca),
                    ca_node_lane_by_id := (if laneUpdates = [] then ca_node_lane_by_id ca
                      else AList.updates (map fst laneUpdates) (map snd laneUpdates) (ca_node_lane_by_id ca))\<rparr>)) ed)
                 \<lparr>ed_drag := Some (ds, True)\<rparr>)"

definition drag_pointer_up :: "int \<Rightarrow> editor \<Rightarrow> editor" where
  "drag_pointer_up pointerId ed =
     (case ed_drag ed of
        None \<Rightarrow> ed
      | Some (ds, exceeded) \<Rightarrow>
          if pointerId \<noteq> ds_pointer ds then ed
          else (if exceeded then mark_draft else id) (ed\<lparr>ed_drag := None\<rparr>))"

section \<open>The keyboard and the selection\<close>

definition handleKeyDown :: "jsstring \<Rightarrow> bool \<Rightarrow> editor \<Rightarrow> editor" where
  "handleKeyDown key typing ed =
     (if key \<noteq> js ''Delete'' then ed
      else if typing then ed
      else if pg_selected_nodes (ed_page ed) \<noteq> [] then handleDeleteNodes (pg_selected_nodes (ed_page ed)) ed
      else if nullish (pg_selected_edge (ed_page ed)) [] \<noteq> [] then handleRemoveEdge (nullish (pg_selected_edge (ed_page ed)) []) ed
      else ed)"

definition drop_stale_edge_selection :: "editor \<Rightarrow> editor" where
  "drop_stale_edge_selection ed =
     (let selectedEdgeId = nullish (pg_selected_edge (ed_page ed)) [] in
      if selectedEdgeId = [] then ed
      else if list_ex (\<lambda>edge. e_id edge = selectedEdgeId) (page_edges (ed_page ed)) then ed
      else on_page (\<lambda>pg. pg\<lparr>pg_selected_edge := None\<rparr>) ed)"

definition handleSelectEdge :: "jsstring \<Rightarrow> editor \<Rightarrow> editor" where
  "handleSelectEdge edgeId = on_page (\<lambda>pg. pg\<lparr>pg_selected_nodes := [], pg_selected_edge := Some edgeId\<rparr>)"

definition handleSelectNode :: "jsstring \<Rightarrow> bool \<Rightarrow> editor \<Rightarrow> editor" where
  "handleSelectNode nodeId appendSelection = on_page (\<lambda>pg.
     let current = pg_selected_nodes pg
     in pg\<lparr>pg_selected_nodes := (if \<not> appendSelection then [nodeId]
              else if nodeId \<in> set current then filter (\<lambda>item. item \<noteq> nodeId) current
              else current @ [nodeId]),
           pg_selected_edge := None\<rparr>)"

end
