(* ===== verification/CanvasEdits.thy ===== *)
theory CanvasEdits imports CanvasEditing PageDrafts begin

text \<open>
  Properties of editing the canvas by hand (\<open>CanvasEditing\<close>): one step relation for everything a user can do with
  the canvas and its dialogs, the invariant every step keeps, and the change each of the deleting, connecting
  and dragging operations makes to the graph of dependencies and to the lanes.
\<close>

section \<open>What the operations leave alone\<close>

lemma edit_canvas_simps [simp]:
  "edit_canvas (on_page f ed) = canvas_of (f (ed_page ed))"
  "edit_canvas (warn message ed) = edit_canvas ed"
  "edit_canvas (mark_draft ed) = (edit_canvas ed)\<lparr>ca_is_draft := True, ca_is_submitted := False\<rparr>"
  "edit_canvas (setConnectionDrag c ed) = edit_canvas ed"
  "edit_canvas (deselect_edge i ed) = edit_canvas ed"
  "edit_canvas (close_node_modal ed) = edit_canvas ed"
  "edit_canvas (close_lane_modal ed) = edit_canvas ed"
  "edit_canvas (ed\<lparr>ed_node_modal := nm\<rparr>) = edit_canvas ed"
  "edit_canvas (ed\<lparr>ed_lane_modal := lm\<rparr>) = edit_canvas ed"
  "edit_canvas (ed\<lparr>ed_drag := d\<rparr>) = edit_canvas ed"
  by (simp_all add: edit_canvas_def on_page_def warn_def mark_draft_def setConnectionDrag_def deselect_edge_def
      close_node_modal_def close_lane_modal_def addToast_def)

lemma ed_drag_simps [simp]:
  "ed_drag (on_page f ed) = ed_drag ed" "ed_drag (warn message ed) = ed_drag ed" "ed_drag (mark_draft ed) = ed_drag ed"
  "ed_drag (setConnectionDrag c ed) = ed_drag ed" "ed_drag (deselect_edge i ed) = ed_drag ed"
  "ed_drag (close_node_modal ed) = ed_drag ed" "ed_drag (close_lane_modal ed) = ed_drag ed"
  by (simp_all add: on_page_def warn_def mark_draft_def setConnectionDrag_def deselect_edge_def close_node_modal_def
      close_lane_modal_def)

lemma node_modal_simps [simp]:
  "ed_node_modal (on_page f ed) = ed_node_modal ed" "ed_node_modal (warn message ed) = ed_node_modal ed"
  "ed_node_modal (mark_draft ed) = ed_node_modal ed" "ed_node_modal (setConnectionDrag c ed) = ed_node_modal ed"
  "ed_node_modal (deselect_edge i ed) = ed_node_modal ed" "ed_node_modal (close_lane_modal ed) = ed_node_modal ed"
  "nm_x (ed_node_modal (close_node_modal ed)) = nm_x (ed_node_modal ed)"
  "nm_y (ed_node_modal (close_node_modal ed)) = nm_y (ed_node_modal ed)"
  by (simp_all add: on_page_def warn_def mark_draft_def setConnectionDrag_def deselect_edge_def close_node_modal_def
      close_lane_modal_def)

lemma on_page_drag [simp]: "pg_dragging (f (ed_page ed)) = pg_dragging (ed_page ed) \<Longrightarrow> connectionDrag (on_page f ed) = connectionDrag ed"
  by (simp add: connectionDrag_def on_page_def)

lemma connectionDrag_simps [simp]:
  "connectionDrag (setConnectionDrag c ed) = c"
  "connectionDrag (warn message ed) = connectionDrag ed"
  "connectionDrag (mark_draft ed) = connectionDrag ed"
  "connectionDrag (deselect_edge i ed) = connectionDrag ed"
  "connectionDrag (close_node_modal ed) = connectionDrag ed"
  "connectionDrag (close_lane_modal ed) = connectionDrag ed"
  "connectionDrag (ed\<lparr>ed_node_modal := nm\<rparr>) = connectionDrag ed"
  "connectionDrag (ed\<lparr>ed_lane_modal := lm\<rparr>) = connectionDrag ed"
  "connectionDrag (ed\<lparr>ed_drag := d\<rparr>) = connectionDrag ed"
  by (simp_all add: connectionDrag_def setConnectionDrag_def warn_def mark_draft_def deselect_edge_def close_node_modal_def
      close_lane_modal_def on_page_def addToast_def)

lemma page_canvas [simp]: "canvas_of (ed_page ed) = edit_canvas ed"
  by (simp add: edit_canvas_def)

section \<open>A canvas and an editor in order\<close>

definition placed :: "jsnum \<Rightarrow> bool" where
  "placed x \<longleftrightarrow> is_finite x \<and> jsnum_le (Fin 0) x"

definition parts_sound :: "flow_node list \<Rightarrow> flow_lane list \<Rightarrow> (jsstring \<times> jsstring) list \<Rightarrow> bool" where
  "parts_sound nodes lanes nodeLaneById \<longleftrightarrow>
     list_all (\<lambda>node. clean_node (n_id ` set nodes) node \<and> placed (n_x node) \<and> placed (n_y node)) nodes \<and>
     distinct (map n_id nodes) \<and>
     lanes \<noteq> [] \<and> list_all lane_in_order lanes \<and> distinct (map l_id lanes) \<and>
     fst ` set nodeLaneById = n_id ` set nodes \<and> snd ` set nodeLaneById \<subseteq> l_id ` set lanes"

abbreviation canvas_sound :: "canvas \<Rightarrow> bool" where
  "canvas_sound ca \<equiv> parts_sound (ca_nodes ca) (ca_lanes ca) (ca_node_lane_by_id ca)"

lemma parts_soundI:
  assumes "\<And>n. n \<in> set ns \<Longrightarrow> clean_node (n_id ` set ns) n \<and> placed (n_x n) \<and> placed (n_y n)"
    and "distinct (map n_id ns)" and "ls \<noteq> []" and "list_all lane_in_order ls"
    and "distinct (map l_id ls)" and "fst ` set m = n_id ` set ns" and "snd ` set m \<subseteq> l_id ` set ls"
  shows "parts_sound ns ls m"
  using assms unfolding parts_sound_def list_all_iff by blast

lemma parts_soundD:
  assumes "parts_sound ns ls m"
  shows "\<And>n. n \<in> set ns \<Longrightarrow> clean_node (n_id ` set ns) n \<and> placed (n_x n) \<and> placed (n_y n)"
    and "distinct (map n_id ns)" and "ls \<noteq> []" and "list_all lane_in_order ls"
    and "distinct (map l_id ls)" and "fst ` set m = n_id ` set ns" and "snd ` set m \<subseteq> l_id ` set ls"
  using assms unfolding parts_sound_def list_all_iff by blast+

lemma canvas_sound_in_order: "canvas_sound ca \<Longrightarrow> ca_nodes ca \<noteq> [] \<Longrightarrow> canvas_in_order ca"
proof -
  assume sound: "canvas_sound ca" and nodes: "ca_nodes ca \<noteq> []"
  note D = parts_soundD [OF sound]
  have "name_ok l \<and> l \<in> l_id ` set (ca_lanes ca)" if "(i, l) \<in> set (ca_node_lane_by_id ca)" for i l
  proof -
    have "l \<in> l_id ` set (ca_lanes ca)" using D(7) that by force
    then show ?thesis using D(4) by (auto simp: list_all_iff lane_in_order_def)
  qed
  then show ?thesis unfolding canvas_in_order_def using D(1,3,4,6) nodes by (auto simp: list_all_iff)
qed

definition lane_snapshot_ok :: "canvas \<Rightarrow> drag_lane \<Rightarrow> bool" where
  "lane_snapshot_ok ca lane \<longleftrightarrow> is_finite (dg_left lane) \<and> dg_lane_id lane \<in> l_id ` set (ca_lanes ca) \<and>
     nullable_ok (dg_instance_id lane) \<and> nullable_ok (dg_agent_id lane)"

definition drag_ok :: "canvas \<Rightarrow> drag_state \<Rightarrow> bool" where
  "drag_ok ca ds \<longleftrightarrow> is_finite (ds_start_x ds) \<and> is_finite (ds_start_y ds) \<and> ds_lanes ds \<noteq> [] \<and>
     list_all (lane_snapshot_ok ca) (ds_lanes ds) \<and>
     list_all (\<lambda>(_, origin). is_finite (og_global_x origin) \<and> is_finite (og_y origin)) (ds_origins ds)"

definition editor_ok :: "editor \<Rightarrow> bool" where
  "editor_ok ed \<longleftrightarrow> canvas_sound (edit_canvas ed) \<and>
     placed (nm_x (ed_node_modal ed)) \<and> placed (nm_y (ed_node_modal ed)) \<and>
     (case ed_drag ed of None \<Rightarrow> True | Some (ds, _) \<Rightarrow> drag_ok (edit_canvas ed) ds) \<and>
     (case connectionDrag ed of None \<Rightarrow> True
      | Some drag \<Rightarrow> ch_node_id (cd_from drag) \<in> n_id ` set (ca_nodes (edit_canvas ed)))"

text \<open>Two different pairs of nodes never share the id of an edge.\<close>

definition edge_ids_distinct :: "canvas \<Rightarrow> bool" where
  "edge_ids_distinct ca \<longleftrightarrow> (let ids = n_id ` set (ca_nodes ca) in
     inj_on (\<lambda>(source, target). edge_id source target) (ids \<times> ids))"

lemma page_edges_exact:
  assumes "edge_ids_distinct (canvas_of pg)"
  shows "(\<lambda>e. (e_source e, e_target e)) ` set (page_edges pg) = flow_edges (ca_nodes (canvas_of pg))"
proof -
  let ?ns = "ca_nodes (canvas_of pg)"
  let ?st = "fold (\<lambda>node. fold (derive_edge (map n_id ?ns) node) (n_depends_on node)) ?ns ([], [])"
  have inv: "edges_inv ?ns ?st" by (rule deriveEdges_inv)
  have "(e_source e, e_target e) \<in> flow_edges ?ns" if "e \<in> set (page_edges pg)" for e
    using that derived_edges_sound by (simp add: page_edges_def)
  moreover have "(d, n_id x) \<in> (\<lambda>e. (e_source e, e_target e)) ` set (page_edges pg)"
    if x: "x \<in> set ?ns" "d \<in> set (n_depends_on x)" "d \<in> n_id ` set ?ns" "d \<noteq> n_id x" for x d
  proof -
    have "edge_id d (n_id x) \<in> set (snd ?st)" using x by (intro derive_nodes_complete) auto
    then obtain e where e: "e \<in> set (page_edges pg)" "e_id e = edge_id d (n_id x)"
      using inv by (auto simp: edges_inv_def page_edges_def deriveEdgesFromNodes_def)
    have "(e_source e, e_target e) \<in> n_id ` set ?ns \<times> n_id ` set ?ns" "edge_id (e_source e) (e_target e) = e_id e"
      using e(1) inv by (auto simp: edges_inv_def page_edges_def deriveEdgesFromNodes_def)
    then have "(e_source e, e_target e) = (d, n_id x)"
      using e(2) x assms unfolding edge_ids_distinct_def Let_def
      by (intro inj_onD [of "\<lambda>(s, t). edge_id s t"]) auto
    then show ?thesis using e(1) by (metis (mono_tags, lifting) image_eqI)
  qed
  ultimately show ?thesis by (auto simp: flow_edges_def)
qed

section \<open>Every operation keeps the editor in order\<close>

lemma canvas_flags [simp]:
  "drag_ok (ca\<lparr>ca_is_draft := d, ca_is_submitted := s\<rparr>) = drag_ok ca"
  by (auto simp: parts_sound_def drag_ok_def lane_snapshot_ok_def fun_eq_iff list_all_iff)

lemma editor_ok_flags [simp]:
  "editor_ok (warn message ed) = editor_ok ed"
  "editor_ok (mark_draft ed) = editor_ok ed"
  "editor_ok (deselect_edge i ed) = editor_ok ed"
  "editor_ok (close_node_modal ed) = editor_ok ed"
  "editor_ok (close_lane_modal ed) = editor_ok ed"
  "editor_ok (ed\<lparr>ed_lane_modal := lm\<rparr>) = editor_ok ed"
  by (simp_all add: editor_ok_def close_lane_modal_def cong: option.case_cong)

lemma editor_ok_selection:
  assumes "\<And>pg. canvas_of (f pg) = canvas_of pg" "\<And>pg. pg_dragging (f pg) = pg_dragging pg"
  shows "editor_ok (on_page f ed) = editor_ok ed"
proof -
  have "edit_canvas (on_page f ed) = edit_canvas ed" by (simp add: assms(1))
  then show ?thesis using on_page_drag [of f ed] by (simp add: editor_ok_def assms(2) del: edit_canvas_simps cong: option.case_cong)
qed

lemma sound_lanes: "editor_ok ed \<Longrightarrow> edit_lanes e ed = ca_lanes (edit_canvas ed) \<and> ca_lanes (edit_canvas ed) \<noteq> []"
  by (simp add: editor_ok_def parts_sound_def edit_lanes_def normalized_lanes_def)

lemma placed_iff: "placed x \<longleftrightarrow> (\<exists>q. x = Fin q \<and> 0 \<le> q)"
  by (cases x) (auto simp: placed_def)

lemma placed_max [intro!]: "is_finite x \<Longrightarrow> placed (jsnum_max (jint NODE_DEFAULT_MARGIN) x)"
  by (auto simp: placed_iff is_finite_iff jint_def NODE_DEFAULT_MARGIN_def)

lemma finite_arith [intro!]:
  "is_finite x \<Longrightarrow> is_finite y \<Longrightarrow> is_finite (jsnum_add x y)"
  "is_finite x \<Longrightarrow> is_finite y \<Longrightarrow> is_finite (jsnum_sub x y)"
  "is_finite x \<Longrightarrow> is_finite y \<Longrightarrow> is_finite (jsnum_mul x y)"
  "is_finite x \<Longrightarrow> is_finite y \<Longrightarrow> is_finite (jsnum_max x y)"
  by (auto simp: is_finite_iff)

text \<open>The layout of a canvas in order: its lanes, at finite places.\<close>

lemma layouts_ok:
  assumes "editor_ok ed"
  shows "map ly_lane (edit_layouts e ed) = ca_lanes (edit_canvas ed)"
    and "l \<in> set (edit_layouts e ed) \<Longrightarrow> is_finite (ly_left l)"
proof -
  have fin: "\<forall>n \<in> set (ca_nodes (edit_canvas ed)). \<exists>x. n_x n = Fin x"
    using assms by (auto simp: editor_ok_def parts_sound_def list_all_iff placed_iff)
  note spec = laneLayouts_spec [OF conjunct2 [OF sound_lanes [OF assms]] fin refl]
  have layouts: "edit_layouts e ed = laneLayouts (en_compare e) (en_now e) (ca_nodes (edit_canvas ed))
      (ca_node_lane_by_id (edit_canvas ed)) (ca_lanes (edit_canvas ed))"
    using sound_lanes [OF assms] by (simp add: edit_layouts_def)
  show "map ly_lane (edit_layouts e ed) = ca_lanes (edit_canvas ed)" unfolding layouts by (rule spec(1))
  show "is_finite (ly_left l)" if "l \<in> set (edit_layouts e ed)"
    using spec(3) that unfolding layouts by (metis is_finite.simps(1))
qed

lemma layout_by_id_mem: "map_of (laneLayoutById layouts) k = Some l \<Longrightarrow> l \<in> set layouts"
  unfolding laneLayoutById_def using fold_update_range [of "\<lambda>l. l_id (ly_lane l)" "\<lambda>l. l" layouts k l] by auto

lemma editor_ok_modal: "editor_ok ed \<Longrightarrow> placed (nm_x nm) \<Longrightarrow> placed (nm_y nm) \<Longrightarrow> editor_ok (ed\<lparr>ed_node_modal := nm\<rparr>)"
  by (simp add: editor_ok_def cong: option.case_cong)

lemma create_dialog_ok:
  assumes ed: "editor_ok ed" and "is_finite (pt_x p)" "is_finite (pt_y p)"
  shows "editor_ok (openNodeCreateModal e p ed)"
proof -
  have "placed (jsnum_max (jint NODE_DEFAULT_MARGIN) (jsnum_sub (jsnum_sub (pt_x p) (ly_left l)) (Fin (NODE_WIDTH / 2))))"
    if "map_of (laneLayoutById (edit_layouts e ed)) k = Some l" for k l
    using layouts_ok(2) [OF ed layout_by_id_mem [OF that]] assms(2) by auto
  moreover have "placed (jsnum_max (jint NODE_DEFAULT_MARGIN) (jsnum_sub (jsnum_sub (pt_y p) (Fin HEADER_HEIGHT)) (Fin (NODE_HEIGHT / 2))))"
    using assms(3) by auto
  ultimately show ?thesis using ed by (simp add: openNodeCreateModal_def editor_ok_modal Let_def split: option.split)
qed

definition viewport_ok :: "viewport \<Rightarrow> bool" where
  "viewport_ok v \<longleftrightarrow> is_finite (vp_width v) \<and> is_finite (vp_height v) \<and> is_finite (vp_scroll_left v) \<and> is_finite (vp_scroll_top v)"

lemma render_finite:
  assumes ed: "editor_ok ed" and "map_of (edit_renders e ed) k = Some r"
  shows "is_finite (rl_left r) \<and> is_finite (rl_top r)"
proof -
  let ?ok = "\<lambda>m :: (jsstring \<times> render_layout) list. \<forall>k r. map_of m k = Some r \<longrightarrow> is_finite (rl_left r) \<and> is_finite (rl_top r)"
  have "?ok (nodeRenderLayoutById (edit_layouts e ed) ns m ls)"
    if "\<forall>n \<in> set ns. is_finite (n_x n) \<and> is_finite (n_y n)" for ns m ls
    using that unfolding nodeRenderLayoutById_def
  proof (induction ns rule: rev_induct)
    case (snoc n ns)
    then show ?case
      using layouts_ok(2) [OF ed, of _ e] layout_by_id_mem by (auto simp: Let_def split: option.split if_splits)
  qed simp
  moreover have "\<forall>n \<in> set (ca_nodes (edit_canvas ed)). is_finite (n_x n) \<and> is_finite (n_y n)"
    using ed by (auto simp: editor_ok_def parts_sound_def list_all_iff placed_def)
  ultimately show ?thesis using assms(2) unfolding edit_renders_def by blast
qed

lemma create_from_viewport_ok:
  assumes ed: "editor_ok ed" and "\<forall>v. vp = Some v \<longrightarrow> viewport_ok v"
  shows "editor_ok (openNodeCreateFromViewport e vp ed)"
proof (cases "Option.bind (selectedSingleNodeId ed) (map_of (edit_renders e ed))")
  case None
  then show ?thesis
    using assms by (auto simp: openNodeCreateFromViewport_def viewport_ok_def split: option.split intro!: create_dialog_ok)
next
  case (Some r)
  then have "is_finite (rl_left r) \<and> is_finite (rl_top r)"
    using render_finite [OF ed] by (auto simp: bind_eq_Some_conv)
  then show ?thesis using ed Some by (auto simp: openNodeCreateFromViewport_def intro!: create_dialog_ok)
qed

lemma node_by_id_mem: "map_of (nodeById ed) k = Some n \<Longrightarrow> n \<in> set (ca_nodes (edit_canvas ed)) \<and> n_id n = k"
  unfolding nodeById_def using fold_update_range [of n_id "\<lambda>n. n" _ k n] by auto

lemma edit_dialog_ok: "editor_ok ed \<Longrightarrow> editor_ok (openNodeEditModal e nodeId ed)"
  using parts_soundD(1) node_by_id_mem [of ed]
  by (auto simp: openNodeEditModal_def editor_ok_def [of ed] split: option.split intro!: editor_ok_modal)

lemma edit_selected_ok: "editor_ok ed \<Longrightarrow> editor_ok (openSelectedNodeForEdit e ed)"
  by (simp add: openSelectedNodeForEdit_def edit_dialog_ok Let_def)

lemma lane_dialogs_ok: "editor_ok ed \<Longrightarrow> editor_ok (openLaneCreateModal ed)" "editor_ok ed \<Longrightarrow> editor_ok (openLaneEditModal e i ed)"
  by (simp_all add: openLaneCreateModal_def openLaneEditModal_def Let_def split: option.split)

lemma canvas_point_finite: "toCanvasPoint vp x y = Some p \<Longrightarrow> is_finite (pt_x p) \<and> is_finite (pt_y p)"
  by (auto simp: toCanvasPoint_def Let_def split: option.splits if_splits)

lemma double_click_ok: "editor_ok ed \<Longrightarrow> editor_ok (handleCanvasDoubleClick e vp x y onCard ed)"
  by (auto simp: handleCanvasDoubleClick_def lane_dialogs_ok split: option.split dest: canvas_point_finite intro!: create_dialog_ok)

lemma no_connection_ok: "editor_ok ed \<Longrightarrow> editor_ok (setConnectionDrag None ed)"
  by (simp add: editor_ok_def cong: option.case_cong)

lemma canvas_press_ok: "editor_ok ed \<Longrightarrow> editor_ok (handleCanvasPointerDown onControl ed)"
  by (simp add: handleCanvasPointerDown_def no_connection_ok editor_ok_selection)

section \<open>Changing the canvas\<close>

text \<open>A change of the canvas that keeps it in order keeps the editor in order, if it keeps the lanes and the node a connection starts at.\<close>

lemma editor_ok_canvas:
  assumes "editor_ok ed" and "canvas_sound (edit_canvas ed')"
    and "l_id ` set (ca_lanes (edit_canvas ed)) \<subseteq> l_id ` set (ca_lanes (edit_canvas ed'))"
    and "ed_drag ed' = ed_drag ed" and "nm_x (ed_node_modal ed') = nm_x (ed_node_modal ed)"
    and "nm_y (ed_node_modal ed') = nm_y (ed_node_modal ed)"
    and "connectionDrag ed' = None \<or> connectionDrag ed' = connectionDrag ed \<and>
      n_id ` set (ca_nodes (edit_canvas ed)) \<subseteq> n_id ` set (ca_nodes (edit_canvas ed'))"
  shows "editor_ok ed'"
proof -
  have "drag_ok (edit_canvas ed') ds" if "drag_ok (edit_canvas ed) ds" for ds
    using that assms(3) by (auto simp: drag_ok_def lane_snapshot_ok_def list_all_iff)
  moreover have "case ed_drag ed of None \<Rightarrow> True | Some (ds, _) \<Rightarrow> drag_ok (edit_canvas ed) ds"
    using assms(1) by (simp add: editor_ok_def)
  ultimately have "case ed_drag ed' of None \<Rightarrow> True | Some (ds, _) \<Rightarrow> drag_ok (edit_canvas ed') ds"
    using assms(4) by (auto split: option.splits)
  moreover have "case connectionDrag ed' of None \<Rightarrow> True
      | Some drag \<Rightarrow> ch_node_id (cd_from drag) \<in> n_id ` set (ca_nodes (edit_canvas ed'))"
    using assms(1,7) by (force simp: editor_ok_def split: option.splits)
  ultimately show ?thesis using assms(1,2,5,6) by (simp add: editor_ok_def)
qed

lemma clean_node_mono: "clean_node ids n \<Longrightarrow> ids \<subseteq> ids' \<Longrightarrow> clean_node ids' n"
  by (auto simp: clean_node_def)

lemma nullable_clean: "nullable_ok v \<Longrightarrow> trim_or_null v = v"
  by (cases v) (auto simp: nullable_ok_def name_ok_def trim_or_null_def trim_opt_def trimmed_def non_empty_def)

lemma non_empty_trim [simp]: "nullable_ok (non_empty (trim s))"
  by (simp add: nullable_ok_def name_ok_def non_empty_def)

lemma sound_map:
  assumes "parts_sound ns ls m"
    and f: "\<And>n. n \<in> set ns \<Longrightarrow> clean_node (n_id ` set ns) n \<Longrightarrow> placed (n_x n) \<Longrightarrow> placed (n_y n) \<Longrightarrow>
      n_id (f n) = n_id n \<and> clean_node (n_id ` set ns) (f n) \<and> placed (n_x (f n)) \<and> placed (n_y (f n))"
  shows "parts_sound (map f ns) ls m"
proof -
  note sound = parts_soundD [OF assms(1)]
  have f: "n_id (f n) = n_id n \<and> clean_node (n_id ` set ns) (f n) \<and> placed (n_x (f n)) \<and> placed (n_y (f n))"
    if "n \<in> set ns" for n using f sound(1) that by blast
  then have ids: "map n_id (map f ns) = map n_id ns" by simp
  then have set: "n_id ` set (map f ns) = n_id ` set ns" by (simp only: list.set_map [symmetric] ids)
  show ?thesis
    by (rule parts_soundI) (use sound f ids set in \<open>auto simp del: map_map\<close>)
qed

lemma map_ids: "(\<And>n. n_id (f n) = n_id n) \<Longrightarrow> n_id ` set (map f ns) = n_id ` set ns"
  by (simp add: image_image)

lemma map_lane_ids: "(\<And>l. l_id (f l) = l_id l) \<Longrightarrow> l_id ` set (map f ls) = l_id ` set ls"
  by (simp add: image_image)

lemma edit_lane_mem:
  assumes "editor_ok ed" and "map_of (laneById e ed) k = Some lane"
  shows "lane \<in> set (ca_lanes (edit_canvas ed)) \<and> l_id lane = k"
  using assms(2) fold_update_range [of l_id "\<lambda>l. l" "edit_lanes e ed" k lane] sound_lanes [OF assms(1)]
  by (auto simp: laneById_def)

lemma set_update_subset: "set (AList.update k v m) \<subseteq> insert (k, v) (set m)"
  by (induction m) auto

lemma new_node_simps [simp]:
  "n_id (new_node i t d nm lane x) = i" "n_x (new_node i t d nm lane x) = nm_x nm" "n_y (new_node i t d nm lane x) = nm_y nm"
  by (simp_all add: new_node_def)

lemma sound_add_node:
  assumes "parts_sound ns ls m" and "clean_node (n_id ` set ns) node" and "n_id node \<notin> n_id ` set ns"
    and "placed (n_x node)" "placed (n_y node)" and "laneId \<in> l_id ` set ls"
  shows "parts_sound (ns @ [node]) ls (AList.update (n_id node) laneId m)"
proof (rule parts_soundI)
  note sound = parts_soundD [OF assms(1)]
  show "clean_node (n_id ` set (ns @ [node])) n \<and> placed (n_x n) \<and> placed (n_y n)" if "n \<in> set (ns @ [node])" for n
    using that sound(1) assms(2,4,5) clean_node_mono [of "n_id ` set ns" _ "n_id ` set (ns @ [node])"] by auto
  show "snd ` set (AList.update (n_id node) laneId m) \<subseteq> l_id ` set ls"
    using image_mono [OF set_update_subset [of "n_id node" laneId m], of snd] sound(7) assms(6) by auto
qed (use parts_soundD [OF assms(1)] assms(3) in simp_all)

lemma save_node_ok:
  assumes ed: "editor_ok ed" and id: "name_ok nodeId" "nodeId \<notin> n_id ` set (ca_nodes (edit_canvas ed))"
  shows "editor_ok (handleSaveNodeModal e nodeId ed)"
proof -
  let ?nm = "ed_node_modal ed" and ?ca = "edit_canvas ed"
  let ?lane = "map_of (laneById e ed) (trim (nm_lane_id ?nm))"
  let ?node = "new_node nodeId (trim (nm_title ?nm)) (trim (nm_description ?nm)) ?nm ?lane (ca_executor ?ca)"
  have sound: "canvas_sound ?ca" "placed (nm_x ?nm)" "placed (nm_y ?nm)" using ed by (simp_all add: editor_ok_def)
  have add: "parts_sound (ca_nodes ?ca @ [?node]) (ca_lanes ?ca) (AList.update nodeId (trim (nm_lane_id ?nm)) (ca_node_lane_by_id ?ca))"
    if has: "map_has (laneById e ed) (trim (nm_lane_id ?nm))" and title: "trim (nm_title ?nm) \<noteq> []"
  proof -
    obtain lane where lane: "?lane = Some lane" using has by (auto simp: map_has_iff) (metis map_of_eq_None_iff not_Some_eq fst_conv image_eqI)
    then have mem: "lane \<in> set (ca_lanes ?ca)" "l_id lane = trim (nm_lane_id ?nm)" using edit_lane_mem [OF ed] by blast+
    then have "nullable_ok (l_agent_id lane)" "nullable_ok (l_instance_id lane)"
      using sound(1) by (auto simp: parts_sound_def list_all_iff lane_in_order_def)
    then have "clean_node (n_id ` set (ca_nodes ?ca)) ?node"
      using id(1) title sound lane
      by (auto simp: clean_node_def new_node_def name_ok_def placed_def nullable_clean split: option.split)
    then show ?thesis
      using sound_add_node [OF sound(1), of ?node "trim (nm_lane_id ?nm)"] id(2) sound mem
      by (metis image_eqI new_node_simps)
  qed
  have edit: "parts_sound (map (\<lambda>node. if Some (n_id node) = i
      then node\<lparr>n_title := trim (nm_title ?nm), n_description := d, n_sensitive := b\<rparr> else node) (ca_nodes ?ca)) (ca_lanes ?ca) (ca_node_lane_by_id ?ca)"
    if "trim (nm_title ?nm) \<noteq> []" for i d b
    by (rule sound_map [OF sound(1)]) (use that in \<open>auto simp: clean_node_def\<close>)
  show ?thesis
    using ed add edit map_ids [of "\<lambda>node. if Some (n_id node) = nm_node_id ?nm then node\<lparr>n_title := trim (nm_title ?nm),
      n_description := Some (trim (nm_description ?nm)), n_sensitive := nm_sensitive ?nm\<rparr> else node" "ca_nodes ?ca"]
    by (auto simp: handleSaveNodeModal_def Let_def intro!: editor_ok_canvas [OF ed])
qed

lemma save_lane_ok:
  assumes ed: "editor_ok ed" and id: "name_ok laneId" "laneId \<notin> l_id ` set (ca_lanes (edit_canvas ed))"
  shows "editor_ok (handleSaveLaneModal e laneId ed)"
proof -
  let ?lm = "ed_lane_modal ed" and ?ca = "edit_canvas ed"
  define name where "name = str_or (trim (lm_name ?lm)) unnamed_lane"
  define agent where "agent = non_empty (trim (lm_agent_id ?lm))"
  define instance_id where "instance_id = (if agent \<noteq> None then non_empty (trim (lm_instance_id ?lm)) else None)"
  have sound: "canvas_sound ?ca" using ed by (simp add: editor_ok_def)
  have "trimmed unnamed_lane" "unnamed_lane \<noteq> []"
    by (simp_all add: unnamed_lane_def trimmed_def trim_def js_white_def)
  then have "name_ok name" by (simp add: name_def name_ok_def str_or_def)
  moreover have "nullable_ok agent" by (simp add: agent_def)
  moreover have "nullable_ok instance_id" by (simp add: instance_id_def) (simp add: nullable_ok_def)
  ultimately have ok: "name_ok name" "nullable_ok agent" "nullable_ok instance_id" .
  note D = parts_soundD [OF sound]
  have add: "parts_sound (ca_nodes ?ca) (ca_lanes ?ca @
      [\<lparr>l_id = laneId, l_name = name, l_instance_id = instance_id, l_agent_id = agent, l_created_at = en_now e\<rparr>]) (ca_node_lane_by_id ?ca)"
    by (rule parts_soundI) (use D id ok in \<open>auto simp: lane_in_order_def\<close>)
  have edit: "parts_sound (map (\<lambda>node. if P node then node
        else node\<lparr>n_instance_id := (if instance_id \<noteq> None then instance_id else n_instance_id node),
          n_agent_id := (if agent \<noteq> None then agent else n_agent_id node)\<rparr>) (ca_nodes ?ca))
      (map (\<lambda>lane. if Some (l_id lane) = i then lane\<lparr>l_name := name, l_instance_id := instance_id, l_agent_id := agent\<rparr> else lane) (ca_lanes ?ca))
      (ca_node_lane_by_id ?ca)"
    (is "parts_sound (map ?f _) (map ?g _) _") for i P
  proof -
    have nodes: "parts_sound (map ?f (ca_nodes ?ca)) (ca_lanes ?ca) (ca_node_lane_by_id ?ca)"
      by (rule sound_map [OF sound]) (use ok nullable_clean in \<open>auto simp: clean_node_def\<close>)
    have lanes: "map l_id (map ?g (ca_lanes ?ca)) = map l_id (ca_lanes ?ca)" by simp
    then have lane_ids: "l_id ` set (map ?g (ca_lanes ?ca)) = l_id ` set (ca_lanes ?ca)" by (simp only: list.set_map [symmetric] lanes)
    have "list_all lane_in_order (map ?g (ca_lanes ?ca))"
      using D(4) ok by (auto simp: list_all_iff lane_in_order_def)
    moreover have "distinct (map l_id (map ?g (ca_lanes ?ca)))" unfolding lanes by (rule D(5))
    moreover have "snd ` set (ca_node_lane_by_id ?ca) \<subseteq> l_id ` set (map ?g (ca_lanes ?ca))" unfolding lane_ids by (rule D(7))
    ultimately show ?thesis
      using parts_soundD(1,2,6) [OF nodes] D(3) by (intro parts_soundI) (assumption | blast | simp only: map_is_Nil_conv)+
  qed
  have ids: "l_id ` set (map (\<lambda>lane. if Some (l_id lane) = i then lane\<lparr>l_name := name, l_instance_id := instance_id, l_agent_id := agent\<rparr>
      else lane) ls) = l_id ` set ls" for i ls by (rule map_lane_ids) simp
  note unfold = handleSaveLaneModal_def Let_def name_def [symmetric] agent_def [symmetric] instance_id_def [symmetric]
  show ?thesis
    using ed add edit ids [of "lm_lane_id ?lm" "ca_lanes ?ca"] map_ids [of "\<lambda>node. if Some (edit_lane_of e ed (n_id node)) \<noteq> lm_lane_id ?lm
      then node else node\<lparr>n_instance_id := (if instance_id \<noteq> None then instance_id else n_instance_id node),
        n_agent_id := (if agent \<noteq> None then agent else n_agent_id node)\<rparr>" "ca_nodes ?ca"]
    unfolding unfold by (auto intro!: editor_ok_canvas [OF ed])
qed

lemma without_dependencies_simps [simp]:
  "n_id (without_dependencies gone n) = n_id n" "n_x (without_dependencies gone n) = n_x n" "n_y (without_dependencies gone n) = n_y n"
  "set (n_depends_on (without_dependencies gone n)) = set (n_depends_on n) - gone"
  by (auto simp: without_dependencies_def)

lemma clean_without: "clean_node ids n \<Longrightarrow> ids - gone \<subseteq> ids' \<Longrightarrow> clean_node ids' (without_dependencies gone n)"
  by (auto simp: clean_node_def without_dependencies_def)

lemma delete_ok:
  assumes ed: "editor_ok ed"
  shows "editor_ok (handleDeleteNodes nodeIds ed)"
proof -
  let ?ca = "edit_canvas ed" and ?gone = "set nodeIds"
  let ?ns = "filter (\<lambda>node. n_id node \<notin> ?gone) (ca_nodes ?ca)"
  have sound: "canvas_sound ?ca" using ed by (simp add: editor_ok_def)
  let ?ns' = "map (without_dependencies ?gone) ?ns"
  have ids: "map n_id ?ns' = filter (\<lambda>i. i \<notin> ?gone) (map n_id (ca_nodes ?ca))" by (simp add: filter_map comp_def)
  have set: "n_id ` set ?ns' = n_id ` set (ca_nodes ?ca) - ?gone" by (auto simp: image_image)
  have "parts_sound ?ns' (ca_lanes ?ca) (filter (\<lambda>(i, _). i \<notin> ?gone) (ca_node_lane_by_id ?ca))"
  proof (rule parts_soundI)
    note D = parts_soundD [OF sound]
    show "clean_node (n_id ` set ?ns') n \<and> placed (n_x n) \<and> placed (n_y n)" if "n \<in> set ?ns'" for n
      using D(1) that clean_without unfolding set by fastforce
    show "distinct (map n_id ?ns')" using D(2) unfolding ids by simp
    show "fst ` set (filter (\<lambda>(i, _). i \<notin> ?gone) (ca_node_lane_by_id ?ca)) = n_id ` set ?ns'"
      unfolding set D(6) [symmetric] by force
  qed (use parts_soundD [OF sound] in auto)
  then show ?thesis
    using ed by (auto simp: handleDeleteNodes_def intro!: editor_ok_canvas [OF ed])
qed

lemma remove_edge_ok:
  assumes ed: "editor_ok ed"
  shows "editor_ok (handleRemoveEdge edgeId ed)"
proof -
  let ?ca = "edit_canvas ed"
  have "parts_sound (map (\<lambda>node. if n_id node = t then without_dependencies {s} node else node) (ca_nodes ?ca)) (ca_lanes ?ca)
      (ca_node_lane_by_id ?ca)" for s t
    using ed by (intro sound_map) (auto simp: editor_ok_def intro: clean_without)
  moreover have "n_id ` set (map (\<lambda>node. if n_id node = t then without_dependencies {s} node else node) ns) = n_id ` set ns" for s t ns
    by (rule map_ids) simp
  ultimately show ?thesis
    using ed by (auto simp: handleRemoveEdge_def split: option.split intro!: editor_ok_canvas [OF ed])
qed

text \<open>A new dependency keeps the canvas in order: no edge is drawn for it yet, so the node does not have it yet.\<close>

lemma connect_ok:
  assumes ed: "editor_ok ed" and distinct: "edge_ids_distinct (edit_canvas ed)" and commit: "commitConnectionToHandle handle ed = Some ed'"
  shows "editor_ok ed'"
proof -
  let ?ca = "edit_canvas ed" and ?t = "ch_node_id handle"
  obtain drag where drag: "connectionDrag ed = Some drag" using commit by (auto simp: commitConnectionToHandle_def split: option.splits)
  let ?s = "ch_node_id (cd_from drag)"
  let ?f = "\<lambda>node. if n_id node = ?t then node\<lparr>n_depends_on := n_depends_on node @ [?s]\<rparr> else node"
  have source: "?s \<in> n_id ` set (ca_nodes ?ca)" using ed drag by (simp add: editor_ok_def)
  then obtain start where start: "start \<in> set (ca_nodes ?ca)" "n_id start = ?s" by auto
  have name: "?s \<noteq> []" "trimmed ?s" using ed start by (auto simp: editor_ok_def parts_sound_def list_all_iff clean_node_def)
  have sound: "parts_sound (map ?f (ca_nodes ?ca)) (ca_lanes ?ca) (ca_node_lane_by_id ?ca)"
    if new: "?s \<noteq> ?t" "\<not> list_ex (\<lambda>edge. e_source edge = ?s \<and> e_target edge = ?t) (page_edges (ed_page ed))"
  proof (rule sound_map)
    fix n assume n: "n \<in> set (ca_nodes ?ca)" "clean_node (n_id ` set (ca_nodes ?ca)) n" "placed (n_x n)" "placed (n_y n)"
    have "?s \<notin> set (n_depends_on n)" if "n_id n = ?t"
    proof
      assume "?s \<in> set (n_depends_on n)"
      then have "(?s, n_id n) \<in> flow_edges (ca_nodes ?ca)" using n(1) that source new(1) by (intro flow_edgesI) simp_all
      then have "(?s, ?t) \<in> flow_edges (ca_nodes ?ca)" by (simp only: that)
      then have "(?s, ?t) \<in> (\<lambda>e. (e_source e, e_target e)) ` set (page_edges (ed_page ed))"
        using page_edges_exact [of "ed_page ed"] distinct by (simp only: page_canvas)
      then show False using new(2) by (force simp: list_ex_iff)
    qed
    then show "n_id (?f n) = n_id n \<and> clean_node (n_id ` set (ca_nodes ?ca)) (?f n) \<and> placed (n_x (?f n)) \<and> placed (n_y (?f n))"
      using n(2-4) name source new(1) unfolding clean_node_def by (cases "n_id n = ?t") auto
  qed (use ed in \<open>simp add: editor_ok_def\<close>)
  have "canvas_sound ?ca" using ed by (simp add: editor_ok_def)
  then show ?thesis
    using commit drag sound map_ids [of ?f "ca_nodes ?ca"]
    by (auto simp: commitConnectionToHandle_def Let_def split: if_splits intro!: editor_ok_canvas [OF ed])
qed

lemma connector_press_ok:
  assumes ed: "editor_ok ed" and "ch_node_id handle \<in> n_id ` set (ca_nodes (edit_canvas ed))"
  shows "editor_ok (handleConnectorPointerDown vp i x y handle ed)"
proof -
  have "editor_ok (setConnectionDrag (Some \<lparr>cd_pointer = i, cd_from = handle, cd_x = a, cd_y = b\<rparr>) ed)" for a b
    using assms by (simp add: editor_ok_def cong: option.case_cong)
  then show ?thesis using ed by (simp add: handleConnectorPointerDown_def editor_ok_selection split: option.split)
qed

lemma connector_release_ok:
  assumes "editor_ok ed" and "edge_ids_distinct (edit_canvas ed)"
  shows "editor_ok (handleConnectorPointerUp i handle ed)"
proof (cases "commitConnectionToHandle handle ed")
  case (Some ed')
  then show ?thesis using assms connect_ok [OF assms Some] by (simp add: handleConnectorPointerUp_def split: option.split)
qed (use assms in \<open>simp add: handleConnectorPointerUp_def split: option.split\<close>)

lemma connection_move_ok:
  assumes ed: "editor_ok ed"
  shows "editor_ok (connection_pointer_move vp i x y ed)"
proof -
  have "editor_ok (setConnectionDrag (Some (drag\<lparr>cd_x := a, cd_y := b\<rparr>)) ed)" if "connectionDrag ed = Some drag" for drag a b
    using ed that by (simp add: editor_ok_def cong: option.case_cong)
  then show ?thesis using ed by (simp add: connection_pointer_move_def split: option.split)
qed

lemma connection_release_ok:
  assumes "editor_ok ed" and "edge_ids_distinct (edit_canvas ed)"
  shows "editor_ok (connection_pointer_up i elements ed)"
  using assms connect_ok no_connection_ok
  by (auto simp: connection_pointer_up_def bind_eq_Some_conv split: option.split)

section \<open>Dragging\<close>

lemma drag_origins_snoc:
  "drag_origins e ed (ids @ [i]) = (case map_of (nodeById ed) i of None \<Rightarrow> drag_origins e ed ids
     | Some node \<Rightarrow> AList.update i
         \<lparr>og_global_x = jsnum_add (case map_of (laneLayoutById (edit_layouts e ed)) (edit_lane_of e ed (n_id node)) of
            Some layout \<Rightarrow> ly_left layout | None \<Rightarrow> Fin 0) (n_x node),
          og_y = n_y node, og_lane_id = edit_lane_of e ed (n_id node)\<rparr> (drag_origins e ed ids))"
  by (cases "map_of (nodeById ed) i") (simp_all add: drag_origins_def Let_def)

lemma drag_origins_finite:
  assumes ed: "editor_ok ed"
  shows "(k, origin) \<in> set (drag_origins e ed ids) \<Longrightarrow> is_finite (og_global_x origin) \<and> is_finite (og_y origin)"
proof (induction ids arbitrary: k origin rule: rev_induct)
  case (snoc i ids)
  show ?case
  proof (cases "map_of (nodeById ed) i")
    case (Some node)
    define left where "left = (case map_of (laneLayoutById (edit_layouts e ed)) (edit_lane_of e ed (n_id node)) of
      Some layout \<Rightarrow> ly_left layout | None \<Rightarrow> Fin 0)"
    let ?o = "\<lparr>og_global_x = jsnum_add left (n_x node), og_y = n_y node, og_lane_id = edit_lane_of e ed (n_id node)\<rparr>"
    have "is_finite left" using layouts_ok(2) [OF ed layout_by_id_mem] by (auto simp: left_def split: option.split)
    moreover have "placed (n_x node) \<and> placed (n_y node)"
      using ed node_by_id_mem [OF Some] by (auto simp: editor_ok_def dest: parts_soundD(1))
    ultimately have "is_finite (og_global_x ?o) \<and> is_finite (og_y ?o)" by (auto simp: placed_def)
    moreover have "(k, origin) \<in> insert (i, ?o) (set (drag_origins e ed ids))"
      using snoc.prems set_update_subset [of i ?o "drag_origins e ed ids"] by (auto simp: drag_origins_snoc Some left_def)
    ultimately show ?thesis using snoc.IH by auto
  qed (use snoc in \<open>simp add: drag_origins_snoc\<close>)
qed (simp add: drag_origins_def)

lemma node_press_ok:
  assumes ed: "editor_ok ed" and "is_finite (np_x press)" "is_finite (np_y press)"
  shows "editor_ok (handleNodePointerDown e press nodeId ed)"
proof -
  let ?ds = "\<lambda>ids. \<lparr>ds_pointer = np_pointer press, ds_start_x = np_x press, ds_start_y = np_y press, ds_node_ids = ids,
    ds_origins = drag_origins e ed ids, ds_lanes = map drag_lane_of (edit_layouts e ed)\<rparr>"
  have lanes: "lane_snapshot_ok (edit_canvas ed) (drag_lane_of l)" if "l \<in> set (edit_layouts e ed)" for l
  proof -
    have "ly_lane l \<in> set (ca_lanes (edit_canvas ed))" using that layouts_ok(1) [OF ed, of e] by (metis image_eqI list.set_map)
    then show ?thesis
      using layouts_ok(2) [OF ed that] ed
      by (auto simp: lane_snapshot_ok_def drag_lane_of_def editor_ok_def lane_in_order_def list_all_iff dest!: parts_soundD(4))
  qed
  moreover have "edit_layouts e ed \<noteq> []" using layouts_ok(1) [OF ed, of e] sound_lanes [OF ed] by (metis list.simps(8))
  ultimately have drag: "drag_ok (edit_canvas ed) (?ds ids)" for ids
    using assms(2,3) drag_origins_finite [OF ed] by (auto simp: drag_ok_def list_all_iff)
  show ?thesis
    using ed drag by (simp add: handleNodePointerDown_def editor_ok_def Let_def cong: option.case_cong)
qed

lemma find_mem: "find P xs = Some x \<Longrightarrow> x \<in> set xs"
  by (auto simp: find_Some_iff)

lemma drag_target_mem: "ds_lanes ds \<noteq> [] \<Longrightarrow> \<exists>lane \<in> set (ds_lanes ds). drag_target ds dx origin = Some lane"
  by (auto simp: drag_target_def findLaneLayoutForCenterX_def dest: find_mem split: option.split)

lemma lane_updates_snoc:
  "lane_updates ds dx (ns @ [node]) = (case drag_origin_of ds node of None \<Rightarrow> lane_updates ds dx ns
     | Some origin \<Rightarrow> AList.update (n_id node) (case drag_target ds dx origin of Some lane \<Rightarrow> dg_lane_id lane | None \<Rightarrow> og_lane_id origin)
         (lane_updates ds dx ns))"
  by (cases "drag_origin_of ds node") (simp_all add: lane_updates_def)

lemma lane_updates_mem:
  assumes "drag_ok ca ds"
  shows "(i, l) \<in> set (lane_updates ds dx ns) \<Longrightarrow> i \<in> n_id ` set ns \<and> l \<in> l_id ` set (ca_lanes ca)"
proof (induction ns rule: rev_induct)
  case (snoc n ns)
  show ?case
  proof (cases "drag_origin_of ds n")
    case (Some origin)
    obtain lane where lane: "lane \<in> set (ds_lanes ds)" "drag_target ds dx origin = Some lane"
      using drag_target_mem assms unfolding drag_ok_def by blast
    then have "dg_lane_id lane \<in> l_id ` set (ca_lanes ca)" using assms by (auto simp: drag_ok_def lane_snapshot_ok_def list_all_iff)
    moreover have "(i, l) \<in> insert (n_id n, dg_lane_id lane) (set (lane_updates ds dx ns))"
      using snoc.prems set_update_subset [of "n_id n" "dg_lane_id lane" "lane_updates ds dx ns"] by (auto simp: lane_updates_snoc Some lane(2))
    ultimately show ?thesis using snoc.IH by auto
  qed (use snoc in \<open>auto simp: lane_updates_snoc\<close>)
qed (simp add: lane_updates_def)

lemma updates_fold: "AList.updates (map fst us) (map snd us) m = fold (\<lambda>(k, v). AList.update k v) us m"
  by (simp add: AList.updates_def zip_map_fst_snd)

lemma updates_subset: "set (AList.updates (map fst us) (map snd us) m) \<subseteq> set us \<union> set m"
  unfolding updates_fold
proof (induction us rule: rev_induct)
  case (snoc u us)
  obtain k v where u: "u = (k, v)" by (cases u)
  show ?case using snoc.IH set_update_subset [of k v "fold (\<lambda>(k, v). AList.update k v) us m"] by (auto simp: u)
qed simp

lemma updates_keys: "fst ` set (AList.updates (map fst us) (map snd us) m) = fst ` set us \<union> fst ` set m"
  unfolding updates_fold by (induction us rule: rev_induct) (auto split: prod.split)

lemma dragged_node_clean:
  assumes "drag_ok ca ds" and "(n_id n, origin) \<in> set (ds_origins ds)" and "clean_node ids n" "is_finite dx" "is_finite dy"
  shows "clean_node ids (dragged_node ds dx dy origin n) \<and> placed (n_x (dragged_node ds dx dy origin n)) \<and> placed (n_y (dragged_node ds dx dy origin n))"
proof -
  obtain lane where lane: "lane \<in> set (ds_lanes ds)" "drag_target ds dx origin = Some lane"
    using drag_target_mem assms(1) unfolding drag_ok_def by blast
  then have "is_finite (dg_left lane)" "nullable_ok (dg_instance_id lane)" "nullable_ok (dg_agent_id lane)"
    and "is_finite (og_global_x origin)" "is_finite (og_y origin)"
    using assms(1,2) by (auto simp: drag_ok_def lane_snapshot_ok_def list_all_iff)
  moreover from this have "placed (n_x (dragged_node ds dx dy origin n))" "placed (n_y (dragged_node ds dx dy origin n))"
    using lane assms(4,5) by (auto simp: dragged_node_def Let_def)
  moreover from this have "is_finite (n_x (dragged_node ds dx dy origin n))" "is_finite (n_y (dragged_node ds dx dy origin n))"
    by (simp_all add: placed_def)
  ultimately show ?thesis
    using assms(3) lane by (simp add: clean_node_def dragged_node_def Let_def nullable_clean)
qed

lemma drag_node_id [simp]: "n_id (drag_node ds dx dy n) = n_id n"
  by (simp add: drag_node_def dragged_node_def Let_def split: option.split)

lemma drag_move_ok:
  assumes ed: "editor_ok ed" and fin: "is_finite x" "is_finite y"
  shows "editor_ok (drag_pointer_move eager i x y ed)"
proof (cases "ed_drag ed")
  case (Some d)
  obtain ds exceeded where d: "d = (ds, exceeded)" by (cases d)
  let ?ca = "edit_canvas ed" and ?dx = "jsnum_sub x (ds_start_x ds)" and ?dy = "jsnum_sub y (ds_start_y ds)"
  define us where "us = (if eager then lane_updates ds ?dx (ca_nodes ?ca) else [])"
  have drag: "drag_ok ?ca ds" using ed Some d by (simp add: editor_ok_def)
  then have delta: "is_finite ?dx" "is_finite ?dy" using fin by (auto simp: drag_ok_def)
  have sound: "canvas_sound ?ca" using ed by (simp add: editor_ok_def)
  have nodes: "parts_sound (map (drag_node ds ?dx ?dy) (ca_nodes ?ca)) (ca_lanes ?ca) (ca_node_lane_by_id ?ca)"
  proof (rule sound_map [OF sound])
    fix n assume n: "clean_node (n_id ` set (ca_nodes ?ca)) n" "placed (n_x n)" "placed (n_y n)"
    have "(n_id n, origin) \<in> set (ds_origins ds)" if "drag_origin_of ds n = Some origin" for origin
      using that by (auto simp: drag_origin_of_def dest: map_of_SomeD split: if_splits)
    then have "clean_node (n_id ` set (ca_nodes ?ca)) (drag_node ds ?dx ?dy n) \<and> placed (n_x (drag_node ds ?dx ?dy n)) \<and>
        placed (n_y (drag_node ds ?dx ?dy n))"
      using dragged_node_clean [OF drag _ n(1) delta] n by (simp add: drag_node_def split: option.split)
    then show "n_id (drag_node ds ?dx ?dy n) = n_id n \<and> clean_node (n_id ` set (ca_nodes ?ca)) (drag_node ds ?dx ?dy n) \<and>
        placed (n_x (drag_node ds ?dx ?dy n)) \<and> placed (n_y (drag_node ds ?dx ?dy n))" by simp
  qed
  have us: "i \<in> n_id ` set (ca_nodes ?ca) \<and> l \<in> l_id ` set (ca_lanes ?ca)" if "(i, l) \<in> set us" for i l
    using that lane_updates_mem [OF drag] by (auto simp: us_def split: if_splits)
  let ?m = "AList.updates (map fst us) (map snd us) (ca_node_lane_by_id ?ca)"
  have "parts_sound (map (drag_node ds ?dx ?dy) (ca_nodes ?ca)) (ca_lanes ?ca) ?m"
  proof (rule parts_soundI)
    note D = parts_soundD [OF nodes]
    show "fst ` set ?m = n_id ` set (map (drag_node ds ?dx ?dy) (ca_nodes ?ca))"
      using D(6) us by (force simp: updates_keys image_image)
    show "snd ` set ?m \<subseteq> l_id ` set (ca_lanes ?ca)"
      using D(7) us updates_subset [of us "ca_node_lane_by_id ?ca"] by force
  qed (use parts_soundD [OF nodes] in blast)+
  moreover have "drag_ok (?ca\<lparr>ca_nodes := ns, ca_node_lane_by_id := m\<rparr>) ds" for ns m
    using drag by (simp add: drag_ok_def lane_snapshot_ok_def list_all_iff)
  ultimately show ?thesis
    using ed nodes by (simp add: drag_pointer_move_def Some d Let_def us_def [symmetric] editor_ok_def image_image cong: option.case_cong)
qed (use ed in \<open>simp add: drag_pointer_move_def\<close>)

lemma drag_release_ok: "editor_ok ed \<Longrightarrow> editor_ok (drag_pointer_up i ed)"
  by (auto simp: drag_pointer_up_def editor_ok_def split: option.split cong: option.case_cong)

lemma key_ok: "editor_ok ed \<Longrightarrow> editor_ok (handleKeyDown key typing ed)"
  by (simp add: handleKeyDown_def delete_ok remove_edge_ok)

lemma selection_ok:
  "editor_ok ed \<Longrightarrow> editor_ok (drop_stale_edge_selection ed)" "editor_ok ed \<Longrightarrow> editor_ok (handleSelectEdge i ed)"
  "editor_ok ed \<Longrightarrow> editor_ok (handleSelectNode i shift ed)"
  by (simp_all add: drop_stale_edge_selection_def handleSelectEdge_def handleSelectNode_def editor_ok_selection Let_def)

section \<open>Everything a user can do with the canvas\<close>

text \<open>
  One rule per handler; the premises say what the browser and the generator of ids provide: coordinates that
  are numbers, connectors of nodes that are drawn, and ids that are not in use.
\<close>

inductive edit_step :: "editor \<Rightarrow> editor \<Rightarrow> bool" where
  create_dialog: "\<forall>v. vp = Some v \<longrightarrow> viewport_ok v \<Longrightarrow> edit_step ed (openNodeCreateFromViewport e vp ed)"
| edit_dialog: "edit_step ed (openNodeEditModal e nodeId ed)"
| edit_selected: "edit_step ed (openSelectedNodeForEdit e ed)"
| create_lane_dialog: "edit_step ed (openLaneCreateModal ed)"
| edit_lane_dialog: "edit_step ed (openLaneEditModal e laneId ed)"
| double_click: "edit_step ed (handleCanvasDoubleClick e vp x y onCardOrTitle ed)"
| canvas_press: "edit_step ed (handleCanvasPointerDown onControl ed)"
| fill_node_form: "nm_x nm = nm_x (ed_node_modal ed) \<Longrightarrow> nm_y nm = nm_y (ed_node_modal ed) \<Longrightarrow> edit_step ed (ed\<lparr>ed_node_modal := nm\<rparr>)"
| fill_lane_form: "edit_step ed (ed\<lparr>ed_lane_modal := lm\<rparr>)"
| save_node: "name_ok nodeId \<Longrightarrow> nodeId \<notin> n_id ` set (ca_nodes (edit_canvas ed)) \<Longrightarrow> edit_step ed (handleSaveNodeModal e nodeId ed)"
| save_lane: "name_ok laneId \<Longrightarrow> laneId \<notin> l_id ` set (ca_lanes (edit_canvas ed)) \<Longrightarrow> edit_step ed (handleSaveLaneModal e laneId ed)"
| delete: "edit_step ed (handleDeleteNodes nodeIds ed)"
| remove_edge: "edit_step ed (handleRemoveEdge edgeId ed)"
| connector_press: "ch_node_id handle \<in> n_id ` set (ca_nodes (edit_canvas ed)) \<Longrightarrow>
    edit_step ed (handleConnectorPointerDown vp i x y handle ed)"
| connector_release: "edge_ids_distinct (edit_canvas ed) \<Longrightarrow> edit_step ed (handleConnectorPointerUp i handle ed)"
| connection_move: "edit_step ed (connection_pointer_move vp i x y ed)"
| connection_release: "edge_ids_distinct (edit_canvas ed) \<Longrightarrow> edit_step ed (connection_pointer_up i elements ed)"
| node_press: "is_finite (np_x press) \<Longrightarrow> is_finite (np_y press) \<Longrightarrow> edit_step ed (handleNodePointerDown e press nodeId ed)"
| drag_move: "is_finite x \<Longrightarrow> is_finite y \<Longrightarrow> edit_step ed (drag_pointer_move eager i x y ed)"
| drag_release: "edit_step ed (drag_pointer_up i ed)"
| key: "edit_step ed (handleKeyDown k typing ed)"
| stale_selection: "edit_step ed (drop_stale_edge_selection ed)"
| select_edge: "edit_step ed (handleSelectEdge edgeId ed)"
| select_node: "edit_step ed (handleSelectNode nodeId shift ed)"

lemmas edits_keep_order = create_from_viewport_ok edit_dialog_ok edit_selected_ok lane_dialogs_ok double_click_ok canvas_press_ok
  save_node_ok save_lane_ok delete_ok remove_edge_ok connector_press_ok connector_release_ok connection_move_ok connection_release_ok
  node_press_ok drag_move_ok drag_release_ok key_ok selection_ok

lemma edit_step_ok: "edit_step ed ed' \<Longrightarrow> editor_ok ed \<Longrightarrow> editor_ok ed'"
proof (induction rule: edit_step.induct)
  case (fill_node_form nm ed)
  then show ?case by (intro editor_ok_modal) (simp_all add: editor_ok_def)
qed (simp_all add: edits_keep_order)

lemma edit_steps_ok: "edit_step\<^sup>*\<^sup>* ed ed' \<Longrightarrow> editor_ok ed \<Longrightarrow> editor_ok ed'"
  by (induction rule: rtranclp_induct) (blast intro: edit_step_ok)+

text \<open>
  C9: Whatever is done with the canvas and its dialogs, in any order and any number of times, the canvas stays
  in order: ids are distinct, every node has a title, finite coordinates that are not negative and a lane that exists, and
  depends only on other nodes of the canvas, on each at most once. So what the autosave stores of it comes back unchanged
  (\<open>canvas_in_order\<close>). Two things are asked of the ids: an id given to a new node or lane is not blank and not in use, and
  a connection is drawn only while \<open>edge-source-target\<close> tells the edges between the nodes apart (\<open>edge_ids_distinct\<close>).
  Without the latter, which ids with hyphens can break, the test for an edge that is already drawn misses, and a
  dependency is entered a second time.
\<close>

theorem editing_keeps_order:
  assumes "edit_step\<^sup>*\<^sup>* ed ed'" and "editor_ok ed"
  shows "editor_ok ed' \<and> (ca_nodes (edit_canvas ed') = [] \<or> canvas_in_order (edit_canvas ed'))"
  using edit_steps_ok [OF assms] canvas_sound_in_order by (auto simp: editor_ok_def)

definition sample_editor :: editor where
  "sample_editor = \<lparr>ed_page = ordered_page,
     ed_node_modal = \<lparr>nm_open = True, nm_edit = False, nm_node_id = None, nm_lane_id = js ''l'', nm_x = jint 24, nm_y = jint 200,
       nm_title = js ''B'', nm_description = [], nm_sensitive = False\<rparr>,
     ed_lane_modal = \<lparr>lm_open = False, lm_edit = False, lm_lane_id = None, lm_name = [], lm_instance_id = [], lm_agent_id = []\<rparr>,
     ed_drag = None, ed_connection = None\<rparr>"

lemma sample_editor_canvas: "edit_canvas sample_editor = canvas_of ordered_page"
  by (simp add: edit_canvas_def sample_editor_def)

lemmas sample_editor_simps = sample_editor_canvas ordered_page_canvas ordered_lane_def sample_node_def

lemma sample_editor_ok: "editor_ok sample_editor"
proof -
  have "canvas_sound (edit_canvas sample_editor)"
    by (rule parts_soundI) (simp_all add: sample_editor_simps clean_node_def lane_in_order_def
      name_ok_def nullable_ok_def trimmed_def trim_or_null_def trim_opt_def non_empty_def char_white_def jint_def placed_def)
  then show ?thesis
    by (simp add: editor_ok_def) (simp add: sample_editor_def connectionDrag_def ordered_page_def sample_page_def placed_def jint_def)
qed

theorem editing_keeps_order_witness:
  "canvas_in_order (edit_canvas (handleSaveNodeModal sample_env (js ''b'') sample_editor)) \<and>
   map n_id (ca_nodes (edit_canvas (handleSaveNodeModal sample_env (js ''b'') sample_editor))) = [js ''a'', js ''b'']"
proof -
  have "name_ok (js ''b'')" by (simp add: name_ok_def trimmed_def char_white_def)
  moreover have "js ''b'' \<notin> n_id ` set (ca_nodes (edit_canvas sample_editor))" by (simp add: sample_editor_simps)
  ultimately have step: "edit_step sample_editor (handleSaveNodeModal sample_env (js ''b'') sample_editor)" by (rule save_node)
  have "map_has (laneById sample_env sample_editor) (js ''l'')"
    using sound_lanes [OF sample_editor_ok] by (simp add: laneById_def map_has_def sample_editor_simps)
  then have ids: "map n_id (ca_nodes (edit_canvas (handleSaveNodeModal sample_env (js ''b'') sample_editor))) = [js ''a'', js ''b'']"
    by (simp add: handleSaveNodeModal_def Let_def char_white_def sample_editor_simps)
      (simp add: sample_editor_def char_white_def)
  show ?thesis
    using editing_keeps_order [OF r_into_rtranclp [of edit_step, OF step] sample_editor_ok] ids by auto
qed

section \<open>The graph of dependencies\<close>

text \<open>What the canvas shows: its nodes and the pairs of nodes an edge is drawn between.\<close>

definition drawn_graph :: "editor \<Rightarrow> jsstring set \<times> (jsstring \<times> jsstring) set" where
  "drawn_graph ed = (n_id ` set (ca_nodes (edit_canvas ed)), (\<lambda>e. (e_source e, e_target e)) ` set (page_edges (ed_page ed)))"

definition graph_delete :: "'v set \<Rightarrow> 'v set \<times> ('v \<times> 'v) set \<Rightarrow> 'v set \<times> ('v \<times> 'v) set" where
  "graph_delete gone g = (fst g - gone, {(s, t) \<in> snd g. s \<notin> gone \<and> t \<notin> gone})"

definition graph_connect :: "'v \<times> 'v \<Rightarrow> 'v set \<times> ('v \<times> 'v) set \<Rightarrow> 'v set \<times> ('v \<times> 'v) set" where
  "graph_connect edge g = (fst g, insert edge (snd g))"

definition graph_disconnect :: "'v \<times> 'v \<Rightarrow> 'v set \<times> ('v \<times> 'v) set \<Rightarrow> 'v set \<times> ('v \<times> 'v) set" where
  "graph_disconnect edge g = (fst g, snd g - {edge})"

lemma drawn_graph_exact:
  assumes "edge_ids_distinct (edit_canvas ed)"
  shows "drawn_graph ed = (n_id ` set (ca_nodes (edit_canvas ed)), flow_edges (ca_nodes (edit_canvas ed)))"
  using page_edges_exact [of "ed_page ed"] assms by (simp add: drawn_graph_def)

lemma fewer_ids_distinct:
  assumes "edge_ids_distinct ca" and "n_id ` set (ca_nodes ca') \<subseteq> n_id ` set (ca_nodes ca)"
  shows "edge_ids_distinct ca'"
  using assms unfolding edge_ids_distinct_def Let_def by (meson Sigma_mono inj_on_subset)

lemma flow_edges_iff: "(s, t) \<in> flow_edges nodes \<longleftrightarrow> (\<exists>x \<in> set nodes. n_id x = t \<and> s \<in> set (n_depends_on x)) \<and> s \<in> n_id ` set nodes \<and> s \<noteq> t"
  by (auto simp: flow_edges_def)

lemma flow_edges_map:
  assumes "\<And>n. n_id (f n) = n_id n"
  shows "(s, t) \<in> flow_edges (map f ns) \<longleftrightarrow> (\<exists>x \<in> set ns. n_id x = t \<and> s \<in> set (n_depends_on (f x))) \<and> s \<in> n_id ` set ns \<and> s \<noteq> t"
  unfolding flow_edges_iff map_ids [of f, OF assms] using assms by simp

lemma flow_edges_without:
  "flow_edges (map (\<lambda>node. if n_id node = t then without_dependencies {s} node else node) ns) = flow_edges ns - {(s, t)}"
  (is "flow_edges (map ?f ns) = _")
proof -
  have "(a, b) \<in> flow_edges (map ?f ns) \<longleftrightarrow> (a, b) \<in> flow_edges ns - {(s, t)}" for a b
  proof -
    have f: "n_id (?f n) = n_id n" for n by simp
    have "n_id x = b \<and> a \<in> set (n_depends_on (?f x)) \<longleftrightarrow> (n_id x = b \<and> a \<in> set (n_depends_on x)) \<and> (a, b) \<noteq> (s, t)" for x by auto
    then have "(\<exists>x \<in> set ns. n_id x = b \<and> a \<in> set (n_depends_on (?f x))) \<longleftrightarrow>
        (\<exists>x \<in> set ns. n_id x = b \<and> a \<in> set (n_depends_on x)) \<and> (a, b) \<noteq> (s, t)" by (simp only: bex_simps)
    then show ?thesis unfolding flow_edges_map [of ?f, OF f] unfolding Diff_iff flow_edges_iff by blast
  qed
  then show ?thesis by auto
qed

lemma flow_edges_connect:
  assumes "s \<in> n_id ` set ns" "t \<in> n_id ` set ns" "s \<noteq> t"
  shows "flow_edges (map (\<lambda>node. if n_id node = t then node\<lparr>n_depends_on := n_depends_on node @ [s]\<rparr> else node) ns) = insert (s, t) (flow_edges ns)"
  (is "flow_edges (map ?f ns) = _")
proof -
  have "(a, b) \<in> flow_edges (map ?f ns) \<longleftrightarrow> (a, b) \<in> insert (s, t) (flow_edges ns)" for a b
  proof -
    have f: "n_id (?f n) = n_id n" for n by simp
    have "n_id x = b \<and> a \<in> set (n_depends_on (?f x)) \<longleftrightarrow> n_id x = b \<and> a \<in> set (n_depends_on x) \<or> n_id x = t \<and> (a, b) = (s, t)" for x by auto
    then have "(\<exists>x \<in> set ns. n_id x = b \<and> a \<in> set (n_depends_on (?f x))) \<longleftrightarrow>
        (\<exists>x \<in> set ns. n_id x = b \<and> a \<in> set (n_depends_on x)) \<or> (\<exists>x \<in> set ns. n_id x = t) \<and> (a, b) = (s, t)"
      by (simp only: bex_disj_distrib bex_simps)
    moreover have "\<exists>x \<in> set ns. n_id x = t" using assms(2) by auto
    ultimately show ?thesis using assms unfolding flow_edges_map [of ?f, OF f] unfolding insert_iff flow_edges_iff by blast
  qed
  then show ?thesis by auto
qed

lemma flow_edges_delete:
  "flow_edges (map (without_dependencies gone) (filter (\<lambda>node. n_id node \<notin> gone) ns)) = {(s, t) \<in> flow_edges ns. s \<notin> gone \<and> t \<notin> gone}"
proof -
  have "(a, b) \<in> flow_edges (map (without_dependencies gone) (filter (\<lambda>node. n_id node \<notin> gone) ns)) \<longleftrightarrow>
      (a, b) \<in> flow_edges ns \<and> a \<notin> gone \<and> b \<notin> gone" for a b
    unfolding flow_edges_map [of "without_dependencies gone", OF without_dependencies_simps(1)] unfolding flow_edges_iff by auto
  then show ?thesis by auto
qed

lemma find_by_key: "distinct (map f xs) \<Longrightarrow> x \<in> set xs \<Longrightarrow> find (\<lambda>y. f y = f x) xs = Some x"
  by (induction xs) auto

lemma edge_found:
  assumes "edge \<in> set (page_edges pg)"
  shows "find (\<lambda>item. e_id item = e_id edge) (page_edges pg) = Some edge"
proof -
  have "distinct (map e_id (fst st))" if "edges_inv ns st" for ns st using that by (metis edges_inv_def)
  from this [OF deriveEdges_inv] have "distinct (map e_id (page_edges pg))" unfolding page_edges_def deriveEdgesFromNodes_def .
  then show ?thesis using assms by (rule find_by_key)
qed

lemma drawn_graph_after:
  assumes "edge_ids_distinct (edit_canvas ed)" and "n_id ` set (ca_nodes (edit_canvas ed')) \<subseteq> n_id ` set (ca_nodes (edit_canvas ed))"
  shows "drawn_graph ed' = (n_id ` set (ca_nodes (edit_canvas ed')), flow_edges (ca_nodes (edit_canvas ed')))"
  using fewer_ids_distinct [OF assms] by (rule drawn_graph_exact)

lemma delete_graph:
  assumes "canEdit (ed_page ed)" and distinct: "edge_ids_distinct (edit_canvas ed)"
  shows "drawn_graph (handleDeleteNodes nodeIds ed) = graph_delete (set nodeIds) (drawn_graph ed)"
proof (cases "nodeIds = []")
  case False
  let ?ns = "ca_nodes (edit_canvas ed)"
  have nodes: "ca_nodes (edit_canvas (handleDeleteNodes nodeIds ed)) =
      map (without_dependencies (set nodeIds)) (filter (\<lambda>node. n_id node \<notin> set nodeIds) ?ns)"
    using False assms by (simp add: handleDeleteNodes_def)
  then have "n_id ` set (ca_nodes (edit_canvas (handleDeleteNodes nodeIds ed))) = n_id ` set ?ns - set nodeIds"
    by (auto simp: image_image)
  then show ?thesis
    using drawn_graph_after [OF distinct, of "handleDeleteNodes nodeIds ed"] nodes
    by (simp add: drawn_graph_exact [OF distinct] graph_delete_def flow_edges_delete del: set_map)
qed (use assms in \<open>simp add: handleDeleteNodes_def graph_delete_def\<close>)

lemma remove_edge_graph:
  assumes "canEdit (ed_page ed)" and distinct: "edge_ids_distinct (edit_canvas ed)" and "edge \<in> set (page_edges (ed_page ed))"
  shows "drawn_graph (handleRemoveEdge (e_id edge) ed) = graph_disconnect (e_source edge, e_target edge) (drawn_graph ed)"
proof -
  have nodes: "ca_nodes (edit_canvas (handleRemoveEdge (e_id edge) ed)) =
      map (\<lambda>node. if n_id node = e_target edge then without_dependencies {e_source edge} node else node) (ca_nodes (edit_canvas ed))"
    using assms(1) edge_found [OF assms(3)] by (simp add: handleRemoveEdge_def)
  have "n_id ` set (ca_nodes (edit_canvas (handleRemoveEdge (e_id edge) ed))) = n_id ` set (ca_nodes (edit_canvas ed))"
    unfolding nodes by (rule map_ids) simp
  then show ?thesis
    using drawn_graph_after [OF distinct, of "handleRemoveEdge (e_id edge) ed"] nodes
    by (simp add: drawn_graph_exact [OF distinct] graph_disconnect_def flow_edges_without del: set_map)
qed

lemma connect_graph:
  assumes ok: "editor_ok ed" and distinct: "edge_ids_distinct (edit_canvas ed)" and drag: "connectionDrag ed = Some drag"
    and target: "ch_node_id handle \<in> fst (drawn_graph ed)" and commit: "commitConnectionToHandle handle ed = Some ed'"
  shows "drawn_graph ed' = (if ch_node_id (cd_from drag) = ch_node_id handle then drawn_graph ed
    else graph_connect (ch_node_id (cd_from drag), ch_node_id handle) (drawn_graph ed))"
proof -
  let ?ns = "ca_nodes (edit_canvas ed)" and ?s = "ch_node_id (cd_from drag)" and ?t = "ch_node_id handle"
  have ends: "?s \<in> n_id ` set ?ns" "?t \<in> n_id ` set ?ns" using ok drag target by (auto simp: editor_ok_def drawn_graph_def)
  have drawn: "list_ex (\<lambda>edge. e_source edge = ?s \<and> e_target edge = ?t) (page_edges (ed_page ed)) \<longleftrightarrow> (?s, ?t) \<in> snd (drawn_graph ed)"
    by (force simp: drawn_graph_def list_ex_iff)
  show ?thesis
  proof (cases "?s = ?t \<or> (?s, ?t) \<in> snd (drawn_graph ed)")
    case True
    then have "edit_canvas ed' = edit_canvas ed"
      using commit drag drawn by (auto simp: commitConnectionToHandle_def Let_def split: if_splits)
    then have "drawn_graph ed' = drawn_graph ed" using drawn_graph_after [OF distinct, of ed'] by (simp add: drawn_graph_exact [OF distinct])
    then show ?thesis using True by (auto simp: graph_connect_def insert_absorb)
  next
    case False
    then have nodes: "ca_nodes (edit_canvas ed') =
        map (\<lambda>node. if n_id node = ?t then node\<lparr>n_depends_on := n_depends_on node @ [?s]\<rparr> else node) ?ns"
      using commit drag drawn by (auto simp: commitConnectionToHandle_def Let_def)
    have "n_id ` set (ca_nodes (edit_canvas ed')) = n_id ` set ?ns" unfolding nodes by (rule map_ids) simp
    then show ?thesis
      using drawn_graph_after [OF distinct, of ed'] nodes False flow_edges_connect [OF ends]
      by (simp add: drawn_graph_exact [OF distinct] graph_connect_def del: set_map)
  qed
qed

text \<open>
  C24: Editing changes the graph on the canvas as its names say: deleting takes away the nodes and every edge
  at one of them and nothing else, removing an edge takes away that edge alone, and drawing a connection
  adds that one edge (none, if it leads back to its own node or is there already). This is for a canvas in order that may
  be edited and whose edge ids, \<open>edge-source-target\<close>, tell the edges between its nodes apart (\<open>edge_ids_distinct\<close>); with
  ids that contain hyphens two edges can share an id, and then only the first of them is drawn.
\<close>

theorem edits_refine_graph:
  assumes "editor_ok ed" and "canEdit (ed_page ed)" and "edge_ids_distinct (edit_canvas ed)"
  shows "drawn_graph (handleDeleteNodes nodeIds ed) = graph_delete (set nodeIds) (drawn_graph ed) \<and>
    (\<forall>edge \<in> set (page_edges (ed_page ed)).
      drawn_graph (handleRemoveEdge (e_id edge) ed) = graph_disconnect (e_source edge, e_target edge) (drawn_graph ed)) \<and>
    (\<forall>drag handle ed'. connectionDrag ed = Some drag \<and> ch_node_id handle \<in> fst (drawn_graph ed) \<and>
       commitConnectionToHandle handle ed = Some ed' \<longrightarrow>
      drawn_graph ed' = (if ch_node_id (cd_from drag) = ch_node_id handle then drawn_graph ed
        else graph_connect (ch_node_id (cd_from drag), ch_node_id handle) (drawn_graph ed)))"
  using delete_graph [OF assms(2,3)] remove_edge_graph [OF assms(2,3)] connect_graph [OF assms(1,3)] by simp

definition linked_editor :: editor where
  "linked_editor = sample_editor\<lparr>ed_page := (upd_canvas (\<lambda>ca. ca\<lparr>
       ca_nodes := [sample_node ''a'' ''A'' [], sample_node ''b'' ''B'' [''a'']],
       ca_node_lane_by_id := [(js ''a'', js ''l''), (js ''b'', js ''l'')]\<rparr>) ordered_page)\<lparr>pg_dragging := True\<rparr>,
     ed_connection := Some \<lparr>cd_pointer = 1, cd_from = \<lparr>ch_node_id = js ''b'', ch_side = RightSide\<rparr>, cd_x = jint 0, cd_y = jint 0\<rparr>\<rparr>"

lemma linked_editor_canvas:
  "edit_canvas linked_editor = (canvas_of ordered_page)\<lparr>ca_nodes := [sample_node ''a'' ''A'' [], sample_node ''b'' ''B'' [''a'']],
     ca_node_lane_by_id := [(js ''a'', js ''l''), (js ''b'', js ''l'')]\<rparr>"
  by (simp add: edit_canvas_def linked_editor_def)

lemma linked_editor_ok: "editor_ok linked_editor"
proof -
  have "canvas_sound (edit_canvas linked_editor)"
    by (rule parts_soundI) (auto simp: linked_editor_canvas sample_editor_simps clean_node_def lane_in_order_def
      name_ok_def nullable_ok_def trimmed_def trim_or_null_def trim_opt_def non_empty_def char_white_def jint_def placed_def)
  moreover have "ed_drag linked_editor = None" "connectionDrag linked_editor = Some \<lparr>cd_pointer = 1,
      cd_from = \<lparr>ch_node_id = js ''b'', ch_side = RightSide\<rparr>, cd_x = jint 0, cd_y = jint 0\<rparr>"
    "placed (nm_x (ed_node_modal linked_editor))" "placed (nm_y (ed_node_modal linked_editor))"
    by (simp_all add: linked_editor_def sample_editor_def connectionDrag_def placed_def jint_def)
  moreover have "js ''b'' \<in> n_id ` set (ca_nodes (edit_canvas linked_editor))" by (simp add: linked_editor_canvas sample_node_def)
  ultimately show ?thesis by (simp add: editor_ok_def)
qed

lemma linked_editor_edges: "edge_ids_distinct (edit_canvas linked_editor)"
  by (auto simp: edge_ids_distinct_def linked_editor_canvas sample_node_def edge_id_def inj_on_def js_simps)

lemma linked_editor_edit: "canEdit (ed_page linked_editor)"
  by (simp add: linked_editor_def sample_editor_def canEdit_def hasSelectedFlow_def isPlannerAwaiting_def
      isPlannerAwaitingByPendingMessage_def isPlannerAwaitingSession_def flowRuntimeState_def currentRequirementTasks_def
      groupTasksByRequirement_def upd_canvas_def resolveFlowRuntimeState_def hasPendingPlannerReply_def ordered_page_def
      sample_page_def sample_route_def Let_def)

theorem edits_refine_graph_witness:
  "drawn_graph (handleDeleteNodes [js ''a''] linked_editor) = ({js ''b''}, {}) \<and>
   map_option drawn_graph (commitConnectionToHandle \<lparr>ch_node_id = js ''a'', ch_side = LeftSide\<rparr> linked_editor) =
     Some ({js ''a'', js ''b''}, {(js ''a'', js ''b''), (js ''b'', js ''a'')})"
proof -
  have graph: "drawn_graph linked_editor = ({js ''a'', js ''b''}, {(js ''a'', js ''b'')})"
  proof -
    have "(s, t) \<in> flow_edges (ca_nodes (edit_canvas linked_editor)) \<longleftrightarrow> (s, t) = (js ''a'', js ''b'')" for s t
      unfolding flow_edges_iff by (auto simp: linked_editor_canvas sample_node_def)
    then have "flow_edges (ca_nodes (edit_canvas linked_editor)) = {(js ''a'', js ''b'')}" by auto
    then show ?thesis by (simp add: drawn_graph_exact [OF linked_editor_edges]) (simp add: linked_editor_canvas sample_node_def)
  qed
  have drag: "connectionDrag linked_editor = Some \<lparr>cd_pointer = 1, cd_from = \<lparr>ch_node_id = js ''b'', ch_side = RightSide\<rparr>, cd_x = jint 0, cd_y = jint 0\<rparr>"
    by (simp add: connectionDrag_def linked_editor_def)
  let ?h = "\<lparr>ch_node_id = js ''a'', ch_side = LeftSide\<rparr>"
  note refine = edits_refine_graph [OF linked_editor_ok linked_editor_edit linked_editor_edges, of "[js ''a'']"]
  obtain ed' where commit: "commitConnectionToHandle ?h linked_editor = Some ed'"
    by (cases "commitConnectionToHandle ?h linked_editor") (auto simp: commitConnectionToHandle_def drag Let_def split: if_splits)
  have "drawn_graph ed' = graph_connect (js ''b'', js ''a'') (drawn_graph linked_editor)"
    using refine [THEN conjunct2, THEN conjunct2, THEN spec, THEN spec [of _ ?h], THEN spec [of _ ed'], THEN mp] drag graph commit by auto
  then show ?thesis using refine by (auto simp: graph graph_delete_def graph_connect_def commit)
qed

section \<open>A dragged node and its lane\<close>

lemma updates_get:
  "distinct (map fst us) \<Longrightarrow>
     map_of (AList.updates (map fst us) (map snd us) m) k = (case map_of us k of None \<Rightarrow> map_of m k | Some v \<Rightarrow> Some v)"
  unfolding updates_fold
proof (induction us rule: rev_induct)
  case (snoc u us)
  obtain a b where u: "u = (a, b)" by (cases u)
  have "map_of us a = None" using snoc.prems by (auto simp: u map_of_eq_None_iff)
  then show ?case using snoc by (auto simp: u map_add_def split: option.splits)
qed simp

lemma lane_updates_distinct: "distinct (map fst (lane_updates ds dx ns))"
  by (induction ns rule: rev_induct) (auto simp: lane_updates_snoc lane_updates_def [of _ _ "[]"] distinct_update split: option.split)

lemma lane_updates_get:
  assumes "distinct (map n_id ns)" and "node \<in> set ns" and "drag_origin_of ds node = Some origin" and "drag_target ds dx origin = Some lane"
  shows "map_of (lane_updates ds dx ns) (n_id node) = Some (dg_lane_id lane)"
  using assms(1,2)
proof (induction ns rule: rev_induct)
  case (snoc n ns)
  show ?case
  proof (cases "n = node")
    case False
    then have "node \<in> set ns" using snoc.prems by simp
    then have "n_id n \<noteq> n_id node" using snoc.prems by (metis (no_types, lifting) distinct.simps(2) distinct_append image_eqI
        list.set_map map_append not_distinct_conv_prefix list.simps(9))
    then show ?thesis using snoc \<open>node \<in> set ns\<close> by (auto simp: lane_updates_snoc split: option.split)
  qed (simp add: lane_updates_snoc assms(3,4))
qed simp

lemma resolve_known_lane:
  assumes "map_of m i = Some l" and "name_ok l" and "l \<in> l_id ` set ls"
  shows "resolveNodeLaneId i m ls = l"
proof -
  have "list_ex (\<lambda>lane. l_id lane = l) ls" using assms(3) by (auto simp: list_ex_iff)
  then show ?thesis using assms(1,2) by (simp add: resolveNodeLaneId_def trim_opt_def name_ok_def trimmed_def Let_def)
qed

text \<open>A move that counts: the drag has begun already, or the pointer is far enough from where it started.\<close>

definition drag_moves :: "drag_state \<Rightarrow> bool \<Rightarrow> jsnum \<Rightarrow> jsnum \<Rightarrow> bool" where
  "drag_moves ds exceeded x y \<longleftrightarrow> exceeded \<or>
     \<not> jsnum_less (jsnum_add (jsnum_mul (jsnum_sub x (ds_start_x ds)) (jsnum_sub x (ds_start_x ds)))
         (jsnum_mul (jsnum_sub y (ds_start_y ds)) (jsnum_sub y (ds_start_y ds)))) (Fin NODE_DRAG_MOVE_THRESHOLD_SQUARED)"

lemma drag_move_canvas:
  assumes "ed_drag ed = Some (ds, exceeded)" and "drag_moves ds exceeded x y"
  shows "edit_canvas (drag_pointer_move eager (ds_pointer ds) x y ed) =
    (let us = (if eager then lane_updates ds (jsnum_sub x (ds_start_x ds)) (ca_nodes (edit_canvas ed)) else [])
     in (edit_canvas ed)\<lparr>ca_nodes := map (drag_node ds (jsnum_sub x (ds_start_x ds)) (jsnum_sub y (ds_start_y ds))) (ca_nodes (edit_canvas ed)),
          ca_node_lane_by_id := AList.updates (map fst us) (map snd us) (ca_node_lane_by_id (edit_canvas ed))\<rparr>)"
  using assms by (auto simp: drag_pointer_move_def drag_moves_def Let_def)

lemma drag_node_depends [simp]: "n_depends_on (drag_node ds dx dy n) = n_depends_on n" "n_title (drag_node ds dx dy n) = n_title n"
  by (simp_all add: drag_node_def dragged_node_def Let_def split: option.split)

lemma dragged_graph: "flow_edges (map (drag_node ds dx dy) ns) = flow_edges ns"
proof -
  have "(a, b) \<in> flow_edges (map (drag_node ds dx dy) ns) \<longleftrightarrow> (a, b) \<in> flow_edges ns" for a b
    unfolding flow_edges_map [of "drag_node ds dx dy", OF drag_node_id] unfolding flow_edges_iff by simp
  then show ?thesis by auto
qed

lemma dragged_to:
  assumes "editor_ok ed" and "ed_drag ed = Some (ds, exceeded)"
  shows "\<exists>lane \<in> set (ds_lanes ds). drag_target ds dx origin = Some lane \<and> is_finite (dg_left lane) \<and> name_ok (dg_lane_id lane) \<and>
    dg_lane_id lane \<in> l_id ` set (ca_lanes (edit_canvas ed)) \<and>
    findLaneLayoutForCenterX (jsnum_add (jsnum_add (og_global_x origin) dx) (Fin (NODE_WIDTH / 2))) (ds_lanes ds) = Some lane"
proof -
  have dok: "drag_ok (edit_canvas ed) ds" and sound: "canvas_sound (edit_canvas ed)" using assms by (simp_all add: editor_ok_def)
  then obtain lane where lane: "lane \<in> set (ds_lanes ds)" "drag_target ds dx origin = Some lane"
    using drag_target_mem unfolding drag_ok_def by blast
  then have "findLaneLayoutForCenterX (jsnum_add (jsnum_add (og_global_x origin) dx) (Fin (NODE_WIDTH / 2))) (ds_lanes ds) = Some lane"
    by (auto simp: drag_target_def findLaneLayoutForCenterX_def split: option.splits)
  moreover have "is_finite (dg_left lane)" "dg_lane_id lane \<in> l_id ` set (ca_lanes (edit_canvas ed))"
    using lane(1) dok by (auto simp: drag_ok_def lane_snapshot_ok_def list_all_iff)
  moreover from this have "name_ok (dg_lane_id lane)" using parts_soundD(4) [OF sound] by (auto simp: list_all_iff lane_in_order_def)
  ultimately show ?thesis using lane by blast
qed

lemma dragged_lane:
  assumes ok: "editor_ok ed" and drag: "ed_drag ed = Some (ds, exceeded)" and moves: "drag_moves ds exceeded x y"
    and node: "node \<in> set (ca_nodes (edit_canvas ed))" and origin: "drag_origin_of ds node = Some origin"
    and target: "drag_target ds (jsnum_sub x (ds_start_x ds)) origin = Some lane"
    and lane: "name_ok (dg_lane_id lane)" "dg_lane_id lane \<in> l_id ` set (ca_lanes (edit_canvas ed))"
  shows "edit_lane_of e (drag_pointer_move eager (ds_pointer ds) x y ed) (n_id node) =
    (if eager then dg_lane_id lane else edit_lane_of e ed (n_id node))"
proof -
  let ?ca = "edit_canvas ed" and ?ed' = "drag_pointer_move eager (ds_pointer ds) x y ed"
  define us where "us = (if eager then lane_updates ds (jsnum_sub x (ds_start_x ds)) (ca_nodes ?ca) else [])"
  note canvas = drag_move_canvas [OF drag moves, of eager, unfolded Let_def us_def [symmetric]]
  have lanes: "edit_lanes e ed = ca_lanes ?ca" "edit_lanes e ?ed' = ca_lanes ?ca"
    using sound_lanes [OF ok] by (simp_all add: edit_lanes_def normalized_lanes_def canvas)
  have "distinct (map fst us)" using lane_updates_distinct by (simp add: us_def)
  then have get: "map_of (ca_node_lane_by_id (edit_canvas ?ed')) (n_id node) =
      (case map_of us (n_id node) of None \<Rightarrow> map_of (ca_node_lane_by_id ?ca) (n_id node) | Some v \<Rightarrow> Some v)"
    by (simp add: canvas updates_get)
  have "distinct (map n_id (ca_nodes ?ca))" using ok parts_soundD(2) by (auto simp: editor_ok_def)
  then have us: "map_of us (n_id node) = (if eager then Some (dg_lane_id lane) else None)"
    using lane_updates_get [OF _ node origin target] by (simp add: us_def)
  show ?thesis
  proof (cases eager)
    case True
    then have "map_of (ca_node_lane_by_id (edit_canvas ?ed')) (n_id node) = Some (dg_lane_id lane)" using get us by simp
    from resolve_known_lane [OF this lane] show ?thesis unfolding edit_lane_of_def lanes using True by simp
  next
    case False
    then have "map_of (ca_node_lane_by_id (edit_canvas ?ed')) (n_id node) = map_of (ca_node_lane_by_id ?ca) (n_id node)"
      using get us by simp
    then show ?thesis unfolding edit_lane_of_def lanes resolveNodeLaneId_def using False by simp
  qed
qed

text \<open>
  A dragged node goes to the lane under its middle and is given to that lane's agent: it takes over the
  agent and the instance of the lane and stays at least the margin away from its left and upper edge, and the graph is
  the same as before. The canvas also notes the lane as the one of the node, but only if React has run the update of the
  nodes by then (\<open>eager\<close>); otherwise the node, though given to the agent of the new lane, is still drawn in the old one.
\<close>

lemma dragged_node_changes_lane:
  assumes ok: "editor_ok ed" and drag: "ed_drag ed = Some (ds, exceeded)" and moves: "drag_moves ds exceeded x y"
    and fin: "is_finite x" "is_finite y" and node: "node \<in> set (ca_nodes (edit_canvas ed))" and origin: "drag_origin_of ds node = Some origin"
  shows "let ed' = drag_pointer_move eager (ds_pointer ds) x y ed in
    \<exists>lane \<in> set (ds_lanes ds). \<exists>node' \<in> set (ca_nodes (edit_canvas ed')).
      findLaneLayoutForCenterX (jsnum_add (jsnum_add (og_global_x origin) (jsnum_sub x (ds_start_x ds))) (Fin (NODE_WIDTH / 2))) (ds_lanes ds) = Some lane \<and>
      n_id node' = n_id node \<and> n_agent_id node' = dg_agent_id lane \<and> n_instance_id node' = dg_instance_id lane \<and>
      jsnum_le (jint NODE_DEFAULT_MARGIN) (n_x node') \<and> jsnum_le (jint NODE_DEFAULT_MARGIN) (n_y node') \<and>
      edit_lane_of e ed' (n_id node) = (if eager then dg_lane_id lane else edit_lane_of e ed (n_id node)) \<and>
      flow_edges (ca_nodes (edit_canvas ed')) = flow_edges (ca_nodes (edit_canvas ed))"
proof -
  let ?ca = "edit_canvas ed" and ?dx = "jsnum_sub x (ds_start_x ds)" and ?dy = "jsnum_sub y (ds_start_y ds)"
  define ed' where "ed' = drag_pointer_move eager (ds_pointer ds) x y ed"
  have dok: "drag_ok ?ca ds" using ok drag by (simp add: editor_ok_def)
  have nodes: "ca_nodes (edit_canvas ed') = map (drag_node ds ?dx ?dy) (ca_nodes ?ca)"
    using drag_move_canvas [OF drag moves, of eager] by (simp add: ed'_def Let_def)
  obtain lane where lane: "lane \<in> set (ds_lanes ds)" "drag_target ds ?dx origin = Some lane" "is_finite (dg_left lane)"
    "name_ok (dg_lane_id lane)" "dg_lane_id lane \<in> l_id ` set (ca_lanes ?ca)"
    "findLaneLayoutForCenterX (jsnum_add (jsnum_add (og_global_x origin) ?dx) (Fin (NODE_WIDTH / 2))) (ds_lanes ds) = Some lane"
    using dragged_to [OF ok drag] by blast
  note lane_now = dragged_lane [OF ok drag moves node origin lane(2,4,5), of e eager, folded ed'_def]
  have "is_finite (og_global_x origin) \<and> is_finite (og_y origin)"
    using dok origin by (auto simp: drag_ok_def list_all_iff drag_origin_of_def dest!: map_of_SomeD split: if_splits)
  moreover have "is_finite ?dx" "is_finite ?dy" using fin dok by (auto simp: drag_ok_def)
  ultimately have "jsnum_le (jint NODE_DEFAULT_MARGIN) (n_x (drag_node ds ?dx ?dy node)) \<and> jsnum_le (jint NODE_DEFAULT_MARGIN) (n_y (drag_node ds ?dx ?dy node))"
    using lane(3) by (auto simp: drag_node_def origin dragged_node_def lane(2) is_finite_iff jint_def)
  moreover have "n_agent_id (drag_node ds ?dx ?dy node) = dg_agent_id lane \<and> n_instance_id (drag_node ds ?dx ?dy node) = dg_instance_id lane"
    by (simp add: drag_node_def origin dragged_node_def lane(2))
  moreover have "drag_node ds ?dx ?dy node \<in> set (ca_nodes (edit_canvas ed'))" using node by (simp add: nodes)
  moreover have "flow_edges (ca_nodes (edit_canvas ed')) = flow_edges (ca_nodes ?ca)" by (simp add: nodes dragged_graph)
  ultimately show ?thesis
    unfolding ed'_def [symmetric] Let_def using lane(1,6) lane_now drag_node_id by blast
qed

definition sample_drag :: drag_state where
  "sample_drag = \<lparr>ds_pointer = 1, ds_start_x = jint 0, ds_start_y = jint 0, ds_node_ids = [js ''a''],
     ds_origins = [(js ''a'', \<lparr>og_global_x = jint 46, og_y = jint 24, og_lane_id = js ''l''\<rparr>)],
     ds_lanes = [\<lparr>dg_lane_id = js ''l'', dg_left = jint 22, dg_width = jint 360, dg_instance_id = None, dg_agent_id = Some (js ''main'')\<rparr>]\<rparr>"

lemma drag_editor_ok: "editor_ok (linked_editor\<lparr>ed_drag := Some (sample_drag, False)\<rparr>)"
proof -
  have "drag_ok (edit_canvas linked_editor) sample_drag"
    by (simp add: drag_ok_def sample_drag_def lane_snapshot_ok_def linked_editor_canvas sample_editor_simps nullable_ok_def name_ok_def
        trimmed_def char_white_def)
  then show ?thesis using linked_editor_ok by (simp add: editor_ok_def cong: option.case_cong)
qed

theorem dragged_node_changes_lane_witness:
  "\<exists>node' \<in> set (ca_nodes (edit_canvas (drag_pointer_move True 1 (jint 10) (jint 0) (linked_editor\<lparr>ed_drag := Some (sample_drag, False)\<rparr>)))).
     n_id node' = js ''a'' \<and> n_agent_id node' = Some (js ''main'')"
proof -
  let ?ed = "linked_editor\<lparr>ed_drag := Some (sample_drag, False)\<rparr>"
  have "ed_drag ?ed = Some (sample_drag, False)" by simp
  moreover have "drag_moves sample_drag False (jint 10) (jint 0)"
    by (simp add: drag_moves_def sample_drag_def jint_def NODE_DRAG_MOVE_THRESHOLD_SQUARED_def)
  moreover have "is_finite (jint 10)" "is_finite (jint 0)" by simp_all
  moreover have "sample_node ''a'' ''A'' [] \<in> set (ca_nodes (edit_canvas ?ed))" by (simp add: linked_editor_canvas)
  moreover have "drag_origin_of sample_drag (sample_node ''a'' ''A'' []) = Some \<lparr>og_global_x = jint 46, og_y = jint 24, og_lane_id = js ''l''\<rparr>"
    by (simp add: drag_origin_of_def sample_drag_def sample_node_def)
  ultimately have "\<exists>lane \<in> set (ds_lanes sample_drag). \<exists>node' \<in> set (ca_nodes (edit_canvas (drag_pointer_move True (ds_pointer sample_drag) (jint 10) (jint 0) ?ed))).
      n_id node' = n_id (sample_node ''a'' ''A'' []) \<and> n_agent_id node' = dg_agent_id lane"
    using dragged_node_changes_lane [OF drag_editor_ok, of sample_drag False "jint 10" "jint 0" "sample_node ''a'' ''A'' []"
      "\<lparr>og_global_x = jint 46, og_y = jint 24, og_lane_id = js ''l''\<rparr>" True sample_env] unfolding Let_def by blast
  then show ?thesis by (simp add: sample_drag_def sample_node_def)
qed

end
