(* ===== verification/BoardColumns.thy ===== *)
theory BoardColumns imports FlowState begin

text \<open>
  \<open>components/collabKanbanColumnsUtils.ts\<close>, \<open>components/collab-page/utils.ts\<close>, \<open>components/collabTaskPreviewUtils.ts\<close>
  and \<open>components/kanbanTypes.ts\<close>: the tasks of the collaboration board, the columns it shows them in, the
  request that runs a flow of the board again, and the preview of the chat of a task.
\<close>

section \<open>Tasks and columns\<close>

datatype view_mode = StatusView | AgentView | FlowView

record board_task =
  bt_id :: jsstring
  bt_title :: jsstring
  bt_summary :: jsstring
  bt_status :: task_status
  bt_source :: task_source
  bt_instance_id :: "jsstring option"
  bt_agent_id :: "jsstring option"
  bt_agent_name :: jsstring
  bt_artifacts :: "jsstring list"
  bt_extras :: "(jsstring \<times> jsstring) list"

datatype column_key = PendingConfirmation | StatusKey task_status | BlockedKey

datatype column_state = ColumnRunning | ColumnBlocked | ColumnApproval | ColumnIdle

record board_column =
  bc_id :: jsstring
  bc_title :: jsstring
  bc_tasks :: "board_task list"
  bc_flow_id :: "jsstring option"
  bc_flow_state :: "column_state option"

definition board_extra :: "board_task \<Rightarrow> string \<Rightarrow> jsstring" where
  "board_extra task key = trim_opt (map_of (bt_extras task) (js key))"

definition dispatch_interrupted :: "board_task \<Rightarrow> bool" where
  "dispatch_interrupted task =
     (let dispatchStatus = to_lower (board_extra task ''dispatch_status'')
      in dispatchStatus = js ''interrupted'' \<or> dispatchStatus = js ''stopped'' \<or> dispatchStatus = js ''blocked'')"

definition resolveStatusColumnKey :: "board_task \<Rightarrow> column_key" where
  "resolveStatusColumnKey task = (if dispatch_interrupted task then BlockedKey else StatusKey (bt_status task))"

definition isInterruptedBlockedFlowTask :: "board_task \<Rightarrow> bool" where
  "isInterruptedBlockedFlowTask task = (if bt_status task \<noteq> BlockedByApproval then False else dispatch_interrupted task)"

definition resolveFlowColumnState :: "board_task list \<Rightarrow> column_state" where
  "resolveFlowColumnState tasks =
     (if list_ex (\<lambda>task. bt_status task = Running \<or> bt_status task = Queued) tasks then ColumnRunning
      else if list_ex isInterruptedBlockedFlowTask tasks then ColumnBlocked
      else if list_ex (\<lambda>task. bt_status task = BlockedByApproval) tasks then ColumnApproval
      else ColumnIdle)"

definition getRequirementId :: "board_task \<Rightarrow> jsstring" where
  "getRequirementId task =
     (let requirementId = board_extra task ''requirement_id''; flowId = board_extra task ''flow_id'';
          plannerSessionKey = board_extra task ''planner_session_key''; managerSessionKey = board_extra task ''manager_session_key'' in
      if requirementId \<noteq> [] then requirementId
      else if flowId \<noteq> [] then flowId
      else if plannerSessionKey \<noteq> [] then plannerSessionKey
      else if managerSessionKey \<noteq> [] then managerSessionKey
      else bt_id task)"

definition getRequirementTitle :: "board_task \<Rightarrow> jsstring \<Rightarrow> jsstring" where
  "getRequirementTitle task requirementId =
     (let requirementTitle = board_extra task ''requirement_title''; requirementText = board_extra task ''requirement'' in
      if requirementTitle \<noteq> [] then requirementTitle
      else if requirementText \<noteq> [] then requirementText
      else if nullish (map_of (bt_extras task) (js ''flow_id'')) [] \<noteq> [] then [0x9700, 0x6C42] @ js '' '' @ take 8 requirementId
      else bt_title task)"

fun column_key_str :: "column_key \<Rightarrow> jsstring" where
  "column_key_str PendingConfirmation = js ''pending_confirmation''"
| "column_key_str (StatusKey s) = status_str s"
| "column_key_str BlockedKey = js ''blocked''"

definition unassigned_name :: jsstring where
  "unassigned_name = [0x5F85, 0x5206, 0x914D]"

text \<open>One turn of the loop that groups by flow, and of the loop that groups by agent.\<close>

definition group_by_flow :: "board_task \<Rightarrow> (jsstring \<times> board_column) list \<Rightarrow> (jsstring \<times> board_column) list" where
  "group_by_flow task grouped =
     (let requirementId = getRequirementId task;
          column = map_get grouped requirementId \<lparr>bc_id = js ''flow:'' @ requirementId,
            bc_title = getRequirementTitle task requirementId, bc_tasks = [], bc_flow_id = Some requirementId, bc_flow_state = None\<rparr>
      in AList.update requirementId (column\<lparr>bc_tasks := bc_tasks column @ [task]\<rparr>) grouped)"

definition group_by_agent :: "board_task \<Rightarrow> (jsstring \<times> board_task list) list \<Rightarrow> (jsstring \<times> board_task list) list" where
  "group_by_agent task grouped =
     (let key = str_or (bt_agent_name task) unassigned_name
      in AList.update key (map_get grouped key [] @ [task]) grouped)"

definition buildKanbanColumns :: "view_mode \<Rightarrow> board_task list \<Rightarrow> jsstring list \<Rightarrow> (column_key \<times> jsstring) list \<Rightarrow> board_column list" where
  "buildKanbanColumns viewMode allTasks allAgentNames statusColumns =
     (case viewMode of
        StatusView \<Rightarrow>
          map (\<lambda>(key, title). \<lparr>bc_id = js ''status:'' @ column_key_str key, bc_title = title,
            bc_tasks = filter (\<lambda>task. resolveStatusColumnKey task = key) allTasks, bc_flow_id = None, bc_flow_state = None\<rparr>) statusColumns
      | FlowView \<Rightarrow>
          map (\<lambda>(_, column). column\<lparr>bc_flow_state := Some (resolveFlowColumnState (bc_tasks column))\<rparr>) (fold group_by_flow allTasks [])
      | AgentView \<Rightarrow>
          map (\<lambda>(agentName, tasks). \<lparr>bc_id = js ''agent:'' @ agentName, bc_title = agentName, bc_tasks = tasks, bc_flow_id = None, bc_flow_state = None\<rparr>)
            (fold group_by_agent allTasks (fold (\<lambda>name. AList.update name []) allAgentNames [])))"

section \<open>Reading tasks\<close>

definition STATUS_COLUMNS :: "(column_key \<times> jsstring) list" where
  "STATUS_COLUMNS =
     [(PendingConfirmation, [0x5F85, 0x786E, 0x8BA4]), (StatusKey Queued, [0x5F85, 0x8C03, 0x5EA6]), (StatusKey Running, [0x8FDB, 0x884C, 0x4E2D]), (BlockedKey, [0x963B, 0x585E]),
      (StatusKey BlockedByApproval, [0x5F85, 0x5BA1, 0x6279]), (StatusKey Failed, [0x5931, 0x8D25]), (StatusKey Completed, [0x5B8C, 0x6210])]"

definition toBoardTaskFromKanbanTask :: "task \<Rightarrow> board_task" where
  "toBoardTaskFromKanbanTask task =
     \<lparr>bt_id = t_id task, bt_title = t_title task, bt_summary = t_summary task,
      bt_status = normalizeTaskStatus (status_str (t_status task)), bt_source = t_source task, bt_instance_id = t_instance_id task,
      bt_agent_id = t_agent_id task, bt_agent_name = str_or (t_agent_name task) unassigned_name, bt_artifacts = t_artifacts task,
      bt_extras = t_extras task\<rparr>"

definition formatTaskAgentLabel :: "board_task \<Rightarrow> jsstring" where
  "formatTaskAgentLabel task =
     (let agentName = str_or (str_or (trim (bt_agent_name task)) (trim_opt (bt_agent_id task))) unassigned_name;
          instanceId = trim_opt (bt_instance_id task)
      in if instanceId = [] then agentName else instanceId @ js '' / '' @ agentName)"

definition getTaskRequirementIdForCard :: "board_task \<Rightarrow> jsstring" where
  "getTaskRequirementIdForCard task = str_or (board_extra task ''requirement_id'') (js ''-'')"

definition parseDependencyNodeIds :: "jsstring option \<Rightarrow> jsstring list" where
  "parseDependencyNodeIds raw =
     (let value = trim_opt raw in
      if value = [] \<or> value = js ''none'' then []
      else filter (\<lambda>item. item \<noteq> []) (map trim (js_split (js '','') value)))"

definition is_digit :: "16 word \<Rightarrow> bool" where
  "is_digit c \<longleftrightarrow> 48 \<le> c \<and> c \<le> 57"

definition digits_value :: "jsstring \<Rightarrow> nat" where
  "digits_value ds = fold (\<lambda>d v. v * 10 + unat (d - 48)) ds 0"

text \<open>
  \<open>Number.parseInt(s, 10)\<close> of a string without blanks at its start: a sign, then the digits up to the first
  other character. A value that rounds to \<open>2 ^ 1024\<close> is infinite.
\<close>

definition decimal_number :: "nat \<Rightarrow> jsnum" where
  "decimal_number n = (if n < 2 ^ 1024 - 2 ^ 970 then Fin (of_nat n) else PosInf)"

definition parse_int :: "jsstring \<Rightarrow> jsnum" where
  "parse_int s =
     (let negative = (take 1 s = js ''-'');
          unsigned = (if negative \<or> take 1 s = js ''+'' then drop 1 s else s);
          digits = takeWhile is_digit unsigned
      in if digits = [] then NaN
         else if negative then jsnum_neg (decimal_number (digits_value digits)) else decimal_number (digits_value digits))"

text \<open>\<open>/^L(\d+)$/i\<close>\<close>

fun layer_match :: "jsstring \<Rightarrow> jsstring option" where
  "layer_match [] = None"
| "layer_match (c # ds) = (if (c = 76 \<or> c = 108) \<and> ds \<noteq> [] \<and> list_all is_digit ds then Some ds else None)"

definition parseFlowLayer :: "jsstring option \<Rightarrow> jsnum" where
  "parseFlowLayer raw =
     (let normalized = trim_opt raw in
      if normalized = [] then jint 1
      else
        let parsed = (case layer_match normalized of Some ds \<Rightarrow> parse_int ds | None \<Rightarrow> parse_int normalized)
        in if is_finite parsed \<and> jsnum_pos parsed then parsed else jint 1)"

definition getFlowNodeIdForTask :: "board_task \<Rightarrow> jsstring" where
  "getFlowNodeIdForTask task =
     (let fromExtras = board_extra task ''flow_node'' in if fromExtras \<noteq> [] then fromExtras else bt_id task)"

section \<open>Running a flow again\<close>

definition task_agent :: "agent list \<Rightarrow> board_task \<Rightarrow> agent option" where
  "task_agent agents task =
     (let taskAgentId = trim_opt (bt_agent_id task); taskInstanceId = trim_opt (bt_instance_id task) in
      if taskAgentId = [] \<or> taskInstanceId = [] then None
      else find (\<lambda>agent. trim (ag_agent_id agent) = taskAgentId \<and> trim (ag_instance_id agent) = taskInstanceId) agents)"

definition rerun_node :: "jsstring set \<Rightarrow> agent \<Rightarrow> nat \<Rightarrow> board_task \<Rightarrow> flow_node" where
  "rerun_node nodeIds candidateAgent index task =
     (let nodeId = getFlowNodeIdForTask task; layer = parseFlowLayer (map_of (bt_extras task) (js ''layer'')) in
      \<lparr>n_id = nodeId, n_title = bt_title task,
       n_description = Some (str_or (board_extra task ''flow_node_description'') (bt_summary task)),
       n_depends_on = filter (\<lambda>dependency. dependency \<noteq> nodeId \<and> dependency \<in> nodeIds)
         (parseDependencyNodeIds (map_of (bt_extras task) (js ''dependencies''))),
       n_x = jsnum_add (Fin 48) (jsnum_mul (jsnum_sub layer (Fin 1)) (Fin 180)),
       n_y = Fin (48 + of_nat index * 132), n_layer = layer,
       n_sensitive = (to_lower (board_extra task ''sensitive'') = js ''true''), n_status = Queued,
       n_agent_id = Some (str_or (trim_opt (bt_agent_id task)) (trim (ag_agent_id candidateAgent))), n_instance_id = None\<rparr>)"

definition rerun_edges :: "flow_node list \<Rightarrow> flow_edge list" where
  "rerun_edges nodes = concat (map (\<lambda>node. map (\<lambda>dependency.
       \<lparr>e_id = js ''edge-'' @ dependency @ js ''-'' @ n_id node, e_source = dependency, e_target = n_id node\<rparr>) (n_depends_on node)) nodes)"

definition buildFlowConfirmPayloadFromBoardTasks :: "jsstring \<Rightarrow> jsstring \<Rightarrow> board_task list \<Rightarrow> agent list \<Rightarrow> confirm_request option" where
  "buildFlowConfirmPayloadFromBoardTasks requirementId requirementTitle tasks agents =
     (if tasks = [] then None
      else case List.map_filter (task_agent agents) tasks of
        [] \<Rightarrow> None
      | candidateAgent # _ \<Rightarrow>
          let nodeIds = set (map getFlowNodeIdForTask tasks);
              nodes = map (\<lambda>(index, task). rerun_node nodeIds candidateAgent index task) (enumerate 0 tasks);
              executionKey = board_extra (hd tasks) ''execution_session_key''
          in Some \<lparr>cq_instance_id = trim (ag_instance_id candidateAgent), cq_requirement_id = Some requirementId,
               cq_executor_agent_id = trim (ag_agent_id candidateAgent), cq_manager_agent_id = Some (trim (ag_agent_id candidateAgent)),
               cq_requirement_title = non_empty (trim requirementTitle),
               cq_planner_session_key = non_empty (board_extra (hd tasks) ''planner_session_key''),
               cq_execution_session_prefix =
                 (if executionKey \<noteq> [] then Some (js_join (js '':'') (butlast (js_split (js '':'') executionKey))) else None),
               cq_nodes = nodes, cq_edges = rerun_edges nodes\<rparr>)"

section \<open>Labels and artifacts\<close>

definition getTaskStatusLabelForDetail :: "board_task \<Rightarrow> jsstring" where
  "getTaskStatusLabelForDetail task =
     (case find (\<lambda>item. fst item = resolveStatusColumnKey task) STATUS_COLUMNS of
        Some (_, title) \<Rightarrow> title
      | None \<Rightarrow> status_str (bt_status task))"

fun getFlowColumnStateLabel :: "column_state \<Rightarrow> jsstring" where
  "getFlowColumnStateLabel ColumnRunning = [0x8FD0, 0x884C, 0x4E2D]"
| "getFlowColumnStateLabel ColumnBlocked = [0x963B, 0x585E, 0x4E2D]"
| "getFlowColumnStateLabel ColumnApproval = [0x5F85, 0x5BA1, 0x6279]"
| "getFlowColumnStateLabel ColumnIdle = [0x5DF2, 0x7ED3, 0x675F]"

text \<open>\<open>replace(/\s+/g, ' ')\<close>\<close>

fun collapse_white :: "jsstring \<Rightarrow> jsstring" where
  "collapse_white [] = []"
| "collapse_white (c # cs) =
     (if \<not> js_white c then c # collapse_white cs
      else case cs of d # _ \<Rightarrow> if js_white d then collapse_white cs else 32 # collapse_white cs | [] \<Rightarrow> [32])"

definition getCompactLabel :: "jsstring \<Rightarrow> nat \<Rightarrow> jsstring" where
  "getCompactLabel text maxLength =
     (let normalized = trim (collapse_white text) in
      if length normalized \<le> maxLength then normalized else take maxLength normalized @ js ''...'')"

definition extractOutputPathFromArtifact :: "jsstring \<Rightarrow> jsstring option" where
  "extractOutputPathFromArtifact text =
     (let normalized = trim text in
      if normalized = [] then None
      else if \<not> starts_with (to_lower normalized) (js ''artifact:'') then None
      else let val = trim_opt (nth_opt (take 2 (js_split (js '':'') normalized)) 1)
           in if starts_with val (js ''/'') then Some val else None)"

record output_entry =
  oe_id :: jsstring
  oe_title :: jsstring
  oe_value :: jsstring

definition push_output :: "jsstring \<Rightarrow> output_entry list \<times> jsstring list \<Rightarrow> output_entry list \<times> jsstring list" where
  "push_output artifact st =
     (case extractOutputPathFromArtifact artifact of
        None \<Rightarrow> st
      | Some path \<Rightarrow>
          if path = [] \<or> path \<in> set (snd st) then st
          else (fst st @ [\<lparr>oe_id = js ''file:'' @ path, oe_title = [0x4EA7, 0x51FA, 0x6587, 0x4EF6] @ js '' '' @ [0x00B7] @ js '' '' @ getCompactLabel path 32, oe_value = path\<rparr>],
                snd st @ [path]))"

definition buildTaskOutputEntries :: "board_task \<Rightarrow> output_entry list" where
  "buildTaskOutputEntries task = fst (fold push_output (bt_artifacts task) ([], []))"

section \<open>The preview of a chat\<close>

datatype preview_role = PreviewUser | PreviewAssistant | PreviewTool | PreviewSystem | PreviewOther

record preview_item =
  pi_role :: preview_role
  pi_text :: jsstring
  pi_created_at :: "jsstring option"
  pi_kind :: "jsstring option"
  pi_payload :: "json option"

definition mergeStreamingAssistantText :: "jsstring \<Rightarrow> jsstring \<Rightarrow> jsstring" where
  "mergeStreamingAssistantText previousText incomingText =
     (if incomingText = [] then previousText
      else if previousText = [] then incomingText
      else if starts_with incomingText previousText then incomingText
      else if starts_with previousText incomingText then previousText
      else if ends_with previousText incomingText then previousText
      else previousText @ incomingText)"

definition mergePreviewItemsFromRealtime :: "preview_item list \<Rightarrow> preview_item list \<Rightarrow> preview_item list" where
  "mergePreviewItemsFromRealtime previousItems incomingItems =
     (case incomingItems of
        [] \<Rightarrow> previousItems
      | [incomingAssistantItem] \<Rightarrow>
          if pi_role incomingAssistantItem \<noteq> PreviewAssistant then incomingItems
          else if previousItems = [] then incomingItems
          else let lastItem = last previousItems in
            if pi_role lastItem \<noteq> PreviewAssistant then previousItems @ [incomingAssistantItem]
            else let mergedText = mergeStreamingAssistantText (pi_text lastItem) (pi_text incomingAssistantItem) in
              if mergedText = pi_text lastItem then previousItems
              else butlast previousItems @ [lastItem\<lparr>pi_text := mergedText\<rparr>]
      | _ \<Rightarrow> incomingItems)"

definition arePreviewItemsEqual :: "preview_item list \<Rightarrow> preview_item list \<Rightarrow> bool" where
  "arePreviewItemsEqual previousItems nextItems \<longleftrightarrow>
     list_all2 (\<lambda>previous next. pi_role previous = pi_role next \<and> pi_text previous = pi_text next) previousItems nextItems"

definition isImageMimeType :: "jsstring \<Rightarrow> bool" where
  "isImageMimeType mimeType = starts_with (to_lower mimeType) (js ''image/'')"

definition isPdfMimeType :: "jsstring \<Rightarrow> bool" where
  "isPdfMimeType mimeType \<longleftrightarrow> to_lower mimeType = js ''application/pdf''"

definition isVideoMimeType :: "jsstring \<Rightarrow> bool" where
  "isVideoMimeType mimeType = starts_with (to_lower mimeType) (js ''video/'')"

definition isAudioMimeType :: "jsstring \<Rightarrow> bool" where
  "isAudioMimeType mimeType = starts_with (to_lower mimeType) (js ''audio/'')"

text \<open>The parser is a parameter; None when it throws.\<close>

definition tryParseJsonValue :: "(jsstring \<Rightarrow> json option) \<Rightarrow> jsstring \<Rightarrow> json" where
  "tryParseJsonValue parse text =
     (let normalized = trim text in if normalized = [] then JNull else case parse normalized of Some v \<Rightarrow> v | None \<Rightarrow> JNull)"

section \<open>The columns of a view\<close>

lemma uniq_go_set_cong: "set seen = set seen' \<Longrightarrow> uniq_go seen xs = uniq_go seen' xs"
proof (induction xs arbitrary: seen seen')
  case (Cons x xs)
  have "uniq_go (x # seen) xs = uniq_go (x # seen') xs" by (rule Cons.IH) (simp add: Cons.prems)
  moreover have "uniq_go seen xs = uniq_go seen' xs" by (rule Cons.IH) (rule Cons.prems)
  ultimately show ?case by (simp add: Cons.prems)
qed simp

lemma uniq_go_map_inj: "inj f \<Longrightarrow> uniq_go (map f seen) (map f xs) = map f (uniq_go seen xs)"
proof (induction xs arbitrary: seen)
  case (Cons x xs)
  from Cons.IH [of "x # seen"] show ?case using Cons by (auto simp: inj_image_mem_iff)
qed simp

lemma uniq_go_append: "uniq_go seen (xs @ ys) = uniq_go seen xs @ uniq_go (seen @ xs) ys"
proof (induction xs arbitrary: seen)
  case (Cons x xs)
  have "uniq_go (seen @ x # xs) ys = uniq_go (seen @ xs) ys" if "x \<in> set seen"
    by (rule uniq_go_set_cong) (use that in auto)
  moreover have "uniq_go (x # seen @ xs) ys = uniq_go (seen @ x # xs) ys" by (rule uniq_go_set_cong) simp
  ultimately show ?case by (simp add: Cons)
qed simp

lemma uniq_append: "uniq (xs @ ys) = uniq xs @ uniq_go (uniq xs) ys"
  unfolding uniq_def uniq_go_append by (simp add: uniq_go_set_cong [of xs "uniq_go [] xs"] set_uniq_go)

text \<open>A loop that files every item under its key: the keys in the order they are first met, and what each holds.\<close>

lemma fold_groups_keys:
  assumes step: "\<And>t g. f t g = AList.update (key t) (add t (map_get g (key t) (new t))) g"
  shows "map fst (fold f ts g) = map fst g @ uniq_go (map fst g) (map key ts)"
proof (induction ts arbitrary: g)
  case (Cons t ts)
  show ?case
  proof (cases "key t \<in> fst ` set g")
    case True
    then show ?thesis using Cons by (simp add: step keys_update_old)
  next
    case False
    then show ?thesis using Cons by (simp add: step keys_update_new uniq_go_set_cong [of "map fst g @ [key t]" "key t # map fst g"])
  qed
qed simp

lemma fold_groups_value:
  assumes step: "\<And>t g. f t g = AList.update (key t) (add t (map_get g (key t) (new t))) g"
  shows "map_of (fold f ts g) k =
    (case filter (\<lambda>t. key t = k) ts of [] \<Rightarrow> map_of g k | t # us \<Rightarrow> Some (fold add (t # us) (map_get g k (new t))))"
proof (induction ts arbitrary: g)
  case (Cons t ts)
  show ?case
    using Cons [of "f t g"] by (auto simp: step split: list.splits)
qed simp

lemma distinct_values: "distinct (map fst g) \<Longrightarrow> map (\<lambda>(k, v). h k v) g = map (\<lambda>k. h k (the (map_of g k))) (map fst g)"
  by (auto simp: map_eq_conv)

definition column_of :: "view_mode \<Rightarrow> board_task \<Rightarrow> jsstring" where
  "column_of viewMode task =
     (case viewMode of
        StatusView \<Rightarrow> js ''status:'' @ column_key_str (resolveStatusColumnKey task)
      | FlowView \<Rightarrow> js ''flow:'' @ getRequirementId task
      | AgentView \<Rightarrow> js ''agent:'' @ str_or (bt_agent_name task) unassigned_name)"

lemma column_key_str_inj: "column_key_str a = column_key_str b \<longleftrightarrow> a = b"
proof -
  have no: "js ''pending_confirmation'' \<noteq> status_str s" "js ''blocked'' \<noteq> status_str s" for s by (cases s; simp)+
  have "a = b" if "column_key_str a = column_key_str b"
    using that by (cases a; cases b) (auto elim!: status_str.elims simp: no no [symmetric])
  then show ?thesis by auto
qed

lemma status_keys: "resolveStatusColumnKey task \<in> fst ` set STATUS_COLUMNS"
  by (cases "bt_status task") (simp_all add: resolveStatusColumnKey_def STATUS_COLUMNS_def)

lemma distinct_status_keys: "distinct (map fst STATUS_COLUMNS)"
  by (simp add: STATUS_COLUMNS_def)

lemma flow_columns:
  "buildKanbanColumns FlowView ts names cs = map (\<lambda>k. let own = filter (\<lambda>t. getRequirementId t = k) ts in
     \<lparr>bc_id = js ''flow:'' @ k, bc_title = getRequirementTitle (hd own) k, bc_tasks = own, bc_flow_id = Some k,
      bc_flow_state = Some (resolveFlowColumnState own)\<rparr>) (uniq (map getRequirementId ts))"
proof -
  define new where "new = (\<lambda>t. \<lparr>bc_id = js ''flow:'' @ getRequirementId t, bc_title = getRequirementTitle t (getRequirementId t),
    bc_tasks = [], bc_flow_id = Some (getRequirementId t), bc_flow_state = None\<rparr>)"
  define add where "add = (\<lambda>t (column :: board_column). column\<lparr>bc_tasks := bc_tasks column @ [t]\<rparr>)"
  have step: "group_by_flow t g = AList.update (getRequirementId t) (add t (map_get g (getRequirementId t) (new t))) g" for t g
    by (simp add: group_by_flow_def new_def add_def Let_def)
  have added: "fold add us c = c\<lparr>bc_tasks := bc_tasks c @ us\<rparr>" for us c
    by (induction us arbitrary: c) (simp_all add: add_def)
  let ?g = "fold group_by_flow ts []"
  have keys: "map fst ?g = uniq (map getRequirementId ts)" using fold_groups_keys [where key = getRequirementId and add = add and new = new, OF step, of ts "[]"] by (simp add: uniq_def)
  have "map_of ?g k = Some ((new (hd (filter (\<lambda>t. getRequirementId t = k) ts)))\<lparr>bc_tasks := filter (\<lambda>t. getRequirementId t = k) ts\<rparr>)
      \<and> getRequirementId (hd (filter (\<lambda>t. getRequirementId t = k) ts)) = k" if "k \<in> getRequirementId ` set ts" for k
  proof -
    from that have "filter (\<lambda>t. getRequirementId t = k) ts \<noteq> []" by (auto simp: filter_empty_conv)
    then obtain t us where own: "filter (\<lambda>t. getRequirementId t = k) ts = t # us" by (cases "filter (\<lambda>t. getRequirementId t = k) ts") auto
    then have k: "getRequirementId t = k" by (auto simp: filter_eq_Cons_iff)
    show ?thesis using fold_groups_value [where key = getRequirementId and add = add and new = new, OF step, of ts "[]" k] by (simp only: own added) (simp add: new_def k)
  qed
  then have "the (map_of ?g k) = (new (hd (filter (\<lambda>t. getRequirementId t = k) ts)))\<lparr>bc_tasks := filter (\<lambda>t. getRequirementId t = k) ts\<rparr>"
    "getRequirementId (hd (filter (\<lambda>t. getRequirementId t = k) ts)) = k" if "k \<in> getRequirementId ` set ts" for k
    using that by simp_all
  then show ?thesis
    unfolding buildKanbanColumns_def view_mode.case
    by (subst distinct_values) (auto simp: keys new_def Let_def)
qed

lemma agent_columns:
  "buildKanbanColumns AgentView ts names cs = map (\<lambda>k.
     \<lparr>bc_id = js ''agent:'' @ k, bc_title = k, bc_tasks = filter (\<lambda>t. str_or (bt_agent_name t) unassigned_name = k) ts,
      bc_flow_id = None, bc_flow_state = None\<rparr>) (uniq (names @ map (\<lambda>t. str_or (bt_agent_name t) unassigned_name) ts))"
proof -
  let ?key = "\<lambda>t. str_or (bt_agent_name t) unassigned_name"
  have step: "group_by_agent t g = AList.update (?key t) ((\<lambda>t us. us @ [t]) t (map_get g (?key t) ((\<lambda>_. []) t))) g" for t g
    by (simp add: group_by_agent_def Let_def)
  have named: "AList.update n [] g = AList.update (id n) ((\<lambda>_ _. []) n (map_get g (id n) ((\<lambda>_. []) n))) g" for n :: jsstring and g :: "(jsstring \<times> board_task list) list"
    by simp
  have added: "fold (\<lambda>t us. us @ [t]) us c = c @ us" for us c :: "board_task list" by (induction us arbitrary: c) simp_all
  have cleared: "fold (\<lambda>_ _. []) us c = []" if "c = []" for us :: "jsstring list" and c :: "board_task list"
    using that by (induction us) simp_all
  let ?start = "fold (\<lambda>name. AList.update name []) names ([] :: (jsstring \<times> board_task list) list)"
  let ?g = "fold group_by_agent ts ?start"
  have keys0: "map fst ?start = uniq names" using fold_groups_keys [where key = id and add = "\<lambda>_ _. []" and new = "\<lambda>_. []", OF named, of names "[]"] by (simp add: uniq_def)
  have value0: "map_get ?start k [] = []" for k
    using fold_groups_value [where key = id and add = "\<lambda>_ _. []" and new = "\<lambda>_. []", OF named, of names "[]" k] by (auto simp: map_get_def cleared split: list.splits)
  have keys: "map fst ?g = uniq (names @ map ?key ts)"
    using fold_groups_keys [where key = ?key and add = "\<lambda>t us. us @ [t]" and new = "\<lambda>_. []", OF step, of ts ?start] by (simp add: keys0 uniq_append)
  have "map_of ?g k = Some (filter (\<lambda>t. ?key t = k) ts)" if "k \<in> set (map fst ?g)" for k
  proof (cases "filter (\<lambda>t. ?key t = k) ts")
    case Nil
    moreover have "fst ` set ?start = set names" using arg_cong [OF keys0, of set] by simp
    ultimately have "k \<in> fst ` set ?start" using that keys by (auto simp: filter_empty_conv)
    then obtain v where "map_of ?start k = Some v" by (metis domD dom_map_of_conv_image_fst)
    then show ?thesis using value0 [of k] \<open>filter (\<lambda>t. ?key t = k) ts = []\<close> fold_groups_value [where key = ?key and add = "\<lambda>t us. us @ [t]" and new = "\<lambda>_. []", OF step, of ts ?start k] by (simp add: map_get_def)
  next
    case (Cons t us)
    then show ?thesis using fold_groups_value [where key = ?key and add = "\<lambda>t us. us @ [t]" and new = "\<lambda>_. []", OF step, of ts ?start k] by (simp add: value0 added)
  qed
  then have "the (map_of ?g k) = filter (\<lambda>t. ?key t = k) ts" if "k \<in> set (map fst ?g)" for k
    using that by simp
  then show ?thesis
    unfolding buildKanbanColumns_def view_mode.case
    by (subst distinct_values) (auto simp: keys)
qed

lemma mset_concat_filters:
  "distinct is \<Longrightarrow> set (map f ts) \<subseteq> set is \<Longrightarrow> mset (concat (map (\<lambda>i. filter (\<lambda>t. f t = i) ts) is)) = mset ts"
proof (induction ts)
  case (Cons t ts)
  have "mset (concat (map (\<lambda>i. filter (\<lambda>u. f u = i) (t # ts)) is)) =
      (if f t \<in> set is then {#t#} else {#}) + mset (concat (map (\<lambda>i. filter (\<lambda>u. f u = i) ts) is))"
    using Cons.prems(1) by (induction "is") auto
  then show ?case using Cons by simp
qed (induction "is", auto)

lemma uniq_map_inj: "inj f \<Longrightarrow> uniq (map f xs) = map f (uniq xs)"
  using uniq_go_map_inj [of f "[]" xs] by (simp add: uniq_def)

lemma column_of_simps:
  "column_of FlowView = (\<lambda>task. js ''flow:'' @ getRequirementId task)"
  "column_of AgentView = (\<lambda>task. js ''agent:'' @ str_or (bt_agent_name task) unassigned_name)"
  by (simp_all add: fun_eq_iff column_of_def)

lemma columns_of_view:
  "let columns = buildKanbanColumns viewMode tasks names STATUS_COLUMNS in
     distinct (map bc_id columns) \<and> set (map (column_of viewMode) tasks) \<subseteq> set (map bc_id columns) \<and>
     map bc_id columns =
       (case viewMode of
          StatusView \<Rightarrow> map (\<lambda>(key, _). js ''status:'' @ column_key_str key) STATUS_COLUMNS
        | FlowView \<Rightarrow> uniq (map (column_of FlowView) tasks)
        | AgentView \<Rightarrow> uniq (map (\<lambda>name. js ''agent:'' @ name) names @ map (column_of AgentView) tasks)) \<and>
     map bc_tasks columns = map (\<lambda>i. filter (\<lambda>task. column_of viewMode task = i) tasks) (map bc_id columns) \<and>
     map bc_flow_state columns =
       map (\<lambda>column. if viewMode = FlowView then Some (resolveFlowColumnState (bc_tasks column)) else None) columns"
proof (cases viewMode)
  case StatusView
  have "distinct (map (\<lambda>x. js ''status:'' @ column_key_str (fst x)) STATUS_COLUMNS)"
    using distinct_status_keys unfolding distinct_map by (auto simp: inj_on_def column_key_str_inj)
  moreover have "js ''status:'' @ column_key_str (resolveStatusColumnKey task) \<in> (\<lambda>x. js ''status:'' @ column_key_str (fst x)) ` set STATUS_COLUMNS" for task
    using imageI [OF status_keys [of task], of "\<lambda>k. js ''status:'' @ column_key_str k"] by (simp add: image_image)
  ultimately show ?thesis
    by (simp add: StatusView Let_def buildKanbanColumns_def split_def column_of_def column_key_str_inj comp_def image_image image_subset_iff)
next
  case FlowView
  have ids: "uniq (map (column_of FlowView) tasks) = map ((@) (js ''flow:'')) (uniq (map getRequirementId tasks))"
    using uniq_map_inj [of "(@) (js ''flow:'')" "map getRequirementId tasks"] by (simp add: column_of_simps comp_def inj_def)
  have "distinct (map ((@) (js ''flow:'')) (uniq (map getRequirementId tasks)))" by (simp add: distinct_map inj_on_def)
  then show ?thesis
    by (simp add: FlowView flow_columns ids [unfolded column_of_simps] Let_def column_of_simps comp_def image_image image_subset_iff)
next
  case AgentView
  let ?all = "names @ map (\<lambda>t. str_or (bt_agent_name t) unassigned_name) tasks"
  have ids: "uniq (map (\<lambda>name. js ''agent:'' @ name) names @ map (column_of AgentView) tasks) = map ((@) (js ''agent:'')) (uniq ?all)"
    using uniq_map_inj [of "(@) (js ''agent:'')" ?all] by (simp add: column_of_simps comp_def inj_def)
  have "distinct (map ((@) (js ''agent:'')) (uniq ?all))" by (simp add: distinct_map inj_on_def)
  then show ?thesis
    by (simp add: AgentView agent_columns ids [unfolded column_of_simps] Let_def column_of_simps comp_def image_image image_subset_iff)
qed

text \<open>
  C36: Whatever the view, the columns of the board have distinct ids, no task is lost or shown twice, and a
  column holds exactly the tasks whose column it is, in the order of the records; a view by flow or by agent
  opens a column at the first task of a flow or agent (after the columns of the known agents, which may be
  empty), and only the columns of the view by flow carry the state of their tasks.
\<close>

theorem board_columns_partition:
  "let columns = buildKanbanColumns viewMode tasks names STATUS_COLUMNS in
     distinct (map bc_id columns) \<and>
     map bc_id columns =
       (case viewMode of
          StatusView \<Rightarrow> map (\<lambda>(key, _). js ''status:'' @ column_key_str key) STATUS_COLUMNS
        | FlowView \<Rightarrow> uniq (map (column_of FlowView) tasks)
        | AgentView \<Rightarrow> uniq (map (\<lambda>name. js ''agent:'' @ name) names @ map (column_of AgentView) tasks)) \<and>
     map bc_tasks columns = map (\<lambda>i. filter (\<lambda>task. column_of viewMode task = i) tasks) (map bc_id columns) \<and>
     mset (concat (map bc_tasks columns)) = mset tasks \<and>
     map bc_flow_state columns =
       map (\<lambda>column. if viewMode = FlowView then Some (resolveFlowColumnState (bc_tasks column)) else None) columns"
proof -
  let ?cs = "buildKanbanColumns viewMode tasks names STATUS_COLUMNS"
  note c = columns_of_view [of viewMode tasks names]
  have tasks: "map bc_tasks ?cs = map (\<lambda>i. filter (\<lambda>task. column_of viewMode task = i) tasks) (map bc_id ?cs)"
    using c unfolding Let_def by blast
  have "mset (concat (map bc_tasks ?cs)) = mset tasks"
    unfolding tasks by (rule mset_concat_filters) (use c in \<open>unfold Let_def, blast\<close>)+
  then show ?thesis using c unfolding Let_def by blast
qed

section \<open>The request that runs a flow again\<close>

lemma task_agent_spec:
  "task_agent agents task = Some agent \<Longrightarrow> agent \<in> set agents \<and> trim (ag_agent_id agent) = trim_opt (bt_agent_id task) \<and>
     trim (ag_instance_id agent) = trim_opt (bt_instance_id task) \<and> trim (ag_agent_id agent) \<noteq> [] \<and> trim (ag_instance_id agent) \<noteq> []"
  by (auto simp: task_agent_def Let_def find_Some_iff split: if_splits)

lemma flow_layer_positive: "is_finite (parseFlowLayer raw) \<and> jsnum_pos (parseFlowLayer raw)"
  by (simp add: parseFlowLayer_def Let_def)

lemma rerun_edges_exact: "(s, t) \<in> (\<lambda>edge. (e_source edge, e_target edge)) ` set (rerun_edges nodes) \<longleftrightarrow> (\<exists>node \<in> set nodes. n_id node = t \<and> s \<in> set (n_depends_on node))"
  by (force simp: rerun_edges_def)

lemma rerun_node_simps [simp]:
  "n_id (rerun_node ids agent i task) = getFlowNodeIdForTask task"
  "n_status (rerun_node ids agent i task) = Queued"
  "n_layer (rerun_node ids agent i task) = parseFlowLayer (map_of (bt_extras task) (js ''layer''))"
  "n_agent_id (rerun_node ids agent i task) = Some (str_or (trim_opt (bt_agent_id task)) (trim (ag_agent_id agent)))"
  by (simp_all add: rerun_node_def Let_def)

lemma rerun_node_depends:
  "d \<in> set (n_depends_on (rerun_node ids agent i task)) \<Longrightarrow> d \<in> ids \<and> d \<noteq> getFlowNodeIdForTask task"
  by (simp add: rerun_node_def Let_def)

lemma map_filter_hd:
  "List.map_filter f xs = y # ys \<Longrightarrow> \<exists>x \<in> set xs. f x = Some y"
  by (induction xs) (auto simp: map_filter_simps split: option.splits)

lemma map_enumerate_const: "map (\<lambda>(i, x). f x) (enumerate k xs) = map f xs"
  by (induction xs arbitrary: k) simp_all

lemma no_rerun_iff:
  "buildFlowConfirmPayloadFromBoardTasks requirementId title tasks agents = None \<longleftrightarrow> list_all (\<lambda>task. task_agent agents task = None) tasks"
proof -
  have "List.map_filter (task_agent agents) tasks = [] \<longleftrightarrow> list_all (\<lambda>task. task_agent agents task = None) tasks"
    by (induction tasks) (simp_all add: map_filter_simps split: option.splits)
  then show ?thesis
    by (auto simp: buildFlowConfirmPayloadFromBoardTasks_def Let_def split: list.splits)
qed

text \<open>
  When the board asks to run a flow again, the request is for an agent of the overview that one of its tasks
  names; it has one node for each task, in order, all queued, each with an agent and a finite positive layer;
  a node never depends on itself or on a node that is not in the request; and its edges are exactly the
  dependencies of its nodes. No request is built exactly when no task has a known agent.
\<close>

lemma rerun_payload:
  "case buildFlowConfirmPayloadFromBoardTasks requirementId title tasks agents of
     None \<Rightarrow> list_all (\<lambda>task. task_agent agents task = None) tasks
   | Some request \<Rightarrow>
       (\<exists>agent. Some agent \<in> set (map (task_agent agents) tasks) \<and> agent \<in> set agents \<and>
          cq_executor_agent_id request = trim (ag_agent_id agent) \<and> cq_manager_agent_id request = Some (trim (ag_agent_id agent)) \<and>
          cq_instance_id request = trim (ag_instance_id agent)) \<and>
       cq_executor_agent_id request \<noteq> [] \<and> cq_instance_id request \<noteq> [] \<and>
       map n_id (cq_nodes request) = map getFlowNodeIdForTask tasks \<and>
       list_all (\<lambda>node. n_status node = Queued \<and> n_agent_id node \<notin> {None, Some []} \<and>
         is_finite (n_layer node) \<and> jsnum_pos (n_layer node) \<and>
         n_id node \<notin> set (n_depends_on node) \<and> set (n_depends_on node) \<subseteq> set (map n_id (cq_nodes request))) (cq_nodes request) \<and>
       set (map (\<lambda>edge. (e_source edge, e_target edge)) (cq_edges request)) = {(s, t). \<exists>node \<in> set (cq_nodes request). n_id node = t \<and> s \<in> set (n_depends_on node)}"
proof (cases "buildFlowConfirmPayloadFromBoardTasks requirementId title tasks agents")
  case None
  then have "list_all (\<lambda>task. task_agent agents task = None) tasks" by (simp only: no_rerun_iff)
  then show ?thesis unfolding None by simp
next
  case (Some request)
  then obtain agent others where found: "List.map_filter (task_agent agents) tasks = agent # others"
    by (auto simp: buildFlowConfirmPayloadFromBoardTasks_def split: if_splits list.splits)
  let ?ids = "set (map getFlowNodeIdForTask tasks)"
  define ns where "ns = map (\<lambda>(index, task). rerun_node ?ids agent index task) (enumerate 0 tasks)"
  have q: "cq_nodes request = ns" "cq_edges request = rerun_edges ns" "cq_executor_agent_id request = trim (ag_agent_id agent)"
    "cq_manager_agent_id request = Some (trim (ag_agent_id agent))" "cq_instance_id request = trim (ag_instance_id agent)"
    using Some by (auto simp: buildFlowConfirmPayloadFromBoardTasks_def found ns_def Let_def split: if_splits)
  obtain task where task: "task \<in> set tasks" "task_agent agents task = Some agent" using map_filter_hd [OF found] by auto
  have ids: "map n_id ns = map getFlowNodeIdForTask tasks"
    unfolding ns_def by (simp add: comp_def split_def) (simp add: map_enumerate_const [of getFlowNodeIdForTask 0 tasks, unfolded split_def])
  have agent_label: "str_or s (trim (ag_agent_id agent)) \<noteq> []" for s using task_agent_spec [OF task(2)] by (cases s) (auto simp: str_or_def)
  have "list_all (\<lambda>node. n_status node = Queued \<and> n_agent_id node \<notin> {None, Some []} \<and> is_finite (n_layer node) \<and> jsnum_pos (n_layer node) \<and>
      n_id node \<notin> set (n_depends_on node) \<and> set (n_depends_on node) \<subseteq> set (map n_id ns)) ns"
    unfolding ids by (auto simp: list_all_iff ns_def flow_layer_positive agent_label dest: rerun_node_depends)
  moreover have "set (map (\<lambda>edge. (e_source edge, e_target edge)) (rerun_edges ns)) = {(s, t). \<exists>node \<in> set ns. n_id node = t \<and> s \<in> set (n_depends_on node)}"
    using rerun_edges_exact [of _ _ ns] by auto
  moreover have "Some agent \<in> set (map (task_agent agents) tasks)" using task by force
  ultimately show ?thesis using task_agent_spec [OF task(2)] unfolding Some option.case q ids by blast
qed

section \<open>Merging what a chat streams\<close>

text \<open>
  What a streamed piece of text does to the text shown: nothing shown is ever lost, the text then
  holds the piece, a piece that is delivered twice changes nothing the second time, and a piece that is a
  longer version of the text replaces it.
\<close>

lemma merged_text_grows: "starts_with (mergeStreamingAssistantText previous incoming) previous"
  by (auto simp: mergeStreamingAssistantText_def starts_with_iff ends_with_iff)

lemma merged_text_holds: "\<exists>before after. mergeStreamingAssistantText previous incoming = before @ incoming @ after"
proof -
  have "\<exists>before after. x = before @ x @ after" "\<exists>before after. previous = before @ [] @ after"
    "\<exists>before after. previous @ x = before @ x @ after" for x :: jsstring
    by (rule exI [of _ "[]"], rule exI [of _ "[]"], simp) (rule exI, rule exI [of _ "[]"], simp)+
  then show ?thesis
    unfolding mergeStreamingAssistantText_def starts_with_iff ends_with_iff by (auto; metis append_Nil append_Nil2 append_assoc)
qed

lemma merged_twice: "mergeStreamingAssistantText (mergeStreamingAssistantText previous incoming) incoming = mergeStreamingAssistantText previous incoming"
proof -
  have "previous = []" if "starts_with incoming (previous @ incoming)"
  proof -
    from that obtain r where "incoming = (previous @ incoming) @ r" unfolding starts_with_iff by blast
    from arg_cong [OF this, of length] show ?thesis by simp
  qed
  moreover have "ends_with (previous @ incoming) incoming" unfolding ends_with_iff by blast
  ultimately have "mergeStreamingAssistantText (previous @ incoming) incoming = previous @ incoming"
    unfolding mergeStreamingAssistantText_def by auto
  then show ?thesis unfolding mergeStreamingAssistantText_def by (simp add: starts_with_iff split: if_splits)
qed

text \<open>A piece that happens to repeat the end of the text is taken for a repeated delivery.\<close>

lemma repeated_piece_is_dropped: "mergeStreamingAssistantText (js ''hel'') (js ''l'') = js ''hel''"
  by (simp add: mergeStreamingAssistantText_def starts_with_def ends_with_def js_def)

lemma merged_items_grow:
  "\<not> (\<exists>item. incoming = [item] \<and> pi_role item = PreviewAssistant) \<or> length previous \<le> length (mergePreviewItemsFromRealtime previous incoming)"
  by (auto simp: mergePreviewItemsFromRealtime_def Let_def split: list.splits)

end
