(* ===== verification/CollabLinks.thy ===== *)
theory CollabLinks imports PlannerStream BoardColumns begin

text \<open>
  The realtime connections of the board: \<open>components/collab-page/useBoardTasksRealtime.ts\<close>,
  \<open>hooks/useCollabTaskSessionRuntime.ts\<close> and \<open>hooks/useBoardTasksRealtime.ts\<close>. Each is an effect that owns one client,
  a reconnect timer and a counter of attempts. What the clients themselves do is modelled by
  RealtimeClient and PlannerStream: a client reports the loss of its connection at most once and is silent from
  then on, which is the guard of the steps below.
\<close>

section \<open>What a reconnecting effect promises\<close>

text \<open>
  The contract: an invariant that holds at the start and that every step keeps, under which the effect,
  until it is cleaned up, is in exactly one of two conditions, connected or on its way to a new connection, and
  after the cleanup in neither.
\<close>

locale reconnecting =
  fixes start :: 's and step :: "'s \<Rightarrow> 's \<Rightarrow> bool"
    and ok :: "'s \<Rightarrow> bool" and connected :: "'s \<Rightarrow> bool" and returning :: "'s \<Rightarrow> bool" and left :: "'s \<Rightarrow> bool"
  assumes start_ok: "ok start"
    and step_ok: "step s s' \<Longrightarrow> ok s \<Longrightarrow> ok s'"
    and ok_alive: "ok s \<Longrightarrow> \<not> left s \<Longrightarrow> connected s \<noteq> returning s"
    and ok_quiet: "ok s \<Longrightarrow> left s \<Longrightarrow> \<not> connected s \<and> \<not> returning s"
begin

lemma reachable_ok: "step\<^sup>*\<^sup>* start s \<Longrightarrow> ok s"
  by (induction rule: rtranclp_induct) (blast intro: start_ok step_ok)+

lemma never_silent: "step\<^sup>*\<^sup>* start s \<Longrightarrow> (left s \<longrightarrow> \<not> connected s \<and> \<not> returning s) \<and> (\<not> left s \<longrightarrow> connected s \<noteq> returning s)"
  using reachable_ok ok_alive ok_quiet by blast

end

section \<open>The connection of the board and of the chat of a task\<close>

text \<open>
  The two hooks of the board share this machine: the variables \<open>cancelled\<close>, \<open>reconnectAttempts\<close>, the reconnect timer with
  its delay, and the client in the reference (clients are numbered as they are created); for each client
  whether its connection may still speak.
\<close>

record link =
  lk_cancelled :: bool
  lk_attempts :: nat
  lk_timer :: "int option"
  lk_client :: "nat option"
  lk_open :: "bool list"

definition link_connect :: "link \<Rightarrow> link" where
  "link_connect l =
     (if lk_cancelled l then l
      else l\<lparr>lk_open := lk_open l @ [True], lk_client := Some (length (lk_open l))\<rparr>)"

definition link_start :: link where
  "link_start = link_connect \<lparr>lk_cancelled = False, lk_attempts = 0, lk_timer = None, lk_client = None, lk_open = []\<rparr>"

definition link_on_message :: "link \<Rightarrow> link" where
  "link_on_message l = (if lk_cancelled l then l else l\<lparr>lk_attempts := 0\<rparr>)"

definition link_on_disconnected :: "link \<Rightarrow> link" where
  "link_on_disconnected l =
     (if lk_cancelled l \<or> lk_timer l \<noteq> None then l
      else l\<lparr>lk_timer := Some (getRealtimeReconnectDelayMs (lk_attempts l)), lk_attempts := lk_attempts l + 1\<rparr>)"

definition link_on_timer :: "link \<Rightarrow> link" where
  "link_on_timer l = link_connect (l\<lparr>lk_timer := None\<rparr>)"

definition link_cleanup :: "link \<Rightarrow> link" where
  "link_cleanup l =
     l\<lparr>lk_cancelled := True, lk_timer := None,
       lk_open := (case lk_client l of None \<Rightarrow> lk_open l | Some i \<Rightarrow> (lk_open l)[i := False]), lk_client := None\<rparr>"

text \<open>A client speaks or is lost while its connection is open.\<close>

definition link_speaks :: "nat \<Rightarrow> link \<Rightarrow> bool" where
  "link_speaks i l \<longleftrightarrow> i < length (lk_open l) \<and> lk_open l ! i"

definition link_lose :: "nat \<Rightarrow> link \<Rightarrow> link" where
  "link_lose i l = link_on_disconnected (l\<lparr>lk_open := (lk_open l)[i := False]\<rparr>)"

inductive link_steps :: "link \<Rightarrow> link \<Rightarrow> bool" where
  message: "link_speaks i l \<Longrightarrow> link_steps l (link_on_message l)"
| disconnected: "link_speaks i l \<Longrightarrow> link_steps l (link_lose i l)"
| timer: "lk_timer l \<noteq> None \<Longrightarrow> link_steps l (link_on_timer l)"
| cleanup: "link_steps l (link_cleanup l)"

inductive_cases link_stepsE: "link_steps l l'"

text \<open>All clients but the last are silent, and the last speaks until it is lost or the effect is cleaned up.\<close>

definition link_ok :: "link \<Rightarrow> bool" where
  "link_ok l \<longleftrightarrow>
     (if lk_cancelled l then lk_client l = None \<and> lk_timer l = None \<and> (\<exists>n. lk_open l = replicate n False)
      else \<exists>n. lk_client l = Some n \<and> lk_open l = replicate n False @ [lk_timer l = None]) \<and>
     (\<forall>d. lk_timer l = Some d \<longrightarrow> 400 \<le> d \<and> d \<le> 4000)"

lemmas link_defs = link_connect_def link_on_message_def link_on_disconnected_def link_on_timer_def link_cleanup_def
  link_lose_def

lemma replicate_snoc_eq: "replicate n x @ [x] = replicate (Suc n) x"
  by (simp add: replicate_append_same)

lemma speaks_iff:
  assumes "link_ok l"
  shows "link_speaks i l \<longleftrightarrow> lk_client l = Some i \<and> lk_timer l = None"
  using assms by (auto simp: link_ok_def link_speaks_def nth_append less_Suc_eq split: if_splits)

lemma link_ok_start: "link_ok link_start"
  by (simp add: link_ok_def link_start_def link_defs)

lemma link_ok_message: "link_ok l \<Longrightarrow> link_ok (link_on_message l)"
  by (simp add: link_ok_def link_on_message_def)

lemma link_ok_lose: "link_ok l \<Longrightarrow> link_speaks i l \<Longrightarrow> link_ok (link_lose i l)"
  using reconnect_delay_bounds [of "lk_attempts l"]
  by (simp add: speaks_iff) (auto simp: link_ok_def link_lose_def link_on_disconnected_def list_update_append split: if_splits)

lemma link_ok_timer: "link_ok l \<Longrightarrow> lk_timer l \<noteq> None \<Longrightarrow> link_ok (link_on_timer l)"
  by (auto simp: link_ok_def link_on_timer_def link_connect_def replicate_snoc_eq simp del: replicate_Suc split: if_splits)

lemma link_ok_cleanup:
  assumes "link_ok l"
  shows "link_ok (link_cleanup l)"
proof (cases "lk_cancelled l")
  case True
  then show ?thesis using assms by (auto simp: link_ok_def link_cleanup_def)
next
  case False
  then obtain n where "lk_client l = Some n" "lk_open l = replicate n False @ [lk_timer l = None]" using assms by (auto simp: link_ok_def)
  then have "lk_open (link_cleanup l) = replicate (Suc n) False"
    by (simp add: link_cleanup_def list_update_append replicate_snoc_eq del: replicate_Suc)
  then have "\<exists>m. lk_open (link_cleanup l) = replicate m False" by blast
  moreover have "lk_cancelled (link_cleanup l)" "lk_client (link_cleanup l) = None" "lk_timer (link_cleanup l) = None"
    by (simp_all add: link_cleanup_def)
  ultimately show ?thesis by (simp add: link_ok_def)
qed

lemmas link_ok_intros = link_ok_start link_ok_message link_ok_lose link_ok_timer link_ok_cleanup

lemma link_step_ok: "link_steps l l' \<Longrightarrow> link_ok l \<Longrightarrow> link_ok l'"
  by (induction rule: link_steps.induct) (blast intro: link_ok_intros)+

interpretation board_link: reconnecting link_start link_steps link_ok "\<lambda>l. \<exists>i. link_speaks i l" "\<lambda>l. lk_timer l \<noteq> None" lk_cancelled
proof unfold_locales
  show "link_steps l l' \<Longrightarrow> link_ok l \<Longrightarrow> link_ok l'" for l l' by (rule link_step_ok)
  show "link_ok l \<Longrightarrow> \<not> lk_cancelled l \<Longrightarrow> (\<exists>i. link_speaks i l) \<noteq> (lk_timer l \<noteq> None)" for l
    by (simp add: speaks_iff) (auto simp: link_ok_def)
  show "link_ok l \<Longrightarrow> lk_cancelled l \<Longrightarrow> \<not> (\<exists>i. link_speaks i l) \<and> \<not> lk_timer l \<noteq> None" for l
    by (simp add: speaks_iff) (auto simp: link_ok_def)
qed (rule link_ok_start)

text \<open>
  The connections of the board (its tasks, and the chat of the task that is open) never go quiet and never double:
  until the effect is cleaned up, either exactly one client is connected, the one in the reference, or a reconnection is
  scheduled in 0.4 to 4 seconds, never both; after the cleanup no client can speak and no timer is left.
\<close>

lemma board_link_connected_or_reconnecting:
  assumes "link_steps\<^sup>*\<^sup>* link_start l"
  shows "(if lk_cancelled l then \<not> (\<exists>i. link_speaks i l) \<and> lk_timer l = None
      else (\<exists>i. link_speaks i l) \<noteq> (lk_timer l \<noteq> None)) \<and>
    (\<forall>i. link_speaks i l \<longrightarrow> lk_client l = Some i) \<and>
    (\<forall>d. lk_timer l = Some d \<longrightarrow> 400 \<le> d \<and> d \<le> 4000)"
  using board_link.never_silent [OF assms] speaks_iff [OF board_link.reachable_ok [OF assms]] board_link.reachable_ok [OF assms]
  by (simp add: link_ok_def)

theorem board_link_connected_or_reconnecting_witness:
  "(\<exists>i. link_speaks i (link_on_timer (link_lose 0 link_start))) \<and> lk_timer (link_lose 0 link_start) = Some 400"
proof -
  have "link_steps link_start (link_lose 0 link_start)"
    by (rule link_steps.disconnected) (simp add: link_start_def link_connect_def link_speaks_def)
  moreover have timer: "lk_timer (link_lose 0 link_start) = Some 400"
    by (simp add: link_start_def link_defs getRealtimeReconnectDelayMs_def)
  moreover from this have "link_steps (link_lose 0 link_start) (link_on_timer (link_lose 0 link_start))"
    by (intro link_steps.timer) simp
  ultimately have "link_steps\<^sup>*\<^sup>* link_start (link_on_timer (link_lose 0 link_start))"
    by (meson r_into_rtranclp rtranclp.rtrancl_into_rtrancl)
  from board_link_connected_or_reconnecting [OF this] timer show ?thesis
    by (simp add: link_start_def link_defs)
qed

section \<open>The connection of the flow page\<close>

text \<open>
  \<open>hooks/useBoardTasksRealtime.ts\<close> has the machine of the planner stream, without the probe, but before it connects
  again it asks the page to refresh its tasks and waits for the answer, whatever it is.
\<close>

record task_stream =
  ts_stream :: stream
  ts_refreshing :: nat

definition task_stream_start :: task_stream where
  "task_stream_start = \<lparr>ts_stream = connectRealtime (stream_start\<lparr>st_probed := True\<rparr>), ts_refreshing = 0\<rparr>"

definition task_on_message :: "nat \<Rightarrow> task_stream \<Rightarrow> task_stream" where
  "task_on_message client ts = ts\<lparr>ts_stream := stream_on_message client False (ts_stream ts)\<rparr>"

definition task_on_disconnected :: "nat \<Rightarrow> task_stream \<Rightarrow> task_stream" where
  "task_on_disconnected client ts = ts\<lparr>ts_stream := stream_on_disconnected client (ts_stream ts)\<rparr>"

definition task_on_timer :: "task_stream \<Rightarrow> task_stream" where
  "task_on_timer ts = ts\<lparr>ts_stream := (ts_stream ts)\<lparr>st_timer := None\<rparr>, ts_refreshing := ts_refreshing ts + 1\<rparr>"

definition task_on_refreshed :: "task_stream \<Rightarrow> task_stream" where
  "task_on_refreshed ts = ts\<lparr>ts_stream := connectRealtime (ts_stream ts), ts_refreshing := ts_refreshing ts - 1\<rparr>"

definition task_cleanup :: "task_stream \<Rightarrow> task_stream" where
  "task_cleanup ts = ts\<lparr>ts_stream := stream_cleanup (ts_stream ts)\<rparr>"

inductive task_stream_steps :: "task_stream \<Rightarrow> task_stream \<Rightarrow> bool" where
  message: "task_stream_steps ts (task_on_message i ts)"
| disconnected: "task_stream_steps ts (task_on_disconnected i ts)"
| timer: "st_timer (ts_stream ts) \<noteq> None \<Longrightarrow> task_stream_steps ts (task_on_timer ts)"
| refreshed: "0 < ts_refreshing ts \<Longrightarrow> task_stream_steps ts (task_on_refreshed ts)"
| cleanup: "task_stream_steps ts (task_cleanup ts)"

definition task_stream_ok :: "task_stream \<Rightarrow> bool" where
  "task_stream_ok ts \<longleftrightarrow>
     (let st = ts_stream ts in
      (\<forall>i < length (st_closed st). st_closed st ! i \<longleftrightarrow> st_client st \<noteq> Some i) \<and>
      (\<forall>i. st_client st = Some i \<longrightarrow> i < length (st_closed st)) \<and>
      (\<forall>d. st_timer st = Some d \<longrightarrow> 400 \<le> d \<and> d \<le> 4000) \<and>
      (if st_cancelled st then st_client st = None \<and> st_timer st = None
       else if st_client st \<noteq> None then st_timer st = None \<and> ts_refreshing ts = 0
       else if st_timer st \<noteq> None then ts_refreshing ts = 0
       else ts_refreshing ts = 1))"

lemma task_stream_ok_start: "task_stream_ok task_stream_start"
  by (simp add: task_stream_ok_def task_stream_start_def stream_start_def connectRealtime_def close_current_def Let_def)

lemma task_stream_step_ok: "task_stream_steps ts ts' \<Longrightarrow> task_stream_ok ts \<Longrightarrow> task_stream_ok ts'"
proof (induction rule: task_stream_steps.induct)
  case (message ts i)
  then show ?case by (auto simp: task_stream_ok_def task_on_message_def stream_on_message_def Let_def)
next
  case (disconnected ts i)
  then show ?case using reconnect_delay_bounds
    by (auto simp: task_stream_ok_def task_on_disconnected_def stream_on_disconnected_def scheduleReconnect_def nth_list_update Let_def)
next
  case (timer ts)
  then show ?case by (auto simp: task_stream_ok_def task_on_timer_def Let_def split: if_splits)
next
  case (refreshed ts)
  then show ?case
    by (auto simp: task_stream_ok_def task_on_refreshed_def connectRealtime_def close_current_def nth_append Let_def split: if_splits)
next
  case (cleanup ts)
  then show ?case
    by (auto simp: task_stream_ok_def task_cleanup_def stream_cleanup_def close_current_def nth_list_update Let_def split: option.splits if_splits)
qed

lemma task_alive:
  "task_stream_ok ts \<Longrightarrow> \<not> st_cancelled (ts_stream ts) \<Longrightarrow>
     (st_client (ts_stream ts) \<noteq> None) \<noteq> (st_timer (ts_stream ts) \<noteq> None \<or> 0 < ts_refreshing ts) \<and> ts_refreshing ts \<le> 1"
  unfolding task_stream_ok_def Let_def by (cases "st_client (ts_stream ts)"; cases "st_timer (ts_stream ts)") simp_all

lemma task_quiet:
  "task_stream_ok ts \<Longrightarrow> st_cancelled (ts_stream ts) \<Longrightarrow> st_client (ts_stream ts) = None \<and> st_timer (ts_stream ts) = None"
  unfolding task_stream_ok_def Let_def by simp

lemma task_closed:
  "task_stream_ok ts \<Longrightarrow> \<forall>i < length (st_closed (ts_stream ts)). st_closed (ts_stream ts) ! i \<longleftrightarrow> st_client (ts_stream ts) \<noteq> Some i"
  unfolding task_stream_ok_def Let_def by blast

interpretation flow_tasks: reconnecting task_stream_start task_stream_steps task_stream_ok
  "\<lambda>ts. st_client (ts_stream ts) \<noteq> None"
  "\<lambda>ts. \<not> st_cancelled (ts_stream ts) \<and> (st_timer (ts_stream ts) \<noteq> None \<or> 0 < ts_refreshing ts)" "\<lambda>ts. st_cancelled (ts_stream ts)"
proof unfold_locales
  show "task_stream_ok task_stream_start" by (rule task_stream_ok_start)
  show "task_stream_steps ts ts' \<Longrightarrow> task_stream_ok ts \<Longrightarrow> task_stream_ok ts'" for ts ts' by (rule task_stream_step_ok)
qed (use task_alive task_quiet in auto)

text \<open>
  The flow page's connection to the tasks of its board is always exactly one of connected, waiting to reconnect, or
  refreshing the tasks before it connects, with one refresh at a time, so that no client is ever opened
  after a loss before the tasks were asked for again; once the page has left nothing is connected or
  scheduled, and a refresh that answers then opens nothing.
\<close>

lemma task_stream_refreshes_before_connecting:
  assumes "task_stream_steps\<^sup>*\<^sup>* task_stream_start ts"
  shows "(\<not> st_cancelled (ts_stream ts) \<longrightarrow>
      (st_client (ts_stream ts) \<noteq> None) \<noteq> (st_timer (ts_stream ts) \<noteq> None \<or> 0 < ts_refreshing ts) \<and> ts_refreshing ts \<le> 1) \<and>
    (st_cancelled (ts_stream ts) \<longrightarrow> st_client (ts_stream ts) = None \<and> st_timer (ts_stream ts) = None \<and>
      st_client (ts_stream (task_on_refreshed ts)) = None) \<and>
    (\<forall>i < length (st_closed (ts_stream ts)). st_closed (ts_stream ts) ! i \<longleftrightarrow> st_client (ts_stream ts) \<noteq> Some i)"
proof -
  note ok = flow_tasks.reachable_ok [OF assms]
  have "st_client (ts_stream (task_on_refreshed ts)) = None" if "st_cancelled (ts_stream ts)"
    using that task_quiet [OF ok] by (simp add: task_on_refreshed_def connectRealtime_def)
  then show ?thesis using task_alive [OF ok] task_quiet [OF ok] task_closed [OF ok] by blast
qed

definition refreshing_stream :: task_stream where
  "refreshing_stream = task_on_timer (task_on_disconnected 0 task_stream_start)"

theorem task_stream_refreshes_before_connecting_witness:
  "ts_refreshing refreshing_stream = 1 \<and> st_client (ts_stream refreshing_stream) = None \<and>
   st_client (ts_stream (task_on_refreshed refreshing_stream)) = Some 1"
proof -
  have "task_stream_steps task_stream_start (task_on_disconnected 0 task_stream_start)" by (rule task_stream_steps.disconnected)
  moreover have "task_stream_steps (task_on_disconnected 0 task_stream_start) refreshing_stream"
    unfolding refreshing_stream_def
    by (rule task_stream_steps.timer)
      (simp add: task_on_disconnected_def task_stream_start_def stream_start_def stream_defs)
  ultimately have "task_stream_steps\<^sup>*\<^sup>* task_stream_start refreshing_stream" by (meson r_into_rtranclp rtranclp.rtrancl_into_rtrancl)
  from task_stream_refreshes_before_connecting [OF this] show ?thesis
    by (simp add: refreshing_stream_def task_on_timer_def task_on_disconnected_def task_on_refreshed_def task_stream_start_def
        stream_start_def stream_defs)
qed

end
