(* ===== verification/CollabBoard.thy ===== *)
theory CollabBoard imports CollabLinks PageState begin

text \<open>
  \<open>components/CollabPage.tsx\<close>: the page of the collaboration board. Its state, what it computes for the
  screen, its handlers, and the effects that run after a render; with them the effect of
  \<open>hooks/useCollabTaskSessionRuntime.ts\<close>, whose connection is the machine of CollabLinks.

  A handler that waits for the server is split at the wait: what it does before appends the call to
  \<open>cb_pending\<close>, and \<open>answer\<close> takes one pending call, in any order, and does the rest.
  Tasks are compared by the identity of the object, so a task is kept with the number of its object.
\<close>

section \<open>The state of the page\<close>

type_synonym task_ref = "nat \<times> board_task"

datatype detail_tab = InfoTab | StreamTab | OutputTab

datatype flow_action = InterruptFlow | ContinueFlow | RunFlow

datatype task_action = InterruptTask | ContinueTask

datatype load_mode = ReplaceLoad | ResyncLoad

text \<open>What remains to be done when a reload of the board has finished: the \<open>finally\<close> of the handler that waits for it.\<close>

datatype after_load = NothingAfter | FreeFlow flow_action | FreeTask task_action

record create_call =
  ct_requirement :: jsstring
  ct_agent_id :: jsstring
  ct_agent_name :: jsstring
  ct_instance_id :: jsstring

datatype board_call =
    LoadBoard after_load
  | CreateTask create_call
  | DeleteTask jsstring bool
  | ChangeFlow flow_action jsstring
  | ConfirmFlow confirm_request
  | ChangeTask task_action jsstring "jsstring option"
  | ReadHistory jsstring "jsstring option" load_mode
  | ReadPreview nat jsstring jsstring "jsstring option"

text \<open>What is caught: the message, when it is an \<open>Error\<close>, and the status, when it is an \<open>ApiError\<close>.\<close>

record failure =
  fa_message :: "jsstring option"
  fa_status :: "int option"

definition failure_text :: "failure \<Rightarrow> jsstring \<Rightarrow> jsstring" where
  "failure_text f fallback = nullish (fa_message f) fallback"

record session_panel =
  sp_items :: "preview_item list"
  sp_loading :: bool
  sp_error :: "jsstring option"
  sp_unavailable :: jsstring

record output_panel =
  ov_selected :: "jsstring option"
  ov_preview :: "output_preview_response option"
  ov_loading :: bool
  ov_error :: "jsstring option"
  ov_token :: nat

record busy_marks =
  bz_interrupting_task :: "jsstring option"
  bz_continuing_task :: "jsstring option"
  bz_interrupting_flow :: "jsstring option"
  bz_continuing_flow :: "jsstring option"
  bz_running_flow :: "jsstring option"

record collab =
  cb_overview :: "agent list option"
  cb_loading :: bool
  cb_load_error :: "jsstring option"
  cb_tasks :: "task_ref list"
  cb_view_mode :: view_mode
  cb_create_open :: bool
  cb_requirement_input :: jsstring
  cb_agent_key :: jsstring
  cb_add_agent_open :: bool
  cb_selected :: "task_ref option"
  cb_busy :: busy_marks
  cb_session :: session_panel
  cb_detail_tab :: detail_tab
  cb_output :: output_panel
  cb_new_agent_name :: jsstring
  cb_custom_names :: "jsstring list"
  cb_collapsed :: "jsstring list"
  cb_mobile_index :: nat
  cb_menu_open :: bool
  cb_touch_x :: "jsnum option"
  cb_toasts :: "(jsstring \<times> toast_kind) list"
  cb_pending :: "board_call list"
  cb_next_ref :: nat
  cb_session_task :: "task_ref option"
  cb_link :: "(board_task \<times> jsstring \<times> link) option"
  cb_earlier :: "(board_task \<times> jsstring \<times> link \<times> bool) list"
  cb_output_deps :: "task_ref option \<times> output_entry option"

definition add_toast :: "jsstring \<Rightarrow> toast_kind \<Rightarrow> collab \<Rightarrow> collab" where
  "add_toast message kind s = s\<lparr>cb_toasts := cb_toasts s @ [(message, kind)]\<rparr>"

definition call_server :: "board_call \<Rightarrow> collab \<Rightarrow> collab" where
  "call_server call s = s\<lparr>cb_pending := cb_pending s @ [call]\<rparr>"

definition on_session :: "(session_panel \<Rightarrow> session_panel) \<Rightarrow> collab \<Rightarrow> collab" where
  "on_session f s = s\<lparr>cb_session := f (cb_session s)\<rparr>"

definition on_output :: "(output_panel \<Rightarrow> output_panel) \<Rightarrow> collab \<Rightarrow> collab" where
  "on_output f s = s\<lparr>cb_output := f (cb_output s)\<rparr>"

fun mark_flow :: "flow_action \<Rightarrow> jsstring option \<Rightarrow> busy_marks \<Rightarrow> busy_marks" where
  "mark_flow InterruptFlow v b = b\<lparr>bz_interrupting_flow := v\<rparr>"
| "mark_flow ContinueFlow v b = b\<lparr>bz_continuing_flow := v\<rparr>"
| "mark_flow RunFlow v b = b\<lparr>bz_running_flow := v\<rparr>"

fun mark_task :: "task_action \<Rightarrow> jsstring option \<Rightarrow> busy_marks \<Rightarrow> busy_marks" where
  "mark_task InterruptTask v b = b\<lparr>bz_interrupting_task := v\<rparr>"
| "mark_task ContinueTask v b = b\<lparr>bz_continuing_task := v\<rparr>"

definition on_busy :: "(busy_marks \<Rightarrow> busy_marks) \<Rightarrow> collab \<Rightarrow> collab" where
  "on_busy f s = s\<lparr>cb_busy := f (cb_busy s)\<rparr>"

section \<open>Loading the board\<close>

text \<open>\<open>tasks.map(toBoardTaskFromKanbanTask)\<close> makes new objects.\<close>

definition fresh_refs :: "nat \<Rightarrow> task list \<Rightarrow> task_ref list" where
  "fresh_refs n tasks = enumerate n (map toBoardTaskFromKanbanTask tasks)"

fun finish :: "after_load \<Rightarrow> collab \<Rightarrow> collab" where
  "finish NothingAfter s = s"
| "finish (FreeFlow action) s = on_busy (mark_flow action None) s"
| "finish (FreeTask action) s = on_busy (mark_task action None) s"

definition loadOverview :: "after_load \<Rightarrow> collab \<Rightarrow> collab" where
  "loadOverview after s = call_server (LoadBoard after) (s\<lparr>cb_loading := True, cb_load_error := None\<rparr>)"

definition board_loaded :: "after_load \<Rightarrow> failure + (agent list \<times> task list) \<Rightarrow> collab \<Rightarrow> collab" where
  "board_loaded after result s = finish after
     (case result of
        Inr (agents, tasks) \<Rightarrow>
          s\<lparr>cb_overview := Some agents, cb_tasks := fresh_refs (cb_next_ref s) tasks,
            cb_next_ref := cb_next_ref s + length tasks, cb_loading := False\<rparr>
      | Inl f \<Rightarrow> s\<lparr>cb_load_error := Some (failure_text f ([0x83B7, 0x53D6, 0x770B, 0x677F, 0x6570, 0x636E, 0x5931, 0x8D25])), cb_loading := False\<rparr>)"

fun replace_first :: "task_ref \<Rightarrow> task_ref list \<Rightarrow> task_ref list" where
  "replace_first next [] = []"
| "replace_first next (item # items) =
     (if bt_id (snd item) = bt_id (snd next) then next # items else item # replace_first next items)"

definition upsert_task :: "task_ref \<Rightarrow> task_ref list \<Rightarrow> task_ref list" where
  "upsert_task next current =
     (if list_ex (\<lambda>item. bt_id (snd item) = bt_id (snd next)) current then replace_first next current else next # current)"

definition applyBoardRealtimeUpdate_collab :: "board_event \<Rightarrow> collab \<Rightarrow> collab" where
  "applyBoardRealtimeUpdate_collab message s =
     (case be_payload message of
        BoardErrorDetail detail \<Rightarrow> s\<lparr>cb_load_error := Some (str_or detail ([0x770B, 0x677F, 0x5B9E, 0x65F6, 0x540C, 0x6B65, 0x5931, 0x8D25]))\<rparr>
      | BoardSnapshotReady \<Rightarrow> s
      | TaskUpserted task \<Rightarrow>
          s\<lparr>cb_tasks := upsert_task (cb_next_ref s, toBoardTaskFromKanbanTask task) (cb_tasks s), cb_next_ref := cb_next_ref s + 1\<rparr>
      | TaskDeleted targetId \<Rightarrow>
          if targetId = [] then s
          else s\<lparr>cb_tasks := filter (\<lambda>item. bt_id (snd item) \<noteq> targetId) (cb_tasks s),
                 cb_selected := (case cb_selected s of Some task \<Rightarrow> if bt_id (snd task) = targetId then None else Some task | None \<Rightarrow> None)\<rparr>)"

section \<open>What the page computes\<close>

definition allTasks :: "collab \<Rightarrow> board_task list" where
  "allTasks s = map snd (cb_tasks s)"

definition overview_agents :: "collab \<Rightarrow> agent list" where
  "overview_agents s = nullish (cb_overview s) []"

record assignable_agent =
  aa_key :: jsstring
  aa_agent_id :: jsstring
  aa_agent_name :: jsstring
  aa_instance_id :: jsstring
  aa_instance_name :: jsstring

definition add_assignable :: "agent \<Rightarrow> assignable_agent list \<Rightarrow> assignable_agent list" where
  "add_assignable item agents =
     (let agentId = trim (ag_agent_id item); instanceId = trim (ag_instance_id item); key = instanceId @ js ''::'' @ agentId in
      if agentId = [] \<or> instanceId = [] then agents
      else if list_ex (\<lambda>agent. aa_key agent = key) agents then agents
      else agents @ [\<lparr>aa_key = key, aa_agent_id = agentId, aa_agent_name = str_or (trim (ag_agent_name item)) agentId,
             aa_instance_id = instanceId, aa_instance_name = str_or (trim (ag_instance_name item)) instanceId\<rparr>])"

definition assignableAgents :: "collab \<Rightarrow> assignable_agent list" where
  "assignableAgents s = fold add_assignable (overview_agents s) []"

definition primaryAgentNames :: "collab \<Rightarrow> jsstring list" where
  "primaryAgentNames s = uniq (filter (\<lambda>name. name \<noteq> []) (map (\<lambda>item. trim (ag_agent_name item)) (overview_agents s)))"

definition allAgentNames :: "collab \<Rightarrow> jsstring list" where
  "allAgentNames s = uniq (primaryAgentNames s @ cb_custom_names s)"

definition requirementCount :: "collab \<Rightarrow> nat" where
  "requirementCount s = length (uniq (map getRequirementId (allTasks s)))"

record dependency_entry =
  de_node_id :: jsstring
  de_title :: jsstring
  de_status_label :: jsstring

definition matched_dependency :: "board_task \<Rightarrow> board_task list \<Rightarrow> jsstring \<Rightarrow> board_task option" where
  "matched_dependency selected tasks nodeId =
     (let selectedFlowId = board_extra selected ''flow_id''; selectedRequirementId = board_extra selected ''requirement_id'' in
      nullish_opt (find (\<lambda>task. selectedFlowId \<noteq> [] \<and> board_extra task ''flow_id'' = selectedFlowId \<and> board_extra task ''flow_node'' = nodeId) tasks)
        (nullish_opt (find (\<lambda>task. selectedRequirementId \<noteq> [] \<and> board_extra task ''requirement_id'' = selectedRequirementId \<and>
                             board_extra task ''flow_node'' = nodeId) tasks)
          (find (\<lambda>task. bt_id task = nodeId \<or> board_extra task ''flow_node'' = nodeId) tasks)))"

definition dependencyEntries :: "collab \<Rightarrow> dependency_entry list" where
  "dependencyEntries s =
     (case cb_selected s of
        None \<Rightarrow> []
      | Some selected \<Rightarrow>
          map (\<lambda>nodeId. case matched_dependency (snd selected) (allTasks s) nodeId of
                 Some task \<Rightarrow> \<lparr>de_node_id = nodeId, de_title = bt_title task, de_status_label = getTaskStatusLabelForDetail task\<rparr>
               | None \<Rightarrow> \<lparr>de_node_id = nodeId, de_title = ([0x8282, 0x70B9] @ js '' '') @ nodeId, de_status_label = ([0x672A, 0x77E5])\<rparr>)
            (parseDependencyNodeIds (map_of (bt_extras (snd selected)) (js ''dependencies''))))"

definition outputEntries :: "collab \<Rightarrow> output_entry list" where
  "outputEntries s = (case cb_selected s of None \<Rightarrow> [] | Some task \<Rightarrow> buildTaskOutputEntries (snd task))"

definition selectedOutputEntry :: "collab \<Rightarrow> output_entry option" where
  "selectedOutputEntry s =
     nullish_opt (find (\<lambda>item. Some (oe_id item) = ov_selected (cb_output s)) (outputEntries s)) (nth_opt (outputEntries s) 0)"

definition board_columns :: "collab \<Rightarrow> board_column list" where
  "board_columns s = buildKanbanColumns (cb_view_mode s) (allTasks s) (allAgentNames s) STATUS_COLUMNS"

definition currentMobileColumnIndex :: "collab \<Rightarrow> nat" where
  "currentMobileColumnIndex s = (if 0 < length (board_columns s) then min (cb_mobile_index s) (length (board_columns s) - 1) else 0)"

definition visibleBoardColumns :: "bool \<Rightarrow> collab \<Rightarrow> board_column list" where
  "visibleBoardColumns isNarrowMobileBoard s =
     (if isNarrowMobileBoard
      then if 0 < length (board_columns s) then [board_columns s ! min (cb_mobile_index s) (length (board_columns s) - 1)] else []
      else board_columns s)"

definition selectedAgent :: "collab \<Rightarrow> assignable_agent option" where
  "selectedAgent s = find (\<lambda>item. aa_key item = cb_agent_key s) (assignableAgents s)"

definition canCreateTask :: "collab \<Rightarrow> bool" where
  "canCreateTask s \<longleftrightarrow> 0 < length (trim (cb_requirement_input s)) \<and> selectedAgent s \<noteq> None"

definition canInterruptSelectedTask :: "collab \<Rightarrow> bool" where
  "canInterruptSelectedTask s \<longleftrightarrow> map_option (\<lambda>task. bt_status (snd task)) (cb_selected s) = Some Running"

definition canContinueSelectedTask :: "collab \<Rightarrow> bool" where
  "canContinueSelectedTask s \<longleftrightarrow> map_option (\<lambda>task. bt_status (snd task)) (cb_selected s) = Some BlockedByApproval"

definition canSubmitAgent :: "collab \<Rightarrow> bool" where
  "canSubmitAgent s \<longleftrightarrow> 0 < length (trim (cb_new_agent_name s))"

section \<open>The panel of the open task\<close>

definition getTaskExecutionSessionKey :: "board_task \<Rightarrow> jsstring option" where
  "getTaskExecutionSessionKey task = non_empty (board_extra task ''execution_session_key'')"

text \<open>\<open>task.instanceId ? { instanceId: task.instanceId } : undefined\<close>\<close>

definition task_scope :: "board_task \<Rightarrow> jsstring option" where
  "task_scope task = non_empty (nullish (bt_instance_id task) [])"

definition loadTaskSessionMessages :: "board_task \<Rightarrow> jsstring \<Rightarrow> load_mode \<Rightarrow> collab \<Rightarrow> collab" where
  "loadTaskSessionMessages task sessionKey mode s =
     (if sp_unavailable (cb_session s) = sessionKey then s
      else call_server (ReadHistory sessionKey (task_scope task) mode)
        (if mode = ReplaceLoad then on_session (\<lambda>p. p\<lparr>sp_loading := True\<rparr>) s else s))"

text \<open>\<open>Array.isArray(response.items) ? response.items : []\<close>: the answer is None when it holds no list.\<close>

definition history_read :: "jsstring \<Rightarrow> load_mode \<Rightarrow> failure + preview_item list option \<Rightarrow> collab \<Rightarrow> collab" where
  "history_read sessionKey mode result s =
     on_session (\<lambda>p. if mode = ReplaceLoad then p\<lparr>sp_loading := False\<rparr> else p)
       (on_session (\<lambda>p. case result of
          Inr items \<Rightarrow> p\<lparr>sp_unavailable := [],
            sp_items := (if arePreviewItemsEqual (sp_items p) (nullish items []) then sp_items p else nullish items []), sp_error := None\<rparr>
        | Inl f \<Rightarrow>
            if fa_status f = Some 503
            then p\<lparr>sp_unavailable := sessionKey, sp_error := Some ([0x4F1A, 0x8BDD, 0x5386, 0x53F2, 0x670D, 0x52A1, 0x6682, 0x4E0D, 0x53EF, 0x7528, 0xFF08] @ js ''503'' @ [0xFF09, 0xFF0C, 0x5DF2, 0x6682, 0x505C, 0x81EA, 0x52A8, 0x91CD, 0x8BD5, 0x3002])\<rparr>
            else p\<lparr>sp_error := Some (failure_text f ([0x8BFB, 0x53D6, 0x4F1A, 0x8BDD, 0x6D88, 0x606F, 0x5931, 0x8D25]))\<rparr>) s)"

text \<open>A message of the observer connection: the new messages of a session, or anything else.\<close>

datatype session_event = MessagesUpdated jsstring "preview_item list" "update_mode option" | OtherMessage

definition applySessionRealtimeUpdate :: "session_event \<Rightarrow> jsstring \<Rightarrow> collab \<Rightarrow> collab" where
  "applySessionRealtimeUpdate message sessionKey s =
     (case message of
        OtherMessage \<Rightarrow> s
      | MessagesUpdated session_key nextMessages update_mode \<Rightarrow>
          if session_key \<noteq> sessionKey then s
          else
            let shouldMergeRealtimeChunk = (update_mode = Some AppendChunk \<or>
                  update_mode = None \<and> length nextMessages = 1 \<and> pi_role (hd nextMessages) = PreviewAssistant)
            in on_session (\<lambda>p. p\<lparr>sp_items :=
                 (if shouldMergeRealtimeChunk then mergePreviewItemsFromRealtime (sp_items p) nextMessages
                  else if arePreviewItemsEqual (sp_items p) nextMessages then sp_items p else nextMessages), sp_error := None\<rparr>) s)"

definition handleMissingTaskSessionBinding :: "collab \<Rightarrow> collab" where
  "handleMissingTaskSessionBinding =
     on_session (\<lambda>p. p\<lparr>sp_items := [], sp_error := Some ([0x5F53, 0x524D, 0x8282, 0x70B9, 0x672A, 0x7ED1, 0x5B9A] @ js '' execution_session_key''), sp_loading := False\<rparr>)"

definition handleTaskSessionRealtimeDisconnected :: "collab \<Rightarrow> collab" where
  "handleTaskSessionRealtimeDisconnected = on_session (\<lambda>p. p\<lparr>sp_error := Some ([0x6D88, 0x606F, 0x6D41, 0x8FDE, 0x63A5, 0x5DF2, 0x65AD, 0x5F00, 0xFF0C, 0x6B63, 0x5728, 0x91CD, 0x8FDE] @ js ''...'')\<rparr>)"

definition handleOpenTaskDetail :: "task_ref \<Rightarrow> collab \<Rightarrow> collab" where
  "handleOpenTaskDetail task s =
     s\<lparr>cb_selected := Some task, cb_detail_tab := InfoTab,
       cb_session := (cb_session s)\<lparr>sp_items := [], sp_error := None, sp_loading := False\<rparr>,
       cb_output := (cb_output s)\<lparr>ov_selected := None, ov_preview := None, ov_error := None, ov_loading := False\<rparr>\<rparr>"

definition handleCloseTaskDetail :: "collab \<Rightarrow> collab" where
  "handleCloseTaskDetail s = s\<lparr>cb_selected := None\<rparr>"

text \<open>The answer to a request for a preview is dropped when its effect was cleaned up.\<close>

definition preview_read :: "nat \<Rightarrow> failure + output_preview_response \<Rightarrow> collab \<Rightarrow> collab" where
  "preview_read token result s =
     (if ov_token (cb_output s) \<noteq> token then s
      else on_output (\<lambda>p. (case result of
          Inr payload \<Rightarrow> p\<lparr>ov_preview := Some payload\<rparr>
        | Inl f \<Rightarrow> p\<lparr>ov_error := Some (failure_text f ([0x8BFB, 0x53D6, 0x4EFB, 0x52A1, 0x4EA7, 0x51FA, 0x9884, 0x89C8, 0x5931, 0x8D25])), ov_preview := None\<rparr>)\<lparr>ov_loading := False\<rparr>) s)"

section \<open>The connection of the chat\<close>

text \<open>
  The callbacks of the effect; each knows the task and the session key of its run. The runs that were cleaned
  up keep their links, in \<open>cb_earlier\<close>, with whether the interval of their polls still runs: their callbacks
  may still come, and \<open>as_earlier\<close> runs one with the link of its own run.
\<close>

definition with_link :: "(board_task \<Rightarrow> jsstring \<Rightarrow> link \<Rightarrow> collab \<Rightarrow> collab) \<Rightarrow> collab \<Rightarrow> collab" where
  "with_link f s = (case cb_link s of None \<Rightarrow> s | Some (task, sessionKey, l) \<Rightarrow> f task sessionKey l s)"

definition set_link :: "board_task \<Rightarrow> jsstring \<Rightarrow> link \<Rightarrow> collab \<Rightarrow> collab" where
  "set_link task sessionKey l s = s\<lparr>cb_link := Some (task, sessionKey, l)\<rparr>"

definition session_message :: "session_event \<Rightarrow> collab \<Rightarrow> collab" where
  "session_message message = with_link (\<lambda>task sessionKey l s.
     if lk_cancelled l then s
     else applySessionRealtimeUpdate message sessionKey (set_link task sessionKey (link_on_message l) s))"

definition session_resync :: "collab \<Rightarrow> collab" where
  "session_resync = with_link (\<lambda>task sessionKey l s.
     if lk_cancelled l then s else loadTaskSessionMessages task sessionKey ResyncLoad s)"

definition session_disconnected :: "nat \<Rightarrow> collab \<Rightarrow> collab" where
  "session_disconnected i = with_link (\<lambda>task sessionKey l s.
     if lk_cancelled l then s
     else set_link task sessionKey (link_lose i l) (handleTaskSessionRealtimeDisconnected s))"

definition session_timer :: "collab \<Rightarrow> collab" where
  "session_timer = with_link (\<lambda>task sessionKey l s.
     set_link task sessionKey (link_on_timer l) (loadTaskSessionMessages task sessionKey ResyncLoad s))"

definition session_poll :: "collab \<Rightarrow> collab" where
  "session_poll = with_link (\<lambda>task sessionKey l s.
     if lk_cancelled l then s else loadTaskSessionMessages task sessionKey ResyncLoad s)"

definition as_earlier :: "nat \<Rightarrow> (collab \<Rightarrow> collab) \<Rightarrow> collab \<Rightarrow> collab" where
  "as_earlier i handler s =
     (case cb_earlier s ! i of (task, sessionKey, l, polls) \<Rightarrow>
        let s' = handler (s\<lparr>cb_link := Some (task, sessionKey, l)\<rparr>) in
        s'\<lparr>cb_link := cb_link s,
           cb_earlier := (case cb_link s' of None \<Rightarrow> cb_earlier s | Some (_, _, l') \<Rightarrow> (cb_earlier s)[i := (task, sessionKey, l', polls)])\<rparr>)"

section \<open>The effects\<close>

text \<open>
  After a render each effect whose dependencies changed runs, in the order of the code; it reads the rendered
  state \<open>r\<close> and updates \<open>s\<close>. What an effect does when nothing changed is nothing, so those that only set
  state run every time.
\<close>

definition output_effect :: "collab \<Rightarrow> collab \<Rightarrow> collab" where
  "output_effect r s =
     (case outputEntries r of
        [] \<Rightarrow> on_output (\<lambda>p. p\<lparr>ov_selected := None\<rparr>) s
      | first # _ \<Rightarrow>
          if (\<exists>item \<in> set (outputEntries r). nullish (ov_selected (cb_output r)) [] \<noteq> [] \<and> Some (oe_id item) = ov_selected (cb_output r)) then s
          else on_output (\<lambda>p. p\<lparr>ov_selected := Some (oe_id first)\<rparr>) s)"

definition agent_effect :: "collab \<Rightarrow> collab \<Rightarrow> collab" where
  "agent_effect r s =
     (if cb_agent_key r \<noteq> [] \<and> list_ex (\<lambda>item. aa_key item = cb_agent_key r) (assignableAgents r) then s
      else s\<lparr>cb_agent_key := (case assignableAgents r of [] \<Rightarrow> [] | item # _ \<Rightarrow> aa_key item)\<rparr>)"

definition selected_effect :: "collab \<Rightarrow> collab \<Rightarrow> collab" where
  "selected_effect r s =
     (case cb_selected r of
        None \<Rightarrow> s
      | Some task \<Rightarrow>
          (case find (\<lambda>item. bt_id (snd item) = bt_id (snd task)) (cb_tasks r) of
             None \<Rightarrow> s
           | Some latest \<Rightarrow> if fst latest \<noteq> fst task then s\<lparr>cb_selected := Some latest\<rparr> else s))"

definition mobile_effect :: "collab \<Rightarrow> collab \<Rightarrow> collab" where
  "mobile_effect r s =
     s\<lparr>cb_mobile_index := (if length (board_columns r) = 0 then 0 else min (cb_mobile_index s) (length (board_columns r) - 1))\<rparr>"

definition same_task :: "task_ref option \<Rightarrow> task_ref option \<Rightarrow> bool" where
  "same_task a b \<longleftrightarrow> map_option fst a = map_option fst b"

text \<open>
  The cleanup of the run before: the run is cancelled, its timer is cleared, the client in the reference is closed,
  and the interval of its polls is cleared.
\<close>

definition chat_cleanup :: "collab \<Rightarrow> collab" where
  "chat_cleanup s =
     (case cb_link s of
        None \<Rightarrow> s
      | Some (task, sessionKey, l) \<Rightarrow> s\<lparr>cb_link := None, cb_earlier := cb_earlier s @ [(task, sessionKey, link_cleanup l, False)]\<rparr>)"

definition chat_effect :: "collab \<Rightarrow> collab \<Rightarrow> collab" where
  "chat_effect r s =
     (if same_task (cb_session_task s) (cb_selected r) then s
      else
        let cleaned = (chat_cleanup s)\<lparr>cb_session_task := cb_selected r\<rparr> in
        case cb_selected r of
          None \<Rightarrow> cleaned
        | Some (_, task) \<Rightarrow>
            (case getTaskExecutionSessionKey task of
               None \<Rightarrow> handleMissingTaskSessionBinding cleaned
             | Some sessionKey \<Rightarrow> set_link task sessionKey link_start (loadTaskSessionMessages task sessionKey ReplaceLoad cleaned)))"

definition preview_effect :: "collab \<Rightarrow> collab \<Rightarrow> collab" where
  "preview_effect r s =
     (if same_task (fst (cb_output_deps s)) (cb_selected r) \<and> snd (cb_output_deps s) = selectedOutputEntry r then s
      else
        let token = Suc (ov_token (cb_output s));
            cleaned = on_output (\<lambda>p. p\<lparr>ov_token := token\<rparr>) (s\<lparr>cb_output_deps := (cb_selected r, selectedOutputEntry r)\<rparr>) in
        case (cb_selected r, selectedOutputEntry r) of
          (Some (_, task), Some entry) \<Rightarrow>
            call_server (ReadPreview token (bt_id task) (oe_value entry) (task_scope task))
              (on_output (\<lambda>p. p\<lparr>ov_loading := True, ov_error := None\<rparr>) cleaned)
        | _ \<Rightarrow> on_output (\<lambda>p. p\<lparr>ov_preview := None, ov_error := None, ov_loading := False\<rparr>) cleaned)"

definition run_effects :: "collab \<Rightarrow> collab" where
  "run_effects s = preview_effect s (chat_effect s (mobile_effect s (selected_effect s (agent_effect s (output_effect s s)))))"

section \<open>The handlers\<close>

definition toggleColumnCollapsed :: "jsstring \<Rightarrow> collab \<Rightarrow> collab" where
  "toggleColumnCollapsed columnId s =
     s\<lparr>cb_collapsed := (if columnId \<in> set (cb_collapsed s) then filter (\<lambda>item. item \<noteq> columnId) (cb_collapsed s)
         else cb_collapsed s @ [columnId])\<rparr>"

definition handleConfirmCreateAgent :: "collab \<Rightarrow> collab" where
  "handleConfirmCreateAgent s =
     (let name = trim (cb_new_agent_name s) in
      if name = [] then s
      else s\<lparr>cb_custom_names := (if name \<in> set (cb_custom_names s) then cb_custom_names s else cb_custom_names s @ [name]),
             cb_new_agent_name := [], cb_add_agent_open := False\<rparr>)"

definition handleCreateTask :: "collab \<Rightarrow> collab" where
  "handleCreateTask s =
     (let requirement = trim (cb_requirement_input s) in
      if requirement = [] then add_toast ([0x8BF7, 0x5148, 0x8F93, 0x5165, 0x9700, 0x6C42]) WarningKind s
      else case selectedAgent s of
        None \<Rightarrow> add_toast ([0x8BF7, 0x5148, 0x6307, 0x6D3E] @ js '' Agent'') WarningKind s
      | Some agent \<Rightarrow>
          call_server (CreateTask \<lparr>ct_requirement = requirement, ct_agent_id = aa_agent_id agent, ct_agent_name = aa_agent_name agent,
            ct_instance_id = aa_instance_id agent\<rparr>) s)"

definition task_created :: "failure + unit \<Rightarrow> collab \<Rightarrow> collab" where
  "task_created result s =
     (case result of
        Inr _ \<Rightarrow> loadOverview NothingAfter (add_toast ([0x5DF2, 0x521B, 0x5EFA, 0x4EFB, 0x52A1, 0x5E76, 0x8FDB, 0x5165, 0x961F, 0x5217]) SuccessKind (s\<lparr>cb_create_open := False, cb_requirement_input := []\<rparr>))
      | Inl f \<Rightarrow> add_toast (failure_text f ([0x521B, 0x5EFA, 0x4EFB, 0x52A1, 0x5931, 0x8D25])) ErrorKind s)"

text \<open>The answer of \<open>window.confirm\<close> is an argument. Which task is open is read when the handler starts.\<close>

definition handleDeleteTaskNode :: "bool \<Rightarrow> board_task \<Rightarrow> collab \<Rightarrow> collab" where
  "handleDeleteTaskNode confirmed task s =
     (if \<not> confirmed then s
      else call_server (DeleteTask (bt_id task) (map_option (\<lambda>t. bt_id (snd t)) (cb_selected s) = Some (bt_id task))) s)"

definition task_deleted :: "bool \<Rightarrow> failure + unit \<Rightarrow> collab \<Rightarrow> collab" where
  "task_deleted closes result s =
     (case result of
        Inr _ \<Rightarrow> loadOverview NothingAfter (add_toast ([0x5DF2, 0x5220, 0x9664, 0x9700, 0x6C42, 0x8282, 0x70B9]) SuccessKind (if closes then s\<lparr>cb_selected := None\<rparr> else s))
      | Inl f \<Rightarrow> add_toast (failure_text f ([0x5220, 0x9664, 0x9700, 0x6C42, 0x8282, 0x70B9, 0x5931, 0x8D25])) ErrorKind s)"

fun flow_done_text :: "flow_action \<Rightarrow> jsstring" where
  "flow_done_text InterruptFlow = ([0x6D41, 0x7A0B, 0x5DF2, 0x4E2D, 0x65AD, 0xFF0C, 0x8FD0, 0x884C, 0x4E2D, 0x4E0E, 0x5F85, 0x8C03, 0x5EA6, 0x8282, 0x70B9, 0x5DF2, 0x963B, 0x65AD])"
| "flow_done_text ContinueFlow = ([0x6D41, 0x7A0B, 0x5DF2, 0x7EE7, 0x7EED])"
| "flow_done_text RunFlow = []"

fun flow_failed_text :: "flow_action \<Rightarrow> jsstring" where
  "flow_failed_text InterruptFlow = ([0x4E2D, 0x65AD, 0x6D41, 0x7A0B, 0x5931, 0x8D25])"
| "flow_failed_text ContinueFlow = ([0x7EE7, 0x7EED, 0x6D41, 0x7A0B, 0x5931, 0x8D25])"
| "flow_failed_text RunFlow = ([0x8FD0, 0x884C, 0x6D41, 0x7A0B, 0x5931, 0x8D25])"

text \<open>\<open>handleInterruptFlow\<close> and \<open>handleContinueFlow\<close>\<close>

definition handleChangeFlow :: "flow_action \<Rightarrow> bool \<Rightarrow> jsstring \<Rightarrow> collab \<Rightarrow> collab" where
  "handleChangeFlow action confirmed targetRequirementId s =
     (if \<not> confirmed then s
      else call_server (ChangeFlow action targetRequirementId) (on_busy (mark_flow action (Some targetRequirementId)) s))"

definition flow_failed :: "flow_action \<Rightarrow> failure \<Rightarrow> collab \<Rightarrow> collab" where
  "flow_failed action f s = on_busy (mark_flow action None) (add_toast (failure_text f (flow_failed_text action)) ErrorKind s)"

definition flow_changed :: "flow_action \<Rightarrow> failure + unit \<Rightarrow> collab \<Rightarrow> collab" where
  "flow_changed action result s =
     (case result of
        Inr _ \<Rightarrow> loadOverview (FreeFlow action) (add_toast (flow_done_text action) SuccessKind s)
      | Inl f \<Rightarrow> flow_failed action f s)"

definition handleRunFlow :: "bool \<Rightarrow> jsstring \<Rightarrow> jsstring \<Rightarrow> board_task list \<Rightarrow> collab \<Rightarrow> collab" where
  "handleRunFlow confirmed targetRequirementId targetTitle tasks s =
     (if \<not> confirmed then s
      else case buildFlowConfirmPayloadFromBoardTasks targetRequirementId targetTitle tasks (overview_agents s) of
        None \<Rightarrow> add_toast ([0x5F53, 0x524D, 0x6D41, 0x7A0B, 0x7F3A, 0x5C11, 0x53EF, 0x7528] @ js '' Agent '' @ [0x6216, 0x5B9E, 0x4F8B, 0x4E0A, 0x4E0B, 0x6587, 0xFF0C, 0x8BF7, 0x5148, 0x5728, 0x6D41, 0x7A0B, 0x9875, 0x6821, 0x6B63, 0x540E, 0x518D, 0x8FD0, 0x884C]) WarningKind s
      | Some payload \<Rightarrow>
          call_server (ConfirmFlow payload) (on_busy (mark_flow RunFlow (Some targetRequirementId)) s))"

definition flow_confirmed :: "failure + confirm_response \<Rightarrow> collab \<Rightarrow> collab" where
  "flow_confirmed result s =
     (case result of
        Inr response \<Rightarrow>
          loadOverview (FreeFlow RunFlow) (add_toast (([0x5DF2, 0x91CD, 0x65B0, 0x5165, 0x961F] @ js '' '') @ js_digits (length (cr_created_task_ids response)) @
            (js '' '' @ [0x4E2A, 0x4EFB, 0x52A1, 0xFF0C, 0x5DF2, 0x6295, 0x653E] @ js '' '') @ js_digits (length (cr_dispatched_task_ids response)) @ (js '' '' @ [0x4E2A])) SuccessKind s)
      | Inl f \<Rightarrow> flow_failed RunFlow f s)"

fun task_refused_text :: "task_action \<Rightarrow> jsstring" where
  "task_refused_text InterruptTask = ([0x5F53, 0x524D, 0x4EFB, 0x52A1, 0x72B6, 0x6001, 0x4E0D, 0x652F, 0x6301, 0x4E2D, 0x65AD])"
| "task_refused_text ContinueTask = ([0x5F53, 0x524D, 0x4EFB, 0x52A1, 0x72B6, 0x6001, 0x4E0D, 0x652F, 0x6301, 0x7EE7, 0x7EED])"

fun task_done_text :: "task_action \<Rightarrow> jsstring" where
  "task_done_text InterruptTask = ([0x5DF2, 0x63D0, 0x4EA4, 0x4E2D, 0x65AD, 0x6307, 0x4EE4])"
| "task_done_text ContinueTask = ([0x5DF2, 0x63D0, 0x4EA4, 0x7EE7, 0x7EED, 0x6307, 0x4EE4])"

fun task_failed_text :: "task_action \<Rightarrow> jsstring" where
  "task_failed_text InterruptTask = ([0x4E2D, 0x65AD, 0x4EFB, 0x52A1, 0x5931, 0x8D25])"
| "task_failed_text ContinueTask = ([0x7EE7, 0x7EED, 0x4EFB, 0x52A1, 0x5931, 0x8D25])"

fun can_change :: "task_action \<Rightarrow> collab \<Rightarrow> bool" where
  "can_change InterruptTask s = canInterruptSelectedTask s"
| "can_change ContinueTask s = canContinueSelectedTask s"

text \<open>\<open>handleInterruptSelectedTask\<close> and \<open>handleContinueSelectedTask\<close>\<close>

definition handleChangeTask :: "task_action \<Rightarrow> bool \<Rightarrow> collab \<Rightarrow> collab" where
  "handleChangeTask action confirmed s =
     (case cb_selected s of
        None \<Rightarrow> s
      | Some (_, task) \<Rightarrow>
          if \<not> can_change action s then add_toast (task_refused_text action) WarningKind s
          else if \<not> confirmed then s
          else call_server (ChangeTask action (bt_id task) (task_scope task)) (on_busy (mark_task action (Some (bt_id task))) s))"

definition task_changed :: "task_action \<Rightarrow> failure + unit \<Rightarrow> collab \<Rightarrow> collab" where
  "task_changed action result s =
     (case result of
        Inr _ \<Rightarrow> loadOverview (FreeTask action) (add_toast (task_done_text action) SuccessKind s)
      | Inl f \<Rightarrow> on_busy (mark_task action None) (add_toast (failure_text f (task_failed_text action)) ErrorKind s))"

text \<open>The swipe over the columns of a narrow screen; the coordinates are those of the touches.\<close>

definition handleBoardTouchStart :: "bool \<Rightarrow> jsnum list \<Rightarrow> collab \<Rightarrow> collab" where
  "handleBoardTouchStart isNarrowMobileBoard touches s =
     s\<lparr>cb_touch_x := (if \<not> isNarrowMobileBoard \<or> length touches \<noteq> 1 then None else Some (hd touches))\<rparr>"

definition handleBoardTouchEnd :: "bool \<Rightarrow> jsnum list \<Rightarrow> collab \<Rightarrow> collab" where
  "handleBoardTouchEnd isNarrowMobileBoard changedTouches s =
     (case cb_touch_x s of
        None \<Rightarrow> s
      | Some startX \<Rightarrow>
          let s1 = s\<lparr>cb_touch_x := None\<rparr>; count = length (board_columns s) in
          if \<not> isNarrowMobileBoard \<or> count \<le> 1 then s1
          else
            let deltaX = jsnum_sub (nullish (nth_opt changedTouches 0) startX) startX in
            if jsnum_less (jsnum_abs deltaX) (Fin 48) then s1
            else if jsnum_less deltaX (Fin 0) then s1\<lparr>cb_mobile_index := min (cb_mobile_index s + 1) (count - 1)\<rparr>
            else s1\<lparr>cb_mobile_index := cb_mobile_index s - 1\<rparr>)"

definition changeViewOnMobile :: "view_mode \<Rightarrow> collab \<Rightarrow> collab" where
  "changeViewOnMobile mode s = s\<lparr>cb_view_mode := mode, cb_mobile_index := 0\<rparr>"

definition chooseMobileColumn :: "nat \<Rightarrow> collab \<Rightarrow> collab" where
  "chooseMobileColumn index s = s\<lparr>cb_mobile_index := index, cb_menu_open := False\<rparr>"

definition closeCreateModal :: "collab \<Rightarrow> collab" where
  "closeCreateModal s = s\<lparr>cb_create_open := False, cb_requirement_input := []\<rparr>"

definition closeAddAgentModal :: "collab \<Rightarrow> collab" where
  "closeAddAgentModal s = s\<lparr>cb_add_agent_open := False, cb_new_agent_name := []\<rparr>"

section \<open>The page as a state machine\<close>

text \<open>What the user does. A card that is opened or acted on is one of the cards shown.\<close>

datatype user_action =
    TypeRequirement jsstring | ChooseAgent jsstring | OpenCreate | CancelCreate | SubmitTask
  | TypeAgentName jsstring | OpenAddAgent | CancelAddAgent | SubmitAgentName
  | ChooseView view_mode | ChooseViewOnMobile view_mode | ChooseColumn nat | OpenMenu | CloseMenu | ToggleColumn jsstring
  | TouchStart bool "jsnum list" | TouchEnd bool "jsnum list"
  | OpenTask task_ref | CloseTask | ChooseTab detail_tab | ChooseOutput jsstring | DeleteNode bool board_task
  | StopFlow bool jsstring | ResumeFlow bool jsstring | RunAgain bool jsstring jsstring "board_task list"
  | ActOnTask task_action bool

fun user_does :: "user_action \<Rightarrow> collab \<Rightarrow> collab" where
  "user_does (TypeRequirement text) s = s\<lparr>cb_requirement_input := text\<rparr>"
| "user_does (ChooseAgent key) s = s\<lparr>cb_agent_key := key\<rparr>"
| "user_does OpenCreate s = s\<lparr>cb_create_open := True\<rparr>"
| "user_does CancelCreate s = closeCreateModal s"
| "user_does SubmitTask s = handleCreateTask s"
| "user_does (TypeAgentName text) s = s\<lparr>cb_new_agent_name := text\<rparr>"
| "user_does OpenAddAgent s = s\<lparr>cb_add_agent_open := True\<rparr>"
| "user_does CancelAddAgent s = closeAddAgentModal s"
| "user_does SubmitAgentName s = handleConfirmCreateAgent s"
| "user_does (ChooseView mode) s = s\<lparr>cb_view_mode := mode\<rparr>"
| "user_does (ChooseViewOnMobile mode) s = changeViewOnMobile mode s"
| "user_does (ChooseColumn index) s = chooseMobileColumn index s"
| "user_does OpenMenu s = s\<lparr>cb_menu_open := True\<rparr>"
| "user_does CloseMenu s = s\<lparr>cb_menu_open := False\<rparr>"
| "user_does (ToggleColumn columnId) s = toggleColumnCollapsed columnId s"
| "user_does (TouchStart narrow touches) s = handleBoardTouchStart narrow touches s"
| "user_does (TouchEnd narrow touches) s = handleBoardTouchEnd narrow touches s"
| "user_does (OpenTask task) s = handleOpenTaskDetail task s"
| "user_does CloseTask s = handleCloseTaskDetail s"
| "user_does (ChooseTab tab) s = s\<lparr>cb_detail_tab := tab\<rparr>"
| "user_does (ChooseOutput entryId) s = on_output (\<lambda>p. p\<lparr>ov_selected := Some entryId\<rparr>) s"
| "user_does (DeleteNode confirmed task) s = handleDeleteTaskNode confirmed task s"
| "user_does (StopFlow confirmed flowId) s = handleChangeFlow InterruptFlow confirmed flowId s"
| "user_does (ResumeFlow confirmed flowId) s = handleChangeFlow ContinueFlow confirmed flowId s"
| "user_does (RunAgain confirmed flowId title tasks) s = handleRunFlow confirmed flowId title tasks s"
| "user_does (ActOnTask action confirmed) s = handleChangeTask action confirmed s"

fun on_screen :: "user_action \<Rightarrow> collab \<Rightarrow> bool" where
  "on_screen (OpenTask task) s \<longleftrightarrow> task \<in> set (cb_tasks s)"
| "on_screen _ s \<longleftrightarrow> True"

text \<open>What the server answers to a pending call.\<close>

datatype reply =
    BoardReply "failure + (agent list \<times> task list)"
  | PlainReply "failure + unit"
  | ConfirmReply "failure + confirm_response"
  | HistoryReply "failure + preview_item list option"
  | PreviewReply "failure + output_preview_response"

fun answers :: "board_call \<Rightarrow> reply \<Rightarrow> collab \<Rightarrow> collab option" where
  "answers (LoadBoard after) (BoardReply r) s = Some (board_loaded after r s)"
| "answers (CreateTask _) (PlainReply r) s = Some (task_created r s)"
| "answers (DeleteTask _ closes) (PlainReply r) s = Some (task_deleted closes r s)"
| "answers (ChangeFlow action _) (PlainReply r) s = Some (flow_changed action r s)"
| "answers (ConfirmFlow _) (ConfirmReply r) s = Some (flow_confirmed r s)"
| "answers (ChangeTask action _ _) (PlainReply r) s = Some (task_changed action r s)"
| "answers (ReadHistory sessionKey _ mode) (HistoryReply r) s = Some (history_read sessionKey mode r s)"
| "answers (ReadPreview token _ _ _) (PreviewReply r) s = Some (preview_read token r s)"
| "answers _ _ s = None"

definition drop_call :: "board_call \<Rightarrow> collab \<Rightarrow> collab" where
  "drop_call call s = s\<lparr>cb_pending := remove1 call (cb_pending s)\<rparr>"

definition collab_start :: collab where
  "collab_start = loadOverview NothingAfter
     \<lparr>cb_overview = None, cb_loading = True, cb_load_error = None, cb_tasks = [], cb_view_mode = StatusView, cb_create_open = False,
      cb_requirement_input = [], cb_agent_key = [], cb_add_agent_open = False, cb_selected = None,
      cb_busy = \<lparr>bz_interrupting_task = None, bz_continuing_task = None, bz_interrupting_flow = None, bz_continuing_flow = None, bz_running_flow = None\<rparr>,
      cb_session = \<lparr>sp_items = [], sp_loading = False, sp_error = None, sp_unavailable = []\<rparr>, cb_detail_tab = InfoTab,
      cb_output = \<lparr>ov_selected = None, ov_preview = None, ov_loading = False, ov_error = None, ov_token = 0\<rparr>,
      cb_new_agent_name = [], cb_custom_names = [], cb_collapsed = [], cb_mobile_index = 0, cb_menu_open = False, cb_touch_x = None,
      cb_toasts = [], cb_pending = [], cb_next_ref = 0, cb_session_task = None, cb_link = None, cb_earlier = [], cb_output_deps = (None, None)\<rparr>"

inductive board_steps :: "collab \<Rightarrow> collab \<Rightarrow> bool" where
  render: "board_steps s (run_effects s)"
| user: "on_screen action s \<Longrightarrow> board_steps s (user_does action s)"
| answered: "call \<in> set (cb_pending s) \<Longrightarrow> answers call reply (drop_call call s) = Some s' \<Longrightarrow> board_steps s s'"
| board_event: "board_steps s (applyBoardRealtimeUpdate_collab message s)"
| session_message: "board_steps s (session_message message s)"
| session_resync: "board_steps s (session_resync s)"
| session_lost: "cb_link s = Some (task, sessionKey, l) \<Longrightarrow> link_speaks i l \<Longrightarrow> board_steps s (session_disconnected i s)"
| session_timer: "cb_link s = Some (task, sessionKey, l) \<Longrightarrow> lk_timer l \<noteq> None \<Longrightarrow> board_steps s (session_timer s)"
| session_poll: "board_steps s (session_poll s)"
| earlier_message: "i < length (cb_earlier s) \<Longrightarrow> board_steps s (as_earlier i (session_message message) s)"
| earlier_resync: "i < length (cb_earlier s) \<Longrightarrow> board_steps s (as_earlier i session_resync s)"
| earlier_lost: "i < length (cb_earlier s) \<Longrightarrow> board_steps s (as_earlier i (session_disconnected j) s)"
| earlier_timer: "i < length (cb_earlier s) \<Longrightarrow> cb_earlier s ! i = (task, sessionKey, l, polls) \<Longrightarrow> lk_timer l \<noteq> None \<Longrightarrow>
    board_steps s (as_earlier i session_timer s)"
| earlier_poll: "i < length (cb_earlier s) \<Longrightarrow> cb_earlier s ! i = (task, sessionKey, l, True) \<Longrightarrow> board_steps s (as_earlier i session_poll s)"

inductive_cases board_stepsE: "board_steps s s'"


end
