(* ===== verification/CollabEffects.thy ===== *)
theory CollabEffects imports CollabBoard begin

text \<open>
  What one step of the page of \<open>CollabBoard\<close> does: the records of the board refine a map, and the effects settle.
\<close>

section \<open>The records of the board are a map\<close>

definition board_record :: "collab \<Rightarrow> jsstring \<Rightarrow> board_task option" where
  "board_record s i = map_option snd (find (\<lambda>item. bt_id (snd item) = i) (cb_tasks s))"

abbreviation board_ids :: "collab \<Rightarrow> jsstring list" where
  "board_ids s \<equiv> map (\<lambda>item. bt_id (snd item)) (cb_tasks s)"

lemma toBoardTask_id [simp]: "bt_id (toBoardTaskFromKanbanTask task) = t_id task"
  by (simp add: toBoardTaskFromKanbanTask_def)

lemma find_replace_first:
  "list_ex (\<lambda>item. bt_id (snd item) = bt_id (snd next)) items \<Longrightarrow>
     find (\<lambda>item. bt_id (snd item) = i) (replace_first next items) =
       (if i = bt_id (snd next) then Some next else find (\<lambda>item. bt_id (snd item) = i) items)"
  by (induction items) auto

lemma find_upsert:
  "find (\<lambda>item. bt_id (snd item) = i) (upsert_task next items) =
     (if i = bt_id (snd next) then Some next else find (\<lambda>item. bt_id (snd item) = i) items)"
  by (simp add: upsert_task_def find_replace_first)

lemma ids_replace_first:
  "map (\<lambda>item. bt_id (snd item)) (replace_first next items) = map (\<lambda>item. bt_id (snd item)) items"
  by (induction items) auto

lemma ids_upsert:
  "map (\<lambda>item. bt_id (snd item)) (upsert_task next items) =
     (if bt_id (snd next) \<in> (\<lambda>item. bt_id (snd item)) ` set items then map (\<lambda>item. bt_id (snd item)) items
      else bt_id (snd next) # map (\<lambda>item. bt_id (snd item)) items)"
  by (auto simp: upsert_task_def ids_replace_first list_ex_iff intro: rev_image_eqI)

lemma find_without:
  "find (\<lambda>item. f item = i) (filter (\<lambda>item. f item \<noteq> k) items) = (if i = k then None else find (\<lambda>item. f item = i) items)"
  by (induction items) auto

text \<open>
  C27: The realtime messages of the board refine a map from ids to tasks: an upsert changes the record of its task and
  no other, in place when the task is known and as the first card when it is new; a deletion removes its task,
  closes the details when they show that task, and touches no other record; the other messages change no record.
\<close>

theorem board_messages_refine_map:
  "let s' = applyBoardRealtimeUpdate_collab message s in
     (case be_payload message of
        TaskUpserted task \<Rightarrow>
          board_record s' = (board_record s)(t_id task \<mapsto> toBoardTaskFromKanbanTask task) \<and>
          board_ids s' = (if t_id task \<in> set (board_ids s) then board_ids s else t_id task # board_ids s) \<and>
          cb_selected s' = cb_selected s
      | TaskDeleted i \<Rightarrow>
          board_record s' = (if i = [] then board_record s else (board_record s)(i := None)) \<and>
          board_ids s' = (if i = [] then board_ids s else filter (\<lambda>j. j \<noteq> i) (board_ids s)) \<and>
          cb_selected s' = (if i \<noteq> [] \<and> map_option (\<lambda>task. bt_id (snd task)) (cb_selected s) = Some i then None else cb_selected s)
      | _ \<Rightarrow> cb_tasks s' = cb_tasks s \<and> cb_selected s' = cb_selected s)"
proof (cases "be_payload message")
  case (TaskUpserted task)
  then show ?thesis
    by (simp add: applyBoardRealtimeUpdate_collab_def board_record_def fun_eq_iff find_upsert ids_upsert)
next
  case (TaskDeleted i)
  then show ?thesis
    by (auto simp: applyBoardRealtimeUpdate_collab_def board_record_def fun_eq_iff find_without filter_map comp_def split: option.splits)
qed (simp_all add: applyBoardRealtimeUpdate_collab_def)

section \<open>The effects settle\<close>

text \<open>
  Each effect writes one part of the state. The inputs, which no effect writes, determine the tasks, the agents and the columns.
\<close>

definition board_inputs :: "collab \<Rightarrow> task_ref list \<times> agent list option \<times> view_mode \<times> jsstring list" where
  "board_inputs s = (cb_tasks s, cb_overview s, cb_view_mode s, cb_custom_names s)"

lemma inputs_cong:
  assumes "board_inputs s = board_inputs s'"
  shows "cb_tasks s = cb_tasks s'" "assignableAgents s = assignableAgents s'" "board_columns s = board_columns s'"
  using assms by (simp_all add: board_inputs_def assignableAgents_def overview_agents_def board_columns_def allTasks_def
      allAgentNames_def primaryAgentNames_def)

lemma cleanup_fields [simp]:
  "cb_overview (chat_cleanup s) = cb_overview s" "cb_loading (chat_cleanup s) = cb_loading s" "cb_load_error (chat_cleanup s) = cb_load_error s" "cb_tasks (chat_cleanup s) = cb_tasks s"
  "cb_view_mode (chat_cleanup s) = cb_view_mode s" "cb_create_open (chat_cleanup s) = cb_create_open s" "cb_requirement_input (chat_cleanup s) = cb_requirement_input s" "cb_agent_key (chat_cleanup s) = cb_agent_key s"
  "cb_add_agent_open (chat_cleanup s) = cb_add_agent_open s" "cb_selected (chat_cleanup s) = cb_selected s" "cb_busy (chat_cleanup s) = cb_busy s" "cb_session (chat_cleanup s) = cb_session s"
  "cb_detail_tab (chat_cleanup s) = cb_detail_tab s" "cb_output (chat_cleanup s) = cb_output s" "cb_new_agent_name (chat_cleanup s) = cb_new_agent_name s" "cb_custom_names (chat_cleanup s) = cb_custom_names s"
  "cb_collapsed (chat_cleanup s) = cb_collapsed s" "cb_mobile_index (chat_cleanup s) = cb_mobile_index s" "cb_menu_open (chat_cleanup s) = cb_menu_open s" "cb_touch_x (chat_cleanup s) = cb_touch_x s"
  "cb_toasts (chat_cleanup s) = cb_toasts s" "cb_pending (chat_cleanup s) = cb_pending s" "cb_next_ref (chat_cleanup s) = cb_next_ref s" "cb_session_task (chat_cleanup s) = cb_session_task s"
  "cb_output_deps (chat_cleanup s) = cb_output_deps s"
  "cb_link (chat_cleanup s) = None"
  "cb_earlier (chat_cleanup s) = cb_earlier s @ (case cb_link s of None \<Rightarrow> [] | Some (task, sessionKey, l) \<Rightarrow> [(task, sessionKey, link_cleanup l, False)])"
  by (simp_all add: chat_cleanup_def split: option.split)

lemmas effect_defs = output_effect_def agent_effect_def selected_effect_def mobile_effect_def chat_effect_def preview_effect_def
  on_output_def on_session_def call_server_def set_link_def handleMissingTaskSessionBinding_def loadTaskSessionMessages_def Let_def

lemma effects_keep_inputs [simp]:
  "board_inputs (output_effect r s) = board_inputs s" "board_inputs (agent_effect r s) = board_inputs s"
  "board_inputs (selected_effect r s) = board_inputs s" "board_inputs (mobile_effect r s) = board_inputs s"
  "board_inputs (chat_effect r s) = board_inputs s" "board_inputs (preview_effect r s) = board_inputs s"
  by (simp_all add: board_inputs_def effect_defs split: list.split option.split)

lemma effects_keep_selected [simp]:
  "cb_selected (output_effect r s) = cb_selected s" "cb_selected (agent_effect r s) = cb_selected s"
  "cb_selected (mobile_effect r s) = cb_selected s"
  "cb_selected (chat_effect r s) = cb_selected s" "cb_selected (preview_effect r s) = cb_selected s"
  by (simp_all add: effect_defs split: list.split option.split)

lemma effects_keep_output_choice [simp]:
  "ov_selected (cb_output (agent_effect r s)) = ov_selected (cb_output s)" "ov_selected (cb_output (selected_effect r s)) = ov_selected (cb_output s)"
  "ov_selected (cb_output (mobile_effect r s)) = ov_selected (cb_output s)" "ov_selected (cb_output (chat_effect r s)) = ov_selected (cb_output s)"
  "ov_selected (cb_output (preview_effect r s)) = ov_selected (cb_output s)"
  by (simp_all add: effect_defs split: list.split option.split)

lemma effects_keep_agent_key [simp]:
  "cb_agent_key (output_effect r s) = cb_agent_key s" "cb_agent_key (selected_effect r s) = cb_agent_key s"
  "cb_agent_key (mobile_effect r s) = cb_agent_key s" "cb_agent_key (chat_effect r s) = cb_agent_key s"
  "cb_agent_key (preview_effect r s) = cb_agent_key s"
  by (simp_all add: effect_defs split: list.split option.split)

lemma effects_keep_mobile_index [simp]:
  "cb_mobile_index (output_effect r s) = cb_mobile_index s" "cb_mobile_index (agent_effect r s) = cb_mobile_index s"
  "cb_mobile_index (selected_effect r s) = cb_mobile_index s" "cb_mobile_index (chat_effect r s) = cb_mobile_index s"
  "cb_mobile_index (preview_effect r s) = cb_mobile_index s"
  by (simp_all add: effect_defs split: list.split option.split)

lemma effects_keep_session_task [simp]:
  "cb_session_task (output_effect r s) = cb_session_task s" "cb_session_task (agent_effect r s) = cb_session_task s"
  "cb_session_task (selected_effect r s) = cb_session_task s" "cb_session_task (mobile_effect r s) = cb_session_task s"
  "cb_session_task (preview_effect r s) = cb_session_task s"
  by (simp_all add: effect_defs split: list.split option.split)

text \<open>What one round of effects leaves.\<close>

lemma run_effects_inputs [simp]: "board_inputs (run_effects s) = board_inputs s"
  by (simp add: run_effects_def)

lemma run_effects_session_task: "same_task (cb_session_task (run_effects s)) (cb_selected s)"
  by (simp add: run_effects_def) (auto simp: effect_defs same_task_def split: list.split option.split)

lemma run_effects_output_deps:
  "same_task (fst (cb_output_deps (run_effects s))) (cb_selected s) \<and> snd (cb_output_deps (run_effects s)) = selectedOutputEntry s"
  by (auto simp: run_effects_def preview_effect_def Let_def same_task_def on_output_def call_server_def split: option.split)

lemma run_effects_parts:
  "cb_selected (run_effects s) = cb_selected (selected_effect s s)"
  "ov_selected (cb_output (run_effects s)) = ov_selected (cb_output (output_effect s s))"
  "cb_agent_key (run_effects s) = cb_agent_key (agent_effect s s)"
  "cb_mobile_index (run_effects s) = cb_mobile_index (mobile_effect s s)"
proof -
  have sel: "cb_selected (selected_effect r s) = cb_selected (selected_effect r s')" if "cb_selected s = cb_selected s'" for r s s'
    using that by (simp add: selected_effect_def split: option.split)
  show "cb_selected (run_effects s) = cb_selected (selected_effect s s)" by (simp add: run_effects_def) (rule sel, simp)
  show "ov_selected (cb_output (run_effects s)) = ov_selected (cb_output (output_effect s s))" by (simp add: run_effects_def)
  have key: "cb_agent_key (agent_effect r s) = cb_agent_key (agent_effect r s')" if "cb_agent_key s = cb_agent_key s'" for r s s'
    using that by (simp add: agent_effect_def)
  show "cb_agent_key (run_effects s) = cb_agent_key (agent_effect s s)" by (simp add: run_effects_def) (rule key, simp)
  have idx: "cb_mobile_index (mobile_effect r s) = cb_mobile_index (mobile_effect r s')" if "cb_mobile_index s = cb_mobile_index s'" for r s s'
    using that by (simp add: mobile_effect_def)
  show "cb_mobile_index (run_effects s) = cb_mobile_index (mobile_effect s s)" by (simp add: run_effects_def) (rule idx, simp)
qed

text \<open>The task that is open after a round is the current record of its id, so a second round does not change it.\<close>

lemma find_again: "find (\<lambda>x. f x = k) xs = Some y \<Longrightarrow> find (\<lambda>x. f x = f y) xs = Some y"
proof -
  assume found: "find (\<lambda>x. f x = k) xs = Some y"
  then have "f y = k" by (auto simp: find_Some_iff)
  with found show "find (\<lambda>x. f x = f y) xs = Some y" by simp
qed

lemma selected_is_latest:
  "case cb_selected (run_effects s) of None \<Rightarrow> True
   | Some task \<Rightarrow> (case find (\<lambda>item. bt_id (snd item) = bt_id (snd task)) (cb_tasks s) of None \<Rightarrow> True | Some latest \<Rightarrow> fst latest = fst task)"
proof (cases "cb_selected s")
  case (Some task)
  show ?thesis
  proof (cases "find (\<lambda>item. bt_id (snd item) = bt_id (snd task)) (cb_tasks s)")
    case (Some latest)
    then show ?thesis using \<open>cb_selected s = Some task\<close> find_again [of "\<lambda>item. bt_id (snd item)", OF Some]
      by (simp add: run_effects_parts selected_effect_def)
  qed (simp add: run_effects_parts selected_effect_def \<open>cb_selected s = Some task\<close>)
qed (simp add: run_effects_parts selected_effect_def)

lemma selected_effect_settled: "selected_effect (run_effects s) s' = s'"
  using selected_is_latest [of s] inputs_cong(1) [of "run_effects s" s]
  by (auto simp: selected_effect_def split: option.splits)

lemma output_ids: "list_all (\<lambda>item. oe_id item \<noteq> []) (buildTaskOutputEntries task)"
proof -
  have "list_all (\<lambda>item. oe_id item \<noteq> []) (fst st) \<Longrightarrow> list_all (\<lambda>item. oe_id item \<noteq> []) (fst (fold push_output as st))" for as st
    by (induction as arbitrary: st) (auto simp: push_output_def split: option.split)
  then show ?thesis by (simp add: buildTaskOutputEntries_def)
qed

text \<open>The output chosen by a round is one of the entries, the one that was shown, and it stays.\<close>

lemma output_choice:
  assumes "outputEntries s' = outputEntries s" and "ov_selected (cb_output s') = ov_selected (cb_output (output_effect s s))"
  shows "selectedOutputEntry s' = selectedOutputEntry s \<and> output_effect s' s'' = (if outputEntries s = [] then on_output (\<lambda>p. p\<lparr>ov_selected := None\<rparr>) s'' else s'')"
proof (cases "outputEntries s")
  case Nil
  then show ?thesis using assms by (simp add: selectedOutputEntry_def nth_opt_def output_effect_def)
next
  case (Cons first rest)
  have ids: "list_all (\<lambda>item. oe_id item \<noteq> []) (outputEntries s)"
    by (simp add: outputEntries_def output_ids split: option.split)
  show ?thesis
  proof (cases "\<exists>item \<in> set (outputEntries s). nullish (ov_selected (cb_output s)) [] \<noteq> [] \<and> Some (oe_id item) = ov_selected (cb_output s)")
    case True
    then have "ov_selected (cb_output s') = ov_selected (cb_output s)" using assms(2) Cons by (simp add: output_effect_def)
    then show ?thesis using assms(1) True Cons by (simp add: selectedOutputEntry_def output_effect_def)
  next
    case False
    have chosen: "ov_selected (cb_output s') = Some (oe_id first)" using assms(2) Cons False by (auto simp: output_effect_def on_output_def)
    have "find (\<lambda>item. Some (oe_id item) = ov_selected (cb_output s)) (outputEntries s) = None"
      using False ids by (cases "ov_selected (cb_output s)") (auto simp: find_None_iff list_all_iff)
    then have "selectedOutputEntry s = Some first" using Cons by (simp add: selectedOutputEntry_def nth_opt_def)
    moreover have "selectedOutputEntry s' = Some first" using Cons assms(1) chosen by (simp add: selectedOutputEntry_def)
    moreover have "output_effect s' s'' = s''" using Cons assms(1) chosen ids by (auto simp: output_effect_def)
    ultimately show ?thesis using Cons by simp
  qed
qed

lemma outputEntries_cong: "cb_selected s = cb_selected s' \<Longrightarrow> outputEntries s = outputEntries s'"
  by (simp add: outputEntries_def)

lemma second_round_selected: "cb_selected (run_effects (run_effects s)) = cb_selected (run_effects s)"
  by (subst run_effects_parts) (simp add: selected_effect_settled)

text \<open>
  The effects of the page do not chase each other: from any state, two rounds of them (the second runs on what
  the first has set) reach a state that a further round leaves as it is. There the open task is the current
  record of its id (when the board still has one), the chat belongs to it, and the preview asked for is that of the
  output shown.
\<close>

lemma board_effects_settle:
  "let s' = run_effects (run_effects s) in
     run_effects s' = s' \<and>
     (case cb_selected s' of None \<Rightarrow> True
      | Some task \<Rightarrow> (case find (\<lambda>item. bt_id (snd item) = bt_id (snd task)) (cb_tasks s') of None \<Rightarrow> True | Some latest \<Rightarrow> fst latest = fst task)) \<and>
     same_task (cb_session_task s') (cb_selected s') \<and>
     same_task (fst (cb_output_deps s')) (cb_selected s') \<and> snd (cb_output_deps s') = selectedOutputEntry s'"
proof -
  define s1 where "s1 = run_effects s"
  define s2 where "s2 = run_effects s1"
  have sel: "cb_selected s2 = cb_selected s1" by (simp add: s1_def s2_def second_round_selected)
  have entries: "outputEntries s2 = outputEntries s1" by (rule outputEntries_cong) (rule sel)
  have same: "board_inputs s2 = board_inputs s1" by (simp add: s2_def)
  have choice: "ov_selected (cb_output s2) = ov_selected (cb_output (output_effect s1 s1))" by (simp add: s2_def run_effects_parts)
  have a: "output_effect s2 s2 = s2"
    using output_choice [OF entries choice, of s2] choice by (auto simp: output_effect_def on_output_def split: list.splits)
  have b: "agent_effect s2 s2 = s2"
    using run_effects_parts(3) [of s1] inputs_cong(2) [OF same] by (auto simp: s2_def agent_effect_def)
  have c: "selected_effect s2 s2 = s2" unfolding s2_def by (rule selected_effect_settled)
  have d: "mobile_effect s2 s2 = s2"
    using run_effects_parts(4) [of s1] inputs_cong(3) [OF same] by (simp add: s2_def mobile_effect_def)
  have tasks: "same_task (cb_session_task s2) (cb_selected s2)" using run_effects_session_task [of s1] sel by (simp add: s2_def)
  then have e: "chat_effect s2 s2 = s2" by (simp add: chat_effect_def)
  have entry: "selectedOutputEntry s2 = selectedOutputEntry s1" using output_choice [OF entries choice] by simp
  have deps: "same_task (fst (cb_output_deps s2)) (cb_selected s2)" "snd (cb_output_deps s2) = selectedOutputEntry s2"
    using run_effects_output_deps [of s1] sel entry by (simp_all add: s2_def)
  then have f: "preview_effect s2 s2 = s2" by (simp add: preview_effect_def)
  have "run_effects s2 = s2" by (simp add: run_effects_def a b c d e f)
  moreover have "case cb_selected s2 of None \<Rightarrow> True
      | Some task \<Rightarrow> (case find (\<lambda>item. bt_id (snd item) = bt_id (snd task)) (cb_tasks s2) of None \<Rightarrow> True | Some latest \<Rightarrow> fst latest = fst task)"
    unfolding inputs_cong(1) [OF same] by (rule selected_is_latest [of s1, folded s2_def])
  ultimately show ?thesis using tasks deps by (simp add: s1_def [symmetric] s2_def [symmetric])
qed


end
