(* ===== verification/CollabRuns.thy ===== *)
theory CollabRuns imports CollabEffects begin

text \<open>
  The runs of the page of \<open>CollabBoard\<close>: the invariant of every reachable state, part by part (each mark is served by
  a pending call, a pending preview is bound to the run of its effect, the chat connection to the open task, a number to
  one object), and what follows from it.
\<close>

section \<open>Every mark is served by a call\<close>

fun loads :: "board_call \<Rightarrow> bool" where
  "loads (LoadBoard _) = True"
| "loads _ = False"

fun serves_flow :: "flow_action \<Rightarrow> board_call \<Rightarrow> bool" where
  "serves_flow action (ChangeFlow a _) \<longleftrightarrow> a = action"
| "serves_flow action (ConfirmFlow _) \<longleftrightarrow> action = RunFlow"
| "serves_flow action (LoadBoard (FreeFlow a)) \<longleftrightarrow> a = action"
| "serves_flow action _ \<longleftrightarrow> False"

fun serves_task :: "task_action \<Rightarrow> board_call \<Rightarrow> bool" where
  "serves_task action (ChangeTask a _ _) \<longleftrightarrow> a = action"
| "serves_task action (LoadBoard (FreeTask a)) \<longleftrightarrow> a = action"
| "serves_task action _ \<longleftrightarrow> False"

fun serves_history :: "board_call \<Rightarrow> bool" where
  "serves_history (ReadHistory _ _ mode) \<longleftrightarrow> mode = ReplaceLoad"
| "serves_history _ \<longleftrightarrow> False"

fun serves_preview :: "nat \<Rightarrow> board_call \<Rightarrow> bool" where
  "serves_preview token (ReadPreview t _ _ _) \<longleftrightarrow> t = token"
| "serves_preview token _ \<longleftrightarrow> False"

fun flow_mark :: "flow_action \<Rightarrow> busy_marks \<Rightarrow> jsstring option" where
  "flow_mark InterruptFlow b = bz_interrupting_flow b"
| "flow_mark ContinueFlow b = bz_continuing_flow b"
| "flow_mark RunFlow b = bz_running_flow b"

fun task_mark :: "task_action \<Rightarrow> busy_marks \<Rightarrow> jsstring option" where
  "task_mark InterruptTask b = bz_interrupting_task b"
| "task_mark ContinueTask b = bz_continuing_task b"

lemma mark_simps [simp]:
  "flow_mark a (mark_flow b v m) = (if a = b then v else flow_mark a m)" "flow_mark a (mark_task c v m) = flow_mark a m"
  "task_mark c (mark_task d v m) = (if c = d then v else task_mark c m)" "task_mark c (mark_flow b v m) = task_mark c m"
proof -
  show "flow_mark a (mark_flow b v m) = (if a = b then v else flow_mark a m)" by (cases a; cases b) simp_all
  show "flow_mark a (mark_task c v m) = flow_mark a m" by (cases a; cases c) simp_all
  show "task_mark c (mark_task d v m) = (if c = d then v else task_mark c m)" by (cases c; cases d) simp_all
  show "task_mark c (mark_flow b v m) = task_mark c m" by (cases c; cases b) simp_all
qed

definition served :: "(board_call \<Rightarrow> bool) \<Rightarrow> bool \<Rightarrow> collab \<Rightarrow> bool" where
  "served P mark s \<longleftrightarrow> mark \<longrightarrow> list_ex P (cb_pending s)"

definition board_served :: "collab \<Rightarrow> bool" where
  "board_served s \<longleftrightarrow>
     served loads (cb_loading s) s \<and>
     (\<forall>a. served (serves_flow a) (flow_mark a (cb_busy s) \<noteq> None) s) \<and>
     (\<forall>a. served (serves_task a) (task_mark a (cb_busy s) \<noteq> None) s) \<and>
     served serves_history (sp_loading (cb_session s)) s \<and>
     served (serves_preview (ov_token (cb_output s))) (ov_loading (cb_output s)) s"

lemmas collab_ops = add_toast_def call_server_def on_session_def on_output_def on_busy_def set_link_def

lemma served_call_server: "list_ex P (cb_pending (call_server c s)) \<longleftrightarrow> list_ex P (cb_pending s) \<or> P c"
  by (simp add: call_server_def)

lemma call_server_fields [simp]:
  "cb_loading (call_server c s) = cb_loading s" "cb_busy (call_server c s) = cb_busy s" "cb_session (call_server c s) = cb_session s"
  "cb_output (call_server c s) = cb_output s"
  by (simp_all add: call_server_def)

lemma served_loadOverview:
  "board_served s \<Longrightarrow> board_served (loadOverview after s)"
  by (auto simp: board_served_def served_def loadOverview_def served_call_server)

lemma served_history_call: "board_served s \<Longrightarrow> board_served (loadTaskSessionMessages task sessionKey mode s)"
  by (auto simp: board_served_def served_def loadTaskSessionMessages_def served_call_server on_session_def)

lemma served_flow_call:
  "board_served s \<Longrightarrow> serves_flow a c \<Longrightarrow> board_served (call_server c (on_busy (mark_flow a v) s))"
  by (auto simp: board_served_def served_def served_call_server on_busy_def)

lemma served_task_call:
  "board_served s \<Longrightarrow> serves_task a c \<Longrightarrow> board_served (call_server c (on_busy (mark_task a v) s))"
  by (auto simp: board_served_def served_def served_call_server on_busy_def)

lemma served_plain_call: "board_served s \<Longrightarrow> board_served (call_server c s)"
  by (auto simp: board_served_def served_def served_call_server)

text \<open>Fields that no mark depends on may change freely.\<close>

lemma served_fields [simp]:
  "board_served (s\<lparr>cb_requirement_input := a\<rparr>) = board_served s" "board_served (s\<lparr>cb_agent_key := a\<rparr>) = board_served s"
  "board_served (s\<lparr>cb_create_open := b\<rparr>) = board_served s" "board_served (s\<lparr>cb_add_agent_open := b\<rparr>) = board_served s"
  "board_served (s\<lparr>cb_new_agent_name := a\<rparr>) = board_served s" "board_served (s\<lparr>cb_custom_names := names\<rparr>) = board_served s"
  "board_served (s\<lparr>cb_view_mode := mode\<rparr>) = board_served s" "board_served (s\<lparr>cb_mobile_index := i\<rparr>) = board_served s"
  "board_served (s\<lparr>cb_menu_open := b\<rparr>) = board_served s" "board_served (s\<lparr>cb_collapsed := names\<rparr>) = board_served s"
  "board_served (s\<lparr>cb_touch_x := x\<rparr>) = board_served s" "board_served (s\<lparr>cb_selected := t\<rparr>) = board_served s"
  "board_served (s\<lparr>cb_detail_tab := tab\<rparr>) = board_served s" "board_served (s\<lparr>cb_toasts := toasts\<rparr>) = board_served s"
  "board_served (s\<lparr>cb_tasks := ts\<rparr>) = board_served s" "board_served (s\<lparr>cb_next_ref := i\<rparr>) = board_served s"
  "board_served (s\<lparr>cb_load_error := e\<rparr>) = board_served s" "board_served (s\<lparr>cb_overview := ov\<rparr>) = board_served s"
  "board_served (s\<lparr>cb_link := l\<rparr>) = board_served s" "board_served (s\<lparr>cb_earlier := runs\<rparr>) = board_served s" "board_served (s\<lparr>cb_session_task := t\<rparr>) = board_served s"
  "board_served (s\<lparr>cb_output_deps := d\<rparr>) = board_served s"
  by (simp_all add: board_served_def served_def)

lemma served_panels:
  "board_served s \<Longrightarrow> (\<And>p. sp_loading (f p) \<longrightarrow> sp_loading p) \<Longrightarrow> board_served (on_session f s)"
  "board_served s \<Longrightarrow> (\<And>p. (ov_loading (g p) \<longrightarrow> ov_loading p) \<and> ov_token (g p) = ov_token p) \<Longrightarrow> board_served (on_output g s)"
  by (auto simp: board_served_def served_def on_session_def on_output_def)

lemma served_toast [simp]: "board_served (add_toast m k s) = board_served s"
  by (simp add: add_toast_def)

lemma served_link [simp]: "board_served (set_link t k l s) = board_served s"
  by (simp add: set_link_def)

lemma served_cleanup [simp]: "board_served (chat_cleanup s) = board_served s"
  by (simp add: board_served_def served_def)

lemma served_open: "board_served s \<Longrightarrow> board_served (handleOpenTaskDetail task s)"
  by (simp add: board_served_def served_def handleOpenTaskDetail_def)

lemma served_user: "board_served s \<Longrightarrow> board_served (user_does action s)"
  by (cases action)
    (auto simp: closeCreateModal_def closeAddAgentModal_def handleConfirmCreateAgent_def changeViewOnMobile_def chooseMobileColumn_def
      toggleColumnCollapsed_def handleBoardTouchStart_def handleBoardTouchEnd_def handleCloseTaskDetail_def handleDeleteTaskNode_def
      handleCreateTask_def handleChangeFlow_def handleRunFlow_def handleChangeTask_def Let_def
      intro: served_open served_plain_call served_flow_call served_task_call served_panels split: option.split)

declare mark_flow.simps [simp del] mark_task.simps [simp del]

lemma served_effects:
  assumes "board_served s"
  shows "board_served (output_effect r s)" "board_served (agent_effect r s)" "board_served (selected_effect r s)"
    "board_served (mobile_effect r s)" "board_served (chat_effect r s)" "board_served (preview_effect r s)"
proof -
  show "board_served (output_effect r s)"
    using assms by (auto simp: output_effect_def intro: served_panels split: list.split)
  show "board_served (agent_effect r s)" "board_served (selected_effect r s)" "board_served (mobile_effect r s)"
    using assms by (auto simp: agent_effect_def selected_effect_def mobile_effect_def split: option.split)
  show "board_served (chat_effect r s)"
    using assms by (auto simp: chat_effect_def Let_def handleMissingTaskSessionBinding_def intro!: served_panels served_history_call split: option.split)
  show "board_served (preview_effect r s)"
    using assms by (auto simp: preview_effect_def Let_def board_served_def served_def on_output_def served_call_server split: option.split)
qed

lemma served_run_effects: "board_served s \<Longrightarrow> board_served (run_effects s)"
  unfolding run_effects_def by (intro served_effects)

lemma list_ex_remove1: "\<not> P c \<Longrightarrow> list_ex P (remove1 c xs) \<longleftrightarrow> list_ex P xs"
  by (induction xs) auto

lemmas answer_defs = board_loaded_def task_created_def task_deleted_def flow_changed_def flow_failed_def flow_confirmed_def
  task_changed_def history_read_def preview_read_def loadOverview_def

lemma served_dropped:
  assumes "board_served s" and "\<not> P c"
  shows "served P m (drop_call c s) \<longleftrightarrow> served P m s"
  using assms by (simp add: served_def drop_call_def list_ex_remove1)

lemma drop_call_fields [simp]:
  "cb_loading (drop_call c s) = cb_loading s" "cb_busy (drop_call c s) = cb_busy s" "cb_session (drop_call c s) = cb_session s"
  "cb_output (drop_call c s) = cb_output s" "cb_selected (drop_call c s) = cb_selected s" "cb_tasks (drop_call c s) = cb_tasks s"
  "cb_next_ref (drop_call c s) = cb_next_ref s" "cb_session_task (drop_call c s) = cb_session_task s" "cb_link (drop_call c s) = cb_link s"
  "cb_earlier (drop_call c s) = cb_earlier s"
  "cb_output_deps (drop_call c s) = cb_output_deps s"
  by (simp_all add: drop_call_def)

lemma pending_fields [simp]:
  "cb_pending (on_busy f s) = cb_pending s" "cb_pending (add_toast m k s) = cb_pending s" "cb_pending (on_session g s) = cb_pending s"
  "cb_pending (on_output h s) = cb_pending s" "cb_pending (call_server c s) = cb_pending s @ [c]" "cb_pending (drop_call c s) = remove1 c (cb_pending s)"
  by (simp_all add: collab_ops drop_call_def)

lemma mark_fields [simp]:
  "cb_loading (on_busy f s) = cb_loading s" "cb_session (on_busy f s) = cb_session s" "cb_output (on_busy f s) = cb_output s" "cb_busy (on_busy f s) = f (cb_busy s)"
  "cb_loading (add_toast m k s) = cb_loading s" "cb_session (add_toast m k s) = cb_session s" "cb_output (add_toast m k s) = cb_output s" "cb_busy (add_toast m k s) = cb_busy s"
  "cb_loading (on_session g s) = cb_loading s" "cb_session (on_session g s) = g (cb_session s)" "cb_output (on_session g s) = cb_output s" "cb_busy (on_session g s) = cb_busy s"
  "cb_loading (on_output h s) = cb_loading s" "cb_session (on_output h s) = cb_session s" "cb_output (on_output h s) = h (cb_output s)" "cb_busy (on_output h s) = cb_busy s"
  by (simp_all add: collab_ops)

text \<open>An answered call takes the marks that only it served with it.\<close>

lemma served_board_loaded: "board_served s \<Longrightarrow> board_served (board_loaded after r (drop_call (LoadBoard after) s))"
  by (cases after; cases r) (simp_all add: board_served_def served_def board_loaded_def list_ex_remove1 split: prod.split)

lemma served_task_created: "board_served s \<Longrightarrow> board_served (task_created r (drop_call (CreateTask c) s))"
  by (cases r) (simp_all add: board_served_def served_def task_created_def loadOverview_def list_ex_remove1)

lemma served_task_deleted: "board_served s \<Longrightarrow> board_served (task_deleted closes r (drop_call (DeleteTask i closes) s))"
  by (cases r) (simp_all add: board_served_def served_def task_deleted_def loadOverview_def list_ex_remove1)

lemma served_flow_changed: "board_served s \<Longrightarrow> board_served (flow_changed action r (drop_call (ChangeFlow action i) s))"
  by (cases r) (auto simp: board_served_def served_def flow_changed_def flow_failed_def loadOverview_def list_ex_remove1)

lemma served_flow_confirmed: "board_served s \<Longrightarrow> board_served (flow_confirmed r (drop_call (ConfirmFlow request) s))"
  by (cases r) (auto simp: board_served_def served_def flow_confirmed_def flow_failed_def loadOverview_def list_ex_remove1)

lemma served_task_changed: "board_served s \<Longrightarrow> board_served (task_changed action r (drop_call (ChangeTask action i scope) s))"
  by (cases r) (auto simp: board_served_def served_def task_changed_def loadOverview_def list_ex_remove1)

lemma served_history_read: "board_served s \<Longrightarrow> board_served (history_read sessionKey mode r (drop_call (ReadHistory sessionKey scope mode) s))"
  by (cases r; cases mode) (auto simp: board_served_def served_def history_read_def list_ex_remove1)

lemma served_preview_read: "board_served s \<Longrightarrow> board_served (preview_read token r (drop_call (ReadPreview token i path scope) s))"
  by (cases r) (auto simp: board_served_def served_def preview_read_def list_ex_remove1)

lemmas served_answers = served_board_loaded served_task_created served_task_deleted served_flow_changed served_flow_confirmed
  served_task_changed served_history_read served_preview_read

lemma answers_cases:
  assumes "answers call reply s = Some s'"
  obtains (loaded) after r where "call = LoadBoard after" "board_loaded after r s = s'"
  | (created) c r where "call = CreateTask c" "task_created r s = s'"
  | (deleted) i closes r where "call = DeleteTask i closes" "task_deleted closes r s = s'"
  | (changed) action i r where "call = ChangeFlow action i" "flow_changed action r s = s'"
  | (confirmed) request r where "call = ConfirmFlow request" "flow_confirmed r s = s'"
  | (acted) action i scope r where "call = ChangeTask action i scope" "task_changed action r s = s'"
  | (history) sessionKey scope mode r where "call = ReadHistory sessionKey scope mode" "history_read sessionKey mode r s = s'"
  | (preview) token i path scope r where "call = ReadPreview token i path scope" "preview_read token r s = s'"
  using assms by (cases call; cases reply) auto

lemma served_answered:
  assumes "board_served s" and "answers call reply (drop_call call s) = Some s'"
  shows "board_served s'"
  using assms(2) by (cases rule: answers_cases) (auto intro: served_answers assms(1))

lemma served_realtime:
  assumes "board_served s"
  shows "board_served (applyBoardRealtimeUpdate_collab e s)" "board_served (session_message m s)" "board_served (session_resync s)"
    "board_served (session_disconnected i s)" "board_served (session_timer s)" "board_served (session_poll s)"
proof -
  show "board_served (applyBoardRealtimeUpdate_collab e s)"
    using assms by (cases "be_payload e") (simp_all add: applyBoardRealtimeUpdate_collab_def)
  show "board_served (session_message m s)"
    using assms by (auto simp: session_message_def with_link_def applySessionRealtimeUpdate_def Let_def
        intro!: served_panels split: option.split session_event.split)
  show "board_served (session_resync s)" "board_served (session_poll s)" "board_served (session_timer s)"
    using assms by (auto simp: session_resync_def session_poll_def session_timer_def with_link_def intro: served_history_call split: option.split)
  show "board_served (session_disconnected i s)"
    using assms by (auto simp: session_disconnected_def with_link_def handleTaskSessionRealtimeDisconnected_def intro!: served_panels split: option.split)
qed

lemma served_start: "board_served collab_start"
proof -
  have "flow_mark a (cb_busy collab_start) = None" "task_mark b (cb_busy collab_start) = None" for a b
    by (cases a; simp add: collab_start_def loadOverview_def call_server_def) (cases b; simp add: collab_start_def loadOverview_def call_server_def)
  then show ?thesis by (simp add: board_served_def served_def) (simp add: collab_start_def loadOverview_def call_server_def)
qed

section \<open>Whose preview and whose chat\<close>

fun is_preview :: "board_call \<Rightarrow> bool" where
  "is_preview (ReadPreview _ _ _ _) = True"
| "is_preview _ = False"

definition preview_view :: "collab \<Rightarrow> nat \<times> (task_ref option \<times> output_entry option) \<times> board_call list" where
  "preview_view s = (ov_token (cb_output s), cb_output_deps s, filter is_preview (cb_pending s))"

definition chat_view :: "collab \<Rightarrow> task_ref option \<times> (board_task \<times> jsstring \<times> link) option \<times> (board_task \<times> jsstring \<times> link \<times> bool) list" where
  "chat_view s = (cb_session_task s, cb_link s, cb_earlier s)"

text \<open>No pending request is of a later run of the effect, and one of the last run is for what that run saw.\<close>

definition call_bound :: "nat \<Rightarrow> task_ref option \<times> output_entry option \<Rightarrow> board_call \<Rightarrow> bool" where
  "call_bound token deps call \<longleftrightarrow>
     (case call of
        ReadPreview t taskId path _ \<Rightarrow>
          t \<le> token \<and> (t = token \<longrightarrow> (\<exists>n task entry. deps = (Some (n, task), Some entry) \<and> bt_id task = taskId \<and> oe_value entry = path))
      | _ \<Rightarrow> True)"

definition preview_bound :: "collab \<Rightarrow> bool" where
  "preview_bound s \<longleftrightarrow> list_all (call_bound (ov_token (cb_output s)) (cb_output_deps s)) (cb_pending s)"

text \<open>
  The link is that of the task of the last run of its effect, and it is alive; the earlier runs are cancelled and
  poll no more.
\<close>

definition quiet :: "board_task \<times> jsstring \<times> link \<times> bool \<Rightarrow> bool" where
  "quiet run \<longleftrightarrow> (case run of (task, sessionKey, l, polls) \<Rightarrow> link_ok l \<and> lk_cancelled l \<and> \<not> polls)"

definition chat_bound :: "collab \<Rightarrow> bool" where
  "chat_bound s \<longleftrightarrow> list_all quiet (cb_earlier s) \<and>
     (case cb_session_task s of
        None \<Rightarrow> cb_link s = None
      | Some (_, task) \<Rightarrow>
          (case getTaskExecutionSessionKey task of
             None \<Rightarrow> cb_link s = None
           | Some sessionKey \<Rightarrow> \<exists>l. cb_link s = Some (task, sessionKey, l) \<and> link_ok l \<and> \<not> lk_cancelled l))"

lemma call_bound_other: "\<not> is_preview call \<Longrightarrow> call_bound token deps call"
  by (cases call) (simp_all add: call_bound_def)

lemma preview_bound_view:
  assumes "preview_view s' = preview_view s"
  shows "preview_bound s' = preview_bound s"
proof -
  have "preview_bound s \<longleftrightarrow> list_all (call_bound (ov_token (cb_output s)) (cb_output_deps s)) (filter is_preview (cb_pending s))" for s
    unfolding preview_bound_def list_all_iff by simp (use call_bound_other in blast)
  then show ?thesis using assms by (simp add: preview_view_def)
qed

lemma chat_bound_view: "chat_view s' = chat_view s \<Longrightarrow> chat_bound s' = chat_bound s"
  by (cases "cb_session_task s") (auto simp: chat_view_def chat_bound_def split: option.split)

lemma preview_bound_dropped: "preview_bound s \<Longrightarrow> preview_bound (drop_call c s)"
  by (auto simp: preview_bound_def list_all_iff dest: notin_set_remove1)

lemmas view_defs = preview_view_def chat_view_def add_toast_def call_server_def on_session_def on_output_def on_busy_def set_link_def

lemmas user_defs = closeCreateModal_def closeAddAgentModal_def handleConfirmCreateAgent_def changeViewOnMobile_def chooseMobileColumn_def
  toggleColumnCollapsed_def handleBoardTouchStart_def handleBoardTouchEnd_def handleCloseTaskDetail_def handleDeleteTaskNode_def
  handleCreateTask_def handleChangeFlow_def handleRunFlow_def handleChangeTask_def handleOpenTaskDetail_def Let_def

lemma user_views: "preview_view (user_does action s) = preview_view s" "chat_view (user_does action s) = chat_view s"
  by (cases action; simp add: view_defs user_defs split: option.split prod.split)+

lemma finish_views [simp]:
  "preview_view (finish after s) = preview_view s" "chat_view (finish after s) = chat_view s"
  by (cases after; simp add: view_defs)+

lemma answer_views:
  "preview_view (board_loaded after r1 s) = preview_view s" "chat_view (board_loaded after r1 s) = chat_view s"
  "preview_view (task_created r s) = preview_view s" "chat_view (task_created r s) = chat_view s"
  "preview_view (task_deleted closes r s) = preview_view s" "chat_view (task_deleted closes r s) = chat_view s"
  "preview_view (flow_changed action r s) = preview_view s" "chat_view (flow_changed action r s) = chat_view s"
  "preview_view (flow_confirmed r2 s) = preview_view s" "chat_view (flow_confirmed r2 s) = chat_view s"
  "preview_view (task_changed action2 r s) = preview_view s" "chat_view (task_changed action2 r s) = chat_view s"
  "preview_view (history_read sessionKey mode r3 s) = preview_view s" "chat_view (history_read sessionKey mode r3 s) = chat_view s"
  "preview_view (preview_read token r4 s) = preview_view s" "chat_view (preview_read token r4 s) = chat_view s"
  by (simp_all add: answer_defs split: sum.split prod.split) (simp_all add: view_defs split: sum.split)

lemma history_call_views [simp]:
  "preview_view (loadTaskSessionMessages task sessionKey mode s) = preview_view s"
  "chat_view (loadTaskSessionMessages task sessionKey mode s) = chat_view s"
  by (simp_all add: loadTaskSessionMessages_def view_defs)

lemma board_event_views: "preview_view (applyBoardRealtimeUpdate_collab e s) = preview_view s" "chat_view (applyBoardRealtimeUpdate_collab e s) = chat_view s"
  by (cases "be_payload e"; simp add: applyBoardRealtimeUpdate_collab_def view_defs)+

lemma set_link_view [simp]: "preview_view (set_link t k l s) = preview_view s"
  by (simp add: view_defs)

lemma session_preview_views:
  "preview_view (session_message m s) = preview_view s" "preview_view (session_resync s) = preview_view s"
  "preview_view (session_disconnected i s) = preview_view s" "preview_view (session_timer s) = preview_view s"
  "preview_view (session_poll s) = preview_view s"
  by (simp_all add: session_message_def session_resync_def session_disconnected_def session_timer_def session_poll_def with_link_def
      handleTaskSessionRealtimeDisconnected_def applySessionRealtimeUpdate_def Let_def split: option.split prod.split session_event.split)
    (simp_all add: view_defs)

lemma effect_views [simp]:
  "preview_view (output_effect r s) = preview_view s" "chat_view (output_effect r s) = chat_view s"
  "preview_view (agent_effect r s) = preview_view s" "chat_view (agent_effect r s) = chat_view s"
  "preview_view (selected_effect r s) = preview_view s" "chat_view (selected_effect r s) = chat_view s"
  "preview_view (mobile_effect r s) = preview_view s" "chat_view (mobile_effect r s) = chat_view s"
  "preview_view (chat_effect r s) = preview_view s" "chat_view (preview_effect r s) = chat_view s"
  by (simp_all add: effect_defs view_defs split: list.split option.split)

lemma quiet_cleanup: "link_ok l \<Longrightarrow> quiet (task, sessionKey, link_cleanup l, False)"
  by (simp add: quiet_def link_ok_cleanup) (simp add: link_cleanup_def)

lemma chat_effect_parts:
  "cb_session_task (loadTaskSessionMessages t k m u) = cb_session_task u" "cb_session_task (handleMissingTaskSessionBinding u) = cb_session_task u"
  "cb_link (handleMissingTaskSessionBinding u) = cb_link u" "cb_earlier (loadTaskSessionMessages t k m u) = cb_earlier u"
  "cb_earlier (handleMissingTaskSessionBinding u) = cb_earlier u"
  by (simp_all add: loadTaskSessionMessages_def handleMissingTaskSessionBinding_def call_server_def on_session_def)

lemma chat_effect_earlier:
  assumes "chat_bound s"
  shows "list_all quiet (cb_earlier (chat_effect r s))"
proof -
  have "link_ok l" if "cb_link s = Some (task, sessionKey, l)" for task sessionKey l
    using assms that by (auto simp: chat_bound_def split: option.splits)
  moreover have "list_all quiet (cb_earlier s)" using assms by (simp add: chat_bound_def)
  ultimately show ?thesis
    by (auto simp: chat_effect_def Let_def set_link_def chat_effect_parts quiet_cleanup split: option.split)
qed

lemma chat_effect_bound: "chat_bound s \<Longrightarrow> chat_bound (chat_effect r s)"
proof -
  assume ok: "chat_bound s"
  show ?thesis
  proof (cases "same_task (cb_session_task s) (cb_selected r)")
    case False
    have "\<not> lk_cancelled link_start" by (simp add: link_start_def link_connect_def)
    then have "case cb_session_task (chat_effect r s) of
        None \<Rightarrow> cb_link (chat_effect r s) = None
      | Some (_, task) \<Rightarrow>
          (case getTaskExecutionSessionKey task of
             None \<Rightarrow> cb_link (chat_effect r s) = None
           | Some sessionKey \<Rightarrow> \<exists>l. cb_link (chat_effect r s) = Some (task, sessionKey, l) \<and> link_ok l \<and> \<not> lk_cancelled l)"
      using False by (auto simp: chat_effect_parts link_ok_start chat_effect_def Let_def set_link_def split: option.split)
    then show ?thesis using chat_effect_earlier [OF ok, of r] by (simp add: chat_bound_def)
  qed (simp add: chat_effect_def ok)
qed

lemma preview_effect_bound: "preview_bound s \<Longrightarrow> preview_bound (preview_effect r s)"
proof -
  assume ok: "preview_bound s"
  have older: "call_bound (Suc (ov_token (cb_output s))) deps c" if "c \<in> set (cb_pending s)" for deps c
    using ok that by (cases c) (auto simp: preview_bound_def list_all_iff call_bound_def)
  show ?thesis
    using ok by (auto simp: preview_effect_def Let_def preview_bound_def list_all_iff older on_output_def split: option.split)
      (auto simp: call_bound_def call_server_def)
qed

lemma run_effects_bound: "preview_bound s \<Longrightarrow> chat_bound s \<Longrightarrow> preview_bound (run_effects s) \<and> chat_bound (run_effects s)"
proof
  assume p: "preview_bound s" and c: "chat_bound s"
  show "preview_bound (run_effects s)"
    unfolding run_effects_def using p by (intro preview_effect_bound) (subst preview_bound_view [of _ s], simp_all)
  have "chat_bound (chat_effect s (mobile_effect s (selected_effect s (agent_effect s (output_effect s s)))))"
    using c by (intro chat_effect_bound) (subst chat_bound_view [of _ s], simp_all)
  then show "chat_bound (run_effects s)" unfolding run_effects_def by (subst chat_bound_view) simp_all
qed

lemma with_link_bound:
  assumes "chat_bound s" and "cb_link s = Some (task, sessionKey, l)"
  shows "link_ok l \<and> \<not> lk_cancelled l \<and> getTaskExecutionSessionKey task = Some sessionKey \<and> (\<exists>n. cb_session_task s = Some (n, task))"
  using assms by (auto simp: chat_bound_def split: option.splits)

lemma chat_bound_set_link:
  assumes "chat_bound s" and "cb_link s = Some (task, sessionKey, l)" and "chat_view s' = chat_view s" and "link_ok l'" and "\<not> lk_cancelled l'"
  shows "chat_bound (set_link task sessionKey l' s')"
proof -
  have "list_all quiet (cb_earlier s)" using assms(1) by (simp add: chat_bound_def)
  then show ?thesis using with_link_bound [OF assms(1,2)] assms(3-5) by (auto simp: chat_bound_def set_link_def chat_view_def)
qed

lemma link_stays [simp]:
  "lk_cancelled (link_on_message l) = lk_cancelled l" "lk_cancelled (link_lose i l) = lk_cancelled l" "lk_cancelled (link_on_timer l) = lk_cancelled l"
  by (simp_all add: link_defs)

lemma disconnected_view [simp]: "chat_view (handleTaskSessionRealtimeDisconnected s) = chat_view s"
  by (simp add: handleTaskSessionRealtimeDisconnected_def view_defs)

lemma applied_view [simp]: "chat_view (applySessionRealtimeUpdate m k s) = chat_view s"
  by (simp add: applySessionRealtimeUpdate_def view_defs Let_def split: session_event.split)

lemma session_bound:
  assumes "chat_bound s"
  shows "chat_bound (session_message m s)" "chat_bound (session_resync s)" "chat_bound (session_poll s)"
    "cb_link s = Some (task, sessionKey, l) \<Longrightarrow> link_speaks i l \<Longrightarrow> chat_bound (session_disconnected i s)"
    "cb_link s = Some (task, sessionKey, l) \<Longrightarrow> lk_timer l \<noteq> None \<Longrightarrow> chat_bound (session_timer s)"
proof -
  note bound = with_link_bound [OF assms]
  show "chat_bound (session_message m s)"
  proof (cases "cb_link s")
    case (Some link)
    obtain t k l where link: "cb_link s = Some (t, k, l)" using Some by (cases link) simp
    have "chat_bound (set_link t k (link_on_message l) s)"
      using bound [OF link] by (intro chat_bound_set_link [OF assms link]) (auto intro: link_ok_message)
    then show ?thesis using bound [OF link] by (simp add: session_message_def with_link_def link) (subst chat_bound_view, simp_all)
  qed (simp add: session_message_def with_link_def assms)
  have "chat_view (session_resync s) = chat_view s" "chat_view (session_poll s) = chat_view s"
    by (simp_all add: session_resync_def session_poll_def with_link_def split: option.split)
  then show "chat_bound (session_resync s)" "chat_bound (session_poll s)" using assms chat_bound_view by blast+
  show "chat_bound (session_disconnected i s)" if link: "cb_link s = Some (task, sessionKey, l)" and "link_speaks i l"
    using bound [OF link] that by (simp add: session_disconnected_def with_link_def) (auto intro!: chat_bound_set_link [OF assms link] link_ok_lose)
  show "chat_bound (session_timer s)" if link: "cb_link s = Some (task, sessionKey, l)" and "lk_timer l \<noteq> None"
    using bound [OF link] that by (simp add: session_timer_def with_link_def) (auto intro!: chat_bound_set_link [OF assms link] link_ok_timer)
qed

section \<open>Objects\<close>

definition board_refs :: "collab \<Rightarrow> task_ref set" where
  "board_refs s = set (cb_tasks s) \<union> set_option (cb_selected s) \<union> set_option (cb_session_task s) \<union> set_option (fst (cb_output_deps s))"

text \<open>A number is that of one object, and new objects get new numbers.\<close>

definition refs_ok :: "collab \<Rightarrow> bool" where
  "refs_ok s \<longleftrightarrow> inj_on fst (board_refs s) \<and> (\<forall>r \<in> board_refs s. fst r < cb_next_ref s)"

lemma refs_extend:
  assumes "refs_ok s" and "board_refs s' \<subseteq> board_refs s \<union> F" and "inj_on fst F"
    and "\<forall>r \<in> F. cb_next_ref s \<le> fst r \<and> fst r < cb_next_ref s'" and "cb_next_ref s \<le> cb_next_ref s'"
  shows "refs_ok s'"
proof -
  have "a \<noteq> b" if "a \<in> fst ` board_refs s" "b \<in> fst ` F" for a b
  proof -
    have "a < cb_next_ref s" using that(1) assms(1) by (force simp: refs_ok_def)
    moreover have "cb_next_ref s \<le> b" using that(2) assms(4) by force
    ultimately show ?thesis by simp
  qed
  then have "fst ` board_refs s \<inter> fst ` F = {}" by blast
  moreover have "inj_on fst (board_refs s)" using assms(1) by (simp add: refs_ok_def)
  ultimately have inj: "inj_on fst (board_refs s \<union> F)" using assms(3) by (auto simp: inj_on_Un)
  have "fst r < cb_next_ref s'" if "r \<in> board_refs s'" for r
  proof (cases "r \<in> F")
    case False
    then have "fst r < cb_next_ref s" using that assms(1,2) by (auto simp: refs_ok_def)
    then show ?thesis using assms(5) by simp
  qed (simp add: assms(4))
  then show ?thesis using inj_on_subset [OF inj assms(2)] by (simp add: refs_ok_def)
qed

lemma refs_subset: "refs_ok s \<Longrightarrow> board_refs s' \<subseteq> board_refs s \<Longrightarrow> cb_next_ref s' = cb_next_ref s \<Longrightarrow> refs_ok s'"
  by (rule refs_extend [of s s' "{}"]) auto

lemma refs_same: "refs_ok s \<Longrightarrow> r \<in> board_refs s \<Longrightarrow> r' \<in> board_refs s \<Longrightarrow> fst r = fst r' \<Longrightarrow> r = r'"
  by (auto simp: refs_ok_def inj_on_def)

lemma same_task_refs:
  assumes "refs_ok s" and "same_task (cb_session_task s) (cb_selected s)"
  shows "cb_session_task s = cb_selected s"
proof (cases "cb_session_task s")
  case None
  then show ?thesis using assms(2) by (simp add: same_task_def)
next
  case (Some r)
  then obtain r' where r': "cb_selected s = Some r'" "fst r = fst r'" using assms(2) by (cases "cb_selected s") (auto simp: same_task_def)
  have "r = r'" by (rule refs_same [OF assms(1)]) (simp_all add: board_refs_def Some r')
  then show ?thesis by (simp add: Some r')
qed

definition refs_view :: "collab \<Rightarrow> task_ref list \<times> task_ref option \<times> task_ref option \<times> (task_ref option \<times> output_entry option) \<times> nat" where
  "refs_view s = (cb_tasks s, cb_selected s, cb_session_task s, cb_output_deps s, cb_next_ref s)"

lemma refs_ok_view: "refs_view s' = refs_view s \<Longrightarrow> refs_ok s' = refs_ok s"
  by (simp add: refs_view_def refs_ok_def board_refs_def)

lemma op_refs_views [simp]:
  "refs_view (on_output f s) = refs_view s" "refs_view (on_session g s) = refs_view s" "refs_view (on_busy h s) = refs_view s"
  "refs_view (call_server c s) = refs_view s" "refs_view (add_toast m k s) = refs_view s" "refs_view (set_link t key l s) = refs_view s"
  "refs_view (finish after s) = refs_view s" "refs_view (drop_call c s) = refs_view s" "refs_view (loadTaskSessionMessages t key mode s) = refs_view s"
  by (cases after; simp add: refs_view_def collab_ops drop_call_def loadTaskSessionMessages_def)+

lemma loadOverview_refs_view [simp]: "refs_view (loadOverview after s) = refs_view s"
  by (simp add: loadOverview_def) (simp add: refs_view_def)

lemma op_refs_ok [simp]:
  "refs_ok (on_output f s) = refs_ok s" "refs_ok (on_session g s) = refs_ok s" "refs_ok (on_busy h s) = refs_ok s"
  "refs_ok (call_server c s) = refs_ok s" "refs_ok (add_toast m k s) = refs_ok s" "refs_ok (set_link t key l s) = refs_ok s"
  "refs_ok (finish after s) = refs_ok s" "refs_ok (drop_call c s) = refs_ok s" "refs_ok (loadTaskSessionMessages t key mode s) = refs_ok s"
  "refs_ok (loadOverview after s) = refs_ok s"
  by (rule refs_ok_view, simp)+

lemma user_refs_view: "(case action of OpenTask _ \<Rightarrow> False | CloseTask \<Rightarrow> False | _ \<Rightarrow> True) \<Longrightarrow> refs_view (user_does action s) = refs_view s"
  by (cases action; simp add: refs_view_def user_defs collab_ops split: option.split prod.split)

lemma refs_user: "on_screen action s \<Longrightarrow> refs_ok s \<Longrightarrow> refs_ok (user_does action s)"
proof (cases action)
  case (OpenTask task)
  assume shown: "on_screen action s" and ok: "refs_ok s"
  have "task \<in> set (cb_tasks s)" using shown OpenTask by simp
  then have "board_refs (user_does action s) \<subseteq> board_refs s"
    unfolding OpenTask user_does.simps handleOpenTaskDetail_def board_refs_def by simp blast
  then show ?thesis by (rule refs_subset [OF ok]) (simp add: OpenTask handleOpenTaskDetail_def)
next
  case CloseTask
  assume "refs_ok s"
  then show ?thesis by (rule refs_subset) (auto simp: CloseTask board_refs_def handleCloseTaskDetail_def)
qed (use refs_ok_view [OF user_refs_view [of action s]] in simp_all)

lemma refs_loaded: "refs_ok s \<Longrightarrow> refs_ok (board_loaded after r s)"
proof (cases r)
  case (Inr loaded)
  assume ok: "refs_ok s"
  obtain agents tasks where loaded: "loaded = (agents, tasks)" by (cases loaded) simp
  let ?F = "set (fresh_refs (cb_next_ref s) tasks)"
  let ?s = "s\<lparr>cb_overview := Some agents, cb_tasks := fresh_refs (cb_next_ref s) tasks, cb_next_ref := cb_next_ref s + length tasks, cb_loading := False\<rparr>"
  have "inj_on fst ?F" unfolding fresh_refs_def by (rule distinct_map [THEN iffD1, THEN conjunct2]) simp
  moreover have "\<forall>r \<in> ?F. cb_next_ref s \<le> fst r \<and> fst r < cb_next_ref s + length tasks"
    by (auto simp: fresh_refs_def in_set_enumerate_eq)
  ultimately have "refs_ok ?s" by (intro refs_extend [OF ok, where F = ?F]) (auto simp: board_refs_def)
  then show ?thesis by (simp add: board_loaded_def Inr loaded)
next
  case (Inl f)
  assume "refs_ok s"
  then have "refs_ok (s\<lparr>cb_load_error := e, cb_loading := b\<rparr>)" for e b by (rule refs_subset) (simp_all add: board_refs_def)
  then show ?thesis by (simp add: board_loaded_def Inl)
qed

lemma refs_answers:
  assumes "refs_ok s"
  shows "refs_ok (task_created r s)" "refs_ok (task_deleted closes r s)" "refs_ok (flow_changed action r s)" "refs_ok (flow_confirmed r2 s)"
    "refs_ok (task_changed action2 r s)" "refs_ok (history_read sessionKey mode r3 s)" "refs_ok (preview_read token r4 s)"
proof -
  have closed: "refs_ok (s\<lparr>cb_selected := None\<rparr>)" using assms by (rule refs_subset) (auto simp: board_refs_def)
  then show "refs_ok (task_deleted closes r s)" using assms by (simp add: task_deleted_def split: sum.split)
  have "refs_ok (s\<lparr>cb_create_open := False, cb_requirement_input := []\<rparr>)" using assms by (rule refs_subset) (simp_all add: board_refs_def)
  then show "refs_ok (task_created r s)" using assms by (simp add: task_created_def split: sum.split)
qed (use assms in \<open>simp_all add: flow_changed_def flow_failed_def flow_confirmed_def task_changed_def history_read_def preview_read_def split: sum.split\<close>)

lemma refs_board_event: "refs_ok s \<Longrightarrow> refs_ok (applyBoardRealtimeUpdate_collab e s)"
proof (cases "be_payload e")
  case (TaskUpserted task)
  assume ok: "refs_ok s"
  have "set (replace_first new items) \<subseteq> insert new (set items)" for new :: task_ref and items
    by (induction items) auto
  then have "set (upsert_task new items) \<subseteq> insert new (set items)" for new items by (simp add: upsert_task_def)
  then show ?thesis
    by (intro refs_extend [OF ok, where F = "{(cb_next_ref s, toBoardTaskFromKanbanTask task)}"])
      (auto simp: applyBoardRealtimeUpdate_collab_def TaskUpserted board_refs_def dest!: subsetD)
next
  case (TaskDeleted i)
  assume "refs_ok s"
  then show ?thesis
    by (rule refs_subset) (auto simp: applyBoardRealtimeUpdate_collab_def TaskDeleted board_refs_def split: option.splits if_splits)
qed (simp_all add: applyBoardRealtimeUpdate_collab_def, simp_all add: refs_ok_def board_refs_def)

lemma refs_session:
  assumes "refs_ok s"
  shows "refs_ok (session_message m s)" "refs_ok (session_resync s)" "refs_ok (session_disconnected i s)" "refs_ok (session_timer s)" "refs_ok (session_poll s)"
proof -
  have "refs_view (session_message m s) = refs_view s" "refs_view (session_resync s) = refs_view s" "refs_view (session_disconnected i s) = refs_view s"
    "refs_view (session_timer s) = refs_view s" "refs_view (session_poll s) = refs_view s"
    by (simp_all add: session_message_def session_resync_def session_disconnected_def session_timer_def session_poll_def with_link_def
        handleTaskSessionRealtimeDisconnected_def applySessionRealtimeUpdate_def Let_def split: option.split session_event.split)
  then show "refs_ok (session_message m s)" "refs_ok (session_resync s)" "refs_ok (session_disconnected i s)" "refs_ok (session_timer s)" "refs_ok (session_poll s)"
    using assms refs_ok_view by blast+
qed

section \<open>The runs that were cleaned up\<close>

lemma quiet_nothing:
  assumes "i < length (cb_earlier s)" and "quiet (cb_earlier s ! i)"
  shows "as_earlier i (session_message m) s = s" "as_earlier i session_resync s = s" "as_earlier i (session_disconnected j) s = s"
proof -
  obtain task sessionKey l polls where run: "cb_earlier s ! i = (task, sessionKey, l, polls)" by (cases "cb_earlier s ! i")
  have same: "(cb_earlier s)[i := (task, sessionKey, l, polls)] = cb_earlier s" using run by (metis list_update_id)
  have "lk_cancelled l" using assms(2) by (simp add: quiet_def run)
  then show "as_earlier i (session_message m) s = s" "as_earlier i session_resync s = s" "as_earlier i (session_disconnected j) s = s"
    by (simp_all add: as_earlier_def session_message_def session_resync_def session_disconnected_def with_link_def run same)
qed

lemma quiet_shut:
  "quiet run \<Longrightarrow> lk_cancelled (fst (snd (snd run))) \<and> lk_timer (fst (snd (snd run))) = None \<and> lk_client (fst (snd (snd run))) = None \<and>
     (\<forall>j. \<not> link_speaks j (fst (snd (snd run)))) \<and> \<not> snd (snd (snd run))"
  using board_link.ok_alive [of "fst (snd (snd run))"]
  by (cases run) (auto simp: quiet_def link_ok_def link_speaks_def)

lemma quiet_idle: "quiet (task, sessionKey, l, polls) \<Longrightarrow> lk_timer l = None \<and> \<not> polls"
  by (drule quiet_shut) simp

lemma chat_bound_earlier: "chat_bound s \<Longrightarrow> i < length (cb_earlier s) \<Longrightarrow> quiet (cb_earlier s ! i)"
  by (simp add: chat_bound_def list_all_length)

lemma open_task_link:
  assumes "chat_bound s" and "cb_session_task s = cb_selected s"
  shows "case cb_selected s of
        None \<Rightarrow> cb_link s = None
      | Some (_, task) \<Rightarrow>
          (case getTaskExecutionSessionKey task of
             None \<Rightarrow> cb_link s = None
           | Some sessionKey \<Rightarrow> \<exists>l. cb_link s = Some (task, sessionKey, l) \<and> (\<exists>i. link_speaks i l) \<noteq> (lk_timer l \<noteq> None))"
  using assms board_link.ok_alive by (cases "cb_link s") (auto simp: chat_bound_def split: option.splits)

section \<open>Every reachable state\<close>

lemma effects_keep_next_ref [simp]:
  "cb_next_ref (output_effect r s) = cb_next_ref s" "cb_next_ref (agent_effect r s) = cb_next_ref s"
  "cb_next_ref (selected_effect r s) = cb_next_ref s" "cb_next_ref (mobile_effect r s) = cb_next_ref s"
  "cb_next_ref (chat_effect r s) = cb_next_ref s" "cb_next_ref (preview_effect r s) = cb_next_ref s"
  by (simp_all add: effect_defs split: list.split option.split)

lemma refs_run_effects:
  assumes "refs_ok s"
  shows "refs_ok (run_effects s)"
proof -
  have tasks: "cb_tasks (run_effects s) = cb_tasks s" by (rule inputs_cong(1)) simp
  have "cb_selected (run_effects s) = cb_selected s \<or> (\<exists>r \<in> set (cb_tasks s). cb_selected (run_effects s) = Some r)"
    unfolding run_effects_parts by (auto simp: selected_effect_def find_Some_iff split: option.split)
  then have selected: "set_option (cb_selected (run_effects s)) \<subseteq> board_refs s" unfolding board_refs_def by auto
  have "cb_session_task (chat_effect s u) \<in> {cb_session_task u, cb_selected s}" for u
    by (auto simp: chat_effect_def Let_def set_link_def loadTaskSessionMessages_def handleMissingTaskSessionBinding_def
        call_server_def on_session_def split: option.split)
  from this [of "mobile_effect s (selected_effect s (agent_effect s (output_effect s s)))"]
  have "cb_session_task (run_effects s) \<in> {cb_session_task s, cb_selected s}" unfolding run_effects_def by simp
  then have session: "set_option (cb_session_task (run_effects s)) \<subseteq> board_refs s" unfolding board_refs_def by auto
  have "fst (cb_output_deps (preview_effect s u)) \<in> {fst (cb_output_deps u), cb_selected s}" for u
    by (auto simp: preview_effect_def Let_def on_output_def call_server_def split: option.split)
  moreover have "cb_output_deps (chat_effect s (mobile_effect s (selected_effect s (agent_effect s (output_effect s s))))) = cb_output_deps s"
    by (simp add: effect_defs split: list.split option.split)
  ultimately have "fst (cb_output_deps (run_effects s)) \<in> {fst (cb_output_deps s), cb_selected s}" unfolding run_effects_def by metis
  then have "set_option (fst (cb_output_deps (run_effects s))) \<subseteq> board_refs s" unfolding board_refs_def by auto
  moreover have "set (cb_tasks (run_effects s)) \<subseteq> board_refs s" unfolding tasks board_refs_def by blast
  ultimately have "board_refs (run_effects s) \<subseteq> board_refs s"
    using selected session unfolding board_refs_def [of "run_effects s"] by - (intro Un_least; assumption)
  moreover have "cb_next_ref (run_effects s) = cb_next_ref s"
    by (simp add: run_effects_def)
  ultimately show ?thesis by (rule refs_subset [OF assms])
qed

definition board_ok :: "collab \<Rightarrow> bool" where
  "board_ok s \<longleftrightarrow> board_served s \<and> preview_bound s \<and> chat_bound s \<and> refs_ok s"

lemma board_ok_start: "board_ok collab_start"
proof -
  have "preview_bound collab_start" "chat_bound collab_start" "refs_ok collab_start"
    by (simp_all add: collab_start_def loadOverview_def call_server_def preview_bound_def call_bound_def chat_bound_def refs_ok_def board_refs_def)
  then show ?thesis by (simp add: board_ok_def served_start)
qed

lemma bound_views:
  "preview_view s' = preview_view s \<Longrightarrow> chat_view s' = chat_view s \<Longrightarrow> preview_bound s \<and> chat_bound s \<Longrightarrow> preview_bound s' \<and> chat_bound s'"
  using preview_bound_view chat_bound_view by blast

lemma bound_answered:
  assumes "preview_bound s \<and> chat_bound s" and "answers call reply (drop_call call s) = Some s'"
  shows "preview_bound s' \<and> chat_bound s'"
proof -
  have "chat_view (drop_call call s) = chat_view s" by (simp add: chat_view_def)
  then have dropped: "preview_bound (drop_call call s) \<and> chat_bound (drop_call call s)"
    using assms(1) preview_bound_dropped chat_bound_view by blast
  show ?thesis using assms(2)
    by (cases rule: answers_cases) (use bound_views [OF answer_views(1,2) dropped] bound_views [OF answer_views(3,4) dropped]
      bound_views [OF answer_views(5,6) dropped] bound_views [OF answer_views(7,8) dropped] bound_views [OF answer_views(9,10) dropped]
      bound_views [OF answer_views(11,12) dropped] bound_views [OF answer_views(13,14) dropped] bound_views [OF answer_views(15,16) dropped] in blast)+
qed

lemma refs_answered:
  assumes "refs_ok s" and "answers call reply (drop_call call s) = Some s'"
  shows "refs_ok s'"
proof -
  have dropped: "refs_ok (drop_call call s)" using assms(1) by simp
  show ?thesis using assms(2) by (cases rule: answers_cases) (use refs_loaded [OF dropped] refs_answers [OF dropped] in blast)+
qed

lemma board_step_ok: "board_steps s s' \<Longrightarrow> board_ok s \<Longrightarrow> board_ok s'"
proof (induction rule: board_steps.induct)
  case (render s)
  then show ?case by (simp add: board_ok_def served_run_effects run_effects_bound refs_run_effects)
next
  case (user action s)
  then show ?case using bound_views [OF user_views [of action s]] by (simp add: board_ok_def served_user refs_user)
next
  case (answered call s reply s')
  then show ?case unfolding board_ok_def using served_answered bound_answered refs_answered by blast
next
  case (board_event s message)
  then show ?case using bound_views [OF board_event_views [of message s]] by (simp add: board_ok_def served_realtime refs_board_event)
next
  case (session_message s message)
  then show ?case by (simp add: board_ok_def served_realtime refs_session session_bound preview_bound_view [OF session_preview_views(1)])
next
  case (session_resync s)
  then show ?case by (simp add: board_ok_def served_realtime refs_session session_bound preview_bound_view [OF session_preview_views(2)])
next
  case (session_lost s task sessionKey l i)
  then show ?case by (simp add: board_ok_def served_realtime refs_session session_bound(4) preview_bound_view [OF session_preview_views(3)])
next
  case (session_timer s task sessionKey l)
  then show ?case by (simp add: board_ok_def served_realtime refs_session session_bound(5) preview_bound_view [OF session_preview_views(4)])
next
  case (session_poll s)
  then show ?case by (simp add: board_ok_def served_realtime refs_session session_bound preview_bound_view [OF session_preview_views(5)])
next
  case (earlier_timer i s task sessionKey l polls)
  then have "quiet (task, sessionKey, l, polls)" using chat_bound_earlier [of s i] by (simp add: board_ok_def)
  then show ?case using quiet_idle [of task sessionKey l polls] earlier_timer(3) by simp
next
  case (earlier_poll i s task sessionKey l)
  then have "quiet (task, sessionKey, l, True)" using chat_bound_earlier [of s i] by (simp add: board_ok_def)
  then show ?case using quiet_idle [of task sessionKey l True] by simp
qed (simp_all add: quiet_nothing chat_bound_earlier board_ok_def)

lemma board_reachable_ok: "board_steps\<^sup>*\<^sup>* collab_start s \<Longrightarrow> board_ok s"
  by (induction rule: rtranclp_induct) (blast intro: board_ok_start board_step_ok)+

text \<open>
  C7: The board never stays stuck: in every reachable state where the server has answered everything it was asked, nothing is
  marked as loading or busy; and while it is loading, a load is under way, and while a flow or a task is marked, the request for
  that action or the reload after it is under way.
\<close>

theorem board_never_stuck:
  assumes "board_steps\<^sup>*\<^sup>* collab_start s"
  shows "(if cb_pending s = [] then \<not> cb_loading s \<and> \<not> sp_loading (cb_session s) \<and> \<not> ov_loading (cb_output s) \<and>
        cb_busy s = \<lparr>bz_interrupting_task = None, bz_continuing_task = None, bz_interrupting_flow = None, bz_continuing_flow = None, bz_running_flow = None\<rparr>
      else board_served s)"
proof (cases "cb_pending s = []")
  case True
  have served: "board_served s" using board_reachable_ok [OF assms] by (simp add: board_ok_def)
  then have flows: "flow_mark a (cb_busy s) = None" and tasks: "task_mark b (cb_busy s) = None" for a b
    using True by (simp_all add: board_served_def served_def)
  have "cb_busy s = \<lparr>bz_interrupting_task = None, bz_continuing_task = None, bz_interrupting_flow = None, bz_continuing_flow = None, bz_running_flow = None\<rparr>"
    using flows [of InterruptFlow] flows [of ContinueFlow] flows [of RunFlow] tasks [of InterruptTask] tasks [of ContinueTask] by simp
  then show ?thesis using served True by (simp add: board_served_def served_def)
qed (use board_reachable_ok [OF assms] in \<open>simp add: board_ok_def\<close>)

text \<open>
  C28: A preview that arrives late is not shown: an answer to a request for the preview of an output changes the panel only if
  it was asked for by the last run of the effect, that is for the task and the output the last render showed; any
  other answer leaves the page as it is.
\<close>

theorem late_preview_is_dropped:
  assumes "board_steps\<^sup>*\<^sup>* collab_start s" and "ReadPreview token taskId path scope \<in> set (cb_pending s)"
  shows "preview_read token reply s = s \<or>
    (\<exists>n task entry. cb_output_deps s = (Some (n, task), Some entry) \<and> bt_id task = taskId \<and> oe_value entry = path)"
proof -
  have "preview_bound s" using board_reachable_ok [OF assms(1)] by (simp add: board_ok_def)
  then have "call_bound (ov_token (cb_output s)) (cb_output_deps s) (ReadPreview token taskId path scope)"
    using assms(2) by (simp add: preview_bound_def list_all_iff)
  then have "token = ov_token (cb_output s) \<longrightarrow> (\<exists>n task entry. cb_output_deps s = (Some (n, task), Some entry) \<and> bt_id task = taskId \<and> oe_value entry = path)"
    by (simp add: call_bound_def)
  then show ?thesis by (auto simp: preview_read_def)
qed

text \<open>
  C15: The chat follows the open task: once the effects have run on what a state shows, there is a chat connection exactly when
  the task that is open has a session, it is that session's, and it is connected or waiting to reconnect. What the
  effect had opened for tasks opened before is over: each of those runs is cancelled, its reconnect timer and the interval of its
  polls are cleared and its client was told to close, and whatever still comes in on one of their connections (a closed
  connection may still deliver) leaves the page exactly as it is.
\<close>

theorem chat_follows_open_task:
  assumes "board_steps\<^sup>*\<^sup>* collab_start s"
  shows "let s' = run_effects (run_effects s) in
     (case cb_selected s' of
        None \<Rightarrow> cb_link s' = None
      | Some (_, task) \<Rightarrow>
          (case getTaskExecutionSessionKey task of
             None \<Rightarrow> cb_link s' = None
           | Some sessionKey \<Rightarrow> \<exists>l. cb_link s' = Some (task, sessionKey, l) \<and> (\<exists>i. link_speaks i l) \<noteq> (lk_timer l \<noteq> None))) \<and>
     (\<forall>i < length (cb_earlier s').
        (case cb_earlier s' ! i of (task, sessionKey, l, polls) \<Rightarrow>
           lk_cancelled l \<and> lk_timer l = None \<and> lk_client l = None \<and> (\<forall>j. \<not> link_speaks j l) \<and> \<not> polls) \<and>
        (\<forall>message. as_earlier i (session_message message) s' = s') \<and> as_earlier i session_resync s' = s' \<and>
        (\<forall>j. as_earlier i (session_disconnected j) s' = s'))"
proof -
  let ?s = "run_effects (run_effects s)"
  have "board_ok ?s" using board_reachable_ok [OF assms] board_step_ok board_steps.render by blast
  moreover have "same_task (cb_session_task ?s) (cb_selected ?s)"
    using run_effects_session_task [of "run_effects s"] second_round_selected [of s] by simp
  ultimately have same: "cb_session_task ?s = cb_selected ?s" and bound: "chat_bound ?s" using same_task_refs [of ?s] by (simp_all add: board_ok_def)
  have "quiet (cb_earlier ?s ! i)" if "i < length (cb_earlier ?s)" for i using chat_bound_earlier [OF bound that] .
  then show ?thesis
    using open_task_link [OF bound same] quiet_nothing quiet_shut unfolding Let_def by (auto simp: case_prod_beta)
qed

section \<open>Runs on a board of two tasks\<close>

definition sample_kanban :: "string \<Rightarrow> task" where
  "sample_kanban i = \<lparr>t_id = js i, t_board_id = js ''default'', t_title = js i, t_summary = [], t_status = Running, t_source = FlowSource,
     t_agent_id = None, t_agent_name = js ''a'', t_artifacts = [js ''artifact:/out''], t_extras = [(js ''execution_session_key'', js i)],
     t_instance_id = None, t_created_at = [], t_updated_at = []\<rparr>"

definition sample_ref :: "nat \<Rightarrow> string \<Rightarrow> task_ref" where
  "sample_ref n i = (n, toBoardTaskFromKanbanTask (sample_kanban i))"

definition loaded_board :: collab where
  "loaded_board = board_loaded NothingAfter (Inr ([], [sample_kanban ''s'', sample_kanban ''t''])) (drop_call (LoadBoard NothingAfter) collab_start)"

definition opened_board :: collab where
  "opened_board = run_effects (run_effects (handleOpenTaskDetail (sample_ref 0 ''s'') loaded_board))"

lemma loaded_reachable: "board_steps\<^sup>*\<^sup>* collab_start loaded_board"
proof (rule r_into_rtranclp)
  show "board_steps collab_start loaded_board"
    by (rule board_steps.answered [of "LoadBoard NothingAfter" _ "BoardReply (Inr ([], [sample_kanban ''s'', sample_kanban ''t'']))"])
      (simp_all add: loaded_board_def collab_start_def loadOverview_def call_server_def)
qed

lemma loaded_fields:
  "cb_tasks loaded_board = [sample_ref 0 ''s'', sample_ref 1 ''t'']" "cb_pending loaded_board = []" "cb_selected loaded_board = None"
  "cb_session_task loaded_board = None" "cb_link loaded_board = None" "cb_output_deps loaded_board = (None, None)"
  by (simp_all add: loaded_board_def board_loaded_def fresh_refs_def sample_ref_def collab_start_def loadOverview_def call_server_def drop_call_def)

lemma step_open: "task \<in> set (cb_tasks s) \<Longrightarrow> board_steps\<^sup>*\<^sup>* collab_start s \<Longrightarrow> board_steps\<^sup>*\<^sup>* collab_start (run_effects (run_effects (handleOpenTaskDetail task s)))"
  using board_steps.user [of "OpenTask task" s] board_steps.render by (metis on_screen.simps(1) rtranclp.simps user_does.simps(18))

lemma opened_reachable: "board_steps\<^sup>*\<^sup>* collab_start opened_board"
  unfolding opened_board_def by (rule step_open [OF _ loaded_reachable]) (simp add: loaded_fields)

theorem board_never_stuck_witness: "cb_pending loaded_board = [] \<and> \<not> cb_loading loaded_board"
  using board_never_stuck [OF loaded_reachable] by (simp add: loaded_fields)

lemma sample_task:
  "getTaskExecutionSessionKey (snd (sample_ref n [c])) = (if char_white c then None else Some (js [c]))" "bt_id (snd (sample_ref n [c])) = js [c]"
  "fst (sample_ref n [c]) = n" "task_scope (snd (sample_ref n [c])) = None"
  by (simp_all add: sample_ref_def toBoardTaskFromKanbanTask_def sample_kanban_def getTaskExecutionSessionKey_def board_extra_def trim_opt_def
      task_scope_def non_empty_def js_def trim_def js_white_char)

lemma sample_output: "buildTaskOutputEntries (snd (sample_ref n i)) \<noteq> []"
proof -
  have "extractOutputPathFromArtifact (js ''artifact:/out'') = Some (js ''/out'')"
    by (simp add: extractOutputPathFromArtifact_def js_split_def trim_opt_def nth_opt_def starts_with_def to_lower_def lower_unit_def
        char_white_def js_def Let_def trim_def js_white_def)
  then show ?thesis
    by (simp add: buildTaskOutputEntries_def sample_ref_def toBoardTaskFromKanbanTask_def sample_kanban_def push_output_def)
qed

text \<open>What a round of effects asks for when a task has just been opened.\<close>

lemma pending_grows: "set (cb_pending s) \<subseteq> set (cb_pending (run_effects s))"
proof -
  have "set (cb_pending u) \<subseteq> set (cb_pending (preview_effect s u))" for u
    by (auto simp: preview_effect_def Let_def split: option.split) 
  moreover have "set (cb_pending u) \<subseteq> set (cb_pending (chat_effect s u))" for u
    by (auto simp: chat_effect_def Let_def handleMissingTaskSessionBinding_def set_link_def loadTaskSessionMessages_def split: option.split)
  moreover have "cb_pending (mobile_effect s (selected_effect s (agent_effect s (output_effect s s)))) = cb_pending s"
    by (simp add: effect_defs split: list.split option.split)
  ultimately show ?thesis unfolding run_effects_def by (metis subset_trans)
qed

lemma unavailable_stays: "sp_unavailable (cb_session (run_effects s)) = sp_unavailable (cb_session s)"
proof -
  have "cb_session (preview_effect s u) = cb_session u" "sp_unavailable (cb_session (chat_effect s u)) = sp_unavailable (cb_session u)" for u
    by (simp_all add: effect_defs split: option.split)
  moreover have "cb_session (mobile_effect s (selected_effect s (agent_effect s (output_effect s s)))) = cb_session s"
    by (simp add: effect_defs split: list.split option.split)
  ultimately show ?thesis by (simp add: run_effects_def)
qed

lemma history_asked:
  assumes "\<not> same_task (cb_session_task s) (cb_selected s)" and "cb_selected s = Some r"
    and "getTaskExecutionSessionKey (snd r) = Some sessionKey" and "sp_unavailable (cb_session s) \<noteq> sessionKey"
  shows "ReadHistory sessionKey (task_scope (snd r)) ReplaceLoad \<in> set (cb_pending (run_effects s))"
proof -
  let ?u = "mobile_effect s (selected_effect s (agent_effect s (output_effect s s)))"
  have "cb_session ?u = cb_session s" by (simp add: effect_defs split: list.split option.split)
  moreover obtain n task where "r = (n, task)" by (cases r) simp
  ultimately have "ReadHistory sessionKey (task_scope (snd r)) ReplaceLoad \<in> set (cb_pending (chat_effect s ?u))"
    using assms by (simp add: chat_effect_def set_link_def loadTaskSessionMessages_def Let_def)
  moreover have "set (cb_pending u) \<subseteq> set (cb_pending (preview_effect s u))" for u
    by (auto simp: preview_effect_def Let_def split: option.split)
  ultimately show ?thesis unfolding run_effects_def by blast
qed

lemma preview_asked:
  assumes "cb_output_deps s = (None, None)" and "cb_selected s = Some (n, task)" and "selectedOutputEntry s = Some entry"
  shows "ReadPreview (Suc (ov_token (cb_output s))) (bt_id task) (oe_value entry) (task_scope task) \<in> set (cb_pending (run_effects s)) \<and>
    ov_loading (cb_output (run_effects s)) \<and> ov_token (cb_output (run_effects s)) = Suc (ov_token (cb_output s))"
proof -
  let ?u = "chat_effect s (mobile_effect s (selected_effect s (agent_effect s (output_effect s s))))"
  have "preview_view ?u = preview_view s" by simp
  then have "ov_token (cb_output ?u) = ov_token (cb_output s)" "cb_output_deps ?u = (None, None)" using assms(1) by (simp_all add: preview_view_def)
  then show ?thesis using assms(2,3) by (simp add: run_effects_def preview_effect_def same_task_def Let_def)
qed

lemma earlier_after_effects:
  "cb_earlier (run_effects s) = cb_earlier (chat_effect s (mobile_effect s (selected_effect s (agent_effect s (output_effect s s)))))"
  using effect_views(10) [of s "chat_effect s (mobile_effect s (selected_effect s (agent_effect s (output_effect s s))))"]
  by (simp add: run_effects_def chat_view_def)

lemma earlier_kept: "cb_earlier s \<noteq> [] \<Longrightarrow> cb_earlier (run_effects s) \<noteq> []"
proof -
  let ?u = "mobile_effect s (selected_effect s (agent_effect s (output_effect s s)))"
  have "chat_view ?u = chat_view s" by simp
  then show "cb_earlier s \<noteq> [] \<Longrightarrow> cb_earlier (run_effects s) \<noteq> []"
    unfolding earlier_after_effects
    by (simp add: chat_view_def chat_effect_def chat_effect_parts Let_def set_link_def split: option.split)
qed

lemma link_becomes_earlier:
  assumes "\<not> same_task (cb_session_task s) (cb_selected s)" and "cb_link s = Some (task, sessionKey, l)"
  shows "cb_earlier (run_effects s) = cb_earlier s @ [(task, sessionKey, link_cleanup l, False)]"
proof -
  let ?u = "mobile_effect s (selected_effect s (agent_effect s (output_effect s s)))"
  have "chat_view ?u = chat_view s" by simp
  then show ?thesis
    unfolding earlier_after_effects using assms
    by (simp add: chat_view_def chat_effect_def chat_effect_parts Let_def set_link_def split: option.split)
qed

lemma opened_board_open: "cb_selected opened_board = Some (sample_ref 0 ''s'')" "cb_tasks opened_board = [sample_ref 0 ''s'', sample_ref 1 ''t'']"
proof -
  show "cb_selected opened_board = Some (sample_ref 0 ''s'')"
    unfolding opened_board_def second_round_selected unfolding run_effects_parts
    by (simp add: selected_effect_def handleOpenTaskDetail_def loaded_fields sample_task)
  have "board_inputs opened_board = board_inputs (handleOpenTaskDetail (sample_ref 0 ''s'') loaded_board)" by (simp add: opened_board_def)
  then have "cb_tasks opened_board = cb_tasks (handleOpenTaskDetail (sample_ref 0 ''s'') loaded_board)" by (rule inputs_cong(1))
  then show "cb_tasks opened_board = [sample_ref 0 ''s'', sample_ref 1 ''t'']" by (simp add: handleOpenTaskDetail_def loaded_fields)
qed

text \<open>The first task is open; the second is opened: the connection of the first is over.\<close>

definition switched_board :: collab where
  "switched_board = run_effects (run_effects (handleOpenTaskDetail (sample_ref 1 ''t'') opened_board))"

theorem chat_follows_open_task_witness:
  "(\<exists>l. cb_link opened_board = Some (snd (sample_ref 0 ''s''), js ''s'', l) \<and> (\<exists>i. link_speaks i l) \<noteq> (lk_timer l \<noteq> None)) \<and>
   cb_earlier switched_board \<noteq> [] \<and> as_earlier 0 (session_disconnected 0) switched_board = switched_board"
proof -
  let ?s = "handleOpenTaskDetail (sample_ref 0 ''s'') loaded_board" and ?t = "handleOpenTaskDetail (sample_ref 1 ''t'') opened_board"
  have "board_steps loaded_board ?s" using board_steps.user [of "OpenTask (sample_ref 0 ''s'')" loaded_board] by (simp add: loaded_fields)
  then have r: "board_steps\<^sup>*\<^sup>* collab_start ?s" using loaded_reachable by (rule rtranclp.rtrancl_into_rtrancl [rotated])
  have "board_steps opened_board ?t" using board_steps.user [of "OpenTask (sample_ref 1 ''t'')" opened_board] by (simp add: opened_board_open)
  then have r2: "board_steps\<^sup>*\<^sup>* collab_start ?t" using opened_reachable by (rule rtranclp.rtrancl_into_rtrancl [rotated])
  obtain n task where ref: "sample_ref 0 ''s'' = (n, task)" by (cases "sample_ref 0 ''s''") simp
  have opened: "\<exists>l. cb_link opened_board = Some (snd (sample_ref 0 ''s''), js ''s'', l) \<and> (\<exists>i. link_speaks i l) \<noteq> (lk_timer l \<noteq> None)"
    using chat_follows_open_task [OF r, folded opened_board_def, unfolded Let_def] opened_board_open(1) sample_task(1) [of 0 "CHR ''s''"]
    by (simp add: char_white_def ref)
  then obtain l where link: "cb_link ?t = Some (snd (sample_ref 0 ''s''), js ''s'', l)" by (auto simp: handleOpenTaskDetail_def)
  have "same_task (cb_session_task opened_board) (Some (sample_ref 0 ''s''))"
    using run_effects_session_task [of "run_effects ?s"] second_round_selected [of ?s] opened_board_open(1) by (simp add: opened_board_def)
  then have "\<not> same_task (cb_session_task ?t) (cb_selected ?t)"
    using sample_task(3) [of 0 "CHR ''s''"] sample_task(3) [of 1 "CHR ''t''"] by (auto simp: same_task_def handleOpenTaskDetail_def)
  then have "cb_earlier (run_effects ?t) \<noteq> []" using link_becomes_earlier [OF _ link] by simp
  then have earlier: "cb_earlier switched_board \<noteq> []" unfolding switched_board_def by (rule earlier_kept)
  have "as_earlier 0 (session_disconnected 0) switched_board = switched_board"
    using chat_follows_open_task [OF r2, folded switched_board_def, unfolded Let_def] earlier by blast
  then show ?thesis using opened earlier by blast
qed

definition previewing_board :: collab where
  "previewing_board = run_effects (handleOpenTaskDetail (sample_ref 0 ''s'') loaded_board)"

lemma previewing_reachable: "board_steps\<^sup>*\<^sup>* collab_start previewing_board"
proof -
  have "board_steps loaded_board (handleOpenTaskDetail (sample_ref 0 ''s'') loaded_board)"
    using board_steps.user [of "OpenTask (sample_ref 0 ''s'')" loaded_board] by (simp add: loaded_fields)
  then show ?thesis unfolding previewing_board_def
    using loaded_reachable board_steps.render by (meson rtranclp.rtrancl_into_rtrancl)
qed

theorem late_preview_is_dropped_witness:
  "preview_read (ov_token (cb_output previewing_board)) (Inl \<lparr>fa_message = None, fa_status = None\<rparr>) previewing_board \<noteq> previewing_board \<and>
   (\<exists>n task entry. cb_output_deps previewing_board = (Some (n, task), Some entry) \<and> bt_id task = js ''s'')"
proof -
  let ?s = "handleOpenTaskDetail (sample_ref 0 ''s'') loaded_board" and ?f = "Inl \<lparr>fa_message = None, fa_status = None\<rparr>"
  obtain n task where ref: "sample_ref 0 ''s'' = (n, task)" by (cases "sample_ref 0 ''s''") simp
  obtain entry rest where entries: "buildTaskOutputEntries task = entry # rest"
    using sample_output [of 0 "''s''"] by (cases "buildTaskOutputEntries task") (simp_all add: ref)
  have "find (\<lambda>item. False) rest = None" by (induction rest) simp_all
  then have "selectedOutputEntry ?s = Some entry"
    by (simp add: selectedOutputEntry_def outputEntries_def handleOpenTaskDetail_def ref entries nth_opt_def)
  moreover have "cb_selected ?s = Some (n, task)" "cb_output_deps ?s = (None, None)" by (simp_all add: handleOpenTaskDetail_def ref loaded_fields)
  ultimately have asked: "ReadPreview (ov_token (cb_output previewing_board)) (bt_id task) (oe_value entry) (task_scope task) \<in> set (cb_pending previewing_board)"
    and loading: "ov_loading (cb_output previewing_board)" using preview_asked [of ?s n task entry] by (simp_all add: previewing_board_def)
  have "\<not> ov_loading (cb_output (preview_read (ov_token (cb_output previewing_board)) ?f previewing_board))"
    by (simp add: preview_read_def)
  then have "preview_read (ov_token (cb_output previewing_board)) ?f previewing_board \<noteq> previewing_board" using loading by metis
  then show ?thesis
    using late_preview_is_dropped [OF previewing_reachable asked, of ?f] sample_task(2) [of 0 "CHR ''s''"] by (auto simp: ref)
qed

text \<open>
  The answers to requests for the history of a session are not dropped when another task has been opened since: here the details
  of the second task show, after both answers, what was said in the session of the first.
\<close>

definition history_item :: "string \<Rightarrow> preview_item" where
  "history_item text = \<lparr>pi_role = PreviewUser, pi_text = js text, pi_created_at = None, pi_kind = None, pi_payload = None\<rparr>"

definition answer_history :: "string \<Rightarrow> collab \<Rightarrow> collab" where
  "answer_history i s = history_read (js i) ReplaceLoad (Inr (Some [history_item i])) (drop_call (ReadHistory (js i) None ReplaceLoad) s)"

lemma answer_history_step:
  "ReadHistory (js i) None ReplaceLoad \<in> set (cb_pending s) \<Longrightarrow> board_steps s (answer_history i s)"
  by (rule board_steps.answered [of "ReadHistory (js i) None ReplaceLoad" s "HistoryReply (Inr (Some [history_item i]))"])
    (simp_all add: answer_history_def)

lemma answer_history_fields:
  "cb_selected (answer_history i s) = cb_selected s" "cb_pending (answer_history i s) = remove1 (ReadHistory (js i) None ReplaceLoad) (cb_pending s)"
  "sp_items (cb_session (answer_history i s)) = (if arePreviewItemsEqual (sp_items (cb_session s)) [history_item i] then sp_items (cb_session s) else [history_item i])"
  by (simp_all add: answer_history_def history_read_def on_session_def drop_call_def)

lemma late_history_is_shown:
  "\<exists>s. board_steps\<^sup>*\<^sup>* collab_start s \<and> cb_selected s = Some (sample_ref (Suc 0) ''t'') \<and> sp_items (cb_session s) = [history_item ''s''] \<and>
     getTaskExecutionSessionKey (snd (sample_ref (Suc 0) ''t'')) = Some (js ''t'')"
proof -
  let ?a = "run_effects (handleOpenTaskDetail (sample_ref 0 ''s'') loaded_board)"
  let ?o = "handleOpenTaskDetail (sample_ref (Suc 0) ''t'') ?a"
  let ?b = "run_effects ?o"
  let ?d = "answer_history ''s'' (answer_history ''t'' ?b)"
  have tasks: "cb_tasks ?a = [sample_ref 0 ''s'', sample_ref (Suc 0) ''t'']"
    using inputs_cong(1) [of ?a "handleOpenTaskDetail (sample_ref 0 ''s'') loaded_board"] by (simp add: handleOpenTaskDetail_def loaded_fields)
  have opened: "ReadHistory (js ''s'') None ReplaceLoad \<in> set (cb_pending ?a)"
    using history_asked [of "handleOpenTaskDetail (sample_ref 0 ''s'') loaded_board" "sample_ref 0 ''s''" "js ''s''"]
    by (simp add: handleOpenTaskDetail_def loaded_fields same_task_def sample_task char_white_def)
      (simp add: loaded_board_def board_loaded_def collab_start_def loadOverview_def call_server_def drop_call_def)
  have fields: "cb_pending ?o = cb_pending ?a" "cb_selected ?o = Some (sample_ref (Suc 0) ''t'')" "cb_session_task ?o = cb_session_task ?a"
    "sp_unavailable (cb_session ?o) = sp_unavailable (cb_session ?a)"
    by (simp_all add: handleOpenTaskDetail_def)
  have unavailable: "sp_unavailable (cb_session ?o) = []"
    unfolding fields unavailable_stays
    by (simp add: handleOpenTaskDetail_def) (simp add: loaded_board_def board_loaded_def collab_start_def loadOverview_def call_server_def drop_call_def)
  have "same_task (cb_session_task ?a) (Some (sample_ref 0 ''s''))"
    using run_effects_session_task [of "handleOpenTaskDetail (sample_ref 0 ''s'') loaded_board"] by (simp add: handleOpenTaskDetail_def)
  then have "\<not> same_task (cb_session_task ?o) (cb_selected ?o)"
    unfolding fields by (auto simp: same_task_def sample_task)
  then have "ReadHistory (js ''t'') None ReplaceLoad \<in> set (cb_pending ?b)"
    using history_asked [of ?o "sample_ref (Suc 0) ''t''" "js ''t''"] unavailable by (simp add: fields(2) sample_task char_white_def)
  moreover have "ReadHistory (js ''s'') None ReplaceLoad \<in> set (cb_pending ?b)"
    using subsetD [OF pending_grows [of ?o], unfolded fields(1), OF opened] .
  ultimately have both: "ReadHistory (js ''t'') None ReplaceLoad \<in> set (cb_pending ?b)" "ReadHistory (js ''s'') None ReplaceLoad \<in> set (cb_pending ?b)" .
  have "cb_tasks ?o = [sample_ref 0 ''s'', sample_ref (Suc 0) ''t'']" using tasks by (simp add: handleOpenTaskDetail_def)
  then have selected: "cb_selected ?b = Some (sample_ref (Suc 0) ''t'')"
    unfolding run_effects_parts by (simp add: selected_effect_def fields sample_task)
  have "board_steps loaded_board (handleOpenTaskDetail (sample_ref 0 ''s'') loaded_board)"
    using board_steps.user [of "OpenTask (sample_ref 0 ''s'')" loaded_board] by (simp add: loaded_fields)
  moreover have "board_steps ?a ?o" using board_steps.user [of "OpenTask (sample_ref (Suc 0) ''t'')" ?a] by (simp add: tasks)
  moreover have "board_steps ?b (answer_history ''t'' ?b)" by (rule answer_history_step) (rule both)
  moreover have "board_steps (answer_history ''t'' ?b) ?d" by (rule answer_history_step) (simp add: answer_history_fields both)
  ultimately have "board_steps\<^sup>*\<^sup>* collab_start ?d"
    using loaded_reachable board_steps.render by (meson rtranclp.rtrancl_into_rtrancl)
  moreover have "cb_selected ?d = Some (sample_ref (Suc 0) ''t'')" by (simp add: answer_history_fields selected)
  moreover have "sp_items (cb_session ?d) = [history_item ''s'']"
  proof -
    have "arePreviewItemsEqual xs [history_item ''s''] \<Longrightarrow> arePreviewItemsEqual xs [history_item ''t''] \<Longrightarrow> False" for xs
      by (auto simp: arePreviewItemsEqual_def list_all2_Cons2 history_item_def)
    moreover have "\<not> arePreviewItemsEqual [history_item ''t''] [history_item ''s'']" by (simp add: arePreviewItemsEqual_def history_item_def)
    ultimately show ?thesis by (auto simp: answer_history_fields)
  qed
  moreover have "getTaskExecutionSessionKey (snd (sample_ref (Suc 0) ''t'')) = Some (js ''t'')" by (simp add: sample_task char_white_def)
  ultimately show ?thesis by blast
qed


end
