(* ===== verification/BoardView.thy ===== *)
theory BoardView imports CollabRuns begin

text \<open>
  What the page of \<open>CollabBoard\<close> shows of its state: \<open>components/collab-page/CollabBoardContent.tsx\<close> (the columns and
  their cards), \<open>components/collab-page/CollabMobileBoardMenu.tsx\<close> (the menu of a small screen) and the two dialogs of
  \<open>components/CollabPage.tsx\<close>. A view is a function of the state; a control is what it shows and whether it can be
  used, and the actions it leads to are those of the page. Styles are left out.
\<close>

section \<open>The cards\<close>

record task_card =
  tk_source :: jsstring
  tk_status :: jsstring
  tk_title :: jsstring
  tk_summary :: jsstring
  tk_agent :: jsstring
  tk_id :: jsstring
  tk_requirement :: jsstring
  tk_artifact :: "jsstring option"
  tk_opens :: board_task

definition card_of :: "board_task \<Rightarrow> task_card" where
  "card_of task =
     \<lparr>tk_source = (if bt_source task = FlowSource then js ''Flow'' else js ''Provider''), tk_status = status_str (bt_status task),
      tk_title = bt_title task, tk_summary = bt_summary task, tk_agent = formatTaskAgentLabel task, tk_id = bt_id task,
      tk_requirement = getTaskRequirementIdForCard task, tk_artifact = nth_opt (bt_artifacts task) 0, tk_opens = task\<rparr>"

datatype column_body = BodySyncing | BodyEmpty jsstring | BodyCards "task_card list"

definition pending_column :: "view_mode \<Rightarrow> board_column \<Rightarrow> bool" where
  "pending_column viewMode column \<longleftrightarrow> viewMode = StatusView \<and> bc_id column = js ''status:pending_confirmation''"

definition column_body :: "view_mode \<Rightarrow> bool \<Rightarrow> board_column \<Rightarrow> column_body" where
  "column_body viewMode loading column =
     (if loading then BodySyncing
      else if bc_tasks column = [] then BodyEmpty (if pending_column viewMode column then [0x4ECE, 0x8FD9, 0x91CC, 0x521B, 0x5EFA, 0x65B0, 0x7684, 0x5F85, 0x6267, 0x884C, 0x4EFB, 0x52A1, 0x3002] else [0x6682, 0x65E0, 0x4EFB, 0x52A1])
      else BodyCards (map card_of (bc_tasks column)))"

section \<open>The controls of a flow\<close>

record flow_button =
  fb_action :: flow_action
  fb_text :: jsstring
  fb_disabled :: bool

record flow_header =
  fh_flow_id :: jsstring
  fh_state :: jsstring
  fh_button :: "flow_button option"

definition column_state_of :: "board_column \<Rightarrow> column_state" where
  "column_state_of column = nullish (bc_flow_state column) (resolveFlowColumnState (bc_tasks column))"

fun flow_button_of :: "busy_marks \<Rightarrow> jsstring \<Rightarrow> board_task list \<Rightarrow> column_state \<Rightarrow> flow_button option" where
  "flow_button_of b flowId tasks ColumnRunning = Some
     \<lparr>fb_action = InterruptFlow, fb_text = (if bz_interrupting_flow b = Some flowId then [0x4E2D, 0x65AD, 0x4E2D] @ js ''...'' else [0x4E2D, 0x65AD, 0x6D41, 0x7A0B]),
      fb_disabled = (bz_interrupting_flow b = Some flowId \<or> bz_continuing_flow b = Some flowId)\<rparr>"
| "flow_button_of b flowId tasks ColumnBlocked = Some
     \<lparr>fb_action = ContinueFlow, fb_text = (if bz_continuing_flow b = Some flowId then [0x7EE7, 0x7EED, 0x4E2D] @ js ''...'' else [0x7EE7, 0x7EED, 0x6D41, 0x7A0B]),
      fb_disabled = (bz_continuing_flow b = Some flowId \<or> bz_interrupting_flow b = Some flowId)\<rparr>"
| "flow_button_of b flowId tasks ColumnIdle = Some
     \<lparr>fb_action = RunFlow, fb_text = (if bz_running_flow b = Some flowId then [0x8FD0, 0x884C, 0x4E2D] @ js ''...'' else [0x8FD0, 0x884C, 0x6D41, 0x7A0B]),
      fb_disabled = (bz_running_flow b = Some flowId \<or> bz_continuing_flow b = Some flowId \<or> bz_interrupting_flow b = Some flowId \<or>
        tasks = [])\<rparr>"
| "flow_button_of b flowId tasks ColumnApproval = None"

definition flow_header_of :: "busy_marks \<Rightarrow> view_mode \<Rightarrow> board_column \<Rightarrow> flow_header option" where
  "flow_header_of b viewMode column =
     (case bc_flow_id column of
        None \<Rightarrow> None
      | Some flowId \<Rightarrow>
          if viewMode = FlowView \<and> flowId \<noteq> []
          then Some \<lparr>fh_flow_id = flowId, fh_state = getFlowColumnStateLabel (column_state_of column),
                 fh_button = flow_button_of b flowId (bc_tasks column) (column_state_of column)\<rparr>
          else None)"

section \<open>The board\<close>

record open_column =
  oc_title :: jsstring
  oc_count :: nat
  oc_folds :: bool
  oc_create :: bool
  oc_flow :: "flow_header option"
  oc_body :: column_body
  oc_column :: board_column

datatype column_view = FoldedColumn jsstring jsstring | OpenColumn open_column

definition column_view_of :: "bool \<Rightarrow> collab \<Rightarrow> board_column \<Rightarrow> column_view" where
  "column_view_of isNarrowMobileBoard s column =
     (if (if isNarrowMobileBoard then False else bc_id column \<in> set (cb_collapsed s))
      then FoldedColumn (bc_id column) (bc_title column)
      else OpenColumn
        \<lparr>oc_title = bc_title column, oc_count = length (bc_tasks column), oc_folds = (\<not> isNarrowMobileBoard),
         oc_create = pending_column (cb_view_mode s) column, oc_flow = flow_header_of (cb_busy s) (cb_view_mode s) column,
         oc_body = column_body (cb_view_mode s) (cb_loading s) column, oc_column = column\<rparr>)"

record board_view =
  bw_error :: "jsstring option"
  bw_columns :: "column_view list"
  bw_add_agent :: bool

definition CollabBoardContent :: "bool \<Rightarrow> collab \<Rightarrow> board_view" where
  "CollabBoardContent isNarrowMobileBoard s =
     \<lparr>bw_error = non_empty (nullish (cb_load_error s) []),
      bw_columns = map (column_view_of isNarrowMobileBoard s) (visibleBoardColumns isNarrowMobileBoard s),
      bw_add_agent = (cb_view_mode s = AgentView \<and> \<not> isNarrowMobileBoard)\<rparr>"

fun column_tasks :: "column_view \<Rightarrow> board_task list" where
  "column_tasks (OpenColumn c) = (case oc_body c of BodyCards cards \<Rightarrow> map tk_opens cards | _ \<Rightarrow> [])"
| "column_tasks (FoldedColumn _ _) = []"

definition shown_on_board :: "bool \<Rightarrow> collab \<Rightarrow> board_task list" where
  "shown_on_board isNarrowMobileBoard s = concat (map column_tasks (bw_columns (CollabBoardContent isNarrowMobileBoard s)))"

text \<open>
  What the user can do with a column, apart from opening its cards: a double click on a folded column or on the
  head of an open one, and the buttons of the head that are not disabled. The flag is the answer to the question
  that the handlers ask.
\<close>

fun flow_press :: "bool \<Rightarrow> jsstring \<Rightarrow> jsstring \<Rightarrow> board_task list \<Rightarrow> flow_action \<Rightarrow> user_action" where
  "flow_press confirmed flowId title tasks InterruptFlow = StopFlow confirmed flowId"
| "flow_press confirmed flowId title tasks ContinueFlow = ResumeFlow confirmed flowId"
| "flow_press confirmed flowId title tasks RunFlow = RunAgain confirmed flowId title tasks"

definition header_offers :: "bool \<Rightarrow> jsstring \<Rightarrow> board_task list \<Rightarrow> flow_header \<Rightarrow> user_action list" where
  "header_offers confirmed title tasks h =
     (case fh_button h of
        None \<Rightarrow> []
      | Some button \<Rightarrow> if fb_disabled button then [] else [flow_press confirmed (fh_flow_id h) title tasks (fb_action button)])"

fun column_offers :: "bool \<Rightarrow> column_view \<Rightarrow> user_action list" where
  "column_offers confirmed (FoldedColumn columnId _) = [ToggleColumn columnId]"
| "column_offers confirmed (OpenColumn c) =
     (if oc_folds c then [ToggleColumn (bc_id (oc_column c))] else []) @ (if oc_create c then [OpenCreate] else []) @
     (case oc_flow c of None \<Rightarrow> [] | Some h \<Rightarrow> header_offers confirmed (bc_title (oc_column c)) (bc_tasks (oc_column c)) h)"

definition board_offers :: "bool \<Rightarrow> bool \<Rightarrow> collab \<Rightarrow> user_action list" where
  "board_offers confirmed isNarrowMobileBoard s =
     (let v = CollabBoardContent isNarrowMobileBoard s
      in concat (map (column_offers confirmed) (bw_columns v)) @ (if bw_add_agent v then [OpenAddAgent] else []))"

section \<open>The menu of a small screen\<close>

record board_menu =
  mm_requirements :: nat
  mm_position :: "(nat \<times> nat) option"
  mm_view :: view_mode
  mm_columns :: "(jsstring \<times> jsstring) list"
  mm_chosen :: jsstring
  mm_disabled :: bool

text \<open>The values of the options are the numbers of the columns.\<close>

definition CollabMobileBoardMenu :: "collab \<Rightarrow> board_menu option" where
  "CollabMobileBoardMenu s =
     (if \<not> cb_menu_open s then None
      else let columns = board_columns s in Some
        \<lparr>mm_requirements = requirementCount s,
         mm_position = (if 0 < length columns then Some (currentMobileColumnIndex s + 1, length columns) else None),
         mm_view = cb_view_mode s,
         mm_columns = (if length columns = 0 then [(js ''0'', [0x6682, 0x65E0, 0x5217])] else []) @
           map (\<lambda>(index, column). (js_digits index, bc_title column)) (enumerate 0 columns),
         mm_chosen = js_digits (currentMobileColumnIndex s), mm_disabled = (length columns = 0)\<rparr>)"

text \<open>\<open>Number.isFinite(nextIndex) ? Math.max(0, nextIndex) : 0\<close> for the number at the start of a value\<close>

definition menu_index :: "jsstring \<Rightarrow> nat" where
  "menu_index text = (case parse_int text of Fin q \<Rightarrow> nat \<lfloor>q\<rfloor> | _ \<Rightarrow> 0)"

definition choose_in_menu :: "jsstring \<Rightarrow> collab \<Rightarrow> collab" where
  "choose_in_menu text s = user_does (ChooseColumn (menu_index text)) s"

section \<open>The dialogs\<close>

record create_dialog =
  cd_requirement :: jsstring
  cd_options :: "(jsstring \<times> jsstring) list"
  cd_chosen :: jsstring
  cd_choice_disabled :: bool
  cd_submit_disabled :: bool

definition create_task_dialog :: "collab \<Rightarrow> create_dialog option" where
  "create_task_dialog s =
     (if \<not> cb_create_open s then None
      else Some
        \<lparr>cd_requirement = cb_requirement_input s,
         cd_options = (if assignableAgents s = [] then [([], [0x6682, 0x65E0, 0x53EF, 0x7528] @ js '' Agent'')]
           else map (\<lambda>agent. (aa_key agent, aa_agent_name agent @ js '' ('' @ aa_instance_name agent @ js '')'')) (assignableAgents s)),
         cd_chosen = cb_agent_key s, cd_choice_disabled = (assignableAgents s = []), cd_submit_disabled = (\<not> canCreateTask s)\<rparr>)"

record agent_dialog =
  ad_name :: jsstring
  ad_submit_disabled :: bool

definition new_agent_dialog :: "collab \<Rightarrow> agent_dialog option" where
  "new_agent_dialog s =
     (if \<not> cb_add_agent_open s then None else Some \<lparr>ad_name = cb_new_agent_name s, ad_submit_disabled = (\<not> canSubmitAgent s)\<rparr>)"

section \<open>The cards on the screen are the tasks of the board\<close>

lemma card_opens [simp]: "tk_opens (card_of task) = task"
  by (simp add: card_of_def)

lemma column_tasks_of_view:
  "column_tasks (column_view_of narrow s column) =
     (if cb_loading s \<or> \<not> narrow \<and> bc_id column \<in> set (cb_collapsed s) then [] else bc_tasks column)"
  by (simp add: column_view_of_def column_body_def comp_def)

lemma shown_tasks:
  "shown_on_board narrow s =
     concat (map (\<lambda>column. if cb_loading s \<or> \<not> narrow \<and> bc_id column \<in> set (cb_collapsed s) then [] else bc_tasks column)
       (visibleBoardColumns narrow s))"
  by (simp add: shown_on_board_def CollabBoardContent_def comp_def column_tasks_of_view)

lemma columns_hold_tasks:
  "map bc_tasks (board_columns s) = map (\<lambda>column. filter (\<lambda>task. column_of (cb_view_mode s) task = bc_id column) (allTasks s)) (board_columns s)"
  "mset (concat (map bc_tasks (board_columns s))) = mset (allTasks s)"
proof -
  note c = columns_of_view [of "cb_view_mode s" "allTasks s" "allAgentNames s", folded board_columns_def, unfolded Let_def]
  from c have tasks: "map bc_tasks (board_columns s) =
      map (\<lambda>i. filter (\<lambda>task. column_of (cb_view_mode s) task = i) (allTasks s)) (map bc_id (board_columns s))"
    by blast
  then show "map bc_tasks (board_columns s) =
      map (\<lambda>column. filter (\<lambda>task. column_of (cb_view_mode s) task = bc_id column) (allTasks s)) (board_columns s)"
    by (simp add: comp_def)
  show "mset (concat (map bc_tasks (board_columns s))) = mset (allTasks s)"
    unfolding tasks by (rule mset_concat_filters) (use c in blast)+
qed

lemma shown_on_wide_screen:
  assumes "\<not> cb_loading s"
  shows "mset (shown_on_board False s) = filter_mset (\<lambda>task. column_of (cb_view_mode s) task \<notin> set (cb_collapsed s)) (mset (allTasks s))"
proof -
  let ?P = "\<lambda>task. column_of (cb_view_mode s) task \<notin> set (cb_collapsed s)"
  have "(if bc_id column \<in> set (cb_collapsed s) then [] else bc_tasks column) = filter ?P (bc_tasks column)"
    if "column \<in> set (board_columns s)" for column
  proof -
    have own: "bc_tasks column = filter (\<lambda>task. column_of (cb_view_mode s) task = bc_id column) (allTasks s)"
      using columns_hold_tasks(1) [of s] that unfolding map_eq_conv by blast
    show ?thesis by (simp add: own) (auto simp: filter_empty_conv intro!: filter_cong)
  qed
  then have "map (\<lambda>column. if bc_id column \<in> set (cb_collapsed s) then [] else bc_tasks column) (board_columns s) =
      map (filter ?P) (map bc_tasks (board_columns s))"
    by simp
  moreover have "shown_on_board False s = concat (map (\<lambda>column. if bc_id column \<in> set (cb_collapsed s) then [] else bc_tasks column) (board_columns s))"
    using assms by (simp add: shown_tasks visibleBoardColumns_def)
  ultimately have "shown_on_board False s = filter ?P (concat (map bc_tasks (board_columns s)))"
    by (simp only: filter_concat)
  then show ?thesis by (simp only: mset_filter columns_hold_tasks(2))
qed

lemma columns_after_choice [simp]:
  "board_columns (chooseMobileColumn i s) = board_columns s" "cb_loading (chooseMobileColumn i s) = cb_loading s"
  by (simp_all add: chooseMobileColumn_def board_columns_def allTasks_def allAgentNames_def primaryAgentNames_def overview_agents_def)

lemma shown_on_narrow_screen:
  assumes "\<not> cb_loading s" "i < length (board_columns s)"
  shows "shown_on_board True (chooseMobileColumn i s) = bc_tasks (board_columns s ! i)"
proof -
  have "board_columns s \<noteq> []" "min i (length (board_columns s) - 1) = i" using assms(2) by auto
  moreover have "cb_mobile_index (chooseMobileColumn i s) = i" by (simp add: chooseMobileColumn_def)
  ultimately show ?thesis using assms by (simp add: shown_tasks visibleBoardColumns_def)
qed

text \<open>
  C14: Once the board is loaded, in each of its views, a wide screen shows a card for every task exactly once, apart from the
  tasks whose column the user has folded; on a narrow screen, which shows the one column that was chosen, folded or not,
  the columns that can be chosen together show every task exactly once.
\<close>

theorem board_shows_every_task:
  assumes "\<not> cb_loading s"
  shows "mset (shown_on_board False s) =
      filter_mset (\<lambda>task. column_of (cb_view_mode s) task \<notin> set (cb_collapsed s)) (mset (allTasks s)) \<and>
    mset (concat (map (\<lambda>i. shown_on_board True (chooseMobileColumn i s)) [0..<length (board_columns s)])) = mset (allTasks s)"
proof -
  have "map (\<lambda>i. shown_on_board True (chooseMobileColumn i s)) [0..<length (board_columns s)] = map bc_tasks (board_columns s)"
    by (rule nth_equalityI) (simp_all add: shown_on_narrow_screen assms)
  then show ?thesis using shown_on_wide_screen [OF assms] columns_hold_tasks(2) [of s] by simp
qed

theorem board_shows_every_task_witness:
  "mset (shown_on_board False loaded_board) = {#snd (sample_ref 0 ''s''), snd (sample_ref 1 ''t'')#}"
proof -
  have "\<not> cb_loading loaded_board" "cb_collapsed loaded_board = []"
    by (simp_all add: loaded_board_def board_loaded_def collab_start_def loadOverview_def call_server_def drop_call_def)
  then show ?thesis using board_shows_every_task [of loaded_board] by (simp add: allTasks_def loaded_fields)
qed

section \<open>The controls of a flow follow its tasks\<close>

fun acts_on :: "jsstring \<Rightarrow> user_action \<Rightarrow> bool" where
  "acts_on flowId (StopFlow _ i) \<longleftrightarrow> i = flowId"
| "acts_on flowId (ResumeFlow _ i) \<longleftrightarrow> i = flowId"
| "acts_on flowId (RunAgain _ i _ _) \<longleftrightarrow> i = flowId"
| "acts_on flowId _ \<longleftrightarrow> False"

lemma concat_single: "distinct ks \<Longrightarrow> concat (map (\<lambda>k. if k = f then xs else []) ks) = (if f \<in> set ks then xs else [])"
  by (induction ks) auto

definition flow_tasks :: "jsstring \<Rightarrow> collab \<Rightarrow> board_task list" where
  "flow_tasks flowId s = filter (\<lambda>task. getRequirementId task = flowId) (allTasks s)"

lemma flow_tasks_exist: "flow_tasks f s = [] \<longleftrightarrow> f \<notin> getRequirementId ` set (allTasks s)"
  by (auto simp: flow_tasks_def filter_empty_conv)

definition flow_control :: "bool \<Rightarrow> jsstring \<Rightarrow> collab \<Rightarrow> user_action list" where
  "flow_control confirmed flowId s =
     (let tasks = flow_tasks flowId s; b = cb_busy s in
      if tasks = [] \<or> bz_interrupting_flow b = Some flowId \<or> bz_continuing_flow b = Some flowId then []
      else case resolveFlowColumnState tasks of
          ColumnRunning \<Rightarrow> [StopFlow confirmed flowId]
        | ColumnBlocked \<Rightarrow> [ResumeFlow confirmed flowId]
        | ColumnApproval \<Rightarrow> []
        | ColumnIdle \<Rightarrow> if bz_running_flow b = Some flowId then [] else [RunAgain confirmed flowId (getRequirementTitle (hd tasks) flowId) tasks])"

lemma press_acts_on [simp]: "acts_on f (flow_press confirmed k title tasks a) \<longleftrightarrow> k = f"
  by (cases a) simp_all

lemma open_column_offers:
  "filter (acts_on f) (column_offers confirmed (OpenColumn c)) =
     filter (acts_on f) (case oc_flow c of None \<Rightarrow> [] | Some h \<Rightarrow> header_offers confirmed (bc_title (oc_column c)) (bc_tasks (oc_column c)) h)"
  by simp

lemma flow_column_offers:
  assumes "cb_view_mode s = FlowView" "f \<noteq> []" "js ''flow:'' @ f \<notin> set (cb_collapsed s)" "flow_tasks k s \<noteq> []"
  shows "filter (acts_on f) (column_offers confirmed (column_view_of False s
      \<lparr>bc_id = js ''flow:'' @ k, bc_title = getRequirementTitle (hd (flow_tasks k s)) k, bc_tasks = flow_tasks k s, bc_flow_id = Some k,
       bc_flow_state = Some (resolveFlowColumnState (flow_tasks k s))\<rparr>)) = (if k = f then flow_control confirmed f s else [])"
proof (cases "js ''flow:'' @ k \<in> set (cb_collapsed s)")
  case True
  then show ?thesis using assms(3) by (auto simp: column_view_of_def)
next
  case False
  have "filter (acts_on f) (case flow_header_of (cb_busy s) FlowView
      \<lparr>bc_id = js ''flow:'' @ k, bc_title = getRequirementTitle (hd (flow_tasks k s)) k, bc_tasks = flow_tasks k s, bc_flow_id = Some k,
       bc_flow_state = Some (resolveFlowColumnState (flow_tasks k s))\<rparr> of None \<Rightarrow> []
      | Some h \<Rightarrow> header_offers confirmed (getRequirementTitle (hd (flow_tasks k s)) k) (flow_tasks k s) h) =
      (if k = f then flow_control confirmed f s else [])"
    using assms(2,4)
    by (cases "resolveFlowColumnState (flow_tasks k s)")
      (auto simp: flow_header_of_def header_offers_def flow_control_def column_state_of_def Let_def)
  then show ?thesis using False by (simp add: column_view_of_def open_column_offers assms(1) pending_column_def del: column_offers.simps cong: option.case_cong)
qed

text \<open>
  In the view by flow, the controls a flow offers are decided by its tasks and the requests under way: a flow with
  a running or queued task can be interrupted, a flow stopped by an interruption can be continued, one that waits for
  an approval offers nothing, and one at rest can be run with exactly its tasks. While the flow is being interrupted
  or continued, it offers nothing, and while it is being started it cannot be started again.
\<close>

lemma flow_controls_follow_tasks:
  assumes "cb_view_mode s = FlowView" "f \<noteq> []" "js ''flow:'' @ f \<notin> set (cb_collapsed s)"
  shows "filter (acts_on f) (board_offers confirmed False s) = flow_control confirmed f s"
proof -
  define ids where "ids = uniq (map getRequirementId (allTasks s))"
  define column where "column = (\<lambda>k. \<lparr>bc_id = js ''flow:'' @ k, bc_title = getRequirementTitle (hd (flow_tasks k s)) k,
      bc_tasks = flow_tasks k s, bc_flow_id = Some k, bc_flow_state = Some (resolveFlowColumnState (flow_tasks k s))\<rparr>)"
  have ids: "distinct ids" "set ids = getRequirementId ` set (allTasks s)" by (simp_all add: ids_def)
  have columns: "board_columns s = map column ids"
    by (simp add: board_columns_def assms(1) flow_columns Let_def ids_def column_def flow_tasks_def)
  have "filter (acts_on f) (column_offers confirmed (column_view_of False s (column k))) = (if k = f then flow_control confirmed f s else [])"
    if "k \<in> set ids" for k
    unfolding column_def by (rule flow_column_offers [OF assms]) (use that in \<open>simp add: ids flow_tasks_exist\<close>)
  then have each: "map (\<lambda>k. filter (acts_on f) (column_offers confirmed (column_view_of False s (column k)))) ids =
      map (\<lambda>k. if k = f then flow_control confirmed f s else []) ids"
    by simp
  have "filter (acts_on f) (board_offers confirmed False s) =
      concat (map (\<lambda>k. filter (acts_on f) (column_offers confirmed (column_view_of False s (column k)))) ids)"
    by (simp add: board_offers_def CollabBoardContent_def visibleBoardColumns_def columns assms(1) Let_def filter_concat comp_def)
  also have "\<dots> = (if f \<in> set ids then flow_control confirmed f s else [])" unfolding each by (rule concat_single [OF ids(1)])
  also have "\<dots> = flow_control confirmed f s"
    using flow_tasks_exist [of f s] by (auto simp: ids flow_control_def)
  finally show ?thesis .
qed


end
