(* ===== verification/UrlEncoding.thy ===== *)
theory UrlEncoding imports FlowTypes begin

text \<open>
  \<open>api/apiBaseUrl.ts\<close> and the URL functions of JavaScript the HTTP clients use:
  \<^item> the base address, without a final slash;
  \<^item> \<open>encodeURIComponent\<close> and the serialiser of \<open>URLSearchParams\<close>, from UTF-16 code units over
    scalar values and UTF-8 bytes to the percent form, with the decoder a server applies;
  \<^item> encoded text holds none of the separators of a URL, and decoding gives the text back.
\<close>

section \<open>Scalar values of a string\<close>

text \<open>A surrogate that is not part of a pair has no scalar value: None.\<close>

definition surrogate_pair :: "16 word \<Rightarrow> 16 word \<Rightarrow> nat" where
  "surrogate_pair c d = 0x10000 + (unat c - 0xD800) * 0x400 + (unat d - 0xDC00)"

fun scalars :: "jsstring \<Rightarrow> nat option list" where
  "scalars [] = []"
| "scalars [c] = [if unat c < 0xD800 \<or> 0xE000 \<le> unat c then Some (unat c) else None]"
| "scalars (c # d # cs) =
     (if unat c < 0xD800 \<or> 0xE000 \<le> unat c then Some (unat c) # scalars (d # cs)
      else if unat c < 0xDC00 \<and> 0xDC00 \<le> unat d \<and> unat d < 0xE000
      then Some (surrogate_pair c d) # scalars cs
      else None # scalars (d # cs))"

definition units_of_scalar :: "nat \<Rightarrow> jsstring" where
  "units_of_scalar n = (if n < 0x10000 then [of_nat n]
     else [of_nat (0xD800 + (n - 0x10000) div 0x400), of_nat (0xDC00 + (n - 0x10000) mod 0x400)])"

definition utf8 :: "nat \<Rightarrow> nat list" where
  "utf8 n =
     (if n < 0x80 then [n]
      else if n < 0x800 then [0xC0 + n div 0x40, 0x80 + n mod 0x40]
      else if n < 0x10000 then [0xE0 + n div 0x1000, 0x80 + n div 0x40 mod 0x40, 0x80 + n mod 0x40]
      else [0xF0 + n div 0x40000, 0x80 + n div 0x1000 mod 0x40, 0x80 + n div 0x40 mod 0x40, 0x80 + n mod 0x40])"

fun utf8_decode :: "nat list \<Rightarrow> nat list" where
  "utf8_decode [] = []"
| "utf8_decode (a # bs) =
     (if a < 0x80 then a # utf8_decode bs
      else if a < 0xE0 then ((a - 0xC0) * 0x40 + (bs ! 0 - 0x80)) # utf8_decode (drop 1 bs)
      else if a < 0xF0 then ((a - 0xE0) * 0x1000 + (bs ! 0 - 0x80) * 0x40 + (bs ! 1 - 0x80)) # utf8_decode (drop 2 bs)
      else ((a - 0xF0) * 0x40000 + (bs ! 0 - 0x80) * 0x1000 + (bs ! 1 - 0x80) * 0x40 + (bs ! 2 - 0x80))
             # utf8_decode (drop 3 bs))"

section \<open>Percent encoding\<close>

definition hex_digit :: "nat \<Rightarrow> 16 word" where
  "hex_digit n = of_nat (if n < 10 then 48 + n else 55 + n)"

definition percent :: "nat \<Rightarrow> jsstring" where
  "percent b = [37, hex_digit (b div 16), hex_digit (b mod 16)]"

definition alphanumeric :: "nat \<Rightarrow> bool" where
  "alphanumeric n \<longleftrightarrow> (48 \<le> n \<and> n \<le> 57) \<or> (65 \<le> n \<and> n \<le> 90) \<or> (97 \<le> n \<and> n \<le> 122)"

text \<open>Letters, digits and \<open>- _ . ! ~ * ' ( )\<close> stay as they are.\<close>

definition component_safe :: "nat \<Rightarrow> bool" where
  "component_safe n \<longleftrightarrow> alphanumeric n \<or> n \<in> set [45, 95, 46, 33, 126, 42, 39, 40, 41]"

definition encode_scalar :: "nat \<Rightarrow> jsstring" where
  "encode_scalar n = (if component_safe n then [of_nat n] else concat (map percent (utf8 n)))"

text \<open>A lone surrogate makes \<open>encodeURIComponent\<close> throw a \<open>URIError\<close>: None.\<close>

definition encodeURIComponent :: "jsstring \<Rightarrow> jsstring option" where
  "encodeURIComponent s =
     (if None \<in> set (scalars s) then None else Some (concat (map (encode_scalar \<circ> the) (scalars s))))"

text \<open>
  \<open>new URLSearchParams()\<close>, its \<open>set\<close> and its \<open>toString\<close>: letters, digits and \<open>* - . _\<close> stay, a
  blank becomes \<open>+\<close>, and a lone surrogate is read as U+FFFD.
\<close>

definition form_safe :: "nat \<Rightarrow> bool" where
  "form_safe n \<longleftrightarrow> alphanumeric n \<or> n \<in> set [42, 45, 46, 95]"

definition form_scalar :: "nat \<Rightarrow> jsstring" where
  "form_scalar n = (if form_safe n then [of_nat n] else if n = 32 then [43] else concat (map percent (utf8 n)))"

definition form_encode :: "jsstring \<Rightarrow> jsstring" where
  "form_encode s = concat (map (\<lambda>c. form_scalar (nullish c 0xFFFD)) (scalars s))"

type_synonym search_params = "(jsstring \<times> jsstring) list"

fun params_set :: "jsstring \<Rightarrow> jsstring \<Rightarrow> search_params \<Rightarrow> search_params" where
  "params_set k v [] = [(k, v)]"
| "params_set k v ((k', v') # ps) =
     (if k' = k then (k, v) # filter (\<lambda>(k', _). k' \<noteq> k) ps else (k', v') # params_set k v ps)"

definition params_string :: "search_params \<Rightarrow> jsstring" where
  "params_string ps = js_join (js ''&'') (map (\<lambda>(k, v). form_encode k @ js ''='' @ form_encode v) ps)"

section \<open>Decoding\<close>

definition hex_value :: "16 word \<Rightarrow> nat" where
  "hex_value c = (if unat c < 58 then unat c - 48 else unat c - 55)"

fun percent_bytes :: "jsstring \<Rightarrow> nat list" where
  "percent_bytes (c # cs) =
     (if c = 37 \<and> 2 \<le> length cs then (16 * hex_value (cs ! 0) + hex_value (cs ! 1)) # percent_bytes (drop 2 cs)
      else unat c # percent_bytes cs)"
| "percent_bytes [] = []"

definition percent_decode :: "jsstring \<Rightarrow> jsstring" where
  "percent_decode s = concat (map units_of_scalar (utf8_decode (percent_bytes s)))"

section \<open>The base address\<close>

text \<open>\<open>replace(/\/+$/, '')\<close>\<close>

definition strip_slashes :: "jsstring \<Rightarrow> jsstring" where
  "strip_slashes s = rev (dropWhile (\<lambda>c. c = 47) (rev s))"

definition normalizeApiBaseUrl :: "jsstring \<Rightarrow> jsstring" where
  "normalizeApiBaseUrl raw = strip_slashes (trim raw)"

text \<open>The arguments: the override, \<open>VITE_API_BASE_URL\<close>, \<open>window.location.origin\<close> where there is one.\<close>

definition inferDefaultApiBaseUrl :: "jsstring option \<Rightarrow> jsstring" where
  "inferDefaultApiBaseUrl origin =
     (case origin of None \<Rightarrow> js ''http://localhost:8000''
      | Some s \<Rightarrow> str_or s (js ''http://localhost:8000''))"

definition resolveRequiredApiBaseUrl :: "jsstring option \<Rightarrow> jsstring option \<Rightarrow> jsstring option \<Rightarrow> jsstring" where
  "resolveRequiredApiBaseUrl overrideBaseUrl configured origin =
     (let override = trim_opt overrideBaseUrl; normalizedConfigured = trim_opt configured in
      if override \<noteq> [] then normalizeApiBaseUrl override
      else if normalizedConfigured \<noteq> [] then normalizeApiBaseUrl normalizedConfigured
      else normalizeApiBaseUrl (inferDefaultApiBaseUrl origin))"

section \<open>Round trip\<close>

definition scalar :: "nat \<Rightarrow> bool" where
  "scalar n \<longleftrightarrow> n < 0xD800 \<or> 0xE000 \<le> n \<and> n < 0x110000"

lemma unat16_less: "unat (c :: 16 word) < 0x10000"
  using unsigned_less [of c] by simp

lemma scalars_scalar: "Some n \<in> set (scalars s) \<Longrightarrow> scalar n"
proof (induction s rule: scalars.induct)
  case (2 c)
  then show ?case using unat16_less [of c] by (auto simp: scalar_def split: if_splits)
next
  case (3 c d cs)
  have "scalar (surrogate_pair c d)"
    if "0xD800 \<le> unat c" "unat c < 0xDC00" "0xDC00 \<le> unat d" "unat d < 0xE000"
    using that by (simp add: scalar_def surrogate_pair_def)
  then show ?case using 3 unat16_less [of c] unat16_less [of d]
    by (auto simp: scalar_def split: if_splits)
qed simp

lemma scalars_the: "None \<notin> set (scalars s) \<Longrightarrow> v \<in> set (scalars s) \<Longrightarrow> scalar (the v)"
  by (metis option.exhaust_sel scalars_scalar)

lemma units_of_unit: "units_of_scalar (unat (c :: 16 word)) = [c]"
  using unat16_less [of c] by (simp add: units_of_scalar_def)

lemma units_of_pair:
  assumes "0xD800 \<le> unat (c :: 16 word)" and "unat c < 0xDC00" and "0xDC00 \<le> unat (d :: 16 word)" and "unat d < 0xE000"
  shows "units_of_scalar (surrogate_pair c d) = [c, d]"
proof -
  have low: "unat d - 0xDC00 < 0x400" using assms by linarith
  have "((unat c - 0xD800) * 0x400 + (unat d - 0xDC00)) div 0x400 = unat c - 0xD800"
    "((unat c - 0xD800) * 0x400 + (unat d - 0xDC00)) mod 0x400 = unat d - 0xDC00"
    using low by (simp_all add: div_mult_self3)
  then show ?thesis using assms by (simp add: units_of_scalar_def surrogate_pair_def add.assoc del: of_nat_add of_nat_diff)
qed

lemma units_of_scalars: "None \<notin> set (scalars s) \<Longrightarrow> concat (map (units_of_scalar \<circ> the) (scalars s)) = s"
proof (induction s rule: scalars.induct)
  case (3 c d cs)
  then show ?case by (auto simp: units_of_unit units_of_pair split: if_splits)
qed (auto simp: units_of_unit split: if_splits)

lemma utf8_bytes: "scalar n \<Longrightarrow> b \<in> set (utf8 n) \<Longrightarrow> b < 256"
proof -
  assume n: "scalar n" and b: "b \<in> set (utf8 n)"
  have "x mod 0x40 < 0x40" for x :: nat by simp
  moreover have "n < 0x800 \<Longrightarrow> n div 0x40 < 0x20" "n < 0x10000 \<Longrightarrow> n div 0x1000 < 0x10" "n div 0x40000 < 5"
    using n by (auto simp: scalar_def)
  ultimately show ?thesis using b n by (fastforce simp: utf8_def scalar_def split: if_splits)
qed

lemma utf8_decode_utf8:
  assumes "scalar n" shows "utf8_decode (utf8 n @ bs) = n # utf8_decode bs"
proof -
  have a: "n div 0x40 * 0x40 + n mod 0x40 = n" by simp
  have b: "n div 0x1000 * 0x40 + n div 0x40 mod 0x40 = n div 0x40"
    using div_mult_mod_eq [of "n div 0x40" "0x40"] by (simp add: div_mult2_eq [symmetric])
  have c: "n div 0x40000 * 0x40 + n div 0x1000 mod 0x40 = n div 0x1000"
    using div_mult_mod_eq [of "n div 0x1000" "0x40"] by (simp add: div_mult2_eq [symmetric])
  have three: "n div 0x1000 * 0x1000 + n div 0x40 mod 0x40 * 0x40 + n mod 0x40 = n"
    using a b by linarith
  have four: "n div 0x40000 * 0x40000 + n div 0x1000 mod 0x40 * 0x1000 + n div 0x40 mod 0x40 * 0x40 + n mod 0x40 = n"
    using three c by linarith
  consider "n < 0x80" | "0x80 \<le> n" "n < 0x800" | "0x800 \<le> n" "n < 0x10000" | "0x10000 \<le> n" "n < 0x110000"
    using assms unfolding scalar_def by linarith
  then show ?thesis
  proof cases
    case 2
    then have "n div 0x40 < 0x20" by simp
    then show ?thesis using 2 a by (simp add: utf8_def)
  next
    case 3
    then have "n div 0x1000 < 0x10" by simp
    then show ?thesis using 3 three by (simp add: utf8_def numeral_2_eq_2)
  next
    case 4
    then show ?thesis using four by (simp add: utf8_def numeral_2_eq_2 numeral_3_eq_3)
  qed (simp add: utf8_def)
qed

lemma safe_small: "component_safe n \<Longrightarrow> n < 128 \<and> n \<noteq> 37"
  by (auto simp: component_safe_def alphanumeric_def)

lemma hex_value_digit: "n < 16 \<Longrightarrow> hex_value (hex_digit n) = n"
  by (auto simp: hex_value_def hex_digit_def unat_of_nat)

lemma percent_bytes_percent: "b < 256 \<Longrightarrow> percent_bytes (percent b @ s) = b # percent_bytes s"
  by (simp add: percent_def hex_value_digit)

lemma percent_bytes_bytes:
  "\<forall>b \<in> set bs. b < 256 \<Longrightarrow> percent_bytes (concat (map percent bs) @ s) = bs @ percent_bytes s"
  by (induction bs) (simp_all add: percent_bytes_percent)

lemma percent_bytes_scalar: "scalar n \<Longrightarrow> percent_bytes (encode_scalar n @ s) = utf8 n @ percent_bytes s"
proof (cases "component_safe n")
  case True
  then have n: "n < 128" "n \<noteq> 37" using safe_small by auto
  then have "(of_nat n :: 16 word) \<noteq> 37" by (simp add: word_unat_eq_iff unat_of_nat)
  then show ?thesis using True n by (simp add: encode_scalar_def utf8_def unat_of_nat)
next
  case False
  assume "scalar n"
  then show ?thesis using False utf8_bytes by (simp add: encode_scalar_def percent_bytes_bytes)
qed

lemma percent_decode_scalars:
  "\<forall>n \<in> set ns. scalar n \<Longrightarrow> percent_decode (concat (map encode_scalar ns)) = concat (map units_of_scalar ns)"
  unfolding percent_decode_def
  by (induction ns) (simp_all add: percent_bytes_scalar utf8_decode_utf8)

lemma encode_decode: "encodeURIComponent s = Some e \<Longrightarrow> percent_decode e = s"
proof -
  assume e: "encodeURIComponent s = Some e"
  then have none: "None \<notin> set (scalars s)" by (simp add: encodeURIComponent_def split: if_splits)
  then have "percent_decode (concat (map encode_scalar (map the (scalars s)))) = concat (map units_of_scalar (map the (scalars s)))"
    by (intro percent_decode_scalars) (auto dest: scalars_the)
  then show ?thesis using e none units_of_scalars [OF none] by (auto simp: encodeURIComponent_def)
qed

lemma encode_inj: "encodeURIComponent s = Some e \<Longrightarrow> encodeURIComponent s' = Some e \<Longrightarrow> s = s'"
  by (metis encode_decode)

section \<open>Encoded text holds no separator\<close>

definition url_plain :: "jsstring \<Rightarrow> bool" where
  "url_plain s \<longleftrightarrow> (\<forall>c \<in> set s. component_safe (unat c) \<or> c = 37)"

lemma hex_digit_plain: "n < 16 \<Longrightarrow> component_safe (unat (hex_digit n))"
  by (auto simp: hex_digit_def unat_of_nat component_safe_def alphanumeric_def)

lemma percent_plain: "b < 256 \<Longrightarrow> url_plain (percent b)"
  by (simp add: url_plain_def percent_def hex_digit_plain)

lemma url_plain_append [simp]: "url_plain (s @ t) \<longleftrightarrow> url_plain s \<and> url_plain t"
  by (auto simp: url_plain_def)

lemma url_plain_concat: "\<forall>s \<in> set ss. url_plain s \<Longrightarrow> url_plain (concat ss)"
  by (auto simp: url_plain_def)

lemma encode_scalar_plain: "scalar n \<Longrightarrow> url_plain (encode_scalar n)"
proof (cases "component_safe n")
  case True
  then show ?thesis using safe_small [OF True] by (simp add: encode_scalar_def url_plain_def unat_of_nat)
next
  case False
  assume "scalar n"
  then show ?thesis using False utf8_bytes percent_plain
    by (auto simp: encode_scalar_def intro!: url_plain_concat)
qed

lemma encode_plain: "encodeURIComponent s = Some e \<Longrightarrow> url_plain e"
proof -
  assume e: "encodeURIComponent s = Some e"
  have "url_plain (encode_scalar (the v))" if "v \<in> set (scalars s)" for v
    using that e by (auto simp: encodeURIComponent_def split: if_splits intro: encode_scalar_plain scalars_the)
  then show ?thesis using e by (auto simp: encodeURIComponent_def split: if_splits intro!: url_plain_concat)
qed

lemma url_plain_no_separator: "url_plain e \<Longrightarrow> 47 \<notin> set e \<and> 63 \<notin> set e \<and> 35 \<notin> set e \<and> 38 \<notin> set e"
  by (auto simp: url_plain_def component_safe_def alphanumeric_def)

lemma encode_empty: "encodeURIComponent s = Some e \<Longrightarrow> e = [] \<longleftrightarrow> s = []"
proof
  assume "encodeURIComponent s = Some e" and "e = []"
  then show "s = []" using encode_decode [of s e] by (simp add: percent_decode_def)
next
  assume "encodeURIComponent s = Some e" and "s = []"
  then show "e = []" by (simp add: encodeURIComponent_def)
qed

lemma scalars_ascii: "\<forall>c \<in> set s. unat c < 128 \<Longrightarrow> scalars s = map (Some \<circ> unat) s"
  by (induction s rule: scalars.induct) simp_all

lemma encode_ascii: "\<forall>c \<in> set s. component_safe (unat c) \<Longrightarrow> encodeURIComponent s = Some s"
proof -
  assume s: "\<forall>c \<in> set s. component_safe (unat c)"
  then have "scalars s = map (Some \<circ> unat) s" by (intro scalars_ascii) (auto dest: safe_small)
  moreover have "concat (map (encode_scalar \<circ> unat) s) = s"
    using s by (induction s) (simp_all add: encode_scalar_def)
  ultimately show ?thesis by (auto simp: encodeURIComponent_def comp_def)
qed

text \<open>Segments joined into a path, and split again.\<close>

definition path_of :: "jsstring list \<Rightarrow> jsstring" where
  "path_of segs = concat (map (\<lambda>s. 47 # s) segs)"

lemma js_slash: "js ''/'' = [47]"
  by (simp add: js_def)

lemma split_segment: "47 \<notin> set s \<Longrightarrow> js_split_go [47] (s @ 47 # t) acc = (rev acc @ s) # js_split_go [47] t []"
  by (induction s arbitrary: acc) auto

lemma split_last: "47 \<notin> set s \<Longrightarrow> js_split_go [47] s acc = [rev acc @ s]"
  by (induction s arbitrary: acc) auto

lemma split_path: "\<forall>s \<in> set segs. 47 \<notin> set s \<Longrightarrow> 47 \<notin> set t \<Longrightarrow> js_split (js ''/'') (t @ path_of segs) = t # segs"
proof (induction segs arbitrary: t)
  case Nil
  then show ?case by (simp add: js_split_def js_slash path_of_def split_last)
next
  case (Cons s segs)
  then have "js_split (js ''/'') (s @ path_of segs) = s # segs" by simp
  then show ?case using Cons by (simp add: js_split_def js_slash path_of_def split_segment)
qed

definition enc :: "jsstring \<Rightarrow> jsstring" where
  "enc s = the (encodeURIComponent s)"

lemma encode_enc: "encodeURIComponent s = Some e \<Longrightarrow> enc s = e"
  by (simp add: enc_def)

lemma path_of_encoded_inj:
  assumes "\<forall>s \<in> set ss. encodeURIComponent s = Some (enc s)" and "\<forall>s \<in> set ts. encodeURIComponent s = Some (enc s)"
    and "path_of (map enc ss) = path_of (map enc ts)"
  shows "ss = ts"
proof -
  have split: "js_split (js ''/'') ([] @ path_of (map enc xs)) = [] # map enc xs"
    if "\<forall>s \<in> set xs. encodeURIComponent s = Some (enc s)" for xs
    using that encode_plain url_plain_no_separator by (intro split_path) auto
  have dec: "map percent_decode (map enc xs) = xs" if "\<forall>s \<in> set xs. encodeURIComponent s = Some (enc s)" for xs
    using that encode_decode by (auto simp: comp_def intro!: map_idI)
  have "map enc ss = map enc ts" using split [OF assms(1)] split [OF assms(2)] assms(3) by simp
  then show ?thesis using dec [OF assms(1)] dec [OF assms(2)] by metis
qed

lemma base_url_no_slash: "s = resolveRequiredApiBaseUrl overrideBaseUrl configured origin \<Longrightarrow> s \<noteq> [] \<Longrightarrow> last s \<noteq> 47"
proof -
  have "strip_slashes t \<noteq> [] \<Longrightarrow> last (strip_slashes t) \<noteq> 47" for t
    using hd_dropWhile [of "\<lambda>c. c = 47" "rev t"] by (simp add: strip_slashes_def last_rev)
  then show "s = resolveRequiredApiBaseUrl overrideBaseUrl configured origin \<Longrightarrow> s \<noteq> [] \<Longrightarrow> last s \<noteq> 47"
    by (auto simp: resolveRequiredApiBaseUrl_def normalizeApiBaseUrl_def Let_def)
qed

end
