(* ===== verification/ApiClient.thy ===== *)
theory ApiClient imports UrlEncoding TaskFlowContract begin

text \<open>
  \<open>api/client.ts\<close>: the client of the board, task, flow and session endpoints. A call is a value of
  \<open>api_call\<close>: it either ends before any request (\<open>Done\<close>) or sends one request and reads its answer
  (\<open>Fetch\<close>), so that which request a call sends, and that it sends none, are facts about it. A throw
  is a left value, with the class of the error. The host is a record of parameters: the base address,
  \<open>String\<close> and \<open>Number\<close> on numbers and strings, \<open>toLowerCase\<close>, and \<open>set_param path name value\<close>, the path
  and query of \<open>new URL(path, ...)\<close> after \<open>searchParams.set(name, value)\<close>.
\<close>

section \<open>Requests, answers and calls\<close>

record api_host =
  base_url :: jsstring
  set_param :: "jsstring \<Rightarrow> jsstring \<Rightarrow> jsstring \<Rightarrow> jsstring"
  str_num :: "jsnum \<Rightarrow> jsstring"
  lower_case :: "jsstring \<Rightarrow> jsstring"
  parse_num :: "jsstring \<Rightarrow> jsnum"

record http_request =
  rq_method :: jsstring
  rq_url :: jsstring
  rq_json_type :: bool
  rq_body :: "json option"

text \<open>\<open>rs_json\<close> is None where \<open>response.json()\<close> rejects.\<close>

record http_response =
  rs_status :: nat
  rs_status_text :: jsstring
  rs_json :: "json option"

datatype api_failure =
    ApiError nat jsstring "json option"
  | PlainError jsstring
  | UriError
  | NetworkFailure
  | InvalidBody
  | TypeFailure

datatype 'a api_call =
    Done "api_failure + 'a"
  | Fetch http_request "http_response option \<Rightarrow> api_failure + 'a"

fun sum_bind :: "'e + 'a \<Rightarrow> ('a \<Rightarrow> 'e + 'b) \<Rightarrow> 'e + 'b" where
  "sum_bind (Inl e) f = Inl e"
| "sum_bind (Inr v) f = f v"

text \<open>A value computed before the request, and what is made of the answer.\<close>

fun given :: "api_failure + 'a \<Rightarrow> ('a \<Rightarrow> 'b api_call) \<Rightarrow> 'b api_call" where
  "given (Inl e) f = Done (Inl e)"
| "given (Inr v) f = f v"

fun answer :: "'a api_call \<Rightarrow> ('a \<Rightarrow> api_failure + 'b) \<Rightarrow> 'b api_call" where
  "answer (Done r) f = Done (sum_bind r f)"
| "answer (Fetch q k) f = Fetch q (\<lambda>response. sum_bind (k response) f)"

fun run_call :: "(http_request \<Rightarrow> http_response option) \<Rightarrow> 'a api_call \<Rightarrow> api_failure + 'a" where
  "run_call server (Done r) = r"
| "run_call server (Fetch q k) = k (server q)"

fun requests :: "'a api_call \<Rightarrow> http_request list" where
  "requests (Done r) = []"
| "requests (Fetch q k) = [q]"

section \<open>Addresses\<close>

definition DEFAULT_OBSERVER_DATA_SOURCE :: jsstring where
  "DEFAULT_OBSERVER_DATA_SOURCE = js ''openclaw''"

text \<open>Options that are not given are \<open>no_options\<close>: both are read with \<open>?.\<close>.\<close>

record request_options =
  ro_instance_id :: "jsstring option"
  ro_disable_instance_context :: bool

definition no_options :: request_options where
  "no_options = \<lparr>ro_instance_id = None, ro_disable_instance_context = False\<rparr>"

definition resolveBoardId :: "jsstring \<Rightarrow> api_failure + jsstring" where
  "resolveBoardId boardId =
     (let normalized = trim boardId in
      if normalized = [] then Inl (PlainError (js ''boardId is required'')) else Inr normalized)"

definition withDefaultDataSource :: "jsstring \<Rightarrow> jsstring" where
  "withDefaultDataSource path =
     (let separator = (if 63 \<in> set path then js ''&'' else js ''?'') in
      path @ separator @ js ''data_source='' @ DEFAULT_OBSERVER_DATA_SOURCE)"

definition withInstanceContext :: "api_host \<Rightarrow> jsstring \<Rightarrow> request_options \<Rightarrow> jsstring" where
  "withInstanceContext h path options =
     (if ro_disable_instance_context options then path
      else let instanceId = trim_opt (ro_instance_id options) in
           if instanceId = [] then path else set_param h path (js ''instanceId'') instanceId)"

definition withBusinessContext :: "api_host \<Rightarrow> jsstring \<Rightarrow> request_options \<Rightarrow> jsstring" where
  "withBusinessContext h path options = withInstanceContext h (withDefaultDataSource path) options"

definition buildApiUrlWithContext :: "api_host \<Rightarrow> jsstring \<Rightarrow> request_options \<Rightarrow> jsstring" where
  "buildApiUrlWithContext h path options = base_url h @ withBusinessContext h path options"

definition encoded :: "jsstring \<Rightarrow> api_failure + jsstring" where
  "encoded s = (case encodeURIComponent s of None \<Rightarrow> Inl UriError | Some e \<Rightarrow> Inr e)"

definition encodedBoard :: "jsstring \<Rightarrow> api_failure + jsstring" where
  "encodedBoard boardId = sum_bind (resolveBoardId boardId) encoded"

section \<open>Reading an answer\<close>

definition decodeRequired_client :: "'a option \<Rightarrow> string \<Rightarrow> api_failure + 'a" where
  "decodeRequired_client value message = (case value of Some v \<Rightarrow> Inr v | None \<Rightarrow> Inl (PlainError (js message)))"

fun decode_items :: "(json \<Rightarrow> 'a option) \<Rightarrow> string \<Rightarrow> json list \<Rightarrow> api_failure + 'a list" where
  "decode_items decoder message [] = Inr []"
| "decode_items decoder message (x # xs) =
     sum_bind (decodeRequired_client (decoder x) message)
       (\<lambda>v. sum_bind (decode_items decoder message xs) (\<lambda>vs. Inr (v # vs)))"

fun decodeArray_client :: "json \<Rightarrow> (json \<Rightarrow> 'a option) \<Rightarrow> string \<Rightarrow> api_failure + 'a list" where
  "decodeArray_client (JArr xs) decoder message = decode_items decoder message xs"
| "decodeArray_client _ decoder message = Inl (PlainError (js message))"

text \<open>The members of a payload: none unless it is an object.\<close>

definition members :: "json \<Rightarrow> (jsstring \<times> json) list" where
  "members payload = (case asRecord payload of None \<Rightarrow> [] | Some fs \<Rightarrow> fs)"

definition isErrorEnvelopePayload :: "json \<Rightarrow> bool" where
  "isErrorEnvelopePayload payload =
     (case asRecord payload of None \<Rightarrow> False
      | Some record \<Rightarrow>
          let error = field record ''error'' in
          truthy error \<and> as_string (field (members error) ''code'') \<noteq> None \<and>
          as_string (field (members error) ''message'') \<noteq> None \<and>
          as_string (field (members error) ''request_id'') \<noteq> None \<and>
          as_bool (field (members error) ''recoverable'') \<noteq> None)"

definition text_of :: "json \<Rightarrow> jsstring option" where
  "text_of v = trim_or_null (as_string v)"

definition resolveApiErrorMessage :: "json \<Rightarrow> jsstring option" where
  "resolveApiErrorMessage payload =
     (case asRecord payload of None \<Rightarrow> None
      | Some record \<Rightarrow>
          if text_of (field record ''detail'') \<noteq> None then text_of (field record ''detail'')
          else text_of (field record ''message''))"

definition status_message :: "http_response \<Rightarrow> jsstring" where
  "status_message response = js ''API error: '' @ js_digits (rs_status response) @ js '' '' @ rs_status_text response"

definition buildApiError :: "http_response \<Rightarrow> api_failure" where
  "buildApiError response =
     (let payload = nullish (rs_json response) JNull in
      if isErrorEnvelopePayload payload
      then let error = field (members payload) ''error'' in
           ApiError (rs_status response) (the (as_string (field (members error) ''message''))) (Some error)
      else case resolveApiErrorMessage payload of
             Some message \<Rightarrow> ApiError (rs_status response) message None
           | None \<Rightarrow> ApiError (rs_status response) (status_message response) None)"

text \<open>\<open>response.ok\<close>, then \<open>response.json()\<close>; \<open>f\<close> is the error thrown otherwise.\<close>

definition response_ok :: "http_response \<Rightarrow> bool" where
  "response_ok response \<longleftrightarrow> 200 \<le> rs_status response \<and> rs_status response \<le> 299"

definition receive :: "(http_response \<Rightarrow> api_failure) \<Rightarrow> http_response option \<Rightarrow> api_failure + json" where
  "receive f response =
     (case response of None \<Rightarrow> Inl NetworkFailure
      | Some r \<Rightarrow> if \<not> response_ok r then Inl (f r)
                 else case rs_json r of None \<Rightarrow> Inl InvalidBody | Some v \<Rightarrow> Inr v)"

record request_init =
  in_method :: jsstring
  in_body :: "json option"

definition http_get :: request_init where "http_get = \<lparr>in_method = js ''GET'', in_body = None\<rparr>"
definition http_post :: request_init where "http_post = \<lparr>in_method = js ''POST'', in_body = None\<rparr>"
definition http_delete :: request_init where "http_delete = \<lparr>in_method = js ''DELETE'', in_body = None\<rparr>"
definition http_post_json :: "json \<Rightarrow> request_init" where
  "http_post_json body = \<lparr>in_method = js ''POST'', in_body = Some body\<rparr>"

text \<open>The JSON content type goes with a body.\<close>

definition request_of :: "jsstring \<Rightarrow> request_init \<Rightarrow> http_request" where
  "request_of url init = \<lparr>rq_method = in_method init, rq_url = url, rq_json_type = (in_body init \<noteq> None), rq_body = in_body init\<rparr>"

definition fetchApi :: "api_host \<Rightarrow> jsstring \<Rightarrow> request_init \<Rightarrow> request_options \<Rightarrow> json api_call" where
  "fetchApi h path init options =
     Fetch (request_of (buildApiUrlWithContext h path options) init) (receive buildApiError)"

section \<open>Agents and summaries\<close>

definition listAgents :: "api_host \<Rightarrow> request_options \<Rightarrow> json api_call" where
  "listAgents h options = fetchApi h (js ''/api/v1/agents'') http_get options"

definition getAggregateOverview :: "api_host \<Rightarrow> request_options \<Rightarrow> json api_call" where
  "getAggregateOverview h options = fetchApi h (js ''/api/v1/summary/overview'') http_get options"

definition getAggregateTopology :: "api_host \<Rightarrow> request_options \<Rightarrow> json api_call" where
  "getAggregateTopology h options = fetchApi h (js ''/api/v1/summary/topology'') http_get options"

definition getAgentDetail :: "api_host \<Rightarrow> jsstring \<Rightarrow> request_options \<Rightarrow> json api_call" where
  "getAgentDetail h agentId options = fetchApi h (js ''/api/v1/agents/'' @ agentId) http_get options"

section \<open>Tasks of a board\<close>

text \<open>The template \<open>/api/v1/boards/${board}/tasks\<close> and what follows it.\<close>

definition tasks_path :: "jsstring \<Rightarrow> jsstring \<Rightarrow> jsstring" where
  "tasks_path board rest = js ''/api/v1/boards/'' @ board @ js ''/tasks'' @ rest"

definition listKanbanTasks :: "api_host \<Rightarrow> request_options \<Rightarrow> jsstring \<Rightarrow> task list api_call" where
  "listKanbanTasks h options boardId =
     given (encodedBoard boardId) (\<lambda>encodedBoardId.
       answer (fetchApi h (tasks_path encodedBoardId []) http_get options) (\<lambda>payload.
         decodeArray_client payload (decodeTaskValue (str_num h) (lower_case h)) ''Invalid kanban task list response''))"

definition createKanbanTask :: "api_host \<Rightarrow> task_create_request \<Rightarrow> request_options \<Rightarrow> jsstring \<Rightarrow> task api_call" where
  "createKanbanTask h payload options boardId =
     given (encodedBoard boardId) (\<lambda>encodedBoardId.
       answer (fetchApi h (tasks_path encodedBoardId []) (http_post_json (encodeKanbanTaskCreateRequest payload)) options)
         (\<lambda>response. decodeRequired_client (decodeTaskValue (str_num h) (lower_case h) response)
                       ''Invalid kanban task create response''))"

definition deleteKanbanTask :: "api_host \<Rightarrow> jsstring \<Rightarrow> request_options \<Rightarrow> jsstring \<Rightarrow> task_delete_response api_call" where
  "deleteKanbanTask h taskId options boardId =
     given (encodedBoard boardId) (\<lambda>encodedBoardId. given (encoded taskId) (\<lambda>encodedTaskId.
       answer (fetchApi h (tasks_path encodedBoardId (js ''/'' @ encodedTaskId)) http_delete options)
         (\<lambda>payload. decodeRequired_client (decodeTaskDeleteResponse payload) ''Invalid task delete response'')))"

definition deleteKanbanRequirementTasks ::
  "api_host \<Rightarrow> jsstring \<Rightarrow> request_options \<Rightarrow> jsstring \<Rightarrow> task_delete_response api_call" where
  "deleteKanbanRequirementTasks h requirementId options boardId =
     given (encodedBoard boardId) (\<lambda>encodedBoardId. given (encoded requirementId) (\<lambda>encodedRequirementId.
       answer (fetchApi h (tasks_path encodedBoardId (js ''/requirements/'' @ encodedRequirementId)) http_delete options)
         (\<lambda>payload. decodeRequired_client (decodeTaskDeleteResponse payload) ''Invalid requirement delete response'')))"

definition interruptKanbanTask :: "api_host \<Rightarrow> jsstring \<Rightarrow> request_options \<Rightarrow> jsstring \<Rightarrow> task_interrupt_response api_call" where
  "interruptKanbanTask h taskId options boardId =
     given (encodedBoard boardId) (\<lambda>encodedBoardId. given (encoded taskId) (\<lambda>encodedTaskId.
       answer (fetchApi h (tasks_path encodedBoardId (js ''/'' @ encodedTaskId @ js ''/interrupt'')) http_post options)
         (\<lambda>payload. decodeRequired_client (decodeTaskInterruptResponse payload) ''Invalid task interrupt response'')))"

definition continueKanbanTask :: "api_host \<Rightarrow> jsstring \<Rightarrow> request_options \<Rightarrow> jsstring \<Rightarrow> task_continue_response api_call" where
  "continueKanbanTask h taskId options boardId =
     given (encodedBoard boardId) (\<lambda>encodedBoardId. given (encoded taskId) (\<lambda>encodedTaskId.
       answer (fetchApi h (tasks_path encodedBoardId (js ''/'' @ encodedTaskId @ js ''/continue'')) http_post options)
         (\<lambda>payload. decodeRequired_client (decodeTaskContinueResponse payload) ''Invalid task continue response'')))"

text \<open>\<open>params.toString() ? `?${params.toString()}` : ''\<close>\<close>

definition query_suffix :: "search_params \<Rightarrow> jsstring" where
  "query_suffix params = (if params_string params = [] then [] else js ''?'' @ params_string params)"

text \<open>\<open>if (v?.trim()) params.set(k, v.trim())\<close>\<close>

definition set_trimmed :: "string \<Rightarrow> jsstring option \<Rightarrow> search_params \<Rightarrow> search_params" where
  "set_trimmed k v params = (case trim_or_null v of None \<Rightarrow> params | Some s \<Rightarrow> params_set (js k) s params)"

definition previewKanbanTaskOutput ::
  "api_host \<Rightarrow> jsstring \<Rightarrow> jsstring option \<Rightarrow> request_options \<Rightarrow> jsstring \<Rightarrow> output_preview_response api_call" where
  "previewKanbanTaskOutput h taskId path options boardId =
     given (encodedBoard boardId) (\<lambda>encodedBoardId. given (encoded taskId) (\<lambda>encodedTaskId.
       let suffix = query_suffix (set_trimmed ''path'' path []) in
       answer (fetchApi h (tasks_path encodedBoardId (js ''/'' @ encodedTaskId @ js ''/output-preview'' @ suffix)) http_get options)
         (\<lambda>payload. decodeRequired_client (decodeTaskOutputPreviewResponse payload) ''Invalid task output preview response'')))"

definition buildKanbanTaskOutputFileUrl ::
  "api_host \<Rightarrow> jsstring \<Rightarrow> jsstring \<Rightarrow> bool \<Rightarrow> request_options \<Rightarrow> jsstring \<Rightarrow> api_failure + jsstring" where
  "buildKanbanTaskOutputFileUrl h taskId path download options boardId =
     sum_bind (encodedBoard boardId) (\<lambda>encodedBoardId. sum_bind (encoded taskId) (\<lambda>encodedTaskId.
       let params = params_set (js ''path'') path [];
           params = (if download then params_set (js ''download'') (js ''true'') params else params);
           endpoint = tasks_path encodedBoardId (js ''/'' @ encodedTaskId @ js ''/output-file?'' @ params_string params) in
       Inr (buildApiUrlWithContext h endpoint options)))"

definition buildKanbanTaskOutputDownloadUrl ::
  "api_host \<Rightarrow> jsstring \<Rightarrow> jsstring \<Rightarrow> request_options \<Rightarrow> jsstring \<Rightarrow> api_failure + jsstring" where
  "buildKanbanTaskOutputDownloadUrl h taskId path options boardId =
     buildKanbanTaskOutputFileUrl h taskId path True options boardId"

section \<open>Flows of a board\<close>

definition listFlowDraftRecords :: "api_host \<Rightarrow> request_options \<Rightarrow> jsstring \<Rightarrow> draft_record list api_call" where
  "listFlowDraftRecords h options boardId =
     given (encodedBoard boardId) (\<lambda>encodedBoardId.
       answer (fetchApi h (tasks_path encodedBoardId (js ''/flow/drafts'')) http_get options) (\<lambda>payload.
         decodeArray_client payload (decodeFlowDraftItem (str_num h)) ''Invalid flow draft list response''))"

definition upsertFlowDraftRecord :: "api_host \<Rightarrow> draft_upsert_request \<Rightarrow> request_options \<Rightarrow> jsstring \<Rightarrow> draft_record api_call" where
  "upsertFlowDraftRecord h payload options boardId =
     given (encodedBoard boardId) (\<lambda>encodedBoardId.
       answer (fetchApi h (tasks_path encodedBoardId (js ''/flow/drafts'')) (http_post_json (encodeFlowDraftUpsertRequest payload)) options)
         (\<lambda>response. decodeRequired_client (decodeFlowDraftItem (str_num h) response) ''Invalid flow draft upsert response''))"

definition deleteFlowDraftRecord :: "api_host \<Rightarrow> jsstring \<Rightarrow> request_options \<Rightarrow> jsstring \<Rightarrow> draft_delete_response api_call" where
  "deleteFlowDraftRecord h flowId options boardId =
     given (encodedBoard boardId) (\<lambda>encodedBoardId. given (encoded flowId) (\<lambda>encodedFlowId.
       answer (fetchApi h (tasks_path encodedBoardId (js ''/flow/drafts/'' @ encodedFlowId)) http_delete options)
         (\<lambda>payload. decodeRequired_client (decodeFlowDraftDeleteResponse payload) ''Invalid flow draft delete response'')))"

definition generateFlowFromRequirement ::
  "api_host \<Rightarrow> generate_request \<Rightarrow> request_options \<Rightarrow> jsstring \<Rightarrow> generate_response api_call" where
  "generateFlowFromRequirement h payload options boardId =
     given (encodedBoard boardId) (\<lambda>encodedBoardId.
       answer (fetchApi h (tasks_path encodedBoardId (js ''/flow/generate'')) (http_post_json (encodeFlowGenerateRequest payload)) options)
         (\<lambda>response. decodeRequired_client (decodeFlowGenerateResponse response) ''Invalid flow generate response''))"

definition confirmFlowToKanban ::
  "api_host \<Rightarrow> confirm_request \<Rightarrow> request_options \<Rightarrow> jsstring \<Rightarrow> confirm_response api_call" where
  "confirmFlowToKanban h payload options boardId =
     given (encodedBoard boardId) (\<lambda>encodedBoardId.
       answer (fetchApi h (tasks_path encodedBoardId (js ''/flow/confirm'')) (http_post_json (encodeFlowConfirmRequest payload)) options)
         (\<lambda>response. decodeRequired_client (decodeFlowConfirmResponse response) ''Invalid flow confirm response''))"

definition stopFlowPlannerSession ::
  "api_host \<Rightarrow> jsstring \<Rightarrow> request_options \<Rightarrow> jsstring \<Rightarrow> planner_stop_response api_call" where
  "stopFlowPlannerSession h sessionKey options boardId =
     given (encodedBoard boardId) (\<lambda>encodedBoardId.
       answer (fetchApi h (tasks_path encodedBoardId (js ''/flow/planner-stop'')) (http_post_json (encodeFlowPlannerStopRequest sessionKey)) options)
         (\<lambda>response. decodeRequired_client (decodeFlowPlannerStopResponse response) ''Invalid flow planner stop response''))"

text \<open>The answer of the probe is used as it is; a blank key is answered without a request.\<close>

definition probeFlowPlannerSession :: "api_host \<Rightarrow> jsstring \<Rightarrow> request_options \<Rightarrow> jsstring \<Rightarrow> json api_call" where
  "probeFlowPlannerSession h sessionKey options boardId =
     (let normalizedSessionKey = trim sessionKey in
      if normalizedSessionKey = [] then Done (Inr (obj [(''exists'', JBool False)]))
      else given (encodedBoard boardId) (\<lambda>encodedBoardId. given (encoded normalizedSessionKey) (\<lambda>encodedSessionKey.
        fetchApi h (tasks_path encodedBoardId (js ''/flow/planner-sessions/'' @ encodedSessionKey @ js ''/exists'')) http_get options)))"

text \<open>The endpoints \<open>/tasks/requirements/${requirement}/${action}\<close>.\<close>

definition requirement_path :: "jsstring \<Rightarrow> jsstring \<Rightarrow> string \<Rightarrow> jsstring" where
  "requirement_path board requirement action = tasks_path board (js ''/requirements/'' @ requirement @ js action)"

definition renameFlowRequirement ::
  "api_host \<Rightarrow> jsstring \<Rightarrow> jsstring \<Rightarrow> request_options \<Rightarrow> jsstring \<Rightarrow> requirement_rename_response api_call" where
  "renameFlowRequirement h requirementId name options boardId =
     given (encodedBoard boardId) (\<lambda>encodedBoardId. given (encoded requirementId) (\<lambda>encodedRequirementId.
       answer (fetchApi h (requirement_path encodedBoardId encodedRequirementId ''/rename'')
                 (http_post_json (obj [(''name'', JStr name)])) options)
         (\<lambda>response. decodeRequired_client (decodeFlowRequirementRenameResponse response) ''Invalid flow requirement rename response'')))"

definition stopFlowRequirement ::
  "api_host \<Rightarrow> jsstring \<Rightarrow> request_options \<Rightarrow> jsstring \<Rightarrow> requirement_stop_response api_call" where
  "stopFlowRequirement h requirementId options boardId =
     given (encodedBoard boardId) (\<lambda>encodedBoardId. given (encoded requirementId) (\<lambda>encodedRequirementId.
       answer (fetchApi h (requirement_path encodedBoardId encodedRequirementId ''/stop'') http_post options)
         (\<lambda>response. decodeRequired_client (decodeFlowRequirementStopResponse response) ''Invalid flow requirement stop response'')))"

definition continueFlowRequirement ::
  "api_host \<Rightarrow> jsstring \<Rightarrow> request_options \<Rightarrow> jsstring \<Rightarrow> requirement_continue_response api_call" where
  "continueFlowRequirement h requirementId options boardId =
     given (encodedBoard boardId) (\<lambda>encodedBoardId. given (encoded requirementId) (\<lambda>encodedRequirementId.
       answer (fetchApi h (requirement_path encodedBoardId encodedRequirementId ''/continue'') http_post options)
         (\<lambda>response. decodeRequired_client (decodeFlowRequirementContinueResponse response) ''Invalid flow requirement continue response'')))"

definition syncFlowRequirement ::
  "api_host \<Rightarrow> jsstring \<Rightarrow> jsstring option \<Rightarrow> flow_node list \<Rightarrow> flow_edge list \<Rightarrow> request_options \<Rightarrow> jsstring
     \<Rightarrow> requirement_sync_response api_call" where
  "syncFlowRequirement h requirementId requirementTitle nodes edges options boardId =
     given (encodedBoard boardId) (\<lambda>encodedBoardId. given (encoded requirementId) (\<lambda>encodedRequirementId.
       answer (fetchApi h (requirement_path encodedBoardId encodedRequirementId ''/sync'')
                 (http_post_json (encodeFlowRequirementSyncRequest requirementTitle nodes edges)) options)
         (\<lambda>response. decodeRequired_client (decodeFlowRequirementSyncResponse response) ''Invalid flow requirement sync response'')))"

section \<open>Chat sessions\<close>

text \<open>\<open>a ?? b\<close>, \<open>String(v)\<close> and \<open>Number(v)\<close> on JSON values.\<close>

definition coalesce :: "json \<Rightarrow> json \<Rightarrow> json" where
  "coalesce a b = (if a = JUndef \<or> a = JNull then b else a)"

fun js_string :: "(jsnum \<Rightarrow> jsstring) \<Rightarrow> json \<Rightarrow> jsstring" where
  "js_string num JUndef = js ''undefined''"
| "js_string num JNull = js ''null''"
| "js_string num (JBool b) = js (if b then ''true'' else ''false'')"
| "js_string num (JNum x) = num x"
| "js_string num (JStr s) = s"
| "js_string num (JArr xs) =
     js_join (js '','') (map (\<lambda>x. if x = JUndef \<or> x = JNull then [] else js_string num x) xs)"
| "js_string num (JObj fs) = js ''[object Object]''"

definition js_number :: "api_host \<Rightarrow> json \<Rightarrow> jsnum" where
  "js_number h v =
     (case v of JUndef \<Rightarrow> NaN | JNull \<Rightarrow> jint 0 | JBool b \<Rightarrow> jint (if b then 1 else 0) | JNum x \<Rightarrow> x
      | _ \<Rightarrow> parse_num h (js_string (str_num h) v))"

text \<open>\<open>String(record.a ?? record.b ?? '')\<close>\<close>

definition string_member :: "api_host \<Rightarrow> (jsstring \<times> json) list \<Rightarrow> string \<Rightarrow> string \<Rightarrow> jsstring" where
  "string_member h record a b = js_string (str_num h) (coalesce (coalesce (field record a) (field record b)) (JStr []))"

text \<open>\<open>typeof a === t ? a : (typeof b === t ? b : null)\<close>\<close>

definition first_of :: "(json \<Rightarrow> 'a option) \<Rightarrow> (jsstring \<times> json) list \<Rightarrow> string \<Rightarrow> string \<Rightarrow> 'a option" where
  "first_of read record a b = nullish_opt (read (field record a)) (read (field record b))"

record chat_send_response =
  cs_request_id :: jsstring
  cs_agent_id :: jsstring
  cs_status :: jsstring
  cs_message :: "jsstring option"

datatype session_kind = DirectSession | GroupSession | GlobalSession | UnknownSession

record session_item =
  sn_key :: jsstring
  sn_kind :: session_kind
  sn_label :: "jsstring option"
  sn_derived_title :: "jsstring option"
  sn_last_message_preview :: "jsstring option"
  sn_updated_at :: "jsnum option"

record sessions_list =
  sl_ts :: jsnum
  sl_count :: jsnum
  sl_sessions :: "session_item list"
  sl_defaults :: "json option"

record sessions_preview =
  sv_ts :: jsnum
  sv_previews :: "json list"

definition normalizeChatSendResponse :: "api_host \<Rightarrow> json \<Rightarrow> chat_send_response" where
  "normalizeChatSendResponse h payload =
     (let record = members payload in
      \<lparr>cs_request_id = string_member h record ''request_id'' ''requestId'',
       cs_agent_id = string_member h record ''agent_id'' ''agentId'',
       cs_status = string_member h record ''status'' ''status'',
       cs_message = as_string (field record ''message'')\<rparr>)"

definition session_kind_of :: "jsstring \<Rightarrow> session_kind" where
  "session_kind_of rawKind =
     (if rawKind = js ''direct'' then DirectSession else if rawKind = js ''group'' then GroupSession
      else if rawKind = js ''global'' then GlobalSession else UnknownSession)"

definition normalizeSessionListItem :: "api_host \<Rightarrow> json \<Rightarrow> session_item" where
  "normalizeSessionListItem h payload =
     (let record = members payload in
      \<lparr>sn_key = string_member h record ''key'' ''key'',
       sn_kind = session_kind_of (to_lower (trim (string_member h record ''kind'' ''kind''))),
       sn_label = as_string (field record ''label''),
       sn_derived_title = first_of as_string record ''derived_title'' ''derivedTitle'',
       sn_last_message_preview = first_of as_string record ''last_message_preview'' ''lastMessagePreview'',
       sn_updated_at = first_of as_number record ''updated_at'' ''updatedAt''\<rparr>)"

definition normalizeSessionsListResponse :: "api_host \<Rightarrow> json \<Rightarrow> sessions_list" where
  "normalizeSessionsListResponse h payload =
     (let record = members payload; sessionsRaw = as_array (field record ''sessions'') in
      \<lparr>sl_ts = js_number h (coalesce (field record ''ts'') (JNum (jint 0))),
       sl_count = js_number h (coalesce (field record ''count'') (JNum (jint (int (length sessionsRaw))))),
       sl_sessions = map (normalizeSessionListItem h) sessionsRaw,
       sl_defaults = (if asRecord (field record ''defaults'') = None then None else Some (field record ''defaults''))\<rparr>)"

definition normalizeSessionsPreviewResponse :: "api_host \<Rightarrow> json \<Rightarrow> sessions_preview" where
  "normalizeSessionsPreviewResponse h payload =
     (let record = members payload in
      \<lparr>sv_ts = js_number h (coalesce (field record ''ts'') (JNum (jint 0))),
       sv_previews = as_array (field record ''previews'')\<rparr>)"

text \<open>The session endpoints call \<open>fetch\<close> themselves; the first argument is the error they throw.\<close>

definition fetchSession ::
  "(http_response \<Rightarrow> api_failure) \<Rightarrow> api_host \<Rightarrow> jsstring \<Rightarrow> request_init \<Rightarrow> request_options \<Rightarrow> json api_call" where
  "fetchSession f h path init options =
     Fetch (request_of (base_url h @ withBusinessContext h path options) init) (receive f)"

definition plain_error :: "http_response \<Rightarrow> api_failure" where
  "plain_error response = PlainError (status_message response)"

definition sendChatMessage ::
  "api_host \<Rightarrow> jsstring \<Rightarrow> jsstring \<Rightarrow> jsstring \<Rightarrow> request_options \<Rightarrow> chat_send_response api_call" where
  "sendChatMessage h agentId sessionKey message options =
     given (encoded agentId) (\<lambda>encodedAgentId.
       answer (fetchSession buildApiError h (js ''/api/v1/chat/agents/'' @ encodedAgentId @ js ''/send'')
                 (http_post_json (obj [(''message'', JStr message), (''sessionKey'', JStr sessionKey)])) options)
         (\<lambda>payload. Inr (normalizeChatSendResponse h payload)))"

definition patch_member :: "string \<Rightarrow> jsstring option \<Rightarrow> (string \<times> json) list" where
  "patch_member k v = (case v of None \<Rightarrow> [] | Some s \<Rightarrow> if s = [] then [] else [(k, JStr s)])"

definition patchSession ::
  "api_host \<Rightarrow> jsstring \<Rightarrow> jsstring option \<Rightarrow> jsstring option \<Rightarrow> jsstring option \<Rightarrow> request_options \<Rightarrow> json api_call" where
  "patchSession h sessionKey agentId model thinkingLevel options =
     (let path = js ''/api/v1/chat/sessions/'' @ sessionKey;
          body = obj (patch_member ''agentId'' agentId @ patch_member ''model'' model @ patch_member ''thinkingLevel'' thinkingLevel) in
      fetchSession buildApiError h path \<lparr>in_method = js ''PATCH'', in_body = Some body\<rparr> options)"

definition resetSession :: "api_host \<Rightarrow> jsstring \<Rightarrow> request_options \<Rightarrow> json api_call" where
  "resetSession h sessionKey options =
     given (encoded sessionKey) (\<lambda>key.
       fetchSession buildApiError h (js ''/api/v1/chat/sessions/'' @ key @ js ''/reset'') http_post options)"

definition deleteSession :: "api_host \<Rightarrow> jsstring \<Rightarrow> request_options \<Rightarrow> json api_call" where
  "deleteSession h sessionKey options =
     given (encoded sessionKey) (\<lambda>key.
       fetchSession buildApiError h (js ''/api/v1/chat/sessions/'' @ key) http_delete options)"

definition set_non_empty :: "string \<Rightarrow> jsstring \<Rightarrow> search_params \<Rightarrow> search_params" where
  "set_non_empty k v params = (if v = [] then params else params_set (js k) v params)"

definition pauseSession :: "api_host \<Rightarrow> jsstring option \<Rightarrow> jsstring \<Rightarrow> request_options \<Rightarrow> chat_send_response api_call" where
  "pauseSession h agentId sessionKey options =
     (if nullish agentId [] = [] then Done (Inl (ApiError 400 (js ''agentId is required to pause session'') None))
      else given (encoded (the agentId)) (\<lambda>agent.
        answer (fetchSession buildApiError h
                  (js ''/api/v1/chat/agents/'' @ agent @ js ''/pause'' @ query_suffix (set_non_empty ''sessionKey'' sessionKey []))
                  http_post options)
          (\<lambda>payload. Inr (normalizeChatSendResponse h payload))))"

definition listSessions :: "api_host \<Rightarrow> jsstring option \<Rightarrow> request_options \<Rightarrow> sessions_list api_call" where
  "listSessions h agentId options =
     answer (fetchSession plain_error h
               (js ''/api/v1/chat/sessions'' @ query_suffix (set_non_empty ''agentId'' (nullish agentId []) [])) http_get options)
       (\<lambda>payload. Inr (normalizeSessionsListResponse h payload))"

definition previewSessions :: "api_host \<Rightarrow> jsstring list \<Rightarrow> request_options \<Rightarrow> sessions_preview api_call" where
  "previewSessions h keys options =
     (if keys = [] then Done (Inr \<lparr>sv_ts = jint 0, sv_previews = []\<rparr>)
      else let params = params_set (js ''maxChars'') (js ''2000'') (params_set (js ''keys'') (js_join (js '','') keys) []) in
        answer (fetchSession plain_error h (js ''/api/v1/chat/sessions/preview?'' @ params_string params) http_get options)
          (\<lambda>payload. Inr (normalizeSessionsPreviewResponse h payload)))"

definition getSessionHistory :: "api_host \<Rightarrow> jsstring \<Rightarrow> request_options \<Rightarrow> json api_call" where
  "getSessionHistory h sessionKey options =
     (let normalizedSessionKey = trim sessionKey in
      if normalizedSessionKey = [] then Done (Inr (obj [(''ts'', JNum (jint 0)), (''items'', JArr [])]))
      else given (encoded normalizedSessionKey) (\<lambda>key.
        fetchSession buildApiError h (js ''/api/v1/chat/sessions/'' @ key @ js ''/history?limit=200'') http_get options))"

end
