(* ===== verification/InstanceClient.thy ===== *)
theory InstanceClient imports ApiClient begin

text \<open>
  \<open>api/instanceClient.ts\<close>: the client of the instances, their files, documents and token usage. The
  answers are normalised, not checked: a member of the wrong type becomes its \<open>String\<close>, \<open>Number\<close> or
  \<open>Boolean\<close>, and the members the code only casts are kept as JSON values.
\<close>

section \<open>Items\<close>

record instance_item =
  ii_id :: jsstring
  ii_name :: jsstring
  ii_type :: jsstring
  ii_endpoint :: jsstring
  ii_status :: jsstring
  ii_last_check_at :: json
  ii_created_at :: jsstring

record instance_file =
  if_id :: jsstring
  if_task_id :: jsstring
  if_agent_id :: jsstring
  if_agent_name :: jsstring
  if_task_title :: jsstring
  if_task_status :: jsstring
  if_requirement_id :: json
  if_requirement_title :: json
  if_path :: jsstring
  if_name :: jsstring
  if_exists :: bool
  if_size_bytes :: json
  if_updated_at :: jsstring

record agent_doc =
  ad_id :: jsstring
  ad_agent_id :: jsstring
  ad_agent_name :: jsstring
  ad_path :: jsstring
  ad_name :: jsstring
  ad_exists :: bool
  ad_size_bytes :: json
  ad_updated_at :: jsstring

text \<open>\<open>record.a ?? record.b ?? null\<close>\<close>

definition cast_member :: "(jsstring \<times> json) list \<Rightarrow> string \<Rightarrow> string \<Rightarrow> json" where
  "cast_member record a b = coalesce (coalesce (field record a) (field record b)) JNull"

definition normalizeInstanceItem :: "api_host \<Rightarrow> json \<Rightarrow> instance_item" where
  "normalizeInstanceItem h payload =
     (let record = members payload in
      \<lparr>ii_id = string_member h record ''id'' ''id'', ii_name = string_member h record ''name'' ''name'',
       ii_type = string_member h record ''type'' ''type'', ii_endpoint = string_member h record ''endpoint'' ''endpoint'',
       ii_status = string_member h record ''status'' ''status'',
       ii_last_check_at = cast_member record ''last_check_at'' ''lastCheckAt'',
       ii_created_at = string_member h record ''created_at'' ''createdAt''\<rparr>)"

definition normalizeInstanceFileItem :: "api_host \<Rightarrow> json \<Rightarrow> instance_file" where
  "normalizeInstanceFileItem h payload =
     (let record = members payload in
      \<lparr>if_id = string_member h record ''id'' ''id'', if_task_id = string_member h record ''task_id'' ''taskId'',
       if_agent_id = string_member h record ''agent_id'' ''agentId'',
       if_agent_name = string_member h record ''agent_name'' ''agentName'',
       if_task_title = string_member h record ''task_title'' ''taskTitle'',
       if_task_status = js_string (str_num h)
         (coalesce (coalesce (field record ''task_status'') (field record ''taskStatus'')) (JStr (js ''queued''))),
       if_requirement_id = cast_member record ''requirement_id'' ''requirementId'',
       if_requirement_title = cast_member record ''requirement_title'' ''requirementTitle'',
       if_path = string_member h record ''path'' ''path'', if_name = string_member h record ''name'' ''name'',
       if_exists = truthy (field record ''exists''),
       if_size_bytes = cast_member record ''size_bytes'' ''sizeBytes'',
       if_updated_at = string_member h record ''updated_at'' ''updatedAt''\<rparr>)"

definition normalizeInstanceAgentDocItem :: "api_host \<Rightarrow> json \<Rightarrow> agent_doc" where
  "normalizeInstanceAgentDocItem h payload =
     (let record = members payload in
      \<lparr>ad_id = string_member h record ''id'' ''id'', ad_agent_id = string_member h record ''agent_id'' ''agentId'',
       ad_agent_name = string_member h record ''agent_name'' ''agentName'',
       ad_path = string_member h record ''path'' ''path'', ad_name = string_member h record ''name'' ''name'',
       ad_exists = truthy (field record ''exists''),
       ad_size_bytes = cast_member record ''size_bytes'' ''sizeBytes'',
       ad_updated_at = string_member h record ''updated_at'' ''updatedAt''\<rparr>)"

section \<open>Token usage\<close>

fun js_floor :: "jsnum \<Rightarrow> jsnum" where
  "js_floor (Fin r) = Fin (of_int \<lfloor>r\<rfloor>)"
| "js_floor x = x"

definition normalizeNonNegativeInt :: "api_host \<Rightarrow> json \<Rightarrow> jsnum option" where
  "normalizeNonNegativeInt h value =
     (if value = JNull \<or> value = JUndef \<or> value = JStr [] then None
      else let parsed = js_number h value in
           if \<not> is_finite parsed \<or> jsnum_less parsed (jint 0) then None else Some (js_floor parsed))"

record token_usage =
  tu_input_tokens :: "jsnum option"
  tu_output_tokens :: "jsnum option"
  tu_total_tokens :: "jsnum option"

record token_usage_response =
  ur_days :: jsnum
  ur_today :: "token_usage option"
  ur_daily :: "(jsstring \<times> token_usage) list"

text \<open>\<open>record.a ?? record.b ?? record.c\<close>\<close>

definition either_of :: "(jsstring \<times> json) list \<Rightarrow> string \<Rightarrow> string \<Rightarrow> string \<Rightarrow> json" where
  "either_of record a b c = coalesce (coalesce (field record a) (field record b)) (field record c)"

definition usage_of :: "api_host \<Rightarrow> (jsstring \<times> json) list \<Rightarrow> token_usage" where
  "usage_of h record =
     \<lparr>tu_input_tokens = normalizeNonNegativeInt h (either_of record ''input_tokens'' ''inputTokens'' ''input''),
      tu_output_tokens = normalizeNonNegativeInt h (either_of record ''output_tokens'' ''outputTokens'' ''output''),
      tu_total_tokens = normalizeNonNegativeInt h (either_of record ''total_tokens'' ''totalTokens'' ''total'')\<rparr>"

text \<open>A point is its date and its usage.\<close>

definition normalizeTokenUsagePoint :: "api_host \<Rightarrow> json \<Rightarrow> jsstring \<times> token_usage" where
  "normalizeTokenUsagePoint h payload =
     (let record = members payload in
      (js_string (str_num h) (coalesce (either_of record ''date'' ''day'' ''label'') (JStr [])), usage_of h record))"

definition normalizeTokenUsageToday :: "api_host \<Rightarrow> json \<Rightarrow> token_usage option" where
  "normalizeTokenUsageToday h payload =
     (let u = usage_of h (members payload) in
      if tu_input_tokens u = None \<and> tu_output_tokens u = None \<and> tu_total_tokens u = None then None else Some u)"

section \<open>Calls\<close>

text \<open>Every request of this client says that it carries JSON.\<close>

definition fetchInstanceApi :: "api_host \<Rightarrow> jsstring \<Rightarrow> request_init \<Rightarrow> json api_call" where
  "fetchInstanceApi h path init =
     Fetch ((request_of (base_url h @ path) init)\<lparr>rq_json_type := True\<rparr>) (receive buildApiError)"

text \<open>A member of an answer that is not an object is undefined, except of \<open>null\<close>, where it throws.\<close>

definition answer_members :: "json \<Rightarrow> api_failure + (jsstring \<times> json) list" where
  "answer_members payload = (if payload = JNull then Inl TypeFailure else Inr (members payload))"

definition listInstances :: "api_host \<Rightarrow> instance_item list api_call" where
  "listInstances h =
     answer (fetchInstanceApi h (js ''/api/v1/instances'') http_get)
       (\<lambda>payload. Inr (map (normalizeInstanceItem h) (as_array payload)))"

fun single :: "instance_item list \<Rightarrow> instance_item option \<times> nat" where
  "single [x] = (Some x, 1)"
| "single xs = (None, length xs)"

definition resolveSingleInstance :: "api_host \<Rightarrow> (instance_item option \<times> nat) api_call" where
  "resolveSingleInstance h = answer (listInstances h) (\<lambda>instances. Inr (single instances))"

text \<open>\<open>/api/v1/instances/${id}\<close> and what follows it.\<close>

definition instance_path :: "jsstring \<Rightarrow> jsstring \<Rightarrow> jsstring" where
  "instance_path encodedId rest = js ''/api/v1/instances/'' @ encodedId @ rest"

fun jsnum_min :: "jsnum \<Rightarrow> jsnum \<Rightarrow> jsnum" where
  "jsnum_min x y = (if x = NaN \<or> y = NaN then NaN else if jsnum_less y x then y else x)"

definition usage_days :: "jsnum option \<Rightarrow> jsnum" where
  "usage_days days =
     (let requestedDays = nullish days (jint 7) in
      if is_finite requestedDays then jsnum_min (jint 90) (jsnum_max (jint 1) (js_floor requestedDays)) else jint 7)"

definition getInstanceTokenUsage :: "api_host \<Rightarrow> jsstring \<Rightarrow> jsnum option \<Rightarrow> token_usage_response api_call" where
  "getInstanceTokenUsage h instanceId requested =
     (let days = usage_days requested in
      given (encoded instanceId) (\<lambda>ident.
        answer (fetchInstanceApi h (instance_path ident (js ''/token-usage?days='' @ str_num h days)) http_get)
          (\<lambda>payload. sum_bind (answer_members payload) (\<lambda>record. Inr
             \<lparr>ur_days = js_number h (coalesce (field record ''days'') (JNum days)),
              ur_today = normalizeTokenUsageToday h (either_of record ''today'' ''today_usage'' ''todayUsage''),
              ur_daily = map (normalizeTokenUsagePoint h) (as_array (either_of record ''daily'' ''daily_points'' ''dailyPoints''))\<rparr>))))"

record 'a listing =
  li_items :: "'a list"
  li_total :: jsnum
  li_existing_count :: jsnum

definition listing_of :: "api_host \<Rightarrow> (json \<Rightarrow> 'a) \<Rightarrow> ('a \<Rightarrow> bool) \<Rightarrow> json \<Rightarrow> api_failure + 'a listing" where
  "listing_of h item exists payload =
     sum_bind (answer_members payload) (\<lambda>record.
       let items = map item (as_array (field record ''items'')) in
       Inr \<lparr>li_items = items,
            li_total = js_number h (coalesce (field record ''total'') (JNum (jint (int (length items))))),
            li_existing_count = js_number h (coalesce (coalesce (field record ''existing_count'') (field record ''existingCount''))
              (JNum (jint (int (length (filter exists items))))))\<rparr>)"

definition set_flag :: "string \<Rightarrow> bool \<Rightarrow> search_params \<Rightarrow> search_params" where
  "set_flag k b params = (if b then params_set (js k) (js ''true'') params else params)"

definition listInstanceFiles ::
  "api_host \<Rightarrow> jsstring \<Rightarrow> jsstring option \<Rightarrow> jsstring option \<Rightarrow> bool \<Rightarrow> instance_file listing api_call" where
  "listInstanceFiles h instanceId boardId q onlyExisting =
     (let params = set_flag ''onlyExisting'' onlyExisting (set_trimmed ''q'' q (set_trimmed ''boardId'' boardId [])) in
      given (encoded instanceId) (\<lambda>ident.
        answer (fetchInstanceApi h (instance_path ident (js ''/files'' @ query_suffix params)) http_get)
          (listing_of h (normalizeInstanceFileItem h) if_exists)))"

definition previewInstanceFile ::
  "api_host \<Rightarrow> jsstring \<Rightarrow> jsstring option \<Rightarrow> jsstring option \<Rightarrow> jsstring option \<Rightarrow> json api_call" where
  "previewInstanceFile h instanceId taskId path boardId =
     (let params = set_trimmed ''path'' path (set_trimmed ''boardId'' boardId (set_trimmed ''taskId'' taskId [])) in
      given (encoded instanceId) (\<lambda>ident.
        fetchInstanceApi h (instance_path ident (js ''/files/preview?'' @ params_string params)) http_get))"

definition listInstanceAgentDocs ::
  "api_host \<Rightarrow> jsstring \<Rightarrow> jsstring option \<Rightarrow> bool \<Rightarrow> agent_doc listing api_call" where
  "listInstanceAgentDocs h instanceId q onlyExisting =
     (let params = set_flag ''onlyExisting'' onlyExisting (set_trimmed ''q'' q []) in
      given (encoded instanceId) (\<lambda>ident.
        answer (fetchInstanceApi h (instance_path ident (js ''/agent-docs'' @ query_suffix params)) http_get)
          (listing_of h (normalizeInstanceAgentDocItem h) ad_exists)))"

definition doc_params :: "jsstring \<Rightarrow> jsstring \<Rightarrow> search_params" where
  "doc_params agentId name = params_set (js ''name'') name (params_set (js ''agentId'') agentId [])"

definition previewInstanceAgentDoc :: "api_host \<Rightarrow> jsstring \<Rightarrow> jsstring \<Rightarrow> jsstring \<Rightarrow> json api_call" where
  "previewInstanceAgentDoc h instanceId agentId name =
     given (encoded instanceId) (\<lambda>ident.
       fetchInstanceApi h (instance_path ident (js ''/agent-docs/preview?'' @ params_string (doc_params agentId name))) http_get)"

text \<open>\<open>download\<close> is \<open>options?.download !== false\<close>.\<close>

definition buildInstanceAgentDocDownloadUrl ::
  "api_host \<Rightarrow> jsstring \<Rightarrow> jsstring \<Rightarrow> jsstring \<Rightarrow> bool \<Rightarrow> api_failure + jsstring" where
  "buildInstanceAgentDocDownloadUrl h instanceId agentId name download =
     sum_bind (encoded instanceId) (\<lambda>ident. Inr (base_url h @ instance_path ident
       (js ''/agent-docs/download?'' @ params_string (set_flag ''download'' download (doc_params agentId name)))))"

definition buildInstanceFileDownloadUrl ::
  "api_host \<Rightarrow> jsstring \<Rightarrow> jsstring option \<Rightarrow> jsstring \<Rightarrow> jsstring option \<Rightarrow> bool \<Rightarrow> api_failure + jsstring" where
  "buildInstanceFileDownloadUrl h instanceId taskId path boardId download =
     (let params = set_flag ''download'' download (set_trimmed ''boardId'' boardId
                     (params_set (js ''path'') path (set_trimmed ''taskId'' taskId []))) in
      sum_bind (encoded instanceId) (\<lambda>ident.
        Inr (base_url h @ instance_path ident (js ''/files/download?'' @ params_string params))))"

record file_write_response =
  fw_path :: jsstring
  fw_size_bytes :: jsnum
  fw_updated_at :: jsstring
  fw_exists :: bool

record file_delete_response =
  fd_path :: jsstring
  fd_deleted :: bool
  fd_updated_at :: jsstring

definition writeInstanceFile ::
  "api_host \<Rightarrow> jsstring \<Rightarrow> jsstring option \<Rightarrow> jsstring option \<Rightarrow> jsstring option \<Rightarrow> jsstring \<Rightarrow> file_write_response api_call" where
  "writeInstanceFile h instanceId taskId boardId path content =
     given (encoded instanceId) (\<lambda>ident.
       answer (fetchInstanceApi h (instance_path ident (js ''/files/write''))
                 (http_post_json (obj [(''taskId'', or_null (trim_or_null taskId)),
                    (''boardId'', JStr (str_or (trim_opt boardId) (js ''default''))),
                    (''path'', or_null (trim_or_null path)), (''content'', JStr content)])))
         (\<lambda>response. sum_bind (answer_members response) (\<lambda>record. Inr
            \<lparr>fw_path = string_member h record ''path'' ''path'',
             fw_size_bytes = js_number h (coalesce (coalesce (field record ''size_bytes'') (field record ''sizeBytes'')) (JNum (jint 0))),
             fw_updated_at = string_member h record ''updated_at'' ''updatedAt'',
             fw_exists = truthy (field record ''exists'')\<rparr>)))"

definition deleteInstanceFile ::
  "api_host \<Rightarrow> jsstring \<Rightarrow> jsstring option \<Rightarrow> jsstring option \<Rightarrow> jsstring option \<Rightarrow> file_delete_response api_call" where
  "deleteInstanceFile h instanceId taskId boardId path =
     (let params = set_trimmed ''path'' path (params_set (js ''boardId'') (str_or (trim_opt boardId) (js ''default''))
                     (set_trimmed ''taskId'' taskId [])) in
      given (encoded instanceId) (\<lambda>ident.
        answer (fetchInstanceApi h (instance_path ident (js ''/files?'' @ params_string params)) http_delete)
          (\<lambda>response. sum_bind (answer_members response) (\<lambda>record. Inr
             \<lparr>fd_path = string_member h record ''path'' ''path'', fd_deleted = truthy (field record ''deleted''),
              fd_updated_at = string_member h record ''updated_at'' ''updatedAt''\<rparr>))))"

end
