(* ===== verification/QueryStrings.thy ===== *)
theory QueryStrings imports UrlEncoding begin

text \<open>
  What a server reads in the query the serialiser of \<open>URLSearchParams\<close> writes: the pairs between \<open>&\<close>,
  the name before \<open>=\<close> and the value after it, each with \<open>+\<close> read as a blank and percent-decoded.
\<close>

section \<open>Reading a query back\<close>

definition plus_blank :: "16 word \<Rightarrow> 16 word" where
  "plus_blank c = (if c = 43 then 32 else c)"

definition form_decode :: "jsstring \<Rightarrow> jsstring" where
  "form_decode s = percent_decode (map plus_blank s)"

text \<open>\<open>name=value\<close> pairs between \<open>&\<close>.\<close>

definition read_pair :: "jsstring \<Rightarrow> jsstring \<times> jsstring" where
  "read_pair s = (form_decode (takeWhile (\<lambda>c. c \<noteq> 61) s), form_decode (tl (dropWhile (\<lambda>c. c \<noteq> 61) s)))"

definition read_query :: "jsstring \<Rightarrow> search_params" where
  "read_query s = map read_pair (js_split (js ''&'') s)"

definition well_formed :: "jsstring \<Rightarrow> bool" where
  "well_formed s \<longleftrightarrow> None \<notin> set (scalars s)"

definition form_plain :: "jsstring \<Rightarrow> bool" where
  "form_plain s \<longleftrightarrow> (\<forall>c \<in> set s. form_safe (unat c) \<or> c = 37 \<or> c = 43)"

lemma form_safe_small: "form_safe n \<Longrightarrow> n < 128 \<and> n \<noteq> 37 \<and> n \<noteq> 43"
  by (auto simp: form_safe_def alphanumeric_def)

lemma of_nat_ascii: "n < 128 \<Longrightarrow> m < 128 \<Longrightarrow> (of_nat n :: 16 word) = of_nat m \<longleftrightarrow> n = m"
  by (simp add: word_unat_eq_iff unat_of_nat)

lemma hex_digit_form: "n < 16 \<Longrightarrow> form_safe (unat (hex_digit n))"
  by (auto simp: hex_digit_def unat_of_nat form_safe_def alphanumeric_def)

lemma plus_blank_safe: "form_safe (unat c) \<Longrightarrow> plus_blank c = c"
  by (auto simp: plus_blank_def form_safe_def alphanumeric_def)

lemma plus_blank_percent: "b < 256 \<Longrightarrow> map plus_blank (percent b) = percent b"
  by (simp add: percent_def hex_digit_form plus_blank_safe) (simp add: plus_blank_def)

lemma plus_blank_bytes: "\<forall>b \<in> set bs. b < 256 \<Longrightarrow> map plus_blank (concat (map percent bs)) = concat (map percent bs)"
  by (induction bs) (simp_all add: plus_blank_percent)

lemma percent_bytes_form:
  assumes "scalar n" shows "percent_bytes (map plus_blank (form_scalar n) @ s) = utf8 n @ percent_bytes s"
proof -
  consider "form_safe n" | "n = 32" | "\<not> form_safe n" "n \<noteq> 32" by blast
  then show ?thesis
  proof cases
    case 1
    then have n: "n < 128" "n \<noteq> 37" "n \<noteq> 43" using form_safe_small by auto
    then have "(of_nat n :: 16 word) \<noteq> 37" "(of_nat n :: 16 word) \<noteq> 43"
      using of_nat_ascii [of n 37] of_nat_ascii [of n 43] by simp_all
    then show ?thesis using 1 n by (simp add: form_scalar_def plus_blank_def utf8_def unat_of_nat)
  next
    case 2
    then show ?thesis by (simp add: form_scalar_def plus_blank_def utf8_def form_safe_def alphanumeric_def)
  next
    case 3
    have bytes: "\<forall>b \<in> set (utf8 n). b < 256" using utf8_bytes assms by blast
    then show ?thesis using 3 by (simp add: form_scalar_def plus_blank_bytes percent_bytes_bytes)
  qed
qed

lemma form_decode_encode: "well_formed s \<Longrightarrow> form_decode (form_encode s) = s"
proof -
  assume s: "well_formed s"
  have go: "utf8_decode (percent_bytes (map plus_blank (concat (map form_scalar ns)))) = ns"
    if "\<forall>n \<in> set ns. scalar n" for ns
    using that by (induction ns) (simp_all add: percent_bytes_form utf8_decode_utf8)
  have "form_encode s = concat (map form_scalar (map the (scalars s)))"
  proof -
    have "form_scalar (nullish v 0xFFFD) = form_scalar (the v)" if "v \<in> set (scalars s)" for v
    proof -
      have "v \<noteq> None" using that s unfolding well_formed_def by metis
      then show ?thesis by (auto simp: nullish.simps)
    qed
    then show ?thesis by (simp add: form_encode_def comp_def cong: map_cong)
  qed
  moreover have "utf8_decode (percent_bytes (map plus_blank (concat (map form_scalar (map the (scalars s)))))) = map the (scalars s)"
    using s by (intro go) (auto simp: well_formed_def dest: scalars_the)
  ultimately show ?thesis
    using units_of_scalars [of s] s by (simp add: form_decode_def percent_decode_def well_formed_def)
qed

lemma form_plain_percent: "b < 256 \<Longrightarrow> form_plain (percent b)"
  by (simp add: form_plain_def percent_def hex_digit_form)

lemma form_plain_concat: "\<forall>s \<in> set ss. form_plain s \<Longrightarrow> form_plain (concat ss)"
  by (auto simp: form_plain_def)

lemma form_plain_scalar: "scalar n \<Longrightarrow> form_plain (form_scalar n)"
proof -
  assume n: "scalar n"
  have "form_plain (concat (map percent (utf8 n)))"
    using n utf8_bytes form_plain_percent by (intro form_plain_concat) auto
  moreover have "form_plain [of_nat n]" if "form_safe n"
    using that form_safe_small [OF that] by (simp add: form_plain_def unat_of_nat)
  ultimately show ?thesis by (simp add: form_scalar_def) (simp add: form_plain_def)
qed

lemma form_plain_encode: "form_plain (form_encode s)"
proof -
  have "scalar 0xFFFD" by (simp add: scalar_def)
  then have "scalar (nullish v 0xFFFD)" if "v \<in> set (scalars s)" for v
    using that scalars_scalar by (cases v) auto
  then show ?thesis
    unfolding form_encode_def by (intro form_plain_concat) (auto intro: form_plain_scalar)
qed

lemma form_plain_free: "form_plain s \<Longrightarrow> 38 \<notin> set s \<and> 61 \<notin> set s \<and> 63 \<notin> set s \<and> 35 \<notin> set s \<and> 47 \<notin> set s"
  by (auto simp: form_plain_def form_safe_def alphanumeric_def)

lemma encode_free [simp]: "38 \<notin> set (form_encode s)" "61 \<notin> set (form_encode s)" "63 \<notin> set (form_encode s)"
  using form_plain_free [OF form_plain_encode] by auto

definition pair_string :: "jsstring \<times> jsstring \<Rightarrow> jsstring" where
  "pair_string p = form_encode (fst p) @ js ''='' @ form_encode (snd p)"

lemma js_signs: "js ''='' = [61]" "js ''&'' = [38]" "js ''?'' = [63]"
  by (simp_all add: js_def)

lemma read_pair_string: "well_formed (fst p) \<Longrightarrow> well_formed (snd p) \<Longrightarrow> read_pair (pair_string p) = p"
proof -
  have "takeWhile (\<lambda>c. c \<noteq> 61) (form_encode k @ 61 # v) = form_encode k"
    "dropWhile (\<lambda>c. c \<noteq> 61) (form_encode k @ 61 # v) = 61 # v" for k v
    by (subst takeWhile_append2 dropWhile_append2; use encode_free(2) in auto)+
  then show "well_formed (fst p) \<Longrightarrow> well_formed (snd p) \<Longrightarrow> read_pair (pair_string p) = p"
    by (simp add: read_pair_def pair_string_def js_signs form_decode_encode)
qed

lemma pair_string_free: "38 \<notin> set (pair_string p)" "63 \<notin> set (pair_string p)"
  by (simp_all add: pair_string_def js_signs)

lemma params_string_alt: "params_string ps = js_join (js ''&'') (map pair_string ps)"
  by (simp add: params_string_def pair_string_def [abs_def] case_prod_unfold)

lemma split_amp_segment: "38 \<notin> set s \<Longrightarrow> js_split_go [38] (s @ 38 # t) acc = (rev acc @ s) # js_split_go [38] t []"
  by (induction s arbitrary: acc) auto

lemma split_amp_last: "38 \<notin> set s \<Longrightarrow> js_split_go [38] s acc = [rev acc @ s]"
  by (induction s arbitrary: acc) auto

lemma split_join: "xs \<noteq> [] \<Longrightarrow> \<forall>x \<in> set xs. 38 \<notin> set x \<Longrightarrow> js_split (js ''&'') (js_join (js ''&'') xs) = xs"
proof (induction xs)
  case (Cons x xs)
  then show ?case
    by (cases xs) (simp_all add: js_split_def js_signs split_amp_segment split_amp_last)
qed simp

text \<open>A query the serialiser has written, read back.\<close>

definition readable :: "search_params \<Rightarrow> bool" where
  "readable ps \<longleftrightarrow> (\<forall>p \<in> set ps. well_formed (fst p) \<and> well_formed (snd p))"

lemma read_query_params: "readable ps \<Longrightarrow> ps \<noteq> [] \<Longrightarrow> read_query (params_string ps) = ps"
  unfolding read_query_def params_string_alt
  by (subst split_join) (auto simp: pair_string_free readable_def read_pair_string intro!: map_idI)

lemma params_free: "63 \<notin> set (params_string ps)"
proof -
  have "63 \<notin> set (js_join (js ''&'') xs)" if "\<forall>x \<in> set xs. 63 \<notin> set x" for xs
    using that by (induction "js ''&''" xs rule: js_join.induct) (auto simp: js_signs)
  then show ?thesis by (simp add: params_string_alt pair_string_free)
qed

lemma params_append: "ps \<noteq> [] \<Longrightarrow> params_string ps @ js ''&'' @ pair_string p = params_string (ps @ [p])"
  by (induction ps rule: induct_list012) (simp_all add: params_string_alt)

text \<open>What follows the first question mark of an address.\<close>

definition query_of :: "jsstring \<Rightarrow> jsstring" where
  "query_of url = tl (dropWhile (\<lambda>c. c \<noteq> 63) url)"

lemma query_of_append: "63 \<notin> set s \<Longrightarrow> query_of (s @ 63 # t) = t"
  by (induction s) (auto simp: query_of_def)

lemma form_word: "list_all (\<lambda>c. form_safe (of_char c)) s \<Longrightarrow> form_encode (js s) = js s"
proof -
  assume "list_all (\<lambda>c. form_safe (of_char c)) s"
  then have safe: "\<forall>c \<in> set (js s). form_safe (unat c)"
    by (auto simp: js_def list_all_iff unat_of_char_16)
  then have "scalars (js s) = map (Some \<circ> unat) (js s)"
    using form_safe_small by (intro scalars_ascii) blast
  moreover have "concat (map (form_scalar \<circ> unat) t) = t" if "\<forall>c \<in> set t. form_safe (unat c)" for t
    using that by (induction t) (simp_all add: form_scalar_def)
  ultimately show ?thesis using safe by (simp add: form_encode_def comp_def)
qed

end
