(* ===== verification/ApiRoutes.thy ===== *)
theory ApiRoutes imports InstanceClient QueryStrings begin

text \<open>
  What the calls of the two clients promise, for all the operations of a board at once: which
  endpoint a call reaches, that no two operations reach the same one, that a call sends at most one
  request, and when it succeeds. The queries of the addresses the clients build are read back.
\<close>

section \<open>The operations of a board\<close>

datatype board_op =
    ListTasks
  | CreateTask task_create_request
  | DeleteTask jsstring
  | DeleteRequirement jsstring
  | InterruptTask jsstring
  | ContinueTask jsstring
  | PreviewOutput jsstring "jsstring option"
  | ListDrafts
  | SaveDraft draft_upsert_request
  | DeleteDraft jsstring
  | GenerateFlow generate_request
  | ConfirmFlow confirm_request
  | StopPlanner jsstring
  | ProbePlanner jsstring
  | RenameRequirement jsstring jsstring
  | StopRequirement jsstring
  | ContinueRequirement jsstring
  | SyncRequirement jsstring "jsstring option" "flow_node list" "flow_edge list"

definition forget :: "'a api_call \<Rightarrow> unit api_call" where
  "forget c = answer c (\<lambda>_. Inr ())"

fun call_of_op :: "api_host \<Rightarrow> request_options \<Rightarrow> jsstring \<Rightarrow> board_op \<Rightarrow> unit api_call" where
  "call_of_op h options board ListTasks = forget (listKanbanTasks h options board)"
| "call_of_op h options board (CreateTask p) = forget (createKanbanTask h p options board)"
| "call_of_op h options board (DeleteTask t) = forget (deleteKanbanTask h t options board)"
| "call_of_op h options board (DeleteRequirement r) = forget (deleteKanbanRequirementTasks h r options board)"
| "call_of_op h options board (InterruptTask t) = forget (interruptKanbanTask h t options board)"
| "call_of_op h options board (ContinueTask t) = forget (continueKanbanTask h t options board)"
| "call_of_op h options board (PreviewOutput t p) = forget (previewKanbanTaskOutput h t p options board)"
| "call_of_op h options board ListDrafts = forget (listFlowDraftRecords h options board)"
| "call_of_op h options board (SaveDraft p) = forget (upsertFlowDraftRecord h p options board)"
| "call_of_op h options board (DeleteDraft f) = forget (deleteFlowDraftRecord h f options board)"
| "call_of_op h options board (GenerateFlow p) = forget (generateFlowFromRequirement h p options board)"
| "call_of_op h options board (ConfirmFlow p) = forget (confirmFlowToKanban h p options board)"
| "call_of_op h options board (StopPlanner k) = forget (stopFlowPlannerSession h k options board)"
| "call_of_op h options board (ProbePlanner k) = forget (probeFlowPlannerSession h k options board)"
| "call_of_op h options board (RenameRequirement r n) = forget (renameFlowRequirement h r n options board)"
| "call_of_op h options board (StopRequirement r) = forget (stopFlowRequirement h r options board)"
| "call_of_op h options board (ContinueRequirement r) = forget (continueFlowRequirement h r options board)"
| "call_of_op h options board (SyncRequirement r t ns es) = forget (syncFlowRequirement h r t ns es options board)"

text \<open>The method and the segments after \<open>/tasks\<close> of the endpoint of each operation.\<close>

fun endpoint :: "board_op \<Rightarrow> jsstring \<times> jsstring list" where
  "endpoint ListTasks = (js ''GET'', [])"
| "endpoint (CreateTask p) = (js ''POST'', [])"
| "endpoint (DeleteTask t) = (js ''DELETE'', [t])"
| "endpoint (DeleteRequirement r) = (js ''DELETE'', [js ''requirements'', r])"
| "endpoint (InterruptTask t) = (js ''POST'', [t, js ''interrupt''])"
| "endpoint (ContinueTask t) = (js ''POST'', [t, js ''continue''])"
| "endpoint (PreviewOutput t p) = (js ''GET'', [t, js ''output-preview''])"
| "endpoint ListDrafts = (js ''GET'', [js ''flow'', js ''drafts''])"
| "endpoint (SaveDraft p) = (js ''POST'', [js ''flow'', js ''drafts''])"
| "endpoint (DeleteDraft f) = (js ''DELETE'', [js ''flow'', js ''drafts'', f])"
| "endpoint (GenerateFlow p) = (js ''POST'', [js ''flow'', js ''generate''])"
| "endpoint (ConfirmFlow p) = (js ''POST'', [js ''flow'', js ''confirm''])"
| "endpoint (StopPlanner k) = (js ''POST'', [js ''flow'', js ''planner-stop''])"
| "endpoint (ProbePlanner k) = (js ''GET'', [js ''flow'', js ''planner-sessions'', trim k, js ''exists''])"
| "endpoint (RenameRequirement r n) = (js ''POST'', [js ''requirements'', r, js ''rename''])"
| "endpoint (StopRequirement r) = (js ''POST'', [js ''requirements'', r, js ''stop''])"
| "endpoint (ContinueRequirement r) = (js ''POST'', [js ''requirements'', r, js ''continue''])"
| "endpoint (SyncRequirement r t ns es) = (js ''POST'', [js ''requirements'', r, js ''sync''])"

text \<open>The operation and the identifiers it names, without what it carries in its body or query.\<close>

fun op_target :: "board_op \<Rightarrow> string \<times> jsstring list" where
  "op_target ListTasks = (''list tasks'', [])"
| "op_target (CreateTask p) = (''create task'', [])"
| "op_target (DeleteTask t) = (''delete task'', [t])"
| "op_target (DeleteRequirement r) = (''delete requirement'', [r])"
| "op_target (InterruptTask t) = (''interrupt task'', [t])"
| "op_target (ContinueTask t) = (''continue task'', [t])"
| "op_target (PreviewOutput t p) = (''preview output'', [t])"
| "op_target ListDrafts = (''list drafts'', [])"
| "op_target (SaveDraft p) = (''save draft'', [])"
| "op_target (DeleteDraft f) = (''delete draft'', [f])"
| "op_target (GenerateFlow p) = (''generate flow'', [])"
| "op_target (ConfirmFlow p) = (''confirm flow'', [])"
| "op_target (StopPlanner k) = (''stop planner'', [])"
| "op_target (ProbePlanner k) = (''probe planner'', [trim k])"
| "op_target (RenameRequirement r n) = (''rename requirement'', [r])"
| "op_target (StopRequirement r) = (''stop requirement'', [r])"
| "op_target (ContinueRequirement r) = (''continue requirement'', [r])"
| "op_target (SyncRequirement r t ns es) = (''sync requirement'', [r])"

section \<open>The route of a request\<close>

abbreviation path_part :: "jsstring \<Rightarrow> jsstring" where
  "path_part s \<equiv> takeWhile (\<lambda>c. c \<noteq> 63) s"

definition route_of :: "api_host \<Rightarrow> http_request \<Rightarrow> jsstring list" where
  "route_of h q = js_split (js ''/'') (path_part (drop (length (base_url h)) (rq_url q)))"

definition dot_segment :: "jsstring \<Rightarrow> bool" where
  "dot_segment s \<longleftrightarrow> percent_decode s = js ''.'' \<or> percent_decode s = js ''..''"

text \<open>
  What the code relies on of \<open>new URL(path, ...)\<close> and \<open>searchParams.set\<close>: the path of an address
  under \<open>/api/\<close> whose segments are percent encoded and none of them \<open>.\<close> or \<open>..\<close> is left as it is.
\<close>

definition keeps_path :: "api_host \<Rightarrow> bool" where
  "keeps_path h \<longleftrightarrow> (\<forall>segs path name value. path_part path = path_of (js ''api'' # segs) \<longrightarrow>
     (\<forall>s \<in> set segs. url_plain s \<and> \<not> dot_segment s) \<longrightarrow>
     path_part (set_param h path name value) = path_part path)"

lemma path_part_append: "63 \<notin> set s \<Longrightarrow> path_part (s @ t) = s @ path_part t"
  by (induction s) auto

lemma plain_path: "\<forall>s \<in> set segs. url_plain s \<Longrightarrow> 63 \<notin> set (path_of segs)"
  by (induction segs) (auto simp: path_of_def dest: url_plain_no_separator)

lemma path_part_business:
  assumes "keeps_path h" and segs: "\<forall>s \<in> set segs. url_plain s \<and> \<not> dot_segment s"
    and suffix: "suffix = [] \<or> hd suffix = 63"
  shows "path_part (withBusinessContext h (path_of (js ''api'' # segs) @ suffix) options) = path_of (js ''api'' # segs)"
proof -
  let ?p = "path_of (js ''api'' # segs)"
  have plain: "63 \<notin> set ?p"
    using segs plain_path [of segs] by (auto simp: path_of_def js_def)
  have "path_part (withDefaultDataSource (?p @ suffix)) = ?p"
    using plain suffix
    by (cases suffix) (auto simp: withDefaultDataSource_def path_part_append js_def)
  then show ?thesis
    using assms unfolding withBusinessContext_def withInstanceContext_def keeps_path_def by (simp add: Let_def)
qed

lemma route_of_request:
  assumes "keeps_path h" and "\<forall>s \<in> set segs. url_plain s \<and> \<not> dot_segment s" and "suffix = [] \<or> hd suffix = 63"
    and "rq_url q = buildApiUrlWithContext h (path_of (js ''api'' # segs) @ suffix) options"
  shows "route_of h q = [] # js ''api'' # segs"
proof -
  have "\<forall>s \<in> set (js ''api'' # segs). 47 \<notin> set s"
    using assms(2) url_plain_no_separator by (auto simp: js_def)
  then show ?thesis
    using path_part_business [OF assms(1-3), of options] assms(4) split_path [of "js ''api'' # segs" "[]"]
    by (simp add: route_of_def buildApiUrlWithContext_def)
qed

text \<open>Constant segments are plain and stand for themselves.\<close>

definition safe_word :: "string \<Rightarrow> bool" where
  "safe_word s \<longleftrightarrow> list_all (\<lambda>c. component_safe (of_char c)) s"

lemma encode_word [simp]: "safe_word s \<Longrightarrow> encodeURIComponent (js s) = Some (js s)"
  by (rule encode_ascii) (auto simp: js_def safe_word_def list_all_iff unat_of_char_16)

lemma safe_words [simp]:
  "safe_word ''v1''"
  "safe_word ''boards''"
  "safe_word ''tasks''"
  "safe_word ''requirements''"
  "safe_word ''flow''"
  "safe_word ''drafts''"
  "safe_word ''generate''"
  "safe_word ''confirm''"
  "safe_word ''planner-stop''"
  "safe_word ''planner-sessions''"
  "safe_word ''exists''"
  "safe_word ''interrupt''"
  "safe_word ''continue''"
  "safe_word ''output-preview''"
  "safe_word ''rename''"
  "safe_word ''stop''"
  "safe_word ''sync''"
  by code_simp+

definition op_suffix :: "board_op \<Rightarrow> jsstring" where
  "op_suffix op = (case op of PreviewOutput t p \<Rightarrow> query_suffix (set_trimmed ''path'' p []) | _ \<Rightarrow> [])"

lemma enc_word [simp]: "safe_word s \<Longrightarrow> enc (js s) = js s"
  by (simp add: enc_def)

lemma encoded_Inr: "encoded s = Inr e \<longleftrightarrow> encodeURIComponent s = Some e"
  by (auto simp: encoded_def split: option.splits)

lemma encodedBoard_Inr: "encodedBoard board = Inr b \<longleftrightarrow> trim board \<noteq> [] \<and> encodeURIComponent (trim board) = Some b"
  by (auto simp: encodedBoard_def resolveBoardId_def Let_def encoded_Inr)

lemma requests_given: "requests (given x f) = [q] \<longleftrightarrow> (\<exists>v. x = Inr v \<and> requests (f v) = [q])"
  by (cases x) auto

lemma requests_answer: "requests (answer c f) = requests c"
  by (cases c) auto

lemma requests_fetch: "requests (fetchApi h path init options) = [q] \<longleftrightarrow>
   q = request_of (buildApiUrlWithContext h path options) init"
  by (auto simp: fetchApi_def)

lemmas request_rules = requests_given requests_answer requests_fetch encoded_Inr encodedBoard_Inr forget_def
lemmas init_defs = http_get_def http_post_def http_delete_def http_post_json_def request_of_def

lemmas op_defs = listKanbanTasks_def createKanbanTask_def deleteKanbanTask_def deleteKanbanRequirementTasks_def
  interruptKanbanTask_def continueKanbanTask_def previewKanbanTaskOutput_def listFlowDraftRecords_def
  upsertFlowDraftRecord_def deleteFlowDraftRecord_def generateFlowFromRequirement_def confirmFlowToKanban_def
  stopFlowPlannerSession_def probeFlowPlannerSession_def renameFlowRequirement_def stopFlowRequirement_def
  continueFlowRequirement_def syncFlowRequirement_def

lemma op_call_request:
  "requests (call_of_op h options board op) = [q] \<Longrightarrow>
     encodeURIComponent (trim board) = Some (enc (trim board)) \<and>
     (\<forall>s \<in> set (snd (endpoint op)). encodeURIComponent s = Some (enc s)) \<and>
     rq_method q = fst (endpoint op) \<and>
     rq_url q = buildApiUrlWithContext h
       (path_of (js ''api'' # js ''v1'' # js ''boards'' # enc (trim board) # js ''tasks'' # map enc (snd (endpoint op))) @ op_suffix op) options"
  by (cases op; simp add: op_defs request_rules init_defs op_suffix_def path_of_def tasks_path_def requirement_path_def
        Let_def split: if_splits; elim exE conjE; simp add: encode_enc; simp add: js_def)

section \<open>The endpoint of a call\<close>

lemma dot_enc: "encodeURIComponent s = Some (enc s) \<Longrightarrow> dot_segment (enc s) \<longleftrightarrow> s = js ''.'' \<or> s = js ''..''"
  by (simp add: dot_segment_def encode_decode)

lemma enc_segment:
  "encodeURIComponent s = Some (enc s) \<Longrightarrow> s \<noteq> js ''.'' \<Longrightarrow> s \<noteq> js ''..'' \<Longrightarrow> url_plain (enc s) \<and> \<not> dot_segment (enc s)"
  using dot_enc encode_plain by blast

lemma route_of_call:
  assumes "keeps_path h" and call: "requests (call_of_op h options board op) = [q]"
    and dots: "\<forall>s \<in> set (trim board # snd (endpoint op)). s \<noteq> js ''.'' \<and> s \<noteq> js ''..''"
  shows "route_of h q = [] # js ''api'' # map enc (js ''v1'' # js ''boards'' # trim board # js ''tasks'' # snd (endpoint op))"
proof -
  note r = op_call_request [OF call]
  let ?segs = "map enc (js ''v1'' # js ''boards'' # trim board # js ''tasks'' # snd (endpoint op))"
  have words: "\<forall>s \<in> set (js ''v1'' # js ''boards'' # trim board # js ''tasks'' # snd (endpoint op)).
      encodeURIComponent s = Some (enc s) \<and> s \<noteq> js ''.'' \<and> s \<noteq> js ''..''"
    using r dots by simp
  then have "\<forall>s \<in> set ?segs. url_plain s \<and> \<not> dot_segment s"
    unfolding list.set_map ball_simps using enc_segment by blast
  moreover have "op_suffix op = [] \<or> hd (op_suffix op) = 63"
    by (simp add: op_suffix_def query_suffix_def js_def split: board_op.split)
  ultimately show ?thesis
    using route_of_request [OF assms(1), of ?segs "op_suffix op" q options] r by simp
qed

lemma endpoint_target: "endpoint op = endpoint op' \<Longrightarrow> op_target op = op_target op'"
  by (cases op; cases op'; simp)

text \<open>C8: A call on a board sends its request, with the method of the operation, to the address whose
  segments, percent-decoded, are \<open>api/v1/boards\<close>, the trimmed board, \<open>tasks\<close> and the segments of the
  operation, the identifiers among them given back exactly: no character of an identifier can move
  the request elsewhere, unless the identifier is \<open>.\<close> or \<open>..\<close>.\<close>

theorem call_reaches_endpoint:
  assumes "keeps_path h" and "requests (call_of_op h options board op) = [q]"
    and "\<forall>s \<in> set (trim board # snd (endpoint op)). s \<noteq> js ''.'' \<and> s \<noteq> js ''..''"
  shows "rq_method q = fst (endpoint op) \<and>
     map percent_decode (route_of h q) =
       [[], js ''api'', js ''v1'', js ''boards'', trim board, js ''tasks''] @ snd (endpoint op)"
proof -
  note r = op_call_request [OF assms(2)]
  have dec: "percent_decode (enc s) = s" if "encodeURIComponent s = Some (enc s)" for s
    using that by (rule encode_decode)
  have word: "percent_decode (js s) = js s" if "safe_word s" for s
    using encode_decode [OF encode_word [OF that]] .
  have api: "safe_word ''api''" by code_simp
  show ?thesis
    using r by (auto simp: route_of_call [OF assms] dec word api percent_decode_def [of "[]"] intro!: map_idI)
qed

text \<open>
  C20: Two calls whose requests have the same method and the same path are the same operation on the
  same board and the same identifiers: no task, requirement, draft or planner session takes the address of another,
  whatever characters the identifiers hold, slashes, question marks, hashes and percent signs included. Excepted are
  boards and identifiers that are a single or a double dot, which encoding leaves as they are and an address drops as
  segments (\<open>keeps_path\<close> says what is asked of the parser of addresses).
\<close>

theorem endpoint_identifies_operation:
  assumes "keeps_path h"
    and "requests (call_of_op h options board op) = [q]" and "requests (call_of_op h options' board' op') = [q']"
    and "\<forall>s \<in> set (trim board # snd (endpoint op)). s \<noteq> js ''.'' \<and> s \<noteq> js ''..''"
    and "\<forall>s \<in> set (trim board' # snd (endpoint op')). s \<noteq> js ''.'' \<and> s \<noteq> js ''..''"
    and same: "rq_method q = rq_method q'" "route_of h q = route_of h q'"
  shows "trim board = trim board' \<and> op_target op = op_target op'"
proof -
  note r = op_call_request [OF assms(2)] and r' = op_call_request [OF assms(3)]
  have seg: "enc (trim board) = enc (trim board')" "map enc (snd (endpoint op)) = map enc (snd (endpoint op'))"
    using same(2) unfolding route_of_call [OF assms(1,2,4)] route_of_call [OF assms(1,3,5)] by simp_all
  have dec: "map (percent_decode \<circ> enc) ss = ss" if "\<forall>s \<in> set ss. encodeURIComponent s = Some (enc s)" for ss
    using that encode_decode by (auto intro: map_idI)
  have "trim board = trim board'"
    using seg(1) r r' by (metis encode_decode)
  moreover have "snd (endpoint op) = snd (endpoint op')"
    using dec [of "snd (endpoint op)"] dec [of "snd (endpoint op')"] seg(2) r r' by (metis map_map)
  ultimately show ?thesis
    using endpoint_target r r' same(1) by (metis prod_eqI)
qed

section \<open>The outcome of a call\<close>

lemma sum_bind_assoc: "sum_bind (sum_bind x f) g = sum_bind x (\<lambda>v. sum_bind (f v) g)"
  by (cases x) auto

definition fetching :: "unit api_call \<Rightarrow> bool" where
  "fetching c \<longleftrightarrow> (\<exists>q f. c = Fetch q (\<lambda>r. sum_bind (receive buildApiError r) f))"

lemma fetching_simps [simp]:
  "fetching (forget (answer (fetchApi h path init options) f))" "fetching (forget (fetchApi h path init options))"
  "\<not> fetching (Done x)"
  by (auto simp: fetching_def forget_def fetchApi_def sum_bind_assoc)

lemma forget_given: "forget (given x f) = given x (\<lambda>v. forget (f v))"
  by (cases x) (auto simp: forget_def)

lemma given_shape: "(\<And>v. x = Inr v \<Longrightarrow> fetching (f v) \<or> (\<exists>e. f v = Done (Inl e)))
   \<Longrightarrow> fetching (given x f) \<or> (\<exists>e. given x f = Done (Inl e))"
  by (cases x) auto

definition blank_probe :: "board_op \<Rightarrow> bool" where
  "blank_probe op \<longleftrightarrow> (case op of ProbePlanner k \<Rightarrow> trim k = [] | _ \<Rightarrow> False)"

lemma op_call_shape:
  "\<not> blank_probe op \<Longrightarrow> fetching (call_of_op h options board op) \<or> (\<exists>e. call_of_op h options board op = Done (Inl e))"
  by (cases op) (auto simp: op_defs forget_given Let_def blank_probe_def intro!: given_shape)

lemma blank_op_call:
  "\<not> blank_probe op \<Longrightarrow> trim board = [] \<Longrightarrow>
   call_of_op h options board op = Done (Inl (PlainError (js ''boardId is required'')))"
  by (cases op) (auto simp: op_defs encodedBoard_def resolveBoardId_def forget_def Let_def blank_probe_def)

lemma blank_probe_call: "blank_probe op \<Longrightarrow> call_of_op h options board op = Done (Inr ())"
  by (cases op) (auto simp: blank_probe_def op_defs forget_def Let_def)

lemma buildApiError_status: "\<exists>m e. buildApiError r = ApiError (rs_status r) m e"
  by (auto simp: buildApiError_def Let_def split: option.splits)

lemma receive_cases:
  "receive f response = Inr v \<longleftrightarrow> (\<exists>r. response = Some r \<and> response_ok r \<and> rs_json r = Some v)"
  by (auto simp: receive_def split: option.splits)

lemma call_outcome_sent:
  assumes "\<not> blank_probe op"
  shows "length (requests (call_of_op h options board op)) \<le> 1 \<and>
    (trim board = [] \<longrightarrow> requests (call_of_op h options board op) = [] \<and>
       run_call server (call_of_op h options board op) = Inl (PlainError (js ''boardId is required''))) \<and>
    (run_call server (call_of_op h options board op) = Inr () \<longrightarrow>
       (\<exists>q r. requests (call_of_op h options board op) = [q] \<and> server q = Some r \<and> response_ok r \<and> rs_json r \<noteq> None)) \<and>
    (\<forall>q r. requests (call_of_op h options board op) = [q] \<longrightarrow> server q = Some r \<longrightarrow> \<not> response_ok r \<longrightarrow>
       (\<exists>m e. run_call server (call_of_op h options board op) = Inl (ApiError (rs_status r) m e)))"
proof (intro conjI allI impI)
  have shape: "fetching (call_of_op h options board op) \<or> (\<exists>e. call_of_op h options board op = Done (Inl e))"
    by (rule op_call_shape [OF assms])
  show "length (requests (call_of_op h options board op)) \<le> 1"
    using shape by (auto simp: fetching_def)
  show "requests (call_of_op h options board op) = []"
    "run_call server (call_of_op h options board op) = Inl (PlainError (js ''boardId is required''))" if "trim board = []"
    using blank_op_call [OF assms that] by simp_all
  show "\<exists>q r. requests (call_of_op h options board op) = [q] \<and> server q = Some r \<and> response_ok r \<and> rs_json r \<noteq> None"
    if ok: "run_call server (call_of_op h options board op) = Inr ()"
  proof -
    obtain q f where c: "call_of_op h options board op = Fetch q (\<lambda>r. sum_bind (receive buildApiError r) f)"
      using shape ok by (auto simp: fetching_def)
    then obtain v where "receive buildApiError (server q) = Inr v"
      using ok by (cases "receive buildApiError (server q)") auto
    then show ?thesis using c by (auto simp: receive_cases)
  qed
  show "\<exists>m e. run_call server (call_of_op h options board op) = Inl (ApiError (rs_status r) m e)"
    if "requests (call_of_op h options board op) = [q]" "server q = Some r" "\<not> response_ok r" for q r
    using shape that buildApiError_status [of r] by (auto simp: fetching_def receive_def)
qed

text \<open>
  C32: A call on a board sends at most one request, none for a blank board, and succeeds only when the server has answered
  it with a success status and a JSON body; an answer with another status becomes an \<open>ApiError\<close> of that status. The one
  exception is the probe of a planner session under a blank key, which succeeds without a request.
\<close>

theorem call_outcome:
  "if blank_probe op
   then requests (call_of_op h options board op) = [] \<and> run_call server (call_of_op h options board op) = Inr ()
   else length (requests (call_of_op h options board op)) \<le> 1 \<and>
    (trim board = [] \<longrightarrow> requests (call_of_op h options board op) = [] \<and>
       run_call server (call_of_op h options board op) = Inl (PlainError (js ''boardId is required''))) \<and>
    (run_call server (call_of_op h options board op) = Inr () \<longrightarrow>
       (\<exists>q r. requests (call_of_op h options board op) = [q] \<and> server q = Some r \<and> response_ok r \<and> rs_json r \<noteq> None)) \<and>
    (\<forall>q r. requests (call_of_op h options board op) = [q] \<longrightarrow> server q = Some r \<longrightarrow> \<not> response_ok r \<longrightarrow>
       (\<exists>m e. run_call server (call_of_op h options board op) = Inl (ApiError (rs_status r) m e)))"
  using call_outcome_sent [of op h options board server] blank_probe_call [of op h options board] by simp

section \<open>Queries\<close>

lemma set_trimmed_readable: "readable ps \<Longrightarrow> (\<And>s. v = Some s \<Longrightarrow> well_formed (trim s)) \<Longrightarrow> well_formed (js k) \<Longrightarrow> readable (set_trimmed k v ps)"
proof -
  have "readable (params_set k' s ps')" if "readable ps'" "well_formed k'" "well_formed s" for k' s and ps' :: search_params
    using that by (induction k' s ps' rule: params_set.induct) (auto simp: readable_def)
  then show "readable ps \<Longrightarrow> (\<And>s. v = Some s \<Longrightarrow> well_formed (trim s)) \<Longrightarrow> well_formed (js k) \<Longrightarrow> readable (set_trimmed k v ps)"
    by (cases v) (auto simp: set_trimmed_def trim_or_null_def trim_opt_def non_empty_def split: option.splits if_splits)
qed

lemma well_formed_js [simp]: "list_all (\<lambda>c. (of_char c :: nat) < 128) s \<Longrightarrow> well_formed (js s)"
proof -
  assume "list_all (\<lambda>c. (of_char c :: nat) < 128) s"
  then have "\<forall>c \<in> set (js s). unat c < 128" by (auto simp: js_def list_all_iff unat_of_char_16)
  then show ?thesis by (auto simp: well_formed_def scalars_ascii)
qed

lemma tasks_path_query:
  assumes "63 \<notin> set b" "63 \<notin> set t"
  shows "63 \<notin> set (tasks_path b (js ''/'' @ t @ js ''/output-file''))"
  using assms by (simp add: tasks_path_def js_def)

text \<open>The address of an output file carries its path: the query reads back as the path, unchanged
  whatever it holds, the download flag when it is asked for, and the data source.\<close>

lemma output_file_url_carries_path:
  assumes "buildKanbanTaskOutputFileUrl h taskId path download options boardId = Inr url"
    and "well_formed path" and "63 \<notin> set (base_url h)"
    and "ro_disable_instance_context options \<or> trim_opt (ro_instance_id options) = []"
  shows "read_query (query_of url) =
    (js ''path'', path) # (if download then [(js ''download'', js ''true'')] else []) @ [(js ''data_source'', js ''openclaw'')]"
proof -
  let ?ps = "(js ''path'', path) # (if download then [(js ''download'', js ''true'')] else [])"
  obtain b t where b: "encodeURIComponent (trim boardId) = Some b" "encodeURIComponent taskId = Some t"
    and url: "url = buildApiUrlWithContext h (tasks_path b (js ''/'' @ t @ js ''/output-file?'' @ params_string ?ps)) options"
    using assms(1) unfolding buildKanbanTaskOutputFileUrl_def
    by (cases "encodedBoard boardId"; cases "encoded taskId") (auto simp: encodedBoard_Inr encoded_Inr Let_def split: if_splits)
  let ?p = "tasks_path b (js ''/'' @ t @ js ''/output-file'')"
  have split: "tasks_path b (js ''/'' @ t @ js ''/output-file?'' @ params_string ?ps) = ?p @ 63 # params_string ?ps"
    by (simp add: tasks_path_def js_def)
  have "form_encode (js ''data_source'') = js ''data_source''" "form_encode (js ''openclaw'') = js ''openclaw''"
    by (rule form_word, code_simp)+
  then have "params_string ?ps @ js ''&data_source='' @ DEFAULT_OBSERVER_DATA_SOURCE
      = params_string ?ps @ js ''&'' @ pair_string (js ''data_source'', js ''openclaw'')"
    by (simp add: pair_string_def DEFAULT_OBSERVER_DATA_SOURCE_def js_append)
  then have "params_string ?ps @ js ''&data_source='' @ DEFAULT_OBSERVER_DATA_SOURCE
      = params_string (?ps @ [(js ''data_source'', js ''openclaw'')])"
    by (simp only: params_append [of ?ps] list.simps simp_thms)
  then have "url = (base_url h @ ?p) @ 63 # params_string (?ps @ [(js ''data_source'', js ''openclaw'')])"
    using assms(4) unfolding url split buildApiUrlWithContext_def withBusinessContext_def withInstanceContext_def withDefaultDataSource_def
    by (auto simp: Let_def js_append [symmetric] js_def)
  moreover have "63 \<notin> set (base_url h @ ?p)"
    using assms(3) b tasks_path_query encode_plain url_plain_no_separator by (metis Un_iff set_append)
  ultimately have "query_of url = params_string (?ps @ [(js ''data_source'', js ''openclaw'')])"
    using query_of_append by blast
  moreover have "readable (?ps @ [(js ''data_source'', js ''openclaw'')])"
    using assms(2) by (simp add: readable_def)
  ultimately show ?thesis
    using read_query_params [of "?ps @ [(js ''data_source'', js ''openclaw'')]"] by simp
qed

text \<open>Deleting a file of an instance sends one \<open>DELETE\<close> whose query names the trimmed task if there
  is one, the board or else \<open>default\<close>, and the trimmed path if there is one, and nothing else.\<close>

lemma file_deletion_names_file:
  assumes "requests (deleteInstanceFile h instanceId taskId boardId path) = [q]" and "63 \<notin> set (base_url h)"
    and "well_formed (trim_opt taskId)" "well_formed (trim_opt boardId)" "well_formed (trim_opt path)"
  shows "rq_method q = js ''DELETE'' \<and> read_query (query_of (rq_url q)) =
     (case trim_or_null taskId of None \<Rightarrow> [] | Some t \<Rightarrow> [(js ''taskId'', t)]) @
     [(js ''boardId'', str_or (trim_opt boardId) (js ''default''))] @
     (case trim_or_null path of None \<Rightarrow> [] | Some p \<Rightarrow> [(js ''path'', p)])"
proof -
  let ?ps = "(case trim_or_null taskId of None \<Rightarrow> [] | Some t \<Rightarrow> [(js ''taskId'', t)]) @
     [(js ''boardId'', str_or (trim_opt boardId) (js ''default''))] @
     (case trim_or_null path of None \<Rightarrow> [] | Some p \<Rightarrow> [(js ''path'', p)])"
  have params: "set_trimmed ''path'' path (params_set (js ''boardId'') (str_or (trim_opt boardId) (js ''default'')) (set_trimmed ''taskId'' taskId [])) = ?ps"
    by (simp add: set_trimmed_def split: option.split)
  obtain ident where ident: "encodeURIComponent instanceId = Some ident"
    and q: "rq_method q = js ''DELETE''" "rq_url q = (base_url h @ instance_path ident (js ''/files'')) @ 63 # params_string ?ps"
    using assms(1) unfolding deleteInstanceFile_def Let_def params
    by (auto simp: requests_given requests_answer encoded_Inr fetchInstanceApi_def init_defs instance_path_def js_def)
  have "63 \<notin> set (base_url h @ instance_path ident (js ''/files''))"
    using assms(2) url_plain_no_separator [OF encode_plain [OF ident]] by (simp add: instance_path_def js_def)
  then have "query_of (rq_url q) = params_string ?ps" unfolding q by (rule query_of_append)
  moreover have "readable ?ps"
    using assms(3-5) by (auto simp: readable_def trim_or_null_def non_empty_def str_or_def split: option.split if_splits)
  ultimately show ?thesis using q read_query_params [of ?ps] by simp
qed

text \<open>
  \<open>patchSession\<close> and \<open>getAgentDetail\<close> put the identifier into the path as it is: a question mark in it
  ends the path, so that the request reaches the address of another session.
\<close>

lemma patch_session_unencoded:
  "63 \<notin> set key \<Longrightarrow> requests (patchSession h (key @ js ''?'' @ rest) agentId model level no_options) = [q] \<Longrightarrow>
   requests (patchSession h key agentId model level no_options) = [q'] \<Longrightarrow> route_of h q = route_of h q'"
proof -
  have cut: "path_part (a @ 63 # b) = path_part (a @ 63 # c)" for a b c
    by (induction a) auto
  have own: "path_part a = path_part (a @ 63 # c)" for a c
    by (induction a) auto
  show "63 \<notin> set key \<Longrightarrow> requests (patchSession h (key @ js ''?'' @ rest) agentId model level no_options) = [q] \<Longrightarrow>
   requests (patchSession h key agentId model level no_options) = [q'] \<Longrightarrow> route_of h q = route_of h q'"
    using own [of "js ''/api/v1/chat/sessions/'' @ key"]
    by (auto simp: patchSession_def fetchSession_def Let_def route_of_def request_of_def withBusinessContext_def
        withDefaultDataSource_def withInstanceContext_def no_options_def trim_opt_def js_signs
        intro!: arg_cong [of _ _ "js_split (js ''/'')"])
qed

section \<open>Token usage\<close>

text \<open>The number of days asked of the server is a whole number from 1 to 90, and every token count of
  an answer is a natural number or missing, whatever the caller and the server give.\<close>

lemma usage_is_bounded:
  "\<exists>d. usage_days requested = jint d \<and> 1 \<le> d \<and> d \<le> 90 \<and>
     (\<forall>c. normalizeNonNegativeInt h value = Some c \<longrightarrow> (\<exists>n. c = jint n \<and> 0 \<le> n))"
proof -
  have "\<exists>d. usage_days requested = jint d \<and> 1 \<le> d \<and> d \<le> 90"
  proof (cases "nullish requested (jint 7)")
    case (Fin r)
    then have "usage_days requested = jint (min 90 (max 1 \<lfloor>r\<rfloor>))"
      by (auto simp: usage_days_def jint_def min_def max_def)
    then show ?thesis by (intro exI [of _ "min 90 (max 1 \<lfloor>r\<rfloor>)"]) auto
  qed (auto simp: usage_days_def)
  moreover have "\<exists>n. c = jint n \<and> 0 \<le> n" if "normalizeNonNegativeInt h value = Some c" for c
    using that by (cases "js_number h value") (auto simp: normalizeNonNegativeInt_def jint_def Let_def split: if_splits)
  ultimately show ?thesis by blast
qed

section \<open>Instances\<close>

definition sample_host :: api_host where
  "sample_host = \<lparr>base_url = js ''http://h'',
     set_param = (\<lambda>path name value. path @ (if 63 \<in> set path then js ''&'' else js ''?'') @ name @ js ''='' @ form_encode value),
     str_num = (\<lambda>_. js ''0''), lower_case = to_lower, parse_num = (\<lambda>_. NaN)\<rparr>"

lemma sample_keeps_path: "keeps_path sample_host"
proof -
  have whole: "path_part path = path" if "63 \<notin> set path" for path
    using that path_part_append [of path "[]"] by simp
  have "path_part (path @ (if 63 \<in> set path then js ''&'' else js ''?'') @ t) = path_part path" for path t
    by (cases "63 \<in> set path") (auto simp: js_signs path_part_append takeWhile_append1 whole)
  then show ?thesis by (simp add: keeps_path_def sample_host_def)
qed

lemma ascii_encodes: "list_all (\<lambda>c. (of_char c :: nat) < 128) s \<Longrightarrow> encodeURIComponent (js s) = Some (enc (js s))"
  using well_formed_js [of s] by (simp add: well_formed_def encodeURIComponent_def enc_def)

definition odd_id :: jsstring where
  "odd_id = js ''../a?b=1#2''"

lemma odd_id_encodes: "encodeURIComponent odd_id = Some (enc odd_id)"
  unfolding odd_id_def by (rule ascii_encodes) code_simp

lemma main_encodes: "encodeURIComponent (js ''main'') = Some (js ''main'')"
  by (rule encode_word) code_simp

lemma sample_requests:
  "\<exists>q. requests (call_of_op sample_host no_options (js '' main '') (DeleteTask odd_id)) = [q]"
  "\<exists>q. requests (call_of_op sample_host no_options (js ''main'') (DeleteTask odd_id)) = [q]"
proof -
  have "trim (js '' main '') = js ''main''" "trim (js ''main'') = js ''main''" by code_simp+
  then show "\<exists>q. requests (call_of_op sample_host no_options (js '' main '') (DeleteTask odd_id)) = [q]"
    "\<exists>q. requests (call_of_op sample_host no_options (js ''main'') (DeleteTask odd_id)) = [q]"
    using odd_id_encodes main_encodes by (simp_all add: op_defs request_rules)
qed

lemma sample_no_dots:
  "\<forall>s \<in> set (trim (js '' main '') # snd (endpoint (DeleteTask odd_id))). s \<noteq> js ''.'' \<and> s \<noteq> js ''..''"
  "\<forall>s \<in> set (trim (js ''main'') # snd (endpoint (DeleteTask odd_id))). s \<noteq> js ''.'' \<and> s \<noteq> js ''..''"
proof -
  have "trim (js '' main '') = js ''main''" "trim (js ''main'') = js ''main''" by code_simp+
  then show "\<forall>s \<in> set (trim (js '' main '') # snd (endpoint (DeleteTask odd_id))). s \<noteq> js ''.'' \<and> s \<noteq> js ''..''"
    "\<forall>s \<in> set (trim (js ''main'') # snd (endpoint (DeleteTask odd_id))). s \<noteq> js ''.'' \<and> s \<noteq> js ''..''"
    by (simp_all add: odd_id_def)
qed

theorem call_reaches_endpoint_witness:
  "\<exists>q. requests (call_of_op sample_host no_options (js '' main '') (DeleteTask odd_id)) = [q] \<and>
     rq_method q = js ''DELETE'' \<and> map percent_decode (route_of sample_host q) =
       [[], js ''api'', js ''v1'', js ''boards'', js ''main'', js ''tasks'', odd_id]"
proof -
  obtain q where q: "requests (call_of_op sample_host no_options (js '' main '') (DeleteTask odd_id)) = [q]"
    using sample_requests by blast
  have "trim (js '' main '') = js ''main''" by code_simp
  then show ?thesis
    using call_reaches_endpoint [OF sample_keeps_path q sample_no_dots(1)] q by auto
qed

theorem endpoint_identifies_operation_witness:
  "\<exists>q q'. requests (call_of_op sample_host no_options (js '' main '') (DeleteTask odd_id)) = [q] \<and>
     requests (call_of_op sample_host no_options (js ''main'') (DeleteTask odd_id)) = [q'] \<and>
     trim (js '' main '') = trim (js ''main'') \<and> op_target (DeleteTask odd_id) = op_target (DeleteTask odd_id)"
proof -
  obtain q q' where q: "requests (call_of_op sample_host no_options (js '' main '') (DeleteTask odd_id)) = [q]"
    "requests (call_of_op sample_host no_options (js ''main'') (DeleteTask odd_id)) = [q']"
    using sample_requests by blast
  have t: "trim (js '' main '') = js ''main''" "trim (js ''main'') = js ''main''" by code_simp+
  have "rq_method q = rq_method q'" "route_of sample_host q = route_of sample_host q'"
    using op_call_request [OF q(1)] op_call_request [OF q(2)]
      route_of_call [OF sample_keeps_path q(1) sample_no_dots(1)] route_of_call [OF sample_keeps_path q(2) sample_no_dots(2)]
    by (simp_all add: t)
  then show ?thesis
    using endpoint_identifies_operation [OF sample_keeps_path q sample_no_dots] q by blast
qed

theorem call_outcome_witness:
  "\<exists>m e. run_call (\<lambda>q. Some \<lparr>rs_status = 404, rs_status_text = js ''Not Found'', rs_json = None\<rparr>)
     (call_of_op sample_host no_options (js ''main'') (DeleteTask odd_id)) = Inl (ApiError 404 m e)"
proof -
  obtain q where q: "requests (call_of_op sample_host no_options (js ''main'') (DeleteTask odd_id)) = [q]"
    using sample_requests by blast
  have named: "\<not> blank_probe (DeleteTask odd_id)" by (simp add: blank_probe_def)
  from call_outcome [of "DeleteTask odd_id" sample_host no_options "js ''main''"
      "\<lambda>q. Some \<lparr>rs_status = 404, rs_status_text = js ''Not Found'', rs_json = None\<rparr>"]
  show ?thesis using q named by (auto simp: response_ok_def)
qed

theorem output_file_url_carries_path_witness:
  "\<exists>url. buildKanbanTaskOutputFileUrl sample_host odd_id (js ''a b&c=d.txt'') True no_options (js ''main'') = Inr url \<and>
     read_query (query_of url) =
       [(js ''path'', js ''a b&c=d.txt''), (js ''download'', js ''true''), (js ''data_source'', js ''openclaw'')]"
proof -
  have t: "trim (js ''main'') = js ''main''" by code_simp
  obtain url where url: "buildKanbanTaskOutputFileUrl sample_host odd_id (js ''a b&c=d.txt'') True no_options (js ''main'') = Inr url"
    using main_encodes odd_id_encodes t
    by (simp add: buildKanbanTaskOutputFileUrl_def encodedBoard_def resolveBoardId_def encoded_def Let_def)
  have "well_formed (js ''a b&c=d.txt'')" by (rule well_formed_js) code_simp
  moreover have "63 \<notin> set (base_url sample_host)" by (simp add: sample_host_def js_def)
  moreover have "trim_opt (ro_instance_id no_options) = []" by (simp add: no_options_def trim_opt_def)
  ultimately show ?thesis
    using output_file_url_carries_path [OF url] url by auto
qed

theorem file_deletion_names_file_witness:
  "\<exists>q. requests (deleteInstanceFile sample_host (js ''main'') None None (Some (js ''/a b.md''))) = [q] \<and>
     rq_method q = js ''DELETE'' \<and>
     read_query (query_of (rq_url q)) = [(js ''boardId'', js ''default''), (js ''path'', js ''/a b.md'')]"
proof -
  obtain q where q: "requests (deleteInstanceFile sample_host (js ''main'') None None (Some (js ''/a b.md''))) = [q]"
    using main_encodes by (simp add: deleteInstanceFile_def Let_def requests_given requests_answer encoded_Inr fetchInstanceApi_def)
  have t: "trim (js ''/a b.md'') = js ''/a b.md''" by code_simp
  have "well_formed (js ''/a b.md'')" by (rule well_formed_js) code_simp
  then have "well_formed (trim_opt None)" "well_formed (trim_opt (Some (js ''/a b.md'')))"
    by (simp_all add: trim_opt_def t) (simp add: well_formed_def)
  moreover have "63 \<notin> set (base_url sample_host)" by (simp add: sample_host_def js_def)
  ultimately show ?thesis
    using file_deletion_names_file [OF q] q by (simp add: trim_or_null_def non_empty_def trim_opt_def t)
qed

end
