(* ===== verification/FileTree.thy ===== *)
theory FileTree imports InstanceClient begin

text \<open>
  \<open>components/instance-files-page/utils.ts\<close> and \<open>types.ts\<close>: how the page of the instance files names
  sizes, directories and icons, and the folder tree it draws. The tree is built in maps that keep the
  order of insertion and is then sorted, folders first; \<open>le\<close> is \<open>localeCompare(_, 'zh-CN') <= 0\<close>.
\<close>

section \<open>Paths\<close>

definition DEFAULT_BOARD_ID :: jsstring where "DEFAULT_BOARD_ID = js ''default''"
definition WORKSPACE_ROOT_PATH :: jsstring where "WORKSPACE_ROOT_PATH = js ''/home/node/.openclaw/workspace/''"
definition SHARED_ROOT_MARKERS :: "jsstring list" where "SHARED_ROOT_MARKERS = [js ''/.local/linpo/'']"

text \<open>\<open>replace(/\\/g, '/')\<close> and \<open>replace(/^\/+/, '')\<close>\<close>

definition forward :: "jsstring \<Rightarrow> jsstring" where
  "forward path = map (\<lambda>c. if c = 92 then 47 else c) path"

definition strip_leading :: "jsstring \<Rightarrow> jsstring" where
  "strip_leading s = dropWhile (\<lambda>c. c = 47) s"

definition normalizeComparablePath :: "jsstring \<Rightarrow> jsstring" where
  "normalizeComparablePath path = strip_leading (trim (forward path))"

text \<open>What precedes the last slash.\<close>

definition before_last_slash :: "jsstring \<Rightarrow> jsstring" where
  "before_last_slash s = rev (tl (dropWhile (\<lambda>c. c \<noteq> 47) (rev s)))"

definition getParentDirectoryPath :: "jsstring \<Rightarrow> jsstring" where
  "getParentDirectoryPath path =
     (let normalized = trim (forward path) in
      if 47 \<notin> set normalized then [] else before_last_slash normalized)"

text \<open>What follows the first occurrence of a text.\<close>

fun after_first :: "jsstring \<Rightarrow> jsstring \<Rightarrow> jsstring option" where
  "after_first m [] = (if m = [] then Some [] else None)"
| "after_first m (c # cs) = (if starts_with (c # cs) m then Some (drop (length m) (c # cs)) else after_first m cs)"

fun shared_relative :: "jsstring list \<Rightarrow> jsstring \<Rightarrow> jsstring option" where
  "shared_relative [] normalized = None"
| "shared_relative (marker # markers) normalized =
     (case after_first marker normalized of
        None \<Rightarrow> shared_relative markers normalized
      | Some markerTail \<Rightarrow>
          (case after_first (js ''/'') markerTail of
             None \<Rightarrow> Some []
           | Some rest \<Rightarrow> Some (strip_leading rest)))"

definition resolveKnownRootRelativePath :: "jsstring \<Rightarrow> jsstring option" where
  "resolveKnownRootRelativePath path =
     (let normalized = trim (forward path) in
      if normalized = [] then Some []
      else if starts_with normalized WORKSPACE_ROOT_PATH
      then Some (strip_leading (drop (length WORKSPACE_ROOT_PATH) normalized))
      else shared_relative SHARED_ROOT_MARKERS normalized)"

text \<open>The declared result is a nullable string; the function never returns \<open>null\<close>.\<close>

definition getRelativeDirectoryPath :: "jsstring \<Rightarrow> jsstring" where
  "getRelativeDirectoryPath path =
     (case resolveKnownRootRelativePath path of
        Some relative \<Rightarrow> getParentDirectoryPath relative
      | None \<Rightarrow> getParentDirectoryPath (strip_leading (trim (forward path))))"

definition toPathSegments :: "jsstring \<Rightarrow> jsstring \<Rightarrow> jsstring list" where
  "toPathSegments path fallbackName =
     (let normalized = trim (forward path);
          genericSegments = filter (\<lambda>s. trim s \<noteq> []) (js_split (js ''/'') normalized) in
      if normalized = [] then [fallbackName]
      else if genericSegments \<noteq> [] then genericSegments else [fallbackName])"

section \<open>Sizes and icons\<close>

text \<open>
  \<open>(n / d).toFixed(k)\<close> for whole numbers \<open>n\<close> and \<open>d\<close>: the nearest multiple of a unit in the last
  place, the larger of two.
\<close>

definition fixed_units :: "nat \<Rightarrow> nat \<Rightarrow> nat \<Rightarrow> nat" where
  "fixed_units k n d = (2 * n * 10 ^ k + d) div (2 * d)"

definition pad_digits :: "nat \<Rightarrow> nat \<Rightarrow> jsstring" where
  "pad_digits k n = replicate (k - length (js_digits n)) 48 @ js_digits n"

definition to_fixed :: "nat \<Rightarrow> nat \<Rightarrow> nat \<Rightarrow> jsstring" where
  "to_fixed k n d = js_digits (fixed_units k n d div 10 ^ k) @ js ''.'' @ pad_digits k (fixed_units k n d mod 10 ^ k)"

definition formatSize :: "int option \<Rightarrow> jsstring" where
  "formatSize sizeBytes =
     (case sizeBytes of None \<Rightarrow> js ''-''
      | Some n \<Rightarrow>
          if n < 0 then js ''-''
          else if n < 1024 then js_digits (nat n) @ js '' B''
          else if n < 1024 * 1024 then to_fixed 1 (nat n) 1024 @ js '' KB''
          else to_fixed 2 (nat n) (1024 * 1024) @ js '' MB'')"

definition getRequirementLabel :: "instance_file \<Rightarrow> jsstring" where
  "getRequirementLabel item =
     str_or (trim_opt (as_string (if_requirement_title item)))
       (str_or (trim_opt (as_string (if_requirement_id item))) ([0x672A, 0x547D, 0x540D, 0x6D41, 0x7A0B]))"

datatype icon_kind =
    FolderIcon | MarkdownIcon | JsonIcon | ImageIcon | AudioIcon | VideoIcon | PdfIcon | ArchiveIcon | CodeIcon | TextIcon

definition one_of :: "jsstring \<Rightarrow> string list \<Rightarrow> bool" where
  "one_of s ws \<longleftrightarrow> s \<in> set (map js ws)"

definition leaf_name :: "jsstring \<Rightarrow> jsstring \<Rightarrow> jsstring" where
  "leaf_name path title =
     (let pathSegments = filter (\<lambda>s. s \<noteq> []) (js_split (js ''/'') (to_lower (forward path))) in
      to_lower (if pathSegments = [] then title else last pathSegments))"

definition resolveFileIconKind :: "jsstring \<Rightarrow> jsstring \<Rightarrow> icon_kind" where
  "resolveFileIconKind path title =
     (let leaf = leaf_name path title;
          extension = (if 46 \<in> set leaf then last (js_split (js ''.'') leaf) else []) in
      if one_of extension [''png'', ''jpg'', ''jpeg'', ''gif'', ''webp'', ''svg'', ''bmp'', ''ico''] then ImageIcon
      else if one_of extension [''mp3'', ''wav'', ''flac'', ''ogg'', ''m4a''] then AudioIcon
      else if one_of extension [''mp4'', ''mov'', ''avi'', ''mkv'', ''webm''] then VideoIcon
      else if extension = js ''pdf'' then PdfIcon
      else if one_of extension [''zip'', ''tar'', ''gz'', ''tgz'', ''7z'', ''rar''] then ArchiveIcon
      else if one_of extension [''md'', ''markdown''] then MarkdownIcon
      else if extension = js ''json'' then JsonIcon
      else if one_of extension [''ts'', ''tsx'', ''js'', ''jsx'', ''py'', ''go'', ''rs'', ''java'', ''rb'', ''php'', ''sh'', ''yaml'',
        ''yml'', ''toml'', ''ini'', ''conf'', ''env'', ''sql'', ''xml'', ''html'', ''css''] then CodeIcon
      else TextIcon)"

section \<open>The folder tree\<close>

datatype resource_kind = TaskResource | AgentDocResource

fun resource_kind_str :: "resource_kind \<Rightarrow> jsstring" where
  "resource_kind_str TaskResource = js ''task''"
| "resource_kind_str AgentDocResource = js ''agent-doc''"

record sidebar_resource =
  rk_kind :: resource_kind
  rk_id :: jsstring
  rk_agent_id :: jsstring
  rk_agent_name :: jsstring
  rk_title :: jsstring
  rk_path :: jsstring
  rk_exists :: bool
  rk_updated_at :: jsstring
  rk_icon :: icon_kind
  rk_aria_label :: jsstring

definition normalizePathForWorkspaceTree :: "sidebar_resource \<Rightarrow> jsstring" where
  "normalizePathForWorkspaceTree resource =
     (let normalized = trim (forward (rk_path resource)) in
      if normalized = [] then rk_title resource
      else if starts_with normalized (js ''agent://'') then
        let tail = strip_leading (drop (length (js ''agent://'')) normalized);
            agentPrefix = rk_agent_id resource @ js ''/'' in
        if tail = [] then rk_title resource
        else if starts_with tail agentPrefix then str_or (drop (length agentPrefix) tail) (rk_title resource)
        else tail
      else case resolveKnownRootRelativePath normalized of
        Some knownRootRelativePath \<Rightarrow> str_or knownRootRelativePath (rk_title resource)
      | None \<Rightarrow> if starts_with normalized (js ''/'') then strip_leading normalized else normalized)"

text \<open>
  A node of the maps the tree is built in: its identifier, name, resource (none for a folder) and
  children, by key in the order of insertion. A drawn node has the same members, its children in order.
\<close>

datatype mutable_node = MNode jsstring jsstring "sidebar_resource option" "(jsstring \<times> mutable_node) list"

datatype path_node = PNode jsstring jsstring "sidebar_resource option" "path_node list"

definition folder_key :: "jsstring \<Rightarrow> jsstring" where
  "folder_key folder = js ''dir:'' @ folder"

definition leaf_key :: "sidebar_resource \<Rightarrow> jsstring" where
  "leaf_key resource = js ''leaf:'' @ resource_kind_str (rk_kind resource) @ js '':'' @ rk_id resource"

text \<open>The walk down the folders of one resource; None where \<open>encodeURIComponent\<close> throws.\<close>

fun place_resource :: "jsstring list \<Rightarrow> jsstring \<Rightarrow> sidebar_resource \<Rightarrow> mutable_node \<Rightarrow> mutable_node option" where
  "place_resource [] leafName resource (MNode ident name res children) =
     Some (MNode ident name res (AList.update (leaf_key resource)
       (MNode (ident @ js ''/'' @ leaf_key resource) leafName (Some resource) []) children))"
| "place_resource (folder # folders) leafName resource (MNode ident name res children) =
     (case map_of children (folder_key folder) of
        Some existing \<Rightarrow>
          map_option (\<lambda>n. MNode ident name res (AList.update (folder_key folder) n children))
            (place_resource folders leafName resource existing)
      | None \<Rightarrow>
          (case encodeURIComponent folder of None \<Rightarrow> None
           | Some encodedFolder \<Rightarrow>
               map_option (\<lambda>n. MNode ident name res (AList.update (folder_key folder) n children))
                 (place_resource folders leafName resource (MNode (ident @ js ''/'' @ encodedFolder) folder None []))))"

definition resource_segments :: "sidebar_resource \<Rightarrow> jsstring list" where
  "resource_segments resource = toPathSegments (normalizePathForWorkspaceTree resource) (rk_title resource)"

definition shared_root :: mutable_node where
  "shared_root = MNode (js ''root:shared-directory'') ([0x5171, 0x4EAB, 0x76EE, 0x5F55]) None []"

fun place_all :: "sidebar_resource list \<Rightarrow> mutable_node \<Rightarrow> mutable_node option" where
  "place_all [] base = Some base"
| "place_all (resource # resources) base =
     (case place_resource (butlast (resource_segments resource)) (last (resource_segments resource)) resource base of
        None \<Rightarrow> None
      | Some base' \<Rightarrow> place_all resources base')"

text \<open>
  Folders first, then by name. The comparison reads the name and the resource of a node, which a
  drawn node keeps, so the children may be sorted once drawn.
\<close>

fun path_node_le :: "(jsstring \<Rightarrow> jsstring \<Rightarrow> bool) \<Rightarrow> path_node \<Rightarrow> path_node \<Rightarrow> bool" where
  "path_node_le le (PNode _ leftName leftResource _) (PNode _ rightName rightResource _) =
     (if (leftResource \<noteq> None) \<noteq> (rightResource \<noteq> None) then rightResource \<noteq> None
      else le leftName rightName)"

fun serialize_node :: "(jsstring \<Rightarrow> jsstring \<Rightarrow> bool) \<Rightarrow> mutable_node \<Rightarrow> path_node" where
  "serialize_node le (MNode ident name res children) =
     PNode ident name res (sort_by (path_node_le le) (map (\<lambda>(_, child). serialize_node le child) children))"

fun node_children :: "path_node \<Rightarrow> path_node list" where
  "node_children (PNode _ _ _ children) = children"

definition buildPathTree :: "(jsstring \<Rightarrow> jsstring \<Rightarrow> bool) \<Rightarrow> sidebar_resource list \<Rightarrow> path_node list option" where
  "buildPathTree le resources = map_option (\<lambda>base. node_children (serialize_node le base)) (place_all resources shared_root)"

fun walk_folders :: "path_node \<Rightarrow> jsstring list" where
  "walk_folders (PNode ident name res children) =
     (if res = None then ident # concat (map walk_folders children) else [])"

definition collectFolderNodeIds :: "path_node list \<Rightarrow> jsstring list" where
  "collectFolderNodeIds nodes = uniq (concat (map walk_folders nodes))"
section \<open>What the tree holds\<close>

text \<open>The names from a node down to each file, with the resource of the file.\<close>

fun under :: "jsstring \<Rightarrow> (jsstring list \<times> sidebar_resource) multiset \<Rightarrow> (jsstring list \<times> sidebar_resource) multiset" where
  "under name es = image_mset (\<lambda>(p, r). (name # p, r)) es"

fun entries :: "path_node \<Rightarrow> (jsstring list \<times> sidebar_resource) multiset" where
  "entries (PNode ident name res children) =
     (case res of Some r \<Rightarrow> {#([name], r)#} | None \<Rightarrow> under name (sum_list (map entries children)))"

fun mutable_entries :: "mutable_node \<Rightarrow> (jsstring list \<times> sidebar_resource) multiset" where
  "mutable_entries (MNode ident name res children) =
     (case res of Some r \<Rightarrow> {#([name], r)#}
      | None \<Rightarrow> under name (sum_list (map (\<lambda>(_, c). mutable_entries c) children)))"

lemma sum_list_mset_cong: "mset xs = mset ys \<Longrightarrow> sum_list xs = sum_list (ys :: 'a :: comm_monoid_add list)"
  by (metis sum_mset_sum_list)

lemma entries_serialize: "entries (serialize_node le node) = mutable_entries node"
proof (induction node)
  case (MNode ident name res children)
  have "sum_list (map entries (sort_by (path_node_le le) (map (\<lambda>(_, c). serialize_node le c) children)))
      = sum_list (map entries (map (\<lambda>(_, c). serialize_node le c) children))"
    by (rule sum_list_mset_cong) (simp only: mset_map mset_sort_by)
  also have "map entries (map (\<lambda>(_, c). serialize_node le c) children) = map (\<lambda>(_, c). mutable_entries c) children"
    using MNode by (force simp: snds.simps)
  finally show ?case by (simp split: option.split)
qed

lemma sum_update:
  fixes f :: "'v \<Rightarrow> 'm multiset"
  shows "sum_list (map (\<lambda>(_, c). f c) (AList.update k v ch)) + (case map_of ch k of None \<Rightarrow> {#} | Some old \<Rightarrow> f old)
    = sum_list (map (\<lambda>(_, c). f c) ch) + f v"
  by (induction ch) (auto simp: union_ac split: option.splits)

fun node_resource :: "mutable_node \<Rightarrow> sidebar_resource option" where
  "node_resource (MNode _ _ res _) = res"

fun node_name :: "mutable_node \<Rightarrow> jsstring" where
  "node_name (MNode _ name _ _) = name"

text \<open>Folders stand under the key of their name and files under the key of their resource.\<close>

fun keyed :: "mutable_node \<Rightarrow> bool" where
  "keyed (MNode ident name res children) \<longleftrightarrow>
     (\<forall>(k, c) \<in> set children. keyed c \<and> (case node_resource c of None \<Rightarrow> k = folder_key (node_name c) | Some r \<Rightarrow> k = leaf_key r))"

lemma keys_differ: "folder_key f \<noteq> leaf_key r"
  by (simp add: folder_key_def leaf_key_def js_def)

lemma folder_key_inj [simp]: "folder_key f = folder_key g \<longleftrightarrow> f = g"
  by (simp add: folder_key_def)

lemma keyed_child:
  "keyed (MNode ident name res children) \<Longrightarrow> (k, c) \<in> set children \<Longrightarrow>
   keyed c \<and> (node_resource c = None \<and> k = folder_key (node_name c) \<or> (\<exists>x. node_resource c = Some x \<and> k = leaf_key x))"
  by (cases "node_resource c") auto

lemma keyed_folder:
  assumes "keyed (MNode ident name res children)" and "map_of children (folder_key folder) = Some c"
  shows "keyed c" "node_resource c = None" "node_name c = folder"
  using keyed_child [OF assms(1) map_of_SomeD [OF assms(2)]] keys_differ [of folder] by auto

lemma leaf_key_inj: "leaf_key r = leaf_key r' \<Longrightarrow> rk_kind r = rk_kind r' \<and> rk_id r = rk_id r'"
  by (cases "rk_kind r"; cases "rk_kind r'") (auto simp: leaf_key_def js_def)

lemma update_mem: "(k', c) \<in> set (AList.update k v ch) \<Longrightarrow> k' = k \<and> c = v \<or> (k', c) \<in> set ch"
  by (induction ch) (auto split: if_splits)

lemma place_keeps_resource:
  "place_resource folders leafName r node = Some node' \<Longrightarrow> node_resource node' = node_resource node \<and> node_name node' = node_name node"
  by (cases node; cases folders) (auto split: option.splits)

lemma keyed_update:
  assumes "\<forall>(k, c) \<in> set children. keyed c \<and> (case node_resource c of None \<Rightarrow> k = folder_key (node_name c) | Some r \<Rightarrow> k = leaf_key r)"
    and "keyed v" "case node_resource v of None \<Rightarrow> k = folder_key (node_name v) | Some r \<Rightarrow> k = leaf_key r"
  shows "keyed (MNode ident name res (AList.update k v children))"
  using assms by (auto dest!: update_mem)

lemma keyed_place: "place_resource folders leafName r node = Some node' \<Longrightarrow> keyed node \<Longrightarrow> node_resource node = None \<Longrightarrow> keyed node'"
proof (induction folders leafName r node arbitrary: node' rule: place_resource.induct)
  case (1 leafName resource ident name res children)
  then show ?case by (auto intro!: keyed_update simp del: keyed.simps(1)) auto
next
  case (2 folder folders leafName resource ident name res children)
  show ?case
  proof (cases "map_of children (folder_key folder)")
    case None
    then obtain e n where n: "encodeURIComponent folder = Some e"
      "place_resource folders leafName resource (MNode (ident @ js ''/'' @ e) folder None []) = Some n"
      "node' = MNode ident name res (AList.update (folder_key folder) n children)"
      using 2 by (auto split: option.splits)
    moreover have "keyed n" by (rule "2.IH"(1) [OF None n(1,2)]) simp_all
    ultimately show ?thesis
      using place_keeps_resource [OF n(2)] "2.prems"(2) by (auto intro!: keyed_update simp del: keyed.simps) auto
  next
    case (Some c)
    then obtain n where n: "place_resource folders leafName resource c = Some n"
      "node' = MNode ident name res (AList.update (folder_key folder) n children)"
      using 2 by (auto split: option.splits)
    have c: "keyed c" "node_resource c = None" "node_name c = folder"
      using keyed_folder [OF "2.prems"(2) Some] by simp_all
    have "keyed n" by (rule "2.IH"(2) [OF Some n(1) c(1,2)])
    then show ?thesis
      using n place_keeps_resource [OF n(1)] c "2.prems"(2) by (auto intro!: keyed_update simp del: keyed.simps) auto
  qed
qed

text \<open>No file of the same kind and identifier stands in the node.\<close>

definition absent :: "sidebar_resource \<Rightarrow> mutable_node \<Rightarrow> bool" where
  "absent r node \<longleftrightarrow> (\<forall>(p, x) \<in># mutable_entries node. leaf_key x \<noteq> leaf_key r)"

lemma in_sum_list: "x \<in># sum_list ms \<longleftrightarrow> (\<exists>m \<in> set ms. x \<in># m)"
  by (induction ms) auto

lemma in_child: "e \<in># mutable_entries c \<Longrightarrow> (k, c) \<in> set children \<Longrightarrow>
    (name # fst e, snd e) \<in># mutable_entries (MNode ident name None children)"
  by (cases e) (force simp: in_sum_list)

lemma absent_child: "absent r (MNode ident name None children) \<Longrightarrow> (k, c) \<in> set children \<Longrightarrow> absent r c"
proof -
  assume a: "absent r (MNode ident name None children)" and c: "(k, c) \<in> set children"
  have "leaf_key (snd e) \<noteq> leaf_key r" if "e \<in># mutable_entries c" for e
    using bspec [OF a [unfolded absent_def] in_child [OF that c]] by simp
  then show ?thesis by (auto simp: absent_def)
qed

lemma absent_key:
  assumes "absent r (MNode ident name None children)" and "keyed (MNode ident name None children)"
  shows "map_of children (leaf_key r) = None"
proof (rule ccontr)
  assume "map_of children (leaf_key r) \<noteq> None"
  then obtain c where c: "(leaf_key r, c) \<in> set children" by (auto dest: map_of_SomeD)
  then obtain x where x: "node_resource c = Some x" "leaf_key r = leaf_key x"
    using keyed_child [OF assms(2) c] keys_differ by metis
  obtain i n ch where "c = MNode i n (Some x) ch" using x(1) by (cases c) auto
  then have "([n], x) \<in># mutable_entries c" by simp
  then show False
    using absent_child [OF assms(1) c] x(2) unfolding absent_def by (metis (lifting) case_prodD)
qed

lemma entries_place:
  "place_resource folders leafName r node = Some node' \<Longrightarrow> keyed node \<Longrightarrow> node_resource node = None \<Longrightarrow> absent r node \<Longrightarrow>
   mutable_entries node' = add_mset (node_name node # folders @ [leafName], r) (mutable_entries node)"
proof (induction folders leafName r node arbitrary: node' rule: place_resource.induct)
  case (1 leafName resource ident name res children)
  let ?leaf = "MNode (ident @ js ''/'' @ leaf_key resource) leafName (Some resource) []"
  have "map_of children (leaf_key resource) = None"
    using 1 absent_key by (metis node_resource.simps)
  then have "sum_list (map (\<lambda>(_, c). mutable_entries c) (AList.update (leaf_key resource) ?leaf children))
      = sum_list (map (\<lambda>(_, c). mutable_entries c) children) + {#([leafName], resource)#}"
    using sum_update [of mutable_entries "leaf_key resource" ?leaf children] by simp
  moreover have "node' = MNode ident name None (AList.update (leaf_key resource) ?leaf children)" "res = None"
    using "1.prems"(1,3) by auto
  ultimately show ?case by simp
next
  case (2 folder folders leafName resource ident name res children)
  show ?case
  proof (cases "map_of children (folder_key folder)")
    case None
    then obtain e n where n: "encodeURIComponent folder = Some e"
      "place_resource folders leafName resource (MNode (ident @ js ''/'' @ e) folder None []) = Some n"
      "node' = MNode ident name res (AList.update (folder_key folder) n children)"
      using 2 by (auto split: option.splits)
    have "mutable_entries n = {#(folder # folders @ [leafName], resource)#}"
      using "2.IH"(1) [OF None n(1,2)] by (simp add: absent_def)
    then show ?thesis
      using sum_update [of mutable_entries "folder_key folder" n children] None n "2.prems"(3) by simp
  next
    case (Some c)
    then obtain n where n: "place_resource folders leafName resource c = Some n"
      "node' = MNode ident name res (AList.update (folder_key folder) n children)"
      using 2 by (auto split: option.splits)
    have mem: "(folder_key folder, c) \<in> set children" by (rule map_of_SomeD [OF Some])
    have c: "keyed c" "node_resource c = None" "node_name c = folder"
      using keyed_folder [OF "2.prems"(2) Some] by simp_all
    have res: "res = None" using "2.prems"(3) by simp
    have "mutable_entries n = add_mset (folder # folders @ [leafName], resource) (mutable_entries c)"
      using "2.IH"(2) [OF Some n(1) c(1,2)] absent_child [OF _ mem] "2.prems"(4) c(3) unfolding res by simp
    then have "sum_list (map (\<lambda>(_, c). mutable_entries c) (AList.update (folder_key folder) n children))
        = add_mset (folder # folders @ [leafName], resource) (sum_list (map (\<lambda>(_, c). mutable_entries c) children))"
      using sum_update [of mutable_entries "folder_key folder" n children] Some by simp
    then show ?thesis using n res by simp
  qed
qed

lemma segments_nonempty: "resource_segments r \<noteq> []"
  by (simp add: resource_segments_def toPathSegments_def Let_def)

definition same_file :: "sidebar_resource \<Rightarrow> resource_kind \<times> jsstring" where
  "same_file r = (rk_kind r, rk_id r)"

lemma place_all_entries:
  "place_all resources node = Some node' \<Longrightarrow> keyed node \<Longrightarrow> node_resource node = None \<Longrightarrow>
   \<forall>r \<in> set resources. absent r node \<Longrightarrow> distinct (map same_file resources) \<Longrightarrow>
   mutable_entries node' = mutable_entries node + mset (map (\<lambda>r. (node_name node # resource_segments r, r)) resources)"
proof (induction resources arbitrary: node)
  case (Cons r rs)
  then obtain n where n: "place_resource (butlast (resource_segments r)) (last (resource_segments r)) r node = Some n"
    "place_all rs n = Some node'" by (auto split: option.splits)
  have e: "mutable_entries n = add_mset (node_name node # resource_segments r, r) (mutable_entries node)"
    using entries_place [OF n(1) Cons.prems(2,3)] Cons.prems(4) segments_nonempty by simp
  have "absent x n" if "x \<in> set rs" for x
  proof -
    have "leaf_key r \<noteq> leaf_key x" using leaf_key_inj [of r x] that Cons.prems(5) by (auto simp: same_file_def)
    then show ?thesis using that Cons.prems(4) by (simp add: absent_def e)
  qed
  then show ?case
    using Cons.IH [OF n(2)] keyed_place [OF n(1) Cons.prems(2,3)] place_keeps_resource [OF n(1)] Cons.prems(3,5) e by simp
qed simp

lemma place_all_keeps: "place_all rs node = Some node' \<Longrightarrow> node_resource node' = node_resource node"
  by (induction rs arbitrary: node) (auto split: option.splits dest: place_keeps_resource)

lemma under_cancel: "image_mset (\<lambda>(p, r). (tl p, r)) (under n es) = es"
  by (simp add: multiset.map_comp comp_def case_prod_unfold)

lemma tree_entries:
  assumes "buildPathTree le resources = Some nodes" and "distinct (map (\<lambda>r. (rk_kind r, rk_id r)) resources)"
  shows "sum_list (map entries nodes) = mset (map (\<lambda>r. (resource_segments r, r)) resources)"
proof -
  obtain base where base: "place_all resources shared_root = Some base" "nodes = node_children (serialize_node le base)"
    using assms(1) by (auto simp: buildPathTree_def)
  have base': "node_resource base = None"
    using place_all_keeps [OF base(1)] by (simp add: shared_root_def)
  have "mutable_entries base = mset (map (\<lambda>r. (node_name shared_root # resource_segments r, r)) resources)"
    using place_all_entries [OF base(1)] assms(2)
    by (simp add: shared_root_def absent_def same_file_def [abs_def])
  then have "entries (serialize_node le base) = under (node_name shared_root) (mset (map (\<lambda>r. (resource_segments r, r)) resources))"
    by (simp add: entries_serialize multiset.map_comp comp_def)
  moreover obtain i n ch where "serialize_node le base = PNode i n None ch"
    using base' by (cases base) auto
  ultimately have "under n (sum_list (map entries nodes)) = under (node_name shared_root) (mset (map (\<lambda>r. (resource_segments r, r)) resources))"
    using base(2) by simp
  from arg_cong [OF this, of "image_mset (\<lambda>(p, r). (tl p, r))"] show ?thesis
    unfolding under_cancel .
qed

section \<open>Where a file is kept\<close>

text \<open>
  The places the paths of the files name, written without the functions of the code: a name has no
  slash, no backslash and no blank at its ends; a file is kept at its segments below the workspace, below the directory of a
  board in the shared directory, below its agent, or at a path of its own.
\<close>

definition clean_name :: "jsstring \<Rightarrow> bool" where
  "clean_name s \<longleftrightarrow> s \<noteq> [] \<and> 47 \<notin> set s \<and> 92 \<notin> set s \<and> \<not> js_white (hd s) \<and> \<not> js_white (last s)"

inductive kept_at :: "sidebar_resource \<Rightarrow> jsstring list \<Rightarrow> bool" where
  workspace: "list_all clean_name segs \<Longrightarrow> segs \<noteq> [] \<Longrightarrow>
    rk_path r = path_of [js ''home'', js ''node'', js ''.openclaw'', js ''workspace''] @ path_of segs \<Longrightarrow> kept_at r segs"
| shared: "list_all clean_name (home @ board # segs) \<Longrightarrow> segs \<noteq> [] \<Longrightarrow> js ''.local'' \<notin> set home \<Longrightarrow>
    take 4 home \<noteq> [js ''home'', js ''node'', js ''.openclaw'', js ''workspace''] \<Longrightarrow>
    rk_path r = path_of home @ path_of [js ''.local'', js ''linpo'', board] @ path_of segs \<Longrightarrow> kept_at r segs"
| agent: "list_all clean_name segs \<Longrightarrow> segs \<noteq> [] \<Longrightarrow> clean_name (rk_agent_id r) \<Longrightarrow>
    rk_path r = js ''agent://'' @ rk_agent_id r @ path_of segs \<Longrightarrow> kept_at r segs"
| absolute: "list_all clean_name segs \<Longrightarrow> segs \<noteq> [] \<Longrightarrow> js ''.local'' \<notin> set segs \<Longrightarrow>
    take 4 segs \<noteq> [js ''home'', js ''node'', js ''.openclaw'', js ''workspace''] \<Longrightarrow> rk_path r = path_of segs \<Longrightarrow> kept_at r segs"
| relative: "list_all clean_name (s # segs) \<Longrightarrow> js ''.local'' \<notin> set segs \<Longrightarrow> rk_path r = s @ path_of segs \<Longrightarrow> kept_at r (s # segs)"

lemma path_of_simps [simp]: "path_of [] = []" "path_of (s # ss) = 47 # s @ path_of ss" "path_of (xs @ ys) = path_of xs @ path_of ys"
  by (simp_all add: path_of_def)

lemma path_of_Nil_iff [simp]: "path_of ss = [] \<longleftrightarrow> ss = []"
  by (cases ss) simp_all

lemma clean_path_text: "list_all clean_name segs \<Longrightarrow> 92 \<notin> set (path_of segs) \<and> (segs \<noteq> [] \<longrightarrow> \<not> js_white (last (path_of segs)))"
  by (induction segs) (auto simp: clean_name_def last_append)

lemma trim_forward:
  assumes "92 \<notin> set t" and "\<not> js_white (hd t)" and "\<not> js_white (last t)"
  shows "trim (forward t) = t"
proof -
  have "forward t = t" using assms(1) by (auto simp: forward_def intro: map_idI)
  then show ?thesis using assms(2,3) by (cases "t = []") (simp_all add: trim_def dropWhile_hd hd_rev)
qed

lemma clean_relative: "list_all clean_name (s # segs) \<Longrightarrow> trim (forward (s @ path_of segs)) = s @ path_of segs"
  using clean_path_text [of segs] by (intro trim_forward) (auto simp: clean_name_def last_append)

lemma clean_absolute: "list_all clean_name segs \<Longrightarrow> segs \<noteq> [] \<Longrightarrow> trim (forward (path_of segs)) = path_of segs"
  using clean_path_text [of segs] by (intro trim_forward) (auto simp: neq_Nil_conv js_white_def)

lemma clean_segments: "list_all clean_name (s # segs) \<Longrightarrow> toPathSegments (s @ path_of segs) fallback = s # segs"
proof -
  assume clean: "list_all clean_name (s # segs)"
  have kept: "trim x \<noteq> []" if "x \<in> set (s # segs)" for x
    using that clean by (auto simp: list_all_iff clean_name_def trim_def dropWhile_hd hd_rev)
  have "js_split (js ''/'') (s @ path_of segs) = s # segs" using clean by (intro split_path) (auto simp: list_all_iff clean_name_def)
  moreover have "filter (\<lambda>x. trim x \<noteq> []) (s # segs) = s # segs" using kept by (simp add: filter_True)
  moreover have "s \<noteq> []" using clean by (simp add: clean_name_def)
  ultimately show ?thesis using clean_relative [OF clean] by (simp add: toPathSegments_def)
qed

lemma strip_clean: "clean_name s \<Longrightarrow> strip_leading (s @ t) = s @ t" "clean_name s \<Longrightarrow> strip_leading (47 # s @ t) = s @ t"
  by (auto simp: strip_leading_def clean_name_def neq_Nil_conv)

lemma takeWhile_free: "47 \<notin> set s \<Longrightarrow> takeWhile (\<lambda>c. c \<noteq> 47) (s @ t) = s @ takeWhile (\<lambda>c. c \<noteq> 47) t"
  by (induction s) auto

lemma first_segment: "47 \<notin> set s \<Longrightarrow> 47 \<notin> set t \<Longrightarrow> s @ path_of ss = t @ 47 # w \<Longrightarrow> s = t \<and> path_of ss = 47 # w"
proof -
  assume free: "47 \<notin> set s" "47 \<notin> set t" and eq: "s @ path_of ss = t @ 47 # w"
  have "takeWhile (\<lambda>c. c \<noteq> 47) (s @ path_of ss) = s" using free(1) by (simp add: takeWhile_free) (cases ss; simp)
  moreover have "takeWhile (\<lambda>c. c \<noteq> 47) (t @ 47 # w) = t" using free(2) by (simp add: takeWhile_free)
  ultimately have "s = t" using eq by simp
  then show ?thesis using eq by simp
qed

abbreviation shared_marker :: jsstring where "shared_marker \<equiv> 47 # js ''.local'' @ 47 # js ''linpo'' @ [47]"

lemma marker_paths: "js ''/.local/linpo/'' = shared_marker" "WORKSPACE_ROOT_PATH = path_of [js ''home'', js ''node'', js ''.openclaw'', js ''workspace''] @ [47]"
  by (simp_all add: WORKSPACE_ROOT_PATH_def js_def)

lemma after_plain: "47 \<notin> set s \<Longrightarrow> after_first (47 # m) (s @ t) = after_first (47 # m) t"
  by (induction s) (auto simp: starts_with_def)

lemma marker_at: "47 \<notin> set s \<Longrightarrow> s \<noteq> js ''.local'' \<Longrightarrow> \<not> starts_with (47 # s @ path_of ss) shared_marker"
  using first_segment [of s "js ''.local''" ss] by (auto simp: starts_with_iff js_def)

lemma marker_absent: "list_all clean_name segs \<Longrightarrow> js ''.local'' \<notin> set segs \<Longrightarrow> after_first shared_marker (path_of segs) = None"
proof (induction segs)
  case (Cons s segs)
  then show ?case using marker_at [of s segs] by (auto simp: clean_name_def after_plain)
qed simp

lemma marker_found:
  assumes "list_all clean_name home" and "js ''.local'' \<notin> set home"
  shows "after_first shared_marker (path_of home @ path_of (js ''.local'' # js ''linpo'' # board # segs)) = Some (board @ path_of segs)"
  using assms
proof (induction home)
  case Nil
  have "starts_with (shared_marker @ t) shared_marker" "drop (length shared_marker) (shared_marker @ t) = t" for t
    by (simp_all add: starts_with_def js_def)
  from this [of "board @ path_of segs"] show ?case by simp
next
  case (Cons s home)
  have "\<not> starts_with (47 # s @ path_of (home @ js ''.local'' # js ''linpo'' # board # segs)) shared_marker"
    using Cons.prems by (intro marker_at) (auto simp: clean_name_def)
  then show ?case using Cons by (simp add: clean_name_def after_plain)
qed

lemma workspace_starts:
  assumes "list_all clean_name segs" and "starts_with (path_of segs) WORKSPACE_ROOT_PATH"
  shows "take 4 segs = [js ''home'', js ''node'', js ''.openclaw'', js ''workspace'']"
proof -
  have step: "list_all clean_name ss \<Longrightarrow> 47 \<notin> set t \<Longrightarrow> path_of ss = 47 # t @ 47 # w \<Longrightarrow>
      \<exists>rest. ss = t # rest \<and> list_all clean_name rest \<and> path_of rest = 47 # w" for ss t w
    using first_segment [of "hd ss" t "tl ss" w] by (cases ss) (auto simp: clean_name_def)
  have free: "47 \<notin> set (js ''home'')" "47 \<notin> set (js ''node'')" "47 \<notin> set (js ''.openclaw'')" "47 \<notin> set (js ''workspace'')"
    by (simp_all add: js_def)
  obtain w where w: "path_of segs = 47 # js ''home'' @ 47 # js ''node'' @ 47 # js ''.openclaw'' @ 47 # js ''workspace'' @ 47 # w"
    using assms(2) by (auto simp: starts_with_iff marker_paths)
  from step [OF assms(1) free(1) w] obtain r1 where r1: "segs = js ''home'' # r1" "list_all clean_name r1"
    "path_of r1 = 47 # js ''node'' @ 47 # js ''.openclaw'' @ 47 # js ''workspace'' @ 47 # w" by blast
  from step [OF r1(2) free(2) r1(3)] obtain r2 where r2: "r1 = js ''node'' # r2" "list_all clean_name r2"
    "path_of r2 = 47 # js ''.openclaw'' @ 47 # js ''workspace'' @ 47 # w" by blast
  from step [OF r2(2) free(3) r2(3)] obtain r3 where r3: "r2 = js ''.openclaw'' # r3" "list_all clean_name r3"
    "path_of r3 = 47 # js ''workspace'' @ 47 # w" by blast
  from step [OF r3(2) free(4) r3(3)] obtain r4 where "r3 = js ''workspace'' # r4" by blast
  then show ?thesis using r1(1) r2(1) r3(1) by (simp add: eval_nat_numeral)
qed

lemma not_agent: "s \<noteq> [] \<Longrightarrow> 47 \<notin> set s \<Longrightarrow> list_all clean_name segs \<Longrightarrow> \<not> starts_with (s @ path_of segs) (js ''agent://'')"
proof
  assume "s \<noteq> []" and s: "47 \<notin> set s" and clean: "list_all clean_name segs" and starts: "starts_with (s @ path_of segs) (js ''agent://'')"
  have free: "47 \<notin> set (js ''agent:'')" by (simp add: js_def)
  obtain w where "s @ path_of segs = js ''agent://'' @ w" using starts by (auto simp: starts_with_iff)
  also have "\<dots> = js ''agent:'' @ 47 # 47 # w" by (simp add: js_def)
  finally have "path_of segs = 47 # 47 # w" using first_segment [OF s free] by blast
  then show False using clean by (cases segs) (auto simp: clean_name_def neq_Nil_conv)
qed

lemma known_root:
  assumes "trim (forward t) = t" and "t \<noteq> []"
  shows "resolveKnownRootRelativePath t =
    (if starts_with t WORKSPACE_ROOT_PATH then Some (strip_leading (drop (length WORKSPACE_ROOT_PATH) t))
     else case after_first shared_marker t of None \<Rightarrow> None
       | Some rest \<Rightarrow> (case after_first [47] rest of None \<Rightarrow> Some [] | Some file \<Rightarrow> Some (strip_leading file)))"
  using assms by (simp add: resolveKnownRootRelativePath_def SHARED_ROOT_MARKERS_def marker_paths(1) js_slash Let_def split: option.split)

lemma normal_path:
  assumes "trim (forward (rk_path r)) = t" and "t \<noteq> []" and "\<not> starts_with t (js ''agent://'')"
  shows "resolveKnownRootRelativePath t = Some rel \<Longrightarrow> rel \<noteq> [] \<Longrightarrow> normalizePathForWorkspaceTree r = rel"
    "resolveKnownRootRelativePath t = None \<Longrightarrow>
       normalizePathForWorkspaceTree r = (if starts_with t (js ''/'') then strip_leading t else t)"
  using assms by (simp_all add: normalizePathForWorkspaceTree_def Let_def str_or_def)

lemma kept_segments: "kept_at r segs \<Longrightarrow> resource_segments r = segs"
proof (induction rule: kept_at.induct)
  case (workspace segs r)
  let ?t = "path_of ([js ''home'', js ''node'', js ''.openclaw'', js ''workspace''] @ segs)"
  obtain s ss where segs: "segs = s # ss" using workspace(2) by (cases segs) auto
  have "clean_name (js ''home'')" "clean_name (js ''node'')" "clean_name (js ''.openclaw'')" "clean_name (js ''workspace'')"
    by (simp_all add: clean_name_def js_def js_white_def)
  then have "trim (forward ?t) = ?t" using workspace(1) by (intro clean_absolute) simp_all
  moreover have "?t = WORKSPACE_ROOT_PATH @ s @ path_of ss" by (simp add: marker_paths segs)
  ultimately have t: "trim (forward (WORKSPACE_ROOT_PATH @ s @ path_of ss)) = WORKSPACE_ROOT_PATH @ s @ path_of ss" by metis
  have "strip_leading (s @ path_of ss) = s @ path_of ss" using strip_clean(1) workspace(1) segs by simp
  then have "resolveKnownRootRelativePath (WORKSPACE_ROOT_PATH @ s @ path_of ss) = Some (s @ path_of ss)"
    using known_root [OF t] workspace(1) segs by (simp add: starts_with_iff clean_name_def)
  moreover have "\<not> starts_with (WORKSPACE_ROOT_PATH @ w) (js ''agent://'')" for w
    by (simp add: starts_with_def WORKSPACE_ROOT_PATH_def js_def)
  moreover have "rk_path r = WORKSPACE_ROOT_PATH @ s @ path_of ss" by (simp add: workspace(3) segs marker_paths)
  ultimately have "normalizePathForWorkspaceTree r = s @ path_of ss"
    using normal_path(1) [of r "WORKSPACE_ROOT_PATH @ s @ path_of ss"] t workspace(1) segs by (simp add: clean_name_def)
  then show ?case using clean_segments [of s ss] workspace(1) by (simp add: resource_segments_def segs)
next
  case (shared home board segs r)
  let ?t = "path_of (home @ [js ''.local'', js ''linpo'', board] @ segs)"
  obtain s ss where segs: "segs = s # ss" using shared(2) by (cases segs) auto
  have s: "s \<noteq> []" using shared(1) segs by (simp add: clean_name_def)
  have "clean_name (js ''.local'')" "clean_name (js ''linpo'')" by (simp_all add: clean_name_def js_def js_white_def)
  then have all: "list_all clean_name (home @ [js ''.local'', js ''linpo'', board] @ segs)" using shared(1) by simp
  have t: "trim (forward ?t) = ?t" by (rule clean_absolute [OF all]) simp
  have nonempty: "?t \<noteq> []" by simp
  have "take 4 (home @ [js ''.local'', js ''linpo'', board] @ segs) \<noteq> [js ''home'', js ''node'', js ''.openclaw'', js ''workspace'']"
    using shared(4) by (auto simp: take_append take_Cons' append_eq_Cons_conv js_def split: if_splits)
  then have "\<not> starts_with ?t WORKSPACE_ROOT_PATH" using workspace_starts [OF all] by blast
  moreover have "after_first shared_marker ?t = Some (board @ path_of segs)"
    using marker_found [of home board segs] shared(1,3) by simp
  moreover have "after_first [47] (board @ path_of segs) = Some (s @ path_of ss)"
    using shared(1) by (simp add: after_plain clean_name_def segs starts_with_def)
  ultimately have "resolveKnownRootRelativePath ?t = Some (s @ path_of ss)"
    using known_root [OF t nonempty] strip_clean(1) [of s "path_of ss"] shared(1) by (simp add: segs)
  moreover have "\<not> starts_with ?t (js ''agent://'')" by (cases home) (simp_all add: starts_with_def js_def)
  moreover have "rk_path r = ?t" using shared(5) by simp
  ultimately have "normalizePathForWorkspaceTree r = s @ path_of ss"
    using normal_path(1) [of r ?t "s @ path_of ss"] t nonempty s by (metis append_is_Nil_conv)
  then show ?case using clean_segments [of s ss] shared(1) by (simp add: resource_segments_def segs)
next
  case (agent segs r)
  obtain s ss where segs: "segs = s # ss" using agent(2) by (cases segs) auto
  let ?t = "js ''agent://'' @ rk_agent_id r @ path_of segs"
  have "\<not> js_white (last ?t)" using clean_path_text [OF agent(1)] agent(2) by simp
  moreover have "92 \<notin> set ?t" using clean_path_text [OF agent(1)] agent(3) by (simp add: clean_name_def js_def)
  moreover have "\<not> js_white (hd ?t)" by (simp add: js_def js_white_def)
  ultimately have t: "trim (forward ?t) = ?t" by (intro trim_forward)
  have "starts_with ?t (js ''agent://'')" "drop (length (js ''agent://'')) ?t = rk_agent_id r @ path_of segs"
    by (simp_all add: starts_with_iff)
  moreover have "strip_leading (rk_agent_id r @ path_of segs) = rk_agent_id r @ path_of segs" using strip_clean(1) [OF agent(3)] .
  moreover have "starts_with (rk_agent_id r @ path_of segs) (rk_agent_id r @ js ''/'')"
    "drop (length (rk_agent_id r @ js ''/'')) (rk_agent_id r @ path_of segs) = s @ path_of ss"
    by (simp_all add: segs starts_with_iff js_slash)
  ultimately have "normalizePathForWorkspaceTree r = s @ path_of ss"
    using t agent(1,3) by (simp add: normalizePathForWorkspaceTree_def agent(4) Let_def segs clean_name_def str_or_def del: append_assoc)
  then show ?case using clean_segments [of s ss] agent(1) by (simp add: resource_segments_def segs)
next
  case (absolute segs r)
  obtain s ss where segs: "segs = s # ss" using absolute(2) by (cases segs) auto
  have t: "trim (forward (path_of segs)) = path_of segs" by (rule clean_absolute) (use absolute in simp_all)
  have "\<not> starts_with (path_of segs) WORKSPACE_ROOT_PATH" using workspace_starts [OF absolute(1)] absolute(4) by blast
  moreover have "after_first shared_marker (path_of segs) = None" by (rule marker_absent) (use absolute in simp_all)
  ultimately have "resolveKnownRootRelativePath (path_of segs) = None" using known_root [OF t] absolute(2) by simp
  moreover have "\<not> starts_with (path_of segs) (js ''agent://'')" "starts_with (path_of segs) (js ''/'')"
    by (simp_all add: segs starts_with_def js_def)
  ultimately have "normalizePathForWorkspaceTree r = strip_leading (path_of segs)"
    using normal_path(2) [of r "path_of segs"] t absolute(2,5) by simp
  then show ?case
    using clean_segments [of s ss] strip_clean(2) [of s "path_of ss"] absolute(1) by (simp add: resource_segments_def segs)
next
  case (relative s segs r)
  let ?t = "s @ path_of segs"
  have t: "trim (forward ?t) = ?t" by (rule clean_relative) (rule relative)
  have s: "s \<noteq> []" "47 \<notin> set s" using relative(1) by (simp_all add: clean_name_def)
  then have "\<not> starts_with ?t WORKSPACE_ROOT_PATH" "\<not> starts_with ?t (js ''/'')"
    by (auto simp: neq_Nil_conv starts_with_def WORKSPACE_ROOT_PATH_def js_def)
  moreover have "after_first shared_marker ?t = None" using s marker_absent [of segs] relative(1,2) by (simp add: after_plain)
  ultimately have "resolveKnownRootRelativePath ?t = None" using known_root [OF t] s by simp
  moreover have "\<not> starts_with ?t (js ''agent://'')" using s relative(1) by (intro not_agent) simp_all
  ultimately have "normalizePathForWorkspaceTree r = ?t"
    using normal_path(2) [of r ?t] t s \<open>\<not> starts_with ?t (js ''/'')\<close> relative(3) by simp
  then show ?case using clean_segments [OF relative(1)] by (simp add: resource_segments_def)
qed


section \<open>The folders of the tree\<close>

text \<open>The paths of the folders below a node, and the nodes whose identifiers are built from them.\<close>

fun folder_paths :: "mutable_node \<Rightarrow> jsstring list list" where
  "folder_paths (MNode ident name res children) =
     concat (map (\<lambda>(_, c). if node_resource c = None then [node_name c] # map (\<lambda>p. node_name c # p) (folder_paths c) else []) children)"

fun node_id :: "mutable_node \<Rightarrow> jsstring" where
  "node_id (MNode ident _ _ _) = ident"

fun tidy :: "mutable_node \<Rightarrow> bool" where
  "tidy (MNode ident name res children) \<longleftrightarrow> distinct (map fst children) \<and>
     (\<forall>(k, c) \<in> set children. tidy c \<and> (node_resource c = None \<longrightarrow> k = folder_key (node_name c) \<and>
        encodeURIComponent (node_name c) = Some (enc (node_name c)) \<and> node_id c = ident @ js ''/'' @ enc (node_name c)))"

lemma tidy_update:
  assumes "tidy (MNode ident name res children)" and "tidy v"
    and "node_resource v = None \<Longrightarrow> k = folder_key (node_name v) \<and>
        encodeURIComponent (node_name v) = Some (enc (node_name v)) \<and> node_id v = ident @ js ''/'' @ enc (node_name v)"
  shows "tidy (MNode ident name res (AList.update k v children))"
proof -
  have "distinct (map fst (AList.update k v children))" using assms(1) by (simp add: distinct_update)
  moreover have "tidy c \<and> (node_resource c = None \<longrightarrow> k' = folder_key (node_name c) \<and>
        encodeURIComponent (node_name c) = Some (enc (node_name c)) \<and> node_id c = ident @ js ''/'' @ enc (node_name c))"
    if "(k', c) \<in> set (AList.update k v children)" for k' c
    using update_mem [OF that] assms by auto
  ultimately show ?thesis by auto
qed

lemma place_keeps_id: "place_resource folders leafName r node = Some node' \<Longrightarrow> node_id node' = node_id node"
  by (cases node; cases folders) (auto split: option.splits)

lemma tidy_child:
  "tidy (MNode ident name res children) \<Longrightarrow> (k, c) \<in> set children \<Longrightarrow> tidy c \<and> (node_resource c = None \<longrightarrow> k = folder_key (node_name c) \<and>
        encodeURIComponent (node_name c) = Some (enc (node_name c)) \<and> node_id c = ident @ js ''/'' @ enc (node_name c))"
  by auto

lemma tidy_place: "place_resource folders leafName r node = Some node' \<Longrightarrow> tidy node \<Longrightarrow> tidy node'"
proof (induction folders leafName r node arbitrary: node' rule: place_resource.induct)
  case (1 leafName resource ident name res children)
  then show ?case by (auto intro!: tidy_update simp del: tidy.simps) simp
next
  case (2 folder folders leafName resource ident name res children)
  show ?case
  proof (cases "map_of children (folder_key folder)")
    case None
    then obtain e n where n: "encodeURIComponent folder = Some e"
      "place_resource folders leafName resource (MNode (ident @ js ''/'' @ e) folder None []) = Some n"
      "node' = MNode ident name res (AList.update (folder_key folder) n children)"
      using 2 by (auto split: option.splits)
    have "tidy n" by (rule "2.IH"(1) [OF None n(1,2)]) simp
    then show ?thesis
      using n place_keeps_resource [OF n(2)] place_keeps_id [OF n(2)] "2.prems"(2)
      by (auto intro!: tidy_update simp: encode_enc simp del: tidy.simps)
  next
    case (Some c)
    then obtain n where n: "place_resource folders leafName resource c = Some n"
      "node' = MNode ident name res (AList.update (folder_key folder) n children)"
      using 2 by (auto split: option.splits)
    note c = tidy_child [OF "2.prems"(2) map_of_SomeD [OF Some]]
    have "tidy n" by (rule "2.IH"(2) [OF Some n(1)]) (use c in simp)
    then show ?thesis
      using n place_keeps_resource [OF n(1)] place_keeps_id [OF n(1)] "2.prems"(2) c
      by (auto intro!: tidy_update simp del: tidy.simps)
  qed
qed

lemma tidy_place_all: "place_all rs node = Some node' \<Longrightarrow> tidy node \<Longrightarrow> tidy node'"
  by (induction rs arbitrary: node) (auto split: option.splits intro: tidy_place)

text \<open>The identifier of a folder is that of the node above it and its encoded path.\<close>

definition path_id :: "jsstring \<Rightarrow> jsstring list \<Rightarrow> jsstring" where
  "path_id ident p = ident @ path_of (map enc p)"

lemma path_id_Cons: "path_id (ident @ js ''/'' @ enc f) p = path_id ident (f # p)"
  by (simp add: path_id_def path_of_def js_slash)

lemma path_id_Nil: "path_id ident [] = ident"
  by (simp add: path_id_def path_of_def)

lemma mset_concat_cong: "(\<And>x. x \<in> set xs \<Longrightarrow> mset (f x) = mset (g x)) \<Longrightarrow> mset (concat (map f xs)) = mset (concat (map g xs))"
  by (induction xs) auto

lemma mset_concat_perm: "mset xs = mset ys \<Longrightarrow> mset (concat (map f xs)) = mset (concat (map f ys))"
  by (simp add: mset_concat) (metis mset_map sum_mset_sum_list)

lemma walk_serialize:
  "tidy node \<Longrightarrow> node_resource node = None \<Longrightarrow>
   mset (walk_folders (serialize_node le node)) = mset (map (path_id (node_id node)) ([] # folder_paths node))"
proof (induction node)
  case (MNode ident name res children)
  let ?drawn = "map (\<lambda>(_, c). serialize_node le c) children"
  let ?below = "\<lambda>(k, c). if node_resource c = None then [node_name c] # map (\<lambda>p. node_name c # p) (folder_paths c) else []"
  have child: "mset (walk_folders (serialize_node le c)) = mset (map (path_id ident) (?below (k, c)))" if "(k, c) \<in> set children" for k c
  proof (cases "node_resource c")
    case None
    note t = tidy_child [OF MNode.prems(1) that]
    have "mset (walk_folders (serialize_node le c)) = mset (map (path_id (node_id c)) ([] # folder_paths c))"
      using MNode.IH [OF that] t None by simp
    moreover have "path_id (node_id c) = (\<lambda>p. path_id ident (node_name c # p))"
      using t None path_id_Cons by (simp add: fun_eq_iff)
    ultimately show ?thesis using None by (simp add: comp_def)
  next
    case (Some x)
    then show ?thesis by (cases c) simp
  qed
  have "mset (concat (map walk_folders (sort_by (path_node_le le) ?drawn))) = mset (concat (map walk_folders ?drawn))"
    by (rule mset_concat_perm) simp
  also have "concat (map walk_folders ?drawn) = concat (map (\<lambda>(k, c). walk_folders (serialize_node le c)) children)"
    by (simp add: comp_def case_prod_unfold)
  also have "mset \<dots> = mset (concat (map (\<lambda>kc. map (path_id ident) (?below kc)) children))"
    by (rule mset_concat_cong) (use child in force)
  also have "concat (map (\<lambda>kc. map (path_id ident) (?below kc)) children) = map (path_id ident) (concat (map ?below children))"
    by (simp add: map_concat comp_def)
  finally show ?case using MNode.prems(2) by (simp add: path_id_Nil)
qed

lemma folder_paths_distinct: "tidy node \<Longrightarrow> distinct (folder_paths node) \<and> [] \<notin> set (folder_paths node)"
proof (induction node)
  case (MNode ident name res children)
  let ?below = "\<lambda>(k, c). if node_resource c = None then [node_name c] # map (\<lambda>p. node_name c # p) (folder_paths c) else []"
  have "distinct (concat (map ?below cs))" if "set cs \<subseteq> set children" "distinct (map fst cs)" for cs
    using that
  proof (induction cs)
    case (Cons kc cs)
    obtain k c where kc: "kc = (k, c)" by force
    then have mem: "(k, c) \<in> set children" using Cons.prems(1) by simp
    note t = tidy_child [OF MNode.prems mem]
    have "distinct (?below kc)"
      using MNode.IH [OF mem] t kc by (auto simp: distinct_map intro: inj_onI)
    moreover have "set (?below kc) \<inter> set (concat (map ?below cs)) = {}"
    proof (rule ccontr)
      assume "set (?below kc) \<inter> set (concat (map ?below cs)) \<noteq> {}"
      then obtain p k' c' where p: "p \<in> set (?below (k, c))" "(k', c') \<in> set cs" "p \<in> set (?below (k', c'))"
        using kc by auto
      then have "node_resource c = None" "node_resource c' = None" "hd p = node_name c" "hd p = node_name c'"
        by (auto split: if_splits)
      moreover have "(k', c') \<in> set children" using p(2) Cons.prems(1) by auto
      ultimately have "k = k'" using t tidy_child [OF MNode.prems, of k' c'] by metis
      then show False using p(2) Cons.prems(2) kc by (force simp: image_iff)
    qed
    ultimately show ?case using Cons by simp
  qed simp
  then show ?case using MNode.prems by auto
qed
lemma folder_paths_encode:
  "tidy node \<Longrightarrow> p \<in> set (folder_paths node) \<Longrightarrow> \<forall>s \<in> set p. encodeURIComponent s = Some (enc s)"
proof (induction node arbitrary: p)
  case (MNode ident name res children)
  then obtain k c where c: "(k, c) \<in> set children" "node_resource c = None"
    and p: "p = [node_name c] \<or> (\<exists>p'. p = node_name c # p' \<and> p' \<in> set (folder_paths c))"
    by (auto split: if_splits)
  note t = tidy_child [OF MNode.prems(1) c(1)]
  show ?case using p t c(2) MNode.IH [OF c(1)] by auto
qed

text \<open>No two folders of the tree have the same identifier, so folding one folds no other.\<close>

lemma folder_ids_distinct:
  assumes "buildPathTree le resources = Some nodes"
  shows "distinct (concat (map walk_folders nodes)) \<and> collectFolderNodeIds nodes = concat (map walk_folders nodes)"
proof -
  obtain base where base: "place_all resources shared_root = Some base" "nodes = node_children (serialize_node le base)"
    using assms(1) by (auto simp: buildPathTree_def)
  have res: "node_resource base = None"
    using place_all_keeps [OF base(1)] by (simp add: shared_root_def)
  have tidy: "tidy base" using tidy_place_all [OF base(1)] by (simp add: shared_root_def)
  let ?ps = "[] # folder_paths base"
  have "inj_on (path_id (node_id base)) (set ?ps)"
  proof (rule inj_onI)
    fix p p' assume "p \<in> set ?ps" "p' \<in> set ?ps" "path_id (node_id base) p = path_id (node_id base) p'"
    moreover have "\<forall>s \<in> set q. encodeURIComponent s = Some (enc s)" if "q \<in> set ?ps" for q
      using that folder_paths_encode [OF tidy] by auto
    ultimately show "p = p'" using path_of_encoded_inj by (metis path_id_def append_same_eq same_append_eq)
  qed
  then have "distinct (map (path_id (node_id base)) ?ps)"
    using folder_paths_distinct [OF tidy] by (simp add: distinct_map)
  then have "distinct (walk_folders (serialize_node le base))"
    using mset_eq_imp_distinct_iff [OF walk_serialize [OF tidy res]] by blast
  then have "distinct (concat (map walk_folders nodes))"
    using base(2) res by (cases base) auto
  then show ?thesis by (simp add: collectFolderNodeIds_def uniq_distinct)
qed

text \<open>The tree is drawn unless the name of a folder holds a lone surrogate.\<close>

lemma place_succeeds:
  "\<forall>f \<in> set folders. encodeURIComponent f \<noteq> None \<Longrightarrow> place_resource folders leafName r node \<noteq> None"
  by (induction folders leafName r node rule: place_resource.induct) (auto split: option.splits)

lemma tree_is_drawn:
  "\<forall>r \<in> set resources. \<forall>f \<in> set (resource_segments r). encodeURIComponent f \<noteq> None \<Longrightarrow> buildPathTree le resources \<noteq> None"
proof -
  have "place_all rs node \<noteq> None" if "\<forall>r \<in> set rs. \<forall>f \<in> set (resource_segments r). encodeURIComponent f \<noteq> None" for rs node
    using that
  proof (induction rs arbitrary: node)
    case (Cons r rs)
    have "place_resource (butlast (resource_segments r)) (last (resource_segments r)) r node \<noteq> None"
      by (rule place_succeeds) (use Cons.prems in_set_butlastD in fastforce)
    then show ?case using Cons by auto
  qed simp
  then show "\<forall>r \<in> set resources. \<forall>f \<in> set (resource_segments r). encodeURIComponent f \<noteq> None \<Longrightarrow> buildPathTree le resources \<noteq> None"
    by (simp add: buildPathTree_def)
qed

section \<open>Facts about the functions on paths and sizes\<close>

lemma fixed_units_nearest: "0 < d \<Longrightarrow> \<bar>2 * int d * int (fixed_units k n d) - 2 * int n * 10 ^ k\<bar> \<le> int d"
proof -
  assume d: "0 < d"
  let ?m = "2 * n * 10 ^ k + d"
  have "2 * d * (?m div (2 * d)) \<le> ?m" by simp
  moreover have "?m < 2 * d * (?m div (2 * d)) + 2 * d"
    using dividend_less_times_div [of "2 * d" ?m] d by linarith
  ultimately have "int (2 * d * fixed_units k n d) \<le> int ?m" "int ?m < int (2 * d * fixed_units k n d) + int (2 * d)"
    unfolding fixed_units_def by linarith+
  then show ?thesis by (simp add: mult.assoc)
qed

lemma forward_forward [simp]: "forward (forward s) = forward s"
  by (simp add: forward_def)

section \<open>An instance\<close>

definition sample_resource :: "string \<Rightarrow> string \<Rightarrow> sidebar_resource" where
  "sample_resource ident path = \<lparr>rk_kind = TaskResource, rk_id = js ident, rk_agent_id = [], rk_agent_name = [],
     rk_title = js ''file'', rk_path = js path, rk_exists = True, rk_updated_at = [], rk_icon = TextIcon, rk_aria_label = []\<rparr>"

lemma sample_segments:
  "resource_segments (sample_resource ''1'' ''/root/.local/linpo/default/docs/a.md'') = [js ''docs'', js ''a.md'']"
  "resource_segments (sample_resource ''2'' ''docs/b.md'') = [js ''docs'', js ''b.md'']"
  by code_simp+

lemma sample_tree:
  "\<exists>nodes. buildPathTree (\<lambda>_ _. True)
     [sample_resource ''1'' ''/root/.local/linpo/default/docs/a.md'', sample_resource ''2'' ''docs/b.md''] = Some nodes"
proof -
  have "safe_ascii s \<Longrightarrow> encodeURIComponent (js s) \<noteq> None" if "safe_ascii = (\<lambda>s. list_all (\<lambda>c. component_safe (of_char c)) s)" for s safe_ascii
    using that encode_ascii [of "js s"] by (auto simp: js_def list_all_iff unat_of_char_16)
  then have enc: "list_all (\<lambda>c. component_safe (of_char c)) s \<Longrightarrow> encodeURIComponent (js s) \<noteq> None" for s by blast
  have "encodeURIComponent (js ''docs'') \<noteq> None" "encodeURIComponent (js ''a.md'') \<noteq> None" "encodeURIComponent (js ''b.md'') \<noteq> None"
    by (rule enc, code_simp)+
  then have "buildPathTree (\<lambda>_ _. True)
      [sample_resource ''1'' ''/root/.local/linpo/default/docs/a.md'', sample_resource ''2'' ''docs/b.md''] \<noteq> None"
    by (intro tree_is_drawn) (simp add: sample_segments)
  then show ?thesis by blast
qed

lemma sample_kept:
  "kept_at (sample_resource ''1'' ''/root/.local/linpo/default/docs/a.md'') [js ''docs'', js ''a.md'']"
  "kept_at (sample_resource ''2'' ''docs/b.md'') [js ''docs'', js ''b.md'']"
proof -
  show "kept_at (sample_resource ''1'' ''/root/.local/linpo/default/docs/a.md'') [js ''docs'', js ''a.md'']"
    by (rule kept_at.shared [of "[js ''root'']" "js ''default''"]) (simp_all add: sample_resource_def clean_name_def js_def js_white_def)
  show "kept_at (sample_resource ''2'' ''docs/b.md'') [js ''docs'', js ''b.md'']"
    by (rule kept_at.relative) (simp_all add: sample_resource_def clean_name_def js_def js_white_def)
qed


theorem folder_ids_distinct_witness:
  "\<exists>nodes. buildPathTree (\<lambda>_ _. True)
     [sample_resource ''1'' ''/root/.local/linpo/default/docs/a.md'', sample_resource ''2'' ''docs/b.md''] = Some nodes \<and>
     distinct (concat (map walk_folders nodes))"
  using sample_tree folder_ids_distinct by blast


end
