(* ===== verification/FilesPage.thy ===== *)
theory FilesPage imports FileTree begin

text \<open>
  \<open>components/InstanceFilesPage.tsx\<close> and \<open>useSidebarResize.ts\<close>: the page of the instance files. Its
  React state is a record, every handler and every effect a function on it; a handler that awaits a
  call is split at the await, and what its closure has read before is the context it goes on with.
  The calls a step sends are returned with the state. \<open>le\<close> is \<open>localeCompare(_, 'zh-CN') <= 0\<close>.
\<close>

section \<open>State and calls\<close>

record selected_resource =
  se_kind :: resource_kind
  se_id :: jsstring

text \<open>
  \<open>fp_run\<close> counts the runs of the preview effect: the flag \<open>cancelled\<close> of a run is set when a later
  one has begun. The preview is the JSON value of the answer, \<open>JNull\<close> for none. A toast is its text
  and whether it reports an error.
\<close>

record files_page =
  fp_instance :: "(jsstring \<times> jsstring) option"
  fp_hint :: "jsstring option"
  fp_items :: "instance_file list"
  fp_docs :: "agent_doc list"
  fp_loading :: bool
  fp_load_error :: "jsstring option"
  fp_keyword :: jsstring
  fp_selected :: "selected_resource option"
  fp_preview :: json
  fp_preview_loading :: bool
  fp_preview_error :: "jsstring option"
  fp_run :: nat
  fp_editing :: bool
  fp_editor :: jsstring
  fp_saving :: bool
  fp_deleting :: bool
  fp_creating :: bool
  fp_dialog :: bool
  fp_target :: jsstring
  fp_file_name :: jsstring
  fp_pending :: "jsstring option"
  fp_mobile_sidebar :: bool
  fp_docs_collapsed :: bool
  fp_folders :: "jsstring list"
  fp_groups :: "jsstring list"
  fp_toasts :: "(jsstring \<times> bool) list"

definition initial_page :: files_page where
  "initial_page = \<lparr>fp_instance = None, fp_hint = None, fp_items = [], fp_docs = [], fp_loading = False,
     fp_load_error = None, fp_keyword = [], fp_selected = None, fp_preview = JNull, fp_preview_loading = False,
     fp_preview_error = None, fp_run = 0, fp_editing = False, fp_editor = [], fp_saving = False, fp_deleting = False,
     fp_creating = False, fp_dialog = False, fp_target = [], fp_file_name = [], fp_pending = None,
     fp_mobile_sidebar = False, fp_docs_collapsed = True, fp_folders = [], fp_groups = [], fp_toasts = []\<rparr>"

text \<open>
  The calls: the listing is \<open>listInstanceFiles\<close> and \<open>listInstanceAgentDocs\<close> together; a preview has the
  number of its run; board and options are those of the code (\<open>DEFAULT_BOARD_ID\<close>).
\<close>

datatype files_call =
    ResolveInstance
  | ListFiles jsstring jsstring
  | PreviewTask nat jsstring "jsstring option" jsstring
  | PreviewDoc nat jsstring jsstring jsstring
  | WriteFile jsstring "jsstring option" jsstring jsstring
  | DeleteFile jsstring "jsstring option" jsstring
  | RefreshPreview jsstring "jsstring option" jsstring

definition file_toast :: "jsstring \<Rightarrow> bool \<Rightarrow> files_page \<Rightarrow> files_page" where
  "file_toast message isError pg = pg\<lparr>fp_toasts := fp_toasts pg @ [(message, isError)]\<rparr>"

text \<open>\<open>error instanceof Error ? error.message : text\<close>; None is a value that is no \<open>Error\<close>.\<close>

definition error_text :: "jsstring option \<Rightarrow> jsstring \<Rightarrow> jsstring" where
  "error_text error fallback = nullish error fallback"

section \<open>What is selected\<close>

definition currentInstanceId :: "files_page \<Rightarrow> jsstring" where
  "currentInstanceId pg = (case fp_instance pg of None \<Rightarrow> [] | Some (ident, _) \<Rightarrow> ident)"

definition selectedTaskFile :: "files_page \<Rightarrow> instance_file option" where
  "selectedTaskFile pg =
     (case fp_selected pg of None \<Rightarrow> None
      | Some r \<Rightarrow> if se_kind r = TaskResource then find (\<lambda>item. if_id item = se_id r) (fp_items pg) else None)"

definition selectedTaskId :: "files_page \<Rightarrow> jsstring option" where
  "selectedTaskId pg =
     (case selectedTaskFile pg of None \<Rightarrow> None
      | Some f \<Rightarrow> if if_task_id f \<noteq> js ''shared'' then Some (if_task_id f) else None)"

definition selectedAgentDoc :: "files_page \<Rightarrow> agent_doc option" where
  "selectedAgentDoc pg =
     (case fp_selected pg of None \<Rightarrow> None
      | Some r \<Rightarrow> if se_kind r = AgentDocResource then find (\<lambda>doc. ad_id doc = se_id r) (fp_docs pg) else None)"

definition isAgentDocReadonly :: "files_page \<Rightarrow> bool" where
  "isAgentDocReadonly pg \<longleftrightarrow> (case fp_selected pg of None \<Rightarrow> False | Some r \<Rightarrow> se_kind r = AgentDocResource)"

definition isAgentDocMarkdown :: "files_page \<Rightarrow> bool" where
  "isAgentDocMarkdown pg \<longleftrightarrow>
     (case selectedAgentDoc pg of None \<Rightarrow> False | Some doc \<Rightarrow> ends_with (to_lower (trim (ad_name doc))) (js ''.md''))"

definition preview_is_text :: "files_page \<Rightarrow> bool" where
  "preview_is_text pg \<longleftrightarrow>
     field (members (fp_preview pg)) ''kind'' \<in> {JStr (js ''text''), JStr (js ''json'')}"

text \<open>\<open>preview.content ?? ''\<close>, a string or nothing by the type of the answer.\<close>

definition preview_content :: "files_page \<Rightarrow> jsstring" where
  "preview_content pg = nullish (as_string (field (members (fp_preview pg)) ''content'')) []"

definition canEditTaskFile :: "files_page \<Rightarrow> bool" where
  "canEditTaskFile pg \<longleftrightarrow>
     (case selectedTaskFile pg of None \<Rightarrow> False
      | Some f \<Rightarrow> \<not> isAgentDocReadonly pg \<and> (\<not> if_exists f \<or> preview_is_text pg))"

definition isActionBusy :: "files_page \<Rightarrow> bool" where
  "isActionBusy pg \<longleftrightarrow> fp_saving pg \<or> fp_deleting pg \<or> fp_creating pg"

definition canStartEdit :: "files_page \<Rightarrow> bool" where
  "canStartEdit pg \<longleftrightarrow> selectedTaskFile pg \<noteq> None \<and> canEditTaskFile pg \<and> \<not> fp_editing pg \<and> \<not> isActionBusy pg"

definition canDeleteTask :: "files_page \<Rightarrow> bool" where
  "canDeleteTask pg \<longleftrightarrow>
     (case selectedTaskFile pg of None \<Rightarrow> False | Some f \<Rightarrow> if_exists f) \<and>
     \<not> isAgentDocReadonly pg \<and> \<not> fp_editing pg \<and> \<not> isActionBusy pg"

section \<open>Loading\<close>

definition instance_read :: "instance_item option \<times> nat \<Rightarrow> files_page \<Rightarrow> files_page" where
  "instance_read result pg =
     (case fst result of
        Some i \<Rightarrow> pg\<lparr>fp_instance := Some (ii_id i, ii_name i), fp_hint := None\<rparr>
      | None \<Rightarrow> pg\<lparr>fp_instance := None, fp_hint := Some
          (if snd result = 0 then ([0x672A, 0x68C0, 0x6D4B, 0x5230, 0x53EF, 0x7528, 0x5B9E, 0x4F8B, 0x3002, 0x8BF7, 0x5148, 0x5728, 0x670D, 0x52A1, 0x7AEF, 0x914D, 0x7F6E] @ js '' 1 '' @ [0x4E2A, 0x5B9E, 0x4F8B, 0x540E, 0x5237, 0x65B0, 0x3002])
           else ([0x68C0, 0x6D4B, 0x5230, 0x591A, 0x4E2A, 0x5B9E, 0x4F8B, 0x3002, 0x5F00, 0x6E90, 0x7248, 0x4EC5, 0x652F, 0x6301, 0x5355, 0x5B9E, 0x4F8B, 0xFF0C, 0x8BF7, 0x5728, 0x670D, 0x52A1, 0x7AEF, 0x4EC5, 0x4FDD, 0x7559] @ js '' 1 '' @ [0x4E2A, 0x5B9E, 0x4F8B, 0x3002]))\<rparr>)"

definition instance_failed :: "jsstring option \<Rightarrow> files_page \<Rightarrow> files_page" where
  "instance_failed error pg =
     (file_toast (error_text error ([0x8BFB, 0x53D6, 0x5B9E, 0x4F8B, 0x5931, 0x8D25])) True pg)
       \<lparr>fp_instance := None, fp_hint := Some ([0x8BFB, 0x53D6, 0x5B9E, 0x4F8B, 0x914D, 0x7F6E, 0x5931, 0x8D25, 0xFF0C, 0x8BF7, 0x68C0, 0x67E5, 0x540E, 0x7AEF, 0x5B9E, 0x4F8B, 0x914D, 0x7F6E, 0x5E76, 0x91CD, 0x8BD5, 0x3002])\<rparr>"

text \<open>\<open>loadFiles\<close> with the instance and the keyword of its closure.\<close>

definition loadFiles :: "jsstring \<Rightarrow> jsstring \<Rightarrow> files_page \<Rightarrow> files_call list \<times> files_page" where
  "loadFiles instance keyword pg =
     (let instanceId = trim instance in
      if instanceId = [] then ([], pg\<lparr>fp_items := [], fp_docs := [], fp_load_error := None\<rparr>)
      else ([ListFiles instanceId keyword], pg\<lparr>fp_loading := True, fp_load_error := None\<rparr>))"

definition listing_answered :: "instance_file list \<Rightarrow> agent_doc list \<Rightarrow> files_page \<Rightarrow> files_page" where
  "listing_answered items docs pg = pg\<lparr>fp_items := items, fp_docs := docs, fp_loading := False\<rparr>"

definition listing_failed :: "jsstring option \<Rightarrow> files_page \<Rightarrow> files_page" where
  "listing_failed error pg = pg\<lparr>fp_load_error := Some (error_text error ([0x8BFB, 0x53D6, 0x5B9E, 0x4F8B, 0x6587, 0x4EF6, 0x5931, 0x8D25])), fp_loading := False\<rparr>"

text \<open>The load the effect arms for 220 ms later, with the closure it fires; the one before is cleared.\<close>

definition load_timer :: "files_page \<Rightarrow> (jsstring \<times> jsstring) option" where
  "load_timer pg = (if trim (currentInstanceId pg) = [] then None else Some (currentInstanceId pg, fp_keyword pg))"

section \<open>The preview\<close>

definition file_preview_effect :: "files_page \<Rightarrow> files_call list \<times> files_page" where
  "file_preview_effect pg =
     (let instanceId = trim (currentInstanceId pg); run = Suc (fp_run pg); pg = pg\<lparr>fp_run := run\<rparr> in
      if instanceId = [] \<or> fp_selected pg = None
      then ([], pg\<lparr>fp_preview := JNull, fp_preview_error := None, fp_preview_loading := False\<rparr>)
      else
        let started = pg\<lparr>fp_preview_loading := True, fp_preview_error := None\<rparr> in
        case (selectedTaskFile pg, selectedAgentDoc pg) of
          (Some f, _) \<Rightarrow> ([PreviewTask run instanceId (selectedTaskId pg) (if_path f)], started)
        | (None, Some doc) \<Rightarrow> ([PreviewDoc run instanceId (ad_agent_id doc) (ad_name doc)], started)
        | (None, None) \<Rightarrow> ([], started\<lparr>fp_preview := JNull, fp_preview_loading := False\<rparr>))"

definition preview_answered :: "nat \<Rightarrow> json \<Rightarrow> files_page \<Rightarrow> files_page" where
  "preview_answered run payload pg =
     (if run = fp_run pg then pg\<lparr>fp_preview := payload, fp_preview_loading := False\<rparr> else pg)"

definition preview_failed :: "nat \<Rightarrow> jsstring option \<Rightarrow> files_page \<Rightarrow> files_page" where
  "preview_failed run error pg =
     (if run = fp_run pg
      then pg\<lparr>fp_preview_error := Some (error_text error ([0x8BFB, 0x53D6, 0x6587, 0x4EF6, 0x9884, 0x89C8, 0x5931, 0x8D25])), fp_preview := JNull, fp_preview_loading := False\<rparr>
      else pg)"

text \<open>The effects that follow the selection and the preview.\<close>

definition reset_effect :: "files_page \<Rightarrow> files_page" where
  "reset_effect pg = pg\<lparr>fp_editing := False, fp_editor := [], fp_dialog := False, fp_target := [], fp_file_name := []\<rparr>"

definition editor_effect :: "files_page \<Rightarrow> files_page" where
  "editor_effect pg =
     (case selectedTaskFile pg of None \<Rightarrow> pg
      | Some f \<Rightarrow>
          if \<not> fp_editing pg \<or> \<not> if_exists f then pg
          else if preview_is_text pg then pg\<lparr>fp_editor := preview_content pg\<rparr> else pg)"

definition resource_url :: "api_host \<Rightarrow> bool \<Rightarrow> files_page \<Rightarrow> api_failure + jsstring" where
  "resource_url h download pg =
     (if trim (currentInstanceId pg) = [] then Inr []
      else case (selectedTaskFile pg, selectedAgentDoc pg) of
        (Some f, _) \<Rightarrow> buildInstanceFileDownloadUrl h (currentInstanceId pg) (selectedTaskId pg) (if_path f) (Some DEFAULT_BOARD_ID) download
      | (None, Some doc) \<Rightarrow> buildInstanceAgentDocDownloadUrl h (currentInstanceId pg) (ad_agent_id doc) (ad_name doc) download
      | (None, None) \<Rightarrow> Inr [])"
section \<open>Lists for the side bar\<close>

definition task_resource :: "instance_file \<Rightarrow> sidebar_resource" where
  "task_resource item =
     \<lparr>rk_kind = TaskResource, rk_id = if_id item, rk_agent_id = if_agent_id item, rk_agent_name = if_agent_name item,
      rk_title = if_name item, rk_path = if_path item, rk_exists = if_exists item, rk_updated_at = if_updated_at item,
      rk_icon = resolveFileIconKind (if_path item) (if_name item), rk_aria_label = ([0x67E5, 0x770B, 0x4EFB, 0x52A1, 0x6587, 0x4EF6]) @ js '' '' @ if_name item\<rparr>"

definition taskResourceItems :: "files_page \<Rightarrow> sidebar_resource list" where
  "taskResourceItems pg = map task_resource (fp_items pg)"

definition doc_resource :: "agent_doc \<Rightarrow> sidebar_resource" where
  "doc_resource doc =
     \<lparr>rk_kind = AgentDocResource, rk_id = ad_id doc, rk_agent_id = ad_agent_id doc, rk_agent_name = ad_agent_name doc,
      rk_title = ad_name doc, rk_path = ad_path doc, rk_exists = ad_exists doc, rk_updated_at = ad_updated_at doc,
      rk_icon = resolveFileIconKind (ad_path doc) (ad_name doc), rk_aria_label = ([0x67E5, 0x770B] @ js '' Agent '' @ [0x6587, 0x6863]) @ js '' '' @ ad_name doc\<rparr>"

definition agentDocResourceItems :: "(jsstring \<Rightarrow> jsstring \<Rightarrow> bool) \<Rightarrow> files_page \<Rightarrow> sidebar_resource list" where
  "agentDocResourceItems le pg = sort_by (\<lambda>a b. le (rk_path a) (rk_path b)) (map doc_resource (fp_docs pg))"

record doc_group =
  dg_id :: jsstring
  dg_label :: jsstring
  dg_docs :: "sidebar_resource list"

definition group_doc :: "sidebar_resource \<Rightarrow> (jsstring \<times> doc_group) list \<Rightarrow> (jsstring \<times> doc_group) list" where
  "group_doc doc grouped =
     (let label = str_or (trim (rk_agent_name doc)) (rk_agent_id doc); key = rk_agent_id doc @ js ''::'' @ label in
      case map_of grouped key of
        Some existing \<Rightarrow> AList.update key (existing\<lparr>dg_docs := dg_docs existing @ [doc]\<rparr>) grouped
      | None \<Rightarrow> AList.update key \<lparr>dg_id = key, dg_label = label, dg_docs = [doc]\<rparr> grouped)"

definition agentDocGroups :: "(jsstring \<Rightarrow> jsstring \<Rightarrow> bool) \<Rightarrow> files_page \<Rightarrow> doc_group list" where
  "agentDocGroups le pg =
     sort_by (\<lambda>a b. le (dg_label a) (dg_label b))
       (map (\<lambda>(_, group). group\<lparr>dg_docs := sort_by (\<lambda>a b. le (rk_title a) (rk_title b)) (dg_docs group)\<rparr>)
         (fold group_doc (agentDocResourceItems le pg) []))"

record directory_option =
  dp_key :: jsstring
  dp_path :: jsstring
  dp_label :: jsstring

definition add_directory :: "instance_file \<Rightarrow> (jsstring \<times> directory_option) list \<Rightarrow> (jsstring \<times> directory_option) list" where
  "add_directory item unique =
     (let dirPath = getRelativeDirectoryPath (if_path item); key = normalizeComparablePath dirPath in
      if map_has unique key then unique
      else AList.update key \<lparr>dp_key = key, dp_path = dirPath, dp_label = js ''/'' @ dirPath\<rparr> unique)"

definition createDirectoryOptions :: "(jsstring \<Rightarrow> jsstring \<Rightarrow> bool) \<Rightarrow> files_page \<Rightarrow> directory_option list" where
  "createDirectoryOptions le pg =
     (let sharedRootKey = js ''__shared_root__'';
          unique = [(sharedRootKey, \<lparr>dp_key = sharedRootKey, dp_path = [], dp_label = js ''/''\<rparr>)] in
      sort_by (\<lambda>a b. le (dp_label a) (dp_label b)) (map snd (fold add_directory (fp_items pg) unique)))"

text \<open>The identifiers of the folders and of the groups; no tree is drawn where building it throws.\<close>

definition pathTreeFolderIds :: "(jsstring \<Rightarrow> jsstring \<Rightarrow> bool) \<Rightarrow> files_page \<Rightarrow> jsstring list option" where
  "pathTreeFolderIds le pg = map_option collectFolderNodeIds (buildPathTree le (taskResourceItems pg))"

definition agentDocGroupIds :: "(jsstring \<Rightarrow> jsstring \<Rightarrow> bool) \<Rightarrow> files_page \<Rightarrow> jsstring list" where
  "agentDocGroupIds le pg = map dg_id (agentDocGroups le pg)"

definition folders_effect :: "(jsstring \<Rightarrow> jsstring \<Rightarrow> bool) \<Rightarrow> files_page \<Rightarrow> files_page" where
  "folders_effect le pg =
     (case pathTreeFolderIds le pg of None \<Rightarrow> pg
      | Some ids \<Rightarrow> pg\<lparr>fp_folders := filter (\<lambda>folderId. folderId \<in> set ids) (fp_folders pg)\<rparr>)"

definition groups_effect :: "(jsstring \<Rightarrow> jsstring \<Rightarrow> bool) \<Rightarrow> files_page \<Rightarrow> files_page" where
  "groups_effect le pg =
     pg\<lparr>fp_groups := filter (\<lambda>groupId. groupId \<in> set (agentDocGroupIds le pg)) (fp_groups pg)\<rparr>"

section \<open>The selection\<close>

definition resource_of :: "sidebar_resource \<Rightarrow> selected_resource" where
  "resource_of r = \<lparr>se_kind = rk_kind r, se_id = rk_id r\<rparr>"

definition listed :: "(jsstring \<Rightarrow> jsstring \<Rightarrow> bool) \<Rightarrow> files_page \<Rightarrow> selected_resource list" where
  "listed le pg = map resource_of (taskResourceItems pg @ agentDocResourceItems le pg)"

definition selection_effect :: "(jsstring \<Rightarrow> jsstring \<Rightarrow> bool) \<Rightarrow> files_page \<Rightarrow> files_page" where
  "selection_effect le pg =
     (let resourceStillExists = (case fp_selected pg of None \<Rightarrow> False | Some r \<Rightarrow> r \<in> set (listed le pg)) in
      if resourceStillExists then pg
      else case taskResourceItems pg of
        fallbackTask # _ \<Rightarrow> pg\<lparr>fp_selected := Some (resource_of fallbackTask)\<rparr>
      | [] \<Rightarrow> (case agentDocResourceItems le pg of
          fallbackAgentDoc # _ \<Rightarrow> pg\<lparr>fp_selected := Some (resource_of fallbackAgentDoc)\<rparr>
        | [] \<Rightarrow> pg\<lparr>fp_selected := None\<rparr>))"

definition pending_effect :: "files_page \<Rightarrow> files_page" where
  "pending_effect pg =
     (case fp_pending pg of None \<Rightarrow> pg
      | Some path \<Rightarrow>
          (case find (\<lambda>item. normalizeComparablePath (if_path item) = normalizeComparablePath path) (fp_items pg) of
             None \<Rightarrow> pg
           | Some matched \<Rightarrow> pg\<lparr>fp_selected := Some \<lparr>se_kind = TaskResource, se_id = if_id matched\<rparr>, fp_pending := None\<rparr>))"

definition files_mobile_effect :: "bool \<Rightarrow> files_page \<Rightarrow> files_page" where
  "files_mobile_effect isMobile pg = (if \<not> isMobile then pg\<lparr>fp_mobile_sidebar := False\<rparr> else pg)"

definition toggle_member :: "jsstring \<Rightarrow> jsstring list \<Rightarrow> jsstring list" where
  "toggle_member x xs = (if x \<in> set xs then filter (\<lambda>y. y \<noteq> x) xs else xs @ [x])"

definition handleToggleTreeFolder :: "jsstring \<Rightarrow> files_page \<Rightarrow> files_page" where
  "handleToggleTreeFolder folderId pg = pg\<lparr>fp_folders := toggle_member folderId (fp_folders pg)\<rparr>"

definition handleToggleAgentGroup :: "jsstring \<Rightarrow> files_page \<Rightarrow> files_page" where
  "handleToggleAgentGroup groupId pg = pg\<lparr>fp_groups := toggle_member groupId (fp_groups pg)\<rparr>"

section \<open>Editing, saving and deleting\<close>

definition handleStartEditTaskFile :: "files_page \<Rightarrow> files_page" where
  "handleStartEditTaskFile pg =
     (case selectedTaskFile pg of None \<Rightarrow> pg
      | Some f \<Rightarrow>
          if \<not> canEditTaskFile pg then pg
          else (if \<not> if_exists f then pg\<lparr>fp_editor := []\<rparr>
                else if preview_is_text pg then pg\<lparr>fp_editor := preview_content pg\<rparr>
                else pg)\<lparr>fp_editing := True\<rparr>)"

text \<open>What a handler has read when it starts its first call.\<close>

record file_context =
  cx_instance :: jsstring
  cx_keyword :: jsstring
  cx_task :: "jsstring option"
  cx_path :: jsstring

definition context_of :: "files_page \<Rightarrow> instance_file \<Rightarrow> file_context" where
  "context_of pg f = \<lparr>cx_instance = currentInstanceId pg, cx_keyword = fp_keyword pg, cx_task = selectedTaskId pg, cx_path = if_path f\<rparr>"

definition handleSaveTaskFile :: "files_page \<Rightarrow> files_call list \<times> files_page" where
  "handleSaveTaskFile pg =
     (case selectedTaskFile pg of None \<Rightarrow> ([], pg)
      | Some f \<Rightarrow>
          if trim (currentInstanceId pg) = [] \<or> \<not> canEditTaskFile pg then ([], pg)
          else ([WriteFile (trim (currentInstanceId pg)) (selectedTaskId pg) (if_path f) (fp_editor pg)], pg\<lparr>fp_saving := True\<rparr>))"

definition save_written :: "file_context \<Rightarrow> files_page \<Rightarrow> files_call list \<times> files_page" where
  "save_written cx pg =
     loadFiles (cx_instance cx) (cx_keyword cx) ((file_toast ([0x6587, 0x4EF6, 0x5DF2, 0x4FDD, 0x5B58]) False pg)\<lparr>fp_editing := False\<rparr>)"

definition save_listed :: "file_context \<Rightarrow> files_call list" where
  "save_listed cx = [RefreshPreview (trim (cx_instance cx)) (cx_task cx) (cx_path cx)]"

definition save_previewed :: "json \<Rightarrow> files_page \<Rightarrow> files_page" where
  "save_previewed refreshed pg = pg\<lparr>fp_preview := refreshed, fp_preview_error := None, fp_saving := False\<rparr>"

definition save_failed :: "jsstring option \<Rightarrow> files_page \<Rightarrow> files_page" where
  "save_failed error pg = (file_toast (error_text error ([0x4FDD, 0x5B58, 0x6587, 0x4EF6, 0x5931, 0x8D25])) True pg)\<lparr>fp_saving := False\<rparr>"

definition handleDeleteTaskFile :: "bool \<Rightarrow> files_page \<Rightarrow> files_call list \<times> files_page" where
  "handleDeleteTaskFile confirmed pg =
     (case selectedTaskFile pg of None \<Rightarrow> ([], pg)
      | Some f \<Rightarrow>
          if trim (currentInstanceId pg) = [] \<or> \<not> if_exists f \<or> \<not> confirmed then ([], pg)
          else ([DeleteFile (trim (currentInstanceId pg)) (selectedTaskId pg) (if_path f)], pg\<lparr>fp_deleting := True\<rparr>))"

definition delete_answered :: "file_context \<Rightarrow> files_page \<Rightarrow> files_call list \<times> files_page" where
  "delete_answered cx pg =
     loadFiles (cx_instance cx) (cx_keyword cx) ((file_toast ([0x6587, 0x4EF6, 0x5DF2, 0x5220, 0x9664]) False pg)\<lparr>fp_editing := False, fp_editor := []\<rparr>)"

definition delete_listed :: "files_page \<Rightarrow> files_page" where
  "delete_listed pg = pg\<lparr>fp_preview := JNull, fp_preview_error := Some ([0x6587, 0x4EF6, 0x5DF2, 0x5220, 0x9664]), fp_deleting := False\<rparr>"

definition delete_failed :: "jsstring option \<Rightarrow> files_page \<Rightarrow> files_page" where
  "delete_failed error pg = (file_toast (error_text error ([0x5220, 0x9664, 0x6587, 0x4EF6, 0x5931, 0x8D25])) True pg)\<lparr>fp_deleting := False\<rparr>"

section \<open>Creating a file\<close>

definition handleOpenCreateDialog :: "(jsstring \<Rightarrow> jsstring \<Rightarrow> bool) \<Rightarrow> files_page \<Rightarrow> files_page" where
  "handleOpenCreateDialog le pg =
     (let selectedDir = (case selectedTaskFile pg of None \<Rightarrow> [] | Some f \<Rightarrow> getRelativeDirectoryPath (if_path f));
          preferred = find (\<lambda>option. normalizeComparablePath (dp_path option) = normalizeComparablePath selectedDir)
            (createDirectoryOptions le pg) in
      pg\<lparr>fp_target := dp_key (nullish preferred (hd (createDirectoryOptions le pg))), fp_file_name := [], fp_dialog := True\<rparr>)"

text \<open>\<open>replace(/[\\\/]+$/, '')\<close>\<close>

definition strip_separators :: "jsstring \<Rightarrow> jsstring" where
  "strip_separators s = rev (dropWhile (\<lambda>c. c = 92 \<or> c = 47) (rev s))"

definition new_path :: "jsstring \<Rightarrow> jsstring \<Rightarrow> jsstring" where
  "new_path dirPath fileName =
     (let normalizedDirectory = strip_separators dirPath in
      if normalizedDirectory \<noteq> [] then normalizedDirectory @ js ''/'' @ fileName else fileName)"

definition path_taken :: "jsstring \<Rightarrow> files_page \<Rightarrow> bool" where
  "path_taken path pg \<longleftrightarrow>
     (\<exists>item \<in> set (fp_items pg). normalizeComparablePath (if_path item) = normalizeComparablePath path)"

definition handleCreateTaskFile :: "(jsstring \<Rightarrow> jsstring \<Rightarrow> bool) \<Rightarrow> files_page \<Rightarrow> files_call list \<times> files_page" where
  "handleCreateTaskFile le pg =
     (let instanceId = trim (currentInstanceId pg); normalizedFileName = trim (fp_file_name pg) in
      if instanceId = [] \<or> fp_creating pg then ([], pg)
      else case find (\<lambda>option. dp_key option = fp_target pg) (createDirectoryOptions le pg) of
        None \<Rightarrow> ([], file_toast ([0x8BF7, 0x9009, 0x62E9, 0x521B, 0x5EFA, 0x76EE, 0x5F55]) True pg)
      | Some target \<Rightarrow>
          if normalizedFileName = [] then ([], file_toast ([0x8BF7, 0x8F93, 0x5165, 0x6587, 0x4EF6, 0x540D]) True pg)
          else if 47 \<in> set normalizedFileName \<or> 92 \<in> set normalizedFileName
          then ([], file_toast ([0x6587, 0x4EF6, 0x540D, 0x4E0D, 0x80FD, 0x5305, 0x542B, 0x8DEF, 0x5F84, 0x5206, 0x9694, 0x7B26, 0xFF0C, 0x8BF7, 0x4F7F, 0x7528, 0x76EE, 0x5F55, 0x9009, 0x62E9, 0x5668]) True pg)
          else let nextPath = new_path (dp_path target) normalizedFileName in
            if path_taken nextPath pg then ([], file_toast ([0x5171, 0x4EAB, 0x76EE, 0x5F55, 0x4E2D, 0x5DF2, 0x5B58, 0x5728, 0x540C, 0x540D, 0x6587, 0x4EF6]) True pg)
            else ([WriteFile instanceId None nextPath []], pg\<lparr>fp_creating := True\<rparr>))"

text \<open>\<open>created\<close> is the path of the answer.\<close>

definition create_written :: "jsstring \<Rightarrow> jsstring \<Rightarrow> jsstring \<Rightarrow> jsstring \<Rightarrow> files_page \<Rightarrow> files_call list \<times> files_page" where
  "create_written instance keyword nextPath created pg =
     loadFiles instance keyword ((file_toast ([0x6587, 0x4EF6, 0x5DF2, 0x65B0, 0x5EFA]) False pg)
       \<lparr>fp_dialog := False, fp_file_name := [], fp_pending := Some (str_or created nextPath)\<rparr>)"

definition create_listed :: "files_page \<Rightarrow> files_page" where
  "create_listed pg = pg\<lparr>fp_creating := False\<rparr>"

definition create_failed :: "jsstring option \<Rightarrow> files_page \<Rightarrow> files_page" where
  "create_failed error pg = (file_toast (error_text error ([0x65B0, 0x5EFA, 0x6587, 0x4EF6, 0x5931, 0x8D25])) True pg)\<lparr>fp_creating := False\<rparr>"

definition handleCloseCreateDialog :: "files_page \<Rightarrow> files_page" where
  "handleCloseCreateDialog pg = (if fp_creating pg then pg else pg\<lparr>fp_dialog := False\<rparr>)"

section \<open>The width of the side bar\<close>

definition INSTANCE_FILES_SIDEBAR_WIDTH_PX :: rat where "INSTANCE_FILES_SIDEBAR_WIDTH_PX = 320"
definition INSTANCE_FILES_SIDEBAR_MIN_WIDTH_PX :: rat where "INSTANCE_FILES_SIDEBAR_MIN_WIDTH_PX = 240"
definition INSTANCE_FILES_SIDEBAR_MAX_WIDTH_PX :: rat where "INSTANCE_FILES_SIDEBAR_MAX_WIDTH_PX = 560"

definition clampSidebarWidth :: "rat \<Rightarrow> rat" where
  "clampSidebarWidth width = min INSTANCE_FILES_SIDEBAR_MAX_WIDTH_PX (max INSTANCE_FILES_SIDEBAR_MIN_WIDTH_PX width)"

record sidebar_resize =
  rz_width :: rat
  rz_resizing :: bool
  rz_grab :: "(int \<times> rat \<times> rat) option"

definition initial_resize :: sidebar_resize where
  "initial_resize = \<lparr>rz_width = INSTANCE_FILES_SIDEBAR_WIDTH_PX, rz_resizing = False, rz_grab = None\<rparr>"

definition resize_mobile :: "bool \<Rightarrow> sidebar_resize \<Rightarrow> sidebar_resize" where
  "resize_mobile isMobile s = (if isMobile then s\<lparr>rz_resizing := False, rz_grab := None\<rparr> else s)"

text \<open>The window listens to moves and releases only while \<open>isSidebarResizing\<close> is set.\<close>

definition handlePointerMove :: "int \<Rightarrow> rat \<Rightarrow> sidebar_resize \<Rightarrow> sidebar_resize" where
  "handlePointerMove pointerId clientX s =
     (case rz_grab s of None \<Rightarrow> s
      | Some (grabId, startX, startWidth) \<Rightarrow>
          if \<not> rz_resizing s \<or> grabId \<noteq> pointerId then s
          else s\<lparr>rz_width := clampSidebarWidth (startWidth + (clientX - startX))\<rparr>)"

definition finishResize :: "int \<Rightarrow> sidebar_resize \<Rightarrow> sidebar_resize" where
  "finishResize pointerId s =
     (case rz_grab s of None \<Rightarrow> s
      | Some (grabId, startX, startWidth) \<Rightarrow>
          if \<not> rz_resizing s \<or> grabId \<noteq> pointerId then s else s\<lparr>rz_grab := None, rz_resizing := False\<rparr>)"

definition handleSidebarResizePointerDown :: "bool \<Rightarrow> int \<Rightarrow> rat \<Rightarrow> sidebar_resize \<Rightarrow> sidebar_resize" where
  "handleSidebarResizePointerDown isMobile pointerId clientX s =
     (if isMobile then s else s\<lparr>rz_grab := Some (pointerId, clientX, rz_width s), rz_resizing := True\<rparr>)"
section \<open>The selection is listed\<close>

lemma resource_listed:
  "r \<in> set (listed le pg) \<longleftrightarrow>
     (\<exists>i \<in> set (fp_items pg). r = \<lparr>se_kind = TaskResource, se_id = if_id i\<rparr>) \<or>
     (\<exists>d \<in> set (fp_docs pg). r = \<lparr>se_kind = AgentDocResource, se_id = ad_id d\<rparr>)"
proof -
  have "resource_of \<circ> task_resource = (\<lambda>i. \<lparr>se_kind = TaskResource, se_id = if_id i\<rparr>)"
    "resource_of \<circ> doc_resource = (\<lambda>d. \<lparr>se_kind = AgentDocResource, se_id = ad_id d\<rparr>)"
    by (simp_all add: fun_eq_iff resource_of_def task_resource_def doc_resource_def)
  then have "set (listed le pg) = (\<lambda>i. \<lparr>se_kind = TaskResource, se_id = if_id i\<rparr>) ` set (fp_items pg)
      \<union> (\<lambda>d. \<lparr>se_kind = AgentDocResource, se_id = ad_id d\<rparr>) ` set (fp_docs pg)"
    by (simp add: listed_def taskResourceItems_def agentDocResourceItems_def image_comp)
  then show ?thesis by blast
qed

lemma selected_file_listed:
  "selectedTaskFile pg = Some f \<Longrightarrow> f \<in> set (fp_items pg) \<and> fp_selected pg = Some \<lparr>se_kind = TaskResource, se_id = if_id f\<rparr>"
  by (auto simp: selectedTaskFile_def find_Some_iff split: option.splits if_splits)

text \<open>After the effect on the selection, what is selected is listed: it is what was selected before if
  that still exists, else the first file, else the first document, and nothing only where nothing is
  listed; doing the effect again changes nothing.\<close>

lemma selection_is_listed:
  "(case fp_selected (selection_effect le pg) of
      None \<Rightarrow> fp_items pg = [] \<and> fp_docs pg = []
    | Some r \<Rightarrow> r \<in> set (listed le (selection_effect le pg)) \<and>
        (\<forall>r'. fp_selected pg = Some r' \<and> r' \<in> set (listed le pg) \<longrightarrow> r = r') \<and>
        (se_kind r = AgentDocResource \<and> fp_selected pg \<noteq> Some r \<longrightarrow> fp_items pg = [])) \<and>
   selection_effect le (selection_effect le pg) = selection_effect le pg"
proof -
  have kept: "listed le (pg\<lparr>fp_selected := s\<rparr>) = listed le pg" "taskResourceItems (pg\<lparr>fp_selected := s\<rparr>) = taskResourceItems pg"
    "agentDocResourceItems le (pg\<lparr>fp_selected := s\<rparr>) = agentDocResourceItems le pg" for s
    by (simp_all add: listed_def taskResourceItems_def agentDocResourceItems_def)
  consider (still) r where "fp_selected pg = Some r" "r \<in> set (listed le pg)"
    | (gone) "\<And>r. fp_selected pg = Some r \<Longrightarrow> r \<notin> set (listed le pg)" by blast
  then show ?thesis
  proof cases
    case still
    then have "selection_effect le pg = pg" by (simp add: selection_effect_def)
    then show ?thesis using still by simp
  next
    case gone
    then have out: "\<not> (case fp_selected pg of None \<Rightarrow> False | Some r \<Rightarrow> r \<in> set (listed le pg))"
      by (simp split: option.split)
    show ?thesis
    proof (cases "taskResourceItems pg")
      case (Cons t ts)
      then have eff: "selection_effect le pg = pg\<lparr>fp_selected := Some (resource_of t)\<rparr>"
        using out by (simp add: selection_effect_def)
      have mem: "resource_of t \<in> set (listed le pg)" using Cons by (simp add: listed_def)
      have "rk_kind t = TaskResource" using Cons by (cases "fp_items pg") (auto simp: taskResourceItems_def task_resource_def)
      then show ?thesis using mem gone unfolding eff by (auto simp: kept selection_effect_def resource_of_def)
    next
      case Nil
      then have items: "fp_items pg = []" by (simp add: taskResourceItems_def)
      show ?thesis
      proof (cases "agentDocResourceItems le pg")
        case (Cons d ds)
        then have eff: "selection_effect le pg = pg\<lparr>fp_selected := Some (resource_of d)\<rparr>"
          using out Nil by (simp add: selection_effect_def)
        have mem: "resource_of d \<in> set (listed le pg)" using Cons by (simp add: listed_def)
        then show ?thesis using gone items unfolding eff by (auto simp: kept selection_effect_def)
      next
        case none: Nil
        then have eff: "selection_effect le pg = pg\<lparr>fp_selected := None\<rparr>"
          using out Nil by (simp add: selection_effect_def)
        have "length (agentDocResourceItems le pg) = length (fp_docs pg)" by (simp add: agentDocResourceItems_def)
        then have "fp_docs pg = []" using none by simp
        then show ?thesis using items Nil none unfolding eff by (simp add: kept selection_effect_def)
      qed
    qed
  qed
qed

section \<open>What is written\<close>

lemma selected_cong:
  assumes "fp_items pg' = fp_items pg" and "fp_selected pg' = fp_selected pg"
  shows "selectedTaskFile pg' = selectedTaskFile pg" "selectedTaskId pg' = selectedTaskId pg"
    "isAgentDocReadonly pg' = isAgentDocReadonly pg"
proof -
  show same: "selectedTaskFile pg' = selectedTaskFile pg"
    unfolding selectedTaskFile_def assms by (rule refl)
  show "selectedTaskId pg' = selectedTaskId pg" "isAgentDocReadonly pg' = isAgentDocReadonly pg"
    unfolding selectedTaskId_def isAgentDocReadonly_def same assms by (rule refl)+
qed

lemma save_writes_selection:
  "fst (handleSaveTaskFile pg) \<noteq> [] \<Longrightarrow>
   \<exists>f. selectedTaskFile pg = Some f \<and> f \<in> set (fp_items pg) \<and> canEditTaskFile pg \<and>
     fst (handleSaveTaskFile pg) = [WriteFile (trim (currentInstanceId pg)) (selectedTaskId pg) (if_path f) (fp_editor pg)]"
  using selected_file_listed by (auto simp: handleSaveTaskFile_def split: option.splits if_splits)

text \<open>
  The preview read after a save is shown whatever is selected by then. If another file that is not
  being edited is selected meanwhile, editing and saving it writes the content of the saved one.
\<close>

text \<open>The preview a save reads back goes to the page without a look at the selection: when another
  file has been selected since, editing that file starts from the content of the saved one, and
  saving it writes that content over it.\<close>

lemma saved_preview_overwrites_other_file:
  assumes "selectedTaskFile pg = Some other" and "if_exists other" and "trim (currentInstanceId pg) \<noteq> []"
    and "refreshed = JObj [(js ''kind'', JStr (js ''text'')), (js ''content'', JStr content)]"
  shows "fst (handleSaveTaskFile (handleStartEditTaskFile (save_previewed refreshed pg))) =
     [WriteFile (trim (currentInstanceId pg)) (selectedTaskId pg) (if_path other) content]"
proof -
  let ?pg = "save_previewed refreshed pg"
  have sel: "selectedTaskFile ?pg = Some other" "selectedTaskId ?pg = selectedTaskId pg" "currentInstanceId ?pg = currentInstanceId pg"
    using assms(1) selected_cong [of ?pg pg] by (simp_all add: save_previewed_def currentInstanceId_def)
  have shown: "preview_is_text ?pg" "preview_content ?pg = content"
    using assms(4) by (simp_all add: preview_is_text_def preview_content_def save_previewed_def members_def field_def map_get_def)
  have "\<not> isAgentDocReadonly ?pg"
    using selected_file_listed [OF sel(1)] by (simp add: isAgentDocReadonly_def)
  then have can: "canEditTaskFile ?pg" using sel shown by (simp add: canEditTaskFile_def)
  then have edit: "handleStartEditTaskFile ?pg = ?pg\<lparr>fp_editor := content, fp_editing := True\<rparr>"
    using sel shown assms(2) by (simp add: handleStartEditTaskFile_def)
  have "canEditTaskFile (?pg\<lparr>fp_editor := content, fp_editing := True\<rparr>) = canEditTaskFile ?pg"
    "selectedTaskFile (?pg\<lparr>fp_editor := content, fp_editing := True\<rparr>) = selectedTaskFile ?pg"
    "selectedTaskId (?pg\<lparr>fp_editor := content, fp_editing := True\<rparr>) = selectedTaskId ?pg"
    "currentInstanceId (?pg\<lparr>fp_editor := content, fp_editing := True\<rparr>) = currentInstanceId ?pg"
    using selected_cong [of "?pg\<lparr>fp_editor := content, fp_editing := True\<rparr>" ?pg]
    by (simp_all add: canEditTaskFile_def currentInstanceId_def preview_is_text_def sel(1))
  then show ?thesis using can sel assms(3) unfolding edit by (simp add: handleSaveTaskFile_def)
qed

section \<open>Creating\<close>

lemma create_sends:
  "fst (handleCreateTaskFile le pg) = c # cs \<Longrightarrow>
   \<exists>target \<in> set (createDirectoryOptions le pg). dp_key target = fp_target pg \<and> cs = [] \<and>
     c = WriteFile (trim (currentInstanceId pg)) None (new_path (dp_path target) (trim (fp_file_name pg))) [] \<and>
     trim (fp_file_name pg) \<noteq> [] \<and> 47 \<notin> set (trim (fp_file_name pg)) \<and> 92 \<notin> set (trim (fp_file_name pg)) \<and>
     \<not> path_taken (new_path (dp_path target) (trim (fp_file_name pg))) pg \<and> \<not> fp_creating pg"
  by (auto simp: handleCreateTaskFile_def Let_def find_Some_iff split: option.splits if_splits)

text \<open>Creating a file sends at most one request, an empty file without a task, in a directory that is
  offered, under a name that is not blank and holds no separator, and only where no listed file has
  that path up to leading slashes; a second click while one is being created sends nothing.\<close>

lemma create_writes_new_file:
  "case fst (handleCreateTaskFile le pg) of
     [] \<Rightarrow> True
   | c # cs \<Rightarrow> cs = [] \<and> \<not> fp_creating pg \<and> fp_creating (snd (handleCreateTaskFile le pg)) \<and>
       fst (handleCreateTaskFile le (snd (handleCreateTaskFile le pg))) = [] \<and>
       (\<exists>target \<in> set (createDirectoryOptions le pg). \<exists>name. name = trim (fp_file_name pg) \<and>
          name \<noteq> [] \<and> 47 \<notin> set name \<and> 92 \<notin> set name \<and>
          c = WriteFile (trim (currentInstanceId pg)) None (new_path (dp_path target) name) [] \<and>
          (\<forall>item \<in> set (fp_items pg). normalizeComparablePath (if_path item) \<noteq> normalizeComparablePath (new_path (dp_path target) name)))"
proof (cases "fst (handleCreateTaskFile le pg)")
  case (Cons c cs)
  have busy: "fp_creating (snd (handleCreateTaskFile le pg))"
    using Cons by (auto simp: handleCreateTaskFile_def Let_def split: option.splits if_splits)
  then have "fst (handleCreateTaskFile le (snd (handleCreateTaskFile le pg))) = []"
    by (simp add: handleCreateTaskFile_def [of le "snd (handleCreateTaskFile le pg)"] Let_def)
  then show ?thesis using create_sends [OF Cons] Cons busy by (auto simp: path_taken_def)
qed simp

text \<open>
  The listed files of the shared directory have the absolute paths of the server, while the path of a
  new file is relative to that directory: the test for a file of the same name never finds them.
\<close>

definition shared_file :: "string \<Rightarrow> string \<Rightarrow> instance_file" where
  "shared_file path name =
     \<lparr>if_id = js ''shared:'' @ js path, if_task_id = js ''shared'', if_agent_id = [], if_agent_name = [], if_task_title = [],
      if_task_status = js ''completed'', if_requirement_id = JNull, if_requirement_title = JNull, if_path = js path,
      if_name = js name, if_exists = True, if_size_bytes = JNum (jint 12), if_updated_at = []\<rparr>"

definition shared_page :: files_page where
  "shared_page = initial_page\<lparr>fp_instance := Some (js ''i1'', js ''main''),
     fp_items := [shared_file ''/root/.local/linpo/default/docs/a.md'' ''a.md''],
     fp_target := js ''docs'', fp_file_name := js ''a.md'', fp_dialog := True\<rparr>"

text \<open>Creating a file under the name of an existing file of the shared directory is not refused: the
  page sends a write of the empty content to the relative path of that file, which the server
  resolves to the file itself.\<close>

lemma create_overwrites_shared_file:
  "handleCreateTaskFile le shared_page =
     ([WriteFile (js ''i1'') None (js ''docs/a.md'') []], shared_page\<lparr>fp_creating := True\<rparr>) \<and>
   resolveKnownRootRelativePath (js ''/root/.local/linpo/default/docs/a.md'') = Some (js ''docs/a.md'')"
proof -
  have facts: "getRelativeDirectoryPath (js ''/root/.local/linpo/default/docs/a.md'') = js ''docs''"
    "normalizeComparablePath (js ''docs'') = js ''docs''" "trim (js ''i1'') = js ''i1''" "trim (js ''a.md'') = js ''a.md''"
    "47 \<notin> set (js ''a.md'')" "92 \<notin> set (js ''a.md'')" "new_path (js ''docs'') (js ''a.md'') = js ''docs/a.md''"
    "normalizeComparablePath (js ''/root/.local/linpo/default/docs/a.md'') \<noteq> normalizeComparablePath (js ''docs/a.md'')"
    "resolveKnownRootRelativePath (js ''/root/.local/linpo/default/docs/a.md'') = Some (js ''docs/a.md'')"
    by code_simp+
  let ?root = "\<lparr>dp_key = js ''__shared_root__'', dp_path = [], dp_label = js ''/''\<rparr>"
  let ?docs = "\<lparr>dp_key = js ''docs'', dp_path = js ''docs'', dp_label = js ''/'' @ js ''docs''\<rparr>"
  have "map snd (fold add_directory (fp_items shared_page) [(js ''__shared_root__'', ?root)]) = [?root, ?docs]"
    using facts by (simp add: shared_page_def initial_page_def add_directory_def shared_file_def map_has_def Let_def)
  then have "createDirectoryOptions le shared_page = sort_by (\<lambda>a b. le (dp_label a) (dp_label b)) [?root, ?docs]"
    by (simp add: createDirectoryOptions_def Let_def)
  then have "find (\<lambda>option. dp_key option = js ''docs'') (createDirectoryOptions le shared_page) = Some ?docs"
    by (simp add: sort_by_def)
  moreover have "currentInstanceId shared_page = js ''i1''" "fp_file_name shared_page = js ''a.md''" "fp_target shared_page = js ''docs''"
    "\<not> fp_creating shared_page" "fp_items shared_page = [shared_file ''/root/.local/linpo/default/docs/a.md'' ''a.md'']"
    by (simp_all add: shared_page_def initial_page_def currentInstanceId_def)
  ultimately show ?thesis
    using facts by (simp add: handleCreateTaskFile_def Let_def path_taken_def shared_file_def)
qed

text \<open>A file in the root of the shared directory makes a second entry for the root.\<close>

lemma root_offered_twice:
  "fp_items pg = [f] \<Longrightarrow> getRelativeDirectoryPath (if_path f) = [] \<Longrightarrow>
   map dp_path (createDirectoryOptions le pg) = [[], []]"
proof -
  have "normalizeComparablePath [] = []" by (simp add: normalizeComparablePath_def forward_def strip_leading_def)
  then show "fp_items pg = [f] \<Longrightarrow> getRelativeDirectoryPath (if_path f) = [] \<Longrightarrow>
     map dp_path (createDirectoryOptions le pg) = [[], []]"
    by (simp add: createDirectoryOptions_def add_directory_def Let_def sort_by_def map_has_def)
qed

section \<open>Loading and previews\<close>

text \<open>Only the last run of the preview effect is shown: once the effect has run again, the answer and
  the failure of an earlier run leave the page as it is.\<close>

lemma only_last_preview_shown:
  assumes "run \<le> fp_run pg"
  shows "preview_answered run payload (snd (file_preview_effect pg)) = snd (file_preview_effect pg) \<and>
     preview_failed run error (snd (file_preview_effect pg)) = snd (file_preview_effect pg)"
proof -
  have "fp_run (snd (file_preview_effect pg)) = Suc (fp_run pg)"
    by (simp add: file_preview_effect_def Let_def split: option.split)
  then show ?thesis using assms by (simp add: preview_answered_def preview_failed_def)
qed

theorem only_last_preview_shown_witness:
  "preview_answered 0 (JStr (js ''late'')) (snd (file_preview_effect shared_page)) = snd (file_preview_effect shared_page)"
  using only_last_preview_shown [of 0 shared_page "JStr (js ''late'')" None] by (simp add: shared_page_def initial_page_def)

text \<open>A listing carries no number: the answer to an older keyword that arrives last is what is shown.\<close>

lemma late_listing_is_shown:
  "fp_items (listing_answered oldItems oldDocs (listing_answered items docs pg)) = oldItems"
  by (simp add: listing_answered_def)

text \<open>The message of a deletion is cleared by the preview effect that its own reload makes run.\<close>

lemma deletion_message_cleared: "fp_preview_error (snd (file_preview_effect (delete_listed pg))) = None"
  by (simp add: file_preview_effect_def delete_listed_def Let_def split: option.split)

text \<open>
  A listing that arrives while a text file is edited (the keyword has been changed, say) makes the
  editor effect run again, which puts the content of the preview over the edits.
\<close>

lemma reload_discards_edits:
  assumes "selectedTaskFile (listing_answered items docs pg) = Some f" and "if_exists f" and "fp_editing pg" and "preview_is_text pg"
  shows "fp_editor (editor_effect (listing_answered items docs pg)) = preview_content pg"
proof -
  have "fp_editing (listing_answered items docs pg)" "preview_is_text (listing_answered items docs pg)"
    "preview_content (listing_answered items docs pg) = preview_content pg"
    using assms by (simp_all add: listing_answered_def preview_is_text_def preview_content_def)
  then show ?thesis using assms(1,2) by (simp add: editor_effect_def)
qed

lemma folders_pruned: "pathTreeFolderIds le pg = Some ids \<Longrightarrow> set (fp_folders (folders_effect le pg)) \<subseteq> set ids"
  by (auto simp: folders_effect_def)

lemma toggle_twice: "distinct xs \<Longrightarrow> set (toggle_member x (toggle_member x xs)) = set xs"
  by (auto simp: toggle_member_def)

theorem saved_preview_overwrites_other_file_witness:
  "fst (handleSaveTaskFile (handleStartEditTaskFile (save_previewed
      (JObj [(js ''kind'', JStr (js ''text'')), (js ''content'', JStr (js ''of the other''))])
      (shared_page\<lparr>fp_selected := Some \<lparr>se_kind = TaskResource, se_id = js ''shared:/root/.local/linpo/default/docs/a.md''\<rparr>\<rparr>)))) =
     [WriteFile (js ''i1'') None (js ''/root/.local/linpo/default/docs/a.md'') (js ''of the other'')]"
proof -
  let ?pg = "shared_page\<lparr>fp_selected := Some \<lparr>se_kind = TaskResource, se_id = js ''shared:/root/.local/linpo/default/docs/a.md''\<rparr>\<rparr>"
  have f: "selectedTaskFile ?pg = Some (shared_file ''/root/.local/linpo/default/docs/a.md'' ''a.md'')"
    by (simp add: selectedTaskFile_def shared_page_def shared_file_def js_append)
  have i: "trim (currentInstanceId ?pg) = js ''i1''"
  proof -
    have "trim (js ''i1'') = js ''i1''" by code_simp
    then show ?thesis by (simp add: currentInstanceId_def shared_page_def)
  qed
  have t: "selectedTaskId ?pg = None" using f by (simp add: selectedTaskId_def shared_file_def)
  show ?thesis
    using saved_preview_overwrites_other_file [OF f _ _ refl, of "js ''of the other''"] i t by (simp add: shared_file_def)
qed

section \<open>The width of the side bar\<close>

inductive resize_reachable :: "sidebar_resize \<Rightarrow> bool" where
  start: "resize_reachable initial_resize"
| mobile: "resize_reachable s \<Longrightarrow> resize_reachable (resize_mobile isMobile s)"
| down: "resize_reachable s \<Longrightarrow> resize_reachable (handleSidebarResizePointerDown isMobile pointerId x s)"
| move: "resize_reachable s \<Longrightarrow> resize_reachable (handlePointerMove pointerId x s)"
| up: "resize_reachable s \<Longrightarrow> resize_reachable (finishResize pointerId s)"

lemmas resize_defs = resize_mobile_def handleSidebarResizePointerDown_def handlePointerMove_def finishResize_def

text \<open>However the pointers move, the side bar stays between 240 and 560 pixels wide, and it is being
  resized exactly while a pointer holds its border.\<close>

lemma sidebar_width_bounded:
  assumes "resize_reachable s"
  shows "240 \<le> rz_width s \<and> rz_width s \<le> 560 \<and> (rz_resizing s \<longleftrightarrow> rz_grab s \<noteq> None)"
  using assms
  by induction (auto simp: initial_resize_def INSTANCE_FILES_SIDEBAR_WIDTH_PX_def resize_defs clampSidebarWidth_def
    INSTANCE_FILES_SIDEBAR_MIN_WIDTH_PX_def INSTANCE_FILES_SIDEBAR_MAX_WIDTH_PX_def split: option.split)

theorem sidebar_width_bounded_witness:
  "240 \<le> rz_width (handlePointerMove 1 5000 (handleSidebarResizePointerDown False 1 0 initial_resize))"
  using sidebar_width_bounded [OF resize_reachable.move [OF resize_reachable.down [OF resize_reachable.start]]] by blast


end
