(* ===== verification/AutoSync.thy ===== *)
theory AutoSync imports FlowState begin

text \<open>
  \<open>hooks/useBlockedFlowAutoSync.ts\<close>: the edits of a submitted flow that is not running are sent to the
  server 280 ms after the last one, one request at a time, with one place for the request that waits.
  The refs of the hook are a record; its effect, its timer, the three continuations of a request and
  its unmount are functions on it. A signature is the value given to \<open>JSON.stringify\<close>, which is
  injective on such values; None is the empty string. \<open>le\<close> is \<open>localeCompare(_, 'en') <= 0\<close>.
\<close>

section \<open>Requests and signatures\<close>

definition sync_node :: "(jsstring \<Rightarrow> jsstring \<Rightarrow> bool) \<Rightarrow> flow_node \<Rightarrow> jsstring \<times> json" where
  "sync_node le node = (n_id node, JObj
     [(js ''id'', JStr (n_id node)), (js ''title'', JStr (n_title node)),
      (js ''description'', JStr (nullish (n_description node) [])),
      (js ''depends_on'', JArr (map JStr (sort_by le (n_depends_on node)))),
      (js ''sensitive'', JBool (n_sensitive node)), (js ''agent_id'', JStr (nullish (n_agent_id node) []))])"

definition sync_edge :: "flow_edge \<Rightarrow> jsstring \<times> json" where
  "sync_edge edge = (e_source edge @ js ''->'' @ e_target edge, JObj
     [(js ''source'', JStr (e_source edge)), (js ''target'', JStr (e_target edge))])"

definition by_name :: "(jsstring \<Rightarrow> jsstring \<Rightarrow> bool) \<Rightarrow> (jsstring \<times> json) list \<Rightarrow> (jsstring \<times> json) list" where
  "by_name le xs = sort_by (\<lambda>a b. le (fst a) (fst b)) xs"

definition buildSyncSignature ::
  "(jsstring \<Rightarrow> jsstring \<Rightarrow> bool) \<Rightarrow> jsstring \<Rightarrow> jsstring \<Rightarrow> flow_node list \<Rightarrow> flow_edge list \<Rightarrow> json" where
  "buildSyncSignature le requirementId flowDisplayName flowNodes flowEdges = JObj
     [(js ''requirementId'', JStr requirementId), (js ''requirementTitle'', JStr (trim flowDisplayName)),
      (js ''nodes'', JArr (map snd (by_name le (map (sync_node le) flowNodes)))),
      (js ''edges'', JArr (map snd (by_name le (map sync_edge flowEdges))))]"

record sync_request =
  sy_signature :: json
  sy_requirement_id :: jsstring
  sy_title :: jsstring
  sy_nodes :: "flow_node list"
  sy_edges :: "flow_edge list"
  sy_board_id :: jsstring

record sync_inputs =
  si_requirement_id :: jsstring
  si_name :: jsstring
  si_nodes :: "flow_node list"
  si_edges :: "flow_edge list"
  si_state :: flow_runtime_state
  si_planning :: bool
  si_actioning :: bool
  si_submitting :: bool
  si_board_id :: jsstring

section \<open>The hook\<close>

text \<open>
  The four refs, the requests whose answer is awaited, those whose refresh of the tasks is awaited,
  every request sent, oldest first, and the errors told.
\<close>

record auto_sync =
  as_signature :: "json option"
  as_in_flight :: "json option"
  as_queued :: "sync_request option"
  as_timer :: "sync_request option"
  as_calls :: "sync_request list"
  as_refreshing :: "sync_request list"
  as_sent :: "sync_request list"
  as_toasts :: "jsstring list"

definition initial_sync :: auto_sync where
  "initial_sync = \<lparr>as_signature = None, as_in_flight = None, as_queued = None, as_timer = None, as_calls = [],
     as_refreshing = [], as_sent = [], as_toasts = []\<rparr>"

definition launchSyncRequest :: "sync_request \<Rightarrow> auto_sync \<Rightarrow> auto_sync" where
  "launchSyncRequest request s =
     (if as_in_flight s \<noteq> None then s\<lparr>as_queued := Some request\<rparr>
      else s\<lparr>as_in_flight := Some (sy_signature request), as_calls := as_calls s @ [request], as_sent := as_sent s @ [request]\<rparr>)"

text \<open>\<open>then\<close> up to the await of the refresh, \<open>catch\<close> and \<open>finally\<close>.\<close>

definition sync_finally :: "sync_request \<Rightarrow> auto_sync \<Rightarrow> auto_sync" where
  "sync_finally request s =
     (let s = (if as_in_flight s = Some (sy_signature request) then s\<lparr>as_in_flight := None\<rparr> else s) in
      case as_queued s of None \<Rightarrow> s
      | Some queuedRequest \<Rightarrow>
          let s = s\<lparr>as_queued := None\<rparr> in
          if Some (sy_signature queuedRequest) = as_signature s \<or> Some (sy_signature queuedRequest) = as_in_flight s then s
          else launchSyncRequest queuedRequest s)"

definition sync_answered :: "sync_request \<Rightarrow> auto_sync \<Rightarrow> auto_sync" where
  "sync_answered request s =
     s\<lparr>as_calls := remove1 request (as_calls s), as_signature := Some (sy_signature request),
       as_refreshing := as_refreshing s @ [request]\<rparr>"

definition sync_refreshed :: "sync_request \<Rightarrow> auto_sync \<Rightarrow> auto_sync" where
  "sync_refreshed request s = sync_finally request (s\<lparr>as_refreshing := remove1 request (as_refreshing s)\<rparr>)"

definition sync_error :: "jsstring option \<Rightarrow> auto_sync \<Rightarrow> auto_sync" where
  "sync_error error s = s\<lparr>as_toasts := as_toasts s @ [nullish error ([0x6D41, 0x7A0B, 0x540C, 0x6B65, 0x5931, 0x8D25])]\<rparr>"

definition sync_failed :: "sync_request \<Rightarrow> jsstring option \<Rightarrow> auto_sync \<Rightarrow> auto_sync" where
  "sync_failed request error s =
     sync_finally request (sync_error error (s\<lparr>as_calls := remove1 request (as_calls s)\<rparr>))"

definition refresh_failed :: "sync_request \<Rightarrow> jsstring option \<Rightarrow> auto_sync \<Rightarrow> auto_sync" where
  "refresh_failed request error s =
     sync_finally request (sync_error error (s\<lparr>as_refreshing := remove1 request (as_refreshing s)\<rparr>))"

text \<open>The effect, its cleanup before it included; the timer holds the request it will launch.\<close>

definition sync_paused :: "sync_inputs \<Rightarrow> bool" where
  "sync_paused inp \<longleftrightarrow> si_state inp = FlowRunning \<or> si_planning inp \<or> si_actioning inp \<or> si_submitting inp"

definition request_of_inputs :: "(jsstring \<Rightarrow> jsstring \<Rightarrow> bool) \<Rightarrow> sync_inputs \<Rightarrow> sync_request" where
  "request_of_inputs le inp =
     \<lparr>sy_signature = buildSyncSignature le (trim (si_requirement_id inp)) (si_name inp) (si_nodes inp) (si_edges inp),
      sy_requirement_id = trim (si_requirement_id inp), sy_title = trim (si_name inp), sy_nodes = si_nodes inp,
      sy_edges = si_edges inp, sy_board_id = si_board_id inp\<rparr>"

definition sync_effect :: "(jsstring \<Rightarrow> jsstring \<Rightarrow> bool) \<Rightarrow> sync_inputs \<Rightarrow> auto_sync \<Rightarrow> auto_sync" where
  "sync_effect le inp s =
     (let s = s\<lparr>as_timer := None\<rparr> in
      if sync_paused inp then s\<lparr>as_queued := None\<rparr>
      else if trim (si_requirement_id inp) = [] then s
      else
        let request = request_of_inputs le inp; signature = Some (sy_signature request) in
        if signature = as_signature s \<or> signature = as_in_flight s \<or> signature = map_option sy_signature (as_queued s) then s
        else s\<lparr>as_timer := Some request\<rparr>)"

definition sync_timer :: "auto_sync \<Rightarrow> auto_sync" where
  "sync_timer s = (case as_timer s of None \<Rightarrow> s | Some request \<Rightarrow> launchSyncRequest request (s\<lparr>as_timer := None\<rparr>))"

definition sync_unmount :: "auto_sync \<Rightarrow> auto_sync" where
  "sync_unmount s = s\<lparr>as_timer := None, as_queued := None, as_in_flight := None\<rparr>"
section \<open>Runs\<close>

text \<open>Any order of renders, timers and answers; the flag tells whether the page is mounted.\<close>

inductive auto_sync_run :: "(jsstring \<Rightarrow> jsstring \<Rightarrow> bool) \<Rightarrow> bool \<Rightarrow> auto_sync \<Rightarrow> bool" for le where
  mounted: "auto_sync_run le True initial_sync"
| render: "auto_sync_run le True s \<Longrightarrow> auto_sync_run le True (sync_effect le inp s)"
| timer: "auto_sync_run le True s \<Longrightarrow> auto_sync_run le True (sync_timer s)"
| answered: "auto_sync_run le m s \<Longrightarrow> r \<in> set (as_calls s) \<Longrightarrow> auto_sync_run le m (sync_answered r s)"
| failed: "auto_sync_run le m s \<Longrightarrow> r \<in> set (as_calls s) \<Longrightarrow> auto_sync_run le m (sync_failed r error s)"
| refreshed: "auto_sync_run le m s \<Longrightarrow> r \<in> set (as_refreshing s) \<Longrightarrow> auto_sync_run le m (sync_refreshed r s)"
| refresh_lost: "auto_sync_run le m s \<Longrightarrow> r \<in> set (as_refreshing s) \<Longrightarrow> auto_sync_run le m (refresh_failed r error s)"
| unmounted: "auto_sync_run le True s \<Longrightarrow> auto_sync_run le False (sync_unmount s)"

definition under_way :: "auto_sync \<Rightarrow> sync_request list" where
  "under_way s = as_calls s @ as_refreshing s"

text \<open>While mounted, what is in flight is the one request under way, and a request waits only behind it.\<close>

definition sync_inv :: "bool \<Rightarrow> auto_sync \<Rightarrow> bool" where
  "sync_inv m s \<longleftrightarrow>
     (if m then (under_way s = [] \<and> as_in_flight s = None \<and> as_queued s = None \<or>
                 (\<exists>r. under_way s = [r] \<and> as_in_flight s = Some (sy_signature r)))
      else length (under_way s) \<le> 1 \<and> as_in_flight s = None \<and> as_queued s = None \<and> as_timer s = None)"

lemma one_call: "r \<in> set (as_calls s) \<Longrightarrow> length (under_way s) \<le> 1 \<Longrightarrow> as_calls s = [r] \<and> as_refreshing s = []"
  by (cases "as_calls s"; cases "as_refreshing s") (auto simp: under_way_def)

lemma one_refresh: "r \<in> set (as_refreshing s) \<Longrightarrow> length (under_way s) \<le> 1 \<Longrightarrow> as_calls s = [] \<and> as_refreshing s = [r]"
  by (cases "as_calls s"; cases "as_refreshing s") (auto simp: under_way_def)

lemma sync_inv_length: "sync_inv m s \<Longrightarrow> length (under_way s) \<le> 1"
  by (auto simp: sync_inv_def split: if_splits)

lemma sync_inv_mounted: "sync_inv True s \<Longrightarrow> under_way s = [r] \<Longrightarrow> as_in_flight s = Some (sy_signature r)"
  by (auto simp: sync_inv_def)

lemma sync_inv_finally:
  assumes "sync_inv m s" and "under_way s = [r]" and "as_calls s' = []" "as_refreshing s' = []"
    and "as_in_flight s' = as_in_flight s" "as_queued s' = as_queued s" "as_timer s' = as_timer s"
  shows "sync_inv m (sync_finally r s')"
proof (cases m)
  case True
  then have "as_in_flight s = Some (sy_signature r)" using assms(1,2) sync_inv_mounted by simp
  then show ?thesis using True assms
    by (auto simp: sync_inv_def under_way_def sync_finally_def launchSyncRequest_def Let_def split: option.split)
next
  case False
  then show ?thesis using assms by (auto simp: sync_inv_def under_way_def sync_finally_def)
qed

lemma sync_inv_run: "auto_sync_run le m s \<Longrightarrow> sync_inv m s"
proof (induction rule: auto_sync_run.induct)
  case mounted
  then show ?case by (simp add: sync_inv_def under_way_def initial_sync_def)
next
  case (render s inp)
  then show ?case by (auto simp: sync_inv_def under_way_def sync_effect_def Let_def)
next
  case (timer s)
  then show ?case
    by (auto simp: sync_inv_def under_way_def sync_timer_def launchSyncRequest_def split: option.split)
next
  case (answered m s r)
  note one = one_call [OF answered.hyps(2) sync_inv_length [OF answered.IH]]
  show ?case using answered.IH one by (auto simp: sync_inv_def under_way_def sync_answered_def)
next
  case (failed m s r error)
  note one = one_call [OF failed.hyps(2) sync_inv_length [OF failed.IH]]
  show ?case unfolding sync_failed_def
    by (rule sync_inv_finally [OF failed.IH]) (simp_all add: one under_way_def sync_error_def)
next
  case (refreshed m s r)
  note one = one_refresh [OF refreshed.hyps(2) sync_inv_length [OF refreshed.IH]]
  show ?case unfolding sync_refreshed_def
    by (rule sync_inv_finally [OF refreshed.IH]) (simp_all add: one under_way_def)
next
  case (refresh_lost m s r error)
  note one = one_refresh [OF refresh_lost.hyps(2) sync_inv_length [OF refresh_lost.IH]]
  show ?case unfolding refresh_failed_def
    by (rule sync_inv_finally [OF refresh_lost.IH]) (simp_all add: one under_way_def sync_error_def)
next
  case (unmounted s)
  then show ?case using sync_inv_length [OF unmounted.IH] by (auto simp: sync_inv_def under_way_def sync_unmount_def)
qed

definition finished :: "sync_request \<Rightarrow> auto_sync \<Rightarrow> auto_sync \<Rightarrow> bool" where
  "finished r s s' \<longleftrightarrow> r \<in> set (as_refreshing s) \<and> (s' = sync_refreshed r s \<or> (\<exists>e. s' = refresh_failed r e s)) \<or>
     r \<in> set (as_calls s) \<and> (\<exists>e. s' = sync_failed r e s)"

lemma finished_sends:
  assumes "auto_sync_run le m s" and "finished r s s'"
  shows "as_sent s' = as_sent s @ (case as_queued s of None \<Rightarrow> [] | Some q \<Rightarrow>
     if Some (sy_signature q) = as_signature s then [] else [q])"
proof -
  have inv: "sync_inv m s" by (rule sync_inv_run [OF assms(1)])
  have len: "length (under_way s) \<le> 1" by (rule sync_inv_length [OF inv])
  have r: "under_way s = [r]"
    using assms(2) one_call [OF _ len] one_refresh [OF _ len] by (auto simp: finished_def under_way_def)
  show ?thesis
  proof (cases m)
    case True
    then have "as_in_flight s = Some (sy_signature r)" using inv r sync_inv_mounted by simp
    then show ?thesis using assms(2)
      by (auto simp: finished_def sync_refreshed_def refresh_failed_def sync_failed_def sync_finally_def sync_error_def
        launchSyncRequest_def Let_def split: option.split)
  next
    case False
    then show ?thesis using inv assms(2)
      by (auto simp: finished_def sync_inv_def sync_refreshed_def refresh_failed_def sync_failed_def sync_finally_def sync_error_def Let_def)
  qed
qed

text \<open>C12: At most one synchronisation is under way, and when it ends, whether it succeeded or failed, the
  waiting request is the next one sent unless the server has just been given the same content;
  once the page is gone, nothing is sent any more.\<close>

theorem one_sync_at_a_time:
  assumes "auto_sync_run le m s" and "finished r s s'"
  shows "length (as_calls s @ as_refreshing s) \<le> 1 \<and>
    (m \<longrightarrow> as_in_flight s = Some (sy_signature r)) \<and>
    as_sent s' = as_sent s @ (case as_queued s of None \<Rightarrow> [] | Some q \<Rightarrow>
      if Some (sy_signature q) = as_signature s then [] else [q]) \<and>
    (\<not> m \<longrightarrow> as_sent s' = as_sent s)"
proof -
  have inv: "sync_inv m s" by (rule sync_inv_run [OF assms(1)])
  have len: "length (under_way s) \<le> 1" by (rule sync_inv_length [OF inv])
  have r: "under_way s = [r]"
    using assms(2) one_call [OF _ len] one_refresh [OF _ len] by (auto simp: finished_def under_way_def)
  show ?thesis
    using len finished_sends [OF assms] inv r by (auto simp: under_way_def sync_inv_def split: if_splits)
qed

text \<open>An edit that is taken back while the request before it is under way is sent all the same: the
  waiting request stays although the canvas shows the content in flight again, and it goes to the
  server when that one ends.\<close>

lemma undone_edit_is_sent:
  assumes "auto_sync_run le True s" and "r \<in> set (as_calls s)" and "as_queued s = Some q" and "sy_signature q \<noteq> sy_signature r"
    and "\<not> sync_paused inp" and "sy_signature (request_of_inputs le inp) = sy_signature r"
  shows "as_sent (sync_refreshed r (sync_answered r (sync_effect le inp s))) = as_sent s @ [q] \<and>
    as_timer (sync_effect le inp s) = None"
proof -
  let ?e = "sync_effect le inp s"
  have inv: "sync_inv True s" by (rule sync_inv_run [OF assms(1)])
  note one = one_call [OF assms(2) sync_inv_length [OF inv]]
  have flight: "as_in_flight s = Some (sy_signature r)"
    using sync_inv_mounted [OF inv] one by (simp add: under_way_def)
  then have e: "?e = s\<lparr>as_timer := None\<rparr>"
    using assms(5,6) by (simp add: sync_effect_def Let_def)
  have "auto_sync_run le True (sync_answered r ?e)"
    using assms(1,2) e by (intro auto_sync_run.answered auto_sync_run.render) simp_all
  moreover have "finished r (sync_answered r ?e) (sync_refreshed r (sync_answered r ?e))"
    by (simp add: finished_def sync_answered_def)
  ultimately have "as_sent (sync_refreshed r (sync_answered r ?e)) = as_sent s @ [q]"
    using finished_sends assms(3,4) e by (fastforce simp: sync_answered_def)
  then show ?thesis using e by simp
qed

text \<open>A synchronisation the server refuses is sent again after every render with the same canvas,
  without bound: for every number there is a run with that many requests, all the same, and as many
  error messages. The page renders after each failure, since the message itself makes it render.\<close>

lemma failed_sync_repeats:
  assumes "\<not> sync_paused inp" and "trim (si_requirement_id inp) \<noteq> []"
  shows "\<exists>s. auto_sync_run le True s \<and> as_sent s = replicate n (request_of_inputs le inp) \<and>
     length (as_toasts s) = n \<and> as_calls s = [] \<and> as_refreshing s = [] \<and> as_signature s = None"
proof (induction n)
  case 0
  then show ?case using auto_sync_run.mounted by (force simp: initial_sync_def)
next
  case (Suc n)
  let ?r = "request_of_inputs le inp"
  obtain s where s: "auto_sync_run le True s" "as_sent s = replicate n ?r" "length (as_toasts s) = n"
    "as_calls s = []" "as_refreshing s = []" "as_signature s = None" using Suc by blast
  have "sync_inv True s" by (rule sync_inv_run [OF s(1)])
  then have idle: "as_in_flight s = None" "as_queued s = None" using s(4,5) by (auto simp: sync_inv_def under_way_def)
  let ?t = "sync_timer (sync_effect le inp s)"
  have t: "?t = s\<lparr>as_timer := None, as_in_flight := Some (sy_signature ?r), as_calls := [?r], as_sent := as_sent s @ [?r]\<rparr>"
    using assms s idle by (simp add: sync_effect_def sync_timer_def launchSyncRequest_def Let_def)
  have "auto_sync_run le True (sync_failed ?r None ?t)"
    using s(1) t by (intro auto_sync_run.failed auto_sync_run.timer auto_sync_run.render) simp_all
  moreover have "as_sent (sync_failed ?r None ?t) = replicate (Suc n) ?r \<and> length (as_toasts (sync_failed ?r None ?t)) = Suc n \<and>
      as_calls (sync_failed ?r None ?t) = [] \<and> as_refreshing (sync_failed ?r None ?t) = [] \<and> as_signature (sync_failed ?r None ?t) = None"
    unfolding t using s idle by (simp add: sync_failed_def sync_error_def sync_finally_def replicate_append_same)
  ultimately show ?case by blast
qed
section \<open>The signature\<close>

lemma sorted_unique:
  assumes "\<And>a b. a \<in> set xs \<Longrightarrow> b \<in> set xs \<Longrightarrow> P a b \<Longrightarrow> P b a \<Longrightarrow> a = b"
    and "sorted_wrt P xs" "sorted_wrt P ys" "mset xs = mset ys"
  shows "xs = ys"
  using assms
proof (induction xs arbitrary: ys)
  case (Cons x xs)
  then obtain y ys' where ys: "ys = y # ys'" by (cases ys) auto
  have sets: "set (x # xs) = set (y # ys')" using Cons.prems(4) ys by (metis set_mset_mset)
  have "x = y"
  proof (rule ccontr)
    assume ne: "x \<noteq> y"
    then have mem: "y \<in> set xs" "x \<in> set ys'" using sets by auto
    then have "P x y" "P y x" using Cons.prems(2,3) ys by auto
    then show False using Cons.prems(1) [of x y] ne mem by simp
  qed
  moreover from this have "xs = ys'"
    using Cons.prems ys by (intro Cons.IH) auto
  ultimately show ?case using ys by simp
qed simp

text \<open>\<open>localeCompare\<close> is a total preorder: it does not tell canonically equivalent strings apart.\<close>

definition told_apart :: "(jsstring \<Rightarrow> jsstring \<Rightarrow> bool) \<Rightarrow> jsstring list \<Rightarrow> bool" where
  "told_apart le names \<longleftrightarrow> (\<forall>a \<in> set names. \<forall>b \<in> set names. le a b \<and> le b a \<longrightarrow> a = b)"

lemma by_name_unique:
  assumes "transp le" "totalp le" "reflp le" "told_apart le (map fst xs)" "\<And>a b. a \<in> set xs \<Longrightarrow> b \<in> set xs \<Longrightarrow> fst a = fst b \<Longrightarrow> a = b"
    and "mset xs = mset ys"
  shows "by_name le xs = by_name le ys"
proof -
  let ?P = "\<lambda>a b. le (fst a) (fst b)"
  have total: "?P a b \<or> ?P b a" for a b :: "jsstring \<times> json"
    using assms(2,3) by (metis reflpD totalpD)
  have insert: "sorted_wrt ?P (insert_by ?P x zs)" if "sorted_wrt ?P zs" for x :: "jsstring \<times> json" and zs
    using that
  proof (induction zs)
    case (Cons z zs)
    have "set (insert_by ?P x zs) = insert x (set zs)"
      by (metis mset_insert_by set_mset_add_mset_insert set_mset_mset)
    then show ?case using Cons total [of x z] assms(1) by (auto dest: transpD)
  qed simp
  have sorted: "sorted_wrt ?P (sort_by ?P zs)" for zs :: "(jsstring \<times> json) list"
    unfolding sort_by_def by (induction zs) (auto intro: insert)
  show ?thesis unfolding by_name_def
    using assms(4-6) by (intro sorted_unique [OF _ sorted sorted]) (auto simp: told_apart_def)
qed

lemma map_snd_by_name: "mset (map snd (by_name le (map f xs))) = mset (map (snd \<circ> f) xs)"
proof -
  have "mset (map snd (by_name le (map f xs))) = image_mset snd (mset (map f xs))"
    unfolding by_name_def by (simp only: mset_map mset_sort_by)
  then show ?thesis by (simp add: multiset.map_comp)
qed
lemma by_name_content:
  assumes "transp le" "totalp le" "reflp le" "told_apart le (map (fst \<circ> f) xs)"
    and key: "\<And>a b. a \<in> set xs \<Longrightarrow> b \<in> set xs \<Longrightarrow> fst (f a) = fst (f b) \<Longrightarrow> f a = f b"
    and name: "\<And>a. fst (f a) = h (snd (f a))"
  shows "map snd (by_name le (map f xs)) = map snd (by_name le (map f ys)) \<longleftrightarrow> mset (map (snd \<circ> f) xs) = mset (map (snd \<circ> f) ys)"
proof
  assume "map snd (by_name le (map f xs)) = map snd (by_name le (map f ys))"
  then show "mset (map (snd \<circ> f) xs) = mset (map (snd \<circ> f) ys)" by (metis map_snd_by_name)
next
  assume eq: "mset (map (snd \<circ> f) xs) = mset (map (snd \<circ> f) ys)"
  have "mset (map f zs) = image_mset (\<lambda>j. (h j, j)) (mset (map (snd \<circ> f) zs))" for zs
    by (simp add: multiset.map_comp comp_def name [symmetric])
  then have "mset (map f xs) = mset (map f ys)" using eq by simp
  then have "by_name le (map f xs) = by_name le (map f ys)"
  proof (rule by_name_unique [OF assms(1-3), rotated 2])
    show "told_apart le (map fst (map f xs))" using assms(4) by simp
  next
    fix a b assume "a \<in> set (map f xs)" "b \<in> set (map f xs)" "fst a = fst b"
    then show "a = b" using key by (metis (no_types, lifting) imageE list.set_map)
  qed
  then show "map snd (by_name le (map f xs)) = map snd (by_name le (map f ys))" by simp
qed

text \<open>
  C31: Two canvases have the same signature exactly when they have the same nodes and the same edges, in any order and
  wherever they are drawn: a change of order or place alone is not sent, and any change of a title, text, dependency,
  agent or edge is. Asked of the first canvas: the ids of its nodes are distinct and \<open>localeCompare\<close>, which is any total
  preorder here, tells them and the names \<open>source->target\<close> of its edges apart (it does not for canonically equivalent
  strings), and two edges of one such name have the same ends (ids with an arrow in them could break this).
  Dependencies are compared as they are sorted.
\<close>

theorem signature_iff_same_content:
  assumes "transp le" "totalp le" "reflp le" and "distinct (map n_id nodes)" and "told_apart le (map n_id nodes)"
    and "told_apart le (map (\<lambda>e. e_source e @ js ''->'' @ e_target e) edges)"
    and "\<forall>e \<in> set edges. \<forall>e' \<in> set edges. e_source e @ js ''->'' @ e_target e = e_source e' @ js ''->'' @ e_target e'
      \<longrightarrow> e_source e = e_source e' \<and> e_target e = e_target e'"
  shows "buildSyncSignature le requirementId name nodes edges = buildSyncSignature le requirementId name nodes' edges' \<longleftrightarrow>
    mset (map (\<lambda>n. (n_id n, n_title n, nullish (n_description n) [], sort_by le (n_depends_on n), n_sensitive n, nullish (n_agent_id n) [])) nodes)
      = mset (map (\<lambda>n. (n_id n, n_title n, nullish (n_description n) [], sort_by le (n_depends_on n), n_sensitive n, nullish (n_agent_id n) [])) nodes') \<and>
    mset (map (\<lambda>e. (e_source e, e_target e)) edges) = mset (map (\<lambda>e. (e_source e, e_target e)) edges')"
proof -
  let ?c = "\<lambda>n. (n_id n, n_title n, nullish (n_description n) [], sort_by le (n_depends_on n), n_sensitive n, nullish (n_agent_id n) [])"
  let ?d = "\<lambda>e. (e_source e, e_target e)"
  define cj :: "jsstring \<times> jsstring \<times> jsstring \<times> jsstring list \<times> bool \<times> jsstring \<Rightarrow> json" where
    "cj = (\<lambda>(i, t, d, ds, s, a). JObj [(js ''id'', JStr i), (js ''title'', JStr t), (js ''description'', JStr d),
       (js ''depends_on'', JArr (map JStr ds)), (js ''sensitive'', JBool s), (js ''agent_id'', JStr a)])"
  define dj :: "jsstring \<times> jsstring \<Rightarrow> json" where
    "dj = (\<lambda>(s, t). JObj [(js ''source'', JStr s), (js ''target'', JStr t)])"
  have inj: "inj cj" "inj dj"
    by (auto simp: cj_def dj_def inj_on_def map_eq_imp_length_eq inj_map_eq_map)
  have comp: "snd \<circ> sync_node le = cj \<circ> ?c" "snd \<circ> sync_edge = dj \<circ> ?d"
    by (simp_all add: fun_eq_iff sync_node_def sync_edge_def cj_def dj_def)
  have cancel: "mset (map (g \<circ> k) xs) = mset (map (g \<circ> k) ys) \<longleftrightarrow> mset (map k xs) = mset (map k ys)" if "inj g"
    for g :: "'b \<Rightarrow> json" and k :: "'a \<Rightarrow> 'b" and xs ys
  proof
    assume "mset (map (g \<circ> k) xs) = mset (map (g \<circ> k) ys)"
    then have "image_mset (inv g) (mset (map (g \<circ> k) xs)) = image_mset (inv g) (mset (map (g \<circ> k) ys))" by simp
    then show "mset (map k xs) = mset (map k ys)"
      using that by (simp add: multiset.map_comp comp_def)
  qed (metis mset_map map_map)
  have nodes: "map snd (by_name le (map (sync_node le) nodes)) = map snd (by_name le (map (sync_node le) nodes')) \<longleftrightarrow>
      mset (map ?c nodes) = mset (map ?c nodes')"
  proof -
    have key: "sync_node le a = sync_node le b" if "a \<in> set nodes" "b \<in> set nodes" "fst (sync_node le a) = fst (sync_node le b)" for a b
      using that assms(4) by (auto simp: sync_node_def distinct_map dest: inj_onD)
    have name: "fst (sync_node le a) = (case snd (sync_node le a) of JObj ((_, JStr i) # _) \<Rightarrow> i)" for a
      by (simp add: sync_node_def)
    have apart: "told_apart le (map (fst \<circ> sync_node le) nodes)"
      using assms(5) by (simp add: sync_node_def comp_def)
    show ?thesis
      using by_name_content [where f = "sync_node le" and xs = nodes and ys = nodes' and h = "\<lambda>j. case j of JObj ((_, JStr i) # _) \<Rightarrow> i",
          OF assms(1-3) apart key name] unfolding comp cancel [OF inj(1)] .
  qed
  have edges: "map snd (by_name le (map sync_edge edges)) = map snd (by_name le (map sync_edge edges')) \<longleftrightarrow>
      mset (map ?d edges) = mset (map ?d edges')"
  proof -
    have key: "sync_edge a = sync_edge b" if "a \<in> set edges" "b \<in> set edges" "fst (sync_edge a) = fst (sync_edge b)" for a b
      using that assms(7) by (auto simp: sync_edge_def)
    have name: "fst (sync_edge a) = (case snd (sync_edge a) of JObj [(_, JStr s), (_, JStr t)] \<Rightarrow> s @ js ''->'' @ t)" for a
      by (simp add: sync_edge_def)
    have apart: "told_apart le (map (fst \<circ> sync_edge) edges)"
      using assms(6) by (simp add: sync_edge_def comp_def)
    show ?thesis
      using by_name_content [where f = sync_edge and xs = edges and ys = edges' and
          h = "\<lambda>j. case j of JObj [(_, JStr s), (_, JStr t)] \<Rightarrow> s @ js ''->'' @ t", OF assms(1-3) apart key name] unfolding comp cancel [OF inj(2)] .
  qed
  show ?thesis by (simp add: buildSyncSignature_def nodes edges)
qed
section \<open>Instances\<close>

lemma lex_order:
  "transp (lexordp_eq :: jsstring \<Rightarrow> _)" "totalp (lexordp_eq :: jsstring \<Rightarrow> _)" "reflp (lexordp_eq :: jsstring \<Rightarrow> _)"
  "antisymp (lexordp_eq :: jsstring \<Rightarrow> _)"
proof -
  show "transp (lexordp_eq :: jsstring \<Rightarrow> _)" by (rule transpI) (rule lexordp_eq_trans)
  show "totalp (lexordp_eq :: jsstring \<Rightarrow> _)" by (rule totalpI) (metis lexordp_eq_linear)
  show "reflp (lexordp_eq :: jsstring \<Rightarrow> _)" by (rule reflpI) (rule lexordp_eq_refl)
  show "antisymp (lexordp_eq :: jsstring \<Rightarrow> _)" by (rule antisympI) (rule lexordp_eq_antisym)
qed

definition sample_inputs :: "string \<Rightarrow> sync_inputs" where
  "sample_inputs title = \<lparr>si_requirement_id = js ''r1'', si_name = js title, si_nodes = [], si_edges = [], si_state = FlowBlocked,
     si_planning = False, si_actioning = False, si_submitting = False, si_board_id = js ''b''\<rparr>"

abbreviation sample_request :: "string \<Rightarrow> sync_request" where
  "sample_request title \<equiv> request_of_inputs (\<lambda>_ _. True) (sample_inputs title)"

lemma sample_signature: "sy_signature (sample_request ''a'') \<noteq> sy_signature (sample_request ''b'')"
proof -
  have "trim (js ''a'') = js ''a''" "trim (js ''b'') = js ''b''" by code_simp+
  then show ?thesis by (simp add: request_of_inputs_def sample_inputs_def buildSyncSignature_def)
qed

lemma sample_id: "trim (si_requirement_id (sample_inputs t)) \<noteq> []"
proof -
  have "trim (js ''r1'') = js ''r1''" by code_simp
  then show ?thesis by (simp add: sample_inputs_def)
qed

lemma sample_active: "\<not> sync_paused (sample_inputs t)"
  by (simp add: sync_paused_def sample_inputs_def)

text \<open>Two edits: the first under way, the second waiting.\<close>

definition sample_sync :: auto_sync where
  "sample_sync = sync_timer (sync_effect (\<lambda>_ _. True) (sample_inputs ''b'')
     (sync_timer (sync_effect (\<lambda>_ _. True) (sample_inputs ''a'') initial_sync)))"

lemma sample_sync_run: "auto_sync_run (\<lambda>_ _. True) True sample_sync"
  unfolding sample_sync_def by (intro auto_sync_run.timer auto_sync_run.render auto_sync_run.mounted)

lemma sample_sync_value:
  "sample_sync = initial_sync\<lparr>as_in_flight := Some (sy_signature (sample_request ''a'')), as_queued := Some (sample_request ''b''),
     as_calls := [sample_request ''a''], as_sent := [sample_request ''a'']\<rparr>"
  using sample_signature sample_id sample_active
  by (simp add: sample_sync_def sync_effect_def sync_timer_def launchSyncRequest_def initial_sync_def Let_def)

theorem one_sync_at_a_time_witness:
  "as_sent (sync_failed (sample_request ''a'') None sample_sync) = [sample_request ''a'', sample_request ''b'']"
proof -
  have "finished (sample_request ''a'') sample_sync (sync_failed (sample_request ''a'') None sample_sync)"
    by (auto simp: finished_def sample_sync_value)
  from one_sync_at_a_time [OF sample_sync_run this] show ?thesis
    by (simp add: sample_sync_value initial_sync_def)
qed

theorem undone_edit_is_sent_witness:
  "as_sent (sync_refreshed (sample_request ''a'') (sync_answered (sample_request ''a'')
     (sync_effect (\<lambda>_ _. True) (sample_inputs ''a'') sample_sync))) = [sample_request ''a'', sample_request ''b'']"
  using undone_edit_is_sent [OF sample_sync_run _ _ _ sample_active, of "sample_request ''a''" "sample_request ''b''" "''a''"]
    sample_signature by (simp add: sample_sync_value initial_sync_def)

theorem failed_sync_repeats_witness:
  "\<exists>s. auto_sync_run (\<lambda>_ _. True) True s \<and> as_sent s = replicate 3 (sample_request ''a'') \<and> length (as_toasts s) = 3"
  using failed_sync_repeats [OF sample_active sample_id] by blast

theorem signature_iff_same_content_witness:
  "buildSyncSignature lexordp_eq (js ''r1'') (js ''f'') [sample_node ''1'' ''x'' [], sample_node ''2'' ''y'' [''1'']] [] =
   buildSyncSignature lexordp_eq (js ''r1'') (js ''f'') [(sample_node ''2'' ''y'' [''1''])\<lparr>n_x := jint 9\<rparr>, sample_node ''1'' ''x'' []] []"
proof -
  have "distinct (map n_id [sample_node ''1'' ''x'' [], sample_node ''2'' ''y'' [''1'']])"
    by (simp add: sample_node_def)
  moreover have "told_apart lexordp_eq (map n_id [sample_node ''1'' ''x'' [], sample_node ''2'' ''y'' [''1'']])"
    using lex_order(4) by (auto simp: told_apart_def dest: antisympD)
  moreover have "told_apart lexordp_eq (map (\<lambda>e. e_source e @ js ''->'' @ e_target e) [])" by (simp add: told_apart_def)
  ultimately show ?thesis
    using signature_iff_same_content [OF lex_order(1-3), of "[sample_node ''1'' ''x'' [], sample_node ''2'' ''y'' [''1'']]" "[]" "js ''r1''" "js ''f''"
      "[(sample_node ''2'' ''y'' [''1''])\<lparr>n_x := jint 9\<rparr>, sample_node ''1'' ''x'' []]" "[]"]
    by (simp add: sample_node_def)
qed


end
