(* ===== verification/SessionMessages.thy ===== *)
theory SessionMessages imports BoardColumns ApiClient begin

text \<open>
  \<open>components/collabSessionMessageUtils.ts\<close>: how a message of an agent's session is shown in the
  detail view of a task: what kind of payload its text is, whether it is folded, and its label,
  summary and hint. \<open>parse\<close> is \<open>JSON.parse\<close> (None when it throws) and \<open>num\<close> is \<open>String\<close> on
  numbers; the three regular expressions and the code fence are written out.
\<close>

section \<open>Reading the text\<close>

datatype text_kind = CallbackText | ToolErrorText | ToolFeedbackText | DataOutputText | PlainText

text \<open>\<open>/^```[a-zA-Z0-9_-]*\s*\n([\s\S]*?)\n```$/\<close>: after the tag the white space is matched greedily
  up to a line feed, and given back to an earlier one when no closing fence is left after it.\<close>

definition fence :: jsstring where
  "fence = js ''```''"

definition fence_end :: jsstring where
  "fence_end = 10 # fence"

fun fence_group :: "jsstring \<Rightarrow> jsstring option" where
  "fence_group [] = None"
| "fence_group (c # rest) =
     (if js_white c then
        (case fence_group rest of
           Some inner \<Rightarrow> Some inner
         | None \<Rightarrow> if c = 10 \<and> ends_with rest fence_end then Some (take (length rest - 4) rest) else None)
      else None)"

definition unwrapMarkdownCodeFence :: "jsstring \<Rightarrow> jsstring" where
  "unwrapMarkdownCodeFence text =
     (let normalized = trim text in
      if starts_with normalized fence then
        (case fence_group (dropWhile lane_unit (drop 3 normalized)) of
           Some inner \<Rightarrow> if inner = [] then normalized else trim inner
         | None \<Rightarrow> normalized)
      else normalized)"

text \<open>\<open>null\<close> stands for a text that is empty or not JSON.\<close>

definition tryParseJsonAny :: "(jsstring \<Rightarrow> json option) \<Rightarrow> jsstring \<Rightarrow> json" where
  "tryParseJsonAny parse text =
     (let normalized = unwrapMarkdownCodeFence text in
      if normalized = [] then JNull else case parse normalized of Some v \<Rightarrow> v | None \<Rightarrow> JNull)"

definition tryParseJsonObject :: "(jsstring \<Rightarrow> json option) \<Rightarrow> jsstring \<Rightarrow> (jsstring \<times> json) list option" where
  "tryParseJsonObject parse text = (case tryParseJsonAny parse text of JObj fs \<Rightarrow> Some fs | _ \<Rightarrow> None)"

definition tryParseJsonArray :: "(jsstring \<Rightarrow> json option) \<Rightarrow> jsstring \<Rightarrow> json list option" where
  "tryParseJsonArray parse text = (case tryParseJsonAny parse text of JArr xs \<Rightarrow> Some xs | _ \<Rightarrow> None)"

section \<open>The kind of a payload\<close>

text \<open>\<open>String(payload.a ?? payload.b ?? ... ?? '').trim()\<close>\<close>

definition member_text :: "(jsnum \<Rightarrow> jsstring) \<Rightarrow> (jsstring \<times> json) list \<Rightarrow> string list \<Rightarrow> jsstring" where
  "member_text num payload keys = trim (js_string num (foldr (\<lambda>key. coalesce (field payload key)) keys (JStr [])))"

definition payload_tool_name :: "(jsnum \<Rightarrow> jsstring) \<Rightarrow> (jsstring \<times> json) list \<Rightarrow> jsstring" where
  "payload_tool_name num payload = member_text num payload [''tool'', ''tool_name'', ''name'']"

definition isExplicitToolPayload :: "(jsnum \<Rightarrow> jsstring) \<Rightarrow> (jsstring \<times> json) list \<Rightarrow> bool" where
  "isExplicitToolPayload num payload \<longleftrightarrow>
     (let kindText = to_lower (member_text num payload [''type'']) in
      payload_tool_name num payload \<noteq> [] \<or> member_text num payload [''tool_call_id''] \<noteq> [] \<or>
      kindText = js ''tool_call'' \<or> kindText = js ''function_call'' \<or> kindText = js ''tool_result'' \<or> kindText = js ''function_result'')"

fun is_bool :: "json \<Rightarrow> bool" where
  "is_bool (JBool _) = True"
| "is_bool _ = False"

fun string_value :: "json \<Rightarrow> bool" where
  "string_value (JStr _) = True"
| "string_value _ = False"

text \<open>\<open>typeof v === 'object'\<close>: true of \<open>null\<close> too.\<close>

fun typeof_object :: "json \<Rightarrow> bool" where
  "typeof_object JNull = True"
| "typeof_object (JArr _) = True"
| "typeof_object (JObj _) = True"
| "typeof_object _ = False"

definition payload_failed :: "(jsnum \<Rightarrow> jsstring) \<Rightarrow> (jsstring \<times> json) list \<Rightarrow> bool" where
  "payload_failed num payload \<longleftrightarrow>
     (let status = to_lower (member_text num payload [''status'']) in
      string_value (field payload ''error'') \<or> status = js ''error'' \<or> status = js ''failed'')"

definition object_kind :: "(jsnum \<Rightarrow> jsstring) \<Rightarrow> (jsstring \<times> json) list \<Rightarrow> text_kind" where
  "object_kind num payload =
     (if is_bool (field payload ''accepted'') \<and> string_value (field payload ''task_id'') \<and> string_value (field payload ''run_id'')
      then CallbackText
      else
        let hasTool = isExplicitToolPayload num payload;
            hasResult = map_has payload (js ''result'') \<or> map_has payload (js ''response'') \<or> map_has payload (js ''output'') \<or>
                        map_has payload (js ''message'') \<or> to_lower (member_text num payload [''status'']) \<noteq> [] in
        if hasTool \<and> payload_failed num payload then ToolErrorText
        else if hasTool \<and> hasResult then ToolFeedbackText
        else if string_value (field payload ''output_file_path'') \<or> string_value (field payload ''data_type'') \<or>
                typeof_object (field payload ''market_summary'') \<or> typeof_object (field payload ''gold_etf_data'') \<or>
                typeof_object (field payload ''etf_details'')
        then DataOutputText
        else PlainText)"

definition array_kind :: "(jsnum \<Rightarrow> jsstring) \<Rightarrow> json list \<Rightarrow> text_kind" where
  "array_kind num items =
     (let item_is = (\<lambda>p item. case item of JObj candidate \<Rightarrow> p candidate | _ \<Rightarrow> False) in
      if list_ex (item_is (isExplicitToolPayload num)) items
      then if list_ex (item_is (payload_failed num)) items then ToolErrorText else ToolFeedbackText
      else PlainText)"

definition resolveStructuredMessageKind ::
  "(jsstring \<Rightarrow> json option) \<Rightarrow> (jsnum \<Rightarrow> jsstring) \<Rightarrow> jsstring \<Rightarrow> text_kind" where
  "resolveStructuredMessageKind parse num text =
     (let kind = (case tryParseJsonObject parse text of Some payload \<Rightarrow> object_kind num payload | None \<Rightarrow> PlainText) in
      if kind \<noteq> PlainText then kind
      else case tryParseJsonArray parse text of Some items \<Rightarrow> array_kind num items | None \<Rightarrow> PlainText)"

section \<open>Folding\<close>

definition isLongInstructionText :: "jsstring \<Rightarrow> bool" where
  "isLongInstructionText text \<longleftrightarrow> 360 \<le> length (trim text)"

definition isLikelyStructuredBlob :: "jsstring \<Rightarrow> bool" where
  "isLikelyStructuredBlob text \<longleftrightarrow>
     (let normalized = trim text in
      240 \<le> length normalized \<and>
      (starts_with normalized (js ''{'') \<and> ends_with normalized (js ''}'') \<or>
       starts_with normalized (js ''['') \<and> ends_with normalized (js '']'')))"

definition shouldRenderCollapsibleMessage ::
  "(jsstring \<Rightarrow> json option) \<Rightarrow> (jsnum \<Rightarrow> jsstring) \<Rightarrow> jsstring \<Rightarrow> jsstring \<Rightarrow> bool" where
  "shouldRenderCollapsibleMessage parse num role text \<longleftrightarrow>
     (let normalizedRole = to_lower role in
      if normalizedRole = js ''tool'' then True
      else if normalizedRole = js ''user'' \<and> isLongInstructionText text then True
      else if resolveStructuredMessageKind parse num text \<noteq> PlainText then True
      else isLikelyStructuredBlob text)"


section \<open>Labels, summaries and hints\<close>

text \<open>The first place from which a pattern matches, and the trimmed first group when it is not empty.\<close>

fun first_match :: "(jsstring \<Rightarrow> jsstring option) \<Rightarrow> jsstring \<Rightarrow> jsstring option" where
  "first_match matches [] = matches []"
| "first_match matches (c # rest) = (case matches (c # rest) of Some inner \<Rightarrow> Some inner | None \<Rightarrow> first_match matches rest)"

fun trimmed_group :: "jsstring option \<Rightarrow> jsstring option" where
  "trimmed_group None = None"
| "trimmed_group (Some inner) = non_empty (trim inner)"

text \<open>A literal of a pattern with the flag \<open>i\<close> (no literal here has a \<open>k\<close>), and a group
  of one or more units that runs up to a closing unit outside it.\<close>

definition after_literal :: "string \<Rightarrow> jsstring \<Rightarrow> jsstring option" where
  "after_literal literal text =
     (let n = length literal in if to_lower (take n text) = js literal then Some (drop n text) else None)"

definition group_until :: "(16 word \<Rightarrow> bool) \<Rightarrow> 16 word \<Rightarrow> jsstring \<Rightarrow> jsstring option" where
  "group_until unit_ok closing text =
     (let inner = takeWhile unit_ok text; rest = dropWhile unit_ok text in
      if inner \<noteq> [] \<and> rest \<noteq> [] \<and> hd rest = closing then Some inner else None)"

text \<open>\<open>/tool\.call\(([^)\s]+)\)/i\<close>\<close>

definition tool_call_at :: "jsstring \<Rightarrow> jsstring option" where
  "tool_call_at text =
     Option.bind (after_literal ''tool.call('' text) (group_until (\<lambda>c. c \<noteq> 41 \<and> \<not> js_white c) 41)"

text \<open>\<open>\s*:\s*"([^"]+)"\<close>\<close>

definition string_value_at :: "jsstring \<Rightarrow> jsstring option" where
  "string_value_at text =
     Option.bind (after_literal '':'' (dropWhile js_white text)) (\<lambda>rest.
       Option.bind (after_literal ''\"'' (dropWhile js_white rest)) (group_until (\<lambda>c. c \<noteq> 34) 34))"

text \<open>\<open>/"tool[_-]?name"\s*:\s*"([^"]+)"/i\<close> and \<open>/"name"\s*:\s*"([^"]+)"/i\<close>\<close>

definition tool_name_at :: "jsstring \<Rightarrow> jsstring option" where
  "tool_name_at text =
     Option.bind (after_literal ''\"tool'' text) (\<lambda>rest.
       Option.bind (after_literal ''name\"'' (if rest \<noteq> [] \<and> (hd rest = 95 \<or> hd rest = 45) then tl rest else rest))
         string_value_at)"

definition name_at :: "jsstring \<Rightarrow> jsstring option" where
  "name_at text = Option.bind (after_literal ''\"name\"'' text) string_value_at"

definition extractToolCallName :: "jsstring \<Rightarrow> jsstring option" where
  "extractToolCallName text =
     nullish_opt (trimmed_group (first_match tool_call_at text))
       (nullish_opt (trimmed_group (first_match tool_name_at text)) (trimmed_group (first_match name_at text)))"

definition buildToolCallSummary :: "jsstring \<Rightarrow> jsstring" where
  "buildToolCallSummary text =
     (case extractToolCallName text of Some toolName \<Rightarrow> [0x5DE5, 0x5177, 0x8C03, 0x7528, 0xFF1A] @ toolName | None \<Rightarrow> [0x5DE5, 0x5177, 0x8C03, 0x7528])"

definition getToolNameFromPayload :: "(jsnum \<Rightarrow> jsstring) \<Rightarrow> (jsstring \<times> json) list option \<Rightarrow> jsstring" where
  "getToolNameFromPayload num payload = (case payload of None \<Rightarrow> [] | Some p \<Rightarrow> payload_tool_name num p)"

definition buildCollapsibleSummary ::
  "(jsstring \<Rightarrow> json option) \<Rightarrow> (jsnum \<Rightarrow> jsstring) \<Rightarrow> jsstring \<Rightarrow> jsstring" where
  "buildCollapsibleSummary parse num text =
     (let payload = tryParseJsonObject parse text; member = (\<lambda>keys. member_text num (nullish payload []) keys) in
      case resolveStructuredMessageKind parse num text of
        CallbackText \<Rightarrow> [0x56DE, 0x8C03, 0x54CD, 0x5E94, 0xFF1A, 0x72B6, 0x6001] @ js '' '' @ str_or (member [''status'']) (js ''unknown'')
      | ToolErrorText \<Rightarrow>
          (let tool = getToolNameFromPayload num payload in
           if tool \<noteq> [] then [0x5DE5, 0x5177, 0x53CD, 0x9988, 0xFF1A] @ tool @ js '' '' @ [0x6267, 0x884C, 0x5931, 0x8D25] else [0x5DE5, 0x5177, 0x53CD, 0x9988, 0xFF1A, 0x6267, 0x884C, 0x5931, 0x8D25])
      | ToolFeedbackText \<Rightarrow>
          (let tool = getToolNameFromPayload num payload in if tool \<noteq> [] then [0x5DE5, 0x5177, 0x53CD, 0x9988, 0xFF1A] @ tool else [0x5DE5, 0x5177, 0x53CD, 0x9988])
      | DataOutputText \<Rightarrow>
          (let dataType = member [''data_type'', ''report_type''] in
           if dataType \<noteq> [] then [0x6570, 0x636E, 0x8F93, 0x51FA, 0xFF1A] @ dataType else [0x6570, 0x636E, 0x8F93, 0x51FA])
      | PlainText \<Rightarrow> buildToolCallSummary text)"

definition buildMessageSummary ::
  "(jsstring \<Rightarrow> json option) \<Rightarrow> (jsnum \<Rightarrow> jsstring) \<Rightarrow> jsstring \<Rightarrow> jsstring \<Rightarrow> jsstring" where
  "buildMessageSummary parse num role text =
     (let normalizedRole = to_lower role in
      if normalizedRole = js ''user'' then [0x4EFB, 0x52A1, 0x6307, 0x4EE4, 0xFF08, 0x5DF2, 0x6298, 0x53E0, 0xFF09]
      else if normalizedRole = js ''tool'' then buildToolCallSummary text
      else buildCollapsibleSummary parse num text)"

definition getMessageHint ::
  "(jsstring \<Rightarrow> json option) \<Rightarrow> (jsnum \<Rightarrow> jsstring) \<Rightarrow> jsstring \<Rightarrow> jsstring \<Rightarrow> jsstring" where
  "getMessageHint parse num role text =
     (let normalizedRole = to_lower role; kind = resolveStructuredMessageKind parse num text in
      if normalizedRole = js ''user'' then [0x4EFB, 0x52A1, 0x4E0B, 0x53D1, 0x5185, 0x5BB9]
      else if normalizedRole = js ''other'' \<and> kind = CallbackText then [0x56DE, 0x8C03, 0x54CD, 0x5E94, 0x8BE6, 0x60C5]
      else if normalizedRole = js ''other'' \<and> kind = DataOutputText then [0x7ED3, 0x6784, 0x5316, 0x6570, 0x636E, 0x5185, 0x5BB9]
      else [0x53CD, 0x9988] @ js ''/'' @ [0x9519, 0x8BEF, 0x4FE1, 0x606F])"

definition getRoleLabel ::
  "(jsstring \<Rightarrow> json option) \<Rightarrow> (jsnum \<Rightarrow> jsstring) \<Rightarrow> jsstring \<Rightarrow> jsstring \<Rightarrow> jsstring" where
  "getRoleLabel parse num role text =
     (let normalizedRole = to_lower role; kind = resolveStructuredMessageKind parse num text in
      if normalizedRole = js ''user'' then [0x7528, 0x6237]
      else if normalizedRole = js ''assistant'' then js ''Agent''
      else if normalizedRole = js ''tool'' then [0x5DE5, 0x5177, 0x8C03, 0x7528]
      else if normalizedRole = js ''system'' then [0x7CFB, 0x7EDF]
      else if kind = CallbackText then [0x56DE, 0x8C03, 0x54CD, 0x5E94]
      else if kind = ToolErrorText \<or> kind = ToolFeedbackText then [0x5DE5, 0x5177, 0x53CD, 0x9988]
      else if kind = DataOutputText then [0x6570, 0x636E, 0x8F93, 0x51FA]
      else if isLikelyStructuredBlob text then [0x7ED3, 0x6784, 0x5316, 0x6D88, 0x606F]
      else [0x5176, 0x4ED6])"

definition background_of ::
  "(jsstring \<Rightarrow> json option) \<Rightarrow> (jsnum \<Rightarrow> jsstring) \<Rightarrow> jsstring \<Rightarrow> jsstring \<Rightarrow> jsstring" where
  "background_of parse num role text =
     (let normalizedRole = to_lower role;
          structuredKind = (if normalizedRole = js ''other'' \<or> normalizedRole = js ''tool''
                            then resolveStructuredMessageKind parse num text else PlainText) in
      if normalizedRole = js ''assistant'' then js ''rgba(236, 253, 245, 0.9)''
      else if normalizedRole = js ''user'' then js ''rgba(239, 246, 255, 0.9)''
      else case structuredKind of
             CallbackText \<Rightarrow> js ''rgba(255, 251, 235, 0.9)''
           | ToolErrorText \<Rightarrow> js ''rgba(254, 242, 242, 0.9)''
           | ToolFeedbackText \<Rightarrow> js ''rgba(240, 249, 255, 0.9)''
           | DataOutputText \<Rightarrow> js ''rgba(245, 243, 255, 0.9)''
           | PlainText \<Rightarrow> js ''rgba(248, 250, 252, 0.92)'')"


section \<open>Code fences\<close>

lemma trim_white_append: "list_all js_white w \<Longrightarrow> trim (w @ x) = trim x"
  by (simp add: trim_def list_all_iff dropWhile_append2)

lemma fence_group_solid: "x \<noteq> [] \<Longrightarrow> \<not> js_white (hd x) \<Longrightarrow> fence_group (x @ rest) = None"
  by (cases x) simp_all

lemma ends_with_append [simp]: "ends_with (x @ y) y"
  by (auto simp: ends_with_def)

lemma length_fence_end [simp]: "length fence_end = 4"
  by (simp add: fence_end_def fence_def)

lemma fence_group_white:
  assumes "list_all js_white w" "x \<noteq> []" "\<not> js_white (hd x)"
  shows "(\<exists>w'. list_all js_white w' \<and> fence_group (w @ x @ fence_end) = Some (w' @ x)) \<or>
         fence_group (w @ x @ fence_end) = None \<and> 10 \<notin> set w"
  using assms(1)
proof (induction w)
  case Nil
  show ?case using fence_group_solid [OF assms(2,3)] by simp
next
  case (Cons c w)
  have "take (length w + length x) (w @ x @ fence_end) = w @ x" "ends_with (w @ x @ fence_end) fence_end"
    using ends_with_append [of "w @ x" fence_end] by simp_all
  with Cons show ?case by (auto split: option.splits)
qed

lemma fence_solid: "fence = 96 # js ''``''" "\<not> js_white 96" "\<not> lane_unit 10" "js_white 10"
  by (simp_all add: fence_def js_def js_white_def lane_unit_def)

lemma trim_fenced: "trim (fence @ x @ fence_end) = fence @ x @ fence_end"
proof -
  have "rev (fence @ x @ fence_end) = 96 # [96, 96, 10] @ rev x @ rev fence"
    by (simp add: fence_end_def fence_def js_def)
  then have "dropWhile js_white (rev (fence @ x @ fence_end)) = rev (fence @ x @ fence_end)"
    by (simp only: dropWhile.simps fence_solid(2) if_False)
  moreover have "dropWhile js_white (fence @ x @ fence_end) = fence @ x @ fence_end"
    by (simp add: fence_solid)
  ultimately show ?thesis by (simp add: trim_def del: rev_append append_assoc)
qed

lemma solid_split:
  assumes "trim inner \<noteq> []"
  obtains w x where "inner = w @ x" "list_all js_white w" "x \<noteq> []" "\<not> js_white (hd x)"
proof
  show "inner = takeWhile js_white inner @ dropWhile js_white inner" by simp
  show "list_all js_white (takeWhile js_white inner)" by (auto simp: list_all_iff dest: set_takeWhileD)
  show ne: "dropWhile js_white inner \<noteq> []" using assms unfolding trim_def by (metis dropWhile.simps(1) rev.simps(1))
  show "\<not> js_white (hd (dropWhile js_white inner))" using ne by (rule hd_dropWhile)
qed

lemma unwrap_fenced:
  assumes "list_all lane_unit tag" "trim inner \<noteq> []"
  shows "unwrapMarkdownCodeFence (fence @ tag @ 10 # inner @ fence_end) = trim inner"
proof -
  obtain w x where inner: "inner = w @ x" "list_all js_white w" "x \<noteq> []" "\<not> js_white (hd x)"
    using solid_split [OF assms(2)] .
  have "list_all js_white (10 # w)" using inner(2) fence_solid(4) by simp
  from fence_group_white [OF this inner(3,4)] obtain w' where
    group: "list_all js_white w'" "fence_group (10 # inner @ fence_end) = Some (w' @ x)"
    by (auto simp: inner(1))
  have "dropWhile lane_unit (tag @ 10 # inner @ fence_end) = 10 # inner @ fence_end"
    using assms(1) fence_solid(3) by (simp add: list_all_iff dropWhile_append2)
  moreover have "trim (w' @ x) = trim inner" using group(1) inner by (simp add: trim_white_append)
  moreover have "trim (fence @ tag @ 10 # inner @ fence_end) = fence @ tag @ 10 # inner @ fence_end"
    using trim_fenced [of "tag @ 10 # inner"] by simp
  moreover have "drop 3 (fence @ y) = y" "starts_with (fence @ y) fence" for y
    by (simp_all add: fence_def starts_with_def)
  ultimately show ?thesis using inner(3) group(2) by (simp add: unwrapMarkdownCodeFence_def Let_def del: drop_append fence_group.simps)
qed

lemma unwrap_unfenced: "\<not> starts_with (trim text) fence \<Longrightarrow> unwrapMarkdownCodeFence text = trim text"
  by (simp add: unwrapMarkdownCodeFence_def)

section \<open>Kinds\<close>

lemma kind_cases:
  "resolveStructuredMessageKind parse num text =
     (case tryParseJsonAny parse text of JObj fs \<Rightarrow> object_kind num fs | JArr xs \<Rightarrow> array_kind num xs | _ \<Rightarrow> PlainText)"
  by (simp add: resolveStructuredMessageKind_def tryParseJsonObject_def tryParseJsonArray_def Let_def split: json.splits)

lemma kind_cong:
  "unwrapMarkdownCodeFence a = unwrapMarkdownCodeFence b \<Longrightarrow>
   resolveStructuredMessageKind parse num a = resolveStructuredMessageKind parse num b"
  by (simp add: kind_cases tryParseJsonAny_def)

theorem fenced_text_same_kind:
  assumes "list_all lane_unit tag" "trim inner \<noteq> []" "\<not> starts_with (trim inner) fence"
  shows "resolveStructuredMessageKind parse num (fence @ tag @ 10 # inner @ fence_end) =
         resolveStructuredMessageKind parse num inner"
  by (rule kind_cong) (simp add: unwrap_fenced [OF assms(1,2)] unwrap_unfenced [OF assms(3)])

lemma object_kind_callback:
  "object_kind num fs = CallbackText \<longleftrightarrow>
     is_bool (field fs ''accepted'') \<and> string_value (field fs ''task_id'') \<and> string_value (field fs ''run_id'')"
  by (simp add: object_kind_def Let_def)

lemma array_kind_tool [simp]: "array_kind num xs \<noteq> CallbackText" "array_kind num xs \<noteq> DataOutputText"
  by (simp_all add: array_kind_def Let_def)

lemma object_kind_tool:
  "object_kind num fs = ToolErrorText \<Longrightarrow> isExplicitToolPayload num fs"
  "object_kind num fs = ToolFeedbackText \<Longrightarrow> isExplicitToolPayload num fs"
  by (auto simp: object_kind_def Let_def split: if_splits)

lemma list_ex_objects:
  "list_ex (case_json False False (\<lambda>_. False) (\<lambda>_. False) (\<lambda>_. False) (\<lambda>_. False) p) xs \<longleftrightarrow> (\<exists>fs. JObj fs \<in> set xs \<and> p fs)"
  by (induction xs) (auto split: json.splits)

lemma array_kind_explicit:
  "array_kind num xs = ToolErrorText \<Longrightarrow> \<exists>fs. isExplicitToolPayload num fs \<and> JObj fs \<in> set xs"
  "array_kind num xs = ToolFeedbackText \<Longrightarrow> \<exists>fs. isExplicitToolPayload num fs \<and> JObj fs \<in> set xs"
  by (auto simp: array_kind_def Let_def list_ex_objects split: if_splits)

theorem callback_kind:
  "resolveStructuredMessageKind parse num text = CallbackText \<longleftrightarrow>
     (\<exists>fs. tryParseJsonAny parse text = JObj fs \<and>
        is_bool (field fs ''accepted'') \<and> string_value (field fs ''task_id'') \<and> string_value (field fs ''run_id''))"
  by (auto simp: kind_cases object_kind_callback split: json.splits)

theorem tool_kinds_name_a_tool:
  "resolveStructuredMessageKind parse num text \<in> {ToolErrorText, ToolFeedbackText} \<Longrightarrow>
   \<exists>fs. isExplicitToolPayload num fs \<and>
      (tryParseJsonAny parse text = JObj fs \<or> (\<exists>xs. tryParseJsonAny parse text = JArr xs \<and> JObj fs \<in> set xs))"
  unfolding kind_cases
  by (cases "tryParseJsonAny parse text") (auto dest: object_kind_tool array_kind_explicit)

section \<open>Folding and labels\<close>

text \<open>C25: A message of the session whose author is not known is labelled as other exactly when its text is
  shown as it is: what is folded as structured has a label of its own, and nothing else has.\<close>

theorem unlabelled_text_is_shown:
  "getRoleLabel parse num role text = [0x5176, 0x4ED6] \<longleftrightarrow>
     \<not> shouldRenderCollapsibleMessage parse num role text \<and>
     to_lower role \<noteq> js ''user'' \<and> to_lower role \<noteq> js ''assistant'' \<and> to_lower role \<noteq> js ''system''"
  by (cases "resolveStructuredMessageKind parse num text")
     (auto simp: getRoleLabel_def shouldRenderCollapsibleMessage_def Let_def js_def)


section \<open>Witnesses and what modelling showed\<close>

text \<open>\<open>{"tool": "x", "status": "failed"}\<close> for every text.\<close>

definition read_failure :: "jsstring \<Rightarrow> json option" where
  "read_failure text = Some (obj [(''tool'', JStr (js ''x'')), (''status'', JStr (js ''failed''))])"

lemmas kind_defs = resolveStructuredMessageKind_def tryParseJsonObject_def tryParseJsonArray_def tryParseJsonAny_def
  unwrapMarkdownCodeFence_def Let_def object_kind_def array_kind_def isExplicitToolPayload_def payload_failed_def payload_tool_name_def
  member_text_def coalesce_def field_def map_get_def map_has_def obj_def

lemmas text_eval = js_def trim_def js_white_def to_lower_def lower_unit_def starts_with_def fence_def lane_unit_def

theorem fenced_text_same_kind_witness:
  "resolveStructuredMessageKind read_failure (\<lambda>_. []) (js ''```json'' @ 10 # js ''{ }'' @ fence_end) =
   resolveStructuredMessageKind read_failure (\<lambda>_. []) (js ''{ }'')"
  using fenced_text_same_kind [of "js ''json''" "js ''{ }''" read_failure "\<lambda>_. []"]
  by (simp add: text_eval)

theorem tool_kinds_name_a_tool_witness:
  "\<exists>fs. isExplicitToolPayload (\<lambda>_. []) fs \<and>
      (tryParseJsonAny read_failure (js ''{ }'') = JObj fs \<or>
       (\<exists>xs. tryParseJsonAny read_failure (js ''{ }'') = JArr xs \<and> JObj fs \<in> set xs))"
  by (rule tool_kinds_name_a_tool)
    (simp add: kind_defs read_failure_def text_eval)

text \<open>An empty \<open>tool\<close> hides the \<open>tool_name\<close> beside it: \<open>??\<close> keeps the empty string.\<close>

lemma empty_tool_hides_name:
  "object_kind num (map (\<lambda>(k, v). (js k, JStr (js v))) [(''tool'', ''''), (''tool_name'', ''search''), (''status'', ''failed'')]) = PlainText"
  by (simp add: kind_defs text_eval)

text \<open>A payload whose \<open>market_summary\<close> is \<open>null\<close> is taken for data.\<close>

lemma null_summary_is_data: "object_kind num [(js ''market_summary'', JNull)] = DataOutputText"
  by (simp add: kind_defs to_lower_def)

text \<open>The tool of a payload that is an array is not named in the summary.\<close>

lemma array_summary_names_no_tool:
  "tryParseJsonAny parse text = JArr xs \<Longrightarrow> array_kind num xs = ToolErrorText \<Longrightarrow>
   buildCollapsibleSummary parse num text = [0x5DE5, 0x5177, 0x53CD, 0x9988, 0xFF1A, 0x6267, 0x884C, 0x5931, 0x8D25]"
  by (simp add: buildCollapsibleSummary_def kind_cases tryParseJsonObject_def getToolNameFromPayload_def)

text \<open>A long JSON text of the assistant without a tool is summarised as a tool call, named after the
  first \<open>"name"\<close> in it, and hinted as an error.\<close>

lemma blob_is_summarised_as_tool_call:
  "to_lower role = js ''assistant'' \<Longrightarrow> resolveStructuredMessageKind parse num text = PlainText \<Longrightarrow>
   buildMessageSummary parse num role text = buildToolCallSummary text \<and>
   getMessageHint parse num role text = [0x53CD, 0x9988] @ js ''/'' @ [0x9519, 0x8BEF, 0x4FE1, 0x606F]"
  by (simp add: buildMessageSummary_def buildCollapsibleSummary_def getMessageHint_def Let_def)

lemma blob_named_after_field:
  "buildToolCallSummary (js ''[{ \"Name\" : \"gold\" }]'') = [0x5DE5, 0x5177, 0x8C03, 0x7528, 0xFF1A] @ js ''gold''"
  by (simp add: buildToolCallSummary_def extractToolCallName_def tool_call_at_def tool_name_at_def name_at_def string_value_at_def
      after_literal_def group_until_def Let_def non_empty_def text_eval)


end
