(* ===== verification/TaskDetail.thy ===== *)
theory TaskDetail imports CollabBoard SessionMessages begin

text \<open>
  \<open>components/collabTaskDetailModal.tsx\<close> and \<open>components/collabOutputPreview.tsx\<close>: what the detail view of
  a task shows of it, tab by tab, as data; the layout and the styles are left out, and the text that
  \<open>MarkdownMessage\<close> renders is kept as it is. \<open>stringify\<close> is \<open>JSON.stringify\<close> on strings.
\<close>

section \<open>The state of the run\<close>

record runtime_diagnostic =
  dx_last_heartbeat_at :: "jsstring option"
  dx_heartbeat_age_seconds :: "jsstring option"
  dx_stale :: "bool option"
  dx_recommended_action :: "jsstring option"

definition normalizeValue :: "jsstring option \<Rightarrow> jsstring option" where
  "normalizeValue value = (case value of None \<Rightarrow> None | Some text \<Rightarrow> non_empty (trim text))"

definition parseBooleanFlag :: "jsstring option \<Rightarrow> bool option" where
  "parseBooleanFlag value =
     (case normalizeValue value of None \<Rightarrow> None
      | Some text \<Rightarrow>
          let normalized = to_lower text in
          if normalized = js ''true'' then Some True else if normalized = js ''false'' then Some False else None)"

definition resolveRuntimeDiagnostic :: "board_task \<Rightarrow> runtime_diagnostic option" where
  "resolveRuntimeDiagnostic task =
     (let extra = (\<lambda>key. map_of (bt_extras task) (js key));
          diagnostic =
            \<lparr>dx_last_heartbeat_at =
               normalizeValue (nullish_opt (extra ''runtime_last_heartbeat_at'') (extra ''dispatch_last_heartbeat_at'')),
             dx_heartbeat_age_seconds = normalizeValue (extra ''runtime_heartbeat_age_seconds''),
             dx_stale = parseBooleanFlag (extra ''runtime_stale''),
             dx_recommended_action = normalizeValue (extra ''runtime_recommended_action'')\<rparr> in
      if dx_last_heartbeat_at diagnostic = None \<and> dx_heartbeat_age_seconds diagnostic = None \<and>
         dx_stale diagnostic = None \<and> dx_recommended_action diagnostic = None
      then None else Some diagnostic)"

text \<open>The rows of the diagnostic, and the warning that nothing is interrupted by itself.\<close>

definition diagnostic_rows :: "runtime_diagnostic \<Rightarrow> jsstring list \<times> bool" where
  "diagnostic_rows d =
     ([nullish (dx_last_heartbeat_at d) ([0x672A, 0x4E0A, 0x62A5]), nullish (dx_heartbeat_age_seconds d) (js ''n/a''),
       (case dx_stale d of Some True \<Rightarrow> [0x7591, 0x4F3C, 0x5361, 0x4F4F, 0xFF08, 0x8D85, 0x8FC7, 0x5FC3, 0x8DF3, 0x7A97, 0x53E3, 0xFF09] | Some False \<Rightarrow> [0x672A] @ js '' stale'' | None \<Rightarrow> [0x672A, 0x77E5]),
       nullish (dx_recommended_action d) ([0x6682, 0x65E0, 0x5EFA, 0x8BAE])],
      dx_stale d = Some True)"

section \<open>The controls\<close>

text \<open>A button with its label and whether it is disabled.\<close>

datatype task_control =
    InterruptButton jsstring bool
  | ContinueButton jsstring bool
  | DeleteNodeButton
  | NoControlHint

definition task_controls :: "board_task \<Rightarrow> bool \<Rightarrow> bool \<Rightarrow> jsstring option \<Rightarrow> jsstring option \<Rightarrow> task_control list" where
  "task_controls task canInterrupt canContinue isInterruptingTaskId isContinuingTaskId =
     (if bt_status task = Running then
        [InterruptButton (if isInterruptingTaskId = Some (bt_id task) then [0x4E2D, 0x65AD, 0x4E2D] @ js ''...'' else [0x4E2D, 0x65AD])
           (\<not> canInterrupt \<or> isInterruptingTaskId = Some (bt_id task))]
      else []) @
     (if bt_status task = BlockedByApproval then
        [ContinueButton (if isContinuingTaskId = Some (bt_id task) then [0x7EE7, 0x7EED, 0x4E2D] @ js ''...'' else [0x7EE7, 0x7EED])
           (\<not> canContinue \<or> isContinuingTaskId = Some (bt_id task))]
      else []) @
     (if bt_status task = Queued then [DeleteNodeButton] else []) @
     (if bt_status task \<noteq> Running \<and> bt_status task \<noteq> Queued \<and> bt_status task \<noteq> BlockedByApproval then [NoControlHint] else [])"

text \<open>The controls of the task that is open on the board.\<close>

definition open_task_controls :: "collab \<Rightarrow> task_control list" where
  "open_task_controls s =
     (case cb_selected s of None \<Rightarrow> []
      | Some task \<Rightarrow> task_controls (snd task) (canInterruptSelectedTask s) (canContinueSelectedTask s)
                       (bz_interrupting_task (cb_busy s)) (bz_continuing_task (cb_busy s)))"

section \<open>The messages\<close>

fun role_text :: "preview_role \<Rightarrow> jsstring" where
  "role_text PreviewUser = js ''user''"
| "role_text PreviewAssistant = js ''assistant''"
| "role_text PreviewTool = js ''tool''"
| "role_text PreviewSystem = js ''system''"
| "role_text PreviewOther = js ''other''"

text \<open>A message is folded behind a summary, with a hint above its text, or shown.\<close>

datatype message_body = FoldedMessage jsstring jsstring jsstring | ShownMessage jsstring

definition message_view ::
  "(jsstring \<Rightarrow> json option) \<Rightarrow> (jsnum \<Rightarrow> jsstring) \<Rightarrow> preview_item \<Rightarrow> jsstring \<times> message_body" where
  "message_view parse num item =
     (let role = role_text (pi_role item); text = pi_text item in
      (getRoleLabel parse num role text,
       if shouldRenderCollapsibleMessage parse num role text
       then FoldedMessage (buildMessageSummary parse num role text) (getMessageHint parse num role text) text
       else ShownMessage text))"

datatype stream_part = LoadingMessages | StreamFailed jsstring | NoMessages | Messages "(jsstring \<times> message_body) list"

definition stream_pane ::
  "(jsstring \<Rightarrow> json option) \<Rightarrow> (jsnum \<Rightarrow> jsstring) \<Rightarrow> bool \<Rightarrow> jsstring option \<Rightarrow> preview_item list \<Rightarrow> stream_part list" where
  "stream_pane parse num isLoading failure items =
     (let failed = nullish failure [] \<noteq> [] in
      (if isLoading \<and> items = [] then [LoadingMessages] else []) @
      (if failed then [StreamFailed (nullish failure [])] else []) @
      (if \<not> failed \<and> items = [] \<and> \<not> isLoading then [NoMessages] else []) @
      (if \<not> failed \<and> items \<noteq> [] then [Messages (map (message_view parse num) items)] else []))"

section \<open>The output\<close>

datatype file_preview = ImagePreview jsstring | PdfPreview jsstring | VideoPreview jsstring | AudioPreview jsstring | NoInlinePreview

definition BinaryFilePreview :: "jsstring \<Rightarrow> jsstring option \<Rightarrow> file_preview" where
  "BinaryFilePreview mimeType fileUrl =
     (let url = nullish fileUrl [] in
      if url = [] then NoInlinePreview
      else if isImageMimeType mimeType then ImagePreview url
      else if isPdfMimeType mimeType then PdfPreview url
      else if isVideoMimeType mimeType then VideoPreview url
      else if isAudioMimeType mimeType then AudioPreview url
      else NoInlinePreview)"

text \<open>The tree of a JSON value: a row, or a heading that is open at the top and its children.\<close>

datatype json_view =
    ValueRow jsstring jsstring
  | ValueGroup jsstring jsstring bool "json_view list"

fun formatJsonPrimitive :: "(jsnum \<Rightarrow> jsstring) \<Rightarrow> (jsstring \<Rightarrow> jsstring) \<Rightarrow> json \<Rightarrow> jsstring" where
  "formatJsonPrimitive num stringify JNull = js ''null''"
| "formatJsonPrimitive num stringify (JStr s) = stringify s"
| "formatJsonPrimitive num stringify v = js_string num v"

lemma zip_item_size [termination_simp]: "(index, item) \<in> set (zip is items) \<Longrightarrow> size item < Suc (size_list size items)"
  using set_zip_rightD [of index item "is" items] size_list_estimation' [of item items "size item" size] by simp

fun JsonTreeNode :: "(jsnum \<Rightarrow> jsstring) \<Rightarrow> (jsstring \<Rightarrow> jsstring) \<Rightarrow> nat \<Rightarrow> jsstring \<Rightarrow> json \<Rightarrow> json_view" where
  "JsonTreeNode num stringify depth label (JArr xs) =
     (if xs = [] then ValueRow label (js ''[]'')
      else ValueGroup label (js ''Array('' @ js_digits (length xs) @ js '')'') (depth < 1)
             (map (\<lambda>(index, item). JsonTreeNode num stringify (Suc depth) (js_digits index) item) (zip [0..<length xs] xs)))"
| "JsonTreeNode num stringify depth label (JObj fs) =
     (if fs = [] then ValueRow label (js ''{}'')
      else ValueGroup label (js ''Object('' @ js_digits (length fs) @ js '')'') (depth < 1)
             (map (\<lambda>(key, item). JsonTreeNode num stringify (Suc depth) key item) fs))"
| "JsonTreeNode num stringify depth label value = ValueRow label (formatJsonPrimitive num stringify value)"

datatype output_content = JsonTree json_view | MarkdownText jsstring | BinaryFile file_preview

definition JsonPreview :: "(jsstring \<Rightarrow> json option) \<Rightarrow> (jsnum \<Rightarrow> jsstring) \<Rightarrow> (jsstring \<Rightarrow> jsstring) \<Rightarrow> jsstring \<Rightarrow> output_content" where
  "JsonPreview parse num stringify content =
     (let parsed = tryParseJsonValue parse content in
      if parsed = JNull then MarkdownText content else JsonTree (JsonTreeNode num stringify 0 (js ''root'') parsed))"

datatype output_part = NoOutput | OutputFile jsstring "api_failure + jsstring" | LoadingPreview | PreviewFailed jsstring | PreviewOf output_content

definition output_pane ::
  "api_host \<Rightarrow> (jsstring \<Rightarrow> json option) \<Rightarrow> (jsstring \<Rightarrow> jsstring) \<Rightarrow> jsstring \<Rightarrow> board_task \<Rightarrow> output_entry list \<Rightarrow>
     output_entry option \<Rightarrow> jsstring option \<Rightarrow> bool \<Rightarrow> jsstring option \<Rightarrow> output_preview_response option \<Rightarrow> output_part list" where
  "output_pane h parse stringify boardRealtimeId task entries selected inlineUrl isLoading failure preview =
     (if entries = [] then [NoOutput]
      else
        (case selected of None \<Rightarrow> []
         | Some entry \<Rightarrow>
             [OutputFile (oe_value entry)
                (buildKanbanTaskOutputDownloadUrl h (bt_id task) (oe_value entry)
                   (if nullish (bt_instance_id task) [] \<noteq> [] then no_options\<lparr>ro_instance_id := bt_instance_id task\<rparr> else no_options)
                   boardRealtimeId)]) @
        (if isLoading then [LoadingPreview] else []) @
        (if nullish failure [] \<noteq> [] then [PreviewFailed (nullish failure [])] else []) @
        (if isLoading \<or> nullish failure [] \<noteq> [] then []
         else case preview of None \<Rightarrow> []
         | Some p \<Rightarrow>
             [PreviewOf
                (if op_kind p = js ''json'' then JsonPreview parse (str_num h) stringify (nullish (op_content p) [])
                 else if op_kind p = js ''text'' then MarkdownText (nullish (op_content p) [])
                 else BinaryFile (BinaryFilePreview (op_mime_type p) inlineUrl))]))"


section \<open>The detail view\<close>

text \<open>The tab of the information: the description, the key fields, the controls, the diagnostic and the
  dependencies, each with its label.\<close>

record info_pane =
  ip_summary :: jsstring
  ip_fields :: "jsstring list"
  ip_controls :: "task_control list"
  ip_diagnostic :: "(jsstring list \<times> bool) option"
  ip_dependencies :: "(jsstring \<times> jsstring) list"

definition info_pane_of :: "collab \<Rightarrow> board_task \<Rightarrow> info_pane" where
  "info_pane_of s task =
     \<lparr>ip_summary = str_or (bt_summary task) ([0x6682, 0x65E0, 0x63CF, 0x8FF0]),
      ip_fields = [status_str (bt_status task), (if bt_source task = FlowSource then js ''Flow'' else js ''Provider''),
        formatTaskAgentLabel task, nullish (bt_agent_id task) (js ''n/a''),
        nullish (getTaskExecutionSessionKey task) ([0x5F53, 0x524D, 0x8282, 0x70B9, 0x672A, 0x7ED1, 0x5B9A] @ js '' execution_session_key'')],
      ip_controls = open_task_controls s,
      ip_diagnostic = map_option diagnostic_rows (resolveRuntimeDiagnostic task),
      ip_dependencies = map (\<lambda>item. (de_title item, de_status_label item)) (dependencyEntries s)\<rparr>"

datatype detail_pane = InfoPane info_pane | StreamPane "stream_part list" | OutputPane "output_part list"

text \<open>What the page draws of the task that is open; \<open>inlineUrl\<close> is the address of the chosen file.\<close>

definition task_detail ::
  "api_host \<Rightarrow> (jsstring \<Rightarrow> json option) \<Rightarrow> (jsstring \<Rightarrow> jsstring) \<Rightarrow> jsstring \<Rightarrow> jsstring option \<Rightarrow> collab \<Rightarrow>
     (jsstring \<times> detail_pane) option" where
  "task_detail h parse stringify boardRealtimeId inlineUrl s =
     map_option (\<lambda>(ref, task).
       (bt_title task,
        case cb_detail_tab s of
          InfoTab \<Rightarrow> InfoPane (info_pane_of s task)
        | StreamTab \<Rightarrow>
            StreamPane (stream_pane parse (str_num h) (sp_loading (cb_session s)) (sp_error (cb_session s)) (sp_items (cb_session s)))
        | OutputTab \<Rightarrow>
            OutputPane (output_pane h parse stringify boardRealtimeId task (outputEntries s) (selectedOutputEntry s) inlineUrl
              (ov_loading (cb_output s)) (ov_error (cb_output s)) (ov_preview (cb_output s)))))
       (cb_selected s)"


section \<open>What the views show\<close>

lemma one_control:
  "length (task_controls task canInterrupt canContinue interrupting continuing) = 1"
  by (cases "bt_status task") (simp_all add: task_controls_def)

text \<open>The open task has one control; its button can be pressed unless that action is under way for it.\<close>

theorem open_task_has_its_control:
  "open_task_controls s =
     (case cb_selected s of None \<Rightarrow> []
      | Some (ref, task) \<Rightarrow>
          [case bt_status task of
             Running \<Rightarrow>
               (let busy = bz_interrupting_task (cb_busy s) = Some (bt_id task) in
                InterruptButton (if busy then [0x4E2D, 0x65AD, 0x4E2D] @ js ''...'' else [0x4E2D, 0x65AD]) busy)
           | BlockedByApproval \<Rightarrow>
               (let busy = bz_continuing_task (cb_busy s) = Some (bt_id task) in
                ContinueButton (if busy then [0x7EE7, 0x7EED, 0x4E2D] @ js ''...'' else [0x7EE7, 0x7EED]) busy)
           | Queued \<Rightarrow> DeleteNodeButton
           | _ \<Rightarrow> NoControlHint])"
  by (simp add: open_task_controls_def task_controls_def canInterruptSelectedTask_def canContinueSelectedTask_def Let_def
      split: option.splits task_status.splits)

text \<open>The pane of the messages is never empty, and shows messages only when nothing failed.\<close>

lemma stream_pane_shows:
  "stream_pane parse num isLoading failure items \<noteq> []"
  "list_ex (\<lambda>part. case part of Messages views \<Rightarrow> True | _ \<Rightarrow> False) (stream_pane parse num isLoading failure items) \<longleftrightarrow>
     nullish failure [] = [] \<and> items \<noteq> []"
  by (auto simp: stream_pane_def Let_def)

lemma whitespace_heartbeat_hides_dispatch:
  "normalizeValue (nullish_opt (Some []) (Some dispatched)) = None"
  by (simp add: normalizeValue_def non_empty_def)

text \<open>The leaves of a value with the labels that lead to them.\<close>

fun json_leaves :: "json \<Rightarrow> (jsstring list \<times> json) list" where
  "json_leaves (JArr xs) =
     (if xs = [] then [([], JArr [])]
      else concat (map (\<lambda>(index, item). map (\<lambda>(path, leaf). (js_digits index # path, leaf)) (json_leaves item))
                    (zip [0..<length xs] xs)))"
| "json_leaves (JObj fs) =
     (if fs = [] then [([], JObj [])]
      else concat (map (\<lambda>(key, item). map (\<lambda>(path, leaf). (key # path, leaf)) (json_leaves item)) fs))"
| "json_leaves leaf = [([], leaf)]"

fun view_rows :: "json_view \<Rightarrow> (jsstring list \<times> jsstring) list" where
  "view_rows (ValueRow label text) = [([label], text)]"
| "view_rows (ValueGroup label title opened children) =
     map (\<lambda>(path, text). (label # path, text)) (concat (map view_rows children))"

fun leaf_text :: "(jsnum \<Rightarrow> jsstring) \<Rightarrow> (jsstring \<Rightarrow> jsstring) \<Rightarrow> json \<Rightarrow> jsstring" where
  "leaf_text num stringify (JArr xs) = js ''[]''"
| "leaf_text num stringify (JObj fs) = js ''{}''"
| "leaf_text num stringify v = formatJsonPrimitive num stringify v"

lemma concat_map_cong: "(\<And>x. x \<in> set xs \<Longrightarrow> f x = g x) \<Longrightarrow> concat (map f xs) = concat (map g xs)"
  by (induction xs) simp_all

text \<open>C13: The tree drawn of a JSON output has one row for each leaf of the value, in its order, under the labels
  that lead to it.\<close>

theorem json_tree_shows_every_leaf:
  "view_rows (JsonTreeNode num stringify depth label v) =
     map (\<lambda>(path, leaf). (label # path, leaf_text num stringify leaf)) (json_leaves v)"
proof (induction num stringify depth label v rule: JsonTreeNode.induct)
  case (1 num stringify depth label xs)
  show ?case
  proof (cases "xs = []")
    case False
    have "concat (map (\<lambda>(index, item). view_rows (JsonTreeNode num stringify (Suc depth) (js_digits index) item)) (zip [0..<length xs] xs)) =
      concat (map (\<lambda>(index, item). map (\<lambda>(path, leaf). (js_digits index # path, leaf_text num stringify leaf)) (json_leaves item)) (zip [0..<length xs] xs))"
      using 1 False by (intro concat_map_cong) auto
    then show ?thesis using False by (simp add: map_concat o_def case_prod_unfold)
  qed simp
next
  case (2 num stringify depth label fs)
  show ?case
  proof (cases "fs = []")
    case False
    have "concat (map (\<lambda>(key, item). view_rows (JsonTreeNode num stringify (Suc depth) key item)) fs) =
      concat (map (\<lambda>(key, item). map (\<lambda>(path, leaf). (key # path, leaf_text num stringify leaf)) (json_leaves item)) fs)"
      using 2 False by (intro concat_map_cong) auto
    then show ?thesis using False by (simp add: map_concat o_def case_prod_unfold)
  qed simp
qed simp_all

text \<open>The text \<open>null\<close> is shown as text and not as a value.\<close>

lemma null_is_shown_as_text: "parse (trim (js ''null'')) = Some JNull \<Longrightarrow> JsonPreview parse num stringify (js ''null'') = MarkdownText (js ''null'')"
  by (simp add: JsonPreview_def tryParseJsonValue_def Let_def text_eval)

lemma file_preview_needs_url: "BinaryFilePreview mimeType None = NoInlinePreview" "BinaryFilePreview mimeType (Some []) = NoInlinePreview"
  by (simp_all add: BinaryFilePreview_def)


end
