(* ===== verification/PageShell.thy ===== *)
theory PageShell imports PageHydration ApiClient begin

text \<open>
  What surrounds the pages: the flow link of \<open>components/Layout.tsx\<close>, the messages of
  \<open>hooks/useToast.ts\<close>, the floating button of \<open>hooks/useDraggableFab.ts\<close>, the overlay and the drawer
  of \<open>hooks/useFlowPlannerOverlayEffects.ts\<close> and the actions of \<open>hooks/useFlowSidebarUiActions.ts\<close>
  on the side bar. Coordinates are the finite numbers that pointer events and windows have; an event
  handler runs on the state of the last render, and every change is rendered before the next event.
\<close>

section \<open>The flow link\<close>

definition new_flow_path :: jsstring where
  "new_flow_path = js ''/flow/edit/new''"

text \<open>\<open>/^\/flow\/edit\/[^/?#]+(?:[?#].*)?$/\<close>; \<open>.\<close> matches no line terminator.\<close>

definition line_terminator :: "16 word \<Rightarrow> bool" where
  "line_terminator c \<longleftrightarrow> c = 10 \<or> c = 13 \<or> c = 0x2028 \<or> c = 0x2029"

definition segment_unit :: "16 word \<Rightarrow> bool" where
  "segment_unit c \<longleftrightarrow> c \<noteq> 47 \<and> c \<noteq> 63 \<and> c \<noteq> 35"

definition is_flow_edit_path :: "jsstring \<Rightarrow> bool" where
  "is_flow_edit_path value \<longleftrightarrow>
     starts_with value (js ''/flow/edit/'') \<and>
     (let tail = drop 11 value; rest = dropWhile segment_unit tail in
      takeWhile segment_unit tail \<noteq> [] \<and>
      (rest = [] \<or> (hd rest = 63 \<or> hd rest = 35) \<and> list_all (\<lambda>c. \<not> line_terminator c) (tl rest)))"

definition normalizeFlowEntryPath :: "jsstring option \<Rightarrow> jsstring option" where
  "normalizeFlowEntryPath rawPath =
     (let value = trim_opt rawPath in
      if \<not> starts_with value (js ''/flow'') then None
      else if value = js ''/flow'' \<or> starts_with value (js ''/flow?'') \<or> starts_with value (js ''/flow#'')
      then Some new_flow_path
      else if is_flow_edit_path value then Some value
      else Some new_flow_path)"

text \<open>The stored entry, None when there is none or it cannot be read; a write may be refused.\<close>

record flow_link =
  fk_target :: jsstring
  fk_stored :: "jsstring option"

definition loadLastFlowEntryPath :: "jsstring option \<Rightarrow> jsstring option" where
  "loadLastFlowEntryPath stored = (case stored of None \<Rightarrow> None | Some path \<Rightarrow> normalizeFlowEntryPath (Some path))"

definition saveLastFlowEntryPath :: "bool \<Rightarrow> jsstring \<Rightarrow> flow_link \<Rightarrow> flow_link" where
  "saveLastFlowEntryPath writable path k = (if writable then k\<lparr>fk_stored := Some path\<rparr> else k)"

text \<open>The two effects on the link: one when the layout is mounted, one when the location changes.\<close>

definition link_mount_effect :: "flow_link \<Rightarrow> flow_link" where
  "link_mount_effect k = k\<lparr>fk_target := nullish (loadLastFlowEntryPath (fk_stored k)) new_flow_path\<rparr>"

definition link_location_effect :: "bool \<Rightarrow> jsstring \<Rightarrow> flow_link \<Rightarrow> flow_link" where
  "link_location_effect writable location k =
     (case normalizeFlowEntryPath (Some location) of
        None \<Rightarrow> k
      | Some candidate \<Rightarrow> (saveLastFlowEntryPath writable candidate k)\<lparr>fk_target := candidate\<rparr>)"

definition link_mounted :: "bool \<Rightarrow> jsstring \<Rightarrow> jsstring option \<Rightarrow> flow_link" where
  "link_mounted writable location stored =
     link_location_effect writable location (link_mount_effect \<lparr>fk_target = new_flow_path, fk_stored = stored\<rparr>)"

definition link_run :: "bool \<Rightarrow> jsstring \<Rightarrow> jsstring option \<Rightarrow> jsstring list \<Rightarrow> flow_link" where
  "link_run writable location stored locations =
     fold (link_location_effect writable) locations (link_mounted writable location stored)"

lemma new_flow_path_ok [simp]: "is_flow_edit_path new_flow_path" "trimmed new_flow_path"
  by (simp_all add: new_flow_path_def is_flow_edit_path_def starts_with_def js_def segment_unit_def trimmed_def trim_def
      js_white_def)

lemma normalized_flow_path:
  "normalizeFlowEntryPath raw = Some path \<Longrightarrow> is_flow_edit_path path \<and> trimmed path"
  by (auto simp: normalizeFlowEntryPath_def Let_def trim_opt_def split: if_splits)

lemma normalize_flow_edit_path:
  assumes "is_flow_edit_path path" "trimmed path"
  shows "normalizeFlowEntryPath (Some path) = Some path"
proof -
  obtain rest where path: "path = js ''/flow/edit/'' @ rest"
    using assms(1) by (auto simp: is_flow_edit_path_def starts_with_iff)
  have "starts_with path (js ''/flow'')" "path \<noteq> js ''/flow''"
    "\<not> starts_with path (js ''/flow?'')" "\<not> starts_with path (js ''/flow#'')"
    by (simp_all add: path starts_with_def js_def)
  then show ?thesis using assms by (simp add: normalizeFlowEntryPath_def trim_opt_def trimmed_eq)
qed

definition flow_link_ok :: "flow_link \<Rightarrow> bool" where
  "flow_link_ok k \<longleftrightarrow> is_flow_edit_path (fk_target k) \<and> trimmed (fk_target k)"

lemma link_location_ok: "flow_link_ok k \<Longrightarrow> flow_link_ok (link_location_effect writable location k)"
  using normalized_flow_path [of "Some location"]
  by (simp add: link_location_effect_def flow_link_ok_def saveLastFlowEntryPath_def split: option.splits)

lemma link_mount_ok: "flow_link_ok (link_mount_effect k)"
proof (cases "loadLastFlowEntryPath (fk_stored k)")
  case None
  then show ?thesis by (simp add: link_mount_effect_def flow_link_ok_def)
next
  case (Some path)
  then obtain raw where "normalizeFlowEntryPath raw = Some path"
    by (auto simp: loadLastFlowEntryPath_def split: option.splits)
  then have "is_flow_edit_path path \<and> trimmed path" by (rule normalized_flow_path)
  with Some show ?thesis by (simp add: link_mount_effect_def flow_link_ok_def)
qed

lemma link_mounted_ok: "flow_link_ok (link_mounted writable location stored)"
  by (simp add: link_mounted_def link_location_ok link_mount_ok)

lemma link_run_ok: "flow_link_ok (link_run writable location stored locations)"
proof -
  have "flow_link_ok k \<Longrightarrow> flow_link_ok (fold (link_location_effect writable) locations k)" for k
    by (induction locations arbitrary: k) (simp_all add: link_location_ok)
  then show ?thesis by (simp add: link_run_def link_mounted_ok)
qed

theorem flow_link_opens_an_editor:
  "is_flow_edit_path (fk_target (link_run writable location stored locations))"
  using link_run_ok by (simp add: flow_link_ok_def)

text \<open>A page opened later starts from the flow that the link had last.\<close>

lemma link_remembered:
  "fk_stored k = Some (fk_target k) \<Longrightarrow> fk_stored (link_location_effect True location k) = Some (fk_target (link_location_effect True location k))"
  by (simp add: link_location_effect_def saveLastFlowEntryPath_def split: option.splits)

theorem flow_link_survives_reload:
  assumes "normalizeFlowEntryPath (Some location) \<noteq> None" "normalizeFlowEntryPath (Some other) = None"
  shows "fk_target (link_mounted w other (fk_stored (link_run True location stored locations))) =
         fk_target (link_run True location stored locations)"
proof -
  have "fk_stored k = Some (fk_target k) \<Longrightarrow>
    fk_stored (fold (link_location_effect True) locations k) = Some (fk_target (fold (link_location_effect True) locations k))" for k
    by (induction locations arbitrary: k) (simp_all add: link_remembered)
  moreover have "fk_stored (link_mounted True location stored) = Some (fk_target (link_mounted True location stored))"
    using assms(1) by (auto simp: link_mounted_def link_location_effect_def saveLastFlowEntryPath_def)
  ultimately have stored: "fk_stored (link_run True location stored locations) = Some (fk_target (link_run True location stored locations))"
    by (simp add: link_run_def)
  have "normalizeFlowEntryPath (Some (fk_target (link_run True location stored locations))) = Some (fk_target (link_run True location stored locations))"
    using link_run_ok by (simp add: flow_link_ok_def normalize_flow_edit_path)
  then show ?thesis
    using assms(2) by (simp add: link_mounted_def link_location_effect_def link_mount_effect_def stored loadLastFlowEntryPath_def)
qed


section \<open>Messages\<close>

text \<open>The identifier is drawn from the clock and a random number; a timer closes the message.\<close>

record toast_message =
  tm_id :: jsstring
  tm_message :: jsstring
  tm_kind :: toast_kind

definition toast_added :: "toast_message \<Rightarrow> toast_message list \<Rightarrow> toast_message list" where
  "toast_added newToast prev = prev @ [newToast]"

definition removeToast :: "jsstring \<Rightarrow> toast_message list \<Rightarrow> toast_message list" where
  "removeToast ident prev = filter (\<lambda>t. tm_id t \<noteq> ident) prev"

datatype toast_event = AddToast toast_message | CloseToast jsstring | ToastTimer jsstring

fun toast_step :: "toast_event \<Rightarrow> toast_message list \<Rightarrow> toast_message list" where
  "toast_step (AddToast t) ts = toast_added t ts"
| "toast_step (CloseToast ident) ts = removeToast ident ts"
| "toast_step (ToastTimer ident) ts = removeToast ident ts"

fun closes :: "jsstring \<Rightarrow> toast_event \<Rightarrow> bool" where
  "closes ident (AddToast t) = False"
| "closes ident (CloseToast other) = (other = ident)"
| "closes ident (ToastTimer other) = (other = ident)"

lemma toast_step_set:
  "t \<in> set (toast_step e ts) \<longleftrightarrow> e = AddToast t \<or> t \<in> set ts \<and> \<not> closes (tm_id t) e"
  by (cases e) (auto simp: toast_added_def removeToast_def)

lemma shown_toasts:
  "t \<in> set (fold toast_step events []) \<longleftrightarrow>
     (\<exists>before after. events = before @ AddToast t # after \<and> list_all (\<lambda>e. \<not> closes (tm_id t) e) after)"
proof (induction events rule: rev_induct)
  case (snoc e events)
  show ?case
  proof
    assume "t \<in> set (fold toast_step (events @ [e]) [])"
    then consider "e = AddToast t" | "t \<in> set (fold toast_step events [])" "\<not> closes (tm_id t) e"
      by (auto simp: toast_step_set)
    then show "\<exists>before after. events @ [e] = before @ AddToast t # after \<and> list_all (\<lambda>e. \<not> closes (tm_id t) e) after"
    proof cases
      case 1
      then show ?thesis by (intro exI [of _ events] exI [of _ "[]"]) simp
    next
      case 2
      with snoc obtain before after where "events = before @ AddToast t # after" "list_all (\<lambda>e. \<not> closes (tm_id t) e) after"
        by blast
      with 2 show ?thesis by (intro exI [of _ before] exI [of _ "after @ [e]"]) simp
    qed
  next
    assume "\<exists>before after. events @ [e] = before @ AddToast t # after \<and> list_all (\<lambda>e. \<not> closes (tm_id t) e) after"
    then obtain before after where split: "events @ [e] = before @ AddToast t # after" "list_all (\<lambda>e. \<not> closes (tm_id t) e) after"
      by blast
    show "t \<in> set (fold toast_step (events @ [e]) [])"
    proof (cases after rule: rev_cases)
      case Nil
      with split show ?thesis by (simp add: toast_added_def)
    next
      case (snoc rest x)
      with split have "events = before @ AddToast t # rest" "x = e" by auto
      then have "t \<in> set (fold toast_step events [])" using snoc.IH split(2) snoc by auto
      with split(2) snoc \<open>x = e\<close> show ?thesis by (simp add: toast_step_set)
    qed
  qed
qed simp

section \<open>The floating button\<close>

type_synonym fab_point = "rat \<times> rat"

record fab_drag =
  dg_pointer :: int
  dg_start :: fab_point
  dg_left_top :: fab_point
  dg_moved :: bool

record fab =
  fb_position :: fab_point
  fb_drag :: "fab_drag option"
  fb_suppress_click :: bool

text \<open>\<open>window\<close> is the inner width and height at the time.\<close>

fun clampPosition :: "fab_point \<Rightarrow> fab_point \<Rightarrow> fab_point" where
  "clampPosition (width, height) (x, y) =
     (let minX = 8; minY = 8; maxX = max minX (width - 64); maxY = max minY (height - 48) in
      (min maxX (max minX x), min maxY (max minY y)))"

text \<open>\<open>raw\<close> is None when the storage cannot be read; \<open>JSON.parse\<close> or a property of \<open>null\<close> may throw.\<close>

definition readStoredPosition ::
  "api_host \<Rightarrow> (jsstring \<Rightarrow> json option) \<Rightarrow> fab_point \<Rightarrow> jsstring option \<Rightarrow> fab_point \<Rightarrow> fab_point" where
  "readStoredPosition h parse window raw fallback =
     (case raw of None \<Rightarrow> fallback
      | Some text \<Rightarrow>
          if text = [] then fallback
          else case parse text of None \<Rightarrow> fallback
          | Some parsed \<Rightarrow>
              (case (js_number h (field (members parsed) ''x''), js_number h (field (members parsed) ''y'')) of
                 (Fin x, Fin y) \<Rightarrow> clampPosition window (x, y)
               | _ \<Rightarrow> fallback))"

definition fab_mounted ::
  "api_host \<Rightarrow> (jsstring \<Rightarrow> json option) \<Rightarrow> fab_point \<Rightarrow> jsstring option \<Rightarrow> fab_point \<Rightarrow> fab" where
  "fab_mounted h parse window raw defaultPosition =
     \<lparr>fb_position = clampPosition window (readStoredPosition h parse window raw defaultPosition),
      fb_drag = None, fb_suppress_click = False\<rparr>"

definition stored_position :: "fab \<Rightarrow> json" where
  "stored_position f = obj [(''x'', JNum (Fin (fst (fb_position f)))), (''y'', JNum (Fin (snd (fb_position f))))]"

definition fab_pointer_down :: "bool \<Rightarrow> int \<Rightarrow> int \<Rightarrow> fab_point \<Rightarrow> fab \<Rightarrow> fab" where
  "fab_pointer_down isMouse button pointer client f =
     (if isMouse \<and> button \<noteq> 0 then f
      else f\<lparr>fb_drag := Some \<lparr>dg_pointer = pointer, dg_start = client, dg_left_top = fb_position f, dg_moved = False\<rparr>\<rparr>)"

definition far :: "fab_point \<Rightarrow> fab_point \<Rightarrow> bool" where
  "far from to \<longleftrightarrow> 4 \<le> \<bar>fst to - fst from\<bar> \<or> 4 \<le> \<bar>snd to - snd from\<bar>"

definition fab_pointer_move :: "int \<Rightarrow> fab_point \<Rightarrow> fab_point \<Rightarrow> fab \<Rightarrow> fab" where
  "fab_pointer_move pointer client window f =
     (case fb_drag f of None \<Rightarrow> f
      | Some dragState \<Rightarrow>
          if dg_pointer dragState \<noteq> pointer then f
          else
            let deltaX = fst client - fst (dg_start dragState); deltaY = snd client - snd (dg_start dragState) in
            f\<lparr>fb_drag := Some (dragState\<lparr>dg_moved := dg_moved dragState \<or> 4 \<le> \<bar>deltaX\<bar> \<or> 4 \<le> \<bar>deltaY\<bar>\<rparr>),
              fb_position := clampPosition window (fst (dg_left_top dragState) + deltaX, snd (dg_left_top dragState) + deltaY)\<rparr>)"

definition fab_pointer_up :: "int \<Rightarrow> fab \<Rightarrow> fab" where
  "fab_pointer_up pointer f =
     (case fb_drag f of None \<Rightarrow> f
      | Some dragState \<Rightarrow>
          if dg_pointer dragState \<noteq> pointer then f
          else f\<lparr>fb_suppress_click := dg_moved dragState, fb_drag := None\<rparr>)"

text \<open>True when the click counts.\<close>

definition consumeClickIfDragged :: "fab \<Rightarrow> fab \<times> bool" where
  "consumeClickIfDragged f = (if \<not> fb_suppress_click f then (f, True) else (f\<lparr>fb_suppress_click := False\<rparr>, False))"

datatype fab_event =
    PressFab bool int int fab_point
  | MovePointer int fab_point fab_point
  | ReleasePointer int
  | ClickFab

fun fab_step :: "fab_event \<Rightarrow> fab \<Rightarrow> fab" where
  "fab_step (PressFab isMouse button pointer client) f = fab_pointer_down isMouse button pointer client f"
| "fab_step (MovePointer pointer client window) f = fab_pointer_move pointer client window f"
| "fab_step (ReleasePointer pointer) f = fab_pointer_up pointer f"
| "fab_step ClickFab f = fst (consumeClickIfDragged f)"

lemmas fab_defs = fab_pointer_down_def fab_pointer_move_def fab_pointer_up_def consumeClickIfDragged_def Let_def

definition within_window :: "fab_point \<Rightarrow> fab_point \<Rightarrow> bool" where
  "within_window window p \<longleftrightarrow>
     8 \<le> fst p \<and> fst p \<le> max 8 (fst window - 64) \<and> 8 \<le> snd p \<and> snd p \<le> max 8 (snd window - 48)"

lemma clamp_within [simp]: "within_window window (clampPosition window p)"
  by (cases window; cases p) (auto simp: within_window_def Let_def)

lemma clamp_fixed: "within_window window p \<Longrightarrow> clampPosition window p = p"
  by (cases window; cases p) (auto simp: within_window_def Let_def)

fun in_window :: "fab_point \<Rightarrow> fab_event \<Rightarrow> bool" where
  "in_window window (MovePointer pointer client w) = (w = window)"
| "in_window window e = True"

lemma fab_step_on_screen:
  "within_window window (fb_position f) \<Longrightarrow> in_window window e \<Longrightarrow> within_window window (fb_position (fab_step e f))"
  by (cases e) (auto simp: fab_defs split: option.splits)

lemma fab_stays_on_screen:
  "list_all (in_window window) events \<Longrightarrow>
   within_window window (fb_position (fold fab_step events (fab_mounted h parse window raw defaultPosition)))"
proof -
  have "within_window window (fb_position f) \<Longrightarrow> list_all (in_window window) events \<Longrightarrow>
    within_window window (fb_position (fold fab_step events f))" for f
    by (induction events arbitrary: f) (simp_all add: fab_step_on_screen)
  then show "list_all (in_window window) events \<Longrightarrow> ?thesis" by (simp add: fab_mounted_def)
qed

text \<open>The button comes back where it was left, as long as the window has not changed.\<close>

lemma fab_comes_back:
  assumes "parse text = Some (stored_position f)" "text \<noteq> []" "within_window window (fb_position f)"
  shows "fb_position (fab_mounted h parse window (Some text) defaultPosition) = fb_position f"
  using assms
  by (simp add: fab_mounted_def readStoredPosition_def stored_position_def members_def field_def obj_def map_get_def
      js_number_def clamp_fixed)


text \<open>A drag: what pointer \<open>p\<close> does between a press and its release, whatever other pointers do.\<close>

fun moves_of :: "int \<Rightarrow> fab_event list \<Rightarrow> (fab_point \<times> fab_point) list" where
  "moves_of p [] = []"
| "moves_of p (MovePointer pointer client window # events) =
     (if pointer = p then (client, window) # moves_of p events else moves_of p events)"
| "moves_of p (_ # events) = moves_of p events"

fun during_drag :: "int \<Rightarrow> fab_event \<Rightarrow> bool" where
  "during_drag p (PressFab isMouse button pointer client) = (isMouse \<and> button \<noteq> 0)"
| "during_drag p (ReleasePointer pointer) = (pointer \<noteq> p)"
| "during_drag p e = True"

definition moved_to :: "fab_point \<Rightarrow> fab_point \<Rightarrow> (fab_point \<times> fab_point) list \<Rightarrow> fab_point" where
  "moved_to origin from moves =
     (if moves = [] then origin
      else let (client, window) = last moves in
        clampPosition window (fst origin + (fst client - fst from), snd origin + (snd client - snd from)))"

lemma moves_of_snoc:
  "moves_of p (events @ [e]) = moves_of p events @ moves_of p [e]"
  by (induction p events rule: moves_of.induct) simp_all

lemma drag_run:
  assumes "list_all (during_drag p) events"
    and "f = fab_pointer_down isMouse button p from f0" "\<not> (isMouse \<and> button \<noteq> 0)"
  shows "fb_position (fold fab_step events f) = moved_to (fb_position f0) from (moves_of p events) \<and>
         fb_drag (fold fab_step events f) =
           Some \<lparr>dg_pointer = p, dg_start = from, dg_left_top = fb_position f0,
                 dg_moved = list_ex (\<lambda>(client, window). far from client) (moves_of p events)\<rparr>"
  using assms(1)
proof (induction events rule: rev_induct)
  case Nil
  show ?case using assms(2,3) by (auto simp: fab_defs moved_to_def)
next
  case (snoc e events)
  then show ?case
    by (cases e) (auto simp: moves_of_snoc fab_defs moved_to_def far_def split: prod.splits)
qed

text \<open>
  C21: From its press on, a drag takes the floating button from where it was to where the pointer that pressed it is, kept
  in the window, whatever other pointers move or are lifted, until that pointer is lifted or the button is pressed again
  (also by another finger, whose press takes the drag over); and the click that ends it counts only if the pointer never
  went four pixels away. The state before the press is arbitrary, a drag under way included.
\<close>

theorem drag_follows_pointer:
  assumes "list_all (during_drag p) events" "\<not> (isMouse \<and> button \<noteq> 0)"
  shows "fb_position (fold fab_step (PressFab isMouse button p from # events) f) =
           moved_to (fb_position f) from (moves_of p events) \<and>
         (snd (consumeClickIfDragged (fold fab_step (PressFab isMouse button p from # events @ [ReleasePointer p]) f)) \<longleftrightarrow>
            \<not> list_ex (\<lambda>(client, window). far from client) (moves_of p events))"
  using drag_run [OF assms(1) refl assms(2)] by (simp add: fab_pointer_up_def consumeClickIfDragged_def)

text \<open>The window is only looked at when the button is mounted or dragged: a smaller window can leave it outside.\<close>

lemma smaller_window_hides_fab:
  "\<not> within_window (400, 300) (fb_position (fold fab_step [PressFab False 0 1 (20, 90), MovePointer 1 (720, 90) (1000, 800), ReleasePointer 1]
     (fab_mounted h parse (1000, 800) None (16, 88))))"
  by (simp add: fab_mounted_def readStoredPosition_def fab_defs within_window_def)

text \<open>A drag that ends without a click, as a cancelled one does, swallows the next click of the keyboard.\<close>

lemma cancelled_drag_swallows_click:
  "\<not> snd (consumeClickIfDragged (fold fab_step [PressFab False 0 1 (20, 90), MovePointer 1 (60, 90) window, ReleasePointer 1] f))"
  by (simp add: fab_defs)

section \<open>The overlay of the planner\<close>

text \<open>Where an event happened: the body or the root count as nowhere for the focus.\<close>

datatype event_target = NoTarget | InPlannerShell | PageBody | ElsewhereOnPage

record overlay =
  ov_expanded :: bool
  ov_status :: ui_status
  ov_stopping :: bool
  ov_close_blocked :: bool
  ov_shell :: bool

definition overlay_held :: "overlay \<Rightarrow> bool" where
  "overlay_held v \<longleftrightarrow> isPlannerAwaitingSession (ov_status v) (ov_stopping v) \<or> ov_close_blocked v"

definition overlay_pointer_down :: "event_target \<Rightarrow> overlay \<Rightarrow> overlay" where
  "overlay_pointer_down target v =
     (if \<not> ov_expanded v then v
      else if isPlannerAwaitingSession (ov_status v) (ov_stopping v) then v
      else if ov_close_blocked v then v
      else if target = NoTarget then v
      else if \<not> ov_shell v then v
      else if target = InPlannerShell then v
      else v\<lparr>ov_expanded := False\<rparr>)"

definition overlay_focus_in :: "event_target \<Rightarrow> overlay \<Rightarrow> overlay" where
  "overlay_focus_in target v =
     (if target = NoTarget then v
      else if target = PageBody then v
      else if \<not> ov_shell v then v
      else if target = InPlannerShell then v\<lparr>ov_expanded := True\<rparr>
      else if isPlannerAwaitingSession (ov_status v) (ov_stopping v) then v
      else if ov_close_blocked v then v
      else v\<lparr>ov_expanded := False\<rparr>)"

datatype overlay_event =
    PointerAt event_target
  | FocusAt event_target
  | PlannerTurn ui_status bool
  | BlockClosing bool

fun overlay_step :: "overlay_event \<Rightarrow> overlay \<Rightarrow> overlay" where
  "overlay_step (PointerAt target) v = overlay_pointer_down target v"
| "overlay_step (FocusAt target) v = overlay_focus_in target v"
| "overlay_step (PlannerTurn status stopping) v = v\<lparr>ov_status := status, ov_stopping := stopping\<rparr>"
| "overlay_step (BlockClosing blocked) v = v\<lparr>ov_close_blocked := blocked\<rparr>"

lemma overlay_step_closes:
  "ov_expanded v \<Longrightarrow> \<not> ov_expanded (overlay_step e v) \<Longrightarrow>
   \<not> overlay_held v \<and> (e \<in> {PointerAt PageBody, PointerAt ElsewhereOnPage, FocusAt ElsewhereOnPage})"
  by (cases e; cases "case e of PointerAt t \<Rightarrow> t | FocusAt t \<Rightarrow> t | _ \<Rightarrow> NoTarget")
    (auto simp: overlay_pointer_down_def overlay_focus_in_def overlay_held_def split: if_splits)

text \<open>The overlay closes only on an event outside it, while no answer is awaited and closing is not blocked.\<close>

theorem overlay_closed_by_user:
  "ov_expanded v \<Longrightarrow> \<not> ov_expanded (fold overlay_step events v) \<Longrightarrow>
   \<exists>before e after. events = before @ e # after \<and>
      e \<in> {PointerAt PageBody, PointerAt ElsewhereOnPage, FocusAt ElsewhereOnPage} \<and>
      ov_expanded (fold overlay_step before v) \<and> \<not> overlay_held (fold overlay_step before v)"
proof (induction events arbitrary: v)
  case (Cons e events)
  show ?case
  proof (cases "ov_expanded (overlay_step e v)")
    case True
    moreover have "\<not> ov_expanded (fold overlay_step events (overlay_step e v))" using Cons.prems(2) by simp
    ultimately obtain before x after where "events = before @ x # after"
      "x \<in> {PointerAt PageBody, PointerAt ElsewhereOnPage, FocusAt ElsewhereOnPage}"
      "ov_expanded (fold overlay_step before (overlay_step e v))" "\<not> overlay_held (fold overlay_step before (overlay_step e v))"
      using Cons.IH [of "overlay_step e v"] by blast
    then show ?thesis by (intro exI [of _ "e # before"] exI [of _ x] exI [of _ after]) simp
  next
    case False
    with overlay_step_closes [OF Cons.prems(1)] Cons.prems(1) show ?thesis
      by (intro exI [of _ "[]"] exI [of _ e] exI [of _ events]) simp
  qed
qed simp

text \<open>The drawer of the flows on a small screen: what gets the focus after a render.\<close>

datatype drawer_focus = ActiveFlowButton | CloseButton | DrawerTrigger

definition drawer_effect :: "bool \<Rightarrow> bool \<Rightarrow> bool \<Rightarrow> bool \<Rightarrow> bool \<times> drawer_focus option" where
  "drawer_effect isMobile isOpen hasActiveButton wasOpen =
     (if \<not> isMobile then (False, None)
      else if isOpen then (True, Some (if hasActiveButton then ActiveFlowButton else CloseButton))
      else if wasOpen then (False, Some DrawerTrigger)
      else (wasOpen, None))"

text \<open>A drawer that was closed on a small screen gives the focus back once; a change to a large screen forgets it.\<close>

lemma drawer_returns_focus:
  "drawer_effect True False b (fst (drawer_effect True True a was)) = (False, Some DrawerTrigger)"
  "drawer_effect True False c (fst (drawer_effect True False b w)) = (False, None)"
  "drawer_effect True False b (fst (drawer_effect False isOpen a was)) = (False, None)"
  by (simp_all add: drawer_effect_def)


section \<open>The side bar\<close>

record side_bar =
  sb_page :: page
  sb_name_input :: jsstring
  sb_placeholder :: jsstring
  sb_create_open :: bool
  sb_dragging :: "jsstring option"

definition handleCreateBlankFlow :: "env \<Rightarrow> side_bar \<Rightarrow> side_bar" where
  "handleCreateBlankFlow e sb =
     sb\<lparr>sb_name_input := [], sb_placeholder := en_untitled e, sb_create_open := True,
        sb_page := (sb_page sb)\<lparr>pg_sidebar_open := False\<rparr>\<rparr>"

definition handleConfirmCreateFlow :: "env \<Rightarrow> jsstring \<Rightarrow> side_bar \<Rightarrow> side_bar" where
  "handleConfirmCreateFlow e draftId sb =
     (let nextName = str_or (trim (sb_name_input sb)) (str_or (trim (sb_placeholder sb)) (en_untitled e)) in
      sb\<lparr>sb_page := createBlankFlow e draftId nextName (sb_page sb), sb_create_open := False\<rparr>)"

definition handleSidebarCardDragStart :: "jsstring \<Rightarrow> side_bar \<Rightarrow> side_bar" where
  "handleSidebarCardDragStart flowId sb = sb\<lparr>sb_dragging := Some flowId\<rparr>"

text \<open>\<open>transferred\<close> is the plain text of the drop, None without a data transfer.\<close>

definition handleSidebarCardDrop :: "jsstring \<Rightarrow> jsstring option \<Rightarrow> side_bar \<Rightarrow> side_bar" where
  "handleSidebarCardDrop targetFlowId transferred sb =
     (let sourceFlowId = nullish (sb_dragging sb) (trim_opt transferred) in
      if sourceFlowId = [] \<or> sourceFlowId = targetFlowId then sb\<lparr>sb_dragging := None\<rparr>
      else sb\<lparr>sb_page := moveSidebarCard sourceFlowId targetFlowId (sb_page sb), sb_dragging := None\<rparr>)"

definition handleSidebarCardDragEnd :: "side_bar \<Rightarrow> side_bar" where
  "handleSidebarCardDragEnd sb = sb\<lparr>sb_dragging := None\<rparr>"

lemma moved_order: "pg_sidebar_order (moveSidebarCard a b pg) = moveFlowIdInOrder (pg_sidebar_order pg) a b"
  by (simp add: moveSidebarCard_def orders_equal Let_def)

lemma dropped_card:
  "handleSidebarCardDrop b transferred (handleSidebarCardDragStart a sb) =
     (if a = [] \<or> a = b then sb\<lparr>sb_dragging := None\<rparr>
      else sb\<lparr>sb_page := moveSidebarCard a b (sb_page sb), sb_dragging := None\<rparr>)"
  by (simp add: handleSidebarCardDrop_def handleSidebarCardDragStart_def)

section \<open>Witnesses\<close>

theorem flow_link_survives_reload_witness:
  "fk_target (link_mounted True (js ''/kanban'') (fk_stored (link_run True (js ''/flow/edit/a'') None []))) =
   fk_target (link_run True (js ''/flow/edit/a'') None [])"
  by (rule flow_link_survives_reload)
    (simp_all add: normalizeFlowEntryPath_def Let_def starts_with_def js_def trim_opt_def trim_def js_white_def)

theorem drag_follows_pointer_witness:
  "fb_position (fold fab_step [PressFab True 0 1 (20, 90), MovePointer 1 (70, 90) (400, 800)]
     \<lparr>fb_position = (16, 88), fb_drag = None, fb_suppress_click = False\<rparr>) = (66, 88)"
  using drag_follows_pointer [of 1 "[MovePointer 1 (70, 90) (400, 800)]" True 0 "(20, 90)"
      "\<lparr>fb_position = (16, 88), fb_drag = None, fb_suppress_click = False\<rparr>"]
  by (simp add: moved_to_def)

definition sample_overlay :: overlay where
  "sample_overlay = \<lparr>ov_expanded = True, ov_status = Idle, ov_stopping = False, ov_close_blocked = False, ov_shell = True\<rparr>"

theorem overlay_closed_by_user_witness:
  "\<exists>before e after. [PointerAt ElsewhereOnPage] = before @ e # after \<and>
      e \<in> {PointerAt PageBody, PointerAt ElsewhereOnPage, FocusAt ElsewhereOnPage} \<and>
      ov_expanded (fold overlay_step before sample_overlay) \<and> \<not> overlay_held (fold overlay_step before sample_overlay)"
  by (rule overlay_closed_by_user)
    (simp_all add: sample_overlay_def overlay_pointer_down_def isPlannerAwaitingSession_def)


end
