(* ===== verification/AccountUsage.thy ===== *)
theory AccountUsage imports InstanceClient begin

text \<open>
  \<open>components/AccountMenu.tsx\<close>: the menu of the instance. It resolves the only instance, reads its
  token usage, and draws the usage of the last seven days. Days are counted in UTC from 1970-01-01.
  \<open>parse_time\<close> is \<open>new Date(text).getTime()\<close> (None for NaN), whose reading of other than ISO dates is
  left to the runtime, \<open>runtime_message\<close> is the message of an exception of the runtime and
  \<open>locale_number\<close> is \<open>toLocaleString('zh-CN')\<close>.
\<close>

section \<open>Days\<close>

text \<open>\<open>toISOString\<close> of a day: the proleptic Gregorian calendar, in years that start in March.\<close>

definition civil_from_days :: "int \<Rightarrow> int \<times> int \<times> int" where
  "civil_from_days days =
     (let z = days + 719468; era = z div 146097; doe = z mod 146097;
          yoe = (doe - doe div 1460 + doe div 36524 - doe div 146096) div 365;
          doy = doe - (365 * yoe + yoe div 4 - yoe div 100);
          mp = (5 * doy + 2) div 153;
          day = doy - (153 * mp + 2) div 5 + 1;
          month = (if mp < 10 then mp + 3 else mp - 9)
      in (yoe + era * 400 + (if month \<le> 2 then 1 else 0), month, day))"

definition padded :: "nat \<Rightarrow> nat \<Rightarrow> jsstring" where
  "padded width n = replicate (width - length (js_digits n)) 48 @ js_digits n"

definition iso_year :: "int \<Rightarrow> jsstring" where
  "iso_year year =
     (if 0 \<le> year \<and> year \<le> 9999 then padded 4 (nat year)
      else js (if year < 0 then ''-'' else ''+'') @ padded 6 (nat \<bar>year\<bar>))"

text \<open>\<open>toISOString().slice(0, 10)\<close>; a date outside the years 0 to 9999 loses its end.\<close>

definition iso_day :: "int \<Rightarrow> jsstring" where
  "iso_day days =
     (let (year, month, day) = civil_from_days days in
      take 10 (iso_year year @ js ''-'' @ padded 2 (nat month) @ js ''-'' @ padded 2 (nat day)))"

definition digit_unit :: "16 word \<Rightarrow> bool" where
  "digit_unit c \<longleftrightarrow> 48 \<le> c \<and> c \<le> 57"

text \<open>\<open>/^\d{4}-\d{2}-\d{2}$/\<close>\<close>

definition is_iso_date :: "jsstring \<Rightarrow> bool" where
  "is_iso_date text \<longleftrightarrow>
     length text = 10 \<and> text ! 4 = 45 \<and> text ! 7 = 45 \<and>
     list_all digit_unit (take 4 text) \<and> list_all digit_unit (take 2 (drop 5 text)) \<and> list_all digit_unit (drop 8 text)"

definition normalizeDailyDate :: "(jsstring \<Rightarrow> int option) \<Rightarrow> jsstring \<Rightarrow> jsstring option" where
  "normalizeDailyDate parse_time value =
     (let text = trim value in
      if text = [] then None
      else if is_iso_date text then Some text
      else case parse_time text of None \<Rightarrow> None | Some time \<Rightarrow> Some (iso_day (time div 86400000)))"

definition formatDailyLabel :: "jsstring \<Rightarrow> jsstring" where
  "formatDailyLabel date =
     (let value = trim date in if is_iso_date value then drop 5 value else str_or value (js ''-''))"

section \<open>The series\<close>

text \<open>
  The sum of two doubles. It is exact for whole numbers up to \<open>2 ^ 52\<close>; a sum that rounds to \<open>2 ^ 1024\<close> or more is
  infinite. Between the two the rounding of the sum to 53 bits is left out.
\<close>

definition double_sum :: "jsnum \<Rightarrow> jsnum \<Rightarrow> jsnum" where
  "double_sum a b =
     (case jsnum_add a b of
        Fin q \<Rightarrow> if 2 ^ 1024 - 2 ^ 970 \<le> q then PosInf else if q \<le> - (2 ^ 1024 - 2 ^ 970) then NegInf else Fin q
      | s \<Rightarrow> s)"

fun resolveTotalTokens :: "jsnum option \<Rightarrow> jsnum option \<Rightarrow> jsnum option \<Rightarrow> jsnum option" where
  "resolveTotalTokens (Some sum_given) input output = Some sum_given"
| "resolveTotalTokens None None None = None"
| "resolveTotalTokens None input output = Some (double_sum (nullish input (jint 0)) (nullish output (jint 0)))"

definition total_of :: "token_usage \<Rightarrow> jsnum option" where
  "total_of u = resolveTotalTokens (tu_total_tokens u) (tu_input_tokens u) (tu_output_tokens u)"

type_synonym daily_point = "jsstring \<times> token_usage"

definition by_date :: "(jsstring \<Rightarrow> int option) \<Rightarrow> daily_point list \<Rightarrow> (jsstring \<times> token_usage) list" where
  "by_date parse_time daily =
     fold (\<lambda>point m. case normalizeDailyDate parse_time (fst point) of
        None \<Rightarrow> m | Some date \<Rightarrow> AList.update date (snd point) m) daily []"

definition no_usage :: token_usage where
  "no_usage = \<lparr>tu_input_tokens = Some (jint 0), tu_output_tokens = Some (jint 0), tu_total_tokens = Some (jint 0)\<rparr>"

text \<open>\<open>today\<close> is the day of \<open>new Date()\<close> in UTC; the offsets run from 6 down to 0.\<close>

definition buildRecentSevenDaySeries ::
  "(jsstring \<Rightarrow> int option) \<Rightarrow> int \<Rightarrow> daily_point list \<Rightarrow> daily_point list" where
  "buildRecentSevenDaySeries parse_time today daily =
     map (\<lambda>offset. let dateKey = iso_day (today - offset) in
            (dateKey, map_get (by_date parse_time daily) dateKey no_usage)) [6, 5, 4, 3, 2, 1, 0]"

section \<open>The curve\<close>

text \<open>\<open>a / b\<close>; there is no negative zero here.\<close>

fun jsnum_div :: "jsnum \<Rightarrow> jsnum \<Rightarrow> jsnum" where
  "jsnum_div (Fin a) (Fin b) = (if b \<noteq> 0 then Fin (a / b) else if a = 0 then NaN else if 0 < a then PosInf else NegInf)"
| "jsnum_div NaN _ = NaN"
| "jsnum_div _ NaN = NaN"
| "jsnum_div (Fin a) _ = Fin 0"
| "jsnum_div PosInf (Fin b) = (if 0 \<le> b then PosInf else NegInf)"
| "jsnum_div NegInf (Fin b) = (if 0 \<le> b then NegInf else PosInf)"
| "jsnum_div _ _ = NaN"

definition chart_values :: "daily_point list \<Rightarrow> jsnum list" where
  "chart_values recent = map (\<lambda>point. nullish (total_of (snd point)) (jint 0)) recent"

text \<open>Width 210, height 54, of which the inner 44.\<close>

definition chart_points :: "daily_point list \<Rightarrow> (jsnum \<times> jsnum) list" where
  "chart_points recent =
     (let pointCount = max 1 (int (length recent) - 1);
          values = chart_values recent;
          maxValue = fold jsnum_max values (jint 1) in
      map (\<lambda>index.
        (jsnum_mul (jsnum_div (jint (int index)) (jint pointCount)) (jint 210),
         jsnum_add (jsnum_sub (jint 44) (jsnum_mul (jsnum_div (values ! index) maxValue) (jint 44))) (jint 2)))
        [0..<length recent])"

definition point_missing :: "daily_point \<Rightarrow> bool" where
  "point_missing point \<longleftrightarrow> total_of (snd point) = None"

datatype sparkline =
    ChartLoading
  | ChartFailed jsstring
  | ChartEmpty
  | Chart "(jsnum \<times> jsnum) list" "bool list" jsstring jsstring

definition renderUsageSparkline ::
  "(jsstring \<Rightarrow> int option) \<Rightarrow> int \<Rightarrow> token_usage_response option \<Rightarrow> bool \<Rightarrow> jsstring option \<Rightarrow> sparkline" where
  "renderUsageSparkline parse_time today tokenUsage loading failure =
     (if loading then ChartLoading
      else if nullish failure [] \<noteq> [] then ChartFailed (nullish failure [])
      else case tokenUsage of None \<Rightarrow> ChartEmpty
      | Some usage \<Rightarrow>
          if ur_daily usage = [] then ChartEmpty
          else let recent = buildRecentSevenDaySeries parse_time today (ur_daily usage) in
            Chart (chart_points recent) (map point_missing recent)
              (formatDailyLabel (fst (hd recent))) (formatDailyLabel (fst (last recent))))"


section \<open>The menu\<close>

record account_menu =
  am_open :: bool
  am_instance :: "instance_item option"
  am_count :: "nat option"
  am_load_error :: "jsstring option"
  am_usage :: "token_usage_response option"
  am_usage_loading :: bool
  am_usage_error :: "jsstring option"

definition account_mounted :: account_menu where
  "account_mounted = \<lparr>am_open = False, am_instance = None, am_count = None, am_load_error = None, am_usage = None,
     am_usage_loading = False, am_usage_error = None\<rparr>"

text \<open>Every failure of a call is an \<open>Error\<close>, so the texts for other exceptions are not used.\<close>

fun error_message :: "(api_failure \<Rightarrow> jsstring) \<Rightarrow> api_failure \<Rightarrow> jsstring" where
  "error_message runtime_message (ApiError status message detail) = message"
| "error_message runtime_message (PlainError message) = message"
| "error_message runtime_message failure = runtime_message failure"

fun is_unavailable :: "api_failure \<Rightarrow> bool" where
  "is_unavailable (ApiError status message detail) = (status = 503)"
| "is_unavailable failure = False"

text \<open>\<open>loadTokenUsage\<close> up to its await and after it.\<close>

definition usage_requested :: "account_menu \<Rightarrow> account_menu" where
  "usage_requested m = m\<lparr>am_usage_loading := True, am_usage_error := None\<rparr>"

definition usage_read :: "(api_failure \<Rightarrow> jsstring) \<Rightarrow> api_failure + token_usage_response \<Rightarrow> account_menu \<Rightarrow> account_menu" where
  "usage_read runtime_message reply m =
     (case reply of
        Inr usage \<Rightarrow> m\<lparr>am_usage := Some usage\<rparr>
      | Inl failure \<Rightarrow>
          if is_unavailable failure then m\<lparr>am_usage_error := Some (js ''Token '' @ [0x7528, 0x91CF, 0x670D, 0x52A1, 0x6682, 0x4E0D, 0x53EF, 0x7528, 0xFF08] @ js ''503'' @ [0xFF09])\<rparr>
          else m\<lparr>am_usage := None, am_usage_error := Some (error_message runtime_message failure)\<rparr>)\<lparr>am_usage_loading := False\<rparr>"

text \<open>\<open>loadInstance\<close> after its await, with the instance whose usage is asked for next.\<close>

definition account_read ::
  "(api_failure \<Rightarrow> jsstring) \<Rightarrow> api_failure + instance_item option \<times> nat \<Rightarrow> account_menu \<Rightarrow> account_menu \<times> jsstring option" where
  "account_read runtime_message reply m =
     (case reply of
        Inr (instance, found) \<Rightarrow>
          (let m' = m\<lparr>am_instance := instance, am_count := Some found, am_load_error := None\<rparr> in
           case instance of
             Some i \<Rightarrow>
               if ii_id i \<noteq> [] then (usage_requested m', Some (ii_id i))
               else (m'\<lparr>am_usage := None, am_usage_loading := False, am_usage_error := None\<rparr>, None)
           | None \<Rightarrow> (m'\<lparr>am_usage := None, am_usage_loading := False, am_usage_error := None\<rparr>, None))
      | Inl failure \<Rightarrow>
          (m\<lparr>am_instance := None, am_count := None, am_load_error := Some (error_message runtime_message failure),
             am_usage := None, am_usage_loading := False, am_usage_error := None\<rparr>, None))"

datatype menu_event =
    ClickTrigger
  | TriggerKey jsstring
  | MenuKey jsstring
  | PressOutside
  | InstanceReply "api_failure + instance_item option \<times> nat"
  | UsageReply "api_failure + token_usage_response"

fun account_step :: "(api_failure \<Rightarrow> jsstring) \<Rightarrow> menu_event \<Rightarrow> account_menu \<Rightarrow> account_menu" where
  "account_step rt ClickTrigger m = m\<lparr>am_open := \<not> am_open m\<rparr>"
| "account_step rt (TriggerKey key) m = (if key = js ''Enter'' \<or> key = js '' '' then m\<lparr>am_open := \<not> am_open m\<rparr> else m)"
| "account_step rt (MenuKey key) m = (if am_open m \<and> key = js ''Escape'' then m\<lparr>am_open := False\<rparr> else m)"
| "account_step rt PressOutside m = (if am_open m then m\<lparr>am_open := False\<rparr> else m)"
| "account_step rt (InstanceReply reply) m = fst (account_read rt reply m)"
| "account_step rt (UsageReply reply) m = usage_read rt reply m"

definition resolveTriggerLabel :: "instance_item option \<Rightarrow> nat option \<Rightarrow> jsstring" where
  "resolveTriggerLabel instance found =
     (let name = (case instance of None \<Rightarrow> [] | Some i \<Rightarrow> trim (ii_name i)) in
      if name \<noteq> [] then name
      else case found of
        None \<Rightarrow> [0x5B9E, 0x4F8B, 0x4FE1, 0x606F]
      | Some n \<Rightarrow>
          if n = 0 then [0x672A, 0x914D, 0x7F6E, 0x5B9E, 0x4F8B] else if 1 < n then [0x5B9E, 0x4F8B, 0x5F02, 0x5E38] @ js '' ('' @ js_digits n @ js '')'' else [0x5B9E, 0x4F8B, 0x4FE1, 0x606F])"

datatype instance_detail =
    LoadFailed jsstring
  | NoInstance
  | SeveralInstances nat
  | ReadingInstance
  | InstanceRows "jsstring list"

definition renderInstanceDetail :: "instance_item option \<Rightarrow> nat option \<Rightarrow> jsstring option \<Rightarrow> instance_detail" where
  "renderInstanceDetail instance found loadError =
     (if nullish loadError [] \<noteq> [] then LoadFailed (nullish loadError [])
      else if instance = None \<and> found = Some 0 then NoInstance
      else if instance = None \<and> found \<noteq> None \<and> 1 < the found then SeveralInstances (the found)
      else case instance of None \<Rightarrow> ReadingInstance
      | Some i \<Rightarrow> InstanceRows (map (\<lambda>value. str_or value (js ''-''))
                      [ii_name i, ii_id i, ii_type i, ii_endpoint i, ii_status i]))"

definition renderTodayUsage ::
  "(jsnum \<Rightarrow> jsstring) \<Rightarrow> token_usage_response option \<Rightarrow> bool \<Rightarrow> jsstring option \<Rightarrow> jsstring" where
  "renderTodayUsage locale_number tokenUsage loading failure =
     (if loading then [0x52A0, 0x8F7D, 0x4E2D] @ js ''...''
      else if nullish failure [] \<noteq> [] then [0x8BFB, 0x53D6, 0x5931, 0x8D25, 0xFF1A] @ nullish failure []
      else case Option.bind tokenUsage ur_today of None \<Rightarrow> [0x6682, 0x65E0, 0x6570, 0x636E]
      | Some today \<Rightarrow>
          (case total_of today of None \<Rightarrow> [0x6682, 0x65E0, 0x6570, 0x636E]
           | Some tokens \<Rightarrow>
               let part = (\<lambda>label n. case n of None \<Rightarrow> [] | Some v \<Rightarrow> [label @ locale_number v]);
                   parts = part ([0x8F93, 0x5165] @ js '' '') (tu_input_tokens today) @ part ([0x8F93, 0x51FA] @ js '' '') (tu_output_tokens today) in
               if parts = [] then [0x603B] @ js '' '' @ locale_number tokens
               else [0x603B] @ js '' '' @ locale_number tokens @ [0xFF08] @ js_join (js '' / '') parts @ [0xFF09]))"


section \<open>The last seven days\<close>

lemma last_snd: "ps \<noteq> [] \<Longrightarrow> snd (last ps) = last (map snd ps)"
  by (simp add: last_map)

lemma by_date_last:
  "map_of (by_date parse_time daily) date =
     (case filter (\<lambda>point. normalizeDailyDate parse_time (fst point) = Some date) daily of
        [] \<Rightarrow> None | points \<Rightarrow> Some (snd (last points)))"
proof (induction daily rule: rev_induct)
  case Nil
  show ?case by (simp add: by_date_def)
next
  case (snoc point daily)
  then show ?case by (auto simp: by_date_def split: option.splits list.splits)
qed

theorem series_shows_latest_points:
  "buildRecentSevenDaySeries parse_time today daily =
     map (\<lambda>offset.
       (iso_day (today - offset),
        case filter (\<lambda>point. normalizeDailyDate parse_time (fst point) = Some (iso_day (today - offset))) daily of
          [] \<Rightarrow> no_usage | points \<Rightarrow> snd (last points))) [6, 5, 4, 3, 2, 1, 0]"
proof -
  have "map_get (by_date parse_time daily) date no_usage =
    (case filter (\<lambda>point. normalizeDailyDate parse_time (fst point) = Some date) daily of
       [] \<Rightarrow> no_usage | points \<Rightarrow> snd (last points))" for date
    by (simp add: map_get_def by_date_last split: list.splits)
  then show ?thesis by (simp add: buildRecentSevenDaySeries_def Let_def)
qed

section \<open>The curve stays in its box\<close>

fun token_count :: "jsnum option \<Rightarrow> bool" where
  "token_count None = True"
| "token_count (Some (Fin q)) = (0 \<le> q)"
| "token_count _ = False"

definition usage_counts :: "token_usage \<Rightarrow> bool" where
  "usage_counts u \<longleftrightarrow> token_count (tu_input_tokens u) \<and> token_count (tu_output_tokens u) \<and> token_count (tu_total_tokens u)"

lemma token_count_iff: "token_count n \<longleftrightarrow> n = None \<or> (\<exists>q. n = Some (Fin q) \<and> 0 \<le> q)"
  by (cases n rule: token_count.cases) auto

lemma normalized_count [simp]: "token_count (normalizeNonNegativeInt h value)"
  by (auto simp: normalizeNonNegativeInt_def Let_def is_finite_iff jint_def)

lemma usage_of_counts [simp]: "usage_counts (usage_of h record)"
  by (simp add: usage_counts_def usage_of_def)

text \<open>Counts whose sums a double holds exactly.\<close>

fun small_count :: "jsnum option \<Rightarrow> bool" where
  "small_count (Some (Fin q)) = (q \<le> 2 ^ 52)"
| "small_count n = True"

definition counts_small :: "token_usage \<Rightarrow> bool" where
  "counts_small u \<longleftrightarrow> small_count (tu_input_tokens u) \<and> small_count (tu_output_tokens u)"

lemma small_sum:
  assumes "0 \<le> a" "a \<le> 2 ^ 52" "0 \<le> b" "b \<le> 2 ^ 52"
  shows "double_sum (Fin a) (Fin b) = Fin (a + b)"
proof -
  have "(2 :: rat) ^ 53 < 2 ^ 1024 - 2 ^ 970" by simp
  then have "a + b < 2 ^ 1024 - 2 ^ 970" "- (2 ^ 1024 - 2 ^ 970) < a + b" using assms by simp_all
  then show ?thesis by (simp only: double_sum_def jsnum_add.simps jsnum.case) (simp only: not_le [symmetric] if_False)
qed

lemma total_of_counts: "usage_counts u \<Longrightarrow> counts_small u \<Longrightarrow> token_count (total_of u)"
  unfolding usage_counts_def counts_small_def total_of_def
  by (cases "(tu_total_tokens u, tu_input_tokens u, tu_output_tokens u)" rule: resolveTotalTokens.cases)
    (auto simp: token_count_iff jint_def small_sum)

lemma by_date_counts:
  assumes "list_all (\<lambda>point. usage_counts (snd point) \<and> counts_small (snd point)) daily"
  shows "usage_counts (map_get (by_date parse_time daily) date no_usage) \<and> counts_small (map_get (by_date parse_time daily) date no_usage)"
proof -
  define points where "points = filter (\<lambda>point. normalizeDailyDate parse_time (fst point) = Some date) daily"
  have "usage_counts no_usage \<and> counts_small no_usage" by (simp add: usage_counts_def counts_small_def no_usage_def jint_def)
  moreover have "usage_counts (snd (last points)) \<and> counts_small (snd (last points))" if "points \<noteq> []"
    using last_in_set [OF that] assms by (auto simp: points_def list_all_iff)
  ultimately show ?thesis
    by (cases points) (simp_all add: map_get_def by_date_last flip: points_def)
qed

fun in_chart :: "jsnum \<times> jsnum \<Rightarrow> bool" where
  "in_chart (Fin x, Fin y) = (0 \<le> x \<and> x \<le> 210 \<and> 2 \<le> y \<and> y \<le> 46)"
| "in_chart _ = False"

lemma fold_max_fin:
  "fold jsnum_max (map Fin qs) (Fin m) = Fin (fold max qs m)"
  by (induction qs arbitrary: m) (simp_all add: max.commute)

lemma fold_max_ge: "q \<in> set (m # qs) \<Longrightarrow> q \<le> fold max qs (m :: rat)"
  by (metis List.finite_set Max.set_eq_fold Max_ge)

lemma in_chart_of_ratios:
  "0 \<le> a \<Longrightarrow> a \<le> 1 \<Longrightarrow> 0 \<le> b \<Longrightarrow> b \<le> 1 \<Longrightarrow> in_chart (Fin (a * 210), Fin (44 - b * 44 + 2))"
  by simp

lemma chart_points_fit:
  assumes "list_all (\<lambda>point. usage_counts (snd point) \<and> counts_small (snd point)) recent"
  shows "list_all in_chart (chart_points recent)"
proof -
  have "\<exists>q. nullish (total_of (snd p)) (jint 0) = Fin q \<and> 0 \<le> q" if "p \<in> set recent" for p
    using total_of_counts [of "snd p"] assms that by (auto simp: list_all_iff token_count_iff jint_def)
  then obtain v where v: "\<And>p. p \<in> set recent \<Longrightarrow> nullish (total_of (snd p)) (jint 0) = Fin (v p) \<and> 0 \<le> v p"
    by metis
  define qs where "qs = map v recent"
  have vals: "chart_values recent = map Fin qs" using v by (simp add: chart_values_def qs_def)
  define m where "m = fold max qs 1"
  have m: "1 \<le> m" using fold_max_ge [of 1 1 qs] by (simp add: m_def)
  have max: "fold jsnum_max (chart_values recent) (Fin 1) = Fin m"
    using fold_max_fin [of qs 1] by (simp add: vals m_def)
  show ?thesis
    unfolding list_all_length
  proof (intro allI impI)
    fix i
    assume "i < length (chart_points recent)"
    then have i: "i < length recent" by (simp add: chart_points_def Let_def)
    define n where "n = max 1 (int (length recent) - 1)"
    define q where "q = qs ! i"
    have q: "0 \<le> q" "q \<le> m" "chart_values recent ! i = Fin q"
      using i v fold_max_ge [of q 1 qs] by (simp_all add: q_def qs_def vals m_def)
    have n: "int i \<le> n" "1 \<le> n" using i by (auto simp: n_def)
    have point: "chart_points recent ! i = (Fin (of_int (int i) / of_int n * 210), Fin (44 - q / m * 44 + 2))"
      using i n m by (simp add: chart_points_def Let_def max q(3) jint_def flip: n_def)
    have "q / m \<le> 1" "0 \<le> q / m" using q m by simp_all
    moreover have "(of_int (int i) :: rat) / of_int n \<le> 1" "0 \<le> (of_int (int i) :: rat) / of_int n"
      using n by (simp_all add: divide_le_eq_1)
    ultimately show "in_chart (chart_points recent ! i)"
      unfolding point by (intro in_chart_of_ratios)
  qed
qed

text \<open>
  C19: The curve of the token usage lies in its box whatever the server answers, as long as the counts of input and
  output tokens are at most \<open>2 ^ 52\<close>, so that their sums are exact: its points are finite, between 0 and 210 across and
  between 2 and 46 down. Without the bound it fails (\<open>overflow_breaks_curve\<close>). The quotients are exact here.
\<close>

theorem usage_curve_fits:
  assumes "list_all (\<lambda>payload. counts_small (snd (normalizeTokenUsagePoint h payload))) payloads"
  shows "list_all in_chart (chart_points (buildRecentSevenDaySeries parse_time today (map (normalizeTokenUsagePoint h) payloads)))"
proof (rule chart_points_fit)
  have "list_all (\<lambda>point. usage_counts (snd point) \<and> counts_small (snd point)) (map (normalizeTokenUsagePoint h) payloads)"
    using assms by (simp add: list_all_iff normalizeTokenUsagePoint_def Let_def)
  then show "list_all (\<lambda>point. usage_counts (snd point) \<and> counts_small (snd point))
      (buildRecentSevenDaySeries parse_time today (map (normalizeTokenUsagePoint h) payloads))"
    using by_date_counts by (simp add: buildRecentSevenDaySeries_def Let_def)
qed

definition usage_host :: api_host where
  "usage_host = \<lparr>base_url = [], set_param = (\<lambda>_ _ url. url), str_num = (\<lambda>_. []), lower_case = (\<lambda>s. s), parse_num = (\<lambda>_. NaN)\<rparr>"

definition sample_usage :: json where
  "sample_usage = JObj [(js ''date'', JStr (js ''2024-02-29'')), (js ''input'', JNum (jint 7)), (js ''output'', JNum (jint 5))]"

theorem usage_curve_fits_witness:
  "list_all in_chart (chart_points (buildRecentSevenDaySeries (\<lambda>_. None) 19782
     (map (normalizeTokenUsagePoint usage_host) [sample_usage])))"
  by (rule usage_curve_fits)
    (simp add: counts_small_def normalizeTokenUsagePoint_def usage_of_def normalizeNonNegativeInt_def sample_usage_def
      members_def either_of_def coalesce_def js_floor.simps field_def map_get_def map_has_def js_number_def jint_def Let_def)

text \<open>Two counts whose sum no double holds: the sum is infinite, its share of the largest value is not a number.\<close>

lemma overflow_breaks_curve:
  "map snd (chart_points [(date, \<lparr>tu_input_tokens = Some (Fin (2 ^ 1023)), tu_output_tokens = Some (Fin (2 ^ 1023)), tu_total_tokens = None\<rparr>)])
     = [NaN]"
proof -
  have "(2 :: rat) ^ 1024 - 2 ^ 970 \<le> 2 ^ 1023 + 2 ^ 1023" by simp
  then have "double_sum (Fin (2 ^ 1023)) (Fin (2 ^ 1023)) = PosInf"
    by (simp only: double_sum_def jsnum_add.simps jsnum.case if_True)
  then have "chart_values [(date, \<lparr>tu_input_tokens = Some (Fin (2 ^ 1023)), tu_output_tokens = Some (Fin (2 ^ 1023)), tu_total_tokens = None\<rparr>)]
      = [PosInf]"
    by (simp only: chart_values_def total_of_def list.map snd_conv token_usage.select_convs resolveTotalTokens.simps nullish.simps)
  then show ?thesis by (simp only: chart_points_def Let_def) (simp add: jsnum_max_def jsnum_sub_def jint_def)
qed


section \<open>Loading the usage\<close>

text \<open>A run with the number of usage requests that wait for an answer.\<close>

fun asks_usage :: "(api_failure \<Rightarrow> jsstring) \<Rightarrow> menu_event \<Rightarrow> account_menu \<Rightarrow> nat \<Rightarrow> nat" where
  "asks_usage rt (InstanceReply reply) m n = (if snd (account_read rt reply m) = None then n else Suc n)"
| "asks_usage rt (UsageReply reply) m n = n - 1"
| "asks_usage rt e m n = n"

fun account_run :: "(api_failure \<Rightarrow> jsstring) \<Rightarrow> menu_event list \<Rightarrow> account_menu \<times> nat \<Rightarrow> account_menu \<times> nat" where
  "account_run rt [] s = s"
| "account_run rt (e # events) (m, n) = account_run rt events (account_step rt e m, asks_usage rt e m n)"

lemma loading_step:
  "am_usage_loading (account_step rt e m) \<Longrightarrow> (am_usage_loading m \<Longrightarrow> 0 < n) \<Longrightarrow> 0 < asks_usage rt e m n"
  by (cases "(rt, e, m, n)" rule: asks_usage.cases)
    (auto simp: account_read_def usage_read_def usage_requested_def Let_def split: sum.splits option.splits prod.splits if_splits)

lemma usage_loading_ends:
  assumes "snd (account_run rt events (account_mounted, 0)) = 0"
  shows "\<not> am_usage_loading (fst (account_run rt events (account_mounted, 0)))"
proof -
  have "(am_usage_loading m \<Longrightarrow> 0 < n) \<Longrightarrow>
    am_usage_loading (fst (account_run rt events (m, n))) \<Longrightarrow> 0 < snd (account_run rt events (m, n))" for m n
  proof (induction events arbitrary: m n)
    case (Cons e events)
    from Cons.prems(2) show ?case by (simp add: Cons.IH loading_step Cons.prems(1))
  qed simp
  from this [of account_mounted 0] assms show ?thesis by (auto simp: account_mounted_def)
qed

text \<open>The answers are not matched with the instance they are for: the usage read last is shown.\<close>

theorem late_usage_is_shown:
  "let m = fold (account_step rt)
     [InstanceReply (Inr (Some a, 1)), InstanceReply (Inr (Some b, 1)), UsageReply (Inr usage_of_b), UsageReply (Inr usage_of_a)]
     account_mounted
   in am_instance m = Some b \<and> am_usage m = Some usage_of_a \<and> \<not> am_usage_loading m"
  by (simp add: account_read_def usage_read_def usage_requested_def Let_def)

text \<open>While one of two requests is under way, the answer to the other takes the loading mark away.\<close>

lemma other_answer_ends_loading:
  "account_run rt [InstanceReply (Inr (Some a, 1)), InstanceReply (Inr (Some a, 1)), UsageReply reply] (account_mounted, 0) = (m, n) \<Longrightarrow>
   ii_id a \<noteq> [] \<Longrightarrow> \<not> am_usage_loading m \<and> n = 1"
  by (auto simp: account_read_def usage_read_def usage_requested_def Let_def split: sum.splits)

text \<open>Days and their texts.\<close>

lemma js_digits_step:
  "n < 10 \<Longrightarrow> js_digits n = [48 + of_nat n]" "10 \<le> n \<Longrightarrow> js_digits n = js_digits (n div 10) @ [48 + of_nat (n mod 10)]"
  by (simp_all add: js_digits.simps [of n])

lemma civil_days:
  "civil_from_days 0 = (1970, 1, 1)" "civil_from_days 11016 = (2000, 2, 29)" "civil_from_days 19782 = (2024, 2, 29)"
  "civil_from_days 19783 = (2024, 3, 1)" "civil_from_days (- 1) = (1969, 12, 31)" "civil_from_days 47540 = (2100, 2, 28)"
  "civil_from_days 47541 = (2100, 3, 1)" "civil_from_days 19843 = (2024, 4, 30)"
  by code_simp+

lemma padded_digits:
  "padded 4 2024 = js ''2024''" "padded 2 2 = js ''02''" "padded 2 29 = js ''29''" "padded 2 30 = js ''30''" "padded 2 4 = js ''04''"
  by (simp_all add: padded_def js_digits_step js_def)

lemma iso_days: "iso_day 19782 = js ''2024-02-29''" "iso_day 19843 = js ''2024-04-30''"
  by (simp_all add: iso_day_def civil_days iso_year_def padded_digits) (simp_all add: js_def)

lemma iso_dates: "normalizeDailyDate parse_time (js '' 2024-02-29 '') = Some (js ''2024-02-29'')"
  by (simp add: normalizeDailyDate_def is_iso_date_def digit_unit_def js_def trim_def js_white_def)

text \<open>A date with a time or of another form is read by the runtime and cut to its day in UTC: what is
  the first of May at midnight eight hours east of Greenwich counts for the day before.\<close>

lemma local_date_moves_back:
  "parse_time (js ''2024/05/01'') = Some 1714492800000 \<Longrightarrow>
   normalizeDailyDate parse_time (js ''2024/05/01'') = Some (js ''2024-04-30'')"
  by (simp add: normalizeDailyDate_def is_iso_date_def js_def trim_def js_white_def iso_days)


end
