(* ===== verification/StreamAddresses.thy ===== *)
theory StreamAddresses imports RealtimeClient QueryStrings ApiClient begin

text \<open>
  The addresses that \<open>api/realtimeClient.ts\<close> opens, and the checks before a client is made. An address
  is put together in its parts, as \<open>new URL(path, base)\<close> and \<open>searchParams.set\<close> do it, and then written out as
  \<open>url.toString()\<close> does: the path is absolute, so of the base only the scheme and the host stay, which
  \<open>origin\<close> gives (None where \<open>new URL\<close> throws); the parser drops the segments \<open>.\<close> and \<open>..\<close> of the path; the parameters
  are written in the form encoding, where a surrogate without its pair becomes U+FFFD.
\<close>

section \<open>Addresses\<close>

record stream_address =
  sa_scheme :: jsstring
  sa_host :: jsstring
  sa_path :: jsstring
  sa_params :: search_params

type_synonym url_origin = "jsstring \<Rightarrow> (jsstring \<times> jsstring) option"

datatype stream_failure = MissingDataSource | MissingBoardId | MissingSessionKey | BadBaseUrl | BadBoardId

text \<open>The segments \<open>.\<close> and \<open>..\<close> of an absolute path; what \<open>encodeURIComponent\<close> has encoded holds no \<open>%2e\<close> for a dot.\<close>

fun drop_dots :: "jsstring list \<Rightarrow> jsstring list \<Rightarrow> jsstring list" where
  "drop_dots kept [] = rev kept"
| "drop_dots kept (s # ss) =
     (if s = js ''..'' then drop_dots (drop 1 kept) ss else if s = js ''.'' then drop_dots kept ss else drop_dots (s # kept) ss)"

definition url_path :: "jsstring \<Rightarrow> jsstring" where
  "url_path path = js ''/'' @ js_join (js ''/'') (drop_dots [] (drop 1 (js_split (js ''/'') path)))"

definition url_from :: "url_origin \<Rightarrow> jsstring \<Rightarrow> jsstring \<Rightarrow> stream_failure + stream_address" where
  "url_from origin path base =
     (case origin base of None \<Rightarrow> Inl BadBaseUrl
      | Some (scheme, host) \<Rightarrow> Inr \<lparr>sa_scheme = scheme, sa_host = host, sa_path = url_path path, sa_params = []\<rparr>)"

definition search_set :: "string \<Rightarrow> jsstring \<Rightarrow> stream_address \<Rightarrow> stream_address" where
  "search_set name v url = url\<lparr>sa_params := params_set (js name) v (sa_params url)\<rparr>"

definition url_string :: "stream_address \<Rightarrow> jsstring" where
  "url_string url =
     sa_scheme url @ js ''//'' @ sa_host url @ sa_path url @
     (if sa_params url = [] then [] else js ''?'' @ params_string (sa_params url))"

definition set_instance :: "jsstring option \<Rightarrow> stream_address \<Rightarrow> stream_address" where
  "set_instance instanceId url =
     (let normalizedInstanceId = trim_opt instanceId in
      if normalizedInstanceId \<noteq> [] then search_set ''instanceId'' normalizedInstanceId url else url)"

definition toWebSocketUrl ::
  "url_origin \<Rightarrow> jsstring \<Rightarrow> jsstring \<Rightarrow> jsstring option \<Rightarrow> bool \<Rightarrow> stream_failure + jsstring" where
  "toWebSocketUrl origin apiBaseUrl dataSource instanceId disableInstanceContext =
     sum_bind (url_from origin (js ''/api/v1/ws/observer'') apiBaseUrl) (\<lambda>url.
       let secure = url\<lparr>sa_scheme := (if sa_scheme url = js ''https:'' then js ''wss:'' else js ''ws:'')\<rparr>;
           url' = search_set ''data_source'' dataSource secure in
       Inr (url_string (if disableInstanceContext then url' else set_instance instanceId url')))"

definition encoded_stream_board :: "jsstring \<Rightarrow> stream_failure + jsstring" where
  "encoded_stream_board boardId =
     (case encodeURIComponent (str_or (trim boardId) (js ''default'')) of None \<Rightarrow> Inl BadBoardId | Some e \<Rightarrow> Inr e)"

definition toBoardTasksSseUrl ::
  "url_origin \<Rightarrow> jsstring \<Rightarrow> jsstring \<Rightarrow> jsstring option \<Rightarrow> stream_failure + jsstring" where
  "toBoardTasksSseUrl origin apiBaseUrl boardId instanceId =
     sum_bind (encoded_stream_board boardId) (\<lambda>encodedBoardId.
       sum_bind (url_from origin (js ''/api/v1/sse/boards/'' @ encodedBoardId @ js ''/tasks'') apiBaseUrl) (\<lambda>url.
         Inr (url_string (set_instance instanceId url))))"

definition toFlowPlannerSseUrl ::
  "url_origin \<Rightarrow> jsstring \<Rightarrow> jsstring \<Rightarrow> jsstring \<Rightarrow> stream_failure + jsstring" where
  "toFlowPlannerSseUrl origin apiBaseUrl boardId sessionKey =
     sum_bind (encoded_stream_board boardId) (\<lambda>encodedBoardId.
       sum_bind (url_from origin (js ''/api/v1/boards/'' @ encodedBoardId @ js ''/tasks/flow/planner-sse'') apiBaseUrl) (\<lambda>url.
         Inr (url_string (search_set ''sessionKey'' (trim sessionKey) url))))"

section \<open>Making a client\<close>

text \<open>A client is made after its checks; it opens its address each time it connects.\<close>

definition createObserverRealtimeClient_opens ::
  "url_origin \<Rightarrow> jsstring \<Rightarrow> jsstring \<Rightarrow> jsstring option \<Rightarrow> bool \<Rightarrow> stream_failure + jsstring" where
  "createObserverRealtimeClient_opens origin apiBaseUrl dataSource instanceId disableInstanceContext =
     (if dataSource = [] then Inl MissingDataSource
      else toWebSocketUrl origin apiBaseUrl dataSource instanceId disableInstanceContext)"

definition createBoardTasksSseClient_opens ::
  "url_origin \<Rightarrow> jsstring \<Rightarrow> jsstring \<Rightarrow> jsstring option \<Rightarrow> stream_failure + jsstring" where
  "createBoardTasksSseClient_opens origin apiBaseUrl boardId instanceId =
     (if trim boardId = [] then Inl MissingBoardId else toBoardTasksSseUrl origin apiBaseUrl boardId instanceId)"

definition createFlowPlannerSseClient_opens ::
  "url_origin \<Rightarrow> jsstring \<Rightarrow> jsstring \<Rightarrow> jsstring \<Rightarrow> stream_failure + jsstring" where
  "createFlowPlannerSseClient_opens origin apiBaseUrl boardId sessionKey =
     (if trim boardId = [] then Inl MissingBoardId
      else if trim sessionKey = [] then Inl MissingSessionKey
      else toFlowPlannerSseUrl origin apiBaseUrl boardId sessionKey)"

text \<open>\<open>subscribePayload\<close>\<close>

definition subscribePayload :: "jsstring \<Rightarrow> jsnum option \<Rightarrow> json" where
  "subscribePayload channel lastSeq =
     (case lastSeq of None \<Rightarrow> obj [(''type'', JStr (js ''subscribe'')), (''channel'', JStr channel)]
      | Some n \<Rightarrow> obj [(''type'', JStr (js ''subscribe'')), (''channel'', JStr channel), (''last_seq'', JNum n)])"

section \<open>What an address identifies\<close>

lemma sum_bind_Inr: "sum_bind r f = Inr v \<longleftrightarrow> (\<exists>u. r = Inr u \<and> f u = Inr v)"
  by (cases r) simp_all

lemma split_slash: "47 \<notin> set s \<Longrightarrow> js_split_go [47] (s @ 47 # t) acc = (rev acc @ s) # js_split_go [47] t []"
  by (induction s arbitrary: acc) auto

text \<open>A path with one identifier in it stays as it is, unless the identifier is \<open>.\<close> or \<open>..\<close>.\<close>

lemma planner_path:
  assumes "47 \<notin> set e" and "e \<noteq> js ''.''" and "e \<noteq> js ''..''"
  shows "url_path (js ''/api/v1/boards/'' @ e @ js ''/tasks/flow/planner-sse'') = js ''/api/v1/boards/'' @ e @ js ''/tasks/flow/planner-sse''"
  using assms by (simp add: url_path_def js_split_def js_def split_slash)

lemma board_path:
  assumes "47 \<notin> set e" and "e \<noteq> js ''.''" and "e \<noteq> js ''..''"
  shows "url_path (js ''/api/v1/sse/boards/'' @ e @ js ''/tasks'') = js ''/api/v1/sse/boards/'' @ e @ js ''/tasks''"
  using assms by (simp add: url_path_def js_split_def js_def split_slash)

text \<open>What a server reads in a form-encoded text: the text, with U+FFFD for each surrogate without its pair.\<close>

definition usv_string :: "jsstring \<Rightarrow> jsstring" where
  "usv_string s = concat (map (\<lambda>v. units_of_scalar (nullish v 0xFFFD)) (scalars s))"

lemma usv_well_formed: "well_formed s \<Longrightarrow> usv_string s = s"
proof -
  assume s: "well_formed s"
  have "units_of_scalar (nullish v 0xFFFD) = units_of_scalar (the v)" if "v \<in> set (scalars s)" for v
  proof -
    have "v \<noteq> None" using that s unfolding well_formed_def by metis
    then show ?thesis by (auto simp: nullish.simps)
  qed
  then have "usv_string s = concat (map (units_of_scalar \<circ> the) (scalars s))" by (simp add: usv_string_def comp_def cong: map_cong)
  then show ?thesis using units_of_scalars [of s] s by (simp add: well_formed_def)
qed

lemma form_decode_usv: "form_decode (form_encode s) = usv_string s"
proof -
  have go: "utf8_decode (percent_bytes (map plus_blank (concat (map form_scalar ns)))) = ns" if "\<forall>n \<in> set ns. scalar n" for ns
    using that by (induction ns) (simp_all add: percent_bytes_form utf8_decode_utf8)
  have "scalar 0xFFFD" by (simp add: scalar_def)
  then have "scalar (nullish v 0xFFFD)" if "v \<in> set (scalars s)" for v using that scalars_scalar by (cases v) auto
  then have "utf8_decode (percent_bytes (map plus_blank (concat (map form_scalar (map (\<lambda>v. nullish v 0xFFFD) (scalars s)))))) =
      map (\<lambda>v. nullish v 0xFFFD) (scalars s)"
    by (intro go) auto
  then show ?thesis by (simp add: form_decode_def percent_decode_def form_encode_def usv_string_def comp_def)
qed

lemma read_one_param: "list_all (\<lambda>c. form_safe (of_char c)) name \<Longrightarrow> read_query (params_string [(js name, v)]) = [(js name, usv_string v)]"
proof -
  assume safe: "list_all (\<lambda>c. form_safe (of_char c)) name"
  have name: "form_encode (js name) = js name" by (rule form_word [OF safe])
  have "takeWhile (\<lambda>c. c \<noteq> 61) (form_encode k @ 61 # w) = form_encode k" "dropWhile (\<lambda>c. c \<noteq> 61) (form_encode k @ 61 # w) = 61 # w" for k w
    by (subst takeWhile_append2 dropWhile_append2; use encode_free(2) in auto)+
  moreover have "well_formed (js name)"
  proof -
    have "\<forall>c \<in> set (js name). unat c < 128" using safe form_safe_small by (auto simp: js_def list_all_iff unat_of_char_16)
    then show ?thesis by (auto simp: well_formed_def scalars_ascii)
  qed
  ultimately have "read_pair (pair_string (js name, v)) = (js name, usv_string v)"
    by (simp add: read_pair_def pair_string_def js_signs form_decode_usv usv_well_formed)
  then show ?thesis by (simp add: read_query_def params_string_alt js_split_def js_signs split_amp_last pair_string_free)
qed

text \<open>
  C23: The address a planner client opens names its board and its session: on the host of the base, it is the path of
  the planner stream with one segment for the board, which decodes to the identifier without the blanks around it, and a query that a
  server reads as exactly one parameter, the session key without the blanks around it, in which only a
  surrogate without its pair is read as U+FFFD. So two clients that open the same address are for the same board and, where the
  keys are well-formed text, for the same session. Left out are the boards named \<open>.\<close> and \<open>..\<close>, whose segment a URL drops.
\<close>

theorem planner_stream_identifies_session:
  assumes "createFlowPlannerSseClient_opens origin base boardId sessionKey = Inr url"
    and "trim boardId \<noteq> js ''.''" and "trim boardId \<noteq> js ''..''"
  shows "\<exists>scheme host e query. origin base = Some (scheme, host) \<and>
    url = scheme @ js ''//'' @ host @ js ''/api/v1/boards/'' @ e @ js ''/tasks/flow/planner-sse?'' @ query \<and>
    percent_decode e = trim boardId \<and> 47 \<notin> set e \<and> 63 \<notin> set e \<and> 35 \<notin> set (e @ query) \<and>
    read_query query = [(js ''sessionKey'', usv_string (trim sessionKey))] \<and>
    (well_formed (trim sessionKey) \<longrightarrow> usv_string (trim sessionKey) = trim sessionKey)"
proof -
  let ?query = "params_string [(js ''sessionKey'', trim sessionKey)]"
  obtain e scheme host where e: "encodeURIComponent (trim boardId) = Some e" and o: "origin base = Some (scheme, host)"
    and url: "url = scheme @ js ''//'' @ host @ url_path (js ''/api/v1/boards/'' @ e @ js ''/tasks/flow/planner-sse'') @ js ''?'' @ ?query"
    using assms(1)
    by (auto simp: createFlowPlannerSseClient_opens_def toFlowPlannerSseUrl_def encoded_stream_board_def str_or_def sum_bind_Inr url_from_def
        search_set_def url_string_def split: if_splits option.splits)
  have plain: "47 \<notin> set e" "63 \<notin> set e" "35 \<notin> set e" using url_plain_no_separator [OF encode_plain [OF e]] by auto
  have "e \<noteq> js ''.''" "e \<noteq> js ''..''"
    using encode_decode [OF e] assms(2,3) by (auto simp: percent_decode_def js_def utf8_decode.simps units_of_scalar_def)
  then have path: "url_path (js ''/api/v1/boards/'' @ e @ js ''/tasks/flow/planner-sse'') = js ''/api/v1/boards/'' @ e @ js ''/tasks/flow/planner-sse''"
    using plain(1) by (rule planner_path [rotated 1])
  have "35 \<notin> set ?query" using form_plain_free [OF form_plain_encode] by (auto simp: params_string_alt pair_string_def js_signs)
  moreover have "read_query ?query = [(js ''sessionKey'', usv_string (trim sessionKey))]"
    by (rule read_one_param) (simp add: form_safe_def alphanumeric_def)
  moreover have "url = scheme @ js ''//'' @ host @ js ''/api/v1/boards/'' @ e @ js ''/tasks/flow/planner-sse?'' @ ?query"
    by (simp add: url path) (simp add: js_def)
  ultimately show ?thesis using o plain encode_decode [OF e] usv_well_formed by (metis Un_iff set_append)
qed

text \<open>The board stream carries the instance that is chosen, trimmed, and none when it is blank.\<close>

lemma stream_instance:
  assumes "createBoardTasksSseClient_opens origin base boardId instanceId = Inr url"
  shows "\<exists>scheme host path. origin base = Some (scheme, host) \<and>
    url = scheme @ js ''//'' @ host @ path @
      (if trim_opt instanceId = [] then [] else js ''?'' @ params_string [(js ''instanceId'', trim_opt instanceId)])"
  using assms
  by (auto simp: createBoardTasksSseClient_opens_def toBoardTasksSseUrl_def sum_bind_Inr url_from_def set_instance_def url_string_def
      search_set_def Let_def split: if_splits option.splits)

text \<open>Requests go to the whole base, streams to its scheme and host only: below a base with a path the
  two part.\<close>

theorem streams_drop_base_path:
  "origin base = origin base' \<Longrightarrow> base \<noteq> base' \<Longrightarrow>
   toBoardTasksSseUrl origin base boardId instanceId = toBoardTasksSseUrl origin base' boardId instanceId \<and>
   buildApiUrlWithContext (h\<lparr>base_url := base\<rparr>) path no_options \<noteq> buildApiUrlWithContext (h\<lparr>base_url := base'\<rparr>) path no_options"
  by (simp add: toBoardTasksSseUrl_def url_from_def buildApiUrlWithContext_def withBusinessContext_def withInstanceContext_def
      no_options_def trim_opt_def)

section \<open>Witnesses\<close>

definition origin_of_url :: url_origin where
  "origin_of_url base =
     (case js_split (js ''/'') base of
        scheme # blank # host # rest \<Rightarrow> if blank = [] then Some (scheme, host) else None
      | _ \<Rightarrow> None)"

theorem planner_stream_identifies_session_witness:
  "\<exists>e query. js ''https://h/api/v1/boards/main/tasks/flow/planner-sse?sessionKey=s1'' =
       js ''https:'' @ js ''//'' @ js ''h'' @ js ''/api/v1/boards/'' @ e @ js ''/tasks/flow/planner-sse?'' @ query \<and>
     percent_decode e = js ''main'' \<and> read_query query = [(js ''sessionKey'', usv_string (js ''s1''))]"
proof -
  have m: "trim (js '' main'') = js ''main''" "trim (js ''s1 '') = js ''s1''"
    by (simp_all add: js_def trim_def js_white_def)
  have e: "encodeURIComponent (js ''main'') = Some (js ''main'')"
    by (rule encode_ascii) (simp add: js_def component_safe_def alphanumeric_def)
  have q: "params_string [(js ''sessionKey'', js ''s1'')] = js ''sessionKey=s1''"
    by (simp add: params_string_def form_word form_safe_def alphanumeric_def) (simp add: js_def)
  have o: "origin_of_url (js ''https://h'') = Some (js ''https:'', js ''h'')" by (simp add: origin_of_url_def js_split_def js_def)
  have full: "js ''main'' \<noteq> []" "js ''s1'' \<noteq> []" by (simp_all add: js_def)
  have board: "encoded_stream_board (js '' main'') = Inr (js ''main'')" by (simp add: encoded_stream_board_def m e str_or_def full)
  have path: "url_path (js ''/api/v1/boards/'' @ js ''main'' @ js ''/tasks/flow/planner-sse'') =
      js ''/api/v1/boards/'' @ js ''main'' @ js ''/tasks/flow/planner-sse''"
    by (rule planner_path) (simp_all add: js_def)
  have "createFlowPlannerSseClient_opens origin_of_url (js ''https://h'') (js '' main'') (js ''s1 '') =
      Inr (js ''https:'' @ js ''//'' @ js ''h'' @ (js ''/api/v1/boards/'' @ js ''main'' @ js ''/tasks/flow/planner-sse'') @ js ''?'' @ js ''sessionKey=s1'')"
    by (simp add: createFlowPlannerSseClient_opens_def m full toFlowPlannerSseUrl_def board url_from_def o path search_set_def url_string_def q)
  also have "\<dots> = Inr (js ''https://h/api/v1/boards/main/tasks/flow/planner-sse?sessionKey=s1'')" by (simp add: js_def)
  finally have "createFlowPlannerSseClient_opens origin_of_url (js ''https://h'') (js '' main'') (js ''s1 '') =
      Inr (js ''https://h/api/v1/boards/main/tasks/flow/planner-sse?sessionKey=s1'')" .
  from planner_stream_identifies_session [OF this] obtain scheme host e' query where
    host: "Some (js ''https:'', js ''h'') = Some (scheme, host)" and
    url: "js ''https://h/api/v1/boards/main/tasks/flow/planner-sse?sessionKey=s1'' =
      scheme @ js ''//'' @ host @ js ''/api/v1/boards/'' @ e' @ js ''/tasks/flow/planner-sse?'' @ query" and
    read: "percent_decode e' = js ''main''" "read_query query = [(js ''sessionKey'', usv_string (js ''s1''))]"
    unfolding m o by (auto simp: js_def)
  show ?thesis using url read host by blast
qed

definition plain_host :: api_host where
  "plain_host = \<lparr>base_url = [], set_param = (\<lambda>path name v. path @ js ''&'' @ name @ js ''='' @ v), str_num = (\<lambda>_. js ''0''),
     lower_case = to_lower, parse_num = (\<lambda>_. NaN)\<rparr>"

theorem streams_drop_base_path_witness:
  "toBoardTasksSseUrl origin_of_url (js ''https://h/linpo'') (js ''main'') None =
     toBoardTasksSseUrl origin_of_url (js ''https://h'') (js ''main'') None \<and>
   buildApiUrlWithContext (plain_host\<lparr>base_url := js ''https://h/linpo''\<rparr>) (js ''/api/v1/agents'') no_options \<noteq>
   buildApiUrlWithContext (plain_host\<lparr>base_url := js ''https://h''\<rparr>) (js ''/api/v1/agents'') no_options"
  by (rule streams_drop_base_path) (simp_all add: origin_of_url_def js_split_def js_def starts_with_def)


end
