(* ===== verification/FilesView.thy ===== *)
theory FilesView imports FilesPage begin

text \<open>
  What the page of the instance files shows, as data: the tree of \<open>instance-files-page/FileTree.tsx\<close>, the
  side bar of \<open>Sidebar.tsx\<close>, the preview panel of \<open>PreviewPanel.tsx\<close> and the dialog of
  \<open>InstanceFilesCreateDialog.tsx\<close>. Layout and styles are left out, and a button is what it shows and what
  a click on it does. \<open>parse\<close> is \<open>JSON.parse\<close> and \<open>indent\<close> is \<open>JSON.stringify(_, null, 2)\<close>.
\<close>

section \<open>The tree\<close>

datatype tree_button =
    LeafButton icon_kind jsstring jsstring nat bool selected_resource
  | FolderButton jsstring jsstring nat bool jsstring

text \<open>The buttons of a node from top to bottom; a folder that is collapsed shows none below it.\<close>

fun renderTreeNode :: "selected_resource option \<Rightarrow> jsstring list \<Rightarrow> nat \<Rightarrow> path_node \<Rightarrow> tree_button list" where
  "renderTreeNode selected collapsed depth (PNode ident name res children) =
     (case res of
        Some resource \<Rightarrow>
          [LeafButton (rk_icon resource) name (rk_aria_label resource) depth (selected = Some (resource_of resource)) (resource_of resource)]
      | None \<Rightarrow>
          FolderButton name ([0x5207, 0x6362, 0x76EE, 0x5F55] @ js '' '' @ name) depth (ident \<notin> set collapsed) ident #
          (if ident \<in> set collapsed then [] else concat (map (renderTreeNode selected collapsed (Suc depth)) children)))"

definition FileTree_buttons :: "selected_resource option \<Rightarrow> jsstring list \<Rightarrow> path_node list \<Rightarrow> tree_button list" where
  "FileTree_buttons selected collapsed nodes = concat (map (renderTreeNode selected collapsed 0) nodes)"

fun click_tree_button :: "tree_button \<Rightarrow> files_page \<Rightarrow> files_page" where
  "click_tree_button (LeafButton icon name aria depth active resource) pg = pg\<lparr>fp_selected := Some resource\<rparr>"
| "click_tree_button (FolderButton name aria depth expanded ident) pg = handleToggleTreeFolder ident pg"

text \<open>The resources of a node with the identifiers of the folders around them.\<close>

fun placed_resources :: "path_node \<Rightarrow> (jsstring list \<times> sidebar_resource) list" where
  "placed_resources (PNode ident name res children) =
     (case res of Some resource \<Rightarrow> [([], resource)]
      | None \<Rightarrow> map (\<lambda>(ids, r). (ident # ids, r)) (concat (map placed_resources children)))"

fun leaf_target :: "tree_button \<Rightarrow> selected_resource option" where
  "leaf_target (LeafButton icon name aria depth active resource) = Some resource"
| "leaf_target (FolderButton name aria depth expanded ident) = None"

definition shown_resources :: "tree_button list \<Rightarrow> selected_resource list" where
  "shown_resources buttons = List.map_filter leaf_target buttons"

lemma shown_append [simp]:
  "shown_resources [] = []" "shown_resources (a @ b) = shown_resources a @ shown_resources b"
  by (simp_all add: shown_resources_def map_filter_def)

lemma shown_concat [simp]: "shown_resources (concat bs) = concat (map shown_resources bs)"
  by (induction bs) simp_all

lemma shown_Cons: "shown_resources (b # bs) = (case leaf_target b of None \<Rightarrow> shown_resources bs | Some r \<Rightarrow> r # shown_resources bs)"
  by (simp add: shown_resources_def map_filter_def split: option.splits)

text \<open>A file has its button exactly when no folder above it is collapsed.\<close>

lemma node_shows:
  "shown_resources (renderTreeNode selected collapsed depth node) =
     map (resource_of \<circ> snd) (filter (\<lambda>(ids, r). set ids \<inter> set collapsed = {}) (placed_resources node))"
proof (induction selected collapsed depth node rule: renderTreeNode.induct)
  case (1 selected collapsed depth ident name res children)
  show ?case
  proof (cases res)
    case (Some r)
    then show ?thesis by (simp add: shown_Cons)
  next
    case None
    note IH = 1 [OF None]
    show ?thesis
    proof (cases "ident \<in> set collapsed")
      case True
      then have "filter (\<lambda>(ids, r). set ids \<inter> set collapsed = {}) (placed_resources (PNode ident name res children)) = []"
        by (auto simp: None filter_empty_conv)
      with True show ?thesis by (simp add: None shown_Cons)
    next
      case False
      have "map shown_resources (map (renderTreeNode selected collapsed (Suc depth)) children) =
        map (\<lambda>c. map (resource_of \<circ> snd) (filter (\<lambda>(ids, r). set ids \<inter> set collapsed = {}) (placed_resources c))) children"
        using IH False by simp
      then have "concat (map shown_resources (map (renderTreeNode selected collapsed (Suc depth)) children)) =
        concat (map (\<lambda>c. map (resource_of \<circ> snd) (filter (\<lambda>(ids, r). set ids \<inter> set collapsed = {}) (placed_resources c))) children)"
        by (rule arg_cong)
      then show ?thesis using False
        by (simp add: None shown_Cons filter_concat map_concat filter_map o_def case_prod_unfold)
    qed
  qed
qed

lemma file_buttons:
  "shown_resources (FileTree_buttons selected collapsed nodes) =
     map (resource_of \<circ> snd) (filter (\<lambda>(ids, r). set ids \<inter> set collapsed = {}) (concat (map placed_resources nodes)))"
  by (simp add: FileTree_buttons_def node_shows filter_concat map_concat o_def)

text \<open>C26: The tree of the instance files has a button for a file exactly when none of the folders around it is
  collapsed, and the buttons keep the order of the tree.\<close>

theorem file_shown_unless_folder_collapsed:
  "shown_resources (FileTree_buttons selected collapsed nodes) =
     map (resource_of \<circ> snd) (filter (\<lambda>(ids, r). set ids \<inter> set collapsed = {}) (concat (map placed_resources nodes)))"
  by (rule file_buttons)

lemma image_sum_list: "image_mset f (sum_list ms) = sum_list (map (image_mset f) ms)"
  by (induction ms) simp_all

lemma entries_placed: "image_mset snd (entries node) = mset (map snd (placed_resources node))"
proof (induction node)
  case (PNode ident name res children)
  show ?case
  proof (cases res)
    case None
    have eq: "map (image_mset snd \<circ> entries) children = map (\<lambda>c. mset (map snd (placed_resources c))) children"
      using PNode by simp
    have "sum_list (map (image_mset snd \<circ> entries) children) = sum_list (map (\<lambda>c. mset (map snd (placed_resources c))) children)"
      by (simp only: eq)
    also have "\<dots> = mset (concat (map (\<lambda>c. map snd (placed_resources c)) children))"
      by (simp only: mset_concat map_map o_def)
    finally have "sum_list (map (image_mset snd \<circ> entries) children) = mset (concat (map (\<lambda>c. map snd (placed_resources c)) children))" .
    then show ?thesis
      by (simp add: None image_sum_list image_mset.compositionality o_def case_prod_unfold map_concat)
  qed simp
qed

text \<open>With every folder open the tree offers each file of the page once.\<close>

theorem open_tree_offers_every_file:
  assumes "buildPathTree le (taskResourceItems pg) = Some nodes" "distinct (map if_id (fp_items pg))"
  shows "mset (shown_resources (FileTree_buttons selected [] nodes)) = mset (map (resource_of \<circ> task_resource) (fp_items pg))"
proof -
  have "distinct (map (\<lambda>r. (rk_kind r, rk_id r)) (taskResourceItems pg))"
    using assms(2) by (simp add: taskResourceItems_def task_resource_def o_def distinct_map inj_on_def)
  from tree_entries [OF assms(1) this]
  have "image_mset snd (sum_list (map entries nodes)) = mset (taskResourceItems pg)"
    by (simp add: image_mset.compositionality o_def)
  then have "mset (concat (map (\<lambda>n. map snd (placed_resources n)) nodes)) = mset (taskResourceItems pg)"
    by (simp add: image_sum_list entries_placed o_def mset_concat)
  then have "image_mset resource_of (mset (concat (map (\<lambda>n. map snd (placed_resources n)) nodes))) = image_mset resource_of (mset (taskResourceItems pg))"
    by (rule arg_cong)
  then show ?thesis by (simp add: file_buttons taskResourceItems_def map_concat o_def flip: mset_map)
qed


section \<open>The side bar\<close>

datatype doc_button =
    GroupButton jsstring jsstring bool jsstring
  | DocButton icon_kind jsstring jsstring bool selected_resource

datatype side_part =
    SideHint jsstring
  | SideError jsstring
  | SideLoading
  | AddFileButton bool
  | NoFiles
  | TreeButtons "tree_button list"
  | DocsToggle bool
  | NoDocs
  | DocButtons "doc_button list"

definition doc_group_buttons :: "selected_resource option \<Rightarrow> jsstring list \<Rightarrow> doc_group \<Rightarrow> doc_button list" where
  "doc_group_buttons selected collapsed docGroup =
     GroupButton (dg_label docGroup) ([0x5207, 0x6362] @ js '' Agent '' @ [0x5206, 0x7EC4] @ js '' '' @ dg_label docGroup) (dg_id docGroup \<notin> set collapsed) (dg_id docGroup) #
     (if dg_id docGroup \<in> set collapsed then []
      else map (\<lambda>doc. DocButton (rk_icon doc) (rk_title doc) (rk_aria_label doc)
                         (selected = Some \<lparr>se_kind = AgentDocResource, se_id = rk_id doc\<rparr>)
                         \<lparr>se_kind = AgentDocResource, se_id = rk_id doc\<rparr>) (dg_docs docGroup))"

text \<open>None where building the tree throws.\<close>

definition InstanceFilesSidebar :: "(jsstring \<Rightarrow> jsstring \<Rightarrow> bool) \<Rightarrow> files_page \<Rightarrow> side_part list option" where
  "InstanceFilesSidebar le pg =
     map_option (\<lambda>pathTree.
       let failure = nullish (fp_load_error pg) []; idle = (failure = [] \<and> \<not> fp_loading pg); groups = agentDocGroups le pg in
       (if nullish (fp_hint pg) [] \<noteq> [] then [SideHint (nullish (fp_hint pg) [])] else []) @
       (if failure \<noteq> [] then [SideError failure] else []) @
       (if failure = [] \<and> fp_loading pg then [SideLoading] else []) @
       [AddFileButton (isActionBusy pg \<or> fp_editing pg)] @
       (if idle \<and> taskResourceItems pg = [] then [NoFiles] else []) @
       [TreeButtons (FileTree_buttons (fp_selected pg) (fp_folders pg) pathTree), DocsToggle (\<not> fp_docs_collapsed pg)] @
       (if fp_docs_collapsed pg then []
        else (if idle \<and> groups = [] then [NoDocs] else []) @
             [DocButtons (concat (map (doc_group_buttons (fp_selected pg) (fp_groups pg)) groups))]))
       (buildPathTree le (taskResourceItems pg))"

section \<open>The preview panel\<close>

definition safePrettyJson :: "(jsstring \<Rightarrow> json option) \<Rightarrow> (json \<Rightarrow> jsstring) \<Rightarrow> jsstring option \<Rightarrow> jsstring" where
  "safePrettyJson parse indent v =
     (case v of None \<Rightarrow> []
      | Some text \<Rightarrow> if text = [] then [] else case parse text of None \<Rightarrow> text | Some parsed \<Rightarrow> indent parsed)"

definition isPreviewShellLoading :: "files_page \<Rightarrow> bool" where
  "isPreviewShellLoading pg \<longleftrightarrow>
     nullish (fp_load_error pg) [] = [] \<and> fp_loading pg \<and> fp_selected pg = None \<and> selectedTaskFile pg = None \<and> selectedAgentDoc pg = None"

datatype panel_action = EditButton bool | CancelButton bool | SaveButton jsstring bool | DeleteButton jsstring bool | DownloadLink "api_failure + jsstring"

definition panel_actions :: "api_host \<Rightarrow> files_page \<Rightarrow> panel_action list" where
  "panel_actions h pg =
     [EditButton (\<not> canStartEdit pg)] @
     (if fp_editing pg
      then [CancelButton (fp_saving pg), SaveButton (if fp_saving pg then [0x4FDD, 0x5B58, 0x4E2D] @ js ''...'' else [0x4FDD, 0x5B58]) (fp_saving pg)] else []) @
     [DeleteButton (if fp_deleting pg then [0x5220, 0x9664, 0x4E2D] @ js ''...'' else [0x5220, 0x9664]) (\<not> canDeleteTask pg), DownloadLink (resource_url h True pg)]"

datatype panel_part =
    ShellLoading
  | ChooseFile
  | PreviewLoading
  | PreviewError jsstring
  | FileEditor jsstring bool
  | PrettyJson jsstring
  | MarkdownPreview jsstring
  | ImageView "api_failure + jsstring"
  | BinaryHint
  | MissingFile

definition preview_body ::
  "(jsstring \<Rightarrow> json option) \<Rightarrow> (json \<Rightarrow> jsstring) \<Rightarrow> api_host \<Rightarrow> files_page \<Rightarrow> panel_part" where
  "preview_body parse indent h pg =
     (let preview = members (fp_preview pg); content = as_string (field preview ''content'') in
      if field preview ''kind'' = JStr (js ''json'') then PrettyJson (safePrettyJson parse indent content)
      else if field preview ''kind'' = JStr (js ''text'') then MarkdownPreview (nullish content [])
      else if starts_with (nullish (as_string (field preview ''mime_type'')) []) (js ''image/'') then ImageView (resource_url h False pg)
      else BinaryHint)"

definition panel_parts ::
  "(jsstring \<Rightarrow> json option) \<Rightarrow> (json \<Rightarrow> jsstring) \<Rightarrow> api_host \<Rightarrow> files_page \<Rightarrow> panel_part list" where
  "panel_parts parse indent h pg =
     (let failure = nullish (fp_preview_error pg) [];
          quiet = (\<not> fp_editing pg \<and> \<not> fp_preview_loading pg \<and> failure = []) in
      (if isPreviewShellLoading pg then [ShellLoading] else []) @
      (if \<not> isPreviewShellLoading pg \<and> (fp_selected pg = None \<or> selectedTaskFile pg = None \<and> selectedAgentDoc pg = None)
       then [ChooseFile] else []) @
      (if fp_preview_loading pg then [PreviewLoading] else []) @
      (if failure \<noteq> [] then [PreviewError failure] else []) @
      (if selectedTaskFile pg \<noteq> None \<and> fp_editing pg then [FileEditor (fp_editor pg) (isAgentDocReadonly pg)] else []) @
      (if quiet \<and> fp_preview pg \<noteq> JNull then [preview_body parse indent h pg] else []) @
      (if quiet \<and> fp_preview pg = JNull \<and> (case selectedTaskFile pg of None \<Rightarrow> False | Some f \<Rightarrow> \<not> if_exists f)
       then [MissingFile] else []))"

text \<open>The title, the badge, and the state of the file.\<close>

definition panel_title :: "files_page \<Rightarrow> jsstring \<times> jsstring" where
  "panel_title pg =
     (case (selectedTaskFile pg, selectedAgentDoc pg) of
        (Some f, _) \<Rightarrow> (if_name f, [0x6D41, 0x7A0B, 0x4EA7, 0x7269])
      | (None, Some doc) \<Rightarrow> (ad_name doc, js ''Agent '' @ [0x6587, 0x6863])
      | (None, None) \<Rightarrow> (js ''-'', if isPreviewShellLoading pg then [0x52A0, 0x8F7D, 0x4E2D] else [0x672A, 0x9009, 0x62E9]))"

definition panel_state :: "files_page \<Rightarrow> jsstring" where
  "panel_state pg =
     (if nullish (nullish_opt (map_option if_exists (selectedTaskFile pg)) (map_option ad_exists (selectedAgentDoc pg))) False
      then [0x53EF, 0x8BBF, 0x95EE] else [0x7F3A, 0x5931])"

text \<open>What \<open>safePrettyJson\<close> shows of a text it cannot read is the text.\<close>

definition create_disabled :: "files_page \<Rightarrow> bool" where
  "create_disabled pg \<longleftrightarrow> fp_creating pg \<or> fp_target pg = []"

text \<open>The two kinds of selection exclude each other.\<close>

lemma one_selection: "selectedTaskFile pg = None \<or> selectedAgentDoc pg = None"
  by (auto simp: selectedTaskFile_def selectedAgentDoc_def split: option.splits if_splits)

text \<open>The editor is shown alone and can be typed in; no preview stands beside it.\<close>

theorem editor_is_writable:
  "FileEditor content readonly \<in> set (panel_parts parse indent h pg) \<longleftrightarrow>
     fp_editing pg \<and> selectedTaskFile pg \<noteq> None \<and> content = fp_editor pg \<and> readonly = False"
proof -
  have "\<not> isAgentDocReadonly pg" if "selectedTaskFile pg \<noteq> None"
    using that by (auto simp: selectedTaskFile_def isAgentDocReadonly_def split: option.splits if_splits)
  then show ?thesis
    by (auto simp: panel_parts_def Let_def preview_body_def split: if_splits)
qed

lemma editing_hides_preview:
  "fp_editing pg \<Longrightarrow> preview_body parse indent h pg \<notin> set (panel_parts parse indent h pg)"
  by (auto simp: panel_parts_def Let_def preview_body_def split: if_splits)

text \<open>A button that is not disabled acts: editing begins.\<close>

lemma edit_button_acts:
  "EditButton False \<in> set (panel_actions h pg) \<longleftrightarrow> canStartEdit pg"
  "DeleteButton label False \<in> set (panel_actions h pg) \<Longrightarrow> canDeleteTask pg \<and> fp_editing pg = False"
  by (auto simp: panel_actions_def canDeleteTask_def split: if_splits)


end
