(* ===== verification/Spec2Isabelle.thy ===== *)
theory Spec2Isabelle imports FlowSubmit FlowEdits PlannerRuntime PlannerStream DraftSyncRuns PageDrafts CanvasEdits CollabRuns BoardView ApiRoutes FilesPage AutoSync TaskDetail PageShell AccountUsage StreamAddresses FilesView begin

text \<open>
  A model of the task-flow part of the linpo frontend (TypeScript, under \<open>src/frontend/src\<close>).

  The program. A user draws a flow, a graph of task nodes that are placed on lanes (one lane per agent)
  and depend on each other, or lets a planner agent draw it. The planner works on the server; its
  progress arrives as server-sent events that carry messages, patches of nodes, whole snapshots and the
  status of the session. The page keeps a queue of patches that it draws one at a time, a filter that
  ignores old events and notices lost ones, and a cache of chats. A finished flow is checked,
  layered and sent to the server as JSON. Flows that run are rebuilt from the tasks of the board. What
  the user draws is saved as a draft, in a store of the page and, one upload per flow at a time, on the
  server; coming back to a flow shows its draft or its tasks, by rules. A second page, the collaboration board, shows
  the tasks of all flows in columns, acts on them, and follows the chat of the task that is open. A third page shows the files of the
  instance as a folder tree and edits them. All pages reach the server through two HTTP clients.

  The parts and their theories.

  \<^item> \<open>JsPrelude\<close>: what the code uses of JavaScript: strings as lists of 16-bit units with \<open>trim\<close>,
    \<open>split\<close>, \<open>join\<close> and prefix tests; numbers as rationals with the infinities and NaN; \<open>Map\<close>, \<open>Set\<close> and
    objects as association lists that keep the order of insertion; stable sorting.
  \<^item> \<open>Kahn\<close>: the queue-driven layering that two functions of the code share, with its invariant and the
    theorem that it visits every node exactly when the graph has no cycle and then gives each the length
    of the longest path that ends in it.
  \<^item> \<open>FlowTypes\<close>: the interfaces of \<open>api/types.ts\<close> and the records of \<open>components/flowPageStateUtils.ts\<close>.
  \<^item> \<open>FlowState\<close>: \<open>components/flowPageStateUtils.ts\<close>: layers, reading tasks, lanes, executors.
  \<^item> \<open>FlowGraph\<close>: \<open>components/flowPageGraphUtils.ts\<close>: tasks to a flow, cleaning, edges, planner operations,
    reconciling a planner draft with the canvas, and the checks before a flow is submitted.
    \<open>FlowSubmit\<close> holds the theorems on submission, \<open>FlowEdits\<close> those on editing.
  \<^item> \<open>PlannerEvents\<close>: \<open>components/flowPlannerRealtimeEventUtils.ts\<close>: events, intents, transitions.
  \<^item> \<open>PlannerMessages\<close>: \<open>components/flowPlannerMessageUtils.ts\<close> and \<open>flowPlannerMessageCache.ts\<close>.
  \<^item> \<open>PlannerQueue\<close>: \<open>hooks/usePlannerOperationQueue.ts\<close> and the step timer it is given.
  \<^item> \<open>PlannerRuntime\<close>: \<open>hooks/useFlowPlannerQueuePath.ts\<close>, \<open>hooks/useFlowPlannerRuntime.ts\<close>, the finish timer of
    \<open>hooks/usePlannerRuntimeTimers.ts\<close>, and from
    \<open>components/flow-page/hooks/useFlowPlannerRuntimeBridge.ts\<close> the update of the chat, the switch of
    sessions and the reset.
  \<^item> \<open>DraftStore\<close>: \<open>components/flowDraftStore.ts\<close>: the drafts of the page.
  \<^item> \<open>FlowAgents\<close>: \<open>components/flowAgentScopeUtils.ts\<close>, \<open>flowPlannerExecutorUtils.ts\<close>,
    \<open>flowPlannerViewUtils.ts\<close> and \<open>flowSidebarOrderStore.ts\<close>.
  \<^item> \<open>DraftSync\<close>: \<open>components/flow-page/hooks/useFlowDraftSyncQueue.ts\<close>, and \<open>DraftSyncRuns\<close> its runs.
  \<^item> \<open>PlanGeneration\<close>: \<open>components/flowPlanGenerationUtils.ts\<close>.
  \<^item> \<open>RouteHydration\<close>: \<open>components/flowRouteHydrationUtils.ts\<close>: what to show for a route.
  \<^item> \<open>PageState\<close>: the state of \<open>components/flow-page/FlowPageContainer.tsx\<close> as a record that extends the
    runtime of the planner, its derived values and effects, and the rest of
    \<open>useFlowPlannerRuntimeBridge.ts\<close>.
  \<^item> \<open>PlannerActions\<close>: \<open>components/flow-page/hooks/useFlowPlannerActions.ts\<close>: asking for a plan, stopping,
    confirming, renaming, each cut at its awaits.
  \<^item> \<open>PageHydration\<close>: \<open>components/flow-page/hooks/useFlowDraftHydrationRuntime.ts\<close> and
    \<open>hooks/useFlowRouteHydrationApply.ts\<close>: applying drafts and flows of the board, the route effect, the
    autosave, the side bar, creating and deleting. \<open>PageDrafts\<close> holds the theorems on the page over time.
  \<^item> \<open>CanvasGeometry\<close>: \<open>components/flowCanvasGeometryUtils.ts\<close> and the layout of lanes, nodes and edges in
    \<open>components/flow-page/hooks/useFlowCanvasInteraction.ts\<close>. \<open>CanvasEditing\<close>: the handlers of that hook: dialogs,
    deleting, connecting, dragging, the selection. \<open>CanvasEdits\<close> holds the theorems on them.
  \<^item> \<open>TaskFlowContract\<close>: \<open>api/taskFlowContract.ts\<close>: the encoders and decoders of all requests and answers.
  \<^item> \<open>RealtimeMessages\<close>: the parsers of \<open>api/realtimeClient.ts\<close> and \<open>api/types.ts\<close>.
  \<^item> \<open>RealtimeClient\<close>: the WebSocket client of \<open>api/realtimeClient.ts\<close>; \<open>StreamAddresses\<close>: the addresses its
    clients open.
  \<^item> \<open>PlannerStream\<close>: its server-sent-event clients, and \<open>hooks/useFlowPlannerRealtime.ts\<close>.
  \<^item> \<open>BoardColumns\<close>: \<open>components/collabKanbanColumnsUtils.ts\<close>, \<open>components/collab-page/utils.ts\<close> and
    \<open>components/collabTaskPreviewUtils.ts\<close>: the columns of the board, running a flow again, merging a chat.
  \<^item> \<open>CollabLinks\<close>: the realtime connections of the board and of the flow page to it:
    \<open>components/collab-page/useBoardTasksRealtime.ts\<close> and \<open>hooks/useBoardTasksRealtime.ts\<close>.
  \<^item> \<open>CollabBoard\<close>: \<open>components/CollabPage.tsx\<close> with the effect of \<open>hooks/useCollabTaskSessionRuntime.ts\<close>.
    \<open>CollabEffects\<close> holds the theorems on one step of it, \<open>CollabRuns\<close> those on its runs. \<open>BoardView\<close>: what
    \<open>components/collab-page/CollabBoardContent.tsx\<close>, \<open>CollabMobileBoardMenu.tsx\<close> and the dialogs of the page show of its state.
  \<^item> \<open>UrlEncoding\<close>: \<open>api/apiBaseUrl.ts\<close>, with \<open>encodeURIComponent\<close>, the serialiser of
    \<open>URLSearchParams\<close> and percent decoding; \<open>QueryStrings\<close>: reading such a query back.
  \<^item> \<open>ApiClient\<close>: \<open>api/client.ts\<close>, and \<open>InstanceClient\<close>: \<open>api/instanceClient.ts\<close>: every call as a value that
    holds its request and what is made of the answer. \<open>ApiRoutes\<close> holds the theorems on them.
  \<^item> \<open>AutoSync\<close>: \<open>hooks/useBlockedFlowAutoSync.ts\<close>: sending the edits of a submitted flow.
  \<^item> \<open>FileTree\<close>: \<open>components/instance-files-page/utils.ts\<close>: paths, sizes, icons and the folder tree.
    \<open>FilesPage\<close>: \<open>components/InstanceFilesPage.tsx\<close> and \<open>components/instance-files-page/useSidebarResize.ts\<close>.
    \<open>FilesView\<close>: what \<open>FileTree.tsx\<close>, \<open>Sidebar.tsx\<close> and \<open>PreviewPanel.tsx\<close> show of its state.
  \<^item> \<open>SessionMessages\<close>: \<open>components/collabSessionMessageUtils.ts\<close>: reading the text of a message, and
    \<open>TaskDetail\<close>: \<open>components/collabTaskDetailModal.tsx\<close> and \<open>collabOutputPreview.tsx\<close>: what the detail view of a
    task shows of the state of \<open>CollabBoard\<close>.
  \<^item> \<open>PageShell\<close>: the link to the last flow of \<open>components/Layout.tsx\<close>, \<open>hooks/useToast.ts\<close>, \<open>hooks/useDraggableFab.ts\<close>,
    and \<open>useFlowPlannerOverlayEffects.ts\<close> and \<open>useFlowSidebarUiActions.ts\<close> of \<open>components/flow-page/hooks\<close>.
  \<^item> \<open>AccountUsage\<close>: \<open>components/AccountMenu.tsx\<close>: the instance, its token usage and the curve of the last week.

  How state is modelled. The refs and closures of a hook are the fields of a record; a handler is a
  function from state to state; the callbacks of the browser (timers, sockets, event sources) are steps
  of an inductive relation, so a property of all runs speaks of every interleaving. A value that the code
  compares by identity is handled as it says at the place: for a merge of messages the identity of the
  result with the argument is the value None. A React setter takes effect at once, where React batches the
  setters of one handler: the handlers modelled never read what they have just set, or the model reads
  the old value as they do. An asynchronous handler is several functions: what it does at once, with the
  record of the request it sends, and what each outcome does to the page as it is by then.

  The interfaces. \<open>PlannerRuntime\<close> uses the queue only through the four operations its options name; they
  are a record of functions. The locales \<open>planner_queue_ops\<close> and \<open>planner_queue_safe\<close> state what the
  runtime relies on (each operation keeps other sessions' work, clearing a session leaves it without
  work, the invariant is kept) and are interpreted by the queue of \<open>PlannerQueue\<close>. The locale \<open>draft_map\<close>
  states what the page relies on of the store of drafts (what a lookup returns after an insert and after a
  removal) and is interpreted by \<open>DraftStore\<close>. The locale \<open>reconnecting\<close> states what a reconnecting effect promises
  and is interpreted by both connections of \<open>CollabLinks\<close>.

  What is assumed. Parameters stand for \<open>JSON.parse\<close>, \<open>Date.parse\<close>, the comparison of
  \<open>localeCompare\<close>, \<open>toLowerCase\<close> and \<open>String\<close> of a number, what the page draws and reads back, and the clock; for the HTTP clients
  also \<open>Number\<close> of a string, and \<open>new URL(path, ...)\<close> with \<open>searchParams.set\<close>; for what is shown also \<open>JSON.stringify\<close>, the number
  format of the locale, the reading of a date that is not ISO, and the size of the window at each event. The
  addresses of the streams take the scheme and host of the base from a parameter. The
  theorems that need a law of one of them name it: \<open>epoch_parses\<close> says that \<open>Date.parse\<close> reads the epoch
  timestamp, \<open>keeps_path\<close> that \<open>new URL\<close> leaves the path of an address alone whose segments are percent
  encoded and not \<open>.\<close> or \<open>..\<close>, and the runs of \<open>DraftSyncRuns\<close> take it that the server answers an upload with a draft of the
  same id. Strings and objects are taken to have no getters or
  proxies, and keys that JavaScript would enumerate out of order (integer-like keys) are taken not to
  occur, so that an object lists its keys in the order of insertion.

  What the lemmas show. Submission: a flow that passes the checks is executable (its graph has no cycle,
  every dependency is a node of an earlier layer, every node has an agent), and every error is
  reported for its reason. Layers are longest paths. Editing by hand: whatever a user does with the canvas keeps it in
  order, and changes the graph of dependencies as its name says. Planner edits: a batch of planner operations acts as updates of a
  finite map; cleaning is idempotent. The planner: the queue never gets stuck and drains in order,
  sessions do not disturb each other, an event delivered twice counts once, revisions never go back, and
  a lost event heals by resynchronisation. The wire: a saved draft comes back unchanged. The clients:
  every source is closed but the current one, and the stream is connected or about to reconnect. The board: every task is in
  one column, its messages refine a map, its effects settle, nothing stays marked as busy once the server has answered, a
  late preview is dropped, the chat connection is that of the open task and those before it are shut, and every task has its card. The HTTP clients: a call reaches the endpoint of its
  operation and the identifiers it names, whatever they hold but a lone \<open>.\<close> or \<open>..\<close>, no two operations share an endpoint, a query reads back as it was
  written, and a call succeeds only on a success of the server. Synchronisation: one request at a time, the waiting edit next, and
  only a change of content is sent. The files: the tree shows every file once and where it is kept, no two folders share an
  identifier, the selection is always listed, and a file has its button unless a folder around it is collapsed. What is shown: the tree
  of a JSON output has every leaf, the curve of the usage stays in its box, a structured message is folded and labelled, the floating
  button follows the pointer and stays in the window, the overlay closes only by the user and while no answer is awaited. Some
  theorems state behaviour that is surely not meant (a socket leaks, a snapshot undoes a newer patch, a
  removed draft comes back, a chat is wiped, a late history is shown for another task, a new file empties an existing one, a
  saved text is written to another file, an edit taken back is sent): they are marked as such at their place.

  Loops. All loops are structural recursions but the layering of \<open>Kahn\<close>, a \<open>function\<close> whose measure is the
  length of the queue plus the number of nodes of positive degree; no loop needs fuel.

  Not modelled: layout, styles and the remaining components that only arrange what they are given, Markdown, the table of routes
  (of the router, a package), and the Python server. Numbers are rationals, so the rounding of doubles is left out; where a sum can
  leave their range (the tokens of \<open>AccountUsage\<close>) the overflow is written out. An
  object of an answer that has a member called \<open>toString\<close> or \<open>valueOf\<close>, on which \<open>String\<close> throws, is taken not to occur.
\<close>

end
